(* ===== verification/Prelude.thy ===== *)
theory Prelude
  imports Main "HOL-Library.Word"
begin

text \<open>
  Shared material of the development: Go's machine integers and byte strings, the outcome of a
  Go call (a value, an error or a panic), the state-and-count monad in which the XDR encoder and
  decoder are written (Go's \<open>(value, n, err)\<close> returns over an \<open>io.Writer\<close> or \<open>io.Reader\<close>),
  decimal printing, and the generic facts on bytes, words and lists that the components share.
\<close>

unbundle bit_operations_syntax

named_theorems io_simps \<open>evaluation of the counting monad\<close>
named_theorems byte_simps \<open>big-endian byte conversions\<close>

section \<open>Machine integers and strings\<close>

type_synonym byte = "8 word"
type_synonym u32 = "32 word"
type_synonym i32 = "32 word"
type_synonym u64 = "64 word"
type_synonym i64 = "64 word"

text \<open>
  A Go string is a sequence of bytes; the model uses HOL's \<open>string\<close>, whose characters are the
  256 byte values. The conversions \<open>[]byte(s)\<close> and \<open>string(b)\<close> copy the bytes.
\<close>

definition byte_of_char :: "char \<Rightarrow> byte" where
  "byte_of_char c = word_of_nat (of_char c)"

definition char_of_byte :: "byte \<Rightarrow> char" where
  "char_of_byte b = char_of (unat b)"

definition bytes_of_string :: "string \<Rightarrow> byte list" where
  "bytes_of_string s = List.map byte_of_char s"

definition string_of_bytes :: "byte list \<Rightarrow> string" where
  "string_of_bytes bs = List.map char_of_byte bs"

lemma char_of_byte_of_char [simp]: "char_of_byte (byte_of_char c) = c"
proof -
  have "(of_char c :: nat) < 256" by (rule nat_of_char_less_256)
  then have "unat (word_of_nat (of_char c) :: byte) = of_char c"
    by (simp add: unat_of_nat)
  then show ?thesis by (simp add: char_of_byte_def byte_of_char_def)
qed

lemma unat_byte_less: "unat (b :: byte) < 256"
proof -
  have "unat b < 2 ^ LENGTH(8)" by (rule unsigned_less)
  then show ?thesis by simp
qed

lemma byte_of_char_of_byte [simp]: "byte_of_char (char_of_byte b) = b"
proof -
  have "unat b < 256" by (rule unat_byte_less)
  then show ?thesis by (simp add: char_of_byte_def byte_of_char_def)
qed

lemma string_of_bytes_of_string [simp]: "string_of_bytes (bytes_of_string s) = s"
  by (simp add: string_of_bytes_def bytes_of_string_def comp_def)

lemma bytes_of_string_of_bytes [simp]: "bytes_of_string (string_of_bytes bs) = bs"
  by (simp add: string_of_bytes_def bytes_of_string_def comp_def)

lemma length_bytes_of_string [simp]: "length (bytes_of_string s) = length s"
  by (simp add: bytes_of_string_def)

lemma length_string_of_bytes [simp]: "length (string_of_bytes bs) = length bs"
  by (simp add: string_of_bytes_def)

text \<open>\<open>math.MaxInt32\<close>.\<close>

abbreviation MaxInt32 :: nat where
  "MaxInt32 \<equiv> 2147483647"

section \<open>Big-endian words\<close>

text \<open>The four (eight) stores \<open>b[0] = byte(v >> 24)\<close>, \<open>b[1] = byte(v >> 16)\<close>, and so on.\<close>

definition be32 :: "u32 \<Rightarrow> byte list" where
  "be32 v = [ucast (drop_bit 24 v), ucast (drop_bit 16 v), ucast (drop_bit 8 v), ucast v]"

definition be64 :: "u64 \<Rightarrow> byte list" where
  "be64 v = [ucast (drop_bit 56 v), ucast (drop_bit 48 v), ucast (drop_bit 40 v),
             ucast (drop_bit 32 v), ucast (drop_bit 24 v), ucast (drop_bit 16 v),
             ucast (drop_bit 8 v), ucast v]"

text \<open>The matching loads \<open>uint32(buf[3]) | uint32(buf[2])<<8 | \<dots>\<close>.\<close>

fun from_be32 :: "byte list \<Rightarrow> u32" where
  "from_be32 [b0, b1, b2, b3] =
     ucast b3 OR push_bit 8 (ucast b2) OR push_bit 16 (ucast b1) OR push_bit 24 (ucast b0)"
| "from_be32 _ = 0"

fun from_be64 :: "byte list \<Rightarrow> u64" where
  "from_be64 [b0, b1, b2, b3, b4, b5, b6, b7] =
     ucast b7 OR push_bit 8 (ucast b6) OR push_bit 16 (ucast b5) OR push_bit 24 (ucast b4) OR
     push_bit 32 (ucast b3) OR push_bit 40 (ucast b2) OR push_bit 48 (ucast b1) OR
     push_bit 56 (ucast b0)"
| "from_be64 _ = 0"

lemma length_be32 [simp]: "length (be32 v) = 4"
  by (simp add: be32_def)

lemma length_be64 [simp]: "length (be64 v) = 8"
  by (simp add: be64_def)

lemma from_be32_be32 [simp]: "from_be32 (be32 v) = v"
proof (rule bit_word_eqI)
  fix n assume "n < LENGTH(32)"
  then consider "n < 8" | "8 \<le> n" "n < 16" | "16 \<le> n" "n < 24" | "24 \<le> n" "n < 32"
    by fastforce
  then show "bit (from_be32 (be32 v)) n = bit v n"
    by cases (simp_all add: be32_def bit_simps less_diff_conv2)
qed

lemma from_be64_be64 [simp]: "from_be64 (be64 v) = v"
proof (rule bit_word_eqI)
  fix n assume "n < LENGTH(64)"
  then consider "n < 8" | "8 \<le> n" "n < 16" | "16 \<le> n" "n < 24" | "24 \<le> n" "n < 32"
    | "32 \<le> n" "n < 40" | "40 \<le> n" "n < 48" | "48 \<le> n" "n < 56" | "56 \<le> n" "n < 64"
    by fastforce
  then show "bit (from_be64 (be64 v)) n = bit v n"
    by cases (simp_all add: be64_def bit_simps less_diff_conv2)
qed

lemma list4E:
  assumes "length bs = 4"
  obtains b0 b1 b2 b3 where "bs = [b0, b1, b2, b3]"
  using assms by (auto simp: numeral_eq_Suc length_Suc_conv)

lemma list8E:
  assumes "length bs = 8"
  obtains b0 b1 b2 b3 b4 b5 b6 b7 where "bs = [b0, b1, b2, b3, b4, b5, b6, b7]"
  using assms by (auto simp: numeral_eq_Suc length_Suc_conv)

lemma byte_bit_beyond [simp]: "8 \<le> m \<Longrightarrow> \<not> bit (b :: byte) (m + n)"
  by (auto dest: bit_imp_le_length)

lemma be32_from_be32:
  assumes "length bs = 4"
  shows "be32 (from_be32 bs) = bs"
proof -
  obtain b0 b1 b2 b3 where "bs = [b0, b1, b2, b3]" using assms by (rule list4E)
  then show ?thesis
    by (auto simp add: be32_def bit_simps intro!: bit_word_eqI)
qed

lemma unat_u32: "n < 2 ^ 32 \<Longrightarrow> unat (word_of_nat n :: u32) = n"
  by (simp add: unat_of_nat)

section \<open>Outcomes of Go calls\<close>

text \<open>
  A call either returns normally, returns a non-nil \<open>error\<close>, or panics. The error type is a
  parameter here; the errors of the repository are in theory \<open>Go_Errors\<close>.
\<close>

datatype ('e, 'a) res = Ok 'a | Err 'e | Panic

definition res_bind :: "('e, 'a) res \<Rightarrow> ('a \<Rightarrow> ('e, 'b) res) \<Rightarrow> ('e, 'b) res" where
  "res_bind r f = (case r of Ok a \<Rightarrow> f a | Err e \<Rightarrow> Err e | Panic \<Rightarrow> Panic)"

lemma res_bind_simps [simp]:
  "res_bind (Ok a) f = f a" "res_bind (Err e) f = Err e" "res_bind Panic f = Panic"
  by (simp_all add: res_bind_def)

section \<open>The counting monad\<close>

text \<open>
  An XDR routine returns \<open>(value, n, err)\<close>: beside its result it reports the number of bytes it
  transferred, on the error paths too, and callers accumulate it with \<open>n += n2\<close>. The state is
  what the routine reads from (the unread input) or writes to (the writer).
\<close>

type_synonym ('s, 'e, 'a) io = "'s \<Rightarrow> nat \<times> ('e, 'a) res \<times> 's"

definition io_ret :: "'a \<Rightarrow> ('s, 'e, 'a) io" where
  "io_ret a = (\<lambda>s. (0, Ok a, s))"

definition io_err :: "'e \<Rightarrow> ('s, 'e, 'a) io" where
  "io_err e = (\<lambda>s. (0, Err e, s))"

definition io_panic :: "('s, 'e, 'a) io" where
  "io_panic = (\<lambda>s. (0, Panic, s))"

definition io_bind :: "('s, 'e, 'a) io \<Rightarrow> ('a \<Rightarrow> ('s, 'e, 'b) io) \<Rightarrow> ('s, 'e, 'b) io" where
  "io_bind m f = (\<lambda>s. case m s of
      (n, Ok a, s1) \<Rightarrow> (case f a s1 of (n2, r, s2) \<Rightarrow> (n + n2, r, s2))
    | (n, Err e, s1) \<Rightarrow> (n, Err e, s1)
    | (n, Panic, s1) \<Rightarrow> (n, Panic, s1))"

definition io_map :: "('a \<Rightarrow> 'b) \<Rightarrow> ('s, 'e, 'a) io \<Rightarrow> ('s, 'e, 'b) io" where
  "io_map g m = io_bind m (\<lambda>a. io_ret (g a))"

lemma io_bind_cong [fundef_cong]:
  "m = m' \<Longrightarrow> (\<And>a. f a = f' a) \<Longrightarrow> io_bind m f = io_bind m' f'"
  by (metis ext)

lemma io_map_cong [fundef_cong]: "m = m' \<Longrightarrow> io_map g m = io_map g m'"
  by simp

lemma io_ret_apply [io_simps]: "io_ret a s = (0, Ok a, s)"
  by (simp add: io_ret_def)

lemma io_err_apply [io_simps]: "io_err e s = (0, Err e, s)"
  by (simp add: io_err_def)

lemma io_panic_apply [io_simps]: "io_panic s = (0, Panic, s)"
  by (simp add: io_panic_def)

lemma io_bind_Ok [io_simps]:
  "m s = (n, Ok a, s1) \<Longrightarrow> io_bind m f s = (case f a s1 of (n2, r, s2) \<Rightarrow> (n + n2, r, s2))"
  by (simp add: io_bind_def)

lemma io_bind_Err [io_simps]: "m s = (n, Err e, s1) \<Longrightarrow> io_bind m f s = (n, Err e, s1)"
  by (simp add: io_bind_def)

lemma io_bind_Panic [io_simps]: "m s = (n, Panic, s1) \<Longrightarrow> io_bind m f s = (n, Panic, s1)"
  by (simp add: io_bind_def)

lemma io_map_Ok [io_simps]: "m s = (n, Ok a, s1) \<Longrightarrow> io_map g m s = (n, Ok (g a), s1)"
  by (simp add: io_map_def io_bind_Ok io_ret_apply)

text \<open>The laws of a monad.\<close>

lemma io_bind_assoc: "io_bind (io_bind m f) g = io_bind m (\<lambda>a. io_bind (f a) g)"
  by (rule ext) (auto simp: io_bind_def split: prod.splits res.splits)

lemma io_bind_ret_left [simp]: "io_bind (io_ret a) f = f a"
  by (rule ext) (simp add: io_bind_def io_ret_def)

lemma io_bind_ret_right [simp]: "io_bind m io_ret = m"
  by (rule ext) (auto simp: io_bind_def io_ret_def split: prod.splits res.splits)

text \<open>Inversion of a sequence: its second part ran exactly when the first returned a value.\<close>

lemma io_bind_OkE:
  assumes "io_bind m f s = (n, Ok b, s2)"
  obtains n1 a s1 n2 where "m s = (n1, Ok a, s1)" "f a s1 = (n2, Ok b, s2)" "n = n1 + n2"
  using assms by (auto simp: io_bind_def split: prod.splits res.splits)

lemma io_map_OkE:
  assumes "io_map g m s = (n, Ok b, s1)"
  obtains a where "m s = (n, Ok a, s1)" "b = g a"
  using assms by (auto simp: io_map_def io_ret_apply elim!: io_bind_OkE)

text \<open>
  A predicate on runs (from a state, with a count, whether a value was returned, to a state) that
  every primitive of a routine satisfies and that composes is satisfied by the routine: the
  invariants on transferred bytes are proved this way.
\<close>

fun is_Ok :: "('e, 'a) res \<Rightarrow> bool" where
  "is_Ok (Ok a) = True"
| "is_Ok (Err e) = False"
| "is_Ok Panic = False"

definition io_all :: "('s \<Rightarrow> nat \<Rightarrow> bool \<Rightarrow> 's \<Rightarrow> bool) \<Rightarrow> ('s, 'e, 'a) io \<Rightarrow> bool" where
  "io_all P m \<longleftrightarrow> (\<forall>s n r s1. m s = (n, r, s1) \<longrightarrow> P s n (is_Ok r) s1)"

lemma io_allI: "(\<And>s n r s1. m s = (n, r, s1) \<Longrightarrow> P s n (is_Ok r) s1) \<Longrightarrow> io_all P m"
  by (simp add: io_all_def)

lemma io_allD: "io_all P m \<Longrightarrow> m s = (n, r, s1) \<Longrightarrow> P s n (is_Ok r) s1"
  by (simp add: io_all_def)

fun res_post :: "('a \<Rightarrow> bool) \<Rightarrow> ('e, 'a) res \<Rightarrow> bool" where
  "res_post Q (Ok a) = Q a"
| "res_post Q (Err e) = True"
| "res_post Q Panic = False"

definition io_post :: "('a \<Rightarrow> bool) \<Rightarrow> ('s, 'e, 'a) io \<Rightarrow> bool" where
  "io_post Q m \<longleftrightarrow> (\<forall>s. res_post Q (fst (snd (m s))))"

lemma io_post_OkD: "io_post Q m \<Longrightarrow> m s = (n, Ok a, s1) \<Longrightarrow> Q a"
  unfolding io_post_def by (metis fst_conv snd_conv res_post.simps(1))

lemma io_post_PanicD: "io_post Q m \<Longrightarrow> m s = (n, Panic, s1) \<Longrightarrow> False"
  unfolding io_post_def by (metis fst_conv snd_conv res_post.simps(3))

lemma io_post_ret [intro]: "Q a \<Longrightarrow> io_post Q (io_ret a)"
  by (simp add: io_post_def io_ret_apply)

lemma io_post_err [intro]: "io_post Q (io_err e)"
  by (simp add: io_post_def io_err_apply)

lemma io_post_bind:
  assumes m: "io_post R m" and f: "\<And>a. R a \<Longrightarrow> io_post Q (f a)"
  shows "io_post Q (io_bind m f)"
  unfolding io_post_def
proof
  fix s
  obtain n r s' where ms: "m s = (n, r, s')" by (metis prod_cases3)
  with m have post: "res_post R r" unfolding io_post_def by (metis fst_conv snd_conv)
  show "res_post Q (fst (snd (io_bind m f s)))"
  proof (cases r)
    case (Ok a)
    with post f have "res_post Q (fst (snd (f a s')))" by (simp add: io_post_def)
    with ms Ok show ?thesis by (cases "f a s'") (simp add: io_bind_def)
  qed (use ms post in \<open>simp_all add: io_bind_def\<close>)
qed

lemma io_post_map: "io_post (\<lambda>a. Q (g a)) m \<Longrightarrow> io_post Q (io_map g m)"
  unfolding io_map_def by (erule io_post_bind) (rule io_post_ret)

lemma io_post_weaken:
  assumes "io_post R m" and "\<And>a. R a \<Longrightarrow> Q a"
  shows "io_post Q m"
  unfolding io_post_def
proof
  fix s
  have "res_post R (fst (snd (m s)))" using assms(1) by (simp add: io_post_def)
  then show "res_post Q (fst (snd (m s)))"
    by (cases "fst (snd (m s))") (auto simp: assms(2))
qed

text \<open>A predicate on runs that holds of an empty run and adds up along sequences.\<close>

locale io_additive =
  fixes P :: "'s \<Rightarrow> nat \<Rightarrow> bool \<Rightarrow> 's \<Rightarrow> bool"
  assumes P_refl: "P s 0 ok s"
    and P_trans: "P s n True s1 \<Longrightarrow> P s1 n2 ok s2 \<Longrightarrow> P s (n + n2) ok s2"
begin

lemma all_ret: "io_all P (io_ret a)"
  by (simp add: io_all_def io_ret_apply P_refl)

lemma all_err: "io_all P (io_err e)"
  by (simp add: io_all_def io_err_apply P_refl)

lemma all_panic: "io_all P io_panic"
  by (simp add: io_all_def io_panic_apply P_refl)

lemma all_bind:
  assumes m: "io_all P m" and f: "\<And>a. io_all P (f a)"
  shows "io_all P (io_bind m f)"
proof (rule io_allI)
  fix s n r s1 assume run: "io_bind m f s = (n, r, s1)"
  obtain n' r' s' where ms: "m s = (n', r', s')" by (metis prod_cases3)
  note P = io_allD [OF m ms]
  show "P s n (is_Ok r) s1"
  proof (cases r')
    case (Ok a)
    obtain n2 r2 s2 where fa: "f a s' = (n2, r2, s2)" by (metis prod_cases3)
    with run ms Ok have "n = n' + n2" "r = r2" "s1 = s2" by (simp_all add: io_bind_def)
    with P_trans [OF _ io_allD [OF f fa]] P Ok show ?thesis by simp
  qed (use run ms P in \<open>auto simp: io_bind_def\<close>)
qed

lemma all_map: "io_all P m \<Longrightarrow> io_all P (io_map g m)"
  unfolding io_map_def by (erule all_bind) (rule all_ret)

lemmas all_intros = all_ret all_err all_panic all_bind all_map

end

text \<open>
  A computation over an input list is local when a successful run would have gone the same way
  with more input behind what it consumed.
\<close>

definition io_local :: "('x list, 'e, 'a) io \<Rightarrow> bool" where
  "io_local m \<longleftrightarrow>
     (\<forall>s n a s1 more. m s = (n, Ok a, s1) \<longrightarrow> m (s @ more) = (n, Ok a, s1 @ more))"

lemma io_localD: "io_local m \<Longrightarrow> m s = (n, Ok a, s1) \<Longrightarrow> m (s @ more) = (n, Ok a, s1 @ more)"
  by (simp add: io_local_def)

lemma io_local_ret: "io_local (io_ret a)"
  by (simp add: io_local_def io_ret_apply)

lemma io_local_err: "io_local (io_err e)"
  by (simp add: io_local_def io_err_apply)

lemma io_local_panic: "io_local io_panic"
  by (simp add: io_local_def io_panic_apply)

lemma io_local_bind:
  assumes "io_local m" and "\<And>a. io_local (f a)"
  shows "io_local (io_bind m f)"
  unfolding io_local_def
proof (intro allI impI)
  fix s n b s2 more assume "io_bind m f s = (n, Ok b, s2)"
  then obtain n1 a s1 n2 where "m s = (n1, Ok a, s1)" "f a s1 = (n2, Ok b, s2)" "n = n1 + n2"
    by (rule io_bind_OkE)
  with io_localD [OF assms(1)] io_localD [OF assms(2)]
  show "io_bind m f (s @ more) = (n, Ok b, s2 @ more)" by (simp add: io_bind_def)
qed

lemma io_local_map: "io_local m \<Longrightarrow> io_local (io_map g m)"
  unfolding io_map_def by (erule io_local_bind) (rule io_local_ret)

lemmas io_local_intros = io_local_ret io_local_err io_local_panic io_local_bind io_local_map

section \<open>Decimal printing\<close>

text \<open>The decimal digits of \<open>fmt\<close>'s verb \<open>%d\<close>.\<close>

definition digit_char :: "nat \<Rightarrow> char" where
  "digit_char d = char_of (48 + d)"

fun show_nat :: "nat \<Rightarrow> string" where
  "show_nat n = (if n < 10 then [digit_char n] else show_nat (n div 10) @ [digit_char (n mod 10)])"

declare show_nat.simps [simp del]

definition show_int :: "int \<Rightarrow> string" where
  "show_int i = (if i < 0 then ''-'' @ show_nat (nat (- i)) else show_nat (nat i))"

fun read_digits :: "string \<Rightarrow> nat \<Rightarrow> nat" where
  "read_digits [] acc = acc"
| "read_digits (c # cs) acc = read_digits cs (10 * acc + (of_char c - 48))"

lemma read_digits_append: "read_digits (xs @ ys) acc = read_digits ys (read_digits xs acc)"
  by (induction xs arbitrary: acc) auto

lemma of_char_digit [simp]: "d < 10 \<Longrightarrow> of_char (digit_char d) = 48 + d"
  by (simp add: digit_char_def)

lemma read_show_nat: "read_digits (show_nat n) 0 = n"
proof (induction n rule: show_nat.induct)
  case (1 n)
  then show ?case
    by (subst show_nat.simps) (simp add: read_digits_append)
qed

lemma show_nat_inject: "show_nat m = show_nat n \<longleftrightarrow> m = n"
  by (metis read_show_nat)

lemma show_nat_nonempty [simp]: "show_nat n \<noteq> []"
  by (subst show_nat.simps) simp

definition is_digit :: "char \<Rightarrow> bool" where
  "is_digit c \<longleftrightarrow> 48 \<le> (of_char c :: nat) \<and> (of_char c :: nat) < 58"

lemma is_digit_digit_char: "d < 10 \<Longrightarrow> is_digit (digit_char d)"
  by (simp add: is_digit_def)

lemma show_nat_digits: "\<forall>c \<in> set (show_nat n). is_digit c"
proof (induction n rule: show_nat.induct)
  case (1 n)
  then show ?case
    by (subst show_nat.simps) (auto simp: is_digit_digit_char)
qed

end
