(* ===== verification/Go_Strings.thy ===== *)
theory Go_Strings
  imports Prelude "HOL-Library.Sublist"
begin

text \<open>
  The functions of Go's package \<open>strings\<close> (and \<open>bytes.TrimRight\<close>, \<open>strconv.Atoi\<close>) that the
  repository uses, on strings as lists of bytes, with the facts on them that the components share.
\<close>

section \<open>Searching\<close>

text \<open>\<open>strings.HasPrefix\<close>, \<open>strings.Index\<close> (None for -1) and \<open>strings.Contains\<close>.\<close>

fun has_prefix :: "'a list \<Rightarrow> 'a list \<Rightarrow> bool" where
  "has_prefix s [] = True"
| "has_prefix [] (p # ps) = False"
| "has_prefix (c # cs) (p # ps) = (c = p \<and> has_prefix cs ps)"

fun str_index :: "'a list \<Rightarrow> 'a list \<Rightarrow> nat option" where
  "str_index s p =
     (if has_prefix s p then Some 0
      else case s of [] \<Rightarrow> None | _ # cs \<Rightarrow> map_option Suc (str_index cs p))"

declare str_index.simps [simp del]

definition str_contains :: "'a list \<Rightarrow> 'a list \<Rightarrow> bool" where
  "str_contains s p = (str_index s p \<noteq> None)"

lemma has_prefix_iff: "has_prefix s p \<longleftrightarrow> prefix p s"
  by (induction s p rule: has_prefix.induct) auto

lemma has_prefix_append [simp]: "has_prefix (p @ s) p"
  by (simp add: has_prefix_iff)

lemma str_index_Some:
  "str_index s p = Some i \<Longrightarrow> i + length p \<le> length s \<and> has_prefix (drop i s) p"
proof (induction s arbitrary: i)
  case Nil
  then show ?case
    by (auto simp: str_index.simps [of "[]"] has_prefix_iff split: if_splits)
next
  case (Cons c cs)
  show ?case
  proof (cases "has_prefix (c # cs) p")
    case True
    with Cons.prems have "i = 0" by (simp add: str_index.simps [of "c # cs"])
    with True show ?thesis by (auto simp: has_prefix_iff dest: prefix_length_le)
  next
    case False
    with Cons.prems obtain j where "str_index cs p = Some j" "i = Suc j"
      by (auto simp: str_index.simps [of "c # cs"])
    with Cons.IH show ?thesis by auto
  qed
qed

lemma str_index_None_iff: "str_index s p = None \<longleftrightarrow> \<not> sublist p s"
proof (induction s)
  case Nil
  then show ?case by (cases p) (simp_all add: str_index.simps [of "[]"])
next
  case (Cons c cs)
  then show ?case
    by (simp add: str_index.simps [of "c # cs"] has_prefix_iff sublist_Cons_right)
qed

lemma str_contains_iff: "str_contains s p \<longleftrightarrow> (\<exists>u v. s = u @ p @ v)"
  by (simp add: str_contains_def str_index_None_iff sublist_def)

text \<open>\<open>strings.TrimPrefix\<close>, \<open>strings.TrimRight\<close> and \<open>strings.ToLower\<close> on ASCII.\<close>

definition trim_prefix :: "string \<Rightarrow> string \<Rightarrow> string" where
  "trim_prefix s p = (if has_prefix s p then drop (length p) s else s)"

definition trim_right :: "'a list \<Rightarrow> 'a set \<Rightarrow> 'a list" where
  "trim_right s cutset = rev (dropWhile (\<lambda>c. c \<in> cutset) (rev s))"

definition trim_left :: "'a list \<Rightarrow> 'a set \<Rightarrow> 'a list" where
  "trim_left s cutset = dropWhile (\<lambda>c. c \<in> cutset) s"

definition is_upper :: "char \<Rightarrow> bool" where
  "is_upper c = (65 \<le> (of_char c :: nat) \<and> (of_char c :: nat) \<le> 90)"

definition is_lower :: "char \<Rightarrow> bool" where
  "is_lower c = (97 \<le> (of_char c :: nat) \<and> (of_char c :: nat) \<le> 122)"

definition lower_char :: "char \<Rightarrow> char" where
  "lower_char c = (if is_upper c then char_of ((of_char c :: nat) + 32) else c)"

definition upper_char :: "char \<Rightarrow> char" where
  "upper_char c = (if is_lower c then char_of ((of_char c :: nat) - 32) else c)"

definition to_lower :: "string \<Rightarrow> string" where
  "to_lower s = List.map lower_char s"

definition to_upper :: "string \<Rightarrow> string" where
  "to_upper s = List.map upper_char s"

text \<open>The same on the bits of a character, for evaluation.\<close>

lemma is_upper_bits [code]: "is_upper (Char b0 b1 b2 b3 b4 b5 b6 b7) \<longleftrightarrow>
    \<not> b7 \<and> b6 \<and> \<not> b5 \<and> (b0 \<or> b1 \<or> b2 \<or> b3 \<or> b4) \<and> \<not> (b4 \<and> b3 \<and> (b2 \<or> b1 \<and> b0))"
  by (cases b0; cases b1; cases b2; cases b3; cases b4; cases b5; cases b6; cases b7) (simp_all add: is_upper_def)

lemma is_lower_bits [code]: "is_lower (Char b0 b1 b2 b3 b4 b5 b6 b7) \<longleftrightarrow>
    \<not> b7 \<and> b6 \<and> b5 \<and> (b0 \<or> b1 \<or> b2 \<or> b3 \<or> b4) \<and> \<not> (b4 \<and> b3 \<and> (b2 \<or> b1 \<and> b0))"
  by (cases b0; cases b1; cases b2; cases b3; cases b4; cases b5; cases b6; cases b7) (simp_all add: is_lower_def)

lemma upper_char_bits [code]: "upper_char (Char b0 b1 b2 b3 b4 b5 b6 b7) =
    (if is_lower (Char b0 b1 b2 b3 b4 b5 b6 b7) then Char b0 b1 b2 b3 b4 False b6 b7
     else Char b0 b1 b2 b3 b4 b5 b6 b7)"
  by (cases b0; cases b1; cases b2; cases b3; cases b4; cases b5; cases b6; cases b7)
    (simp_all add: upper_char_def is_lower_bits char_of_def bit_0)

lemma lower_char_bits [code]: "lower_char (Char b0 b1 b2 b3 b4 b5 b6 b7) =
    (if is_upper (Char b0 b1 b2 b3 b4 b5 b6 b7) then Char b0 b1 b2 b3 b4 True b6 b7
     else Char b0 b1 b2 b3 b4 b5 b6 b7)"
  by (cases b0; cases b1; cases b2; cases b3; cases b4; cases b5; cases b6; cases b7)
    (simp_all add: lower_char_def is_upper_bits char_of_def bit_0)

lemma length_to_lower [simp]: "length (to_lower s) = length s"
  by (simp add: to_lower_def)

lemma length_to_upper [simp]: "length (to_upper s) = length s"
  by (simp add: to_upper_def)

lemma trim_right_decomp: "\<exists>t. s = trim_right s cutset @ t \<and> set t \<subseteq> cutset"
proof -
  have "rev s = takeWhile (\<lambda>c. c \<in> cutset) (rev s) @ dropWhile (\<lambda>c. c \<in> cutset) (rev s)" by simp
  then have "s = trim_right s cutset @ rev (takeWhile (\<lambda>c. c \<in> cutset) (rev s))"
    unfolding trim_right_def by (metis rev_append rev_rev_ident)
  moreover have "set (rev (takeWhile (\<lambda>c. c \<in> cutset) (rev s))) \<subseteq> cutset"
    by (auto dest: set_takeWhileD)
  ultimately show ?thesis by blast
qed

lemma trim_right_last: "trim_right s cutset \<noteq> [] \<Longrightarrow> last (trim_right s cutset) \<notin> cutset"
  unfolding trim_right_def using hd_dropWhile [of "\<lambda>c. c \<in> cutset" "rev s"] by (simp add: last_rev)

section \<open>Splitting\<close>

text \<open>\<open>strings.Split(s, sep)\<close> for a one-byte separator, and \<open>strings.SplitN(s, sep, 2)\<close>.\<close>

fun split_char :: "char \<Rightarrow> string \<Rightarrow> string list" where
  "split_char sep [] = [[]]"
| "split_char sep (c # cs) =
     (if c = sep then [] # split_char sep cs
      else case split_char sep cs of [] \<Rightarrow> [[c]] | w # ws \<Rightarrow> (c # w) # ws)"

fun split2_char :: "char \<Rightarrow> string \<Rightarrow> string list" where
  "split2_char sep [] = [[]]"
| "split2_char sep (c # cs) =
     (if c = sep then [[], cs]
      else case split2_char sep cs of [] \<Rightarrow> [[c]] | w # ws \<Rightarrow> (c # w) # ws)"

lemma split_char_nonempty [simp]: "split_char sep s \<noteq> []"
  by (induction s) (auto split: list.splits)

lemma split_char_hd: "hd (split_char sep s) = takeWhile (\<lambda>c. c \<noteq> sep) s"
  by (induction s) (auto split: list.splits)

lemma split_char_no_sep: "w \<in> set (split_char sep s) \<Longrightarrow> sep \<notin> set w"
  by (induction s arbitrary: w) (auto split: list.splits if_splits)

lemma split2_char_eq:
  "split2_char sep s =
     (if sep \<in> set s then [takeWhile (\<lambda>c. c \<noteq> sep) s, tl (dropWhile (\<lambda>c. c \<noteq> sep) s)] else [s])"
  by (induction s) auto

section \<open>Numbers\<close>

text \<open>
  \<open>strconv.Atoi\<close>: an optional sign and decimal digits, in the range of a 64-bit \<open>int\<close>; None where
  it returns an error.
\<close>

definition parse_digits :: "string \<Rightarrow> nat option" where
  "parse_digits s = (if s \<noteq> [] \<and> list_all is_digit s then Some (read_digits s 0) else None)"

definition atoi :: "string \<Rightarrow> int option" where
  "atoi s =
     (case s of
        [] \<Rightarrow> None
      | c # cs \<Rightarrow>
          if c = CHR ''-'' then
            (case parse_digits cs of None \<Rightarrow> None
             | Some n \<Rightarrow> if n \<le> 2 ^ 63 then Some (- int n) else None)
          else
            (case parse_digits (if c = CHR ''+'' then cs else s) of None \<Rightarrow> None
             | Some n \<Rightarrow> if n < 2 ^ 63 then Some (int n) else None))"

lemma parse_digits_show_nat [simp]: "parse_digits (show_nat n) = Some n"
  using show_nat_digits [of n] by (simp add: parse_digits_def read_show_nat list_all_iff)

lemma atoi_show_nat: "n < 2 ^ 63 \<Longrightarrow> atoi (show_nat n) = Some (int n)"
proof -
  assume n: "n < 2 ^ 63"
  obtain c cs where cs: "show_nat n = c # cs" by (cases "show_nat n") auto
  have "is_digit c" using show_nat_digits [of n] cs by simp
  then have "c \<noteq> CHR ''-''" "c \<noteq> CHR ''+''" by (auto simp: is_digit_def)
  then show ?thesis using n parse_digits_show_nat [of n] by (simp add: atoi_def cs)
qed

end
