(* ===== verification/Go_Errors.thy ===== *)
theory Go_Errors
  imports Go_Strings
begin

text \<open>
  The \<open>error\<close> values of the repository: the XDR package's \<open>UnmarshalError\<close> and \<open>MarshalError\<close>
  (\<open>src/internal/go-xdr/xdr2/error.go\<close>), libvirt's own \<open>Error\<close> and the sentinels of
  \<open>src/rpc.go\<close> and \<open>src/libvirt.go\<close>, and the errors of the standard library that they wrap or
  compare with. A nil error is the absence of an \<open>Err\<close> outcome.
\<close>

section \<open>Error codes\<close>

datatype ErrorCode =
    ErrBadArguments
  | ErrUnsupportedType
  | ErrBadEnumValue
  | ErrNotSettable
  | ErrOverflow
  | ErrNilInterface
  | ErrIO
  | ErrParseTime

text \<open>The codes are numbered by \<open>iota\<close>, which orders them.\<close>

fun code_number :: "ErrorCode \<Rightarrow> nat" where
  "code_number ErrBadArguments = 0"
| "code_number ErrUnsupportedType = 1"
| "code_number ErrBadEnumValue = 2"
| "code_number ErrNotSettable = 3"
| "code_number ErrOverflow = 4"
| "code_number ErrNilInterface = 5"
| "code_number ErrIO = 6"
| "code_number ErrParseTime = 7"

lemma code_number_inject: "code_number a = code_number b \<longleftrightarrow> a = b"
  by (cases a; cases b) simp_all

instantiation ErrorCode :: linorder
begin

definition less_eq_ErrorCode :: "ErrorCode \<Rightarrow> ErrorCode \<Rightarrow> bool" where
  "less_eq_ErrorCode a b = (code_number a \<le> code_number b)"

definition less_ErrorCode :: "ErrorCode \<Rightarrow> ErrorCode \<Rightarrow> bool" where
  "less_ErrorCode a b = (code_number a < code_number b)"

instance
  by standard (auto simp: less_eq_ErrorCode_def less_ErrorCode_def code_number_inject)

end

text \<open>The map \<open>errorCodeStrings\<close> from codes to names, as the list of its entries.\<close>

definition errorCodeStrings :: "(ErrorCode \<times> string) list" where
  "errorCodeStrings =
     [(ErrBadArguments, ''ErrBadArguments''), (ErrUnsupportedType, ''ErrUnsupportedType''),
      (ErrBadEnumValue, ''ErrBadEnumValue''), (ErrNotSettable, ''ErrNotSettable''),
      (ErrOverflow, ''ErrOverflow''), (ErrNilInterface, ''ErrNilInterface''),
      (ErrIO, ''ErrIO''), (ErrParseTime, ''ErrParseTime'')]"

definition ErrorCode_String :: "ErrorCode \<Rightarrow> string" where
  "ErrorCode_String e =
     (case map_of errorCodeStrings e of
        Some s \<Rightarrow> if s \<noteq> '''' then s else ''Unknown ErrorCode ('' @ show_nat (code_number e) @ '')''
      | None \<Rightarrow> ''Unknown ErrorCode ('' @ show_nat (code_number e) @ '')'')"

section \<open>Errors\<close>

text \<open>The dynamic value that an XDR error carries in its field \<open>Value\<close>.\<close>

datatype goval = NilVal | BytesVal "byte list" | IntVal int | StrVal string

datatype error =
    IoEOF
  | IoUnexpectedEOF
  | WriteFailed
  | EINVAL
  | NetOpError bool
  | UnmarshalError ErrorCode string goval string "error option"
  | MarshalError ErrorCode string goval string "error option"
  | LibvirtError u32 string
  | ErrUnsupported
  | ErrInterrupted
  | ErrEventsNotSupported
  | PlainError string
  | WrapError string error
  | JoinError "error list"

text \<open>\<open>fmt\<close>'s verb \<open>%v\<close> on the values that the XDR errors carry.\<close>

fun join_with :: "string \<Rightarrow> string list \<Rightarrow> string" where
  "join_with sep [] = []"
| "join_with sep [w] = w"
| "join_with sep (w # ws) = w @ sep @ join_with sep ws"

fun fmt_v :: "goval \<Rightarrow> string" where
  "fmt_v NilVal = ''<nil>''"
| "fmt_v (BytesVal bs) = ''['' @ join_with '' '' (List.map (\<lambda>b. show_nat (unat b)) bs) @ '']''"
| "fmt_v (IntVal i) = show_int i"
| "fmt_v (StrVal s) = s"

text \<open>The quote and the newline of the format strings.\<close>

definition quote :: string where
  "quote = [char_of (39 :: nat)]"

definition newline :: string where
  "newline = [char_of (10 :: nat)]"

text \<open>\<open>UnmarshalError.Error\<close> and \<open>MarshalError.Error\<close>.\<close>

definition unmarshalError_Error :: "ErrorCode \<Rightarrow> string \<Rightarrow> goval \<Rightarrow> string \<Rightarrow> string" where
  "unmarshalError_Error c f v d =
     (case c of
        ErrBadEnumValue \<Rightarrow> ''xdr:'' @ f @ '': '' @ d @ '' - read: '' @ quote @ fmt_v v @ quote
      | ErrOverflow \<Rightarrow> ''xdr:'' @ f @ '': '' @ d @ '' - read: '' @ quote @ fmt_v v @ quote
      | ErrIO \<Rightarrow> ''xdr:'' @ f @ '': '' @ d @ '' - read: '' @ quote @ fmt_v v @ quote
      | ErrParseTime \<Rightarrow> ''xdr:'' @ f @ '': '' @ d @ '' - read: '' @ quote @ fmt_v v @ quote
      | _ \<Rightarrow> ''xdr:'' @ f @ '': '' @ d)"

definition marshalError_Error :: "ErrorCode \<Rightarrow> string \<Rightarrow> goval \<Rightarrow> string \<Rightarrow> string" where
  "marshalError_Error c f v d =
     (case c of
        ErrIO \<Rightarrow> ''xdr:'' @ f @ '': '' @ d @ '' - wrote: '' @ quote @ fmt_v v @ quote
      | ErrBadEnumValue \<Rightarrow> ''xdr:'' @ f @ '': '' @ d @ '' - value: '' @ quote @ fmt_v v @ quote
      | _ \<Rightarrow> ''xdr:'' @ f @ '': '' @ d)"

text \<open>The method \<open>Error()\<close> of every error.\<close>

fun err_text :: "error \<Rightarrow> string" where
  "err_text IoEOF = ''EOF''"
| "err_text IoUnexpectedEOF = ''unexpected EOF''"
| "err_text WriteFailed = ''write failed''"
| "err_text EINVAL = ''invalid argument''"
| "err_text (NetOpError t) = ''network operation failed''"
| "err_text (UnmarshalError c f v d e) = unmarshalError_Error c f v d"
| "err_text (MarshalError c f v d e) = marshalError_Error c f v d"
| "err_text (LibvirtError c m) = m"
| "err_text ErrUnsupported = ''unsupported procedure requested''"
| "err_text ErrInterrupted = ''procedure interrupted while awaiting response''"
| "err_text ErrEventsNotSupported = ''event monitor is not supported''"
| "err_text (PlainError s) = s"
| "err_text (WrapError p e) = p @ err_text e"
| "err_text (JoinError es) = join_with newline (List.map err_text es)"

text \<open>\<open>errors.Unwrap\<close>: only \<open>fmt.Errorf\<close> with \<open>%w\<close> makes an error with a single inner error.\<close>

fun err_unwrap :: "error \<Rightarrow> error option" where
  "err_unwrap (WrapError p e) = Some e"
| "err_unwrap _ = None"

text \<open>\<open>IsIO\<close>: an XDR error of code \<open>ErrIO\<close>, for reading or for writing.\<close>

fun IsIO :: "error \<Rightarrow> bool" where
  "IsIO (UnmarshalError c f v d e) = (c = ErrIO)"
| "IsIO (MarshalError c f v d e) = (c = ErrIO)"
| "IsIO _ = False"

text \<open>
  The constructors \<open>unmarshalError\<close> and \<open>marshalError\<close>. Their copy of a byte slice protects the
  error from later writes to the caller's buffer; a value in the model has no other owner.
\<close>

definition unmarshalError :: "string \<Rightarrow> ErrorCode \<Rightarrow> string \<Rightarrow> goval \<Rightarrow> error option \<Rightarrow> error" where
  "unmarshalError f c desc v err = UnmarshalError c f v desc err"

definition marshalError :: "string \<Rightarrow> ErrorCode \<Rightarrow> string \<Rightarrow> goval \<Rightarrow> error option \<Rightarrow> error" where
  "marshalError f c desc v err = MarshalError c f v desc err"

lemma ErrorCode_String_simps [simp]:
  "ErrorCode_String ErrBadArguments = ''ErrBadArguments''"
  "ErrorCode_String ErrUnsupportedType = ''ErrUnsupportedType''"
  "ErrorCode_String ErrBadEnumValue = ''ErrBadEnumValue''"
  "ErrorCode_String ErrNotSettable = ''ErrNotSettable''"
  "ErrorCode_String ErrOverflow = ''ErrOverflow''"
  "ErrorCode_String ErrNilInterface = ''ErrNilInterface''"
  "ErrorCode_String ErrIO = ''ErrIO''"
  "ErrorCode_String ErrParseTime = ''ErrParseTime''"
  by (simp_all add: ErrorCode_String_def errorCodeStrings_def)

lemma IsIO_unmarshalError [simp]: "IsIO (unmarshalError f c d v e) = (c = ErrIO)"
  by (simp add: unmarshalError_def)

lemma IsIO_marshalError [simp]: "IsIO (marshalError f c d v e) = (c = ErrIO)"
  by (simp add: marshalError_def)

end
