(* ===== verification/Go_Reflect.thy ===== *)
theory Go_Reflect
  imports Go_Errors
begin

text \<open>
  The part of Go's package \<open>reflect\<close> that the XDR encoder and decoder work with: Go types as a
  datatype, Go values as trees, zero values, and what it means for a value to have a type.

  A value is a tree without sharing or cycles (the XDR package documents that cyclic data is not
  supported). A slice carries its elements and the spare elements of its backing array between
  its length and its capacity, which \<open>SetLen\<close> exposes. Floating-point numbers are their IEEE bit
  patterns, the form in which XDR transfers them. A map is the list of its entries in the order
  in which \<open>MapKeys\<close> enumerates them.
\<close>

section \<open>Types\<close>

text \<open>
  \<open>TNamed\<close> is a defined type such as \<open>libvirt.UUID\<close>, whose kind is that of its underlying type;
  \<open>TOther\<close> stands for the kinds that XDR does not support (channels, functions, \<open>uintptr\<close>, \<dots>).
  A field records whether it is exported, whether it has the tag \<open>xdropaque:"false"\<close>, and its type.
\<close>

datatype ty =
    TInt8 | TInt16 | TInt32 | TInt | TInt64
  | TUint8 | TUint16 | TUint32 | TUint | TUint64
  | TBool | TFloat32 | TFloat64 | TString
  | TArray nat ty
  | TSlice ty
  | TStruct string "field list"
  | TMap ty ty
  | TPtr ty
  | TInterface
  | TTime
  | TNamed string ty
  | TOther string
and field = Field (field_exported: bool) (field_xdropaque_false: bool) (field_type: ty)

text \<open>An exported field without a tag, the form of every field of the libvirt protocol.\<close>

abbreviation fld :: "ty \<Rightarrow> field" where
  "fld t \<equiv> Field True False t"

text \<open>The type behind the name: what \<open>Kind()\<close> looks at.\<close>

fun under :: "ty \<Rightarrow> ty" where
  "under (TNamed nm t) = under t"
| "under t = t"

definition is_ptr_kind :: "ty \<Rightarrow> bool" where
  "is_ptr_kind t = (case under t of TPtr _ \<Rightarrow> True | _ \<Rightarrow> False)"

text \<open>\<open>Kind().String()\<close> and \<open>Type().String()\<close>.\<close>

fun kind_string :: "ty \<Rightarrow> string" where
  "kind_string TInt8 = ''int8''"
| "kind_string TInt16 = ''int16''"
| "kind_string TInt32 = ''int32''"
| "kind_string TInt = ''int''"
| "kind_string TInt64 = ''int64''"
| "kind_string TUint8 = ''uint8''"
| "kind_string TUint16 = ''uint16''"
| "kind_string TUint32 = ''uint32''"
| "kind_string TUint = ''uint''"
| "kind_string TUint64 = ''uint64''"
| "kind_string TBool = ''bool''"
| "kind_string TFloat32 = ''float32''"
| "kind_string TFloat64 = ''float64''"
| "kind_string TString = ''string''"
| "kind_string (TArray n t) = ''array''"
| "kind_string (TSlice t) = ''slice''"
| "kind_string (TStruct nm fs) = ''struct''"
| "kind_string (TMap k t) = ''map''"
| "kind_string (TPtr t) = ''ptr''"
| "kind_string TInterface = ''interface''"
| "kind_string TTime = ''struct''"
| "kind_string (TNamed nm t) = kind_string t"
| "kind_string (TOther k) = k"

fun type_string :: "ty \<Rightarrow> string" where
  "type_string (TArray n t) = ''['' @ show_nat n @ '']'' @ type_string t"
| "type_string (TSlice t) = ''[]'' @ type_string t"
| "type_string (TStruct nm fs) = nm"
| "type_string (TMap k t) = ''map['' @ type_string k @ '']'' @ type_string t"
| "type_string (TPtr t) = ''*'' @ type_string t"
| "type_string TInterface = ''interface {}''"
| "type_string TTime = ''time.Time''"
| "type_string (TNamed nm t) = nm"
| "type_string t = kind_string t"

section \<open>Values\<close>

datatype val =
    VInt i64
  | VUint u64
  | VBool bool
  | VFloat32 u32
  | VFloat64 u64
  | VString string
  | VArray "val list"
  | VSlice "val list" "val list"
  | VStruct "val list"
  | VMap "(val \<times> val) list"
  | VPtr "val option"
  | VIface "(ty \<times> val) option"
  | VTime int
  | VOther

text \<open>The byte held by an element of a \<open>[]byte\<close>, and a byte as such an element.\<close>

fun val_byte :: "val \<Rightarrow> byte" where
  "val_byte (VUint w) = ucast w"
| "val_byte _ = 0"

definition byte_val :: "byte \<Rightarrow> val" where
  "byte_val b = VUint (ucast b)"

text \<open>\<open>OverflowInt\<close> and \<open>OverflowUint\<close> of an integer of the given width.\<close>

definition overflow_int :: "nat \<Rightarrow> i64 \<Rightarrow> bool" where
  "overflow_int bits w = (sint w < - (2 ^ (bits - 1)) \<or> 2 ^ (bits - 1) \<le> sint w)"

definition overflow_uint :: "nat \<Rightarrow> u64 \<Rightarrow> bool" where
  "overflow_uint bits w = (2 ^ bits \<le> unat w)"

text \<open>The widths of the integer kinds; Go's \<open>int\<close> and \<open>uint\<close> have 64 bits.\<close>

fun int_bits :: "ty \<Rightarrow> nat" where
  "int_bits TInt8 = 8"
| "int_bits TInt16 = 16"
| "int_bits TInt32 = 32"
| "int_bits TUint8 = 8"
| "int_bits TUint16 = 16"
| "int_bits TUint32 = 32"
| "int_bits _ = 64"

text \<open>The zero value of a type, which \<open>reflect.New\<close> and \<open>MakeSlice\<close> provide.\<close>

fun zero :: "ty \<Rightarrow> val" and zero_field :: "field \<Rightarrow> val" where
  "zero TInt8 = VInt 0"
| "zero TInt16 = VInt 0"
| "zero TInt32 = VInt 0"
| "zero TInt = VInt 0"
| "zero TInt64 = VInt 0"
| "zero TUint8 = VUint 0"
| "zero TUint16 = VUint 0"
| "zero TUint32 = VUint 0"
| "zero TUint = VUint 0"
| "zero TUint64 = VUint 0"
| "zero TBool = VBool False"
| "zero TFloat32 = VFloat32 0"
| "zero TFloat64 = VFloat64 0"
| "zero TString = VString ''''"
| "zero (TArray n t) = VArray (replicate n (zero t))"
| "zero (TSlice t) = VSlice [] []"
| "zero (TStruct nm fs) = VStruct (List.map zero_field fs)"
| "zero (TMap k t) = VMap []"
| "zero (TPtr t) = VPtr None"
| "zero TInterface = VIface None"
| "zero TTime = VTime 0"
| "zero (TNamed nm t) = zero t"
| "zero (TOther k) = VOther"
| "zero_field (Field e o_false t) = zero t"

section \<open>Typing\<close>

text \<open>
  Go's static types guarantee that a reflected value has its type; \<open>wt t v\<close> says so of the model.
\<close>

function wt :: "ty \<Rightarrow> val \<Rightarrow> bool"
  and wt_list :: "ty \<Rightarrow> val list \<Rightarrow> bool"
  and wt_fields :: "field list \<Rightarrow> val list \<Rightarrow> bool"
  and wt_pairs :: "ty \<Rightarrow> ty \<Rightarrow> (val \<times> val) list \<Rightarrow> bool"
where
  "wt TInt8 v = (case v of VInt w \<Rightarrow> \<not> overflow_int 8 w | _ \<Rightarrow> False)"
| "wt TInt16 v = (case v of VInt w \<Rightarrow> \<not> overflow_int 16 w | _ \<Rightarrow> False)"
| "wt TInt32 v = (case v of VInt w \<Rightarrow> \<not> overflow_int 32 w | _ \<Rightarrow> False)"
| "wt TInt v = (case v of VInt w \<Rightarrow> True | _ \<Rightarrow> False)"
| "wt TInt64 v = (case v of VInt w \<Rightarrow> True | _ \<Rightarrow> False)"
| "wt TUint8 v = (case v of VUint w \<Rightarrow> \<not> overflow_uint 8 w | _ \<Rightarrow> False)"
| "wt TUint16 v = (case v of VUint w \<Rightarrow> \<not> overflow_uint 16 w | _ \<Rightarrow> False)"
| "wt TUint32 v = (case v of VUint w \<Rightarrow> \<not> overflow_uint 32 w | _ \<Rightarrow> False)"
| "wt TUint v = (case v of VUint w \<Rightarrow> True | _ \<Rightarrow> False)"
| "wt TUint64 v = (case v of VUint w \<Rightarrow> True | _ \<Rightarrow> False)"
| "wt TBool v = (case v of VBool b \<Rightarrow> True | _ \<Rightarrow> False)"
| "wt TFloat32 v = (case v of VFloat32 w \<Rightarrow> True | _ \<Rightarrow> False)"
| "wt TFloat64 v = (case v of VFloat64 w \<Rightarrow> True | _ \<Rightarrow> False)"
| "wt TString v = (case v of VString s \<Rightarrow> True | _ \<Rightarrow> False)"
| "wt (TArray n t) v = (case v of VArray vs \<Rightarrow> length vs = n \<and> wt_list t vs | _ \<Rightarrow> False)"
| "wt (TSlice t) v = (case v of VSlice vs sp \<Rightarrow> wt_list t vs \<and> wt_list t sp | _ \<Rightarrow> False)"
| "wt (TStruct nm fs) v = (case v of VStruct vs \<Rightarrow> wt_fields fs vs | _ \<Rightarrow> False)"
| "wt (TMap k t) v = (case v of VMap ps \<Rightarrow> wt_pairs k t ps | _ \<Rightarrow> False)"
| "wt (TPtr t) v = (case v of VPtr None \<Rightarrow> True | VPtr (Some v') \<Rightarrow> wt t v' | _ \<Rightarrow> False)"
| "wt TInterface v =
     (case v of VIface None \<Rightarrow> True | VIface (Some (t, v')) \<Rightarrow> wt t v' | _ \<Rightarrow> False)"
| "wt TTime v = (case v of VTime i \<Rightarrow> True | _ \<Rightarrow> False)"
| "wt (TNamed nm t) v = wt t v"
| "wt (TOther k) v = (v = VOther)"
| "wt_list t [] = True"
| "wt_list t (v # vs) = (wt t v \<and> wt_list t vs)"
| "wt_fields [] vs = (vs = [])"
| "wt_fields (f # fs) vs =
     (case vs of [] \<Rightarrow> False | v # vs' \<Rightarrow> wt (field_type f) v \<and> wt_fields fs vs')"
| "wt_pairs k t [] = True"
| "wt_pairs k t (p # ps) = (wt k (fst p) \<and> wt t (snd p) \<and> wt_pairs k t ps)"
  by pat_completeness auto
termination
  by (relation "measures [
       \<lambda>x. case x of Inl (Inl (t, v)) \<Rightarrow> size v | Inl (Inr (t, vs)) \<Rightarrow> size_list size vs
          | Inr (Inl (fs, vs)) \<Rightarrow> size_list size vs
          | Inr (Inr (k, t, ps)) \<Rightarrow> size_list (size_prod size size) ps,
       \<lambda>x. case x of Inl (Inl (t, v)) \<Rightarrow> size t | Inl (Inr (t, vs)) \<Rightarrow> Suc (size t)
          | Inr (Inl (fs, vs)) \<Rightarrow> 0 | Inr (Inr (k, t, ps)) \<Rightarrow> 0]")
    auto

lemma wt_list_iff: "wt_list t vs \<longleftrightarrow> (\<forall>v \<in> set vs. wt t v)"
  by (induction vs) simp_all

lemma wt_list_append [simp]: "wt_list t (us @ vs) \<longleftrightarrow> wt_list t us \<and> wt_list t vs"
  by (auto simp: wt_list_iff)

lemma wt_list_take [simp]: "wt_list t vs \<Longrightarrow> wt_list t (take n vs)"
  by (auto simp: wt_list_iff dest: in_set_takeD)

lemma wt_list_drop [simp]: "wt_list t vs \<Longrightarrow> wt_list t (drop n vs)"
  by (auto simp: wt_list_iff dest: in_set_dropD)

lemma wt_list_replicate [simp]: "wt t v \<Longrightarrow> wt_list t (replicate n v)"
  by (simp add: wt_list_iff)

lemma wt_fields_length: "wt_fields fs vs \<Longrightarrow> length vs = length fs"
  by (induction fs arbitrary: vs) (auto split: list.splits)

lemma wt_fields_map_zero:
  "(\<And>f. f \<in> set fs \<Longrightarrow> wt (field_type f) (zero_field f)) \<Longrightarrow> wt_fields fs (List.map zero_field fs)"
  by (induction fs) simp_all

lemma wt_zero: "wt t (zero t)" and wt_zero_field: "wt (field_type f) (zero_field f)"
  by (induction t and f rule: zero_zero_field.induct)
    (auto simp: overflow_int_def overflow_uint_def intro: wt_list_replicate wt_fields_map_zero)

declare wt_zero [simp]

lemma wt_under [simp]: "wt (under t) v = wt t v"
  by (induction t rule: under.induct) simp_all

lemma under_under [simp]: "under (under t) = under t"
  by (induction t rule: under.induct) simp_all

lemma size_under: "size (under t) \<le> size t"
  by (induction t rule: under.induct) simp_all

text \<open>Bytes survive their trip through the elements of a \<open>[]byte\<close>.\<close>

lemma ucast_down_up [simp]: "(ucast (ucast (b :: byte) :: u64) :: byte) = b"
  by (rule bit_word_eqI) (auto simp: bit_simps dest: bit_imp_le_length)

lemma ucast_up_down:
  assumes "unat (w :: u64) < 256"
  shows "(ucast (ucast w :: byte) :: u64) = w"
proof -
  have "unat (ucast (ucast w :: byte) :: u64) = unat w"
    using assms by (simp add: unsigned_ucast_eq take_bit_eq_mod unat_mod)
  then show ?thesis by (rule unsigned_word_eqI)
qed

lemma val_byte_byte_val [simp]: "val_byte (byte_val b) = b"
  by (simp add: byte_val_def)

lemma map_val_byte_byte_val [simp]: "List.map val_byte (List.map byte_val bs) = bs"
  by (simp add: comp_def)

lemma wt_byte_val [simp]: "wt TUint8 (byte_val b)"
proof -
  have "unat b < 256" by (rule unat_byte_less)
  then show ?thesis by (simp add: byte_val_def overflow_uint_def unsigned_ucast_eq take_bit_eq_mod)
qed

lemma byte_val_val_byte: "wt TUint8 v \<Longrightarrow> byte_val (val_byte v) = v"
  by (cases v) (simp_all add: byte_val_def overflow_uint_def ucast_up_down)

lemma map_byte_val_val_byte: "wt_list TUint8 vs \<Longrightarrow> List.map (\<lambda>v. byte_val (val_byte v)) vs = vs"
  by (induction vs) (simp_all add: byte_val_val_byte del: wt.simps)

end
