(* ===== verification/Xdr_Encode.thy ===== *)
theory Xdr_Encode
  imports Go_Reflect
begin

text \<open>
  The XDR encoder of \<open>src/internal/go-xdr/xdr2/encode.go\<close>: the primitive routines
  \<open>EncodeInt\<close> \<dots> \<open>EncodeString\<close> and the reflective \<open>encode\<close> with its helpers, over an
  \<open>io.Writer\<close>. Every routine returns the number of bytes it wrote beside its result.
\<close>

section \<open>The writer\<close>

text \<open>
  An \<open>io.Writer\<close>: what has been written so far, and how many more bytes it takes before its
  \<open>Write\<close> fails (\<open>None\<close>: it never fails, as \<open>bytes.Buffer\<close>). A failing \<open>Write\<close> reports the
  number of bytes it still took and its error.
\<close>

record writer =
  written :: "byte list"
  room :: "nat option"

definition empty_buffer :: writer where
  "empty_buffer = \<lparr>written = [], room = None\<rparr>"

definition Write :: "byte list \<Rightarrow> writer \<Rightarrow> nat \<times> error option \<times> writer" where
  "Write b w =
     (case room w of
        None \<Rightarrow> (length b, None, w\<lparr>written := written w @ b\<rparr>)
      | Some r \<Rightarrow>
          if length b \<le> r
          then (length b, None, w\<lparr>written := written w @ b, room := Some (r - length b)\<rparr>)
          else (r, Some WriteFailed, w\<lparr>written := written w @ take r b, room := Some 0\<rparr>))"

type_synonym 'a enc = "(writer, error, 'a) io"

text \<open>The description \<open>errIOEncode\<close>.\<close>

definition errIOEncode :: "error \<Rightarrow> nat \<Rightarrow> string" where
  "errIOEncode e n = err_text e @ '' while encoding '' @ show_nat n @ '' bytes''"

text \<open>
  The part that \<open>EncodeInt\<close>, \<open>EncodeUint\<close>, \<open>EncodeHyper\<close> and \<open>EncodeUhyper\<close> share: write the
  buffer, and wrap a write error with the routine's name and the bytes that went out.
\<close>

definition enc_write :: "string \<Rightarrow> byte list \<Rightarrow> unit enc" where
  "enc_write fn b = (\<lambda>w. case Write b w of
      (n, None, w') \<Rightarrow> (n, Ok (), w')
    | (n, Some e, w') \<Rightarrow>
        (n, Err (marshalError fn ErrIO (errIOEncode e (length b)) (BytesVal (take n b)) (Some e)), w'))"

section \<open>Primitive types\<close>

definition EncodeInt :: "i32 \<Rightarrow> unit enc" where
  "EncodeInt v = enc_write ''EncodeInt'' (be32 v)"

definition EncodeUint :: "u32 \<Rightarrow> unit enc" where
  "EncodeUint v = enc_write ''EncodeUint'' (be32 v)"

text \<open>The map of valid values is given by its test; a key that is absent reads as false.\<close>

definition EncodeEnum :: "i32 \<Rightarrow> (i32 \<Rightarrow> bool) \<Rightarrow> unit enc" where
  "EncodeEnum v validEnums =
     (if \<not> validEnums v
      then io_err (marshalError ''EncodeEnum'' ErrBadEnumValue ''invalid enum'' (IntVal (sint v)) None)
      else EncodeInt v)"

definition EncodeBool :: "bool \<Rightarrow> unit enc" where
  "EncodeBool v = EncodeInt (if v then 1 else 0)"

definition EncodeHyper :: "i64 \<Rightarrow> unit enc" where
  "EncodeHyper v = enc_write ''EncodeHyper'' (be64 v)"

definition EncodeUhyper :: "u64 \<Rightarrow> unit enc" where
  "EncodeUhyper v = enc_write ''EncodeUhyper'' (be64 v)"

text \<open>\<open>math.Float32bits\<close> and \<open>math.Float64bits\<close> are the identity on bit patterns.\<close>

definition EncodeFloat :: "u32 \<Rightarrow> unit enc" where
  "EncodeFloat v = EncodeUint v"

definition EncodeDouble :: "u64 \<Rightarrow> unit enc" where
  "EncodeDouble v = EncodeUhyper v"

section \<open>Opaque data and strings\<close>

definition EncodeFixedOpaque :: "byte list \<Rightarrow> unit enc" where
  "EncodeFixedOpaque v = (\<lambda>w.
     let l = length v; pad = (4 - (l mod 4)) mod 4
     in case Write v w of
          (n, Some e, w1) \<Rightarrow>
            (n, Err (marshalError ''EncodeFixedOpaque'' ErrIO (errIOEncode e l)
                       (BytesVal (take n v)) (Some e)), w1)
        | (n, None, w1) \<Rightarrow>
            if pad > 0 then
              let b = replicate pad 0
              in case Write b w1 of
                   (n2, Some e, w2) \<Rightarrow>
                     (n + n2, Err (marshalError ''EncodeFixedOpaque'' ErrIO (errIOEncode e (l + pad))
                                    (BytesVal (v @ take n2 b)) (Some e)), w2)
                 | (n2, None, w2) \<Rightarrow> (n + n2, Ok (), w2)
            else (n, Ok (), w1))"

definition EncodeOpaque :: "byte list \<Rightarrow> unit enc" where
  "EncodeOpaque v =
     io_bind (EncodeUint (word_of_nat (length v))) (\<lambda>_. EncodeFixedOpaque v)"

definition EncodeString :: "string \<Rightarrow> unit enc" where
  "EncodeString v =
     io_bind (EncodeUint (word_of_nat (length v))) (\<lambda>_. EncodeFixedOpaque (bytes_of_string v))"

section \<open>Reflective encoding\<close>

text \<open>
  \<open>indirect\<close> follows pointers to the first value that is not a pointer; at a nil pointer it
  yields the invalid zero \<open>reflect.Value\<close> (\<open>None\<close>).
\<close>

function indirect :: "ty \<Rightarrow> val \<Rightarrow> (ty \<times> val) option" where
  "indirect t v =
     (case under t of
        TPtr t' \<Rightarrow> (case v of VPtr (Some v') \<Rightarrow> indirect t' v' | _ \<Rightarrow> None)
      | _ \<Rightarrow> Some (t, v))"
  by pat_completeness auto
termination
  by (relation "measure (\<lambda>(t, v). size v)") auto

declare indirect.simps [simp del]

lemma indirect_size:
  "indirect t v = Some (t', v') \<Longrightarrow> size v' \<le> size v \<and> size t' \<le> size t"
proof (induction t v rule: indirect.induct)
  case (1 t v)
  show ?case
  proof (cases "\<exists>p. under t = TPtr p")
    case True
    then obtain p u where pu: "under t = TPtr p" "v = VPtr (Some u)" "indirect p u = Some (t', v')"
      using "1.prems" by (auto simp: indirect.simps [of t v] split: val.splits option.splits)
    moreover have "size p < size t" using size_under [of t] pu(1) by simp
    ultimately show ?thesis using "1.IH" by fastforce
  next
    case False
    with "1.prems" show ?thesis by (auto simp: indirect.simps [of t v] split: ty.splits)
  qed
qed

lemma size_field_type: "size (field_type f) < size f"
  by (cases f) simp

text \<open>The error for an invalid \<open>reflect.Value\<close>; its kind prints as \<open>invalid\<close>.\<close>

definition err_invalid :: error where
  "err_invalid =
     marshalError ''encode'' ErrUnsupportedType
       (''type '' @ quote @ ''invalid'' @ quote @ '' is not valid'') NilVal None"

definition err_unsupported :: "ty \<Rightarrow> error" where
  "err_unsupported t =
     marshalError ''encode'' ErrUnsupportedType
       (''unsupported Go type '' @ quote @ kind_string t @ quote) NilVal None"

text \<open>
  \<open>encode\<close> and its helpers, one function per method. The parameter \<open>fmt\<close> is \<open>time.Format\<close> with
  the layout \<open>RFC3339Nano\<close>. A value that does not have its type is where \<open>reflect\<close> panics; a nil
  pointer that \<open>encode\<close> itself dereferences panics too, because \<open>Type()\<close> is called on the invalid
  value, while \<open>encodeStruct\<close> and \<open>encodeInterface\<close> dereference before they call \<open>encode\<close>, so
  that a nil pointer there is the error \<open>err_invalid\<close>. The addressability of a value is not
  represented: it matters only for arrays and slices whose elements have a defined byte type, of
  which \<open>encodeFixedArray\<close> encodes those that are addressable and panics on the others.
\<close>

function encode :: "(int \<Rightarrow> string) \<Rightarrow> ty \<Rightarrow> val \<Rightarrow> unit enc"
  and encode_elems :: "(int \<Rightarrow> string) \<Rightarrow> ty \<Rightarrow> val list \<Rightarrow> unit enc"
  and encodeFixedArray :: "(int \<Rightarrow> string) \<Rightarrow> bool \<Rightarrow> ty \<Rightarrow> val list \<Rightarrow> unit enc"
  and encodeArray :: "(int \<Rightarrow> string) \<Rightarrow> bool \<Rightarrow> ty \<Rightarrow> val list \<Rightarrow> unit enc"
  and encodeStruct :: "(int \<Rightarrow> string) \<Rightarrow> field list \<Rightarrow> val list \<Rightarrow> unit enc"
  and encode_field :: "(int \<Rightarrow> string) \<Rightarrow> field \<Rightarrow> val \<Rightarrow> unit enc"
  and encodeMap :: "(int \<Rightarrow> string) \<Rightarrow> ty \<Rightarrow> ty \<Rightarrow> (val \<times> val) list \<Rightarrow> unit enc"
  and encodeInterface :: "(int \<Rightarrow> string) \<Rightarrow> (ty \<times> val) option \<Rightarrow> unit enc"
where
  "encode fmt (TPtr t) v = (case v of VPtr (Some v') \<Rightarrow> encode fmt t v' | _ \<Rightarrow> io_panic)"
| "encode fmt (TNamed nm t) v = encode fmt t v"
| "encode fmt TTime v = (case v of VTime i \<Rightarrow> EncodeString (fmt i) | _ \<Rightarrow> io_panic)"
| "encode fmt TInt8 v = (case v of VInt w \<Rightarrow> EncodeInt (ucast w) | _ \<Rightarrow> io_panic)"
| "encode fmt TInt16 v = (case v of VInt w \<Rightarrow> EncodeInt (ucast w) | _ \<Rightarrow> io_panic)"
| "encode fmt TInt32 v = (case v of VInt w \<Rightarrow> EncodeInt (ucast w) | _ \<Rightarrow> io_panic)"
| "encode fmt TInt v = (case v of VInt w \<Rightarrow> EncodeInt (ucast w) | _ \<Rightarrow> io_panic)"
| "encode fmt TInt64 v = (case v of VInt w \<Rightarrow> EncodeHyper w | _ \<Rightarrow> io_panic)"
| "encode fmt TUint8 v = (case v of VUint w \<Rightarrow> EncodeUint (ucast w) | _ \<Rightarrow> io_panic)"
| "encode fmt TUint16 v = (case v of VUint w \<Rightarrow> EncodeUint (ucast w) | _ \<Rightarrow> io_panic)"
| "encode fmt TUint32 v = (case v of VUint w \<Rightarrow> EncodeUint (ucast w) | _ \<Rightarrow> io_panic)"
| "encode fmt TUint v = (case v of VUint w \<Rightarrow> EncodeUint (ucast w) | _ \<Rightarrow> io_panic)"
| "encode fmt TUint64 v = (case v of VUint w \<Rightarrow> EncodeUhyper w | _ \<Rightarrow> io_panic)"
| "encode fmt TBool v = (case v of VBool b \<Rightarrow> EncodeBool b | _ \<Rightarrow> io_panic)"
| "encode fmt TFloat32 v = (case v of VFloat32 w \<Rightarrow> EncodeFloat w | _ \<Rightarrow> io_panic)"
| "encode fmt TFloat64 v = (case v of VFloat64 w \<Rightarrow> EncodeDouble w | _ \<Rightarrow> io_panic)"
| "encode fmt TString v = (case v of VString s \<Rightarrow> EncodeString s | _ \<Rightarrow> io_panic)"
| "encode fmt (TArray n t) v =
     (case v of VArray vs \<Rightarrow> encodeFixedArray fmt False t vs | _ \<Rightarrow> io_panic)"
| "encode fmt (TSlice t) v =
     (case v of VSlice vs sp \<Rightarrow> encodeArray fmt False t vs | _ \<Rightarrow> io_panic)"
| "encode fmt (TStruct nm fs) v =
     (case v of VStruct vs \<Rightarrow> encodeStruct fmt fs vs | _ \<Rightarrow> io_panic)"
| "encode fmt (TMap k t) v =
     (case v of
        VMap ps \<Rightarrow> io_bind (EncodeUint (word_of_nat (length ps))) (\<lambda>_. encodeMap fmt k t ps)
      | _ \<Rightarrow> io_panic)"
| "encode fmt TInterface v = (case v of VIface x \<Rightarrow> encodeInterface fmt x | _ \<Rightarrow> io_panic)"
| "encode fmt (TOther k) v = io_err (err_unsupported (TOther k))"
| "encode_elems fmt t [] = io_ret ()"
| "encode_elems fmt t (v # vs) = io_bind (encode fmt t v) (\<lambda>_. encode_elems fmt t vs)"
| "encodeFixedArray fmt ignoreOpaque t vs =
     (if \<not> ignoreOpaque \<and> under t = TUint8 then EncodeFixedOpaque (List.map val_byte vs)
      else encode_elems fmt t vs)"
| "encodeArray fmt ignoreOpaque t vs =
     io_bind (EncodeUint (word_of_nat (length vs))) (\<lambda>_. encodeFixedArray fmt ignoreOpaque t vs)"
| "encodeStruct fmt [] vs = io_ret ()"
| "encodeStruct fmt (f # fs) vs =
     (case vs of
        [] \<Rightarrow> io_panic
      | v # vs' \<Rightarrow>
          if \<not> field_exported f then encodeStruct fmt fs vs'
          else io_bind (encode_field fmt f v) (\<lambda>_. encodeStruct fmt fs vs'))"
| "encode_field fmt f v =
     (case indirect (field_type f) v of
        None \<Rightarrow> io_err err_invalid
      | Some (t, v') \<Rightarrow>
          if field_xdropaque_false f then
            (case under t of
               TSlice et \<Rightarrow> (case v' of VSlice vs sp \<Rightarrow> encodeArray fmt True et vs | _ \<Rightarrow> io_panic)
             | TArray n et \<Rightarrow> (case v' of VArray vs \<Rightarrow> encodeFixedArray fmt True et vs | _ \<Rightarrow> io_panic)
             | _ \<Rightarrow> encode fmt t v')
          else encode fmt t v')"
| "encodeMap fmt k t [] = io_ret ()"
| "encodeMap fmt k t (p # ps) =
     io_bind (encode fmt k (fst p)) (\<lambda>_. io_bind (encode fmt t (snd p)) (\<lambda>_. encodeMap fmt k t ps))"
| "encodeInterface fmt None =
     io_err (marshalError ''encodeInterface'' ErrNilInterface
       (''can'' @ quote @ ''t encode nil interface'') NilVal None)"
| "encodeInterface fmt (Some tv) =
     (case indirect (fst tv) (snd tv) of
        None \<Rightarrow> io_err err_invalid
      | Some (t, v) \<Rightarrow> encode fmt t v)"
  by pat_completeness auto

termination
proof (relation "measures [
    \<lambda>x. case x of
        Inl (Inl (Inl (fmt, t, v))) \<Rightarrow> size v
      | Inl (Inl (Inr (fmt, t, vs))) \<Rightarrow> size_list size vs
      | Inl (Inr (Inl (fmt, ign, t, vs))) \<Rightarrow> size_list size vs
      | Inl (Inr (Inr (fmt, ign, t, vs))) \<Rightarrow> size_list size vs
      | Inr (Inl (Inl (fmt, fs, vs))) \<Rightarrow> size_list size vs
      | Inr (Inl (Inr (fmt, f, v))) \<Rightarrow> size v
      | Inr (Inr (Inl (fmt, k, t, ps))) \<Rightarrow> size_list (size_prod size size) ps
      | Inr (Inr (Inr (fmt, x))) \<Rightarrow> size_option (size_prod (\<lambda>_. 0) size) x,
    \<lambda>x. case x of
        Inl (Inl (Inl (fmt, t, v))) \<Rightarrow> size t
      | Inr (Inl (Inr (fmt, f, v))) \<Rightarrow> size f
      | _ \<Rightarrow> 0,
    \<lambda>x. case x of
        Inl (Inr (Inl _)) \<Rightarrow> 1
      | Inl (Inr (Inr _)) \<Rightarrow> 2
      | _ \<Rightarrow> 0]")
qed (auto dest!: indirect_size intro: le_less_trans [OF _ size_field_type])

text \<open>
  \<open>Encoder.Encode\<close> takes an \<open>interface{}\<close>: nothing, or a value with its dynamic type. \<open>Marshal\<close>
  is \<open>Encode\<close> with a fresh encoder.
\<close>

definition Encode :: "(int \<Rightarrow> string) \<Rightarrow> (ty \<times> val) option \<Rightarrow> unit enc" where
  "Encode fmt x =
     (case x of
        None \<Rightarrow>
          io_err (marshalError ''Marshal'' ErrNilInterface
                    (''can'' @ quote @ ''t marshal nil interface'') NilVal None)
      | Some (t, v) \<Rightarrow>
          (case indirect t v of
             None \<Rightarrow>
               io_err (marshalError ''Marshal'' ErrBadArguments
                 (''can'' @ quote @ ''t marshal nil pointer '' @ quote @ type_string t @ quote)
                 NilVal None)
           | Some (t', v') \<Rightarrow> encode fmt t' v'))"

definition Marshal :: "(int \<Rightarrow> string) \<Rightarrow> (ty \<times> val) option \<Rightarrow> unit enc" where
  "Marshal fmt x = Encode fmt x"

end
