(* ===== verification/Xdr_Decode.thy ===== *)
theory Xdr_Decode
  imports Xdr_Encode
begin

text \<open>
  The XDR decoder of \<open>src/internal/go-xdr/xdr2/decode.go\<close>: the primitive routines
  \<open>DecodeInt\<close> \<dots> \<open>DecodeString\<close> and the reflective \<open>decode\<close> with its helpers, over the
  \<open>bytes.Reader\<close> that every caller of the repository hands to it. Every routine returns the
  number of bytes it read beside its result. \<open>decode\<close> decodes into an existing value: it takes the
  target's present value and returns the new one. On an error the partly written target is not
  represented.
\<close>

section \<open>The reader\<close>

type_synonym 'a dec = "(byte list, error, 'a) io"

text \<open>
  \<open>io.ReadFull\<close> on a \<open>bytes.Reader\<close> with the given unread bytes: \<open>k\<close> bytes, or \<open>io.EOF\<close> when
  nothing is left, or \<open>io.ErrUnexpectedEOF\<close> with the bytes that were left.
\<close>

definition ReadFull :: "nat \<Rightarrow> byte list \<Rightarrow> byte list \<times> error option \<times> byte list" where
  "ReadFull k inp =
     (if k \<le> length inp then (take k inp, None, drop k inp)
      else if inp = [] then ([], Some IoEOF, [])
      else (inp, Some IoUnexpectedEOF, []))"

text \<open>The descriptions \<open>errIODecode\<close> and \<open>errMaxSlice\<close>.\<close>

definition errIODecode :: "error \<Rightarrow> nat \<Rightarrow> string" where
  "errIODecode e n = err_text e @ '' while decoding '' @ show_nat n @ '' bytes''"

definition errMaxSlice :: string where
  "errMaxSlice = ''data exceeds max slice limit''"

text \<open>The part that the routines share: read \<open>k\<close> bytes, wrap a read error.\<close>

definition dec_read :: "string \<Rightarrow> nat \<Rightarrow> byte list dec" where
  "dec_read fn k = (\<lambda>inp. case ReadFull k inp of
      (b, None, rest) \<Rightarrow> (length b, Ok b, rest)
    | (b, Some e, rest) \<Rightarrow>
        (length b, Err (unmarshalError fn ErrIO (errIODecode e k) (BytesVal b) (Some e)), rest))"

section \<open>Primitive types\<close>

definition DecodeInt :: "i32 dec" where
  "DecodeInt = io_map from_be32 (dec_read ''DecodeInt'' 4)"

definition DecodeUint :: "u32 dec" where
  "DecodeUint = io_map from_be32 (dec_read ''DecodeUint'' 4)"

definition DecodeEnum :: "(i32 \<Rightarrow> bool) \<Rightarrow> i32 dec" where
  "DecodeEnum validEnums =
     io_bind DecodeInt (\<lambda>v.
       if \<not> validEnums v
       then io_err (unmarshalError ''DecodeEnum'' ErrBadEnumValue ''invalid enum'' (IntVal (sint v)) None)
       else io_ret v)"

definition DecodeBool :: "bool dec" where
  "DecodeBool =
     io_bind DecodeInt (\<lambda>v.
       if v = 0 then io_ret False
       else if v = 1 then io_ret True
       else io_err (unmarshalError ''DecodeBool'' ErrBadEnumValue ''bool not 0 or 1''
                      (IntVal (sint v)) None))"

definition DecodeHyper :: "i64 dec" where
  "DecodeHyper = io_map from_be64 (dec_read ''DecodeHyper'' 8)"

definition DecodeUhyper :: "u64 dec" where
  "DecodeUhyper = io_map from_be64 (dec_read ''DecodeUhyper'' 8)"

definition DecodeFloat :: "u32 dec" where
  "DecodeFloat = io_map from_be32 (dec_read ''DecodeFloat'' 4)"

definition DecodeDouble :: "u64 dec" where
  "DecodeDouble = io_map from_be64 (dec_read ''DecodeDouble'' 8)"

section \<open>Opaque data and strings\<close>

text \<open>Go's \<open>%\<close> truncates towards zero.\<close>

definition go_rem :: "int \<Rightarrow> int \<Rightarrow> int" where
  "go_rem a b = sgn a * (\<bar>a\<bar> mod \<bar>b\<bar>)"

text \<open>
  \<open>DecodeFixedOpaque\<close> computes in \<open>int32\<close>, so \<open>size + pad\<close> may wrap to a negative number, which
  \<open>uint(paddedSize)\<close> makes larger than \<open>math.MaxInt32\<close>. Slicing \<open>buf[0:size]\<close> panics for a
  negative \<open>size\<close>.
\<close>

definition DecodeFixedOpaque :: "i32 \<Rightarrow> byte list dec" where
  "DecodeFixedOpaque sz =
     (if sz = 0 then io_ret []
      else
        let pad = go_rem (4 - go_rem (sint sz) 4) 4;
            paddedSize = (word_of_int (sint sz + pad) :: i32)
        in if sint paddedSize < 0
           then io_err (unmarshalError ''DecodeFixedOpaque'' ErrOverflow errMaxSlice
                          (IntVal (sint paddedSize)) None)
           else io_bind (dec_read ''DecodeFixedOpaque'' (nat (sint paddedSize))) (\<lambda>buf.
                  if sint sz < 0 then io_panic else io_ret (take (nat (sint sz)) buf)))"

text \<open>
  A \<open>Decoder\<close>: the cap on variable-length data (0: none) and the map of custom decode routines by
  type name; \<open>timeParse\<close> stands for \<open>time.Parse\<close> with the layout \<open>RFC3339\<close>.
\<close>

record decoder =
  maxReadSize :: nat
  customTypes :: "string \<Rightarrow> val dec option"
  timeParse :: "string \<Rightarrow> error + int"

definition exceeds_max :: "decoder \<Rightarrow> u32 \<Rightarrow> bool" where
  "exceeds_max d dataLen =
     (unat dataLen > MaxInt32 \<or> (maxReadSize d \<noteq> 0 \<and> unat dataLen > maxReadSize d))"

definition DecodeOpaque :: "decoder \<Rightarrow> byte list dec" where
  "DecodeOpaque d =
     io_bind DecodeUint (\<lambda>dataLen.
       if exceeds_max d dataLen
       then io_err (unmarshalError ''DecodeOpaque'' ErrOverflow errMaxSlice
                      (IntVal (uint dataLen)) None)
       else DecodeFixedOpaque dataLen)"

definition DecodeString :: "decoder \<Rightarrow> string dec" where
  "DecodeString d =
     io_bind DecodeUint (\<lambda>dataLen.
       if exceeds_max d dataLen
       then io_err (unmarshalError ''DecodeString'' ErrOverflow errMaxSlice
                      (IntVal (uint dataLen)) None)
       else io_map string_of_bytes (DecodeFixedOpaque dataLen))"

section \<open>Reflective decoding\<close>

text \<open>
  How many non-nil interfaces a target holds: decoding into an interface moves on to the type of
  its present content, and this number then decreases.
\<close>

fun ifaces :: "val \<Rightarrow> nat" where
  "ifaces (VArray vs) = sum_list (List.map ifaces vs)"
| "ifaces (VSlice vs sp) = sum_list (List.map ifaces vs) + sum_list (List.map ifaces sp)"
| "ifaces (VStruct vs) = sum_list (List.map ifaces vs)"
| "ifaces (VPtr (Some v)) = ifaces v"
| "ifaces (VIface (Some tv)) = Suc (ifaces (snd tv))"
| "ifaces _ = 0"

abbreviation ifaces_list :: "val list \<Rightarrow> nat" where
  "ifaces_list vs \<equiv> sum_list (List.map ifaces vs)"

lemma ifaces_zero [simp]: "ifaces (zero t) = 0"
  and ifaces_zero_field [simp]: "ifaces (zero_field f) = 0"
  by (induction t and f rule: zero_zero_field.induct)
    (auto simp: sum_list_replicate comp_def sum_list_eq_0_iff)

lemma ifaces_list_take: "ifaces_list (take n vs) \<le> ifaces_list vs"
  by (metis append_take_drop_id le_add1 map_append sum_list_append)

text \<open>The type at the end of a chain of pointers, and the present value behind one pointer.\<close>

function ptr_base :: "ty \<Rightarrow> ty" where
  "ptr_base t = (case under t of TPtr p \<Rightarrow> ptr_base p | _ \<Rightarrow> t)"
  by pat_completeness auto
termination
proof (relation "measure size")
  fix t p assume "under t = TPtr p"
  then have "size (TPtr p) \<le> size t" using size_under [of t] by simp
  then show "(p, t) \<in> measure size" by simp
qed simp

declare ptr_base.simps [simp del]

definition deref_or_new :: "ty \<Rightarrow> val \<Rightarrow> val" where
  "deref_or_new t v = (case v of VPtr (Some v') \<Rightarrow> v' | _ \<Rightarrow> zero t)"

lemma ifaces_deref: "ifaces (deref_or_new t v) \<le> ifaces v"
  by (auto simp: deref_or_new_def split: val.splits option.splits)

text \<open>
  \<open>decodeArray\<close>'s storage for \<open>n\<close> elements: a new slice of zero values when the capacity is too
  small; the backing array's elements up to \<open>n\<close> when only the length is; otherwise the slice as it
  is, which may be longer than \<open>n\<close>.
\<close>

definition slice_storage :: "ty \<Rightarrow> nat \<Rightarrow> val list \<Rightarrow> val list \<Rightarrow> val list \<times> val list" where
  "slice_storage t n vs sp =
     (if length vs + length sp < n then (replicate n (zero t), [])
      else if length vs < n then (take n (vs @ sp), drop n (vs @ sp))
      else (vs, sp))"

lemma ifaces_slice_storage:
  "ifaces_list (take n (fst (slice_storage t n vs sp))) \<le> ifaces_list vs + ifaces_list sp"
  using ifaces_list_take [of n vs] ifaces_list_take [of "n - length vs" sp]
  by (simp add: slice_storage_def sum_list_replicate)

text \<open>\<open>SetMapIndex\<close> on the list of entries: replace the value of a present key, or add an entry.\<close>

fun map_set :: "val \<Rightarrow> val \<Rightarrow> (val \<times> val) list \<Rightarrow> (val \<times> val) list" where
  "map_set k v [] = [(k, v)]"
| "map_set k v ((k', v') # ps) = (if k' = k then (k, v) # ps else (k', v') # map_set k v ps)"

text \<open>The errors of the reflective routines.\<close>

definition err_int_too_large :: "ty \<Rightarrow> i32 \<Rightarrow> error" where
  "err_int_too_large t i =
     unmarshalError ''decode'' ErrOverflow
       (''signed integer too large to fit '' @ quote @ kind_string t @ quote) (IntVal (sint i)) None"

definition err_uint_too_large :: "ty \<Rightarrow> u32 \<Rightarrow> error" where
  "err_uint_too_large t i =
     unmarshalError ''decode'' ErrOverflow
       (''unsigned integer too large to fit '' @ quote @ kind_string t @ quote) (IntVal (uint i)) None"

definition err_unsettable :: "string \<Rightarrow> ty \<Rightarrow> error" where
  "err_unsettable fn t =
     unmarshalError fn ErrNotSettable
       (''can'' @ quote @ ''t decode to unsettable '' @ quote @ type_string t @ quote) NilVal None"

definition err_unallocatable :: "ty \<Rightarrow> error" where
  "err_unallocatable t =
     unmarshalError ''indirect'' ErrNotSettable
       (''unable to allocate pointer for '' @ quote @ type_string t @ quote) NilVal None"

definition err_nil_interface :: error where
  "err_nil_interface =
     unmarshalError ''decodeInterface'' ErrNilInterface
       (''can'' @ quote @ ''t decode to nil interface'') NilVal None"

definition err_decode_unsupported :: "ty \<Rightarrow> error" where
  "err_decode_unsupported t =
     unmarshalError ''decode'' ErrUnsupportedType
       (''unsupported Go type '' @ quote @ kind_string t @ quote) NilVal None"

text \<open>The integer kinds of at most 32 bits on the wire, with their overflow checks.\<close>

definition decode_int_kind :: "ty \<Rightarrow> val dec" where
  "decode_int_kind t =
     io_bind DecodeInt (\<lambda>i.
       if overflow_int (int_bits t) (scast i) then io_err (err_int_too_large t i)
       else io_ret (VInt (scast i)))"

definition decode_uint_kind :: "ty \<Rightarrow> val dec" where
  "decode_uint_kind t =
     io_bind DecodeUint (\<lambda>i.
       if overflow_uint (int_bits t) (ucast i) then io_err (err_uint_too_large t i)
       else io_ret (VUint (ucast i)))"

definition decode_time :: "decoder \<Rightarrow> val dec" where
  "decode_time d =
     io_bind (DecodeString d) (\<lambda>s.
       case timeParse d s of
         Inl e \<Rightarrow> io_err (unmarshalError ''decode'' ErrParseTime (err_text e) (StrVal s) (Some e))
       | Inr i \<Rightarrow> io_ret (VTime i))"

text \<open>Facts on sizes for the termination of \<open>decode\<close>.\<close>

lemma under_eq_size: "under t = u \<Longrightarrow> size u \<le> size t"
  using size_under [of t] by auto

lemma ifaces_deref_eq:
  "\<not> ifaces (deref_or_new t v) < ifaces v \<Longrightarrow> ifaces (deref_or_new t v) = ifaces v"
  using ifaces_deref [of t v] by simp

lemma storage_less:
  "ifaces_list (take n (fst (slice_storage t n vs sp))) \<noteq> ifaces_list vs + ifaces_list sp \<Longrightarrow>
   ifaces_list (take n (fst (slice_storage t n vs sp))) < ifaces_list vs + ifaces_list sp"
  using ifaces_slice_storage [of n t vs sp] by simp

lemma size_field_less [simp]: "size (field_type f) < Suc (size f + n)"
  using size_field_type [of f] by simp

text \<open>
  \<open>decode\<close> and its helpers, one function per method; \<open>decode_kind\<close> is the \<open>switch\<close> on the kind
  that ends \<open>decode\<close>, \<open>decode_field\<close> the body of \<open>decodeStruct\<close>'s loop (which follows pointers
  before it looks at the tag), \<open>decode_pairs\<close> the loop of \<open>decodeMap\<close>. A custom decode routine ends
  with \<open>v.Set\<close> of a value of its type, which panics when \<open>v\<close> is a pointer to that type. The bytes of
  an array are stored by \<open>reflect.Copy\<close>, which panics when the elements have a defined byte type.

  Termination: the number of interfaces in the target never grows and decreases at an interface;
  otherwise the type gets smaller, or the routine calls one that comes after it, or a loop has
  fewer rounds left.
\<close>

function decode :: "decoder \<Rightarrow> ty \<Rightarrow> val \<Rightarrow> val dec"
  and decode_kind :: "decoder \<Rightarrow> ty \<Rightarrow> val \<Rightarrow> val dec"
  and decode_elems :: "decoder \<Rightarrow> ty \<Rightarrow> val list \<Rightarrow> val list dec"
  and decodeFixedArray :: "decoder \<Rightarrow> bool \<Rightarrow> ty \<Rightarrow> val list \<Rightarrow> val dec"
  and decodeArray :: "decoder \<Rightarrow> bool \<Rightarrow> ty \<Rightarrow> val list \<Rightarrow> val list \<Rightarrow> val dec"
  and decodeStruct :: "decoder \<Rightarrow> field list \<Rightarrow> val list \<Rightarrow> val list dec"
  and decode_field :: "decoder \<Rightarrow> bool \<Rightarrow> ty \<Rightarrow> val \<Rightarrow> val dec"
  and decode_pairs :: "decoder \<Rightarrow> ty \<Rightarrow> ty \<Rightarrow> nat \<Rightarrow> (val \<times> val) list \<Rightarrow> (val \<times> val) list dec"
  and decodeInterface :: "decoder \<Rightarrow> (ty \<times> val) option \<Rightarrow> val dec"
where
  "decode d t v =
     (case under t of
        TPtr p \<Rightarrow>
          (if type_string (ptr_base p) = ''time.Time'' \<or> customTypes d (type_string (ptr_base p)) = None
           then io_map (\<lambda>u. VPtr (Some u)) (decode d p (deref_or_new p v))
           else io_bind (the (customTypes d (type_string (ptr_base p)))) (\<lambda>_. io_panic))
      | _ \<Rightarrow>
          (if type_string t = ''time.Time'' then decode_time d
           else case customTypes d (type_string t) of
                  Some dt \<Rightarrow> dt
                | None \<Rightarrow> decode_kind d (under t) v))"
| "decode_kind d TInt8 v = decode_int_kind TInt8"
| "decode_kind d TInt16 v = decode_int_kind TInt16"
| "decode_kind d TInt32 v = decode_int_kind TInt32"
| "decode_kind d TInt v = decode_int_kind TInt"
| "decode_kind d TInt64 v = io_map VInt DecodeHyper"
| "decode_kind d TUint8 v = decode_uint_kind TUint8"
| "decode_kind d TUint16 v = decode_uint_kind TUint16"
| "decode_kind d TUint32 v = decode_uint_kind TUint32"
| "decode_kind d TUint v = decode_uint_kind TUint"
| "decode_kind d TUint64 v = io_map VUint DecodeUhyper"
| "decode_kind d TBool v = io_map VBool DecodeBool"
| "decode_kind d TFloat32 v = io_map VFloat32 DecodeFloat"
| "decode_kind d TFloat64 v = io_map VFloat64 DecodeDouble"
| "decode_kind d TString v = io_map VString (DecodeString d)"
| "decode_kind d (TArray n t) v =
     (case v of VArray vs \<Rightarrow> decodeFixedArray d False t vs | _ \<Rightarrow> io_panic)"
| "decode_kind d (TSlice t) v =
     (case v of VSlice vs sp \<Rightarrow> decodeArray d False t vs sp | _ \<Rightarrow> io_panic)"
| "decode_kind d (TStruct nm fs) v =
     (case v of VStruct vs \<Rightarrow> io_map VStruct (decodeStruct d fs vs) | _ \<Rightarrow> io_panic)"
| "decode_kind d (TMap k t) v =
     (case v of
        VMap ps \<Rightarrow> io_bind DecodeUint (\<lambda>n. io_map VMap (decode_pairs d k t (unat n) ps))
      | _ \<Rightarrow> io_panic)"
| "decode_kind d TInterface v = (case v of VIface x \<Rightarrow> decodeInterface d x | _ \<Rightarrow> io_panic)"
| "decode_kind d TTime v = decode_time d"
| "decode_kind d (TPtr t) v = io_panic"
| "decode_kind d (TNamed nm t) v = io_panic"
| "decode_kind d (TOther k) v = io_err (err_decode_unsupported (TOther k))"
| "decode_elems d t [] = io_ret []"
| "decode_elems d t (v # vs) =
     io_bind (decode d t v) (\<lambda>u. io_map (\<lambda>us. u # us) (decode_elems d t vs))"
| "decodeFixedArray d ignoreOpaque t vs =
     (if \<not> ignoreOpaque \<and> under t = TUint8
      then io_bind (DecodeFixedOpaque (word_of_nat (length vs))) (\<lambda>data.
             if t = TUint8 then io_ret (VArray (List.map byte_val data @ drop (length data) vs))
             else io_panic)
      else io_map VArray (decode_elems d t vs))"
| "decodeArray d ignoreOpaque t vs sp =
     io_bind DecodeUint (\<lambda>dataLen.
       if exceeds_max d dataLen
       then io_err (unmarshalError ''decodeArray'' ErrOverflow errMaxSlice
                      (IntVal (uint dataLen)) None)
       else if \<not> ignoreOpaque \<and> under t = TUint8
       then io_map (\<lambda>data. VSlice (List.map byte_val data) []) (DecodeFixedOpaque dataLen)
       else io_map (\<lambda>us. VSlice (us @ drop (unat dataLen)
                                        (fst (slice_storage t (unat dataLen) vs sp)))
                                 (snd (slice_storage t (unat dataLen) vs sp)))
              (decode_elems d t (take (unat dataLen) (fst (slice_storage t (unat dataLen) vs sp)))))"
| "decodeStruct d [] vs = (if vs = [] then io_ret [] else io_panic)"
| "decodeStruct d (f # fs) vs =
     (case vs of
        [] \<Rightarrow> io_panic
      | v # vs' \<Rightarrow>
          if \<not> field_exported f then io_map (\<lambda>us. v # us) (decodeStruct d fs vs')
          else io_bind (decode_field d (field_xdropaque_false f) (field_type f) v) (\<lambda>u.
                 io_map (\<lambda>us. u # us) (decodeStruct d fs vs')))"
| "decode_field d raw t v =
     (case under t of
        TPtr p \<Rightarrow> io_map (\<lambda>u. VPtr (Some u)) (decode_field d raw p (deref_or_new p v))
      | TSlice et \<Rightarrow>
          (if raw then (case v of VSlice vs sp \<Rightarrow> decodeArray d True et vs sp | _ \<Rightarrow> io_panic)
           else decode d t v)
      | TArray n et \<Rightarrow>
          (if raw then (case v of VArray vs \<Rightarrow> decodeFixedArray d True et vs | _ \<Rightarrow> io_panic)
           else decode d t v)
      | _ \<Rightarrow> decode d t v)"
| "decode_pairs d k t 0 ps = io_ret ps"
| "decode_pairs d k t (Suc n) ps =
     io_bind (decode d k (zero k)) (\<lambda>key.
       io_bind (decode d t (zero t)) (\<lambda>u. decode_pairs d k t n (map_set key u ps)))"
| "decodeInterface d None = io_err err_nil_interface"
| "decodeInterface d (Some tv) =
     (case under (fst tv) of
        TPtr p \<Rightarrow>
          (case snd tv of
             VPtr (Some c) \<Rightarrow>
               io_map (\<lambda>u. VIface (Some (fst tv, VPtr (Some u)))) (decode_field d False p c)
           | _ \<Rightarrow> io_err (err_unallocatable (fst tv)))
      | _ \<Rightarrow> io_err (err_unsettable ''decodeInterface'' (fst tv)))"
  by pat_completeness auto

termination
proof (relation "measures [
    \<lambda>x. case x of
        Inl (Inl (Inl (d, t, v))) \<Rightarrow> ifaces v
      | Inl (Inl (Inr (d, t, v))) \<Rightarrow> ifaces v
      | Inl (Inr (Inl (d, t, vs))) \<Rightarrow> ifaces_list vs
      | Inl (Inr (Inr (d, ign, t, vs))) \<Rightarrow> ifaces_list vs
      | Inr (Inl (Inl (d, ign, t, vs, sp))) \<Rightarrow> ifaces_list vs + ifaces_list sp
      | Inr (Inl (Inr (d, fs, vs))) \<Rightarrow> ifaces_list vs
      | Inr (Inr (Inl (d, raw, t, v))) \<Rightarrow> ifaces v
      | Inr (Inr (Inr (Inl (d, k, t, n, ps)))) \<Rightarrow> 0
      | Inr (Inr (Inr (Inr (d, tv)))) \<Rightarrow> ifaces (VIface tv),
    \<lambda>x. case x of
        Inl (Inl (Inl (d, t, v))) \<Rightarrow> Suc (size t)
      | Inl (Inl (Inr (d, t, v))) \<Rightarrow> Suc (size t)
      | Inl (Inr (Inl (d, t, vs))) \<Rightarrow> Suc (size t)
      | Inl (Inr (Inr (d, ign, t, vs))) \<Rightarrow> Suc (size t)
      | Inr (Inl (Inl (d, ign, t, vs, sp))) \<Rightarrow> Suc (size t)
      | Inr (Inl (Inr (d, fs, vs))) \<Rightarrow> Suc (size_list size fs)
      | Inr (Inr (Inl (d, raw, t, v))) \<Rightarrow> Suc (size t)
      | Inr (Inr (Inr (Inl (d, k, t, n, ps)))) \<Rightarrow> Suc (size k + size t)
      | Inr (Inr (Inr (Inr (d, tv)))) \<Rightarrow> 0,
    \<lambda>x. case x of
        Inl (Inl (Inl _)) \<Rightarrow> 1
      | Inl (Inl (Inr _)) \<Rightarrow> 0
      | Inl (Inr (Inl _)) \<Rightarrow> 3
      | Inl (Inr (Inr _)) \<Rightarrow> 4
      | Inr (Inl (Inl _)) \<Rightarrow> 5
      | Inr (Inl (Inr _)) \<Rightarrow> 4
      | Inr (Inr (Inl _)) \<Rightarrow> 2
      | Inr (Inr (Inr _)) \<Rightarrow> 3,
    \<lambda>x. case x of
        Inl (Inr (Inl (d, t, vs))) \<Rightarrow> length vs
      | Inr (Inr (Inr (Inl (d, k, t, n, ps)))) \<Rightarrow> n
      | _ \<Rightarrow> 0]")
qed (auto dest!: under_eq_size intro: ifaces_deref_eq storage_less)

declare decode.simps [simp del] decode_field.simps [simp del]

text \<open>
  \<open>Decoder.Decode\<close> takes an \<open>interface{}\<close>, which must hold a non-nil pointer; \<open>Unmarshal\<close> decodes
  with a fresh decoder, \<open>UnmarshalLimited\<close> with a cap.
\<close>

definition Decode :: "decoder \<Rightarrow> (ty \<times> val) option \<Rightarrow> val dec" where
  "Decode d x =
     (case x of
        None \<Rightarrow>
          io_err (unmarshalError ''Unmarshal'' ErrNilInterface
                    (''can'' @ quote @ ''t unmarshal to nil interface'') NilVal None)
      | Some (t, v) \<Rightarrow>
          if \<not> is_ptr_kind t
          then io_err (unmarshalError ''Unmarshal'' ErrBadArguments
                 (''can'' @ quote @ ''t unmarshal to non-pointer '' @ quote @ type_string t @ quote @
                  '' - use & operator'') NilVal None)
          else if v = VPtr None
          then io_err (unmarshalError ''Unmarshal'' ErrNotSettable
                 (''can'' @ quote @ ''t unmarshal to unsettable '' @ quote @ type_string t @ quote @
                  '' - use & operator'') NilVal None)
          else decode d t v)"

definition NewDecoderCustomTypes ::
  "nat \<Rightarrow> (string \<Rightarrow> val dec option) \<Rightarrow> (string \<Rightarrow> error + int) \<Rightarrow> decoder" where
  "NewDecoderCustomTypes maxSize ct tp =
     \<lparr>maxReadSize = maxSize, customTypes = ct, timeParse = tp\<rparr>"

definition NewDecoderLimited :: "nat \<Rightarrow> (string \<Rightarrow> error + int) \<Rightarrow> decoder" where
  "NewDecoderLimited maxSize tp = \<lparr>maxReadSize = maxSize, customTypes = (\<lambda>_. None), timeParse = tp\<rparr>"

definition NewDecoder :: "(string \<Rightarrow> error + int) \<Rightarrow> decoder" where
  "NewDecoder tp = \<lparr>maxReadSize = 0, customTypes = (\<lambda>_. None), timeParse = tp\<rparr>"

definition Unmarshal :: "(string \<Rightarrow> error + int) \<Rightarrow> (ty \<times> val) option \<Rightarrow> val dec" where
  "Unmarshal tp x = Decode (NewDecoder tp) x"

definition UnmarshalLimited :: "(string \<Rightarrow> error + int) \<Rightarrow> (ty \<times> val) option \<Rightarrow> nat \<Rightarrow> val dec" where
  "UnmarshalLimited tp x maxSize = Decode (NewDecoderLimited maxSize tp) x"

end
