(* ===== verification/Xdr_Codec.thy ===== *)
theory Xdr_Codec
  imports Xdr_Decode
begin

text \<open>
  The contract between an encoding routine and the decoding routine for the same data: on a writer
  that never fails the encoder appends a word-aligned byte string, and the decoder reads exactly
  that string back from any input that starts with it. The contract composes along sequences, so
  the round trip of the reflective \<open>encode\<close> and \<open>decode\<close> is assembled from those of the primitives.
\<close>

section \<open>Encoders on a buffer\<close>

definition appends :: "unit enc \<Rightarrow> byte list \<Rightarrow> bool" where
  "appends e bs \<longleftrightarrow>
     (\<forall>w. room w = None \<longrightarrow> e w = (length bs, Ok (), w\<lparr>written := written w @ bs\<rparr>))"

lemma appendsD:
  "appends e bs \<Longrightarrow> room w = None \<Longrightarrow> e w = (length bs, Ok (), w\<lparr>written := written w @ bs\<rparr>)"
  by (simp add: appends_def)

lemma appends_unique: "appends e bs \<Longrightarrow> appends e cs \<Longrightarrow> bs = cs"
  using appendsD [of e bs empty_buffer] appendsD [of e cs empty_buffer]
  by (simp add: empty_buffer_def)

lemma appends_ret [intro]: "appends (io_ret ()) []"
  by (simp add: appends_def io_ret_apply)

lemma appends_bind [intro]:
  "appends e bs \<Longrightarrow> appends f cs \<Longrightarrow> appends (io_bind e (\<lambda>_. f)) (bs @ cs)"
  by (simp add: appends_def io_bind_def)

lemma appends_enc_write: "appends (enc_write fn b) b"
  by (simp add: appends_def enc_write_def Write_def)

definition pad_len :: "nat \<Rightarrow> nat" where
  "pad_len l = (4 - l mod 4) mod 4"

lemma dvd_pad_len [simp]: "4 dvd l + pad_len l"
proof -
  have "l + (4 - l mod 4) = 4 * (l div 4) + 4"
    using mult_div_mod_eq [of 4 l] mod_less_divisor [of 4 l] by linarith
  then have "(l + (4 - l mod 4)) mod 4 = 0" by simp
  then have "(l + pad_len l) mod 4 = 0" unfolding pad_len_def by (simp only: mod_add_right_eq)
  then show ?thesis by (rule mod_0_imp_dvd)
qed

lemma pad_len_less: "pad_len l < 4"
  by (simp add: pad_len_def)

lemma appends_EncodeFixedOpaque:
  "appends (EncodeFixedOpaque v) (v @ replicate (pad_len (length v)) 0)"
  unfolding appends_def
proof (intro allI impI)
  fix w :: writer assume "room w = None"
  then show "EncodeFixedOpaque v w =
      (length (v @ replicate (pad_len (length v)) 0), Ok (),
       w\<lparr>written := written w @ v @ replicate (pad_len (length v)) 0\<rparr>)"
    by (cases "pad_len (length v) = 0")
      (simp_all add: EncodeFixedOpaque_def Write_def pad_len_def Let_def)
qed

section \<open>The contract\<close>

definition round_trips :: "unit enc \<Rightarrow> 'a dec \<Rightarrow> 'a \<Rightarrow> bool" where
  "round_trips e m a \<longleftrightarrow>
     (\<exists>bs. appends e bs \<and> 4 dvd length bs \<and> (\<forall>rest. m (bs @ rest) = (length bs, Ok a, rest)))"

lemma round_tripsI:
  "appends e bs \<Longrightarrow> 4 dvd length bs \<Longrightarrow> (\<And>rest. m (bs @ rest) = (length bs, Ok a, rest)) \<Longrightarrow>
   round_trips e m a"
  by (auto simp: round_trips_def)

lemma round_trips_ret: "round_trips (io_ret ()) (io_ret a) a"
  by (rule round_tripsI [of _ "[]"]) (auto simp: io_ret_apply)

lemma round_tripsE:
  assumes "round_trips e m a"
  obtains bs where "appends e bs" "4 dvd length bs" "\<And>rest. m (bs @ rest) = (length bs, Ok a, rest)"
  using assms by (auto simp: round_trips_def)

lemma round_trips_bind:
  assumes "round_trips e m a" and "round_trips e' (f a) b"
  shows "round_trips (io_bind e (\<lambda>_. e')) (io_bind m f) b"
proof -
  obtain bs where bs: "appends e bs" "4 dvd length bs"
    "\<And>rest. m (bs @ rest) = (length bs, Ok a, rest)" using assms(1) by (rule round_tripsE) blast
  obtain cs where cs: "appends e' cs" "4 dvd length cs"
    "\<And>rest. f a (cs @ rest) = (length cs, Ok b, rest)" using assms(2) by (rule round_tripsE) blast
  show ?thesis
  proof (rule round_tripsI [of _ "bs @ cs"])
    show "appends (io_bind e (\<lambda>_. e')) (bs @ cs)" using bs(1) cs(1) by (rule appends_bind)
    show "4 dvd length (bs @ cs)" using bs(2) cs(2) by simp
    show "io_bind m f ((bs @ cs) @ rest) = (length (bs @ cs), Ok b, rest)" for rest
      using io_bind_Ok [where m = m and f = f, OF bs(3) [of "cs @ rest"]] cs(3) [of rest] by simp
  qed
qed

lemma round_trips_map:
  assumes "round_trips e m a"
  shows "round_trips e (io_map g m) (g a)"
proof -
  obtain bs where bs: "appends e bs" "4 dvd length bs"
    "\<And>rest. m (bs @ rest) = (length bs, Ok a, rest)" using assms by (rule round_tripsE) blast
  show ?thesis
    by (rule round_tripsI [OF bs(1,2)]) (rule io_map_Ok [where m = m], rule bs(3))
qed

lemma round_trips_map_eq: "round_trips e m a \<Longrightarrow> g a = b \<Longrightarrow> round_trips e (io_map g m) b"
  using round_trips_map [of e m a g] by simp

text \<open>Checks on the decoded value, when they pass, add nothing.\<close>

lemma round_trips_check:
  assumes "round_trips e m a" and "f a = io_ret b"
  shows "round_trips e (io_bind m f) b"
proof -
  obtain bs where bs: "appends e bs" "4 dvd length bs"
    "\<And>rest. m (bs @ rest) = (length bs, Ok a, rest)" using assms(1) by (rule round_tripsE) blast
  have "io_bind m f (bs @ rest) = (length bs, Ok b, rest)" for rest
    using io_bind_Ok [where m = m and f = f, OF bs(3) [of rest]] assms(2) by (simp add: io_ret_apply)
  with bs(1,2) show ?thesis by (rule round_tripsI)
qed

text \<open>
  What the contract gives a client: encodings are injective and self-delimiting, so that no
  encoding is a proper prefix of another one.
\<close>

locale xdr_codec =
  fixes enc :: "'a \<Rightarrow> unit enc"
    and dec :: "'a dec"
    and valid :: "'a \<Rightarrow> bool"
  assumes law: "valid a \<Longrightarrow> round_trips (enc a) dec a"
begin

lemma prefix_free:
  assumes "valid a" "valid b" and "appends (enc a) bs" "appends (enc b) cs" and "cs = bs @ ds"
  shows "a = b \<and> ds = []"
proof -
  obtain bs' where bs': "appends (enc a) bs'" "\<And>rest. dec (bs' @ rest) = (length bs', Ok a, rest)"
    using law [OF assms(1)] by (auto simp: round_trips_def)
  obtain cs' where cs': "appends (enc b) cs'" "\<And>rest. dec (cs' @ rest) = (length cs', Ok b, rest)"
    using law [OF assms(2)] by (auto simp: round_trips_def)
  have "bs' = bs" "cs' = cs" using appends_unique assms(3,4) bs'(1) cs'(1) by blast+
  then have "dec (bs @ ds) = (length bs, Ok a, ds)" "dec (cs @ []) = (length cs, Ok b, [])"
    using bs'(2) cs'(2) by blast+
  with assms(5) show ?thesis by simp
qed

lemma injective:
  assumes "valid a" "valid b" and "appends (enc a) bs" "appends (enc b) bs"
  shows "a = b"
  using prefix_free [OF assms, of "[]"] by simp

lemma decodes: "valid a \<Longrightarrow> appends (enc a) bs \<Longrightarrow> dec (bs @ rest) = (length bs, Ok a, rest)"
  using law appends_unique unfolding round_trips_def by blast

end

section \<open>The primitive types\<close>

lemma dec_read_append:
  "length bs = k \<Longrightarrow> dec_read fn k (bs @ rest) = (k, Ok bs, rest)"
  by (simp add: dec_read_def ReadFull_def)

lemma io_map_dec_read_append:
  "length bs = k \<Longrightarrow> io_map g (dec_read fn k) (bs @ rest) = (k, Ok (g bs), rest)"
  by (rule io_map_Ok) (rule dec_read_append)

lemma round_trips_be32:
  "round_trips (enc_write fn (be32 v)) (io_map from_be32 (dec_read fn' 4)) v"
  by (rule round_tripsI [of _ "be32 v"])
    (simp_all add: appends_enc_write io_map_dec_read_append)

lemma round_trips_be64:
  "round_trips (enc_write fn (be64 v)) (io_map from_be64 (dec_read fn' 8)) v"
  by (rule round_tripsI [of _ "be64 v"])
    (simp_all add: appends_enc_write io_map_dec_read_append)

interpretation int_codec: xdr_codec EncodeInt DecodeInt "\<lambda>_. True"
  by unfold_locales (simp add: EncodeInt_def DecodeInt_def round_trips_be32)

interpretation uint_codec: xdr_codec EncodeUint DecodeUint "\<lambda>_. True"
  by unfold_locales (simp add: EncodeUint_def DecodeUint_def round_trips_be32)

interpretation hyper_codec: xdr_codec EncodeHyper DecodeHyper "\<lambda>_. True"
  by unfold_locales (simp add: EncodeHyper_def DecodeHyper_def round_trips_be64)

interpretation uhyper_codec: xdr_codec EncodeUhyper DecodeUhyper "\<lambda>_. True"
  by unfold_locales (simp add: EncodeUhyper_def DecodeUhyper_def round_trips_be64)

interpretation float_codec: xdr_codec EncodeFloat DecodeFloat "\<lambda>_. True"
  by unfold_locales (simp add: EncodeFloat_def EncodeUint_def DecodeFloat_def round_trips_be32)

interpretation double_codec: xdr_codec EncodeDouble DecodeDouble "\<lambda>_. True"
  by unfold_locales (simp add: EncodeDouble_def EncodeUhyper_def DecodeDouble_def round_trips_be64)

interpretation bool_codec: xdr_codec EncodeBool DecodeBool "\<lambda>_. True"
  unfolding EncodeBool_def DecodeBool_def
  by unfold_locales (rule round_trips_check [OF int_codec.law], auto)

interpretation enum_codec: xdr_codec "\<lambda>v. EncodeEnum v ok" "DecodeEnum ok" ok for ok
  unfolding EncodeEnum_def DecodeEnum_def
  by unfold_locales (simp add: round_trips_check [OF int_codec.law])

lemmas prim_laws =
  int_codec.law [OF TrueI] uint_codec.law [OF TrueI] hyper_codec.law [OF TrueI]
  uhyper_codec.law [OF TrueI] float_codec.law [OF TrueI] double_codec.law [OF TrueI]
  bool_codec.law [OF TrueI]

end
