(* ===== verification/Xdr_Roundtrip.thy ===== *)
theory Xdr_Roundtrip
  imports Xdr_Codec
begin

text \<open>
  The round trip of the reflective encoder and decoder: decoding into the zero value of a type what
  \<open>encode\<close> wrote for a value of that type gives the value back. The values for which this holds are
  described by the inductive predicate \<open>canon\<close>; the codec contract of theory \<open>Xdr_Codec\<close> composes
  along its rules.
\<close>

section \<open>Opaque data and strings\<close>

text \<open>
  The largest size that \<open>DecodeFixedOpaque\<close> accepts: with its padding it must not exceed
  \<open>math.MaxInt32\<close>, so that the last three sizes below that bound are refused.
\<close>

definition MaxOpaque :: nat where
  "MaxOpaque = 2147483644"

lemma sint_word_of_nat: "n < 2 ^ 31 \<Longrightarrow> sint (word_of_nat n :: i32) = int n"
  by (simp add: signed_of_nat signed_take_bit_int_eq_self)

lemma go_rem_pad: "go_rem (4 - go_rem (int n) 4) 4 = int (pad_len n)"
proof -
  have m: "go_rem (int n) 4 = int (n mod 4)"
    by (cases "n = 0") (simp_all add: go_rem_def zmod_int)
  have "n mod 4 < 4" by simp
  then have "4 - int (n mod 4) = int (4 - n mod 4)" "0 < 4 - n mod 4" by linarith+
  then show ?thesis by (simp add: m go_rem_def pad_len_def zmod_int)
qed


lemma DecodeFixedOpaque_eq:
  assumes "0 < n" "n \<le> MaxOpaque"
  shows "DecodeFixedOpaque (word_of_nat n) =
    io_map (take n) (dec_read ''DecodeFixedOpaque'' (n + pad_len n))"
proof -
  have n31: "n < 2 ^ 31" and np: "n + pad_len n < 2 ^ 31"
    using assms pad_len_less [of n] by (simp_all add: MaxOpaque_def)
  have ne: "(word_of_nat n :: i32) \<noteq> 0"
    using sint_word_of_nat [OF n31] assms(1) by auto
  have "(word_of_int (int n + int (pad_len n)) :: i32) = word_of_nat (n + pad_len n)"
    by simp
  then have "sint (word_of_int (int n + int (pad_len n)) :: i32) = int (n + pad_len n)"
    using sint_word_of_nat [OF np] by simp
  then show ?thesis
    unfolding DecodeFixedOpaque_def
    by (simp add: ne sint_word_of_nat [OF n31] go_rem_pad Let_def io_map_def del: of_nat_add)
qed

text \<open>The size check of the variable-length routines, for a size that passes it.\<close>

definition fits :: "decoder \<Rightarrow> nat \<Rightarrow> bool" where
  "fits d n \<longleftrightarrow> n \<le> MaxInt32 \<and> (maxReadSize d = 0 \<or> n \<le> maxReadSize d)"

lemma unat_length: "n \<le> MaxInt32 \<Longrightarrow> unat (word_of_nat n :: u32) = n"
  by (simp add: unat_of_nat)

lemma not_exceeds_max: "fits d n \<Longrightarrow> \<not> exceeds_max d (word_of_nat n)"
  by (auto simp: fits_def exceeds_max_def unat_length)

lemma round_trips_fixed_opaque:
  assumes "length bs \<le> MaxOpaque"
  shows "round_trips (EncodeFixedOpaque bs) (DecodeFixedOpaque (word_of_nat (length bs))) bs"
proof (cases "bs = []")
  case True
  have "appends (EncodeFixedOpaque []) []"
    using appends_EncodeFixedOpaque [of "[]"] by (simp add: pad_len_def)
  with True show ?thesis
    by (intro round_tripsI [of _ "[]"]) (simp_all add: DecodeFixedOpaque_def io_ret_apply)
next
  case False
  let ?bs = "bs @ replicate (pad_len (length bs)) 0"
  show ?thesis
  proof (rule round_tripsI)
    show "appends (EncodeFixedOpaque bs) ?bs" by (rule appends_EncodeFixedOpaque)
    show "4 dvd length ?bs" by simp
    show "DecodeFixedOpaque (word_of_nat (length bs)) (?bs @ rest) = (length ?bs, Ok bs, rest)" for rest
      using False assms
      by (subst DecodeFixedOpaque_eq) (simp_all add: io_map_dec_read_append del: append_assoc)
  qed
qed

lemma round_trips_opaque:
  assumes "length bs \<le> MaxOpaque" "fits d (length bs)"
  shows "round_trips (EncodeOpaque bs) (DecodeOpaque d) bs"
  unfolding EncodeOpaque_def DecodeOpaque_def
  by (rule round_trips_bind [OF uint_codec.law [OF TrueI]])
    (simp add: not_exceeds_max [OF assms(2)] round_trips_fixed_opaque [OF assms(1)])

lemma round_trips_string:
  assumes "length s \<le> MaxOpaque" "fits d (length s)"
  shows "round_trips (EncodeString s) (DecodeString d) s"
  unfolding EncodeString_def DecodeString_def
proof (rule round_trips_bind [OF uint_codec.law [OF TrueI]])
  have "round_trips (EncodeFixedOpaque (bytes_of_string s))
      (DecodeFixedOpaque (word_of_nat (length s))) (bytes_of_string s)"
    using round_trips_fixed_opaque [of "bytes_of_string s"] assms(1) by simp
  then have "round_trips (EncodeFixedOpaque (bytes_of_string s))
      (io_map string_of_bytes (DecodeFixedOpaque (word_of_nat (length s)))) s"
    by (rule round_trips_map_eq) simp
  then show "round_trips (EncodeFixedOpaque (bytes_of_string s))
      (if exceeds_max d (word_of_nat (length s))
       then io_err (unmarshalError ''DecodeString'' ErrOverflow errMaxSlice
                      (IntVal (uint (word_of_nat (length s) :: u32))) None)
       else io_map string_of_bytes (DecodeFixedOpaque (word_of_nat (length s)))) s"
    by (simp add: not_exceeds_max [OF assms(2)])
qed

interpretation opaque_codec: xdr_codec EncodeOpaque "DecodeOpaque d"
  "\<lambda>bs. length bs \<le> MaxOpaque \<and> fits d (length bs)" for d
  by unfold_locales (simp add: round_trips_opaque)

interpretation string_codec: xdr_codec EncodeString "DecodeString d"
  "\<lambda>s. length s \<le> MaxOpaque \<and> fits d (length s)" for d
  by unfold_locales (simp add: round_trips_string)

section \<open>Canonical values\<close>

text \<open>
  The values that survive the trip: integers of the kinds \<open>int\<close> and \<open>uint\<close> fit in 32 bits (the
  encoder truncates them), variable-length data respects the decoder's limits, pointers are not
  nil, unexported fields (which are not transferred) are zero, map keys are distinct, and there is
  no interface (which cannot be decoded into its zero value). A slice read into a zero value has no
  spare capacity.
\<close>

inductive canon :: "decoder \<Rightarrow> (int \<Rightarrow> string) \<Rightarrow> ty \<Rightarrow> val \<Rightarrow> bool"
  and canon_struct :: "decoder \<Rightarrow> (int \<Rightarrow> string) \<Rightarrow> field list \<Rightarrow> val list \<Rightarrow> bool"
  for d fmt
where
  canon_int: "t \<in> {TInt8, TInt16, TInt32, TInt} \<Longrightarrow> wt t (VInt w) \<Longrightarrow> \<not> overflow_int 32 w \<Longrightarrow>
     canon d fmt t (VInt w)"
| canon_uint: "t \<in> {TUint8, TUint16, TUint32, TUint} \<Longrightarrow> wt t (VUint w) \<Longrightarrow> \<not> overflow_uint 32 w \<Longrightarrow>
     canon d fmt t (VUint w)"
| canon_int64: "canon d fmt TInt64 (VInt w)"
| canon_uint64: "canon d fmt TUint64 (VUint w)"
| canon_bool: "canon d fmt TBool (VBool b)"
| canon_float32: "canon d fmt TFloat32 (VFloat32 w)"
| canon_float64: "canon d fmt TFloat64 (VFloat64 w)"
| canon_string: "length s \<le> MaxOpaque \<Longrightarrow> fits d (length s) \<Longrightarrow> canon d fmt TString (VString s)"
| canon_byte_array: "length bs \<le> MaxOpaque \<Longrightarrow> length bs = n \<Longrightarrow>
     canon d fmt (TArray n TUint8) (VArray (List.map byte_val bs))"
| canon_array: "under t \<noteq> TUint8 \<Longrightarrow> length vs = n \<Longrightarrow> \<forall>v \<in> set vs. canon d fmt t v \<Longrightarrow>
     canon d fmt (TArray n t) (VArray vs)"
| canon_bytes: "length bs \<le> MaxOpaque \<Longrightarrow> fits d (length bs) \<Longrightarrow>
     canon d fmt (TSlice TUint8) (VSlice (List.map byte_val bs) [])"
| canon_slice: "under t \<noteq> TUint8 \<Longrightarrow> fits d (length vs) \<Longrightarrow> \<forall>v \<in> set vs. canon d fmt t v \<Longrightarrow>
     canon d fmt (TSlice t) (VSlice vs [])"
| canon_structI: "nm \<noteq> ''time.Time'' \<Longrightarrow> canon_struct d fmt fs vs \<Longrightarrow>
     canon d fmt (TStruct nm fs) (VStruct vs)"
| canon_map: "length ps < 2 ^ 32 \<Longrightarrow> distinct (List.map fst ps) \<Longrightarrow>
     \<forall>p \<in> set ps. canon d fmt k (fst p) \<and> canon d fmt t (snd p) \<Longrightarrow>
     canon d fmt (TMap k t) (VMap ps)"
| canon_ptr: "canon d fmt t v \<Longrightarrow> canon d fmt (TPtr t) (VPtr (Some v))"
| canon_time: "timeParse d (fmt i) = Inr i \<Longrightarrow> length (fmt i) \<le> MaxOpaque \<Longrightarrow>
     fits d (length (fmt i)) \<Longrightarrow> canon d fmt TTime (VTime i)"
| canon_named: "nm \<noteq> ''time.Time'' \<Longrightarrow> canon d fmt t v \<Longrightarrow> canon d fmt (TNamed nm t) v"
| canon_nil: "canon_struct d fmt [] []"
| canon_unexported: "\<not> field_exported f \<Longrightarrow> canon_struct d fmt fs vs \<Longrightarrow>
     canon_struct d fmt (f # fs) (zero (field_type f) # vs)"
| canon_field: "field_exported f \<Longrightarrow> \<not> field_xdropaque_false f \<Longrightarrow> canon d fmt (field_type f) v \<Longrightarrow>
     canon_struct d fmt fs vs \<Longrightarrow> canon_struct d fmt (f # fs) (v # vs)"
| canon_raw_slice: "field_exported f \<Longrightarrow> field_xdropaque_false f \<Longrightarrow>
     under (field_type f) = TSlice et \<Longrightarrow> fits d (length us) \<Longrightarrow> \<forall>u \<in> set us. canon d fmt et u \<Longrightarrow>
     canon_struct d fmt fs vs \<Longrightarrow> canon_struct d fmt (f # fs) (VSlice us [] # vs)"
| canon_raw_array: "field_exported f \<Longrightarrow> field_xdropaque_false f \<Longrightarrow>
     under (field_type f) = TArray n et \<Longrightarrow> length us = n \<Longrightarrow> \<forall>u \<in> set us. canon d fmt et u \<Longrightarrow>
     canon_struct d fmt fs vs \<Longrightarrow> canon_struct d fmt (f # fs) (VArray us # vs)"

lemma canon_not_time: "canon d fmt t v \<Longrightarrow> type_string t = ''time.Time'' \<Longrightarrow> t = TTime"
  by (cases rule: canon.cases, assumption) auto

lemma encode_under: "encode fmt (under t) v = encode fmt t v"
  by (induction t rule: under.induct) simp_all

lemma zero_under: "zero (under t) = zero t"
  by (induction t rule: under.induct) simp_all

lemma zero_field_eq: "zero_field f = zero (field_type f)"
  by (cases f) simp

section \<open>The decoder without custom types\<close>

text \<open>
  A decoder made by \<open>NewDecoder\<close> or \<open>NewDecoderLimited\<close> has no custom routines.
\<close>

definition plain :: "decoder \<Rightarrow> bool" where
  "plain d \<longleftrightarrow> customTypes d = (\<lambda>_. None)"

lemma plain_NewDecoder [simp]: "plain (NewDecoder tp)"
  by (simp add: plain_def NewDecoder_def)

lemma plain_NewDecoderLimited [simp]: "plain (NewDecoderLimited m tp)"
  by (simp add: plain_def NewDecoderLimited_def)

lemma decode_ptr: "plain d \<Longrightarrow> under t = TPtr p \<Longrightarrow>
    decode d t v = io_map (\<lambda>u. VPtr (Some u)) (decode d p (deref_or_new p v))"
  by (subst decode.simps) (simp add: plain_def)

lemma decode_no_ptr: "plain d \<Longrightarrow> \<not> is_ptr_kind t \<Longrightarrow>
    decode d t v = (if type_string t = ''time.Time'' then decode_time d else decode_kind d (under t) v)"
  by (subst decode.simps) (simp add: plain_def is_ptr_kind_def split: ty.splits)

lemma decode_named:
  assumes "plain d" "nm \<noteq> ''time.Time''" "type_string t = ''time.Time'' \<Longrightarrow> t = TTime"
  shows "decode d (TNamed nm t) v = decode d t v"
proof (cases "is_ptr_kind t")
  case True
  then obtain p where p: "under t = TPtr p" by (auto simp: is_ptr_kind_def split: ty.splits)
  then have "decode d (TNamed nm t) v = io_map (\<lambda>u. VPtr (Some u)) (decode d p (deref_or_new p v))"
    by (intro decode_ptr [OF assms(1)]) simp
  also have "\<dots> = decode d t v" by (rule decode_ptr [OF assms(1) p, symmetric])
  finally show ?thesis .
next
  case False
  then have "\<not> is_ptr_kind (TNamed nm t)" by (simp add: is_ptr_kind_def)
  from decode_no_ptr [OF assms(1) this, of v] decode_no_ptr [OF assms(1) False, of v] assms(2,3)
  show ?thesis by auto
qed

lemma decode_field_plain: "plain d \<Longrightarrow> decode_field d False t v = decode d t v"
proof (induction "size t" arbitrary: t v rule: less_induct)
  case less
  show ?case
  proof (cases "is_ptr_kind t")
    case True
    then obtain p where p: "under t = TPtr p" by (auto simp: is_ptr_kind_def split: ty.splits)
    then have "size p < size t" using under_eq_size [OF p] by simp
    with less p show ?thesis
      by (subst decode_field.simps) (simp add: decode_ptr)
  next
    case False
    then show ?thesis
      by (subst decode_field.simps) (simp add: is_ptr_kind_def split: ty.splits)
  qed
qed

lemmas decode_simple = decode_no_ptr is_ptr_kind_def

section \<open>The round trip\<close>

lemma round_trips_elems:
  assumes "\<forall>v \<in> set vs. round_trips (encode fmt t v) (decode d t (zero t)) v"
  shows "round_trips (encode_elems fmt t vs) (decode_elems d t (replicate (length vs) (zero t))) vs"
  using assms
proof (induction vs)
  case Nil
  show ?case using round_trips_ret [of "[]"] by simp
next
  case (Cons v vs)
  then have v: "round_trips (encode fmt t v) (decode d t (zero t)) v"
    and vs: "round_trips (encode_elems fmt t vs) (decode_elems d t (replicate (length vs) (zero t))) vs"
    by simp_all
  show ?case using round_trips_bind [OF v round_trips_map [OF vs]] by simp
qed

lemma slice_storage_zero: "slice_storage t n [] [] = (replicate n (zero t), [])"
  by (simp add: slice_storage_def)

lemma round_trips_array:
  assumes "fits d (length vs)" and "ign \<or> under t \<noteq> TUint8"
    and "\<forall>v \<in> set vs. round_trips (encode fmt t v) (decode d t (zero t)) v"
  shows "round_trips (encodeArray fmt ign t vs) (decodeArray d ign t [] []) (VSlice vs [])"
proof -
  have n: "unat (word_of_nat (length vs) :: u32) = length vs"
    using assms(1) by (intro unat_length) (simp add: fits_def)
  have "round_trips (encode_elems fmt t vs)
      (io_map (\<lambda>us. VSlice (us @ drop (length vs) (fst (slice_storage t (length vs) [] [])))
                       (snd (slice_storage t (length vs) [] [])))
         (decode_elems d t (take (length vs) (fst (slice_storage t (length vs) [] []))))) (VSlice vs [])"
    using round_trips_elems [OF assms(3)]
    by (intro round_trips_map_eq [where a = vs]) (simp_all add: slice_storage_zero)
  then show ?thesis
    using assms(2) not_exceeds_max [OF assms(1)]
    by (auto intro!: round_trips_bind [OF uint_codec.law [OF TrueI]] simp: n)
qed

lemma round_trips_byte_array:
  assumes "under t = TUint8" "length bs \<le> MaxOpaque" "fits d (length bs)"
  shows "round_trips (encodeArray fmt False t (List.map byte_val bs)) (decodeArray d False t [] [])
           (VSlice (List.map byte_val bs) [])"
  using assms not_exceeds_max [OF assms(3)] round_trips_fixed_opaque [OF assms(2)]
  by (auto simp: comp_def intro!: round_trips_bind [OF uint_codec.law [OF TrueI]] round_trips_map_eq)

lemma map_set_new: "k \<notin> fst ` set ps \<Longrightarrow> map_set k v ps = ps @ [(k, v)]"
  by (induction ps) auto

lemma round_trips_pairs:
  assumes "\<forall>p \<in> set ps. round_trips (encode fmt k (fst p)) (decode d k (zero k)) (fst p) \<and>
             round_trips (encode fmt t (snd p)) (decode d t (zero t)) (snd p)"
    and "distinct (List.map fst (acc @ ps))"
  shows "round_trips (encodeMap fmt k t ps) (decode_pairs d k t (length ps) acc) (acc @ ps)"
  using assms
proof (induction ps arbitrary: acc)
  case Nil
  show ?case using round_trips_ret [of acc] by simp
next
  case (Cons p ps)
  have "map_set (fst p) (snd p) acc = acc @ [p]"
    using Cons.prems(2) by (subst map_set_new) (auto simp: image_iff)
  moreover have "round_trips (encodeMap fmt k t ps) (decode_pairs d k t (length ps) (acc @ [p]))
      ((acc @ [p]) @ ps)"
    using Cons.prems by (intro Cons.IH) auto
  ultimately show ?case
    using Cons.prems(1) by (auto intro!: round_trips_bind)
qed

lemma encode_ptr_chain:
  "canon d fmt t v \<Longrightarrow> \<exists>t' v'. indirect t v = Some (t', v') \<and> encode fmt t' v' = encode fmt t v"
proof (induction "size v" arbitrary: t v rule: less_induct)
  case less
  show ?case
  proof (cases "is_ptr_kind t")
    case False
    then have "indirect t v = Some (t, v)"
      by (subst indirect.simps) (simp add: is_ptr_kind_def split: ty.splits)
    then show ?thesis by blast
  next
    case True
    then obtain p where p: "under t = TPtr p" by (auto simp: is_ptr_kind_def split: ty.splits)
    from less.prems p have "\<exists>u. v = VPtr (Some u) \<and> canon d fmt p u"
      by (induction t rule: under.induct) (auto elim: canon.cases)
    then obtain u where u: "v = VPtr (Some u)" "canon d fmt p u" by blast
    from less.hyps [OF _ u(2)] u(1) obtain t' v'
      where "indirect p u = Some (t', v')" "encode fmt t' v' = encode fmt p u" by auto
    moreover have "indirect t v = indirect p u" by (subst indirect.simps) (simp add: p u)
    moreover have "encode fmt t v = encode fmt p u"
      using encode_under [of fmt t v] by (simp add: p u)
    ultimately show ?thesis by auto
  qed
qed

lemma encode_field_canon:
  "canon d fmt (field_type f) v \<Longrightarrow> \<not> field_xdropaque_false f \<Longrightarrow>
   encode_field fmt f v = encode fmt (field_type f) v"
  by (drule encode_ptr_chain) (auto split: option.splits)

text \<open>A field with the tag \<open>xdropaque:"false"\<close> is transferred element by element.\<close>

lemma raw_field_slice:
  assumes "field_xdropaque_false f" "under (field_type f) = TSlice et"
  shows "encode_field fmt f (VSlice us sp) = encodeArray fmt True et us"
    and "decode_field d True (field_type f) (VSlice us sp) = decodeArray d True et us sp"
  using assms by (subst encode_field.simps, subst indirect.simps, simp)
    (subst decode_field.simps, simp add: assms)

lemma raw_field_array:
  assumes "field_xdropaque_false f" "under (field_type f) = TArray n et"
  shows "encode_field fmt f (VArray us) = encode_elems fmt et us"
    and "decode_field d True (field_type f) (VArray us) = io_map VArray (decode_elems d et us)"
  using assms by (subst encode_field.simps, subst indirect.simps, simp)
    (subst decode_field.simps, simp add: assms)

lemma scast_ucast_32:
  assumes "\<not> overflow_int 32 (w :: i64)"
  shows "(scast (ucast w :: i32) :: i64) = w"
proof -
  have "(ucast w :: i32) = scast w"
    by (rule bit_word_eqI) (auto simp: bit_simps)
  moreover have "sint (scast w :: i32) = signed_take_bit 31 (sint w)"
    by (simp add: signed_scast_eq)
  ultimately have "sint (ucast w :: i32) = sint w"
    using assms by (simp add: signed_take_bit_int_eq_self overflow_int_def)
  then show ?thesis by (simp add: scast_eq)
qed

lemma ucast_ucast_32:
  assumes "\<not> overflow_uint 32 (w :: u64)"
  shows "(ucast (ucast w :: u32) :: u64) = w"
proof -
  have "unat (ucast (ucast w :: u32) :: u64) = unat w"
    using assms by (simp add: overflow_uint_def unsigned_ucast_eq take_bit_eq_mod unat_mod)
  then show ?thesis by (rule unsigned_word_eqI)
qed

lemma round_trips_int_kind:
  assumes "\<not> overflow_int 32 w" "\<not> overflow_int (int_bits t) w"
  shows "round_trips (EncodeInt (ucast w)) (decode_int_kind t) (VInt w)"
  unfolding decode_int_kind_def
  by (rule round_trips_check [OF int_codec.law [OF TrueI]])
    (simp add: scast_ucast_32 [OF assms(1)] assms(2))

lemma round_trips_uint_kind:
  assumes "\<not> overflow_uint 32 w" "\<not> overflow_uint (int_bits t) w"
  shows "round_trips (EncodeUint (ucast w)) (decode_uint_kind t) (VUint w)"
  unfolding decode_uint_kind_def
  by (rule round_trips_check [OF uint_codec.law [OF TrueI]])
    (simp add: ucast_ucast_32 [OF assms(1)] assms(2))

lemma not_overflow_64 [simp]: "\<not> overflow_int 64 w" "\<not> overflow_uint 64 (w' :: u64)"
proof -
  have "- (2 ^ 63) \<le> sint w" "sint w < 2 ^ 63" using sint_ge [of w] sint_lt [of w] by simp_all
  then show "\<not> overflow_int 64 w" by (simp add: overflow_int_def)
  have "unat w' < 2 ^ LENGTH(64)" by (rule unsigned_less)
  then show "\<not> overflow_uint 64 w'" by (simp add: overflow_uint_def)
qed

lemma round_trips_field_cons:
  assumes "field_exported f"
    and "round_trips (encode_field fmt f v)
           (decode_field d (field_xdropaque_false f) (field_type f) (zero (field_type f))) v"
    and "round_trips (encodeStruct fmt fs vs) (decodeStruct d fs (List.map zero_field fs)) vs"
  shows "round_trips (encodeStruct fmt (f # fs) (v # vs))
           (decodeStruct d (f # fs) (List.map zero_field (f # fs))) (v # vs)"
proof -
  have "round_trips (io_bind (encode_field fmt f v) (\<lambda>_. encodeStruct fmt fs vs))
      (io_bind (decode_field d (field_xdropaque_false f) (field_type f) (zero (field_type f)))
        (\<lambda>u. io_map (\<lambda>us. u # us) (decodeStruct d fs (List.map zero_field fs)))) (v # vs)"
    by (rule round_trips_bind [OF assms(2)]) (rule round_trips_map [OF assms(3)])
  then show ?thesis using assms(1) by (simp add: zero_field_eq del: encode_field.simps)
qed

lemma canon_round_trips_aux:
  assumes "plain d"
  shows "canon d fmt t v \<Longrightarrow> round_trips (encode fmt t v) (decode d t (zero t)) v"
    and "canon_struct d fmt fs vs \<Longrightarrow>
      round_trips (encodeStruct fmt fs vs) (decodeStruct d fs (List.map zero_field fs)) vs"
proof (induction rule: canon_canon_struct.inducts)
  case (canon_int t w)
  then show ?case using assms by (auto simp: decode_simple intro!: round_trips_int_kind)
next
  case (canon_uint t w)
  then show ?case using assms by (auto simp: decode_simple intro!: round_trips_uint_kind)
next
  case (canon_int64 w)
  show ?case using assms by (simp add: decode_simple round_trips_map prim_laws)
next
  case (canon_uint64 w)
  show ?case using assms by (simp add: decode_simple round_trips_map prim_laws)
next
  case (canon_bool b)
  show ?case using assms by (simp add: decode_simple round_trips_map prim_laws)
next
  case (canon_float32 w)
  show ?case using assms by (simp add: decode_simple round_trips_map prim_laws)
next
  case (canon_float64 w)
  show ?case using assms by (simp add: decode_simple round_trips_map prim_laws)
next
  case (canon_string s)
  then show ?case using assms by (simp add: decode_simple round_trips_map round_trips_string)
next
  case (canon_byte_array bs n)
  then show ?case using assms round_trips_fixed_opaque [of bs]
    by (auto simp: decode_simple comp_def intro!: round_trips_check)
next
  case (canon_array t vs n)
  then show ?case using assms round_trips_elems [of vs fmt t d]
    by (auto simp: decode_simple intro!: round_trips_map_eq)
next
  case (canon_bytes bs)
  then show ?case using assms round_trips_byte_array [of TUint8 bs d fmt]
    by (simp add: decode_simple)
next
  case (canon_slice t vs)
  then show ?case using assms round_trips_array [of d vs False t fmt]
    by (simp add: decode_simple)
next
  case (canon_structI nm fs vs)
  then show ?case using assms by (simp add: decode_simple round_trips_map)
next
  case (canon_map ps k t)
  then have "round_trips (encodeMap fmt k t ps) (decode_pairs d k t (length ps) []) ([] @ ps)"
    by (intro round_trips_pairs) auto
  then have "round_trips (encodeMap fmt k t ps) (io_map VMap (decode_pairs d k t (length ps) [])) (VMap ps)"
    by (intro round_trips_map) simp
  moreover have "unat (word_of_nat (length ps) :: u32) = length ps"
    using canon_map(1) by (simp add: unat_of_nat)
  ultimately show ?case using assms
    by (auto simp: decode_simple intro!: round_trips_bind [OF uint_codec.law [OF TrueI]])
next
  case (canon_ptr t v)
  then show ?case using assms by (auto simp: decode_ptr deref_or_new_def intro: round_trips_map_eq)
next
  case (canon_time i)
  have "round_trips (EncodeString (fmt i)) (DecodeString d) (fmt i)"
    using canon_time by (intro round_trips_string)
  then have "round_trips (EncodeString (fmt i)) (decode_time d) (VTime i)"
    unfolding decode_time_def by (rule round_trips_check) (simp add: canon_time)
  then show ?case using assms by (simp add: decode_simple)
next
  case (canon_named nm t v)
  then show ?case using decode_named [OF assms, of nm t] canon_not_time [of d fmt t v] by simp
next
  case canon_nil
  show ?case using round_trips_ret [of "[]"] by simp
next
  case (canon_unexported f fs vs)
  then show ?case by (auto simp: zero_field_eq intro: round_trips_map_eq)
next
  case (canon_field f v fs vs)
  then have "round_trips (encode_field fmt f v)
      (decode_field d (field_xdropaque_false f) (field_type f) (zero (field_type f))) v"
    by (simp add: encode_field_canon decode_field_plain [OF assms] del: encode_field.simps)
  with canon_field show ?case by (blast intro: round_trips_field_cons)
next
  case (canon_raw_slice f et us fs vs)
  then have z: "zero (field_type f) = VSlice [] []" using zero_under [of "field_type f"] by simp
  have "round_trips (encodeArray fmt True et us) (decodeArray d True et [] []) (VSlice us [])"
    using canon_raw_slice by (intro round_trips_array) auto
  then have "round_trips (encode_field fmt f (VSlice us []))
      (decode_field d (field_xdropaque_false f) (field_type f) (zero (field_type f))) (VSlice us [])"
    using canon_raw_slice.hyps by (simp add: raw_field_slice z del: encode_field.simps encodeArray.simps decodeArray.simps)
  with canon_raw_slice show ?case by (blast intro: round_trips_field_cons)
next
  case (canon_raw_array f n et us fs vs)
  then have z: "zero (field_type f) = VArray (replicate n (zero et))"
    using zero_under [of "field_type f"] by simp
  have "round_trips (encode_elems fmt et us) (decode_elems d et (replicate n (zero et))) us"
    using canon_raw_array round_trips_elems [of us fmt et d] by auto
  then have "round_trips (encode_field fmt f (VArray us))
      (decode_field d (field_xdropaque_false f) (field_type f) (zero (field_type f))) (VArray us)"
    using canon_raw_array.hyps by (simp add: raw_field_array z round_trips_map del: encode_field.simps)
  with canon_raw_array show ?case by (blast intro: round_trips_field_cons)
qed

end
