(* ===== verification/Xdr_Laws.thy ===== *)
theory Xdr_Laws
  imports Xdr_Roundtrip
begin

text \<open>
  What the XDR routines promise on every input: they account for each byte that they transfer, a
  successful call moves whole words, the decoder's result depends only on the bytes that it
  consumed, the caps on variable-length data hold, and the result of decoding has the type of the
  target. The laws on transferred bytes are interpretations of two locales, \<open>decode_invariant\<close>
  and \<open>encode_invariant\<close>, in which one induction over the calls of the reflective routines carries
  every predicate that the primitive routines satisfy.
\<close>

section \<open>Invariants of decoding\<close>

locale decode_invariant = io_additive P
  for P :: "byte list \<Rightarrow> nat \<Rightarrow> bool \<Rightarrow> byte list \<Rightarrow> bool" +
  assumes P_word: "io_all P (dec_read fn 4)"
    and P_dword: "io_all P (dec_read fn 8)"
    and P_opaque: "io_all P (DecodeFixedOpaque sz)"
begin

lemma all_int: "io_all P DecodeInt"
  unfolding DecodeInt_def by (intro all_map P_word)

lemma all_uint: "io_all P DecodeUint"
  unfolding DecodeUint_def by (intro all_map P_word)

lemma all_hyper: "io_all P DecodeHyper"
  unfolding DecodeHyper_def by (intro all_map P_dword)

lemma all_uhyper: "io_all P DecodeUhyper"
  unfolding DecodeUhyper_def by (intro all_map P_dword)

lemma all_float: "io_all P DecodeFloat"
  unfolding DecodeFloat_def by (intro all_map P_word)

lemma all_double: "io_all P DecodeDouble"
  unfolding DecodeDouble_def by (intro all_map P_dword)

lemma all_enum: "io_all P (DecodeEnum ok)"
  unfolding DecodeEnum_def by (auto intro!: all_intros all_int)

lemma all_bool: "io_all P DecodeBool"
  unfolding DecodeBool_def by (auto intro!: all_intros all_int)

lemma all_var_opaque: "io_all P (DecodeOpaque d)"
  unfolding DecodeOpaque_def by (auto intro!: all_intros all_uint P_opaque)

lemma all_string: "io_all P (DecodeString d)"
  unfolding DecodeString_def by (auto intro!: all_intros all_uint P_opaque)

lemma all_time: "io_all P (decode_time d)"
  unfolding decode_time_def by (auto intro!: all_intros all_string split: sum.splits)

lemma all_int_kind: "io_all P (decode_int_kind t)"
  unfolding decode_int_kind_def by (auto intro!: all_intros all_int)

lemma all_uint_kind: "io_all P (decode_uint_kind t)"
  unfolding decode_uint_kind_def by (auto intro!: all_intros all_uint)

lemmas prim_intros = all_intros all_int all_uint all_hyper all_uhyper all_float all_double
  all_enum all_bool P_opaque all_string all_time all_int_kind all_uint_kind

lemma all_decode:
  "(\<And>nm dt. customTypes d nm = Some dt \<Longrightarrow> io_all P dt) \<Longrightarrow> io_all P (decode d t v)"
  "(\<And>nm dt. customTypes d nm = Some dt \<Longrightarrow> io_all P dt) \<Longrightarrow> io_all P (decode_kind d t v)"
  "(\<And>nm dt. customTypes d nm = Some dt \<Longrightarrow> io_all P dt) \<Longrightarrow> io_all P (decode_elems d t vs)"
  "(\<And>nm dt. customTypes d nm = Some dt \<Longrightarrow> io_all P dt) \<Longrightarrow> io_all P (decodeFixedArray d ign t vs)"
  "(\<And>nm dt. customTypes d nm = Some dt \<Longrightarrow> io_all P dt) \<Longrightarrow> io_all P (decodeArray d ign t vs sp)"
  "(\<And>nm dt. customTypes d nm = Some dt \<Longrightarrow> io_all P dt) \<Longrightarrow> io_all P (decodeStruct d fs vs)"
  "(\<And>nm dt. customTypes d nm = Some dt \<Longrightarrow> io_all P dt) \<Longrightarrow> io_all P (decode_field d raw t v)"
  "(\<And>nm dt. customTypes d nm = Some dt \<Longrightarrow> io_all P dt) \<Longrightarrow> io_all P (decode_pairs d k t n ps)"
  "(\<And>nm dt. customTypes d nm = Some dt \<Longrightarrow> io_all P dt) \<Longrightarrow> io_all P (decodeInterface d x)"
proof (induction d t v and d t v and d t vs and d ign t vs and d ign t vs sp and d fs vs
    and d raw t v and d k t n ps and d x
    rule: decode_decode_kind_decode_elems_decodeFixedArray_decodeArray_decodeStruct_decode_field_decode_pairs_decodeInterface.induct)
  case (1 d t v)
  then show ?case
    by (subst decode.simps) (auto intro!: prim_intros split: ty.splits option.splits)
next
  case (31 d raw t v)
  then show ?case
    by (subst decode_field.simps) (auto intro!: prim_intros split: ty.splits val.splits)
qed (auto intro!: prim_intros split: ty.splits val.splits list.splits option.splits)

end

section \<open>Fixed-length opaque data\<close>

text \<open>
  \<open>DecodeFixedOpaque\<close> on every size: the sizes above \<open>MaxOpaque\<close> overflow when they are padded, the
  sizes -3, -2 and -1 are padded to zero and then fail the slicing, and smaller ones are refused.
\<close>

definition err_fixed_size :: "int \<Rightarrow> error" where
  "err_fixed_size n =
     unmarshalError ''DecodeFixedOpaque'' ErrOverflow errMaxSlice (IntVal n) None"

lemma go_rem_neg: "n < 0 \<Longrightarrow> go_rem (4 - go_rem n 4) 4 = (- n) mod 4"
proof -
  assume "n < 0"
  then have "go_rem n 4 = - ((- n) mod 4)" by (simp add: go_rem_def)
  moreover have "0 \<le> (- n) mod 4" "(- n) mod 4 < 4" by simp_all
  ultimately show ?thesis by (simp add: go_rem_def)
qed

lemma sint_i32_range: "- (2 ^ 31) \<le> sint (w :: i32)" "sint (w :: i32) < 2 ^ 31"
  using sint_ge [of w] sint_lt [of w] by simp_all

lemma sint_word_of_int_range:
  "- (2 ^ 31) \<le> n \<Longrightarrow> n < 2 ^ 31 \<Longrightarrow> sint (word_of_int n :: i32) = n"
  by (simp add: signed_of_int signed_take_bit_int_eq_self)

lemma DecodeFixedOpaque_neg:
  assumes "sint sz < 0"
  shows "DecodeFixedOpaque sz =
    (if sint sz < - 3 then io_err (err_fixed_size (sint sz + (- sint sz) mod 4)) else
     io_bind (dec_read ''DecodeFixedOpaque'' 0) (\<lambda>_. io_panic))"
proof -
  have ne: "sz \<noteq> 0" using assms by auto
  let ?p = "sint sz + (- sint sz) mod 4"
  have m: "0 \<le> (- sint sz) mod 4" "(- sint sz) mod 4 < 4" by simp_all
  have "sint (word_of_int ?p :: i32) = ?p"
    using sint_i32_range [of sz] assms m by (intro sint_word_of_int_range) (linarith, simp)
  moreover have "?p < 0 \<longleftrightarrow> sint sz < - 3" using assms by presburger
  moreover have "?p \<le> 0" using assms by presburger
  ultimately show ?thesis
    using assms ne
    by (auto simp: DecodeFixedOpaque_def Let_def go_rem_neg err_fixed_size_def simp del: of_int_add)
qed

lemma DecodeFixedOpaque_large:
  assumes "int MaxOpaque < sint sz"
  shows "DecodeFixedOpaque sz = io_err (err_fixed_size (- (2 ^ 31)))"
proof -
  have sz: "sint sz \<in> {2147483645, 2147483646, 2147483647}"
    using assms sint_i32_range [of sz] by (auto simp: MaxOpaque_def)
  then have "sint sz + go_rem (4 - go_rem (sint sz) 4) 4 = 2147483648"
    by (auto simp: go_rem_def)
  moreover have "sz \<noteq> 0" using sz by auto
  moreover have "sint (word_of_int 2147483648 :: i32) = - 2147483648" by simp
  ultimately show ?thesis
    by (simp add: DecodeFixedOpaque_def Let_def err_fixed_size_def del: of_int_add)
qed

lemma DecodeFixedOpaque_ok:
  assumes "0 < sint sz" "sint sz \<le> int MaxOpaque"
  shows "DecodeFixedOpaque sz = io_map (take (nat (sint sz)))
    (dec_read ''DecodeFixedOpaque'' (nat (sint sz) + pad_len (nat (sint sz))))"
proof -
  have "word_of_nat (nat (sint sz)) = sz" using assms(1) by simp
  with assms show ?thesis using DecodeFixedOpaque_eq [of "nat (sint sz)"] assms by simp
qed

section \<open>Accounting, alignment and locality of decoding\<close>

definition consumes :: "byte list \<Rightarrow> nat \<Rightarrow> bool \<Rightarrow> byte list \<Rightarrow> bool" where
  "consumes s n ok s1 \<longleftrightarrow> n \<le> length s \<and> s1 = drop n s"

definition aligned :: "'s \<Rightarrow> nat \<Rightarrow> bool \<Rightarrow> 's \<Rightarrow> bool" where
  "aligned s n ok s1 \<longleftrightarrow> (ok \<longrightarrow> 4 dvd n)"

lemma sint_0D: "sint (w :: i32) = 0 \<Longrightarrow> w = 0"
proof -
  assume "sint w = 0"
  then have "word_of_int (sint w) = (0 :: i32)" by (simp only: of_int_0)
  then show ?thesis by simp
qed

lemma dec_read_run:
  "dec_read fn k s = (n, r, s1) \<Longrightarrow> n \<le> length s \<and> s1 = drop n s \<and> (is_Ok r \<longrightarrow> n = k)"
  by (auto simp: dec_read_def ReadFull_def split: if_splits)

interpretation consumes_additive: io_additive consumes
  by unfold_locales (auto simp: consumes_def add.commute)

lemma consumes_read: "io_all consumes (dec_read fn k)"
  by (rule io_allI) (use dec_read_run in \<open>force simp: consumes_def\<close>)

interpretation consumption: decode_invariant consumes
proof unfold_locales
  show "io_all consumes (DecodeFixedOpaque sz)" for sz
    unfolding DecodeFixedOpaque_def Let_def
    by (auto intro!: consumes_additive.all_intros consumes_read)
qed (rule consumes_read)+

interpretation aligned_additive: io_additive aligned
  by unfold_locales (auto simp: aligned_def)

lemma aligned_read: "4 dvd k \<Longrightarrow> io_all aligned (dec_read fn k)"
  by (rule io_allI) (use dec_read_run in \<open>force simp: aligned_def\<close>)

interpretation alignment: decode_invariant aligned
proof unfold_locales
  fix sz :: i32
  consider "sint sz = 0" | "sint sz < 0" | "int MaxOpaque < sint sz"
    | "0 < sint sz" "sint sz \<le> int MaxOpaque" by linarith
  then show "io_all aligned (DecodeFixedOpaque sz)"
  proof cases
    case 1
    then have "sz = 0" by (rule sint_0D)
    then show ?thesis by (simp add: DecodeFixedOpaque_def aligned_additive.all_ret)
  next
    case 2
    then show ?thesis
      by (auto simp: DecodeFixedOpaque_neg intro!: aligned_additive.all_intros aligned_read)
  next
    case 3
    then show ?thesis by (simp add: DecodeFixedOpaque_large aligned_additive.all_err)
  next
    case 4
    then show ?thesis
      by (auto simp: DecodeFixedOpaque_ok intro!: aligned_additive.all_map aligned_read)
  qed
qed (simp_all add: aligned_read)

lemma local_dec_read: "io_local (dec_read fn k)"
  by (auto simp: io_local_def dec_read_def ReadFull_def split: if_splits)

lemma local_prims:
  "io_local DecodeInt" "io_local DecodeUint" "io_local DecodeHyper" "io_local DecodeUhyper"
  "io_local DecodeFloat" "io_local DecodeDouble"
  unfolding DecodeInt_def DecodeUint_def DecodeHyper_def DecodeUhyper_def DecodeFloat_def
    DecodeDouble_def
  by (intro io_local_map local_dec_read)+

lemma local_bool: "io_local DecodeBool"
  unfolding DecodeBool_def by (auto intro!: io_local_intros local_prims)

lemma local_opaque: "io_local (DecodeFixedOpaque sz)"
  unfolding DecodeFixedOpaque_def Let_def by (auto intro!: io_local_intros local_dec_read)

lemma local_string: "io_local (DecodeString d)"
  unfolding DecodeString_def by (auto intro!: io_local_intros local_prims local_opaque)

lemma local_time: "io_local (decode_time d)"
  unfolding decode_time_def by (auto intro!: io_local_intros local_string split: sum.splits)

lemma local_kinds: "io_local (decode_int_kind t)" "io_local (decode_uint_kind t)"
  unfolding decode_int_kind_def decode_uint_kind_def
  by (auto intro!: io_local_intros local_prims)

lemmas local_intros = io_local_intros local_prims local_bool local_opaque local_string local_time
  local_kinds

lemma local_decode:
  "(\<And>nm dt. customTypes d nm = Some dt \<Longrightarrow> io_local dt) \<Longrightarrow> io_local (decode d t v)"
  "(\<And>nm dt. customTypes d nm = Some dt \<Longrightarrow> io_local dt) \<Longrightarrow> io_local (decode_kind d t v)"
  "(\<And>nm dt. customTypes d nm = Some dt \<Longrightarrow> io_local dt) \<Longrightarrow> io_local (decode_elems d t vs)"
  "(\<And>nm dt. customTypes d nm = Some dt \<Longrightarrow> io_local dt) \<Longrightarrow> io_local (decodeFixedArray d ign t vs)"
  "(\<And>nm dt. customTypes d nm = Some dt \<Longrightarrow> io_local dt) \<Longrightarrow> io_local (decodeArray d ign t vs sp)"
  "(\<And>nm dt. customTypes d nm = Some dt \<Longrightarrow> io_local dt) \<Longrightarrow> io_local (decodeStruct d fs vs)"
  "(\<And>nm dt. customTypes d nm = Some dt \<Longrightarrow> io_local dt) \<Longrightarrow> io_local (decode_field d raw t v)"
  "(\<And>nm dt. customTypes d nm = Some dt \<Longrightarrow> io_local dt) \<Longrightarrow> io_local (decode_pairs d k t n ps)"
  "(\<And>nm dt. customTypes d nm = Some dt \<Longrightarrow> io_local dt) \<Longrightarrow> io_local (decodeInterface d x)"
proof (induction d t v and d t v and d t vs and d ign t vs and d ign t vs sp and d fs vs
    and d raw t v and d k t n ps and d x
    rule: decode_decode_kind_decode_elems_decodeFixedArray_decodeArray_decodeStruct_decode_field_decode_pairs_decodeInterface.induct)
  case (1 d t v)
  then show ?case
    by (subst decode.simps) (auto intro!: local_intros split: ty.splits option.splits)
next
  case (31 d raw t v)
  then show ?case
    by (subst decode_field.simps) (auto intro!: local_intros split: ty.splits val.splits)
qed (auto intro!: local_intros split: ty.splits val.splits list.splits option.splits)

section \<open>Invariants of encoding\<close>

locale encode_invariant = io_additive P
  for P :: "writer \<Rightarrow> nat \<Rightarrow> bool \<Rightarrow> writer \<Rightarrow> bool" +
  assumes P_word: "io_all P (enc_write fn (be32 v))"
    and P_dword: "io_all P (enc_write fn (be64 u))"
    and P_opaque: "io_all P (EncodeFixedOpaque bs)"
begin

lemma all_int: "io_all P (EncodeInt v)"
  unfolding EncodeInt_def by (rule P_word)

lemma all_uint: "io_all P (EncodeUint v)"
  unfolding EncodeUint_def by (rule P_word)

lemma all_bool: "io_all P (EncodeBool b)"
  unfolding EncodeBool_def by (rule all_int)

lemma all_hyper: "io_all P (EncodeHyper u)"
  unfolding EncodeHyper_def by (rule P_dword)

lemma all_uhyper: "io_all P (EncodeUhyper u)"
  unfolding EncodeUhyper_def by (rule P_dword)

lemma all_float: "io_all P (EncodeFloat v)"
  unfolding EncodeFloat_def by (rule all_uint)

lemma all_double: "io_all P (EncodeDouble u)"
  unfolding EncodeDouble_def by (rule all_uhyper)

lemma all_string: "io_all P (EncodeString s)"
  unfolding EncodeString_def by (intro all_bind all_uint P_opaque)

lemmas enc_intros = all_intros all_int all_uint all_bool all_hyper all_uhyper all_float all_double
  all_string P_opaque

lemma all_encode:
  "io_all P (encode fmt t v)" "io_all P (encode_elems fmt t vs)"
  "io_all P (encodeFixedArray fmt ign t vs)" "io_all P (encodeArray fmt ign t vs)"
  "io_all P (encodeStruct fmt fs vs)" "io_all P (encode_field fmt f v)"
  "io_all P (encodeMap fmt k t ps)" "io_all P (encodeInterface fmt x)"
proof (induction fmt t v and fmt t vs and fmt ign t vs and fmt ign t vs and fmt fs vs
    and fmt f v and fmt k t ps and fmt x
    rule: encode_encode_elems_encodeFixedArray_encodeArray_encodeStruct_encode_field_encodeMap_encodeInterface.induct)
  case (29 fmt f fs vs)
  then show ?case
    by (auto intro!: enc_intros split: list.splits simp del: encode_field.simps)
qed (auto intro!: enc_intros split: ty.splits val.splits list.splits option.splits)

end

text \<open>
  The writer after a call: what was written is the old contents and exactly the counted bytes, and
  a writer with limited room has lost as much.
\<close>

definition produces :: "writer \<Rightarrow> nat \<Rightarrow> bool \<Rightarrow> writer \<Rightarrow> bool" where
  "produces w n ok w1 \<longleftrightarrow>
     (\<exists>bs. written w1 = written w @ bs \<and> length bs = n) \<and>
     room w1 = map_option (\<lambda>r. r - n) (room w) \<and> (\<forall>r. room w = Some r \<longrightarrow> n \<le> r) \<and>
     (room w = None \<longrightarrow> room w1 = None)"

interpretation produces_additive: io_additive produces
proof
  show "produces w 0 ok w" for w ok
    by (auto simp: produces_def option.map_ident)
  fix w w1 w2 :: writer and n n2 ok
  assume "produces w n True w1" "produces w1 n2 ok w2"
  then show "produces w (n + n2) ok w2"
    by (cases "room w") (force simp: produces_def)+
qed

lemma produces_seq:
  "produces w n ok w1 \<Longrightarrow> produces w1 n2 ok' w2 \<Longrightarrow> produces w (n + n2) ok2 w2"
  using produces_additive.P_trans [of w n w1 n2 ok2 w2] by (simp add: produces_def)

lemma produces_any: "produces w n ok w1 \<Longrightarrow> produces w n ok2 w1"
  by (simp add: produces_def)

lemma produces_Write: "Write b w = (n, e, w1) \<Longrightarrow> produces w n ok w1 \<and> (e = None \<longrightarrow> n = length b)"
  by (auto simp: Write_def produces_def split: option.splits if_splits)

lemma produces_enc_write: "io_all produces (enc_write fn b)"
  by (rule io_allI) (auto simp: enc_write_def produces_Write split: prod.splits option.splits)

interpretation production: encode_invariant produces
proof unfold_locales
  show "io_all produces (EncodeFixedOpaque bs)" for bs
  proof (rule io_allI)
    fix w n r w1 assume "EncodeFixedOpaque bs w = (n, r, w1)"
    then show "produces w n (is_Ok r) w1"
      by (auto simp: EncodeFixedOpaque_def Let_def split: prod.splits option.splits if_splits
          dest!: produces_Write [where ok = True] intro: produces_seq produces_any)
  qed
qed (rule produces_enc_write)+

lemma aligned_enc_write: "4 dvd length b \<Longrightarrow> io_all aligned (enc_write fn b)"
  by (rule io_allI)
    (auto simp: enc_write_def aligned_def dest!: produces_Write split: prod.splits option.splits)

interpretation enc_alignment: encode_invariant aligned
proof unfold_locales
  show "io_all aligned (EncodeFixedOpaque bs)" for bs
  proof (rule io_allI)
    fix w n r w1 assume run: "EncodeFixedOpaque bs w = (n, r, w1)"
    show "aligned w n (is_Ok r) w1"
    proof (cases "pad_len (length bs) = 0")
      case True
      then show ?thesis using run dvd_pad_len [of "length bs"]
        by (auto simp: EncodeFixedOpaque_def Let_def aligned_def pad_len_def
            dest!: produces_Write split: prod.splits option.splits)
    next
      case False
      then show ?thesis using run dvd_pad_len [of "length bs"]
        by (auto simp: EncodeFixedOpaque_def Let_def aligned_def pad_len_def
            dest!: produces_Write split: prod.splits option.splits)
    qed
  qed
qed (auto simp: aligned_enc_write aligned_def)

section \<open>Type soundness of decoding\<close>

text \<open>
  Types whose fixed arrays have a length that \<open>int32\<close> can hold (larger byte arrays are read with a
  truncated, possibly negative, length) and do not have elements of a defined byte type, and of
  which none takes the name \<open>time.Time\<close>, which the decoder recognises by its text.
\<close>

fun wf_ty :: "ty \<Rightarrow> bool"
  and wf_field :: "field \<Rightarrow> bool" where
  "wf_ty (TArray n t) = (n \<le> MaxInt32 \<and> wf_ty t \<and> (under t = TUint8 \<longrightarrow> t = TUint8))"
| "wf_ty (TSlice t) = wf_ty t"
| "wf_ty (TStruct nm fs) = (nm \<noteq> ''time.Time'' \<and> list_all wf_field fs)"
| "wf_ty (TMap k t) = (wf_ty k \<and> wf_ty t)"
| "wf_ty (TPtr t) = wf_ty t"
| "wf_ty (TNamed nm t) = (nm \<noteq> ''time.Time'' \<and> wf_ty t)"
| "wf_ty (TOther k) = (k \<noteq> ''time.Time'')"
| "wf_ty _ = True"
| "wf_field (Field ex op t) = wf_ty t"

lemma wf_field_type: "wf_field f \<longleftrightarrow> wf_ty (field_type f)"
  by (cases f) simp

lemma wf_under: "wf_ty t \<Longrightarrow> wf_ty (under t)"
  by (induction t rule: under.induct) simp_all

lemma under_not_named: "under t \<noteq> TNamed nm u"
  by (induction t rule: under.induct) simp_all

lemma wf_time: "wf_ty t \<Longrightarrow> type_string t = ''time.Time'' \<Longrightarrow> t = TTime"
  by (cases t) simp_all

lemma post_read: "io_post (\<lambda>b. length b = k) (dec_read fn k)"
  by (simp add: io_post_def dec_read_def ReadFull_def)

lemma post_fixed_opaque:
  assumes "0 \<le> sint sz"
  shows "io_post (\<lambda>bs. length bs = nat (sint sz)) (DecodeFixedOpaque sz)"
proof -
  consider "sz = 0" | "int MaxOpaque < sint sz" | "0 < sint sz" "sint sz \<le> int MaxOpaque"
    using assms sint_0D [of sz] by linarith
  then show ?thesis
  proof cases
    case 1
    then show ?thesis by (auto simp: DecodeFixedOpaque_def)
  next
    case 2
    then show ?thesis by (auto simp: DecodeFixedOpaque_large)
  next
    case 3
    then show ?thesis
      by (auto simp: DecodeFixedOpaque_ok intro!: io_post_map io_post_weaken [OF post_read])
  qed
qed

lemma post_prim: "io_post (\<lambda>_. True) (dec_read fn k)"
  by (rule io_post_weaken [OF post_read]) simp

lemma post_prims:
  "io_post (\<lambda>_. True) DecodeInt" "io_post (\<lambda>_. True) DecodeUint" "io_post (\<lambda>_. True) DecodeHyper"
  "io_post (\<lambda>_. True) DecodeUhyper" "io_post (\<lambda>_. True) DecodeFloat" "io_post (\<lambda>_. True) DecodeDouble"
  unfolding DecodeInt_def DecodeUint_def DecodeHyper_def DecodeUhyper_def DecodeFloat_def
    DecodeDouble_def
  by (intro io_post_map post_prim)+

lemma post_bool: "io_post (\<lambda>_. True) DecodeBool"
  unfolding DecodeBool_def by (auto intro!: io_post_bind [OF post_prims(1)])

lemma sint_not_exceeds: "\<not> exceeds_max d n \<Longrightarrow> 0 \<le> sint n \<and> nat (sint n) = unat n"
  using sint_word_of_nat [of "unat n"] by (simp add: exceeds_max_def)

lemma post_string: "io_post (\<lambda>s. length s \<le> MaxInt32 \<and> (maxReadSize d \<noteq> 0 \<longrightarrow> length s \<le> maxReadSize d))
    (DecodeString d)"
  unfolding DecodeString_def
proof (rule io_post_bind [OF post_prims(2)])
  fix n :: u32
  show "io_post (\<lambda>s. length s \<le> MaxInt32 \<and> (maxReadSize d \<noteq> 0 \<longrightarrow> length s \<le> maxReadSize d))
     (if exceeds_max d n then io_err (unmarshalError ''DecodeString'' ErrOverflow errMaxSlice
                      (IntVal (uint n)) None)
      else io_map string_of_bytes (DecodeFixedOpaque n))"
    using sint_not_exceeds [of d n]
    by (auto intro!: io_post_map io_post_weaken [OF post_fixed_opaque] simp: exceeds_max_def)
qed

lemma post_time: "io_post (wt TTime) (decode_time d)"
  unfolding decode_time_def
  by (rule io_post_bind [OF post_string]) (auto split: sum.splits)

lemma post_int_kind:
  "t \<in> {TInt8, TInt16, TInt32, TInt} \<Longrightarrow> io_post (wt t) (decode_int_kind t)"
  unfolding decode_int_kind_def by (rule io_post_bind [OF post_prims(1)]) auto

lemma post_uint_kind:
  "t \<in> {TUint8, TUint16, TUint32, TUint} \<Longrightarrow> io_post (wt t) (decode_uint_kind t)"
  unfolding decode_uint_kind_def by (rule io_post_bind [OF post_prims(2)]) auto

lemma wt_byte: "under t = TUint8 \<Longrightarrow> wt t (byte_val b)"
  using wt_byte_val wt_under [of t] by metis

lemma wt_list_bytes: "under t = TUint8 \<Longrightarrow> wt_list t (List.map byte_val bs)"
  by (auto simp: wt_list_iff wt_byte)

lemma wt_list_storage:
  assumes "wt_list t vs" "wt_list t sp"
  shows "wt_list t (fst (slice_storage t n vs sp))" "wt_list t (snd (slice_storage t n vs sp))"
  using assms by (simp_all add: slice_storage_def)

lemma ifaces_storage_0:
  "\<forall>v \<in> set vs. ifaces v = 0 \<Longrightarrow> \<forall>v \<in> set sp. ifaces v = 0 \<Longrightarrow>
   v \<in> set (take n (fst (slice_storage t n vs sp))) \<Longrightarrow> ifaces v = 0"
  by (auto simp: slice_storage_def dest!: in_set_takeD split: if_splits)

lemma wt_pairs_map_set: "wt k a \<Longrightarrow> wt t b \<Longrightarrow> wt_pairs k t ps \<Longrightarrow> wt_pairs k t (map_set a b ps)"
  by (induction a b ps rule: map_set.induct) auto

lemma wt_ptr:
  "under t = TPtr p \<Longrightarrow> wt t v \<longleftrightarrow> v = VPtr None \<or> (\<exists>u. v = VPtr (Some u) \<and> wt p u)"
  using wt_under [of t v] by (auto simp del: wt_under split: val.splits option.splits)

lemma wt_deref: "under t = TPtr p \<Longrightarrow> wt t v \<Longrightarrow> wt p (deref_or_new p v)"
  by (auto simp: wt_ptr deref_or_new_def)

lemma ifaces_deref_0: "ifaces v = 0 \<Longrightarrow> ifaces (deref_or_new p v) = 0"
  using ifaces_deref [of p v] by simp

lemma ifaces_None_iff: "ifaces (VIface x) = 0 \<longleftrightarrow> x = None"
  by (cases x) auto

lemmas post_any = io_post_weaken [OF post_prims(1)] io_post_weaken [OF post_prims(2)]
  io_post_weaken [OF post_prims(3)] io_post_weaken [OF post_prims(4)]
  io_post_weaken [OF post_prims(5)] io_post_weaken [OF post_prims(6)]
  io_post_weaken [OF post_bool] io_post_weaken [OF post_string]

lemmas post_intros = io_post_map io_post_err io_post_ret post_any post_int_kind post_uint_kind
  post_time

lemma decode_sound:
  "plain d \<Longrightarrow> wf_ty t \<Longrightarrow> wt t v \<Longrightarrow> ifaces v = 0 \<Longrightarrow> io_post (wt t) (decode d t v)"
  "plain d \<Longrightarrow> wf_ty t \<Longrightarrow> under t = t \<Longrightarrow> \<not> is_ptr_kind t \<Longrightarrow> wt t v \<Longrightarrow> ifaces v = 0 \<Longrightarrow>
     io_post (wt t) (decode_kind d t v)"
  "plain d \<Longrightarrow> wf_ty t \<Longrightarrow> wt_list t vs \<Longrightarrow> \<forall>v \<in> set vs. ifaces v = 0 \<Longrightarrow>
     io_post (\<lambda>us. wt_list t us \<and> length us = length vs) (decode_elems d t vs)"
  "plain d \<Longrightarrow> wf_ty t \<Longrightarrow> wt_list t vs \<Longrightarrow> \<forall>v \<in> set vs. ifaces v = 0 \<Longrightarrow> length vs \<le> MaxInt32 \<Longrightarrow>
     (\<not> ign \<and> under t = TUint8 \<longrightarrow> t = TUint8) \<Longrightarrow> io_post (wt (TArray (length vs) t)) (decodeFixedArray d ign t vs)"
  "plain d \<Longrightarrow> wf_ty t \<Longrightarrow> wt_list t vs \<Longrightarrow> wt_list t sp \<Longrightarrow> \<forall>v \<in> set vs. ifaces v = 0 \<Longrightarrow>
     \<forall>v \<in> set sp. ifaces v = 0 \<Longrightarrow> io_post (wt (TSlice t)) (decodeArray d ign t vs sp)"
  "plain d \<Longrightarrow> list_all wf_field fs \<Longrightarrow> wt_fields fs vs \<Longrightarrow> \<forall>v \<in> set vs. ifaces v = 0 \<Longrightarrow>
     io_post (wt_fields fs) (decodeStruct d fs vs)"
  "plain d \<Longrightarrow> wf_ty t \<Longrightarrow> wt t v \<Longrightarrow> ifaces v = 0 \<Longrightarrow> io_post (wt t) (decode_field d raw t v)"
  "plain d \<Longrightarrow> wf_ty k \<Longrightarrow> wf_ty t \<Longrightarrow> wt_pairs k t ps \<Longrightarrow>
     io_post (wt_pairs k t) (decode_pairs d k t n ps)"
  "x = None \<Longrightarrow> io_post (wt TInterface) (decodeInterface d x)"
proof (induction d t v and d t v and d t vs and d ign t vs and d ign t vs sp and d fs vs
    and d raw t v and d k t n ps and d x
    rule: decode_decode_kind_decode_elems_decodeFixedArray_decodeArray_decodeStruct_decode_field_decode_pairs_decodeInterface.induct)
  case (1 d t v)
  note prems = "1.prems"
  show ?case
  proof (cases "is_ptr_kind t")
    case True
    then obtain p where p: "under t = TPtr p" by (auto simp: is_ptr_kind_def split: ty.splits)
    then have wf: "wf_ty p" using wf_under [OF prems(2)] by simp
    have "io_post (wt p) (decode d p (deref_or_new p v))"
      using "1.IH" p prems wf wt_deref [OF p prems(3)] ifaces_deref_0 [OF prems(4)]
      by (simp add: plain_def)
    then show ?thesis
      using prems p by (auto simp: decode_ptr wt_ptr intro!: io_post_map)
  next
    case False
    have "io_post (wt (under t)) (decode_kind d (under t) v)" if "type_string t \<noteq> ''time.Time''"
      using "1.IH" prems False that wf_under [OF prems(2)] wt_under [of t v] under_not_named [of t]
      by (cases "under t")
        (auto simp: plain_def is_ptr_kind_def simp del: wt_under wt.simps decode_kind.simps)
    moreover have "wt (under t) = wt t" by (rule ext) simp
    ultimately show ?thesis
      using prems False wf_time [OF prems(2)] post_time
      by (auto simp: decode_no_ptr simp del: wt.simps)
  qed
next
  case (16 d n t v)
  then show ?case by (auto simp del: decodeFixedArray.simps split: val.splits)
next
  case (17 d t v)
  then show ?case by (auto simp del: decodeArray.simps split: val.splits)
next
  case (18 d nm fs v)
  then show ?case by (auto intro!: io_post_map split: val.splits)
next
  case (19 d k t v)
  then show ?case by (auto intro!: io_post_map io_post_bind [OF post_prims(2)] split: val.splits)
next
  case (20 d v)
  then have "v = VIface None" by (cases v) (auto split: option.splits simp: ifaces_None_iff)
  with 20 show ?case by (auto intro!: io_post_err)
next
  case (26 d t v vs)
  then have v: "io_post (wt t) (decode d t v)"
    and vs: "io_post (\<lambda>us. wt_list t us \<and> length us = length vs) (decode_elems d t vs)" by simp_all
  show ?case unfolding decode_elems.simps
    by (rule io_post_bind [OF v], rule io_post_map, rule io_post_weaken [OF vs]) simp
next
  case (27 d ign t vs)
  show ?case
  proof (cases "\<not> ign \<and> under t = TUint8")
    case True
    have "sint (word_of_nat (length vs) :: i32) = int (length vs)"
      using 27 by (intro sint_word_of_nat) simp
    then have "io_post (\<lambda>bs. length bs = length vs) (DecodeFixedOpaque (word_of_nat (length vs)))"
      using post_fixed_opaque [of "word_of_nat (length vs)"] by simp
    moreover have "t = TUint8" using 27 True by simp
    ultimately show ?thesis using True
      by (auto intro!: io_post_bind io_post_ret simp: wt_list_bytes)
  next
    case False
    with 27 have "io_post (\<lambda>us. wt_list t us \<and> length us = length vs) (decode_elems d t vs)" by auto
    then show ?thesis using False by (auto intro!: io_post_map elim!: io_post_weaken)
  qed
next
  case (28 d ign t vs sp)
  show ?case unfolding decodeArray.simps
  proof (rule io_post_bind [OF post_prims(2)])
    fix n :: u32
    show "io_post (wt (TSlice t)) (if exceeds_max d n
       then io_err (unmarshalError ''decodeArray'' ErrOverflow errMaxSlice (IntVal (uint n)) None)
       else if \<not> ign \<and> under t = TUint8
       then io_map (\<lambda>data. VSlice (List.map byte_val data) []) (DecodeFixedOpaque n)
       else io_map (\<lambda>us. VSlice (us @ drop (unat n) (fst (slice_storage t (unat n) vs sp)))
                            (snd (slice_storage t (unat n) vs sp)))
              (decode_elems d t (take (unat n) (fst (slice_storage t (unat n) vs sp)))))"
    proof -
      let ?st = "slice_storage t (unat n) vs sp"
      have st: "wt_list t (fst ?st)" "wt_list t (snd ?st)"
        using 28 by (simp_all add: wt_list_storage)
      have raw: "io_post (wt (TSlice t)) (io_map (\<lambda>data. VSlice (List.map byte_val data) [])
          (DecodeFixedOpaque n))" if "under t = TUint8" "\<not> exceeds_max d n"
        using that sint_not_exceeds [of d n]
        by (auto intro!: io_post_map io_post_weaken [OF post_fixed_opaque] simp: wt_list_bytes)
      have elems: "io_post (wt (TSlice t))
          (io_map (\<lambda>us. VSlice (us @ drop (unat n) (fst ?st)) (snd ?st))
            (decode_elems d t (take (unat n) (fst ?st))))"
        if "\<not> exceeds_max d n" "\<not> (\<not> ign \<and> under t = TUint8)"
      proof -
        have "io_post (\<lambda>us. wt_list t us \<and> length us = length (take (unat n) (fst ?st)))
            (decode_elems d t (take (unat n) (fst ?st)))"
          using 28 that st ifaces_storage_0 [of vs sp] by (intro "28.IH") auto
        then show ?thesis using st by (auto intro!: io_post_map elim!: io_post_weaken)
      qed
      show ?thesis using raw elems by (simp add: io_post_err del: wt.simps)
    qed
  qed
next
  case (30 d f fs vs)
  then obtain v vs' where vs: "vs = v # vs'" by (auto split: list.splits)
  with 30 have f: "io_post (wt (field_type f)) (decode_field d (field_xdropaque_false f) (field_type f) v)"
    if "field_exported f" using that by (auto simp: wf_field_type)
  from 30 vs have fs: "io_post (wt_fields fs) (decodeStruct d fs vs')"
    by (cases "field_exported f") auto
  show ?case
  proof (cases "field_exported f")
    case True
    then show ?thesis unfolding vs
      by (simp add: vs) (rule io_post_bind [OF f [OF True]], rule io_post_map,
          rule io_post_weaken [OF fs], simp)
  next
    case False
    with fs 30 show ?thesis by (auto simp: vs intro!: io_post_map elim!: io_post_weaken)
  qed
next
  case (31 d raw t v)
  note prems = "31.prems"
  have wtu: "wt (under t) v" and wfu: "wf_ty (under t)" and weq: "wt t = wt (under t)"
    using prems by (auto simp: wf_under)
  show ?case
  proof (cases "under t")
    case (TPtr p)
    then have "io_post (wt p) (decode_field d raw p (deref_or_new p v))"
      using "31.IH" prems wfu wt_deref [OF TPtr prems(3)] ifaces_deref_0 [OF prems(4)] by simp
    then show ?thesis
      using TPtr by (subst decode_field.simps) (auto simp: wt_ptr intro!: io_post_map)
  next
    case (TSlice et)
    then obtain vs sp where v: "v = VSlice vs sp" using wtu by (auto split: val.splits)
    have "io_post (wt (TSlice et)) (decodeArray d True et vs sp)" if raw
    proof -
      have "wf_ty et" "wt_list et vs" "wt_list et sp" "\<forall>v \<in> set vs. ifaces v = 0"
        "\<forall>v \<in> set sp. ifaces v = 0" using prems(4) wfu wtu by (auto simp: TSlice v)
      with "31.IH" prems(1) TSlice v that show ?thesis by (simp del: decodeArray.simps wt.simps)
    qed
    moreover have "io_post (wt t) (decode d t v)" if "\<not> raw"
      using "31.IH" prems TSlice that by (simp del: decodeArray.simps wt.simps)
    ultimately show ?thesis
      unfolding weq TSlice by (subst decode_field.simps)
        (simp add: TSlice v weq del: decodeArray.simps wt.simps)
  next
    case (TArray n et)
    then obtain vs where v: "v = VArray vs" using wtu by (auto split: val.splits)
    have "io_post (wt (TArray (length vs) et)) (decodeFixedArray d True et vs)" if raw
    proof -
      have "wf_ty et" "wt_list et vs" "\<forall>v \<in> set vs. ifaces v = 0" "length vs \<le> MaxInt32"
        using prems(4) wfu wtu by (auto simp: TArray v)
      with "31.IH" prems(1) TArray v that show ?thesis
        by (simp del: decodeFixedArray.simps wt.simps)
    qed
    moreover have "io_post (wt t) (decode d t v)" if "\<not> raw"
      using "31.IH" prems TArray that by (simp del: decodeFixedArray.simps wt.simps)
    moreover have "n = length vs" using wtu by (simp add: TArray v)
    ultimately show ?thesis
      unfolding weq TArray by (subst decode_field.simps)
        (simp add: TArray v weq del: decodeFixedArray.simps wt.simps)
  qed (use "31.IH" prems in \<open>subst decode_field.simps, simp\<close>)+
next
  case (33 d k t n ps)
  have key: "io_post (wt k) (decode d k (zero k))" and val: "io_post (wt t) (decode d t (zero t))"
    using 33 by auto
  show ?case unfolding decode_pairs.simps
    by (rule io_post_bind [OF key], rule io_post_bind [OF val])
      (use 33 in \<open>auto intro: wt_pairs_map_set\<close>)
qed (auto simp: is_ptr_kind_def under_not_named intro!: post_intros)

end
