(* ===== verification/Xdr_Properties.thy ===== *)
theory Xdr_Properties
  imports Xdr_Laws
begin

text \<open>
  The properties of the XDR package as its callers see them, stated for the entry points
  \<open>Marshal\<close>, \<open>Unmarshal\<close> and \<open>Decode\<close>; the reflective routines form one more instance of the
  codec contract.
\<close>

interpretation reflect_codec: xdr_codec "encode fmt t" "decode d t (zero t)"
  "\<lambda>v. plain d \<and> canon d fmt t v" for fmt t d
  by unfold_locales (simp add: canon_round_trips_aux)

lemma Marshal_canon: "canon d fmt t v \<Longrightarrow> Marshal fmt (Some (t, v)) = encode fmt t v"
  by (drule encode_ptr_chain) (auto simp: Marshal_def Encode_def)

lemma Decode_new: "Decode d (Some (TPtr t, VPtr (Some u))) = decode d (TPtr t) (VPtr (Some u))"
  by (simp add: Decode_def is_ptr_kind_def)

lemma decode_into_ptr:
  "plain d \<Longrightarrow> decode d (TPtr t) (VPtr (Some u)) = io_map (\<lambda>w. VPtr (Some w)) (decode d t u)"
  by (simp add: decode_ptr deref_or_new_def)


text \<open>A structure with a defined byte array, an integer, a list of names, a pointer and a map.\<close>

definition sample_ty :: ty where
  "sample_ty = TStruct ''sample''
     [fld (TNamed ''UUID'' (TArray 3 TUint8)), fld TInt32, fld (TSlice TString),
      fld (TPtr TBool), fld (TMap TUint32 TInt64)]"


lemma fits_NewDecoder: "fits (NewDecoder tp) n \<longleftrightarrow> n \<le> MaxInt32"
  by (simp add: fits_def NewDecoder_def)



text \<open>
  C14. No message is accepted before it is complete: on every proper prefix of the encoding of a
  value, unmarshalling returns an error (it neither succeeds nor panics).
\<close>
theorem truncated_message:
  assumes "plain d" and "canon d fmt t v" and "wf_ty t"
    and "Marshal fmt (Some (t, v)) empty_buffer = (n, Ok (), w)" and "k < n"
  shows "\<exists>m e rest. Decode d (Some (TPtr t, VPtr (Some (zero t)))) (take k (written w)) = (m, Err e, rest)"
proof -
  have "round_trips (encode fmt t v) (decode d t (zero t)) v"
    using assms by (intro canon_round_trips_aux)
  then obtain bs where bs: "appends (encode fmt t v) bs"
    "decode d t (zero t) (bs @ []) = (length bs, Ok v, [])" by (rule round_tripsE) blast
  then have w: "written w = bs" "n = length bs"
    using appendsD [OF bs(1), of empty_buffer] Marshal_canon [OF assms(2)] assms(4)
    by (auto simp: empty_buffer_def)
  obtain m r rest where run: "decode d t (zero t) (take k bs) = (m, r, rest)" by (metis prod_cases3)
  have m: "m \<le> k" using io_allD [OF consumption.all_decode(1) run] assms(1) by (simp add: plain_def consumes_def)
  have loc: "io_local (decode d t (zero t))"
    using assms(1) by (intro local_decode(1)) (simp add: plain_def)
  have post: "io_post (wt t) (decode d t (zero t))" using assms by (intro decode_sound) simp_all
  have "\<exists>e. r = Err e"
  proof (cases r)
    case (Ok u)
    then have "decode d t (zero t) (take k bs @ drop k bs) = (m, Ok u, rest @ drop k bs)"
      using io_localD [OF loc] run by blast
    with bs(2) m w(2) \<open>k < n\<close> show ?thesis by simp
  next
    case Panic
    with io_post_PanicD [OF post] run show ?thesis by blast
  qed simp
  then show ?thesis
    using run w by (auto simp: Decode_new decode_into_ptr assms(1) io_map_def io_bind_def)
qed

theorem truncated_message_witness:
  "\<exists>m e rest. Decode (NewDecoder (\<lambda>_. Inr 0)) (Some (TPtr TInt64, VPtr (Some (zero TInt64))))
     (take 5 [0, 0, 0, 0, 0, 0, 0, 9]) = (m, Err e, rest)"
  using truncated_message [of "NewDecoder (\<lambda>_. Inr 0)" "\<lambda>_. []" TInt64 "VInt 9" 8
      "\<lparr>written = [0, 0, 0, 0, 0, 0, 0, 9], room = None\<rparr>" 5]
  by (simp add: canon_int64 Marshal_def Encode_def indirect.simps EncodeHyper_def enc_write_def
      Write_def empty_buffer_def be64_def)

text \<open>
  \<open>Unmarshal\<close> reports exactly the bytes that it took from the reader, whatever the outcome, and
  when it succeeds these are whole words of four bytes.
\<close>
theorem Unmarshal_accounting:
  "case Unmarshal tp x inp of (n, r, rest) \<Rightarrow>
     n \<le> length inp \<and> rest = drop n inp \<and> (case r of Ok u \<Rightarrow> 4 dvd n | _ \<Rightarrow> True)"
proof -
  obtain n r rest where run: "Unmarshal tp x inp = (n, r, rest)" by (metis prod_cases3)
  have "io_all consumes (Unmarshal tp x)" "io_all aligned (Unmarshal tp x)"
    unfolding Unmarshal_def Decode_def
    by (auto split: option.splits prod.splits simp: NewDecoder_def
        intro!: consumes_additive.all_err aligned_additive.all_err consumption.all_decode
          alignment.all_decode)
  from this [THEN io_allD, OF run] run show ?thesis
    by (cases r) (simp_all add: consumes_def aligned_def)
qed

text \<open>
  \<open>Marshal\<close> reports exactly the bytes that it appended to the writer, also when the writer
  fails half-way; it never writes beyond the room of the writer, and when it succeeds it has
  written whole words.
\<close>
theorem Marshal_accounting:
  "case Marshal fmt x w of (n, r, w1) \<Rightarrow>
     (\<exists>bs. written w1 = written w @ bs \<and> length bs = n) \<and>
     room w1 = map_option (\<lambda>k. k - n) (room w) \<and> (case room w of Some k \<Rightarrow> n \<le> k | None \<Rightarrow> True) \<and>
     (case r of Ok u \<Rightarrow> 4 dvd n | _ \<Rightarrow> True)"
proof -
  obtain n r w1 where run: "Marshal fmt x w = (n, r, w1)" by (metis prod_cases3)
  have "io_all produces (Marshal fmt x)" "io_all aligned (Marshal fmt x)"
    unfolding Marshal_def Encode_def
    by (auto split: option.splits prod.splits
        intro!: produces_additive.all_err aligned_additive.all_err production.all_encode
          enc_alignment.all_encode)
  from this [THEN io_allD, OF run] run show ?thesis
    by (cases r) (auto simp: produces_def aligned_def split: option.splits)
qed

text \<open>
  C2. Type soundness: decoding into a target of a well-formed type that holds no interface never
  panics, whatever the input, and a successful result has the type of the target.
\<close>
theorem Unmarshal_sound:
  assumes "wf_ty t" and "wt t v" and "ifaces v = 0"
  shows "case Unmarshal tp (Some (TPtr t, VPtr (Some v))) inp of (n, r, rest) \<Rightarrow>
    (case r of Ok u \<Rightarrow> wt (TPtr t) u | Err e \<Rightarrow> True | Panic \<Rightarrow> False)"
proof -
  obtain n r rest where run: "Unmarshal tp (Some (TPtr t, VPtr (Some v))) inp = (n, r, rest)"
    by (metis prod_cases3)
  have "io_post (wt (TPtr t)) (Unmarshal tp (Some (TPtr t, VPtr (Some v))))"
    unfolding Unmarshal_def Decode_new using assms by (intro decode_sound) simp_all
  then have "res_post (wt (TPtr t)) r" using run unfolding io_post_def by (metis fst_conv snd_conv)
  then show ?thesis using run by (cases r) simp_all
qed

theorem Unmarshal_sound_witness:
  "case Unmarshal (\<lambda>_. Inr 0) (Some (TPtr sample_ty, VPtr (Some (zero sample_ty)))) [1, 2, 3] of (n, r, rest) \<Rightarrow>
    (case r of Ok u \<Rightarrow> wt (TPtr sample_ty) u | Err e \<Rightarrow> True | Panic \<Rightarrow> False)"
  by (rule Unmarshal_sound) (simp add: sample_ty_def, rule wt_zero, rule ifaces_zero)

text \<open>
  C28. \<open>DecodeFixedOpaque\<close> on every size. Up to \<open>MaxOpaque\<close> it reads the data and its padding and
  returns the data; the three sizes above overflow \<open>int32\<close> when they are padded and are refused, as
  are the sizes below -3; the sizes -3, -2 and -1 are padded to zero, nothing is read, and the
  slicing of the buffer panics.
\<close>
theorem DecodeFixedOpaque_cases:
  "DecodeFixedOpaque sz =
    (let n = sint sz in
     if n < - 3 then io_err (err_fixed_size (n + (- n) mod 4))
     else if n < 0 then io_bind (dec_read ''DecodeFixedOpaque'' 0) (\<lambda>_. io_panic)
     else if n = 0 then io_ret []
     else if n \<le> int MaxOpaque
     then io_map (take (nat n)) (dec_read ''DecodeFixedOpaque'' (nat n + pad_len (nat n)))
     else io_err (err_fixed_size (- (2 ^ 31))))"
proof -
  consider "sint sz < 0" | "sz = 0" | "0 < sint sz" "sint sz \<le> int MaxOpaque" | "int MaxOpaque < sint sz"
    using sint_0D [of sz] by linarith
  then show ?thesis
  proof cases
    case 1
    then show ?thesis using DecodeFixedOpaque_neg [OF 1] by (simp add: Let_def)
  next
    case 2
    then show ?thesis by (simp add: DecodeFixedOpaque_def)
  next
    case 3
    then show ?thesis using DecodeFixedOpaque_ok [OF 3] by (simp add: Let_def)
  next
    case 4
    moreover have "0 \<le> int MaxOpaque" by simp
    ultimately have "\<not> sint sz < - 3" "\<not> sint sz < 0" "sint sz \<noteq> 0" "\<not> sint sz \<le> int MaxOpaque"
      by linarith+
    then show ?thesis using DecodeFixedOpaque_large [OF 4] by (simp add: Let_def)
  qed
qed

text \<open>
  The cap on variable-length data is enforced before any of the data is read: when the length
  word exceeds the cap of the decoder (or \<open>math.MaxInt32\<close>), the routines for strings, opaque data
  and slices stop after these four bytes with an \<open>ErrOverflow\<close> that carries the length; and every
  string that is returned respects the cap.
\<close>
theorem size_cap:
  assumes "exceeds_max d n"
  shows "DecodeString d (be32 n @ rest) =
      (4, Err (unmarshalError ''DecodeString'' ErrOverflow errMaxSlice (IntVal (uint n)) None), rest) \<and>
    DecodeOpaque d (be32 n @ rest) =
      (4, Err (unmarshalError ''DecodeOpaque'' ErrOverflow errMaxSlice (IntVal (uint n)) None), rest) \<and>
    decodeArray d ign t vs sp (be32 n @ rest) =
      (4, Err (unmarshalError ''decodeArray'' ErrOverflow errMaxSlice (IntVal (uint n)) None), rest)"
proof -
  have "appends (EncodeUint n) (be32 n)" by (simp add: EncodeUint_def appends_enc_write)
  then have "DecodeUint (be32 n @ rest) = (4, Ok n, rest)"
    using uint_codec.decodes [of n "be32 n" rest] by simp
  then show ?thesis
    using assms by (simp add: DecodeString_def DecodeOpaque_def io_bind_Ok [where m = DecodeUint] io_err_apply)
qed

theorem size_cap_witness:
  "DecodeString (NewDecoderLimited 16 (\<lambda>_. Inr 0)) (be32 17 @ [65]) =
      (4, Err (unmarshalError ''DecodeString'' ErrOverflow errMaxSlice (IntVal (uint (17 :: u32))) None), [65])"
  using size_cap [of "NewDecoderLimited 16 (\<lambda>_. Inr 0)" 17 "[65]" False TUint8 "[]" "[]"]
  by (simp add: exceeds_max_def NewDecoderLimited_def)

text \<open>
  The encoding is injective and self-delimiting: if what \<open>Marshal\<close> writes for one value begins
  what it writes for another value of the same type, the two values are equal.
\<close>
theorem Marshal_prefix_free:
  assumes "plain d" and "canon d fmt t a" "canon d fmt t b"
    and "Marshal fmt (Some (t, a)) empty_buffer = (n, Ok (), wa)"
    and "Marshal fmt (Some (t, b)) empty_buffer = (m, Ok (), wb)"
    and "written wb = written wa @ ds"
  shows "a = b \<and> ds = []"
proof -
  have app: "appends (encode fmt t v) (written w)"
    if v: "canon d fmt t v" and run: "Marshal fmt (Some (t, v)) empty_buffer = (k, Ok (), w)" for v k w
  proof -
    have "round_trips (encode fmt t v) (decode d t (zero t)) v"
      using assms(1) v by (rule canon_round_trips_aux)
    then obtain bs where "appends (encode fmt t v) bs" by (rule round_tripsE)
    moreover have "w = empty_buffer\<lparr>written := written empty_buffer @ bs\<rparr>"
      using appendsD [OF calculation, of empty_buffer] run Marshal_canon [OF v]
      by (simp add: empty_buffer_def)
    ultimately show ?thesis by (simp add: empty_buffer_def)
  qed
  show ?thesis
    using reflect_codec.prefix_free [of d fmt t a b "written wa" "written wb" ds] assms app by blast
qed

lemma replicate_3: "replicate 3 x = [x, x, x]"
  by (simp add: numeral_eq_Suc)

theorem Marshal_prefix_free_witness:
  "VString (show_nat 7) = VString ''7'' \<and> ([] :: byte list) = []"
  by (rule Marshal_prefix_free [of "NewDecoder (\<lambda>_. Inr 0)" "\<lambda>_. []" TString _ _
      8 "\<lparr>written = [0, 0, 0, 1, 55, 0, 0, 0], room = None\<rparr>"
      8 "\<lparr>written = [0, 0, 0, 1, 55, 0, 0, 0], room = None\<rparr>"])
    (simp_all add: canon_string fits_NewDecoder MaxOpaque_def Marshal_def Encode_def indirect.simps
      show_nat.simps digit_char_def EncodeString_def EncodeUint_def EncodeFixedOpaque_def
      enc_write_def Write_def empty_buffer_def io_bind_def be32_def bytes_of_string_def
      byte_of_char_def Let_def replicate_3)

text \<open>
  A nil pointer is an error only where the encoder looks for it: as the value handed to
  \<open>Marshal\<close> and as a field of a structure. As an element of a slice it makes \<open>Marshal\<close> panic, after
  the length of the slice has been written.
\<close>
theorem Marshal_nil_pointer:
  "Marshal fmt (Some (TPtr t, VPtr None)) w =
     (0, Err (marshalError ''Marshal'' ErrBadArguments
       (''can'' @ quote @ ''t marshal nil pointer '' @ quote @ type_string (TPtr t) @ quote) NilVal None), w) \<and>
   Marshal fmt (Some (TStruct nm [fld (TPtr t)], VStruct [VPtr None])) w = (0, Err err_invalid, w) \<and>
   Marshal fmt (Some (TSlice (TPtr t), VSlice [VPtr None] [])) empty_buffer =
     (4, Panic, \<lparr>written = [0, 0, 0, 1], room = None\<rparr>)"
  by (simp add: Marshal_def Encode_def indirect.simps io_err_apply io_bind_def io_panic_apply
      EncodeUint_def enc_write_def Write_def empty_buffer_def be32_def)

text \<open>
  Values of Go's 64-bit kinds \<open>int\<close> and \<open>uint\<close> are written as one 32-bit word without a check:
  what comes back is the value reduced to its low 32 bits, which is the original exactly when it
  fits.
\<close>
theorem int_truncation:
  "\<exists>bs. length bs = 4 \<and>
     Marshal fmt (Some (TInt, VInt w)) empty_buffer = (4, Ok (), \<lparr>written = bs, room = None\<rparr>) \<and>
     Unmarshal tp (Some (TPtr TInt, VPtr (Some (VInt 0)))) bs =
       (4, Ok (VPtr (Some (VInt (scast (ucast w :: i32))))), []) \<and>
     (scast (ucast w :: i32) = w \<longleftrightarrow> \<not> overflow_int 32 w)"
proof -
  have app: "appends (EncodeInt (ucast w)) (be32 (ucast w))"
    by (simp add: EncodeInt_def appends_enc_write)
  have dec: "DecodeInt (be32 (ucast w)) = (4, Ok (ucast w), [])"
    using int_codec.decodes [OF TrueI app, of "[]"] by simp
  have iff: "scast (ucast w :: i32) = w \<longleftrightarrow> \<not> overflow_int 32 w"
  proof
    assume eq: "scast (ucast w :: i32) = w"
    have "sint (scast (ucast w :: i32) :: i64) = sint (ucast w :: i32)"
      by (simp add: signed_scast_eq signed_take_bit_int_eq_self sint_i32_range
          order_trans [OF _ sint_i32_range(1)] order_less_trans [OF sint_i32_range(2)])
    with eq sint_i32_range [of "ucast w"] show "\<not> overflow_int 32 w"
      by (simp add: overflow_int_def)
  qed (rule scast_ucast_32)
  have dk: "decode (NewDecoder tp) TInt (VInt 0) = decode_int_kind TInt"
    by (simp add: decode_simple)
  have "decode_int_kind TInt (be32 (ucast w)) = (4, Ok (VInt (scast (ucast w :: i32))), [])"
    by (simp add: decode_int_kind_def io_bind_Ok [where m = DecodeInt, OF dec] io_ret_apply)
  then have "Unmarshal tp (Some (TPtr TInt, VPtr (Some (VInt 0)))) (be32 (ucast w)) =
      (4, Ok (VPtr (Some (VInt (scast (ucast w :: i32))))), [])"
    by (simp add: Unmarshal_def Decode_new decode_into_ptr dk io_map_Ok [where m = "decode_int_kind TInt"])
  moreover have "Marshal fmt (Some (TInt, VInt w)) empty_buffer =
      (4, Ok (), \<lparr>written = be32 (ucast w), room = None\<rparr>)"
    using appendsD [OF app, of empty_buffer]
    by (simp add: Marshal_def Encode_def indirect.simps empty_buffer_def)
  ultimately show ?thesis using iff by (intro exI [of _ "be32 (ucast w)"]) simp
qed

text \<open>
  Decoding into a slice never shortens it: when the target already holds more elements than
  the message carries, the surplus elements stay behind the decoded ones.
\<close>
theorem decode_keeps_surplus:
  assumes "decode_elems d t (take (unat n) vs) inp = (k, Ok us, rest)"
    and "unat n \<le> length vs" "\<not> exceeds_max d n" "under t \<noteq> TUint8"
  shows "decodeArray d False t vs sp (be32 n @ inp) = (4 + k, Ok (VSlice (us @ drop (unat n) vs) sp), rest)"
proof -
  have "appends (EncodeUint n) (be32 n)" by (simp add: EncodeUint_def appends_enc_write)
  then have u: "DecodeUint (be32 n @ inp) = (4, Ok n, inp)"
    using uint_codec.decodes [of n "be32 n" inp] by simp
  have st: "slice_storage t (unat n) vs sp = (vs, sp)" using assms(2) by (simp add: slice_storage_def)
  show ?thesis
    using assms(3,4)
    by (simp add: io_bind_Ok [where m = DecodeUint, OF u] st
        io_map_Ok [where m = "decode_elems d t (take (unat n) vs)", OF assms(1)])
qed

theorem decode_keeps_surplus_witness:
  "decodeArray (NewDecoder (\<lambda>_. Inr 0)) False TInt32 [VInt 7, VInt 8, VInt 9] [] (be32 1 @ [0, 0, 0, 1]) =
    (4 + 4, Ok (VSlice ([VInt 1] @ drop (unat (1 :: u32)) [VInt 7, VInt 8, VInt 9]) []), [])"
  by (rule decode_keeps_surplus)
    (simp_all add: decode.simps NewDecoder_def io_bind_def io_map_def io_ret_apply decode_int_kind_def
      DecodeInt_def dec_read_def ReadFull_def overflow_int_def exceeds_max_def)

end
