(* ===== verification/Socket_Packet.thy ===== *)
theory Socket_Packet
  imports Go_Errors
begin

text \<open>
  The packet layer of \<open>src/socket/socket.go\<close>: the packet header, the reading loop \<open>listen\<close> with
  \<open>pktlen\<close>, \<open>extractHeader\<close> and \<open>isTemporary\<close> over a scripted connection, and the writing side
  \<open>SendPacket\<close> and \<open>SendStream\<close>.
\<close>

section \<open>Packets\<close>

text \<open>The constants of the protocol: request statuses and types, and the protocol version.\<close>

definition StatusOK :: u32 where "StatusOK = 0"
definition StatusError :: u32 where "StatusError = 1"
definition StatusContinue :: u32 where "StatusContinue = 2"

definition CallType :: u32 where "CallType = 0"
definition ReplyType :: u32 where "ReplyType = 1"
definition MessageType :: u32 where "MessageType = 2"
definition StreamType :: u32 where "StreamType = 3"
definition CallWithFDs :: u32 where "CallWithFDs = 4"
definition ReplyWithFDs :: u32 where "ReplyWithFDs = 5"

definition ProtocolVersion :: u32 where "ProtocolVersion = 1"

lemmas status_defs = StatusOK_def StatusError_def StatusContinue_def

record Header =
  Program :: u32
  Version :: u32
  Procedure :: u32
  Type :: u32
  Serial :: i32
  Status :: u32

text \<open>The bytes of a header, big-endian, in the order of the fields; \<open>Sizeof\<close> of header and packet.\<close>

definition header_bytes :: "Header \<Rightarrow> byte list" where
  "header_bytes h = be32 (Program h) @ be32 (Version h) @ be32 (Procedure h) @ be32 (Type h) @
     be32 (Serial h) @ be32 (Status h)"

abbreviation header_size :: nat where "header_size \<equiv> 24"
abbreviation packet_size :: nat where "packet_size \<equiv> 28"

lemma length_header_bytes [simp]: "length (header_bytes h) = header_size"
  by (simp add: header_bytes_def)

section \<open>Reading\<close>

text \<open>
  What the connection delivers, as \<open>bufio.Reader\<close> hands it on: bytes, and read errors at the points
  where they occur; the boundaries of the individual reads are not visible. A connection with
  nothing left is at end of file.
\<close>

datatype item = B byte | E error

type_synonym rstream = "item list"

text \<open>
  \<open>io.ReadFull\<close>: on an error the bytes read so far are lost to the caller, and an end of file after
  at least one byte becomes \<open>io.ErrUnexpectedEOF\<close>.
\<close>

fun read_full :: "byte list \<Rightarrow> nat \<Rightarrow> rstream \<Rightarrow> (error, byte list) res \<times> rstream" where
  "read_full acc 0 s = (Ok acc, s)"
| "read_full acc (Suc k) [] = (Err (if acc = [] then IoEOF else IoUnexpectedEOF), [])"
| "read_full acc (Suc k) (B b # s) = read_full (acc @ [b]) k s"
| "read_full acc (Suc k) (E e # s) =
     (Err (if acc \<noteq> [] \<and> e = IoEOF then IoUnexpectedEOF else e), s)"

definition pktlen :: "rstream \<Rightarrow> (error, u32) res \<times> rstream" where
  "pktlen s = (case read_full [] 4 s of (r, s1) \<Rightarrow> (res_bind r (\<lambda>buf. Ok (from_be32 buf)), s1))"

text \<open>The loads \<open>binary.BigEndian.Uint32(buf[a:b])\<close>.\<close>

definition parse_header :: "byte list \<Rightarrow> Header" where
  "parse_header buf =
     \<lparr>Program = from_be32 (take 4 buf), Version = from_be32 (take 4 (drop 4 buf)),
      Procedure = from_be32 (take 4 (drop 8 buf)), Type = from_be32 (take 4 (drop 12 buf)),
      Serial = from_be32 (take 4 (drop 16 buf)), Status = from_be32 (take 4 (drop 20 buf))\<rparr>"

definition extractHeader :: "rstream \<Rightarrow> (error, Header) res \<times> rstream" where
  "extractHeader s =
     (case read_full [] header_size s of (r, s1) \<Rightarrow> (res_bind r (\<lambda>buf. Ok (parse_header buf)), s1))"

fun isTemporary :: "error \<Rightarrow> bool" where
  "isTemporary (NetOpError t) = t"
| "isTemporary _ = False"

text \<open>
  \<open>listen\<close> routes packets until the connection fails. Its result is the list of the packets routed
  and whether it returned, or crashed because \<open>make\<close> was called with a negative size.
\<close>

datatype listen_end = Returned | Crashed

lemma read_full_length:
  "read_full acc k s = (r, s1) \<Longrightarrow> length s1 \<le> length s \<and> (is_Ok r \<longrightarrow> length s1 + k = length s)"
  by (induction acc k s rule: read_full.induct) auto

lemma read_full_not_Panic: "fst (read_full acc k s) \<noteq> Panic"
  by (induction acc k s rule: read_full.induct) auto

lemma read_full_Err_less:
  "read_full acc k s = (Err e, s1) \<Longrightarrow> s \<noteq> [] \<Longrightarrow> length s1 < length s"
  by (induction acc k s rule: read_full.induct) (auto dest: read_full_length)

lemma pktlen_Ok_less: "pktlen s = (Ok n, s1) \<Longrightarrow> length s1 + 4 = length s"
  by (cases "read_full [] 4 s") (auto simp: pktlen_def res_bind_def split: res.splits dest!: read_full_length)

lemma pktlen_temporary_less: "pktlen s = (Err e, s1) \<Longrightarrow> isTemporary e \<Longrightarrow> length s1 < length s"
  by (cases s; cases "read_full [] 4 s")
    (auto simp: pktlen_def res_bind_def numeral_eq_Suc split: res.splits dest: read_full_Err_less)

lemma extractHeader_length: "extractHeader s = (r, s1) \<Longrightarrow> length s1 \<le> length s"
  by (cases "read_full [] header_size s") (auto simp: extractHeader_def dest!: read_full_length)

function listen :: "rstream \<Rightarrow> (Header \<times> byte list) list \<times> listen_end" where
  "listen s =
     (case pktlen s of
        (Ok len, s1) \<Rightarrow>
          (case extractHeader s1 of
             (Ok h, s2) \<Rightarrow>
               (let sz = int (unat len) - int packet_size in
                if sz < 0 then ([], Crashed)
                else case read_full [] (nat sz) s2 of
                       (Ok buf, s3) \<Rightarrow> (case listen s3 of (ps, r) \<Rightarrow> ((h, buf) # ps, r))
                     | (_, s3) \<Rightarrow> listen s3)
           | (_, s2) \<Rightarrow> listen s2)
      | (Err e, s1) \<Rightarrow> if isTemporary e then listen s1 else ([], Returned)
      | (Panic, s1) \<Rightarrow> ([], Returned))"
  by pat_completeness auto
termination
  by (relation "measure length")
    (auto dest!: sym [of "(_, _)"] pktlen_Ok_less pktlen_temporary_less extractHeader_length
      read_full_length)

declare listen.simps [simp del]

section \<open>Writing\<close>

text \<open>
  The writing half of a \<open>Socket\<close>: whether its channel \<open>disconnected\<close> is closed, the bytes that the
  connection has taken, how many more it takes before its writes fail (\<open>None\<close>: they never do), and
  the error that \<open>bufio.Writer\<close> keeps and returns from every later call once a write has failed.
\<close>

record socket =
  disconnected :: bool
  sent :: "byte list"
  conn_room :: "nat option"
  werr :: "error option"

text \<open>The net effect of the \<open>binary.Write\<close> calls and the final \<open>Flush\<close> with the given bytes.\<close>

definition write_flush :: "byte list \<Rightarrow> socket \<Rightarrow> error option \<times> socket" where
  "write_flush b s =
     (case werr s of
        Some e \<Rightarrow> (Some e, s)
      | None \<Rightarrow>
          (case conn_room s of
             None \<Rightarrow> (None, s\<lparr>sent := sent s @ b\<rparr>)
           | Some k \<Rightarrow>
               if length b \<le> k
               then (None, s\<lparr>sent := sent s @ b, conn_room := Some (k - length b)\<rparr>)
               else (Some WriteFailed,
                     s\<lparr>sent := sent s @ take k b, conn_room := Some 0, werr := Some WriteFailed\<rparr>)))"

definition SendPacket ::
  "i32 \<Rightarrow> u32 \<Rightarrow> u32 \<Rightarrow> byte list option \<Rightarrow> u32 \<Rightarrow> u32 \<Rightarrow> socket \<Rightarrow> error option \<times> socket" where
  "SendPacket serial proc program payload typ status s =
     (let h = \<lparr>Program = program, Version = ProtocolVersion, Procedure = proc, Type = typ,
               Serial = serial, Status = status\<rparr>;
          sz = 4 + header_size + (case payload of None \<Rightarrow> 0 | Some p \<Rightarrow> length p);
          len = (word_of_nat sz :: u32)
      in if disconnected s then (Some EINVAL, s)
         else write_flush (be32 len @ header_bytes h @ (case payload of None \<Rightarrow> [] | Some p \<Rightarrow> p)) s)"

definition B_unit :: nat where "B_unit = 1"
definition KiB :: nat where "KiB = 1024 * B_unit"
definition MiB :: nat where "MiB = 1024 * KiB"

definition stream_buf :: nat where "stream_buf = 4 * MiB - packet_size"

text \<open>
  One round of \<open>SendStream\<close>'s loop: whether an abort request is pending when the round begins, and
  what the reader's \<open>Read\<close> returns; \<open>Read\<close> fills at most the buffer. A reader with nothing left
  is at end of file.
\<close>

type_synonym stream_round = "bool \<times> byte list \<times> error option"

fun SendStream :: "i32 \<Rightarrow> u32 \<Rightarrow> u32 \<Rightarrow> stream_round list \<Rightarrow> socket \<Rightarrow> error option \<times> socket" where
  "SendStream serial proc program [] s = SendPacket serial proc program None StreamType StatusOK s"
| "SendStream serial proc program ((abort, bs, rerr) # rounds) s =
     (if abort then SendPacket serial proc program None StreamType StatusError s
      else
        case (if bs \<noteq> [] then SendPacket serial proc program (Some bs) StreamType StatusContinue s
              else (None, s)) of
          (Some err2, s1) \<Rightarrow> (Some err2, s1)
        | (None, s1) \<Rightarrow>
            (case rerr of
               None \<Rightarrow> SendStream serial proc program rounds s1
             | Some e \<Rightarrow>
                 if e = IoEOF then SendPacket serial proc program None StreamType StatusOK s1
                 else (case SendPacket serial proc program None StreamType StatusError s1 of
                         (Some err2, s2) \<Rightarrow> (Some err2, s2)
                       | (None, s2) \<Rightarrow> (Some e, s2))))"

end
