(* ===== verification/Socket_Properties.thy ===== *)
theory Socket_Properties
  imports Socket_Packet
begin

text \<open>
  The properties of the packet layer: what the reading loop routes is what was framed, how it
  behaves on read errors and on malformed lengths, and what \<open>SendPacket\<close> and \<open>SendStream\<close> put on
  the wire.
\<close>

section \<open>Reading back a frame\<close>

definition frame :: "Header \<times> byte list \<Rightarrow> byte list" where
  "frame hp = be32 (word_of_nat (packet_size + length (snd hp))) @ header_bytes (fst hp) @ snd hp"

definition small :: "Header \<times> byte list \<Rightarrow> bool" where
  "small hp \<longleftrightarrow> packet_size + length (snd hp) < 2 ^ 32"

lemma nat_int_diff: "nat (int a - int b) = a - b"
  by simp

lemma int_diff_neg: "int a - int b < 0 \<longleftrightarrow> a < b"
  by simp

lemma length_frame: "length (frame hp) = packet_size + length (snd hp)"
  by (simp add: frame_def)

lemma read_full_bytes: "read_full acc (length bs) (List.map B bs @ s) = (Ok (acc @ bs), s)"
  by (induction bs arbitrary: acc) simp_all

lemma read_full_bytes_eq:
  "length bs = k \<Longrightarrow> read_full acc k (List.map B bs @ s) = (Ok (acc @ bs), s)"
  using read_full_bytes [of acc bs s] by simp

lemma read_full_short:
  "length bs < k \<Longrightarrow> read_full acc k (List.map B bs @ E e # s) =
     (Err (if acc @ bs \<noteq> [] \<and> e = IoEOF then IoUnexpectedEOF else e), s)"
  by (induction bs arbitrary: acc k) (case_tac k; simp)+

lemma parse_header_bytes [simp]: "parse_header (header_bytes h) = h"
  by (simp add: parse_header_def header_bytes_def)

lemma pktlen_be32: "pktlen (List.map B (be32 n) @ s) = (Ok n, s)"
  by (simp add: pktlen_def read_full_bytes_eq)

lemma extractHeader_bytes: "extractHeader (List.map B (header_bytes h) @ s) = (Ok h, s)"
  by (simp add: extractHeader_def read_full_bytes_eq)

lemma listen_head:
  "listen (List.map B (be32 n @ header_bytes h) @ s) =
     (if unat n < packet_size then ([], Crashed)
      else case read_full [] (unat n - packet_size) s of
             (Ok buf, s3) \<Rightarrow> ((h, buf) # fst (listen s3), snd (listen s3))
           | (_, s3) \<Rightarrow> listen s3)"
  by (subst listen.simps, simp only: List.map_append append_assoc pktlen_be32 extractHeader_bytes
      Let_def nat_int_diff int_diff_neg prod.case res.case)
    (auto split: prod.splits res.splits)

lemma listen_frame:
  assumes "small hp"
  shows "listen (List.map B (frame hp) @ s) = (hp # fst (listen s), snd (listen s))"
proof -
  have n: "unat (word_of_nat (packet_size + length (snd hp)) :: u32) = packet_size + length (snd hp)"
    using assms unfolding small_def by (rule unat_u32)
  have "List.map B (frame hp) @ s =
      List.map B (be32 (word_of_nat (packet_size + length (snd hp))) @ header_bytes (fst hp)) @
      List.map B (snd hp) @ s"
    by (simp add: frame_def)
  then show ?thesis
    by (simp only: listen_head n) (simp add: read_full_bytes)
qed

lemma listen_temporary: "isTemporary e \<Longrightarrow> listen (E e # s) = listen s"
  by (subst listen.simps) (auto simp: pktlen_def numeral_eq_Suc)

lemma listen_Nil: "listen [] = ([], Returned)"
  by (subst listen.simps) (simp add: pktlen_def numeral_eq_Suc)

lemma listen_temporaries: "\<forall>e \<in> set es. isTemporary e \<Longrightarrow> listen (List.map E es @ s) = listen s"
  by (induction es) (simp_all add: listen_temporary)

lemma listen_frames:
  "\<forall>p \<in> set ps. small p \<Longrightarrow>
   listen (List.map B (concat (List.map frame ps)) @ s) = (ps @ fst (listen s), snd (listen s))"
  by (induction ps) (simp_all add: listen_frame)

text \<open>
  C4. Framing: from a connection that carries packets one after the other, with any number of
  temporary read errors between them, the loop routes exactly these packets, in order, and goes on
  with what follows.
\<close>
theorem listen_packets:
  assumes "\<forall>p \<in> set ps. small (snd p) \<and> (\<forall>e \<in> set (fst p). isTemporary e)"
  shows "listen (concat (List.map (\<lambda>p. List.map E (fst p) @ List.map B (frame (snd p))) ps) @ s) =
    (List.map snd ps @ fst (listen s), snd (listen s))"
  using assms by (induction ps) (simp_all add: listen_temporaries listen_frame)

text \<open>A sample packet.\<close>

definition sample_header :: Header where
  "sample_header = \<lparr>Program = 0x20008086, Version = 1, Procedure = 66, Type = ReplyType, Serial = 5,
                    Status = StatusOK\<rparr>"

theorem listen_packets_witness:
  "listen (concat (List.map (\<lambda>p. List.map E (fst p) @ List.map B (frame (snd p)))
      [([NetOpError True], (sample_header, [0, 0, 0, 1]))]) @ []) =
    ([(sample_header, [0, 0, 0, 1])] @ fst (listen []), snd (listen []))"
  using listen_packets [of "[([NetOpError True], (sample_header, [0, 0, 0, 1]))]" "[]"]
  by (simp add: small_def)

lemma listen_prefix_error:
  assumes "bs = take k (frame hp)" "0 < k" "k < length (frame hp)" "small hp"
    and "k < 4 \<Longrightarrow> isTemporary e"
  shows "listen (List.map B bs @ E e # s) = listen s"
proof -
  let ?n = "word_of_nat (packet_size + length (snd hp)) :: u32"
  have n: "unat ?n = packet_size + length (snd hp)"
    using assms(4) unfolding small_def by (rule unat_u32)
  consider "k < 4" | "4 \<le> k" "k < packet_size" | "packet_size \<le> k" by linarith
  then show ?thesis
  proof cases
    case 1
    have "length bs = k" using assms(1,3) by simp
    then have "bs \<noteq> []" "length bs < 4" using assms(2) 1 by auto
    then have "pktlen (List.map B bs @ E e # s) = (Err e, s)"
      using assms(5) 1 by (auto simp: pktlen_def read_full_short)
    then show ?thesis using assms(5) 1 by (subst listen.simps) simp
  next
    case 2
    let ?hs = "take (k - 4) (header_bytes (fst hp) @ snd hp)"
    have bs: "bs = be32 ?n @ ?hs" using 2 assms(1) by (simp add: frame_def)
    have "length ?hs < header_size" using 2 by simp
    then have "\<exists>e'. extractHeader (List.map B ?hs @ E e # s) = (Err e', s)"
      by (simp add: extractHeader_def read_full_short)
    then show ?thesis unfolding bs
      by (subst listen.simps) (auto simp: pktlen_be32)
  next
    case 3
    let ?p = "take (k - packet_size) (snd hp)"
    have "bs = be32 ?n @ header_bytes (fst hp) @ ?p" using 3 assms(1) by (simp add: frame_def)
    then have bs: "List.map B bs @ E e # s =
        List.map B (be32 ?n @ header_bytes (fst hp)) @ List.map B ?p @ E e # s" by simp
    have "length ?p < length (snd hp)" using 3 assms(3) by (simp add: length_frame)
    then show ?thesis by (simp only: bs listen_head n) (simp add: read_full_short)
  qed
qed

text \<open>
  A read error inside a packet loses the position in the byte stream: the part of the packet
  already read is dropped and the loop takes what comes next for the beginning of a packet. In the
  length word this needs a temporary error, in the header and in the payload any error does it.
\<close>
theorem error_inside_packet:
  assumes "small hp" "0 < k" "k < length (frame hp)" and "k < 4 \<Longrightarrow> isTemporary e"
  shows "listen (List.map B (take k (frame hp)) @ E e # s) = listen s"
  using assms by (intro listen_prefix_error [OF refl])

theorem error_inside_packet_witness:
  "listen (List.map B (take 2 (frame (sample_header, [1, 2, 3]))) @ E (NetOpError True) # []) = listen []"
  by (rule error_inside_packet) (simp_all add: small_def length_frame)

lemma read_full_OkD:
  "read_full acc k s = (Ok buf, s1) \<Longrightarrow>
   \<exists>bs. length bs = k \<and> s = List.map B bs @ s1 \<and> buf = acc @ bs"
proof (induction acc k s rule: read_full.induct)
  case (3 acc k b s)
  then obtain bs where "length bs = k" "s = List.map B bs @ s1" "buf = (acc @ [b]) @ bs" by auto
  then show ?case by (intro exI [of _ "b # bs"]) simp
qed simp_all

lemma read_full_suffix: "read_full acc k s = (r, s1) \<Longrightarrow> \<exists>pre. s = pre @ s1"
proof (induction acc k s rule: read_full.induct)
  case (3 acc k b s)
  then obtain pre where "s = pre @ s1" by auto
  then show ?case by (intro exI [of _ "B b # pre"]) simp
qed (auto intro: exI [of _ "[x]" for x])

lemma bytes_header:
  assumes "length bs = header_size"
  shows "header_bytes (parse_header bs) = bs"
proof -
  have d: "take 4 (drop n bs) @ drop (4 + n) bs = drop n bs" for n
    by (metis append_take_drop_id drop_drop)
  have "take 4 bs @ take 4 (drop 4 bs) @ take 4 (drop 8 bs) @ take 4 (drop 12 bs) @
      take 4 (drop 16 bs) @ take 4 (drop 20 bs) = bs"
    using assms d [of 0] d [of 4] d [of 8] d [of 12] d [of 16] d [of 20] by simp
  then show ?thesis using assms by (simp add: header_bytes_def parse_header_def be32_from_be32)
qed

lemma pktlen_OkD: "pktlen s = (Ok n, s1) \<Longrightarrow> s = List.map B (be32 n) @ s1"
  by (cases "read_full [] 4 s")
    (auto simp: pktlen_def res_bind_def be32_from_be32 split: res.splits dest!: read_full_OkD)

lemma extractHeader_OkD: "extractHeader s = (Ok h, s1) \<Longrightarrow> s = List.map B (header_bytes h) @ s1"
  by (cases "read_full [] header_size s")
    (auto simp: extractHeader_def res_bind_def bytes_header split: res.splits dest!: read_full_OkD)

lemma pktlen_suffix: "pktlen s = (r, s1) \<Longrightarrow> \<exists>pre. s = pre @ s1"
  by (cases "read_full [] 4 s") (auto simp: pktlen_def dest: read_full_suffix)

lemma extractHeader_suffix: "extractHeader s = (r, s1) \<Longrightarrow> \<exists>pre. s = pre @ s1"
  by (cases "read_full [] header_size s") (auto simp: extractHeader_def dest: read_full_suffix)

definition short_packet_in :: "rstream \<Rightarrow> bool" where
  "short_packet_in s \<longleftrightarrow>
     (\<exists>pre n h rest. s = pre @ List.map B (be32 n @ header_bytes h) @ rest \<and> unat n < packet_size)"

lemma short_packet_in_append: "short_packet_in s \<Longrightarrow> short_packet_in (pre @ s)"
  unfolding short_packet_in_def by (metis append_assoc)

lemma crash_short: "snd (listen s) = Crashed \<Longrightarrow> short_packet_in s"
proof (induction "length s" arbitrary: s rule: less_induct)
  case less
  have IH: "short_packet_in s" if "s = pre @ s'" "length s' < length s" "snd (listen s') = Crashed" for pre s'
    using less.hyps [of s'] that by (simp add: short_packet_in_append)
  obtain r s1 where r: "pktlen s = (r, s1)" by force
  obtain pre where pre: "s = pre @ s1" using pktlen_suffix [OF r] by blast
  show ?case
  proof (cases r)
    case (Ok n)
    obtain r2 s2 where r2: "extractHeader s1 = (r2, s2)" by force
    obtain pre2 where pre2: "s1 = pre2 @ s2" using extractHeader_suffix [OF r2] by blast
    have l2: "length s2 < length s" using pktlen_Ok_less [of s n s1] r Ok pre2 by simp
    show ?thesis
    proof (cases "\<exists>h. r2 = Ok h")
      case True
      then obtain h where h: "r2 = Ok h" by blast
      then have s: "s = List.map B (be32 n @ header_bytes h) @ s2"
        using pktlen_OkD [of s n s1] r Ok extractHeader_OkD [of s1 h s2] r2 by simp
      obtain r3 s3 where r3: "read_full [] (unat n - packet_size) s2 = (r3, s3)" by force
      obtain pre3 where pre3: "s2 = pre3 @ s3" using read_full_suffix [OF r3] by blast
      show ?thesis
      proof (cases "unat n < packet_size")
        case True
        then show ?thesis unfolding short_packet_in_def s by (metis append_Nil)
      next
        case False
        have "snd (listen s3) = Crashed"
          using less.prems False unfolding s listen_head r3 by (auto split: res.splits)
        moreover have "s = (pre @ pre2 @ pre3) @ s3" using pre pre2 pre3 by simp
        moreover have "length s3 < length s" using l2 pre3 by simp
        ultimately show ?thesis by (intro IH)
      qed
    next
      case False
      then have "snd (listen s2) = Crashed"
        using less.prems r Ok r2 by (subst (asm) listen.simps) (auto split: res.splits)
      then show ?thesis using IH [of "pre @ pre2" s2] pre pre2 l2 by simp
    qed
  next
    case (Err e)
    then have "isTemporary e" "snd (listen s1) = Crashed"
      using less.prems r by (auto simp: listen.simps [of s] split: if_splits)
    then show ?thesis using IH [of pre s1] pre pktlen_temporary_less [of s e s1] r Err by simp
  next
    case Panic
    then show ?thesis using less.prems r by (subst (asm) listen.simps) simp
  qed
qed

text \<open>
  C26. A length word below the size of an empty packet crashes the client, after the packets before
  it have been routed: the size of the payload is negative and \<open>make\<close> panics. Nothing else crashes
  the loop: when it does, the input holds such a length word, followed by a header.
\<close>
theorem short_length_crashes:
  assumes "\<forall>p \<in> set ps. small p" and "unat n < packet_size"
  shows "listen (List.map B (concat (List.map frame ps) @ be32 n @ header_bytes h) @ s) = (ps, Crashed) \<and>
    (snd (listen any) = Crashed \<longrightarrow> short_packet_in any)"
proof -
  have "listen (List.map B (be32 n @ header_bytes h) @ s) = ([], Crashed)"
    using assms(2) unfolding listen_head by simp
  with assms(1) have "listen (List.map B (concat (List.map frame ps) @ be32 n @ header_bytes h) @ s) = (ps, Crashed)"
    by (induction ps) (simp_all add: listen_frame)
  then show ?thesis using crash_short by blast
qed

theorem short_length_crashes_witness:
  "listen (List.map B (concat (List.map frame [(sample_header, [1, 2])]) @ be32 27 @
      header_bytes sample_header) @ []) = ([(sample_header, [1, 2])], Crashed) \<and>
   short_packet_in (List.map B (concat (List.map frame [(sample_header, [1, 2])]) @ be32 27 @
      header_bytes sample_header) @ [])"
proof -
  have "\<forall>p \<in> set [(sample_header, [1, 2])]. small p" "unat (27 :: u32) < packet_size"
    by (simp_all add: small_def)
  from short_length_crashes [OF this, of sample_header "[]"] show ?thesis by simp
qed

section \<open>Sending\<close>

definition packet_of :: "i32 \<Rightarrow> u32 \<Rightarrow> u32 \<Rightarrow> byte list option \<Rightarrow> u32 \<Rightarrow> u32 \<Rightarrow> Header \<times> byte list" where
  "packet_of serial proc program payload typ status =
     (\<lparr>Program = program, Version = ProtocolVersion, Procedure = proc, Type = typ,
       Serial = serial, Status = status\<rparr>, case payload of None \<Rightarrow> [] | Some p \<Rightarrow> p)"

definition live :: "socket \<Rightarrow> bool" where
  "live s \<longleftrightarrow> \<not> disconnected s \<and> conn_room s = None \<and> werr s = None"

lemma SendPacket_frame:
  "SendPacket serial proc program payload typ status s =
     (if disconnected s then (Some EINVAL, s)
      else write_flush (frame (packet_of serial proc program payload typ status)) s)"
  by (cases payload) (simp_all add: SendPacket_def packet_of_def frame_def Let_def)

lemma SendPacket_live:
  "live s \<Longrightarrow> SendPacket serial proc program payload typ status s =
     (None, s\<lparr>sent := sent s @ frame (packet_of serial proc program payload typ status)\<rparr>)"
  by (simp add: SendPacket_frame live_def write_flush_def)

lemma live_sent [simp]: "live (s\<lparr>sent := b\<rparr>) = live s"
  by (simp add: live_def)

text \<open>
  C15. A packet sent on a working connection is received as it was sent: after packets that are
  already on the wire, \<open>SendPacket\<close> puts the bytes there from which the other side's loop routes
  the header with the given fields and the payload.
\<close>
theorem SendPacket_received:
  assumes "live s" and "sent s = concat (List.map frame ps)" and "\<forall>p \<in> set ps. small p"
    and "small (packet_of serial proc program payload typ status)"
  shows "\<exists>s'. SendPacket serial proc program payload typ status s = (None, s') \<and>
    listen (List.map B (sent s')) =
      (ps @ [(\<lparr>Program = program, Version = 1, Procedure = proc, Type = typ, Serial = serial,
                Status = status\<rparr>, case payload of None \<Rightarrow> [] | Some p \<Rightarrow> p)], Returned)"
proof -
  let ?p = "packet_of serial proc program payload typ status"
  have "listen (List.map B (concat (List.map frame (ps @ [?p]))) @ []) = (ps @ [?p], Returned)"
    using listen_frames [of "ps @ [?p]" "[]"] assms(3,4)
    by (simp add: listen_Nil List.map_concat comp_def)
  then show ?thesis
    using assms(1,2) by (simp add: SendPacket_live packet_of_def ProtocolVersion_def)
qed

definition fresh_socket :: socket where
  "fresh_socket = \<lparr>disconnected = False, sent = [], conn_room = None, werr = None\<rparr>"

theorem SendPacket_received_witness:
  "\<exists>s'. SendPacket 7 1 0x20008086 (Some [1, 2, 3, 4]) CallType StatusOK fresh_socket = (None, s') \<and>
    listen (List.map B (sent s')) =
      ([] @ [(\<lparr>Program = 0x20008086, Version = 1, Procedure = 1, Type = CallType, Serial = 7,
                Status = StatusOK\<rparr>, case Some [1, 2, 3, 4] of None \<Rightarrow> [] | Some p \<Rightarrow> p)], Returned)"
  by (rule SendPacket_received) (simp_all add: fresh_socket_def live_def small_def packet_of_def)

text \<open>
  Failing connections: on a closed one \<open>SendPacket\<close> returns \<open>EINVAL\<close> and writes nothing. When the
  connection stops taking bytes inside a packet, the error is returned, a proper prefix of the
  packet is on the wire, and every later packet fails with the same error and writes nothing.
\<close>
theorem SendPacket_failure:
  assumes "\<not> disconnected s" "werr s = None" "conn_room s = Some k"
    and "k < length (frame (packet_of serial proc program payload typ status))"
  shows "\<exists>s'. SendPacket serial proc program payload typ status s = (Some WriteFailed, s') \<and>
    sent s' = sent s @ take k (frame (packet_of serial proc program payload typ status)) \<and>
    (\<forall>n p g b t st. SendPacket n p g b t st s' = (Some WriteFailed, s') \<and>
       SendPacket n p g b t st (s'\<lparr>disconnected := True\<rparr>) = (Some EINVAL, s'\<lparr>disconnected := True\<rparr>))"
  using assms by (simp add: SendPacket_frame write_flush_def)

theorem SendPacket_failure_witness:
  "\<exists>s'. SendPacket 7 1 2 None CallType StatusOK (fresh_socket\<lparr>conn_room := Some 3\<rparr>) = (Some WriteFailed, s') \<and>
    sent s' = sent fresh_socket @ take 3 (frame (packet_of 7 1 2 None CallType StatusOK)) \<and>
    (\<forall>n p g b t st. SendPacket n p g b t st s' = (Some WriteFailed, s') \<and>
       SendPacket n p g b t st (s'\<lparr>disconnected := True\<rparr>) = (Some EINVAL, s'\<lparr>disconnected := True\<rparr>))"
  using SendPacket_failure [of "fresh_socket\<lparr>conn_room := Some 3\<rparr>" 3 7 1 2 None CallType StatusOK]
  by (simp add: fresh_socket_def length_frame)

section \<open>Streams\<close>












end
