(* ===== verification/Transitions.thy ===== *)
theory Transitions
  imports Main
begin

text \<open>
  What the concurrent components of the development share: the runs of a labelled system (whose
  \<open>act l s\<close> is \<open>None\<close> when the action \<open>l\<close> is not possible in the state \<open>s\<close>), the states that can be
  reached, and the rules for invariants. The socket, the callbacks of the RPC client, the
  subscriptions, the streams, the subscribers and the client's life cycle are instances.
\<close>

section \<open>Runs and reachable states\<close>

fun run_steps :: "('l \<Rightarrow> 's \<Rightarrow> 's option) \<Rightarrow> 'l list \<Rightarrow> 's \<Rightarrow> 's option" where
  "run_steps act [] s = Some s"
| "run_steps act (l # ls) s = (case act l s of None \<Rightarrow> None | Some s' \<Rightarrow> run_steps act ls s')"

definition by_action :: "('l \<Rightarrow> 's \<Rightarrow> 's option) \<Rightarrow> 's \<Rightarrow> 's \<Rightarrow> bool" where
  "by_action act s s' \<longleftrightarrow> (\<exists>l. act l s = Some s')"

lemma by_actionI [intro]: "act l s = Some s' \<Longrightarrow> by_action act s s'"
  by (auto simp: by_action_def)

lemma by_actionE [elim]:
  assumes "by_action act s s'"
  obtains l where "act l s = Some s'"
  using assms by (auto simp: by_action_def)

inductive reachable :: "'s \<Rightarrow> ('s \<Rightarrow> 's \<Rightarrow> bool) \<Rightarrow> 's \<Rightarrow> bool" for start step where
  reach_start: "reachable start step start"
| reach_step: "reachable start step s \<Longrightarrow> step s s' \<Longrightarrow> reachable start step s'"

lemma list_all_True [simp]: "list_all (\<lambda>_. True) ls"
  by (simp add: list_all_iff)

lemma run_induct [consumes 1, case_names Nil Cons]:
  assumes "run_steps act ls s = Some s'"
    and "\<And>s. P [] s s"
    and "\<And>l ls s s1 s'. act l s = Some s1 \<Longrightarrow> run_steps act ls s1 = Some s' \<Longrightarrow> P ls s1 s' \<Longrightarrow> P (l # ls) s s'"
  shows "P ls s s'"
  using assms(1) by (induction ls arbitrary: s) (auto split: option.splits intro: assms(2,3))

lemma run_steps_append:
  "run_steps act (ls @ ls') s =
     (case run_steps act ls s of None \<Rightarrow> None | Some s' \<Rightarrow> run_steps act ls' s')"
  by (induction ls arbitrary: s) (auto split: option.splits)

lemma run_reachable:
  assumes "reachable start (by_action act) s" and "run_steps act ls s = Some s'"
  shows "reachable start (by_action act) s'"
  using assms(2,1) by (induction rule: run_induct) (auto intro: reach_step)

text \<open>The reachable states of a labelled system are the ends of its runs.\<close>

lemma reachable_run:
  "reachable start (by_action act) s \<longleftrightarrow> (\<exists>ls. run_steps act ls start = Some s)"
proof
  assume "reachable start (by_action act) s"
  then show "\<exists>ls. run_steps act ls start = Some s"
  proof induction
    case reach_start
    have "run_steps act [] start = Some start" by simp
    then show ?case ..
  next
    case (reach_step s s')
    from reach_step.IH obtain ls where ls: "run_steps act ls start = Some s" ..
    from reach_step(2) obtain l where "act l s = Some s'" ..
    with ls have "run_steps act (ls @ [l]) start = Some s'" by (simp add: run_steps_append)
    then show ?case ..
  qed
qed (blast intro: run_reachable reach_start)

section \<open>Invariants\<close>

text \<open>
  A property of the reachable states: it holds at the start and every step from a reachable state
  keeps it.
\<close>

locale reachable_invariant =
  fixes start :: 's and step :: "'s \<Rightarrow> 's \<Rightarrow> bool" and I :: "'s \<Rightarrow> bool"
  assumes start: "I start"
    and step: "reachable start step s \<Longrightarrow> I s \<Longrightarrow> step s s' \<Longrightarrow> I s'"
begin

lemma always: "reachable start step s \<Longrightarrow> I s"
  by (induction rule: reachable.induct) (auto intro: start step)

end

text \<open>
  A property that the actions of a kind keep, from any state on: once it holds it holds for good, as
  long as only such actions happen.
\<close>

locale stable =
  fixes act :: "'l \<Rightarrow> 's \<Rightarrow> 's option" and kind :: "'l \<Rightarrow> bool" and I :: "'s \<Rightarrow> bool"
  assumes keep: "kind l \<Longrightarrow> act l s = Some s' \<Longrightarrow> I s \<Longrightarrow> I s'"
begin

lemma stays:
  assumes "run_steps act ls s = Some s'" and "I s" and "list_all kind ls"
  shows "I s'"
  using assms by (induction rule: run_induct) (auto intro: keep)

end

end
