(* ===== verification/Rpc_Callbacks.thy ===== *)
theory Rpc_Callbacks
  imports Socket_Packet Transitions "HOL-Library.AList" "HOL-Library.Sublist"
begin

text \<open>
  The response callbacks of \<open>src/rpc.go\<close> under concurrency: \<open>serial\<close>, \<open>register\<close>, \<open>deregister\<close>,
  \<open>deregisterAll\<close>, \<open>callback\<close>, and the skeleton of \<open>requestStream\<close> and \<open>getResponse\<close>. Requesting
  goroutines, the reading goroutine (which calls \<open>callback\<close>) and the clean-up after a lost
  connection interleave; a channel send is a rendezvous, and \<open>callback\<close> holds the mutex \<open>cmux\<close>
  while it waits for one.
\<close>

section \<open>The table of callbacks\<close>

text \<open>
  The map \<open>callbacks\<close> as an association list from serial numbers to channels, which are numbered in
  the order of their creation.
\<close>

type_synonym table = "(i32 \<times> nat) list"

record response =
  Payload :: "byte list"
  RStatus :: u32

text \<open>What a registry owes its clients, for the callbacks here and for the event streams.\<close>

locale registry =
  fixes lookup :: "'t \<Rightarrow> 'k \<Rightarrow> 'v option"
    and insert :: "'k \<Rightarrow> 'v \<Rightarrow> 't \<Rightarrow> 't"
    and remove :: "'k \<Rightarrow> 't \<Rightarrow> 't"
  assumes lookup_insert: "lookup (insert k v t) k' = (if k' = k then Some v else lookup t k')"
    and lookup_remove: "lookup (remove k t) k' = (if k' = k then None else lookup t k')"
begin

lemma remove_insert: "lookup (remove k (insert k v t)) k' = (if k' = k then None else lookup t k')"
  by (simp add: lookup_remove lookup_insert)

lemma remove_restores: "lookup t k = None \<Longrightarrow> lookup (remove k (insert k v t)) = lookup t"
  by (rule ext) (simp add: remove_insert)

lemma remove_idem: "lookup (remove k (remove k t)) = lookup (remove k t)"
  by (rule ext) (simp add: lookup_remove)

end

definition table_lookup :: "table \<Rightarrow> i32 \<Rightarrow> nat option" where
  "table_lookup t k = map_of t k"

definition table_insert :: "i32 \<Rightarrow> nat \<Rightarrow> table \<Rightarrow> table" where
  "table_insert k v t = AList.update k v t"

definition table_remove :: "i32 \<Rightarrow> table \<Rightarrow> table" where
  "table_remove k t = AList.delete k t"

interpretation callback_table: registry table_lookup table_insert table_remove
  by unfold_locales
    (simp_all add: table_lookup_def table_insert_def table_remove_def AList.update_conv
      AList.delete_conv)

section \<open>State and steps\<close>

text \<open>
  Where a request is: it has its serial number and channel; it is registered and sends its packet;
  it waits on its channel in \<open>getResponse\<close>; it has its result and is on its way to the deferred
  \<open>deregister\<close>; it has returned.
\<close>

datatype pc = Registering | Sending | Waiting | Leaving | Finished

text \<open>
  Requests are numbered like their channels: request \<open>c\<close> is \<open>reqs ! c\<close>, with its serial number. The
  field \<open>holder\<close> is the channel and the response with which \<open>callback\<close> holds \<open>cmux\<close>; the other
  critical sections do not block inside and are single steps. \<open>routed\<close> and \<open>delivered\<close> record the
  responses handed to \<open>callback\<close> and those received by requests. \<open>broken\<close> says that a closed channel
  was closed again or sent on, which panics.
\<close>

record rpc_state =
  counter :: i32
  callbacks :: table
  closed_ch :: "nat list"
  reqs :: "(i32 \<times> pc) list"
  holder :: "(nat \<times> response) option"
  routed :: "(i32 \<times> response) list"
  delivered :: "(nat \<times> response) list"
  broken :: bool

definition rpc_init :: rpc_state where
  "rpc_init = \<lparr>counter = 0, callbacks = [], closed_ch = [], reqs = [], holder = None, routed = [],
               delivered = [], broken = False\<rparr>"

definition serial :: "rpc_state \<Rightarrow> i32 \<times> rpc_state" where
  "serial s = (counter s + 1, s\<lparr>counter := counter s + 1\<rparr>)"

definition close_ch :: "nat \<Rightarrow> rpc_state \<Rightarrow> rpc_state" where
  "close_ch c s =
     (if c \<in> set (closed_ch s) then s\<lparr>broken := True\<rparr> else s\<lparr>closed_ch := c # closed_ch s\<rparr>)"

definition register :: "i32 \<Rightarrow> nat \<Rightarrow> rpc_state \<Rightarrow> rpc_state" where
  "register sid c s = s\<lparr>callbacks := table_insert sid c (callbacks s)\<rparr>"

definition deregister :: "i32 \<Rightarrow> rpc_state \<Rightarrow> rpc_state" where
  "deregister sid s =
     (case table_lookup (callbacks s) sid of
        None \<Rightarrow> s
      | Some c \<Rightarrow> (close_ch c s)\<lparr>callbacks := table_remove sid (callbacks s)\<rparr>)"

definition deregisterAll :: "rpc_state \<Rightarrow> rpc_state" where
  "deregisterAll s = fold deregister (List.map fst (callbacks s)) s"

definition set_pc :: "nat \<Rightarrow> pc \<Rightarrow> rpc_state \<Rightarrow> rpc_state" where
  "set_pc c p s = s\<lparr>reqs := (reqs s)[c := (fst (reqs s ! c), p)]\<rparr>"

definition pc_of :: "rpc_state \<Rightarrow> nat \<Rightarrow> pc option" where
  "pc_of s c = (if c < length (reqs s) then Some (snd (reqs s ! c)) else None)"

datatype rpc_label =
    NewRequest
  | Register nat
  | Sent nat bool
  | Routed i32 response
  | Deliver bool
  | Interrupted nat
  | Deregister nat
  | CloseAll

text \<open>
  The enabled steps. \<open>Deliver again\<close> is the rendezvous of \<open>callback\<close> with the waiting request, which
  then waits for more (a stream) or is done; a send on a closed channel panics. \<open>Interrupted\<close> is a
  receive from the closed channel.
\<close>

fun rpc_step :: "rpc_label \<Rightarrow> rpc_state \<Rightarrow> rpc_state option" where
  "rpc_step NewRequest s =
     (case serial s of (n, s1) \<Rightarrow> Some (s1\<lparr>reqs := reqs s1 @ [(n, Registering)]\<rparr>))"
| "rpc_step (Register c) s =
     (if pc_of s c = Some Registering \<and> holder s = None
      then Some (set_pc c Sending (register (fst (reqs s ! c)) c s)) else None)"
| "rpc_step (Sent c ok) s =
     (if pc_of s c = Some Sending then Some (set_pc c (if ok then Waiting else Leaving) s) else None)"
| "rpc_step (Routed sid res) s =
     (if holder s \<noteq> None then None
      else case table_lookup (callbacks s) sid of
             None \<Rightarrow> Some (s\<lparr>routed := routed s @ [(sid, res)]\<rparr>)
           | Some c \<Rightarrow> Some (s\<lparr>routed := routed s @ [(sid, res)], holder := Some (c, res)\<rparr>))"
| "rpc_step (Deliver again) s =
     (case holder s of
        None \<Rightarrow> None
      | Some (c, res) \<Rightarrow>
          if c \<in> set (closed_ch s) then Some (s\<lparr>broken := True\<rparr>)
          else if pc_of s c = Some Waiting
          then Some (set_pc c (if again then Waiting else Leaving)
                 (s\<lparr>holder := None, delivered := delivered s @ [(c, res)]\<rparr>))
          else None)"
| "rpc_step (Interrupted c) s =
     (if pc_of s c = Some Waiting \<and> c \<in> set (closed_ch s) then Some (set_pc c Leaving s) else None)"
| "rpc_step (Deregister c) s =
     (if pc_of s c = Some Leaving \<and> holder s = None
      then Some (set_pc c Finished (deregister (fst (reqs s ! c)) s)) else None)"
| "rpc_step CloseAll s = (if holder s = None then Some (deregisterAll s) else None)"

abbreviation rpc_run :: "rpc_label list \<Rightarrow> rpc_state \<Rightarrow> rpc_state option" where
  "rpc_run \<equiv> run_steps rpc_step"

abbreviation rpc_reach :: "rpc_state \<Rightarrow> bool" where
  "rpc_reach \<equiv> reachable rpc_init (by_action rpc_step)"

section \<open>Invariants\<close>

definition rpc_inv :: "rpc_state \<Rightarrow> bool" where
  "rpc_inv s \<longleftrightarrow>
     \<not> broken s \<and> distinct (List.map fst (callbacks s)) \<and> distinct (List.map snd (callbacks s)) \<and>
     (\<forall>(i, c) \<in> set (callbacks s). c < length (reqs s) \<and> fst (reqs s ! c) = i \<and>
        snd (reqs s ! c) \<noteq> Registering \<and> c \<notin> set (closed_ch s)) \<and>
     (\<forall>c \<in> set (closed_ch s). c < length (reqs s) \<and> snd (reqs s ! c) \<noteq> Registering) \<and>
     (\<forall>c res. holder s = Some (c, res) \<longrightarrow> c \<in> snd ` set (callbacks s))"

lemma rpc_inv_init: "rpc_inv rpc_init"
  by (simp add: rpc_inv_def rpc_init_def)

lemma table_lookup_set:
  "distinct (List.map fst t) \<Longrightarrow> table_lookup t k = Some c \<longleftrightarrow> (k, c) \<in> set t"
  by (simp add: table_lookup_def map_of_eq_Some_iff)

lemma table_insert_set:
  "distinct (List.map fst t) \<Longrightarrow>
   set (table_insert k v t) = insert (k, v) {p \<in> set t. fst p \<noteq> k}"
  unfolding table_insert_def by (induction t) force+

lemma table_insert_distinct_keys:
  "distinct (List.map fst t) \<Longrightarrow> distinct (List.map fst (table_insert k v t))"
  by (simp add: table_insert_def distinct_update)

lemma table_insert_distinct_chans:
  "distinct (List.map snd t) \<Longrightarrow> v \<notin> snd ` set t \<Longrightarrow> distinct (List.map snd (table_insert k v t))"
proof (induction t)
  case (Cons p t)
  have "snd ` set (table_insert k v t) \<subseteq> insert v (snd ` set t)"
    unfolding table_insert_def by (induction t) auto
  with Cons show ?case by (cases p) (auto simp: table_insert_def)
qed (simp add: table_insert_def)

lemma table_remove_set: "set (table_remove k t) = {p \<in> set t. fst p \<noteq> k}"
  by (auto simp: table_remove_def AList.delete_eq)

lemma table_remove_distinct:
  "distinct (List.map fst t) \<Longrightarrow> distinct (List.map fst (table_remove k t))"
  "distinct (List.map snd t) \<Longrightarrow> distinct (List.map snd (table_remove k t))"
  by (simp_all add: table_remove_def AList.delete_eq distinct_map_filter)

lemma set_pc_simps [simp]:
  "counter (set_pc c p s) = counter s" "callbacks (set_pc c p s) = callbacks s"
  "closed_ch (set_pc c p s) = closed_ch s" "holder (set_pc c p s) = holder s"
  "routed (set_pc c p s) = routed s" "delivered (set_pc c p s) = delivered s"
  "broken (set_pc c p s) = broken s" "length (reqs (set_pc c p s)) = length (reqs s)"
  "fst (reqs (set_pc c p s) ! d) = fst (reqs s ! d)"
  by (simp_all add: set_pc_def)
    (cases "c < length (reqs s)"; cases "d = c"; simp add: list_update_beyond)

lemma snd_set_pc:
  "c < length (reqs s) \<Longrightarrow> snd (reqs (set_pc c p s) ! d) = (if d = c then p else snd (reqs s ! d))"
  by (simp add: set_pc_def)

lemma pc_of_Some: "pc_of s c = Some p \<longleftrightarrow> c < length (reqs s) \<and> snd (reqs s ! c) = p"
  by (simp add: pc_of_def)

text \<open>A step that only moves a request on keeps the invariant.\<close>

lemma rpc_inv_set_pc:
  "rpc_inv s \<Longrightarrow> pc_of s c \<noteq> None \<Longrightarrow> p \<noteq> Registering \<Longrightarrow> rpc_inv (set_pc c p s)"
  by (fastforce simp: rpc_inv_def snd_set_pc pc_of_def split: if_splits)

lemma rpc_inv_deregister:
  assumes "rpc_inv s" "holder s = None"
  shows "rpc_inv (deregister i s)"
proof (cases "table_lookup (callbacks s) i")
  case None
  then show ?thesis using assms by (simp add: deregister_def)
next
  case (Some c)
  have k: "distinct (List.map fst (callbacks s))" "distinct (List.map snd (callbacks s))"
    using assms by (auto simp: rpc_inv_def)
  then have ic: "(i, c) \<in> set (callbacks s)" using Some by (simp add: table_lookup_set)
  have u: "d \<noteq> c" if "(j, d) \<in> set (callbacks s)" "j \<noteq> i" for j d
    using that ic k(2) by (metis eq_key_imp_eq_value distinct_map inj_on_def prod.inject snd_conv)
  show ?thesis
    using assms Some ic k u
    by (auto simp: rpc_inv_def deregister_def close_ch_def table_remove_set table_remove_distinct)
qed

lemma deregister_simps [simp]:
  "holder (deregister i s) = holder s" "reqs (deregister i s) = reqs s"
  "routed (deregister i s) = routed s" "delivered (deregister i s) = delivered s"
  "counter (deregister i s) = counter s"
  by (auto simp: deregister_def close_ch_def split: option.splits)

lemma rpc_inv_fold_deregister:
  "rpc_inv s \<Longrightarrow> holder s = None \<Longrightarrow> rpc_inv (fold deregister is s)"
  by (induction "is" arbitrary: s) (simp_all add: rpc_inv_deregister)

lemma fold_deregister_simps [simp]:
  "holder (fold deregister is s) = holder s" "reqs (fold deregister is s) = reqs s"
  "routed (fold deregister is s) = routed s" "delivered (fold deregister is s) = delivered s"
  "counter (fold deregister is s) = counter s"
  by (induction "is" arbitrary: s) simp_all

lemma rpc_inv_register:
  assumes "rpc_inv s" "pc_of s c = Some Registering" "holder s = None"
  shows "rpc_inv (set_pc c Sending (register (fst (reqs s ! c)) c s))"
proof -
  have c: "c < length (reqs s)" "snd (reqs s ! c) = Registering"
    using assms(2) by (simp_all add: pc_of_Some)
  have k: "distinct (List.map fst (callbacks s))" "distinct (List.map snd (callbacks s))"
    and new: "c \<notin> snd ` set (callbacks s)" "c \<notin> set (closed_ch s)"
    using assms(1) c by (auto simp: rpc_inv_def)
  define s' where "s' = set_pc c Sending (register (fst (reqs s ! c)) c s)"
  have same: "broken s' = broken s" "closed_ch s' = closed_ch s" "holder s' = holder s"
    "callbacks s' = table_insert (fst (reqs s ! c)) c (callbacks s)"
    by (simp_all add: s'_def register_def)
  have rs: "length (reqs s') = length (reqs s)" "fst (reqs s' ! d) = fst (reqs s ! d)"
    "snd (reqs s' ! d) = (if d = c then Sending else snd (reqs s ! d))" for d
    using c by (simp_all add: s'_def register_def set_pc_def nth_list_update)
  have "distinct (List.map fst (callbacks s'))" "distinct (List.map snd (callbacks s'))"
    using k new by (simp_all add: same table_insert_distinct_keys table_insert_distinct_chans)
  moreover have "\<forall>(i, d) \<in> set (callbacks s'). d < length (reqs s') \<and> fst (reqs s' ! d) = i \<and>
        snd (reqs s' ! d) \<noteq> Registering \<and> d \<notin> set (closed_ch s')"
    using assms(1) c k new by (auto simp: same table_insert_set rs rpc_inv_def)
  ultimately have "rpc_inv s'" using assms(1,3) by (auto simp: rpc_inv_def rs same)
  then show ?thesis by (simp add: s'_def)
qed

lemma rpc_inv_step:
  assumes "rpc_inv s" "rpc_step l s = Some s'"
  shows "rpc_inv s'"
proof (cases l)
  case NewRequest
  then have "s' = s\<lparr>counter := counter s + 1, reqs := reqs s @ [(counter s + 1, Registering)]\<rparr>"
    using assms(2) by (simp add: serial_def)
  then show ?thesis using assms(1) by (auto simp: rpc_inv_def nth_append)
next
  case (Register c)
  then show ?thesis using assms rpc_inv_register by (auto split: if_splits)
next
  case (Sent c ok)
  then show ?thesis using assms by (auto intro!: rpc_inv_set_pc split: if_splits)
next
  case (Routed i res)
  then show ?thesis
    using assms
    by (auto simp: rpc_inv_def table_lookup_set split: if_splits option.splits intro: rev_image_eqI)
next
  case (Deliver again)
  then obtain c res where h: "holder s = Some (c, res)" using assms(2) by (auto split: option.splits)
  then have "c \<notin> set (closed_ch s)" using assms(1) by (fastforce simp: rpc_inv_def)
  then have "pc_of s c = Some Waiting" and s': "s' = set_pc c (if again then Waiting else Leaving)
      (s\<lparr>holder := None, delivered := delivered s @ [(c, res)]\<rparr>)"
    using assms(2) Deliver h by (auto split: if_splits)
  then show ?thesis
    using assms(1) unfolding s'
    by (intro rpc_inv_set_pc) (auto simp: rpc_inv_def pc_of_def split: if_splits)
next
  case (Interrupted c)
  then show ?thesis using assms by (auto intro!: rpc_inv_set_pc split: if_splits)
next
  case (Deregister c)
  then show ?thesis
    using assms by (auto intro!: rpc_inv_set_pc rpc_inv_deregister simp: pc_of_def split: if_splits)
next
  case CloseAll
  then show ?thesis
    using assms by (auto simp: deregisterAll_def intro!: rpc_inv_fold_deregister split: if_splits)
qed

interpretation callbacks: reachable_invariant rpc_init "by_action rpc_step" rpc_inv
  by unfold_locales (auto intro: rpc_inv_init rpc_inv_step)

text \<open>
  Every response that a request received, and the one on its way, was routed to the request's serial
  number, and they arrive in the order of their routing.
\<close>

definition addressed :: "rpc_state \<Rightarrow> (nat \<times> response) list \<Rightarrow> (i32 \<times> response) list" where
  "addressed s ds = List.map (\<lambda>(c, res). (fst (reqs s ! c), res)) ds"

definition on_the_way :: "rpc_state \<Rightarrow> (nat \<times> response) list" where
  "on_the_way s = (case holder s of None \<Rightarrow> [] | Some d \<Rightarrow> [d])"

definition match_inv :: "rpc_state \<Rightarrow> bool" where
  "match_inv s \<longleftrightarrow>
     subseq (addressed s (delivered s @ on_the_way s)) (routed s) \<and>
     (\<forall>(c, res) \<in> set (delivered s @ on_the_way s). c < length (reqs s))"

lemma addressed_mono:
  assumes "\<forall>(c, res) \<in> set ds. c < length (reqs s)"
    and "\<And>c. c < length (reqs s) \<Longrightarrow> fst (reqs s' ! c) = fst (reqs s ! c)"
  shows "addressed s' ds = addressed s ds"
  using assms by (induction ds) (auto simp: addressed_def)

lemma match_inv_frame:
  assumes "match_inv s" "length (reqs s) \<le> length (reqs s')"
    and "\<And>c. c < length (reqs s) \<Longrightarrow> fst (reqs s' ! c) = fst (reqs s ! c)"
    and "routed s' = routed s" "delivered s' @ on_the_way s' = delivered s @ on_the_way s"
  shows "match_inv s'"
proof -
  have "addressed s' (delivered s @ on_the_way s) = addressed s (delivered s @ on_the_way s)"
    using assms(1,3) by (intro addressed_mono) (auto simp: match_inv_def)
  moreover have "\<forall>(c, res) \<in> set (delivered s @ on_the_way s). c < length (reqs s')"
    using assms(1,2) unfolding match_inv_def by fastforce
  ultimately show ?thesis
    using assms(1) unfolding match_inv_def assms(4,5) by simp
qed

lemma match_inv_step:
  assumes "rpc_inv s" "match_inv s" "rpc_step l s = Some s'"
  shows "match_inv s'"
proof (cases l)
  case NewRequest
  then show ?thesis using assms(2,3)
    by (intro match_inv_frame [OF assms(2)]) (auto simp: serial_def nth_append on_the_way_def)
next
  case (Register c)
  then show ?thesis using assms(2,3)
    by (intro match_inv_frame [OF assms(2)])
      (auto simp: register_def on_the_way_def split: if_splits)
next
  case (Sent c ok)
  then show ?thesis using assms(2,3)
    by (intro match_inv_frame [OF assms(2)]) (auto simp: on_the_way_def split: if_splits)
next
  case (Routed i res)
  show ?thesis
  proof (cases "table_lookup (callbacks s) i")
    case None
    then have "s' = s\<lparr>routed := routed s @ [(i, res)]\<rparr>"
      using assms(3) Routed by (auto split: if_splits)
    then show ?thesis
      using assms(2) by (auto simp: match_inv_def addressed_def on_the_way_def intro: list_emb_prefix)
  next
    case (Some c)
    then have s': "s' = s\<lparr>routed := routed s @ [(i, res)], holder := Some (c, res)\<rparr>"
      and h: "holder s = None" using assms(3) Routed by (cases "holder s"; auto)+
    have "(i, c) \<in> set (callbacks s)"
      using assms(1) Some by (auto simp: rpc_inv_def table_lookup_set)
    then have "fst (reqs s ! c) = i" "c < length (reqs s)" using assms(1) by (auto simp: rpc_inv_def)
    then show ?thesis
      using assms(2) h
      by (auto simp: s' match_inv_def addressed_def on_the_way_def intro: list_emb_append_mono)
  qed
next
  case (Deliver again)
  then obtain c res where h: "holder s = Some (c, res)" using assms(3) by (auto split: option.splits)
  then have "c \<notin> set (closed_ch s)" using assms(1) by (fastforce simp: rpc_inv_def)
  then show ?thesis using assms(3) Deliver h
    by (intro match_inv_frame [OF assms(2)]) (auto simp: on_the_way_def split: if_splits)
next
  case (Interrupted c)
  then show ?thesis using assms(2,3)
    by (intro match_inv_frame [OF assms(2)]) (auto simp: on_the_way_def split: if_splits)
next
  case (Deregister c)
  then show ?thesis using assms(2,3)
    by (intro match_inv_frame [OF assms(2)]) (auto simp: on_the_way_def split: if_splits)
next
  case CloseAll
  then show ?thesis using assms(2,3)
    by (intro match_inv_frame [OF assms(2)])
      (auto simp: on_the_way_def deregisterAll_def split: if_splits)
qed

lemma match_inv_init: "match_inv rpc_init"
  by (simp add: match_inv_def rpc_init_def on_the_way_def addressed_def)

interpretation matching: reachable_invariant rpc_init "by_action rpc_step" match_inv
  by unfold_locales (auto intro: match_inv_init match_inv_step callbacks.always)

text \<open>The serial numbers count the requests.\<close>

definition counted :: "rpc_state \<Rightarrow> bool" where
  "counted s \<longleftrightarrow> counter s = word_of_nat (length (reqs s)) \<and>
     (\<forall>c < length (reqs s). fst (reqs s ! c) = word_of_nat (Suc c))"

lemma counted_step:
  assumes "counted s" and "rpc_step l s = Some s'"
  shows "counted s'"
proof (cases "l = NewRequest")
  case True
  then show ?thesis using assms by (auto simp: counted_def serial_def nth_append less_Suc_eq add.commute)
next
  case False
  have "counter s' = counter s \<and> length (reqs s') = length (reqs s) \<and>
      (\<forall>c. fst (reqs s' ! c) = fst (reqs s ! c))"
    using assms(2) False
    by (cases l) (auto simp: register_def deregisterAll_def split: if_splits option.splits)
  then show ?thesis using assms(1) by (simp add: counted_def)
qed

lemma counted_init: "counted rpc_init"
  by (simp add: counted_def rpc_init_def)

interpretation counting: reachable_invariant rpc_init "by_action rpc_step" counted
  by unfold_locales (auto intro: counted_init counted_step)

definition stuck :: "rpc_state \<Rightarrow> bool" where
  "stuck s \<longleftrightarrow> (\<exists>c res. holder s = Some (c, res) \<and> pc_of s c = Some Leaving)"

text \<open>The steps that take the mutex, or release it.\<close>

fun needs_cmux :: "rpc_label \<Rightarrow> bool" where
  "needs_cmux (Register c) = True"
| "needs_cmux (Routed i res) = True"
| "needs_cmux (Deliver again) = True"
| "needs_cmux (Deregister c) = True"
| "needs_cmux CloseAll = True"
| "needs_cmux _ = False"

lemma stuck_step:
  assumes "rpc_inv s" "holder s = Some (c, res)" "pc_of s c = Some Leaving" "rpc_step l s = Some s'"
  shows "\<not> needs_cmux l \<and> holder s' = Some (c, res) \<and> pc_of s' c = Some Leaving"
proof -
  have "c \<notin> set (closed_ch s)" using assms(1,2) by (fastforce simp: rpc_inv_def)
  then show ?thesis using assms(2-)
    by (cases l)
      (auto simp: serial_def pc_of_def nth_append set_pc_def nth_list_update split: if_splits)
qed

lemma stuck_run:
  assumes "rpc_run ls s = Some s'" "rpc_reach s" "holder s = Some (c, res)" "pc_of s c = Some Leaving"
  shows "list_all (\<lambda>l. \<not> needs_cmux l) ls \<and> holder s' = Some (c, res) \<and> pc_of s' c = Some Leaving"
  using assms
proof (induction rule: run_induct)
  case (Cons l ls s s1 s')
  have "rpc_reach s1" using Cons.prems(1) Cons(1) by (auto intro: reach_step)
  with stuck_step [OF callbacks.always [OF Cons.prems(1)] Cons.prems(2,3) Cons(1)] Cons.IH
  show ?case by simp
qed simp

section \<open>Properties\<close>

text \<open>
  C5. However requests, arriving responses, and the clean-up after a lost connection interleave, no
  response is sent on a closed channel and no channel is closed twice (either would panic), and the
  channel of every registered callback is open.
\<close>
theorem callbacks_safe:
  assumes "rpc_reach s"
  shows "\<not> broken s \<and> (\<forall>(i, c) \<in> set (callbacks s). c \<notin> set (closed_ch s))"
  using callbacks.always [OF assms] by (auto simp: rpc_inv_def)

definition sample_run :: "rpc_label list" where
  "sample_run = [NewRequest, Register 0, Sent 0 True, Routed 1 \<lparr>Payload = [7], RStatus = StatusOK\<rparr>]"

lemmas run_defs = sample_run_def rpc_init_def serial_def register_def set_pc_def pc_of_def
  table_insert_def table_lookup_def

definition sample_state :: rpc_state where
  "sample_state = \<lparr>counter = 1, callbacks = [(1, 0)], closed_ch = [], reqs = [(1, Waiting)],
     holder = Some (0, \<lparr>Payload = [7], RStatus = StatusOK\<rparr>),
     routed = [(1, \<lparr>Payload = [7], RStatus = StatusOK\<rparr>)], delivered = [], broken = False\<rparr>"

lemma sample_run_state: "rpc_run sample_run rpc_init = Some sample_state"
  by (simp add: run_defs sample_state_def)

lemma sample_reach: "rpc_reach sample_state"
  by (rule run_reachable [OF reach_start sample_run_state])

theorem callbacks_safe_witness:
  "\<not> broken sample_state \<and> callbacks sample_state = [(1, 0)] \<and> 0 \<notin> set (closed_ch sample_state)"
  using callbacks_safe [OF sample_reach] by (simp add: sample_state_def)

text \<open>
  C6. Responses reach the right request: what the requests have received, labelled with the serial
  number of the receiver, is a subsequence of what was routed. While fewer than \<open>2\<^sup>3\<^sup>2\<close> requests have
  been made the serial numbers of different requests differ.
\<close>
theorem responses_match:
  assumes "rpc_reach s"
  shows "subseq (List.map (\<lambda>(c, res). (fst (reqs s ! c), res)) (delivered s)) (routed s) \<and>
    (length (reqs s) < 2 ^ 32 \<longrightarrow> distinct (List.map fst (reqs s)))"
proof
  have "subseq (addressed s (delivered s) @ addressed s (on_the_way s)) (routed s)"
    using matching.always [OF assms] by (simp add: match_inv_def addressed_def)
  then have "subseq (addressed s (delivered s)) (routed s)"
    by (metis list_emb_prefix subseq_order.order_refl subseq_order.order_trans)
  then show "subseq (List.map (\<lambda>(c, res). (fst (reqs s ! c), res)) (delivered s)) (routed s)"
    by (simp add: addressed_def)
  show "length (reqs s) < 2 ^ 32 \<longrightarrow> distinct (List.map fst (reqs s))"
  proof
    assume n: "length (reqs s) < 2 ^ 32"
    have "unat (word_of_nat (Suc c) :: i32) = Suc c" if "c < length (reqs s)" for c
      using that n by (intro unat_u32) simp
    then show "distinct (List.map fst (reqs s))"
      using counting.always [OF assms] by (simp add: counted_def distinct_conv_nth) (metis nat.inject)
  qed
qed

theorem responses_match_witness:
  "subseq (List.map (\<lambda>(c, res). (fst (reqs sample_state ! c), res)) (delivered sample_state))
      (routed sample_state) \<and> distinct (List.map fst (reqs sample_state))"
  using responses_match [OF sample_reach] by (simp add: sample_state_def)

text \<open>
  Two responses to one request: the first one is received, and the second one arrives before the
  request has deregistered.
\<close>

definition stuck_state :: rpc_state where
  "stuck_state = sample_state\<lparr>reqs := [(1, Leaving)],
     routed := [(1, \<lparr>Payload = [7], RStatus = StatusOK\<rparr>), (1, \<lparr>Payload = [7], RStatus = StatusOK\<rparr>)],
     delivered := [(0, \<lparr>Payload = [7], RStatus = StatusOK\<rparr>)]\<rparr>"

lemma stuck_state_reach: "rpc_reach stuck_state"
proof (rule run_reachable [OF sample_reach])
  show "rpc_run [Deliver False, Routed 1 \<lparr>Payload = [7], RStatus = StatusOK\<rparr>] sample_state = Some stuck_state"
    by (simp add: sample_state_def stuck_state_def run_defs)
qed

lemma stuck_stuck_state: "stuck stuck_state"
  by (simp add: stuck_def stuck_state_def sample_state_def pc_of_def)

text \<open>
  C7. A response for a request that is already on its way out blocks the client for good, and this can
  happen, by two responses to one request: \<open>callback\<close> holds \<open>cmux\<close> and waits for a receiver that
  will not come, and from then on no step that needs the mutex happens in any continuation; neither
  the request's own \<open>deregister\<close>, nor any other request, nor the clean-up after the connection is lost.
\<close>
theorem late_response_deadlock:
  assumes "rpc_reach s" and "stuck s" and "rpc_run ls s = Some s'"
  shows "rpc_reach stuck_state \<and> stuck stuck_state \<and>
    stuck s' \<and> holder s' = holder s \<and> list_all (\<lambda>l. \<not> needs_cmux l) ls"
proof -
  obtain c res where h: "holder s = Some (c, res)" "pc_of s c = Some Leaving"
    using assms(2) by (auto simp: stuck_def)
  from stuck_run [OF assms(3,1) h] h(1)
  have "stuck s' \<and> holder s' = holder s \<and> list_all (\<lambda>l. \<not> needs_cmux l) ls" by (simp add: stuck_def)
  then show ?thesis using stuck_state_reach stuck_stuck_state by blast
qed

theorem late_response_deadlock_witness:
  "rpc_reach stuck_state \<and> stuck stuck_state \<and>
   stuck (snd (serial stuck_state)\<lparr>reqs := reqs stuck_state @ [(2, Registering)]\<rparr>) \<and>
   holder (snd (serial stuck_state)\<lparr>reqs := reqs stuck_state @ [(2, Registering)]\<rparr>) = holder stuck_state \<and>
   list_all (\<lambda>l. \<not> needs_cmux l) [NewRequest]"
  by (rule late_response_deadlock [OF stuck_state_reach stuck_stuck_state])
    (simp add: stuck_state_def sample_state_def serial_def)

lemma callbacks_deregister:
  "callbacks (deregister i s) = filter (\<lambda>p. fst p \<noteq> i) (callbacks s)"
proof (cases "table_lookup (callbacks s) i")
  case None
  then have "i \<notin> fst ` set (callbacks s)" by (simp add: table_lookup_def map_of_eq_None_iff)
  then have "filter (\<lambda>p. fst p \<noteq> i) (callbacks s) = callbacks s" by (auto simp: filter_id_conv)
  then show ?thesis using None by (simp add: deregister_def)
qed (auto simp: deregister_def table_remove_def AList.delete_eq intro: filter_cong)

lemma closed_deregister:
  "set (closed_ch s) \<subseteq> set (closed_ch (deregister i s))"
  "table_lookup (callbacks s) i = Some c \<Longrightarrow> c \<in> set (closed_ch (deregister i s))"
  by (auto simp: deregister_def close_ch_def split: option.splits)

lemma callbacks_fold_deregister:
  "callbacks (fold deregister is s) = filter (\<lambda>p. fst p \<notin> set is) (callbacks s)"
  by (induction "is" arbitrary: s) (auto simp: callbacks_deregister intro: filter_cong)

lemma closed_fold_deregister:
  "set (closed_ch s) \<subseteq> set (closed_ch (fold deregister is s))"
  "distinct (List.map fst (callbacks s)) \<Longrightarrow> (i, c) \<in> set (callbacks s) \<Longrightarrow> i \<in> set is \<Longrightarrow>
   c \<in> set (closed_ch (fold deregister is s))"
proof (induction "is" arbitrary: s)
  case (Cons j js)
  {
    case 1
    show ?case using Cons.IH(1) [of "deregister j s"] closed_deregister(1) [of s j] by auto
  next
    case 2
    show ?case
    proof (cases "j = i")
      case True
      then have "c \<in> set (closed_ch (deregister j s))"
        using 2 closed_deregister(2) [of s i c] by (simp add: table_lookup_set)
      then show ?thesis using Cons.IH(1) [of "deregister j s"] by auto
    next
      case False
      then show ?thesis
        using 2 Cons.IH(2) [of "deregister j s"]
        by (auto simp: callbacks_deregister distinct_map_filter)
    qed
  }
qed simp_all

text \<open>
  C8. When no response is being handed over, the clean-up after a lost connection runs to its end: it
  empties the table and closes every registered channel, so that each waiting request finds its
  channel closed and returns.
\<close>
theorem cleanup_wakes_all:
  assumes "rpc_reach s" and "holder s = None"
  shows "\<exists>s'. rpc_step CloseAll s = Some s' \<and> callbacks s' = [] \<and>
    (\<forall>(i, c) \<in> set (callbacks s). c \<in> set (closed_ch s') \<and>
       (pc_of s c = Some Waiting \<longrightarrow> rpc_step (Interrupted c) s' = Some (set_pc c Leaving s')))"
proof -
  let ?s = "deregisterAll s"
  have d: "distinct (List.map fst (callbacks s))"
    using callbacks.always [OF assms(1)] by (simp add: rpc_inv_def)
  have "callbacks ?s = []"
    by (simp add: deregisterAll_def callbacks_fold_deregister filter_empty_conv)
  moreover have "c \<in> set (closed_ch ?s)" if "(i, c) \<in> set (callbacks s)" for i c
    unfolding deregisterAll_def using d that by (rule closed_fold_deregister(2)) (use that in force)
  moreover have "pc_of ?s c = pc_of s c" for c
    by (simp add: pc_of_def deregisterAll_def)
  ultimately show ?thesis using assms(2) by auto
qed

definition waiting_state :: rpc_state where
  "waiting_state = sample_state\<lparr>holder := None, routed := []\<rparr>"

lemma waiting_state_reach: "rpc_reach waiting_state"
  by (rule run_reachable [OF reach_start, where ls = "[NewRequest, Register 0, Sent 0 True]"])
    (simp add: run_defs sample_state_def waiting_state_def)

theorem cleanup_wakes_all_witness:
  "\<exists>s'. rpc_step CloseAll waiting_state = Some s' \<and> callbacks s' = [] \<and> 0 \<in> set (closed_ch s') \<and>
     rpc_step (Interrupted 0) s' = Some (set_pc 0 Leaving s')"
proof -
  have w: "holder waiting_state = None" "callbacks waiting_state = [(1, 0)]"
    "pc_of waiting_state 0 = Some Waiting"
    by (simp_all add: waiting_state_def sample_state_def pc_of_def)
  then show ?thesis using cleanup_wakes_all [OF waiting_state_reach w(1)] by (auto split: if_splits)
qed

end
