(* ===== verification/Rpc_Request.thy ===== *)
theory Rpc_Request
  imports Xdr_Properties Socket_Properties Rpc_Callbacks
begin

text \<open>
  Requests of \<open>src/rpc.go\<close> as the calling goroutine sees them: \<open>request\<close>, \<open>requestStream\<close>,
  \<open>processIncomingStream\<close>, \<open>getResponse\<close>, \<open>decodeError\<close>, \<open>encode\<close>, \<open>checkError\<close> and \<open>IsNotFound\<close>, and the
  decoder for typed parameters. The responses that will be delivered to a request are part of the
  state; how they are delivered under concurrency is the subject of theory \<open>Rpc_Callbacks\<close>.
\<close>

section \<open>Errors\<close>

text \<open>Two of libvirt's error numbers, from \<open>src/const.gen.go\<close>.\<close>

definition ErrOk :: u32 where "ErrOk = 0"
definition ErrNoDomain :: u32 where "ErrNoDomain = 42"

text \<open>\<open>checkError\<close> follows the chain of wrapped errors to the first libvirt \<open>Error\<close>.\<close>

lemma err_unwrap_size: "err_unwrap e = Some e' \<Longrightarrow> size e' < size e"
  by (cases e) simp_all

function checkError :: "error option \<Rightarrow> u32 \<Rightarrow> bool" where
  "checkError None expected = False"
| "checkError (Some e) expected =
     (case e of LibvirtError code msg \<Rightarrow> code = expected | _ \<Rightarrow> checkError (err_unwrap e) expected)"
  by pat_completeness auto
termination
  by (relation "measure (\<lambda>(e, _). case e of None \<Rightarrow> 0 | Some e \<Rightarrow> Suc (size e))")
    (auto split: option.splits dest: err_unwrap_size)

definition IsNotFound :: "error option \<Rightarrow> bool" where
  "IsNotFound e = checkError e ErrNoDomain"

section \<open>Encoding and decoding of payloads\<close>

text \<open>The functions of package \<open>time\<close> that the XDR package calls.\<close>

record time_lib =
  time_Format :: "int \<Rightarrow> string"
  time_Parse :: "string \<Rightarrow> error + int"

text \<open>\<open>encode\<close>: marshal into a new buffer.\<close>

definition encode_payload :: "time_lib \<Rightarrow> ty \<times> val \<Rightarrow> (error, byte list) res" where
  "encode_payload lib data =
     (case Marshal (time_Format lib) (Some data) empty_buffer of
        (n, Ok u, w) \<Rightarrow> Ok (written w)
      | (n, Err e, w) \<Rightarrow> Err e
      | (n, Panic, w) \<Rightarrow> Panic)"

text \<open>Decoding a whole payload into a new value of a type; bytes that are left over are ignored.\<close>

definition decode_payload :: "decoder \<Rightarrow> ty \<Rightarrow> byte list \<Rightarrow> (error, val) res" where
  "decode_payload d t buf =
     (case Decode d (Some (TPtr t, VPtr (Some (zero t)))) buf of
        (n, Ok u, rest) \<Rightarrow> (case u of VPtr (Some v) \<Rightarrow> Ok v | _ \<Rightarrow> Panic)
      | (n, Err e, rest) \<Rightarrow> Err e
      | (n, Panic, rest) \<Rightarrow> Panic)"

lemma encode_payload_appends:
  assumes "appends (Marshal (time_Format lib) (Some data)) bs"
  shows "encode_payload lib data = Ok bs"
  using appendsD [OF assms, of empty_buffer] by (simp add: encode_payload_def empty_buffer_def)

lemma decode_payload_eq:
  assumes "customTypes d (type_string (ptr_base t)) = None"
  shows "decode_payload d t buf = fst (snd (decode d t (zero t) buf))"
proof -
  have "decode d (TPtr t) (VPtr (Some (zero t))) = io_map (\<lambda>u. VPtr (Some u)) (decode d t (zero t))"
    using assms by (subst decode.simps) (simp add: deref_or_new_def)
  then show ?thesis
    by (simp add: decode_payload_def Decode_new io_map_def io_bind_def io_ret_apply
        split: prod.splits res.splits)
qed

lemma payload_canon:
  assumes "plain d" and "canon d (time_Format lib) t v"
  obtains bs where "encode_payload lib (t, v) = Ok bs" "\<And>rest. decode_payload d t (bs @ rest) = Ok v"
proof -
  obtain bs where bs: "appends (encode (time_Format lib) t v) bs"
    "\<And>rest. decode d t (zero t) (bs @ rest) = (length bs, Ok v, rest)"
    using canon_round_trips_aux(1) [OF assms] by (rule round_tripsE) blast
  have "decode_payload d t (bs @ rest) = Ok v" for rest
    using assms(1) bs(2) [of rest] by (simp add: decode_payload_eq plain_def)
  with encode_payload_appends [of lib "(t, v)" bs] bs(1) show ?thesis
    by (intro that) (simp_all add: Marshal_canon [OF assms(2)])
qed

text \<open>The fields of a decoded structure as Go values; the fallbacks are never reached on typed values.\<close>

fun val_field :: "val \<Rightarrow> nat \<Rightarrow> val" where
  "val_field (VStruct vs) i = (if i < length vs then vs ! i else VOther)"
| "val_field _ i = VOther"

fun val_u32 :: "val \<Rightarrow> u32" where
  "val_u32 (VUint w) = ucast w"
| "val_u32 _ = 0"

fun val_i32 :: "val \<Rightarrow> i32" where
  "val_i32 (VInt w) = ucast w"
| "val_i32 _ = 0"

fun val_string :: "val \<Rightarrow> string" where
  "val_string (VString s) = s"
| "val_string _ = []"

text \<open>The structure that \<open>decodeError\<close> reads, and \<open>decodeError\<close> itself; None is a nil error.\<close>

definition ty_wire_error :: ty where
  "ty_wire_error = TStruct [] [fld TUint32, fld TUint32, fld TUint8, fld TString, fld TUint32]"

definition wire_error :: "val \<Rightarrow> u32 \<times> string" where
  "wire_error v = (val_u32 (val_field v 0), val_string (val_field v 3))"

definition decodeError :: "time_lib \<Rightarrow> byte list \<Rightarrow> (error, error option) res" where
  "decodeError lib buf =
     (case decode_payload (NewDecoder (time_Parse lib)) ty_wire_error buf of
        Ok v \<Rightarrow>
          (case wire_error v of (code, msg) \<Rightarrow>
             if str_contains msg ''unknown procedure'' then Ok (Some ErrUnsupported)
             else if code = ErrOk then Ok None
             else Ok (Some (LibvirtError code msg)))
      | Err e \<Rightarrow> Ok (Some e)
      | Panic \<Rightarrow> Panic)"

section \<open>Responses\<close>

text \<open>
  What a request's channel delivers: its responses in turn, and then it is closed because the
  connection is lost.
\<close>

definition getResponse :: "time_lib \<Rightarrow> response list \<Rightarrow> (error, response) res \<times> response list" where
  "getResponse lib c =
     (case c of
        [] \<Rightarrow> (Err ErrInterrupted, [])
      | resp # c' \<Rightarrow>
          (if RStatus resp = StatusError
           then res_bind (decodeError lib (Payload resp)) (\<lambda>err.
                  case err of Some e \<Rightarrow> Err e | None \<Rightarrow> Ok resp)
           else Ok resp, c'))"

text \<open>The incoming half of a stream; \<open>None\<close> is a nil \<open>inStream\<close>, which drops the data.\<close>

function processIncomingStream ::
  "time_lib \<Rightarrow> response list \<Rightarrow> writer option \<Rightarrow> (error, response) res \<times> response list \<times> writer option" where
  "processIncomingStream lib c inStream =
     (case getResponse lib c of
        (Ok resp, c') \<Rightarrow>
          (if RStatus resp = StatusOK then (Ok resp, c', inStream)
           else if Payload resp = [] then (Ok resp, c', inStream)
           else case inStream of
                  None \<Rightarrow> processIncomingStream lib c' None
                | Some w \<Rightarrow>
                    (case Write (Payload resp) w of
                       (n, Some e, w') \<Rightarrow> (Err e, c', Some w')
                     | (n, None, w') \<Rightarrow> processIncomingStream lib c' (Some w')))
      | (Err e, c') \<Rightarrow> (Err e, c', inStream)
      | (Panic, c') \<Rightarrow> (Panic, c', inStream))"
  by pat_completeness auto
termination
  by (relation "measure (\<lambda>(lib, c, w). length c)")
    (auto simp: getResponse_def split: list.splits)

declare processIncomingStream.simps [simp del]

section \<open>Requests\<close>

text \<open>
  The client as requests use it: its socket, the last serial number, the responses that each of the
  coming requests will be given, and the time library.
\<close>

record client =
  sock :: socket
  last_serial :: i32
  script :: "response list list"
  tlib :: time_lib

text \<open>
  The outgoing half of a stream: the rounds of \<open>SendStream\<close>, in which the abort request appears when
  the sender notices it, and whether the sender has reported its result by the time at which the
  request of a bidirectional stream looks for it.
\<close>

type_synonym out_stream = "stream_round list \<times> bool"

definition requestStream ::
  "u32 \<Rightarrow> u32 \<Rightarrow> byte list option \<Rightarrow> out_stream option \<Rightarrow> writer option \<Rightarrow> client \<Rightarrow>
   (error, response) res \<times> writer option \<times> client" where
  "requestStream proc program payload out inw cl =
     (let n = last_serial cl + 1;
          cl1 = cl\<lparr>last_serial := n\<rparr>
      in case SendPacket n proc program payload CallType StatusOK (sock cl1) of
           (Some e, s) \<Rightarrow> (Err e, inw, cl1\<lparr>sock := s\<rparr>)
         | (None, s) \<Rightarrow>
             (let cl2 = cl1\<lparr>sock := s, script := tl (script cl1)\<rparr>;
                  c = (case script cl1 of [] \<Rightarrow> [] | rs # _ \<Rightarrow> rs)
              in case getResponse (tlib cl) c of
                   (Err e, c1) \<Rightarrow> (Err e, inw, cl2)
                 | (Panic, c1) \<Rightarrow> (Panic, inw, cl2)
                 | (Ok resp, c1) \<Rightarrow>
                     (case out of
                        None \<Rightarrow>
                          (case inw of
                             None \<Rightarrow> (Ok resp, inw, cl2)
                           | Some w \<Rightarrow>
                               (case processIncomingStream (tlib cl) c1 (Some w) of
                                  (r, c2, w') \<Rightarrow> (r, w', cl2)))
                      | Some (rounds, reported) \<Rightarrow>
                          (case SendStream n proc program rounds (sock cl2) of
                             (outErr, s') \<Rightarrow>
                               (case processIncomingStream (tlib cl) c1 inw of
                                  (r, c2, w') \<Rightarrow>
                                    (res_bind r (\<lambda>resp'.
                                       if inw = None then
                                         (case outErr of Some e \<Rightarrow> Err e | None \<Rightarrow> Ok resp')
                                       else if reported then
                                         (case outErr of Some e \<Rightarrow> Err e | None \<Rightarrow> Ok resp')
                                       else Ok resp'), w', cl2\<lparr>sock := s'\<rparr>))))))"

definition request ::
  "u32 \<Rightarrow> u32 \<Rightarrow> byte list option \<Rightarrow> client \<Rightarrow> (error, response) res \<times> client" where
  "request proc program payload cl =
     (case requestStream proc program payload None None cl of (r, w, cl') \<Rightarrow> (r, cl'))"

end
