(* ===== verification/Rpc_Typed.thy ===== *)
theory Rpc_Typed
  imports Rpc_Request
begin

text \<open>
  Typed parameters: the discriminated union \<open>TypedParamValue\<close> with its constructors
  (\<open>src/remote_protocol.gen.go\<close>) and the custom decoder \<open>typedParamDecoder\<close> of \<open>src/rpc.go\<close>, which the
  generated calls install in their decoders.
\<close>

section \<open>Types and constructors\<close>

definition ty_TypedParamValue :: ty where
  "ty_TypedParamValue = TStruct ''libvirt.TypedParamValue'' [fld TUint32, fld TInterface]"

definition ty_TypedParam :: ty where
  "ty_TypedParam = TStruct ''libvirt.TypedParam'' [fld TString, fld ty_TypedParamValue]"

definition tpv :: "u32 \<Rightarrow> ty \<Rightarrow> val \<Rightarrow> val" where
  "tpv d t v = VStruct [VUint (ucast d), VIface (Some (t, v))]"

definition NewTypedParamValueInt :: "i32 \<Rightarrow> val" where
  "NewTypedParamValueInt v = tpv 1 TInt32 (VInt (scast v))"

definition NewTypedParamValueUint :: "u32 \<Rightarrow> val" where
  "NewTypedParamValueUint v = tpv 2 TUint32 (VUint (ucast v))"

definition NewTypedParamValueLlong :: "i64 \<Rightarrow> val" where
  "NewTypedParamValueLlong v = tpv 3 TInt64 (VInt v)"

definition NewTypedParamValueUllong :: "u64 \<Rightarrow> val" where
  "NewTypedParamValueUllong v = tpv 4 TUint64 (VUint v)"

definition NewTypedParamValueDouble :: "u64 \<Rightarrow> val" where
  "NewTypedParamValueDouble v = tpv 5 TFloat64 (VFloat64 v)"

definition NewTypedParamValueBoolean :: "i32 \<Rightarrow> val" where
  "NewTypedParamValueBoolean v = tpv 6 TInt32 (VInt (scast v))"

definition NewTypedParamValueString :: "string \<Rightarrow> val" where
  "NewTypedParamValueString v = tpv 7 TString (VString v)"

definition TypedParam :: "string \<Rightarrow> val \<Rightarrow> val" where
  "TypedParam name v = VStruct [VString name, v]"

section \<open>The decoder\<close>

text \<open>\<open>d.Decode(&val)\<close> for a new variable of a type.\<close>

definition decode_new :: "decoder \<Rightarrow> ty \<Rightarrow> val dec" where
  "decode_new d t =
     io_bind (Decode d (Some (TPtr t, VPtr (Some (zero t))))) (\<lambda>u.
       case u of VPtr (Some v) \<Rightarrow> io_ret v | _ \<Rightarrow> io_panic)"

text \<open>The type of the value for each discriminant.\<close>

definition param_types :: "(u32 \<times> ty) list" where
  "param_types = [(1, TInt32), (2, TUint32), (3, TInt64), (4, TUint64), (5, TFloat64), (6, TInt32),
                  (7, TString)]"

definition decodeTypedParamValue :: "decoder \<Rightarrow> val dec" where
  "decodeTypedParamValue d =
     io_bind DecodeUint (\<lambda>discriminant.
       case map_of param_types discriminant of
         Some t \<Rightarrow> io_map (\<lambda>v. tpv discriminant t v) (decode_new d t)
       | None \<Rightarrow> io_err (PlainError (''invalid parameter type '' @ show_nat (unat discriminant))))"

definition typedParam_Decode :: "decoder \<Rightarrow> val dec" where
  "typedParam_Decode d =
     io_bind (DecodeString d) (\<lambda>name. io_map (TypedParam name) (decodeTypedParamValue d))"

text \<open>
  The decoder of the generated calls: no cap, and the custom routine for \<open>libvirt.TypedParam\<close>. That
  routine uses the decoder only for strings and scalars, for which there is no custom routine.
\<close>

definition call_decoder :: "(string \<Rightarrow> error + int) \<Rightarrow> decoder" where
  "call_decoder tp =
     NewDecoderCustomTypes 0
       (\<lambda>nm. if nm = ''libvirt.TypedParam'' then Some (typedParam_Decode (NewDecoder tp)) else None) tp"

section \<open>Round trip\<close>

text \<open>A value that a typed parameter can hold, with the discriminant of its kind.\<close>

definition param_value :: "decoder \<Rightarrow> val \<Rightarrow> bool" where
  "param_value d v \<longleftrightarrow>
     (\<exists>n t u. v = tpv n t u \<and> map_of param_types n = Some t \<and> canon d (\<lambda>_. []) t u)"

definition typed_param :: "decoder \<Rightarrow> val \<Rightarrow> bool" where
  "typed_param d p \<longleftrightarrow>
     (\<exists>name v. p = TypedParam name v \<and> length name \<le> MaxOpaque \<and> fits d (length name) \<and> param_value d v)"

lemma param_types_plain:
  "map_of param_types n = Some t \<Longrightarrow> t \<in> {TInt32, TUint32, TInt64, TUint64, TFloat64, TString}"
  by (auto simp: param_types_def split: if_splits)

lemma encode_scalar_fmt: "map_of param_types n = Some t \<Longrightarrow> encode fmt t v = encode fmt' t v"
  using param_types_plain [of n t] by auto

lemma ucast_u32_u64 [simp]: "(ucast (ucast (n :: u32) :: u64) :: u32) = n"
  by (rule bit_word_eqI) (auto simp: bit_simps dest: bit_imp_le_length)

lemma encode_param_value:
  "map_of param_types n = Some t \<Longrightarrow>
   encode fmt ty_TypedParamValue (tpv n t u) =
     io_bind (EncodeUint n) (\<lambda>_. io_bind (encode fmt t u) (\<lambda>_. io_ret ()))"
  using param_types_plain [of n t]
  by (auto simp: ty_TypedParamValue_def tpv_def indirect.simps)

lemma round_trips_decode_new:
  assumes "plain d" "canon d fmt t u"
  shows "round_trips (encode fmt t u) (decode_new d t) u"
  unfolding decode_new_def Decode_new decode_into_ptr [OF assms(1)]
  by (rule round_trips_check [OF round_trips_map [OF canon_round_trips_aux(1) [OF assms]]]) simp

lemma round_trips_param_value:
  assumes "plain d" "param_value d v"
  shows "round_trips (encode fmt ty_TypedParamValue v) (decodeTypedParamValue d) v"
proof -
  obtain n t u where v: "v = tpv n t u" "map_of param_types n = Some t" "canon d (\<lambda>_. []) t u"
    using assms(2) by (auto simp: param_value_def)
  have "round_trips (io_bind (encode fmt t u) (\<lambda>_. io_ret ()))
      (io_map (tpv n t) (decode_new d t)) (tpv n t u)"
    unfolding io_map_def
    using round_trips_bind [OF round_trips_decode_new [OF assms(1) v(3)] round_trips_ret]
      encode_scalar_fmt [OF v(2), of fmt] by metis
  then show ?thesis
    unfolding v(1) encode_param_value [OF v(2)] decodeTypedParamValue_def
    by (intro round_trips_bind [OF uint_codec.law [OF TrueI]]) (simp add: v(2))
qed

lemma encode_field_no_ptr: "\<not> is_ptr_kind t \<Longrightarrow> encode_field fmt (fld t) v = encode fmt t v"
  by (auto simp: is_ptr_kind_def indirect.simps [of t] split: ty.splits)

lemma round_trips_typed_param:
  assumes "typed_param (NewDecoder tp) p"
  shows "round_trips (encode fmt ty_TypedParam p)
    (decode (call_decoder tp) ty_TypedParam (zero ty_TypedParam)) p"
proof -
  obtain name v where p: "p = TypedParam name v" "length name \<le> MaxOpaque"
    "fits (NewDecoder tp) (length name)" "param_value (NewDecoder tp) v"
    using assms by (auto simp: typed_param_def)
  have enc: "encode fmt ty_TypedParam p =
      io_bind (EncodeString name) (\<lambda>_. io_bind (encode fmt ty_TypedParamValue v) (\<lambda>_. io_ret ()))"
    unfolding p(1) ty_TypedParam_def TypedParam_def
    by (simp add: encode_field_no_ptr is_ptr_kind_def ty_TypedParamValue_def
        del: encode_field.simps encodeStruct.simps(2)) (simp add: encode_field_no_ptr is_ptr_kind_def del: encode_field.simps)
  have dec: "decode (call_decoder tp) ty_TypedParam w = typedParam_Decode (NewDecoder tp)" for w
    by (subst decode.simps) (simp add: ty_TypedParam_def call_decoder_def NewDecoderCustomTypes_def)
  have "round_trips (io_bind (encode fmt ty_TypedParamValue v) (\<lambda>_. io_ret ()))
      (io_map (TypedParam name) (decodeTypedParamValue (NewDecoder tp))) (TypedParam name v)"
    unfolding io_map_def
    using round_trips_bind [OF round_trips_param_value [OF plain_NewDecoder p(4)] round_trips_ret] by metis
  then have "round_trips (io_bind (EncodeString name)
        (\<lambda>_. io_bind (encode fmt ty_TypedParamValue v) (\<lambda>_. io_ret ())))
      (typedParam_Decode (NewDecoder tp)) (TypedParam name v)"
    unfolding typedParam_Decode_def by (rule round_trips_bind [OF round_trips_string [OF p(2,3)]])
  then show ?thesis using enc dec p(1) by simp
qed

lemma round_trips_typed_params:
  assumes "\<forall>p \<in> set ps. typed_param (NewDecoder tp) p" "length ps \<le> MaxInt32"
  shows "round_trips (encode fmt (TSlice ty_TypedParam) (VSlice ps []))
    (decode (call_decoder tp) (TSlice ty_TypedParam) (VSlice [] [])) (VSlice ps [])"
proof -
  have "fits (call_decoder tp) (length ps)"
    using assms(2) by (simp add: fits_def call_decoder_def NewDecoderCustomTypes_def)
  then have "round_trips (encodeArray fmt False ty_TypedParam ps)
      (decodeArray (call_decoder tp) False ty_TypedParam [] []) (VSlice ps [])"
    using assms(1) round_trips_typed_param
    by (intro round_trips_array) (simp_all add: ty_TypedParam_def del: zero.simps encode.simps)
  moreover have "decode (call_decoder tp) (TSlice ty_TypedParam) (VSlice [] []) =
      decodeArray (call_decoder tp) False ty_TypedParam [] []"
    by (subst decode.simps)
      (simp add: call_decoder_def NewDecoderCustomTypes_def del: decodeArray.simps)
  ultimately show ?thesis by simp
qed

section \<open>Types without custom routines\<close>

text \<open>On a type in which no type has a custom routine the decoder behaves as if it had none.\<close>

fun custom_free :: "(string \<Rightarrow> bool) \<Rightarrow> ty \<Rightarrow> bool"
  and custom_free_field :: "(string \<Rightarrow> bool) \<Rightarrow> field \<Rightarrow> bool" where
  "custom_free C (TArray n t) = (\<not> C (type_string (TArray n t)) \<and> custom_free C t)"
| "custom_free C (TSlice t) = (\<not> C (type_string (TSlice t)) \<and> custom_free C t)"
| "custom_free C (TStruct nm fs) = (\<not> C nm \<and> list_all (custom_free_field C) fs)"
| "custom_free C (TMap k t) = (\<not> C (type_string (TMap k t)) \<and> custom_free C k \<and> custom_free C t)"
| "custom_free C (TPtr t) = custom_free C t"
| "custom_free C (TNamed nm t) = (\<not> C nm \<and> custom_free C t)"
| "custom_free C t = (\<not> C (type_string t))"
| "custom_free_field C (Field ex op t) = custom_free C t"

lemma custom_free_field_type: "custom_free_field C f \<longleftrightarrow> custom_free C (field_type f)"
  by (cases f) simp

lemma custom_free_under: "custom_free C t \<Longrightarrow> custom_free C (under t)"
  by (induction t rule: under.induct) simp_all

lemma custom_free_name: "custom_free C t \<Longrightarrow> \<not> is_ptr_kind t \<Longrightarrow> \<not> C (type_string t)"
  by (cases t) (auto simp: is_ptr_kind_def)

lemma custom_free_base: "custom_free C t \<Longrightarrow> \<not> C (type_string (ptr_base t))"
proof (induction t rule: ptr_base.induct)
  case (1 t)
  show ?case
  proof (cases "\<exists>p. under t = TPtr p")
    case True
    then obtain p where p: "under t = TPtr p" by blast
    then have "custom_free C p" using custom_free_under [OF 1(2)] by simp
    then show ?thesis using 1(1) [OF p] p by (simp add: ptr_base.simps [of t])
  next
    case False
    then have "ptr_base t = t" by (simp add: ptr_base.simps [of t] split: ty.splits)
    moreover have "\<not> is_ptr_kind t" using False by (simp add: is_ptr_kind_def split: ty.splits)
    ultimately show ?thesis using custom_free_name 1(2) by simp
  qed
qed

definition no_custom :: "decoder \<Rightarrow> decoder" where
  "no_custom d = d\<lparr>customTypes := (\<lambda>_. None)\<rparr>"

lemma plain_no_custom [simp]: "plain (no_custom d)"
  by (simp add: plain_def no_custom_def)

lemma no_custom_simps [simp]:
  "customTypes (no_custom d) nm = None" "exceeds_max (no_custom d) n = exceeds_max d n"
  "DecodeString (no_custom d) = DecodeString d" "decode_time (no_custom d) = decode_time d"
  by (simp_all add: no_custom_def exceeds_max_def DecodeString_def decode_time_def)

abbreviation has_custom :: "decoder \<Rightarrow> string \<Rightarrow> bool" where
  "has_custom d nm \<equiv> customTypes d nm \<noteq> None"

lemma decode_custom_free:
  "custom_free (has_custom d) t \<Longrightarrow> ifaces v = 0 \<Longrightarrow> decode d t v = decode (no_custom d) t v"
  "custom_free (has_custom d) t \<Longrightarrow> under t = t \<Longrightarrow> ifaces v = 0 \<Longrightarrow>
     decode_kind d t v = decode_kind (no_custom d) t v"
  "custom_free (has_custom d) t \<Longrightarrow> \<forall>v \<in> set vs. ifaces v = 0 \<Longrightarrow>
     decode_elems d t vs = decode_elems (no_custom d) t vs"
  "custom_free (has_custom d) t \<Longrightarrow> \<forall>v \<in> set vs. ifaces v = 0 \<Longrightarrow>
     decodeFixedArray d ign t vs = decodeFixedArray (no_custom d) ign t vs"
  "custom_free (has_custom d) t \<Longrightarrow> \<forall>v \<in> set vs. ifaces v = 0 \<Longrightarrow> \<forall>v \<in> set sp. ifaces v = 0 \<Longrightarrow>
     decodeArray d ign t vs sp = decodeArray (no_custom d) ign t vs sp"
  "list_all (custom_free_field (has_custom d)) fs \<Longrightarrow> \<forall>v \<in> set vs. ifaces v = 0 \<Longrightarrow>
     decodeStruct d fs vs = decodeStruct (no_custom d) fs vs"
  "custom_free (has_custom d) t \<Longrightarrow> ifaces v = 0 \<Longrightarrow>
     decode_field d raw t v = decode_field (no_custom d) raw t v"
  "custom_free (has_custom d) k \<Longrightarrow> custom_free (has_custom d) t \<Longrightarrow>
     decode_pairs d k t n ps = decode_pairs (no_custom d) k t n ps"
  "x = None \<Longrightarrow> decodeInterface d x = decodeInterface (no_custom d) x"
proof (induction d t v and d t v and d t vs and d ign t vs and d ign t vs sp and d fs vs
    and d raw t v and d k t n ps and d x
    rule: decode_decode_kind_decode_elems_decodeFixedArray_decodeArray_decodeStruct_decode_field_decode_pairs_decodeInterface.induct)
  case (1 d t v)
  note cf = "1.prems"(1) and iv = "1.prems"(2)
  show ?case
  proof (cases "is_ptr_kind t")
    case True
    then obtain p where p: "under t = TPtr p" by (auto simp: is_ptr_kind_def split: ty.splits)
    then have cp: "custom_free (has_custom d) p" using custom_free_under [OF cf] by simp
    then have "decode d p (deref_or_new p v) = decode (no_custom d) p (deref_or_new p v)"
      using "1.IH" p ifaces_deref_0 [OF iv] custom_free_base [OF cp] by simp
    then show ?thesis
      using p custom_free_base [OF cp] by (subst (1 2) decode.simps) simp
  next
    case False
    have k: "decode_kind d (under t) v = decode_kind (no_custom d) (under t) v"
      if "type_string t \<noteq> ''time.Time''"
      using "1.IH" False that iv custom_free_under [OF cf] custom_free_name [OF cf False] under_under [of t]
      by (cases "under t") (auto simp: is_ptr_kind_def simp del: decode_kind.simps)
    have np: "decode e t v = (if type_string t = ''time.Time'' then decode_time e
        else decode_kind e (under t) v)" if "customTypes e (type_string t) = None" for e
      using False that by (subst decode.simps) (simp add: is_ptr_kind_def split: ty.splits)
    show ?thesis using k np [of d] np [of "no_custom d"] custom_free_name [OF cf False] by simp
  qed
next
  case (17 d t v)
  then show ?case by (auto simp del: decodeArray.simps split: val.splits)
next
  case (28 d ign t vs sp)
  then show ?case using ifaces_storage_0 [of vs sp] by (auto intro!: io_bind_cong)
next
  case (31 d raw t v)
  then show ?case using custom_free_under [OF "31.prems"(1)] ifaces_deref_0 [of v]
    by (subst (1 2) decode_field.simps)
      (cases "under t"; auto split: val.splits simp del: decodeArray.simps decodeFixedArray.simps)
qed (auto simp: custom_free_field_type ifaces_None_iff split: val.splits list.splits intro!: io_bind_cong)

end
