(* ===== verification/Protocol_Types.thy ===== *)
theory Protocol_Types
  imports Rpc_Typed
begin

text \<open>
  The generated Go types of \<open>src/remote_protocol.gen.go\<close>, \<open>src/qemu_protocol.gen.go\<close> and
  \<open>src/const.gen.go\<close> that the event messages and the modelled calls use, and \<open>DomainEvent\<close> of
  \<open>src/libvirt.go\<close>. The collection \<open>proto_types\<close> unfolds them.
\<close>

named_theorems proto_types

declare ty_TypedParamValue_def [proto_types] ty_TypedParam_def [proto_types]

text \<open>The two programs of the protocol, from \<open>src/internal/constants\<close>.\<close>

definition RemoteProgram :: u32 where "RemoteProgram = 0x20008086"
definition QEMUProgram :: u32 where "QEMUProgram = 0x20008087"

section \<open>Common types\<close>

definition ty_UUID :: ty where [proto_types]:
  "ty_UUID = TNamed ''libvirt.UUID'' (TArray 16 TUint8)"

definition ty_Domain :: ty where [proto_types]:
  "ty_Domain = TStruct ''libvirt.Domain''
     [fld TString, fld ty_UUID, fld TInt32]"

definition ty_OptString :: ty where [proto_types]:
  "ty_OptString = TNamed ''libvirt.OptString'' (TSlice TString)"

section \<open>Event messages\<close>

definition ty_DomainEventLifecycleMsg :: ty where [proto_types]:
  "ty_DomainEventLifecycleMsg = TStruct ''libvirt.DomainEventLifecycleMsg''
     [fld ty_Domain, fld TInt32, fld TInt32]"

definition ty_DomainEventCallbackLifecycleMsg :: ty where [proto_types]:
  "ty_DomainEventCallbackLifecycleMsg = TStruct ''libvirt.DomainEventCallbackLifecycleMsg''
     [fld TInt32, fld ty_DomainEventLifecycleMsg]"

definition ty_DomainEventRebootMsg :: ty where [proto_types]:
  "ty_DomainEventRebootMsg = TStruct ''libvirt.DomainEventRebootMsg''
     [fld ty_Domain]"

definition ty_DomainEventCallbackRebootMsg :: ty where [proto_types]:
  "ty_DomainEventCallbackRebootMsg = TStruct ''libvirt.DomainEventCallbackRebootMsg''
     [fld TInt32, fld ty_DomainEventRebootMsg]"

definition ty_DomainEventRtcChangeMsg :: ty where [proto_types]:
  "ty_DomainEventRtcChangeMsg = TStruct ''libvirt.DomainEventRtcChangeMsg''
     [fld ty_Domain, fld TInt64]"

definition ty_DomainEventCallbackRtcChangeMsg :: ty where [proto_types]:
  "ty_DomainEventCallbackRtcChangeMsg = TStruct ''libvirt.DomainEventCallbackRtcChangeMsg''
     [fld TInt32, fld ty_DomainEventRtcChangeMsg]"

definition ty_DomainEventWatchdogMsg :: ty where [proto_types]:
  "ty_DomainEventWatchdogMsg = TStruct ''libvirt.DomainEventWatchdogMsg''
     [fld ty_Domain, fld TInt32]"

definition ty_DomainEventCallbackWatchdogMsg :: ty where [proto_types]:
  "ty_DomainEventCallbackWatchdogMsg = TStruct ''libvirt.DomainEventCallbackWatchdogMsg''
     [fld TInt32, fld ty_DomainEventWatchdogMsg]"

definition ty_DomainEventIOErrorMsg :: ty where [proto_types]:
  "ty_DomainEventIOErrorMsg = TStruct ''libvirt.DomainEventIOErrorMsg''
     [fld ty_Domain, fld TString, fld TString, fld TInt32]"

definition ty_DomainEventCallbackIOErrorMsg :: ty where [proto_types]:
  "ty_DomainEventCallbackIOErrorMsg = TStruct ''libvirt.DomainEventCallbackIOErrorMsg''
     [fld TInt32, fld ty_DomainEventIOErrorMsg]"

definition ty_DomainEventIOErrorReasonMsg :: ty where [proto_types]:
  "ty_DomainEventIOErrorReasonMsg = TStruct ''libvirt.DomainEventIOErrorReasonMsg''
     [fld ty_Domain, fld TString, fld TString, fld TInt32, fld TString]"

definition ty_DomainEventCallbackIOErrorReasonMsg :: ty where [proto_types]:
  "ty_DomainEventCallbackIOErrorReasonMsg = TStruct ''libvirt.DomainEventCallbackIOErrorReasonMsg''
     [fld TInt32, fld ty_DomainEventIOErrorReasonMsg]"

definition ty_DomainEventGraphicsAddress :: ty where [proto_types]:
  "ty_DomainEventGraphicsAddress = TStruct ''libvirt.DomainEventGraphicsAddress''
     [fld TInt32, fld TString, fld TString]"

definition ty_DomainEventGraphicsIdentity :: ty where [proto_types]:
  "ty_DomainEventGraphicsIdentity = TStruct ''libvirt.DomainEventGraphicsIdentity''
     [fld TString, fld TString]"

definition ty_DomainEventGraphicsMsg :: ty where [proto_types]:
  "ty_DomainEventGraphicsMsg = TStruct ''libvirt.DomainEventGraphicsMsg''
     [fld ty_Domain, fld TInt32, fld ty_DomainEventGraphicsAddress,
      fld ty_DomainEventGraphicsAddress, fld TString, fld (TSlice ty_DomainEventGraphicsIdentity)]"

definition ty_DomainEventCallbackGraphicsMsg :: ty where [proto_types]:
  "ty_DomainEventCallbackGraphicsMsg = TStruct ''libvirt.DomainEventCallbackGraphicsMsg''
     [fld TInt32, fld ty_DomainEventGraphicsMsg]"

definition ty_DomainEventBlockJobMsg :: ty where [proto_types]:
  "ty_DomainEventBlockJobMsg = TStruct ''libvirt.DomainEventBlockJobMsg''
     [fld ty_Domain, fld TString, fld TInt32, fld TInt32]"

definition ty_DomainEventCallbackBlockJobMsg :: ty where [proto_types]:
  "ty_DomainEventCallbackBlockJobMsg = TStruct ''libvirt.DomainEventCallbackBlockJobMsg''
     [fld TInt32, fld ty_DomainEventBlockJobMsg]"

definition ty_DomainEventDiskChangeMsg :: ty where [proto_types]:
  "ty_DomainEventDiskChangeMsg = TStruct ''libvirt.DomainEventDiskChangeMsg''
     [fld ty_Domain, fld ty_OptString, fld ty_OptString, fld TString, fld TInt32]"

definition ty_DomainEventCallbackDiskChangeMsg :: ty where [proto_types]:
  "ty_DomainEventCallbackDiskChangeMsg = TStruct ''libvirt.DomainEventCallbackDiskChangeMsg''
     [fld TInt32, fld ty_DomainEventDiskChangeMsg]"

definition ty_DomainEventTrayChangeMsg :: ty where [proto_types]:
  "ty_DomainEventTrayChangeMsg = TStruct ''libvirt.DomainEventTrayChangeMsg''
     [fld ty_Domain, fld TString, fld TInt32]"

definition ty_DomainEventCallbackTrayChangeMsg :: ty where [proto_types]:
  "ty_DomainEventCallbackTrayChangeMsg = TStruct ''libvirt.DomainEventCallbackTrayChangeMsg''
     [fld TInt32, fld ty_DomainEventTrayChangeMsg]"

definition ty_DomainEventPmwakeupMsg :: ty where [proto_types]:
  "ty_DomainEventPmwakeupMsg = TStruct ''libvirt.DomainEventPmwakeupMsg''
     [fld ty_Domain]"

definition ty_DomainEventCallbackPmwakeupMsg :: ty where [proto_types]:
  "ty_DomainEventCallbackPmwakeupMsg = TStruct ''libvirt.DomainEventCallbackPmwakeupMsg''
     [fld TInt32, fld TInt32, fld ty_DomainEventPmwakeupMsg]"

definition ty_DomainEventPmsuspendMsg :: ty where [proto_types]:
  "ty_DomainEventPmsuspendMsg = TStruct ''libvirt.DomainEventPmsuspendMsg''
     [fld ty_Domain]"

definition ty_DomainEventCallbackPmsuspendMsg :: ty where [proto_types]:
  "ty_DomainEventCallbackPmsuspendMsg = TStruct ''libvirt.DomainEventCallbackPmsuspendMsg''
     [fld TInt32, fld TInt32, fld ty_DomainEventPmsuspendMsg]"

definition ty_DomainEventBalloonChangeMsg :: ty where [proto_types]:
  "ty_DomainEventBalloonChangeMsg = TStruct ''libvirt.DomainEventBalloonChangeMsg''
     [fld ty_Domain, fld TUint64]"

definition ty_DomainEventCallbackBalloonChangeMsg :: ty where [proto_types]:
  "ty_DomainEventCallbackBalloonChangeMsg = TStruct ''libvirt.DomainEventCallbackBalloonChangeMsg''
     [fld TInt32, fld ty_DomainEventBalloonChangeMsg]"

definition ty_DomainEventPmsuspendDiskMsg :: ty where [proto_types]:
  "ty_DomainEventPmsuspendDiskMsg = TStruct ''libvirt.DomainEventPmsuspendDiskMsg''
     [fld ty_Domain]"

definition ty_DomainEventCallbackPmsuspendDiskMsg :: ty where [proto_types]:
  "ty_DomainEventCallbackPmsuspendDiskMsg = TStruct ''libvirt.DomainEventCallbackPmsuspendDiskMsg''
     [fld TInt32, fld TInt32, fld ty_DomainEventPmsuspendDiskMsg]"

definition ty_DomainEventControlErrorMsg :: ty where [proto_types]:
  "ty_DomainEventControlErrorMsg = TStruct ''libvirt.DomainEventControlErrorMsg''
     [fld ty_Domain]"

definition ty_DomainEventCallbackControlErrorMsg :: ty where [proto_types]:
  "ty_DomainEventCallbackControlErrorMsg = TStruct ''libvirt.DomainEventCallbackControlErrorMsg''
     [fld TInt32, fld ty_DomainEventControlErrorMsg]"

definition ty_DomainEventDeviceRemovedMsg :: ty where [proto_types]:
  "ty_DomainEventDeviceRemovedMsg = TStruct ''libvirt.DomainEventDeviceRemovedMsg''
     [fld ty_Domain, fld TString]"

definition ty_DomainEventCallbackDeviceRemovedMsg :: ty where [proto_types]:
  "ty_DomainEventCallbackDeviceRemovedMsg = TStruct ''libvirt.DomainEventCallbackDeviceRemovedMsg''
     [fld TInt32, fld ty_DomainEventDeviceRemovedMsg]"

definition ty_DomainEventCallbackTunableMsg :: ty where [proto_types]:
  "ty_DomainEventCallbackTunableMsg = TStruct ''libvirt.DomainEventCallbackTunableMsg''
     [fld TInt32, fld ty_Domain, fld (TSlice ty_TypedParam)]"

definition ty_DomainEventCallbackDeviceAddedMsg :: ty where [proto_types]:
  "ty_DomainEventCallbackDeviceAddedMsg = TStruct ''libvirt.DomainEventCallbackDeviceAddedMsg''
     [fld TInt32, fld ty_Domain, fld TString]"

definition ty_DomainEventCallbackAgentLifecycleMsg :: ty where [proto_types]:
  "ty_DomainEventCallbackAgentLifecycleMsg = TStruct ''libvirt.DomainEventCallbackAgentLifecycleMsg''
     [fld TInt32, fld ty_Domain, fld TInt32, fld TInt32]"

definition ty_DomainEventCallbackMigrationIterationMsg :: ty where [proto_types]:
  "ty_DomainEventCallbackMigrationIterationMsg = TStruct ''libvirt.DomainEventCallbackMigrationIterationMsg''
     [fld TInt32, fld ty_Domain, fld TInt32]"

definition ty_DomainEventCallbackJobCompletedMsg :: ty where [proto_types]:
  "ty_DomainEventCallbackJobCompletedMsg = TStruct ''libvirt.DomainEventCallbackJobCompletedMsg''
     [fld TInt32, fld ty_Domain, fld (TSlice ty_TypedParam)]"

definition ty_DomainEventCallbackDeviceRemovalFailedMsg :: ty where [proto_types]:
  "ty_DomainEventCallbackDeviceRemovalFailedMsg = TStruct ''libvirt.DomainEventCallbackDeviceRemovalFailedMsg''
     [fld TInt32, fld ty_Domain, fld TString]"

definition ty_DomainEventCallbackMetadataChangeMsg :: ty where [proto_types]:
  "ty_DomainEventCallbackMetadataChangeMsg = TStruct ''libvirt.DomainEventCallbackMetadataChangeMsg''
     [fld TInt32, fld ty_Domain, fld TInt32, fld ty_OptString]"

definition ty_DomainEvent :: ty where [proto_types]:
  "ty_DomainEvent = TStruct ''libvirt.DomainEvent''
     [fld TInt32, fld ty_Domain, fld TString, fld TUint64, fld TUint32, fld TUint8,
      fld (TSlice TUint8)]"

definition ty_QEMUDomainMonitorEventMsg :: ty where [proto_types]:
  "ty_QEMUDomainMonitorEventMsg = TStruct ''libvirt.QEMUDomainMonitorEventMsg''
     [fld TInt32, fld ty_Domain, fld TString, fld TInt64, fld TUint32, fld ty_OptString]"

section \<open>Arguments and results of calls\<close>

definition ty_ConnectFlags :: ty where [proto_types]:
  "ty_ConnectFlags = TNamed ''libvirt.ConnectFlags'' TInt32"

definition ty_ConnectOpenArgs :: ty where [proto_types]:
  "ty_ConnectOpenArgs = TStruct ''libvirt.ConnectOpenArgs''
     [fld ty_OptString, fld ty_ConnectFlags]"

definition ty_DomainCreateArgs :: ty where [proto_types]:
  "ty_DomainCreateArgs = TStruct ''libvirt.DomainCreateArgs''
     [fld ty_Domain]"

definition ty_DomainCreateFlags :: ty where [proto_types]:
  "ty_DomainCreateFlags = TNamed ''libvirt.DomainCreateFlags'' TInt32"

definition ty_DomainCreateXMLArgs :: ty where [proto_types]:
  "ty_DomainCreateXMLArgs = TStruct ''libvirt.DomainCreateXMLArgs''
     [fld TString, fld ty_DomainCreateFlags]"

definition ty_DomainXMLFlags :: ty where [proto_types]:
  "ty_DomainXMLFlags = TNamed ''libvirt.DomainXMLFlags'' TInt32"

definition ty_DomainGetXMLDescArgs :: ty where [proto_types]:
  "ty_DomainGetXMLDescArgs = TStruct ''libvirt.DomainGetXMLDescArgs''
     [fld ty_Domain, fld ty_DomainXMLFlags]"

definition ty_DomainGetInfoArgs :: ty where [proto_types]:
  "ty_DomainGetInfoArgs = TStruct ''libvirt.DomainGetInfoArgs''
     [fld ty_Domain]"

definition ty_DomainLookupByIDArgs :: ty where [proto_types]:
  "ty_DomainLookupByIDArgs = TStruct ''libvirt.DomainLookupByIDArgs''
     [fld TInt32]"

definition ty_DomainLookupByNameArgs :: ty where [proto_types]:
  "ty_DomainLookupByNameArgs = TStruct ''libvirt.DomainLookupByNameArgs''
     [fld TString]"

definition ty_DomainLookupByUUIDArgs :: ty where [proto_types]:
  "ty_DomainLookupByUUIDArgs = TStruct ''libvirt.DomainLookupByUUIDArgs''
     [fld ty_UUID]"

definition ty_DomainRebootFlagValues :: ty where [proto_types]:
  "ty_DomainRebootFlagValues = TNamed ''libvirt.DomainRebootFlagValues'' TInt32"

definition ty_DomainRebootArgs :: ty where [proto_types]:
  "ty_DomainRebootArgs = TStruct ''libvirt.DomainRebootArgs''
     [fld ty_Domain, fld ty_DomainRebootFlagValues]"

definition ty_DomainSetMemoryArgs :: ty where [proto_types]:
  "ty_DomainSetMemoryArgs = TStruct ''libvirt.DomainSetMemoryArgs''
     [fld ty_Domain, fld TUint64]"

definition ty_ConnectListDomainsArgs :: ty where [proto_types]:
  "ty_ConnectListDomainsArgs = TStruct ''libvirt.ConnectListDomainsArgs''
     [fld TInt32]"

definition ty_DomainGetSchedulerParametersArgs :: ty where [proto_types]:
  "ty_DomainGetSchedulerParametersArgs = TStruct ''libvirt.DomainGetSchedulerParametersArgs''
     [fld ty_Domain, fld TInt32]"

definition ty_DomainSetSchedulerParametersArgs :: ty where [proto_types]:
  "ty_DomainSetSchedulerParametersArgs = TStruct ''libvirt.DomainSetSchedulerParametersArgs''
     [fld ty_Domain, fld (TSlice ty_TypedParam)]"

definition ty_ConnectSupportsFeatureArgs :: ty where [proto_types]:
  "ty_ConnectSupportsFeatureArgs = TStruct ''libvirt.ConnectSupportsFeatureArgs''
     [fld TInt32]"

definition ty_DomainMigratePerformArgs :: ty where [proto_types]:
  "ty_DomainMigratePerformArgs = TStruct ''libvirt.DomainMigratePerformArgs''
     [fld ty_Domain, fld (TSlice TUint8), fld TString, fld TUint64, fld ty_OptString, fld TUint64]"

definition ty_DomainBlockStatsArgs :: ty where [proto_types]:
  "ty_DomainBlockStatsArgs = TStruct ''libvirt.DomainBlockStatsArgs''
     [fld ty_Domain, fld TString]"

definition ty_AuthType :: ty where [proto_types]:
  "ty_AuthType = TNamed ''libvirt.AuthType'' TInt32"

definition ty_StoragePoolLookupByNameArgs :: ty where [proto_types]:
  "ty_StoragePoolLookupByNameArgs = TStruct ''libvirt.StoragePoolLookupByNameArgs''
     [fld TString]"

definition ty_StoragePool :: ty where [proto_types]:
  "ty_StoragePool = TStruct ''libvirt.StoragePool''
     [fld TString, fld ty_UUID]"

definition ty_DomainMigratePrepareTunnelArgs :: ty where [proto_types]:
  "ty_DomainMigratePrepareTunnelArgs = TStruct ''libvirt.DomainMigratePrepareTunnelArgs''
     [fld TUint64, fld ty_OptString, fld TUint64, fld TString]"

definition ty_DomainMemoryStatsArgs :: ty where [proto_types]:
  "ty_DomainMemoryStatsArgs = TStruct ''libvirt.DomainMemoryStatsArgs''
     [fld ty_Domain, fld TUint32, fld TUint32]"

definition ty_DomainMemoryStat :: ty where [proto_types]:
  "ty_DomainMemoryStat = TStruct ''libvirt.DomainMemoryStat''
     [fld TInt32, fld TUint64]"

definition ty_DomainOpenConsoleArgs :: ty where [proto_types]:
  "ty_DomainOpenConsoleArgs = TStruct ''libvirt.DomainOpenConsoleArgs''
     [fld ty_Domain, fld ty_OptString, fld TUint32]"

definition ty_StorageVol :: ty where [proto_types]:
  "ty_StorageVol = TStruct ''libvirt.StorageVol''
     [fld TString, fld TString, fld TString]"

definition ty_StorageVolUploadFlags :: ty where [proto_types]:
  "ty_StorageVolUploadFlags = TNamed ''libvirt.StorageVolUploadFlags'' TInt32"

definition ty_StorageVolUploadArgs :: ty where [proto_types]:
  "ty_StorageVolUploadArgs = TStruct ''libvirt.StorageVolUploadArgs''
     [fld ty_StorageVol, fld TUint64, fld TUint64, fld ty_StorageVolUploadFlags]"

definition ty_StorageVolDownloadFlags :: ty where [proto_types]:
  "ty_StorageVolDownloadFlags = TNamed ''libvirt.StorageVolDownloadFlags'' TInt32"

definition ty_StorageVolDownloadArgs :: ty where [proto_types]:
  "ty_StorageVolDownloadArgs = TStruct ''libvirt.StorageVolDownloadArgs''
     [fld ty_StorageVol, fld TUint64, fld TUint64, fld ty_StorageVolDownloadFlags]"

definition ty_DomainScreenshotArgs :: ty where [proto_types]:
  "ty_DomainScreenshotArgs = TStruct ''libvirt.DomainScreenshotArgs''
     [fld ty_Domain, fld TUint32, fld TUint32]"

definition ty_DomainGetStateArgs :: ty where [proto_types]:
  "ty_DomainGetStateArgs = TStruct ''libvirt.DomainGetStateArgs''
     [fld ty_Domain, fld TUint32]"

definition ty_DomainMigratePrepareTunnel3Args :: ty where [proto_types]:
  "ty_DomainMigratePrepareTunnel3Args = TStruct ''libvirt.DomainMigratePrepareTunnel3Args''
     [fld (TSlice TUint8), fld TUint64, fld ty_OptString, fld TUint64, fld TString]"

definition ty_DomainUndefineFlagsValues :: ty where [proto_types]:
  "ty_DomainUndefineFlagsValues = TNamed ''libvirt.DomainUndefineFlagsValues'' TInt32"

definition ty_DomainUndefineFlagsArgs :: ty where [proto_types]:
  "ty_DomainUndefineFlagsArgs = TStruct ''libvirt.DomainUndefineFlagsArgs''
     [fld ty_Domain, fld ty_DomainUndefineFlagsValues]"

definition ty_DomainDestroyFlagsValues :: ty where [proto_types]:
  "ty_DomainDestroyFlagsValues = TNamed ''libvirt.DomainDestroyFlagsValues'' TInt32"

definition ty_DomainDestroyFlagsArgs :: ty where [proto_types]:
  "ty_DomainDestroyFlagsArgs = TStruct ''libvirt.DomainDestroyFlagsArgs''
     [fld ty_Domain, fld ty_DomainDestroyFlagsValues]"

definition ty_DomainResetArgs :: ty where [proto_types]:
  "ty_DomainResetArgs = TStruct ''libvirt.DomainResetArgs''
     [fld ty_Domain, fld TUint32]"

definition ty_DomainSetBlockIOTuneArgs :: ty where [proto_types]:
  "ty_DomainSetBlockIOTuneArgs = TStruct ''libvirt.DomainSetBlockIOTuneArgs''
     [fld ty_Domain, fld TString, fld (TSlice ty_TypedParam), fld TUint32]"

definition ty_DomainGetBlockIOTuneArgs :: ty where [proto_types]:
  "ty_DomainGetBlockIOTuneArgs = TStruct ''libvirt.DomainGetBlockIOTuneArgs''
     [fld ty_Domain, fld ty_OptString, fld TInt32, fld TUint32]"

definition ty_DomainShutdownFlagValues :: ty where [proto_types]:
  "ty_DomainShutdownFlagValues = TNamed ''libvirt.DomainShutdownFlagValues'' TInt32"

definition ty_DomainShutdownFlagsArgs :: ty where [proto_types]:
  "ty_DomainShutdownFlagsArgs = TStruct ''libvirt.DomainShutdownFlagsArgs''
     [fld ty_Domain, fld ty_DomainShutdownFlagValues]"

definition ty_ConnectListAllDomainsFlags :: ty where [proto_types]:
  "ty_ConnectListAllDomainsFlags = TNamed ''libvirt.ConnectListAllDomainsFlags'' TInt32"

definition ty_ConnectListAllDomainsArgs :: ty where [proto_types]:
  "ty_ConnectListAllDomainsArgs = TStruct ''libvirt.ConnectListAllDomainsArgs''
     [fld TInt32, fld ty_ConnectListAllDomainsFlags]"

definition ty_ConnectListAllStoragePoolsFlags :: ty where [proto_types]:
  "ty_ConnectListAllStoragePoolsFlags = TNamed ''libvirt.ConnectListAllStoragePoolsFlags'' TInt32"

definition ty_ConnectListAllStoragePoolsArgs :: ty where [proto_types]:
  "ty_ConnectListAllStoragePoolsArgs = TStruct ''libvirt.ConnectListAllStoragePoolsArgs''
     [fld TInt32, fld ty_ConnectListAllStoragePoolsFlags]"

definition ty_ConnectListAllSecretsFlags :: ty where [proto_types]:
  "ty_ConnectListAllSecretsFlags = TNamed ''libvirt.ConnectListAllSecretsFlags'' TInt32"

definition ty_ConnectListAllSecretsArgs :: ty where [proto_types]:
  "ty_ConnectListAllSecretsArgs = TStruct ''libvirt.ConnectListAllSecretsArgs''
     [fld TInt32, fld ty_ConnectListAllSecretsFlags]"

definition ty_Secret :: ty where [proto_types]:
  "ty_Secret = TStruct ''libvirt.Secret''
     [fld ty_UUID, fld TInt32, fld TString]"

definition ty_Network :: ty where [proto_types]:
  "ty_Network = TStruct ''libvirt.Network''
     [fld TString, fld ty_UUID]"

definition ty_NetworkUpdateFlags :: ty where [proto_types]:
  "ty_NetworkUpdateFlags = TNamed ''libvirt.NetworkUpdateFlags'' TInt32"

definition ty_NetworkUpdateArgs :: ty where [proto_types]:
  "ty_NetworkUpdateArgs = TStruct ''libvirt.NetworkUpdateArgs''
     [fld ty_Network, fld TUint32, fld TUint32, fld TInt32, fld TString, fld ty_NetworkUpdateFlags]"

definition ty_DomainChannelFlags :: ty where [proto_types]:
  "ty_DomainChannelFlags = TNamed ''libvirt.DomainChannelFlags'' TInt32"

definition ty_DomainOpenChannelArgs :: ty where [proto_types]:
  "ty_DomainOpenChannelArgs = TStruct ''libvirt.DomainOpenChannelArgs''
     [fld ty_Domain, fld ty_OptString, fld ty_DomainChannelFlags]"

definition ty_OptDomain :: ty where [proto_types]:
  "ty_OptDomain = TNamed ''libvirt.OptDomain'' (TSlice ty_Domain)"

definition ty_ConnectDomainEventCallbackRegisterAnyArgs :: ty where [proto_types]:
  "ty_ConnectDomainEventCallbackRegisterAnyArgs = TStruct ''libvirt.ConnectDomainEventCallbackRegisterAnyArgs''
     [fld TInt32, fld ty_OptDomain]"

definition ty_ConnectDomainEventCallbackDeregisterAnyArgs :: ty where [proto_types]:
  "ty_ConnectDomainEventCallbackDeregisterAnyArgs = TStruct ''libvirt.ConnectDomainEventCallbackDeregisterAnyArgs''
     [fld TInt32]"

definition ty_DomainDefineFlags :: ty where [proto_types]:
  "ty_DomainDefineFlags = TNamed ''libvirt.DomainDefineFlags'' TInt32"

definition ty_DomainDefineXMLFlagsArgs :: ty where [proto_types]:
  "ty_DomainDefineXMLFlagsArgs = TStruct ''libvirt.DomainDefineXMLFlagsArgs''
     [fld TString, fld ty_DomainDefineFlags]"

definition ty_QEMUDomainMonitorCommandArgs :: ty where [proto_types]:
  "ty_QEMUDomainMonitorCommandArgs = TStruct ''libvirt.QEMUDomainMonitorCommandArgs''
     [fld ty_Domain, fld TString, fld TUint32]"

definition ty_QEMUDomainAttachArgs :: ty where [proto_types]:
  "ty_QEMUDomainAttachArgs = TStruct ''libvirt.QEMUDomainAttachArgs''
     [fld TUint32, fld TUint32]"

definition ty_QEMUDomainAgentCommandArgs :: ty where [proto_types]:
  "ty_QEMUDomainAgentCommandArgs = TStruct ''libvirt.QEMUDomainAgentCommandArgs''
     [fld ty_Domain, fld TString, fld TInt32, fld TUint32]"

definition ty_QEMUConnectDomainMonitorEventRegisterArgs :: ty where [proto_types]:
  "ty_QEMUConnectDomainMonitorEventRegisterArgs = TStruct ''libvirt.QEMUConnectDomainMonitorEventRegisterArgs''
     [fld ty_OptDomain, fld ty_OptString, fld TUint32]"

definition ty_QEMUConnectDomainMonitorEventDeregisterArgs :: ty where [proto_types]:
  "ty_QEMUConnectDomainMonitorEventDeregisterArgs = TStruct ''libvirt.QEMUConnectDomainMonitorEventDeregisterArgs''
     [fld TInt32]"

definition ty_QEMUDomainMonitorCommandWithFilesArgs :: ty where [proto_types]:
  "ty_QEMUDomainMonitorCommandWithFilesArgs = TStruct ''libvirt.QEMUDomainMonitorCommandWithFilesArgs''
     [fld ty_Domain, fld TString, fld TUint32]"

end
