(* ===== verification/Rpc_Properties.thy ===== *)
theory Rpc_Properties
  imports Rpc_Typed
begin

text \<open>
  What requests owe their callers: errors sent by the server, and the incoming half of streams.
\<close>

section \<open>Errors\<close>

text \<open>The chain of wrapped errors, unwrapped \<open>k\<close> times.\<close>

definition unwraps :: "nat \<Rightarrow> error \<Rightarrow> error option" where
  "unwraps k e = ((\<lambda>x. Option.bind x err_unwrap) ^^ k) (Some e)"

lemma unwraps_0: "unwraps 0 e = Some e"
  by (simp add: unwraps_def)

lemma unwraps_None: "((\<lambda>x. Option.bind x err_unwrap) ^^ k) None = None"
  by (induction k) simp_all

lemma unwraps_Suc:
  "unwraps (Suc k) e = (case err_unwrap e of None \<Rightarrow> None | Some e' \<Rightarrow> unwraps k e')"
  by (simp add: unwraps_def funpow_Suc_right unwraps_None del: funpow.simps(2) split: option.splits)

text \<open>
  \<open>checkError\<close> tells whether somewhere down the chain of wrapped errors there is a libvirt
  \<open>Error\<close> with the expected code.
\<close>
theorem checkError_iff:
  "checkError (Some e) n = (\<exists>k msg. unwraps k e = Some (LibvirtError n msg))"
proof (induction "size e" arbitrary: e rule: less_induct)
  case less
  show ?case
  proof (cases "err_unwrap e")
    case None
    then have "unwraps k e = Some x \<longleftrightarrow> k = 0 \<and> x = e" for k x
      by (cases k) (auto simp: unwraps_Suc unwraps_0)
    with None show ?thesis by (cases e) auto
  next
    case (Some e')
    have "(\<exists>k msg. unwraps k e = Some (LibvirtError n msg)) \<longleftrightarrow>
        (\<exists>k msg. unwraps k e' = Some (LibvirtError n msg))"
    proof
      assume "\<exists>k msg. unwraps k e = Some (LibvirtError n msg)"
      then obtain k msg where k: "unwraps k e = Some (LibvirtError n msg)" by blast
      with Some have "k \<noteq> 0" by (cases k) (auto simp: unwraps_0)
      with k Some show "\<exists>k msg. unwraps k e' = Some (LibvirtError n msg)"
        by (cases k) (auto simp: unwraps_Suc)
    next
      assume "\<exists>k msg. unwraps k e' = Some (LibvirtError n msg)"
      then obtain k msg where "unwraps k e' = Some (LibvirtError n msg)" by blast
      with Some have "unwraps (Suc k) e = Some (LibvirtError n msg)" by (simp add: unwraps_Suc)
      then show "\<exists>k msg. unwraps k e = Some (LibvirtError n msg)" by blast
    qed
    moreover have "checkError (Some e) n = checkError (Some e') n"
      using Some by (cases e) auto
    ultimately show ?thesis using less err_unwrap_size [OF Some] by simp
  qed
qed

text \<open>An error as the server sends it.\<close>

definition error_message :: "u32 \<Rightarrow> u32 \<Rightarrow> u64 \<Rightarrow> string \<Rightarrow> u32 \<Rightarrow> val" where
  "error_message code domain padding msg level =
     VStruct [VUint (ucast code), VUint (ucast domain), VUint padding, VString msg, VUint (ucast level)]"

lemma canon_u32: "canon d fmt TUint32 (VUint (ucast (w :: u32)))"
proof -
  have "unat w < 2 ^ 32" using unsigned_less [of w, where 'a = nat] by simp
  then have "\<not> overflow_uint 32 (ucast w)"
    by (simp add: overflow_uint_def unsigned_ucast_eq take_bit_nat_eq_self)
  then show ?thesis by (intro canon_uint) simp_all
qed

lemma canon_fld: "canon d fmt t v \<Longrightarrow> canon_struct d fmt fs vs \<Longrightarrow> canon_struct d fmt (fld t # fs) (v # vs)"
  by (rule canon_field) simp_all

lemma canon_error_message:
  assumes "length msg \<le> MaxOpaque" "unat padding < 256"
  shows "canon (NewDecoder tp) fmt ty_wire_error (error_message code domain padding msg level)"
  unfolding ty_wire_error_def error_message_def
  using assms
  by (intro canon_structI canon_fld canon_nil canon_u32 canon_uint canon_string)
    (simp_all add: overflow_uint_def fits_NewDecoder MaxOpaque_def)

text \<open>The bytes of such an error.\<close>

lemma appends_error_message:
  "appends (encode fmt ty_wire_error (error_message code domain padding msg level))
     (be32 code @ be32 domain @ be32 (ucast padding :: u32) @ be32 (word_of_nat (length msg) :: u32) @
      (bytes_of_string msg @ replicate (pad_len (length msg)) 0) @ be32 level)"
proof -
  have opaque: "appends (EncodeFixedOpaque (bytes_of_string msg))
      (bytes_of_string msg @ replicate (pad_len (length msg)) 0)"
    using appends_EncodeFixedOpaque [of "bytes_of_string msg"] by simp
  have "encode fmt ty_wire_error (error_message code domain padding msg level) =
      io_bind (EncodeUint code) (\<lambda>_. io_bind (EncodeUint domain) (\<lambda>_.
      io_bind (EncodeUint (ucast padding)) (\<lambda>_. io_bind (EncodeUint (word_of_nat (length msg)))
      (\<lambda>_. io_bind (EncodeFixedOpaque (bytes_of_string msg)) (\<lambda>_. EncodeUint level)))))"
    by (simp add: ty_wire_error_def error_message_def indirect.simps EncodeString_def io_bind_assoc)
  then show ?thesis
    unfolding EncodeUint_def by (auto intro!: appends_bind appends_enc_write opaque simp del: append_assoc)
qed

lemma wire_error_message: "wire_error (error_message code domain padding msg level) = (code, msg)"
  by (simp add: wire_error_def error_message_def)

text \<open>
  C18. A request that the server answers with an error returns that error: the code and the message
  that were sent; the two exceptions are a message with the text \<open>unknown procedure\<close>, for which the
  caller gets \<open>ErrUnsupported\<close>, and the code \<open>ERR_OK\<close>, which counts as success. When the connection
  is lost first, the caller gets \<open>ErrInterrupted\<close>.
\<close>
theorem getResponse_error:
  assumes "length msg \<le> MaxOpaque" and "unat padding < 256"
  shows "\<exists>bs. encode_payload lib (ty_wire_error, error_message code domain padding msg level) = Ok bs \<and>
    (\<forall>rest c. getResponse lib (\<lparr>Payload = bs @ rest, RStatus = StatusError\<rparr> # c) =
      (if str_contains msg ''unknown procedure'' then Err ErrUnsupported
       else if code = ErrOk then Ok \<lparr>Payload = bs @ rest, RStatus = StatusError\<rparr>
       else Err (LibvirtError code msg), c)) \<and>
    getResponse lib [] = (Err ErrInterrupted, [])"
proof -
  obtain bs where "encode_payload lib (ty_wire_error, error_message code domain padding msg level) = Ok bs"
    "\<And>rest. decode_payload (NewDecoder (time_Parse lib)) ty_wire_error (bs @ rest) =
       Ok (error_message code domain padding msg level)"
    using payload_canon [OF plain_NewDecoder canon_error_message [OF assms]] by blast
  then show ?thesis
    by (simp add: getResponse_def decodeError_def wire_error_message)
qed

definition sample_lib :: time_lib where
  "sample_lib = \<lparr>time_Format = \<lambda>_. [], time_Parse = \<lambda>_. Inr 0\<rparr>"

theorem getResponse_error_witness:
  "\<exists>bs. encode_payload sample_lib (ty_wire_error, error_message 42 10 1 ''no domain'' 2) = Ok bs \<and>
    getResponse sample_lib [\<lparr>Payload = bs, RStatus = StatusError\<rparr>] = (Err (LibvirtError 42 ''no domain''), [])"
proof -
  have "\<not> str_contains ''no domain'' ''unknown procedure''"
    by (simp add: str_contains_def str_index.simps)
  then show ?thesis
    using getResponse_error [of "''no domain''" 1 sample_lib 42 10 2]
    by (auto simp: MaxOpaque_def ErrOk_def) (metis append_Nil2)
qed

section \<open>Incoming streams\<close>

lemma incoming_data:
  assumes "RStatus r = StatusContinue" "Payload r \<noteq> []"
  shows "processIncomingStream lib (r # c) inw =
    (case inw of None \<Rightarrow> processIncomingStream lib c None
     | Some w \<Rightarrow> (case Write (Payload r) w of
         (n, Some e, w') \<Rightarrow> (Err e, c, Some w')
       | (n, None, w') \<Rightarrow> processIncomingStream lib c (Some w')))"
  using assms by (subst processIncomingStream.simps) (simp add: getResponse_def status_defs)

lemma incoming_all_data:
  assumes "\<forall>r \<in> set ds. RStatus r = StatusContinue \<and> Payload r \<noteq> []" and "room w = None"
  shows "processIncomingStream lib (ds @ c) (Some w) =
      processIncomingStream lib c (Some (w\<lparr>written := written w @ concat (List.map Payload ds)\<rparr>))"
    and "processIncomingStream lib (ds @ c) None = processIncomingStream lib c None"
  using assms by (induction ds arbitrary: w) (simp_all add: incoming_data Write_def)

text \<open>
  C17. The incoming half of a stream writes the payloads of the data packets to the caller's writer, in
  order and completely, and returns when the stream ends: with the last response after a packet with
  status "ok" or an empty packet, with the server's error after an error packet, and with
  \<open>ErrInterrupted\<close> when the connection is lost. Without a writer it does the same and drops the data.
\<close>
theorem incoming_stream:
  assumes "\<forall>r \<in> set ds. RStatus r = StatusContinue \<and> Payload r \<noteq> []" and "room w = None"
    and "getResponse lib c = (r, c1)"
    and "case r of Ok t \<Rightarrow> RStatus t = StatusOK \<or> Payload t = [] | _ \<Rightarrow> True"
  shows "processIncomingStream lib (ds @ c) (Some w) =
      (r, c1, Some (w\<lparr>written := written w @ concat (List.map Payload ds)\<rparr>)) \<and>
    processIncomingStream lib (ds @ c) None = (r, c1, None)"
proof -
  have "processIncomingStream lib c inw = (r, c1, inw)" for inw
    using assms(3,4) by (subst processIncomingStream.simps) (auto split: res.splits)
  then show ?thesis by (simp add: incoming_all_data [OF assms(1,2)])
qed

definition data_response :: "byte list \<Rightarrow> response" where
  "data_response bs = \<lparr>Payload = bs, RStatus = StatusContinue\<rparr>"

theorem incoming_stream_witness:
  "processIncomingStream sample_lib ([data_response [1, 2], data_response [3]] @ [data_response []])
      (Some empty_buffer) =
      (Ok (data_response []), [], Some (empty_buffer\<lparr>written := written empty_buffer @ [1, 2, 3]\<rparr>)) \<and>
    processIncomingStream sample_lib ([data_response [1, 2], data_response [3]] @ [data_response []]) None =
      (Ok (data_response []), [], None)"
  using incoming_stream [of "[data_response [1, 2], data_response [3]]" empty_buffer sample_lib
      "[data_response []]" "Ok (data_response [])" "[]"]
  by (simp add: data_response_def getResponse_def status_defs empty_buffer_def)

text \<open>
  An error packet in the middle of a stream whose code is \<open>ERR_OK\<close> is taken for data: \<open>getResponse\<close>
  reports no error for it, so that the encoded error is written to the caller's stream, which goes on.
\<close>
theorem ok_error_in_stream:
  assumes "RStatus t = StatusError" and "Payload t \<noteq> []" and "decodeError lib (Payload t) = Ok None"
    and "room w = None"
  shows "processIncomingStream lib (t # c) (Some w) =
    processIncomingStream lib c (Some (w\<lparr>written := written w @ Payload t\<rparr>))"
  using assms by (subst processIncomingStream.simps) (simp add: getResponse_def status_defs Write_def)

definition ok_error :: "byte list" where
  "ok_error = [0, 0, 0, 0,  0, 0, 0, 0,  0, 0, 0, 0,  0, 0, 0, 0,  0, 0, 0, 0]"

theorem ok_error_in_stream_witness:
  "processIncomingStream sample_lib [\<lparr>Payload = ok_error, RStatus = StatusError\<rparr>]
      (Some empty_buffer) =
    processIncomingStream sample_lib [] (Some (empty_buffer\<lparr>written := written empty_buffer @ ok_error\<rparr>))"
proof -
  have c: "canon (NewDecoder (time_Parse sample_lib)) (time_Format sample_lib) ty_wire_error
      (error_message 0 0 0 [] 0)" by (rule canon_error_message) simp_all
  obtain bs where bs: "encode_payload sample_lib (ty_wire_error, error_message 0 0 0 [] 0) = Ok bs"
    "\<And>rest. decode_payload (NewDecoder (time_Parse sample_lib)) ty_wire_error (bs @ rest) =
       Ok (error_message 0 0 0 [] 0)"
    by (rule payload_canon [OF plain_NewDecoder c]) blast
  have "appends (encode (time_Format sample_lib) ty_wire_error (error_message 0 0 0 [] 0)) ok_error"
    using appends_error_message [of "time_Format sample_lib" 0 0 0 "[]" 0]
    by (simp add: be32_def pad_len_def ok_error_def bytes_of_string_def)
  then have "encode_payload sample_lib (ty_wire_error, error_message 0 0 0 [] 0) = Ok ok_error"
    by (intro encode_payload_appends) (simp add: Marshal_canon [OF c])
  with bs have "decodeError sample_lib ok_error = Ok None"
    using bs(2) [of "[]"]
    by (simp add: decodeError_def wire_error_message ErrOk_def str_contains_def str_index.simps)
  then show ?thesis
    using ok_error_in_stream [of "\<lparr>Payload = ok_error, RStatus = StatusError\<rparr>" sample_lib
        empty_buffer "[]"]
    by (simp add: empty_buffer_def ok_error_def)
qed

end
