(* ===== verification/Protocol_Calls.thy ===== *)
theory Protocol_Calls
  imports Protocol_Types Rpc_Properties
begin

text \<open>
  The generated calls of \<open>src/remote_protocol.gen.go\<close> and \<open>src/qemu_protocol.gen.go\<close> that the hand-written
  code uses, with a representative of every form the generator emits (streams in either direction,
  typed parameters, several results). All of them follow one template: encode the structure of the
  arguments, \<open>requestStream\<close>, decode the results with the decoder for typed parameters.
\<close>

section \<open>The template\<close>

text \<open>Go values as the model's values.\<close>

definition of_i32 :: "i32 \<Rightarrow> val" where "of_i32 x = VInt (scast x)"
definition of_u32 :: "u32 \<Rightarrow> val" where "of_u32 x = VUint (ucast x)"
definition of_bytes :: "byte list \<Rightarrow> val" where "of_bytes bs = VSlice (List.map byte_val bs) []"
definition of_uuid :: "byte list \<Rightarrow> val" where "of_uuid bs = VArray (List.map byte_val bs)"
definition of_strings :: "string list \<Rightarrow> val" where "of_strings ss = VSlice (List.map VString ss) []"
definition of_u32s :: "u32 list \<Rightarrow> val" where "of_u32s xs = VSlice (List.map of_u32 xs) []"
definition of_u64s :: "u64 list \<Rightarrow> val" where "of_u64s xs = VSlice (List.map VUint xs) []"
definition of_i8s :: "8 word list \<Rightarrow> val" where "of_i8s xs = VSlice (List.map (\<lambda>x. VInt (scast x)) xs) []"

lemmas of_defs =
  of_i32_def of_u32_def of_bytes_def of_uuid_def of_strings_def of_u32s_def of_u64s_def of_i8s_def

text \<open>\<open>dec.Decode(&r)\<close> for each result in turn.\<close>

fun decode_results :: "decoder \<Rightarrow> ty list \<Rightarrow> val list dec" where
  "decode_results d [] = io_ret []"
| "decode_results d (t # ts) =
     io_bind (decode_new d t) (\<lambda>v. io_map (\<lambda>vs. v # vs) (decode_results d ts))"

text \<open>The outcome of a call with its results, the caller's writer, and the client afterwards.\<close>

type_synonym call_result = "(error, val list) res \<times> writer option \<times> client"

definition encode_args :: "time_lib \<Rightarrow> (ty \<times> val) option \<Rightarrow> (error, byte list option) res" where
  "encode_args lib args =
     (case args of
        None \<Rightarrow> Ok None
      | Some (t, v) \<Rightarrow> res_bind (encode_payload lib (TPtr t, VPtr (Some v))) (\<lambda>b. Ok (Some b)))"

definition call :: "u32 \<Rightarrow> u32 \<Rightarrow> (ty \<times> val) option \<Rightarrow> ty list \<Rightarrow> out_stream option \<Rightarrow>
    writer option \<Rightarrow> client \<Rightarrow> call_result" where
  "call proc program args rets out inw cl =
     (case encode_args (tlib cl) args of
        Ok buf \<Rightarrow>
          (case requestStream proc program buf out inw cl of
             (r, w, cl') \<Rightarrow>
               (res_bind r (\<lambda>resp.
                  fst (snd (decode_results (call_decoder (time_Parse (tlib cl))) rets (Payload resp)))),
                w, cl'))
      | Err e \<Rightarrow> (Err e, inw, cl)
      | Panic \<Rightarrow> (Panic, inw, cl))"

section \<open>The calls\<close>

definition ConnectOpen :: "string list \<Rightarrow> i32 \<Rightarrow> client \<Rightarrow>
    call_result" where
  "ConnectOpen Name Flags cl =
     call 1 RemoteProgram
       (Some (ty_ConnectOpenArgs, VStruct [of_strings Name, of_i32 Flags]))
       [] None None cl"

definition ConnectClose :: "client \<Rightarrow> call_result" where
  "ConnectClose cl =
     call 2 RemoteProgram None [] None None cl"

definition ConnectGetType :: "client \<Rightarrow> call_result" where
  "ConnectGetType cl =
     call 3 RemoteProgram None [TString] None None cl"

definition ConnectGetCapabilities :: "client \<Rightarrow> call_result" where
  "ConnectGetCapabilities cl =
     call 7 RemoteProgram None [TString] None None cl"

definition DomainCreate :: "val \<Rightarrow> client \<Rightarrow> call_result" where
  "DomainCreate Dom cl =
     call 9 RemoteProgram (Some (ty_DomainCreateArgs, VStruct [Dom])) [] None None cl"

definition DomainCreateXML :: "string \<Rightarrow> i32 \<Rightarrow> client \<Rightarrow>
    call_result" where
  "DomainCreateXML XMLDesc Flags cl =
     call 10 RemoteProgram
       (Some (ty_DomainCreateXMLArgs, VStruct [VString XMLDesc, of_i32 Flags]))
       [ty_Domain] None None cl"

definition DomainGetXMLDesc :: "val \<Rightarrow> i32 \<Rightarrow> client \<Rightarrow>
    call_result" where
  "DomainGetXMLDesc Dom Flags cl =
     call 14 RemoteProgram
       (Some (ty_DomainGetXMLDescArgs, VStruct [Dom, of_i32 Flags]))
       [TString] None None cl"

definition DomainGetInfo :: "val \<Rightarrow> client \<Rightarrow> call_result" where
  "DomainGetInfo Dom cl =
     call 16 RemoteProgram
       (Some (ty_DomainGetInfoArgs, VStruct [Dom]))
       [TUint8, TUint64, TUint64, TUint16, TUint64] None None cl"

definition DomainLookupByID :: "i32 \<Rightarrow> client \<Rightarrow> call_result" where
  "DomainLookupByID ID cl =
     call 22 RemoteProgram
       (Some (ty_DomainLookupByIDArgs, VStruct [of_i32 ID]))
       [ty_Domain] None None cl"

definition DomainLookupByName :: "string \<Rightarrow> client \<Rightarrow> call_result" where
  "DomainLookupByName Name cl =
     call 23 RemoteProgram
       (Some (ty_DomainLookupByNameArgs, VStruct [VString Name]))
       [ty_Domain] None None cl"

definition DomainLookupByUUID :: "byte list \<Rightarrow> client \<Rightarrow> call_result" where
  "DomainLookupByUUID Uuid cl =
     call 24 RemoteProgram
       (Some (ty_DomainLookupByUUIDArgs, VStruct [of_uuid Uuid]))
       [ty_Domain] None None cl"

definition DomainReboot :: "val \<Rightarrow> i32 \<Rightarrow> client \<Rightarrow> call_result"
    where
  "DomainReboot Dom Flags cl =
     call 27 RemoteProgram
       (Some (ty_DomainRebootArgs, VStruct [Dom, of_i32 Flags]))
       [] None None cl"

definition DomainSetMemory :: "val \<Rightarrow> u64 \<Rightarrow> client \<Rightarrow>
    call_result" where
  "DomainSetMemory Dom Memory cl =
     call 31 RemoteProgram
       (Some (ty_DomainSetMemoryArgs, VStruct [Dom, VUint Memory]))
       [] None None cl"

definition ConnectListDomains :: "i32 \<Rightarrow> client \<Rightarrow> call_result" where
  "ConnectListDomains Maxids cl =
     call 37 RemoteProgram
       (Some (ty_ConnectListDomainsArgs, VStruct [of_i32 Maxids]))
       [TSlice TInt32] None None cl"

definition DomainGetSchedulerParameters :: "val \<Rightarrow> i32 \<Rightarrow> client
    \<Rightarrow> call_result" where
  "DomainGetSchedulerParameters Dom Nparams cl =
     call 57 RemoteProgram
       (Some (ty_DomainGetSchedulerParametersArgs, VStruct [Dom, of_i32 Nparams]))
       [TSlice ty_TypedParam] None None cl"

definition DomainSetSchedulerParameters :: "val \<Rightarrow> val list \<Rightarrow> client
    \<Rightarrow> call_result" where
  "DomainSetSchedulerParameters Dom Params cl =
     call 58 RemoteProgram
       (Some (ty_DomainSetSchedulerParametersArgs, VStruct [Dom, VSlice Params []]))
       [] None None cl"

definition ConnectGetHostname :: "client \<Rightarrow> call_result" where
  "ConnectGetHostname cl =
     call 59 RemoteProgram None [TString] None None cl"

definition ConnectSupportsFeature :: "i32 \<Rightarrow> client \<Rightarrow> call_result" where
  "ConnectSupportsFeature Feature cl =
     call 60 RemoteProgram
       (Some (ty_ConnectSupportsFeatureArgs, VStruct [of_i32 Feature]))
       [TInt32] None None cl"

definition DomainMigratePerform :: "val \<Rightarrow> byte list \<Rightarrow> string \<Rightarrow>
    u64 \<Rightarrow> string list \<Rightarrow> u64 \<Rightarrow> client \<Rightarrow>
    call_result" where
  "DomainMigratePerform Dom Cookie Uri Flags Dname Bandwidth cl =
     call 62 RemoteProgram
       (Some (ty_DomainMigratePerformArgs, VStruct [Dom, of_bytes Cookie, VString Uri, VUint
        Flags, of_strings Dname, VUint Bandwidth]))
       [] None None cl"

definition DomainBlockStats :: "val \<Rightarrow> string \<Rightarrow> client \<Rightarrow>
    call_result" where
  "DomainBlockStats Dom Path cl =
     call 64 RemoteProgram
       (Some (ty_DomainBlockStatsArgs, VStruct [Dom, VString Path]))
       [TInt64, TInt64, TInt64, TInt64, TInt64] None None cl"

definition AuthList :: "client \<Rightarrow> call_result" where
  "AuthList cl =
     call 66 RemoteProgram None [TSlice ty_AuthType] None None cl"

definition AuthPolkit :: "client \<Rightarrow> call_result" where
  "AuthPolkit cl =
     call 70 RemoteProgram None [TInt32] None None cl"

definition StoragePoolLookupByName :: "string \<Rightarrow> client \<Rightarrow> call_result" where
  "StoragePoolLookupByName Name cl =
     call 84 RemoteProgram
       (Some (ty_StoragePoolLookupByNameArgs, VStruct [VString Name]))
       [ty_StoragePool] None None cl"

definition DomainMigratePrepareTunnel :: "u64 \<Rightarrow> string list \<Rightarrow> u64
    \<Rightarrow> string \<Rightarrow> out_stream option \<Rightarrow> client \<Rightarrow>
    call_result" where
  "DomainMigratePrepareTunnel Flags Dname Bandwidth DomXML outStream cl =
     call 148 RemoteProgram
       (Some (ty_DomainMigratePrepareTunnelArgs, VStruct [VUint Flags, of_strings Dname, VUint
        Bandwidth, VString DomXML]))
       [] outStream None cl"

definition ConnectGetLibVersion :: "client \<Rightarrow> call_result" where
  "ConnectGetLibVersion cl =
     call 157 RemoteProgram None [TUint64] None None cl"

definition DomainMemoryStats :: "val \<Rightarrow> u32 \<Rightarrow> u32 \<Rightarrow> client
    \<Rightarrow> call_result" where
  "DomainMemoryStats Dom MaxStats Flags cl =
     call 159 RemoteProgram
       (Some (ty_DomainMemoryStatsArgs, VStruct [Dom, of_u32 MaxStats, of_u32 Flags]))
       [TSlice ty_DomainMemoryStat] None None cl"

definition DomainOpenConsole :: "val \<Rightarrow> string list \<Rightarrow> u32 \<Rightarrow>
    writer option \<Rightarrow> client \<Rightarrow> call_result" where
  "DomainOpenConsole Dom DevName Flags inStream cl =
     call 201 RemoteProgram
       (Some (ty_DomainOpenConsoleArgs, VStruct [Dom, of_strings DevName, of_u32 Flags]))
       [] None inStream cl"

definition StorageVolUpload :: "val \<Rightarrow> u64 \<Rightarrow> u64 \<Rightarrow> i32
    \<Rightarrow> out_stream option \<Rightarrow> client \<Rightarrow> call_result" where
  "StorageVolUpload Vol Offset Length Flags outStream cl =
     call 208 RemoteProgram
       (Some (ty_StorageVolUploadArgs, VStruct [Vol, VUint Offset, VUint Length, of_i32 Flags]))
       [] outStream None cl"

definition StorageVolDownload :: "val \<Rightarrow> u64 \<Rightarrow> u64 \<Rightarrow> i32
    \<Rightarrow> writer option \<Rightarrow> client \<Rightarrow> call_result" where
  "StorageVolDownload Vol Offset Length Flags inStream cl =
     call 209 RemoteProgram
       (Some (ty_StorageVolDownloadArgs, VStruct [Vol, VUint Offset, VUint Length, of_i32 Flags]))
       [] None inStream cl"

definition DomainScreenshot :: "val \<Rightarrow> u32 \<Rightarrow> u32 \<Rightarrow> writer
    option \<Rightarrow> client \<Rightarrow> call_result" where
  "DomainScreenshot Dom Screen Flags inStream cl =
     call 211 RemoteProgram
       (Some (ty_DomainScreenshotArgs, VStruct [Dom, of_u32 Screen, of_u32 Flags]))
       [ty_OptString] None inStream cl"

definition DomainGetState :: "val \<Rightarrow> u32 \<Rightarrow> client \<Rightarrow>
    call_result" where
  "DomainGetState Dom Flags cl =
     call 212 RemoteProgram
       (Some (ty_DomainGetStateArgs, VStruct [Dom, of_u32 Flags]))
       [TInt32, TInt32] None None cl"

definition DomainMigratePrepareTunnel3 :: "byte list \<Rightarrow> u64 \<Rightarrow> string list
    \<Rightarrow> u64 \<Rightarrow> string \<Rightarrow> out_stream option \<Rightarrow> client
    \<Rightarrow> call_result" where
  "DomainMigratePrepareTunnel3 CookieIn Flags Dname Bandwidth DomXML outStream cl =
     call 215 RemoteProgram
       (Some (ty_DomainMigratePrepareTunnel3Args, VStruct [of_bytes CookieIn, VUint Flags,
        of_strings Dname, VUint Bandwidth, VString DomXML]))
       [TSlice TUint8] outStream None cl"

definition DomainUndefineFlags :: "val \<Rightarrow> i32 \<Rightarrow> client \<Rightarrow>
    call_result" where
  "DomainUndefineFlags Dom Flags cl =
     call 231 RemoteProgram
       (Some (ty_DomainUndefineFlagsArgs, VStruct [Dom, of_i32 Flags]))
       [] None None cl"

definition DomainDestroyFlags :: "val \<Rightarrow> i32 \<Rightarrow> client \<Rightarrow>
    call_result" where
  "DomainDestroyFlags Dom Flags cl =
     call 234 RemoteProgram
       (Some (ty_DomainDestroyFlagsArgs, VStruct [Dom, of_i32 Flags]))
       [] None None cl"

definition DomainReset :: "val \<Rightarrow> u32 \<Rightarrow> client \<Rightarrow> call_result"
    where
  "DomainReset Dom Flags cl =
     call 245 RemoteProgram
       (Some (ty_DomainResetArgs, VStruct [Dom, of_u32 Flags]))
       [] None None cl"

definition DomainSetBlockIOTune :: "val \<Rightarrow> string \<Rightarrow> val list \<Rightarrow>
    u32 \<Rightarrow> client \<Rightarrow> call_result" where
  "DomainSetBlockIOTune Dom Disk Params Flags cl =
     call 252 RemoteProgram
       (Some (ty_DomainSetBlockIOTuneArgs, VStruct [Dom, VString Disk, VSlice Params [], of_u32
        Flags]))
       [] None None cl"

definition DomainGetBlockIOTune :: "val \<Rightarrow> string list \<Rightarrow> i32 \<Rightarrow>
    u32 \<Rightarrow> client \<Rightarrow> call_result" where
  "DomainGetBlockIOTune Dom Disk Nparams Flags cl =
     call 253 RemoteProgram
       (Some (ty_DomainGetBlockIOTuneArgs, VStruct [Dom, of_strings Disk, of_i32 Nparams, of_u32
        Flags]))
       [TSlice ty_TypedParam, TInt32] None None cl"

definition DomainShutdownFlags :: "val \<Rightarrow> i32 \<Rightarrow> client \<Rightarrow>
    call_result" where
  "DomainShutdownFlags Dom Flags cl =
     call 258 RemoteProgram
       (Some (ty_DomainShutdownFlagsArgs, VStruct [Dom, of_i32 Flags]))
       [] None None cl"

definition ConnectListAllDomains :: "i32 \<Rightarrow> i32 \<Rightarrow> client \<Rightarrow>
    call_result" where
  "ConnectListAllDomains NeedResults Flags cl =
     call 273 RemoteProgram
       (Some (ty_ConnectListAllDomainsArgs, VStruct [of_i32 NeedResults, of_i32 Flags]))
       [TSlice ty_Domain, TUint32] None None cl"

definition ConnectListAllStoragePools :: "i32 \<Rightarrow> i32 \<Rightarrow> client \<Rightarrow>
    call_result" where
  "ConnectListAllStoragePools NeedResults Flags cl =
     call 281 RemoteProgram
       (Some (ty_ConnectListAllStoragePoolsArgs, VStruct [of_i32 NeedResults, of_i32 Flags]))
       [TSlice ty_StoragePool, TUint32] None None cl"

definition ConnectListAllSecrets :: "i32 \<Rightarrow> i32 \<Rightarrow> client \<Rightarrow>
    call_result" where
  "ConnectListAllSecrets NeedResults Flags cl =
     call 287 RemoteProgram
       (Some (ty_ConnectListAllSecretsArgs, VStruct [of_i32 NeedResults, of_i32 Flags]))
       [TSlice ty_Secret, TUint32] None None cl"

definition NetworkUpdate :: "val \<Rightarrow> u32 \<Rightarrow> u32 \<Rightarrow> i32
    \<Rightarrow> string \<Rightarrow> i32 \<Rightarrow> client \<Rightarrow> call_result" where
  "NetworkUpdate Net Command Section ParentIndex XML Flags cl =
     call 291 RemoteProgram
       (Some (ty_NetworkUpdateArgs, VStruct [Net, of_u32 Command, of_u32 Section, of_i32
        ParentIndex, VString XML, of_i32 Flags]))
       [] None None cl"

definition DomainOpenChannel :: "val \<Rightarrow> string list \<Rightarrow> i32 \<Rightarrow>
    writer option \<Rightarrow> client \<Rightarrow> call_result" where
  "DomainOpenChannel Dom Name Flags inStream cl =
     call 296 RemoteProgram
       (Some (ty_DomainOpenChannelArgs, VStruct [Dom, of_strings Name, of_i32 Flags]))
       [] None inStream cl"

definition ConnectDomainEventCallbackRegisterAny :: "i32 \<Rightarrow> val list \<Rightarrow>
    client \<Rightarrow> call_result" where
  "ConnectDomainEventCallbackRegisterAny EventID Dom cl =
     call 316 RemoteProgram
       (Some (ty_ConnectDomainEventCallbackRegisterAnyArgs, VStruct [of_i32 EventID, VSlice Dom
        []]))
       [TInt32] None None cl"

definition ConnectDomainEventCallbackDeregisterAny :: "i32 \<Rightarrow> client \<Rightarrow>
    call_result" where
  "ConnectDomainEventCallbackDeregisterAny CallbackID cl =
     call 317 RemoteProgram
       (Some (ty_ConnectDomainEventCallbackDeregisterAnyArgs, VStruct [of_i32 CallbackID]))
       [] None None cl"

definition DomainDefineXMLFlags :: "string \<Rightarrow> i32 \<Rightarrow> client \<Rightarrow>
    call_result" where
  "DomainDefineXMLFlags XML Flags cl =
     call 350 RemoteProgram
       (Some (ty_DomainDefineXMLFlagsArgs, VStruct [VString XML, of_i32 Flags]))
       [ty_Domain] None None cl"

definition DomainOpenConsoleBidirectional :: "val \<Rightarrow> string list \<Rightarrow> u32
    \<Rightarrow> out_stream option \<Rightarrow> writer option \<Rightarrow> client \<Rightarrow>
    call_result" where
  "DomainOpenConsoleBidirectional Dom DevName Flags outStream inStream cl =
     call 201 RemoteProgram
       (Some (ty_DomainOpenConsoleArgs, VStruct [Dom, of_strings DevName, of_u32 Flags]))
       [] outStream inStream cl"

definition QEMUDomainMonitorCommand :: "val \<Rightarrow> string \<Rightarrow> u32 \<Rightarrow>
    client \<Rightarrow> call_result" where
  "QEMUDomainMonitorCommand Dom Cmd Flags cl =
     call 1 QEMUProgram
       (Some (ty_QEMUDomainMonitorCommandArgs, VStruct [Dom, VString Cmd, of_u32 Flags]))
       [TString] None None cl"

definition QEMUDomainAttach :: "u32 \<Rightarrow> u32 \<Rightarrow> client \<Rightarrow>
    call_result" where
  "QEMUDomainAttach PidValue Flags cl =
     call 2 QEMUProgram
       (Some (ty_QEMUDomainAttachArgs, VStruct [of_u32 PidValue, of_u32 Flags]))
       [ty_Domain] None None cl"

definition QEMUDomainAgentCommand :: "val \<Rightarrow> string \<Rightarrow> i32 \<Rightarrow> u32
    \<Rightarrow> client \<Rightarrow> call_result" where
  "QEMUDomainAgentCommand Dom Cmd Timeout Flags cl =
     call 3 QEMUProgram
       (Some (ty_QEMUDomainAgentCommandArgs, VStruct [Dom, VString Cmd, of_i32 Timeout, of_u32
        Flags]))
       [ty_OptString] None None cl"

definition QEMUConnectDomainMonitorEventRegister :: "val list \<Rightarrow> string list
    \<Rightarrow> u32 \<Rightarrow> client \<Rightarrow> call_result" where
  "QEMUConnectDomainMonitorEventRegister Dom EventName Flags cl =
     call 4 QEMUProgram
       (Some (ty_QEMUConnectDomainMonitorEventRegisterArgs, VStruct [VSlice Dom [], of_strings
        EventName, of_u32 Flags]))
       [TInt32] None None cl"

definition QEMUConnectDomainMonitorEventDeregister :: "i32 \<Rightarrow> client \<Rightarrow>
    call_result" where
  "QEMUConnectDomainMonitorEventDeregister CallbackID cl =
     call 5 QEMUProgram
       (Some (ty_QEMUConnectDomainMonitorEventDeregisterArgs, VStruct [of_i32 CallbackID]))
       [] None None cl"

definition QEMUDomainMonitorEvent :: "client \<Rightarrow> call_result" where
  "QEMUDomainMonitorEvent cl =
     call 6 QEMUProgram None [] None None cl"

definition QEMUDomainMonitorCommandWithFiles :: "val \<Rightarrow> string \<Rightarrow> u32
    \<Rightarrow> client \<Rightarrow> call_result" where
  "QEMUDomainMonitorCommandWithFiles Dom Cmd Flags cl =
     call 7 QEMUProgram
       (Some (ty_QEMUDomainMonitorCommandWithFilesArgs, VStruct [Dom, VString Cmd, of_u32 Flags]))
       [TString] None None cl"

end
