(* ===== verification/Event_Stream.thy ===== *)
theory Event_Stream
  imports Prelude Transitions
begin

text \<open>
  The unbounded event queue of \<open>src/internal/event/stream.go\<close>: \<open>NewStream\<close>, the methods \<open>Push\<close>,
  \<open>Recv\<close>, \<open>Len\<close> and \<open>Shutdown\<close>, and the goroutine \<open>process\<close> with which they meet on unbuffered
  channels. Each rendezvous is one step of the stream; a label says which operation completed.
\<close>

section \<open>The contract of a queue\<close>

text \<open>
  A first-in first-out buffer: what it holds as a list, how an element enters at the end and leaves
  at the front. What comes out of any sequence of operations is, in order, what went in.
\<close>

locale fifo =
  fixes contents :: "'q \<Rightarrow> 'e list"
    and enq :: "'e \<Rightarrow> 'q \<Rightarrow> 'q"
    and deq :: "'q \<Rightarrow> ('e \<times> 'q) option"
  assumes contents_enq: "contents (enq e q) = contents q @ [e]"
    and deq_None: "deq q = None \<longleftrightarrow> contents q = []"
    and deq_Some: "deq q = Some (e, q') \<Longrightarrow> contents q = e # contents q'"
begin

lemma deq_available: "contents q \<noteq> [] \<Longrightarrow> \<exists>q'. deq q = Some (hd (contents q), q')"
  using deq_None [of q] deq_Some by (cases "deq q") fastforce+

lemma enq_not_stuck: "deq (enq e q) \<noteq> None"
  by (simp add: deq_None contents_enq)

end

section \<open>The stream\<close>

text \<open>
  \<open>emptyEvent\<close> is the value that \<open>process\<close> would send when the queue is empty; its send goes to a
  nil channel, which is never ready. The field \<open>done\<close> says that the context has been cancelled,
  \<open>finished\<close> that \<open>process\<close> has returned, which closes the channel \<open>out\<close>.
\<close>

datatype 'e event = EmptyEvent | Event 'e

record 'e stream =
  queue :: "'e event list"
  cancelled :: bool
  finished :: bool

definition NewStream :: "'e stream" where
  "NewStream = \<lparr>queue = [], cancelled = False, finished = False\<rparr>"

text \<open>\<open>nextEvent\<close>: whether the send channel is non-nil, and the event to send.\<close>

definition nextEvent :: "'e stream \<Rightarrow> bool \<times> 'e event" where
  "nextEvent s = (case queue s of [] \<Rightarrow> (False, EmptyEvent) | e # _ \<Rightarrow> (True, e))"

text \<open>
  What can complete next: \<open>Push\<close> hands its event to \<open>process\<close>, or returns without effect because the
  context is cancelled; a reader of \<open>Recv\<close>'s channel gets an event, or finds the channel closed;
  \<open>Len\<close> is answered; \<open>Shutdown\<close> cancels the context; \<open>process\<close> returns.
\<close>

datatype 'e label =
    Pushed "'e event"
  | PushDropped "'e event"
  | Received "'e event"
  | OutClosed
  | LenIs nat
  | ShutdownCalled
  | ProcessReturned

definition push_queue :: "'e event \<Rightarrow> 'e stream \<Rightarrow> 'e stream" where
  "push_queue e s = s\<lparr>queue := queue s @ [e]\<rparr>"

definition pop_queue :: "'e stream \<Rightarrow> ('e event \<times> 'e stream) option" where
  "pop_queue s =
     (case nextEvent s of
        (True, e) \<Rightarrow> Some (e, s\<lparr>queue := tl (queue s)\<rparr>)
      | (False, _) \<Rightarrow> None)"

fun stream_step :: "'e label \<Rightarrow> 'e stream \<Rightarrow> 'e stream option" where
  "stream_step (Pushed e) s = (if finished s then None else Some (push_queue e s))"
| "stream_step (PushDropped e) s = (if cancelled s then Some s else None)"
| "stream_step (Received e) s =
     (if finished s then None
      else case pop_queue s of
             Some (e', s') \<Rightarrow> if e' = e then Some s' else None
           | None \<Rightarrow> None)"
| "stream_step OutClosed s = (if finished s then Some s else None)"
| "stream_step (LenIs n) s =
     (if \<not> finished s \<and> n = length (queue s) then Some s else None)"
| "stream_step ShutdownCalled s = Some (s\<lparr>cancelled := True\<rparr>)"
| "stream_step ProcessReturned s =
     (if cancelled s \<and> \<not> finished s then Some (s\<lparr>finished := True\<rparr>) else None)"

abbreviation stream_run :: "'e label list \<Rightarrow> 'e stream \<Rightarrow> 'e stream option" where
  "stream_run \<equiv> run_steps stream_step"

fun pushed :: "'e label list \<Rightarrow> 'e event list" where
  "pushed [] = []"
| "pushed (Pushed e # ls) = e # pushed ls"
| "pushed (_ # ls) = pushed ls"

fun received :: "'e label list \<Rightarrow> 'e event list" where
  "received [] = []"
| "received (Received e # ls) = e # received ls"
| "received (_ # ls) = received ls"

interpretation stream_fifo: fifo queue push_queue pop_queue
  by unfold_locales
    (auto simp: push_queue_def pop_queue_def nextEvent_def split: list.splits)

section \<open>Properties\<close>

lemma run_queue:
  "stream_run ls s = Some s' \<Longrightarrow> queue s @ pushed ls = received ls @ queue s'"
proof (induction rule: run_induct)
  case (Cons l ls s s1 s')
  show ?case
  proof (cases l)
    case (Pushed e)
    then show ?thesis using Cons stream_fifo.contents_enq [of e s] by (auto split: if_splits)
  next
    case (Received e)
    then have "pop_queue s = Some (e, s1)" using Cons(1) by (auto split: if_splits option.splits)
    then show ?thesis using stream_fifo.deq_Some [of s e s1] Cons.IH Received by simp
  qed (use Cons(1) Cons.IH in \<open>auto split: if_splits\<close>)
qed simp

text \<open>
  C19. First in, first out: in every run of a new stream, the events received so far followed by those
  in the queue are exactly the events whose \<open>Push\<close> was taken, in that order; so nothing is lost,
  duplicated or invented, and no \<open>emptyEvent\<close> is delivered that was not pushed.
\<close>
theorem stream_in_order:
  assumes "stream_run ls NewStream = Some s"
  shows "pushed ls = received ls @ queue s \<and> set (received ls) \<subseteq> set (pushed ls)"
  using run_queue [OF assms] by (simp add: NewStream_def)

theorem stream_in_order_witness:
  "pushed [Pushed (Event 1), Pushed (Event 2), Received (Event (1 :: nat))] =
     received [Pushed (Event 1), Pushed (Event 2), Received (Event 1)] @ [Event 2] \<and>
   set (received [Pushed (Event 1), Pushed (Event 2), Received (Event (1 :: nat))]) \<subseteq>
     set (pushed [Pushed (Event 1), Pushed (Event 2), Received (Event 1)])"
  using stream_in_order [of "[Pushed (Event 1), Pushed (Event 2), Received (Event (1 :: nat))]"
      "\<lparr>queue = [Event 2], cancelled = False, finished = False\<rparr>"]
  by (simp add: NewStream_def push_queue_def pop_queue_def nextEvent_def)

definition shut_down_well :: "'e stream \<Rightarrow> bool" where
  "shut_down_well s \<longleftrightarrow> \<not> finished s \<or> cancelled s"

interpretation shut_down: stable stream_step "\<lambda>_. True" shut_down_well
proof
  fix l and s s' :: "'e stream"
  assume "stream_step l s = Some s'" and "shut_down_well s"
  then show "shut_down_well s'"
    by (cases l) (auto simp: shut_down_well_def push_queue_def pop_queue_def nextEvent_def
        split: if_splits list.splits option.splits)
qed

lemma step_received: "\<not> finished s \<Longrightarrow> queue s \<noteq> [] \<Longrightarrow>
    stream_step (Received (hd (queue s))) s = Some (s\<lparr>queue := tl (queue s)\<rparr>)"
  by (simp add: pop_queue_def nextEvent_def split: list.splits)

text \<open>
  Who can get on: \<open>Push\<close> never blocks for good (it is taken while \<open>process\<close> runs, and it returns
  when the context is cancelled, also afterwards); a waiting reader gets the oldest event whenever
  there is one and \<open>process\<close> runs, and it finds the channel closed once \<open>process\<close> has returned.
\<close>
theorem stream_progress:
  assumes "stream_run ls NewStream = Some s"
  shows "(stream_step (Pushed e) s \<noteq> None \<or> stream_step (PushDropped e) s \<noteq> None) \<and>
    (if finished s then stream_step OutClosed s \<noteq> None
     else queue s = [] \<or>
       stream_step (Received (hd (queue s))) s = Some (s\<lparr>queue := tl (queue s)\<rparr>))"
proof -
  have "shut_down_well s" using shut_down.stays [OF assms] by (simp add: shut_down_well_def NewStream_def)
  then show ?thesis using step_received [of s] by (auto simp: shut_down_well_def)
qed

theorem stream_progress_witness:
  "let s = \<lparr>queue = [Event (1 :: nat)], cancelled = True, finished = False\<rparr> in
    stream_step (PushDropped (Event 2)) s = Some s \<and>
    stream_step (Received (Event 1)) s = Some (s\<lparr>queue := []\<rparr>)"
  using stream_progress [of "[Pushed (Event 1), ShutdownCalled]"
      "\<lparr>queue = [Event (1 :: nat)], cancelled = True, finished = False\<rparr>" "Event 2"]
  by (simp add: NewStream_def push_queue_def Let_def)

lemma run_finished:
  "stream_run ls s = Some s' \<Longrightarrow> finished s \<Longrightarrow>
   finished s' \<and> queue s' = queue s \<and> received ls = [] \<and> pushed ls = []"
proof (induction rule: run_induct)
  case (Cons l ls s s1 s')
  have l: "finished s1" "queue s1 = queue s" "received [l] = []" "pushed [l] = []"
    using Cons(1) Cons.prems by (cases l; auto split: if_splits)+
  from Cons.IH [OF l(1)] l show ?case by (cases l) auto
qed simp

text \<open>
  After the end: once \<open>process\<close> has returned, the events still queued are never delivered, no
  event is taken any more, and a call of \<open>Len\<close> is never answered.
\<close>
theorem stream_after_shutdown:
  assumes "stream_run ls s = Some s'" and "finished s"
  shows "received ls = [] \<and> pushed ls = [] \<and> queue s' = queue s \<and> stream_step (LenIs n) s' = None"
  using run_finished [OF assms] by simp

theorem stream_after_shutdown_witness:
  "received [OutClosed, PushDropped (Event (3 :: nat))] = [] \<and>
   pushed [OutClosed, PushDropped (Event (3 :: nat))] = [] \<and>
   queue \<lparr>queue = [Event (1 :: nat)], cancelled = True, finished = True\<rparr> =
     queue \<lparr>queue = [Event 1], cancelled = True, finished = True\<rparr> \<and>
   stream_step (LenIs 1) \<lparr>queue = [Event (1 :: nat)], cancelled = True, finished = True\<rparr> = None"
  by (rule stream_after_shutdown) simp_all

end
