(* ===== verification/Rpc_Events.thy ===== *)
theory Rpc_Events
  imports Protocol_Types Event_Stream Rpc_Properties
begin

text \<open>
  Incoming packets and event streams of \<open>src/rpc.go\<close>: \<open>Route\<close> with \<open>eventFromProcedureID\<close> and
  \<open>eventDecoder\<close>, and the table of event streams with \<open>addStream\<close>, \<open>removeStream\<close>,
  \<open>removeAllStreams\<close> and \<open>stream\<close>.
\<close>

section \<open>Routing\<close>

text \<open>The procedure of QEMU's monitor events, from \<open>src/internal/constants\<close>.\<close>

definition QEMUProcDomainMonitorEvent :: u32 where "QEMUProcDomainMonitorEvent = 6"

text \<open>The type of the message that each event procedure carries.\<close>

definition event_table :: "(u32 \<times> ty) list" where
  "event_table =
     [(318, ty_DomainEventCallbackLifecycleMsg),
      (319, ty_DomainEventCallbackRebootMsg),
      (320, ty_DomainEventCallbackRtcChangeMsg),
      (321, ty_DomainEventCallbackWatchdogMsg),
      (322, ty_DomainEventCallbackIOErrorMsg),
      (324, ty_DomainEventCallbackIOErrorReasonMsg),
      (323, ty_DomainEventCallbackGraphicsMsg),
      (326, ty_DomainEventCallbackBlockJobMsg),
      (327, ty_DomainEventCallbackDiskChangeMsg),
      (328, ty_DomainEventCallbackTrayChangeMsg),
      (329, ty_DomainEventCallbackPmwakeupMsg),
      (330, ty_DomainEventCallbackPmsuspendMsg),
      (331, ty_DomainEventCallbackBalloonChangeMsg),
      (332, ty_DomainEventCallbackPmsuspendDiskMsg),
      (325, ty_DomainEventCallbackControlErrorMsg),
      (333, ty_DomainEventCallbackDeviceRemovedMsg),
      (346, ty_DomainEventCallbackTunableMsg),
      (354, ty_DomainEventCallbackDeviceAddedMsg),
      (348, ty_DomainEventCallbackAgentLifecycleMsg),
      (359, ty_DomainEventCallbackMigrationIterationMsg),
      (363, ty_DomainEventCallbackJobCompletedMsg),
      (367, ty_DomainEventCallbackDeviceRemovalFailedMsg),
      (379, ty_DomainEventCallbackMetadataChangeMsg)]"

definition eventFromProcedureID :: "u32 \<Rightarrow> ty option" where
  "eventFromProcedureID procID = map_of event_table procID"

definition eventDecoder :: "time_lib \<Rightarrow> ty \<Rightarrow> byte list \<Rightarrow> (error, val) res" where
  "eventDecoder lib t buf = decode_payload (NewDecoder (time_Parse lib)) t buf"

text \<open>\<open>GetCallbackID\<close> is the first field of every event message.\<close>

definition GetCallbackID :: "val \<Rightarrow> i32" where
  "GetCallbackID v = val_i32 (val_field v 0)"

text \<open>What \<open>Route\<close> does with a packet: relay an event, drop it, or hand a response to \<open>callback\<close>.\<close>

datatype routing = ToStream ty val | Dropped error | ToCallback i32 response

definition event_type :: "Header \<Rightarrow> ty option" where
  "event_type h =
     (if Program h = QEMUProgram then
        (if Procedure h \<noteq> QEMUProcDomainMonitorEvent then None else Some ty_DomainEvent)
      else if Program h = RemoteProgram then eventFromProcedureID (Procedure h)
      else None)"

definition Route :: "time_lib \<Rightarrow> Header \<Rightarrow> byte list \<Rightarrow> (error, routing) res" where
  "Route lib h buf =
     (case event_type h of
        Some t \<Rightarrow>
          (case eventDecoder lib t buf of
             Ok ev \<Rightarrow> Ok (ToStream t ev)
           | Err e \<Rightarrow> Ok (Dropped e)
           | Panic \<Rightarrow> Panic)
      | None \<Rightarrow> Ok (ToCallback (Serial h) \<lparr>Payload = buf, RStatus = Status h\<rparr>))"

section \<open>Event streams\<close>

text \<open>
  The map \<open>events\<close> from callback numbers to streams, as an association list to indices into the list
  of all streams that have been made, so that a stream lives on after it has left the map.
\<close>

record subscriptions =
  events :: table
  streams :: "(ty \<times> val) stream list"

definition shutdown :: "nat \<Rightarrow> subscriptions \<Rightarrow> subscriptions" where
  "shutdown k s = s\<lparr>streams := (streams s)[k := (streams s ! k)\<lparr>cancelled := True\<rparr>]\<rparr>"

text \<open>\<open>addStream (NewStream program cbID)\<close>.\<close>

definition addStream :: "i32 \<Rightarrow> subscriptions \<Rightarrow> subscriptions" where
  "addStream cbID s =
     s\<lparr>events := table_insert cbID (length (streams s)) (events s), streams := streams s @ [NewStream]\<rparr>"

definition removeStream :: "i32 \<Rightarrow> subscriptions \<Rightarrow> subscriptions" where
  "removeStream cbID s =
     (case table_lookup (events s) cbID of
        None \<Rightarrow> s
      | Some k \<Rightarrow> shutdown k (s\<lparr>events := table_remove cbID (events s)\<rparr>))"

definition removeAllStreams :: "subscriptions \<Rightarrow> subscriptions" where
  "removeAllStreams s =
     fold (\<lambda>(cbID, k) s. (shutdown k s)\<lparr>events := table_remove cbID (events s)\<rparr>) (events s) s"

text \<open>
  The method \<open>stream\<close>: \<open>Push\<close> to the stream of the event's callback number. The flag says which case
  of \<open>Push\<close>'s \<open>select\<close> is chosen; \<open>None\<close> means that this case is not ready.
\<close>

definition stream_event :: "bool \<Rightarrow> ty \<Rightarrow> val \<Rightarrow> subscriptions \<Rightarrow> subscriptions option" where
  "stream_event taken t ev s =
     (case table_lookup (events s) (GetCallbackID ev) of
        None \<Rightarrow> Some s
      | Some k \<Rightarrow>
          map_option (\<lambda>st. s\<lparr>streams := (streams s)[k := st]\<rparr>)
            (stream_step (if taken then Pushed (Event (t, ev)) else PushDropped (Event (t, ev)))
               (streams s ! k)))"

section \<open>Routing properties\<close>

lemma event_table_wf: "(p, t) \<in> set event_table \<Longrightarrow> wf_ty t"
  by (auto simp: event_table_def proto_types)

lemma event_type_wf: "event_type h = Some t \<Longrightarrow> wf_ty t"
  by (auto simp: event_type_def eventFromProcedureID_def proto_types
      dest!: map_of_SomeD event_table_wf split: if_splits)

lemma distinct_event_table: "distinct (List.map fst event_table)"
  by (simp add: event_table_def)

lemma Route_Some: "event_type h = Some t \<Longrightarrow>
    Route lib h buf = (case eventDecoder lib t buf of
      Ok ev \<Rightarrow> Ok (ToStream t ev) | Err e \<Rightarrow> Ok (Dropped e) | Panic \<Rightarrow> Panic)"
  by (simp add: Route_def)

lemma eventDecoder_eq:
  "eventDecoder lib t buf = fst (snd (decode (NewDecoder (time_Parse lib)) t (zero t) buf))"
  by (simp add: eventDecoder_def decode_payload_eq NewDecoder_def)

text \<open>
  C12. No incoming packet makes \<open>Route\<close> panic, whatever its header and payload; an event that is
  relayed has the type of its procedure's message.
\<close>
theorem Route_sound:
  "case Route lib h buf of
     Ok (ToStream t ev) \<Rightarrow> event_type h = Some t \<and> wt t ev
   | Ok (Dropped e) \<Rightarrow> event_type h \<noteq> None
   | Ok (ToCallback sid r) \<Rightarrow>
       event_type h = None \<and> sid = Serial h \<and> r = \<lparr>Payload = buf, RStatus = Status h\<rparr>
   | Err e \<Rightarrow> False
   | Panic \<Rightarrow> False"
proof (cases "event_type h")
  case None
  then show ?thesis by (simp add: Route_def)
next
  case (Some t)
  have "io_post (wt t) (decode (NewDecoder (time_Parse lib)) t (zero t))"
    using event_type_wf [OF Some] by (intro decode_sound) simp_all
  then have "res_post (wt t) (eventDecoder lib t buf)"
    by (simp add: eventDecoder_eq io_post_def)
  with Some show ?thesis by (cases "eventDecoder lib t buf") (simp_all add: Route_Some)
qed

text \<open>
  C13. Events arrive as they were sent: the XDR form of a canonical message of an event procedure, with
  anything behind it, is relayed as that message.
\<close>
theorem Route_event:
  assumes "event_type h = Some t" and "canon (NewDecoder (time_Parse lib)) (time_Format lib) t ev"
  shows "\<exists>bs. encode_payload lib (t, ev) = Ok bs \<and> (\<forall>rest. Route lib h (bs @ rest) = Ok (ToStream t ev))"
proof -
  obtain bs where "encode_payload lib (t, ev) = Ok bs"
    "\<And>rest. decode_payload (NewDecoder (time_Parse lib)) t (bs @ rest) = Ok ev"
    using payload_canon [OF plain_NewDecoder assms(2)] by blast
  then show ?thesis by (simp add: Route_Some [OF assms(1)] eventDecoder_def)
qed

definition sample_domain :: val where
  "sample_domain = VStruct [VString ''vm1'', VArray (List.map byte_val (replicate 16 7)), VInt 3]"

lemma canon_i32: "canon d fmt TInt32 (VInt (scast (w :: i32)))"
proof -
  have "- (2 ^ 31) \<le> sint w" "sint w < 2 ^ 31"
    using sint_ge [of w] sint_lt [of w] by simp_all
  moreover have "sint (scast w :: i64) = sint w" by (simp add: sint_up_scast is_up)
  ultimately have "\<not> overflow_int 32 (scast w)" by (simp add: overflow_int_def)
  then show ?thesis by (intro canon_int) simp_all
qed

lemma canon_domain:
  assumes "length name \<le> MaxOpaque" "fits d (length name)" "length uuid = 16"
  shows "canon d fmt ty_Domain
    (VStruct [VString name, VArray (List.map byte_val uuid), VInt (scast (n :: i32))])"
  unfolding ty_Domain_def ty_UUID_def
  using assms canon_i32 [of d fmt n]
  by (intro canon_structI canon_fld canon_nil canon_named canon_byte_array canon_string)
    (simp_all add: MaxOpaque_def)

lemma canon_sample_domain: "canon (NewDecoder tp) fmt ty_Domain sample_domain"
  using canon_domain [of "''vm1''" "NewDecoder tp" "replicate 16 7" fmt 3]
  by (simp add: sample_domain_def MaxOpaque_def fits_NewDecoder)

definition sample_event :: val where
  "sample_event = VStruct [VInt 5, VStruct [sample_domain]]"

theorem Route_event_witness:
  "\<exists>bs. encode_payload \<lparr>time_Format = \<lambda>_. [], time_Parse = \<lambda>_. Inr 0\<rparr>
      (ty_DomainEventCallbackRebootMsg, sample_event) = Ok bs \<and>
    (\<forall>rest. Route \<lparr>time_Format = \<lambda>_. [], time_Parse = \<lambda>_. Inr 0\<rparr>
       (sample_header\<lparr>Procedure := 319\<rparr>) (bs @ rest) = Ok (ToStream ty_DomainEventCallbackRebootMsg sample_event))"
proof (rule Route_event)
  show "event_type (sample_header\<lparr>Procedure := 319\<rparr>) = Some ty_DomainEventCallbackRebootMsg"
    by (simp add: event_type_def sample_header_def QEMUProgram_def RemoteProgram_def
        eventFromProcedureID_def event_table_def)
  show "canon (NewDecoder (time_Parse \<lparr>time_Format = \<lambda>_. [], time_Parse = \<lambda>_. Inr 0\<rparr>))
      (time_Format \<lparr>time_Format = \<lambda>_. [], time_Parse = \<lambda>_. Inr 0\<rparr>) ty_DomainEventCallbackRebootMsg sample_event"
    unfolding ty_DomainEventCallbackRebootMsg_def ty_DomainEventRebootMsg_def sample_event_def
    using canon_i32 [of _ _ 5]
    by (intro canon_structI canon_fld canon_nil canon_sample_domain) simp_all
qed

section \<open>Messages that are rejected\<close>

text \<open>
  The encoding of a value on which a decoding routine fails, whatever comes behind it or, more
  generally, whenever what comes behind satisfies \<open>R\<close>.
\<close>

definition stops :: "(byte list \<Rightarrow> bool) \<Rightarrow> unit enc \<Rightarrow> 'a dec \<Rightarrow> error \<Rightarrow> bool" where
  "stops R e m err \<longleftrightarrow>
     (\<exists>bs. appends e bs \<and> (\<forall>rest. R rest \<longrightarrow> (\<exists>n s. m (bs @ rest) = (n, Err err, s))))"

abbreviation rejects :: "unit enc \<Rightarrow> 'a dec \<Rightarrow> error \<Rightarrow> bool" where
  "rejects \<equiv> stops (\<lambda>_. True)"

lemma stopsE:
  assumes "stops R e m err"
  obtains bs where "appends e bs" "\<And>rest. R rest \<Longrightarrow> \<exists>n s. m (bs @ rest) = (n, Err err, s)"
  using assms by (auto simp: stops_def)

lemma stopsI:
  "appends e bs \<Longrightarrow> (\<And>rest. R rest \<Longrightarrow> \<exists>n s. m (bs @ rest) = (n, Err err, s)) \<Longrightarrow> stops R e m err"
  by (auto simp: stops_def)

lemma rejects_bind_left:
  assumes "rejects e m err" "appends e' cs"
  shows "rejects (io_bind e (\<lambda>_. e')) (io_bind m f) err"
proof -
  obtain bs where bs: "appends e bs" "\<And>rest. \<exists>n s. m (bs @ rest) = (n, Err err, s)"
    using assms(1) by (rule stopsE) blast
  have "\<exists>n s. io_bind m f ((bs @ cs) @ rest) = (n, Err err, s)" for rest
    using bs(2) [of "cs @ rest"] by (auto simp: io_bind_def)
  with appends_bind [OF bs(1) assms(2)] show ?thesis by (rule stopsI)
qed

lemma stops_bind_right:
  assumes "round_trips e m a" "stops R e' (f a) err"
  shows "stops R (io_bind e (\<lambda>_. e')) (io_bind m f) err"
proof -
  obtain bs where bs: "appends e bs" "\<And>rest. m (bs @ rest) = (length bs, Ok a, rest)"
    using assms(1) by (rule round_tripsE) blast
  obtain cs where cs: "appends e' cs" "\<And>rest. R rest \<Longrightarrow> \<exists>n s. f a (cs @ rest) = (n, Err err, s)"
    using assms(2) by (rule stopsE) blast
  have "\<exists>n s. io_bind m f ((bs @ cs) @ rest) = (n, Err err, s)" if "R rest" for rest
    using cs(2) [OF that] bs(2) [of "cs @ rest"] by (auto simp: io_bind_def)
  with appends_bind [OF bs(1) cs(1)] show ?thesis by (rule stopsI)
qed

lemma stops_map: "stops R e m err \<Longrightarrow> stops R e (io_map g m) err"
  unfolding stops_def io_map_def by (metis io_bind_Err)

lemma rejects_err: "appends e bs \<Longrightarrow> rejects e (io_err err) err"
  by (rule stopsI) (auto simp: io_err_apply)

lemma stops_field_tail:
  assumes "plain d" "\<not> is_ptr_kind t" "round_trips e (decode d t (zero t)) v"
    and "stops R e' (decodeStruct d fs zs) err"
  shows "stops R (io_bind e (\<lambda>_. e')) (decodeStruct d (fld t # fs) (zero t # zs)) err"
  using stops_bind_right [OF assms(3) stops_map [OF assms(4)]]
  by (simp add: decode_field_plain assms(1))

lemma stops_struct:
  assumes "plain d" "nm \<noteq> ''time.Time''"
    and "stops R e (decodeStruct d fs (List.map zero_field fs)) err"
  shows "stops R e (decode d (TStruct nm fs) (zero (TStruct nm fs))) err"
  using stops_map [OF assms(3)] assms(1,2) by (simp add: decode_simple)

lemma rejects_field_head:
  assumes "plain d" "\<not> is_ptr_kind t" "rejects (encode fmt t v) (decode d t (zero t)) err"
    and "appends (encodeStruct fmt fs vs) cs"
  shows "rejects (encodeStruct fmt (fld t # fs) (v # vs)) (decodeStruct d (fld t # fs) (zero t # zs)) err"
  using rejects_bind_left [OF assms(3,4)]
  by (simp add: encode_field_no_ptr decode_field_plain assms(1,2) del: encode_field.simps)

lemma rejects_field_last:
  assumes "plain d" "\<not> is_ptr_kind t" "rejects (encode fmt t v) (decode d t (zero t)) err"
  shows "rejects (encodeStruct fmt [fld t] [v]) (decodeStruct d [fld t] [zero t]) err"
  by (rule rejects_field_head [OF assms]) (simp, rule appends_ret)

lemma rejects_field_tail:
  assumes "plain d" "\<not> is_ptr_kind t" "canon d fmt t v"
    and "rejects (encodeStruct fmt fs vs) (decodeStruct d fs zs) err"
  shows "rejects (encodeStruct fmt (fld t # fs) (v # vs)) (decodeStruct d (fld t # fs) (zero t # zs)) err"
  using stops_field_tail [OF assms(1,2) canon_round_trips_aux(1) [OF assms(1,3)] assms(4)]
  by (simp add: encode_field_no_ptr assms(2) del: encode_field.simps decodeStruct.simps(2))

lemma rejects_struct:
  assumes "plain d" "nm \<noteq> ''time.Time''"
    and "rejects (encodeStruct fmt fs vs) (decodeStruct d fs (List.map zero_field fs)) err"
  shows "rejects (encode fmt (TStruct nm fs) (VStruct vs))
    (decode d (TStruct nm fs) (zero (TStruct nm fs))) err"
  using stops_struct [OF assms] by simp

lemma rejects_slice:
  assumes "plain d" "under t \<noteq> TUint8" "fits d (Suc (length vs))"
    and "rejects (encode fmt t v) (decode d t (zero t)) err" "appends (encode_elems fmt t vs) cs"
  shows "rejects (encode fmt (TSlice t) (VSlice (v # vs) []))
    (decode d (TSlice t) (VSlice [] [])) err"
proof -
  have n: "unat (word_of_nat (Suc (length vs)) :: u32) = Suc (length vs)"
    using assms(3) by (intro unat_length) (simp add: fits_def)
  have "rejects (encode_elems fmt t (v # vs))
      (io_map (\<lambda>us. VSlice us []) (decode_elems d t (zero t # replicate (length vs) (zero t)))) err"
    using stops_map [OF rejects_bind_left [OF assms(4,5)]] by simp
  then have r: "rejects (io_bind (EncodeUint (word_of_nat (Suc (length vs)))) (\<lambda>_. encode_elems fmt t (v # vs)))
      (decodeArray d False t [] []) err"
    using assms(2) not_exceeds_max [OF assms(3)]
    by (simp del: of_nat_Suc encode_elems.simps decode_elems.simps)
      (intro stops_bind_right [OF uint_codec.law [OF TrueI]],
        simp add: n slice_storage_zero del: of_nat_Suc encode_elems.simps decode_elems.simps)
  have "encode fmt (TSlice t) (VSlice (v # vs) []) =
      io_bind (EncodeUint (word_of_nat (Suc (length vs)))) (\<lambda>_. encode_elems fmt t (v # vs))"
    using assms(2) by simp
  moreover have "decode d (TSlice t) (VSlice [] []) = decodeArray d False t [] []"
    using assms(1) by (simp add: decode_simple del: decodeArray.simps)
  ultimately show ?thesis using r by simp
qed

section \<open>Typed parameters in events\<close>

text \<open>The decoder of events has no custom routine, so that it meets the interface of a typed value.\<close>

lemma appends_typed_param:
  assumes "typed_param (NewDecoder tp) p"
  obtains bs where "appends (encode fmt ty_TypedParam p) bs"
  using round_trips_typed_param [OF assms, of fmt] by (rule round_tripsE) blast

lemma appends_typed_params:
  "\<forall>p \<in> set ps. typed_param (NewDecoder tp) p \<Longrightarrow> \<exists>bs. appends (encode_elems fmt ty_TypedParam ps) bs"
proof (induction ps)
  case Nil
  show ?case using appends_ret by auto
next
  case (Cons p ps)
  then show ?case using appends_bind appends_typed_param [of tp p fmt]
    by (metis encode_elems.simps(2) list.set_intros)
qed

lemma rejects_typed_param:
  assumes "typed_param (NewDecoder tp) p"
  shows "rejects (encode fmt ty_TypedParam p)
    (decode (NewDecoder tp) ty_TypedParam (zero ty_TypedParam)) err_nil_interface"
proof -
  let ?d = "NewDecoder tp"
  obtain name n t u where p: "p = TypedParam name (tpv n t u)" "length name \<le> MaxOpaque"
    "fits ?d (length name)" "map_of param_types n = Some t" "canon ?d (\<lambda>_. []) t u"
    using assms by (auto simp: typed_param_def param_value_def)
  obtain bs where bs: "appends (encode fmt t u) bs"
    using canon_round_trips_aux(1) [OF plain_NewDecoder p(5)] encode_scalar_fmt [OF p(4)]
    by (metis round_tripsE)
  have not_ptr: "\<not> is_ptr_kind TUint32" "\<not> is_ptr_kind TString" "\<not> is_ptr_kind TInterface"
    "\<not> is_ptr_kind ty_TypedParamValue"
    by (simp_all add: is_ptr_kind_def ty_TypedParamValue_def)
  have "rejects (encode fmt TInterface (VIface (Some (t, u)))) (decode ?d TInterface (zero TInterface)) err_nil_interface"
    using bs param_types_plain [OF p(4)] by (auto simp: decode_simple indirect.simps intro: rejects_err)
  from rejects_field_tail [OF plain_NewDecoder not_ptr(1) canon_u32 [of _ _ n]
      rejects_field_last [OF plain_NewDecoder not_ptr(3) this]]
  have "rejects (encode fmt ty_TypedParamValue (tpv n t u))
      (decode ?d ty_TypedParamValue (zero ty_TypedParamValue)) err_nil_interface"
    unfolding ty_TypedParamValue_def tpv_def by (intro rejects_struct) simp_all
  from rejects_field_tail [OF plain_NewDecoder not_ptr(2) canon_string [OF p(2,3)]
      rejects_field_last [OF plain_NewDecoder not_ptr(4) this]]
  show ?thesis
    unfolding p(1) ty_TypedParam_def TypedParam_def by (intro rejects_struct) simp_all
qed

text \<open>
  C27. An event with typed parameters (\<open>DomainEventCallbackTunableMsg\<close>,
  \<open>DomainEventCallbackJobCompletedMsg\<close>) never reaches its subscriber when it carries a parameter:
  \<open>eventDecoder\<close> lacks the custom routine for typed parameters that the calls install, fails on the
  first one, and \<open>Route\<close> drops the event.
\<close>
theorem typed_param_events_dropped:
  assumes "event_type h = Some t"
    and "t = ty_DomainEventCallbackTunableMsg \<or> t = ty_DomainEventCallbackJobCompletedMsg"
    and "canon (NewDecoder (time_Parse lib)) (time_Format lib) ty_Domain dm"
    and "ps \<noteq> []" "length ps \<le> MaxInt32" "\<forall>p \<in> set ps. typed_param (NewDecoder (time_Parse lib)) p"
  shows "\<exists>bs. encode_payload lib (t, VStruct [VInt (scast (cbID :: i32)), dm, VSlice ps []]) = Ok bs \<and>
    (\<forall>rest. Route lib h (bs @ rest) = Ok (Dropped err_nil_interface))"
proof -
  let ?d = "NewDecoder (time_Parse lib)" and ?fmt = "time_Format lib"
  let ?fs = "[fld TInt32, fld ty_Domain, fld (TSlice ty_TypedParam)]"
  let ?vs = "[VInt (scast cbID), dm, VSlice ps []]"
  obtain p ps' where ps: "ps = p # ps'" using assms(4) by (cases ps) auto
  have np: "\<not> is_ptr_kind TInt32" "\<not> is_ptr_kind ty_Domain" "\<not> is_ptr_kind (TSlice ty_TypedParam)"
    by (simp_all add: is_ptr_kind_def ty_Domain_def)
  obtain cs where cs: "appends (encode_elems ?fmt ty_TypedParam ps') cs"
    using appends_typed_params [of ps' "time_Parse lib" ?fmt] assms(6) ps by auto
  have "rejects (encode ?fmt (TSlice ty_TypedParam) (VSlice ps []))
      (decode ?d (TSlice ty_TypedParam) (VSlice [] [])) err_nil_interface"
    unfolding ps using assms(5,6) ps
    by (intro rejects_slice [OF _ _ _ rejects_typed_param cs])
      (simp_all add: ty_TypedParam_def fits_NewDecoder)
  then have "rejects (encodeStruct ?fmt [fld (TSlice ty_TypedParam)] [VSlice ps []])
      (decodeStruct ?d [fld (TSlice ty_TypedParam)] [zero (TSlice ty_TypedParam)]) err_nil_interface"
    by (intro rejects_field_last np plain_NewDecoder) (simp only: zero.simps)
  then have "rejects (encodeStruct ?fmt ?fs ?vs) (decodeStruct ?d ?fs (List.map zero_field ?fs)) err_nil_interface"
    using rejects_field_tail [OF plain_NewDecoder np(1) canon_i32]
      rejects_field_tail [OF plain_NewDecoder np(2) assms(3)]
    by (simp del: encode.simps decodeStruct.simps(2) encodeStruct.simps(2) zero.simps(16))
  note rs = this
  obtain nm where t: "t = TStruct nm ?fs" "nm \<noteq> ''time.Time''"
    using assms(2) unfolding ty_DomainEventCallbackTunableMsg_def ty_DomainEventCallbackJobCompletedMsg_def
    by auto
  have "rejects (encode ?fmt t (VStruct ?vs)) (decode ?d t (zero t)) err_nil_interface"
    unfolding t(1) by (rule rejects_struct [OF plain_NewDecoder t(2) rs])
  then obtain bs where bs: "appends (encode ?fmt t (VStruct ?vs)) bs"
    "\<And>rest. \<exists>n s. decode ?d t (zero t) (bs @ rest) = (n, Err err_nil_interface, s)"
    by (rule stopsE) blast
  have "Marshal ?fmt (Some (t, VStruct ?vs)) = encode ?fmt t (VStruct ?vs)"
    by (simp add: Marshal_def Encode_def indirect.simps t(1))
  then have "encode_payload lib (t, VStruct ?vs) = Ok bs"
    using bs(1) by (intro encode_payload_appends) simp
  moreover have "Route lib h (bs @ rest) = Ok (Dropped err_nil_interface)" for rest
    using bs(2) [of rest] by (auto simp: Route_Some [OF assms(1)] eventDecoder_eq)
  ultimately show ?thesis by blast
qed

definition sample_param :: val where
  "sample_param = TypedParam ''cpu_shares'' (NewTypedParamValueUllong 1024)"

lemma typed_sample_param: "typed_param (NewDecoder tp) sample_param"
proof -
  have "param_value (NewDecoder tp) (NewTypedParamValueUllong 1024)"
    unfolding param_value_def NewTypedParamValueUllong_def
    by (intro exI [of _ 4] exI [of _ TUint64] exI [of _ "VUint 1024"])
      (simp add: param_types_def canon_uint64)
  then show ?thesis
    unfolding typed_param_def sample_param_def
    by (intro exI conjI) (auto simp: MaxOpaque_def fits_NewDecoder)
qed

theorem typed_param_events_dropped_witness:
  "\<exists>bs. encode_payload sample_lib (ty_DomainEventCallbackTunableMsg,
      VStruct [VInt (scast (5 :: i32)), sample_domain, VSlice [sample_param] []]) = Ok bs \<and>
    (\<forall>rest. Route sample_lib (sample_header\<lparr>Procedure := 346\<rparr>) (bs @ rest) = Ok (Dropped err_nil_interface))"
proof (rule typed_param_events_dropped)
  show "event_type (sample_header\<lparr>Procedure := 346\<rparr>) = Some ty_DomainEventCallbackTunableMsg"
    by (simp add: event_type_def sample_header_def QEMUProgram_def RemoteProgram_def
        eventFromProcedureID_def event_table_def)
qed (simp_all add: canon_sample_domain typed_sample_param)

section \<open>Monitor events of QEMU\<close>

text \<open>
  The protocol's message \<open>QEMUDomainMonitorEventMsg\<close> ends with an optional string; \<open>DomainEvent\<close>, into
  which \<open>Route\<close> decodes it, reads the flag of the option into \<open>Padding\<close> and then always expects the
  string.
\<close>

definition qemu_event :: "i32 \<Rightarrow> val \<Rightarrow> string \<Rightarrow> i64 \<Rightarrow> u32 \<Rightarrow> string option \<Rightarrow> val" where
  "qemu_event cbID dm event seconds micros details =
     VStruct [VInt (scast cbID), dm, VString event, VInt seconds, VUint (ucast micros),
       VSlice (case details of None \<Rightarrow> [] | Some s \<Rightarrow> [VString s]) []]"

definition err_eof_length :: error where
  "err_eof_length = unmarshalError ''DecodeUint'' ErrIO (errIODecode IoEOF 4) (BytesVal []) (Some IoEOF)"

lemma round_trips_same_bytes:
  "round_trips e m a \<Longrightarrow> (\<And>bs. appends e bs \<Longrightarrow> appends e' bs) \<Longrightarrow> round_trips e' m a"
  unfolding round_trips_def by blast

lemma stops_same_bytes:
  "stops R e m err \<Longrightarrow> (\<And>bs. appends e bs \<Longrightarrow> appends e' bs) \<Longrightarrow> stops R e' m err"
  unfolding stops_def by blast

lemma round_trips_field:
  assumes "plain d" "round_trips e (decode d t (zero t)) v" "round_trips e' (decodeStruct d fs zs) vs"
  shows "round_trips (io_bind e (\<lambda>_. e')) (decodeStruct d (fld t # fs) (zero t # zs)) (v # vs)"
  using round_trips_bind [OF assms(2) round_trips_map [OF assms(3)]]
  by (simp add: decode_field_plain assms(1))

abbreviation flag_and_bytes :: "field list" where
  "flag_and_bytes \<equiv> [fld TUint8, fld (TSlice TUint8)]"

lemma flag_round_trip:
  assumes "b < 256"
  shows "round_trips (EncodeUint b) (decode (NewDecoder tp) TUint8 (zero TUint8)) (VUint (ucast b))"
proof -
  have "unat (ucast b :: u64) = unat b"
    using unsigned_less [of b, where 'a = nat] by (simp add: unsigned_ucast_eq take_bit_nat_eq_self)
  then have "\<not> overflow_uint 8 (ucast b)"
    using assms by (simp add: overflow_uint_def word_less_nat_alt)
  then have "round_trips (EncodeUint b) (decode_uint_kind TUint8) (VUint (ucast b))"
    unfolding decode_uint_kind_def by (intro round_trips_check [OF uint_codec.law [OF TrueI]]) simp
  then show ?thesis by (simp add: decode_simple)
qed

lemma details_present:
  assumes "length s \<le> MaxOpaque"
  shows "round_trips (encode fmt ty_OptString (VSlice [VString s] []))
    (decodeStruct (NewDecoder tp) flag_and_bytes (List.map zero_field flag_and_bytes))
    [VUint 1, VSlice (List.map byte_val (bytes_of_string s)) []]"
proof -
  have "canon (NewDecoder tp) fmt (TSlice TUint8) (VSlice (List.map byte_val (bytes_of_string s)) [])"
    using assms by (intro canon_bytes) (simp_all add: fits_NewDecoder MaxOpaque_def)
  then have "round_trips (encode fmt (TSlice TUint8) (VSlice (List.map byte_val (bytes_of_string s)) []))
      (decode (NewDecoder tp) (TSlice TUint8) (zero (TSlice TUint8)))
      (VSlice (List.map byte_val (bytes_of_string s)) [])"
    by (intro canon_round_trips_aux) simp_all
  moreover have "encode fmt (TSlice TUint8) (VSlice (List.map byte_val (bytes_of_string s)) []) = EncodeString s"
    by (simp add: EncodeString_def comp_def)
  ultimately have s: "round_trips (EncodeString s)
      (decode (NewDecoder tp) (TSlice TUint8) (zero (TSlice TUint8)))
      (VSlice (List.map byte_val (bytes_of_string s)) [])" by simp
  have nil: "round_trips (io_ret ()) (decodeStruct (NewDecoder tp) [] []) []"
    using round_trips_ret [of "[]"] by simp
  have "round_trips (io_bind (EncodeUint 1) (\<lambda>_. io_bind (EncodeString s) (\<lambda>_. io_ret ())))
      (decodeStruct (NewDecoder tp) flag_and_bytes (List.map zero_field flag_and_bytes))
      [VUint 1, VSlice (List.map byte_val (bytes_of_string s)) []]"
    using round_trips_field [OF plain_NewDecoder flag_round_trip [of 1] round_trips_field [OF plain_NewDecoder s nil]]
    by simp
  moreover have "encode fmt ty_OptString (VSlice [VString s] []) =
      io_bind (EncodeUint 1) (\<lambda>_. io_bind (EncodeString s) (\<lambda>_. io_ret ()))"
    by (simp add: ty_OptString_def)
  ultimately show ?thesis by simp
qed

lemma details_absent:
  "stops (\<lambda>rest. rest = []) (encode fmt ty_OptString (VSlice [] []))
    (decodeStruct (NewDecoder tp) flag_and_bytes (List.map zero_field flag_and_bytes)) err_eof_length"
proof -
  have "decode (NewDecoder tp) (TSlice TUint8) (VSlice [] []) [] = (0, Err err_eof_length, [])"
    by (simp add: decode_simple DecodeUint_def io_map_def io_bind_def dec_read_def ReadFull_def
        err_eof_length_def)
  then have "stops (\<lambda>rest. rest = []) (io_ret ())
      (decodeStruct (NewDecoder tp) [fld (TSlice TUint8)] [VSlice [] []]) err_eof_length"
    by (intro stopsI [OF appends_ret]) (simp add: decode_field_plain io_bind_def)
  from stops_field_tail [OF plain_NewDecoder _ flag_round_trip [of 0] this]
  show ?thesis by (simp add: is_ptr_kind_def ty_OptString_def)
qed

text \<open>The fields in front of the details, as the message has them and as \<open>DomainEvent\<close> reads them.\<close>

lemma encode_qemu_event:
  assumes "canon d fmt ty_Domain dm"
  shows "encode fmt ty_QEMUDomainMonitorEventMsg (qemu_event cbID dm event seconds micros details) =
    io_bind (encode fmt TInt32 (VInt (scast cbID))) (\<lambda>_. io_bind (encode fmt ty_Domain dm) (\<lambda>_.
    io_bind (encode fmt TString (VString event)) (\<lambda>_. io_bind (EncodeHyper seconds) (\<lambda>_.
    io_bind (encode fmt TUint32 (VUint (ucast micros))) (\<lambda>_.
      encode fmt ty_OptString (VSlice (case details of None \<Rightarrow> [] | Some s \<Rightarrow> [VString s]) []))))))"
  using encode_ptr_chain [OF assms]
  by (auto simp: ty_QEMUDomainMonitorEventMsg_def qemu_event_def encode_field_no_ptr is_ptr_kind_def
      ty_Domain_def ty_OptString_def simp del: encode_field.simps)

lemma seconds_round_trip:
  "round_trips (EncodeHyper w) (decode (NewDecoder tp) TUint64 (zero TUint64)) (VUint w)"
  by (simp add: decode_simple EncodeHyper_def DecodeUhyper_def round_trips_map round_trips_be64)

lemma not_ptr_kinds:
  "\<not> is_ptr_kind TInt32" "\<not> is_ptr_kind ty_Domain" "\<not> is_ptr_kind TString" "\<not> is_ptr_kind TUint64"
  "\<not> is_ptr_kind TUint32"
  by (simp_all add: is_ptr_kind_def ty_Domain_def)

lemma DomainEvent_fields:
  "decode (NewDecoder tp) ty_DomainEvent (zero ty_DomainEvent) =
     io_map VStruct (decodeStruct (NewDecoder tp)
       (fld TInt32 # fld ty_Domain # fld TString # fld TUint64 # fld TUint32 # flag_and_bytes)
       (zero TInt32 # zero ty_Domain # zero TString # zero TUint64 # zero TUint32 #
         List.map zero_field flag_and_bytes))"
  by (simp add: decode_simple ty_DomainEvent_def del: decodeStruct.simps)

lemma canon_event_name: "length s \<le> MaxOpaque \<Longrightarrow> canon (NewDecoder tp) fmt TString (VString s)"
  by (rule canon_string) (simp_all add: fits_NewDecoder MaxOpaque_def)

lemma Marshal_qemu_event:
  "Marshal fmt (Some (ty_QEMUDomainMonitorEventMsg, v)) = encode fmt ty_QEMUDomainMonitorEventMsg v"
  by (simp add: Marshal_def Encode_def indirect.simps ty_QEMUDomainMonitorEventMsg_def)

text \<open>
  A monitor event that carries details reaches its subscriber, with the details as bytes; the flag
  that announces them ends up in \<open>Padding\<close>.
\<close>
theorem qemu_event_relayed:
  assumes "event_type h = Some ty_DomainEvent"
    and "canon (NewDecoder (time_Parse lib)) (time_Format lib) ty_Domain dm"
    and "length event \<le> MaxOpaque" "length details \<le> MaxOpaque"
  shows "\<exists>bs. encode_payload lib
      (ty_QEMUDomainMonitorEventMsg, qemu_event cbID dm event seconds micros (Some details)) = Ok bs \<and>
    Route lib h bs = Ok (ToStream ty_DomainEvent
      (VStruct [VInt (scast cbID), dm, VString event, VUint seconds, VUint (ucast micros), VUint 1,
         VSlice (List.map byte_val (bytes_of_string details)) []]))"
proof -
  let ?d = "NewDecoder (time_Parse lib)" and ?fmt = "time_Format lib"
  let ?m = "qemu_event cbID dm event seconds micros (Some details)"
  note rt = canon_round_trips_aux(1) [OF plain_NewDecoder]
  have "round_trips (encode ?fmt ty_QEMUDomainMonitorEventMsg ?m)
      (decode ?d ty_DomainEvent (zero ty_DomainEvent))
      (VStruct [VInt (scast cbID), dm, VString event, VUint seconds, VUint (ucast micros), VUint 1,
         VSlice (List.map byte_val (bytes_of_string details)) []])"
    unfolding encode_qemu_event [OF assms(2)] DomainEvent_fields option.case
    by (intro round_trips_map round_trips_field plain_NewDecoder rt canon_i32 canon_u32 assms(2)
        canon_event_name assms(3) seconds_round_trip details_present assms(4))
  then obtain bs where bs: "appends (encode ?fmt ty_QEMUDomainMonitorEventMsg ?m) bs"
    "decode ?d ty_DomainEvent (zero ty_DomainEvent) (bs @ []) = (length bs,
      Ok (VStruct [VInt (scast cbID), dm, VString event, VUint seconds, VUint (ucast micros), VUint 1,
         VSlice (List.map byte_val (bytes_of_string details)) []]), [])"
    by (rule round_tripsE) blast
  have "encode_payload lib (ty_QEMUDomainMonitorEventMsg, ?m) = Ok bs"
    using bs(1) by (intro encode_payload_appends) (simp add: Marshal_qemu_event)
  then show ?thesis using bs(2) by (simp add: Route_Some [OF assms(1)] eventDecoder_eq)
qed

text \<open>
  A monitor event without details is dropped: after the flag \<open>Route\<close>'s decoder expects the length
  of a string that the message does not have.
\<close>
theorem qemu_event_without_details_dropped:
  assumes "event_type h = Some ty_DomainEvent"
    and "canon (NewDecoder (time_Parse lib)) (time_Format lib) ty_Domain dm" "length event \<le> MaxOpaque"
  shows "\<exists>bs. encode_payload lib
      (ty_QEMUDomainMonitorEventMsg, qemu_event cbID dm event seconds micros None) = Ok bs \<and>
    Route lib h bs = Ok (Dropped err_eof_length)"
proof -
  let ?d = "NewDecoder (time_Parse lib)" and ?fmt = "time_Format lib"
  let ?m = "qemu_event cbID dm event seconds micros None"
  note rt = canon_round_trips_aux(1) [OF plain_NewDecoder]
  have "stops (\<lambda>rest. rest = []) (encode ?fmt ty_QEMUDomainMonitorEventMsg ?m)
      (decode ?d ty_DomainEvent (zero ty_DomainEvent)) err_eof_length"
    unfolding encode_qemu_event [OF assms(2)] DomainEvent_fields option.case
    by (rule stops_map,
        rule stops_field_tail [OF plain_NewDecoder not_ptr_kinds(1) rt [OF canon_i32]],
        rule stops_field_tail [OF plain_NewDecoder not_ptr_kinds(2) rt [OF assms(2)]],
        rule stops_field_tail [OF plain_NewDecoder not_ptr_kinds(3) rt [OF canon_event_name [OF assms(3)]]],
        rule stops_field_tail [OF plain_NewDecoder not_ptr_kinds(4) seconds_round_trip],
        rule stops_field_tail [OF plain_NewDecoder not_ptr_kinds(5) rt [OF canon_u32]],
        rule details_absent)
  then obtain bs n s where bs: "appends (encode ?fmt ty_QEMUDomainMonitorEventMsg ?m) bs"
    "decode ?d ty_DomainEvent (zero ty_DomainEvent) (bs @ []) = (n, Err err_eof_length, s)"
    by (rule stopsE) blast
  have "encode_payload lib (ty_QEMUDomainMonitorEventMsg, ?m) = Ok bs"
    using bs(1) by (intro encode_payload_appends) (simp add: Marshal_qemu_event)
  then show ?thesis using bs(2) by (simp add: Route_Some [OF assms(1)] eventDecoder_eq)
qed

lemma sample_monitor_header:
  "event_type (sample_header\<lparr>Program := QEMUProgram, Procedure := 6\<rparr>) = Some ty_DomainEvent"
  by (simp add: event_type_def QEMUProcDomainMonitorEvent_def)

theorem qemu_event_relayed_witness:
  "\<exists>bs. encode_payload sample_lib (ty_QEMUDomainMonitorEventMsg,
      qemu_event 1 sample_domain ''SHUTDOWN'' 60 7 (Some ''{}'')) = Ok bs \<and>
    Route sample_lib (sample_header\<lparr>Program := QEMUProgram, Procedure := 6\<rparr>) bs =
      Ok (ToStream ty_DomainEvent
        (VStruct [VInt (scast (1 :: i32)), sample_domain, VString ''SHUTDOWN'', VUint 60,
           VUint (ucast (7 :: u32)), VUint 1, VSlice (List.map byte_val (bytes_of_string ''{}'')) []]))"
  by (rule qemu_event_relayed [OF sample_monitor_header canon_sample_domain]) (simp_all add: MaxOpaque_def)

theorem qemu_event_without_details_dropped_witness:
  "\<exists>bs. encode_payload sample_lib (ty_QEMUDomainMonitorEventMsg,
      qemu_event 1 sample_domain ''SHUTDOWN'' 60 7 None) = Ok bs \<and>
    Route sample_lib (sample_header\<lparr>Program := QEMUProgram, Procedure := 6\<rparr>) bs =
      Ok (Dropped err_eof_length)"
  by (rule qemu_event_without_details_dropped [OF sample_monitor_header canon_sample_domain])
    (simp add: MaxOpaque_def)

section \<open>Properties of the event streams\<close>

text \<open>The streams in the map are distinct and exist.\<close>

definition subs_ok :: "subscriptions \<Rightarrow> bool" where
  "subs_ok s \<longleftrightarrow>
     (\<forall>i k. table_lookup (events s) i = Some k \<longrightarrow> k < length (streams s)) \<and>
     (\<forall>i j k. table_lookup (events s) i = Some k \<longrightarrow> table_lookup (events s) j = Some k \<longrightarrow> i = j)"

lemma subs_ok_addStream: "subs_ok s \<Longrightarrow> subs_ok (addStream i s)"
  by (fastforce simp: subs_ok_def addStream_def callback_table.lookup_insert)

lemma subs_ok_removeStream: "subs_ok s \<Longrightarrow> subs_ok (removeStream i s)"
  by (auto simp: subs_ok_def removeStream_def shutdown_def callback_table.lookup_remove split: option.splits)

lemma subs_ok_stream_event: "subs_ok s \<Longrightarrow> stream_event b t ev s = Some s' \<Longrightarrow> subs_ok s'"
  by (auto simp: subs_ok_def stream_event_def split: option.splits)

lemma events_shutdown [simp]: "events (shutdown k s) = events s"
  by (simp add: shutdown_def)

lemma table_remove_filter: "table_remove i t = filter (\<lambda>p. fst p \<noteq> i) t"
  by (auto simp: table_remove_def AList.delete_eq intro: filter_cong)

lemma removeAll_events:
  "events (fold (\<lambda>(i, k) s. (shutdown k s)\<lparr>events := table_remove i (events s)\<rparr>) ps s) =
     filter (\<lambda>p. fst p \<notin> fst ` set ps) (events s)"
  by (induction ps arbitrary: s) (auto simp: table_remove_filter intro: filter_cong)

lemma subs_ok_removeAll: "subs_ok (removeAllStreams s)"
proof -
  have "events (removeAllStreams s) = []"
    by (auto simp: removeAllStreams_def removeAll_events filter_empty_conv)
  then show ?thesis by (simp add: subs_ok_def table_lookup_def)
qed

text \<open>
  The operations on the subscriptions, together with whatever the goroutines and readers of the
  streams do.
\<close>

inductive subs_step :: "subscriptions \<Rightarrow> subscriptions \<Rightarrow> bool" where
  subs_add: "subs_step s (addStream i s)"
| subs_remove: "subs_step s (removeStream i s)"
| subs_remove_all: "subs_step s (removeAllStreams s)"
| subs_event: "stream_event b t ev s = Some s' \<Longrightarrow> subs_step s s'"
| subs_stream: "k < length (streams s) \<Longrightarrow> stream_step l (streams s ! k) = Some st \<Longrightarrow>
     subs_step s (s\<lparr>streams := (streams s)[k := st]\<rparr>)"

definition no_streams :: subscriptions where
  "no_streams = \<lparr>events = [], streams = []\<rparr>"

abbreviation subs_reach :: "subscriptions \<Rightarrow> bool" where
  "subs_reach \<equiv> reachable no_streams subs_step"

lemma subs_ok_step: "subs_step s s' \<Longrightarrow> subs_ok s \<Longrightarrow> subs_ok s'"
proof (induction rule: subs_step.induct)
  case (subs_stream k s l st)
  then show ?case by (simp add: subs_ok_def)
qed (auto intro: subs_ok_addStream subs_ok_removeStream subs_ok_removeAll subs_ok_stream_event)

lemma subs_ok_start: "subs_ok no_streams"
  by (simp add: subs_ok_def no_streams_def table_lookup_def)

interpretation subscriptions: reachable_invariant no_streams subs_step subs_ok
  by unfold_locales (auto intro: subs_ok_start subs_ok_step)

text \<open>
  An event goes to the stream that is registered under its callback number and to no other: it is
  put at the end of that stream's queue, whatever other streams are removed first. An event whose
  number is not, or no longer, registered changes nothing.
\<close>
theorem stream_event_delivery:
  assumes "subs_reach s" and "table_lookup (events s) (GetCallbackID ev) = Some k"
    and "\<not> finished (streams s ! k)" and "i \<noteq> GetCallbackID ev"
  shows "stream_event True t ev (removeStream i s) =
      Some ((removeStream i s)\<lparr>streams :=
        (streams (removeStream i s))[k := push_queue (Event (t, ev)) (streams s ! k)]\<rparr>) \<and>
    stream_event b t ev (removeStream (GetCallbackID ev) s) = Some (removeStream (GetCallbackID ev) s)"
proof
  have ok: "subs_ok s" using assms(1) by (rule subscriptions.always)
  have l: "table_lookup (events (removeStream i s)) (GetCallbackID ev) = Some k"
    using assms(2,4) by (simp add: removeStream_def callback_table.lookup_remove split: option.splits)
  have "streams (removeStream i s) ! k = streams s ! k"
    using ok assms(2,4) by (auto simp: removeStream_def shutdown_def subs_ok_def nth_list_update split: option.splits)
  then show "stream_event True t ev (removeStream i s) =
      Some ((removeStream i s)\<lparr>streams :=
        (streams (removeStream i s))[k := push_queue (Event (t, ev)) (streams s ! k)]\<rparr>)"
    using l assms(3) by (simp add: stream_event_def)
  have "table_lookup (events (removeStream j s)) j = None" for j
    by (simp add: removeStream_def callback_table.lookup_remove split: option.splits)
  then show "stream_event b t ev (removeStream (GetCallbackID ev) s) = Some (removeStream (GetCallbackID ev) s)"
    by (simp add: stream_event_def)
qed

definition two_streams :: subscriptions where
  "two_streams = addStream 5 (addStream 9 no_streams)"

theorem stream_event_delivery_witness:
  "stream_event True ty_DomainEventCallbackRebootMsg sample_event (removeStream 9 two_streams) =
      Some ((removeStream 9 two_streams)\<lparr>streams :=
        (streams (removeStream 9 two_streams))[1 := push_queue (Event (ty_DomainEventCallbackRebootMsg, sample_event))
           (streams two_streams ! 1)]\<rparr>) \<and>
    stream_event True ty_DomainEventCallbackRebootMsg sample_event (removeStream (GetCallbackID sample_event) two_streams) =
      Some (removeStream (GetCallbackID sample_event) two_streams)"
proof (rule stream_event_delivery)
  show "subs_reach two_streams" unfolding two_streams_def by (blast intro: reachable.intros subs_add)
qed (simp_all add: two_streams_def no_streams_def addStream_def table_insert_def table_lookup_def GetCallbackID_def
      sample_event_def NewStream_def)

end
