(* ===== verification/Protocol_Properties.thy ===== *)
theory Protocol_Properties
  imports Protocol_Calls Rpc_Events
begin

text \<open>
  The generated calls end to end: what the server receives and what the caller gets back, for calls
  with and without a stream.
\<close>

section \<open>Results\<close>

text \<open>
  The values that a call can return: canonical values of types without typed parameters, and lists of
  typed parameters.
\<close>

definition result_ok :: "time_lib \<Rightarrow> ty \<Rightarrow> val \<Rightarrow> bool" where
  "result_ok lib t v \<longleftrightarrow>
     custom_free (\<lambda>nm. nm = ''libvirt.TypedParam'') t \<and>
       canon (NewDecoder (time_Parse lib)) (time_Format lib) t v \<or>
     t = TSlice ty_TypedParam \<and>
       (\<exists>ps. v = VSlice ps [] \<and> length ps \<le> MaxInt32 \<and>
         (\<forall>p \<in> set ps. typed_param (NewDecoder (time_Parse lib)) p))"

fun encode_results :: "(int \<Rightarrow> string) \<Rightarrow> (ty \<times> val) list \<Rightarrow> unit enc" where
  "encode_results fmt [] = io_ret ()"
| "encode_results fmt (r # rs) =
     io_bind (encode fmt (fst r) (snd r)) (\<lambda>_. encode_results fmt rs)"

lemma has_custom_call: "(\<lambda>nm. has_custom (call_decoder tp) nm) = (\<lambda>nm. nm = ''libvirt.TypedParam'')"
  by (rule ext) (simp add: call_decoder_def NewDecoderCustomTypes_def)

lemma no_custom_call: "no_custom (call_decoder tp) = NewDecoder tp"
  by (simp add: no_custom_def call_decoder_def NewDecoderCustomTypes_def NewDecoder_def)

lemma decode_new_eq:
  assumes "customTypes d (type_string (ptr_base t)) = None"
  shows "decode_new d t = decode d t (zero t)"
proof -
  have "decode d (TPtr t) (VPtr (Some (zero t))) = io_map (\<lambda>u. VPtr (Some u)) (decode d t (zero t))"
    using assms by (subst decode.simps) (simp add: deref_or_new_def)
  then show ?thesis by (simp add: decode_new_def Decode_new io_map_def io_bind_assoc)
qed

lemma round_trips_result:
  assumes "result_ok lib t v"
  shows "round_trips (encode (time_Format lib) t v) (decode_new (call_decoder (time_Parse lib)) t) v"
  using assms unfolding result_ok_def
proof (elim disjE conjE exE)
  let ?d = "call_decoder (time_Parse lib)"
  assume t: "custom_free (\<lambda>nm. nm = ''libvirt.TypedParam'') t"
    and v: "canon (NewDecoder (time_Parse lib)) (time_Format lib) t v"
  then have cf: "custom_free (has_custom ?d) t" by (simp only: has_custom_call)
  have "decode_new ?d t = decode (NewDecoder (time_Parse lib)) t (zero t)"
    using custom_free_base [OF cf] decode_custom_free(1) [OF cf ifaces_zero]
    by (simp add: decode_new_eq no_custom_call)
  then show ?thesis using canon_round_trips_aux(1) [OF plain_NewDecoder v] by simp
next
  fix ps
  assume p: "t = TSlice ty_TypedParam" "v = VSlice ps []" "length ps \<le> MaxInt32"
    "\<forall>p \<in> set ps. typed_param (NewDecoder (time_Parse lib)) p"
  have "ptr_base (TSlice ty_TypedParam) = TSlice ty_TypedParam"
    by (subst ptr_base.simps) simp
  then have "decode_new (call_decoder (time_Parse lib)) t =
      decode (call_decoder (time_Parse lib)) (TSlice ty_TypedParam) (VSlice [] [])"
    using p(1) by (subst decode_new_eq) (simp_all add: call_decoder_def NewDecoderCustomTypes_def)
  then show ?thesis using round_trips_typed_params [OF p(4,3)] p(1,2) by simp
qed

lemma round_trips_results:
  "\<forall>r \<in> set rs. result_ok lib (fst r) (snd r) \<Longrightarrow>
   round_trips (encode_results (time_Format lib) rs)
     (decode_results (call_decoder (time_Parse lib)) (List.map fst rs)) (List.map snd rs)"
proof (induction rs)
  case Nil
  show ?case using round_trips_ret [of "[]"] by simp
next
  case (Cons r rs)
  then show ?case
    using round_trips_bind [OF round_trips_result round_trips_map, of lib "fst r" "snd r"] by simp
qed

section \<open>Requests on a working connection\<close>

text \<open>The client after its request has been sent.\<close>

definition after_request :: "u32 \<Rightarrow> u32 \<Rightarrow> byte list option \<Rightarrow> client \<Rightarrow> client" where
  "after_request proc program payload cl =
     cl\<lparr>last_serial := last_serial cl + 1,
        sock := (sock cl)\<lparr>sent := sent (sock cl) @
          frame (packet_of (last_serial cl + 1) proc program payload CallType StatusOK)\<rparr>,
        script := tl (script cl)\<rparr>"

lemma requestStream_live:
  assumes "live (sock cl)" and "script cl = c # later"
  shows "requestStream proc program payload None inw cl =
    (case getResponse (tlib cl) c of
       (Err e, c1) \<Rightarrow> (Err e, inw, after_request proc program payload cl)
     | (Panic, c1) \<Rightarrow> (Panic, inw, after_request proc program payload cl)
     | (Ok resp, c1) \<Rightarrow>
         (case inw of
            None \<Rightarrow> (Ok resp, None, after_request proc program payload cl)
          | Some w \<Rightarrow>
              (case processIncomingStream (tlib cl) c1 (Some w) of
                 (r, c2, w') \<Rightarrow> (r, w', after_request proc program payload cl))))"
  using assms
  by (auto simp: requestStream_def SendPacket_live after_request_def Let_def
      split: prod.splits res.splits option.splits)

lemma encode_payload_ptr:
  assumes "canon d (time_Format lib) t v"
  shows "encode_payload lib (TPtr t, VPtr (Some v)) = encode_payload lib (t, v)"
  using Marshal_canon [OF canon_ptr [OF assms]] Marshal_canon [OF assms]
  by (simp add: encode_payload_def)

lemma getResponse_ok: "RStatus r \<noteq> StatusError \<Longrightarrow> getResponse lib (r # c) = (Ok r, c)"
  by (simp add: getResponse_def)

text \<open>What a server sends that answers a call with results: a successful reply that begins with them.\<close>

definition replies :: "time_lib \<Rightarrow> (ty \<times> val) list \<Rightarrow> response list \<Rightarrow> bool" where
  "replies lib rs c \<longleftrightarrow>
     (\<exists>reply surplus c'. appends (encode_results (time_Format lib) rs) reply \<and>
        c = \<lparr>Payload = reply @ surplus, RStatus = StatusOK\<rparr> # c')"

lemma replies_exist:
  assumes "\<forall>r \<in> set rs. result_ok lib (fst r) (snd r)"
  obtains reply where "appends (encode_results (time_Format lib) rs) reply"
    "replies lib rs [\<lparr>Payload = reply, RStatus = StatusOK\<rparr>]"
proof -
  obtain reply where r: "appends (encode_results (time_Format lib) rs) reply"
    using round_trips_results [OF assms] by (rule round_tripsE) blast
  have "replies lib rs [\<lparr>Payload = reply, RStatus = StatusOK\<rparr>]"
    unfolding replies_def by (rule exI [of _ reply], rule exI [of _ "[]"], rule exI [of _ "[]"]) (simp add: r)
  then show ?thesis using r that by blast
qed

lemma call_returns:
  assumes "live (sock cl)" and "encode_args (tlib cl) args = Ok buf"
    and "\<forall>r \<in> set rs. result_ok (tlib cl) (fst r) (snd r)"
    and "replies (tlib cl) rs c" and "script cl = c # later"
  shows "call proc program args (List.map fst rs) None None cl =
    (Ok (List.map snd rs), None, after_request proc program buf cl)"
proof -
  obtain reply surplus c' where c: "appends (encode_results (time_Format (tlib cl)) rs) reply"
    "c = \<lparr>Payload = reply @ surplus, RStatus = StatusOK\<rparr> # c'"
    using assms(4) by (auto simp: replies_def)
  have "decode_results (call_decoder (time_Parse (tlib cl))) (List.map fst rs) (reply @ surplus) =
      (length reply, Ok (List.map snd rs), surplus)"
    using round_trips_results [OF assms(3)] c(1) appends_unique unfolding round_trips_def by blast
  then show ?thesis
    by (simp add: call_def assms(2) requestStream_live [OF assms(1,5)] c(2) getResponse_ok status_defs)
qed

lemma encode_args_canon:
  assumes "canon (NewDecoder (time_Parse lib)) (time_Format lib) t v"
  obtains bs where "encode_payload lib (t, v) = Ok bs" "encode_args lib (Some (t, v)) = Ok (Some bs)"
    "\<And>rest. decode_payload (NewDecoder (time_Parse lib)) t (bs @ rest) = Ok v"
proof -
  obtain bs where "encode_payload lib (t, v) = Ok bs"
    "\<And>rest. decode_payload (NewDecoder (time_Parse lib)) t (bs @ rest) = Ok v"
    by (rule payload_canon [OF plain_NewDecoder assms]) blast
  then show ?thesis by (intro that) (simp_all add: encode_args_def encode_payload_ptr [OF assms])
qed

lemma after_request_simps [simp]:
  "live (sock (after_request proc program buf cl)) = live (sock cl)"
  "tlib (after_request proc program buf cl) = tlib cl"
  "script (after_request proc program buf cl) = tl (script cl)"
  "last_serial (after_request proc program buf cl) = last_serial cl + 1"
  by (simp_all add: after_request_def)

text \<open>
  C3. A call is carried out faithfully: on a working connection exactly one packet is sent, with the
  next serial number and the call's program and procedure, from whose payload the server decodes
  the arguments; and from a successful reply that holds the encoded results, one after the other,
  the caller gets these results.
\<close>
theorem call_correct:
  assumes "live (sock cl)" and "sent (sock cl) = concat (List.map frame ps)" and "\<forall>p \<in> set ps. small p"
    and "canon (NewDecoder (time_Parse (tlib cl))) (time_Format (tlib cl)) t v"
    and "encode_payload (tlib cl) (t, v) = Ok bs" and "packet_size + length bs < 2 ^ 32"
    and "\<forall>r \<in> set rs. result_ok (tlib cl) (fst r) (snd r)"
    and "appends (encode_results (time_Format (tlib cl)) rs) reply"
    and "script cl = (\<lparr>Payload = reply @ surplus, RStatus = StatusOK\<rparr> # c) # later"
  shows "\<exists>cl'. call proc program (Some (t, v)) (List.map fst rs) None None cl =
      (Ok (List.map snd rs), None, cl') \<and>
    listen (List.map B (sent (sock cl'))) =
      (ps @ [(\<lparr>Program = program, Version = 1, Procedure = proc, Type = CallType,
                Serial = last_serial cl + 1, Status = StatusOK\<rparr>, bs)], Returned) \<and>
    decode_payload (NewDecoder (time_Parse (tlib cl))) t bs = Ok v"
proof -
  let ?cl' = "after_request proc program (Some bs) cl"
  let ?p = "packet_of (last_serial cl + 1) proc program (Some bs) CallType StatusOK"
  have "call proc program (Some (t, v)) (List.map fst rs) None None cl =
      (Ok (List.map snd rs), None, ?cl')"
    using assms(8,9)
    by (intro call_returns [OF assms(1) _ assms(7)])
      (auto simp: encode_args_def encode_payload_ptr [OF assms(4)] assms(5) replies_def)
  moreover have "listen (List.map B (concat (List.map frame (ps @ [?p]))) @ []) = (ps @ [?p], Returned)"
    using listen_frames [of "ps @ [?p]" "[]"] assms(3,6)
    by (simp add: listen_Nil small_def packet_of_def)
  then have "listen (List.map B (sent (sock ?cl'))) = (ps @ [?p], Returned)"
    by (simp add: after_request_def assms(2))
  moreover obtain bs' where "encode_payload (tlib cl) (t, v) = Ok bs'"
    "\<And>rest. decode_payload (NewDecoder (time_Parse (tlib cl))) t (bs' @ rest) = Ok v"
    by (rule payload_canon [OF plain_NewDecoder assms(4)]) blast
  then have "decode_payload (NewDecoder (time_Parse (tlib cl))) t bs = Ok v"
    using assms(5) by (metis append_Nil2 res.inject(1))
  ultimately show ?thesis by (auto simp: packet_of_def ProtocolVersion_def)
qed

definition sample_client :: "response list \<Rightarrow> client" where
  "sample_client c =
     \<lparr>sock = fresh_socket, last_serial = 6, script = [c], tlib = sample_lib\<rparr>"

lemma canon_lookup_args:
  "canon (NewDecoder tp) fmt ty_DomainLookupByNameArgs (VStruct [VString ''vm1''])"
  unfolding ty_DomainLookupByNameArgs_def
  by (intro canon_structI canon_fld canon_nil canon_event_name) (simp_all add: MaxOpaque_def)

lemma sample_domain_result: "result_ok sample_lib ty_Domain sample_domain"
  unfolding result_ok_def using canon_sample_domain by (simp add: ty_Domain_def ty_UUID_def)

lemma lookup_args_bytes:
  "encode_payload lib (ty_DomainLookupByNameArgs, VStruct [VString ''vm1'']) =
     Ok (be32 (3 :: u32) @ bytes_of_string ''vm1'' @ [0])"
proof -
  have "appends (EncodeString ''vm1'') (be32 (word_of_nat 3 :: u32) @ bytes_of_string ''vm1'' @ [0])"
    unfolding EncodeString_def EncodeUint_def
    using appends_bind [OF appends_enc_write appends_EncodeFixedOpaque [of "bytes_of_string ''vm1''"]]
    by (simp add: pad_len_def)
  then show ?thesis
    by (intro encode_payload_appends)
      (simp add: Marshal_def Encode_def indirect.simps ty_DomainLookupByNameArgs_def)
qed

theorem call_correct_witness:
  "\<exists>reply cl'. DomainLookupByName ''vm1'' (sample_client [\<lparr>Payload = reply, RStatus = StatusOK\<rparr>]) =
      (Ok [sample_domain], None, cl') \<and>
    listen (List.map B (sent (sock cl'))) =
      ([(\<lparr>Program = RemoteProgram, Version = 1, Procedure = 23, Type = CallType, Serial = 7,
          Status = StatusOK\<rparr>, be32 (3 :: u32) @ bytes_of_string ''vm1'' @ [0])], Returned)"
proof -
  obtain reply where reply: "appends (encode_results (time_Format sample_lib) [(ty_Domain, sample_domain)]) reply"
    using round_trips_results [of "[(ty_Domain, sample_domain)]" sample_lib] sample_domain_result
    by (auto elim!: round_tripsE simp del: encode_results.simps)
  let ?cl = "sample_client [\<lparr>Payload = reply, RStatus = StatusOK\<rparr>]"
  have "\<exists>cl'. call 23 RemoteProgram (Some (ty_DomainLookupByNameArgs, VStruct [VString ''vm1'']))
      (List.map fst [(ty_Domain, sample_domain)]) None None ?cl =
      (Ok (List.map snd [(ty_Domain, sample_domain)]), None, cl') \<and>
    listen (List.map B (sent (sock cl'))) =
      ([] @ [(\<lparr>Program = RemoteProgram, Version = 1, Procedure = 23, Type = CallType,
                Serial = last_serial ?cl + 1, Status = StatusOK\<rparr>,
              be32 (3 :: u32) @ bytes_of_string ''vm1'' @ [0])], Returned) \<and>
    decode_payload (NewDecoder (time_Parse (tlib ?cl))) ty_DomainLookupByNameArgs
      (be32 (3 :: u32) @ bytes_of_string ''vm1'' @ [0]) = Ok (VStruct [VString ''vm1''])"
    by (rule call_correct [where c = "[]" and later = "[]" and surplus = "[]" and reply = reply])
      (simp_all add: sample_client_def fresh_socket_def live_def canon_lookup_args lookup_args_bytes
        sample_domain_result reply del: encode_results.simps)
  then show ?thesis by (auto simp: DomainLookupByName_def sample_client_def)
qed

section \<open>Results behind a stream\<close>

text \<open>
  \<open>DomainScreenshot\<close> cannot return its result: the call keeps only the last response of the
  stream, which is empty, and decodes the MIME type from it instead of from the first response. The
  image itself reaches the caller's writer, and then the call fails with an end-of-file error.
\<close>
theorem screenshot_fails:
  assumes "live (sock cl)" and "script cl = (first # ds @ [\<lparr>Payload = [], RStatus = StatusOK\<rparr>]) # later"
    and "RStatus first = StatusOK"
    and "\<forall>r \<in> set ds. RStatus r = StatusContinue \<and> Payload r \<noteq> []" and "room w = None"
    and "canon (NewDecoder (time_Parse (tlib cl))) (time_Format (tlib cl)) ty_Domain dm"
  shows "\<exists>cl'. DomainScreenshot dm screen flags (Some w) cl =
    (Err err_eof_length, Some (w\<lparr>written := written w @ concat (List.map Payload ds)\<rparr>), cl')"
proof -
  let ?args = "VStruct [dm, of_u32 screen, of_u32 flags]"
  have "canon (NewDecoder (time_Parse (tlib cl))) (time_Format (tlib cl)) ty_DomainScreenshotArgs ?args"
    unfolding ty_DomainScreenshotArgs_def of_u32_def
    by (intro canon_structI canon_fld canon_nil canon_u32 assms(6)) simp
  then obtain bs where bs: "encode_payload (tlib cl) (ty_DomainScreenshotArgs, ?args) = Ok bs"
    and enc: "encode_args (tlib cl) (Some (ty_DomainScreenshotArgs, ?args)) = Ok (Some bs)"
    by (auto simp: encode_args_def encode_payload_ptr elim!: payload_canon [OF plain_NewDecoder])
  have "getResponse (tlib cl) (first # ds @ [\<lparr>Payload = [], RStatus = StatusOK\<rparr>]) =
      (Ok first, ds @ [\<lparr>Payload = [], RStatus = StatusOK\<rparr>])"
    using assms(3) by (simp add: getResponse_ok status_defs)
  moreover have "processIncomingStream (tlib cl) [\<lparr>Payload = [], RStatus = StatusOK\<rparr>] inw =
      (Ok \<lparr>Payload = [], RStatus = StatusOK\<rparr>, [], inw)" for inw
    by (subst processIncomingStream.simps) (simp add: getResponse_ok status_defs)
  moreover have "decode_results (call_decoder tp) [ty_OptString] [] = (0, Err err_eof_length, [])" for tp
  proof -
    have "decode (call_decoder tp) ty_OptString (VSlice [] []) [] = (0, Err err_eof_length, [])"
      by (subst decode.simps) (simp add: ty_OptString_def call_decoder_def NewDecoderCustomTypes_def
          DecodeUint_def io_map_def io_bind_def dec_read_def ReadFull_def err_eof_length_def)
    moreover have "ptr_base ty_OptString = ty_OptString"
      by (subst ptr_base.simps) (simp add: ty_OptString_def)
    then have "decode_new (call_decoder tp) ty_OptString = decode (call_decoder tp) ty_OptString (VSlice [] [])"
      by (subst decode_new_eq) (simp_all add: ty_OptString_def call_decoder_def NewDecoderCustomTypes_def)
    ultimately show ?thesis by (simp add: io_bind_def)
  qed
  ultimately show ?thesis
    by (simp add: DomainScreenshot_def call_def enc requestStream_live [OF assms(1,2)]
        incoming_all_data(1) [OF assms(4,5)])
qed

theorem screenshot_fails_witness:
  "\<exists>cl'. DomainScreenshot sample_domain 0 0 (Some empty_buffer) (sample_client
      [\<lparr>Payload = [0, 0, 0, 0], RStatus = StatusOK\<rparr>, data_response [137, 80, 78, 71],
       \<lparr>Payload = [], RStatus = StatusOK\<rparr>]) =
    (Err err_eof_length, Some (empty_buffer\<lparr>written := [137, 80, 78, 71]\<rparr>), cl')"
  using screenshot_fails [of "sample_client [\<lparr>Payload = [0, 0, 0, 0], RStatus = StatusOK\<rparr>,
      data_response [137, 80, 78, 71], \<lparr>Payload = [], RStatus = StatusOK\<rparr>]"
      "\<lparr>Payload = [0, 0, 0, 0], RStatus = StatusOK\<rparr>" "[data_response [137, 80, 78, 71]]" "[]"
      empty_buffer sample_domain 0 0]
  by (simp add: sample_client_def fresh_socket_def live_def data_response_def canon_sample_domain
      empty_buffer_def)

end
