(* ===== verification/Socket_Lifecycle.thy ===== *)
theory Socket_Lifecycle
  imports Socket_Packet Transitions
begin

text \<open>
  The life of a \<open>Socket\<close> (\<open>New\<close>, \<open>Connect\<close>, \<open>listenAndRoute\<close>, \<open>Disconnect\<close> and
  \<open>isDisconnected\<close> of \<open>src/socket/socket.go\<close>): the channel \<open>disconnected\<close> is replaced at each
  connection and closed by the reading goroutine. The interleavings of the callers and of the
  reading goroutines are a step relation.
\<close>

section \<open>State and operations\<close>

text \<open>
  Channels are numbered in the order of their creation. The field \<open>cur\<close> is the channel
  \<open>s.disconnected\<close>, \<open>closed\<close> the channels that have been closed, \<open>readers\<close> the number of running
  \<open>listenAndRoute\<close> goroutines, \<open>closing\<close> the number of calls of \<open>Disconnect\<close> that have closed the
  connection and not yet reached their \<open>select\<close>, \<open>waits\<close> the channels on which such calls wait, and
  \<open>panicked\<close> tells whether a closed channel was closed again.
\<close>

record conn_state =
  cur :: nat
  closed :: "nat list"
  readers :: nat
  closing :: nat
  waits :: "nat list"
  panicked :: bool

definition close_chan :: "nat \<Rightarrow> conn_state \<Rightarrow> conn_state" where
  "close_chan c s = (if c \<in> set (closed s) then s\<lparr>panicked := True\<rparr> else s\<lparr>closed := c # closed s\<rparr>)"

definition New :: conn_state where
  "New = close_chan 0 \<lparr>cur = 0, closed = [], readers = 0, closing = 0, waits = [], panicked = False\<rparr>"

definition isDisconnected :: "conn_state \<Rightarrow> bool" where
  "isDisconnected s = (cur s \<in> set (closed s))"

text \<open>\<open>Connect\<close>, given what \<open>Dial\<close> returns (an error, or a connection).\<close>

definition Connect :: "error option \<Rightarrow> conn_state \<Rightarrow> error option \<times> conn_state" where
  "Connect dial s =
     (if \<not> isDisconnected s then (Some (PlainError ''already connected to socket''), s)
      else case dial of
             Some e \<Rightarrow> (Some e, s)
           | None \<Rightarrow> (None, s\<lparr>cur := Suc (cur s), readers := Suc (readers s)\<rparr>))"

text \<open>The end of \<open>listenAndRoute\<close>, after \<open>listen\<close> has returned.\<close>

definition listener_exit :: "conn_state \<Rightarrow> conn_state" where
  "listener_exit s = close_chan (cur s) (s\<lparr>readers := readers s - 1\<rparr>)"

text \<open>
  \<open>Disconnect\<close> up to its \<open>select\<close>, given what \<open>conn.Close\<close> returns: it has returned (with an error
  or without), or it goes on to the \<open>select\<close>.
\<close>

datatype disc_result = DiscReturned "error option" | DiscClosing

definition Disconnect :: "error option \<Rightarrow> conn_state \<Rightarrow> disc_result \<times> conn_state" where
  "Disconnect closeErr s =
     (if isDisconnected s then (DiscReturned None, s)
      else case closeErr of
             Some e \<Rightarrow> (DiscReturned (Some e), s)
           | None \<Rightarrow> (DiscClosing, s\<lparr>closing := Suc (closing s)\<rparr>))"

text \<open>
  The \<open>select\<close>: the call reads the channel from the socket and waits on it, until the channel is
  closed or the time is up.
\<close>

definition Disconnect_wait :: "conn_state \<Rightarrow> conn_state option" where
  "Disconnect_wait s =
     (if closing s = 0 then None else Some (s\<lparr>closing := closing s - 1, waits := cur s # waits s\<rparr>))"

definition Disconnect_select :: "nat \<Rightarrow> bool \<Rightarrow> conn_state \<Rightarrow> (error option \<times> conn_state) option" where
  "Disconnect_select c timeout s =
     (if c \<notin> set (waits s) then None
      else if timeout then
        Some (Some (PlainError ''timed out waiting for Disconnect cleanup''), s\<lparr>waits := remove1 c (waits s)\<rparr>)
      else if c \<in> set (closed s) then Some (None, s\<lparr>waits := remove1 c (waits s)\<rparr>)
      else None)"

section \<open>Interleavings\<close>

inductive sock_step :: "conn_state \<Rightarrow> conn_state \<Rightarrow> bool" where
  step_connect: "Connect dial s = (r, s') \<Longrightarrow> sock_step s s'"
| step_exit: "0 < readers s \<Longrightarrow> sock_step s (listener_exit s)"
| step_disconnect: "Disconnect e s = (r, s') \<Longrightarrow> sock_step s s'"
| step_wait: "Disconnect_wait s = Some s' \<Longrightarrow> sock_step s s'"
| step_select: "Disconnect_select c t s = Some (r, s') \<Longrightarrow> sock_step s s'"

abbreviation sock_reach :: "conn_state \<Rightarrow> bool" where
  "sock_reach \<equiv> reachable New sock_step"

inductive_cases sock_stepE: "sock_step s s'"

definition sock_inv :: "conn_state \<Rightarrow> bool" where
  "sock_inv s \<longleftrightarrow>
     \<not> panicked s \<and> set (waits s) \<subseteq> {..cur s} \<and>
     (readers s = 1 \<and> set (closed s) = {..<cur s} \<or> readers s = 0 \<and> set (closed s) = {..cur s})"

lemma sock_invE:
  assumes "sock_inv s"
  obtains "\<not> panicked s" "set (waits s) \<subseteq> {..cur s}" "readers s = 1" "set (closed s) = {..<cur s}"
      "\<not> isDisconnected s"
    | "\<not> panicked s" "set (waits s) \<subseteq> {..cur s}" "readers s = 0" "set (closed s) = {..cur s}"
      "isDisconnected s"
  using assms by (auto simp: sock_inv_def isDisconnected_def)

lemma sock_inv_New: "sock_inv New"
  by (simp add: sock_inv_def New_def close_chan_def)

lemma sock_inv_Connect: "sock_inv s \<Longrightarrow> Connect dial s = (r, s') \<Longrightarrow> sock_inv s'"
  by (erule sock_invE) (force simp: sock_inv_def Connect_def lessThan_Suc_atMost split: option.splits)+

lemma sock_inv_exit: "sock_inv s \<Longrightarrow> 0 < readers s \<Longrightarrow> sock_inv (listener_exit s)"
  by (erule sock_invE) (auto simp: sock_inv_def listener_exit_def close_chan_def)

lemma sock_inv_Disconnect: "sock_inv s \<Longrightarrow> Disconnect e s = (r, s') \<Longrightarrow> sock_inv s'"
  by (erule sock_invE) (auto simp: sock_inv_def Disconnect_def split: option.splits)

lemma sock_inv_wait: "sock_inv s \<Longrightarrow> Disconnect_wait s = Some s' \<Longrightarrow> sock_inv s'"
  by (erule sock_invE) (auto simp: sock_inv_def Disconnect_wait_def split: if_splits)

lemma sock_inv_select:
  assumes "sock_inv s" "Disconnect_select c t s = Some (r, s')"
  shows "sock_inv s'"
proof -
  have "s' = s\<lparr>waits := remove1 c (waits s)\<rparr>"
    using assms(2) by (auto simp: Disconnect_select_def split: if_splits)
  then show ?thesis
    using assms(1) set_remove1_subset [of c "waits s"] by (auto simp: sock_inv_def)
qed

interpretation socket: reachable_invariant New sock_step sock_inv
  by unfold_locales
    (auto elim!: sock_stepE intro: sock_inv_New sock_inv_Connect sock_inv_exit sock_inv_Disconnect
      sock_inv_wait sock_inv_select)

text \<open>
  C11. However \<open>Connect\<close>, \<open>Disconnect\<close> and the ends of the reading goroutines interleave, no channel
  is ever closed twice (which would panic), and a reading goroutine runs exactly while the socket is
  not disconnected, and then there is just one.
\<close>
theorem socket_safe:
  assumes "sock_reach s"
  shows "\<not> panicked s \<and> readers s = (if isDisconnected s then 0 else 1)"
  using socket.always [OF assms] by (rule sock_invE) simp_all

theorem socket_safe_witness:
  "\<not> panicked (snd (Connect None New)) \<and>
   readers (snd (Connect None New)) = (if isDisconnected (snd (Connect None New)) then 0 else 1)"
proof (rule socket_safe)
  show "sock_reach (snd (Connect None New))"
    by (rule reach_step [OF reach_start]) (rule step_connect, rule surjective_pairing)
qed

text \<open>
  A call of \<open>Disconnect\<close> that waits on a channel gets on without the timeout once the reading
  goroutine of the channel's connection has ended, also when another connection has been made since.
\<close>
theorem Disconnect_completes:
  assumes "sock_reach s" and "c \<in> set (waits s)" and "c < cur s \<or> readers s = 0"
  shows "Disconnect_select c False s = Some (None, s\<lparr>waits := remove1 c (waits s)\<rparr>)"
  using socket.always [OF assms(1)] assms(2,3)
  by (elim sock_invE) (auto simp: Disconnect_select_def)

definition waiting_run :: conn_state where
  "waiting_run = the (Disconnect_wait (snd (Disconnect None (snd (Connect None New)))))"

definition closing_run :: conn_state where
  "closing_run = snd (Connect None (listener_exit waiting_run))"

lemmas run_defs = Disconnect_wait_def Disconnect_def Connect_def New_def close_chan_def
  isDisconnected_def listener_exit_def waiting_run_def closing_run_def

theorem Disconnect_completes_witness:
  "Disconnect_select 1 False closing_run = Some (None, closing_run\<lparr>waits := remove1 1 (waits closing_run)\<rparr>)"
proof (rule Disconnect_completes)
  have 1: "sock_reach (snd (Connect None New))"
    by (rule reach_step [OF reach_start]) (rule step_connect, rule surjective_pairing)
  have 2: "sock_reach (snd (Disconnect None (snd (Connect None New))))"
    by (rule reach_step [OF 1 step_disconnect]) (rule surjective_pairing)
  have 3: "sock_reach waiting_run"
    by (rule reach_step [OF 2 step_wait]) (simp add: run_defs)
  have 4: "sock_reach (listener_exit waiting_run)"
    by (rule reach_step [OF 3 step_exit]) (simp add: run_defs)
  show "sock_reach closing_run"
    unfolding closing_run_def
    by (rule reach_step [OF 4 step_connect]) (rule surjective_pairing)
qed (simp_all add: run_defs)

end
