(* ===== verification/Libvirt_Lifecycle.thy ===== *)
theory Libvirt_Lifecycle
  imports Socket_Lifecycle
begin

text \<open>
  The life of a client (\<open>NewWithDialer\<close>, \<open>ConnectToURI\<close>, \<open>waitAndDisconnect\<close>, \<open>Disconnect\<close> and
  \<open>IsConnected\<close> of \<open>src/libvirt.go\<close>) on top of the life of its socket: the callers, the goroutine
  \<open>waitAndDisconnect\<close> of each connection and the reading goroutine of the socket interleave. The
  field \<open>disconnected\<close> is replaced and closed without a lock.
\<close>

section \<open>State\<close>

text \<open>
  Where a goroutine \<open>waitAndDisconnect\<close> stands: about to ask the socket for its channel, waiting for
  the channel to be closed, then before each of the statements that follow.
\<close>

datatype watcher = Starting | Watching nat | CleanStreams | CleanCallbacks | Selecting | Closing

text \<open>
  The client: its socket; its channel \<open>disconnected\<close> and the channels already closed (numbered in the
  order of their creation); how many calls of \<open>ConnectToURI\<close> are in \<open>initLibvirtComms\<close>, how many that
  failed there wait in the socket's \<open>Disconnect\<close>, and how many calls of the client's own \<open>Disconnect\<close>
  wait there; the watching goroutines; for each event stream and each request that waits for an answer the connection to
  which it belongs (the number of the socket's channel); the channels on which calls of
  \<open>Disconnect\<close> wait; and whether a closed channel was closed again.
\<close>

record lv_state =
  sk :: conn_state
  l_cur :: nat
  l_closed :: "nat list"
  connecting :: nat
  failing :: nat
  discs :: nat
  watchers :: "watcher list"
  l_streams :: "nat list"
  l_requests :: "nat list"
  l_waits :: "nat list"
  l_panicked :: bool

definition l_close :: "lv_state \<Rightarrow> lv_state" where
  "l_close s =
     (if l_cur s \<in> set (l_closed s) then s\<lparr>l_panicked := True\<rparr>
      else s\<lparr>l_closed := l_cur s # l_closed s\<rparr>)"

definition NewWithDialer :: lv_state where
  "NewWithDialer = l_close
     \<lparr>sk = New, l_cur = 0, l_closed = [], connecting = 0, failing = 0, discs = 0, watchers = [], l_streams = [],
      l_requests = [], l_waits = [], l_panicked = False\<rparr>"

definition IsConnected :: "lv_state \<Rightarrow> bool" where
  "IsConnected s \<longleftrightarrow> l_cur s \<notin> set (l_closed s)"

section \<open>Operations\<close>

text \<open>
  \<open>ConnectToURI\<close> up to the call of \<open>initLibvirtComms\<close>, given what the dialer returns; what follows
  when that call succeeds; and what follows when it fails, given what closing the connection returns,
  with the end of the socket's \<open>Disconnect\<close>.
\<close>

definition ConnectToURI :: "error option \<Rightarrow> lv_state \<Rightarrow> error option \<times> lv_state" where
  "ConnectToURI dial s =
     (case Connect dial (sk s) of
        (Some e, sk1) \<Rightarrow> (Some e, s\<lparr>sk := sk1\<rparr>)
      | (None, sk1) \<Rightarrow>
          (None, s\<lparr>sk := sk1, watchers := watchers s @ [Starting], connecting := Suc (connecting s)\<rparr>))"

definition ConnectToURI_done :: "lv_state \<Rightarrow> lv_state option" where
  "ConnectToURI_done s =
     (if connecting s = 0 then None
      else Some (s\<lparr>l_cur := Suc (l_cur s), connecting := connecting s - 1\<rparr>))"

definition ConnectToURI_failed :: "error option \<Rightarrow> lv_state \<Rightarrow> lv_state option" where
  "ConnectToURI_failed closeErr s =
     (if connecting s = 0 then None
      else case Disconnect closeErr (sk s) of
             (DiscReturned e, sk1) \<Rightarrow> Some (s\<lparr>sk := sk1, connecting := connecting s - 1\<rparr>)
           | (DiscClosing, sk1) \<Rightarrow>
               Some (s\<lparr>sk := sk1, connecting := connecting s - 1, failing := Suc (failing s)\<rparr>))"

definition ConnectToURI_end :: "nat \<Rightarrow> bool \<Rightarrow> lv_state \<Rightarrow> lv_state option" where
  "ConnectToURI_end c timeout s =
     (if failing s = 0 then None
      else case Disconnect_select c timeout (sk s) of
             None \<Rightarrow> None
           | Some (r, sk1) \<Rightarrow> Some (s\<lparr>sk := sk1, failing := failing s - 1\<rparr>))"

text \<open>The next statement of a watching goroutine; without a goroutine as result, it has returned.\<close>

definition waitAndDisconnect :: "watcher \<Rightarrow> lv_state \<Rightarrow> (watcher option \<times> lv_state) option" where
  "waitAndDisconnect w s =
     (case w of
        Starting \<Rightarrow> Some (Some (Watching (cur (sk s))), s)
      | Watching c \<Rightarrow> if c \<in> set (closed (sk s)) then Some (Some CleanStreams, s) else None
      | CleanStreams \<Rightarrow> Some (Some CleanCallbacks, s\<lparr>l_streams := []\<rparr>)
      | CleanCallbacks \<Rightarrow> Some (Some Selecting, s\<lparr>l_requests := []\<rparr>)
      | Selecting \<Rightarrow> if IsConnected s then Some (Some Closing, s) else Some (None, s)
      | Closing \<Rightarrow> Some (None, l_close s))"

definition set_watcher :: "nat \<Rightarrow> watcher option \<Rightarrow> watcher list \<Rightarrow> watcher list" where
  "set_watcher i w ws =
     (case w of Some w' \<Rightarrow> ws[i := w'] | None \<Rightarrow> take i ws @ drop (Suc i) ws)"

definition watch :: "nat \<Rightarrow> lv_state \<Rightarrow> lv_state option" where
  "watch i s =
     (if i < length (watchers s)
      then case waitAndDisconnect (watchers s ! i) s of
             None \<Rightarrow> None
           | Some (w, s1) \<Rightarrow> Some (s1\<lparr>watchers := set_watcher i w (watchers s1)\<rparr>)
      else None)"

text \<open>
  \<open>Disconnect\<close>: up to the \<open>select\<close> of the socket's \<open>Disconnect\<close>, given what the request and closing
  the connection return; the end of the socket's \<open>Disconnect\<close>; the wait for the clean-up.
\<close>

definition Disconnect_start :: "error option \<Rightarrow> error option \<Rightarrow> lv_state \<Rightarrow> lv_state" where
  "Disconnect_start reqErr closeErr s =
     (if reqErr \<noteq> None \<and> reqErr \<noteq> Some EINVAL then s
      else case Disconnect closeErr (sk s) of
             (DiscReturned (Some e), sk1) \<Rightarrow> s\<lparr>sk := sk1\<rparr>
           | (DiscReturned None, sk1) \<Rightarrow> s\<lparr>sk := sk1, l_waits := l_cur s # l_waits s\<rparr>
           | (DiscClosing, sk1) \<Rightarrow> s\<lparr>sk := sk1, discs := Suc (discs s)\<rparr>)"

definition Disconnect_socket :: "nat \<Rightarrow> bool \<Rightarrow> lv_state \<Rightarrow> lv_state option" where
  "Disconnect_socket c timeout s =
     (if discs s = 0 then None
      else case Disconnect_select c timeout (sk s) of
             None \<Rightarrow> None
           | Some (Some e, sk1) \<Rightarrow> Some (s\<lparr>sk := sk1, discs := discs s - 1\<rparr>)
           | Some (None, sk1) \<Rightarrow>
               Some (s\<lparr>sk := sk1, discs := discs s - 1, l_waits := l_cur s # l_waits s\<rparr>))"

definition Disconnect_end :: "nat \<Rightarrow> bool \<Rightarrow> lv_state \<Rightarrow> lv_state option" where
  "Disconnect_end c timeout s =
     (if c \<in> set (l_waits s) \<and> (timeout \<or> c \<in> set (l_closed s))
      then Some (s\<lparr>l_waits := remove1 c (l_waits s)\<rparr>) else None)"

section \<open>Runs\<close>

text \<open>
  One step of anyone: the callers, the watching goroutine at an index, the socket, and requests and
  subscriptions, which add or remove an entry.
\<close>

datatype action =
    DoConnect "error option"
  | DoDone
  | DoFailed "error option"
  | DoWatch nat
  | DoDisconnect "error option" "error option"
  | DoSocketWait
  | DoSocketSelect nat bool
  | DoFailedSelect nat bool
  | DoEnd nat bool
  | DoListenerExit
  | DoRegister
  | DoDeregister nat
  | DoSubscribe
  | DoUnsubscribe nat

fun lv_do :: "action \<Rightarrow> lv_state \<Rightarrow> lv_state option" where
  "lv_do (DoConnect dial) s = Some (snd (ConnectToURI dial s))"
| "lv_do DoDone s = ConnectToURI_done s"
| "lv_do (DoFailed e) s = ConnectToURI_failed e s"
| "lv_do (DoWatch i) s = watch i s"
| "lv_do (DoDisconnect r e) s = Some (Disconnect_start r e s)"
| "lv_do DoSocketWait s = map_option (\<lambda>sk1. s\<lparr>sk := sk1\<rparr>) (Disconnect_wait (sk s))"
| "lv_do (DoSocketSelect c t) s = Disconnect_socket c t s"
| "lv_do (DoFailedSelect c t) s = ConnectToURI_end c t s"
| "lv_do (DoEnd c t) s = Disconnect_end c t s"
| "lv_do DoListenerExit s = (if 0 < readers (sk s) then Some (s\<lparr>sk := listener_exit (sk s)\<rparr>) else None)"
| "lv_do DoRegister s = Some (s\<lparr>l_requests := cur (sk s) # l_requests s\<rparr>)"
| "lv_do (DoDeregister c) s = Some (s\<lparr>l_requests := remove1 c (l_requests s)\<rparr>)"
| "lv_do DoSubscribe s = Some (s\<lparr>l_streams := cur (sk s) # l_streams s\<rparr>)"
| "lv_do (DoUnsubscribe c) s = Some (s\<lparr>l_streams := remove1 c (l_streams s)\<rparr>)"

abbreviation lv_run :: "action list \<Rightarrow> lv_state \<Rightarrow> lv_state option" where
  "lv_run \<equiv> run_steps lv_do"

fun connects :: "action \<Rightarrow> bool" where
  "connects (DoConnect dial) = True"
| "connects _ = False"

text \<open>
  The states that can be reached when the callers start \<open>ConnectToURI\<close> only in states that satisfy
  \<open>ok\<close>: after the clean-up of the previous connection (\<open>calm\<close>), or as soon as no other
  \<open>ConnectToURI\<close> runs and the client says that it is not connected (\<open>polite\<close>).
\<close>

definition lv_do_when :: "(lv_state \<Rightarrow> bool) \<Rightarrow> action \<Rightarrow> lv_state \<Rightarrow> lv_state option" where
  "lv_do_when ok a s = (if connects a \<and> \<not> ok s then None else lv_do a s)"

lemma lv_do_when_free [simp]: "\<not> connects a \<Longrightarrow> lv_do_when ok a s = lv_do a s"
  by (simp add: lv_do_when_def)

abbreviation lv_reach :: "(lv_state \<Rightarrow> bool) \<Rightarrow> lv_state \<Rightarrow> bool" where
  "lv_reach ok \<equiv> reachable NewWithDialer (by_action (lv_do_when ok))"

abbreviation lv_exec :: "(lv_state \<Rightarrow> bool) \<Rightarrow> action list \<Rightarrow> lv_state \<Rightarrow> lv_state option" where
  "lv_exec ok \<equiv> run_steps (lv_do_when ok)"

definition calm :: "lv_state \<Rightarrow> bool" where
  "calm s \<longleftrightarrow> connecting s = 0 \<and> failing s = 0 \<and> watchers s = []"

definition polite :: "lv_state \<Rightarrow> bool" where
  "polite s \<longleftrightarrow> connecting s = 0 \<and> failing s = 0 \<and> \<not> IsConnected s"

section \<open>One connection after the other\<close>

definition watch_ok :: "lv_state \<Rightarrow> watcher \<Rightarrow> bool" where
  "watch_ok s w \<longleftrightarrow>
     (case w of
        Watching c \<Rightarrow> c = cur (sk s)
      | Closing \<Rightarrow> IsConnected s \<and> isDisconnected (sk s)
      | Starting \<Rightarrow> True
      | _ \<Rightarrow> isDisconnected (sk s))"

definition lv_inv :: "lv_state \<Rightarrow> bool" where
  "lv_inv s \<longleftrightarrow>
     sock_inv (sk s) \<and> \<not> l_panicked s \<and> set (l_closed s) \<subseteq> {..l_cur s} \<and>
     length (watchers s) \<le> 1 \<and> (\<forall>w \<in> set (watchers s). watch_ok s w) \<and>
     (connecting s = 0 \<or> connecting s = 1) \<and>
     (watchers s = [] \<longrightarrow> isDisconnected (sk s))"

text \<open>Most steps leave alone what the invariant is about.\<close>

definition same_life :: "lv_state \<Rightarrow> lv_state \<Rightarrow> bool" where
  "same_life s s' \<longleftrightarrow>
     l_cur s' = l_cur s \<and> l_closed s' = l_closed s \<and> watchers s' = watchers s \<and>
     connecting s' \<le> connecting s \<and> l_panicked s' = l_panicked s \<and>
     cur (sk s') = cur (sk s) \<and> closed (sk s') = closed (sk s)"

lemma same_life_inv:
  assumes "same_life s s'" and "lv_inv s" and "sock_inv (sk s')"
  shows "lv_inv s'"
  using assms by (fastforce simp: lv_inv_def same_life_def watch_ok_def IsConnected_def isDisconnected_def
      split: watcher.splits)

lemma sock_frame:
  "Disconnect e k = (r, k') \<Longrightarrow> cur k' = cur k \<and> closed k' = closed k"
  "Disconnect_wait k = Some k' \<Longrightarrow> cur k' = cur k \<and> closed k' = closed k"
  "Disconnect_select c t k = Some (r2, k') \<Longrightarrow> cur k' = cur k \<and> closed k' = closed k"
  by (auto simp: Disconnect_def Disconnect_wait_def Disconnect_select_def split: if_splits option.splits)

lemma Connect_cases:
  "Connect dial k = (e, k') \<Longrightarrow> k' = k \<and> e \<noteq> None \<or> isDisconnected k \<and> e = None"
  by (auto simp: Connect_def split: if_splits option.splits)

lemma inv_ConnectToURI:
  assumes "lv_inv s" and "calm s"
  shows "lv_inv (snd (ConnectToURI dial s))"
proof -
  obtain e k where k: "Connect dial (sk s) = (e, k)" by (cases "Connect dial (sk s)") auto
  have "sock_inv k" using assms(1) k sock_inv_Connect by (auto simp: lv_inv_def)
  then show ?thesis
    using assms k Connect_cases [OF k]
    by (cases e) (auto simp: lv_inv_def calm_def ConnectToURI_def watch_ok_def)
qed

lemma inv_done: "lv_inv s \<Longrightarrow> ConnectToURI_done s = Some s' \<Longrightarrow> lv_inv s'"
  by (fastforce simp: lv_inv_def ConnectToURI_done_def watch_ok_def IsConnected_def
      split: if_splits watcher.splits)

lemma watch_single:
  "watchers s = [w] \<Longrightarrow> watch i s = Some s' \<Longrightarrow>
    \<exists>w' s1. waitAndDisconnect w s = Some (w', s1) \<and>
      s' = s1\<lparr>watchers := (case w' of None \<Rightarrow> [] | Some w'' \<Rightarrow> [w''])\<rparr>"
  by (auto simp: watch_def waitAndDisconnect_def set_watcher_def l_close_def
      split: if_splits watcher.splits option.splits)

lemma inv_watch:
  assumes "lv_inv s" and "watch i s = Some s'"
  shows "lv_inv s'"
proof -
  have "watchers s \<noteq> []" using assms(2) by (auto simp: watch_def split: if_splits)
  then obtain w where w: "watchers s = [w]"
    using assms(1) by (cases "watchers s") (auto simp: lv_inv_def)
  from watch_single [OF w assms(2)] obtain w' s1
    where "waitAndDisconnect w s = Some (w', s1)"
      and "s' = s1\<lparr>watchers := (case w' of None \<Rightarrow> [] | Some w'' \<Rightarrow> [w''])\<rparr>"
    by blast
  then show ?thesis
    using assms(1) w
    by (cases w) (auto simp: lv_inv_def waitAndDisconnect_def watch_ok_def IsConnected_def
        isDisconnected_def l_close_def split: if_splits)
qed

lemma inv_exit: "lv_inv s \<Longrightarrow> 0 < readers (sk s) \<Longrightarrow> lv_inv (s\<lparr>sk := listener_exit (sk s)\<rparr>)"
  using sock_inv_exit [of "sk s"]
  by (auto simp: lv_inv_def watch_ok_def IsConnected_def isDisconnected_def listener_exit_def
      close_chan_def split: watcher.splits)

lemmas op_defs = ConnectToURI_failed_def ConnectToURI_end_def Disconnect_start_def Disconnect_socket_def
  Disconnect_end_def

lemma other_same_life:
  assumes "lv_do a s = Some s'" and "\<not> connects a" "a \<noteq> DoDone" "\<And>i. a \<noteq> DoWatch i" "a \<noteq> DoListenerExit"
  shows "same_life s s'"
  using assms
  by (cases a) (auto simp: same_life_def op_defs dest!: sock_frame
      split: if_splits prod.splits disc_result.splits option.splits)

lemma other_sock_inv:
  assumes "lv_do a s = Some s'" and "\<not> connects a" "a \<noteq> DoDone" "\<And>i. a \<noteq> DoWatch i" "a \<noteq> DoListenerExit"
    and "sock_inv (sk s)"
  shows "sock_inv (sk s')"
  using assms
  by (cases a) (auto simp: op_defs dest: sock_inv_Disconnect sock_inv_wait sock_inv_select
      split: if_splits prod.splits disc_result.splits option.splits)

lemma inv_others:
  assumes "lv_inv s" and "lv_do a s = Some s'"
    and "\<not> connects a" "a \<noteq> DoDone" "\<And>i. a \<noteq> DoWatch i" "a \<noteq> DoListenerExit"
  shows "lv_inv s'"
  using same_life_inv [OF other_same_life assms(1) other_sock_inv] assms
  by (auto simp: lv_inv_def)

lemma inv_new: "lv_inv NewWithDialer"
  using sock_inv_New
  by (simp add: lv_inv_def NewWithDialer_def l_close_def isDisconnected_def New_def close_chan_def)

lemma inv_calm_step:
  assumes "lv_inv s" and "lv_do_when calm a s = Some s'"
  shows "lv_inv s'"
proof -
  from assms(2) have a: "connects a \<longrightarrow> calm s" "lv_do a s = Some s'"
    by (auto simp: lv_do_when_def split: if_splits)
  consider dial where "a = DoConnect dial" | "a = DoDone" | i where "a = DoWatch i" | "a = DoListenerExit"
    | "\<not> connects a" "a \<noteq> DoDone" "\<And>i. a \<noteq> DoWatch i" "a \<noteq> DoListenerExit"
    by (cases a) auto
  then show ?thesis
    using a assms(1)
    by cases (auto split: if_splits intro: inv_ConnectToURI inv_done inv_watch inv_exit inv_others)
qed

interpretation calm_client: reachable_invariant NewWithDialer "by_action (lv_do_when calm)" lv_inv
  by unfold_locales (auto intro: inv_new inv_calm_step)

text \<open>
  C9. When \<open>ConnectToURI\<close> is only called after the clean-up of the previous connection, then, however
  the callers, the watching goroutine and the reading goroutine interleave, neither the client nor
  the socket ever closes a channel twice, at most one goroutine watches, and the clean-up of streams
  and requests runs only while the socket is disconnected.
\<close>
theorem calm_client_safe:
  assumes "lv_reach calm s"
  shows "\<not> l_panicked s \<and> \<not> panicked (sk s) \<and> length (watchers s) \<le> 1 \<and>
    (isDisconnected (sk s) \<or> CleanStreams \<notin> set (watchers s) \<and> CleanCallbacks \<notin> set (watchers s))"
  using calm_client.always [OF assms] by (auto simp: lv_inv_def sock_inv_def watch_ok_def)

text \<open>A connection that is made, gets one request and is lost, up to the watching goroutine's work.\<close>

definition lost_connection :: "action list" where
  "lost_connection = [DoConnect None, DoDone, DoWatch 0, DoSubscribe, DoRegister, DoListenerExit]"

definition lost_state :: lv_state where
  "lost_state = the (lv_exec calm lost_connection NewWithDialer)"

lemmas lv_defs = NewWithDialer_def l_close_def IsConnected_def ConnectToURI_def ConnectToURI_done_def
  waitAndDisconnect_def set_watcher_def watch_def op_defs run_defs Disconnect_select_def

lemma lost_run: "lv_exec calm lost_connection NewWithDialer = Some lost_state"
  by (simp add: lost_state_def lost_connection_def calm_def lv_do_when_def lv_defs)


theorem calm_client_safe_witness:
  "\<not> l_panicked lost_state \<and> \<not> panicked (sk lost_state) \<and> length (watchers lost_state) \<le> 1 \<and>
    (if isDisconnected (sk lost_state) then True
     else CleanStreams \<notin> set (watchers lost_state) \<and> CleanCallbacks \<notin> set (watchers lost_state))"
  using calm_client_safe [OF run_reachable [OF reach_start lost_run]] by auto



section \<open>What the missing lock allows\<close>

text \<open>
  The connection is lost after \<open>initLibvirtComms\<close> has succeeded and before \<open>ConnectToURI\<close> assigns the
  new channel: the watching goroutine finds the old channel closed and returns.
\<close>

definition stale :: "lv_state \<Rightarrow> bool" where
  "stale s \<longleftrightarrow> IsConnected s \<and> isDisconnected (sk s) \<and> watchers s = [] \<and> connecting s = 0"

definition early_loss :: "action list" where
  "early_loss = [DoConnect None, DoWatch 0, DoListenerExit, DoWatch 0, DoWatch 0, DoWatch 0, DoWatch 0, DoDone]"

definition stale_state :: lv_state where
  "stale_state = the (lv_exec calm early_loss NewWithDialer)"

lemma early_loss_run: "lv_exec calm early_loss NewWithDialer = Some stale_state"
  by (simp add: stale_state_def early_loss_def calm_def lv_do_when_def lv_defs)

lemma stale_stale_state: "stale stale_state"
  by (simp add: stale_def stale_state_def early_loss_def calm_def lv_do_when_def lv_defs)

lemma stale_step: "stale s \<Longrightarrow> \<not> connects a \<Longrightarrow> lv_do a s = Some s' \<Longrightarrow> stale s'"
proof -
  assume s: "stale s" and a: "\<not> connects a" "lv_do a s = Some s'"
  consider "a = DoDone" | i where "a = DoWatch i" | "a = DoListenerExit"
    | "a \<noteq> DoDone" "\<And>i. a \<noteq> DoWatch i" "a \<noteq> DoListenerExit"
    by (cases a) auto
  then show "stale s'"
  proof cases
    case 4
    with s other_same_life [OF a(2,1)] show ?thesis
      by (auto simp: stale_def same_life_def IsConnected_def isDisconnected_def)
  qed (use s a in \<open>auto simp: stale_def ConnectToURI_done_def watch_def IsConnected_def isDisconnected_def
      listener_exit_def close_chan_def split: if_splits\<close>)
qed

interpretation stale_client: stable lv_do "\<lambda>a. \<not> connects a" stale
  by unfold_locales (rule stale_step)

text \<open>
  C24. Connected for ever: even with one calm caller, a client can get into a state in which its
  connection is lost, nobody watches it any more, and \<open>IsConnected\<close> says that it is connected; and
  whatever is done from such a state on, short of a new connection, it stays so.
\<close>
theorem stale_connection:
  assumes "stale s" and "list_all (\<lambda>a. \<not> connects a) as" and "lv_run as s = Some s'"
  shows "lv_reach calm stale_state \<and> stale stale_state \<and>
    IsConnected s' \<and> isDisconnected (sk s') \<and> watchers s' = []"
  using stale_client.stays [OF assms(3,1,2)] run_reachable [OF reach_start early_loss_run] stale_stale_state by (simp add: stale_def)

text \<open>In this state even \<open>Disconnect\<close> ends with its timeout and changes nothing.\<close>

theorem stale_connection_witness:
  "lv_reach calm stale_state \<and> stale stale_state \<and>
   IsConnected (the (lv_run [DoDisconnect (Some EINVAL) None, DoEnd 1 True] stale_state))"
proof -
  have "lv_run [DoDisconnect (Some EINVAL) None, DoEnd 1 True] stale_state =
      Some (the (lv_run [DoDisconnect (Some EINVAL) None, DoEnd 1 True] stale_state))"
    by (simp add: stale_state_def early_loss_def calm_def lv_do_when_def lv_defs)
  from stale_connection [OF stale_stale_state _ this] show ?thesis by simp
qed

text \<open>A first attempt fails in \<open>initLibvirtComms\<close>, and the caller tries again at once.\<close>

definition failed_attempt :: "action list" where
  "failed_attempt =
     [DoConnect None, DoFailed None, DoSocketWait, DoListenerExit, DoFailedSelect 1 False, DoConnect None]"

definition watch_both :: "action list" where
  "watch_both = concat (replicate 4 [DoWatch 0, DoWatch 1])"

definition doomed_state :: lv_state where
  "doomed_state = the (lv_exec polite (failed_attempt @ [DoWatch 0, DoWatch 1, DoDone, DoListenerExit] @
     watch_both @ [DoWatch 0, DoWatch 0]) NewWithDialer)"

definition retry_state :: lv_state where
  "retry_state = the (lv_exec polite [DoConnect None, DoWatch 0, DoFailed None, DoSocketWait, DoListenerExit,
     DoFailedSelect 1 False, DoWatch 0, DoWatch 0, DoConnect None, DoRegister] NewWithDialer)"

text \<open>
  C25. A caller that tries again as soon as \<open>ConnectToURI\<close> has returned its error, while the client says
  that it is not connected, does not wait for the previous connection's clean-up. Then two
  goroutines may watch the new connection and close the client's channel twice, which panics; and
  the clean-up may remove a request of the new connection although that one is not lost.
\<close>
theorem retry_races:
  "lv_reach polite doomed_state \<and> l_panicked doomed_state \<and>
   lv_reach polite retry_state \<and> \<not> isDisconnected (sk retry_state) \<and>
   l_requests retry_state = [cur (sk retry_state)] \<and>
   map_option l_requests (lv_do (DoWatch 0) retry_state) = Some []"
proof (intro conjI)
  show "lv_reach polite doomed_state"
    by (rule run_reachable [OF reach_start, where ls = "failed_attempt @ [DoWatch 0, DoWatch 1, DoDone, DoListenerExit] @
        watch_both @ [DoWatch 0, DoWatch 0]"])
      (simp add: doomed_state_def failed_attempt_def watch_both_def polite_def lv_do_when_def lv_defs numeral_eq_Suc)
  show "l_panicked doomed_state"
    by (simp add: doomed_state_def failed_attempt_def watch_both_def polite_def lv_do_when_def lv_defs numeral_eq_Suc)
  show "lv_reach polite retry_state"
    by (rule run_reachable [OF reach_start, where ls = "[DoConnect None, DoWatch 0, DoFailed None, DoSocketWait, DoListenerExit,
        DoFailedSelect 1 False, DoWatch 0, DoWatch 0, DoConnect None, DoRegister]"])
      (simp add: retry_state_def polite_def lv_do_when_def lv_defs)
qed (simp_all add: retry_state_def polite_def lv_do_when_def lv_defs)

end
