(* ===== verification/Libvirt_Client.thy ===== *)
theory Libvirt_Client
  imports Protocol_Calls
begin

text \<open>
  The hand-written methods of \<open>src/libvirt.go\<close> that one goroutine runs from beginning to end: the
  exchange at the start of a connection, the wrappers around the generated calls, and the monitor
  commands of QEMU. The life of the client with its goroutines is the subject of theory
  \<open>Libvirt_Lifecycle\<close>.
\<close>

section \<open>Methods\<close>

text \<open>
  A method of the client: it changes the client and returns a value, returns an error, or panics. Where
  the code returns a value beside a non-nil error, only the error is represented.
\<close>

type_synonym 'a act = "client \<Rightarrow> (error, 'a) res \<times> client"

definition act_ret :: "'a \<Rightarrow> 'a act" where
  "act_ret a = (\<lambda>cl. (Ok a, cl))"

definition act_err :: "error \<Rightarrow> 'a act" where
  "act_err e = (\<lambda>cl. (Err e, cl))"

definition act_bind :: "'a act \<Rightarrow> ('a \<Rightarrow> 'b act) \<Rightarrow> 'b act" where
  "act_bind m f = (\<lambda>cl. case m cl of
      (Ok a, cl1) \<Rightarrow> f a cl1
    | (Err e, cl1) \<Rightarrow> (Err e, cl1)
    | (Panic, cl1) \<Rightarrow> (Panic, cl1))"

text \<open>A computation that does not touch the client.\<close>

definition act_pure :: "(time_lib \<Rightarrow> (error, 'a) res) \<Rightarrow> 'a act" where
  "act_pure r = (\<lambda>cl. (r (tlib cl), cl))"

text \<open>A generated call without streams: its results, and the result at an index.\<close>

definition results :: "(client \<Rightarrow> call_result) \<Rightarrow> val list act" where
  "results f = (\<lambda>cl. case f cl of (r, w, cl1) \<Rightarrow> (r, cl1))"

definition result :: "nat \<Rightarrow> (client \<Rightarrow> call_result) \<Rightarrow> val act" where
  "result i f = act_bind (results f) (\<lambda>vs. act_ret (vs ! i))"

definition no_result :: "(client \<Rightarrow> call_result) \<Rightarrow> unit act" where
  "no_result f = act_bind (results f) (\<lambda>_. act_ret ())"

lemma act_bind_Ok: "m cl = (Ok a, cl1) \<Longrightarrow> act_bind m f cl = f a cl1"
  by (simp add: act_bind_def)

lemma act_bind_Err: "m cl = (Err e, cl1) \<Longrightarrow> act_bind m f cl = (Err e, cl1)"
  by (simp add: act_bind_def)

fun val_list :: "val \<Rightarrow> val list" where
  "val_list (VSlice vs sp) = vs"
| "val_list _ = []"

fun val_u64 :: "val \<Rightarrow> u64" where
  "val_u64 (VUint w) = w"
| "val_u64 _ = 0"

section \<open>Starting a connection\<close>

text \<open>Numbers from \<open>src/internal/constants\<close> and \<open>src/const.gen.go\<close>.\<close>

definition AuthNone :: i32 where "AuthNone = 0"
definition AuthPolkit_type :: i32 where "AuthPolkit_type = 2"
definition ProcConnectOpen :: u32 where "ProcConnectOpen = 1"
definition ProcConnectClose :: u32 where "ProcConnectClose = 2"

text \<open>The loop of \<open>authenticate\<close>, which the first supported type ends.\<close>

fun auth_loop :: "i32 list \<Rightarrow> unit act" where
  "auth_loop [] = act_ret ()"
| "auth_loop (auth # auths) =
     (if auth = AuthNone then act_ret ()
      else if auth = AuthPolkit_type then no_result AuthPolkit
      else auth_loop auths)"

definition authenticate :: "unit act" where
  "authenticate =
     act_bind (result 0 AuthList) (\<lambda>resp. auth_loop (List.map val_i32 (val_list resp)))"

text \<open>The payload of the opening request, and the request.\<close>

definition ty_open_payload :: ty where
  "ty_open_payload = TStruct [] [fld (TArray 3 TUint8), fld TString, fld TUint32]"

definition open_payload :: "string \<Rightarrow> val" where
  "open_payload uri = VStruct [VArray (List.map byte_val [1, 0, 0]), VString uri, VUint 0]"

definition initLibvirtComms :: "string \<Rightarrow> unit act" where
  "initLibvirtComms uri =
     act_bind (act_pure (\<lambda>lib. encode_payload lib (TPtr ty_open_payload, VPtr (Some (open_payload uri)))))
       (\<lambda>buf. act_bind authenticate (\<lambda>_.
          act_bind (request ProcConnectOpen RemoteProgram (Some buf)) (\<lambda>_. act_ret ())))"

section \<open>Wrappers\<close>

definition Capabilities :: "byte list act" where
  "Capabilities =
     act_bind (result 0 ConnectGetCapabilities) (\<lambda>caps. act_ret (bytes_of_string (val_string caps)))"

definition lookup :: "string \<Rightarrow> val act" where
  "lookup name = result 0 (DomainLookupByName name)"

definition ConnectListDomainsActive :: i32 where "ConnectListDomainsActive = 1"
definition ConnectListDomainsInactive :: i32 where "ConnectListDomainsInactive = 2"

definition Domains :: "val list act" where
  "Domains =
     (let flags = or ConnectListDomainsActive ConnectListDomainsInactive in
      act_bind (result 0 (ConnectListAllDomains 1 flags)) (\<lambda>ds. act_ret (val_list ds)))"

definition DomainState :: "string \<Rightarrow> i32 act" where
  "DomainState name =
     act_bind (lookup name) (\<lambda>d.
       act_bind (result 0 (DomainGetState d 0)) (\<lambda>state. act_ret (val_i32 state)))"

definition Secrets :: "val list act" where
  "Secrets = act_bind (result 0 (ConnectListAllSecrets 1 0)) (\<lambda>ss. act_ret (val_list ss))"

definition StoragePool :: "string \<Rightarrow> val act" where
  "StoragePool name = result 0 (StoragePoolLookupByName name)"

definition StoragePools :: "i32 \<Rightarrow> val list act" where
  "StoragePools flags =
     act_bind (result 0 (ConnectListAllStoragePools 1 flags)) (\<lambda>ps. act_ret (val_list ps))"

definition Undefine :: "string \<Rightarrow> i32 \<Rightarrow> unit act" where
  "Undefine name flags = act_bind (lookup name) (\<lambda>d. no_result (DomainUndefineFlags d flags))"

definition Destroy :: "string \<Rightarrow> i32 \<Rightarrow> unit act" where
  "Destroy name flags = act_bind (lookup name) (\<lambda>d. no_result (DomainDestroyFlags d flags))"

definition XML :: "string \<Rightarrow> i32 \<Rightarrow> byte list act" where
  "XML name flags =
     act_bind (lookup name) (\<lambda>d.
       act_bind (result 0 (DomainGetXMLDesc d flags)) (\<lambda>xml. act_ret (bytes_of_string (val_string xml))))"

definition DefineXML :: "byte list \<Rightarrow> i32 \<Rightarrow> unit act" where
  "DefineXML x flags = no_result (DomainDefineXMLFlags (string_of_bytes x) flags)"

definition Shutdown :: "string \<Rightarrow> i32 \<Rightarrow> unit act" where
  "Shutdown name flags = act_bind (lookup name) (\<lambda>d. no_result (DomainShutdownFlags d flags))"

definition Reboot :: "string \<Rightarrow> i32 \<Rightarrow> unit act" where
  "Reboot name flags = act_bind (lookup name) (\<lambda>d. no_result (DomainReboot d flags))"

definition Reset :: "string \<Rightarrow> unit act" where
  "Reset name = act_bind (lookup name) (\<lambda>d. no_result (DomainReset d 0))"

text \<open>The version number as text.\<close>

definition version_text :: "u64 \<Rightarrow> string" where
  "version_text ver =
     (let major = ver div 1000000; ver1 = ver mod 1000000;
          minor = ver1 div 1000; ver2 = ver1 mod 1000; micro = ver2
      in show_nat (unat major) @ ''.'' @ show_nat (unat minor) @ ''.'' @ show_nat (unat micro))"

definition Version_string :: "string act" where
  "Version_string = act_bind (result 0 ConnectGetLibVersion) (\<lambda>ver. act_ret (version_text (val_u64 ver)))"

section \<open>Block device limits\<close>

record BlockLimit =
  Name :: string
  Value :: u64

definition DomainAffectLive :: u32 where "DomainAffectLive = 1"
definition TypedParamStringOkay :: u32 where "TypedParamStringOkay = 4"

definition limit_param :: "BlockLimit \<Rightarrow> val" where
  "limit_param limit = TypedParam (Name limit) (NewTypedParamValueUllong (Value limit))"

definition SetBlockIOTune :: "string \<Rightarrow> string \<Rightarrow> BlockLimit list \<Rightarrow> unit act" where
  "SetBlockIOTune name disk limits =
     act_bind (lookup name) (\<lambda>d.
       no_result (DomainSetBlockIOTune d disk (List.map limit_param limits) DomainAffectLive))"

text \<open>The body of the loop that reads the parameters: a type switch with one case.\<close>

definition param_limit :: "val \<Rightarrow> BlockLimit" where
  "param_limit lim =
     (case val_field (val_field lim 1) 1 of
        VIface (Some (TUint64, VUint v)) \<Rightarrow> \<lparr>Name = val_string (val_field lim 0), Value = v\<rparr>
      | _ \<Rightarrow> \<lparr>Name = [], Value = 0\<rparr>)"

definition GetBlockIOTune :: "string \<Rightarrow> string \<Rightarrow> BlockLimit list act" where
  "GetBlockIOTune name disk =
     act_bind (lookup name) (\<lambda>d.
       act_bind (result 0 (DomainGetBlockIOTune d [disk] 32 TypedParamStringOkay)) (\<lambda>lims.
         act_ret (List.map param_limit (val_list lims))))"

section \<open>Networks\<close>

definition virDrvFeatureNetworkUpdateHasCorrectOrder :: i32 where
  "virDrvFeatureNetworkUpdateHasCorrectOrder = 16"

definition NetworkUpdateCompat :: "val \<Rightarrow> i32 \<Rightarrow> i32 \<Rightarrow> i32 \<Rightarrow> string \<Rightarrow> i32 \<Rightarrow> unit act" where
  "NetworkUpdateCompat Net Command Section ParentIndex XMLDesc Flags = (\<lambda>cl.
     case result 0 (ConnectSupportsFeature virDrvFeatureNetworkUpdateHasCorrectOrder) cl of
       (Err e, cl1) \<Rightarrow> (Err (WrapError ''failed to confirm argument order for NetworkUpdate: '' e), cl1)
     | (Panic, cl1) \<Rightarrow> (Panic, cl1)
     | (Ok hasCorrectOrder, cl1) \<Rightarrow>
         if val_i32 hasCorrectOrder = 0
         then no_result (NetworkUpdate Net Section Command ParentIndex XMLDesc Flags) cl1
         else no_result (NetworkUpdate Net Command Section ParentIndex XMLDesc Flags) cl1)"

section \<open>Monitor commands of QEMU\<close>

text \<open>
  \<open>getQEMUError\<close>. What \<open>json.Unmarshal\<close> does with a text is the parameter \<open>json\<close>: an error, or the
  description that it finds in the field \<open>error\<close>.
\<close>

definition getQEMUError :: "(string \<Rightarrow> error + string) \<Rightarrow> time_lib \<Rightarrow> response \<Rightarrow> (error, error option) res" where
  "getQEMUError json lib r =
     (case DecodeString (NewDecoder (time_Parse lib)) (Payload r) of
        (n, Err e, rest) \<Rightarrow> Ok (Some e)
      | (n, Panic, rest) \<Rightarrow> Panic
      | (n, Ok s, rest) \<Rightarrow>
          (case json s of
             Inl e \<Rightarrow> Ok (Some e)
           | Inr desc \<Rightarrow> if desc \<noteq> [] then Ok (Some (PlainError desc)) else Ok None))"

definition QEMUProcDomainMonitorCommand :: u32 where "QEMUProcDomainMonitorCommand = 1"

definition ty_run_payload :: ty where
  "ty_run_payload = TStruct [] [fld ty_Domain, fld (TSlice TUint8), fld TUint32]"

text \<open>The end of \<open>Run\<close>: the data without its first four bytes and the zero bytes at its end.\<close>

definition run_data :: "response \<Rightarrow> (error, byte list) res" where
  "run_data res =
     (case DecodeFixedOpaque (word_of_nat (length (Payload res))) (Payload res) of
        (n, Err e, rest) \<Rightarrow> Err e
      | (n, Panic, rest) \<Rightarrow> Panic
      | (n, Ok d, rest) \<Rightarrow> if length d < 4 then Panic else Ok (trim_right (drop 4 d) {0}))"

definition Run :: "(string \<Rightarrow> error + string) \<Rightarrow> string \<Rightarrow> byte list \<Rightarrow> byte list act" where
  "Run json name cmd =
     act_bind (lookup name) (\<lambda>d.
     act_bind (act_pure (\<lambda>lib. encode_payload lib
         (TPtr ty_run_payload, VPtr (Some (VStruct [d, of_bytes cmd, VUint 0]))))) (\<lambda>buf.
     act_bind (request QEMUProcDomainMonitorCommand QEMUProgram (Some buf)) (\<lambda>res.
     act_bind (act_pure (\<lambda>lib. getQEMUError json lib res)) (\<lambda>err.
       case err of Some e \<Rightarrow> act_err e | None \<Rightarrow> act_pure (\<lambda>_. run_data res)))))"

end
