(* ===== verification/Libvirt_Properties.thy ===== *)
theory Libvirt_Properties
  imports Libvirt_Client Protocol_Properties
begin

text \<open>
  What the hand-written methods of \<open>src/libvirt.go\<close> do on a working connection: which requests they send,
  in which order, and what they make of the answers.
\<close>

section \<open>Steps of a method\<close>

lemma call_result_step:
  assumes "live (sock cl)" and "encode_args (tlib cl) args = Ok buf"
    and "\<forall>r \<in> set rs. result_ok (tlib cl) (fst r) (snd r)"
    and "replies (tlib cl) rs c" and "script cl = c # later"
    and "\<And>cl. f cl = call proc program args (List.map fst rs) None None cl"
  shows "results f cl = (Ok (List.map snd rs), after_request proc program buf cl)"
  using call_returns [OF assms(1-5)] by (simp add: results_def assms(6))

lemma result_step:
  assumes "results f cl = (Ok vs, cl1)"
  shows "result i f cl = (Ok (vs ! i), cl1)" "no_result f cl = (Ok (), cl1)"
  using assms by (simp_all add: result_def no_result_def act_bind_def act_ret_def)

text \<open>A call without results, and the first result of a call.\<close>

lemma no_result_step:
  assumes "live (sock cl)" and "encode_args (tlib cl) args = Ok buf"
    and "replies (tlib cl) [] c" and "script cl = c # later"
    and "\<And>cl. f cl = call proc program args [] None None cl"
  shows "no_result f cl = (Ok (), after_request proc program buf cl)"
  using call_result_step [of cl args buf "[]" c later f proc program] assms
  by (simp add: result_step(2))

lemma first_result_step:
  assumes "live (sock cl)" and "encode_args (tlib cl) args = Ok buf"
    and "\<forall>r \<in> set ((t, v) # rs). result_ok (tlib cl) (fst r) (snd r)"
    and "replies (tlib cl) ((t, v) # rs) c" and "script cl = c # later"
    and "\<And>cl. f cl = call proc program args (t # List.map fst rs) None None cl"
  shows "result 0 f cl = (Ok v, after_request proc program buf cl)"
  using call_result_step [of cl args buf "(t, v) # rs" c later f proc program] assms
  by (simp add: result_step(1))


lemma result_ok_i32: "result_ok lib TInt32 (of_i32 w)"
  by (simp add: result_ok_def of_i32_def canon_i32)

lemma ucast_scast_i32 [simp]: "(ucast (scast (w :: i32) :: i64) :: i32) = w"
  by (rule bit_word_eqI) (auto simp: bit_simps dest: bit_imp_le_length)

lemma val_i32_of_i32 [simp]: "val_i32 (of_i32 w) = w"
  by (simp add: of_i32_def)

lemma unat_u64: "n < 2 ^ 64 \<Longrightarrow> unat (word_of_nat n :: u64) = n"
  by (simp add: unat_of_nat)

section \<open>Version numbers and block device limits\<close>

text \<open>
  The version text is the three numbers that the library's version number is composed of, for every
  version whose minor and micro numbers are below 1000.
\<close>
theorem version_text_correct:
  assumes "minor < 1000" and "micro < 1000" and "major * 1000000 + minor * 1000 + micro < 2 ^ 64"
  shows "version_text (word_of_nat (major * 1000000 + minor * 1000 + micro)) =
    show_nat major @ ''.'' @ show_nat minor @ ''.'' @ show_nat micro"
proof -
  let ?v = "word_of_nat (major * 1000000 + minor * 1000 + micro) :: u64"
  have v: "unat ?v = major * 1000000 + minor * 1000 + micro"
    using assms(3) by (rule unat_u64)
  have r: "minor * 1000 + micro < 1000000" using assms(1,2) by linarith
  have "unat (?v div 1000000) = (major * 1000000 + minor * 1000 + micro) div 1000000"
    by (simp add: unat_div v del: of_nat_add of_nat_mult)
  then have "unat (?v div 1000000) = major" using r by (simp add: add.assoc)
  moreover have "unat (?v mod 1000000) = (major * 1000000 + minor * 1000 + micro) mod 1000000"
    by (simp add: unat_mod v del: of_nat_add of_nat_mult)
  then have "unat (?v mod 1000000) = minor * 1000 + micro" using r by (simp add: add.assoc)
  ultimately show ?thesis
    using assms(1,2) by (simp add: version_text_def Let_def unat_div unat_mod)
qed

theorem version_text_correct_witness:
  "version_text (word_of_nat (9 * 1000000 + 2 * 1000 + 15)) =
    show_nat 9 @ ''.'' @ show_nat 2 @ ''.'' @ show_nat 15"
  by (rule version_text_correct) simp_all

text \<open>
  \<open>GetBlockIOTune\<close> reads back the limits that \<open>SetBlockIOTune\<close> sends. A parameter whose value is of
  another kind than \<open>uint64\<close> is not skipped: it comes back as a limit without name and value.
\<close>
theorem block_limits:
  "List.map param_limit (List.map limit_param limits) = limits \<and>
   (t \<noteq> TUint64 \<longrightarrow> param_limit (TypedParam name (tpv d t v)) = \<lparr>Name = [], Value = 0\<rparr>)"
proof -
  have "param_limit (limit_param l) = l" for l
    by (simp add: param_limit_def limit_param_def TypedParam_def NewTypedParamValueUllong_def tpv_def)
  moreover have "param_limit (TypedParam name (tpv d t v)) = \<lparr>Name = [], Value = 0\<rparr>" if "t \<noteq> TUint64"
    using that by (cases t) (simp_all add: param_limit_def TypedParam_def tpv_def)
  ultimately show ?thesis by (simp add: comp_def)
qed

theorem block_limits_witness:
  "param_limit (TypedParam ''group_name'' (NewTypedParamValueString ''g'')) = \<lparr>Name = [], Value = 0\<rparr>"
  using block_limits [of "[]" TString "''group_name''" 7 "VString ''g''"]
  by (simp add: NewTypedParamValueString_def)

section \<open>Opening a connection\<close>

text \<open>
  The opening request does not carry the flag of the protocol's optional name but four bytes of
  its own: it differs from the arguments of \<open>ConnectOpen\<close> in the first word, 0x01000000 instead of
  1, which the package's own \<open>DecodeBool\<close> refuses.
\<close>
theorem open_payload_bytes:
  assumes "length uri \<le> MaxOpaque"
  shows "\<exists>rest e. encode_payload lib (ty_open_payload, open_payload uri) = Ok ([1, 0, 0, 0] @ rest) \<and>
    encode_payload lib (ty_ConnectOpenArgs, VStruct [of_strings [uri], of_i32 0]) = Ok ([0, 0, 0, 1] @ rest) \<and>
    DecodeBool ([1, 0, 0, 0] @ rest) = (4, Err e, rest) \<and>
    DecodeBool ([0, 0, 0, 1] @ rest) = (4, Ok True, rest)"
proof -
  let ?fmt = "time_Format lib"
  obtain bs where bs: "appends (EncodeString uri) bs"
    using round_trips_string [of uri "NewDecoder (\<lambda>_. Inr 0)"] assms
    by (auto simp: fits_NewDecoder MaxOpaque_def elim!: round_tripsE)
  have name: "appends (io_bind (EncodeString uri) (\<lambda>_. enc_write fn (be32 0))) (bs @ be32 (0 :: u32))" for fn
    by (rule appends_bind [OF bs appends_enc_write])
  have "appends (io_bind (EncodeFixedOpaque [1, 0, 0]) (\<lambda>_. io_bind (EncodeString uri)
      (\<lambda>_. EncodeUint 0))) ([1, 0, 0, 0] @ bs @ be32 (0 :: u32))"
    using appends_bind [OF appends_EncodeFixedOpaque [of "[1, 0, 0]"] name] by (simp add: pad_len_def EncodeUint_def)
  then have "encode_payload lib (ty_open_payload, open_payload uri) = Ok ([1, 0, 0, 0] @ bs @ be32 (0 :: u32))"
    by (intro encode_payload_appends)
      (simp add: Marshal_def Encode_def ty_open_payload_def open_payload_def indirect.simps byte_val_def)
  moreover have "appends (io_bind (EncodeUint 1) (\<lambda>_. io_bind (EncodeString uri) (\<lambda>_. EncodeInt 0)))
      ([0, 0, 0, 1] @ bs @ be32 (0 :: u32))"
    using appends_bind [OF appends_enc_write [of "''EncodeUint''" "be32 1"] name]
    by (simp add: EncodeUint_def EncodeInt_def be32_def)
  then have "encode_payload lib (ty_ConnectOpenArgs, VStruct [of_strings [uri], of_i32 0]) =
      Ok ([0, 0, 0, 1] @ bs @ be32 (0 :: u32))"
    by (intro encode_payload_appends)
      (simp add: Marshal_def Encode_def ty_ConnectOpenArgs_def ty_OptString_def ty_ConnectFlags_def
        of_strings_def of_i32_def indirect.simps io_bind_assoc)
  moreover have dec_int: "DecodeInt (be32 w @ rest) = (4, Ok w, rest)" for w :: i32 and rest
    using int_codec.decodes [of w "be32 w" rest] by (simp add: EncodeInt_def appends_enc_write)
  moreover have "be32 (0x1000000 :: i32) = [1, 0, 0, 0]" by (simp add: be32_def)
  then have "DecodeBool ([1, 0, 0, 0] @ rest) = (4, Err (unmarshalError ''DecodeBool'' ErrBadEnumValue
      ''bool not 0 or 1'' (IntVal (sint (0x1000000 :: i32))) None), rest)" for rest
    using dec_int [of "0x1000000" rest] by (simp add: DecodeBool_def io_bind_def io_err_def)
  moreover have "DecodeBool ([0, 0, 0, 1] @ rest) = (4, Ok True, rest)" for rest
    using dec_int [of 1 rest] by (simp add: DecodeBool_def io_bind_def be32_def io_ret_def)
  ultimately show ?thesis by blast
qed

theorem open_payload_bytes_witness:
  "\<exists>rest e. encode_payload sample_lib (ty_open_payload, open_payload ''qemu:///system'') = Ok ([1, 0, 0, 0] @ rest) \<and>
    encode_payload sample_lib (ty_ConnectOpenArgs, VStruct [of_strings [''qemu:///system''], of_i32 0]) =
      Ok ([0, 0, 0, 1] @ rest) \<and>
    DecodeBool ([1, 0, 0, 0] @ rest) = (4, Err e, rest) \<and>
    DecodeBool ([0, 0, 0, 1] @ rest) = (4, Ok True, rest)"
  by (rule open_payload_bytes) (simp add: MaxOpaque_def)

section \<open>Authentication\<close>






section \<open>Network updates\<close>

text \<open>
  \<open>NetworkUpdateCompat\<close> asks the server for the order of the arguments and then sends one update:
  the command and the section change places exactly when the server lacks the feature.
\<close>
theorem NetworkUpdateCompat_order:
  assumes "live (sock cl)" and "script cl = c # c2 # later"
    and "replies (tlib cl) [(TInt32, of_i32 has)] c" and "replies (tlib cl) [] c2"
    and "canon (NewDecoder (time_Parse (tlib cl))) (time_Format (tlib cl)) ty_Network Net"
    and "length xml \<le> MaxOpaque"
  shows "\<exists>bs1 bs2. NetworkUpdateCompat Net Command Section idx xml Flags cl =
      (Ok (), after_request 291 RemoteProgram (Some bs2) (after_request 60 RemoteProgram (Some bs1) cl)) \<and>
    decode_payload (NewDecoder (time_Parse (tlib cl))) ty_ConnectSupportsFeatureArgs bs1 =
      Ok (VStruct [of_i32 16]) \<and>
    decode_payload (NewDecoder (time_Parse (tlib cl))) ty_NetworkUpdateArgs bs2 =
      Ok (VStruct [Net, of_u32 (if has = 0 then Section else Command),
        of_u32 (if has = 0 then Command else Section), of_i32 idx, VString xml, of_i32 Flags])"
proof -
  let ?d = "NewDecoder (time_Parse (tlib cl))" and ?fmt = "time_Format (tlib cl)"
  let ?a = "if has = 0 then Section else Command" and ?b = "if has = 0 then Command else Section"
  let ?args = "VStruct [Net, of_u32 ?a, of_u32 ?b, of_i32 idx, VString xml, of_i32 Flags]"
  have "canon ?d ?fmt ty_ConnectSupportsFeatureArgs (VStruct [of_i32 16])"
    unfolding ty_ConnectSupportsFeatureArgs_def of_i32_def
    by (intro canon_structI canon_fld canon_nil canon_i32) simp
  then obtain bs1 where bs1: "encode_args (tlib cl) (Some (ty_ConnectSupportsFeatureArgs, VStruct [of_i32 16])) = Ok (Some bs1)"
    "\<And>rest. decode_payload ?d ty_ConnectSupportsFeatureArgs (bs1 @ rest) = Ok (VStruct [of_i32 16])"
    by (rule encode_args_canon) blast
  have "canon ?d ?fmt ty_NetworkUpdateArgs ?args"
    unfolding ty_NetworkUpdateArgs_def ty_NetworkUpdateFlags_def of_i32_def of_u32_def
    by (intro canon_structI canon_fld canon_nil canon_named canon_i32 canon_u32 assms(5)
        canon_event_name assms(6)) simp_all
  then obtain bs2 where bs2: "encode_args (tlib cl) (Some (ty_NetworkUpdateArgs, ?args)) = Ok (Some bs2)"
    "\<And>rest. decode_payload ?d ty_NetworkUpdateArgs (bs2 @ rest) = Ok ?args"
    by (rule encode_args_canon) blast
  let ?cl1 = "after_request 60 RemoteProgram (Some bs1) cl"
  have r1: "result 0 (ConnectSupportsFeature 16) cl = (Ok (of_i32 has), ?cl1)"
    by (rule first_result_step [OF assms(1) bs1(1) _ assms(3,2)])
      (simp_all add: ConnectSupportsFeature_def result_ok_i32)
  have "no_result (NetworkUpdate Net ?a ?b idx xml Flags) ?cl1 =
      (Ok (), after_request 291 RemoteProgram (Some bs2) ?cl1)"
    by (rule no_result_step [where later = later and c = c2])
      (use assms bs2(1) in \<open>simp_all add: NetworkUpdate_def\<close>)
  then have "NetworkUpdateCompat Net Command Section idx xml Flags cl =
      (Ok (), after_request 291 RemoteProgram (Some bs2) ?cl1)"
    by (cases "has = 0") (simp_all add: NetworkUpdateCompat_def virDrvFeatureNetworkUpdateHasCorrectOrder_def r1)
  then show ?thesis using bs1(2) [of "[]"] bs2(2) [of "[]"]
    by (intro exI [of _ bs1] exI [of _ bs2]) simp
qed

lemma canon_network:
  assumes "length name \<le> MaxOpaque" and "length uuid = 16"
  shows "canon (NewDecoder tp) fmt ty_Network (VStruct [VString name, VArray (List.map byte_val uuid)])"
  unfolding ty_Network_def ty_UUID_def using assms
  by (intro canon_structI canon_fld canon_nil canon_named canon_byte_array canon_event_name)
    (simp_all add: MaxOpaque_def)

theorem NetworkUpdateCompat_order_witness:
  "\<exists>c c2 bs1 bs2. NetworkUpdateCompat (VStruct [VString ''net'', VArray (List.map byte_val (replicate 16 5))])
        3 4 (- 1) ''<host/>'' 1 (sample_client c\<lparr>script := [c, c2]\<rparr>) =
      (Ok (), after_request 291 RemoteProgram (Some bs2)
         (after_request 60 RemoteProgram (Some bs1) (sample_client c\<lparr>script := [c, c2]\<rparr>))) \<and>
    decode_payload (NewDecoder (\<lambda>_. Inr 0)) ty_NetworkUpdateArgs bs2 =
      Ok (VStruct [VStruct [VString ''net'', VArray (List.map byte_val (replicate 16 5))],
        of_u32 4, of_u32 3, of_i32 (- 1), VString ''<host/>'', of_i32 1])"
proof -
  let ?net = "VStruct [VString ''net'', VArray (List.map byte_val (replicate 16 5))]"
  have "\<forall>r \<in> set [(TInt32, of_i32 0)]. result_ok sample_lib (fst r) (snd r)" by (simp add: result_ok_i32)
  then obtain c where c: "replies sample_lib [(TInt32, of_i32 0)] c" by (rule replies_exist) blast
  have "\<forall>r \<in> set ([] :: (ty \<times> val) list). result_ok sample_lib (fst r) (snd r)" by simp
  then obtain c2 where c2: "replies sample_lib [] c2" by (rule replies_exist) blast
  let ?cl = "sample_client c\<lparr>script := [c, c2]\<rparr>"
  have "live (sock ?cl)" "script ?cl = c # c2 # []" "tlib ?cl = sample_lib"
    by (simp_all add: sample_client_def fresh_socket_def live_def)
  moreover have "canon (NewDecoder (time_Parse sample_lib)) (time_Format sample_lib) ty_Network ?net"
    by (rule canon_network) (simp_all add: MaxOpaque_def)
  moreover have "length ''<host/>'' \<le> MaxOpaque" by (simp add: MaxOpaque_def)
  ultimately have "\<exists>bs1 bs2. NetworkUpdateCompat ?net 3 4 (- 1) ''<host/>'' 1 ?cl =
      (Ok (), after_request 291 RemoteProgram (Some bs2) (after_request 60 RemoteProgram (Some bs1) ?cl)) \<and>
    decode_payload (NewDecoder (time_Parse (tlib ?cl))) ty_ConnectSupportsFeatureArgs bs1 =
      Ok (VStruct [of_i32 16]) \<and>
    decode_payload (NewDecoder (time_Parse (tlib ?cl))) ty_NetworkUpdateArgs bs2 =
      Ok (VStruct [?net, of_u32 (if (0 :: i32) = 0 then 4 else 3),
        of_u32 (if (0 :: i32) = 0 then 3 else 4), of_i32 (- 1), VString ''<host/>'', of_i32 1])"
    using c c2 by (intro NetworkUpdateCompat_order [where later = "[]"]) simp_all
  then show ?thesis by (auto simp: sample_client_def sample_lib_def)
qed

section \<open>Monitor commands\<close>

text \<open>The answer to a monitor command: a string, whose bytes \<open>Run\<close> then reads again.\<close>

definition monitor_reply :: "string \<Rightarrow> response" where
  "monitor_reply s =
     \<lparr>Payload = be32 (word_of_nat (length s) :: u32) @ bytes_of_string s @ replicate (pad_len (length s)) 0,
      RStatus = StatusOK\<rparr>"

lemma getQEMUError_reply:
  assumes "length s \<le> MaxOpaque"
  shows "getQEMUError json lib (monitor_reply s) =
    (case json s of Inl e \<Rightarrow> Ok (Some e)
     | Inr desc \<Rightarrow> if desc \<noteq> [] then Ok (Some (PlainError desc)) else Ok None)"
proof -
  have "fits (NewDecoder (time_Parse lib)) (length s)"
    using assms by (simp add: fits_NewDecoder MaxOpaque_def)
  from round_trips_string [OF assms this] obtain bs where bs: "appends (EncodeString s) bs"
    "\<And>rest. DecodeString (NewDecoder (time_Parse lib)) (bs @ rest) = (length bs, Ok s, rest)"
    by (rule round_tripsE) blast
  have "appends (EncodeString s) (Payload (monitor_reply s))"
    unfolding EncodeString_def EncodeUint_def monitor_reply_def
    using appends_bind [OF appends_enc_write [of "''EncodeUint''"] appends_EncodeFixedOpaque [of "bytes_of_string s"]]
    by simp
  then have "Payload (monitor_reply s) = bs" using bs(1) appends_unique by blast
  then show ?thesis using bs(2) [of "[]"] by (simp add: getQEMUError_def)
qed

lemma run_data_reply:
  assumes "length s + 8 \<le> MaxOpaque"
  shows "run_data (monitor_reply s) = Ok (trim_right (bytes_of_string s) {0})"
proof -
  let ?p = "Payload (monitor_reply s)"
  have "length ?p \<le> MaxOpaque" using assms pad_len_less [of "length s"] by (simp add: monitor_reply_def)
  from round_trips_fixed_opaque [OF this] obtain bs
    where bs: "appends (EncodeFixedOpaque ?p) bs"
      "\<And>rest. DecodeFixedOpaque (word_of_nat (length ?p)) (bs @ rest) = (length bs, Ok ?p, rest)"
    by (rule round_tripsE) blast
  have "4 dvd length ?p" by (simp add: monitor_reply_def)
  then have "pad_len (length ?p) = 0" by (simp add: pad_len_def)
  then have "bs = ?p" using bs(1) appends_EncodeFixedOpaque [of ?p] appends_unique by fastforce
  moreover have "trim_right (xs @ replicate n 0) {0} = trim_right xs {0}" for xs :: "byte list" and n
    by (simp add: trim_right_def dropWhile_append)
  ultimately show ?thesis
    using bs(2) [of "[]"] by (simp add: run_data_def) (simp add: monitor_reply_def)
qed

text \<open>
  A monitor command asks for the domain and sends that domain and the command to QEMU. When the
  answer is a string, its error description decides: with one, the command fails with exactly that
  description; without one, the caller gets the bytes of the string up to the zero bytes at its end.
  The four bytes of the length and the padding never reach the caller.
\<close>
theorem Run_answer:
  assumes "live (sock cl)" and "script cl = c # (monitor_reply s # c') # later"
    and "replies (tlib cl) [(ty_Domain, dm)] c"
    and "canon (NewDecoder (time_Parse (tlib cl))) (time_Format (tlib cl)) ty_Domain dm"
    and "length name \<le> MaxOpaque" and "length cmd \<le> MaxOpaque" and "length s + 8 \<le> MaxOpaque"
  shows "\<exists>buf1 buf2. Run json name cmd cl =
      (case json s of
         Inl e \<Rightarrow> Err e
       | Inr desc \<Rightarrow> if desc \<noteq> [] then Err (PlainError desc) else Ok (trim_right (bytes_of_string s) {0}),
       after_request 1 QEMUProgram (Some buf2) (after_request 23 RemoteProgram (Some buf1) cl)) \<and>
    decode_payload (NewDecoder (time_Parse (tlib cl))) ty_DomainLookupByNameArgs buf1 = Ok (VStruct [VString name]) \<and>
    decode_payload (NewDecoder (time_Parse (tlib cl))) ty_run_payload buf2 =
      Ok (VStruct [dm, of_bytes cmd, VUint 0])"
proof -
  let ?d = "NewDecoder (time_Parse (tlib cl))" and ?fmt = "time_Format (tlib cl)"
  have "canon ?d ?fmt ty_DomainLookupByNameArgs (VStruct [VString name])"
    unfolding ty_DomainLookupByNameArgs_def
    by (intro canon_structI canon_fld canon_nil canon_event_name assms(5)) simp_all
  then obtain bs1 where bs1: "encode_args (tlib cl) (Some (ty_DomainLookupByNameArgs, VStruct [VString name])) = Ok (Some bs1)"
    "\<And>rest. decode_payload ?d ty_DomainLookupByNameArgs (bs1 @ rest) = Ok (VStruct [VString name])"
    by (rule encode_args_canon) blast
  have "canon ?d ?fmt (TSlice TUint8) (of_bytes cmd)"
    unfolding of_bytes_def using assms(6) by (intro canon_bytes) (simp_all add: fits_NewDecoder MaxOpaque_def)
  moreover have "canon ?d ?fmt TUint32 (VUint (ucast (0 :: u32)))" by (rule canon_u32)
  ultimately have "canon ?d ?fmt ty_run_payload (VStruct [dm, of_bytes cmd, VUint 0])"
    unfolding ty_run_payload_def using assms(4)
    by (intro canon_structI canon_fld canon_nil) simp_all
  from encode_payload_ptr [OF this] payload_canon [OF plain_NewDecoder this]
  obtain bs2 where bs2: "encode_payload (tlib cl) (TPtr ty_run_payload, VPtr (Some (VStruct [dm, of_bytes cmd, VUint 0]))) = Ok bs2"
    "\<And>rest. decode_payload ?d ty_run_payload (bs2 @ rest) = Ok (VStruct [dm, of_bytes cmd, VUint 0])"
    by metis
  let ?cl1 = "after_request 23 RemoteProgram (Some bs1) cl"
  let ?cl2 = "after_request 1 QEMUProgram (Some bs2) ?cl1"
  have "result_ok (tlib cl) ty_Domain dm"
    using assms(4) by (simp add: result_ok_def ty_Domain_def ty_UUID_def)
  then have lk: "lookup name cl = (Ok dm, ?cl1)"
    unfolding lookup_def
    by (intro first_result_step [where rs = "[]", OF assms(1) bs1(1) _ assms(3,2)])
      (simp_all add: DomainLookupByName_def)
  have rq: "request 1 QEMUProgram (Some bs2) ?cl1 = (Ok (monitor_reply s), ?cl2)"
    using assms(1,2) requestStream_live [of ?cl1 "monitor_reply s # c'" later 1 QEMUProgram "Some bs2" None]
    by (simp add: request_def getResponse_ok monitor_reply_def StatusOK_def StatusError_def)
  have len: "length s \<le> MaxOpaque" using assms(7) by simp
  have "Run json name cmd cl =
      (case json s of
         Inl e \<Rightarrow> Err e
       | Inr desc \<Rightarrow> if desc \<noteq> [] then Err (PlainError desc) else Ok (trim_right (bytes_of_string s) {0}), ?cl2)"
    by (simp add: Run_def act_bind_def lk act_pure_def bs2(1) QEMUProcDomainMonitorCommand_def rq
        getQEMUError_reply [OF len] run_data_reply [OF assms(7)] act_err_def split: sum.splits)
  then show ?thesis using bs1(2) [of "[]"] bs2(2) [of "[]"]
    by (intro exI [of _ bs1] exI [of _ bs2]) simp
qed

theorem Run_answer_witness:
  "\<exists>c buf1 buf2. Run (\<lambda>s. Inr []) ''vm1'' (bytes_of_string ''{}'')
        (sample_client c\<lparr>script := [c, [monitor_reply ''{\"return\": {}}'']]\<rparr>) =
      (Ok (trim_right (bytes_of_string ''{\"return\": {}}'') {0}),
       after_request 1 QEMUProgram (Some buf2) (after_request 23 RemoteProgram (Some buf1)
         (sample_client c\<lparr>script := [c, [monitor_reply ''{\"return\": {}}'']]\<rparr>))) \<and>
    decode_payload (NewDecoder (\<lambda>_. Inr 0)) ty_run_payload buf2 =
      Ok (VStruct [sample_domain, of_bytes (bytes_of_string ''{}''), VUint 0])"
proof -
  have "\<forall>r \<in> set [(ty_Domain, sample_domain)]. result_ok sample_lib (fst r) (snd r)"
    by (simp add: sample_domain_result)
  then obtain c where c: "replies sample_lib [(ty_Domain, sample_domain)] c" by (rule replies_exist) blast
  let ?cl = "sample_client c\<lparr>script := [c, [monitor_reply ''{\"return\": {}}'']]\<rparr>"
  have "live (sock ?cl)" "script ?cl = c # (monitor_reply ''{\"return\": {}}'' # []) # []" "tlib ?cl = sample_lib"
    by (simp_all add: sample_client_def fresh_socket_def live_def)
  then show ?thesis
    using Run_answer [of ?cl c "''{\"return\": {}}''" "[]" "[]" sample_domain "''vm1''" "bytes_of_string ''{}''" "\<lambda>s. Inr []"]
      c canon_sample_domain by (auto simp: MaxOpaque_def sample_lib_def)
qed

end
