(* ===== verification/Libvirt_Events.thy ===== *)
theory Libvirt_Events
  imports Libvirt_Properties Rpc_Events
begin

text \<open>
  Subscriptions (\<open>SubscribeEvents\<close>, \<open>SubscribeQEMUEvents\<close> and \<open>LifecycleEvents\<close> of \<open>src/libvirt.go\<close>):
  the requests that register a callback, and the goroutine that relays the events of a stream to the
  caller's channel until the context is cancelled or the stream ends.
\<close>

section \<open>Registration\<close>

definition DomainEventIDLifecycle :: i32 where "DomainEventIDLifecycle = 0"

text \<open>
  The part before \<open>addStream\<close>: the number under which the server will report the events. The
  argument \<open>domain\<close> (\<open>dom\<close>) of \<open>SubscribeEvents\<close> is not used.
\<close>

definition SubscribeEvents_register :: "i32 \<Rightarrow> val list \<Rightarrow> val act" where
  "SubscribeEvents_register eventID domain = result 0 (ConnectDomainEventCallbackRegisterAny eventID [])"

definition LifecycleEvents_register :: "val act" where
  "LifecycleEvents_register = result 0 (ConnectDomainEventCallbackRegisterAny DomainEventIDLifecycle [])"

definition SubscribeQEMUEvents_register :: "string \<Rightarrow> val act" where
  "SubscribeQEMUEvents_register domain =
     act_bind (lookup domain) (\<lambda>d. result 0 (QEMUConnectDomainMonitorEventRegister [d] [] 0))"

text \<open>
  A subscription is for all domains: whatever domain \<open>SubscribeEvents\<close> is given, it makes one request,
  whose arguments are the event and no domain, and it goes by the number that the server answers.
\<close>
theorem SubscribeEvents_all_domains:
  assumes "live (sock cl)" and "script cl = c # later" and "replies (tlib cl) [(TInt32, of_i32 cbID)] c"
  shows "\<exists>bs. SubscribeEvents_register eventID domain cl =
      (Ok (of_i32 cbID), after_request 316 RemoteProgram (Some bs) cl) \<and>
    decode_payload (NewDecoder (time_Parse (tlib cl))) ty_ConnectDomainEventCallbackRegisterAnyArgs bs =
      Ok (VStruct [of_i32 eventID, VSlice [] []])"
proof -
  let ?args = "VStruct [of_i32 eventID, VSlice [] []]"
  have "canon (NewDecoder (time_Parse (tlib cl))) (time_Format (tlib cl))
      ty_ConnectDomainEventCallbackRegisterAnyArgs ?args"
    unfolding ty_ConnectDomainEventCallbackRegisterAnyArgs_def of_i32_def
    by (intro canon_structI canon_fld canon_nil canon_i32)
      (auto simp: proto_types fits_NewDecoder intro!: canon_named canon_slice)
  then obtain bs where bs:
    "encode_args (tlib cl) (Some (ty_ConnectDomainEventCallbackRegisterAnyArgs, ?args)) = Ok (Some bs)"
    "\<And>rest. decode_payload (NewDecoder (time_Parse (tlib cl))) ty_ConnectDomainEventCallbackRegisterAnyArgs
      (bs @ rest) = Ok ?args"
    by (rule encode_args_canon) blast
  have "SubscribeEvents_register eventID domain cl =
      (Ok (of_i32 cbID), after_request 316 RemoteProgram (Some bs) cl)"
    unfolding SubscribeEvents_register_def
    by (rule first_result_step [where rs = "[]", OF assms(1) bs(1) _ assms(3,2)])
      (simp_all add: ConnectDomainEventCallbackRegisterAny_def result_ok_i32)
  then show ?thesis using bs(2) [of "[]"] by (intro exI [of _ bs]) simp
qed

theorem SubscribeEvents_all_domains_witness:
  "\<exists>c bs. SubscribeEvents_register 3 [sample_domain] (sample_client c) =
      (Ok (of_i32 12), after_request 316 RemoteProgram (Some bs) (sample_client c)) \<and>
    decode_payload (NewDecoder (\<lambda>_. Inr 0)) ty_ConnectDomainEventCallbackRegisterAnyArgs bs =
      Ok (VStruct [of_i32 3, VSlice [] []])"
proof -
  have "\<forall>r \<in> set [(TInt32, of_i32 12)]. result_ok sample_lib (fst r) (snd r)" by (simp add: result_ok_i32)
  then obtain c where c: "replies sample_lib [(TInt32, of_i32 12)] c" by (rule replies_exist) blast
  have "\<exists>bs. SubscribeEvents_register 3 [sample_domain] (sample_client c) =
      (Ok (of_i32 12), after_request 316 RemoteProgram (Some bs) (sample_client c)) \<and>
    decode_payload (NewDecoder (time_Parse (tlib (sample_client c)))) ty_ConnectDomainEventCallbackRegisterAnyArgs bs =
      Ok (VStruct [of_i32 3, VSlice [] []])"
    by (rule SubscribeEvents_all_domains [where later = "[]" and c = c])
      (simp_all add: sample_client_def fresh_socket_def live_def c)
  then show ?thesis by (auto simp: sample_client_def sample_lib_def)
qed

section \<open>The relaying goroutine\<close>

text \<open>
  The three kinds differ in what they hand on (\<open>None\<close> stands for a type assertion that panics) and in
  the order of their deferred calls.
\<close>

datatype kind = AnyEvents | LifecycleOnly | QEMUOnly

definition convert :: "kind \<Rightarrow> ty \<times> val \<Rightarrow> val option" where
  "convert k ev =
     (case k of
        AnyEvents \<Rightarrow> Some (snd ev)
      | LifecycleOnly \<Rightarrow>
          if fst ev = ty_DomainEventCallbackLifecycleMsg then Some (val_field (snd ev) 1) else None
      | QEMUOnly \<Rightarrow> if fst ev = ty_DomainEvent then Some (snd ev) else None)"

datatype deferred = CloseChannel | ShutdownStream | Deregister | RemoveStream | CancelContext

definition deferred_calls :: "kind \<Rightarrow> deferred list" where
  "deferred_calls k =
     (if k = QEMUOnly then [CloseChannel, Deregister, RemoveStream, ShutdownStream, CancelContext]
      else [CloseChannel, ShutdownStream, Deregister, RemoveStream, CancelContext])"

text \<open>
  Where the goroutine stands: at its \<open>select\<close>, sending a value to the channel, running its deferred
  calls, or dead of a panic.
\<close>

datatype position = AtSelect | Sending val | Deferring "deferred list" | Crashed

text \<open>
  A subscription: its kind and its stream; where the goroutine stands; what the caller has received;
  whether the caller's channel is closed and the context cancelled; how many requests to deregister
  the callback have been made; and whether the client's map of streams holds the stream.
\<close>

record relay =
  rkind :: kind
  inbox :: "(ty \<times> val) stream"
  position :: position
  delivered :: "val list"
  ch_closed :: bool
  ctx_done :: bool
  deregistered :: nat
  registered :: bool

definition new_relay :: "kind \<Rightarrow> relay" where
  "new_relay k =
     \<lparr>rkind = k, inbox = NewStream, position = AtSelect, delivered = [], ch_closed = False,
      ctx_done = False, deregistered = 0, registered = True\<rparr>"

fun run_deferred :: "deferred \<Rightarrow> relay \<Rightarrow> relay" where
  "run_deferred CloseChannel r = r\<lparr>ch_closed := True\<rparr>"
| "run_deferred ShutdownStream r = r\<lparr>inbox := (inbox r)\<lparr>cancelled := True\<rparr>\<rparr>"
| "run_deferred Deregister r = r\<lparr>deregistered := Suc (deregistered r)\<rparr>"
| "run_deferred RemoveStream r =
     (if registered r then r\<lparr>inbox := (inbox r)\<lparr>cancelled := True\<rparr>, registered := False\<rparr> else r)"
| "run_deferred CancelContext r = r\<lparr>ctx_done := True\<rparr>"

text \<open>
  What can happen: the stream takes an event, is asked or ends (steps that are not the goroutine's);
  the goroutine takes an event, finds the stream's channel closed, delivers a value to a caller that
  receives, notices the cancelled context, runs its next deferred call; the caller cancels; the
  clean-up after a lost connection removes the stream.
\<close>

datatype relay_label =
    InStream "(ty \<times> val) label"
  | Take "ty \<times> val"
  | StreamClosed
  | Deliver
  | CancelSeen
  | RunDeferred
  | CallerCancels
  | Removed

fun relay_step :: "relay_label \<Rightarrow> relay \<Rightarrow> relay option" where
  "relay_step (InStream l) r =
     (case l of
        Received e \<Rightarrow> None
      | Pushed EmptyEvent \<Rightarrow> None
      | OutClosed \<Rightarrow> None
      | ShutdownCalled \<Rightarrow> None
      | _ \<Rightarrow> map_option (\<lambda>s. r\<lparr>inbox := s\<rparr>) (stream_step l (inbox r)))"
| "relay_step (Take e) r =
     (if position r \<noteq> AtSelect then None
      else case stream_step (Received (Event e)) (inbox r) of
             None \<Rightarrow> None
           | Some s \<Rightarrow>
               (case convert (rkind r) e of
                  None \<Rightarrow> Some (r\<lparr>inbox := s, position := Crashed\<rparr>)
                | Some v \<Rightarrow> Some (r\<lparr>inbox := s, position := Sending v\<rparr>)))"
| "relay_step StreamClosed r =
     (if position r = AtSelect \<and> stream_step OutClosed (inbox r) \<noteq> None
      then Some (r\<lparr>position := Deferring (deferred_calls (rkind r))\<rparr>) else None)"
| "relay_step Deliver r =
     (case position r of
        Sending v \<Rightarrow> Some (r\<lparr>position := AtSelect, delivered := delivered r @ [v]\<rparr>)
      | _ \<Rightarrow> None)"
| "relay_step CancelSeen r =
     (if position r = AtSelect \<and> ctx_done r
      then Some (r\<lparr>position := Deferring (deferred_calls (rkind r))\<rparr>) else None)"
| "relay_step RunDeferred r =
     (case position r of
        Deferring (d # ds) \<Rightarrow> Some (run_deferred d (r\<lparr>position := Deferring ds\<rparr>))
      | _ \<Rightarrow> None)"
| "relay_step CallerCancels r = Some (r\<lparr>ctx_done := True\<rparr>)"
| "relay_step Removed r =
     (if registered r then Some (r\<lparr>inbox := (inbox r)\<lparr>cancelled := True\<rparr>, registered := False\<rparr>) else Some r)"

abbreviation relay_run :: "relay_label list \<Rightarrow> relay \<Rightarrow> relay option" where
  "relay_run \<equiv> run_steps relay_step"

section \<open>What the caller receives\<close>

fun incoming :: "relay_label list \<Rightarrow> (ty \<times> val) list" where
  "incoming [] = []"
| "incoming (InStream (Pushed (Event e)) # ls) = e # incoming ls"
| "incoming (_ # ls) = incoming ls"

definition pending :: "relay \<Rightarrow> val list" where
  "pending r = (case position r of Sending v \<Rightarrow> [v] | _ \<Rightarrow> [])"

fun events_of :: "'e event list \<Rightarrow> 'e list" where
  "events_of [] = []"
| "events_of (Event e # q) = e # events_of q"
| "events_of (EmptyEvent # q) = events_of q"

definition handed_on :: "relay \<Rightarrow> val option list" where
  "handed_on r = List.map Some (delivered r @ pending r) @ List.map (convert (rkind r)) (events_of (queue (inbox r)))"

lemma events_of_append [simp]: "events_of (q @ q') = events_of q @ events_of q'"
  by (induction q rule: events_of.induct) auto

lemma run_deferred_frame [simp]:
  "rkind (run_deferred d r) = rkind r" "queue (inbox (run_deferred d r)) = queue (inbox r)"
  "delivered (run_deferred d r) = delivered r" "position (run_deferred d r) = position r"
  by (cases d; simp)+

lemma step_kind: "relay_step l r = Some r' \<Longrightarrow> rkind r' = rkind r"
  by (cases "(l, r)" rule: relay_step.cases)
    (auto split: label.splits event.splits if_splits option.splits position.splits list.splits)

lemma step_crashed: "relay_step l r = Some r' \<Longrightarrow> position r = Crashed \<Longrightarrow> position r' = Crashed"
  by (cases "(l, r)" rule: relay_step.cases)
    (auto split: label.splits event.splits if_splits option.splits position.splits list.splits)

interpretation crashed: stable relay_step "\<lambda>_. True" "\<lambda>r. position r = Crashed"
  by unfold_locales (rule step_crashed)

interpretation same_kind: stable relay_step "\<lambda>_. True" "\<lambda>r. rkind r = k" for k
  by unfold_locales (auto dest: step_kind)

lemma take_queue:
  assumes "stream_step (Received (Event e)) s = Some s'"
  shows "events_of (queue s) = e # events_of (queue s')"
  using assms stream_fifo.deq_Some [of s "Event e" s'] by (auto split: if_splits option.splits)

lemma stream_queue:
  "stream_step l s = Some s' \<Longrightarrow> (\<And>e. l \<noteq> Received e) \<Longrightarrow>
    events_of (queue s') = events_of (queue s) @ (case l of Pushed (Event e) \<Rightarrow> [e] | _ \<Rightarrow> [])"
  by (cases l) (auto simp: push_queue_def split: if_splits event.splits)

lemma step_handed_on:
  assumes "relay_step l r = Some r'" and "position r' \<noteq> Crashed"
  shows "handed_on r' = handed_on r @ List.map (convert (rkind r)) (incoming [l])"
proof (cases l)
  case (InStream sl)
  then obtain s where "stream_step sl (inbox r) = Some s" "r' = r\<lparr>inbox := s\<rparr>" "\<And>e. sl \<noteq> Received e"
      "sl \<noteq> Pushed EmptyEvent"
    using assms(1) by (auto split: label.splits event.splits)
  with stream_queue [OF this(1,3)] show ?thesis
    by (cases sl) (auto simp: InStream handed_on_def pending_def split: event.splits)
next
  case (Take e)
  then obtain s v where "stream_step (Received (Event e)) (inbox r) = Some s" "convert (rkind r) e = Some v"
    "r' = r\<lparr>inbox := s, position := Sending v\<rparr>" "position r = AtSelect"
    using assms by (auto split: if_splits option.splits)
  then show ?thesis using take_queue [of e "inbox r" s] by (simp add: Take handed_on_def pending_def)
qed (use assms in \<open>auto simp: handed_on_def pending_def split: if_splits option.splits position.splits list.splits\<close>)

lemma run_handed_on:
  "relay_run ls r = Some r' \<Longrightarrow> position r' \<noteq> Crashed \<Longrightarrow>
    handed_on r' = handed_on r @ List.map (convert (rkind r)) (incoming ls)"
proof (induction rule: run_induct)
  case (Cons l ls r r1 r')
  have "position r1 \<noteq> Crashed" using crashed.stays [OF Cons(2)] Cons.prems by auto
  then have "handed_on r' = handed_on r @ List.map (convert (rkind r)) (incoming [l] @ incoming ls)"
    using Cons.IH [OF Cons.prems] step_handed_on [OF Cons(1)] step_kind [OF Cons(1)] by simp
  moreover have "incoming [l] @ incoming ls = incoming (l # ls)"
    by (cases "l # ls" rule: incoming.cases) auto
  ultimately show ?case by simp
qed simp

text \<open>
  C20. What a subscriber receives: in every run of a subscription in which no type assertion fails, the
  values delivered so far, the one that the goroutine holds and those still queued are, in this
  order, the events that the stream took, converted; none is lost, repeated or reordered.
\<close>
theorem relay_in_order:
  assumes "relay_run ls (new_relay k) = Some r" and "position r \<noteq> Crashed"
  shows "List.map Some (delivered r @ pending r) @ List.map (convert k) (events_of (queue (inbox r))) =
    List.map (convert k) (incoming ls)"
proof -
  from same_kind.stays [OF assms(1), of k] run_handed_on [OF assms] show ?thesis
    by (simp add: handed_on_def new_relay_def NewStream_def pending_def)
qed

definition reboot :: "ty \<times> val" where
  "reboot = (ty_DomainEventCallbackRebootMsg, sample_event)"

lemmas relay_defs = new_relay_def NewStream_def push_queue_def pop_queue_def nextEvent_def convert_def pending_def

theorem relay_in_order_witness:
  "\<exists>r. relay_run [InStream (Pushed (Event reboot)), Take reboot, InStream (Pushed (Event reboot)), Deliver]
      (new_relay AnyEvents) = Some r \<and>
    List.map Some (delivered r @ pending r) @ List.map (convert AnyEvents) (events_of (queue (inbox r))) =
      [Some sample_event, Some sample_event]"
proof -
  let ?ls = "[InStream (Pushed (Event reboot)), Take reboot, InStream (Pushed (Event reboot)), Deliver]"
  obtain r where r: "relay_run ?ls (new_relay AnyEvents) = Some r" "position r = AtSelect"
    by (simp add: relay_defs)
  from relay_in_order [OF r(1)] r show ?thesis by (auto simp: convert_def reboot_def)
qed

section \<open>The end of a subscription\<close>

text \<open>What the deferred calls that have already run have done.\<close>

definition effects :: "deferred set \<Rightarrow> relay \<Rightarrow> bool" where
  "effects D r \<longleftrightarrow>
     (ch_closed r \<longleftrightarrow> CloseChannel \<in> D) \<and> deregistered r = (if Deregister \<in> D then 1 else 0) \<and>
     (ShutdownStream \<in> D \<longrightarrow> cancelled (inbox r)) \<and> (RemoveStream \<in> D \<longrightarrow> \<not> registered r) \<and>
     (CancelContext \<in> D \<longrightarrow> ctx_done r)"

definition relay_inv :: "relay \<Rightarrow> bool" where
  "relay_inv r \<longleftrightarrow>
     (case position r of
        Crashed \<Rightarrow> True
      | Deferring ds \<Rightarrow> \<exists>ran. deferred_calls (rkind r) = ran @ ds \<and> effects (set ran) r
      | _ \<Rightarrow> effects {} r)"

lemma stream_cancelled: "stream_step l s = Some s' \<Longrightarrow> cancelled s \<Longrightarrow> cancelled s'"
  by (cases l) (auto simp: push_queue_def pop_queue_def nextEvent_def split: if_splits list.splits option.splits)

lemma effects_run: "d \<notin> D \<Longrightarrow> effects D r \<Longrightarrow> effects (insert d D) (run_deferred d r)"
  by (cases d) (auto simp: effects_def)

lemma effects_position [simp]: "effects D (r\<lparr>position := p\<rparr>) = effects D r"
  by (simp add: effects_def)

lemma distinct_deferred: "distinct (deferred_calls k)"
  by (simp add: deferred_calls_def)

lemma inv_run_deferred:
  assumes "relay_inv r" and "position r = Deferring (d # ds)"
  shows "relay_inv (run_deferred d (r\<lparr>position := Deferring ds\<rparr>))"
proof -
  obtain ran where ran: "deferred_calls (rkind r) = ran @ d # ds" "effects (set ran) r"
    using assms by (auto simp: relay_inv_def)
  then have "d \<notin> set ran" using distinct_deferred [of "rkind r"] by simp
  then have "effects (set (ran @ [d])) (run_deferred d (r\<lparr>position := Deferring ds\<rparr>))"
    using effects_run [of d "set ran" "r\<lparr>position := Deferring ds\<rparr>"] ran(2) by simp
  then have "\<exists>ran'. deferred_calls (rkind r) = ran' @ ds \<and>
      effects (set ran') (run_deferred d (r\<lparr>position := Deferring ds\<rparr>))"
    using ran(1) by (intro exI [of _ "ran @ [d]"]) simp
  then show ?thesis by (simp add: relay_inv_def)
qed

text \<open>The other steps keep the effects.\<close>

definition grows :: "relay \<Rightarrow> relay \<Rightarrow> bool" where
  "grows r r' \<longleftrightarrow>
     ch_closed r' = ch_closed r \<and> deregistered r' = deregistered r \<and>
     (cancelled (inbox r) \<longrightarrow> cancelled (inbox r')) \<and> (registered r' \<longrightarrow> registered r) \<and>
     (ctx_done r \<longrightarrow> ctx_done r')"

lemma grows_effects: "grows r r' \<Longrightarrow> effects D r \<Longrightarrow> effects D r'"
  by (auto simp: grows_def effects_def)

lemma step_grows:
  assumes "relay_step l r = Some r'" and "l \<noteq> RunDeferred"
  shows "grows r r'"
proof (cases l)
  case (InStream sl)
  then obtain s where "stream_step sl (inbox r) = Some s" "r' = r\<lparr>inbox := s\<rparr>"
    using assms(1) by (auto split: label.splits event.splits)
  then show ?thesis using stream_cancelled by (auto simp: grows_def)
next
  case (Take e)
  then obtain s where "stream_step (Received (Event e)) (inbox r) = Some s" "inbox r' = s"
      "r' = r\<lparr>inbox := s, position := position r'\<rparr>"
    using assms by (auto simp del: stream_step.simps split: if_splits option.splits)
  then show ?thesis using stream_cancelled [of "Received (Event e)" "inbox r" s]
    by (cases r, cases r') (auto simp: grows_def simp del: stream_step.simps)
qed (use assms in \<open>auto simp: grows_def split: if_splits option.splits position.splits\<close>)

lemma step_position:
  assumes "relay_step l r = Some r'" and "l \<noteq> RunDeferred"
  shows "(case position r of
      Deferring ds \<Rightarrow> position r' = Deferring ds
    | Crashed \<Rightarrow> position r' = Crashed
    | _ \<Rightarrow> position r' = Crashed \<or> position r' = AtSelect \<or> (\<exists>v. position r' = Sending v) \<or>
        position r' = Deferring (deferred_calls (rkind r)))"
  using assms
  by (cases l) (auto simp del: stream_step.simps split: label.splits event.splits if_splits option.splits position.splits)

lemma step_relay_inv:
  assumes "relay_step l r = Some r'" and "relay_inv r"
  shows "relay_inv r'"
proof (cases "l = RunDeferred")
  case True
  then show ?thesis using assms inv_run_deferred by (auto split: position.splits list.splits)
next
  case False
  from step_position [OF assms(1) this] grows_effects [OF step_grows [OF assms(1) this]] step_kind [OF assms(1)]
    assms(2)
  show ?thesis by (cases "position r") (fastforce simp: relay_inv_def)+
qed

interpretation relay: stable relay_step "\<lambda>_. True" relay_inv
  by unfold_locales (rule step_relay_inv)

lemma run_relay_inv: "relay_run ls r = Some r' \<Longrightarrow> relay_inv r \<Longrightarrow> relay_inv r'"
  by (erule relay.stays) auto

lemma new_relay_inv: "relay_inv (new_relay k)"
  by (simp add: relay_inv_def new_relay_def effects_def)






text \<open>
  A subscriber that stops receiving holds its subscription for ever: while the goroutine is
  sending a value and nobody receives, neither a cancelled context nor a lost connection ends it; the
  callback is not deregistered and the channel is not closed.
\<close>
theorem relay_blocked:
  assumes "relay_run ls (new_relay k) = Some r" and "position r = Sending v"
    and "relay_run ls' r = Some r'" and "Deliver \<notin> set ls'"
  shows "position r' = Sending v \<and> deregistered r' = 0 \<and> \<not> ch_closed r' \<and> delivered r' = delivered r"
proof -
  have step: "position r2 = Sending v \<and> delivered r2 = delivered r1"
    if "relay_step l r1 = Some r2" "position r1 = Sending v" "l \<noteq> Deliver" for l r1 r2
    using that by (cases l) (auto simp del: stream_step.simps split: label.splits event.splits if_splits option.splits)
  have "position r' = Sending v \<and> delivered r' = delivered r"
    using assms(2-4)
    by (induction ls' arbitrary: r) (auto split: option.splits dest!: step)
  moreover have "relay_inv r'"
    using run_relay_inv [OF assms(3) run_relay_inv [OF assms(1) new_relay_inv]] .
  ultimately show ?thesis by (simp add: relay_inv_def effects_def)
qed

theorem relay_blocked_witness:
  "\<exists>r r'. relay_run [InStream (Pushed (Event reboot)), Take reboot] (new_relay AnyEvents) = Some r \<and>
    relay_run [CallerCancels, Removed, InStream ProcessReturned] r = Some r' \<and>
    position r' = Sending sample_event \<and> deregistered r' = 0 \<and> \<not> ch_closed r' \<and> delivered r' = delivered r"
proof -
  let ?ls = "[InStream (Pushed (Event reboot)), Take reboot]" and ?ls' = "[CallerCancels, Removed, InStream ProcessReturned]"
  obtain r r' where r: "relay_run ?ls (new_relay AnyEvents) = Some r" "position r = Sending sample_event"
      "relay_run ?ls' r = Some r'"
    by (simp add: relay_defs reboot_def)
  from relay_blocked [OF r] r show ?thesis by auto
qed

end
