(* ===== verification/Dialers.thy ===== *)
theory Dialers
  imports Go_Strings Go_Errors
begin

text \<open>
  The dialers of \<open>src/socket/dialers\<close>: the configurations \<open>Local\<close>, \<open>Remote\<close>, \<open>TLS\<close> and \<open>SSH\<close> with their
  options and defaults, the certificates that a TLS connection uses, the check of the server's
  answer, and for SSH the methods of authentication and the check of the host key. The operating
  system and the packages \<open>tls\<close>, \<open>ssh\<close> and \<open>knownhosts\<close> are parameters. Paths are those of Unix.
\<close>

section \<open>The environment\<close>

record user =
  Uid :: string
  Username :: string
  HomeDir :: string

text \<open>
  What the dialers ask the operating system: the current user, the user's directories, whether a file
  exists, the contents of a file; and whether an error says that a file does not exist.
\<close>

record os =
  user_Current :: "error + user"
  UserHomeDir :: "error + string"
  UserConfigDir :: "error + string"
  Stat :: "string \<Rightarrow> error option"
  ReadFile :: "string \<Rightarrow> error + byte list"
  is_not_exist :: "error \<Rightarrow> bool"

text \<open>\<open>filepath.Clean\<close> and \<open>filepath.Join\<close>.\<close>

fun clean_parts :: "bool \<Rightarrow> string list \<Rightarrow> string list \<Rightarrow> string list" where
  "clean_parts rooted [] st = rev st"
| "clean_parts rooted (p # ps) st =
     (if p = '''' \<or> p = ''.'' then clean_parts rooted ps st
      else if p = ''..'' then
        (case st of
           [] \<Rightarrow> clean_parts rooted ps (if rooted then [] else [''..''])
         | q # st' \<Rightarrow> if q = ''..'' then clean_parts rooted ps (''..'' # st) else clean_parts rooted ps st')
      else clean_parts rooted ps (p # st))"

definition filepath_Clean :: "string \<Rightarrow> string" where
  "filepath_Clean path =
     (let rooted = (path \<noteq> '''' \<and> hd path = CHR ''/'');
          out = (if rooted then ''/'' else '''') @ join_with ''/'' (clean_parts rooted (split_char CHR ''/'' path) [])
      in if out = '''' then ''.'' else out)"

definition filepath_Join :: "string list \<Rightarrow> string" where
  "filepath_Join elems =
     (case dropWhile (\<lambda>e. e = '''') elems of
        [] \<Rightarrow> ''''
      | es \<Rightarrow> filepath_Clean (join_with ''/'' es))"

text \<open>\<open>net.JoinHostPort\<close>, \<open>errors.Join\<close>, and a duration in seconds.\<close>

definition JoinHostPort :: "string \<Rightarrow> string \<Rightarrow> string" where
  "JoinHostPort host port =
     (if CHR '':'' \<in> set host then ''['' @ host @ '']:'' @ port else host @ '':'' @ port)"

definition errors_Join :: "error list \<Rightarrow> error option" where
  "errors_Join es = (if es = [] then None else Some (JoinError es))"

definition second :: nat where "second = 1000000000"

text \<open>A network and an address to dial, with a timeout in nanoseconds.\<close>

record address =
  network :: string
  addr :: string
  timeout :: nat

section \<open>Local and remote sockets\<close>

record Local =
  l_timeout :: nat
  l_socket :: string

definition defaultSocket :: string where "defaultSocket = ''/var/run/libvirt/libvirt-sock''"
definition defaultLocalTimeout :: nat where "defaultLocalTimeout = 15 * second"

definition WithLocalTimeout :: "nat \<Rightarrow> Local \<Rightarrow> Local" where
  "WithLocalTimeout t l = l\<lparr>l_timeout := t\<rparr>"

definition WithSocket :: "string \<Rightarrow> Local \<Rightarrow> Local" where
  "WithSocket s l = l\<lparr>l_socket := s\<rparr>"

definition NewLocal :: "(Local \<Rightarrow> Local) list \<Rightarrow> Local" where
  "NewLocal opts =
     fold (\<lambda>opt l. opt l) opts \<lparr>l_timeout = defaultLocalTimeout, l_socket = defaultSocket\<rparr>"

definition Local_Dial :: "Local \<Rightarrow> address" where
  "Local_Dial l = \<lparr>network = ''unix'', addr = l_socket l, timeout = l_timeout l\<rparr>"

record Remote =
  r_timeout :: nat
  r_host :: string
  r_port :: string

definition defaultRemotePort :: string where "defaultRemotePort = ''16509''"
definition defaultRemoteTimeout :: nat where "defaultRemoteTimeout = 20 * second"

definition WithRemoteTimeout :: "nat \<Rightarrow> Remote \<Rightarrow> Remote" where
  "WithRemoteTimeout t r = r\<lparr>r_timeout := t\<rparr>"

definition UsePort :: "string \<Rightarrow> Remote \<Rightarrow> Remote" where
  "UsePort p r = r\<lparr>r_port := p\<rparr>"

definition NewRemote :: "string \<Rightarrow> (Remote \<Rightarrow> Remote) list \<Rightarrow> Remote" where
  "NewRemote hostAddr opts = fold (\<lambda>opt r. opt r) opts
     \<lparr>r_timeout = defaultRemoteTimeout, r_host = hostAddr, r_port = defaultRemotePort\<rparr>"

definition Remote_Dial :: "Remote \<Rightarrow> address" where
  "Remote_Dial r = \<lparr>network = ''tcp'', addr = JoinHostPort (r_host r) (r_port r), timeout = r_timeout r\<rparr>"

text \<open>\<open>NewAlreadyConnected\<close> and its \<open>Dial\<close>: always the connection it was given.\<close>

datatype 'c AlreadyConnected = AlreadyConnected 'c

definition NewAlreadyConnected :: "'c \<Rightarrow> 'c AlreadyConnected" where
  "NewAlreadyConnected c = AlreadyConnected c"

fun AlreadyConnected_Dial :: "'c AlreadyConnected \<Rightarrow> error + 'c" where
  "AlreadyConnected_Dial (AlreadyConnected c) = Inr c"

section \<open>TLS\<close>

record certDirs =
  KeyPath :: string
  CertPath :: string

record TLS =
  t_timeout :: nat
  t_host :: string
  t_port :: string
  insecureSkipVerify :: bool
  certSearchPaths :: "certDirs list"
  caSearchPaths :: "string list"

definition defaultTLSPort :: string where "defaultTLSPort = ''16514''"
definition defaultTLSTimeout :: nat where "defaultTLSTimeout = 20 * second"

definition WithInsecureNoVerify :: "TLS \<Rightarrow> TLS" where
  "WithInsecureNoVerify r = r\<lparr>insecureSkipVerify := True\<rparr>"

definition UseTLSPort :: "string \<Rightarrow> TLS \<Rightarrow> TLS" where
  "UseTLSPort p r = r\<lparr>t_port := p\<rparr>"

definition UsePKIPath :: "string \<Rightarrow> TLS \<Rightarrow> TLS" where
  "UsePKIPath p r = r\<lparr>certSearchPaths := [\<lparr>KeyPath = p, CertPath = p\<rparr>], caSearchPaths := [p]\<rparr>"

text \<open>
  \<open>NewTLS\<close>. When the current user is not known, the code goes on with a nil pointer to the user and
  reads its home directory.
\<close>

definition NewTLS :: "os \<Rightarrow> string \<Rightarrow> (TLS \<Rightarrow> TLS) list \<Rightarrow> (error, TLS) res" where
  "NewTLS sys hostAddr opts =
     (let r = \<lparr>t_timeout = defaultTLSTimeout, t_host = hostAddr, t_port = defaultTLSPort,
               insecureSkipVerify = False,
               certSearchPaths = [\<lparr>KeyPath = ''/etc/pki/libvirt/private/'', CertPath = ''/etc/pki/libvirt/''\<rparr>],
               caSearchPaths = [''/etc/pki/CA/'']\<rparr>
      in case user_Current sys of
           Inl e \<Rightarrow> Panic
         | Inr u \<Rightarrow>
             (let r1 =
                (if Uid u \<noteq> ''0'' then
                   (let cd = filepath_Join [HomeDir u, ''.pki'', ''libvirt''] in
                    r\<lparr>certSearchPaths := \<lparr>KeyPath = cd, CertPath = cd\<rparr> # certSearchPaths r,
                      caSearchPaths := cd # caSearchPaths r\<rparr>)
                 else r)
              in Ok (fold (\<lambda>opt r. opt r) opts r1)))"

text \<open>
  \<open>clientCert\<close>: a certificate is the pair of the two files, which \<open>tls.X509KeyPair\<close> (the parameter
  \<open>keypair\<close>) accepts or refuses. The result \<open>None\<close> is a nil pointer.
\<close>

type_synonym cert = "byte list \<times> byte list"

fun clientCert_loop :: "os \<Rightarrow> (cert \<Rightarrow> error option) \<Rightarrow> certDirs list \<Rightarrow> error list \<Rightarrow> error + cert option" where
  "clientCert_loop sys keypair [] errs =
     (case errors_Join errs of Some e \<Rightarrow> Inl e | None \<Rightarrow> Inr None)"
| "clientCert_loop sys keypair (dirs # ds) errs =
     (case ReadFile sys (filepath_Join [CertPath dirs, ''clientcert.pem'']) of
        Inl e \<Rightarrow> clientCert_loop sys keypair ds (errs @ [WrapError ''could not read tls client cert: '' e])
      | Inr certFile \<Rightarrow>
          (case ReadFile sys (filepath_Join [KeyPath dirs, ''clientkey.pem'']) of
             Inl e \<Rightarrow> clientCert_loop sys keypair ds (errs @ [WrapError ''could not read tls private key: '' e])
           | Inr keyFile \<Rightarrow>
               (case keypair (certFile, keyFile) of
                  Some e \<Rightarrow> Inl (WrapError ''invalid tls client cert: '' e)
                | None \<Rightarrow> Inr (Some (certFile, keyFile)))))"

definition clientCert :: "os \<Rightarrow> (cert \<Rightarrow> error option) \<Rightarrow> TLS \<Rightarrow> error + cert option" where
  "clientCert sys keypair r = clientCert_loop sys keypair (certSearchPaths r) []"

text \<open>\<open>caCerts\<close>: the file from which the pool is filled; \<open>None\<close> is a nil pool.\<close>

fun caCerts_loop :: "os \<Rightarrow> bool \<Rightarrow> string list \<Rightarrow> error list \<Rightarrow> error + byte list option" where
  "caCerts_loop sys optional [] errs =
     (case errors_Join errs of Some e \<Rightarrow> Inl e | None \<Rightarrow> Inr None)"
| "caCerts_loop sys optional (dir # ds) errs =
     (case ReadFile sys (filepath_Join [dir, ''cacert.pem'']) of
        Inr caFile \<Rightarrow> Inr (Some caFile)
      | Inl e \<Rightarrow>
          caCerts_loop sys optional ds
            (if optional \<and> is_not_exist sys e then errs
             else errs @ [WrapError ''could not read tls CA cert: '' e]))"

definition caCerts :: "os \<Rightarrow> bool \<Rightarrow> TLS \<Rightarrow> error + byte list option" where
  "caCerts sys optional r = caCerts_loop sys optional (caSearchPaths r) []"

record tls_config =
  Certificates :: "cert list"
  RootCAs :: "byte list option"
  InsecureSkipVerify :: bool

definition TLS_config :: "os \<Rightarrow> (cert \<Rightarrow> error option) \<Rightarrow> TLS \<Rightarrow> (error, tls_config) res" where
  "TLS_config sys keypair r =
     (case clientCert sys keypair r of
        Inl e \<Rightarrow> Err e
      | Inr cert \<Rightarrow>
          (case caCerts sys (insecureSkipVerify r) r of
             Inl e \<Rightarrow> Err e
           | Inr rootCAs \<Rightarrow>
               (case cert of
                  None \<Rightarrow> Panic
                | Some c \<Rightarrow>
                    Ok \<lparr>Certificates = [c], RootCAs = rootCAs, InsecureSkipVerify = insecureSkipVerify r\<rparr>)))"

text \<open>
  \<open>Dial\<close>: what \<open>tls.DialWithDialer\<close> returns for a configuration and an address is the parameter \<open>dial\<close>;
  \<open>answer\<close> is what the first \<open>Read\<close> of one byte returns: the number of bytes, the buffer, an error.
  The result says which configuration the connection has, or whether it was closed before the error.
\<close>

datatype tls_dial = Dialed tls_config address | ClosedAgain error | NotDialed error

definition TLS_Dial ::
  "os \<Rightarrow> (cert \<Rightarrow> error option) \<Rightarrow> (tls_config \<Rightarrow> address \<Rightarrow> error option) \<Rightarrow>
   nat \<times> byte \<times> error option \<Rightarrow> TLS \<Rightarrow> (error, tls_dial) res" where
  "TLS_Dial sys keypair dial answer r =
     (case TLS_config sys keypair r of
        Err e \<Rightarrow> Ok (NotDialed e)
      | Panic \<Rightarrow> Panic
      | Ok conf \<Rightarrow>
          (let a = \<lparr>network = ''tcp'', addr = JoinHostPort (t_host r) (t_port r), timeout = t_timeout r\<rparr> in
           case dial conf a of
             Some e \<Rightarrow> Ok (NotDialed e)
           | None \<Rightarrow>
               (case answer of (n, b, err) \<Rightarrow>
                  (case err of
                     Some e \<Rightarrow> Ok (ClosedAgain e)
                   | None \<Rightarrow>
                       if n \<noteq> 1 \<or> b \<noteq> 1
                       then Ok (ClosedAgain (PlainError
                              ''server verification (of our certificate or IP address) failed''))
                       else Ok (Dialed conf a)))))"

section \<open>SSH\<close>

text \<open>
  The allowed methods of authentication, in order; \<open>KeyboardInteractive\<close> adds none. The signers and
  the errors are what the last attempt has collected. A signer stands for a key of the package \<open>ssh\<close>.
\<close>

type_synonym signer = nat

datatype auth_gen = PrivKeyAuth | AgentAuth | PasswordAuth

record SSHAuthMethods =
  authMethodGenerators :: "auth_gen list"
  signers :: "signer list"
  am_errors :: "error list"

record SSH =
  dialTimeout :: nat
  hostname :: string
  s_port :: string
  username :: string
  s_password :: string
  insecureIgnoreHostKey :: bool
  acceptUnknownHostKey :: bool
  keyFile :: string
  knownHostsFile :: string
  s_authMethods :: SSHAuthMethods
  remoteSocket :: string

definition UseSSHUsername :: "string \<Rightarrow> SSH \<Rightarrow> SSH" where
  "UseSSHUsername u s = (if u \<noteq> '''' then s\<lparr>username := u\<rparr> else s)"

definition UseSSHPassword :: "string \<Rightarrow> SSH \<Rightarrow> SSH" where
  "UseSSHPassword p s = (if p \<noteq> '''' then s\<lparr>s_password := p\<rparr> else s)"

definition UseSSHPort :: "string \<Rightarrow> SSH \<Rightarrow> SSH" where
  "UseSSHPort p s = (if p \<noteq> '''' then s\<lparr>s_port := p\<rparr> else s)"

definition WithAcceptUnknownHostKey :: "SSH \<Rightarrow> SSH" where
  "WithAcceptUnknownHostKey s = s\<lparr>acceptUnknownHostKey := True\<rparr>"

definition WithInsecureIgnoreHostKey :: "SSH \<Rightarrow> SSH" where
  "WithInsecureIgnoreHostKey s = s\<lparr>insecureIgnoreHostKey := True\<rparr>"

definition UseKnownHostsFile :: "string \<Rightarrow> SSH \<Rightarrow> SSH" where
  "UseKnownHostsFile f s = s\<lparr>knownHostsFile := f\<rparr>"

definition UseKeyFile :: "string \<Rightarrow> SSH \<Rightarrow> SSH" where
  "UseKeyFile f s = s\<lparr>keyFile := f\<rparr>"

definition WithSSHAuthMethods :: "SSHAuthMethods \<Rightarrow> SSH \<Rightarrow> SSH" where
  "WithSSHAuthMethods m s = s\<lparr>s_authMethods := m\<rparr>"

definition WithRemoteSocket :: "string \<Rightarrow> SSH \<Rightarrow> SSH" where
  "WithRemoteSocket p s = s\<lparr>remoteSocket := p\<rparr>"

definition WithSystemSSHDefaults :: "user \<Rightarrow> SSH \<Rightarrow> SSH" where
  "WithSystemSSHDefaults u = UseKnownHostsFile (filepath_Join [HomeDir u, ''.ssh'', ''known_hosts''])"

definition defaultSSHKeyFile :: "os \<Rightarrow> string" where
  "defaultSSHKeyFile sys =
     (case UserHomeDir sys of
        Inl e \<Rightarrow> ''''
      | Inr homeDir \<Rightarrow>
          (case find (\<lambda>path. Stat sys path = None)
             (List.map (\<lambda>key. filepath_Join [homeDir, ''.ssh'', key])
               [''identity'', ''id_dsa'', ''id_ecdsa'', ''id_ed25519'', ''id_rsa'']) of
             Some path \<Rightarrow> path
           | None \<Rightarrow> ''''))"

definition defaultSSHKnownHostsFile :: "os \<Rightarrow> string" where
  "defaultSSHKnownHostsFile sys =
     (case UserConfigDir sys of
        Inl e \<Rightarrow> ''''
      | Inr configDir \<Rightarrow> filepath_Join [filepath_Join [configDir, ''libvirt''], ''known_hosts''])"

text \<open>The methods that add to the list of allowed ones.\<close>

definition add_gen :: "auth_gen \<Rightarrow> SSHAuthMethods \<Rightarrow> SSHAuthMethods" where
  "add_gen g am = am\<lparr>authMethodGenerators := authMethodGenerators am @ [g]\<rparr>"

definition PrivKey :: "SSHAuthMethods \<Rightarrow> SSHAuthMethods" where "PrivKey = add_gen PrivKeyAuth"
definition Agent :: "SSHAuthMethods \<Rightarrow> SSHAuthMethods" where "Agent = add_gen AgentAuth"
definition Password :: "SSHAuthMethods \<Rightarrow> SSHAuthMethods" where "Password = add_gen PasswordAuth"

definition KeyboardInteractive :: "SSHAuthMethods \<Rightarrow> SSHAuthMethods" where
  "KeyboardInteractive am = am"

definition no_auth :: SSHAuthMethods where
  "no_auth = \<lparr>authMethodGenerators = [], signers = [], am_errors = []\<rparr>"

text \<open>
  A method given to the package \<open>ssh\<close>: a callback that returns the signers collected by the end, or a
  password. The keys come from \<open>ssh.ParsePrivateKey\<close> and from the agent, if there is one
  (\<open>SSH_AUTH_SOCK\<close>), which may not answer.
\<close>

datatype auth_method = PublicKeysCallback | PasswordMethod string

record keys =
  ParsePrivateKey :: "byte list \<Rightarrow> error + signer"
  SSH_AUTH_SOCK :: string
  agent_Dial :: "error option"
  agent_Signers :: "error + signer list"

definition run_gen ::
  "os \<Rightarrow> keys \<Rightarrow> SSH \<Rightarrow> auth_gen \<Rightarrow> SSHAuthMethods \<Rightarrow> auth_method option \<times> SSHAuthMethods" where
  "run_gen sys ks s g am =
     (case g of
        PrivKeyAuth \<Rightarrow>
          (case ReadFile sys (keyFile s) of
             Inl e \<Rightarrow>
               (None, am\<lparr>am_errors := am_errors am @ [WrapError (''failed to read ssh key '' @ keyFile s @ '': '') e]\<rparr>)
           | Inr key \<Rightarrow>
               (case ParsePrivateKey ks key of
                  Inl e \<Rightarrow>
                    (None, am\<lparr>am_errors := am_errors am @
                       [WrapError (''failed to parse ssh key '' @ keyFile s @ '': '') e]\<rparr>)
                | Inr signer \<Rightarrow>
                    (if signers am = [] then Some PublicKeysCallback else None,
                     am\<lparr>signers := signers am @ [signer]\<rparr>)))
      | AgentAuth \<Rightarrow>
          if SSH_AUTH_SOCK ks = '''' then (None, am)
          else
            (case agent_Dial ks of
               Some e \<Rightarrow>
                 (None, am\<lparr>am_errors := am_errors am @
                    [WrapError (''failed to connect to agent socket '' @ SSH_AUTH_SOCK ks @ '': '') e]\<rparr>)
             | None \<Rightarrow>
                 (case agent_Signers ks of
                    Inl e \<Rightarrow>
                      (None, am\<lparr>am_errors := am_errors am @ [WrapError ''failed to get signers from agent: '' e]\<rparr>)
                  | Inr more_signers \<Rightarrow>
                      (let am1 = am\<lparr>signers := signers am @ more_signers\<rparr> in
                       (if signers am = [] \<and> signers am1 \<noteq> [] then Some PublicKeysCallback else None, am1))))
      | PasswordAuth \<Rightarrow>
          if s_password s = '''' then (None, am\<lparr>am_errors := am_errors am @ [PlainError ''no ssh password set'']\<rparr>)
          else (Some (PasswordMethod (s_password s)), am))"

fun auth_loop_gens ::
  "os \<Rightarrow> keys \<Rightarrow> SSH \<Rightarrow> auth_gen list \<Rightarrow> SSHAuthMethods \<Rightarrow> auth_method list \<times> SSHAuthMethods" where
  "auth_loop_gens sys ks s [] am = ([], am)"
| "auth_loop_gens sys ks s (g # gs) am =
     (case run_gen sys ks s g am of (m, am1) \<Rightarrow>
        (case auth_loop_gens sys ks s gs am1 of (ms, am2) \<Rightarrow>
           ((case m of Some a \<Rightarrow> a # ms | None \<Rightarrow> ms), am2)))"

definition authMethods :: "os \<Rightarrow> keys \<Rightarrow> SSH \<Rightarrow> SSHAuthMethods \<Rightarrow> auth_method list \<times> SSHAuthMethods" where
  "authMethods sys ks s am =
     auth_loop_gens sys ks s (authMethodGenerators am) (am\<lparr>signers := [], am_errors := []\<rparr>)"

definition defaultSSHPort :: string where "defaultSSHPort = ''22''"
definition defaultSSHTimeout :: nat where "defaultSSHTimeout = 20 * second"

definition NewSSH :: "os \<Rightarrow> string \<Rightarrow> (SSH \<Rightarrow> SSH) list \<Rightarrow> SSH" where
  "NewSSH sys hostAddr opts = fold (\<lambda>opt s. opt s) opts
     \<lparr>dialTimeout = defaultSSHTimeout, hostname = hostAddr, s_port = defaultSSHPort,
      username = (case user_Current sys of Inl e \<Rightarrow> '''' | Inr u \<Rightarrow> Username u), s_password = '''',
      insecureIgnoreHostKey = False, acceptUnknownHostKey = False, keyFile = defaultSSHKeyFile sys,
      knownHostsFile = defaultSSHKnownHostsFile sys,
      s_authMethods = KeyboardInteractive (Password (PrivKey (Agent no_auth))), remoteSocket = defaultSocket\<rparr>"

text \<open>
  \<open>checkHostKey\<close>. What \<open>knownhosts.New\<close> makes of the file is the parameter \<open>known_hosts\<close>: an error, or
  a function that checks a host and its key. That function accepts the key, answers with a
  \<open>KeyError\<close> that lists the keys known for the host, or fails otherwise. The second result is the
  line that is appended to the file.
\<close>

type_synonym ssh_key = "byte list"

datatype host_check = KeyKnown | KeyError "ssh_key list" error | CheckFailed error

definition checkHostKey ::
  "os \<Rightarrow> (string \<Rightarrow> error + (string \<Rightarrow> ssh_key \<Rightarrow> host_check)) \<Rightarrow> SSH \<Rightarrow> string \<Rightarrow> ssh_key \<Rightarrow>
   error option \<times> (string \<times> ssh_key) option" where
  "checkHostKey sys known_hosts s host key =
     (case known_hosts (knownHostsFile s) of
        Inl e \<Rightarrow>
          if is_not_exist sys e \<and> acceptUnknownHostKey s then (None, Some (host, key)) else (Some e, None)
      | Inr checkKnown \<Rightarrow>
          (case checkKnown host key of
             KeyError want e \<Rightarrow>
               if length want = 0 \<and> acceptUnknownHostKey s then (None, Some (host, key)) else (Some e, None)
           | KeyKnown \<Rightarrow> (None, None)
           | CheckFailed e \<Rightarrow> (Some e, None)))"

text \<open>
  \<open>config\<close> and \<open>Dial\<close>: without a check of the host key the callback accepts every key. The outcomes of
  \<open>ssh.Dial\<close>, which runs the callback, and of the dial to the socket on the server are parameters.
\<close>

record ssh_config =
  ssh_User :: string
  IgnoreHostKey :: bool
  Auth :: "auth_method list"
  ssh_Timeout :: nat

definition SSH_config :: "os \<Rightarrow> keys \<Rightarrow> SSH \<Rightarrow> ssh_config \<times> SSH" where
  "SSH_config sys ks s =
     (case authMethods sys ks s (s_authMethods s) of (ms, am) \<Rightarrow>
        (\<lparr>ssh_User = username s, IgnoreHostKey = insecureIgnoreHostKey s, Auth = ms, ssh_Timeout = dialTimeout s\<rparr>,
         s\<lparr>s_authMethods := am\<rparr>))"

definition SSH_Dial ::
  "os \<Rightarrow> keys \<Rightarrow> (ssh_config \<Rightarrow> string \<Rightarrow> error option) \<Rightarrow> (string \<Rightarrow> error option) \<Rightarrow> SSH \<Rightarrow>
   error + ssh_config" where
  "SSH_Dial sys ks ssh_dial dial_remote s =
     (case SSH_config sys ks s of (conf, s1) \<Rightarrow>
        (case ssh_dial conf (JoinHostPort (hostname s1) (s_port s1)) of
           Some e \<Rightarrow>
             if has_prefix (err_text e) ''ssh: handshake failed: ssh: unable to authenticate''
             then Inl (JoinError (e # am_errors (s_authMethods s1)))
             else Inl e
         | None \<Rightarrow>
             (case dial_remote (remoteSocket s1) of
                Some e \<Rightarrow>
                  Inl (WrapError (''failed to connect to remote libvirt socket '' @ remoteSocket s1 @ '': '') e)
              | None \<Rightarrow> Inr conf)))"

section \<open>Host keys\<close>

text \<open>
  A changed host key is never accepted: the check lets a key pass only when the file of known hosts
  has this key for the host, or when the option for unknown hosts is set and the file has no key for
  the host at all or does not exist; and only in that second case a line is added to the file, which
  is the host with this key.
\<close>
theorem checkHostKey_sound:
  assumes "checkHostKey sys known_hosts s host key = (None, line)"
  shows "(\<exists>chk. known_hosts (knownHostsFile s) = Inr chk \<and> chk host key = KeyKnown \<and> line = None) \<or>
    acceptUnknownHostKey s \<and> line = Some (host, key) \<and>
    ((\<exists>e. known_hosts (knownHostsFile s) = Inl e \<and> is_not_exist sys e) \<or>
     (\<exists>chk e. known_hosts (knownHostsFile s) = Inr chk \<and> chk host key = KeyError [] e))"
  using assms by (auto simp: checkHostKey_def split: sum.splits host_check.splits if_splits)

definition any_os :: os where
  "any_os =
     \<lparr>user_Current = Inl EINVAL, UserHomeDir = Inl EINVAL, UserConfigDir = Inl EINVAL, Stat = \<lambda>p. None,
      ReadFile = \<lambda>p. Inl EINVAL, is_not_exist = \<lambda>e. e = EINVAL\<rparr>"

theorem checkHostKey_sound_witness:
  "acceptUnknownHostKey (WithAcceptUnknownHostKey (NewSSH any_os ''node1'' [])) \<and>
   snd (checkHostKey any_os (\<lambda>f. Inr (\<lambda>h k. KeyError [] EINVAL))
     (WithAcceptUnknownHostKey (NewSSH any_os ''node1'' [])) ''node1'' [1]) = Some (''node1'', [1])"
proof -
  let ?s = "WithAcceptUnknownHostKey (NewSSH any_os ''node1'' [])"
  have "checkHostKey any_os (\<lambda>f. Inr (\<lambda>h k. KeyError [] EINVAL)) ?s ''node1'' [1] = (None, Some (''node1'', [1]))"
    by (simp add: checkHostKey_def WithAcceptUnknownHostKey_def NewSSH_def)
  from checkHostKey_sound [OF this] this show ?thesis by auto
qed

section \<open>Methods of authentication\<close>

text \<open>The keys that a generator contributes.\<close>

definition gen_signers :: "os \<Rightarrow> keys \<Rightarrow> SSH \<Rightarrow> auth_gen \<Rightarrow> signer list" where
  "gen_signers sys ks s g =
     (case g of
        PrivKeyAuth \<Rightarrow>
          (case ReadFile sys (keyFile s) of
             Inl e \<Rightarrow> []
           | Inr key \<Rightarrow> (case ParsePrivateKey ks key of Inl e \<Rightarrow> [] | Inr k \<Rightarrow> [k]))
      | AgentAuth \<Rightarrow>
          if SSH_AUTH_SOCK ks = '''' \<or> agent_Dial ks \<noteq> None then []
          else (case agent_Signers ks of Inl e \<Rightarrow> [] | Inr k \<Rightarrow> k)
      | PasswordAuth \<Rightarrow> [])"

lemma run_gen_signers:
  assumes "run_gen sys ks s g am = (m, am')"
  shows "signers am' = signers am @ gen_signers sys ks s g"
    "m = (if g = PasswordAuth then (if s_password s = '''' then None else Some (PasswordMethod (s_password s)))
          else if signers am = [] \<and> signers am' \<noteq> [] then Some PublicKeysCallback else None)"
  using assms
  by (cases g; auto simp: run_gen_def gen_signers_def Let_def split: sum.splits option.splits if_splits)+

lemma auth_loop_signers:
  "auth_loop_gens sys ks s gs am = (ms, am') \<Longrightarrow>
    signers am' = signers am @ concat (List.map (gen_signers sys ks s) gs) \<and>
    count_list ms PublicKeysCallback = (if signers am = [] \<and> signers am' \<noteq> [] then 1 else 0) \<and>
    filter (\<lambda>m. m \<noteq> PublicKeysCallback) ms =
      (if s_password s = '''' then [] else replicate (count_list gs PasswordAuth) (PasswordMethod (s_password s)))"
proof (induction gs arbitrary: am ms)
  case (Cons g gs)
  obtain m am1 where g: "run_gen sys ks s g am = (m, am1)" by (cases "run_gen sys ks s g am") auto
  obtain ms1 where ms1: "auth_loop_gens sys ks s gs am1 = (ms1, am')" "ms = (case m of Some a \<Rightarrow> a # ms1 | None \<Rightarrow> ms1)"
    using Cons.prems g by (auto split: prod.splits)
  note IH = Cons.IH [OF ms1(1)] and run = run_gen_signers [OF g]
  show ?case
  proof (cases "g = PasswordAuth")
    case True
    then have "gen_signers sys ks s g = []" by (simp add: gen_signers_def)
    then show ?thesis using IH run True ms1(2) by (cases "s_password s = ''''") simp_all
  next
    case False
    then have m: "m = (if signers am = [] \<and> signers am1 \<noteq> [] then Some PublicKeysCallback else None)"
      using run(2) by simp
    show ?thesis
      using IH run(1) False ms1(2) by (cases "signers am = []"; cases "signers am1 = []") (simp_all add: m)
  qed
qed simp

text \<open>
  However the methods of authentication are listed, the keys of all of them share one callback: it is
  offered once, and only if there is a key, it returns the keys of all listed methods in their order,
  and beside it only the password is offered, once for each time it is listed, if it is set.
\<close>
theorem authMethods_share_callback:
  assumes "authMethods sys ks s am = (ms, am')"
  shows "signers am' = concat (List.map (gen_signers sys ks s) (authMethodGenerators am)) \<and>
    count_list ms PublicKeysCallback = (if signers am' = [] then 0 else 1) \<and>
    filter (\<lambda>m. m \<noteq> PublicKeysCallback) ms = (if s_password s = '''' then []
      else replicate (count_list (authMethodGenerators am) PasswordAuth) (PasswordMethod (s_password s)))"
  using auth_loop_signers [OF assms [unfolded authMethods_def]] by simp

theorem authMethods_share_callback_witness:
  "\<exists>ms am'. authMethods any_os \<lparr>ParsePrivateKey = \<lambda>k. Inr 5, SSH_AUTH_SOCK = ''/run/agent'', agent_Dial = None,
      agent_Signers = Inr [1, 2]\<rparr> (NewSSH any_os ''node1'' [UseSSHPassword ''pw''])
      (Password (PrivKey (Agent no_auth))) = (ms, am') \<and>
    signers am' = [1, 2] \<and> count_list ms PublicKeysCallback = 1 \<and>
    filter (\<lambda>m. m \<noteq> PublicKeysCallback) ms = [PasswordMethod ''pw'']"
proof -
  let ?ks = "\<lparr>ParsePrivateKey = \<lambda>k. Inr 5, SSH_AUTH_SOCK = ''/run/agent'', agent_Dial = None,
      agent_Signers = Inr [1, 2]\<rparr>"
  let ?s = "NewSSH any_os ''node1'' [UseSSHPassword ''pw'']" and ?am = "Password (PrivKey (Agent no_auth))"
  obtain ms am' where r: "authMethods any_os ?ks ?s ?am = (ms, am')" by (cases "authMethods any_os ?ks ?s ?am") auto
  have "authMethodGenerators ?am = [AgentAuth, PrivKeyAuth, PasswordAuth]" "s_password ?s = ''pw''"
    by (simp_all add: Password_def PrivKey_def Agent_def no_auth_def add_gen_def NewSSH_def UseSSHPassword_def)
  then show ?thesis
    using authMethods_share_callback [OF r] r by (simp add: gen_signers_def any_os_def)
qed

end
