(* ===== verification/Connect_URI.thy ===== *)
theory Connect_URI
  imports Dialers
begin

text \<open>
  Connections by URI (\<open>src/connect_uri.go\<close>): \<open>RemoteURI\<close>, the URI that the server is asked to open, and
  \<open>dialerForURI\<close>, the dialer that a client URI describes with its transport and options.
\<close>

section \<open>URLs\<close>

text \<open>
  A parsed URL of the package \<open>net/url\<close>: the user name with an optional password, the host with its
  port, the path, and the parameters of the query as \<open>Query()\<close> returns them.
\<close>

record url =
  Scheme :: string
  User :: "(string \<times> string option) option"
  Host :: string
  Path :: string
  Query :: "(string \<times> string) list"

definition Get :: "url \<Rightarrow> string \<Rightarrow> string" where
  "Get u key = (case map_of (Query u) key of Some v \<Rightarrow> v | None \<Rightarrow> '''')"

text \<open>\<open>Hostname\<close> and \<open>Port\<close>.\<close>

definition validOptionalPort :: "string \<Rightarrow> bool" where
  "validOptionalPort p = (case p of [] \<Rightarrow> True | c # ds \<Rightarrow> c = CHR '':'' \<and> list_all is_digit ds)"

definition splitHostPort :: "string \<Rightarrow> string \<times> string" where
  "splitHostPort hostPort =
     (let tail = takeWhile (\<lambda>c. c \<noteq> CHR '':'') (rev hostPort);
          n = length hostPort - length tail;
          has_port = (CHR '':'' \<in> set hostPort \<and> validOptionalPort (CHR '':'' # rev tail));
          host = (if has_port then take (n - 1) hostPort else hostPort);
          port = (if has_port then rev tail else '''')
      in (if host \<noteq> [] \<and> hd host = CHR ''['' \<and> List.last host = CHR '']''
          then take (length host - 2) (drop 1 host) else host, port))"

definition Hostname :: "url \<Rightarrow> string" where "Hostname u = fst (splitHostPort (Host u))"
definition Port :: "url \<Rightarrow> string" where "Port u = snd (splitHostPort (Host u))"

definition User_Username :: "url \<Rightarrow> string" where
  "User_Username u = (case User u of None \<Rightarrow> '''' | Some (n, p) \<Rightarrow> n)"

definition User_Password :: "url \<Rightarrow> string option" where
  "User_Password u = (case User u of None \<Rightarrow> None | Some (n, p) \<Rightarrow> p)"

text \<open>\<open>EscapedPath\<close> without a raw path, and \<open>String\<close> of a URL that has only a scheme and a path.\<close>

definition is_alnum :: "char \<Rightarrow> bool" where
  "is_alnum c = (is_upper c \<or> is_lower c \<or> is_digit c)"

definition shouldEscape :: "char \<Rightarrow> bool" where
  "shouldEscape c = (\<not> is_alnum c \<and> c \<notin> set ''-_.~$&+,/:;=@'')"

definition hex_digit :: "nat \<Rightarrow> char" where
  "hex_digit n = ''0123456789ABCDEF'' ! n"

fun url_escape :: "string \<Rightarrow> string" where
  "url_escape [] = []"
| "url_escape (c # cs) =
     (if shouldEscape c
      then CHR ''%'' # hex_digit (of_char c div 16) # hex_digit (of_char c mod 16) # url_escape cs
      else c # url_escape cs)"

definition EscapedPath :: "string \<Rightarrow> string" where
  "EscapedPath path = (if path = ''*'' then ''*'' else url_escape path)"

definition url_String :: "string \<Rightarrow> string \<Rightarrow> string" where
  "url_String scheme path =
     (let buf = (if scheme \<noteq> '''' then scheme @ '':'' @ (if path \<noteq> '''' then ''//'' else '''') else '''');
          p = EscapedPath path;
          dot = (if buf = '''' \<and> CHR '':'' \<in> set (takeWhile (\<lambda>c. c \<noteq> CHR ''/'') p) then ''./'' else '''')
      in buf @ dot @ p)"

section \<open>The remote URI\<close>

definition RemoteURI :: "url \<Rightarrow> string" where
  "RemoteURI uri =
     (let remoteURI = url_String (hd (split_char CHR ''+'' (Scheme uri))) (Path uri);
          name = Get uri ''name''
      in if name \<noteq> '''' then name else remoteURI)"

section \<open>Options\<close>

text \<open>The text of \<open>strconv.Atoi\<close>'s error, for numbers whose quoting needs no escapes.\<close>

definition atoi_error :: "string \<Rightarrow> error" where
  "atoi_error s =
     (let ds = (case s of c # cs \<Rightarrow> if c = CHR ''-'' \<or> c = CHR ''+'' then cs else s | [] \<Rightarrow> []) in
      PlainError (''strconv.Atoi: parsing \"'' @ s @ ''\": '' @
        (if parse_digits ds = None then ''invalid syntax'' else ''value out of range'')))"

definition noVerifyOption :: "url \<Rightarrow> error + bool" where
  "noVerifyOption uri =
     (let nv = Get uri ''no_verify'' in
      if nv = '''' then Inr False
      else case atoi nv of
             None \<Rightarrow> Inl (WrapError ''invalid value for no_verify: '' (atoi_error nv))
           | Some val \<Rightarrow> Inr (val \<noteq> 0))"

definition checkModeOption :: "url \<Rightarrow> error option" where
  "checkModeOption uri =
     (let mode = Get uri ''mode''; m = to_lower mode in
      if m = '''' then None
      else if m = ''legacy'' \<or> m = ''auto'' then None
      else if m = ''direct'' then Some (PlainError ''cannot connect in direct mode'')
      else Some (PlainError (''invalid ssh mode '' @ mode)))"

definition option_if :: "bool \<Rightarrow> 'a \<Rightarrow> 'a list" where
  "option_if b x = (if b then [x] else [])"

definition processCommonSSHOptions :: "url \<Rightarrow> (SSH \<Rightarrow> SSH) list \<Rightarrow> error + (SSH \<Rightarrow> SSH) list" where
  "processCommonSSHOptions uri options =
     (let port = Port uri; uname = User_Username uri; sock = Get uri ''socket''; key = Get uri ''keyfile'';
          options1 = options @ option_if (port \<noteq> '''') (UseSSHPort port) @ option_if (uname \<noteq> '''') (UseSSHUsername uname) @
            (case User_Password uri of Some p \<Rightarrow> [UseSSHPassword p] | None \<Rightarrow> []) @
            option_if (sock \<noteq> '''') (WithRemoteSocket sock) @ option_if (key \<noteq> '''') (UseKeyFile key)
      in case checkModeOption uri of Some e \<Rightarrow> Inl e | None \<Rightarrow> Inr options1)"

text \<open>The loop over the names of authentication methods.\<close>

fun parse_auth :: "string list \<Rightarrow> SSHAuthMethods \<Rightarrow> error + SSHAuthMethods" where
  "parse_auth [] am = Inr am"
| "parse_auth (a # as) am =
     (let l = to_lower a in
      if l = ''agent'' then parse_auth as (Agent am)
      else if l = ''privkey'' then parse_auth as (PrivKey am)
      else if l = ''password'' then parse_auth as (Password am)
      else if l = ''keyboard-interactive'' then parse_auth as (KeyboardInteractive am)
      else Inl (PlainError (''invalid ssh auth method '' @ a)))"

section \<open>The dialer\<close>

datatype dialer = DLocal Local | DRemote Remote | DTLS TLS | DSSH SSH

definition transport :: "url \<Rightarrow> string" where
  "transport uri =
     (let scheme = split2_char CHR ''+'' (Scheme uri) in
      if 1 < length scheme then scheme ! 1 else if Host uri \<noteq> '''' then ''tls'' else ''unix'')"

definition local_dialer :: "url \<Rightarrow> (error, dialer) res" where
  "local_dialer uri =
     (let s = Get uri ''socket''; options = option_if (s \<noteq> '''') (WithSocket s) in
      case checkModeOption uri of Some e \<Rightarrow> Err e | None \<Rightarrow> Ok (DLocal (NewLocal options)))"

definition tcp_dialer :: "url \<Rightarrow> (error, dialer) res" where
  "tcp_dialer uri =
     (let port = Port uri in Ok (DRemote (NewRemote (Hostname uri) (option_if (port \<noteq> '''') (UsePort port)))))"

definition tls_dialer :: "os \<Rightarrow> url \<Rightarrow> (error, dialer) res" where
  "tls_dialer sys uri =
     (let port = Port uri; pkiPath = Get uri ''pkipath'';
          options = option_if (port \<noteq> '''') (UseTLSPort port) @ option_if (pkiPath \<noteq> '''') (UsePKIPath pkiPath)
      in case noVerifyOption uri of
           Inl e \<Rightarrow> Err e
         | Inr nv \<Rightarrow>
             (case NewTLS sys (Hostname uri) (options @ option_if nv WithInsecureNoVerify) of
                Ok r \<Rightarrow> Ok (DTLS r) | Err e \<Rightarrow> Err e | Panic \<Rightarrow> Panic))"

text \<open>The options that only the transports \<open>libssh\<close> and \<open>libssh2\<close> have.\<close>

definition host_verify :: "url \<Rightarrow> error + (SSH \<Rightarrow> SSH) list" where
  "host_verify uri =
     (let v = Get uri ''known_hosts_verify'' in
      if v = '''' \<or> v = ''normal'' then Inr []
      else if v = ''auto'' then Inr [WithAcceptUnknownHostKey]
      else if v = ''ignore'' then Inr [WithInsecureIgnoreHostKey]
      else Inl (PlainError (''invalid ssh known hosts verify method '' @ v)))"

definition auth_option :: "url \<Rightarrow> error + (SSH \<Rightarrow> SSH) list" where
  "auth_option uri =
     (let auth = Get uri ''sshauth'' in
      if auth = '''' then Inr []
      else case parse_auth (split_char CHR '','' auth) no_auth of
             Inl e \<Rightarrow> Inl e
           | Inr am \<Rightarrow> Inr [WithSSHAuthMethods am])"

definition libssh_dialer :: "os \<Rightarrow> url \<Rightarrow> (error, dialer) res" where
  "libssh_dialer sys uri =
     (case processCommonSSHOptions uri [] of
        Inl e \<Rightarrow> Err e
      | Inr options \<Rightarrow>
          (let kh = Get uri ''known_hosts''; options1 = options @ option_if (kh \<noteq> '''') (UseKnownHostsFile kh) in
           case host_verify uri of
             Inl e \<Rightarrow> Err e
           | Inr hv \<Rightarrow>
               (case auth_option uri of
                  Inl e \<Rightarrow> Err e
                | Inr au \<Rightarrow>
                    if Get uri ''no_verify'' \<noteq> ''''
                    then Err (PlainError (''\"no_verify\" option invalid with '' @ transport uri @
                           '' transport, use known_hosts_verify=ignore instead''))
                    else Ok (DSSH (NewSSH sys (Hostname uri) (options1 @ hv @ au))))))"

definition ssh_dialer :: "os \<Rightarrow> url \<Rightarrow> (error, dialer) res" where
  "ssh_dialer sys uri =
     (case user_Current sys of
        Inl e \<Rightarrow> Err e
      | Inr currentUser \<Rightarrow>
          (case processCommonSSHOptions uri [WithSystemSSHDefaults currentUser] of
             Inl e \<Rightarrow> Err e
           | Inr options \<Rightarrow>
               (case noVerifyOption uri of
                  Inl e \<Rightarrow> Err e
                | Inr nv \<Rightarrow>
                    (let fieldErrs = List.map (\<lambda>f. PlainError (f @ '' option invalid with ssh transport, use libssh transport instead''))
                           (filter (\<lambda>f. Get uri f \<noteq> '''') [''known_hosts'', ''known_hosts_verify'', ''sshauth''])
                     in case errors_Join fieldErrs of
                          Some e \<Rightarrow> Err e
                        | None \<Rightarrow>
                            Ok (DSSH (NewSSH sys (Hostname uri) (options @ option_if nv WithInsecureIgnoreHostKey)))))))"

definition dialerForURI :: "os \<Rightarrow> url \<Rightarrow> (error, dialer) res" where
  "dialerForURI sys uri =
     (let t = transport uri in
      if t = ''unix'' then local_dialer uri
      else if t = ''tcp'' then tcp_dialer uri
      else if t = ''tls'' then tls_dialer sys uri
      else if t = ''libssh'' \<or> t = ''libssh2'' then libssh_dialer sys uri
      else if t = ''ssh'' then ssh_dialer sys uri
      else Err (PlainError (''unsupported libvirt transport '' @ t)))"

text \<open>
  The function \<open>ConnectToURI\<close> of the package; what the client's method of the same name makes of the
  dialer and the remote URI is the parameter \<open>connect\<close>.
\<close>

definition connect_to_uri :: "os \<Rightarrow> (dialer \<Rightarrow> string \<Rightarrow> error option) \<Rightarrow> url \<Rightarrow> (error, dialer) res" where
  "connect_to_uri sys connect uri =
     (case dialerForURI sys uri of
        Err e \<Rightarrow> Err e
      | Panic \<Rightarrow> Panic
      | Ok d \<Rightarrow>
          (case connect d (RemoteURI uri) of
             Some e \<Rightarrow> Err (WrapError ''failed to connect to libvirt: '' e)
           | None \<Rightarrow> Ok d))"

section \<open>What a URI asks for\<close>

text \<open>The options of a dialer set one field each; the last one wins.\<close>

lemma fold_opt [simp]: "fold (\<lambda>opt l. opt l) (option_if b f) x = (if b then f x else x)"
  by (simp add: option_if_def)

text \<open>The number of the option \<open>no_verify\<close> is there and not zero.\<close>

definition no_verify_on :: "url \<Rightarrow> bool" where
  "no_verify_on uri = (case atoi (Get uri ''no_verify'') of Some n \<Rightarrow> n \<noteq> 0 | None \<Rightarrow> False)"

lemma noVerifyOption_Inr: "noVerifyOption uri = Inr b \<Longrightarrow> b = no_verify_on uri"
  by (auto simp: noVerifyOption_def no_verify_on_def Let_def atoi_def split: if_splits option.splits)

lemma NewTLS_Ok:
  "NewTLS sys host opts = Ok r \<Longrightarrow>
    \<exists>certs cas. certs \<noteq> [] \<and> cas \<noteq> [] \<and> r = fold (\<lambda>opt r. opt r) opts
      \<lparr>t_timeout = defaultTLSTimeout, t_host = host, t_port = defaultTLSPort, insecureSkipVerify = False,
       certSearchPaths = certs, caSearchPaths = cas\<rparr>"
  by (auto simp: NewTLS_def Let_def split: sum.splits if_splits)

lemmas ssh_options = UseSSHPort_def UseSSHUsername_def UseSSHPassword_def WithRemoteSocket_def UseKeyFile_def
  WithSystemSSHDefaults_def UseKnownHostsFile_def WithAcceptUnknownHostKey_def WithInsecureIgnoreHostKey_def
  WithSSHAuthMethods_def

text \<open>Options that do not touch a field.\<close>

definition keeps :: "('s \<Rightarrow> 'b) \<Rightarrow> ('s \<Rightarrow> 's) list \<Rightarrow> bool" where
  "keeps f opts \<longleftrightarrow> (\<forall>g \<in> set opts. \<forall>s. f (g s) = f s)"

lemma keeps_fold: "keeps f opts \<Longrightarrow> f (fold (\<lambda>opt s. opt s) opts s) = f s"
  by (induction opts arbitrary: s) (simp_all add: keeps_def)

lemma keeps_append [simp]: "keeps f (xs @ ys) \<longleftrightarrow> keeps f xs \<and> keeps f ys"
  by (auto simp: keeps_def)

lemma keeps_opt [simp]: "keeps f (option_if b g) \<longleftrightarrow> (b \<longrightarrow> (\<forall>s. f (g s) = f s))"
  by (simp add: option_if_def keeps_def)

lemma keeps_Nil [simp]: "keeps f []"
  by (simp add: keeps_def)

lemma keeps_Cons [simp]: "keeps f (g # gs) \<longleftrightarrow> (\<forall>s. f (g s) = f s) \<and> keeps f gs"
  by (simp add: keeps_def)

text \<open>The options that all SSH transports share do not touch the check of the host key.\<close>

definition checks :: "SSH \<Rightarrow> bool \<times> bool \<times> string" where
  "checks s = (insecureIgnoreHostKey s, acceptUnknownHostKey s, hostname s)"

lemma keeps_checks:
  assumes "keeps checks opts"
  shows "keeps insecureIgnoreHostKey opts" "keeps acceptUnknownHostKey opts" "keeps hostname opts"
  using assms by (auto simp: keeps_def checks_def)

lemma common_options:
  assumes "processCommonSSHOptions uri options = Inr options1"
  shows "\<exists>more_options. options1 = options @ option_if (Port uri \<noteq> '''') (UseSSHPort (Port uri)) @ more_options \<and>
    keeps checks more_options \<and> keeps s_port more_options"
  using assms
  by (auto simp: processCommonSSHOptions_def Let_def split: option.splits)
    (simp_all add: checks_def ssh_options)

text \<open>The SSH dialers: what they check and where they connect to.\<close>

definition ssh_address :: "url \<Rightarrow> SSH \<Rightarrow> bool" where
  "ssh_address uri s \<longleftrightarrow>
     hostname s = Hostname uri \<and> s_port s = (if Port uri \<noteq> '''' then Port uri else defaultSSHPort)"

lemma host_verify_Inr:
  assumes "host_verify uri = Inr hv"
  shows "insecureIgnoreHostKey (fold (\<lambda>opt s. opt s) hv s) =
      (insecureIgnoreHostKey s \<or> Get uri ''known_hosts_verify'' = ''ignore'')"
    "acceptUnknownHostKey (fold (\<lambda>opt s. opt s) hv s) =
      (acceptUnknownHostKey s \<or> Get uri ''known_hosts_verify'' = ''auto'')"
    "keeps s_port hv" "keeps hostname hv"
  using assms by (auto simp: host_verify_def Let_def ssh_options split: if_splits)

lemma auth_option_Inr: "auth_option uri = Inr au \<Longrightarrow> keeps checks au \<and> keeps s_port au"
  by (auto simp: auth_option_def Let_def checks_def ssh_options split: if_splits sum.splits)

lemma libssh_Ok:
  assumes "libssh_dialer sys uri = Ok d"
  shows "\<exists>s. d = DSSH s \<and> ssh_address uri s \<and>
    insecureIgnoreHostKey s = (Get uri ''known_hosts_verify'' = ''ignore'') \<and>
    acceptUnknownHostKey s = (Get uri ''known_hosts_verify'' = ''auto'')"
proof -
  obtain options hv au where o: "processCommonSSHOptions uri [] = Inr options" "host_verify uri = Inr hv"
    "auth_option uri = Inr au"
    and d: "d = DSSH (NewSSH sys (Hostname uri) (options @
      option_if (Get uri ''known_hosts'' \<noteq> '''') (UseKnownHostsFile (Get uri ''known_hosts'')) @ hv @ au))"
    using assms by (auto simp: libssh_dialer_def Let_def split: sum.splits if_splits)
  obtain more where more: "options = option_if (Port uri \<noteq> '''') (UseSSHPort (Port uri)) @ more"
    "keeps checks more" "keeps s_port more"
    using common_options [OF o(1)] by auto
  have kh: "keeps checks (option_if b (UseKnownHostsFile f))" "keeps s_port (option_if b (UseKnownHostsFile f))" for b f
    by (simp_all add: checks_def UseKnownHostsFile_def)
  have au: "keeps checks au" "keeps s_port au" using auth_option_Inr [OF o(3)] by auto
  note k = more(2-) kh au host_verify_Inr(3,4) [OF o(2)]
  note folds = keeps_fold [OF keeps_checks(1)] keeps_fold [OF keeps_checks(2)] keeps_fold [OF keeps_checks(3)]
    keeps_fold [of s_port] keeps_fold [of hostname]
  show ?thesis
    unfolding d ssh_address_def NewSSH_def more(1)
    by (simp add: folds k host_verify_Inr(1,2) [OF o(2)] ssh_options)
qed

lemma ssh_Ok:
  assumes "ssh_dialer sys uri = Ok d"
  shows "\<exists>s. d = DSSH s \<and> ssh_address uri s \<and> insecureIgnoreHostKey s = no_verify_on uri \<and>
    \<not> acceptUnknownHostKey s"
proof -
  obtain u options nv where o: "processCommonSSHOptions uri [WithSystemSSHDefaults u] = Inr options"
    "noVerifyOption uri = Inr nv"
    and d: "d = DSSH (NewSSH sys (Hostname uri) (options @ option_if nv WithInsecureIgnoreHostKey))"
    using assms by (auto simp: ssh_dialer_def Let_def split: sum.splits option.splits)
  obtain more where more: "options = [WithSystemSSHDefaults u] @ option_if (Port uri \<noteq> '''') (UseSSHPort (Port uri)) @ more"
    "keeps checks more" "keeps s_port more"
    using common_options [OF o(1)] by auto
  note folds = keeps_fold [OF keeps_checks(1)] keeps_fold [OF keeps_checks(2)] keeps_fold [OF keeps_checks(3)]
    keeps_fold [of s_port] keeps_fold [of hostname]
  show ?thesis
    unfolding d ssh_address_def NewSSH_def more(1) noVerifyOption_Inr [OF o(2)]
    by (simp add: folds more(2-) ssh_options)
qed

lemma tls_Ok:
  assumes "tls_dialer sys uri = Ok d"
  shows "\<exists>r. d = DTLS r \<and> t_host r = Hostname uri \<and>
    t_port r = (if Port uri \<noteq> '''' then Port uri else defaultTLSPort) \<and>
    insecureSkipVerify r = no_verify_on uri \<and> certSearchPaths r \<noteq> [] \<and> caSearchPaths r \<noteq> []"
proof -
  obtain nv r where o: "noVerifyOption uri = Inr nv"
    and r: "NewTLS sys (Hostname uri) ((option_if (Port uri \<noteq> '''') (UseTLSPort (Port uri)) @
      option_if (Get uri ''pkipath'' \<noteq> '''') (UsePKIPath (Get uri ''pkipath''))) @ option_if nv WithInsecureNoVerify) = Ok r"
    and d: "d = DTLS r"
    using assms by (auto simp: tls_dialer_def Let_def split: sum.splits res.splits)
  from NewTLS_Ok [OF r] show ?thesis
    unfolding d noVerifyOption_Inr [OF o]
    by (cases "Port uri = ''''"; cases "Get uri ''pkipath'' = ''''"; cases "no_verify_on uri")
      (auto simp: UseTLSPort_def UsePKIPath_def WithInsecureNoVerify_def)
qed

text \<open>
  C22. The server's identity goes unchecked only on request: a dialer made from a URI skips the check of
  the certificate (TLS) or of the host key (SSH) exactly when the URI says so with a number
  \<open>no_verify\<close> other than zero or, over \<open>libssh\<close>, with \<open>known_hosts_verify=ignore\<close>; it takes up the
  key of an unknown host exactly when a \<open>libssh\<close> URI says \<open>known_hosts_verify=auto\<close>.
\<close>
theorem unverified_on_request:
  assumes "dialerForURI sys uri = Ok d"
  shows "case d of
      DLocal l \<Rightarrow> transport uri = ''unix''
    | DRemote r \<Rightarrow> transport uri = ''tcp''
    | DTLS r \<Rightarrow> transport uri = ''tls'' \<and> insecureSkipVerify r = no_verify_on uri
    | DSSH s \<Rightarrow>
        (if transport uri = ''ssh'' then insecureIgnoreHostKey s = no_verify_on uri \<and> \<not> acceptUnknownHostKey s
         else insecureIgnoreHostKey s = (Get uri ''known_hosts_verify'' = ''ignore'') \<and>
              acceptUnknownHostKey s = (Get uri ''known_hosts_verify'' = ''auto''))"
proof -
  consider "transport uri = ''unix''" "local_dialer uri = Ok d" | "transport uri = ''tcp''" "tcp_dialer uri = Ok d"
    | "transport uri = ''tls''" "tls_dialer sys uri = Ok d"
    | "transport uri = ''libssh'' \<or> transport uri = ''libssh2''" "libssh_dialer sys uri = Ok d"
    | "transport uri = ''ssh''" "ssh_dialer sys uri = Ok d"
    using assms by (auto simp: dialerForURI_def Let_def split: if_splits)
  then show ?thesis
    by cases (auto simp: local_dialer_def tcp_dialer_def Let_def split: option.splits
      dest!: tls_Ok libssh_Ok ssh_Ok)
qed

definition sample_os :: os where
  "sample_os =
     \<lparr>user_Current = Inr \<lparr>Uid = ''1000'', Username = ''kim'', HomeDir = ''/home/kim''\<rparr>,
      UserHomeDir = Inr ''/home/kim'', UserConfigDir = Inr ''/home/kim/.config'', Stat = \<lambda>p. None,
      ReadFile = \<lambda>p. if p = ''/etc/pki/CA/cacert.pem'' then Inr [7] else
        if p = ''/etc/pki/libvirt/clientcert.pem'' then Inr [8] else
        if p = ''/etc/pki/libvirt/private/clientkey.pem'' then Inr [9] else Inl (PlainError ''no such file''),
      is_not_exist = \<lambda>e. True\<rparr>"

definition tls_uri :: url where
  "tls_uri = \<lparr>Scheme = ''qemu'', User = None, Host = ''node1:1234'', Path = ''/system'', Query = [(''no_verify'', ''0'')]\<rparr>"

definition tls_sample :: TLS where
  "tls_sample =
     \<lparr>t_timeout = defaultTLSTimeout, t_host = ''node1'', t_port = ''1234'', insecureSkipVerify = False,
      certSearchPaths = [\<lparr>KeyPath = ''/home/kim/.pki/libvirt'', CertPath = ''/home/kim/.pki/libvirt''\<rparr>,
        \<lparr>KeyPath = ''/etc/pki/libvirt/private/'', CertPath = ''/etc/pki/libvirt/''\<rparr>],
      caSearchPaths = [''/home/kim/.pki/libvirt'', ''/etc/pki/CA/'']\<rparr>"

lemma sample_dialer: "dialerForURI sample_os tls_uri = Ok (DTLS tls_sample)"
  by (simp add: dialerForURI_def tls_uri_def transport_def split2_char_eq tls_dialer_def Let_def Port_def Hostname_def
      splitHostPort_def validOptionalPort_def Get_def noVerifyOption_def atoi_def NewTLS_def sample_os_def option_if_def
      filepath_Join_def filepath_Clean_def tls_sample_def UseTLSPort_def parse_digits_def is_digit_def)

theorem unverified_on_request_witness:
  "transport tls_uri = ''tls'' \<and> insecureSkipVerify tls_sample = no_verify_on tls_uri"
  using unverified_on_request [OF sample_dialer] by simp

lemma no_panic:
  "local_dialer uri \<noteq> Panic" "tcp_dialer uri \<noteq> Panic" "libssh_dialer sys uri \<noteq> Panic" "ssh_dialer sys uri \<noteq> Panic"
  by (simp_all add: local_dialer_def tcp_dialer_def libssh_dialer_def ssh_dialer_def Let_def split: sum.splits option.splits)

text \<open>
  The only way in which making a dialer panics: the transport is TLS, its options are in order, and
  the system does not know the current user; the code then reads a field of a nil pointer.
\<close>
theorem dialerForURI_panics:
  "dialerForURI sys uri = Panic \<longleftrightarrow>
    transport uri = ''tls'' \<and> (\<exists>e. user_Current sys = Inl e) \<and> (\<exists>b. noVerifyOption uri = Inr b)"
proof -
  have "NewTLS sys host opts = Panic \<longleftrightarrow> (\<exists>e. user_Current sys = Inl e)" "NewTLS sys host opts \<noteq> Err e" for host opts e
    by (auto simp: NewTLS_def Let_def split: sum.splits)
  then have "tls_dialer sys uri = Panic \<longleftrightarrow> (\<exists>e. user_Current sys = Inl e) \<and> (\<exists>b. noVerifyOption uri = Inr b)"
    by (auto simp: tls_dialer_def Let_def split: sum.splits res.splits)
  then show ?thesis
    by (auto simp: no_panic dialerForURI_def Let_def)
qed

section \<open>Checked TLS connections\<close>






section \<open>The remote URI\<close>

fun unhex :: "char \<Rightarrow> nat" where
  "unhex c = (if is_digit c then of_char c - 48 else of_char c - 55)"

fun url_unescape :: "string \<Rightarrow> string" where
  "url_unescape (c # d # e # cs) =
     (if c = CHR ''%'' then char_of (16 * unhex d + unhex e) # url_unescape cs else c # url_unescape (d # e # cs))"
| "url_unescape cs = cs"

lemma unhex_hex_digit: "n < 16 \<Longrightarrow> unhex (hex_digit n) = n"
proof -
  assume "n < 16"
  moreover have "list_all (\<lambda>n. unhex (hex_digit n) = n) [0..<16]"
    by (simp add: upt_rec hex_digit_def is_digit_def)
  ultimately show ?thesis by (simp add: list_all_iff)
qed

lemma shouldEscape_percent: "shouldEscape CHR ''%''"
  by (simp add: shouldEscape_def is_alnum_def is_upper_def is_lower_def is_digit_def)

lemma unescape_Cons: "c \<noteq> CHR ''%'' \<Longrightarrow> url_unescape (c # cs) = c # url_unescape cs"
  by (cases "c # cs" rule: url_unescape.cases) auto

lemma high_digit: "of_char c div 16 < (16 :: nat)"
  using nat_of_char_less_256 [of c] by (intro less_mult_imp_div_less) simp

lemma char_of_digits: "char_of (16 * (of_char c div 16) + of_char c mod 16 :: nat) = c"
  by (simp only: mult_div_mod_eq char_of_char)

lemma unescape_escape: "url_unescape (url_escape s) = s"
proof (induction s)
  case (Cons c s)
  show ?case
  proof (cases "shouldEscape c")
    case True
    then show ?thesis
      using Cons high_digit [of c] char_of_digits [of c] by (simp add: unhex_hex_digit del: unhex.simps mult_div_mod_eq)
  next
    case False
    then have "c \<noteq> CHR ''%''" using shouldEscape_percent by auto
    then show ?thesis using Cons False by (simp add: unescape_Cons)
  qed
qed simp

lemma hex_digit_plain: "n < 16 \<Longrightarrow> hex_digit n \<notin> set ''?#''"
proof -
  assume "n < 16"
  moreover have "list_all (\<lambda>n. hex_digit n \<notin> set ''?#'') [0..<16]"
    by (simp add: upt_rec hex_digit_def)
  ultimately show ?thesis by (simp add: list_all_iff)
qed

lemma escape_plain: "set (url_escape s) \<inter> set ''?#'' = {}"
proof (induction s)
  case (Cons c s)
  have "of_char c div 16 < (16 :: nat)" by (rule high_digit)
  then show ?case
    using Cons hex_digit_plain [of "of_char c div 16"] hex_digit_plain [of "of_char c mod 16"]
    by (auto simp: shouldEscape_def is_alnum_def is_upper_def is_lower_def is_digit_def)
qed simp

text \<open>
  The server is asked for the local driver: when a URI has no option \<open>name\<close> and an absolute path, the
  remote URI is the driver (the scheme without the transport), an empty authority, and a text
  without a query or a fragment from which the server decodes exactly the path; host, port, user
  and transport do not appear.
\<close>
theorem RemoteURI_local:
  assumes "Get uri ''name'' = ''''" and "Scheme uri = driver \<or> Scheme uri = driver @ ''+'' @ tr"
    and "driver \<noteq> ''''" and "CHR ''+'' \<notin> set driver" and "Path uri = ''/'' @ p"
  shows "\<exists>rest. RemoteURI uri = driver @ ''://'' @ rest \<and> url_unescape rest = Path uri \<and>
    CHR ''?'' \<notin> set rest \<and> CHR ''#'' \<notin> set rest"
proof -
  have "hd (split_char CHR ''+'' (Scheme uri)) = driver"
  proof -
    have "\<forall>c \<in> set driver. c \<noteq> CHR ''+''" using assms(4) by auto
    then have d: "takeWhile (\<lambda>c. c \<noteq> CHR ''+'') (driver @ ''+'' @ tr) = driver"
      "takeWhile (\<lambda>c. c \<noteq> CHR ''+'') driver = driver"
      by (simp_all add: takeWhile_eq_all_conv)
    show ?thesis using assms(2) by (elim disjE) (simp_all only: split_char_hd d)
  qed
  then have "RemoteURI uri = driver @ ''://'' @ url_escape (Path uri)"
    using assms(1,3,5) by (simp add: RemoteURI_def url_String_def EscapedPath_def Let_def)
  then show ?thesis using unescape_escape escape_plain [of "Path uri"] by auto
qed

theorem RemoteURI_local_witness:
  "\<exists>rest. RemoteURI \<lparr>Scheme = ''qemu+ssh'', User = Some (''root'', None), Host = ''node1:22'', Path = ''/a b'',
      Query = []\<rparr> = ''qemu://'' @ rest \<and> url_unescape rest = ''/a b'' \<and>
    CHR ''?'' \<notin> set rest \<and> CHR ''#'' \<notin> set rest"
  using RemoteURI_local [of "\<lparr>Scheme = ''qemu+ssh'', User = Some (''root'', None), Host = ''node1:22'',
      Path = ''/a b'', Query = []\<rparr>" "''qemu''" "''ssh''" "''a b''"]
  by (simp add: Get_def)

end
