(* ===== verification/Protocol_Types_Common.thy ===== *)
theory Protocol_Types_Common
  imports Protocol_Types
begin

text \<open>
  The generated types that are shared by the arguments and results of the calls: flags, optional
  values, objects and records. They are translated from
  \<open>src/remote_protocol.gen.go\<close> and \<open>src/const.gen.go\<close>.
\<close>

definition ty_NetworkPort :: ty where [proto_types]:
  "ty_NetworkPort = TStruct ''libvirt.NetworkPort''
     [fld ty_Network, fld ty_UUID]"

definition ty_Nwfilter :: ty where [proto_types]:
  "ty_Nwfilter = TStruct ''libvirt.Nwfilter''
     [fld TString, fld ty_UUID]"

definition ty_NwfilterBinding :: ty where [proto_types]:
  "ty_NwfilterBinding = TStruct ''libvirt.NwfilterBinding''
     [fld TString, fld TString]"

definition ty_Interface :: ty where [proto_types]:
  "ty_Interface = TStruct ''libvirt.Interface''
     [fld TString, fld TString]"

definition ty_NodeDevice :: ty where [proto_types]:
  "ty_NodeDevice = TStruct ''libvirt.NodeDevice''
     [fld TString]"

definition ty_DomainCheckpoint :: ty where [proto_types]:
  "ty_DomainCheckpoint = TStruct ''libvirt.DomainCheckpoint''
     [fld TString, fld ty_Domain]"

definition ty_DomainSnapshot :: ty where [proto_types]:
  "ty_DomainSnapshot = TStruct ''libvirt.DomainSnapshot''
     [fld TString, fld ty_Domain]"

definition ty_OptNetwork :: ty where [proto_types]:
  "ty_OptNetwork = TNamed ''libvirt.OptNetwork'' (TSlice ty_Network)"

definition ty_remote_error :: ty where [proto_types]:
  "ty_remote_error = TStruct ''libvirt.remote_error''
     [fld TInt32, fld TInt32, fld ty_OptString, fld TInt32, fld ty_OptDomain, fld ty_OptString,
      fld ty_OptString, fld ty_OptString, fld TInt32, fld TInt32, fld ty_OptNetwork]"

definition ty_VcpuInfo :: ty where [proto_types]:
  "ty_VcpuInfo = TStruct ''libvirt.VcpuInfo''
     [fld TUint32, fld TInt32, fld TUint64, fld TInt32]"

definition ty_NodeGetCPUStats :: ty where [proto_types]:
  "ty_NodeGetCPUStats = TStruct ''libvirt.NodeGetCPUStats''
     [fld TString, fld TUint64]"

definition ty_NodeGetMemoryStats :: ty where [proto_types]:
  "ty_NodeGetMemoryStats = TStruct ''libvirt.NodeGetMemoryStats''
     [fld TString, fld TUint64]"

definition ty_DomainDiskError :: ty where [proto_types]:
  "ty_DomainDiskError = TStruct ''libvirt.DomainDiskError''
     [fld TString, fld TInt32]"

definition ty_ConnectGetDomainCapabilitiesFlags :: ty where [proto_types]:
  "ty_ConnectGetDomainCapabilitiesFlags = TNamed ''libvirt.ConnectGetDomainCapabilitiesFlags'' TInt32"

definition ty_DomainBlockResizeFlags :: ty where [proto_types]:
  "ty_DomainBlockResizeFlags = TNamed ''libvirt.DomainBlockResizeFlags'' TInt32"

definition ty_DomainModificationImpact :: ty where [proto_types]:
  "ty_DomainModificationImpact = TNamed ''libvirt.DomainModificationImpact'' TInt32"

definition ty_DomainMemoryFlags :: ty where [proto_types]:
  "ty_DomainMemoryFlags = TNamed ''libvirt.DomainMemoryFlags'' TInt32"

definition ty_DomainMemoryModFlags :: ty where [proto_types]:
  "ty_DomainMemoryModFlags = TNamed ''libvirt.DomainMemoryModFlags'' TInt32"

definition ty_DomainCoreDumpFlags :: ty where [proto_types]:
  "ty_DomainCoreDumpFlags = TNamed ''libvirt.DomainCoreDumpFlags'' TInt32"

definition ty_DomainIothreadInfo :: ty where [proto_types]:
  "ty_DomainIothreadInfo = TStruct ''libvirt.DomainIothreadInfo''
     [fld TUint32, fld (TSlice TUint8)]"

definition ty_DomainDeviceModifyFlags :: ty where [proto_types]:
  "ty_DomainDeviceModifyFlags = TNamed ''libvirt.DomainDeviceModifyFlags'' TInt32"

definition ty_DomainBlockJobAbortFlags :: ty where [proto_types]:
  "ty_DomainBlockJobAbortFlags = TNamed ''libvirt.DomainBlockJobAbortFlags'' TInt32"

definition ty_DomainBlockJobSetSpeedFlags :: ty where [proto_types]:
  "ty_DomainBlockJobSetSpeedFlags = TNamed ''libvirt.DomainBlockJobSetSpeedFlags'' TInt32"

definition ty_DomainBlockPullFlags :: ty where [proto_types]:
  "ty_DomainBlockPullFlags = TNamed ''libvirt.DomainBlockPullFlags'' TInt32"

definition ty_DomainBlockRebaseFlags :: ty where [proto_types]:
  "ty_DomainBlockRebaseFlags = TNamed ''libvirt.DomainBlockRebaseFlags'' TInt32"

definition ty_DomainBlockCopyFlags :: ty where [proto_types]:
  "ty_DomainBlockCopyFlags = TNamed ''libvirt.DomainBlockCopyFlags'' TInt32"

definition ty_DomainBlockCommitFlags :: ty where [proto_types]:
  "ty_DomainBlockCommitFlags = TNamed ''libvirt.DomainBlockCommitFlags'' TInt32"

definition ty_TypedParameterFlags :: ty where [proto_types]:
  "ty_TypedParameterFlags = TNamed ''libvirt.TypedParameterFlags'' TInt32"

definition ty_DomainGetHostnameFlags :: ty where [proto_types]:
  "ty_DomainGetHostnameFlags = TNamed ''libvirt.DomainGetHostnameFlags'' TInt32"

definition ty_StoragePoolCreateFlags :: ty where [proto_types]:
  "ty_StoragePoolCreateFlags = TNamed ''libvirt.StoragePoolCreateFlags'' TInt32"

definition ty_StoragePoolBuildFlags :: ty where [proto_types]:
  "ty_StoragePoolBuildFlags = TNamed ''libvirt.StoragePoolBuildFlags'' TInt32"

definition ty_StoragePoolDeleteFlags :: ty where [proto_types]:
  "ty_StoragePoolDeleteFlags = TNamed ''libvirt.StoragePoolDeleteFlags'' TInt32"

definition ty_StorageXMLFlags :: ty where [proto_types]:
  "ty_StorageXMLFlags = TNamed ''libvirt.StorageXMLFlags'' TInt32"

definition ty_StorageVolCreateFlags :: ty where [proto_types]:
  "ty_StorageVolCreateFlags = TNamed ''libvirt.StorageVolCreateFlags'' TInt32"

definition ty_StorageVolDeleteFlags :: ty where [proto_types]:
  "ty_StorageVolDeleteFlags = TNamed ''libvirt.StorageVolDeleteFlags'' TInt32"

definition ty_StorageVolResizeFlags :: ty where [proto_types]:
  "ty_StorageVolResizeFlags = TNamed ''libvirt.StorageVolResizeFlags'' TInt32"

definition ty_NodeDeviceCreateXMLFlags :: ty where [proto_types]:
  "ty_NodeDeviceCreateXMLFlags = TNamed ''libvirt.NodeDeviceCreateXMLFlags'' TInt32"

definition ty_NodeDeviceDefineXMLFlags :: ty where [proto_types]:
  "ty_NodeDeviceDefineXMLFlags = TNamed ''libvirt.NodeDeviceDefineXMLFlags'' TInt32"

definition ty_NodeDeviceUpdateFlags :: ty where [proto_types]:
  "ty_NodeDeviceUpdateFlags = TNamed ''libvirt.NodeDeviceUpdateFlags'' TInt32"

definition ty_ConnectCompareCPUFlags :: ty where [proto_types]:
  "ty_ConnectCompareCPUFlags = TNamed ''libvirt.ConnectCompareCPUFlags'' TInt32"

definition ty_ConnectBaselineCPUFlags :: ty where [proto_types]:
  "ty_ConnectBaselineCPUFlags = TNamed ''libvirt.ConnectBaselineCPUFlags'' TInt32"

definition ty_DomainGetJobStatsFlags :: ty where [proto_types]:
  "ty_DomainGetJobStatsFlags = TNamed ''libvirt.DomainGetJobStatsFlags'' TInt32"

definition ty_DomainSaveRestoreFlags :: ty where [proto_types]:
  "ty_DomainSaveRestoreFlags = TNamed ''libvirt.DomainSaveRestoreFlags'' TInt32"

definition ty_DomainSnapshotDeleteFlags :: ty where [proto_types]:
  "ty_DomainSnapshotDeleteFlags = TNamed ''libvirt.DomainSnapshotDeleteFlags'' TInt32"

definition ty_DomainOpenGraphicsFlags :: ty where [proto_types]:
  "ty_DomainOpenGraphicsFlags = TNamed ''libvirt.DomainOpenGraphicsFlags'' TInt32"

definition ty_ConnectListAllNetworksFlags :: ty where [proto_types]:
  "ty_ConnectListAllNetworksFlags = TNamed ''libvirt.ConnectListAllNetworksFlags'' TInt32"

definition ty_ConnectListAllInterfacesFlags :: ty where [proto_types]:
  "ty_ConnectListAllInterfacesFlags = TNamed ''libvirt.ConnectListAllInterfacesFlags'' TInt32"

definition ty_DomainSetTimeFlags :: ty where [proto_types]:
  "ty_DomainSetTimeFlags = TNamed ''libvirt.DomainSetTimeFlags'' TInt32"

definition ty_DomainMigrateFlags :: ty where [proto_types]:
  "ty_DomainMigrateFlags = TNamed ''libvirt.DomainMigrateFlags'' TInt32"

definition ty_OptStoragePool :: ty where [proto_types]:
  "ty_OptStoragePool = TNamed ''libvirt.OptStoragePool'' (TSlice ty_StoragePool)"

definition ty_OptNodeDevice :: ty where [proto_types]:
  "ty_OptNodeDevice = TNamed ''libvirt.OptNodeDevice'' (TSlice ty_NodeDevice)"

definition ty_NodeAllocPagesFlags :: ty where [proto_types]:
  "ty_NodeAllocPagesFlags = TNamed ''libvirt.NodeAllocPagesFlags'' TInt32"

definition ty_NetworkDhcpLease :: ty where [proto_types]:
  "ty_NetworkDhcpLease = TStruct ''libvirt.NetworkDhcpLease''
     [fld TString, fld TInt64, fld TInt32, fld ty_OptString, fld ty_OptString, fld TString,
      fld TUint32, fld ty_OptString, fld ty_OptString]"

definition ty_DomainStatsRecord :: ty where [proto_types]:
  "ty_DomainStatsRecord = TStruct ''libvirt.DomainStatsRecord''
     [fld ty_Domain, fld (TSlice ty_TypedParam)]"

definition ty_DomainFsinfo :: ty where [proto_types]:
  "ty_DomainFsinfo = TStruct ''libvirt.DomainFsinfo''
     [fld TString, fld TString, fld TString, fld (TSlice TString)]"

definition ty_DomainIPAddr :: ty where [proto_types]:
  "ty_DomainIPAddr = TStruct ''libvirt.DomainIPAddr''
     [fld TInt32, fld TString, fld TUint32]"

definition ty_DomainInterface :: ty where [proto_types]:
  "ty_DomainInterface = TStruct ''libvirt.DomainInterface''
     [fld TString, fld ty_OptString, fld (TSlice ty_DomainIPAddr)]"

definition ty_DomainSetUserPasswordFlags :: ty where [proto_types]:
  "ty_DomainSetUserPasswordFlags = TNamed ''libvirt.DomainSetUserPasswordFlags'' TInt32"

definition ty_OptSecret :: ty where [proto_types]:
  "ty_OptSecret = TNamed ''libvirt.OptSecret'' (TSlice ty_Secret)"

definition ty_DomainCheckpointDeleteFlags :: ty where [proto_types]:
  "ty_DomainCheckpointDeleteFlags = TNamed ''libvirt.DomainCheckpointDeleteFlags'' TInt32"

definition ty_DomainBackupBeginFlags :: ty where [proto_types]:
  "ty_DomainBackupBeginFlags = TNamed ''libvirt.DomainBackupBeginFlags'' TInt32"

definition ty_OptNetworkPort :: ty where [proto_types]:
  "ty_OptNetworkPort = TNamed ''libvirt.OptNetworkPort'' (TSlice ty_NetworkPort)"

definition ty_OptNwfilter :: ty where [proto_types]:
  "ty_OptNwfilter = TNamed ''libvirt.OptNwfilter'' (TSlice ty_Nwfilter)"

definition ty_OptNwfilterBinding :: ty where [proto_types]:
  "ty_OptNwfilterBinding = TNamed ''libvirt.OptNwfilterBinding'' (TSlice ty_NwfilterBinding)"

definition ty_OptStorageVol :: ty where [proto_types]:
  "ty_OptStorageVol = TNamed ''libvirt.OptStorageVol'' (TSlice ty_StorageVol)"

definition ty_Procedure :: ty where [proto_types]:
  "ty_Procedure = TNamed ''libvirt.Procedure'' TInt32"

definition ty_QEMUProcedure :: ty where [proto_types]:
  "ty_QEMUProcedure = TNamed ''libvirt.QEMUProcedure'' TInt32"

end
