(* ===== verification/Protocol_Types_Domain.thy ===== *)
theory Protocol_Types_Domain
  imports Protocol_Types_Common
begin

text \<open>
  The argument and result structures of the calls on domains. They are translated from
  \<open>src/remote_protocol.gen.go\<close>.
\<close>

definition ty_DomainGetSchedulerTypeArgs :: ty where [proto_types]:
  "ty_DomainGetSchedulerTypeArgs = TStruct ''libvirt.DomainGetSchedulerTypeArgs''
     [fld ty_Domain]"

definition ty_DomainGetSchedulerTypeRet :: ty where [proto_types]:
  "ty_DomainGetSchedulerTypeRet = TStruct ''libvirt.DomainGetSchedulerTypeRet''
     [fld TString, fld TInt32]"

definition ty_DomainGetSchedulerParametersRet :: ty where [proto_types]:
  "ty_DomainGetSchedulerParametersRet = TStruct ''libvirt.DomainGetSchedulerParametersRet''
     [fld (TSlice ty_TypedParam)]"

definition ty_DomainGetSchedulerParametersFlagsArgs :: ty where [proto_types]:
  "ty_DomainGetSchedulerParametersFlagsArgs = TStruct ''libvirt.DomainGetSchedulerParametersFlagsArgs''
     [fld ty_Domain, fld TInt32, fld TUint32]"

definition ty_DomainGetSchedulerParametersFlagsRet :: ty where [proto_types]:
  "ty_DomainGetSchedulerParametersFlagsRet = TStruct ''libvirt.DomainGetSchedulerParametersFlagsRet''
     [fld (TSlice ty_TypedParam)]"

definition ty_DomainSetSchedulerParametersFlagsArgs :: ty where [proto_types]:
  "ty_DomainSetSchedulerParametersFlagsArgs = TStruct ''libvirt.DomainSetSchedulerParametersFlagsArgs''
     [fld ty_Domain, fld (TSlice ty_TypedParam), fld TUint32]"

definition ty_DomainSetBlkioParametersArgs :: ty where [proto_types]:
  "ty_DomainSetBlkioParametersArgs = TStruct ''libvirt.DomainSetBlkioParametersArgs''
     [fld ty_Domain, fld (TSlice ty_TypedParam), fld TUint32]"

definition ty_DomainGetBlkioParametersArgs :: ty where [proto_types]:
  "ty_DomainGetBlkioParametersArgs = TStruct ''libvirt.DomainGetBlkioParametersArgs''
     [fld ty_Domain, fld TInt32, fld TUint32]"

definition ty_DomainGetBlkioParametersRet :: ty where [proto_types]:
  "ty_DomainGetBlkioParametersRet = TStruct ''libvirt.DomainGetBlkioParametersRet''
     [fld (TSlice ty_TypedParam), fld TInt32]"

definition ty_DomainSetMemoryParametersArgs :: ty where [proto_types]:
  "ty_DomainSetMemoryParametersArgs = TStruct ''libvirt.DomainSetMemoryParametersArgs''
     [fld ty_Domain, fld (TSlice ty_TypedParam), fld TUint32]"

definition ty_DomainGetMemoryParametersArgs :: ty where [proto_types]:
  "ty_DomainGetMemoryParametersArgs = TStruct ''libvirt.DomainGetMemoryParametersArgs''
     [fld ty_Domain, fld TInt32, fld TUint32]"

definition ty_DomainGetMemoryParametersRet :: ty where [proto_types]:
  "ty_DomainGetMemoryParametersRet = TStruct ''libvirt.DomainGetMemoryParametersRet''
     [fld (TSlice ty_TypedParam), fld TInt32]"

definition ty_DomainBlockResizeArgs :: ty where [proto_types]:
  "ty_DomainBlockResizeArgs = TStruct ''libvirt.DomainBlockResizeArgs''
     [fld ty_Domain, fld TString, fld TUint64, fld ty_DomainBlockResizeFlags]"

definition ty_DomainSetNumaParametersArgs :: ty where [proto_types]:
  "ty_DomainSetNumaParametersArgs = TStruct ''libvirt.DomainSetNumaParametersArgs''
     [fld ty_Domain, fld (TSlice ty_TypedParam), fld TUint32]"

definition ty_DomainGetNumaParametersArgs :: ty where [proto_types]:
  "ty_DomainGetNumaParametersArgs = TStruct ''libvirt.DomainGetNumaParametersArgs''
     [fld ty_Domain, fld TInt32, fld TUint32]"

definition ty_DomainGetNumaParametersRet :: ty where [proto_types]:
  "ty_DomainGetNumaParametersRet = TStruct ''libvirt.DomainGetNumaParametersRet''
     [fld (TSlice ty_TypedParam), fld TInt32]"

definition ty_DomainSetPerfEventsArgs :: ty where [proto_types]:
  "ty_DomainSetPerfEventsArgs = TStruct ''libvirt.DomainSetPerfEventsArgs''
     [fld ty_Domain, fld (TSlice ty_TypedParam), fld ty_DomainModificationImpact]"

definition ty_DomainGetPerfEventsArgs :: ty where [proto_types]:
  "ty_DomainGetPerfEventsArgs = TStruct ''libvirt.DomainGetPerfEventsArgs''
     [fld ty_Domain, fld ty_DomainModificationImpact]"

definition ty_DomainGetPerfEventsRet :: ty where [proto_types]:
  "ty_DomainGetPerfEventsRet = TStruct ''libvirt.DomainGetPerfEventsRet''
     [fld (TSlice ty_TypedParam)]"

definition ty_DomainBlockStatsRet :: ty where [proto_types]:
  "ty_DomainBlockStatsRet = TStruct ''libvirt.DomainBlockStatsRet''
     [fld TInt64, fld TInt64, fld TInt64, fld TInt64, fld TInt64]"

definition ty_DomainBlockStatsFlagsArgs :: ty where [proto_types]:
  "ty_DomainBlockStatsFlagsArgs = TStruct ''libvirt.DomainBlockStatsFlagsArgs''
     [fld ty_Domain, fld TString, fld TInt32, fld TUint32]"

definition ty_DomainBlockStatsFlagsRet :: ty where [proto_types]:
  "ty_DomainBlockStatsFlagsRet = TStruct ''libvirt.DomainBlockStatsFlagsRet''
     [fld (TSlice ty_TypedParam), fld TInt32]"

definition ty_DomainInterfaceStatsArgs :: ty where [proto_types]:
  "ty_DomainInterfaceStatsArgs = TStruct ''libvirt.DomainInterfaceStatsArgs''
     [fld ty_Domain, fld TString]"

definition ty_DomainInterfaceStatsRet :: ty where [proto_types]:
  "ty_DomainInterfaceStatsRet = TStruct ''libvirt.DomainInterfaceStatsRet''
     [fld TInt64, fld TInt64, fld TInt64, fld TInt64, fld TInt64, fld TInt64, fld TInt64,
      fld TInt64]"

definition ty_DomainSetInterfaceParametersArgs :: ty where [proto_types]:
  "ty_DomainSetInterfaceParametersArgs = TStruct ''libvirt.DomainSetInterfaceParametersArgs''
     [fld ty_Domain, fld TString, fld (TSlice ty_TypedParam), fld TUint32]"

definition ty_DomainGetInterfaceParametersArgs :: ty where [proto_types]:
  "ty_DomainGetInterfaceParametersArgs = TStruct ''libvirt.DomainGetInterfaceParametersArgs''
     [fld ty_Domain, fld TString, fld TInt32, fld ty_DomainModificationImpact]"

definition ty_DomainGetInterfaceParametersRet :: ty where [proto_types]:
  "ty_DomainGetInterfaceParametersRet = TStruct ''libvirt.DomainGetInterfaceParametersRet''
     [fld (TSlice ty_TypedParam), fld TInt32]"

definition ty_DomainMemoryStatsRet :: ty where [proto_types]:
  "ty_DomainMemoryStatsRet = TStruct ''libvirt.DomainMemoryStatsRet''
     [fld (TSlice ty_DomainMemoryStat)]"

definition ty_DomainBlockPeekArgs :: ty where [proto_types]:
  "ty_DomainBlockPeekArgs = TStruct ''libvirt.DomainBlockPeekArgs''
     [fld ty_Domain, fld TString, fld TUint64, fld TUint32, fld TUint32]"

definition ty_DomainBlockPeekRet :: ty where [proto_types]:
  "ty_DomainBlockPeekRet = TStruct ''libvirt.DomainBlockPeekRet''
     [fld (TSlice TUint8)]"

definition ty_DomainMemoryPeekArgs :: ty where [proto_types]:
  "ty_DomainMemoryPeekArgs = TStruct ''libvirt.DomainMemoryPeekArgs''
     [fld ty_Domain, fld TUint64, fld TUint32, fld ty_DomainMemoryFlags]"

definition ty_DomainMemoryPeekRet :: ty where [proto_types]:
  "ty_DomainMemoryPeekRet = TStruct ''libvirt.DomainMemoryPeekRet''
     [fld (TSlice TUint8)]"

definition ty_DomainGetBlockInfoArgs :: ty where [proto_types]:
  "ty_DomainGetBlockInfoArgs = TStruct ''libvirt.DomainGetBlockInfoArgs''
     [fld ty_Domain, fld TString, fld TUint32]"

definition ty_DomainGetBlockInfoRet :: ty where [proto_types]:
  "ty_DomainGetBlockInfoRet = TStruct ''libvirt.DomainGetBlockInfoRet''
     [fld TUint64, fld TUint64, fld TUint64]"

definition ty_DomainCreateXMLRet :: ty where [proto_types]:
  "ty_DomainCreateXMLRet = TStruct ''libvirt.DomainCreateXMLRet''
     [fld ty_Domain]"

definition ty_DomainCreateXMLWithFilesArgs :: ty where [proto_types]:
  "ty_DomainCreateXMLWithFilesArgs = TStruct ''libvirt.DomainCreateXMLWithFilesArgs''
     [fld TString, fld ty_DomainCreateFlags]"

definition ty_DomainCreateXMLWithFilesRet :: ty where [proto_types]:
  "ty_DomainCreateXMLWithFilesRet = TStruct ''libvirt.DomainCreateXMLWithFilesRet''
     [fld ty_Domain]"

definition ty_DomainLookupByIDRet :: ty where [proto_types]:
  "ty_DomainLookupByIDRet = TStruct ''libvirt.DomainLookupByIDRet''
     [fld ty_Domain]"

definition ty_DomainLookupByUUIDRet :: ty where [proto_types]:
  "ty_DomainLookupByUUIDRet = TStruct ''libvirt.DomainLookupByUUIDRet''
     [fld ty_Domain]"

definition ty_DomainLookupByNameRet :: ty where [proto_types]:
  "ty_DomainLookupByNameRet = TStruct ''libvirt.DomainLookupByNameRet''
     [fld ty_Domain]"

definition ty_DomainSuspendArgs :: ty where [proto_types]:
  "ty_DomainSuspendArgs = TStruct ''libvirt.DomainSuspendArgs''
     [fld ty_Domain]"

definition ty_DomainResumeArgs :: ty where [proto_types]:
  "ty_DomainResumeArgs = TStruct ''libvirt.DomainResumeArgs''
     [fld ty_Domain]"

definition ty_DomainPmSuspendForDurationArgs :: ty where [proto_types]:
  "ty_DomainPmSuspendForDurationArgs = TStruct ''libvirt.DomainPmSuspendForDurationArgs''
     [fld ty_Domain, fld TUint32, fld TUint64, fld TUint32]"

definition ty_DomainPmWakeupArgs :: ty where [proto_types]:
  "ty_DomainPmWakeupArgs = TStruct ''libvirt.DomainPmWakeupArgs''
     [fld ty_Domain, fld TUint32]"

definition ty_DomainShutdownArgs :: ty where [proto_types]:
  "ty_DomainShutdownArgs = TStruct ''libvirt.DomainShutdownArgs''
     [fld ty_Domain]"

definition ty_DomainDestroyArgs :: ty where [proto_types]:
  "ty_DomainDestroyArgs = TStruct ''libvirt.DomainDestroyArgs''
     [fld ty_Domain]"

definition ty_DomainGetOsTypeArgs :: ty where [proto_types]:
  "ty_DomainGetOsTypeArgs = TStruct ''libvirt.DomainGetOsTypeArgs''
     [fld ty_Domain]"

definition ty_DomainGetOsTypeRet :: ty where [proto_types]:
  "ty_DomainGetOsTypeRet = TStruct ''libvirt.DomainGetOsTypeRet''
     [fld TString]"

definition ty_DomainGetMaxMemoryArgs :: ty where [proto_types]:
  "ty_DomainGetMaxMemoryArgs = TStruct ''libvirt.DomainGetMaxMemoryArgs''
     [fld ty_Domain]"

definition ty_DomainGetMaxMemoryRet :: ty where [proto_types]:
  "ty_DomainGetMaxMemoryRet = TStruct ''libvirt.DomainGetMaxMemoryRet''
     [fld TUint64]"

definition ty_DomainSetMaxMemoryArgs :: ty where [proto_types]:
  "ty_DomainSetMaxMemoryArgs = TStruct ''libvirt.DomainSetMaxMemoryArgs''
     [fld ty_Domain, fld TUint64]"

definition ty_DomainSetMemoryFlagsArgs :: ty where [proto_types]:
  "ty_DomainSetMemoryFlagsArgs = TStruct ''libvirt.DomainSetMemoryFlagsArgs''
     [fld ty_Domain, fld TUint64, fld TUint32]"

definition ty_DomainSetMemoryStatsPeriodArgs :: ty where [proto_types]:
  "ty_DomainSetMemoryStatsPeriodArgs = TStruct ''libvirt.DomainSetMemoryStatsPeriodArgs''
     [fld ty_Domain, fld TInt32, fld ty_DomainMemoryModFlags]"

definition ty_DomainGetInfoRet :: ty where [proto_types]:
  "ty_DomainGetInfoRet = TStruct ''libvirt.DomainGetInfoRet''
     [fld TUint8, fld TUint64, fld TUint64, fld TUint16, fld TUint64]"

definition ty_DomainSaveArgs :: ty where [proto_types]:
  "ty_DomainSaveArgs = TStruct ''libvirt.DomainSaveArgs''
     [fld ty_Domain, fld TString]"

definition ty_DomainSaveFlagsArgs :: ty where [proto_types]:
  "ty_DomainSaveFlagsArgs = TStruct ''libvirt.DomainSaveFlagsArgs''
     [fld ty_Domain, fld TString, fld ty_OptString, fld TUint32]"

definition ty_DomainSaveParamsArgs :: ty where [proto_types]:
  "ty_DomainSaveParamsArgs = TStruct ''libvirt.DomainSaveParamsArgs''
     [fld ty_Domain, fld (TSlice ty_TypedParam), fld TUint32]"

definition ty_DomainRestoreArgs :: ty where [proto_types]:
  "ty_DomainRestoreArgs = TStruct ''libvirt.DomainRestoreArgs''
     [fld TString]"

definition ty_DomainRestoreFlagsArgs :: ty where [proto_types]:
  "ty_DomainRestoreFlagsArgs = TStruct ''libvirt.DomainRestoreFlagsArgs''
     [fld TString, fld ty_OptString, fld TUint32]"

definition ty_DomainRestoreParamsArgs :: ty where [proto_types]:
  "ty_DomainRestoreParamsArgs = TStruct ''libvirt.DomainRestoreParamsArgs''
     [fld (TSlice ty_TypedParam), fld TUint32]"

definition ty_DomainSaveImageGetXMLDescArgs :: ty where [proto_types]:
  "ty_DomainSaveImageGetXMLDescArgs = TStruct ''libvirt.DomainSaveImageGetXMLDescArgs''
     [fld TString, fld TUint32]"

definition ty_DomainSaveImageGetXMLDescRet :: ty where [proto_types]:
  "ty_DomainSaveImageGetXMLDescRet = TStruct ''libvirt.DomainSaveImageGetXMLDescRet''
     [fld TString]"

definition ty_DomainSaveImageDefineXMLArgs :: ty where [proto_types]:
  "ty_DomainSaveImageDefineXMLArgs = TStruct ''libvirt.DomainSaveImageDefineXMLArgs''
     [fld TString, fld TString, fld TUint32]"

definition ty_DomainCoreDumpArgs :: ty where [proto_types]:
  "ty_DomainCoreDumpArgs = TStruct ''libvirt.DomainCoreDumpArgs''
     [fld ty_Domain, fld TString, fld ty_DomainCoreDumpFlags]"

definition ty_DomainCoreDumpWithFormatArgs :: ty where [proto_types]:
  "ty_DomainCoreDumpWithFormatArgs = TStruct ''libvirt.DomainCoreDumpWithFormatArgs''
     [fld ty_Domain, fld TString, fld TUint32, fld ty_DomainCoreDumpFlags]"

definition ty_DomainScreenshotRet :: ty where [proto_types]:
  "ty_DomainScreenshotRet = TStruct ''libvirt.DomainScreenshotRet''
     [fld ty_OptString]"

definition ty_DomainGetXMLDescRet :: ty where [proto_types]:
  "ty_DomainGetXMLDescRet = TStruct ''libvirt.DomainGetXMLDescRet''
     [fld TString]"

definition ty_DomainMigratePrepareArgs :: ty where [proto_types]:
  "ty_DomainMigratePrepareArgs = TStruct ''libvirt.DomainMigratePrepareArgs''
     [fld ty_OptString, fld TUint64, fld ty_OptString, fld TUint64]"

definition ty_DomainMigratePrepareRet :: ty where [proto_types]:
  "ty_DomainMigratePrepareRet = TStruct ''libvirt.DomainMigratePrepareRet''
     [fld (TSlice TUint8), fld ty_OptString]"

definition ty_DomainMigrateFinishArgs :: ty where [proto_types]:
  "ty_DomainMigrateFinishArgs = TStruct ''libvirt.DomainMigrateFinishArgs''
     [fld TString, fld (TSlice TUint8), fld TString, fld TUint64]"

definition ty_DomainMigrateFinishRet :: ty where [proto_types]:
  "ty_DomainMigrateFinishRet = TStruct ''libvirt.DomainMigrateFinishRet''
     [fld ty_Domain]"

definition ty_DomainMigratePrepare2Args :: ty where [proto_types]:
  "ty_DomainMigratePrepare2Args = TStruct ''libvirt.DomainMigratePrepare2Args''
     [fld ty_OptString, fld TUint64, fld ty_OptString, fld TUint64, fld TString]"

definition ty_DomainMigratePrepare2Ret :: ty where [proto_types]:
  "ty_DomainMigratePrepare2Ret = TStruct ''libvirt.DomainMigratePrepare2Ret''
     [fld (TSlice TUint8), fld ty_OptString]"

definition ty_DomainMigrateFinish2Args :: ty where [proto_types]:
  "ty_DomainMigrateFinish2Args = TStruct ''libvirt.DomainMigrateFinish2Args''
     [fld TString, fld (TSlice TUint8), fld TString, fld TUint64, fld TInt32]"

definition ty_DomainMigrateFinish2Ret :: ty where [proto_types]:
  "ty_DomainMigrateFinish2Ret = TStruct ''libvirt.DomainMigrateFinish2Ret''
     [fld ty_Domain]"

definition ty_DomainCreateWithFlagsArgs :: ty where [proto_types]:
  "ty_DomainCreateWithFlagsArgs = TStruct ''libvirt.DomainCreateWithFlagsArgs''
     [fld ty_Domain, fld TUint32]"

definition ty_DomainCreateWithFlagsRet :: ty where [proto_types]:
  "ty_DomainCreateWithFlagsRet = TStruct ''libvirt.DomainCreateWithFlagsRet''
     [fld ty_Domain]"

definition ty_DomainCreateWithFilesArgs :: ty where [proto_types]:
  "ty_DomainCreateWithFilesArgs = TStruct ''libvirt.DomainCreateWithFilesArgs''
     [fld ty_Domain, fld ty_DomainCreateFlags]"

definition ty_DomainCreateWithFilesRet :: ty where [proto_types]:
  "ty_DomainCreateWithFilesRet = TStruct ''libvirt.DomainCreateWithFilesRet''
     [fld ty_Domain]"

definition ty_DomainDefineXMLArgs :: ty where [proto_types]:
  "ty_DomainDefineXMLArgs = TStruct ''libvirt.DomainDefineXMLArgs''
     [fld TString]"

definition ty_DomainDefineXMLRet :: ty where [proto_types]:
  "ty_DomainDefineXMLRet = TStruct ''libvirt.DomainDefineXMLRet''
     [fld ty_Domain]"

definition ty_DomainDefineXMLFlagsRet :: ty where [proto_types]:
  "ty_DomainDefineXMLFlagsRet = TStruct ''libvirt.DomainDefineXMLFlagsRet''
     [fld ty_Domain]"

definition ty_DomainUndefineArgs :: ty where [proto_types]:
  "ty_DomainUndefineArgs = TStruct ''libvirt.DomainUndefineArgs''
     [fld ty_Domain]"

definition ty_DomainInjectNmiArgs :: ty where [proto_types]:
  "ty_DomainInjectNmiArgs = TStruct ''libvirt.DomainInjectNmiArgs''
     [fld ty_Domain, fld TUint32]"

definition ty_DomainSendKeyArgs :: ty where [proto_types]:
  "ty_DomainSendKeyArgs = TStruct ''libvirt.DomainSendKeyArgs''
     [fld ty_Domain, fld TUint32, fld TUint32, fld (TSlice TUint32), fld TUint32]"

definition ty_DomainSendProcessSignalArgs :: ty where [proto_types]:
  "ty_DomainSendProcessSignalArgs = TStruct ''libvirt.DomainSendProcessSignalArgs''
     [fld ty_Domain, fld TInt64, fld TUint32, fld TUint32]"

definition ty_DomainSetVcpusArgs :: ty where [proto_types]:
  "ty_DomainSetVcpusArgs = TStruct ''libvirt.DomainSetVcpusArgs''
     [fld ty_Domain, fld TUint32]"

definition ty_DomainSetVcpusFlagsArgs :: ty where [proto_types]:
  "ty_DomainSetVcpusFlagsArgs = TStruct ''libvirt.DomainSetVcpusFlagsArgs''
     [fld ty_Domain, fld TUint32, fld TUint32]"

definition ty_DomainGetVcpusFlagsArgs :: ty where [proto_types]:
  "ty_DomainGetVcpusFlagsArgs = TStruct ''libvirt.DomainGetVcpusFlagsArgs''
     [fld ty_Domain, fld TUint32]"

definition ty_DomainGetVcpusFlagsRet :: ty where [proto_types]:
  "ty_DomainGetVcpusFlagsRet = TStruct ''libvirt.DomainGetVcpusFlagsRet''
     [fld TInt32]"

definition ty_DomainPinVcpuArgs :: ty where [proto_types]:
  "ty_DomainPinVcpuArgs = TStruct ''libvirt.DomainPinVcpuArgs''
     [fld ty_Domain, fld TUint32, fld (TSlice TUint8)]"

definition ty_DomainPinVcpuFlagsArgs :: ty where [proto_types]:
  "ty_DomainPinVcpuFlagsArgs = TStruct ''libvirt.DomainPinVcpuFlagsArgs''
     [fld ty_Domain, fld TUint32, fld (TSlice TUint8), fld TUint32]"

definition ty_DomainGetVcpuPinInfoArgs :: ty where [proto_types]:
  "ty_DomainGetVcpuPinInfoArgs = TStruct ''libvirt.DomainGetVcpuPinInfoArgs''
     [fld ty_Domain, fld TInt32, fld TInt32, fld TUint32]"

definition ty_DomainGetVcpuPinInfoRet :: ty where [proto_types]:
  "ty_DomainGetVcpuPinInfoRet = TStruct ''libvirt.DomainGetVcpuPinInfoRet''
     [fld (TSlice TUint8), fld TInt32]"

definition ty_DomainPinEmulatorArgs :: ty where [proto_types]:
  "ty_DomainPinEmulatorArgs = TStruct ''libvirt.DomainPinEmulatorArgs''
     [fld ty_Domain, fld (TSlice TUint8), fld ty_DomainModificationImpact]"

definition ty_DomainGetEmulatorPinInfoArgs :: ty where [proto_types]:
  "ty_DomainGetEmulatorPinInfoArgs = TStruct ''libvirt.DomainGetEmulatorPinInfoArgs''
     [fld ty_Domain, fld TInt32, fld ty_DomainModificationImpact]"

definition ty_DomainGetEmulatorPinInfoRet :: ty where [proto_types]:
  "ty_DomainGetEmulatorPinInfoRet = TStruct ''libvirt.DomainGetEmulatorPinInfoRet''
     [fld (TSlice TUint8), fld TInt32]"

definition ty_DomainGetVcpusArgs :: ty where [proto_types]:
  "ty_DomainGetVcpusArgs = TStruct ''libvirt.DomainGetVcpusArgs''
     [fld ty_Domain, fld TInt32, fld TInt32]"

definition ty_DomainGetVcpusRet :: ty where [proto_types]:
  "ty_DomainGetVcpusRet = TStruct ''libvirt.DomainGetVcpusRet''
     [fld (TSlice ty_VcpuInfo), fld (TSlice TUint8)]"

definition ty_DomainGetMaxVcpusArgs :: ty where [proto_types]:
  "ty_DomainGetMaxVcpusArgs = TStruct ''libvirt.DomainGetMaxVcpusArgs''
     [fld ty_Domain]"

definition ty_DomainGetMaxVcpusRet :: ty where [proto_types]:
  "ty_DomainGetMaxVcpusRet = TStruct ''libvirt.DomainGetMaxVcpusRet''
     [fld TInt32]"

definition ty_DomainGetIothreadInfoArgs :: ty where [proto_types]:
  "ty_DomainGetIothreadInfoArgs = TStruct ''libvirt.DomainGetIothreadInfoArgs''
     [fld ty_Domain, fld ty_DomainModificationImpact]"

definition ty_DomainGetIothreadInfoRet :: ty where [proto_types]:
  "ty_DomainGetIothreadInfoRet = TStruct ''libvirt.DomainGetIothreadInfoRet''
     [fld (TSlice ty_DomainIothreadInfo), fld TUint32]"

definition ty_DomainPinIothreadArgs :: ty where [proto_types]:
  "ty_DomainPinIothreadArgs = TStruct ''libvirt.DomainPinIothreadArgs''
     [fld ty_Domain, fld TUint32, fld (TSlice TUint8), fld ty_DomainModificationImpact]"

definition ty_DomainAddIothreadArgs :: ty where [proto_types]:
  "ty_DomainAddIothreadArgs = TStruct ''libvirt.DomainAddIothreadArgs''
     [fld ty_Domain, fld TUint32, fld ty_DomainModificationImpact]"

definition ty_DomainDelIothreadArgs :: ty where [proto_types]:
  "ty_DomainDelIothreadArgs = TStruct ''libvirt.DomainDelIothreadArgs''
     [fld ty_Domain, fld TUint32, fld ty_DomainModificationImpact]"

definition ty_DomainSetIothreadParamsArgs :: ty where [proto_types]:
  "ty_DomainSetIothreadParamsArgs = TStruct ''libvirt.DomainSetIothreadParamsArgs''
     [fld ty_Domain, fld TUint32, fld (TSlice ty_TypedParam), fld TUint32]"

definition ty_DomainGetSecurityLabelArgs :: ty where [proto_types]:
  "ty_DomainGetSecurityLabelArgs = TStruct ''libvirt.DomainGetSecurityLabelArgs''
     [fld ty_Domain]"

definition ty_DomainGetSecurityLabelRet :: ty where [proto_types]:
  "ty_DomainGetSecurityLabelRet = TStruct ''libvirt.DomainGetSecurityLabelRet''
     [fld (TSlice TInt8), fld TInt32]"

definition ty_DomainGetSecurityLabelListArgs :: ty where [proto_types]:
  "ty_DomainGetSecurityLabelListArgs = TStruct ''libvirt.DomainGetSecurityLabelListArgs''
     [fld ty_Domain]"

definition ty_DomainGetSecurityLabelListRet :: ty where [proto_types]:
  "ty_DomainGetSecurityLabelListRet = TStruct ''libvirt.DomainGetSecurityLabelListRet''
     [fld (TSlice ty_DomainGetSecurityLabelRet), fld TInt32]"

definition ty_DomainAttachDeviceArgs :: ty where [proto_types]:
  "ty_DomainAttachDeviceArgs = TStruct ''libvirt.DomainAttachDeviceArgs''
     [fld ty_Domain, fld TString]"

definition ty_DomainAttachDeviceFlagsArgs :: ty where [proto_types]:
  "ty_DomainAttachDeviceFlagsArgs = TStruct ''libvirt.DomainAttachDeviceFlagsArgs''
     [fld ty_Domain, fld TString, fld TUint32]"

definition ty_DomainDetachDeviceArgs :: ty where [proto_types]:
  "ty_DomainDetachDeviceArgs = TStruct ''libvirt.DomainDetachDeviceArgs''
     [fld ty_Domain, fld TString]"

definition ty_DomainDetachDeviceFlagsArgs :: ty where [proto_types]:
  "ty_DomainDetachDeviceFlagsArgs = TStruct ''libvirt.DomainDetachDeviceFlagsArgs''
     [fld ty_Domain, fld TString, fld TUint32]"

definition ty_DomainUpdateDeviceFlagsArgs :: ty where [proto_types]:
  "ty_DomainUpdateDeviceFlagsArgs = TStruct ''libvirt.DomainUpdateDeviceFlagsArgs''
     [fld ty_Domain, fld TString, fld ty_DomainDeviceModifyFlags]"

definition ty_DomainDetachDeviceAliasArgs :: ty where [proto_types]:
  "ty_DomainDetachDeviceAliasArgs = TStruct ''libvirt.DomainDetachDeviceAliasArgs''
     [fld ty_Domain, fld TString, fld TUint32]"

definition ty_DomainGetAutostartArgs :: ty where [proto_types]:
  "ty_DomainGetAutostartArgs = TStruct ''libvirt.DomainGetAutostartArgs''
     [fld ty_Domain]"

definition ty_DomainGetAutostartRet :: ty where [proto_types]:
  "ty_DomainGetAutostartRet = TStruct ''libvirt.DomainGetAutostartRet''
     [fld TInt32]"

definition ty_DomainSetAutostartArgs :: ty where [proto_types]:
  "ty_DomainSetAutostartArgs = TStruct ''libvirt.DomainSetAutostartArgs''
     [fld ty_Domain, fld TInt32]"

definition ty_DomainSetMetadataArgs :: ty where [proto_types]:
  "ty_DomainSetMetadataArgs = TStruct ''libvirt.DomainSetMetadataArgs''
     [fld ty_Domain, fld TInt32, fld ty_OptString, fld ty_OptString, fld ty_OptString,
      fld ty_DomainModificationImpact]"

definition ty_DomainGetMetadataArgs :: ty where [proto_types]:
  "ty_DomainGetMetadataArgs = TStruct ''libvirt.DomainGetMetadataArgs''
     [fld ty_Domain, fld TInt32, fld ty_OptString, fld ty_DomainModificationImpact]"

definition ty_DomainGetMetadataRet :: ty where [proto_types]:
  "ty_DomainGetMetadataRet = TStruct ''libvirt.DomainGetMetadataRet''
     [fld TString]"

definition ty_DomainBlockJobAbortArgs :: ty where [proto_types]:
  "ty_DomainBlockJobAbortArgs = TStruct ''libvirt.DomainBlockJobAbortArgs''
     [fld ty_Domain, fld TString, fld ty_DomainBlockJobAbortFlags]"

definition ty_DomainGetBlockJobInfoArgs :: ty where [proto_types]:
  "ty_DomainGetBlockJobInfoArgs = TStruct ''libvirt.DomainGetBlockJobInfoArgs''
     [fld ty_Domain, fld TString, fld TUint32]"

definition ty_DomainGetBlockJobInfoRet :: ty where [proto_types]:
  "ty_DomainGetBlockJobInfoRet = TStruct ''libvirt.DomainGetBlockJobInfoRet''
     [fld TInt32, fld TInt32, fld TUint64, fld TUint64, fld TUint64]"

definition ty_DomainBlockJobSetSpeedArgs :: ty where [proto_types]:
  "ty_DomainBlockJobSetSpeedArgs = TStruct ''libvirt.DomainBlockJobSetSpeedArgs''
     [fld ty_Domain, fld TString, fld TUint64, fld ty_DomainBlockJobSetSpeedFlags]"

definition ty_DomainBlockPullArgs :: ty where [proto_types]:
  "ty_DomainBlockPullArgs = TStruct ''libvirt.DomainBlockPullArgs''
     [fld ty_Domain, fld TString, fld TUint64, fld ty_DomainBlockPullFlags]"

definition ty_DomainBlockRebaseArgs :: ty where [proto_types]:
  "ty_DomainBlockRebaseArgs = TStruct ''libvirt.DomainBlockRebaseArgs''
     [fld ty_Domain, fld TString, fld ty_OptString, fld TUint64, fld ty_DomainBlockRebaseFlags]"

definition ty_DomainBlockCopyArgs :: ty where [proto_types]:
  "ty_DomainBlockCopyArgs = TStruct ''libvirt.DomainBlockCopyArgs''
     [fld ty_Domain, fld TString, fld TString, fld (TSlice ty_TypedParam),
      fld ty_DomainBlockCopyFlags]"

definition ty_DomainBlockCommitArgs :: ty where [proto_types]:
  "ty_DomainBlockCommitArgs = TStruct ''libvirt.DomainBlockCommitArgs''
     [fld ty_Domain, fld TString, fld ty_OptString, fld ty_OptString, fld TUint64,
      fld ty_DomainBlockCommitFlags]"

definition ty_DomainGetBlockIOTuneRet :: ty where [proto_types]:
  "ty_DomainGetBlockIOTuneRet = TStruct ''libvirt.DomainGetBlockIOTuneRet''
     [fld (TSlice ty_TypedParam), fld TInt32]"

definition ty_DomainSetThrottleGroupArgs :: ty where [proto_types]:
  "ty_DomainSetThrottleGroupArgs = TStruct ''libvirt.DomainSetThrottleGroupArgs''
     [fld ty_Domain, fld TString, fld (TSlice ty_TypedParam), fld TUint32]"

definition ty_DomainDelThrottleGroupArgs :: ty where [proto_types]:
  "ty_DomainDelThrottleGroupArgs = TStruct ''libvirt.DomainDelThrottleGroupArgs''
     [fld ty_Domain, fld ty_OptString, fld TUint32]"

definition ty_DomainGetCPUStatsArgs :: ty where [proto_types]:
  "ty_DomainGetCPUStatsArgs = TStruct ''libvirt.DomainGetCPUStatsArgs''
     [fld ty_Domain, fld TUint32, fld TInt32, fld TUint32, fld ty_TypedParameterFlags]"

definition ty_DomainGetCPUStatsRet :: ty where [proto_types]:
  "ty_DomainGetCPUStatsRet = TStruct ''libvirt.DomainGetCPUStatsRet''
     [fld (TSlice ty_TypedParam), fld TInt32]"

definition ty_DomainGetHostnameArgs :: ty where [proto_types]:
  "ty_DomainGetHostnameArgs = TStruct ''libvirt.DomainGetHostnameArgs''
     [fld ty_Domain, fld ty_DomainGetHostnameFlags]"

definition ty_DomainGetHostnameRet :: ty where [proto_types]:
  "ty_DomainGetHostnameRet = TStruct ''libvirt.DomainGetHostnameRet''
     [fld TString]"

definition ty_DomainIsActiveArgs :: ty where [proto_types]:
  "ty_DomainIsActiveArgs = TStruct ''libvirt.DomainIsActiveArgs''
     [fld ty_Domain]"

definition ty_DomainIsActiveRet :: ty where [proto_types]:
  "ty_DomainIsActiveRet = TStruct ''libvirt.DomainIsActiveRet''
     [fld TInt32]"

definition ty_DomainIsPersistentArgs :: ty where [proto_types]:
  "ty_DomainIsPersistentArgs = TStruct ''libvirt.DomainIsPersistentArgs''
     [fld ty_Domain]"

definition ty_DomainIsPersistentRet :: ty where [proto_types]:
  "ty_DomainIsPersistentRet = TStruct ''libvirt.DomainIsPersistentRet''
     [fld TInt32]"

definition ty_DomainIsUpdatedArgs :: ty where [proto_types]:
  "ty_DomainIsUpdatedArgs = TStruct ''libvirt.DomainIsUpdatedArgs''
     [fld ty_Domain]"

definition ty_DomainIsUpdatedRet :: ty where [proto_types]:
  "ty_DomainIsUpdatedRet = TStruct ''libvirt.DomainIsUpdatedRet''
     [fld TInt32]"

definition ty_DomainGetJobInfoArgs :: ty where [proto_types]:
  "ty_DomainGetJobInfoArgs = TStruct ''libvirt.DomainGetJobInfoArgs''
     [fld ty_Domain]"

definition ty_DomainGetJobInfoRet :: ty where [proto_types]:
  "ty_DomainGetJobInfoRet = TStruct ''libvirt.DomainGetJobInfoRet''
     [fld TInt32, fld TUint64, fld TUint64, fld TUint64, fld TUint64, fld TUint64, fld TUint64,
      fld TUint64, fld TUint64, fld TUint64, fld TUint64, fld TUint64]"

definition ty_DomainGetJobStatsArgs :: ty where [proto_types]:
  "ty_DomainGetJobStatsArgs = TStruct ''libvirt.DomainGetJobStatsArgs''
     [fld ty_Domain, fld ty_DomainGetJobStatsFlags]"

definition ty_DomainGetJobStatsRet :: ty where [proto_types]:
  "ty_DomainGetJobStatsRet = TStruct ''libvirt.DomainGetJobStatsRet''
     [fld TInt32, fld (TSlice ty_TypedParam)]"

definition ty_DomainAbortJobArgs :: ty where [proto_types]:
  "ty_DomainAbortJobArgs = TStruct ''libvirt.DomainAbortJobArgs''
     [fld ty_Domain]"

definition ty_DomainAbortJobFlagsArgs :: ty where [proto_types]:
  "ty_DomainAbortJobFlagsArgs = TStruct ''libvirt.DomainAbortJobFlagsArgs''
     [fld ty_Domain, fld TUint32]"

definition ty_DomainMigrateGetMaxDowntimeArgs :: ty where [proto_types]:
  "ty_DomainMigrateGetMaxDowntimeArgs = TStruct ''libvirt.DomainMigrateGetMaxDowntimeArgs''
     [fld ty_Domain, fld TUint32]"

definition ty_DomainMigrateGetMaxDowntimeRet :: ty where [proto_types]:
  "ty_DomainMigrateGetMaxDowntimeRet = TStruct ''libvirt.DomainMigrateGetMaxDowntimeRet''
     [fld TUint64]"

definition ty_DomainMigrateSetMaxDowntimeArgs :: ty where [proto_types]:
  "ty_DomainMigrateSetMaxDowntimeArgs = TStruct ''libvirt.DomainMigrateSetMaxDowntimeArgs''
     [fld ty_Domain, fld TUint64, fld TUint32]"

definition ty_DomainMigrateGetCompressionCacheArgs :: ty where [proto_types]:
  "ty_DomainMigrateGetCompressionCacheArgs = TStruct ''libvirt.DomainMigrateGetCompressionCacheArgs''
     [fld ty_Domain, fld TUint32]"

definition ty_DomainMigrateGetCompressionCacheRet :: ty where [proto_types]:
  "ty_DomainMigrateGetCompressionCacheRet = TStruct ''libvirt.DomainMigrateGetCompressionCacheRet''
     [fld TUint64]"

definition ty_DomainMigrateSetCompressionCacheArgs :: ty where [proto_types]:
  "ty_DomainMigrateSetCompressionCacheArgs = TStruct ''libvirt.DomainMigrateSetCompressionCacheArgs''
     [fld ty_Domain, fld TUint64, fld TUint32]"

definition ty_DomainMigrateSetMaxSpeedArgs :: ty where [proto_types]:
  "ty_DomainMigrateSetMaxSpeedArgs = TStruct ''libvirt.DomainMigrateSetMaxSpeedArgs''
     [fld ty_Domain, fld TUint64, fld TUint32]"

definition ty_DomainMigrateGetMaxSpeedArgs :: ty where [proto_types]:
  "ty_DomainMigrateGetMaxSpeedArgs = TStruct ''libvirt.DomainMigrateGetMaxSpeedArgs''
     [fld ty_Domain, fld TUint32]"

definition ty_DomainMigrateGetMaxSpeedRet :: ty where [proto_types]:
  "ty_DomainMigrateGetMaxSpeedRet = TStruct ''libvirt.DomainMigrateGetMaxSpeedRet''
     [fld TUint64]"

definition ty_DomainManagedSaveArgs :: ty where [proto_types]:
  "ty_DomainManagedSaveArgs = TStruct ''libvirt.DomainManagedSaveArgs''
     [fld ty_Domain, fld TUint32]"

definition ty_DomainHasManagedSaveImageArgs :: ty where [proto_types]:
  "ty_DomainHasManagedSaveImageArgs = TStruct ''libvirt.DomainHasManagedSaveImageArgs''
     [fld ty_Domain, fld TUint32]"

definition ty_DomainHasManagedSaveImageRet :: ty where [proto_types]:
  "ty_DomainHasManagedSaveImageRet = TStruct ''libvirt.DomainHasManagedSaveImageRet''
     [fld TInt32]"

definition ty_DomainManagedSaveRemoveArgs :: ty where [proto_types]:
  "ty_DomainManagedSaveRemoveArgs = TStruct ''libvirt.DomainManagedSaveRemoveArgs''
     [fld ty_Domain, fld TUint32]"

definition ty_DomainManagedSaveGetXMLDescArgs :: ty where [proto_types]:
  "ty_DomainManagedSaveGetXMLDescArgs = TStruct ''libvirt.DomainManagedSaveGetXMLDescArgs''
     [fld ty_Domain, fld ty_DomainXMLFlags]"

definition ty_DomainManagedSaveGetXMLDescRet :: ty where [proto_types]:
  "ty_DomainManagedSaveGetXMLDescRet = TStruct ''libvirt.DomainManagedSaveGetXMLDescRet''
     [fld TString]"

definition ty_DomainManagedSaveDefineXMLArgs :: ty where [proto_types]:
  "ty_DomainManagedSaveDefineXMLArgs = TStruct ''libvirt.DomainManagedSaveDefineXMLArgs''
     [fld ty_Domain, fld ty_OptString, fld ty_DomainSaveRestoreFlags]"

definition ty_DomainSnapshotCreateXMLArgs :: ty where [proto_types]:
  "ty_DomainSnapshotCreateXMLArgs = TStruct ''libvirt.DomainSnapshotCreateXMLArgs''
     [fld ty_Domain, fld TString, fld TUint32]"

definition ty_DomainSnapshotCreateXMLRet :: ty where [proto_types]:
  "ty_DomainSnapshotCreateXMLRet = TStruct ''libvirt.DomainSnapshotCreateXMLRet''
     [fld ty_DomainSnapshot]"

definition ty_DomainSnapshotGetXMLDescArgs :: ty where [proto_types]:
  "ty_DomainSnapshotGetXMLDescArgs = TStruct ''libvirt.DomainSnapshotGetXMLDescArgs''
     [fld ty_DomainSnapshot, fld TUint32]"

definition ty_DomainSnapshotGetXMLDescRet :: ty where [proto_types]:
  "ty_DomainSnapshotGetXMLDescRet = TStruct ''libvirt.DomainSnapshotGetXMLDescRet''
     [fld TString]"

definition ty_DomainSnapshotNumArgs :: ty where [proto_types]:
  "ty_DomainSnapshotNumArgs = TStruct ''libvirt.DomainSnapshotNumArgs''
     [fld ty_Domain, fld TUint32]"

definition ty_DomainSnapshotNumRet :: ty where [proto_types]:
  "ty_DomainSnapshotNumRet = TStruct ''libvirt.DomainSnapshotNumRet''
     [fld TInt32]"

definition ty_DomainSnapshotListNamesArgs :: ty where [proto_types]:
  "ty_DomainSnapshotListNamesArgs = TStruct ''libvirt.DomainSnapshotListNamesArgs''
     [fld ty_Domain, fld TInt32, fld TUint32]"

definition ty_DomainSnapshotListNamesRet :: ty where [proto_types]:
  "ty_DomainSnapshotListNamesRet = TStruct ''libvirt.DomainSnapshotListNamesRet''
     [fld (TSlice TString)]"

definition ty_DomainListAllSnapshotsArgs :: ty where [proto_types]:
  "ty_DomainListAllSnapshotsArgs = TStruct ''libvirt.DomainListAllSnapshotsArgs''
     [fld ty_Domain, fld TInt32, fld TUint32]"

definition ty_DomainListAllSnapshotsRet :: ty where [proto_types]:
  "ty_DomainListAllSnapshotsRet = TStruct ''libvirt.DomainListAllSnapshotsRet''
     [fld (TSlice ty_DomainSnapshot), fld TInt32]"

definition ty_DomainSnapshotNumChildrenArgs :: ty where [proto_types]:
  "ty_DomainSnapshotNumChildrenArgs = TStruct ''libvirt.DomainSnapshotNumChildrenArgs''
     [fld ty_DomainSnapshot, fld TUint32]"

definition ty_DomainSnapshotNumChildrenRet :: ty where [proto_types]:
  "ty_DomainSnapshotNumChildrenRet = TStruct ''libvirt.DomainSnapshotNumChildrenRet''
     [fld TInt32]"

definition ty_DomainSnapshotListChildrenNamesArgs :: ty where [proto_types]:
  "ty_DomainSnapshotListChildrenNamesArgs = TStruct ''libvirt.DomainSnapshotListChildrenNamesArgs''
     [fld ty_DomainSnapshot, fld TInt32, fld TUint32]"

definition ty_DomainSnapshotListChildrenNamesRet :: ty where [proto_types]:
  "ty_DomainSnapshotListChildrenNamesRet = TStruct ''libvirt.DomainSnapshotListChildrenNamesRet''
     [fld (TSlice TString)]"

definition ty_DomainSnapshotListAllChildrenArgs :: ty where [proto_types]:
  "ty_DomainSnapshotListAllChildrenArgs = TStruct ''libvirt.DomainSnapshotListAllChildrenArgs''
     [fld ty_DomainSnapshot, fld TInt32, fld TUint32]"

definition ty_DomainSnapshotListAllChildrenRet :: ty where [proto_types]:
  "ty_DomainSnapshotListAllChildrenRet = TStruct ''libvirt.DomainSnapshotListAllChildrenRet''
     [fld (TSlice ty_DomainSnapshot), fld TInt32]"

definition ty_DomainSnapshotLookupByNameArgs :: ty where [proto_types]:
  "ty_DomainSnapshotLookupByNameArgs = TStruct ''libvirt.DomainSnapshotLookupByNameArgs''
     [fld ty_Domain, fld TString, fld TUint32]"

definition ty_DomainSnapshotLookupByNameRet :: ty where [proto_types]:
  "ty_DomainSnapshotLookupByNameRet = TStruct ''libvirt.DomainSnapshotLookupByNameRet''
     [fld ty_DomainSnapshot]"

definition ty_DomainHasCurrentSnapshotArgs :: ty where [proto_types]:
  "ty_DomainHasCurrentSnapshotArgs = TStruct ''libvirt.DomainHasCurrentSnapshotArgs''
     [fld ty_Domain, fld TUint32]"

definition ty_DomainHasCurrentSnapshotRet :: ty where [proto_types]:
  "ty_DomainHasCurrentSnapshotRet = TStruct ''libvirt.DomainHasCurrentSnapshotRet''
     [fld TInt32]"

definition ty_DomainSnapshotGetParentArgs :: ty where [proto_types]:
  "ty_DomainSnapshotGetParentArgs = TStruct ''libvirt.DomainSnapshotGetParentArgs''
     [fld ty_DomainSnapshot, fld TUint32]"

definition ty_DomainSnapshotGetParentRet :: ty where [proto_types]:
  "ty_DomainSnapshotGetParentRet = TStruct ''libvirt.DomainSnapshotGetParentRet''
     [fld ty_DomainSnapshot]"

definition ty_DomainSnapshotCurrentArgs :: ty where [proto_types]:
  "ty_DomainSnapshotCurrentArgs = TStruct ''libvirt.DomainSnapshotCurrentArgs''
     [fld ty_Domain, fld TUint32]"

definition ty_DomainSnapshotCurrentRet :: ty where [proto_types]:
  "ty_DomainSnapshotCurrentRet = TStruct ''libvirt.DomainSnapshotCurrentRet''
     [fld ty_DomainSnapshot]"

definition ty_DomainSnapshotIsCurrentArgs :: ty where [proto_types]:
  "ty_DomainSnapshotIsCurrentArgs = TStruct ''libvirt.DomainSnapshotIsCurrentArgs''
     [fld ty_DomainSnapshot, fld TUint32]"

definition ty_DomainSnapshotIsCurrentRet :: ty where [proto_types]:
  "ty_DomainSnapshotIsCurrentRet = TStruct ''libvirt.DomainSnapshotIsCurrentRet''
     [fld TInt32]"

definition ty_DomainSnapshotHasMetadataArgs :: ty where [proto_types]:
  "ty_DomainSnapshotHasMetadataArgs = TStruct ''libvirt.DomainSnapshotHasMetadataArgs''
     [fld ty_DomainSnapshot, fld TUint32]"

definition ty_DomainSnapshotHasMetadataRet :: ty where [proto_types]:
  "ty_DomainSnapshotHasMetadataRet = TStruct ''libvirt.DomainSnapshotHasMetadataRet''
     [fld TInt32]"

definition ty_DomainRevertToSnapshotArgs :: ty where [proto_types]:
  "ty_DomainRevertToSnapshotArgs = TStruct ''libvirt.DomainRevertToSnapshotArgs''
     [fld ty_DomainSnapshot, fld TUint32]"

definition ty_DomainSnapshotDeleteArgs :: ty where [proto_types]:
  "ty_DomainSnapshotDeleteArgs = TStruct ''libvirt.DomainSnapshotDeleteArgs''
     [fld ty_DomainSnapshot, fld ty_DomainSnapshotDeleteFlags]"

definition ty_DomainGetStateRet :: ty where [proto_types]:
  "ty_DomainGetStateRet = TStruct ''libvirt.DomainGetStateRet''
     [fld TInt32, fld TInt32]"

definition ty_DomainMigrateBegin3Args :: ty where [proto_types]:
  "ty_DomainMigrateBegin3Args = TStruct ''libvirt.DomainMigrateBegin3Args''
     [fld ty_Domain, fld ty_OptString, fld TUint64, fld ty_OptString, fld TUint64]"

definition ty_DomainMigrateBegin3Ret :: ty where [proto_types]:
  "ty_DomainMigrateBegin3Ret = TStruct ''libvirt.DomainMigrateBegin3Ret''
     [fld (TSlice TUint8), fld TString]"

definition ty_DomainMigratePrepare3Args :: ty where [proto_types]:
  "ty_DomainMigratePrepare3Args = TStruct ''libvirt.DomainMigratePrepare3Args''
     [fld (TSlice TUint8), fld ty_OptString, fld TUint64, fld ty_OptString, fld TUint64,
      fld TString]"

definition ty_DomainMigratePrepare3Ret :: ty where [proto_types]:
  "ty_DomainMigratePrepare3Ret = TStruct ''libvirt.DomainMigratePrepare3Ret''
     [fld (TSlice TUint8), fld ty_OptString]"

definition ty_DomainMigratePrepareTunnel3Ret :: ty where [proto_types]:
  "ty_DomainMigratePrepareTunnel3Ret = TStruct ''libvirt.DomainMigratePrepareTunnel3Ret''
     [fld (TSlice TUint8)]"

definition ty_DomainMigratePerform3Args :: ty where [proto_types]:
  "ty_DomainMigratePerform3Args = TStruct ''libvirt.DomainMigratePerform3Args''
     [fld ty_Domain, fld ty_OptString, fld (TSlice TUint8), fld ty_OptString, fld ty_OptString,
      fld TUint64, fld ty_OptString, fld TUint64]"

definition ty_DomainMigratePerform3Ret :: ty where [proto_types]:
  "ty_DomainMigratePerform3Ret = TStruct ''libvirt.DomainMigratePerform3Ret''
     [fld (TSlice TUint8)]"

definition ty_DomainMigrateFinish3Args :: ty where [proto_types]:
  "ty_DomainMigrateFinish3Args = TStruct ''libvirt.DomainMigrateFinish3Args''
     [fld TString, fld (TSlice TUint8), fld ty_OptString, fld ty_OptString, fld TUint64,
      fld TInt32]"

definition ty_DomainMigrateFinish3Ret :: ty where [proto_types]:
  "ty_DomainMigrateFinish3Ret = TStruct ''libvirt.DomainMigrateFinish3Ret''
     [fld ty_Domain, fld (TSlice TUint8)]"

definition ty_DomainMigrateConfirm3Args :: ty where [proto_types]:
  "ty_DomainMigrateConfirm3Args = TStruct ''libvirt.DomainMigrateConfirm3Args''
     [fld ty_Domain, fld (TSlice TUint8), fld TUint64, fld TInt32]"

definition ty_DomainGetControlInfoArgs :: ty where [proto_types]:
  "ty_DomainGetControlInfoArgs = TStruct ''libvirt.DomainGetControlInfoArgs''
     [fld ty_Domain, fld TUint32]"

definition ty_DomainGetControlInfoRet :: ty where [proto_types]:
  "ty_DomainGetControlInfoRet = TStruct ''libvirt.DomainGetControlInfoRet''
     [fld TUint32, fld TUint32, fld TUint64]"

definition ty_DomainOpenGraphicsArgs :: ty where [proto_types]:
  "ty_DomainOpenGraphicsArgs = TStruct ''libvirt.DomainOpenGraphicsArgs''
     [fld ty_Domain, fld TUint32, fld ty_DomainOpenGraphicsFlags]"

definition ty_DomainOpenGraphicsFdArgs :: ty where [proto_types]:
  "ty_DomainOpenGraphicsFdArgs = TStruct ''libvirt.DomainOpenGraphicsFdArgs''
     [fld ty_Domain, fld TUint32, fld ty_DomainOpenGraphicsFlags]"

definition ty_DomainGetDiskErrorsArgs :: ty where [proto_types]:
  "ty_DomainGetDiskErrorsArgs = TStruct ''libvirt.DomainGetDiskErrorsArgs''
     [fld ty_Domain, fld TUint32, fld TUint32]"

definition ty_DomainGetDiskErrorsRet :: ty where [proto_types]:
  "ty_DomainGetDiskErrorsRet = TStruct ''libvirt.DomainGetDiskErrorsRet''
     [fld (TSlice ty_DomainDiskError), fld TInt32]"

definition ty_DomainFstrimArgs :: ty where [proto_types]:
  "ty_DomainFstrimArgs = TStruct ''libvirt.DomainFstrimArgs''
     [fld ty_Domain, fld ty_OptString, fld TUint64, fld TUint32]"

definition ty_DomainGetTimeArgs :: ty where [proto_types]:
  "ty_DomainGetTimeArgs = TStruct ''libvirt.DomainGetTimeArgs''
     [fld ty_Domain, fld TUint32]"

definition ty_DomainGetTimeRet :: ty where [proto_types]:
  "ty_DomainGetTimeRet = TStruct ''libvirt.DomainGetTimeRet''
     [fld TInt64, fld TUint32]"

definition ty_DomainSetTimeArgs :: ty where [proto_types]:
  "ty_DomainSetTimeArgs = TStruct ''libvirt.DomainSetTimeArgs''
     [fld ty_Domain, fld TInt64, fld TUint32, fld ty_DomainSetTimeFlags]"

definition ty_DomainMigrateBegin3ParamsArgs :: ty where [proto_types]:
  "ty_DomainMigrateBegin3ParamsArgs = TStruct ''libvirt.DomainMigrateBegin3ParamsArgs''
     [fld ty_Domain, fld (TSlice ty_TypedParam), fld TUint32]"

definition ty_DomainMigrateBegin3ParamsRet :: ty where [proto_types]:
  "ty_DomainMigrateBegin3ParamsRet = TStruct ''libvirt.DomainMigrateBegin3ParamsRet''
     [fld (TSlice TUint8), fld TString]"

definition ty_DomainMigratePrepare3ParamsArgs :: ty where [proto_types]:
  "ty_DomainMigratePrepare3ParamsArgs = TStruct ''libvirt.DomainMigratePrepare3ParamsArgs''
     [fld (TSlice ty_TypedParam), fld (TSlice TUint8), fld TUint32]"

definition ty_DomainMigratePrepare3ParamsRet :: ty where [proto_types]:
  "ty_DomainMigratePrepare3ParamsRet = TStruct ''libvirt.DomainMigratePrepare3ParamsRet''
     [fld (TSlice TUint8), fld ty_OptString]"

definition ty_DomainMigratePrepareTunnel3ParamsArgs :: ty where [proto_types]:
  "ty_DomainMigratePrepareTunnel3ParamsArgs = TStruct ''libvirt.DomainMigratePrepareTunnel3ParamsArgs''
     [fld (TSlice ty_TypedParam), fld (TSlice TUint8), fld TUint32]"

definition ty_DomainMigratePrepareTunnel3ParamsRet :: ty where [proto_types]:
  "ty_DomainMigratePrepareTunnel3ParamsRet = TStruct ''libvirt.DomainMigratePrepareTunnel3ParamsRet''
     [fld (TSlice TUint8)]"

definition ty_DomainMigratePerform3ParamsArgs :: ty where [proto_types]:
  "ty_DomainMigratePerform3ParamsArgs = TStruct ''libvirt.DomainMigratePerform3ParamsArgs''
     [fld ty_Domain, fld ty_OptString, fld (TSlice ty_TypedParam), fld (TSlice TUint8),
      fld ty_DomainMigrateFlags]"

definition ty_DomainMigratePerform3ParamsRet :: ty where [proto_types]:
  "ty_DomainMigratePerform3ParamsRet = TStruct ''libvirt.DomainMigratePerform3ParamsRet''
     [fld (TSlice TUint8)]"

definition ty_DomainMigrateFinish3ParamsArgs :: ty where [proto_types]:
  "ty_DomainMigrateFinish3ParamsArgs = TStruct ''libvirt.DomainMigrateFinish3ParamsArgs''
     [fld (TSlice ty_TypedParam), fld (TSlice TUint8), fld TUint32, fld TInt32]"

definition ty_DomainMigrateFinish3ParamsRet :: ty where [proto_types]:
  "ty_DomainMigrateFinish3ParamsRet = TStruct ''libvirt.DomainMigrateFinish3ParamsRet''
     [fld ty_Domain, fld (TSlice TUint8)]"

definition ty_DomainMigrateConfirm3ParamsArgs :: ty where [proto_types]:
  "ty_DomainMigrateConfirm3ParamsArgs = TStruct ''libvirt.DomainMigrateConfirm3ParamsArgs''
     [fld ty_Domain, fld (TSlice ty_TypedParam), fld (TSlice TUint8), fld TUint32, fld TInt32]"

definition ty_DomainFsfreezeArgs :: ty where [proto_types]:
  "ty_DomainFsfreezeArgs = TStruct ''libvirt.DomainFsfreezeArgs''
     [fld ty_Domain, fld (TSlice TString), fld TUint32]"

definition ty_DomainFsfreezeRet :: ty where [proto_types]:
  "ty_DomainFsfreezeRet = TStruct ''libvirt.DomainFsfreezeRet''
     [fld TInt32]"

definition ty_DomainFsthawArgs :: ty where [proto_types]:
  "ty_DomainFsthawArgs = TStruct ''libvirt.DomainFsthawArgs''
     [fld ty_Domain, fld (TSlice TString), fld TUint32]"

definition ty_DomainFsthawRet :: ty where [proto_types]:
  "ty_DomainFsthawRet = TStruct ''libvirt.DomainFsthawRet''
     [fld TInt32]"

definition ty_DomainGetFsinfoArgs :: ty where [proto_types]:
  "ty_DomainGetFsinfoArgs = TStruct ''libvirt.DomainGetFsinfoArgs''
     [fld ty_Domain, fld TUint32]"

definition ty_DomainGetFsinfoRet :: ty where [proto_types]:
  "ty_DomainGetFsinfoRet = TStruct ''libvirt.DomainGetFsinfoRet''
     [fld (TSlice ty_DomainFsinfo), fld TUint32]"

definition ty_DomainInterfaceAddressesArgs :: ty where [proto_types]:
  "ty_DomainInterfaceAddressesArgs = TStruct ''libvirt.DomainInterfaceAddressesArgs''
     [fld ty_Domain, fld TUint32, fld TUint32]"

definition ty_DomainInterfaceAddressesRet :: ty where [proto_types]:
  "ty_DomainInterfaceAddressesRet = TStruct ''libvirt.DomainInterfaceAddressesRet''
     [fld (TSlice ty_DomainInterface)]"

definition ty_DomainSetUserPasswordArgs :: ty where [proto_types]:
  "ty_DomainSetUserPasswordArgs = TStruct ''libvirt.DomainSetUserPasswordArgs''
     [fld ty_Domain, fld ty_OptString, fld ty_OptString, fld ty_DomainSetUserPasswordFlags]"

definition ty_DomainRenameArgs :: ty where [proto_types]:
  "ty_DomainRenameArgs = TStruct ''libvirt.DomainRenameArgs''
     [fld ty_Domain, fld ty_OptString, fld TUint32]"

definition ty_DomainRenameRet :: ty where [proto_types]:
  "ty_DomainRenameRet = TStruct ''libvirt.DomainRenameRet''
     [fld TInt32]"

definition ty_DomainMigrateStartPostCopyArgs :: ty where [proto_types]:
  "ty_DomainMigrateStartPostCopyArgs = TStruct ''libvirt.DomainMigrateStartPostCopyArgs''
     [fld ty_Domain, fld TUint32]"

definition ty_DomainGetGuestVcpusArgs :: ty where [proto_types]:
  "ty_DomainGetGuestVcpusArgs = TStruct ''libvirt.DomainGetGuestVcpusArgs''
     [fld ty_Domain, fld TUint32]"

definition ty_DomainGetGuestVcpusRet :: ty where [proto_types]:
  "ty_DomainGetGuestVcpusRet = TStruct ''libvirt.DomainGetGuestVcpusRet''
     [fld (TSlice ty_TypedParam)]"

definition ty_DomainSetGuestVcpusArgs :: ty where [proto_types]:
  "ty_DomainSetGuestVcpusArgs = TStruct ''libvirt.DomainSetGuestVcpusArgs''
     [fld ty_Domain, fld TString, fld TInt32, fld TUint32]"

definition ty_DomainSetVcpuArgs :: ty where [proto_types]:
  "ty_DomainSetVcpuArgs = TStruct ''libvirt.DomainSetVcpuArgs''
     [fld ty_Domain, fld TString, fld TInt32, fld ty_DomainModificationImpact]"

definition ty_DomainSetBlockThresholdArgs :: ty where [proto_types]:
  "ty_DomainSetBlockThresholdArgs = TStruct ''libvirt.DomainSetBlockThresholdArgs''
     [fld ty_Domain, fld TString, fld TUint64, fld TUint32]"

definition ty_DomainSetLifecycleActionArgs :: ty where [proto_types]:
  "ty_DomainSetLifecycleActionArgs = TStruct ''libvirt.DomainSetLifecycleActionArgs''
     [fld ty_Domain, fld TUint32, fld TUint32, fld ty_DomainModificationImpact]"

definition ty_DomainGetLaunchSecurityInfoArgs :: ty where [proto_types]:
  "ty_DomainGetLaunchSecurityInfoArgs = TStruct ''libvirt.DomainGetLaunchSecurityInfoArgs''
     [fld ty_Domain, fld TUint32]"

definition ty_DomainGetLaunchSecurityInfoRet :: ty where [proto_types]:
  "ty_DomainGetLaunchSecurityInfoRet = TStruct ''libvirt.DomainGetLaunchSecurityInfoRet''
     [fld (TSlice ty_TypedParam)]"

definition ty_DomainSetLaunchSecurityStateArgs :: ty where [proto_types]:
  "ty_DomainSetLaunchSecurityStateArgs = TStruct ''libvirt.DomainSetLaunchSecurityStateArgs''
     [fld ty_Domain, fld (TSlice ty_TypedParam), fld TUint32]"

definition ty_DomainCheckpointCreateXMLArgs :: ty where [proto_types]:
  "ty_DomainCheckpointCreateXMLArgs = TStruct ''libvirt.DomainCheckpointCreateXMLArgs''
     [fld ty_Domain, fld TString, fld TUint32]"

definition ty_DomainCheckpointCreateXMLRet :: ty where [proto_types]:
  "ty_DomainCheckpointCreateXMLRet = TStruct ''libvirt.DomainCheckpointCreateXMLRet''
     [fld ty_DomainCheckpoint]"

definition ty_DomainCheckpointGetXMLDescArgs :: ty where [proto_types]:
  "ty_DomainCheckpointGetXMLDescArgs = TStruct ''libvirt.DomainCheckpointGetXMLDescArgs''
     [fld ty_DomainCheckpoint, fld TUint32]"

definition ty_DomainCheckpointGetXMLDescRet :: ty where [proto_types]:
  "ty_DomainCheckpointGetXMLDescRet = TStruct ''libvirt.DomainCheckpointGetXMLDescRet''
     [fld TString]"

definition ty_DomainListAllCheckpointsArgs :: ty where [proto_types]:
  "ty_DomainListAllCheckpointsArgs = TStruct ''libvirt.DomainListAllCheckpointsArgs''
     [fld ty_Domain, fld TInt32, fld TUint32]"

definition ty_DomainListAllCheckpointsRet :: ty where [proto_types]:
  "ty_DomainListAllCheckpointsRet = TStruct ''libvirt.DomainListAllCheckpointsRet''
     [fld (TSlice ty_DomainCheckpoint), fld TInt32]"

definition ty_DomainCheckpointListAllChildrenArgs :: ty where [proto_types]:
  "ty_DomainCheckpointListAllChildrenArgs = TStruct ''libvirt.DomainCheckpointListAllChildrenArgs''
     [fld ty_DomainCheckpoint, fld TInt32, fld TUint32]"

definition ty_DomainCheckpointListAllChildrenRet :: ty where [proto_types]:
  "ty_DomainCheckpointListAllChildrenRet = TStruct ''libvirt.DomainCheckpointListAllChildrenRet''
     [fld (TSlice ty_DomainCheckpoint), fld TInt32]"

definition ty_DomainCheckpointLookupByNameArgs :: ty where [proto_types]:
  "ty_DomainCheckpointLookupByNameArgs = TStruct ''libvirt.DomainCheckpointLookupByNameArgs''
     [fld ty_Domain, fld TString, fld TUint32]"

definition ty_DomainCheckpointLookupByNameRet :: ty where [proto_types]:
  "ty_DomainCheckpointLookupByNameRet = TStruct ''libvirt.DomainCheckpointLookupByNameRet''
     [fld ty_DomainCheckpoint]"

definition ty_DomainCheckpointGetParentArgs :: ty where [proto_types]:
  "ty_DomainCheckpointGetParentArgs = TStruct ''libvirt.DomainCheckpointGetParentArgs''
     [fld ty_DomainCheckpoint, fld TUint32]"

definition ty_DomainCheckpointGetParentRet :: ty where [proto_types]:
  "ty_DomainCheckpointGetParentRet = TStruct ''libvirt.DomainCheckpointGetParentRet''
     [fld ty_DomainCheckpoint]"

definition ty_DomainCheckpointDeleteArgs :: ty where [proto_types]:
  "ty_DomainCheckpointDeleteArgs = TStruct ''libvirt.DomainCheckpointDeleteArgs''
     [fld ty_DomainCheckpoint, fld ty_DomainCheckpointDeleteFlags]"

definition ty_DomainGetGuestInfoArgs :: ty where [proto_types]:
  "ty_DomainGetGuestInfoArgs = TStruct ''libvirt.DomainGetGuestInfoArgs''
     [fld ty_Domain, fld TUint32, fld TUint32]"

definition ty_DomainGetGuestInfoRet :: ty where [proto_types]:
  "ty_DomainGetGuestInfoRet = TStruct ''libvirt.DomainGetGuestInfoRet''
     [fld (TSlice ty_TypedParam)]"

definition ty_DomainAgentSetResponseTimeoutArgs :: ty where [proto_types]:
  "ty_DomainAgentSetResponseTimeoutArgs = TStruct ''libvirt.DomainAgentSetResponseTimeoutArgs''
     [fld ty_Domain, fld TInt32, fld TUint32]"

definition ty_DomainAgentSetResponseTimeoutRet :: ty where [proto_types]:
  "ty_DomainAgentSetResponseTimeoutRet = TStruct ''libvirt.DomainAgentSetResponseTimeoutRet''
     [fld TInt32]"

definition ty_DomainBackupBeginArgs :: ty where [proto_types]:
  "ty_DomainBackupBeginArgs = TStruct ''libvirt.DomainBackupBeginArgs''
     [fld ty_Domain, fld TString, fld ty_OptString, fld ty_DomainBackupBeginFlags]"

definition ty_DomainBackupGetXMLDescArgs :: ty where [proto_types]:
  "ty_DomainBackupGetXMLDescArgs = TStruct ''libvirt.DomainBackupGetXMLDescArgs''
     [fld ty_Domain, fld TUint32]"

definition ty_DomainBackupGetXMLDescRet :: ty where [proto_types]:
  "ty_DomainBackupGetXMLDescRet = TStruct ''libvirt.DomainBackupGetXMLDescRet''
     [fld TString]"

definition ty_DomainAuthorizedSshKeysGetArgs :: ty where [proto_types]:
  "ty_DomainAuthorizedSshKeysGetArgs = TStruct ''libvirt.DomainAuthorizedSshKeysGetArgs''
     [fld ty_Domain, fld TString, fld TUint32]"

definition ty_DomainAuthorizedSshKeysGetRet :: ty where [proto_types]:
  "ty_DomainAuthorizedSshKeysGetRet = TStruct ''libvirt.DomainAuthorizedSshKeysGetRet''
     [fld (TSlice TString)]"

definition ty_DomainAuthorizedSshKeysSetArgs :: ty where [proto_types]:
  "ty_DomainAuthorizedSshKeysSetArgs = TStruct ''libvirt.DomainAuthorizedSshKeysSetArgs''
     [fld ty_Domain, fld TString, fld (TSlice TString), fld TUint32]"

definition ty_DomainGetMessagesArgs :: ty where [proto_types]:
  "ty_DomainGetMessagesArgs = TStruct ''libvirt.DomainGetMessagesArgs''
     [fld ty_Domain, fld TUint32]"

definition ty_DomainGetMessagesRet :: ty where [proto_types]:
  "ty_DomainGetMessagesRet = TStruct ''libvirt.DomainGetMessagesRet''
     [fld (TSlice TString)]"

definition ty_DomainStartDirtyRateCalcArgs :: ty where [proto_types]:
  "ty_DomainStartDirtyRateCalcArgs = TStruct ''libvirt.DomainStartDirtyRateCalcArgs''
     [fld ty_Domain, fld TInt32, fld TUint32]"

definition ty_DomainGraphicsReloadArgs :: ty where [proto_types]:
  "ty_DomainGraphicsReloadArgs = TStruct ''libvirt.DomainGraphicsReloadArgs''
     [fld ty_Domain, fld TUint32, fld TUint32]"

definition ty_DomainFdAssociateArgs :: ty where [proto_types]:
  "ty_DomainFdAssociateArgs = TStruct ''libvirt.DomainFdAssociateArgs''
     [fld ty_Domain, fld TString, fld TUint32]"

definition ty_DomainGetAutostartOnceArgs :: ty where [proto_types]:
  "ty_DomainGetAutostartOnceArgs = TStruct ''libvirt.DomainGetAutostartOnceArgs''
     [fld ty_Domain]"

definition ty_DomainGetAutostartOnceRet :: ty where [proto_types]:
  "ty_DomainGetAutostartOnceRet = TStruct ''libvirt.DomainGetAutostartOnceRet''
     [fld TInt32]"

definition ty_DomainSetAutostartOnceArgs :: ty where [proto_types]:
  "ty_DomainSetAutostartOnceArgs = TStruct ''libvirt.DomainSetAutostartOnceArgs''
     [fld ty_Domain, fld TInt32]"

definition ty_QEMUDomainMonitorCommandRet :: ty where [proto_types]:
  "ty_QEMUDomainMonitorCommandRet = TStruct ''libvirt.QEMUDomainMonitorCommandRet''
     [fld TString]"

definition ty_QEMUDomainAttachRet :: ty where [proto_types]:
  "ty_QEMUDomainAttachRet = TStruct ''libvirt.QEMUDomainAttachRet''
     [fld ty_Domain]"

definition ty_QEMUDomainAgentCommandRet :: ty where [proto_types]:
  "ty_QEMUDomainAgentCommandRet = TStruct ''libvirt.QEMUDomainAgentCommandRet''
     [fld ty_OptString]"

definition ty_QEMUConnectDomainMonitorEventRegisterRet :: ty where [proto_types]:
  "ty_QEMUConnectDomainMonitorEventRegisterRet = TStruct ''libvirt.QEMUConnectDomainMonitorEventRegisterRet''
     [fld TInt32]"

definition ty_QEMUDomainMonitorCommandWithFilesRet :: ty where [proto_types]:
  "ty_QEMUDomainMonitorCommandWithFilesRet = TStruct ''libvirt.QEMUDomainMonitorCommandWithFilesRet''
     [fld TString]"

end
