(* ===== verification/Protocol_Calls_Domain.thy ===== *)
theory Protocol_Calls_Domain
  imports Protocol_Calls Protocol_Types_Domain
begin

text \<open>
  The generated calls on domains, beside those of theory \<open>Protocol_Calls\<close>. Each is
  an instance of the template \<open>call\<close>.
\<close>

definition DomainAttachDevice :: "val \<Rightarrow> string \<Rightarrow> client \<Rightarrow>
    call_result" where
  "DomainAttachDevice Dom XML cl =
     call 8 RemoteProgram
       (Some (ty_DomainAttachDeviceArgs, VStruct [Dom, VString XML]))
       [] None None cl"

definition DomainDefineXML :: "string \<Rightarrow> client \<Rightarrow> call_result" where
  "DomainDefineXML XML cl =
     call 11 RemoteProgram
       (Some (ty_DomainDefineXMLArgs, VStruct [VString XML]))
       [ty_Domain] None None cl"

definition DomainDestroy :: "val \<Rightarrow> client \<Rightarrow> call_result" where
  "DomainDestroy Dom cl =
     call 12 RemoteProgram (Some (ty_DomainDestroyArgs, VStruct [Dom])) [] None None cl"

definition DomainDetachDevice :: "val \<Rightarrow> string \<Rightarrow> client \<Rightarrow>
    call_result" where
  "DomainDetachDevice Dom XML cl =
     call 13 RemoteProgram
       (Some (ty_DomainDetachDeviceArgs, VStruct [Dom, VString XML]))
       [] None None cl"

definition DomainGetAutostart :: "val \<Rightarrow> client \<Rightarrow> call_result" where
  "DomainGetAutostart Dom cl =
     call 15 RemoteProgram
       (Some (ty_DomainGetAutostartArgs, VStruct [Dom]))
       [TInt32] None None cl"

definition DomainGetMaxMemory :: "val \<Rightarrow> client \<Rightarrow> call_result" where
  "DomainGetMaxMemory Dom cl =
     call 17 RemoteProgram
       (Some (ty_DomainGetMaxMemoryArgs, VStruct [Dom]))
       [TUint64] None None cl"

definition DomainGetMaxVcpus :: "val \<Rightarrow> client \<Rightarrow> call_result" where
  "DomainGetMaxVcpus Dom cl =
     call 18 RemoteProgram (Some (ty_DomainGetMaxVcpusArgs, VStruct [Dom])) [TInt32] None None cl"

definition DomainGetOsType :: "val \<Rightarrow> client \<Rightarrow> call_result" where
  "DomainGetOsType Dom cl =
     call 19 RemoteProgram (Some (ty_DomainGetOsTypeArgs, VStruct [Dom])) [TString] None None cl"

definition DomainGetVcpus :: "val \<Rightarrow> i32 \<Rightarrow> i32 \<Rightarrow> client
    \<Rightarrow> call_result" where
  "DomainGetVcpus Dom Maxinfo Maplen cl =
     call 20 RemoteProgram
       (Some (ty_DomainGetVcpusArgs, VStruct [Dom, of_i32 Maxinfo, of_i32 Maplen]))
       [TSlice ty_VcpuInfo, TSlice TUint8] None None cl"

definition DomainPinVcpu :: "val \<Rightarrow> u32 \<Rightarrow> byte list \<Rightarrow> client
    \<Rightarrow> call_result" where
  "DomainPinVcpu Dom Vcpu Cpumap cl =
     call 26 RemoteProgram
       (Some (ty_DomainPinVcpuArgs, VStruct [Dom, of_u32 Vcpu, of_bytes Cpumap]))
       [] None None cl"

definition DomainResume :: "val \<Rightarrow> client \<Rightarrow> call_result" where
  "DomainResume Dom cl =
     call 28 RemoteProgram (Some (ty_DomainResumeArgs, VStruct [Dom])) [] None None cl"

definition DomainSetAutostart :: "val \<Rightarrow> i32 \<Rightarrow> client \<Rightarrow>
    call_result" where
  "DomainSetAutostart Dom Autostart cl =
     call 29 RemoteProgram
       (Some (ty_DomainSetAutostartArgs, VStruct [Dom, of_i32 Autostart]))
       [] None None cl"

definition DomainSetMaxMemory :: "val \<Rightarrow> u64 \<Rightarrow> client \<Rightarrow>
    call_result" where
  "DomainSetMaxMemory Dom Memory cl =
     call 30 RemoteProgram
       (Some (ty_DomainSetMaxMemoryArgs, VStruct [Dom, VUint Memory]))
       [] None None cl"

definition DomainSetVcpus :: "val \<Rightarrow> u32 \<Rightarrow> client \<Rightarrow>
    call_result" where
  "DomainSetVcpus Dom Nvcpus cl =
     call 32 RemoteProgram
       (Some (ty_DomainSetVcpusArgs, VStruct [Dom, of_u32 Nvcpus]))
       [] None None cl"

definition DomainShutdown :: "val \<Rightarrow> client \<Rightarrow> call_result" where
  "DomainShutdown Dom cl =
     call 33 RemoteProgram (Some (ty_DomainShutdownArgs, VStruct [Dom])) [] None None cl"

definition DomainSuspend :: "val \<Rightarrow> client \<Rightarrow> call_result" where
  "DomainSuspend Dom cl =
     call 34 RemoteProgram (Some (ty_DomainSuspendArgs, VStruct [Dom])) [] None None cl"

definition DomainUndefine :: "val \<Rightarrow> client \<Rightarrow> call_result" where
  "DomainUndefine Dom cl =
     call 35 RemoteProgram (Some (ty_DomainUndefineArgs, VStruct [Dom])) [] None None cl"

definition DomainCoreDump :: "val \<Rightarrow> string \<Rightarrow> i32 \<Rightarrow> client
    \<Rightarrow> call_result" where
  "DomainCoreDump Dom To Flags cl =
     call 53 RemoteProgram
       (Some (ty_DomainCoreDumpArgs, VStruct [Dom, VString To, of_i32 Flags]))
       [] None None cl"

definition DomainRestore :: "string \<Rightarrow> client \<Rightarrow> call_result" where
  "DomainRestore From cl =
     call 54 RemoteProgram (Some (ty_DomainRestoreArgs, VStruct [VString From])) [] None None cl"

definition DomainSave :: "val \<Rightarrow> string \<Rightarrow> client \<Rightarrow> call_result"
    where
  "DomainSave Dom To cl =
     call 55 RemoteProgram (Some (ty_DomainSaveArgs, VStruct [Dom, VString To])) [] None None cl"

definition DomainGetSchedulerType :: "val \<Rightarrow> client \<Rightarrow> call_result" where
  "DomainGetSchedulerType Dom cl =
     call 56 RemoteProgram
       (Some (ty_DomainGetSchedulerTypeArgs, VStruct [Dom]))
       [TString, TInt32] None None cl"

definition DomainMigratePrepare :: "string list \<Rightarrow> u64 \<Rightarrow> string list
    \<Rightarrow> u64 \<Rightarrow> client \<Rightarrow> call_result" where
  "DomainMigratePrepare UriIn Flags Dname Bandwidth cl =
     call 61 RemoteProgram
       (Some (ty_DomainMigratePrepareArgs, VStruct [of_strings UriIn, VUint Flags, of_strings
         Dname, VUint Bandwidth]))
       [TSlice TUint8, ty_OptString] None None cl"

definition DomainMigrateFinish :: "string \<Rightarrow> byte list \<Rightarrow> string
    \<Rightarrow> u64 \<Rightarrow> client \<Rightarrow> call_result" where
  "DomainMigrateFinish Dname Cookie Uri Flags cl =
     call 63 RemoteProgram
       (Some (ty_DomainMigrateFinishArgs, VStruct [VString Dname, of_bytes Cookie, VString Uri,
         VUint Flags]))
       [ty_Domain] None None cl"

definition DomainInterfaceStats :: "val \<Rightarrow> string \<Rightarrow> client \<Rightarrow>
    call_result" where
  "DomainInterfaceStats Dom Device cl =
     call 65 RemoteProgram
       (Some (ty_DomainInterfaceStatsArgs, VStruct [Dom, VString Device]))
       [TInt64, TInt64, TInt64, TInt64, TInt64, TInt64, TInt64, TInt64] None None cl"

definition DomainBlockPeek :: "val \<Rightarrow> string \<Rightarrow> u64 \<Rightarrow> u32
    \<Rightarrow> u32 \<Rightarrow> client \<Rightarrow> call_result" where
  "DomainBlockPeek Dom Path Offset Size Flags cl =
     call 103 RemoteProgram
       (Some (ty_DomainBlockPeekArgs, VStruct [Dom, VString Path, VUint Offset, of_u32 Size,
         of_u32 Flags]))
       [TSlice TUint8] None None cl"

definition DomainMemoryPeek :: "val \<Rightarrow> u64 \<Rightarrow> u32 \<Rightarrow> i32
    \<Rightarrow> client \<Rightarrow> call_result" where
  "DomainMemoryPeek Dom Offset Size Flags cl =
     call 104 RemoteProgram
       (Some (ty_DomainMemoryPeekArgs, VStruct [Dom, VUint Offset, of_u32 Size, of_i32 Flags]))
       [TSlice TUint8] None None cl"

definition DomainEventLifecycle :: "client \<Rightarrow> call_result" where
  "DomainEventLifecycle cl =
     call 107 RemoteProgram None [] None None cl"

definition DomainMigratePrepare2 :: "string list \<Rightarrow> u64 \<Rightarrow> string list
    \<Rightarrow> u64 \<Rightarrow> string \<Rightarrow> client \<Rightarrow> call_result" where
  "DomainMigratePrepare2 UriIn Flags Dname Bandwidth DomXML cl =
     call 108 RemoteProgram
       (Some (ty_DomainMigratePrepare2Args, VStruct [of_strings UriIn, VUint Flags, of_strings
         Dname, VUint Bandwidth, VString DomXML]))
       [TSlice TUint8, ty_OptString] None None cl"

definition DomainMigrateFinish2 :: "string \<Rightarrow> byte list \<Rightarrow> string
    \<Rightarrow> u64 \<Rightarrow> i32 \<Rightarrow> client \<Rightarrow> call_result" where
  "DomainMigrateFinish2 Dname Cookie Uri Flags Retcode cl =
     call 109 RemoteProgram
       (Some (ty_DomainMigrateFinish2Args, VStruct [VString Dname, of_bytes Cookie, VString
         Uri, VUint Flags, of_i32 Retcode]))
       [ty_Domain] None None cl"

definition DomainGetSecurityLabel :: "val \<Rightarrow> client \<Rightarrow> call_result" where
  "DomainGetSecurityLabel Dom cl =
     call 121 RemoteProgram
       (Some (ty_DomainGetSecurityLabelArgs, VStruct [Dom]))
       [TSlice TInt8, TInt32] None None cl"

definition DomainIsActive :: "val \<Rightarrow> client \<Rightarrow> call_result" where
  "DomainIsActive Dom cl =
     call 150 RemoteProgram (Some (ty_DomainIsActiveArgs, VStruct [Dom])) [TInt32] None None cl"

definition DomainIsPersistent :: "val \<Rightarrow> client \<Rightarrow> call_result" where
  "DomainIsPersistent Dom cl =
     call 151 RemoteProgram
       (Some (ty_DomainIsPersistentArgs, VStruct [Dom]))
       [TInt32] None None cl"

definition DomainAttachDeviceFlags :: "val \<Rightarrow> string \<Rightarrow> u32 \<Rightarrow>
    client \<Rightarrow> call_result" where
  "DomainAttachDeviceFlags Dom XML Flags cl =
     call 160 RemoteProgram
       (Some (ty_DomainAttachDeviceFlagsArgs, VStruct [Dom, VString XML, of_u32 Flags]))
       [] None None cl"

definition DomainDetachDeviceFlags :: "val \<Rightarrow> string \<Rightarrow> u32 \<Rightarrow>
    client \<Rightarrow> call_result" where
  "DomainDetachDeviceFlags Dom XML Flags cl =
     call 161 RemoteProgram
       (Some (ty_DomainDetachDeviceFlagsArgs, VStruct [Dom, VString XML, of_u32 Flags]))
       [] None None cl"

definition DomainGetJobInfo :: "val \<Rightarrow> client \<Rightarrow> call_result" where
  "DomainGetJobInfo Dom cl =
     call 163 RemoteProgram
       (Some (ty_DomainGetJobInfoArgs, VStruct [Dom]))
       [TInt32, TUint64, TUint64, TUint64, TUint64, TUint64, TUint64, TUint64, TUint64,
         TUint64, TUint64, TUint64] None None cl"

definition DomainAbortJob :: "val \<Rightarrow> client \<Rightarrow> call_result" where
  "DomainAbortJob Dom cl =
     call 164 RemoteProgram (Some (ty_DomainAbortJobArgs, VStruct [Dom])) [] None None cl"

definition DomainMigrateSetMaxDowntime :: "val \<Rightarrow> u64 \<Rightarrow> u32 \<Rightarrow>
    client \<Rightarrow> call_result" where
  "DomainMigrateSetMaxDowntime Dom Downtime Flags cl =
     call 166 RemoteProgram
       (Some (ty_DomainMigrateSetMaxDowntimeArgs, VStruct [Dom, VUint Downtime, of_u32 Flags]))
       [] None None cl"

definition DomainEventReboot :: "client \<Rightarrow> call_result" where
  "DomainEventReboot cl =
     call 169 RemoteProgram None [] None None cl"

definition DomainEventRtcChange :: "client \<Rightarrow> call_result" where
  "DomainEventRtcChange cl =
     call 170 RemoteProgram None [] None None cl"

definition DomainEventWatchdog :: "client \<Rightarrow> call_result" where
  "DomainEventWatchdog cl =
     call 171 RemoteProgram None [] None None cl"

definition DomainEventIOError :: "client \<Rightarrow> call_result" where
  "DomainEventIOError cl =
     call 172 RemoteProgram None [] None None cl"

definition DomainEventGraphics :: "client \<Rightarrow> call_result" where
  "DomainEventGraphics cl =
     call 173 RemoteProgram None [] None None cl"

definition DomainUpdateDeviceFlags :: "val \<Rightarrow> string \<Rightarrow> i32 \<Rightarrow>
    client \<Rightarrow> call_result" where
  "DomainUpdateDeviceFlags Dom XML Flags cl =
     call 174 RemoteProgram
       (Some (ty_DomainUpdateDeviceFlagsArgs, VStruct [Dom, VString XML, of_i32 Flags]))
       [] None None cl"

definition DomainManagedSave :: "val \<Rightarrow> u32 \<Rightarrow> client \<Rightarrow>
    call_result" where
  "DomainManagedSave Dom Flags cl =
     call 182 RemoteProgram
       (Some (ty_DomainManagedSaveArgs, VStruct [Dom, of_u32 Flags]))
       [] None None cl"

definition DomainHasManagedSaveImage :: "val \<Rightarrow> u32 \<Rightarrow> client \<Rightarrow>
    call_result" where
  "DomainHasManagedSaveImage Dom Flags cl =
     call 183 RemoteProgram
       (Some (ty_DomainHasManagedSaveImageArgs, VStruct [Dom, of_u32 Flags]))
       [TInt32] None None cl"

definition DomainManagedSaveRemove :: "val \<Rightarrow> u32 \<Rightarrow> client \<Rightarrow>
    call_result" where
  "DomainManagedSaveRemove Dom Flags cl =
     call 184 RemoteProgram
       (Some (ty_DomainManagedSaveRemoveArgs, VStruct [Dom, of_u32 Flags]))
       [] None None cl"

definition DomainSnapshotCreateXML :: "val \<Rightarrow> string \<Rightarrow> u32 \<Rightarrow>
    client \<Rightarrow> call_result" where
  "DomainSnapshotCreateXML Dom XMLDesc Flags cl =
     call 185 RemoteProgram
       (Some (ty_DomainSnapshotCreateXMLArgs, VStruct [Dom, VString XMLDesc, of_u32 Flags]))
       [ty_DomainSnapshot] None None cl"

definition DomainSnapshotGetXMLDesc :: "val \<Rightarrow> u32 \<Rightarrow> client \<Rightarrow>
    call_result" where
  "DomainSnapshotGetXMLDesc Snap Flags cl =
     call 186 RemoteProgram
       (Some (ty_DomainSnapshotGetXMLDescArgs, VStruct [Snap, of_u32 Flags]))
       [TString] None None cl"

definition DomainSnapshotNum :: "val \<Rightarrow> u32 \<Rightarrow> client \<Rightarrow>
    call_result" where
  "DomainSnapshotNum Dom Flags cl =
     call 187 RemoteProgram
       (Some (ty_DomainSnapshotNumArgs, VStruct [Dom, of_u32 Flags]))
       [TInt32] None None cl"

definition DomainSnapshotListNames :: "val \<Rightarrow> i32 \<Rightarrow> u32 \<Rightarrow>
    client \<Rightarrow> call_result" where
  "DomainSnapshotListNames Dom Maxnames Flags cl =
     call 188 RemoteProgram
       (Some (ty_DomainSnapshotListNamesArgs, VStruct [Dom, of_i32 Maxnames, of_u32 Flags]))
       [TSlice TString] None None cl"

definition DomainSnapshotLookupByName :: "val \<Rightarrow> string \<Rightarrow> u32 \<Rightarrow>
    client \<Rightarrow> call_result" where
  "DomainSnapshotLookupByName Dom Name Flags cl =
     call 189 RemoteProgram
       (Some (ty_DomainSnapshotLookupByNameArgs, VStruct [Dom, VString Name, of_u32 Flags]))
       [ty_DomainSnapshot] None None cl"

definition DomainHasCurrentSnapshot :: "val \<Rightarrow> u32 \<Rightarrow> client \<Rightarrow>
    call_result" where
  "DomainHasCurrentSnapshot Dom Flags cl =
     call 190 RemoteProgram
       (Some (ty_DomainHasCurrentSnapshotArgs, VStruct [Dom, of_u32 Flags]))
       [TInt32] None None cl"

definition DomainSnapshotCurrent :: "val \<Rightarrow> u32 \<Rightarrow> client \<Rightarrow>
    call_result" where
  "DomainSnapshotCurrent Dom Flags cl =
     call 191 RemoteProgram
       (Some (ty_DomainSnapshotCurrentArgs, VStruct [Dom, of_u32 Flags]))
       [ty_DomainSnapshot] None None cl"

definition DomainRevertToSnapshot :: "val \<Rightarrow> u32 \<Rightarrow> client \<Rightarrow>
    call_result" where
  "DomainRevertToSnapshot Snap Flags cl =
     call 192 RemoteProgram
       (Some (ty_DomainRevertToSnapshotArgs, VStruct [Snap, of_u32 Flags]))
       [] None None cl"

definition DomainSnapshotDelete :: "val \<Rightarrow> i32 \<Rightarrow> client \<Rightarrow>
    call_result" where
  "DomainSnapshotDelete Snap Flags cl =
     call 193 RemoteProgram
       (Some (ty_DomainSnapshotDeleteArgs, VStruct [Snap, of_i32 Flags]))
       [] None None cl"

definition DomainGetBlockInfo :: "val \<Rightarrow> string \<Rightarrow> u32 \<Rightarrow> client
    \<Rightarrow> call_result" where
  "DomainGetBlockInfo Dom Path Flags cl =
     call 194 RemoteProgram
       (Some (ty_DomainGetBlockInfoArgs, VStruct [Dom, VString Path, of_u32 Flags]))
       [TUint64, TUint64, TUint64] None None cl"

definition DomainEventIOErrorReason :: "client \<Rightarrow> call_result" where
  "DomainEventIOErrorReason cl =
     call 195 RemoteProgram None [] None None cl"

definition DomainCreateWithFlags :: "val \<Rightarrow> u32 \<Rightarrow> client \<Rightarrow>
    call_result" where
  "DomainCreateWithFlags Dom Flags cl =
     call 196 RemoteProgram
       (Some (ty_DomainCreateWithFlagsArgs, VStruct [Dom, of_u32 Flags]))
       [ty_Domain] None None cl"

definition DomainSetMemoryParameters :: "val \<Rightarrow> val list \<Rightarrow> u32
    \<Rightarrow> client \<Rightarrow> call_result" where
  "DomainSetMemoryParameters Dom Params Flags cl =
     call 197 RemoteProgram
       (Some (ty_DomainSetMemoryParametersArgs, VStruct [Dom, VSlice Params [], of_u32 Flags]))
       [] None None cl"

definition DomainGetMemoryParameters :: "val \<Rightarrow> i32 \<Rightarrow> u32 \<Rightarrow>
    client \<Rightarrow> call_result" where
  "DomainGetMemoryParameters Dom Nparams Flags cl =
     call 198 RemoteProgram
       (Some (ty_DomainGetMemoryParametersArgs, VStruct [Dom, of_i32 Nparams, of_u32 Flags]))
       [TSlice ty_TypedParam, TInt32] None None cl"

definition DomainSetVcpusFlags :: "val \<Rightarrow> u32 \<Rightarrow> u32 \<Rightarrow> client
    \<Rightarrow> call_result" where
  "DomainSetVcpusFlags Dom Nvcpus Flags cl =
     call 199 RemoteProgram
       (Some (ty_DomainSetVcpusFlagsArgs, VStruct [Dom, of_u32 Nvcpus, of_u32 Flags]))
       [] None None cl"

definition DomainGetVcpusFlags :: "val \<Rightarrow> u32 \<Rightarrow> client \<Rightarrow>
    call_result" where
  "DomainGetVcpusFlags Dom Flags cl =
     call 200 RemoteProgram
       (Some (ty_DomainGetVcpusFlagsArgs, VStruct [Dom, of_u32 Flags]))
       [TInt32] None None cl"

definition DomainIsUpdated :: "val \<Rightarrow> client \<Rightarrow> call_result" where
  "DomainIsUpdated Dom cl =
     call 202 RemoteProgram (Some (ty_DomainIsUpdatedArgs, VStruct [Dom])) [TInt32] None None cl"

definition DomainSetMemoryFlags :: "val \<Rightarrow> u64 \<Rightarrow> u32 \<Rightarrow> client
    \<Rightarrow> call_result" where
  "DomainSetMemoryFlags Dom Memory Flags cl =
     call 204 RemoteProgram
       (Some (ty_DomainSetMemoryFlagsArgs, VStruct [Dom, VUint Memory, of_u32 Flags]))
       [] None None cl"

definition DomainSetBlkioParameters :: "val \<Rightarrow> val list \<Rightarrow> u32 \<Rightarrow>
    client \<Rightarrow> call_result" where
  "DomainSetBlkioParameters Dom Params Flags cl =
     call 205 RemoteProgram
       (Some (ty_DomainSetBlkioParametersArgs, VStruct [Dom, VSlice Params [], of_u32 Flags]))
       [] None None cl"

definition DomainGetBlkioParameters :: "val \<Rightarrow> i32 \<Rightarrow> u32 \<Rightarrow>
    client \<Rightarrow> call_result" where
  "DomainGetBlkioParameters Dom Nparams Flags cl =
     call 206 RemoteProgram
       (Some (ty_DomainGetBlkioParametersArgs, VStruct [Dom, of_i32 Nparams, of_u32 Flags]))
       [TSlice ty_TypedParam, TInt32] None None cl"

definition DomainMigrateSetMaxSpeed :: "val \<Rightarrow> u64 \<Rightarrow> u32 \<Rightarrow>
    client \<Rightarrow> call_result" where
  "DomainMigrateSetMaxSpeed Dom Bandwidth Flags cl =
     call 207 RemoteProgram
       (Some (ty_DomainMigrateSetMaxSpeedArgs, VStruct [Dom, VUint Bandwidth, of_u32 Flags]))
       [] None None cl"

definition DomainInjectNmi :: "val \<Rightarrow> u32 \<Rightarrow> client \<Rightarrow>
    call_result" where
  "DomainInjectNmi Dom Flags cl =
     call 210 RemoteProgram
       (Some (ty_DomainInjectNmiArgs, VStruct [Dom, of_u32 Flags]))
       [] None None cl"

definition DomainMigrateBegin3 :: "val \<Rightarrow> string list \<Rightarrow> u64 \<Rightarrow>
    string list \<Rightarrow> u64 \<Rightarrow> client \<Rightarrow> call_result" where
  "DomainMigrateBegin3 Dom Xmlin Flags Dname Bandwidth cl =
     call 213 RemoteProgram
       (Some (ty_DomainMigrateBegin3Args, VStruct [Dom, of_strings Xmlin, VUint Flags,
         of_strings Dname, VUint Bandwidth]))
       [TSlice TUint8, TString] None None cl"

definition DomainMigratePrepare3 :: "byte list \<Rightarrow> string list \<Rightarrow> u64
    \<Rightarrow> string list \<Rightarrow> u64 \<Rightarrow> string \<Rightarrow> client
    \<Rightarrow> call_result" where
  "DomainMigratePrepare3 CookieIn UriIn Flags Dname Bandwidth DomXML cl =
     call 214 RemoteProgram
       (Some (ty_DomainMigratePrepare3Args, VStruct [of_bytes CookieIn, of_strings UriIn, VUint
         Flags, of_strings Dname, VUint Bandwidth, VString DomXML]))
       [TSlice TUint8, ty_OptString] None None cl"

definition DomainMigratePerform3 :: "val \<Rightarrow> string list \<Rightarrow> byte list
    \<Rightarrow> string list \<Rightarrow> string list \<Rightarrow> u64 \<Rightarrow> string
    list \<Rightarrow> u64 \<Rightarrow> client \<Rightarrow> call_result" where
  "DomainMigratePerform3 Dom Xmlin CookieIn Dconnuri Uri Flags Dname Bandwidth cl =
     call 216 RemoteProgram
       (Some (ty_DomainMigratePerform3Args, VStruct [Dom, of_strings Xmlin, of_bytes CookieIn,
         of_strings Dconnuri, of_strings Uri, VUint Flags, of_strings Dname, VUint
         Bandwidth]))
       [TSlice TUint8] None None cl"

definition DomainMigrateFinish3 :: "string \<Rightarrow> byte list \<Rightarrow> string list
    \<Rightarrow> string list \<Rightarrow> u64 \<Rightarrow> i32 \<Rightarrow> client
    \<Rightarrow> call_result" where
  "DomainMigrateFinish3 Dname CookieIn Dconnuri Uri Flags Cancelled cl =
     call 217 RemoteProgram
       (Some (ty_DomainMigrateFinish3Args, VStruct [VString Dname, of_bytes CookieIn,
         of_strings Dconnuri, of_strings Uri, VUint Flags, of_i32 Cancelled]))
       [ty_Domain, TSlice TUint8] None None cl"

definition DomainMigrateConfirm3 :: "val \<Rightarrow> byte list \<Rightarrow> u64 \<Rightarrow>
    i32 \<Rightarrow> client \<Rightarrow> call_result" where
  "DomainMigrateConfirm3 Dom CookieIn Flags Cancelled cl =
     call 218 RemoteProgram
       (Some (ty_DomainMigrateConfirm3Args, VStruct [Dom, of_bytes CookieIn, VUint Flags,
         of_i32 Cancelled]))
       [] None None cl"

definition DomainSetSchedulerParametersFlags :: "val \<Rightarrow> val list \<Rightarrow> u32
    \<Rightarrow> client \<Rightarrow> call_result" where
  "DomainSetSchedulerParametersFlags Dom Params Flags cl =
     call 219 RemoteProgram
       (Some (ty_DomainSetSchedulerParametersFlagsArgs, VStruct [Dom, VSlice Params [], of_u32
         Flags]))
       [] None None cl"

definition DomainGetSchedulerParametersFlags :: "val \<Rightarrow> i32 \<Rightarrow> u32
    \<Rightarrow> client \<Rightarrow> call_result" where
  "DomainGetSchedulerParametersFlags Dom Nparams Flags cl =
     call 223 RemoteProgram
       (Some (ty_DomainGetSchedulerParametersFlagsArgs, VStruct [Dom, of_i32 Nparams, of_u32
         Flags]))
       [TSlice ty_TypedParam] None None cl"

definition DomainEventControlError :: "client \<Rightarrow> call_result" where
  "DomainEventControlError cl =
     call 224 RemoteProgram None [] None None cl"

definition DomainPinVcpuFlags :: "val \<Rightarrow> u32 \<Rightarrow> byte list \<Rightarrow> u32
    \<Rightarrow> client \<Rightarrow> call_result" where
  "DomainPinVcpuFlags Dom Vcpu Cpumap Flags cl =
     call 225 RemoteProgram
       (Some (ty_DomainPinVcpuFlagsArgs, VStruct [Dom, of_u32 Vcpu, of_bytes Cpumap, of_u32
         Flags]))
       [] None None cl"

definition DomainSendKey :: "val \<Rightarrow> u32 \<Rightarrow> u32 \<Rightarrow> u32 list
    \<Rightarrow> u32 \<Rightarrow> client \<Rightarrow> call_result" where
  "DomainSendKey Dom Codeset Holdtime Keycodes Flags cl =
     call 226 RemoteProgram
       (Some (ty_DomainSendKeyArgs, VStruct [Dom, of_u32 Codeset, of_u32 Holdtime, of_u32s
         Keycodes, of_u32 Flags]))
       [] None None cl"

definition DomainGetControlInfo :: "val \<Rightarrow> u32 \<Rightarrow> client \<Rightarrow>
    call_result" where
  "DomainGetControlInfo Dom Flags cl =
     call 229 RemoteProgram
       (Some (ty_DomainGetControlInfoArgs, VStruct [Dom, of_u32 Flags]))
       [TUint32, TUint32, TUint64] None None cl"

definition DomainGetVcpuPinInfo :: "val \<Rightarrow> i32 \<Rightarrow> i32 \<Rightarrow> u32
    \<Rightarrow> client \<Rightarrow> call_result" where
  "DomainGetVcpuPinInfo Dom Ncpumaps Maplen Flags cl =
     call 230 RemoteProgram
       (Some (ty_DomainGetVcpuPinInfoArgs, VStruct [Dom, of_i32 Ncpumaps, of_i32 Maplen, of_u32
         Flags]))
       [TSlice TUint8, TInt32] None None cl"

definition DomainSaveFlags :: "val \<Rightarrow> string \<Rightarrow> string list \<Rightarrow>
    u32 \<Rightarrow> client \<Rightarrow> call_result" where
  "DomainSaveFlags Dom To Dxml Flags cl =
     call 232 RemoteProgram
       (Some (ty_DomainSaveFlagsArgs, VStruct [Dom, VString To, of_strings Dxml, of_u32
         Flags]))
       [] None None cl"

definition DomainRestoreFlags :: "string \<Rightarrow> string list \<Rightarrow> u32 \<Rightarrow>
    client \<Rightarrow> call_result" where
  "DomainRestoreFlags From Dxml Flags cl =
     call 233 RemoteProgram
       (Some (ty_DomainRestoreFlagsArgs, VStruct [VString From, of_strings Dxml, of_u32
         Flags]))
       [] None None cl"

definition DomainSaveImageGetXMLDesc :: "string \<Rightarrow> u32 \<Rightarrow> client
    \<Rightarrow> call_result" where
  "DomainSaveImageGetXMLDesc File Flags cl =
     call 235 RemoteProgram
       (Some (ty_DomainSaveImageGetXMLDescArgs, VStruct [VString File, of_u32 Flags]))
       [TString] None None cl"

definition DomainSaveImageDefineXML :: "string \<Rightarrow> string \<Rightarrow> u32
    \<Rightarrow> client \<Rightarrow> call_result" where
  "DomainSaveImageDefineXML File Dxml Flags cl =
     call 236 RemoteProgram
       (Some (ty_DomainSaveImageDefineXMLArgs, VStruct [VString File, VString Dxml, of_u32
         Flags]))
       [] None None cl"

definition DomainBlockJobAbort :: "val \<Rightarrow> string \<Rightarrow> i32 \<Rightarrow> client
    \<Rightarrow> call_result" where
  "DomainBlockJobAbort Dom Path Flags cl =
     call 237 RemoteProgram
       (Some (ty_DomainBlockJobAbortArgs, VStruct [Dom, VString Path, of_i32 Flags]))
       [] None None cl"

definition DomainGetBlockJobInfo :: "val \<Rightarrow> string \<Rightarrow> u32 \<Rightarrow>
    client \<Rightarrow> call_result" where
  "DomainGetBlockJobInfo Dom Path Flags cl =
     call 238 RemoteProgram
       (Some (ty_DomainGetBlockJobInfoArgs, VStruct [Dom, VString Path, of_u32 Flags]))
       [TInt32, TInt32, TUint64, TUint64, TUint64] None None cl"

definition DomainBlockJobSetSpeed :: "val \<Rightarrow> string \<Rightarrow> u64 \<Rightarrow> i32
    \<Rightarrow> client \<Rightarrow> call_result" where
  "DomainBlockJobSetSpeed Dom Path Bandwidth Flags cl =
     call 239 RemoteProgram
       (Some (ty_DomainBlockJobSetSpeedArgs, VStruct [Dom, VString Path, VUint Bandwidth,
         of_i32 Flags]))
       [] None None cl"

definition DomainBlockPull :: "val \<Rightarrow> string \<Rightarrow> u64 \<Rightarrow> i32
    \<Rightarrow> client \<Rightarrow> call_result" where
  "DomainBlockPull Dom Path Bandwidth Flags cl =
     call 240 RemoteProgram
       (Some (ty_DomainBlockPullArgs, VStruct [Dom, VString Path, VUint Bandwidth, of_i32
         Flags]))
       [] None None cl"

definition DomainEventBlockJob :: "client \<Rightarrow> call_result" where
  "DomainEventBlockJob cl =
     call 241 RemoteProgram None [] None None cl"

definition DomainMigrateGetMaxSpeed :: "val \<Rightarrow> u32 \<Rightarrow> client \<Rightarrow>
    call_result" where
  "DomainMigrateGetMaxSpeed Dom Flags cl =
     call 242 RemoteProgram
       (Some (ty_DomainMigrateGetMaxSpeedArgs, VStruct [Dom, of_u32 Flags]))
       [TUint64] None None cl"

definition DomainBlockStatsFlags :: "val \<Rightarrow> string \<Rightarrow> i32 \<Rightarrow> u32
    \<Rightarrow> client \<Rightarrow> call_result" where
  "DomainBlockStatsFlags Dom Path Nparams Flags cl =
     call 243 RemoteProgram
       (Some (ty_DomainBlockStatsFlagsArgs, VStruct [Dom, VString Path, of_i32 Nparams, of_u32
         Flags]))
       [TSlice ty_TypedParam, TInt32] None None cl"

definition DomainSnapshotGetParent :: "val \<Rightarrow> u32 \<Rightarrow> client \<Rightarrow>
    call_result" where
  "DomainSnapshotGetParent Snap Flags cl =
     call 244 RemoteProgram
       (Some (ty_DomainSnapshotGetParentArgs, VStruct [Snap, of_u32 Flags]))
       [ty_DomainSnapshot] None None cl"

definition DomainSnapshotNumChildren :: "val \<Rightarrow> u32 \<Rightarrow> client \<Rightarrow>
    call_result" where
  "DomainSnapshotNumChildren Snap Flags cl =
     call 246 RemoteProgram
       (Some (ty_DomainSnapshotNumChildrenArgs, VStruct [Snap, of_u32 Flags]))
       [TInt32] None None cl"

definition DomainSnapshotListChildrenNames :: "val \<Rightarrow> i32 \<Rightarrow> u32
    \<Rightarrow> client \<Rightarrow> call_result" where
  "DomainSnapshotListChildrenNames Snap Maxnames Flags cl =
     call 247 RemoteProgram
       (Some (ty_DomainSnapshotListChildrenNamesArgs, VStruct [Snap, of_i32 Maxnames, of_u32
         Flags]))
       [TSlice TString] None None cl"

definition DomainEventDiskChange :: "client \<Rightarrow> call_result" where
  "DomainEventDiskChange cl =
     call 248 RemoteProgram None [] None None cl"

definition DomainOpenGraphics :: "val \<Rightarrow> u32 \<Rightarrow> i32 \<Rightarrow> client
    \<Rightarrow> call_result" where
  "DomainOpenGraphics Dom Idx Flags cl =
     call 249 RemoteProgram
       (Some (ty_DomainOpenGraphicsArgs, VStruct [Dom, of_u32 Idx, of_i32 Flags]))
       [] None None cl"

definition DomainBlockResize :: "val \<Rightarrow> string \<Rightarrow> u64 \<Rightarrow> i32
    \<Rightarrow> client \<Rightarrow> call_result" where
  "DomainBlockResize Dom Disk Size Flags cl =
     call 251 RemoteProgram
       (Some (ty_DomainBlockResizeArgs, VStruct [Dom, VString Disk, VUint Size, of_i32 Flags]))
       [] None None cl"

definition DomainSetNumaParameters :: "val \<Rightarrow> val list \<Rightarrow> u32 \<Rightarrow>
    client \<Rightarrow> call_result" where
  "DomainSetNumaParameters Dom Params Flags cl =
     call 254 RemoteProgram
       (Some (ty_DomainSetNumaParametersArgs, VStruct [Dom, VSlice Params [], of_u32 Flags]))
       [] None None cl"

definition DomainGetNumaParameters :: "val \<Rightarrow> i32 \<Rightarrow> u32 \<Rightarrow>
    client \<Rightarrow> call_result" where
  "DomainGetNumaParameters Dom Nparams Flags cl =
     call 255 RemoteProgram
       (Some (ty_DomainGetNumaParametersArgs, VStruct [Dom, of_i32 Nparams, of_u32 Flags]))
       [TSlice ty_TypedParam, TInt32] None None cl"

definition DomainSetInterfaceParameters :: "val \<Rightarrow> string \<Rightarrow> val list
    \<Rightarrow> u32 \<Rightarrow> client \<Rightarrow> call_result" where
  "DomainSetInterfaceParameters Dom Device Params Flags cl =
     call 256 RemoteProgram
       (Some (ty_DomainSetInterfaceParametersArgs, VStruct [Dom, VString Device, VSlice Params
         [], of_u32 Flags]))
       [] None None cl"

definition DomainGetInterfaceParameters :: "val \<Rightarrow> string \<Rightarrow> i32
    \<Rightarrow> i32 \<Rightarrow> client \<Rightarrow> call_result" where
  "DomainGetInterfaceParameters Dom Device Nparams Flags cl =
     call 257 RemoteProgram
       (Some (ty_DomainGetInterfaceParametersArgs, VStruct [Dom, VString Device, of_i32
         Nparams, of_i32 Flags]))
       [TSlice ty_TypedParam, TInt32] None None cl"

definition DomainPmSuspendForDuration :: "val \<Rightarrow> u32 \<Rightarrow> u64 \<Rightarrow>
    u32 \<Rightarrow> client \<Rightarrow> call_result" where
  "DomainPmSuspendForDuration Dom Target Duration Flags cl =
     call 261 RemoteProgram
       (Some (ty_DomainPmSuspendForDurationArgs, VStruct [Dom, of_u32 Target, VUint Duration,
         of_u32 Flags]))
       [] None None cl"

definition DomainGetCPUStats :: "val \<Rightarrow> u32 \<Rightarrow> i32 \<Rightarrow> u32
    \<Rightarrow> i32 \<Rightarrow> client \<Rightarrow> call_result" where
  "DomainGetCPUStats Dom Nparams StartCPU Ncpus Flags cl =
     call 262 RemoteProgram
       (Some (ty_DomainGetCPUStatsArgs, VStruct [Dom, of_u32 Nparams, of_i32 StartCPU, of_u32
         Ncpus, of_i32 Flags]))
       [TSlice ty_TypedParam, TInt32] None None cl"

definition DomainGetDiskErrors :: "val \<Rightarrow> u32 \<Rightarrow> u32 \<Rightarrow> client
    \<Rightarrow> call_result" where
  "DomainGetDiskErrors Dom Maxerrors Flags cl =
     call 263 RemoteProgram
       (Some (ty_DomainGetDiskErrorsArgs, VStruct [Dom, of_u32 Maxerrors, of_u32 Flags]))
       [TSlice ty_DomainDiskError, TInt32] None None cl"

definition DomainSetMetadata :: "val \<Rightarrow> i32 \<Rightarrow> string list \<Rightarrow>
    string list \<Rightarrow> string list \<Rightarrow> i32 \<Rightarrow> client \<Rightarrow>
    call_result" where
  "DomainSetMetadata Dom Typ Metadata Key Uri Flags cl =
     call 264 RemoteProgram
       (Some (ty_DomainSetMetadataArgs, VStruct [Dom, of_i32 Typ, of_strings Metadata,
         of_strings Key, of_strings Uri, of_i32 Flags]))
       [] None None cl"

definition DomainGetMetadata :: "val \<Rightarrow> i32 \<Rightarrow> string list \<Rightarrow> i32
    \<Rightarrow> client \<Rightarrow> call_result" where
  "DomainGetMetadata Dom Typ Uri Flags cl =
     call 265 RemoteProgram
       (Some (ty_DomainGetMetadataArgs, VStruct [Dom, of_i32 Typ, of_strings Uri, of_i32
         Flags]))
       [TString] None None cl"

definition DomainBlockRebase :: "val \<Rightarrow> string \<Rightarrow> string list \<Rightarrow>
    u64 \<Rightarrow> i32 \<Rightarrow> client \<Rightarrow> call_result" where
  "DomainBlockRebase Dom Path Base Bandwidth Flags cl =
     call 266 RemoteProgram
       (Some (ty_DomainBlockRebaseArgs, VStruct [Dom, VString Path, of_strings Base, VUint
         Bandwidth, of_i32 Flags]))
       [] None None cl"

definition DomainPmWakeup :: "val \<Rightarrow> u32 \<Rightarrow> client \<Rightarrow>
    call_result" where
  "DomainPmWakeup Dom Flags cl =
     call 267 RemoteProgram
       (Some (ty_DomainPmWakeupArgs, VStruct [Dom, of_u32 Flags]))
       [] None None cl"

definition DomainEventTrayChange :: "client \<Rightarrow> call_result" where
  "DomainEventTrayChange cl =
     call 268 RemoteProgram None [] None None cl"

definition DomainEventPmwakeup :: "client \<Rightarrow> call_result" where
  "DomainEventPmwakeup cl =
     call 269 RemoteProgram None [] None None cl"

definition DomainEventPmsuspend :: "client \<Rightarrow> call_result" where
  "DomainEventPmsuspend cl =
     call 270 RemoteProgram None [] None None cl"

definition DomainSnapshotIsCurrent :: "val \<Rightarrow> u32 \<Rightarrow> client \<Rightarrow>
    call_result" where
  "DomainSnapshotIsCurrent Snap Flags cl =
     call 271 RemoteProgram
       (Some (ty_DomainSnapshotIsCurrentArgs, VStruct [Snap, of_u32 Flags]))
       [TInt32] None None cl"

definition DomainSnapshotHasMetadata :: "val \<Rightarrow> u32 \<Rightarrow> client \<Rightarrow>
    call_result" where
  "DomainSnapshotHasMetadata Snap Flags cl =
     call 272 RemoteProgram
       (Some (ty_DomainSnapshotHasMetadataArgs, VStruct [Snap, of_u32 Flags]))
       [TInt32] None None cl"

definition DomainListAllSnapshots :: "val \<Rightarrow> i32 \<Rightarrow> u32 \<Rightarrow> client
    \<Rightarrow> call_result" where
  "DomainListAllSnapshots Dom NeedResults Flags cl =
     call 274 RemoteProgram
       (Some (ty_DomainListAllSnapshotsArgs, VStruct [Dom, of_i32 NeedResults, of_u32 Flags]))
       [TSlice ty_DomainSnapshot, TInt32] None None cl"

definition DomainSnapshotListAllChildren :: "val \<Rightarrow> i32 \<Rightarrow> u32 \<Rightarrow>
    client \<Rightarrow> call_result" where
  "DomainSnapshotListAllChildren Snapshot NeedResults Flags cl =
     call 275 RemoteProgram
       (Some (ty_DomainSnapshotListAllChildrenArgs, VStruct [Snapshot, of_i32 NeedResults,
         of_u32 Flags]))
       [TSlice ty_DomainSnapshot, TInt32] None None cl"

definition DomainEventBalloonChange :: "client \<Rightarrow> call_result" where
  "DomainEventBalloonChange cl =
     call 276 RemoteProgram None [] None None cl"

definition DomainGetHostname :: "val \<Rightarrow> i32 \<Rightarrow> client \<Rightarrow>
    call_result" where
  "DomainGetHostname Dom Flags cl =
     call 277 RemoteProgram
       (Some (ty_DomainGetHostnameArgs, VStruct [Dom, of_i32 Flags]))
       [TString] None None cl"

definition DomainGetSecurityLabelList :: "val \<Rightarrow> client \<Rightarrow> call_result"
    where
  "DomainGetSecurityLabelList Dom cl =
     call 278 RemoteProgram
       (Some (ty_DomainGetSecurityLabelListArgs, VStruct [Dom]))
       [TSlice ty_DomainGetSecurityLabelRet, TInt32] None None cl"

definition DomainPinEmulator :: "val \<Rightarrow> byte list \<Rightarrow> i32 \<Rightarrow>
    client \<Rightarrow> call_result" where
  "DomainPinEmulator Dom Cpumap Flags cl =
     call 279 RemoteProgram
       (Some (ty_DomainPinEmulatorArgs, VStruct [Dom, of_bytes Cpumap, of_i32 Flags]))
       [] None None cl"

definition DomainGetEmulatorPinInfo :: "val \<Rightarrow> i32 \<Rightarrow> i32 \<Rightarrow>
    client \<Rightarrow> call_result" where
  "DomainGetEmulatorPinInfo Dom Maplen Flags cl =
     call 280 RemoteProgram
       (Some (ty_DomainGetEmulatorPinInfoArgs, VStruct [Dom, of_i32 Maplen, of_i32 Flags]))
       [TSlice TUint8, TInt32] None None cl"

definition DomainBlockCommit :: "val \<Rightarrow> string \<Rightarrow> string list \<Rightarrow>
    string list \<Rightarrow> u64 \<Rightarrow> i32 \<Rightarrow> client \<Rightarrow>
    call_result" where
  "DomainBlockCommit Dom Disk Base Top Bandwidth Flags cl =
     call 290 RemoteProgram
       (Some (ty_DomainBlockCommitArgs, VStruct [Dom, VString Disk, of_strings Base, of_strings
         Top, VUint Bandwidth, of_i32 Flags]))
       [] None None cl"

definition DomainEventPmsuspendDisk :: "client \<Rightarrow> call_result" where
  "DomainEventPmsuspendDisk cl =
     call 292 RemoteProgram None [] None None cl"

definition DomainFstrim :: "val \<Rightarrow> string list \<Rightarrow> u64 \<Rightarrow> u32
    \<Rightarrow> client \<Rightarrow> call_result" where
  "DomainFstrim Dom MountPoint Minimum Flags cl =
     call 294 RemoteProgram
       (Some (ty_DomainFstrimArgs, VStruct [Dom, of_strings MountPoint, VUint Minimum, of_u32
         Flags]))
       [] None None cl"

definition DomainSendProcessSignal :: "val \<Rightarrow> i64 \<Rightarrow> u32 \<Rightarrow> u32
    \<Rightarrow> client \<Rightarrow> call_result" where
  "DomainSendProcessSignal Dom PidValue Signum Flags cl =
     call 295 RemoteProgram
       (Some (ty_DomainSendProcessSignalArgs, VStruct [Dom, VInt PidValue, of_u32 Signum,
         of_u32 Flags]))
       [] None None cl"

definition DomainGetJobStats :: "val \<Rightarrow> i32 \<Rightarrow> client \<Rightarrow>
    call_result" where
  "DomainGetJobStats Dom Flags cl =
     call 298 RemoteProgram
       (Some (ty_DomainGetJobStatsArgs, VStruct [Dom, of_i32 Flags]))
       [TInt32, TSlice ty_TypedParam] None None cl"

definition DomainMigrateGetCompressionCache :: "val \<Rightarrow> u32 \<Rightarrow> client
    \<Rightarrow> call_result" where
  "DomainMigrateGetCompressionCache Dom Flags cl =
     call 299 RemoteProgram
       (Some (ty_DomainMigrateGetCompressionCacheArgs, VStruct [Dom, of_u32 Flags]))
       [TUint64] None None cl"

definition DomainMigrateSetCompressionCache :: "val \<Rightarrow> u64 \<Rightarrow> u32
    \<Rightarrow> client \<Rightarrow> call_result" where
  "DomainMigrateSetCompressionCache Dom CacheSize Flags cl =
     call 300 RemoteProgram
       (Some (ty_DomainMigrateSetCompressionCacheArgs, VStruct [Dom, VUint CacheSize, of_u32
         Flags]))
       [] None None cl"

definition DomainMigrateBegin3Params :: "val \<Rightarrow> val list \<Rightarrow> u32
    \<Rightarrow> client \<Rightarrow> call_result" where
  "DomainMigrateBegin3Params Dom Params Flags cl =
     call 302 RemoteProgram
       (Some (ty_DomainMigrateBegin3ParamsArgs, VStruct [Dom, VSlice Params [], of_u32 Flags]))
       [TSlice TUint8, TString] None None cl"

definition DomainMigratePrepare3Params :: "val list \<Rightarrow> byte list \<Rightarrow> u32
    \<Rightarrow> client \<Rightarrow> call_result" where
  "DomainMigratePrepare3Params Params CookieIn Flags cl =
     call 303 RemoteProgram
       (Some (ty_DomainMigratePrepare3ParamsArgs, VStruct [VSlice Params [], of_bytes CookieIn,
         of_u32 Flags]))
       [TSlice TUint8, ty_OptString] None None cl"

definition DomainMigratePrepareTunnel3Params :: "val list \<Rightarrow> byte list \<Rightarrow>
    u32 \<Rightarrow> client \<Rightarrow> call_result" where
  "DomainMigratePrepareTunnel3Params Params CookieIn Flags cl =
     call 304 RemoteProgram
       (Some (ty_DomainMigratePrepareTunnel3ParamsArgs, VStruct [VSlice Params [], of_bytes
         CookieIn, of_u32 Flags]))
       [TSlice TUint8] None None cl"

definition DomainMigratePerform3Params :: "val \<Rightarrow> string list \<Rightarrow> val list
    \<Rightarrow> byte list \<Rightarrow> i32 \<Rightarrow> client \<Rightarrow> call_result"
    where
  "DomainMigratePerform3Params Dom Dconnuri Params CookieIn Flags cl =
     call 305 RemoteProgram
       (Some (ty_DomainMigratePerform3ParamsArgs, VStruct [Dom, of_strings Dconnuri, VSlice
         Params [], of_bytes CookieIn, of_i32 Flags]))
       [TSlice TUint8] None None cl"

definition DomainMigrateFinish3Params :: "val list \<Rightarrow> byte list \<Rightarrow> u32
    \<Rightarrow> i32 \<Rightarrow> client \<Rightarrow> call_result" where
  "DomainMigrateFinish3Params Params CookieIn Flags Cancelled cl =
     call 306 RemoteProgram
       (Some (ty_DomainMigrateFinish3ParamsArgs, VStruct [VSlice Params [], of_bytes CookieIn,
         of_u32 Flags, of_i32 Cancelled]))
       [ty_Domain, TSlice TUint8] None None cl"

definition DomainMigrateConfirm3Params :: "val \<Rightarrow> val list \<Rightarrow> byte list
    \<Rightarrow> u32 \<Rightarrow> i32 \<Rightarrow> client \<Rightarrow> call_result" where
  "DomainMigrateConfirm3Params Dom Params CookieIn Flags Cancelled cl =
     call 307 RemoteProgram
       (Some (ty_DomainMigrateConfirm3ParamsArgs, VStruct [Dom, VSlice Params [], of_bytes
         CookieIn, of_u32 Flags, of_i32 Cancelled]))
       [] None None cl"

definition DomainSetMemoryStatsPeriod :: "val \<Rightarrow> i32 \<Rightarrow> i32 \<Rightarrow>
    client \<Rightarrow> call_result" where
  "DomainSetMemoryStatsPeriod Dom Period Flags cl =
     call 308 RemoteProgram
       (Some (ty_DomainSetMemoryStatsPeriodArgs, VStruct [Dom, of_i32 Period, of_i32 Flags]))
       [] None None cl"

definition DomainCreateXMLWithFiles :: "string \<Rightarrow> i32 \<Rightarrow> client
    \<Rightarrow> call_result" where
  "DomainCreateXMLWithFiles XMLDesc Flags cl =
     call 309 RemoteProgram
       (Some (ty_DomainCreateXMLWithFilesArgs, VStruct [VString XMLDesc, of_i32 Flags]))
       [ty_Domain] None None cl"

definition DomainCreateWithFiles :: "val \<Rightarrow> i32 \<Rightarrow> client \<Rightarrow>
    call_result" where
  "DomainCreateWithFiles Dom Flags cl =
     call 310 RemoteProgram
       (Some (ty_DomainCreateWithFilesArgs, VStruct [Dom, of_i32 Flags]))
       [ty_Domain] None None cl"

definition DomainEventDeviceRemoved :: "client \<Rightarrow> call_result" where
  "DomainEventDeviceRemoved cl =
     call 311 RemoteProgram None [] None None cl"

definition DomainEventCallbackLifecycle :: "client \<Rightarrow> call_result" where
  "DomainEventCallbackLifecycle cl =
     call 318 RemoteProgram None [] None None cl"

definition DomainEventCallbackReboot :: "client \<Rightarrow> call_result" where
  "DomainEventCallbackReboot cl =
     call 319 RemoteProgram None [] None None cl"

definition DomainEventCallbackRtcChange :: "client \<Rightarrow> call_result" where
  "DomainEventCallbackRtcChange cl =
     call 320 RemoteProgram None [] None None cl"

definition DomainEventCallbackWatchdog :: "client \<Rightarrow> call_result" where
  "DomainEventCallbackWatchdog cl =
     call 321 RemoteProgram None [] None None cl"

definition DomainEventCallbackIOError :: "client \<Rightarrow> call_result" where
  "DomainEventCallbackIOError cl =
     call 322 RemoteProgram None [] None None cl"

definition DomainEventCallbackGraphics :: "client \<Rightarrow> call_result" where
  "DomainEventCallbackGraphics cl =
     call 323 RemoteProgram None [] None None cl"

definition DomainEventCallbackIOErrorReason :: "client \<Rightarrow> call_result" where
  "DomainEventCallbackIOErrorReason cl =
     call 324 RemoteProgram None [] None None cl"

definition DomainEventCallbackControlError :: "client \<Rightarrow> call_result" where
  "DomainEventCallbackControlError cl =
     call 325 RemoteProgram None [] None None cl"

definition DomainEventCallbackBlockJob :: "client \<Rightarrow> call_result" where
  "DomainEventCallbackBlockJob cl =
     call 326 RemoteProgram None [] None None cl"

definition DomainEventCallbackDiskChange :: "client \<Rightarrow> call_result" where
  "DomainEventCallbackDiskChange cl =
     call 327 RemoteProgram None [] None None cl"

definition DomainEventCallbackTrayChange :: "client \<Rightarrow> call_result" where
  "DomainEventCallbackTrayChange cl =
     call 328 RemoteProgram None [] None None cl"

definition DomainEventCallbackPmwakeup :: "client \<Rightarrow> call_result" where
  "DomainEventCallbackPmwakeup cl =
     call 329 RemoteProgram None [] None None cl"

definition DomainEventCallbackPmsuspend :: "client \<Rightarrow> call_result" where
  "DomainEventCallbackPmsuspend cl =
     call 330 RemoteProgram None [] None None cl"

definition DomainEventCallbackBalloonChange :: "client \<Rightarrow> call_result" where
  "DomainEventCallbackBalloonChange cl =
     call 331 RemoteProgram None [] None None cl"

definition DomainEventCallbackPmsuspendDisk :: "client \<Rightarrow> call_result" where
  "DomainEventCallbackPmsuspendDisk cl =
     call 332 RemoteProgram None [] None None cl"

definition DomainEventCallbackDeviceRemoved :: "client \<Rightarrow> call_result" where
  "DomainEventCallbackDeviceRemoved cl =
     call 333 RemoteProgram None [] None None cl"

definition DomainCoreDumpWithFormat :: "val \<Rightarrow> string \<Rightarrow> u32 \<Rightarrow>
    i32 \<Rightarrow> client \<Rightarrow> call_result" where
  "DomainCoreDumpWithFormat Dom To Dumpformat Flags cl =
     call 334 RemoteProgram
       (Some (ty_DomainCoreDumpWithFormatArgs, VStruct [Dom, VString To, of_u32 Dumpformat,
         of_i32 Flags]))
       [] None None cl"

definition DomainFsfreeze :: "val \<Rightarrow> string list \<Rightarrow> u32 \<Rightarrow> client
    \<Rightarrow> call_result" where
  "DomainFsfreeze Dom Mountpoints Flags cl =
     call 335 RemoteProgram
       (Some (ty_DomainFsfreezeArgs, VStruct [Dom, of_strings Mountpoints, of_u32 Flags]))
       [TInt32] None None cl"

definition DomainFsthaw :: "val \<Rightarrow> string list \<Rightarrow> u32 \<Rightarrow> client
    \<Rightarrow> call_result" where
  "DomainFsthaw Dom Mountpoints Flags cl =
     call 336 RemoteProgram
       (Some (ty_DomainFsthawArgs, VStruct [Dom, of_strings Mountpoints, of_u32 Flags]))
       [TInt32] None None cl"

definition DomainGetTime :: "val \<Rightarrow> u32 \<Rightarrow> client \<Rightarrow> call_result"
    where
  "DomainGetTime Dom Flags cl =
     call 337 RemoteProgram
       (Some (ty_DomainGetTimeArgs, VStruct [Dom, of_u32 Flags]))
       [TInt64, TUint32] None None cl"

definition DomainSetTime :: "val \<Rightarrow> i64 \<Rightarrow> u32 \<Rightarrow> i32
    \<Rightarrow> client \<Rightarrow> call_result" where
  "DomainSetTime Dom Seconds Nseconds Flags cl =
     call 338 RemoteProgram
       (Some (ty_DomainSetTimeArgs, VStruct [Dom, VInt Seconds, of_u32 Nseconds, of_i32
         Flags]))
       [] None None cl"

definition DomainEventBlockJob2 :: "client \<Rightarrow> call_result" where
  "DomainEventBlockJob2 cl =
     call 339 RemoteProgram None [] None None cl"

definition DomainOpenGraphicsFd :: "val \<Rightarrow> u32 \<Rightarrow> i32 \<Rightarrow> client
    \<Rightarrow> call_result" where
  "DomainOpenGraphicsFd Dom Idx Flags cl =
     call 343 RemoteProgram
       (Some (ty_DomainOpenGraphicsFdArgs, VStruct [Dom, of_u32 Idx, of_i32 Flags]))
       [] None None cl"

definition DomainBlockCopy :: "val \<Rightarrow> string \<Rightarrow> string \<Rightarrow> val
    list \<Rightarrow> i32 \<Rightarrow> client \<Rightarrow> call_result" where
  "DomainBlockCopy Dom Path Destxml Params Flags cl =
     call 345 RemoteProgram
       (Some (ty_DomainBlockCopyArgs, VStruct [Dom, VString Path, VString Destxml, VSlice
         Params [], of_i32 Flags]))
       [] None None cl"

definition DomainEventCallbackTunable :: "client \<Rightarrow> call_result" where
  "DomainEventCallbackTunable cl =
     call 346 RemoteProgram None [] None None cl"

definition DomainEventCallbackAgentLifecycle :: "client \<Rightarrow> call_result" where
  "DomainEventCallbackAgentLifecycle cl =
     call 348 RemoteProgram None [] None None cl"

definition DomainGetFsinfo :: "val \<Rightarrow> u32 \<Rightarrow> client \<Rightarrow>
    call_result" where
  "DomainGetFsinfo Dom Flags cl =
     call 349 RemoteProgram
       (Some (ty_DomainGetFsinfoArgs, VStruct [Dom, of_u32 Flags]))
       [TSlice ty_DomainFsinfo, TUint32] None None cl"

definition DomainGetIothreadInfo :: "val \<Rightarrow> i32 \<Rightarrow> client \<Rightarrow>
    call_result" where
  "DomainGetIothreadInfo Dom Flags cl =
     call 351 RemoteProgram
       (Some (ty_DomainGetIothreadInfoArgs, VStruct [Dom, of_i32 Flags]))
       [TSlice ty_DomainIothreadInfo, TUint32] None None cl"

definition DomainPinIothread :: "val \<Rightarrow> u32 \<Rightarrow> byte list \<Rightarrow> i32
    \<Rightarrow> client \<Rightarrow> call_result" where
  "DomainPinIothread Dom IothreadsID Cpumap Flags cl =
     call 352 RemoteProgram
       (Some (ty_DomainPinIothreadArgs, VStruct [Dom, of_u32 IothreadsID, of_bytes Cpumap,
         of_i32 Flags]))
       [] None None cl"

definition DomainInterfaceAddresses :: "val \<Rightarrow> u32 \<Rightarrow> u32 \<Rightarrow>
    client \<Rightarrow> call_result" where
  "DomainInterfaceAddresses Dom Source Flags cl =
     call 353 RemoteProgram
       (Some (ty_DomainInterfaceAddressesArgs, VStruct [Dom, of_u32 Source, of_u32 Flags]))
       [TSlice ty_DomainInterface] None None cl"

definition DomainEventCallbackDeviceAdded :: "client \<Rightarrow> call_result" where
  "DomainEventCallbackDeviceAdded cl =
     call 354 RemoteProgram None [] None None cl"

definition DomainAddIothread :: "val \<Rightarrow> u32 \<Rightarrow> i32 \<Rightarrow> client
    \<Rightarrow> call_result" where
  "DomainAddIothread Dom IothreadID Flags cl =
     call 355 RemoteProgram
       (Some (ty_DomainAddIothreadArgs, VStruct [Dom, of_u32 IothreadID, of_i32 Flags]))
       [] None None cl"

definition DomainDelIothread :: "val \<Rightarrow> u32 \<Rightarrow> i32 \<Rightarrow> client
    \<Rightarrow> call_result" where
  "DomainDelIothread Dom IothreadID Flags cl =
     call 356 RemoteProgram
       (Some (ty_DomainDelIothreadArgs, VStruct [Dom, of_u32 IothreadID, of_i32 Flags]))
       [] None None cl"

definition DomainSetUserPassword :: "val \<Rightarrow> string list \<Rightarrow> string list
    \<Rightarrow> i32 \<Rightarrow> client \<Rightarrow> call_result" where
  "DomainSetUserPassword Dom User Password Flags cl =
     call 357 RemoteProgram
       (Some (ty_DomainSetUserPasswordArgs, VStruct [Dom, of_strings User, of_strings Password,
         of_i32 Flags]))
       [] None None cl"

definition DomainRename :: "val \<Rightarrow> string list \<Rightarrow> u32 \<Rightarrow> client
    \<Rightarrow> call_result" where
  "DomainRename Dom NewName Flags cl =
     call 358 RemoteProgram
       (Some (ty_DomainRenameArgs, VStruct [Dom, of_strings NewName, of_u32 Flags]))
       [TInt32] None None cl"

definition DomainEventCallbackMigrationIteration :: "client \<Rightarrow> call_result" where
  "DomainEventCallbackMigrationIteration cl =
     call 359 RemoteProgram None [] None None cl"

definition DomainEventCallbackJobCompleted :: "client \<Rightarrow> call_result" where
  "DomainEventCallbackJobCompleted cl =
     call 363 RemoteProgram None [] None None cl"

definition DomainMigrateStartPostCopy :: "val \<Rightarrow> u32 \<Rightarrow> client \<Rightarrow>
    call_result" where
  "DomainMigrateStartPostCopy Dom Flags cl =
     call 364 RemoteProgram
       (Some (ty_DomainMigrateStartPostCopyArgs, VStruct [Dom, of_u32 Flags]))
       [] None None cl"

definition DomainGetPerfEvents :: "val \<Rightarrow> i32 \<Rightarrow> client \<Rightarrow>
    call_result" where
  "DomainGetPerfEvents Dom Flags cl =
     call 365 RemoteProgram
       (Some (ty_DomainGetPerfEventsArgs, VStruct [Dom, of_i32 Flags]))
       [TSlice ty_TypedParam] None None cl"

definition DomainSetPerfEvents :: "val \<Rightarrow> val list \<Rightarrow> i32 \<Rightarrow>
    client \<Rightarrow> call_result" where
  "DomainSetPerfEvents Dom Params Flags cl =
     call 366 RemoteProgram
       (Some (ty_DomainSetPerfEventsArgs, VStruct [Dom, VSlice Params [], of_i32 Flags]))
       [] None None cl"

definition DomainEventCallbackDeviceRemovalFailed :: "client \<Rightarrow> call_result" where
  "DomainEventCallbackDeviceRemovalFailed cl =
     call 367 RemoteProgram None [] None None cl"

definition DomainGetGuestVcpus :: "val \<Rightarrow> u32 \<Rightarrow> client \<Rightarrow>
    call_result" where
  "DomainGetGuestVcpus Dom Flags cl =
     call 371 RemoteProgram
       (Some (ty_DomainGetGuestVcpusArgs, VStruct [Dom, of_u32 Flags]))
       [TSlice ty_TypedParam] None None cl"

definition DomainSetGuestVcpus :: "val \<Rightarrow> string \<Rightarrow> i32 \<Rightarrow> u32
    \<Rightarrow> client \<Rightarrow> call_result" where
  "DomainSetGuestVcpus Dom Cpumap State Flags cl =
     call 372 RemoteProgram
       (Some (ty_DomainSetGuestVcpusArgs, VStruct [Dom, VString Cpumap, of_i32 State, of_u32
         Flags]))
       [] None None cl"

definition DomainEventCallbackMetadataChange :: "client \<Rightarrow> call_result" where
  "DomainEventCallbackMetadataChange cl =
     call 379 RemoteProgram None [] None None cl"

definition DomainSetVcpu :: "val \<Rightarrow> string \<Rightarrow> i32 \<Rightarrow> i32
    \<Rightarrow> client \<Rightarrow> call_result" where
  "DomainSetVcpu Dom Cpumap State Flags cl =
     call 384 RemoteProgram
       (Some (ty_DomainSetVcpuArgs, VStruct [Dom, VString Cpumap, of_i32 State, of_i32 Flags]))
       [] None None cl"

definition DomainEventBlockThreshold :: "client \<Rightarrow> call_result" where
  "DomainEventBlockThreshold cl =
     call 385 RemoteProgram None [] None None cl"

definition DomainSetBlockThreshold :: "val \<Rightarrow> string \<Rightarrow> u64 \<Rightarrow>
    u32 \<Rightarrow> client \<Rightarrow> call_result" where
  "DomainSetBlockThreshold Dom Dev Threshold Flags cl =
     call 386 RemoteProgram
       (Some (ty_DomainSetBlockThresholdArgs, VStruct [Dom, VString Dev, VUint Threshold,
         of_u32 Flags]))
       [] None None cl"

definition DomainMigrateGetMaxDowntime :: "val \<Rightarrow> u32 \<Rightarrow> client
    \<Rightarrow> call_result" where
  "DomainMigrateGetMaxDowntime Dom Flags cl =
     call 387 RemoteProgram
       (Some (ty_DomainMigrateGetMaxDowntimeArgs, VStruct [Dom, of_u32 Flags]))
       [TUint64] None None cl"

definition DomainManagedSaveGetXMLDesc :: "val \<Rightarrow> i32 \<Rightarrow> client
    \<Rightarrow> call_result" where
  "DomainManagedSaveGetXMLDesc Dom Flags cl =
     call 388 RemoteProgram
       (Some (ty_DomainManagedSaveGetXMLDescArgs, VStruct [Dom, of_i32 Flags]))
       [TString] None None cl"

definition DomainManagedSaveDefineXML :: "val \<Rightarrow> string list \<Rightarrow> i32
    \<Rightarrow> client \<Rightarrow> call_result" where
  "DomainManagedSaveDefineXML Dom Dxml Flags cl =
     call 389 RemoteProgram
       (Some (ty_DomainManagedSaveDefineXMLArgs, VStruct [Dom, of_strings Dxml, of_i32 Flags]))
       [] None None cl"

definition DomainSetLifecycleAction :: "val \<Rightarrow> u32 \<Rightarrow> u32 \<Rightarrow> i32
    \<Rightarrow> client \<Rightarrow> call_result" where
  "DomainSetLifecycleAction Dom Typ Action Flags cl =
     call 390 RemoteProgram
       (Some (ty_DomainSetLifecycleActionArgs, VStruct [Dom, of_u32 Typ, of_u32 Action, of_i32
         Flags]))
       [] None None cl"

definition DomainDetachDeviceAlias :: "val \<Rightarrow> string \<Rightarrow> u32 \<Rightarrow>
    client \<Rightarrow> call_result" where
  "DomainDetachDeviceAlias Dom Alias Flags cl =
     call 392 RemoteProgram
       (Some (ty_DomainDetachDeviceAliasArgs, VStruct [Dom, VString Alias, of_u32 Flags]))
       [] None None cl"

definition DomainGetLaunchSecurityInfo :: "val \<Rightarrow> u32 \<Rightarrow> client
    \<Rightarrow> call_result" where
  "DomainGetLaunchSecurityInfo Dom Flags cl =
     call 396 RemoteProgram
       (Some (ty_DomainGetLaunchSecurityInfoArgs, VStruct [Dom, of_u32 Flags]))
       [TSlice ty_TypedParam] None None cl"

definition DomainSetIothreadParams :: "val \<Rightarrow> u32 \<Rightarrow> val list \<Rightarrow>
    u32 \<Rightarrow> client \<Rightarrow> call_result" where
  "DomainSetIothreadParams Dom IothreadID Params Flags cl =
     call 402 RemoteProgram
       (Some (ty_DomainSetIothreadParamsArgs, VStruct [Dom, of_u32 IothreadID, VSlice Params
         [], of_u32 Flags]))
       [] None None cl"

definition DomainCheckpointCreateXML :: "val \<Rightarrow> string \<Rightarrow> u32 \<Rightarrow>
    client \<Rightarrow> call_result" where
  "DomainCheckpointCreateXML Dom XMLDesc Flags cl =
     call 411 RemoteProgram
       (Some (ty_DomainCheckpointCreateXMLArgs, VStruct [Dom, VString XMLDesc, of_u32 Flags]))
       [ty_DomainCheckpoint] None None cl"

definition DomainCheckpointGetXMLDesc :: "val \<Rightarrow> u32 \<Rightarrow> client \<Rightarrow>
    call_result" where
  "DomainCheckpointGetXMLDesc Checkpoint Flags cl =
     call 412 RemoteProgram
       (Some (ty_DomainCheckpointGetXMLDescArgs, VStruct [Checkpoint, of_u32 Flags]))
       [TString] None None cl"

definition DomainListAllCheckpoints :: "val \<Rightarrow> i32 \<Rightarrow> u32 \<Rightarrow>
    client \<Rightarrow> call_result" where
  "DomainListAllCheckpoints Dom NeedResults Flags cl =
     call 413 RemoteProgram
       (Some (ty_DomainListAllCheckpointsArgs, VStruct [Dom, of_i32 NeedResults, of_u32
         Flags]))
       [TSlice ty_DomainCheckpoint, TInt32] None None cl"

definition DomainCheckpointListAllChildren :: "val \<Rightarrow> i32 \<Rightarrow> u32
    \<Rightarrow> client \<Rightarrow> call_result" where
  "DomainCheckpointListAllChildren Checkpoint NeedResults Flags cl =
     call 414 RemoteProgram
       (Some (ty_DomainCheckpointListAllChildrenArgs, VStruct [Checkpoint, of_i32 NeedResults,
         of_u32 Flags]))
       [TSlice ty_DomainCheckpoint, TInt32] None None cl"

definition DomainCheckpointLookupByName :: "val \<Rightarrow> string \<Rightarrow> u32
    \<Rightarrow> client \<Rightarrow> call_result" where
  "DomainCheckpointLookupByName Dom Name Flags cl =
     call 415 RemoteProgram
       (Some (ty_DomainCheckpointLookupByNameArgs, VStruct [Dom, VString Name, of_u32 Flags]))
       [ty_DomainCheckpoint] None None cl"

definition DomainCheckpointGetParent :: "val \<Rightarrow> u32 \<Rightarrow> client \<Rightarrow>
    call_result" where
  "DomainCheckpointGetParent Checkpoint Flags cl =
     call 416 RemoteProgram
       (Some (ty_DomainCheckpointGetParentArgs, VStruct [Checkpoint, of_u32 Flags]))
       [ty_DomainCheckpoint] None None cl"

definition DomainCheckpointDelete :: "val \<Rightarrow> i32 \<Rightarrow> client \<Rightarrow>
    call_result" where
  "DomainCheckpointDelete Checkpoint Flags cl =
     call 417 RemoteProgram
       (Some (ty_DomainCheckpointDeleteArgs, VStruct [Checkpoint, of_i32 Flags]))
       [] None None cl"

definition DomainGetGuestInfo :: "val \<Rightarrow> u32 \<Rightarrow> u32 \<Rightarrow> client
    \<Rightarrow> call_result" where
  "DomainGetGuestInfo Dom Types Flags cl =
     call 418 RemoteProgram
       (Some (ty_DomainGetGuestInfoArgs, VStruct [Dom, of_u32 Types, of_u32 Flags]))
       [TSlice ty_TypedParam] None None cl"

definition DomainAgentSetResponseTimeout :: "val \<Rightarrow> i32 \<Rightarrow> u32 \<Rightarrow>
    client \<Rightarrow> call_result" where
  "DomainAgentSetResponseTimeout Dom Timeout Flags cl =
     call 420 RemoteProgram
       (Some (ty_DomainAgentSetResponseTimeoutArgs, VStruct [Dom, of_i32 Timeout, of_u32
         Flags]))
       [TInt32] None None cl"

definition DomainBackupBegin :: "val \<Rightarrow> string \<Rightarrow> string list \<Rightarrow>
    i32 \<Rightarrow> client \<Rightarrow> call_result" where
  "DomainBackupBegin Dom BackupXML CheckpointXML Flags cl =
     call 421 RemoteProgram
       (Some (ty_DomainBackupBeginArgs, VStruct [Dom, VString BackupXML, of_strings
         CheckpointXML, of_i32 Flags]))
       [] None None cl"

definition DomainBackupGetXMLDesc :: "val \<Rightarrow> u32 \<Rightarrow> client \<Rightarrow>
    call_result" where
  "DomainBackupGetXMLDesc Dom Flags cl =
     call 422 RemoteProgram
       (Some (ty_DomainBackupGetXMLDescArgs, VStruct [Dom, of_u32 Flags]))
       [TString] None None cl"

definition DomainEventMemoryFailure :: "client \<Rightarrow> call_result" where
  "DomainEventMemoryFailure cl =
     call 423 RemoteProgram None [] None None cl"

definition DomainAuthorizedSshKeysGet :: "val \<Rightarrow> string \<Rightarrow> u32 \<Rightarrow>
    client \<Rightarrow> call_result" where
  "DomainAuthorizedSshKeysGet Dom User Flags cl =
     call 424 RemoteProgram
       (Some (ty_DomainAuthorizedSshKeysGetArgs, VStruct [Dom, VString User, of_u32 Flags]))
       [TSlice TString] None None cl"

definition DomainAuthorizedSshKeysSet :: "val \<Rightarrow> string \<Rightarrow> string list
    \<Rightarrow> u32 \<Rightarrow> client \<Rightarrow> call_result" where
  "DomainAuthorizedSshKeysSet Dom User Keys Flags cl =
     call 425 RemoteProgram
       (Some (ty_DomainAuthorizedSshKeysSetArgs, VStruct [Dom, VString User, of_strings Keys,
         of_u32 Flags]))
       [] None None cl"

definition DomainGetMessages :: "val \<Rightarrow> u32 \<Rightarrow> client \<Rightarrow>
    call_result" where
  "DomainGetMessages Dom Flags cl =
     call 426 RemoteProgram
       (Some (ty_DomainGetMessagesArgs, VStruct [Dom, of_u32 Flags]))
       [TSlice TString] None None cl"

definition DomainStartDirtyRateCalc :: "val \<Rightarrow> i32 \<Rightarrow> u32 \<Rightarrow>
    client \<Rightarrow> call_result" where
  "DomainStartDirtyRateCalc Dom Seconds Flags cl =
     call 427 RemoteProgram
       (Some (ty_DomainStartDirtyRateCalcArgs, VStruct [Dom, of_i32 Seconds, of_u32 Flags]))
       [] None None cl"

definition DomainEventMemoryDeviceSizeChange :: "client \<Rightarrow> call_result" where
  "DomainEventMemoryDeviceSizeChange cl =
     call 438 RemoteProgram None [] None None cl"

definition DomainSetLaunchSecurityState :: "val \<Rightarrow> val list \<Rightarrow> u32
    \<Rightarrow> client \<Rightarrow> call_result" where
  "DomainSetLaunchSecurityState Dom Params Flags cl =
     call 439 RemoteProgram
       (Some (ty_DomainSetLaunchSecurityStateArgs, VStruct [Dom, VSlice Params [], of_u32
         Flags]))
       [] None None cl"

definition DomainSaveParams :: "val \<Rightarrow> val list \<Rightarrow> u32 \<Rightarrow> client
    \<Rightarrow> call_result" where
  "DomainSaveParams Dom Params Flags cl =
     call 440 RemoteProgram
       (Some (ty_DomainSaveParamsArgs, VStruct [Dom, VSlice Params [], of_u32 Flags]))
       [] None None cl"

definition DomainRestoreParams :: "val list \<Rightarrow> u32 \<Rightarrow> client \<Rightarrow>
    call_result" where
  "DomainRestoreParams Params Flags cl =
     call 441 RemoteProgram
       (Some (ty_DomainRestoreParamsArgs, VStruct [VSlice Params [], of_u32 Flags]))
       [] None None cl"

definition DomainAbortJobFlags :: "val \<Rightarrow> u32 \<Rightarrow> client \<Rightarrow>
    call_result" where
  "DomainAbortJobFlags Dom Flags cl =
     call 442 RemoteProgram
       (Some (ty_DomainAbortJobFlagsArgs, VStruct [Dom, of_u32 Flags]))
       [] None None cl"

definition DomainFdAssociate :: "val \<Rightarrow> string \<Rightarrow> u32 \<Rightarrow> client
    \<Rightarrow> call_result" where
  "DomainFdAssociate Dom Name Flags cl =
     call 443 RemoteProgram
       (Some (ty_DomainFdAssociateArgs, VStruct [Dom, VString Name, of_u32 Flags]))
       [] None None cl"

definition DomainGraphicsReload :: "val \<Rightarrow> u32 \<Rightarrow> u32 \<Rightarrow> client
    \<Rightarrow> call_result" where
  "DomainGraphicsReload Dom Typ Flags cl =
     call 448 RemoteProgram
       (Some (ty_DomainGraphicsReloadArgs, VStruct [Dom, of_u32 Typ, of_u32 Flags]))
       [] None None cl"

definition DomainGetAutostartOnce :: "val \<Rightarrow> client \<Rightarrow> call_result" where
  "DomainGetAutostartOnce Dom cl =
     call 449 RemoteProgram
       (Some (ty_DomainGetAutostartOnceArgs, VStruct [Dom]))
       [TInt32] None None cl"

definition DomainSetAutostartOnce :: "val \<Rightarrow> i32 \<Rightarrow> client \<Rightarrow>
    call_result" where
  "DomainSetAutostartOnce Dom Autostart cl =
     call 450 RemoteProgram
       (Some (ty_DomainSetAutostartOnceArgs, VStruct [Dom, of_i32 Autostart]))
       [] None None cl"

definition DomainSetThrottleGroup :: "val \<Rightarrow> string \<Rightarrow> val list
    \<Rightarrow> u32 \<Rightarrow> client \<Rightarrow> call_result" where
  "DomainSetThrottleGroup Dom Group Params Flags cl =
     call 451 RemoteProgram
       (Some (ty_DomainSetThrottleGroupArgs, VStruct [Dom, VString Group, VSlice Params [],
         of_u32 Flags]))
       [] None None cl"

definition DomainDelThrottleGroup :: "val \<Rightarrow> string list \<Rightarrow> u32
    \<Rightarrow> client \<Rightarrow> call_result" where
  "DomainDelThrottleGroup Dom Group Flags cl =
     call 452 RemoteProgram
       (Some (ty_DomainDelThrottleGroupArgs, VStruct [Dom, of_strings Group, of_u32 Flags]))
       [] None None cl"

definition DomainEventNicMacChange :: "client \<Rightarrow> call_result" where
  "DomainEventNicMacChange cl =
     call 453 RemoteProgram None [] None None cl"

end
