(* ===== verification/Protocol_Types_Storage.thy ===== *)
theory Protocol_Types_Storage
  imports Protocol_Types_Common
begin

text \<open>
  The argument and result structures of the calls on storage, secrets, networks, interfaces and
  filters. They are translated from \<open>src/remote_protocol.gen.go\<close>.
\<close>

definition ty_NetworkLookupByUUIDArgs :: ty where [proto_types]:
  "ty_NetworkLookupByUUIDArgs = TStruct ''libvirt.NetworkLookupByUUIDArgs''
     [fld ty_UUID]"

definition ty_NetworkLookupByUUIDRet :: ty where [proto_types]:
  "ty_NetworkLookupByUUIDRet = TStruct ''libvirt.NetworkLookupByUUIDRet''
     [fld ty_Network]"

definition ty_NetworkLookupByNameArgs :: ty where [proto_types]:
  "ty_NetworkLookupByNameArgs = TStruct ''libvirt.NetworkLookupByNameArgs''
     [fld TString]"

definition ty_NetworkLookupByNameRet :: ty where [proto_types]:
  "ty_NetworkLookupByNameRet = TStruct ''libvirt.NetworkLookupByNameRet''
     [fld ty_Network]"

definition ty_NetworkCreateXMLArgs :: ty where [proto_types]:
  "ty_NetworkCreateXMLArgs = TStruct ''libvirt.NetworkCreateXMLArgs''
     [fld TString]"

definition ty_NetworkCreateXMLRet :: ty where [proto_types]:
  "ty_NetworkCreateXMLRet = TStruct ''libvirt.NetworkCreateXMLRet''
     [fld ty_Network]"

definition ty_NetworkCreateXMLFlagsArgs :: ty where [proto_types]:
  "ty_NetworkCreateXMLFlagsArgs = TStruct ''libvirt.NetworkCreateXMLFlagsArgs''
     [fld TString, fld TUint32]"

definition ty_NetworkCreateXMLFlagsRet :: ty where [proto_types]:
  "ty_NetworkCreateXMLFlagsRet = TStruct ''libvirt.NetworkCreateXMLFlagsRet''
     [fld ty_Network]"

definition ty_NetworkDefineXMLArgs :: ty where [proto_types]:
  "ty_NetworkDefineXMLArgs = TStruct ''libvirt.NetworkDefineXMLArgs''
     [fld TString]"

definition ty_NetworkDefineXMLRet :: ty where [proto_types]:
  "ty_NetworkDefineXMLRet = TStruct ''libvirt.NetworkDefineXMLRet''
     [fld ty_Network]"

definition ty_NetworkDefineXMLFlagsArgs :: ty where [proto_types]:
  "ty_NetworkDefineXMLFlagsArgs = TStruct ''libvirt.NetworkDefineXMLFlagsArgs''
     [fld TString, fld TUint32]"

definition ty_NetworkDefineXMLFlagsRet :: ty where [proto_types]:
  "ty_NetworkDefineXMLFlagsRet = TStruct ''libvirt.NetworkDefineXMLFlagsRet''
     [fld ty_Network]"

definition ty_NetworkUndefineArgs :: ty where [proto_types]:
  "ty_NetworkUndefineArgs = TStruct ''libvirt.NetworkUndefineArgs''
     [fld ty_Network]"

definition ty_NetworkCreateArgs :: ty where [proto_types]:
  "ty_NetworkCreateArgs = TStruct ''libvirt.NetworkCreateArgs''
     [fld ty_Network]"

definition ty_NetworkDestroyArgs :: ty where [proto_types]:
  "ty_NetworkDestroyArgs = TStruct ''libvirt.NetworkDestroyArgs''
     [fld ty_Network]"

definition ty_NetworkGetXMLDescArgs :: ty where [proto_types]:
  "ty_NetworkGetXMLDescArgs = TStruct ''libvirt.NetworkGetXMLDescArgs''
     [fld ty_Network, fld TUint32]"

definition ty_NetworkGetXMLDescRet :: ty where [proto_types]:
  "ty_NetworkGetXMLDescRet = TStruct ''libvirt.NetworkGetXMLDescRet''
     [fld TString]"

definition ty_NetworkGetBridgeNameArgs :: ty where [proto_types]:
  "ty_NetworkGetBridgeNameArgs = TStruct ''libvirt.NetworkGetBridgeNameArgs''
     [fld ty_Network]"

definition ty_NetworkGetBridgeNameRet :: ty where [proto_types]:
  "ty_NetworkGetBridgeNameRet = TStruct ''libvirt.NetworkGetBridgeNameRet''
     [fld TString]"

definition ty_NetworkGetAutostartArgs :: ty where [proto_types]:
  "ty_NetworkGetAutostartArgs = TStruct ''libvirt.NetworkGetAutostartArgs''
     [fld ty_Network]"

definition ty_NetworkGetAutostartRet :: ty where [proto_types]:
  "ty_NetworkGetAutostartRet = TStruct ''libvirt.NetworkGetAutostartRet''
     [fld TInt32]"

definition ty_NetworkSetAutostartArgs :: ty where [proto_types]:
  "ty_NetworkSetAutostartArgs = TStruct ''libvirt.NetworkSetAutostartArgs''
     [fld ty_Network, fld TInt32]"

definition ty_NwfilterLookupByUUIDArgs :: ty where [proto_types]:
  "ty_NwfilterLookupByUUIDArgs = TStruct ''libvirt.NwfilterLookupByUUIDArgs''
     [fld ty_UUID]"

definition ty_NwfilterLookupByUUIDRet :: ty where [proto_types]:
  "ty_NwfilterLookupByUUIDRet = TStruct ''libvirt.NwfilterLookupByUUIDRet''
     [fld ty_Nwfilter]"

definition ty_NwfilterLookupByNameArgs :: ty where [proto_types]:
  "ty_NwfilterLookupByNameArgs = TStruct ''libvirt.NwfilterLookupByNameArgs''
     [fld TString]"

definition ty_NwfilterLookupByNameRet :: ty where [proto_types]:
  "ty_NwfilterLookupByNameRet = TStruct ''libvirt.NwfilterLookupByNameRet''
     [fld ty_Nwfilter]"

definition ty_NwfilterDefineXMLArgs :: ty where [proto_types]:
  "ty_NwfilterDefineXMLArgs = TStruct ''libvirt.NwfilterDefineXMLArgs''
     [fld TString]"

definition ty_NwfilterDefineXMLRet :: ty where [proto_types]:
  "ty_NwfilterDefineXMLRet = TStruct ''libvirt.NwfilterDefineXMLRet''
     [fld ty_Nwfilter]"

definition ty_NwfilterDefineXMLFlagsArgs :: ty where [proto_types]:
  "ty_NwfilterDefineXMLFlagsArgs = TStruct ''libvirt.NwfilterDefineXMLFlagsArgs''
     [fld TString, fld TUint32]"

definition ty_NwfilterDefineXMLFlagsRet :: ty where [proto_types]:
  "ty_NwfilterDefineXMLFlagsRet = TStruct ''libvirt.NwfilterDefineXMLFlagsRet''
     [fld ty_Nwfilter]"

definition ty_NwfilterUndefineArgs :: ty where [proto_types]:
  "ty_NwfilterUndefineArgs = TStruct ''libvirt.NwfilterUndefineArgs''
     [fld ty_Nwfilter]"

definition ty_NwfilterGetXMLDescArgs :: ty where [proto_types]:
  "ty_NwfilterGetXMLDescArgs = TStruct ''libvirt.NwfilterGetXMLDescArgs''
     [fld ty_Nwfilter, fld TUint32]"

definition ty_NwfilterGetXMLDescRet :: ty where [proto_types]:
  "ty_NwfilterGetXMLDescRet = TStruct ''libvirt.NwfilterGetXMLDescRet''
     [fld TString]"

definition ty_InterfaceLookupByNameArgs :: ty where [proto_types]:
  "ty_InterfaceLookupByNameArgs = TStruct ''libvirt.InterfaceLookupByNameArgs''
     [fld TString]"

definition ty_InterfaceLookupByNameRet :: ty where [proto_types]:
  "ty_InterfaceLookupByNameRet = TStruct ''libvirt.InterfaceLookupByNameRet''
     [fld ty_Interface]"

definition ty_InterfaceLookupByMacStringArgs :: ty where [proto_types]:
  "ty_InterfaceLookupByMacStringArgs = TStruct ''libvirt.InterfaceLookupByMacStringArgs''
     [fld TString]"

definition ty_InterfaceLookupByMacStringRet :: ty where [proto_types]:
  "ty_InterfaceLookupByMacStringRet = TStruct ''libvirt.InterfaceLookupByMacStringRet''
     [fld ty_Interface]"

definition ty_InterfaceGetXMLDescArgs :: ty where [proto_types]:
  "ty_InterfaceGetXMLDescArgs = TStruct ''libvirt.InterfaceGetXMLDescArgs''
     [fld ty_Interface, fld TUint32]"

definition ty_InterfaceGetXMLDescRet :: ty where [proto_types]:
  "ty_InterfaceGetXMLDescRet = TStruct ''libvirt.InterfaceGetXMLDescRet''
     [fld TString]"

definition ty_InterfaceDefineXMLArgs :: ty where [proto_types]:
  "ty_InterfaceDefineXMLArgs = TStruct ''libvirt.InterfaceDefineXMLArgs''
     [fld TString, fld TUint32]"

definition ty_InterfaceDefineXMLRet :: ty where [proto_types]:
  "ty_InterfaceDefineXMLRet = TStruct ''libvirt.InterfaceDefineXMLRet''
     [fld ty_Interface]"

definition ty_InterfaceUndefineArgs :: ty where [proto_types]:
  "ty_InterfaceUndefineArgs = TStruct ''libvirt.InterfaceUndefineArgs''
     [fld ty_Interface]"

definition ty_InterfaceCreateArgs :: ty where [proto_types]:
  "ty_InterfaceCreateArgs = TStruct ''libvirt.InterfaceCreateArgs''
     [fld ty_Interface, fld TUint32]"

definition ty_InterfaceDestroyArgs :: ty where [proto_types]:
  "ty_InterfaceDestroyArgs = TStruct ''libvirt.InterfaceDestroyArgs''
     [fld ty_Interface, fld TUint32]"

definition ty_InterfaceChangeBeginArgs :: ty where [proto_types]:
  "ty_InterfaceChangeBeginArgs = TStruct ''libvirt.InterfaceChangeBeginArgs''
     [fld TUint32]"

definition ty_InterfaceChangeCommitArgs :: ty where [proto_types]:
  "ty_InterfaceChangeCommitArgs = TStruct ''libvirt.InterfaceChangeCommitArgs''
     [fld TUint32]"

definition ty_InterfaceChangeRollbackArgs :: ty where [proto_types]:
  "ty_InterfaceChangeRollbackArgs = TStruct ''libvirt.InterfaceChangeRollbackArgs''
     [fld TUint32]"

definition ty_StoragePoolLookupByUUIDArgs :: ty where [proto_types]:
  "ty_StoragePoolLookupByUUIDArgs = TStruct ''libvirt.StoragePoolLookupByUUIDArgs''
     [fld ty_UUID]"

definition ty_StoragePoolLookupByUUIDRet :: ty where [proto_types]:
  "ty_StoragePoolLookupByUUIDRet = TStruct ''libvirt.StoragePoolLookupByUUIDRet''
     [fld ty_StoragePool]"

definition ty_StoragePoolLookupByNameRet :: ty where [proto_types]:
  "ty_StoragePoolLookupByNameRet = TStruct ''libvirt.StoragePoolLookupByNameRet''
     [fld ty_StoragePool]"

definition ty_StoragePoolLookupByVolumeArgs :: ty where [proto_types]:
  "ty_StoragePoolLookupByVolumeArgs = TStruct ''libvirt.StoragePoolLookupByVolumeArgs''
     [fld ty_StorageVol]"

definition ty_StoragePoolLookupByVolumeRet :: ty where [proto_types]:
  "ty_StoragePoolLookupByVolumeRet = TStruct ''libvirt.StoragePoolLookupByVolumeRet''
     [fld ty_StoragePool]"

definition ty_StoragePoolLookupByTargetPathArgs :: ty where [proto_types]:
  "ty_StoragePoolLookupByTargetPathArgs = TStruct ''libvirt.StoragePoolLookupByTargetPathArgs''
     [fld TString]"

definition ty_StoragePoolLookupByTargetPathRet :: ty where [proto_types]:
  "ty_StoragePoolLookupByTargetPathRet = TStruct ''libvirt.StoragePoolLookupByTargetPathRet''
     [fld ty_StoragePool]"

definition ty_StoragePoolCreateXMLArgs :: ty where [proto_types]:
  "ty_StoragePoolCreateXMLArgs = TStruct ''libvirt.StoragePoolCreateXMLArgs''
     [fld TString, fld ty_StoragePoolCreateFlags]"

definition ty_StoragePoolCreateXMLRet :: ty where [proto_types]:
  "ty_StoragePoolCreateXMLRet = TStruct ''libvirt.StoragePoolCreateXMLRet''
     [fld ty_StoragePool]"

definition ty_StoragePoolDefineXMLArgs :: ty where [proto_types]:
  "ty_StoragePoolDefineXMLArgs = TStruct ''libvirt.StoragePoolDefineXMLArgs''
     [fld TString, fld TUint32]"

definition ty_StoragePoolDefineXMLRet :: ty where [proto_types]:
  "ty_StoragePoolDefineXMLRet = TStruct ''libvirt.StoragePoolDefineXMLRet''
     [fld ty_StoragePool]"

definition ty_StoragePoolBuildArgs :: ty where [proto_types]:
  "ty_StoragePoolBuildArgs = TStruct ''libvirt.StoragePoolBuildArgs''
     [fld ty_StoragePool, fld ty_StoragePoolBuildFlags]"

definition ty_StoragePoolUndefineArgs :: ty where [proto_types]:
  "ty_StoragePoolUndefineArgs = TStruct ''libvirt.StoragePoolUndefineArgs''
     [fld ty_StoragePool]"

definition ty_StoragePoolCreateArgs :: ty where [proto_types]:
  "ty_StoragePoolCreateArgs = TStruct ''libvirt.StoragePoolCreateArgs''
     [fld ty_StoragePool, fld ty_StoragePoolCreateFlags]"

definition ty_StoragePoolDestroyArgs :: ty where [proto_types]:
  "ty_StoragePoolDestroyArgs = TStruct ''libvirt.StoragePoolDestroyArgs''
     [fld ty_StoragePool]"

definition ty_StoragePoolDeleteArgs :: ty where [proto_types]:
  "ty_StoragePoolDeleteArgs = TStruct ''libvirt.StoragePoolDeleteArgs''
     [fld ty_StoragePool, fld ty_StoragePoolDeleteFlags]"

definition ty_StoragePoolRefreshArgs :: ty where [proto_types]:
  "ty_StoragePoolRefreshArgs = TStruct ''libvirt.StoragePoolRefreshArgs''
     [fld ty_StoragePool, fld TUint32]"

definition ty_StoragePoolGetXMLDescArgs :: ty where [proto_types]:
  "ty_StoragePoolGetXMLDescArgs = TStruct ''libvirt.StoragePoolGetXMLDescArgs''
     [fld ty_StoragePool, fld ty_StorageXMLFlags]"

definition ty_StoragePoolGetXMLDescRet :: ty where [proto_types]:
  "ty_StoragePoolGetXMLDescRet = TStruct ''libvirt.StoragePoolGetXMLDescRet''
     [fld TString]"

definition ty_StoragePoolGetInfoArgs :: ty where [proto_types]:
  "ty_StoragePoolGetInfoArgs = TStruct ''libvirt.StoragePoolGetInfoArgs''
     [fld ty_StoragePool]"

definition ty_StoragePoolGetInfoRet :: ty where [proto_types]:
  "ty_StoragePoolGetInfoRet = TStruct ''libvirt.StoragePoolGetInfoRet''
     [fld TUint8, fld TUint64, fld TUint64, fld TUint64]"

definition ty_StoragePoolGetAutostartArgs :: ty where [proto_types]:
  "ty_StoragePoolGetAutostartArgs = TStruct ''libvirt.StoragePoolGetAutostartArgs''
     [fld ty_StoragePool]"

definition ty_StoragePoolGetAutostartRet :: ty where [proto_types]:
  "ty_StoragePoolGetAutostartRet = TStruct ''libvirt.StoragePoolGetAutostartRet''
     [fld TInt32]"

definition ty_StoragePoolSetAutostartArgs :: ty where [proto_types]:
  "ty_StoragePoolSetAutostartArgs = TStruct ''libvirt.StoragePoolSetAutostartArgs''
     [fld ty_StoragePool, fld TInt32]"

definition ty_StoragePoolNumOfVolumesArgs :: ty where [proto_types]:
  "ty_StoragePoolNumOfVolumesArgs = TStruct ''libvirt.StoragePoolNumOfVolumesArgs''
     [fld ty_StoragePool]"

definition ty_StoragePoolNumOfVolumesRet :: ty where [proto_types]:
  "ty_StoragePoolNumOfVolumesRet = TStruct ''libvirt.StoragePoolNumOfVolumesRet''
     [fld TInt32]"

definition ty_StoragePoolListVolumesArgs :: ty where [proto_types]:
  "ty_StoragePoolListVolumesArgs = TStruct ''libvirt.StoragePoolListVolumesArgs''
     [fld ty_StoragePool, fld TInt32]"

definition ty_StoragePoolListVolumesRet :: ty where [proto_types]:
  "ty_StoragePoolListVolumesRet = TStruct ''libvirt.StoragePoolListVolumesRet''
     [fld (TSlice TString)]"

definition ty_StorageVolLookupByNameArgs :: ty where [proto_types]:
  "ty_StorageVolLookupByNameArgs = TStruct ''libvirt.StorageVolLookupByNameArgs''
     [fld ty_StoragePool, fld TString]"

definition ty_StorageVolLookupByNameRet :: ty where [proto_types]:
  "ty_StorageVolLookupByNameRet = TStruct ''libvirt.StorageVolLookupByNameRet''
     [fld ty_StorageVol]"

definition ty_StorageVolLookupByKeyArgs :: ty where [proto_types]:
  "ty_StorageVolLookupByKeyArgs = TStruct ''libvirt.StorageVolLookupByKeyArgs''
     [fld TString]"

definition ty_StorageVolLookupByKeyRet :: ty where [proto_types]:
  "ty_StorageVolLookupByKeyRet = TStruct ''libvirt.StorageVolLookupByKeyRet''
     [fld ty_StorageVol]"

definition ty_StorageVolLookupByPathArgs :: ty where [proto_types]:
  "ty_StorageVolLookupByPathArgs = TStruct ''libvirt.StorageVolLookupByPathArgs''
     [fld TString]"

definition ty_StorageVolLookupByPathRet :: ty where [proto_types]:
  "ty_StorageVolLookupByPathRet = TStruct ''libvirt.StorageVolLookupByPathRet''
     [fld ty_StorageVol]"

definition ty_StorageVolCreateXMLArgs :: ty where [proto_types]:
  "ty_StorageVolCreateXMLArgs = TStruct ''libvirt.StorageVolCreateXMLArgs''
     [fld ty_StoragePool, fld TString, fld ty_StorageVolCreateFlags]"

definition ty_StorageVolCreateXMLRet :: ty where [proto_types]:
  "ty_StorageVolCreateXMLRet = TStruct ''libvirt.StorageVolCreateXMLRet''
     [fld ty_StorageVol]"

definition ty_StorageVolCreateXMLFromArgs :: ty where [proto_types]:
  "ty_StorageVolCreateXMLFromArgs = TStruct ''libvirt.StorageVolCreateXMLFromArgs''
     [fld ty_StoragePool, fld TString, fld ty_StorageVol, fld ty_StorageVolCreateFlags]"

definition ty_StorageVolCreateXMLFromRet :: ty where [proto_types]:
  "ty_StorageVolCreateXMLFromRet = TStruct ''libvirt.StorageVolCreateXMLFromRet''
     [fld ty_StorageVol]"

definition ty_StorageVolDeleteArgs :: ty where [proto_types]:
  "ty_StorageVolDeleteArgs = TStruct ''libvirt.StorageVolDeleteArgs''
     [fld ty_StorageVol, fld ty_StorageVolDeleteFlags]"

definition ty_StorageVolWipeArgs :: ty where [proto_types]:
  "ty_StorageVolWipeArgs = TStruct ''libvirt.StorageVolWipeArgs''
     [fld ty_StorageVol, fld TUint32]"

definition ty_StorageVolWipePatternArgs :: ty where [proto_types]:
  "ty_StorageVolWipePatternArgs = TStruct ''libvirt.StorageVolWipePatternArgs''
     [fld ty_StorageVol, fld TUint32, fld TUint32]"

definition ty_StorageVolGetXMLDescArgs :: ty where [proto_types]:
  "ty_StorageVolGetXMLDescArgs = TStruct ''libvirt.StorageVolGetXMLDescArgs''
     [fld ty_StorageVol, fld TUint32]"

definition ty_StorageVolGetXMLDescRet :: ty where [proto_types]:
  "ty_StorageVolGetXMLDescRet = TStruct ''libvirt.StorageVolGetXMLDescRet''
     [fld TString]"

definition ty_StorageVolGetInfoArgs :: ty where [proto_types]:
  "ty_StorageVolGetInfoArgs = TStruct ''libvirt.StorageVolGetInfoArgs''
     [fld ty_StorageVol]"

definition ty_StorageVolGetInfoRet :: ty where [proto_types]:
  "ty_StorageVolGetInfoRet = TStruct ''libvirt.StorageVolGetInfoRet''
     [fld TInt8, fld TUint64, fld TUint64]"

definition ty_StorageVolGetInfoFlagsArgs :: ty where [proto_types]:
  "ty_StorageVolGetInfoFlagsArgs = TStruct ''libvirt.StorageVolGetInfoFlagsArgs''
     [fld ty_StorageVol, fld TUint32]"

definition ty_StorageVolGetInfoFlagsRet :: ty where [proto_types]:
  "ty_StorageVolGetInfoFlagsRet = TStruct ''libvirt.StorageVolGetInfoFlagsRet''
     [fld TInt8, fld TUint64, fld TUint64]"

definition ty_StorageVolGetPathArgs :: ty where [proto_types]:
  "ty_StorageVolGetPathArgs = TStruct ''libvirt.StorageVolGetPathArgs''
     [fld ty_StorageVol]"

definition ty_StorageVolGetPathRet :: ty where [proto_types]:
  "ty_StorageVolGetPathRet = TStruct ''libvirt.StorageVolGetPathRet''
     [fld TString]"

definition ty_StorageVolResizeArgs :: ty where [proto_types]:
  "ty_StorageVolResizeArgs = TStruct ''libvirt.StorageVolResizeArgs''
     [fld ty_StorageVol, fld TUint64, fld ty_StorageVolResizeFlags]"

definition ty_SecretLookupByUUIDArgs :: ty where [proto_types]:
  "ty_SecretLookupByUUIDArgs = TStruct ''libvirt.SecretLookupByUUIDArgs''
     [fld ty_UUID]"

definition ty_SecretLookupByUUIDRet :: ty where [proto_types]:
  "ty_SecretLookupByUUIDRet = TStruct ''libvirt.SecretLookupByUUIDRet''
     [fld ty_Secret]"

definition ty_SecretDefineXMLArgs :: ty where [proto_types]:
  "ty_SecretDefineXMLArgs = TStruct ''libvirt.SecretDefineXMLArgs''
     [fld TString, fld TUint32]"

definition ty_SecretDefineXMLRet :: ty where [proto_types]:
  "ty_SecretDefineXMLRet = TStruct ''libvirt.SecretDefineXMLRet''
     [fld ty_Secret]"

definition ty_SecretGetXMLDescArgs :: ty where [proto_types]:
  "ty_SecretGetXMLDescArgs = TStruct ''libvirt.SecretGetXMLDescArgs''
     [fld ty_Secret, fld TUint32]"

definition ty_SecretGetXMLDescRet :: ty where [proto_types]:
  "ty_SecretGetXMLDescRet = TStruct ''libvirt.SecretGetXMLDescRet''
     [fld TString]"

definition ty_SecretSetValueArgs :: ty where [proto_types]:
  "ty_SecretSetValueArgs = TStruct ''libvirt.SecretSetValueArgs''
     [fld ty_Secret, fld (TSlice TUint8), fld TUint32]"

definition ty_SecretGetValueArgs :: ty where [proto_types]:
  "ty_SecretGetValueArgs = TStruct ''libvirt.SecretGetValueArgs''
     [fld ty_Secret, fld TUint32]"

definition ty_SecretGetValueRet :: ty where [proto_types]:
  "ty_SecretGetValueRet = TStruct ''libvirt.SecretGetValueRet''
     [fld (TSlice TUint8)]"

definition ty_SecretUndefineArgs :: ty where [proto_types]:
  "ty_SecretUndefineArgs = TStruct ''libvirt.SecretUndefineArgs''
     [fld ty_Secret]"

definition ty_SecretLookupByUsageArgs :: ty where [proto_types]:
  "ty_SecretLookupByUsageArgs = TStruct ''libvirt.SecretLookupByUsageArgs''
     [fld TInt32, fld TString]"

definition ty_SecretLookupByUsageRet :: ty where [proto_types]:
  "ty_SecretLookupByUsageRet = TStruct ''libvirt.SecretLookupByUsageRet''
     [fld ty_Secret]"

definition ty_NetworkIsActiveArgs :: ty where [proto_types]:
  "ty_NetworkIsActiveArgs = TStruct ''libvirt.NetworkIsActiveArgs''
     [fld ty_Network]"

definition ty_NetworkIsActiveRet :: ty where [proto_types]:
  "ty_NetworkIsActiveRet = TStruct ''libvirt.NetworkIsActiveRet''
     [fld TInt32]"

definition ty_NetworkIsPersistentArgs :: ty where [proto_types]:
  "ty_NetworkIsPersistentArgs = TStruct ''libvirt.NetworkIsPersistentArgs''
     [fld ty_Network]"

definition ty_NetworkIsPersistentRet :: ty where [proto_types]:
  "ty_NetworkIsPersistentRet = TStruct ''libvirt.NetworkIsPersistentRet''
     [fld TInt32]"

definition ty_StoragePoolIsActiveArgs :: ty where [proto_types]:
  "ty_StoragePoolIsActiveArgs = TStruct ''libvirt.StoragePoolIsActiveArgs''
     [fld ty_StoragePool]"

definition ty_StoragePoolIsActiveRet :: ty where [proto_types]:
  "ty_StoragePoolIsActiveRet = TStruct ''libvirt.StoragePoolIsActiveRet''
     [fld TInt32]"

definition ty_StoragePoolIsPersistentArgs :: ty where [proto_types]:
  "ty_StoragePoolIsPersistentArgs = TStruct ''libvirt.StoragePoolIsPersistentArgs''
     [fld ty_StoragePool]"

definition ty_StoragePoolIsPersistentRet :: ty where [proto_types]:
  "ty_StoragePoolIsPersistentRet = TStruct ''libvirt.StoragePoolIsPersistentRet''
     [fld TInt32]"

definition ty_InterfaceIsActiveArgs :: ty where [proto_types]:
  "ty_InterfaceIsActiveArgs = TStruct ''libvirt.InterfaceIsActiveArgs''
     [fld ty_Interface]"

definition ty_InterfaceIsActiveRet :: ty where [proto_types]:
  "ty_InterfaceIsActiveRet = TStruct ''libvirt.InterfaceIsActiveRet''
     [fld TInt32]"

definition ty_StoragePoolListAllVolumesArgs :: ty where [proto_types]:
  "ty_StoragePoolListAllVolumesArgs = TStruct ''libvirt.StoragePoolListAllVolumesArgs''
     [fld ty_StoragePool, fld TInt32, fld TUint32]"

definition ty_StoragePoolListAllVolumesRet :: ty where [proto_types]:
  "ty_StoragePoolListAllVolumesRet = TStruct ''libvirt.StoragePoolListAllVolumesRet''
     [fld (TSlice ty_StorageVol), fld TUint32]"

definition ty_NetworkSetMetadataArgs :: ty where [proto_types]:
  "ty_NetworkSetMetadataArgs = TStruct ''libvirt.NetworkSetMetadataArgs''
     [fld ty_Network, fld TInt32, fld ty_OptString, fld ty_OptString, fld ty_OptString,
      fld TUint32]"

definition ty_NetworkGetMetadataArgs :: ty where [proto_types]:
  "ty_NetworkGetMetadataArgs = TStruct ''libvirt.NetworkGetMetadataArgs''
     [fld ty_Network, fld TInt32, fld ty_OptString, fld TUint32]"

definition ty_NetworkGetMetadataRet :: ty where [proto_types]:
  "ty_NetworkGetMetadataRet = TStruct ''libvirt.NetworkGetMetadataRet''
     [fld TString]"

definition ty_NetworkGetDhcpLeasesArgs :: ty where [proto_types]:
  "ty_NetworkGetDhcpLeasesArgs = TStruct ''libvirt.NetworkGetDhcpLeasesArgs''
     [fld ty_Network, fld ty_OptString, fld TInt32, fld TUint32]"

definition ty_NetworkGetDhcpLeasesRet :: ty where [proto_types]:
  "ty_NetworkGetDhcpLeasesRet = TStruct ''libvirt.NetworkGetDhcpLeasesRet''
     [fld (TSlice ty_NetworkDhcpLease), fld TUint32]"

definition ty_NwfilterBindingLookupByPortDevArgs :: ty where [proto_types]:
  "ty_NwfilterBindingLookupByPortDevArgs = TStruct ''libvirt.NwfilterBindingLookupByPortDevArgs''
     [fld TString]"

definition ty_NwfilterBindingLookupByPortDevRet :: ty where [proto_types]:
  "ty_NwfilterBindingLookupByPortDevRet = TStruct ''libvirt.NwfilterBindingLookupByPortDevRet''
     [fld ty_NwfilterBinding]"

definition ty_NwfilterBindingCreateXMLArgs :: ty where [proto_types]:
  "ty_NwfilterBindingCreateXMLArgs = TStruct ''libvirt.NwfilterBindingCreateXMLArgs''
     [fld TString, fld TUint32]"

definition ty_NwfilterBindingCreateXMLRet :: ty where [proto_types]:
  "ty_NwfilterBindingCreateXMLRet = TStruct ''libvirt.NwfilterBindingCreateXMLRet''
     [fld ty_NwfilterBinding]"

definition ty_NwfilterBindingDeleteArgs :: ty where [proto_types]:
  "ty_NwfilterBindingDeleteArgs = TStruct ''libvirt.NwfilterBindingDeleteArgs''
     [fld ty_NwfilterBinding]"

definition ty_NwfilterBindingGetXMLDescArgs :: ty where [proto_types]:
  "ty_NwfilterBindingGetXMLDescArgs = TStruct ''libvirt.NwfilterBindingGetXMLDescArgs''
     [fld ty_NwfilterBinding, fld TUint32]"

definition ty_NwfilterBindingGetXMLDescRet :: ty where [proto_types]:
  "ty_NwfilterBindingGetXMLDescRet = TStruct ''libvirt.NwfilterBindingGetXMLDescRet''
     [fld TString]"

definition ty_NetworkListAllPortsArgs :: ty where [proto_types]:
  "ty_NetworkListAllPortsArgs = TStruct ''libvirt.NetworkListAllPortsArgs''
     [fld ty_Network, fld TInt32, fld TUint32]"

definition ty_NetworkListAllPortsRet :: ty where [proto_types]:
  "ty_NetworkListAllPortsRet = TStruct ''libvirt.NetworkListAllPortsRet''
     [fld (TSlice ty_NetworkPort), fld TUint32]"

definition ty_NetworkPortLookupByUUIDArgs :: ty where [proto_types]:
  "ty_NetworkPortLookupByUUIDArgs = TStruct ''libvirt.NetworkPortLookupByUUIDArgs''
     [fld ty_Network, fld ty_UUID]"

definition ty_NetworkPortLookupByUUIDRet :: ty where [proto_types]:
  "ty_NetworkPortLookupByUUIDRet = TStruct ''libvirt.NetworkPortLookupByUUIDRet''
     [fld ty_NetworkPort]"

definition ty_NetworkPortCreateXMLArgs :: ty where [proto_types]:
  "ty_NetworkPortCreateXMLArgs = TStruct ''libvirt.NetworkPortCreateXMLArgs''
     [fld ty_Network, fld TString, fld TUint32]"

definition ty_NetworkPortCreateXMLRet :: ty where [proto_types]:
  "ty_NetworkPortCreateXMLRet = TStruct ''libvirt.NetworkPortCreateXMLRet''
     [fld ty_NetworkPort]"

definition ty_NetworkPortSetParametersArgs :: ty where [proto_types]:
  "ty_NetworkPortSetParametersArgs = TStruct ''libvirt.NetworkPortSetParametersArgs''
     [fld ty_NetworkPort, fld (TSlice ty_TypedParam), fld TUint32]"

definition ty_NetworkPortGetParametersArgs :: ty where [proto_types]:
  "ty_NetworkPortGetParametersArgs = TStruct ''libvirt.NetworkPortGetParametersArgs''
     [fld ty_NetworkPort, fld TInt32, fld TUint32]"

definition ty_NetworkPortGetParametersRet :: ty where [proto_types]:
  "ty_NetworkPortGetParametersRet = TStruct ''libvirt.NetworkPortGetParametersRet''
     [fld (TSlice ty_TypedParam), fld TInt32]"

definition ty_NetworkPortGetXMLDescArgs :: ty where [proto_types]:
  "ty_NetworkPortGetXMLDescArgs = TStruct ''libvirt.NetworkPortGetXMLDescArgs''
     [fld ty_NetworkPort, fld TUint32]"

definition ty_NetworkPortGetXMLDescRet :: ty where [proto_types]:
  "ty_NetworkPortGetXMLDescRet = TStruct ''libvirt.NetworkPortGetXMLDescRet''
     [fld TString]"

definition ty_NetworkPortDeleteArgs :: ty where [proto_types]:
  "ty_NetworkPortDeleteArgs = TStruct ''libvirt.NetworkPortDeleteArgs''
     [fld ty_NetworkPort, fld TUint32]"

end
