(* ===== verification/Protocol_Calls_Storage.thy ===== *)
theory Protocol_Calls_Storage
  imports Protocol_Calls Protocol_Types_Storage
begin

text \<open>
  The generated calls on storage pools and volumes, secrets, networks, interfaces and filters.
  Each is an instance of the template \<open>call\<close>.
\<close>

definition NetworkCreate :: "val \<Rightarrow> client \<Rightarrow> call_result" where
  "NetworkCreate Net cl =
     call 39 RemoteProgram (Some (ty_NetworkCreateArgs, VStruct [Net])) [] None None cl"

definition NetworkCreateXML :: "string \<Rightarrow> client \<Rightarrow> call_result" where
  "NetworkCreateXML XML cl =
     call 40 RemoteProgram
       (Some (ty_NetworkCreateXMLArgs, VStruct [VString XML]))
       [ty_Network] None None cl"

definition NetworkDefineXML :: "string \<Rightarrow> client \<Rightarrow> call_result" where
  "NetworkDefineXML XML cl =
     call 41 RemoteProgram
       (Some (ty_NetworkDefineXMLArgs, VStruct [VString XML]))
       [ty_Network] None None cl"

definition NetworkDestroy :: "val \<Rightarrow> client \<Rightarrow> call_result" where
  "NetworkDestroy Net cl =
     call 42 RemoteProgram (Some (ty_NetworkDestroyArgs, VStruct [Net])) [] None None cl"

definition NetworkGetXMLDesc :: "val \<Rightarrow> u32 \<Rightarrow> client \<Rightarrow>
    call_result" where
  "NetworkGetXMLDesc Net Flags cl =
     call 43 RemoteProgram
       (Some (ty_NetworkGetXMLDescArgs, VStruct [Net, of_u32 Flags]))
       [TString] None None cl"

definition NetworkGetAutostart :: "val \<Rightarrow> client \<Rightarrow> call_result" where
  "NetworkGetAutostart Net cl =
     call 44 RemoteProgram
       (Some (ty_NetworkGetAutostartArgs, VStruct [Net]))
       [TInt32] None None cl"

definition NetworkGetBridgeName :: "val \<Rightarrow> client \<Rightarrow> call_result" where
  "NetworkGetBridgeName Net cl =
     call 45 RemoteProgram
       (Some (ty_NetworkGetBridgeNameArgs, VStruct [Net]))
       [TString] None None cl"

definition NetworkLookupByName :: "string \<Rightarrow> client \<Rightarrow> call_result" where
  "NetworkLookupByName Name cl =
     call 46 RemoteProgram
       (Some (ty_NetworkLookupByNameArgs, VStruct [VString Name]))
       [ty_Network] None None cl"

definition NetworkLookupByUUID :: "byte list \<Rightarrow> client \<Rightarrow> call_result" where
  "NetworkLookupByUUID Uuid cl =
     call 47 RemoteProgram
       (Some (ty_NetworkLookupByUUIDArgs, VStruct [of_uuid Uuid]))
       [ty_Network] None None cl"

definition NetworkSetAutostart :: "val \<Rightarrow> i32 \<Rightarrow> client \<Rightarrow>
    call_result" where
  "NetworkSetAutostart Net Autostart cl =
     call 48 RemoteProgram
       (Some (ty_NetworkSetAutostartArgs, VStruct [Net, of_i32 Autostart]))
       [] None None cl"

definition NetworkUndefine :: "val \<Rightarrow> client \<Rightarrow> call_result" where
  "NetworkUndefine Net cl =
     call 49 RemoteProgram (Some (ty_NetworkUndefineArgs, VStruct [Net])) [] None None cl"

definition StoragePoolCreateXML :: "string \<Rightarrow> i32 \<Rightarrow> client \<Rightarrow>
    call_result" where
  "StoragePoolCreateXML XML Flags cl =
     call 76 RemoteProgram
       (Some (ty_StoragePoolCreateXMLArgs, VStruct [VString XML, of_i32 Flags]))
       [ty_StoragePool] None None cl"

definition StoragePoolDefineXML :: "string \<Rightarrow> u32 \<Rightarrow> client \<Rightarrow>
    call_result" where
  "StoragePoolDefineXML XML Flags cl =
     call 77 RemoteProgram
       (Some (ty_StoragePoolDefineXMLArgs, VStruct [VString XML, of_u32 Flags]))
       [ty_StoragePool] None None cl"

definition StoragePoolCreate :: "val \<Rightarrow> i32 \<Rightarrow> client \<Rightarrow>
    call_result" where
  "StoragePoolCreate Pool Flags cl =
     call 78 RemoteProgram
       (Some (ty_StoragePoolCreateArgs, VStruct [Pool, of_i32 Flags]))
       [] None None cl"

definition StoragePoolBuild :: "val \<Rightarrow> i32 \<Rightarrow> client \<Rightarrow>
    call_result" where
  "StoragePoolBuild Pool Flags cl =
     call 79 RemoteProgram
       (Some (ty_StoragePoolBuildArgs, VStruct [Pool, of_i32 Flags]))
       [] None None cl"

definition StoragePoolDestroy :: "val \<Rightarrow> client \<Rightarrow> call_result" where
  "StoragePoolDestroy Pool cl =
     call 80 RemoteProgram (Some (ty_StoragePoolDestroyArgs, VStruct [Pool])) [] None None cl"

definition StoragePoolDelete :: "val \<Rightarrow> i32 \<Rightarrow> client \<Rightarrow>
    call_result" where
  "StoragePoolDelete Pool Flags cl =
     call 81 RemoteProgram
       (Some (ty_StoragePoolDeleteArgs, VStruct [Pool, of_i32 Flags]))
       [] None None cl"

definition StoragePoolUndefine :: "val \<Rightarrow> client \<Rightarrow> call_result" where
  "StoragePoolUndefine Pool cl =
     call 82 RemoteProgram (Some (ty_StoragePoolUndefineArgs, VStruct [Pool])) [] None None cl"

definition StoragePoolRefresh :: "val \<Rightarrow> u32 \<Rightarrow> client \<Rightarrow>
    call_result" where
  "StoragePoolRefresh Pool Flags cl =
     call 83 RemoteProgram
       (Some (ty_StoragePoolRefreshArgs, VStruct [Pool, of_u32 Flags]))
       [] None None cl"

definition StoragePoolLookupByUUID :: "byte list \<Rightarrow> client \<Rightarrow> call_result"
    where
  "StoragePoolLookupByUUID Uuid cl =
     call 85 RemoteProgram
       (Some (ty_StoragePoolLookupByUUIDArgs, VStruct [of_uuid Uuid]))
       [ty_StoragePool] None None cl"

definition StoragePoolLookupByVolume :: "val \<Rightarrow> client \<Rightarrow> call_result" where
  "StoragePoolLookupByVolume Vol cl =
     call 86 RemoteProgram
       (Some (ty_StoragePoolLookupByVolumeArgs, VStruct [Vol]))
       [ty_StoragePool] None None cl"

definition StoragePoolGetInfo :: "val \<Rightarrow> client \<Rightarrow> call_result" where
  "StoragePoolGetInfo Pool cl =
     call 87 RemoteProgram
       (Some (ty_StoragePoolGetInfoArgs, VStruct [Pool]))
       [TUint8, TUint64, TUint64, TUint64] None None cl"

definition StoragePoolGetXMLDesc :: "val \<Rightarrow> i32 \<Rightarrow> client \<Rightarrow>
    call_result" where
  "StoragePoolGetXMLDesc Pool Flags cl =
     call 88 RemoteProgram
       (Some (ty_StoragePoolGetXMLDescArgs, VStruct [Pool, of_i32 Flags]))
       [TString] None None cl"

definition StoragePoolGetAutostart :: "val \<Rightarrow> client \<Rightarrow> call_result" where
  "StoragePoolGetAutostart Pool cl =
     call 89 RemoteProgram
       (Some (ty_StoragePoolGetAutostartArgs, VStruct [Pool]))
       [TInt32] None None cl"

definition StoragePoolSetAutostart :: "val \<Rightarrow> i32 \<Rightarrow> client \<Rightarrow>
    call_result" where
  "StoragePoolSetAutostart Pool Autostart cl =
     call 90 RemoteProgram
       (Some (ty_StoragePoolSetAutostartArgs, VStruct [Pool, of_i32 Autostart]))
       [] None None cl"

definition StoragePoolNumOfVolumes :: "val \<Rightarrow> client \<Rightarrow> call_result" where
  "StoragePoolNumOfVolumes Pool cl =
     call 91 RemoteProgram
       (Some (ty_StoragePoolNumOfVolumesArgs, VStruct [Pool]))
       [TInt32] None None cl"

definition StoragePoolListVolumes :: "val \<Rightarrow> i32 \<Rightarrow> client \<Rightarrow>
    call_result" where
  "StoragePoolListVolumes Pool Maxnames cl =
     call 92 RemoteProgram
       (Some (ty_StoragePoolListVolumesArgs, VStruct [Pool, of_i32 Maxnames]))
       [TSlice TString] None None cl"

definition StorageVolCreateXML :: "val \<Rightarrow> string \<Rightarrow> i32 \<Rightarrow> client
    \<Rightarrow> call_result" where
  "StorageVolCreateXML Pool XML Flags cl =
     call 93 RemoteProgram
       (Some (ty_StorageVolCreateXMLArgs, VStruct [Pool, VString XML, of_i32 Flags]))
       [ty_StorageVol] None None cl"

definition StorageVolDelete :: "val \<Rightarrow> i32 \<Rightarrow> client \<Rightarrow>
    call_result" where
  "StorageVolDelete Vol Flags cl =
     call 94 RemoteProgram
       (Some (ty_StorageVolDeleteArgs, VStruct [Vol, of_i32 Flags]))
       [] None None cl"

definition StorageVolLookupByName :: "val \<Rightarrow> string \<Rightarrow> client \<Rightarrow>
    call_result" where
  "StorageVolLookupByName Pool Name cl =
     call 95 RemoteProgram
       (Some (ty_StorageVolLookupByNameArgs, VStruct [Pool, VString Name]))
       [ty_StorageVol] None None cl"

definition StorageVolLookupByKey :: "string \<Rightarrow> client \<Rightarrow> call_result" where
  "StorageVolLookupByKey Key cl =
     call 96 RemoteProgram
       (Some (ty_StorageVolLookupByKeyArgs, VStruct [VString Key]))
       [ty_StorageVol] None None cl"

definition StorageVolLookupByPath :: "string \<Rightarrow> client \<Rightarrow> call_result" where
  "StorageVolLookupByPath Path cl =
     call 97 RemoteProgram
       (Some (ty_StorageVolLookupByPathArgs, VStruct [VString Path]))
       [ty_StorageVol] None None cl"

definition StorageVolGetInfo :: "val \<Rightarrow> client \<Rightarrow> call_result" where
  "StorageVolGetInfo Vol cl =
     call 98 RemoteProgram
       (Some (ty_StorageVolGetInfoArgs, VStruct [Vol]))
       [TInt8, TUint64, TUint64] None None cl"

definition StorageVolGetXMLDesc :: "val \<Rightarrow> u32 \<Rightarrow> client \<Rightarrow>
    call_result" where
  "StorageVolGetXMLDesc Vol Flags cl =
     call 99 RemoteProgram
       (Some (ty_StorageVolGetXMLDescArgs, VStruct [Vol, of_u32 Flags]))
       [TString] None None cl"

definition StorageVolGetPath :: "val \<Rightarrow> client \<Rightarrow> call_result" where
  "StorageVolGetPath Vol cl =
     call 100 RemoteProgram
       (Some (ty_StorageVolGetPathArgs, VStruct [Vol]))
       [TString] None None cl"

definition StorageVolCreateXMLFrom :: "val \<Rightarrow> string \<Rightarrow> val \<Rightarrow>
    i32 \<Rightarrow> client \<Rightarrow> call_result" where
  "StorageVolCreateXMLFrom Pool XML Clonevol Flags cl =
     call 125 RemoteProgram
       (Some (ty_StorageVolCreateXMLFromArgs, VStruct [Pool, VString XML, Clonevol, of_i32
         Flags]))
       [ty_StorageVol] None None cl"

definition InterfaceLookupByName :: "string \<Rightarrow> client \<Rightarrow> call_result" where
  "InterfaceLookupByName Name cl =
     call 128 RemoteProgram
       (Some (ty_InterfaceLookupByNameArgs, VStruct [VString Name]))
       [ty_Interface] None None cl"

definition InterfaceLookupByMacString :: "string \<Rightarrow> client \<Rightarrow> call_result"
    where
  "InterfaceLookupByMacString Mac cl =
     call 129 RemoteProgram
       (Some (ty_InterfaceLookupByMacStringArgs, VStruct [VString Mac]))
       [ty_Interface] None None cl"

definition InterfaceGetXMLDesc :: "val \<Rightarrow> u32 \<Rightarrow> client \<Rightarrow>
    call_result" where
  "InterfaceGetXMLDesc Iface Flags cl =
     call 130 RemoteProgram
       (Some (ty_InterfaceGetXMLDescArgs, VStruct [Iface, of_u32 Flags]))
       [TString] None None cl"

definition InterfaceDefineXML :: "string \<Rightarrow> u32 \<Rightarrow> client \<Rightarrow>
    call_result" where
  "InterfaceDefineXML XML Flags cl =
     call 131 RemoteProgram
       (Some (ty_InterfaceDefineXMLArgs, VStruct [VString XML, of_u32 Flags]))
       [ty_Interface] None None cl"

definition InterfaceUndefine :: "val \<Rightarrow> client \<Rightarrow> call_result" where
  "InterfaceUndefine Iface cl =
     call 132 RemoteProgram (Some (ty_InterfaceUndefineArgs, VStruct [Iface])) [] None None cl"

definition InterfaceCreate :: "val \<Rightarrow> u32 \<Rightarrow> client \<Rightarrow>
    call_result" where
  "InterfaceCreate Iface Flags cl =
     call 133 RemoteProgram
       (Some (ty_InterfaceCreateArgs, VStruct [Iface, of_u32 Flags]))
       [] None None cl"

definition InterfaceDestroy :: "val \<Rightarrow> u32 \<Rightarrow> client \<Rightarrow>
    call_result" where
  "InterfaceDestroy Iface Flags cl =
     call 134 RemoteProgram
       (Some (ty_InterfaceDestroyArgs, VStruct [Iface, of_u32 Flags]))
       [] None None cl"

definition SecretLookupByUUID :: "byte list \<Rightarrow> client \<Rightarrow> call_result" where
  "SecretLookupByUUID Uuid cl =
     call 141 RemoteProgram
       (Some (ty_SecretLookupByUUIDArgs, VStruct [of_uuid Uuid]))
       [ty_Secret] None None cl"

definition SecretDefineXML :: "string \<Rightarrow> u32 \<Rightarrow> client \<Rightarrow>
    call_result" where
  "SecretDefineXML XML Flags cl =
     call 142 RemoteProgram
       (Some (ty_SecretDefineXMLArgs, VStruct [VString XML, of_u32 Flags]))
       [ty_Secret] None None cl"

definition SecretGetXMLDesc :: "val \<Rightarrow> u32 \<Rightarrow> client \<Rightarrow>
    call_result" where
  "SecretGetXMLDesc OptSecret Flags cl =
     call 143 RemoteProgram
       (Some (ty_SecretGetXMLDescArgs, VStruct [OptSecret, of_u32 Flags]))
       [TString] None None cl"

definition SecretSetValue :: "val \<Rightarrow> byte list \<Rightarrow> u32 \<Rightarrow> client
    \<Rightarrow> call_result" where
  "SecretSetValue OptSecret Value Flags cl =
     call 144 RemoteProgram
       (Some (ty_SecretSetValueArgs, VStruct [OptSecret, of_bytes Value, of_u32 Flags]))
       [] None None cl"

definition SecretGetValue :: "val \<Rightarrow> u32 \<Rightarrow> client \<Rightarrow>
    call_result" where
  "SecretGetValue OptSecret Flags cl =
     call 145 RemoteProgram
       (Some (ty_SecretGetValueArgs, VStruct [OptSecret, of_u32 Flags]))
       [TSlice TUint8] None None cl"

definition SecretUndefine :: "val \<Rightarrow> client \<Rightarrow> call_result" where
  "SecretUndefine OptSecret cl =
     call 146 RemoteProgram (Some (ty_SecretUndefineArgs, VStruct [OptSecret])) [] None None cl"

definition SecretLookupByUsage :: "i32 \<Rightarrow> string \<Rightarrow> client \<Rightarrow>
    call_result" where
  "SecretLookupByUsage UsageType UsageID cl =
     call 147 RemoteProgram
       (Some (ty_SecretLookupByUsageArgs, VStruct [of_i32 UsageType, VString UsageID]))
       [ty_Secret] None None cl"

definition NetworkIsActive :: "val \<Rightarrow> client \<Rightarrow> call_result" where
  "NetworkIsActive Net cl =
     call 152 RemoteProgram (Some (ty_NetworkIsActiveArgs, VStruct [Net])) [TInt32] None None cl"

definition NetworkIsPersistent :: "val \<Rightarrow> client \<Rightarrow> call_result" where
  "NetworkIsPersistent Net cl =
     call 153 RemoteProgram
       (Some (ty_NetworkIsPersistentArgs, VStruct [Net]))
       [TInt32] None None cl"

definition StoragePoolIsActive :: "val \<Rightarrow> client \<Rightarrow> call_result" where
  "StoragePoolIsActive Pool cl =
     call 154 RemoteProgram
       (Some (ty_StoragePoolIsActiveArgs, VStruct [Pool]))
       [TInt32] None None cl"

definition StoragePoolIsPersistent :: "val \<Rightarrow> client \<Rightarrow> call_result" where
  "StoragePoolIsPersistent Pool cl =
     call 155 RemoteProgram
       (Some (ty_StoragePoolIsPersistentArgs, VStruct [Pool]))
       [TInt32] None None cl"

definition InterfaceIsActive :: "val \<Rightarrow> client \<Rightarrow> call_result" where
  "InterfaceIsActive Iface cl =
     call 156 RemoteProgram
       (Some (ty_InterfaceIsActiveArgs, VStruct [Iface]))
       [TInt32] None None cl"

definition StorageVolWipe :: "val \<Rightarrow> u32 \<Rightarrow> client \<Rightarrow>
    call_result" where
  "StorageVolWipe Vol Flags cl =
     call 165 RemoteProgram
       (Some (ty_StorageVolWipeArgs, VStruct [Vol, of_u32 Flags]))
       [] None None cl"

definition NwfilterLookupByName :: "string \<Rightarrow> client \<Rightarrow> call_result" where
  "NwfilterLookupByName Name cl =
     call 175 RemoteProgram
       (Some (ty_NwfilterLookupByNameArgs, VStruct [VString Name]))
       [ty_Nwfilter] None None cl"

definition NwfilterLookupByUUID :: "byte list \<Rightarrow> client \<Rightarrow> call_result"
    where
  "NwfilterLookupByUUID Uuid cl =
     call 176 RemoteProgram
       (Some (ty_NwfilterLookupByUUIDArgs, VStruct [of_uuid Uuid]))
       [ty_Nwfilter] None None cl"

definition NwfilterGetXMLDesc :: "val \<Rightarrow> u32 \<Rightarrow> client \<Rightarrow>
    call_result" where
  "NwfilterGetXMLDesc OptNwfilter Flags cl =
     call 177 RemoteProgram
       (Some (ty_NwfilterGetXMLDescArgs, VStruct [OptNwfilter, of_u32 Flags]))
       [TString] None None cl"

definition NwfilterDefineXML :: "string \<Rightarrow> client \<Rightarrow> call_result" where
  "NwfilterDefineXML XML cl =
     call 180 RemoteProgram
       (Some (ty_NwfilterDefineXMLArgs, VStruct [VString XML]))
       [ty_Nwfilter] None None cl"

definition NwfilterUndefine :: "val \<Rightarrow> client \<Rightarrow> call_result" where
  "NwfilterUndefine OptNwfilter cl =
     call 181 RemoteProgram
       (Some (ty_NwfilterUndefineArgs, VStruct [OptNwfilter]))
       [] None None cl"

definition InterfaceChangeBegin :: "u32 \<Rightarrow> client \<Rightarrow> call_result" where
  "InterfaceChangeBegin Flags cl =
     call 220 RemoteProgram
       (Some (ty_InterfaceChangeBeginArgs, VStruct [of_u32 Flags]))
       [] None None cl"

definition InterfaceChangeCommit :: "u32 \<Rightarrow> client \<Rightarrow> call_result" where
  "InterfaceChangeCommit Flags cl =
     call 221 RemoteProgram
       (Some (ty_InterfaceChangeCommitArgs, VStruct [of_u32 Flags]))
       [] None None cl"

definition InterfaceChangeRollback :: "u32 \<Rightarrow> client \<Rightarrow> call_result" where
  "InterfaceChangeRollback Flags cl =
     call 222 RemoteProgram
       (Some (ty_InterfaceChangeRollbackArgs, VStruct [of_u32 Flags]))
       [] None None cl"

definition StorageVolWipePattern :: "val \<Rightarrow> u32 \<Rightarrow> u32 \<Rightarrow> client
    \<Rightarrow> call_result" where
  "StorageVolWipePattern Vol Algorithm Flags cl =
     call 259 RemoteProgram
       (Some (ty_StorageVolWipePatternArgs, VStruct [Vol, of_u32 Algorithm, of_u32 Flags]))
       [] None None cl"

definition StorageVolResize :: "val \<Rightarrow> u64 \<Rightarrow> i32 \<Rightarrow> client
    \<Rightarrow> call_result" where
  "StorageVolResize Vol Capacity Flags cl =
     call 260 RemoteProgram
       (Some (ty_StorageVolResizeArgs, VStruct [Vol, VUint Capacity, of_i32 Flags]))
       [] None None cl"

definition StoragePoolListAllVolumes :: "val \<Rightarrow> i32 \<Rightarrow> u32 \<Rightarrow>
    client \<Rightarrow> call_result" where
  "StoragePoolListAllVolumes Pool NeedResults Flags cl =
     call 282 RemoteProgram
       (Some (ty_StoragePoolListAllVolumesArgs, VStruct [Pool, of_i32 NeedResults, of_u32
         Flags]))
       [TSlice ty_StorageVol, TUint32] None None cl"

definition NetworkEventLifecycle :: "client \<Rightarrow> call_result" where
  "NetworkEventLifecycle cl =
     call 315 RemoteProgram None [] None None cl"

definition NetworkGetDhcpLeases :: "val \<Rightarrow> string list \<Rightarrow> i32 \<Rightarrow>
    u32 \<Rightarrow> client \<Rightarrow> call_result" where
  "NetworkGetDhcpLeases Net Mac NeedResults Flags cl =
     call 341 RemoteProgram
       (Some (ty_NetworkGetDhcpLeasesArgs, VStruct [Net, of_strings Mac, of_i32 NeedResults,
         of_u32 Flags]))
       [TSlice ty_NetworkDhcpLease, TUint32] None None cl"

definition StoragePoolEventLifecycle :: "client \<Rightarrow> call_result" where
  "StoragePoolEventLifecycle cl =
     call 370 RemoteProgram None [] None None cl"

definition StoragePoolEventRefresh :: "client \<Rightarrow> call_result" where
  "StoragePoolEventRefresh cl =
     call 373 RemoteProgram None [] None None cl"

definition StorageVolGetInfoFlags :: "val \<Rightarrow> u32 \<Rightarrow> client \<Rightarrow>
    call_result" where
  "StorageVolGetInfoFlags Vol Flags cl =
     call 378 RemoteProgram
       (Some (ty_StorageVolGetInfoFlagsArgs, VStruct [Vol, of_u32 Flags]))
       [TInt8, TUint64, TUint64] None None cl"

definition SecretEventLifecycle :: "client \<Rightarrow> call_result" where
  "SecretEventLifecycle cl =
     call 382 RemoteProgram None [] None None cl"

definition SecretEventValueChanged :: "client \<Rightarrow> call_result" where
  "SecretEventValueChanged cl =
     call 383 RemoteProgram None [] None None cl"

definition StoragePoolLookupByTargetPath :: "string \<Rightarrow> client \<Rightarrow>
    call_result" where
  "StoragePoolLookupByTargetPath Path cl =
     call 391 RemoteProgram
       (Some (ty_StoragePoolLookupByTargetPathArgs, VStruct [VString Path]))
       [ty_StoragePool] None None cl"

definition NwfilterBindingLookupByPortDev :: "string \<Rightarrow> client \<Rightarrow>
    call_result" where
  "NwfilterBindingLookupByPortDev Name cl =
     call 397 RemoteProgram
       (Some (ty_NwfilterBindingLookupByPortDevArgs, VStruct [VString Name]))
       [ty_NwfilterBinding] None None cl"

definition NwfilterBindingGetXMLDesc :: "val \<Rightarrow> u32 \<Rightarrow> client \<Rightarrow>
    call_result" where
  "NwfilterBindingGetXMLDesc OptNwfilter Flags cl =
     call 398 RemoteProgram
       (Some (ty_NwfilterBindingGetXMLDescArgs, VStruct [OptNwfilter, of_u32 Flags]))
       [TString] None None cl"

definition NwfilterBindingCreateXML :: "string \<Rightarrow> u32 \<Rightarrow> client
    \<Rightarrow> call_result" where
  "NwfilterBindingCreateXML XML Flags cl =
     call 399 RemoteProgram
       (Some (ty_NwfilterBindingCreateXMLArgs, VStruct [VString XML, of_u32 Flags]))
       [ty_NwfilterBinding] None None cl"

definition NwfilterBindingDelete :: "val \<Rightarrow> client \<Rightarrow> call_result" where
  "NwfilterBindingDelete OptNwfilter cl =
     call 400 RemoteProgram
       (Some (ty_NwfilterBindingDeleteArgs, VStruct [OptNwfilter]))
       [] None None cl"

definition NetworkListAllPorts :: "val \<Rightarrow> i32 \<Rightarrow> u32 \<Rightarrow> client
    \<Rightarrow> call_result" where
  "NetworkListAllPorts OptNetwork NeedResults Flags cl =
     call 404 RemoteProgram
       (Some (ty_NetworkListAllPortsArgs, VStruct [OptNetwork, of_i32 NeedResults, of_u32
         Flags]))
       [TSlice ty_NetworkPort, TUint32] None None cl"

definition NetworkPortLookupByUUID :: "val \<Rightarrow> byte list \<Rightarrow> client
    \<Rightarrow> call_result" where
  "NetworkPortLookupByUUID OptNetwork Uuid cl =
     call 405 RemoteProgram
       (Some (ty_NetworkPortLookupByUUIDArgs, VStruct [OptNetwork, of_uuid Uuid]))
       [ty_NetworkPort] None None cl"

definition NetworkPortCreateXML :: "val \<Rightarrow> string \<Rightarrow> u32 \<Rightarrow>
    client \<Rightarrow> call_result" where
  "NetworkPortCreateXML OptNetwork XML Flags cl =
     call 406 RemoteProgram
       (Some (ty_NetworkPortCreateXMLArgs, VStruct [OptNetwork, VString XML, of_u32 Flags]))
       [ty_NetworkPort] None None cl"

definition NetworkPortGetParameters :: "val \<Rightarrow> i32 \<Rightarrow> u32 \<Rightarrow>
    client \<Rightarrow> call_result" where
  "NetworkPortGetParameters Port Nparams Flags cl =
     call 407 RemoteProgram
       (Some (ty_NetworkPortGetParametersArgs, VStruct [Port, of_i32 Nparams, of_u32 Flags]))
       [TSlice ty_TypedParam, TInt32] None None cl"

definition NetworkPortSetParameters :: "val \<Rightarrow> val list \<Rightarrow> u32 \<Rightarrow>
    client \<Rightarrow> call_result" where
  "NetworkPortSetParameters Port Params Flags cl =
     call 408 RemoteProgram
       (Some (ty_NetworkPortSetParametersArgs, VStruct [Port, VSlice Params [], of_u32 Flags]))
       [] None None cl"

definition NetworkPortGetXMLDesc :: "val \<Rightarrow> u32 \<Rightarrow> client \<Rightarrow>
    call_result" where
  "NetworkPortGetXMLDesc Port Flags cl =
     call 409 RemoteProgram
       (Some (ty_NetworkPortGetXMLDescArgs, VStruct [Port, of_u32 Flags]))
       [TString] None None cl"

definition NetworkPortDelete :: "val \<Rightarrow> u32 \<Rightarrow> client \<Rightarrow>
    call_result" where
  "NetworkPortDelete Port Flags cl =
     call 410 RemoteProgram
       (Some (ty_NetworkPortDeleteArgs, VStruct [Port, of_u32 Flags]))
       [] None None cl"

definition NwfilterDefineXMLFlags :: "string \<Rightarrow> u32 \<Rightarrow> client \<Rightarrow>
    call_result" where
  "NwfilterDefineXMLFlags XML Flags cl =
     call 431 RemoteProgram
       (Some (ty_NwfilterDefineXMLFlagsArgs, VStruct [VString XML, of_u32 Flags]))
       [ty_Nwfilter] None None cl"

definition NetworkDefineXMLFlags :: "string \<Rightarrow> u32 \<Rightarrow> client \<Rightarrow>
    call_result" where
  "NetworkDefineXMLFlags XML Flags cl =
     call 432 RemoteProgram
       (Some (ty_NetworkDefineXMLFlagsArgs, VStruct [VString XML, of_u32 Flags]))
       [ty_Network] None None cl"

definition NetworkCreateXMLFlags :: "string \<Rightarrow> u32 \<Rightarrow> client \<Rightarrow>
    call_result" where
  "NetworkCreateXMLFlags XML Flags cl =
     call 437 RemoteProgram
       (Some (ty_NetworkCreateXMLFlagsArgs, VStruct [VString XML, of_u32 Flags]))
       [ty_Network] None None cl"

definition NetworkSetMetadata :: "val \<Rightarrow> i32 \<Rightarrow> string list \<Rightarrow>
    string list \<Rightarrow> string list \<Rightarrow> u32 \<Rightarrow> client \<Rightarrow>
    call_result" where
  "NetworkSetMetadata OptNetwork Typ Metadata Key Uri Flags cl =
     call 444 RemoteProgram
       (Some (ty_NetworkSetMetadataArgs, VStruct [OptNetwork, of_i32 Typ, of_strings Metadata,
         of_strings Key, of_strings Uri, of_u32 Flags]))
       [] None None cl"

definition NetworkGetMetadata :: "val \<Rightarrow> i32 \<Rightarrow> string list \<Rightarrow>
    u32 \<Rightarrow> client \<Rightarrow> call_result" where
  "NetworkGetMetadata OptNetwork Typ Uri Flags cl =
     call 445 RemoteProgram
       (Some (ty_NetworkGetMetadataArgs, VStruct [OptNetwork, of_i32 Typ, of_strings Uri,
         of_u32 Flags]))
       [TString] None None cl"

definition NetworkEventCallbackMetadataChange :: "client \<Rightarrow> call_result" where
  "NetworkEventCallbackMetadataChange cl =
     call 446 RemoteProgram None [] None None cl"

end
