(* ===== verification/Protocol_Types_Connect.thy ===== *)
theory Protocol_Types_Connect
  imports Protocol_Types_Common
begin

text \<open>
  The argument and result structures of the calls on connections and nodes. They are translated
  from \<open>src/remote_protocol.gen.go\<close>.
\<close>

definition ty_ConnectSupportsFeatureRet :: ty where [proto_types]:
  "ty_ConnectSupportsFeatureRet = TStruct ''libvirt.ConnectSupportsFeatureRet''
     [fld TInt32]"

definition ty_ConnectGetTypeRet :: ty where [proto_types]:
  "ty_ConnectGetTypeRet = TStruct ''libvirt.ConnectGetTypeRet''
     [fld TString]"

definition ty_ConnectGetVersionRet :: ty where [proto_types]:
  "ty_ConnectGetVersionRet = TStruct ''libvirt.ConnectGetVersionRet''
     [fld TUint64]"

definition ty_ConnectGetLibVersionRet :: ty where [proto_types]:
  "ty_ConnectGetLibVersionRet = TStruct ''libvirt.ConnectGetLibVersionRet''
     [fld TUint64]"

definition ty_ConnectGetHostnameRet :: ty where [proto_types]:
  "ty_ConnectGetHostnameRet = TStruct ''libvirt.ConnectGetHostnameRet''
     [fld TString]"

definition ty_ConnectGetSysinfoArgs :: ty where [proto_types]:
  "ty_ConnectGetSysinfoArgs = TStruct ''libvirt.ConnectGetSysinfoArgs''
     [fld TUint32]"

definition ty_ConnectGetSysinfoRet :: ty where [proto_types]:
  "ty_ConnectGetSysinfoRet = TStruct ''libvirt.ConnectGetSysinfoRet''
     [fld TString]"

definition ty_ConnectGetUriRet :: ty where [proto_types]:
  "ty_ConnectGetUriRet = TStruct ''libvirt.ConnectGetUriRet''
     [fld TString]"

definition ty_ConnectGetMaxVcpusArgs :: ty where [proto_types]:
  "ty_ConnectGetMaxVcpusArgs = TStruct ''libvirt.ConnectGetMaxVcpusArgs''
     [fld ty_OptString]"

definition ty_ConnectGetMaxVcpusRet :: ty where [proto_types]:
  "ty_ConnectGetMaxVcpusRet = TStruct ''libvirt.ConnectGetMaxVcpusRet''
     [fld TInt32]"

definition ty_NodeGetInfoRet :: ty where [proto_types]:
  "ty_NodeGetInfoRet = TStruct ''libvirt.NodeGetInfoRet''
     [fld (TArray 32 TInt8), fld TUint64, fld TInt32, fld TInt32, fld TInt32, fld TInt32,
      fld TInt32, fld TInt32]"

definition ty_ConnectGetCapabilitiesRet :: ty where [proto_types]:
  "ty_ConnectGetCapabilitiesRet = TStruct ''libvirt.ConnectGetCapabilitiesRet''
     [fld TString]"

definition ty_ConnectGetDomainCapabilitiesArgs :: ty where [proto_types]:
  "ty_ConnectGetDomainCapabilitiesArgs = TStruct ''libvirt.ConnectGetDomainCapabilitiesArgs''
     [fld ty_OptString, fld ty_OptString, fld ty_OptString, fld ty_OptString,
      fld ty_ConnectGetDomainCapabilitiesFlags]"

definition ty_ConnectGetDomainCapabilitiesRet :: ty where [proto_types]:
  "ty_ConnectGetDomainCapabilitiesRet = TStruct ''libvirt.ConnectGetDomainCapabilitiesRet''
     [fld TString]"

definition ty_NodeGetCPUStatsArgs :: ty where [proto_types]:
  "ty_NodeGetCPUStatsArgs = TStruct ''libvirt.NodeGetCPUStatsArgs''
     [fld TInt32, fld TInt32, fld TUint32]"

definition ty_NodeGetCPUStatsRet :: ty where [proto_types]:
  "ty_NodeGetCPUStatsRet = TStruct ''libvirt.NodeGetCPUStatsRet''
     [fld (TSlice ty_NodeGetCPUStats), fld TInt32]"

definition ty_NodeGetMemoryStatsArgs :: ty where [proto_types]:
  "ty_NodeGetMemoryStatsArgs = TStruct ''libvirt.NodeGetMemoryStatsArgs''
     [fld TInt32, fld TInt32, fld TUint32]"

definition ty_NodeGetMemoryStatsRet :: ty where [proto_types]:
  "ty_NodeGetMemoryStatsRet = TStruct ''libvirt.NodeGetMemoryStatsRet''
     [fld (TSlice ty_NodeGetMemoryStats), fld TInt32]"

definition ty_NodeGetCellsFreeMemoryArgs :: ty where [proto_types]:
  "ty_NodeGetCellsFreeMemoryArgs = TStruct ''libvirt.NodeGetCellsFreeMemoryArgs''
     [fld TInt32, fld TInt32]"

definition ty_NodeGetCellsFreeMemoryRet :: ty where [proto_types]:
  "ty_NodeGetCellsFreeMemoryRet = TStruct ''libvirt.NodeGetCellsFreeMemoryRet''
     [fld (TSlice TUint64)]"

definition ty_NodeGetFreeMemoryRet :: ty where [proto_types]:
  "ty_NodeGetFreeMemoryRet = TStruct ''libvirt.NodeGetFreeMemoryRet''
     [fld TUint64]"

definition ty_ConnectListDomainsRet :: ty where [proto_types]:
  "ty_ConnectListDomainsRet = TStruct ''libvirt.ConnectListDomainsRet''
     [fld (TSlice TInt32)]"

definition ty_ConnectNumOfDomainsRet :: ty where [proto_types]:
  "ty_ConnectNumOfDomainsRet = TStruct ''libvirt.ConnectNumOfDomainsRet''
     [fld TInt32]"

definition ty_ConnectListDefinedDomainsArgs :: ty where [proto_types]:
  "ty_ConnectListDefinedDomainsArgs = TStruct ''libvirt.ConnectListDefinedDomainsArgs''
     [fld TInt32]"

definition ty_ConnectListDefinedDomainsRet :: ty where [proto_types]:
  "ty_ConnectListDefinedDomainsRet = TStruct ''libvirt.ConnectListDefinedDomainsRet''
     [fld (TSlice TString)]"

definition ty_ConnectNumOfDefinedDomainsRet :: ty where [proto_types]:
  "ty_ConnectNumOfDefinedDomainsRet = TStruct ''libvirt.ConnectNumOfDefinedDomainsRet''
     [fld TInt32]"

definition ty_NodeGetSecurityModelRet :: ty where [proto_types]:
  "ty_NodeGetSecurityModelRet = TStruct ''libvirt.NodeGetSecurityModelRet''
     [fld (TSlice TInt8), fld (TSlice TInt8)]"

definition ty_ConnectNumOfNetworksRet :: ty where [proto_types]:
  "ty_ConnectNumOfNetworksRet = TStruct ''libvirt.ConnectNumOfNetworksRet''
     [fld TInt32]"

definition ty_ConnectListNetworksArgs :: ty where [proto_types]:
  "ty_ConnectListNetworksArgs = TStruct ''libvirt.ConnectListNetworksArgs''
     [fld TInt32]"

definition ty_ConnectListNetworksRet :: ty where [proto_types]:
  "ty_ConnectListNetworksRet = TStruct ''libvirt.ConnectListNetworksRet''
     [fld (TSlice TString)]"

definition ty_ConnectNumOfDefinedNetworksRet :: ty where [proto_types]:
  "ty_ConnectNumOfDefinedNetworksRet = TStruct ''libvirt.ConnectNumOfDefinedNetworksRet''
     [fld TInt32]"

definition ty_ConnectListDefinedNetworksArgs :: ty where [proto_types]:
  "ty_ConnectListDefinedNetworksArgs = TStruct ''libvirt.ConnectListDefinedNetworksArgs''
     [fld TInt32]"

definition ty_ConnectListDefinedNetworksRet :: ty where [proto_types]:
  "ty_ConnectListDefinedNetworksRet = TStruct ''libvirt.ConnectListDefinedNetworksRet''
     [fld (TSlice TString)]"

definition ty_ConnectNumOfNwfiltersRet :: ty where [proto_types]:
  "ty_ConnectNumOfNwfiltersRet = TStruct ''libvirt.ConnectNumOfNwfiltersRet''
     [fld TInt32]"

definition ty_ConnectListNwfiltersArgs :: ty where [proto_types]:
  "ty_ConnectListNwfiltersArgs = TStruct ''libvirt.ConnectListNwfiltersArgs''
     [fld TInt32]"

definition ty_ConnectListNwfiltersRet :: ty where [proto_types]:
  "ty_ConnectListNwfiltersRet = TStruct ''libvirt.ConnectListNwfiltersRet''
     [fld (TSlice TString)]"

definition ty_ConnectNumOfInterfacesRet :: ty where [proto_types]:
  "ty_ConnectNumOfInterfacesRet = TStruct ''libvirt.ConnectNumOfInterfacesRet''
     [fld TInt32]"

definition ty_ConnectListInterfacesArgs :: ty where [proto_types]:
  "ty_ConnectListInterfacesArgs = TStruct ''libvirt.ConnectListInterfacesArgs''
     [fld TInt32]"

definition ty_ConnectListInterfacesRet :: ty where [proto_types]:
  "ty_ConnectListInterfacesRet = TStruct ''libvirt.ConnectListInterfacesRet''
     [fld (TSlice TString)]"

definition ty_ConnectNumOfDefinedInterfacesRet :: ty where [proto_types]:
  "ty_ConnectNumOfDefinedInterfacesRet = TStruct ''libvirt.ConnectNumOfDefinedInterfacesRet''
     [fld TInt32]"

definition ty_ConnectListDefinedInterfacesArgs :: ty where [proto_types]:
  "ty_ConnectListDefinedInterfacesArgs = TStruct ''libvirt.ConnectListDefinedInterfacesArgs''
     [fld TInt32]"

definition ty_ConnectListDefinedInterfacesRet :: ty where [proto_types]:
  "ty_ConnectListDefinedInterfacesRet = TStruct ''libvirt.ConnectListDefinedInterfacesRet''
     [fld (TSlice TString)]"

definition ty_AuthListRet :: ty where [proto_types]:
  "ty_AuthListRet = TStruct ''libvirt.AuthListRet''
     [fld (TSlice ty_AuthType)]"

definition ty_AuthSaslInitRet :: ty where [proto_types]:
  "ty_AuthSaslInitRet = TStruct ''libvirt.AuthSaslInitRet''
     [fld TString]"

definition ty_AuthSaslStartArgs :: ty where [proto_types]:
  "ty_AuthSaslStartArgs = TStruct ''libvirt.AuthSaslStartArgs''
     [fld TString, fld TInt32, fld (TSlice TInt8)]"

definition ty_AuthSaslStartRet :: ty where [proto_types]:
  "ty_AuthSaslStartRet = TStruct ''libvirt.AuthSaslStartRet''
     [fld TInt32, fld TInt32, fld (TSlice TInt8)]"

definition ty_AuthSaslStepArgs :: ty where [proto_types]:
  "ty_AuthSaslStepArgs = TStruct ''libvirt.AuthSaslStepArgs''
     [fld TInt32, fld (TSlice TInt8)]"

definition ty_AuthSaslStepRet :: ty where [proto_types]:
  "ty_AuthSaslStepRet = TStruct ''libvirt.AuthSaslStepRet''
     [fld TInt32, fld TInt32, fld (TSlice TInt8)]"

definition ty_AuthPolkitRet :: ty where [proto_types]:
  "ty_AuthPolkitRet = TStruct ''libvirt.AuthPolkitRet''
     [fld TInt32]"

definition ty_ConnectNumOfStoragePoolsRet :: ty where [proto_types]:
  "ty_ConnectNumOfStoragePoolsRet = TStruct ''libvirt.ConnectNumOfStoragePoolsRet''
     [fld TInt32]"

definition ty_ConnectListStoragePoolsArgs :: ty where [proto_types]:
  "ty_ConnectListStoragePoolsArgs = TStruct ''libvirt.ConnectListStoragePoolsArgs''
     [fld TInt32]"

definition ty_ConnectListStoragePoolsRet :: ty where [proto_types]:
  "ty_ConnectListStoragePoolsRet = TStruct ''libvirt.ConnectListStoragePoolsRet''
     [fld (TSlice TString)]"

definition ty_ConnectNumOfDefinedStoragePoolsRet :: ty where [proto_types]:
  "ty_ConnectNumOfDefinedStoragePoolsRet = TStruct ''libvirt.ConnectNumOfDefinedStoragePoolsRet''
     [fld TInt32]"

definition ty_ConnectListDefinedStoragePoolsArgs :: ty where [proto_types]:
  "ty_ConnectListDefinedStoragePoolsArgs = TStruct ''libvirt.ConnectListDefinedStoragePoolsArgs''
     [fld TInt32]"

definition ty_ConnectListDefinedStoragePoolsRet :: ty where [proto_types]:
  "ty_ConnectListDefinedStoragePoolsRet = TStruct ''libvirt.ConnectListDefinedStoragePoolsRet''
     [fld (TSlice TString)]"

definition ty_ConnectFindStoragePoolSourcesArgs :: ty where [proto_types]:
  "ty_ConnectFindStoragePoolSourcesArgs = TStruct ''libvirt.ConnectFindStoragePoolSourcesArgs''
     [fld TString, fld ty_OptString, fld TUint32]"

definition ty_ConnectFindStoragePoolSourcesRet :: ty where [proto_types]:
  "ty_ConnectFindStoragePoolSourcesRet = TStruct ''libvirt.ConnectFindStoragePoolSourcesRet''
     [fld TString]"

definition ty_NodeNumOfDevicesArgs :: ty where [proto_types]:
  "ty_NodeNumOfDevicesArgs = TStruct ''libvirt.NodeNumOfDevicesArgs''
     [fld ty_OptString, fld TUint32]"

definition ty_NodeNumOfDevicesRet :: ty where [proto_types]:
  "ty_NodeNumOfDevicesRet = TStruct ''libvirt.NodeNumOfDevicesRet''
     [fld TInt32]"

definition ty_NodeListDevicesArgs :: ty where [proto_types]:
  "ty_NodeListDevicesArgs = TStruct ''libvirt.NodeListDevicesArgs''
     [fld ty_OptString, fld TInt32, fld TUint32]"

definition ty_NodeListDevicesRet :: ty where [proto_types]:
  "ty_NodeListDevicesRet = TStruct ''libvirt.NodeListDevicesRet''
     [fld (TSlice TString)]"

definition ty_NodeDeviceLookupByNameArgs :: ty where [proto_types]:
  "ty_NodeDeviceLookupByNameArgs = TStruct ''libvirt.NodeDeviceLookupByNameArgs''
     [fld TString]"

definition ty_NodeDeviceLookupByNameRet :: ty where [proto_types]:
  "ty_NodeDeviceLookupByNameRet = TStruct ''libvirt.NodeDeviceLookupByNameRet''
     [fld ty_NodeDevice]"

definition ty_NodeDeviceLookupScsiHostByWwnArgs :: ty where [proto_types]:
  "ty_NodeDeviceLookupScsiHostByWwnArgs = TStruct ''libvirt.NodeDeviceLookupScsiHostByWwnArgs''
     [fld TString, fld TString, fld TUint32]"

definition ty_NodeDeviceLookupScsiHostByWwnRet :: ty where [proto_types]:
  "ty_NodeDeviceLookupScsiHostByWwnRet = TStruct ''libvirt.NodeDeviceLookupScsiHostByWwnRet''
     [fld ty_NodeDevice]"

definition ty_NodeDeviceGetXMLDescArgs :: ty where [proto_types]:
  "ty_NodeDeviceGetXMLDescArgs = TStruct ''libvirt.NodeDeviceGetXMLDescArgs''
     [fld TString, fld TUint32]"

definition ty_NodeDeviceGetXMLDescRet :: ty where [proto_types]:
  "ty_NodeDeviceGetXMLDescRet = TStruct ''libvirt.NodeDeviceGetXMLDescRet''
     [fld TString]"

definition ty_NodeDeviceGetParentArgs :: ty where [proto_types]:
  "ty_NodeDeviceGetParentArgs = TStruct ''libvirt.NodeDeviceGetParentArgs''
     [fld TString]"

definition ty_NodeDeviceGetParentRet :: ty where [proto_types]:
  "ty_NodeDeviceGetParentRet = TStruct ''libvirt.NodeDeviceGetParentRet''
     [fld ty_OptString]"

definition ty_NodeDeviceNumOfCapsArgs :: ty where [proto_types]:
  "ty_NodeDeviceNumOfCapsArgs = TStruct ''libvirt.NodeDeviceNumOfCapsArgs''
     [fld TString]"

definition ty_NodeDeviceNumOfCapsRet :: ty where [proto_types]:
  "ty_NodeDeviceNumOfCapsRet = TStruct ''libvirt.NodeDeviceNumOfCapsRet''
     [fld TInt32]"

definition ty_NodeDeviceListCapsArgs :: ty where [proto_types]:
  "ty_NodeDeviceListCapsArgs = TStruct ''libvirt.NodeDeviceListCapsArgs''
     [fld TString, fld TInt32]"

definition ty_NodeDeviceListCapsRet :: ty where [proto_types]:
  "ty_NodeDeviceListCapsRet = TStruct ''libvirt.NodeDeviceListCapsRet''
     [fld (TSlice TString)]"

definition ty_NodeDeviceDettachArgs :: ty where [proto_types]:
  "ty_NodeDeviceDettachArgs = TStruct ''libvirt.NodeDeviceDettachArgs''
     [fld TString]"

definition ty_NodeDeviceDetachFlagsArgs :: ty where [proto_types]:
  "ty_NodeDeviceDetachFlagsArgs = TStruct ''libvirt.NodeDeviceDetachFlagsArgs''
     [fld TString, fld ty_OptString, fld TUint32]"

definition ty_NodeDeviceReAttachArgs :: ty where [proto_types]:
  "ty_NodeDeviceReAttachArgs = TStruct ''libvirt.NodeDeviceReAttachArgs''
     [fld TString]"

definition ty_NodeDeviceResetArgs :: ty where [proto_types]:
  "ty_NodeDeviceResetArgs = TStruct ''libvirt.NodeDeviceResetArgs''
     [fld TString]"

definition ty_NodeDeviceCreateXMLArgs :: ty where [proto_types]:
  "ty_NodeDeviceCreateXMLArgs = TStruct ''libvirt.NodeDeviceCreateXMLArgs''
     [fld TString, fld ty_NodeDeviceCreateXMLFlags]"

definition ty_NodeDeviceCreateXMLRet :: ty where [proto_types]:
  "ty_NodeDeviceCreateXMLRet = TStruct ''libvirt.NodeDeviceCreateXMLRet''
     [fld ty_NodeDevice]"

definition ty_NodeDeviceDestroyArgs :: ty where [proto_types]:
  "ty_NodeDeviceDestroyArgs = TStruct ''libvirt.NodeDeviceDestroyArgs''
     [fld TString]"

definition ty_NodeDeviceDefineXMLArgs :: ty where [proto_types]:
  "ty_NodeDeviceDefineXMLArgs = TStruct ''libvirt.NodeDeviceDefineXMLArgs''
     [fld TString, fld ty_NodeDeviceDefineXMLFlags]"

definition ty_NodeDeviceDefineXMLRet :: ty where [proto_types]:
  "ty_NodeDeviceDefineXMLRet = TStruct ''libvirt.NodeDeviceDefineXMLRet''
     [fld ty_NodeDevice]"

definition ty_NodeDeviceUndefineArgs :: ty where [proto_types]:
  "ty_NodeDeviceUndefineArgs = TStruct ''libvirt.NodeDeviceUndefineArgs''
     [fld TString, fld TUint32]"

definition ty_NodeDeviceCreateArgs :: ty where [proto_types]:
  "ty_NodeDeviceCreateArgs = TStruct ''libvirt.NodeDeviceCreateArgs''
     [fld TString, fld TUint32]"

definition ty_NodeDeviceGetAutostartArgs :: ty where [proto_types]:
  "ty_NodeDeviceGetAutostartArgs = TStruct ''libvirt.NodeDeviceGetAutostartArgs''
     [fld TString]"

definition ty_NodeDeviceGetAutostartRet :: ty where [proto_types]:
  "ty_NodeDeviceGetAutostartRet = TStruct ''libvirt.NodeDeviceGetAutostartRet''
     [fld TInt32]"

definition ty_NodeDeviceSetAutostartArgs :: ty where [proto_types]:
  "ty_NodeDeviceSetAutostartArgs = TStruct ''libvirt.NodeDeviceSetAutostartArgs''
     [fld TString, fld TInt32]"

definition ty_NodeDeviceIsPersistentArgs :: ty where [proto_types]:
  "ty_NodeDeviceIsPersistentArgs = TStruct ''libvirt.NodeDeviceIsPersistentArgs''
     [fld TString]"

definition ty_NodeDeviceIsPersistentRet :: ty where [proto_types]:
  "ty_NodeDeviceIsPersistentRet = TStruct ''libvirt.NodeDeviceIsPersistentRet''
     [fld TInt32]"

definition ty_NodeDeviceIsActiveArgs :: ty where [proto_types]:
  "ty_NodeDeviceIsActiveArgs = TStruct ''libvirt.NodeDeviceIsActiveArgs''
     [fld TString]"

definition ty_NodeDeviceIsActiveRet :: ty where [proto_types]:
  "ty_NodeDeviceIsActiveRet = TStruct ''libvirt.NodeDeviceIsActiveRet''
     [fld TInt32]"

definition ty_NodeDeviceUpdateArgs :: ty where [proto_types]:
  "ty_NodeDeviceUpdateArgs = TStruct ''libvirt.NodeDeviceUpdateArgs''
     [fld TString, fld TString, fld ty_NodeDeviceUpdateFlags]"

definition ty_ConnectDomainEventRegisterRet :: ty where [proto_types]:
  "ty_ConnectDomainEventRegisterRet = TStruct ''libvirt.ConnectDomainEventRegisterRet''
     [fld TInt32]"

definition ty_ConnectDomainEventDeregisterRet :: ty where [proto_types]:
  "ty_ConnectDomainEventDeregisterRet = TStruct ''libvirt.ConnectDomainEventDeregisterRet''
     [fld TInt32]"

definition ty_ConnectDomainXMLFromNativeArgs :: ty where [proto_types]:
  "ty_ConnectDomainXMLFromNativeArgs = TStruct ''libvirt.ConnectDomainXMLFromNativeArgs''
     [fld TString, fld TString, fld TUint32]"

definition ty_ConnectDomainXMLFromNativeRet :: ty where [proto_types]:
  "ty_ConnectDomainXMLFromNativeRet = TStruct ''libvirt.ConnectDomainXMLFromNativeRet''
     [fld TString]"

definition ty_ConnectDomainXMLToNativeArgs :: ty where [proto_types]:
  "ty_ConnectDomainXMLToNativeArgs = TStruct ''libvirt.ConnectDomainXMLToNativeArgs''
     [fld TString, fld TString, fld TUint32]"

definition ty_ConnectDomainXMLToNativeRet :: ty where [proto_types]:
  "ty_ConnectDomainXMLToNativeRet = TStruct ''libvirt.ConnectDomainXMLToNativeRet''
     [fld TString]"

definition ty_ConnectNumOfSecretsRet :: ty where [proto_types]:
  "ty_ConnectNumOfSecretsRet = TStruct ''libvirt.ConnectNumOfSecretsRet''
     [fld TInt32]"

definition ty_ConnectListSecretsArgs :: ty where [proto_types]:
  "ty_ConnectListSecretsArgs = TStruct ''libvirt.ConnectListSecretsArgs''
     [fld TInt32]"

definition ty_ConnectListSecretsRet :: ty where [proto_types]:
  "ty_ConnectListSecretsRet = TStruct ''libvirt.ConnectListSecretsRet''
     [fld (TSlice TString)]"

definition ty_ConnectIsSecureRet :: ty where [proto_types]:
  "ty_ConnectIsSecureRet = TStruct ''libvirt.ConnectIsSecureRet''
     [fld TInt32]"

definition ty_ConnectCompareCPUArgs :: ty where [proto_types]:
  "ty_ConnectCompareCPUArgs = TStruct ''libvirt.ConnectCompareCPUArgs''
     [fld TString, fld ty_ConnectCompareCPUFlags]"

definition ty_ConnectCompareCPURet :: ty where [proto_types]:
  "ty_ConnectCompareCPURet = TStruct ''libvirt.ConnectCompareCPURet''
     [fld TInt32]"

definition ty_ConnectBaselineCPUArgs :: ty where [proto_types]:
  "ty_ConnectBaselineCPUArgs = TStruct ''libvirt.ConnectBaselineCPUArgs''
     [fld (TSlice TString), fld ty_ConnectBaselineCPUFlags]"

definition ty_ConnectBaselineCPURet :: ty where [proto_types]:
  "ty_ConnectBaselineCPURet = TStruct ''libvirt.ConnectBaselineCPURet''
     [fld TString]"

definition ty_ConnectDomainEventRegisterAnyArgs :: ty where [proto_types]:
  "ty_ConnectDomainEventRegisterAnyArgs = TStruct ''libvirt.ConnectDomainEventRegisterAnyArgs''
     [fld TInt32]"

definition ty_ConnectDomainEventDeregisterAnyArgs :: ty where [proto_types]:
  "ty_ConnectDomainEventDeregisterAnyArgs = TStruct ''libvirt.ConnectDomainEventDeregisterAnyArgs''
     [fld TInt32]"

definition ty_ConnectDomainEventCallbackRegisterAnyRet :: ty where [proto_types]:
  "ty_ConnectDomainEventCallbackRegisterAnyRet = TStruct ''libvirt.ConnectDomainEventCallbackRegisterAnyRet''
     [fld TInt32]"

definition ty_NodeSuspendForDurationArgs :: ty where [proto_types]:
  "ty_NodeSuspendForDurationArgs = TStruct ''libvirt.NodeSuspendForDurationArgs''
     [fld TUint32, fld TUint64, fld TUint32]"

definition ty_ConnectListAllDomainsRet :: ty where [proto_types]:
  "ty_ConnectListAllDomainsRet = TStruct ''libvirt.ConnectListAllDomainsRet''
     [fld (TSlice ty_Domain), fld TUint32]"

definition ty_ConnectListAllStoragePoolsRet :: ty where [proto_types]:
  "ty_ConnectListAllStoragePoolsRet = TStruct ''libvirt.ConnectListAllStoragePoolsRet''
     [fld (TSlice ty_StoragePool), fld TUint32]"

definition ty_ConnectListAllNetworksArgs :: ty where [proto_types]:
  "ty_ConnectListAllNetworksArgs = TStruct ''libvirt.ConnectListAllNetworksArgs''
     [fld TInt32, fld ty_ConnectListAllNetworksFlags]"

definition ty_ConnectListAllNetworksRet :: ty where [proto_types]:
  "ty_ConnectListAllNetworksRet = TStruct ''libvirt.ConnectListAllNetworksRet''
     [fld (TSlice ty_Network), fld TUint32]"

definition ty_ConnectListAllInterfacesArgs :: ty where [proto_types]:
  "ty_ConnectListAllInterfacesArgs = TStruct ''libvirt.ConnectListAllInterfacesArgs''
     [fld TInt32, fld ty_ConnectListAllInterfacesFlags]"

definition ty_ConnectListAllInterfacesRet :: ty where [proto_types]:
  "ty_ConnectListAllInterfacesRet = TStruct ''libvirt.ConnectListAllInterfacesRet''
     [fld (TSlice ty_Interface), fld TUint32]"

definition ty_ConnectListAllNodeDevicesArgs :: ty where [proto_types]:
  "ty_ConnectListAllNodeDevicesArgs = TStruct ''libvirt.ConnectListAllNodeDevicesArgs''
     [fld TInt32, fld TUint32]"

definition ty_ConnectListAllNodeDevicesRet :: ty where [proto_types]:
  "ty_ConnectListAllNodeDevicesRet = TStruct ''libvirt.ConnectListAllNodeDevicesRet''
     [fld (TSlice ty_NodeDevice), fld TUint32]"

definition ty_ConnectListAllNwfiltersArgs :: ty where [proto_types]:
  "ty_ConnectListAllNwfiltersArgs = TStruct ''libvirt.ConnectListAllNwfiltersArgs''
     [fld TInt32, fld TUint32]"

definition ty_ConnectListAllNwfiltersRet :: ty where [proto_types]:
  "ty_ConnectListAllNwfiltersRet = TStruct ''libvirt.ConnectListAllNwfiltersRet''
     [fld (TSlice ty_Nwfilter), fld TUint32]"

definition ty_ConnectListAllSecretsRet :: ty where [proto_types]:
  "ty_ConnectListAllSecretsRet = TStruct ''libvirt.ConnectListAllSecretsRet''
     [fld (TSlice ty_Secret), fld TUint32]"

definition ty_NodeSetMemoryParametersArgs :: ty where [proto_types]:
  "ty_NodeSetMemoryParametersArgs = TStruct ''libvirt.NodeSetMemoryParametersArgs''
     [fld (TSlice ty_TypedParam), fld TUint32]"

definition ty_NodeGetMemoryParametersArgs :: ty where [proto_types]:
  "ty_NodeGetMemoryParametersArgs = TStruct ''libvirt.NodeGetMemoryParametersArgs''
     [fld TInt32, fld TUint32]"

definition ty_NodeGetMemoryParametersRet :: ty where [proto_types]:
  "ty_NodeGetMemoryParametersRet = TStruct ''libvirt.NodeGetMemoryParametersRet''
     [fld (TSlice ty_TypedParam), fld TInt32]"

definition ty_NodeGetCPUMapArgs :: ty where [proto_types]:
  "ty_NodeGetCPUMapArgs = TStruct ''libvirt.NodeGetCPUMapArgs''
     [fld TInt32, fld TInt32, fld TUint32]"

definition ty_NodeGetCPUMapRet :: ty where [proto_types]:
  "ty_NodeGetCPUMapRet = TStruct ''libvirt.NodeGetCPUMapRet''
     [fld (TSlice TUint8), fld TUint32, fld TInt32]"

definition ty_ConnectGetCPUModelNamesArgs :: ty where [proto_types]:
  "ty_ConnectGetCPUModelNamesArgs = TStruct ''libvirt.ConnectGetCPUModelNamesArgs''
     [fld TString, fld TInt32, fld TUint32]"

definition ty_ConnectGetCPUModelNamesRet :: ty where [proto_types]:
  "ty_ConnectGetCPUModelNamesRet = TStruct ''libvirt.ConnectGetCPUModelNamesRet''
     [fld (TSlice TString), fld TInt32]"

definition ty_ConnectNetworkEventRegisterAnyArgs :: ty where [proto_types]:
  "ty_ConnectNetworkEventRegisterAnyArgs = TStruct ''libvirt.ConnectNetworkEventRegisterAnyArgs''
     [fld TInt32, fld ty_OptNetwork]"

definition ty_ConnectNetworkEventRegisterAnyRet :: ty where [proto_types]:
  "ty_ConnectNetworkEventRegisterAnyRet = TStruct ''libvirt.ConnectNetworkEventRegisterAnyRet''
     [fld TInt32]"

definition ty_ConnectNetworkEventDeregisterAnyArgs :: ty where [proto_types]:
  "ty_ConnectNetworkEventDeregisterAnyArgs = TStruct ''libvirt.ConnectNetworkEventDeregisterAnyArgs''
     [fld TInt32]"

definition ty_ConnectStoragePoolEventRegisterAnyArgs :: ty where [proto_types]:
  "ty_ConnectStoragePoolEventRegisterAnyArgs = TStruct ''libvirt.ConnectStoragePoolEventRegisterAnyArgs''
     [fld TInt32, fld ty_OptStoragePool]"

definition ty_ConnectStoragePoolEventRegisterAnyRet :: ty where [proto_types]:
  "ty_ConnectStoragePoolEventRegisterAnyRet = TStruct ''libvirt.ConnectStoragePoolEventRegisterAnyRet''
     [fld TInt32]"

definition ty_ConnectStoragePoolEventDeregisterAnyArgs :: ty where [proto_types]:
  "ty_ConnectStoragePoolEventDeregisterAnyArgs = TStruct ''libvirt.ConnectStoragePoolEventDeregisterAnyArgs''
     [fld TInt32]"

definition ty_ConnectNodeDeviceEventRegisterAnyArgs :: ty where [proto_types]:
  "ty_ConnectNodeDeviceEventRegisterAnyArgs = TStruct ''libvirt.ConnectNodeDeviceEventRegisterAnyArgs''
     [fld TInt32, fld ty_OptNodeDevice]"

definition ty_ConnectNodeDeviceEventRegisterAnyRet :: ty where [proto_types]:
  "ty_ConnectNodeDeviceEventRegisterAnyRet = TStruct ''libvirt.ConnectNodeDeviceEventRegisterAnyRet''
     [fld TInt32]"

definition ty_ConnectNodeDeviceEventDeregisterAnyArgs :: ty where [proto_types]:
  "ty_ConnectNodeDeviceEventDeregisterAnyArgs = TStruct ''libvirt.ConnectNodeDeviceEventDeregisterAnyArgs''
     [fld TInt32]"

definition ty_NodeGetFreePagesArgs :: ty where [proto_types]:
  "ty_NodeGetFreePagesArgs = TStruct ''libvirt.NodeGetFreePagesArgs''
     [fld (TSlice TUint32), fld TInt32, fld TUint32, fld TUint32]"

definition ty_NodeGetFreePagesRet :: ty where [proto_types]:
  "ty_NodeGetFreePagesRet = TStruct ''libvirt.NodeGetFreePagesRet''
     [fld (TSlice TUint64)]"

definition ty_NodeAllocPagesArgs :: ty where [proto_types]:
  "ty_NodeAllocPagesArgs = TStruct ''libvirt.NodeAllocPagesArgs''
     [fld (TSlice TUint32), fld (TSlice TUint64), fld TInt32, fld TUint32,
      fld ty_NodeAllocPagesFlags]"

definition ty_NodeAllocPagesRet :: ty where [proto_types]:
  "ty_NodeAllocPagesRet = TStruct ''libvirt.NodeAllocPagesRet''
     [fld TInt32]"

definition ty_ConnectGetAllDomainStatsArgs :: ty where [proto_types]:
  "ty_ConnectGetAllDomainStatsArgs = TStruct ''libvirt.ConnectGetAllDomainStatsArgs''
     [fld (TSlice ty_Domain), fld TUint32, fld TUint32]"

definition ty_ConnectGetAllDomainStatsRet :: ty where [proto_types]:
  "ty_ConnectGetAllDomainStatsRet = TStruct ''libvirt.ConnectGetAllDomainStatsRet''
     [fld (TSlice ty_DomainStatsRecord)]"

definition ty_ConnectSecretEventRegisterAnyArgs :: ty where [proto_types]:
  "ty_ConnectSecretEventRegisterAnyArgs = TStruct ''libvirt.ConnectSecretEventRegisterAnyArgs''
     [fld TInt32, fld ty_OptSecret]"

definition ty_ConnectSecretEventRegisterAnyRet :: ty where [proto_types]:
  "ty_ConnectSecretEventRegisterAnyRet = TStruct ''libvirt.ConnectSecretEventRegisterAnyRet''
     [fld TInt32]"

definition ty_ConnectSecretEventDeregisterAnyArgs :: ty where [proto_types]:
  "ty_ConnectSecretEventDeregisterAnyArgs = TStruct ''libvirt.ConnectSecretEventDeregisterAnyArgs''
     [fld TInt32]"

definition ty_ConnectCompareHypervisorCPUArgs :: ty where [proto_types]:
  "ty_ConnectCompareHypervisorCPUArgs = TStruct ''libvirt.ConnectCompareHypervisorCPUArgs''
     [fld ty_OptString, fld ty_OptString, fld ty_OptString, fld ty_OptString, fld TString,
      fld TUint32]"

definition ty_ConnectCompareHypervisorCPURet :: ty where [proto_types]:
  "ty_ConnectCompareHypervisorCPURet = TStruct ''libvirt.ConnectCompareHypervisorCPURet''
     [fld TInt32]"

definition ty_ConnectBaselineHypervisorCPUArgs :: ty where [proto_types]:
  "ty_ConnectBaselineHypervisorCPUArgs = TStruct ''libvirt.ConnectBaselineHypervisorCPUArgs''
     [fld ty_OptString, fld ty_OptString, fld ty_OptString, fld ty_OptString,
      fld (TSlice TString), fld TUint32]"

definition ty_ConnectBaselineHypervisorCPURet :: ty where [proto_types]:
  "ty_ConnectBaselineHypervisorCPURet = TStruct ''libvirt.ConnectBaselineHypervisorCPURet''
     [fld TString]"

definition ty_NodeGetSevInfoArgs :: ty where [proto_types]:
  "ty_NodeGetSevInfoArgs = TStruct ''libvirt.NodeGetSevInfoArgs''
     [fld TInt32, fld TUint32]"

definition ty_NodeGetSevInfoRet :: ty where [proto_types]:
  "ty_NodeGetSevInfoRet = TStruct ''libvirt.NodeGetSevInfoRet''
     [fld (TSlice ty_TypedParam), fld TInt32]"

definition ty_ConnectListAllNwfilterBindingsArgs :: ty where [proto_types]:
  "ty_ConnectListAllNwfilterBindingsArgs = TStruct ''libvirt.ConnectListAllNwfilterBindingsArgs''
     [fld TInt32, fld TUint32]"

definition ty_ConnectListAllNwfilterBindingsRet :: ty where [proto_types]:
  "ty_ConnectListAllNwfilterBindingsRet = TStruct ''libvirt.ConnectListAllNwfilterBindingsRet''
     [fld (TSlice ty_NwfilterBinding), fld TUint32]"

definition ty_ConnectGetStoragePoolCapabilitiesArgs :: ty where [proto_types]:
  "ty_ConnectGetStoragePoolCapabilitiesArgs = TStruct ''libvirt.ConnectGetStoragePoolCapabilitiesArgs''
     [fld TUint32]"

definition ty_ConnectGetStoragePoolCapabilitiesRet :: ty where [proto_types]:
  "ty_ConnectGetStoragePoolCapabilitiesRet = TStruct ''libvirt.ConnectGetStoragePoolCapabilitiesRet''
     [fld TString]"

definition ty_ConnectSetIdentityArgs :: ty where [proto_types]:
  "ty_ConnectSetIdentityArgs = TStruct ''libvirt.ConnectSetIdentityArgs''
     [fld (TSlice ty_TypedParam), fld TUint32]"

end
