(* ===== verification/Protocol_Calls_Connect.thy ===== *)
theory Protocol_Calls_Connect
  imports Protocol_Calls Protocol_Types_Connect
begin

text \<open>
  The generated calls on connections and nodes. Each is an instance of the template
  \<open>call\<close>.
\<close>

definition ConnectGetVersion :: "client \<Rightarrow> call_result" where
  "ConnectGetVersion cl =
     call 4 RemoteProgram None [TUint64] None None cl"

definition ConnectGetMaxVcpus :: "string list \<Rightarrow> client \<Rightarrow> call_result"
    where
  "ConnectGetMaxVcpus Typ cl =
     call 5 RemoteProgram
       (Some (ty_ConnectGetMaxVcpusArgs, VStruct [of_strings Typ]))
       [TInt32] None None cl"

definition NodeGetInfo :: "client \<Rightarrow> call_result" where
  "NodeGetInfo cl =
     call 6 RemoteProgram
       None
       [TArray 32 TInt8, TUint64, TInt32, TInt32, TInt32, TInt32, TInt32, TInt32] None None cl"

definition ConnectListDefinedDomains :: "i32 \<Rightarrow> client \<Rightarrow> call_result" where
  "ConnectListDefinedDomains Maxnames cl =
     call 21 RemoteProgram
       (Some (ty_ConnectListDefinedDomainsArgs, VStruct [of_i32 Maxnames]))
       [TSlice TString] None None cl"

definition ConnectNumOfDefinedDomains :: "client \<Rightarrow> call_result" where
  "ConnectNumOfDefinedDomains cl =
     call 25 RemoteProgram None [TInt32] None None cl"

definition ConnectListDefinedNetworks :: "i32 \<Rightarrow> client \<Rightarrow> call_result"
    where
  "ConnectListDefinedNetworks Maxnames cl =
     call 36 RemoteProgram
       (Some (ty_ConnectListDefinedNetworksArgs, VStruct [of_i32 Maxnames]))
       [TSlice TString] None None cl"

definition ConnectListNetworks :: "i32 \<Rightarrow> client \<Rightarrow> call_result" where
  "ConnectListNetworks Maxnames cl =
     call 38 RemoteProgram
       (Some (ty_ConnectListNetworksArgs, VStruct [of_i32 Maxnames]))
       [TSlice TString] None None cl"

definition ConnectNumOfDefinedNetworks :: "client \<Rightarrow> call_result" where
  "ConnectNumOfDefinedNetworks cl =
     call 50 RemoteProgram None [TInt32] None None cl"

definition ConnectNumOfDomains :: "client \<Rightarrow> call_result" where
  "ConnectNumOfDomains cl =
     call 51 RemoteProgram None [TInt32] None None cl"

definition ConnectNumOfNetworks :: "client \<Rightarrow> call_result" where
  "ConnectNumOfNetworks cl =
     call 52 RemoteProgram None [TInt32] None None cl"

definition AuthSaslInit :: "client \<Rightarrow> call_result" where
  "AuthSaslInit cl =
     call 67 RemoteProgram None [TString] None None cl"

definition AuthSaslStart :: "string \<Rightarrow> i32 \<Rightarrow> 8 word list \<Rightarrow>
    client \<Rightarrow> call_result" where
  "AuthSaslStart Mech NilFlag Data cl =
     call 68 RemoteProgram
       (Some (ty_AuthSaslStartArgs, VStruct [VString Mech, of_i32 NilFlag, of_i8s Data]))
       [TInt32, TInt32, TSlice TInt8] None None cl"

definition AuthSaslStep :: "i32 \<Rightarrow> 8 word list \<Rightarrow> client \<Rightarrow>
    call_result" where
  "AuthSaslStep NilFlag Data cl =
     call 69 RemoteProgram
       (Some (ty_AuthSaslStepArgs, VStruct [of_i32 NilFlag, of_i8s Data]))
       [TInt32, TInt32, TSlice TInt8] None None cl"

definition ConnectNumOfStoragePools :: "client \<Rightarrow> call_result" where
  "ConnectNumOfStoragePools cl =
     call 71 RemoteProgram None [TInt32] None None cl"

definition ConnectListStoragePools :: "i32 \<Rightarrow> client \<Rightarrow> call_result" where
  "ConnectListStoragePools Maxnames cl =
     call 72 RemoteProgram
       (Some (ty_ConnectListStoragePoolsArgs, VStruct [of_i32 Maxnames]))
       [TSlice TString] None None cl"

definition ConnectNumOfDefinedStoragePools :: "client \<Rightarrow> call_result" where
  "ConnectNumOfDefinedStoragePools cl =
     call 73 RemoteProgram None [TInt32] None None cl"

definition ConnectListDefinedStoragePools :: "i32 \<Rightarrow> client \<Rightarrow> call_result"
    where
  "ConnectListDefinedStoragePools Maxnames cl =
     call 74 RemoteProgram
       (Some (ty_ConnectListDefinedStoragePoolsArgs, VStruct [of_i32 Maxnames]))
       [TSlice TString] None None cl"

definition ConnectFindStoragePoolSources :: "string \<Rightarrow> string list \<Rightarrow> u32
    \<Rightarrow> client \<Rightarrow> call_result" where
  "ConnectFindStoragePoolSources Typ SrcSpec Flags cl =
     call 75 RemoteProgram
       (Some (ty_ConnectFindStoragePoolSourcesArgs, VStruct [VString Typ, of_strings SrcSpec,
         of_u32 Flags]))
       [TString] None None cl"

definition NodeGetCellsFreeMemory :: "i32 \<Rightarrow> i32 \<Rightarrow> client \<Rightarrow>
    call_result" where
  "NodeGetCellsFreeMemory StartCell Maxcells cl =
     call 101 RemoteProgram
       (Some (ty_NodeGetCellsFreeMemoryArgs, VStruct [of_i32 StartCell, of_i32 Maxcells]))
       [TSlice TUint64] None None cl"

definition NodeGetFreeMemory :: "client \<Rightarrow> call_result" where
  "NodeGetFreeMemory cl =
     call 102 RemoteProgram None [TUint64] None None cl"

definition ConnectDomainEventRegister :: "client \<Rightarrow> call_result" where
  "ConnectDomainEventRegister cl =
     call 105 RemoteProgram None [TInt32] None None cl"

definition ConnectDomainEventDeregister :: "client \<Rightarrow> call_result" where
  "ConnectDomainEventDeregister cl =
     call 106 RemoteProgram None [TInt32] None None cl"

definition ConnectGetUri :: "client \<Rightarrow> call_result" where
  "ConnectGetUri cl =
     call 110 RemoteProgram None [TString] None None cl"

definition NodeNumOfDevices :: "string list \<Rightarrow> u32 \<Rightarrow> client \<Rightarrow>
    call_result" where
  "NodeNumOfDevices Cap Flags cl =
     call 111 RemoteProgram
       (Some (ty_NodeNumOfDevicesArgs, VStruct [of_strings Cap, of_u32 Flags]))
       [TInt32] None None cl"

definition NodeListDevices :: "string list \<Rightarrow> i32 \<Rightarrow> u32 \<Rightarrow>
    client \<Rightarrow> call_result" where
  "NodeListDevices Cap Maxnames Flags cl =
     call 112 RemoteProgram
       (Some (ty_NodeListDevicesArgs, VStruct [of_strings Cap, of_i32 Maxnames, of_u32 Flags]))
       [TSlice TString] None None cl"

definition NodeDeviceLookupByName :: "string \<Rightarrow> client \<Rightarrow> call_result" where
  "NodeDeviceLookupByName Name cl =
     call 113 RemoteProgram
       (Some (ty_NodeDeviceLookupByNameArgs, VStruct [VString Name]))
       [ty_NodeDevice] None None cl"

definition NodeDeviceGetXMLDesc :: "string \<Rightarrow> u32 \<Rightarrow> client \<Rightarrow>
    call_result" where
  "NodeDeviceGetXMLDesc Name Flags cl =
     call 114 RemoteProgram
       (Some (ty_NodeDeviceGetXMLDescArgs, VStruct [VString Name, of_u32 Flags]))
       [TString] None None cl"

definition NodeDeviceGetParent :: "string \<Rightarrow> client \<Rightarrow> call_result" where
  "NodeDeviceGetParent Name cl =
     call 115 RemoteProgram
       (Some (ty_NodeDeviceGetParentArgs, VStruct [VString Name]))
       [ty_OptString] None None cl"

definition NodeDeviceNumOfCaps :: "string \<Rightarrow> client \<Rightarrow> call_result" where
  "NodeDeviceNumOfCaps Name cl =
     call 116 RemoteProgram
       (Some (ty_NodeDeviceNumOfCapsArgs, VStruct [VString Name]))
       [TInt32] None None cl"

definition NodeDeviceListCaps :: "string \<Rightarrow> i32 \<Rightarrow> client \<Rightarrow>
    call_result" where
  "NodeDeviceListCaps Name Maxnames cl =
     call 117 RemoteProgram
       (Some (ty_NodeDeviceListCapsArgs, VStruct [VString Name, of_i32 Maxnames]))
       [TSlice TString] None None cl"

definition NodeDeviceDettach :: "string \<Rightarrow> client \<Rightarrow> call_result" where
  "NodeDeviceDettach Name cl =
     call 118 RemoteProgram
       (Some (ty_NodeDeviceDettachArgs, VStruct [VString Name]))
       [] None None cl"

definition NodeDeviceReAttach :: "string \<Rightarrow> client \<Rightarrow> call_result" where
  "NodeDeviceReAttach Name cl =
     call 119 RemoteProgram
       (Some (ty_NodeDeviceReAttachArgs, VStruct [VString Name]))
       [] None None cl"

definition NodeDeviceReset :: "string \<Rightarrow> client \<Rightarrow> call_result" where
  "NodeDeviceReset Name cl =
     call 120 RemoteProgram
       (Some (ty_NodeDeviceResetArgs, VStruct [VString Name]))
       [] None None cl"

definition NodeGetSecurityModel :: "client \<Rightarrow> call_result" where
  "NodeGetSecurityModel cl =
     call 122 RemoteProgram None [TSlice TInt8, TSlice TInt8] None None cl"

definition NodeDeviceCreateXML :: "string \<Rightarrow> i32 \<Rightarrow> client \<Rightarrow>
    call_result" where
  "NodeDeviceCreateXML XMLDesc Flags cl =
     call 123 RemoteProgram
       (Some (ty_NodeDeviceCreateXMLArgs, VStruct [VString XMLDesc, of_i32 Flags]))
       [ty_NodeDevice] None None cl"

definition NodeDeviceDestroy :: "string \<Rightarrow> client \<Rightarrow> call_result" where
  "NodeDeviceDestroy Name cl =
     call 124 RemoteProgram
       (Some (ty_NodeDeviceDestroyArgs, VStruct [VString Name]))
       [] None None cl"

definition ConnectNumOfInterfaces :: "client \<Rightarrow> call_result" where
  "ConnectNumOfInterfaces cl =
     call 126 RemoteProgram None [TInt32] None None cl"

definition ConnectListInterfaces :: "i32 \<Rightarrow> client \<Rightarrow> call_result" where
  "ConnectListInterfaces Maxnames cl =
     call 127 RemoteProgram
       (Some (ty_ConnectListInterfacesArgs, VStruct [of_i32 Maxnames]))
       [TSlice TString] None None cl"

definition ConnectDomainXMLFromNative :: "string \<Rightarrow> string \<Rightarrow> u32
    \<Rightarrow> client \<Rightarrow> call_result" where
  "ConnectDomainXMLFromNative NativeFormat NativeConfig Flags cl =
     call 135 RemoteProgram
       (Some (ty_ConnectDomainXMLFromNativeArgs, VStruct [VString NativeFormat, VString
         NativeConfig, of_u32 Flags]))
       [TString] None None cl"

definition ConnectDomainXMLToNative :: "string \<Rightarrow> string \<Rightarrow> u32
    \<Rightarrow> client \<Rightarrow> call_result" where
  "ConnectDomainXMLToNative NativeFormat DomainXML Flags cl =
     call 136 RemoteProgram
       (Some (ty_ConnectDomainXMLToNativeArgs, VStruct [VString NativeFormat, VString
         DomainXML, of_u32 Flags]))
       [TString] None None cl"

definition ConnectNumOfDefinedInterfaces :: "client \<Rightarrow> call_result" where
  "ConnectNumOfDefinedInterfaces cl =
     call 137 RemoteProgram None [TInt32] None None cl"

definition ConnectListDefinedInterfaces :: "i32 \<Rightarrow> client \<Rightarrow> call_result"
    where
  "ConnectListDefinedInterfaces Maxnames cl =
     call 138 RemoteProgram
       (Some (ty_ConnectListDefinedInterfacesArgs, VStruct [of_i32 Maxnames]))
       [TSlice TString] None None cl"

definition ConnectNumOfSecrets :: "client \<Rightarrow> call_result" where
  "ConnectNumOfSecrets cl =
     call 139 RemoteProgram None [TInt32] None None cl"

definition ConnectListSecrets :: "i32 \<Rightarrow> client \<Rightarrow> call_result" where
  "ConnectListSecrets Maxuuids cl =
     call 140 RemoteProgram
       (Some (ty_ConnectListSecretsArgs, VStruct [of_i32 Maxuuids]))
       [TSlice TString] None None cl"

definition ConnectIsSecure :: "client \<Rightarrow> call_result" where
  "ConnectIsSecure cl =
     call 149 RemoteProgram None [TInt32] None None cl"

definition ConnectCompareCPU :: "string \<Rightarrow> i32 \<Rightarrow> client \<Rightarrow>
    call_result" where
  "ConnectCompareCPU XML Flags cl =
     call 158 RemoteProgram
       (Some (ty_ConnectCompareCPUArgs, VStruct [VString XML, of_i32 Flags]))
       [TInt32] None None cl"

definition ConnectBaselineCPU :: "string list \<Rightarrow> i32 \<Rightarrow> client \<Rightarrow>
    call_result" where
  "ConnectBaselineCPU XMLCPUs Flags cl =
     call 162 RemoteProgram
       (Some (ty_ConnectBaselineCPUArgs, VStruct [of_strings XMLCPUs, of_i32 Flags]))
       [TString] None None cl"

definition ConnectDomainEventRegisterAny :: "i32 \<Rightarrow> client \<Rightarrow> call_result"
    where
  "ConnectDomainEventRegisterAny EventID cl =
     call 167 RemoteProgram
       (Some (ty_ConnectDomainEventRegisterAnyArgs, VStruct [of_i32 EventID]))
       [] None None cl"

definition ConnectDomainEventDeregisterAny :: "i32 \<Rightarrow> client \<Rightarrow> call_result"
    where
  "ConnectDomainEventDeregisterAny EventID cl =
     call 168 RemoteProgram
       (Some (ty_ConnectDomainEventDeregisterAnyArgs, VStruct [of_i32 EventID]))
       [] None None cl"

definition ConnectNumOfNwfilters :: "client \<Rightarrow> call_result" where
  "ConnectNumOfNwfilters cl =
     call 178 RemoteProgram None [TInt32] None None cl"

definition ConnectListNwfilters :: "i32 \<Rightarrow> client \<Rightarrow> call_result" where
  "ConnectListNwfilters Maxnames cl =
     call 179 RemoteProgram
       (Some (ty_ConnectListNwfiltersArgs, VStruct [of_i32 Maxnames]))
       [TSlice TString] None None cl"

definition ConnectGetSysinfo :: "u32 \<Rightarrow> client \<Rightarrow> call_result" where
  "ConnectGetSysinfo Flags cl =
     call 203 RemoteProgram
       (Some (ty_ConnectGetSysinfoArgs, VStruct [of_u32 Flags]))
       [TString] None None cl"

definition NodeGetCPUStats :: "i32 \<Rightarrow> i32 \<Rightarrow> u32 \<Rightarrow> client
    \<Rightarrow> call_result" where
  "NodeGetCPUStats CPUNum Nparams Flags cl =
     call 227 RemoteProgram
       (Some (ty_NodeGetCPUStatsArgs, VStruct [of_i32 CPUNum, of_i32 Nparams, of_u32 Flags]))
       [TSlice ty_NodeGetCPUStats, TInt32] None None cl"

definition NodeGetMemoryStats :: "i32 \<Rightarrow> i32 \<Rightarrow> u32 \<Rightarrow> client
    \<Rightarrow> call_result" where
  "NodeGetMemoryStats Nparams CellNum Flags cl =
     call 228 RemoteProgram
       (Some (ty_NodeGetMemoryStatsArgs, VStruct [of_i32 Nparams, of_i32 CellNum, of_u32
         Flags]))
       [TSlice ty_NodeGetMemoryStats, TInt32] None None cl"

definition NodeSuspendForDuration :: "u32 \<Rightarrow> u64 \<Rightarrow> u32 \<Rightarrow> client
    \<Rightarrow> call_result" where
  "NodeSuspendForDuration Target Duration Flags cl =
     call 250 RemoteProgram
       (Some (ty_NodeSuspendForDurationArgs, VStruct [of_u32 Target, VUint Duration, of_u32
         Flags]))
       [] None None cl"

definition ConnectListAllNetworks :: "i32 \<Rightarrow> i32 \<Rightarrow> client \<Rightarrow>
    call_result" where
  "ConnectListAllNetworks NeedResults Flags cl =
     call 283 RemoteProgram
       (Some (ty_ConnectListAllNetworksArgs, VStruct [of_i32 NeedResults, of_i32 Flags]))
       [TSlice ty_Network, TUint32] None None cl"

definition ConnectListAllInterfaces :: "i32 \<Rightarrow> i32 \<Rightarrow> client \<Rightarrow>
    call_result" where
  "ConnectListAllInterfaces NeedResults Flags cl =
     call 284 RemoteProgram
       (Some (ty_ConnectListAllInterfacesArgs, VStruct [of_i32 NeedResults, of_i32 Flags]))
       [TSlice ty_Interface, TUint32] None None cl"

definition ConnectListAllNodeDevices :: "i32 \<Rightarrow> u32 \<Rightarrow> client \<Rightarrow>
    call_result" where
  "ConnectListAllNodeDevices NeedResults Flags cl =
     call 285 RemoteProgram
       (Some (ty_ConnectListAllNodeDevicesArgs, VStruct [of_i32 NeedResults, of_u32 Flags]))
       [TSlice ty_NodeDevice, TUint32] None None cl"

definition ConnectListAllNwfilters :: "i32 \<Rightarrow> u32 \<Rightarrow> client \<Rightarrow>
    call_result" where
  "ConnectListAllNwfilters NeedResults Flags cl =
     call 286 RemoteProgram
       (Some (ty_ConnectListAllNwfiltersArgs, VStruct [of_i32 NeedResults, of_u32 Flags]))
       [TSlice ty_Nwfilter, TUint32] None None cl"

definition NodeSetMemoryParameters :: "val list \<Rightarrow> u32 \<Rightarrow> client
    \<Rightarrow> call_result" where
  "NodeSetMemoryParameters Params Flags cl =
     call 288 RemoteProgram
       (Some (ty_NodeSetMemoryParametersArgs, VStruct [VSlice Params [], of_u32 Flags]))
       [] None None cl"

definition NodeGetMemoryParameters :: "i32 \<Rightarrow> u32 \<Rightarrow> client \<Rightarrow>
    call_result" where
  "NodeGetMemoryParameters Nparams Flags cl =
     call 289 RemoteProgram
       (Some (ty_NodeGetMemoryParametersArgs, VStruct [of_i32 Nparams, of_u32 Flags]))
       [TSlice ty_TypedParam, TInt32] None None cl"

definition NodeGetCPUMap :: "i32 \<Rightarrow> i32 \<Rightarrow> u32 \<Rightarrow> client
    \<Rightarrow> call_result" where
  "NodeGetCPUMap NeedMap NeedOnline Flags cl =
     call 293 RemoteProgram
       (Some (ty_NodeGetCPUMapArgs, VStruct [of_i32 NeedMap, of_i32 NeedOnline, of_u32 Flags]))
       [TSlice TUint8, TUint32, TInt32] None None cl"

definition NodeDeviceLookupScsiHostByWwn :: "string \<Rightarrow> string \<Rightarrow> u32
    \<Rightarrow> client \<Rightarrow> call_result" where
  "NodeDeviceLookupScsiHostByWwn Wwnn Wwpn Flags cl =
     call 297 RemoteProgram
       (Some (ty_NodeDeviceLookupScsiHostByWwnArgs, VStruct [VString Wwnn, VString Wwpn, of_u32
         Flags]))
       [ty_NodeDevice] None None cl"

definition NodeDeviceDetachFlags :: "string \<Rightarrow> string list \<Rightarrow> u32
    \<Rightarrow> client \<Rightarrow> call_result" where
  "NodeDeviceDetachFlags Name DriverName Flags cl =
     call 301 RemoteProgram
       (Some (ty_NodeDeviceDetachFlagsArgs, VStruct [VString Name, of_strings DriverName,
         of_u32 Flags]))
       [] None None cl"

definition ConnectGetCPUModelNames :: "string \<Rightarrow> i32 \<Rightarrow> u32 \<Rightarrow>
    client \<Rightarrow> call_result" where
  "ConnectGetCPUModelNames Arch NeedResults Flags cl =
     call 312 RemoteProgram
       (Some (ty_ConnectGetCPUModelNamesArgs, VStruct [VString Arch, of_i32 NeedResults, of_u32
         Flags]))
       [TSlice TString, TInt32] None None cl"

definition ConnectNetworkEventRegisterAny :: "i32 \<Rightarrow> val list \<Rightarrow> client
    \<Rightarrow> call_result" where
  "ConnectNetworkEventRegisterAny EventID Net cl =
     call 313 RemoteProgram
       (Some (ty_ConnectNetworkEventRegisterAnyArgs, VStruct [of_i32 EventID, VSlice Net []]))
       [TInt32] None None cl"

definition ConnectNetworkEventDeregisterAny :: "i32 \<Rightarrow> client \<Rightarrow>
    call_result" where
  "ConnectNetworkEventDeregisterAny CallbackID cl =
     call 314 RemoteProgram
       (Some (ty_ConnectNetworkEventDeregisterAnyArgs, VStruct [of_i32 CallbackID]))
       [] None None cl"

definition NodeGetFreePages :: "u32 list \<Rightarrow> i32 \<Rightarrow> u32 \<Rightarrow> u32
    \<Rightarrow> client \<Rightarrow> call_result" where
  "NodeGetFreePages Pages StartCell CellCount Flags cl =
     call 340 RemoteProgram
       (Some (ty_NodeGetFreePagesArgs, VStruct [of_u32s Pages, of_i32 StartCell, of_u32
         CellCount, of_u32 Flags]))
       [TSlice TUint64] None None cl"

definition ConnectGetDomainCapabilities :: "string list \<Rightarrow> string list \<Rightarrow>
    string list \<Rightarrow> string list \<Rightarrow> i32 \<Rightarrow> client \<Rightarrow>
    call_result" where
  "ConnectGetDomainCapabilities Emulatorbin Arch Machine Virttype Flags cl =
     call 342 RemoteProgram
       (Some (ty_ConnectGetDomainCapabilitiesArgs, VStruct [of_strings Emulatorbin, of_strings
         Arch, of_strings Machine, of_strings Virttype, of_i32 Flags]))
       [TString] None None cl"

definition ConnectGetAllDomainStats :: "val list \<Rightarrow> u32 \<Rightarrow> u32 \<Rightarrow>
    client \<Rightarrow> call_result" where
  "ConnectGetAllDomainStats Doms Stats Flags cl =
     call 344 RemoteProgram
       (Some (ty_ConnectGetAllDomainStatsArgs, VStruct [VSlice Doms [], of_u32 Stats, of_u32
         Flags]))
       [TSlice ty_DomainStatsRecord] None None cl"

definition NodeAllocPages :: "u32 list \<Rightarrow> u64 list \<Rightarrow> i32 \<Rightarrow> u32
    \<Rightarrow> i32 \<Rightarrow> client \<Rightarrow> call_result" where
  "NodeAllocPages PageSizes PageCounts StartCell CellCount Flags cl =
     call 347 RemoteProgram
       (Some (ty_NodeAllocPagesArgs, VStruct [of_u32s PageSizes, of_u64s PageCounts, of_i32
         StartCell, of_u32 CellCount, of_i32 Flags]))
       [TInt32] None None cl"

definition ConnectRegisterCloseCallback :: "client \<Rightarrow> call_result" where
  "ConnectRegisterCloseCallback cl =
     call 360 RemoteProgram None [] None None cl"

definition ConnectUnregisterCloseCallback :: "client \<Rightarrow> call_result" where
  "ConnectUnregisterCloseCallback cl =
     call 361 RemoteProgram None [] None None cl"

definition ConnectEventConnectionClosed :: "client \<Rightarrow> call_result" where
  "ConnectEventConnectionClosed cl =
     call 362 RemoteProgram None [] None None cl"

definition ConnectStoragePoolEventRegisterAny :: "i32 \<Rightarrow> val list \<Rightarrow> client
    \<Rightarrow> call_result" where
  "ConnectStoragePoolEventRegisterAny EventID Pool cl =
     call 368 RemoteProgram
       (Some (ty_ConnectStoragePoolEventRegisterAnyArgs, VStruct [of_i32 EventID, VSlice Pool
         []]))
       [TInt32] None None cl"

definition ConnectStoragePoolEventDeregisterAny :: "i32 \<Rightarrow> client \<Rightarrow>
    call_result" where
  "ConnectStoragePoolEventDeregisterAny CallbackID cl =
     call 369 RemoteProgram
       (Some (ty_ConnectStoragePoolEventDeregisterAnyArgs, VStruct [of_i32 CallbackID]))
       [] None None cl"

definition ConnectNodeDeviceEventRegisterAny :: "i32 \<Rightarrow> val list \<Rightarrow> client
    \<Rightarrow> call_result" where
  "ConnectNodeDeviceEventRegisterAny EventID Dev cl =
     call 374 RemoteProgram
       (Some (ty_ConnectNodeDeviceEventRegisterAnyArgs, VStruct [of_i32 EventID, VSlice Dev
         []]))
       [TInt32] None None cl"

definition ConnectNodeDeviceEventDeregisterAny :: "i32 \<Rightarrow> client \<Rightarrow>
    call_result" where
  "ConnectNodeDeviceEventDeregisterAny CallbackID cl =
     call 375 RemoteProgram
       (Some (ty_ConnectNodeDeviceEventDeregisterAnyArgs, VStruct [of_i32 CallbackID]))
       [] None None cl"

definition NodeDeviceEventLifecycle :: "client \<Rightarrow> call_result" where
  "NodeDeviceEventLifecycle cl =
     call 376 RemoteProgram None [] None None cl"

definition NodeDeviceEventUpdate :: "client \<Rightarrow> call_result" where
  "NodeDeviceEventUpdate cl =
     call 377 RemoteProgram None [] None None cl"

definition ConnectSecretEventRegisterAny :: "i32 \<Rightarrow> val list \<Rightarrow> client
    \<Rightarrow> call_result" where
  "ConnectSecretEventRegisterAny EventID OptSecret cl =
     call 380 RemoteProgram
       (Some (ty_ConnectSecretEventRegisterAnyArgs, VStruct [of_i32 EventID, VSlice OptSecret
         []]))
       [TInt32] None None cl"

definition ConnectSecretEventDeregisterAny :: "i32 \<Rightarrow> client \<Rightarrow> call_result"
    where
  "ConnectSecretEventDeregisterAny CallbackID cl =
     call 381 RemoteProgram
       (Some (ty_ConnectSecretEventDeregisterAnyArgs, VStruct [of_i32 CallbackID]))
       [] None None cl"

definition ConnectCompareHypervisorCPU :: "string list \<Rightarrow> string list \<Rightarrow>
    string list \<Rightarrow> string list \<Rightarrow> string \<Rightarrow> u32 \<Rightarrow>
    client \<Rightarrow> call_result" where
  "ConnectCompareHypervisorCPU Emulator Arch Machine Virttype XMLCPU Flags cl =
     call 393 RemoteProgram
       (Some (ty_ConnectCompareHypervisorCPUArgs, VStruct [of_strings Emulator, of_strings
         Arch, of_strings Machine, of_strings Virttype, VString XMLCPU, of_u32 Flags]))
       [TInt32] None None cl"

definition ConnectBaselineHypervisorCPU :: "string list \<Rightarrow> string list \<Rightarrow>
    string list \<Rightarrow> string list \<Rightarrow> string list \<Rightarrow> u32
    \<Rightarrow> client \<Rightarrow> call_result" where
  "ConnectBaselineHypervisorCPU Emulator Arch Machine Virttype XMLCPUs Flags cl =
     call 394 RemoteProgram
       (Some (ty_ConnectBaselineHypervisorCPUArgs, VStruct [of_strings Emulator, of_strings
         Arch, of_strings Machine, of_strings Virttype, of_strings XMLCPUs, of_u32
         Flags]))
       [TString] None None cl"

definition NodeGetSevInfo :: "i32 \<Rightarrow> u32 \<Rightarrow> client \<Rightarrow>
    call_result" where
  "NodeGetSevInfo Nparams Flags cl =
     call 395 RemoteProgram
       (Some (ty_NodeGetSevInfoArgs, VStruct [of_i32 Nparams, of_u32 Flags]))
       [TSlice ty_TypedParam, TInt32] None None cl"

definition ConnectListAllNwfilterBindings :: "i32 \<Rightarrow> u32 \<Rightarrow> client
    \<Rightarrow> call_result" where
  "ConnectListAllNwfilterBindings NeedResults Flags cl =
     call 401 RemoteProgram
       (Some (ty_ConnectListAllNwfilterBindingsArgs, VStruct [of_i32 NeedResults, of_u32
         Flags]))
       [TSlice ty_NwfilterBinding, TUint32] None None cl"

definition ConnectGetStoragePoolCapabilities :: "u32 \<Rightarrow> client \<Rightarrow>
    call_result" where
  "ConnectGetStoragePoolCapabilities Flags cl =
     call 403 RemoteProgram
       (Some (ty_ConnectGetStoragePoolCapabilitiesArgs, VStruct [of_u32 Flags]))
       [TString] None None cl"

definition ConnectSetIdentity :: "val list \<Rightarrow> u32 \<Rightarrow> client \<Rightarrow>
    call_result" where
  "ConnectSetIdentity Params Flags cl =
     call 419 RemoteProgram
       (Some (ty_ConnectSetIdentityArgs, VStruct [VSlice Params [], of_u32 Flags]))
       [] None None cl"

definition NodeDeviceDefineXML :: "string \<Rightarrow> i32 \<Rightarrow> client \<Rightarrow>
    call_result" where
  "NodeDeviceDefineXML XMLDesc Flags cl =
     call 428 RemoteProgram
       (Some (ty_NodeDeviceDefineXMLArgs, VStruct [VString XMLDesc, of_i32 Flags]))
       [ty_NodeDevice] None None cl"

definition NodeDeviceUndefine :: "string \<Rightarrow> u32 \<Rightarrow> client \<Rightarrow>
    call_result" where
  "NodeDeviceUndefine Name Flags cl =
     call 429 RemoteProgram
       (Some (ty_NodeDeviceUndefineArgs, VStruct [VString Name, of_u32 Flags]))
       [] None None cl"

definition NodeDeviceCreate :: "string \<Rightarrow> u32 \<Rightarrow> client \<Rightarrow>
    call_result" where
  "NodeDeviceCreate Name Flags cl =
     call 430 RemoteProgram
       (Some (ty_NodeDeviceCreateArgs, VStruct [VString Name, of_u32 Flags]))
       [] None None cl"

definition NodeDeviceGetAutostart :: "string \<Rightarrow> client \<Rightarrow> call_result" where
  "NodeDeviceGetAutostart Name cl =
     call 433 RemoteProgram
       (Some (ty_NodeDeviceGetAutostartArgs, VStruct [VString Name]))
       [TInt32] None None cl"

definition NodeDeviceSetAutostart :: "string \<Rightarrow> i32 \<Rightarrow> client \<Rightarrow>
    call_result" where
  "NodeDeviceSetAutostart Name Autostart cl =
     call 434 RemoteProgram
       (Some (ty_NodeDeviceSetAutostartArgs, VStruct [VString Name, of_i32 Autostart]))
       [] None None cl"

definition NodeDeviceIsPersistent :: "string \<Rightarrow> client \<Rightarrow> call_result" where
  "NodeDeviceIsPersistent Name cl =
     call 435 RemoteProgram
       (Some (ty_NodeDeviceIsPersistentArgs, VStruct [VString Name]))
       [TInt32] None None cl"

definition NodeDeviceIsActive :: "string \<Rightarrow> client \<Rightarrow> call_result" where
  "NodeDeviceIsActive Name cl =
     call 436 RemoteProgram
       (Some (ty_NodeDeviceIsActiveArgs, VStruct [VString Name]))
       [TInt32] None None cl"

definition NodeDeviceUpdate :: "string \<Rightarrow> string \<Rightarrow> i32 \<Rightarrow> client
    \<Rightarrow> call_result" where
  "NodeDeviceUpdate Name XMLDesc Flags cl =
     call 447 RemoteProgram
       (Some (ty_NodeDeviceUpdateArgs, VStruct [VString Name, VString XMLDesc, of_i32 Flags]))
       [] None None cl"

end
