(* ===== verification/Lvgen_Names.thy ===== *)
theory Lvgen_Names
  imports Go_Strings
begin

text \<open>
  How the protocol generator makes Go names of libvirt's names (\<open>src/internal/lvgen/generate.go\<close>):
  \<open>constNameTransform\<close> and its relatives, the change from snake case to camel case, and the
  abbreviations. Names are ASCII, as they are in libvirt's protocol files. \<open>fixAbbrevs\<close> does not end
  on every name; \<open>None\<close> stands for a call that does not return.
\<close>

section \<open>Camel case\<close>

text \<open>The loop of \<open>fromSnakeToCamel\<close>, with the variable \<open>hump\<close>.\<close>

fun camel :: "bool \<Rightarrow> string \<Rightarrow> string" where
  "camel hump [] = []"
| "camel hump (r # s) =
     (if r = CHR ''_'' then camel True s
      else (if hump then upper_char r else lower_char r) # camel False s)"

definition fromSnakeToCamel :: "string \<Rightarrow> string" where
  "fromSnakeToCamel s = camel True s"

definition publicize :: "string \<Rightarrow> string" where
  "publicize name = (case name of [] \<Rightarrow> [] | r # s \<Rightarrow> upper_char r # s)"

section \<open>Abbreviations\<close>

definition abbrevs_list :: "string list" where
  "abbrevs_list = [''Xml'', ''Io'', ''Uuid'', ''Cpu'', ''Id'', ''Ip'', ''Qemu'']"

text \<open>\<open>strings.Replace(s, a, b, 1)\<close>.\<close>

definition replace_first :: "string \<Rightarrow> string \<Rightarrow> string \<Rightarrow> string" where
  "replace_first s a b =
     (case str_index s a of None \<Rightarrow> s | Some i \<Rightarrow> take i s @ b @ drop (i + length a) s)"

text \<open>
  The loop of \<open>fixAbbrevs\<close> for one abbreviation. \<open>strings.Index\<close> counts from \<open>loc\<close>, and the code
  goes on with its result as if it counted from the beginning of the name.
\<close>

partial_function (option) abbrev_loop :: "string \<Rightarrow> string \<Rightarrow> nat \<Rightarrow> string option" where
  "abbrev_loop a s loc =
     (case str_index (drop loc s) a of
        None \<Rightarrow> Some s
      | Some i \<Rightarrow>
          let r = (if length a < length (drop i s) then s ! (i + length a) else CHR ''A'');
              s1 = (if \<not> is_lower r then take i s @ replace_first (drop i s) a (to_upper a) else s)
          in abbrev_loop a s1 (i + 1))"

declare abbrev_loop.simps [code]

fun abbrevs_loop :: "string list \<Rightarrow> string \<Rightarrow> string option" where
  "abbrevs_loop [] s = Some s"
| "abbrevs_loop (a # as) s = Option.bind (abbrev_loop a s 0) (abbrevs_loop as)"

definition fixAbbrevs :: "string \<Rightarrow> string option" where
  "fixAbbrevs s = abbrevs_loop abbrevs_list s"

section \<open>The transformations\<close>

definition constNameTransform :: "string \<Rightarrow> string option" where
  "constNameTransform name =
     (let decamelize = (CHR ''_'' \<in> set name);
          nn = trim_prefix name ''REMOTE_''
      in fixAbbrevs (if decamelize then fromSnakeToCamel nn else nn))"

definition procNameTransform :: "string \<Rightarrow> string option" where
  "procNameTransform name = constNameTransform (replace_first name ''PROC_'' [])"

text \<open>\<open>goEquivTypes\<close> as it is initialised; \<open>AddOptValue\<close> adds to it.\<close>

definition goEquivTypes :: "(string \<times> string) list" where
  "goEquivTypes =
     [(''type'', ''lvtype''), (''error'', ''lverror''), (''nil'', ''lvnil''), (''NonnullString'', ''string''),
      (''Error'', ''remote_error''), (''Int'', ''int''), (''Uint'', ''uint''), (''Int8'', ''int8''),
      (''Uint8'', ''uint8''), (''Int16'', ''int16''), (''Uint16'', ''uint16''), (''Int32'', ''int32''),
      (''Uint32'', ''uint32''), (''Int64'', ''int64''), (''Uint64'', ''uint64''), (''Float32'', ''float32''),
      (''Float64'', ''float64''), (''Bool'', ''bool''), (''Byte'', ''byte'')]"

type_synonym equiv = "string \<rightharpoonup> string"

definition checkIdentifier :: "equiv \<Rightarrow> string \<Rightarrow> string" where
  "checkIdentifier m i = (case m i of Some nn \<Rightarrow> nn | None \<Rightarrow> i)"

definition identifierTransform :: "equiv \<Rightarrow> string \<Rightarrow> string option" where
  "identifierTransform m name =
     (let decamelize = (CHR ''_'' \<in> set name);
          n1 = trim_prefix name ''remote_'';
          n2 = trim_prefix n1 ''VIR_'';
          n3 = (if decamelize then fromSnakeToCamel n2 else publicize n2)
      in map_option (\<lambda>n4. trim_prefix (checkIdentifier m n4) ''Nonnull'') (fixAbbrevs n3))"

definition typeTransform :: "equiv \<Rightarrow> string \<Rightarrow> string option" where
  "typeTransform m name =
     (let nn = trim_left name {CHR ''*'', CHR ''['', CHR '']''};
          diff = length name - length nn
      in map_option (\<lambda>n. take diff name @ n) (identifierTransform m nn))"

section \<open>Camel case, word by word\<close>

definition capitalise :: "string \<Rightarrow> string" where
  "capitalise w = (case w of [] \<Rightarrow> [] | r # s \<Rightarrow> upper_char r # List.map lower_char s)"

lemma camel_words:
  "camel True s = concat (List.map capitalise (split_char CHR ''_'' s))"
  "camel False s = (case split_char CHR ''_'' s of
     [] \<Rightarrow> [] | w # ws \<Rightarrow> List.map lower_char w @ concat (List.map capitalise ws))"
  by (induction s) (auto simp: capitalise_def split: list.splits)

text \<open>
  \<open>fromSnakeToCamel\<close> capitalises each word between underscores and puts the words together.
\<close>
theorem fromSnakeToCamel_words:
  "fromSnakeToCamel s = concat (List.map capitalise (split_char CHR ''_'' s))"
  by (simp add: fromSnakeToCamel_def camel_words)

section \<open>Occurrences\<close>

lemma has_prefix_nth: "has_prefix s p \<longleftrightarrow> length p \<le> length s \<and> (\<forall>k < length p. s ! k = p ! k)"
proof (induction s p rule: has_prefix.induct)
  case (3 c cs q qs)
  then show ?case by (auto simp: less_Suc_eq_0_disj nth_Cons')
qed auto

lemma occurs_nth:
  "p \<noteq> [] \<Longrightarrow> has_prefix (drop j s) p \<longleftrightarrow> j + length p \<le> length s \<and> (\<forall>k < length p. s ! (j + k) = p ! k)"
  by (cases p) (auto simp: has_prefix_nth)

lemma str_index_first: "str_index s p = Some i \<Longrightarrow> j < i \<Longrightarrow> \<not> has_prefix (drop j s) p"
proof (induction s arbitrary: i j)
  case Nil
  then show ?case by (simp add: str_index.simps [of "[]"] split: if_splits)
next
  case (Cons c cs)
  then show ?case
    by (cases j) (auto simp: str_index.simps [of "c # cs"] split: if_splits)
qed

lemma str_index_None_drop: "str_index s p = None \<Longrightarrow> \<not> has_prefix (drop j s) p"
proof
  assume "str_index s p = None" "has_prefix (drop j s) p"
  then have "\<not> sublist p s" "prefix p (drop j s)" by (auto simp: str_index_None_iff has_prefix_iff)
  then show False
    using sublist_order.order.trans [of p "drop j s" s] by (auto intro: prefix_imp_sublist)
qed

lemma str_index_0: "has_prefix s p \<Longrightarrow> str_index s p = Some 0"
  by (simp add: str_index.simps [of s])

lemma str_index_NoneI: "(\<And>j. \<not> has_prefix (drop j s) p) \<Longrightarrow> str_index s p = None"
  by (cases "str_index s p") (auto dest!: str_index_Some)

text \<open>An abbreviation occurs once at most.\<close>

definition once :: "string \<Rightarrow> string \<Rightarrow> bool" where
  "once a s = (case str_index s a of None \<Rightarrow> True | Some i \<Rightarrow> str_index (drop (i + 1) s) a = None)"

lemma once_iff: "once a s \<longleftrightarrow> (\<forall>i j. has_prefix (drop i s) a \<longrightarrow> has_prefix (drop j s) a \<longrightarrow> i \<le> j)" if "a \<noteq> []"
proof (cases "str_index s a")
  case None
  then show ?thesis using str_index_None_drop [OF None] by (simp add: once_def)
next
  case (Some i)
  have o: "has_prefix (drop i s) a" using str_index_Some [OF Some] by simp
  show ?thesis
  proof
    assume "once a s"
    then have n: "str_index (drop (i + 1) s) a = None" using Some by (simp add: once_def)
    have "j = i" if "has_prefix (drop j s) a" for j
    proof (rule ccontr)
      assume "j \<noteq> i"
      moreover have "\<not> j < i" using that str_index_first [OF Some] by blast
      ultimately have "drop j s = drop (j - (i + 1)) (drop (i + 1) s)" by simp
      then show False using str_index_None_drop [OF n, of "j - (i + 1)"] that by simp
    qed
    then show "\<forall>i j. has_prefix (drop i s) a \<longrightarrow> has_prefix (drop j s) a \<longrightarrow> i \<le> j" by blast
  next
    assume "\<forall>i j. has_prefix (drop i s) a \<longrightarrow> has_prefix (drop j s) a \<longrightarrow> i \<le> j"
    then have "\<not> has_prefix (drop j (drop (i + 1) s)) a" for j using o by fastforce
    then show "once a s" using Some by (simp add: once_def str_index_NoneI)
  qed
qed

section \<open>Upper-casing abbreviations\<close>

text \<open>What \<open>fixAbbrevs\<close> means to do: an abbreviation goes to upper case unless a longer word begins with it.\<close>

definition upcase_word :: "string \<Rightarrow> string \<Rightarrow> string" where
  "upcase_word a s =
     (case str_index s a of
        None \<Rightarrow> s
      | Some i \<Rightarrow>
          if i + length a < length s \<and> is_lower (s ! (i + length a)) then s
          else take i s @ to_upper a @ drop (i + length a) s)"

definition fixed_abbrevs :: "string \<Rightarrow> string" where
  "fixed_abbrevs s = foldl (\<lambda>t a. upcase_word a t) s abbrevs_list"

text \<open>An abbreviation is an upper-case letter followed by lower-case letters.\<close>

definition abbreviation_word :: "string \<Rightarrow> bool" where
  "abbreviation_word a \<longleftrightarrow> 2 \<le> length a \<and> is_upper (hd a) \<and> list_all is_lower (List.tl a)"

lemma abbrevs_words: "list_all abbreviation_word abbrevs_list"
  by code_simp

lemma abbreviation_wordD:
  assumes "abbreviation_word a"
  shows "a \<noteq> []" "2 \<le> length a" "0 < k \<Longrightarrow> k < length a \<Longrightarrow> is_lower (a ! k)" "is_upper (a ! 0)"
proof -
  show "a \<noteq> []" "2 \<le> length a" using assms by (auto simp: abbreviation_word_def)
  show "is_upper (a ! 0)" using assms by (cases a) (simp_all add: abbreviation_word_def)
  assume "0 < k" "k < length a"
  then have "a ! k = List.tl a ! (k - 1)" by (simp add: nth_tl)
  then show "is_lower (a ! k)"
    using assms \<open>0 < k\<close> \<open>k < length a\<close> by (simp add: abbreviation_word_def list_all_length)
qed

lemma not_lower_upper [simp]: "\<not> is_lower (upper_char c)"
  by (auto simp: upper_char_def is_lower_def)

lemma upcase_word_nth:
  assumes "str_index s a = Some i" and "\<not> (i + length a < length s \<and> is_lower (s ! (i + length a)))" and "m < length s"
  shows "upcase_word a s ! m = (if i \<le> m \<and> m < i + length a then upper_char (a ! (m - i)) else s ! m)"
  using str_index_Some [OF assms(1)] assms by (auto simp: upcase_word_def nth_append to_upper_def)

lemma length_upcase_word [simp]: "length (upcase_word a s) = length s"
  by (auto simp: upcase_word_def dest!: str_index_Some split: option.splits)

text \<open>Upper-casing one abbreviation makes no new occurrence of any other.\<close>

lemma upcase_word_occurs:
  assumes a: "abbreviation_word a" and o: "has_prefix (drop j (upcase_word b s)) a"
  shows "has_prefix (drop j s) a"
proof (cases "\<exists>i. str_index s b = Some i \<and> \<not> (i + length b < length s \<and> is_lower (s ! (i + length b)))")
  case False
  then have "upcase_word b s = s" by (auto simp: upcase_word_def split: option.splits)
  then show ?thesis using o by simp
next
  case True
  then obtain i where i: "str_index s b = Some i" "\<not> (i + length b < length s \<and> is_lower (s ! (i + length b)))" by blast
  let ?t = "upcase_word b s"
  have t: "j + length a \<le> length s" "\<And>k. k < length a \<Longrightarrow> ?t ! (j + k) = a ! k"
    using o by (simp_all add: occurs_nth abbreviation_wordD(1) [OF a])
  have out: "\<not> (i \<le> j + k \<and> j + k < i + length b)" "s ! (j + k) = a ! k" if "0 < k" "k < length a" for k
    using upcase_word_nth [OF i, of "j + k"] t(1) t(2) [of k] that abbreviation_wordD(3) [OF a that]
    by (auto split: if_splits)
  have two: "2 \<le> length a" by (rule abbreviation_wordD(2) [OF a])
  have "s ! j = a ! 0"
  proof (cases "i \<le> j \<and> j < i + length b")
    case True
    then have "j + 1 = i + length b" using out(1) [of 1] two by simp
    moreover have "s ! (j + 1) = a ! 1" using out(2) [of 1] two by simp
    ultimately show ?thesis using i(2) abbreviation_wordD(3) [OF a, of 1] two t(1) by auto
  next
    case False
    then show ?thesis using upcase_word_nth [OF i, of j] t(1) t(2) [of 0] two abbreviation_wordD(1) [OF a] by auto
  qed
  then have "s ! (j + k) = a ! k" if "k < length a" for k using out(2) [of k] that by (cases k) auto
  then show ?thesis using t(1) by (simp add: occurs_nth abbreviation_wordD(1) [OF a])
qed

lemma once_upcase: "abbreviation_word a \<Longrightarrow> once a s \<Longrightarrow> once a (upcase_word b s)"
  using upcase_word_occurs [of a _ b s] by (auto simp: once_iff abbreviation_wordD)

lemma abbrev_loop_once:
  assumes a: "abbreviation_word a" and o: "once a s"
  shows "abbrev_loop a s 0 = Some (upcase_word a s)"
proof (cases "str_index s a")
  case None
  then show ?thesis by (simp add: abbrev_loop.simps [of a s 0] upcase_word_def)
next
  case (Some i)
  have i: "i + length a \<le> length s" "has_prefix (drop i s) a" using str_index_Some [OF Some] by auto
  have "str_index (drop (i + 1) (upcase_word a s)) a = None"
  proof (rule str_index_NoneI)
    fix j
    have "\<not> has_prefix (drop (i + 1 + j) s) a"
      using o i(2) by (force simp: once_iff abbreviation_wordD [OF a])
    then show "\<not> has_prefix (drop j (drop (i + 1) (upcase_word a s))) a"
      using upcase_word_occurs [OF a, of "j + (i + 1)" a s] by (auto simp: add.commute)
  qed
  then have "abbrev_loop a (upcase_word a s) (i + 1) = Some (upcase_word a s)"
    by (simp add: abbrev_loop.simps [of a _ "Suc i"])
  moreover have "upcase_word a s =
      (if \<not> is_lower (if length a < length (drop i s) then s ! (i + length a) else CHR ''A'')
       then take i s @ replace_first (drop i s) a (to_upper a) else s)"
    using i Some by (auto simp: upcase_word_def replace_first_def str_index_0 is_lower_def add.commute)
  ultimately show ?thesis using Some by (simp add: abbrev_loop.simps [of a s 0] Let_def)
qed

lemma abbrevs_loop_once:
  "list_all abbreviation_word as \<Longrightarrow> list_all (\<lambda>a. once a s) as \<Longrightarrow>
     abbrevs_loop as s = Some (foldl (\<lambda>t a. upcase_word a t) s as)"
proof (induction as arbitrary: s)
  case (Cons a as)
  then have "list_all (\<lambda>b. once b (upcase_word a s)) as" by (auto simp: list_all_iff once_upcase)
  then show ?case using Cons by (simp add: abbrev_loop_once)
qed simp

text \<open>
  On a name in which no abbreviation occurs twice \<open>fixAbbrevs\<close> ends and does what it means to: each
  abbreviation is upper-cased, except where a longer word begins with it.
\<close>
theorem fixAbbrevs_once:
  assumes "list_all (\<lambda>a. once a s) abbrevs_list"
  shows "fixAbbrevs s = Some (fixed_abbrevs s)"
  using abbrevs_loop_once [OF abbrevs_words assms] by (simp add: fixAbbrevs_def fixed_abbrevs_def)

theorem fixAbbrevs_once_witness:
  "fixAbbrevs ''DomainIothreadIdCpuXml'' = Some ''DomainIothreadIDCPUXML''"
proof -
  have "fixed_abbrevs ''DomainIothreadIdCpuXml'' = ''DomainIothreadIDCPUXML''" by code_simp
  moreover have "list_all (\<lambda>a. once a ''DomainIothreadIdCpuXml'') abbrevs_list" by code_simp
  ultimately show ?thesis using fixAbbrevs_once [of "''DomainIothreadIdCpuXml''"] by simp
qed

section \<open>Snake-case names, word by word\<close>

text \<open>
  A word of a camel-case name: no lower-case letter comes first, and behind the first character none
  follows an upper-case letter. An abbreviation can occur only where a word begins.
\<close>

definition camel_word :: "string \<Rightarrow> bool" where
  "camel_word w \<longleftrightarrow>
     (w \<noteq> [] \<longrightarrow> \<not> is_lower (w ! 0)) \<and>
     (\<forall>p. 0 < p \<longrightarrow> p + 1 < length w \<longrightarrow> is_upper (w ! p) \<longrightarrow> \<not> is_lower (w ! (p + 1)))"

definition no_lower_first :: "string \<Rightarrow> bool" where
  "no_lower_first s \<longleftrightarrow> (s \<noteq> [] \<longrightarrow> \<not> is_lower (s ! 0))"

lemma no_lower_first_concat: "list_all camel_word ws \<Longrightarrow> no_lower_first (concat ws)"
  by (induction ws) (auto simp: no_lower_first_def camel_word_def nth_append)

lemma occurs_in_word:
  assumes a: "abbreviation_word a" and w: "camel_word w" and r: "no_lower_first r"
    and o: "has_prefix (drop j (w @ r)) a" and j: "j < length w"
  shows "j = 0 \<and> has_prefix w a"
proof -
  note A = abbreviation_wordD [OF a]
  let ?s = "w @ r"
  have s: "j + length a \<le> length ?s" "\<And>k. k < length a \<Longrightarrow> ?s ! (j + k) = a ! k"
    using o unfolding occurs_nth [OF A(1)] by auto
  have next_lower: "is_lower (?s ! (j + k))" if "0 < k" "k < length a" for k using s(2) A(3) that by simp
  have inside: "j + length a \<le> length w"
  proof (rule ccontr)
    assume "\<not> ?thesis"
    then have k: "0 < length w - j" "length w - j < length a" using j by auto
    then have "r \<noteq> []" "is_lower (r ! 0)" using s(1) next_lower [OF k] j by (auto simp: nth_append)
    then show False using r by (simp add: no_lower_first_def)
  qed
  have "j = 0"
  proof (rule ccontr)
    assume "j \<noteq> 0"
    moreover have "is_upper (w ! j)" "is_lower (w ! (j + 1))" "j + 1 < length w"
      using s(2) [of 0] next_lower [of 1] A(1,2,4) inside j by (auto simp: nth_append split: if_splits)
    ultimately show False using w by (auto simp: camel_word_def)
  qed
  then show ?thesis using s inside by (auto simp: has_prefix_nth nth_append)
qed

lemma str_index_word:
  assumes "abbreviation_word a" and "camel_word w" and "no_lower_first r"
  shows "str_index (w @ r) a =
    (if has_prefix w a then Some 0 else map_option ((+) (length w)) (str_index r a))"
proof (cases "has_prefix w a")
  case True
  then have "has_prefix (w @ r) a" by (auto simp: has_prefix_iff)
  then show ?thesis using True by (simp add: str_index_0)
next
  case False
  have n: "\<not> has_prefix (drop j (w @ r)) a" if "j < length w" for j
    using occurs_in_word [OF assms] that False by blast
  have "str_index (v @ r) a = map_option ((+) (length v)) (str_index r a)"
    if "\<And>j. j < length v \<Longrightarrow> \<not> has_prefix (drop j (v @ r)) a" for v
    using that
  proof (induction v)
    case (Cons c v)
    have "\<not> has_prefix (drop j (v @ r)) a" if "j < length v" for j
      using Cons.prems [of "Suc j"] that by simp
    moreover have "\<not> has_prefix ((c # v) @ r) a" using Cons.prems [of 0] by simp
    ultimately show ?case
      using Cons.IH by (simp add: str_index.simps [of "c # v @ r"] option.map_comp comp_def)
  qed (cases "str_index r a"; simp)
  then show ?thesis using n False by simp
qed

text \<open>\<open>upcase_word\<close> where the abbreviation can only come first.\<close>

definition upcase_first :: "string \<Rightarrow> string \<Rightarrow> string" where
  "upcase_first a w =
     (if has_prefix w a \<and> \<not> (length a < length w \<and> is_lower (w ! length a))
      then to_upper a @ drop (length a) w else w)"

text \<open>How many of the words an abbreviation begins.\<close>

definition begun :: "string \<Rightarrow> string list \<Rightarrow> nat" where
  "begun a ws = length (List.filter (\<lambda>w. has_prefix w a) ws)"

lemma upcase_first_none: "begun a ws = 0 \<Longrightarrow> List.map (upcase_first a) ws = ws"
  by (rule map_idI) (auto simp: begun_def upcase_first_def filter_empty_conv)

lemma str_index_words:
  "abbreviation_word a \<Longrightarrow> list_all camel_word ws \<Longrightarrow> str_index (concat ws) a = None \<longleftrightarrow> begun a ws = 0"
proof (induction ws)
  case Nil
  then show ?case using abbreviation_wordD(1) [of a] by (cases a) (auto simp: str_index.simps [of "[]"] begun_def)
next
  case (Cons w ws)
  then show ?case using str_index_word [of a w "concat ws"] by (auto simp: begun_def no_lower_first_concat)
qed

lemma upcase_words:
  assumes "abbreviation_word a" and "list_all camel_word ws" and "begun a ws \<le> 1"
  shows "upcase_word a (concat ws) = concat (List.map (upcase_first a) ws) \<and> once a (concat ws)"
  using assms
proof (induction ws)
  case Nil
  then show ?case using abbreviation_wordD(1) [of a]
    by (cases a) (auto simp: str_index.simps [of "[]"] upcase_word_def once_def)
next
  case (Cons w ws)
  then have w: "camel_word w" and ws: "list_all camel_word ws" by auto
  note r = no_lower_first_concat [OF ws]
  note si = str_index_word [OF Cons.prems(1) w r]
  show ?case
  proof (cases "has_prefix w a")
    case True
    then have none: "begun a ws = 0" using Cons.prems(3) by (simp add: begun_def)
    have len: "length a \<le> length w" using True by (auto simp: has_prefix_iff dest: prefix_length_le)
    have next_char: "length a < length (w @ concat ws) \<and> is_lower ((w @ concat ws) ! length a) \<longleftrightarrow>
        length a < length w \<and> is_lower (w ! length a)"
    proof (cases "length a < length w")
      case False
      then have "length a = length w" using len by simp
      then show ?thesis using r by (auto simp: no_lower_first_def nth_append)
    qed (simp add: nth_append)
    have "upcase_word a (concat (w # ws)) = upcase_first a w @ concat ws"
      using si True next_char len by (auto simp: upcase_word_def upcase_first_def)
    moreover have "once a (concat (w # ws))"
    proof -
      have "j = 0" if "has_prefix (drop j (w @ concat ws)) a" for j
      proof (rule ccontr)
        assume "j \<noteq> 0"
        then have "\<not> j < length w" using occurs_in_word [OF Cons.prems(1) w r that] by blast
        then have "has_prefix (drop (j - length w) (concat ws)) a" using that by simp
        then show False
          using none str_index_words [OF Cons.prems(1) ws] str_index_None_drop by blast
      qed
      then show ?thesis using abbreviation_wordD(1) [OF Cons.prems(1)] by (auto simp: once_iff)
    qed
    ultimately show ?thesis using upcase_first_none [OF none] by simp
  next
    case False
    then have "begun a ws \<le> 1" using Cons.prems(3) by (simp add: begun_def)
    then have IH: "upcase_word a (concat ws) = concat (List.map (upcase_first a) ws)" "once a (concat ws)"
      using Cons.IH [OF Cons.prems(1) ws] by auto
    have "upcase_word a (w @ concat ws) = w @ upcase_word a (concat ws)"
      using si False by (auto simp: upcase_word_def nth_append add.assoc split: option.splits)
    moreover have "once a (w @ concat ws)"
      using si False IH(2) by (auto simp: once_def split: option.splits)
    moreover have "upcase_first a w = w" using False by (simp add: upcase_first_def)
    ultimately show ?thesis using IH(1) by simp
  qed
qed

lemma not_upper_lower [simp]: "is_upper c \<Longrightarrow> \<not> is_lower c"
  by (simp add: is_upper_def is_lower_def)

lemma upcase_first_begins:
  assumes "abbreviation_word b" and "has_prefix (upcase_first a w) b" and "abbreviation_word a"
  shows "has_prefix w b"
proof (cases "has_prefix w a \<and> \<not> (length a < length w \<and> is_lower (w ! length a))")
  case True
  have "b ! 1 = upcase_first a w ! 1"
    using assms(2) abbreviation_wordD(2) [OF assms(1)] by (simp add: has_prefix_nth)
  also have "\<dots> = upper_char (a ! 1)"
    using True abbreviation_wordD(2) [OF assms(3)] by (simp add: upcase_first_def nth_append to_upper_def)
  finally have "b ! 1 = upper_char (a ! 1)" .
  then show ?thesis using abbreviation_wordD(3) [OF assms(1), of 1] abbreviation_wordD(2) [OF assms(1)] by simp
qed (use assms(2) in \<open>auto simp: upcase_first_def\<close>)

lemma begun_upcase:
  assumes "abbreviation_word a" and "abbreviation_word b"
  shows "begun b (List.map (upcase_first a) ws) \<le> begun b ws"
proof (induction ws)
  case (Cons w ws)
  then show ?case using upcase_first_begins [OF assms(2) _ assms(1), of w] by (auto simp: begun_def)
qed (simp add: begun_def)

lemma camel_word_upcase:
  assumes "abbreviation_word a" and "camel_word w"
  shows "camel_word (upcase_first a w)"
proof (cases "has_prefix w a \<and> \<not> (length a < length w \<and> is_lower (w ! length a))")
  case True
  let ?t = "to_upper a @ drop (length a) w"
  have len: "length a \<le> length w" using True by (auto simp: has_prefix_iff dest: prefix_length_le)
  have t: "?t ! p = (if p < length a then upper_char (a ! p) else w ! p)" if "p < length w" for p
    using that len by (auto simp: nth_append to_upper_def)
  have "0 < length a" using abbreviation_wordD(1) [OF assms(1)] by simp
  moreover from this have "0 < length w" using len by (rule less_le_trans)
  ultimately have "\<not> is_lower (?t ! 0)" using t [of 0] by simp
  moreover have "\<not> is_lower (?t ! (p + 1))" if "0 < p" "p + 1 < length w" "is_upper (?t ! p)" for p
  proof (cases "p + 1 \<le> length a")
    case True
    then show ?thesis using t [of "p + 1"] that \<open>has_prefix w a \<and> _\<close>
      by (cases "p + 1 = length a") auto
  next
    case False
    then have "?t ! p = w ! p" "?t ! (p + 1) = w ! (p + 1)" using t [of p] t [of "p + 1"] that by auto
    then show ?thesis using assms(2) that by (simp add: camel_word_def)
  qed
  ultimately show ?thesis using True len by (auto simp: camel_word_def upcase_first_def)
qed (use assms in \<open>auto simp: upcase_first_def\<close>)

definition fix_word :: "string list \<Rightarrow> string \<Rightarrow> string" where
  "fix_word as w = foldl (\<lambda>t a. upcase_first a t) w as"

lemma abbrevs_loop_words:
  "list_all abbreviation_word as \<Longrightarrow> list_all camel_word ws \<Longrightarrow> list_all (\<lambda>a. begun a ws \<le> 1) as \<Longrightarrow>
     abbrevs_loop as (concat ws) = Some (concat (List.map (fix_word as) ws))"
proof (induction as arbitrary: ws)
  case (Cons a as)
  let ?ws = "List.map (upcase_first a) ws"
  have a: "abbreviation_word a" using Cons.prems(1) by simp
  have "list_all camel_word ?ws" using Cons.prems(2) a by (auto simp: list_all_iff camel_word_upcase)
  moreover have "begun b ?ws \<le> 1" if "b \<in> set as" for b
    using Cons.prems(1,3) begun_upcase [OF a, of b ws] that by (auto simp: list_all_iff)
  then have "list_all (\<lambda>b. begun b ?ws \<le> 1) as" by (simp add: list_all_iff)
  ultimately have "abbrevs_loop as (concat ?ws) = Some (concat (List.map (fix_word as) ?ws))"
    using Cons.IH Cons.prems(1) by simp
  moreover have "abbrev_loop a (concat ws) 0 = Some (concat ?ws)"
    using abbrev_loop_once [OF a] upcase_words [OF a Cons.prems(2)] Cons.prems(3) by simp
  ultimately show ?case by (simp add: fix_word_def comp_def)
qed (simp add: fix_word_def map_idI)

lemma not_upper_lower_char [simp]: "\<not> is_upper (lower_char c)"
  by (auto simp: lower_char_def is_upper_def)

lemma camel_word_capitalise: "camel_word (capitalise w)"
  by (auto simp: camel_word_def capitalise_def nth_Cons' split: list.splits)

text \<open>The words of a libvirt name, capitalised, and the condition that no abbreviation begins two of them.\<close>

definition words :: "string \<Rightarrow> string list" where
  "words name = List.map capitalise (split_char CHR ''_'' (trim_prefix name ''REMOTE_''))"

definition plain_words :: "string list \<Rightarrow> bool" where
  "plain_words ws \<longleftrightarrow> list_all (\<lambda>a. begun a ws \<le> 1) abbrevs_list"

text \<open>
  The Go name of a constant consists of the words of its libvirt name, capitalised, in which the
  words that are an abbreviation are in upper case, provided that no abbreviation begins two words.
\<close>
lemma constNameTransform_words:
  assumes "CHR ''_'' \<in> set name" and "plain_words (words name)"
  shows "constNameTransform name = Some (concat (List.map (fix_word abbrevs_list) (words name)))"
proof -
  have "list_all camel_word (words name)" by (simp add: words_def list_all_iff camel_word_capitalise)
  from abbrevs_loop_words [OF abbrevs_words this] assms show ?thesis
    by (simp add: constNameTransform_def Let_def fixAbbrevs_def fromSnakeToCamel_def camel_words
        words_def plain_words_def)
qed

section \<open>Names on which the loop goes wrong\<close>

lemmas abbrev_loop_induct = abbrev_loop.raw_induct [rotated 1, consumes 1]

text \<open>The positions between which the loop goes round.\<close>

definition going_round :: "string \<Rightarrow> string \<Rightarrow> nat \<Rightarrow> nat \<Rightarrow> bool" where
  "going_round a s k loc \<longleftrightarrow>
     str_index s a = Some 0 \<and> length a < length s \<and> is_lower (s ! length a) \<and>
     str_index (drop 1 s) a = Some k \<and> loc \<in> {0, 1, k + 1}"

lemma going_round_next:
  assumes "going_round a s k loc" and "abbreviation_word a"
  shows "\<exists>i. str_index (drop loc s) a = Some i \<and> i + length a < length s \<and> is_lower (s ! (i + length a)) \<and>
    going_round a s k (i + 1)"
proof -
  have k: "k + length a \<le> length s - 1" "has_prefix (drop (k + 1) s) a"
    using assms(1) str_index_Some [of "drop 1 s" a k] by (auto simp: going_round_def)
  have a: "a \<noteq> []" "2 \<le> length a" "is_lower (a ! (length a - 1))"
    using abbreviation_wordD [OF assms(2)] by auto
  have "s ! (k + 1 + (length a - 1)) = a ! (length a - 1)"
    using k(2) a(1,2) by (simp only: occurs_nth [OF a(1)])
  then have "is_lower (s ! (k + length a))" using a by simp
  moreover have "k + length a < length s" using assms(1) k(1) a(2) by (simp add: going_round_def)
  moreover have "str_index (drop (k + 1) s) a = Some 0" by (rule str_index_0 [OF k(2)])
  ultimately show ?thesis using assms(1) by (auto simp: going_round_def)
qed

lemma going_round_never_ends:
  "abbrev_loop a s loc = Some t \<Longrightarrow> abbreviation_word a \<Longrightarrow> \<not> going_round a s k loc"
proof (induction rule: abbrev_loop_induct)
  case (1 R a s loc t)
  show ?case
  proof
    assume "going_round a s k loc"
    from going_round_next [OF this 1(3)] obtain i where
      i: "str_index (drop loc s) a = Some i" "i + length a < length s" "is_lower (s ! (i + length a))"
        "going_round a s k (i + 1)" by blast
    then have "R a s (i + 1) = Some t" using 1(2) by (simp add: add.commute less_diff_conv)
    then show False using 1(1) [of a s "i + 1" t] 1(3) i(4) by blast
  qed
qed

text \<open>
  A name that begins with a longer word starting with an abbreviation, and holds the abbreviation
  again, sends \<open>fixAbbrevs\<close> into an endless loop: the position of the second occurrence is counted from
  the first, the character behind it is looked up too early, and the search goes back to the beginning.
\<close>
theorem fixAbbrevs_loops:
  assumes "a \<in> set abbrevs_list" and "has_prefix s a" and "length a < length s" and "is_lower (s ! length a)"
    and "str_index (drop 1 s) a \<noteq> None"
  shows "abbrev_loop a s 0 = None"
proof (cases "abbrev_loop a s 0")
  case (Some t)
  obtain k where "str_index (drop 1 s) a = Some k" using assms(5) by blast
  then have "going_round a s k 0" using assms by (simp add: going_round_def str_index_0)
  moreover have "abbreviation_word a" using assms(1) abbrevs_words by (simp add: list_all_iff)
  ultimately show ?thesis using going_round_never_ends [OF Some] by blast
qed

theorem fixAbbrevs_loops_witness:
  "fixAbbrevs ''IdleDomainId'' = None \<and> fixAbbrevs ''DomainIdIdle'' = Some ''DomainIDIDle''"
proof -
  have "abbrev_loop ''Id'' ''IdleDomainId'' 0 = None"
    by (rule fixAbbrevs_loops) (simp_all add: abbrevs_list_def is_lower_def str_index.simps)
  moreover have "abbrev_loop ''Xml'' ''IdleDomainId'' 0 = Some ''IdleDomainId''"
    "abbrev_loop ''Io'' ''IdleDomainId'' 0 = Some ''IdleDomainId''"
    "abbrev_loop ''Uuid'' ''IdleDomainId'' 0 = Some ''IdleDomainId''"
    "abbrev_loop ''Cpu'' ''IdleDomainId'' 0 = Some ''IdleDomainId''"
    by code_simp+
  ultimately have "fixAbbrevs ''IdleDomainId'' = None"
    by (simp add: fixAbbrevs_def abbrevs_list_def)
  moreover have "fixAbbrevs ''DomainIdIdle'' = Some ''DomainIDIDle''" by code_simp
  ultimately show ?thesis by simp
qed

end
