(* ===== verification/Protocol_Constants.thy ===== *)
theory Protocol_Constants
  imports Lvgen_Names Rpc_Events
begin

text \<open>
  The generated constants of \<open>src/internal/constants\<close>, each with its Go name, its libvirt name and its
  value, in the order of the files; their names against the generator's transformation, and the
  table of event messages against the procedure numbers.
\<close>

section \<open>The tables\<close>

type_synonym const_item = "string \<times> string \<times> int"

definition remote_constants_1 :: "const_item list" where
  "remote_constants_1 =
     [(''AuthNone'', ''REMOTE_AUTH_NONE'', 0),
      (''AuthSasl'', ''REMOTE_AUTH_SASL'', 1),
      (''AuthPolkit'', ''REMOTE_AUTH_POLKIT'', 2),
      (''ProcConnectOpen'', ''REMOTE_PROC_CONNECT_OPEN'', 1),
      (''ProcConnectClose'', ''REMOTE_PROC_CONNECT_CLOSE'', 2),
      (''ProcConnectGetType'', ''REMOTE_PROC_CONNECT_GET_TYPE'', 3),
      (''ProcConnectGetVersion'', ''REMOTE_PROC_CONNECT_GET_VERSION'', 4),
      (''ProcConnectGetMaxVcpus'', ''REMOTE_PROC_CONNECT_GET_MAX_VCPUS'', 5),
      (''ProcNodeGetInfo'', ''REMOTE_PROC_NODE_GET_INFO'', 6),
      (''ProcConnectGetCapabilities'', ''REMOTE_PROC_CONNECT_GET_CAPABILITIES'', 7),
      (''ProcDomainAttachDevice'', ''REMOTE_PROC_DOMAIN_ATTACH_DEVICE'', 8),
      (''ProcDomainCreate'', ''REMOTE_PROC_DOMAIN_CREATE'', 9),
      (''ProcDomainCreateXML'', ''REMOTE_PROC_DOMAIN_CREATE_XML'', 10),
      (''ProcDomainDefineXML'', ''REMOTE_PROC_DOMAIN_DEFINE_XML'', 11),
      (''ProcDomainDestroy'', ''REMOTE_PROC_DOMAIN_DESTROY'', 12),
      (''ProcDomainDetachDevice'', ''REMOTE_PROC_DOMAIN_DETACH_DEVICE'', 13),
      (''ProcDomainGetXMLDesc'', ''REMOTE_PROC_DOMAIN_GET_XML_DESC'', 14),
      (''ProcDomainGetAutostart'', ''REMOTE_PROC_DOMAIN_GET_AUTOSTART'', 15),
      (''ProcDomainGetInfo'', ''REMOTE_PROC_DOMAIN_GET_INFO'', 16),
      (''ProcDomainGetMaxMemory'', ''REMOTE_PROC_DOMAIN_GET_MAX_MEMORY'', 17),
      (''ProcDomainGetMaxVcpus'', ''REMOTE_PROC_DOMAIN_GET_MAX_VCPUS'', 18),
      (''ProcDomainGetOsType'', ''REMOTE_PROC_DOMAIN_GET_OS_TYPE'', 19),
      (''ProcDomainGetVcpus'', ''REMOTE_PROC_DOMAIN_GET_VCPUS'', 20),
      (''ProcConnectListDefinedDomains'', ''REMOTE_PROC_CONNECT_LIST_DEFINED_DOMAINS'', 21),
      (''ProcDomainLookupByID'', ''REMOTE_PROC_DOMAIN_LOOKUP_BY_ID'', 22),
      (''ProcDomainLookupByName'', ''REMOTE_PROC_DOMAIN_LOOKUP_BY_NAME'', 23),
      (''ProcDomainLookupByUUID'', ''REMOTE_PROC_DOMAIN_LOOKUP_BY_UUID'', 24),
      (''ProcConnectNumOfDefinedDomains'', ''REMOTE_PROC_CONNECT_NUM_OF_DEFINED_DOMAINS'', 25),
      (''ProcDomainPinVcpu'', ''REMOTE_PROC_DOMAIN_PIN_VCPU'', 26),
      (''ProcDomainReboot'', ''REMOTE_PROC_DOMAIN_REBOOT'', 27),
      (''ProcDomainResume'', ''REMOTE_PROC_DOMAIN_RESUME'', 28),
      (''ProcDomainSetAutostart'', ''REMOTE_PROC_DOMAIN_SET_AUTOSTART'', 29),
      (''ProcDomainSetMaxMemory'', ''REMOTE_PROC_DOMAIN_SET_MAX_MEMORY'', 30),
      (''ProcDomainSetMemory'', ''REMOTE_PROC_DOMAIN_SET_MEMORY'', 31),
      (''ProcDomainSetVcpus'', ''REMOTE_PROC_DOMAIN_SET_VCPUS'', 32),
      (''ProcDomainShutdown'', ''REMOTE_PROC_DOMAIN_SHUTDOWN'', 33),
      (''ProcDomainSuspend'', ''REMOTE_PROC_DOMAIN_SUSPEND'', 34),
      (''ProcDomainUndefine'', ''REMOTE_PROC_DOMAIN_UNDEFINE'', 35),
      (''ProcConnectListDefinedNetworks'', ''REMOTE_PROC_CONNECT_LIST_DEFINED_NETWORKS'', 36),
      (''ProcConnectListDomains'', ''REMOTE_PROC_CONNECT_LIST_DOMAINS'', 37),
      (''ProcConnectListNetworks'', ''REMOTE_PROC_CONNECT_LIST_NETWORKS'', 38),
      (''ProcNetworkCreate'', ''REMOTE_PROC_NETWORK_CREATE'', 39),
      (''ProcNetworkCreateXML'', ''REMOTE_PROC_NETWORK_CREATE_XML'', 40),
      (''ProcNetworkDefineXML'', ''REMOTE_PROC_NETWORK_DEFINE_XML'', 41),
      (''ProcNetworkDestroy'', ''REMOTE_PROC_NETWORK_DESTROY'', 42),
      (''ProcNetworkGetXMLDesc'', ''REMOTE_PROC_NETWORK_GET_XML_DESC'', 43),
      (''ProcNetworkGetAutostart'', ''REMOTE_PROC_NETWORK_GET_AUTOSTART'', 44),
      (''ProcNetworkGetBridgeName'', ''REMOTE_PROC_NETWORK_GET_BRIDGE_NAME'', 45),
      (''ProcNetworkLookupByName'', ''REMOTE_PROC_NETWORK_LOOKUP_BY_NAME'', 46),
      (''ProcNetworkLookupByUUID'', ''REMOTE_PROC_NETWORK_LOOKUP_BY_UUID'', 47),
      (''ProcNetworkSetAutostart'', ''REMOTE_PROC_NETWORK_SET_AUTOSTART'', 48),
      (''ProcNetworkUndefine'', ''REMOTE_PROC_NETWORK_UNDEFINE'', 49),
      (''ProcConnectNumOfDefinedNetworks'', ''REMOTE_PROC_CONNECT_NUM_OF_DEFINED_NETWORKS'', 50),
      (''ProcConnectNumOfDomains'', ''REMOTE_PROC_CONNECT_NUM_OF_DOMAINS'', 51),
      (''ProcConnectNumOfNetworks'', ''REMOTE_PROC_CONNECT_NUM_OF_NETWORKS'', 52),
      (''ProcDomainCoreDump'', ''REMOTE_PROC_DOMAIN_CORE_DUMP'', 53),
      (''ProcDomainRestore'', ''REMOTE_PROC_DOMAIN_RESTORE'', 54),
      (''ProcDomainSave'', ''REMOTE_PROC_DOMAIN_SAVE'', 55),
      (''ProcDomainGetSchedulerType'', ''REMOTE_PROC_DOMAIN_GET_SCHEDULER_TYPE'', 56),
      (''ProcDomainGetSchedulerParameters'', ''REMOTE_PROC_DOMAIN_GET_SCHEDULER_PARAMETERS'', 57),
      (''ProcDomainSetSchedulerParameters'', ''REMOTE_PROC_DOMAIN_SET_SCHEDULER_PARAMETERS'', 58),
      (''ProcConnectGetHostname'', ''REMOTE_PROC_CONNECT_GET_HOSTNAME'', 59),
      (''ProcConnectSupportsFeature'', ''REMOTE_PROC_CONNECT_SUPPORTS_FEATURE'', 60),
      (''ProcDomainMigratePrepare'', ''REMOTE_PROC_DOMAIN_MIGRATE_PREPARE'', 61),
      (''ProcDomainMigratePerform'', ''REMOTE_PROC_DOMAIN_MIGRATE_PERFORM'', 62),
      (''ProcDomainMigrateFinish'', ''REMOTE_PROC_DOMAIN_MIGRATE_FINISH'', 63),
      (''ProcDomainBlockStats'', ''REMOTE_PROC_DOMAIN_BLOCK_STATS'', 64),
      (''ProcDomainInterfaceStats'', ''REMOTE_PROC_DOMAIN_INTERFACE_STATS'', 65),
      (''ProcAuthList'', ''REMOTE_PROC_AUTH_LIST'', 66),
      (''ProcAuthSaslInit'', ''REMOTE_PROC_AUTH_SASL_INIT'', 67)]"

definition remote_constants_2 :: "const_item list" where
  "remote_constants_2 =
     [(''ProcAuthSaslStart'', ''REMOTE_PROC_AUTH_SASL_START'', 68),
      (''ProcAuthSaslStep'', ''REMOTE_PROC_AUTH_SASL_STEP'', 69),
      (''ProcAuthPolkit'', ''REMOTE_PROC_AUTH_POLKIT'', 70),
      (''ProcConnectNumOfStoragePools'', ''REMOTE_PROC_CONNECT_NUM_OF_STORAGE_POOLS'', 71),
      (''ProcConnectListStoragePools'', ''REMOTE_PROC_CONNECT_LIST_STORAGE_POOLS'', 72),
      (''ProcConnectNumOfDefinedStoragePools'', ''REMOTE_PROC_CONNECT_NUM_OF_DEFINED_STORAGE_POOLS'', 73),
      (''ProcConnectListDefinedStoragePools'', ''REMOTE_PROC_CONNECT_LIST_DEFINED_STORAGE_POOLS'', 74),
      (''ProcConnectFindStoragePoolSources'', ''REMOTE_PROC_CONNECT_FIND_STORAGE_POOL_SOURCES'', 75),
      (''ProcStoragePoolCreateXML'', ''REMOTE_PROC_STORAGE_POOL_CREATE_XML'', 76),
      (''ProcStoragePoolDefineXML'', ''REMOTE_PROC_STORAGE_POOL_DEFINE_XML'', 77),
      (''ProcStoragePoolCreate'', ''REMOTE_PROC_STORAGE_POOL_CREATE'', 78),
      (''ProcStoragePoolBuild'', ''REMOTE_PROC_STORAGE_POOL_BUILD'', 79),
      (''ProcStoragePoolDestroy'', ''REMOTE_PROC_STORAGE_POOL_DESTROY'', 80),
      (''ProcStoragePoolDelete'', ''REMOTE_PROC_STORAGE_POOL_DELETE'', 81),
      (''ProcStoragePoolUndefine'', ''REMOTE_PROC_STORAGE_POOL_UNDEFINE'', 82),
      (''ProcStoragePoolRefresh'', ''REMOTE_PROC_STORAGE_POOL_REFRESH'', 83),
      (''ProcStoragePoolLookupByName'', ''REMOTE_PROC_STORAGE_POOL_LOOKUP_BY_NAME'', 84),
      (''ProcStoragePoolLookupByUUID'', ''REMOTE_PROC_STORAGE_POOL_LOOKUP_BY_UUID'', 85),
      (''ProcStoragePoolLookupByVolume'', ''REMOTE_PROC_STORAGE_POOL_LOOKUP_BY_VOLUME'', 86),
      (''ProcStoragePoolGetInfo'', ''REMOTE_PROC_STORAGE_POOL_GET_INFO'', 87),
      (''ProcStoragePoolGetXMLDesc'', ''REMOTE_PROC_STORAGE_POOL_GET_XML_DESC'', 88),
      (''ProcStoragePoolGetAutostart'', ''REMOTE_PROC_STORAGE_POOL_GET_AUTOSTART'', 89),
      (''ProcStoragePoolSetAutostart'', ''REMOTE_PROC_STORAGE_POOL_SET_AUTOSTART'', 90),
      (''ProcStoragePoolNumOfVolumes'', ''REMOTE_PROC_STORAGE_POOL_NUM_OF_VOLUMES'', 91),
      (''ProcStoragePoolListVolumes'', ''REMOTE_PROC_STORAGE_POOL_LIST_VOLUMES'', 92),
      (''ProcStorageVolCreateXML'', ''REMOTE_PROC_STORAGE_VOL_CREATE_XML'', 93),
      (''ProcStorageVolDelete'', ''REMOTE_PROC_STORAGE_VOL_DELETE'', 94),
      (''ProcStorageVolLookupByName'', ''REMOTE_PROC_STORAGE_VOL_LOOKUP_BY_NAME'', 95),
      (''ProcStorageVolLookupByKey'', ''REMOTE_PROC_STORAGE_VOL_LOOKUP_BY_KEY'', 96),
      (''ProcStorageVolLookupByPath'', ''REMOTE_PROC_STORAGE_VOL_LOOKUP_BY_PATH'', 97),
      (''ProcStorageVolGetInfo'', ''REMOTE_PROC_STORAGE_VOL_GET_INFO'', 98),
      (''ProcStorageVolGetXMLDesc'', ''REMOTE_PROC_STORAGE_VOL_GET_XML_DESC'', 99),
      (''ProcStorageVolGetPath'', ''REMOTE_PROC_STORAGE_VOL_GET_PATH'', 100),
      (''ProcNodeGetCellsFreeMemory'', ''REMOTE_PROC_NODE_GET_CELLS_FREE_MEMORY'', 101),
      (''ProcNodeGetFreeMemory'', ''REMOTE_PROC_NODE_GET_FREE_MEMORY'', 102),
      (''ProcDomainBlockPeek'', ''REMOTE_PROC_DOMAIN_BLOCK_PEEK'', 103),
      (''ProcDomainMemoryPeek'', ''REMOTE_PROC_DOMAIN_MEMORY_PEEK'', 104),
      (''ProcConnectDomainEventRegister'', ''REMOTE_PROC_CONNECT_DOMAIN_EVENT_REGISTER'', 105),
      (''ProcConnectDomainEventDeregister'', ''REMOTE_PROC_CONNECT_DOMAIN_EVENT_DEREGISTER'', 106),
      (''ProcDomainEventLifecycle'', ''REMOTE_PROC_DOMAIN_EVENT_LIFECYCLE'', 107),
      (''ProcDomainMigratePrepare2'', ''REMOTE_PROC_DOMAIN_MIGRATE_PREPARE2'', 108),
      (''ProcDomainMigrateFinish2'', ''REMOTE_PROC_DOMAIN_MIGRATE_FINISH2'', 109),
      (''ProcConnectGetUri'', ''REMOTE_PROC_CONNECT_GET_URI'', 110),
      (''ProcNodeNumOfDevices'', ''REMOTE_PROC_NODE_NUM_OF_DEVICES'', 111),
      (''ProcNodeListDevices'', ''REMOTE_PROC_NODE_LIST_DEVICES'', 112),
      (''ProcNodeDeviceLookupByName'', ''REMOTE_PROC_NODE_DEVICE_LOOKUP_BY_NAME'', 113),
      (''ProcNodeDeviceGetXMLDesc'', ''REMOTE_PROC_NODE_DEVICE_GET_XML_DESC'', 114),
      (''ProcNodeDeviceGetParent'', ''REMOTE_PROC_NODE_DEVICE_GET_PARENT'', 115),
      (''ProcNodeDeviceNumOfCaps'', ''REMOTE_PROC_NODE_DEVICE_NUM_OF_CAPS'', 116),
      (''ProcNodeDeviceListCaps'', ''REMOTE_PROC_NODE_DEVICE_LIST_CAPS'', 117),
      (''ProcNodeDeviceDettach'', ''REMOTE_PROC_NODE_DEVICE_DETTACH'', 118),
      (''ProcNodeDeviceReAttach'', ''REMOTE_PROC_NODE_DEVICE_RE_ATTACH'', 119),
      (''ProcNodeDeviceReset'', ''REMOTE_PROC_NODE_DEVICE_RESET'', 120),
      (''ProcDomainGetSecurityLabel'', ''REMOTE_PROC_DOMAIN_GET_SECURITY_LABEL'', 121),
      (''ProcNodeGetSecurityModel'', ''REMOTE_PROC_NODE_GET_SECURITY_MODEL'', 122),
      (''ProcNodeDeviceCreateXML'', ''REMOTE_PROC_NODE_DEVICE_CREATE_XML'', 123),
      (''ProcNodeDeviceDestroy'', ''REMOTE_PROC_NODE_DEVICE_DESTROY'', 124),
      (''ProcStorageVolCreateXMLFrom'', ''REMOTE_PROC_STORAGE_VOL_CREATE_XML_FROM'', 125),
      (''ProcConnectNumOfInterfaces'', ''REMOTE_PROC_CONNECT_NUM_OF_INTERFACES'', 126),
      (''ProcConnectListInterfaces'', ''REMOTE_PROC_CONNECT_LIST_INTERFACES'', 127),
      (''ProcInterfaceLookupByName'', ''REMOTE_PROC_INTERFACE_LOOKUP_BY_NAME'', 128),
      (''ProcInterfaceLookupByMacString'', ''REMOTE_PROC_INTERFACE_LOOKUP_BY_MAC_STRING'', 129),
      (''ProcInterfaceGetXMLDesc'', ''REMOTE_PROC_INTERFACE_GET_XML_DESC'', 130),
      (''ProcInterfaceDefineXML'', ''REMOTE_PROC_INTERFACE_DEFINE_XML'', 131),
      (''ProcInterfaceUndefine'', ''REMOTE_PROC_INTERFACE_UNDEFINE'', 132),
      (''ProcInterfaceCreate'', ''REMOTE_PROC_INTERFACE_CREATE'', 133),
      (''ProcInterfaceDestroy'', ''REMOTE_PROC_INTERFACE_DESTROY'', 134),
      (''ProcConnectDomainXMLFromNative'', ''REMOTE_PROC_CONNECT_DOMAIN_XML_FROM_NATIVE'', 135),
      (''ProcConnectDomainXMLToNative'', ''REMOTE_PROC_CONNECT_DOMAIN_XML_TO_NATIVE'', 136),
      (''ProcConnectNumOfDefinedInterfaces'', ''REMOTE_PROC_CONNECT_NUM_OF_DEFINED_INTERFACES'', 137)]"

definition remote_constants_3 :: "const_item list" where
  "remote_constants_3 =
     [(''ProcConnectListDefinedInterfaces'', ''REMOTE_PROC_CONNECT_LIST_DEFINED_INTERFACES'', 138),
      (''ProcConnectNumOfSecrets'', ''REMOTE_PROC_CONNECT_NUM_OF_SECRETS'', 139),
      (''ProcConnectListSecrets'', ''REMOTE_PROC_CONNECT_LIST_SECRETS'', 140),
      (''ProcSecretLookupByUUID'', ''REMOTE_PROC_SECRET_LOOKUP_BY_UUID'', 141),
      (''ProcSecretDefineXML'', ''REMOTE_PROC_SECRET_DEFINE_XML'', 142),
      (''ProcSecretGetXMLDesc'', ''REMOTE_PROC_SECRET_GET_XML_DESC'', 143),
      (''ProcSecretSetValue'', ''REMOTE_PROC_SECRET_SET_VALUE'', 144),
      (''ProcSecretGetValue'', ''REMOTE_PROC_SECRET_GET_VALUE'', 145),
      (''ProcSecretUndefine'', ''REMOTE_PROC_SECRET_UNDEFINE'', 146),
      (''ProcSecretLookupByUsage'', ''REMOTE_PROC_SECRET_LOOKUP_BY_USAGE'', 147),
      (''ProcDomainMigratePrepareTunnel'', ''REMOTE_PROC_DOMAIN_MIGRATE_PREPARE_TUNNEL'', 148),
      (''ProcConnectIsSecure'', ''REMOTE_PROC_CONNECT_IS_SECURE'', 149),
      (''ProcDomainIsActive'', ''REMOTE_PROC_DOMAIN_IS_ACTIVE'', 150),
      (''ProcDomainIsPersistent'', ''REMOTE_PROC_DOMAIN_IS_PERSISTENT'', 151),
      (''ProcNetworkIsActive'', ''REMOTE_PROC_NETWORK_IS_ACTIVE'', 152),
      (''ProcNetworkIsPersistent'', ''REMOTE_PROC_NETWORK_IS_PERSISTENT'', 153),
      (''ProcStoragePoolIsActive'', ''REMOTE_PROC_STORAGE_POOL_IS_ACTIVE'', 154),
      (''ProcStoragePoolIsPersistent'', ''REMOTE_PROC_STORAGE_POOL_IS_PERSISTENT'', 155),
      (''ProcInterfaceIsActive'', ''REMOTE_PROC_INTERFACE_IS_ACTIVE'', 156),
      (''ProcConnectGetLibVersion'', ''REMOTE_PROC_CONNECT_GET_LIB_VERSION'', 157),
      (''ProcConnectCompareCPU'', ''REMOTE_PROC_CONNECT_COMPARE_CPU'', 158),
      (''ProcDomainMemoryStats'', ''REMOTE_PROC_DOMAIN_MEMORY_STATS'', 159),
      (''ProcDomainAttachDeviceFlags'', ''REMOTE_PROC_DOMAIN_ATTACH_DEVICE_FLAGS'', 160),
      (''ProcDomainDetachDeviceFlags'', ''REMOTE_PROC_DOMAIN_DETACH_DEVICE_FLAGS'', 161),
      (''ProcConnectBaselineCPU'', ''REMOTE_PROC_CONNECT_BASELINE_CPU'', 162),
      (''ProcDomainGetJobInfo'', ''REMOTE_PROC_DOMAIN_GET_JOB_INFO'', 163),
      (''ProcDomainAbortJob'', ''REMOTE_PROC_DOMAIN_ABORT_JOB'', 164),
      (''ProcStorageVolWipe'', ''REMOTE_PROC_STORAGE_VOL_WIPE'', 165),
      (''ProcDomainMigrateSetMaxDowntime'', ''REMOTE_PROC_DOMAIN_MIGRATE_SET_MAX_DOWNTIME'', 166),
      (''ProcConnectDomainEventRegisterAny'', ''REMOTE_PROC_CONNECT_DOMAIN_EVENT_REGISTER_ANY'', 167),
      (''ProcConnectDomainEventDeregisterAny'', ''REMOTE_PROC_CONNECT_DOMAIN_EVENT_DEREGISTER_ANY'', 168),
      (''ProcDomainEventReboot'', ''REMOTE_PROC_DOMAIN_EVENT_REBOOT'', 169),
      (''ProcDomainEventRtcChange'', ''REMOTE_PROC_DOMAIN_EVENT_RTC_CHANGE'', 170),
      (''ProcDomainEventWatchdog'', ''REMOTE_PROC_DOMAIN_EVENT_WATCHDOG'', 171),
      (''ProcDomainEventIOError'', ''REMOTE_PROC_DOMAIN_EVENT_IO_ERROR'', 172),
      (''ProcDomainEventGraphics'', ''REMOTE_PROC_DOMAIN_EVENT_GRAPHICS'', 173),
      (''ProcDomainUpdateDeviceFlags'', ''REMOTE_PROC_DOMAIN_UPDATE_DEVICE_FLAGS'', 174),
      (''ProcNwfilterLookupByName'', ''REMOTE_PROC_NWFILTER_LOOKUP_BY_NAME'', 175),
      (''ProcNwfilterLookupByUUID'', ''REMOTE_PROC_NWFILTER_LOOKUP_BY_UUID'', 176),
      (''ProcNwfilterGetXMLDesc'', ''REMOTE_PROC_NWFILTER_GET_XML_DESC'', 177),
      (''ProcConnectNumOfNwfilters'', ''REMOTE_PROC_CONNECT_NUM_OF_NWFILTERS'', 178),
      (''ProcConnectListNwfilters'', ''REMOTE_PROC_CONNECT_LIST_NWFILTERS'', 179),
      (''ProcNwfilterDefineXML'', ''REMOTE_PROC_NWFILTER_DEFINE_XML'', 180),
      (''ProcNwfilterUndefine'', ''REMOTE_PROC_NWFILTER_UNDEFINE'', 181),
      (''ProcDomainManagedSave'', ''REMOTE_PROC_DOMAIN_MANAGED_SAVE'', 182),
      (''ProcDomainHasManagedSaveImage'', ''REMOTE_PROC_DOMAIN_HAS_MANAGED_SAVE_IMAGE'', 183),
      (''ProcDomainManagedSaveRemove'', ''REMOTE_PROC_DOMAIN_MANAGED_SAVE_REMOVE'', 184),
      (''ProcDomainSnapshotCreateXML'', ''REMOTE_PROC_DOMAIN_SNAPSHOT_CREATE_XML'', 185),
      (''ProcDomainSnapshotGetXMLDesc'', ''REMOTE_PROC_DOMAIN_SNAPSHOT_GET_XML_DESC'', 186),
      (''ProcDomainSnapshotNum'', ''REMOTE_PROC_DOMAIN_SNAPSHOT_NUM'', 187),
      (''ProcDomainSnapshotListNames'', ''REMOTE_PROC_DOMAIN_SNAPSHOT_LIST_NAMES'', 188),
      (''ProcDomainSnapshotLookupByName'', ''REMOTE_PROC_DOMAIN_SNAPSHOT_LOOKUP_BY_NAME'', 189),
      (''ProcDomainHasCurrentSnapshot'', ''REMOTE_PROC_DOMAIN_HAS_CURRENT_SNAPSHOT'', 190),
      (''ProcDomainSnapshotCurrent'', ''REMOTE_PROC_DOMAIN_SNAPSHOT_CURRENT'', 191),
      (''ProcDomainRevertToSnapshot'', ''REMOTE_PROC_DOMAIN_REVERT_TO_SNAPSHOT'', 192),
      (''ProcDomainSnapshotDelete'', ''REMOTE_PROC_DOMAIN_SNAPSHOT_DELETE'', 193),
      (''ProcDomainGetBlockInfo'', ''REMOTE_PROC_DOMAIN_GET_BLOCK_INFO'', 194),
      (''ProcDomainEventIOErrorReason'', ''REMOTE_PROC_DOMAIN_EVENT_IO_ERROR_REASON'', 195),
      (''ProcDomainCreateWithFlags'', ''REMOTE_PROC_DOMAIN_CREATE_WITH_FLAGS'', 196),
      (''ProcDomainSetMemoryParameters'', ''REMOTE_PROC_DOMAIN_SET_MEMORY_PARAMETERS'', 197),
      (''ProcDomainGetMemoryParameters'', ''REMOTE_PROC_DOMAIN_GET_MEMORY_PARAMETERS'', 198),
      (''ProcDomainSetVcpusFlags'', ''REMOTE_PROC_DOMAIN_SET_VCPUS_FLAGS'', 199),
      (''ProcDomainGetVcpusFlags'', ''REMOTE_PROC_DOMAIN_GET_VCPUS_FLAGS'', 200),
      (''ProcDomainOpenConsole'', ''REMOTE_PROC_DOMAIN_OPEN_CONSOLE'', 201),
      (''ProcDomainIsUpdated'', ''REMOTE_PROC_DOMAIN_IS_UPDATED'', 202),
      (''ProcConnectGetSysinfo'', ''REMOTE_PROC_CONNECT_GET_SYSINFO'', 203),
      (''ProcDomainSetMemoryFlags'', ''REMOTE_PROC_DOMAIN_SET_MEMORY_FLAGS'', 204),
      (''ProcDomainSetBlkioParameters'', ''REMOTE_PROC_DOMAIN_SET_BLKIO_PARAMETERS'', 205),
      (''ProcDomainGetBlkioParameters'', ''REMOTE_PROC_DOMAIN_GET_BLKIO_PARAMETERS'', 206),
      (''ProcDomainMigrateSetMaxSpeed'', ''REMOTE_PROC_DOMAIN_MIGRATE_SET_MAX_SPEED'', 207)]"

definition remote_constants_4 :: "const_item list" where
  "remote_constants_4 =
     [(''ProcStorageVolUpload'', ''REMOTE_PROC_STORAGE_VOL_UPLOAD'', 208),
      (''ProcStorageVolDownload'', ''REMOTE_PROC_STORAGE_VOL_DOWNLOAD'', 209),
      (''ProcDomainInjectNmi'', ''REMOTE_PROC_DOMAIN_INJECT_NMI'', 210),
      (''ProcDomainScreenshot'', ''REMOTE_PROC_DOMAIN_SCREENSHOT'', 211),
      (''ProcDomainGetState'', ''REMOTE_PROC_DOMAIN_GET_STATE'', 212),
      (''ProcDomainMigrateBegin3'', ''REMOTE_PROC_DOMAIN_MIGRATE_BEGIN3'', 213),
      (''ProcDomainMigratePrepare3'', ''REMOTE_PROC_DOMAIN_MIGRATE_PREPARE3'', 214),
      (''ProcDomainMigratePrepareTunnel3'', ''REMOTE_PROC_DOMAIN_MIGRATE_PREPARE_TUNNEL3'', 215),
      (''ProcDomainMigratePerform3'', ''REMOTE_PROC_DOMAIN_MIGRATE_PERFORM3'', 216),
      (''ProcDomainMigrateFinish3'', ''REMOTE_PROC_DOMAIN_MIGRATE_FINISH3'', 217),
      (''ProcDomainMigrateConfirm3'', ''REMOTE_PROC_DOMAIN_MIGRATE_CONFIRM3'', 218),
      (''ProcDomainSetSchedulerParametersFlags'', ''REMOTE_PROC_DOMAIN_SET_SCHEDULER_PARAMETERS_FLAGS'', 219),
      (''ProcInterfaceChangeBegin'', ''REMOTE_PROC_INTERFACE_CHANGE_BEGIN'', 220),
      (''ProcInterfaceChangeCommit'', ''REMOTE_PROC_INTERFACE_CHANGE_COMMIT'', 221),
      (''ProcInterfaceChangeRollback'', ''REMOTE_PROC_INTERFACE_CHANGE_ROLLBACK'', 222),
      (''ProcDomainGetSchedulerParametersFlags'', ''REMOTE_PROC_DOMAIN_GET_SCHEDULER_PARAMETERS_FLAGS'', 223),
      (''ProcDomainEventControlError'', ''REMOTE_PROC_DOMAIN_EVENT_CONTROL_ERROR'', 224),
      (''ProcDomainPinVcpuFlags'', ''REMOTE_PROC_DOMAIN_PIN_VCPU_FLAGS'', 225),
      (''ProcDomainSendKey'', ''REMOTE_PROC_DOMAIN_SEND_KEY'', 226),
      (''ProcNodeGetCPUStats'', ''REMOTE_PROC_NODE_GET_CPU_STATS'', 227),
      (''ProcNodeGetMemoryStats'', ''REMOTE_PROC_NODE_GET_MEMORY_STATS'', 228),
      (''ProcDomainGetControlInfo'', ''REMOTE_PROC_DOMAIN_GET_CONTROL_INFO'', 229),
      (''ProcDomainGetVcpuPinInfo'', ''REMOTE_PROC_DOMAIN_GET_VCPU_PIN_INFO'', 230),
      (''ProcDomainUndefineFlags'', ''REMOTE_PROC_DOMAIN_UNDEFINE_FLAGS'', 231),
      (''ProcDomainSaveFlags'', ''REMOTE_PROC_DOMAIN_SAVE_FLAGS'', 232),
      (''ProcDomainRestoreFlags'', ''REMOTE_PROC_DOMAIN_RESTORE_FLAGS'', 233),
      (''ProcDomainDestroyFlags'', ''REMOTE_PROC_DOMAIN_DESTROY_FLAGS'', 234),
      (''ProcDomainSaveImageGetXMLDesc'', ''REMOTE_PROC_DOMAIN_SAVE_IMAGE_GET_XML_DESC'', 235),
      (''ProcDomainSaveImageDefineXML'', ''REMOTE_PROC_DOMAIN_SAVE_IMAGE_DEFINE_XML'', 236),
      (''ProcDomainBlockJobAbort'', ''REMOTE_PROC_DOMAIN_BLOCK_JOB_ABORT'', 237),
      (''ProcDomainGetBlockJobInfo'', ''REMOTE_PROC_DOMAIN_GET_BLOCK_JOB_INFO'', 238),
      (''ProcDomainBlockJobSetSpeed'', ''REMOTE_PROC_DOMAIN_BLOCK_JOB_SET_SPEED'', 239),
      (''ProcDomainBlockPull'', ''REMOTE_PROC_DOMAIN_BLOCK_PULL'', 240),
      (''ProcDomainEventBlockJob'', ''REMOTE_PROC_DOMAIN_EVENT_BLOCK_JOB'', 241),
      (''ProcDomainMigrateGetMaxSpeed'', ''REMOTE_PROC_DOMAIN_MIGRATE_GET_MAX_SPEED'', 242),
      (''ProcDomainBlockStatsFlags'', ''REMOTE_PROC_DOMAIN_BLOCK_STATS_FLAGS'', 243),
      (''ProcDomainSnapshotGetParent'', ''REMOTE_PROC_DOMAIN_SNAPSHOT_GET_PARENT'', 244),
      (''ProcDomainReset'', ''REMOTE_PROC_DOMAIN_RESET'', 245),
      (''ProcDomainSnapshotNumChildren'', ''REMOTE_PROC_DOMAIN_SNAPSHOT_NUM_CHILDREN'', 246),
      (''ProcDomainSnapshotListChildrenNames'', ''REMOTE_PROC_DOMAIN_SNAPSHOT_LIST_CHILDREN_NAMES'', 247),
      (''ProcDomainEventDiskChange'', ''REMOTE_PROC_DOMAIN_EVENT_DISK_CHANGE'', 248),
      (''ProcDomainOpenGraphics'', ''REMOTE_PROC_DOMAIN_OPEN_GRAPHICS'', 249),
      (''ProcNodeSuspendForDuration'', ''REMOTE_PROC_NODE_SUSPEND_FOR_DURATION'', 250),
      (''ProcDomainBlockResize'', ''REMOTE_PROC_DOMAIN_BLOCK_RESIZE'', 251),
      (''ProcDomainSetBlockIOTune'', ''REMOTE_PROC_DOMAIN_SET_BLOCK_IO_TUNE'', 252),
      (''ProcDomainGetBlockIOTune'', ''REMOTE_PROC_DOMAIN_GET_BLOCK_IO_TUNE'', 253),
      (''ProcDomainSetNumaParameters'', ''REMOTE_PROC_DOMAIN_SET_NUMA_PARAMETERS'', 254),
      (''ProcDomainGetNumaParameters'', ''REMOTE_PROC_DOMAIN_GET_NUMA_PARAMETERS'', 255),
      (''ProcDomainSetInterfaceParameters'', ''REMOTE_PROC_DOMAIN_SET_INTERFACE_PARAMETERS'', 256),
      (''ProcDomainGetInterfaceParameters'', ''REMOTE_PROC_DOMAIN_GET_INTERFACE_PARAMETERS'', 257),
      (''ProcDomainShutdownFlags'', ''REMOTE_PROC_DOMAIN_SHUTDOWN_FLAGS'', 258),
      (''ProcStorageVolWipePattern'', ''REMOTE_PROC_STORAGE_VOL_WIPE_PATTERN'', 259),
      (''ProcStorageVolResize'', ''REMOTE_PROC_STORAGE_VOL_RESIZE'', 260),
      (''ProcDomainPmSuspendForDuration'', ''REMOTE_PROC_DOMAIN_PM_SUSPEND_FOR_DURATION'', 261),
      (''ProcDomainGetCPUStats'', ''REMOTE_PROC_DOMAIN_GET_CPU_STATS'', 262),
      (''ProcDomainGetDiskErrors'', ''REMOTE_PROC_DOMAIN_GET_DISK_ERRORS'', 263),
      (''ProcDomainSetMetadata'', ''REMOTE_PROC_DOMAIN_SET_METADATA'', 264),
      (''ProcDomainGetMetadata'', ''REMOTE_PROC_DOMAIN_GET_METADATA'', 265),
      (''ProcDomainBlockRebase'', ''REMOTE_PROC_DOMAIN_BLOCK_REBASE'', 266),
      (''ProcDomainPmWakeup'', ''REMOTE_PROC_DOMAIN_PM_WAKEUP'', 267),
      (''ProcDomainEventTrayChange'', ''REMOTE_PROC_DOMAIN_EVENT_TRAY_CHANGE'', 268),
      (''ProcDomainEventPmwakeup'', ''REMOTE_PROC_DOMAIN_EVENT_PMWAKEUP'', 269),
      (''ProcDomainEventPmsuspend'', ''REMOTE_PROC_DOMAIN_EVENT_PMSUSPEND'', 270),
      (''ProcDomainSnapshotIsCurrent'', ''REMOTE_PROC_DOMAIN_SNAPSHOT_IS_CURRENT'', 271),
      (''ProcDomainSnapshotHasMetadata'', ''REMOTE_PROC_DOMAIN_SNAPSHOT_HAS_METADATA'', 272),
      (''ProcConnectListAllDomains'', ''REMOTE_PROC_CONNECT_LIST_ALL_DOMAINS'', 273),
      (''ProcDomainListAllSnapshots'', ''REMOTE_PROC_DOMAIN_LIST_ALL_SNAPSHOTS'', 274),
      (''ProcDomainSnapshotListAllChildren'', ''REMOTE_PROC_DOMAIN_SNAPSHOT_LIST_ALL_CHILDREN'', 275),
      (''ProcDomainEventBalloonChange'', ''REMOTE_PROC_DOMAIN_EVENT_BALLOON_CHANGE'', 276),
      (''ProcDomainGetHostname'', ''REMOTE_PROC_DOMAIN_GET_HOSTNAME'', 277)]"

definition remote_constants_5 :: "const_item list" where
  "remote_constants_5 =
     [(''ProcDomainGetSecurityLabelList'', ''REMOTE_PROC_DOMAIN_GET_SECURITY_LABEL_LIST'', 278),
      (''ProcDomainPinEmulator'', ''REMOTE_PROC_DOMAIN_PIN_EMULATOR'', 279),
      (''ProcDomainGetEmulatorPinInfo'', ''REMOTE_PROC_DOMAIN_GET_EMULATOR_PIN_INFO'', 280),
      (''ProcConnectListAllStoragePools'', ''REMOTE_PROC_CONNECT_LIST_ALL_STORAGE_POOLS'', 281),
      (''ProcStoragePoolListAllVolumes'', ''REMOTE_PROC_STORAGE_POOL_LIST_ALL_VOLUMES'', 282),
      (''ProcConnectListAllNetworks'', ''REMOTE_PROC_CONNECT_LIST_ALL_NETWORKS'', 283),
      (''ProcConnectListAllInterfaces'', ''REMOTE_PROC_CONNECT_LIST_ALL_INTERFACES'', 284),
      (''ProcConnectListAllNodeDevices'', ''REMOTE_PROC_CONNECT_LIST_ALL_NODE_DEVICES'', 285),
      (''ProcConnectListAllNwfilters'', ''REMOTE_PROC_CONNECT_LIST_ALL_NWFILTERS'', 286),
      (''ProcConnectListAllSecrets'', ''REMOTE_PROC_CONNECT_LIST_ALL_SECRETS'', 287),
      (''ProcNodeSetMemoryParameters'', ''REMOTE_PROC_NODE_SET_MEMORY_PARAMETERS'', 288),
      (''ProcNodeGetMemoryParameters'', ''REMOTE_PROC_NODE_GET_MEMORY_PARAMETERS'', 289),
      (''ProcDomainBlockCommit'', ''REMOTE_PROC_DOMAIN_BLOCK_COMMIT'', 290),
      (''ProcNetworkUpdate'', ''REMOTE_PROC_NETWORK_UPDATE'', 291),
      (''ProcDomainEventPmsuspendDisk'', ''REMOTE_PROC_DOMAIN_EVENT_PMSUSPEND_DISK'', 292),
      (''ProcNodeGetCPUMap'', ''REMOTE_PROC_NODE_GET_CPU_MAP'', 293),
      (''ProcDomainFstrim'', ''REMOTE_PROC_DOMAIN_FSTRIM'', 294),
      (''ProcDomainSendProcessSignal'', ''REMOTE_PROC_DOMAIN_SEND_PROCESS_SIGNAL'', 295),
      (''ProcDomainOpenChannel'', ''REMOTE_PROC_DOMAIN_OPEN_CHANNEL'', 296),
      (''ProcNodeDeviceLookupScsiHostByWwn'', ''REMOTE_PROC_NODE_DEVICE_LOOKUP_SCSI_HOST_BY_WWN'', 297),
      (''ProcDomainGetJobStats'', ''REMOTE_PROC_DOMAIN_GET_JOB_STATS'', 298),
      (''ProcDomainMigrateGetCompressionCache'', ''REMOTE_PROC_DOMAIN_MIGRATE_GET_COMPRESSION_CACHE'', 299),
      (''ProcDomainMigrateSetCompressionCache'', ''REMOTE_PROC_DOMAIN_MIGRATE_SET_COMPRESSION_CACHE'', 300),
      (''ProcNodeDeviceDetachFlags'', ''REMOTE_PROC_NODE_DEVICE_DETACH_FLAGS'', 301),
      (''ProcDomainMigrateBegin3Params'', ''REMOTE_PROC_DOMAIN_MIGRATE_BEGIN3_PARAMS'', 302),
      (''ProcDomainMigratePrepare3Params'', ''REMOTE_PROC_DOMAIN_MIGRATE_PREPARE3_PARAMS'', 303),
      (''ProcDomainMigratePrepareTunnel3Params'', ''REMOTE_PROC_DOMAIN_MIGRATE_PREPARE_TUNNEL3_PARAMS'', 304),
      (''ProcDomainMigratePerform3Params'', ''REMOTE_PROC_DOMAIN_MIGRATE_PERFORM3_PARAMS'', 305),
      (''ProcDomainMigrateFinish3Params'', ''REMOTE_PROC_DOMAIN_MIGRATE_FINISH3_PARAMS'', 306),
      (''ProcDomainMigrateConfirm3Params'', ''REMOTE_PROC_DOMAIN_MIGRATE_CONFIRM3_PARAMS'', 307),
      (''ProcDomainSetMemoryStatsPeriod'', ''REMOTE_PROC_DOMAIN_SET_MEMORY_STATS_PERIOD'', 308),
      (''ProcDomainCreateXMLWithFiles'', ''REMOTE_PROC_DOMAIN_CREATE_XML_WITH_FILES'', 309),
      (''ProcDomainCreateWithFiles'', ''REMOTE_PROC_DOMAIN_CREATE_WITH_FILES'', 310),
      (''ProcDomainEventDeviceRemoved'', ''REMOTE_PROC_DOMAIN_EVENT_DEVICE_REMOVED'', 311),
      (''ProcConnectGetCPUModelNames'', ''REMOTE_PROC_CONNECT_GET_CPU_MODEL_NAMES'', 312),
      (''ProcConnectNetworkEventRegisterAny'', ''REMOTE_PROC_CONNECT_NETWORK_EVENT_REGISTER_ANY'', 313),
      (''ProcConnectNetworkEventDeregisterAny'', ''REMOTE_PROC_CONNECT_NETWORK_EVENT_DEREGISTER_ANY'', 314),
      (''ProcNetworkEventLifecycle'', ''REMOTE_PROC_NETWORK_EVENT_LIFECYCLE'', 315),
      (''ProcConnectDomainEventCallbackRegisterAny'', ''REMOTE_PROC_CONNECT_DOMAIN_EVENT_CALLBACK_REGISTER_ANY'', 316),
      (''ProcConnectDomainEventCallbackDeregisterAny'', ''REMOTE_PROC_CONNECT_DOMAIN_EVENT_CALLBACK_DEREGISTER_ANY'', 317),
      (''ProcDomainEventCallbackLifecycle'', ''REMOTE_PROC_DOMAIN_EVENT_CALLBACK_LIFECYCLE'', 318),
      (''ProcDomainEventCallbackReboot'', ''REMOTE_PROC_DOMAIN_EVENT_CALLBACK_REBOOT'', 319),
      (''ProcDomainEventCallbackRtcChange'', ''REMOTE_PROC_DOMAIN_EVENT_CALLBACK_RTC_CHANGE'', 320),
      (''ProcDomainEventCallbackWatchdog'', ''REMOTE_PROC_DOMAIN_EVENT_CALLBACK_WATCHDOG'', 321),
      (''ProcDomainEventCallbackIOError'', ''REMOTE_PROC_DOMAIN_EVENT_CALLBACK_IO_ERROR'', 322),
      (''ProcDomainEventCallbackGraphics'', ''REMOTE_PROC_DOMAIN_EVENT_CALLBACK_GRAPHICS'', 323),
      (''ProcDomainEventCallbackIOErrorReason'', ''REMOTE_PROC_DOMAIN_EVENT_CALLBACK_IO_ERROR_REASON'', 324),
      (''ProcDomainEventCallbackControlError'', ''REMOTE_PROC_DOMAIN_EVENT_CALLBACK_CONTROL_ERROR'', 325),
      (''ProcDomainEventCallbackBlockJob'', ''REMOTE_PROC_DOMAIN_EVENT_CALLBACK_BLOCK_JOB'', 326),
      (''ProcDomainEventCallbackDiskChange'', ''REMOTE_PROC_DOMAIN_EVENT_CALLBACK_DISK_CHANGE'', 327),
      (''ProcDomainEventCallbackTrayChange'', ''REMOTE_PROC_DOMAIN_EVENT_CALLBACK_TRAY_CHANGE'', 328),
      (''ProcDomainEventCallbackPmwakeup'', ''REMOTE_PROC_DOMAIN_EVENT_CALLBACK_PMWAKEUP'', 329),
      (''ProcDomainEventCallbackPmsuspend'', ''REMOTE_PROC_DOMAIN_EVENT_CALLBACK_PMSUSPEND'', 330),
      (''ProcDomainEventCallbackBalloonChange'', ''REMOTE_PROC_DOMAIN_EVENT_CALLBACK_BALLOON_CHANGE'', 331),
      (''ProcDomainEventCallbackPmsuspendDisk'', ''REMOTE_PROC_DOMAIN_EVENT_CALLBACK_PMSUSPEND_DISK'', 332),
      (''ProcDomainEventCallbackDeviceRemoved'', ''REMOTE_PROC_DOMAIN_EVENT_CALLBACK_DEVICE_REMOVED'', 333),
      (''ProcDomainCoreDumpWithFormat'', ''REMOTE_PROC_DOMAIN_CORE_DUMP_WITH_FORMAT'', 334),
      (''ProcDomainFsfreeze'', ''REMOTE_PROC_DOMAIN_FSFREEZE'', 335),
      (''ProcDomainFsthaw'', ''REMOTE_PROC_DOMAIN_FSTHAW'', 336),
      (''ProcDomainGetTime'', ''REMOTE_PROC_DOMAIN_GET_TIME'', 337),
      (''ProcDomainSetTime'', ''REMOTE_PROC_DOMAIN_SET_TIME'', 338),
      (''ProcDomainEventBlockJob2'', ''REMOTE_PROC_DOMAIN_EVENT_BLOCK_JOB_2'', 339),
      (''ProcNodeGetFreePages'', ''REMOTE_PROC_NODE_GET_FREE_PAGES'', 340),
      (''ProcNetworkGetDhcpLeases'', ''REMOTE_PROC_NETWORK_GET_DHCP_LEASES'', 341),
      (''ProcConnectGetDomainCapabilities'', ''REMOTE_PROC_CONNECT_GET_DOMAIN_CAPABILITIES'', 342),
      (''ProcDomainOpenGraphicsFd'', ''REMOTE_PROC_DOMAIN_OPEN_GRAPHICS_FD'', 343),
      (''ProcConnectGetAllDomainStats'', ''REMOTE_PROC_CONNECT_GET_ALL_DOMAIN_STATS'', 344),
      (''ProcDomainBlockCopy'', ''REMOTE_PROC_DOMAIN_BLOCK_COPY'', 345),
      (''ProcDomainEventCallbackTunable'', ''REMOTE_PROC_DOMAIN_EVENT_CALLBACK_TUNABLE'', 346),
      (''ProcNodeAllocPages'', ''REMOTE_PROC_NODE_ALLOC_PAGES'', 347)]"

definition remote_constants_6 :: "const_item list" where
  "remote_constants_6 =
     [(''ProcDomainEventCallbackAgentLifecycle'', ''REMOTE_PROC_DOMAIN_EVENT_CALLBACK_AGENT_LIFECYCLE'', 348),
      (''ProcDomainGetFsinfo'', ''REMOTE_PROC_DOMAIN_GET_FSINFO'', 349),
      (''ProcDomainDefineXMLFlags'', ''REMOTE_PROC_DOMAIN_DEFINE_XML_FLAGS'', 350),
      (''ProcDomainGetIothreadInfo'', ''REMOTE_PROC_DOMAIN_GET_IOTHREAD_INFO'', 351),
      (''ProcDomainPinIothread'', ''REMOTE_PROC_DOMAIN_PIN_IOTHREAD'', 352),
      (''ProcDomainInterfaceAddresses'', ''REMOTE_PROC_DOMAIN_INTERFACE_ADDRESSES'', 353),
      (''ProcDomainEventCallbackDeviceAdded'', ''REMOTE_PROC_DOMAIN_EVENT_CALLBACK_DEVICE_ADDED'', 354),
      (''ProcDomainAddIothread'', ''REMOTE_PROC_DOMAIN_ADD_IOTHREAD'', 355),
      (''ProcDomainDelIothread'', ''REMOTE_PROC_DOMAIN_DEL_IOTHREAD'', 356),
      (''ProcDomainSetUserPassword'', ''REMOTE_PROC_DOMAIN_SET_USER_PASSWORD'', 357),
      (''ProcDomainRename'', ''REMOTE_PROC_DOMAIN_RENAME'', 358),
      (''ProcDomainEventCallbackMigrationIteration'', ''REMOTE_PROC_DOMAIN_EVENT_CALLBACK_MIGRATION_ITERATION'', 359),
      (''ProcConnectRegisterCloseCallback'', ''REMOTE_PROC_CONNECT_REGISTER_CLOSE_CALLBACK'', 360),
      (''ProcConnectUnregisterCloseCallback'', ''REMOTE_PROC_CONNECT_UNREGISTER_CLOSE_CALLBACK'', 361),
      (''ProcConnectEventConnectionClosed'', ''REMOTE_PROC_CONNECT_EVENT_CONNECTION_CLOSED'', 362),
      (''ProcDomainEventCallbackJobCompleted'', ''REMOTE_PROC_DOMAIN_EVENT_CALLBACK_JOB_COMPLETED'', 363),
      (''ProcDomainMigrateStartPostCopy'', ''REMOTE_PROC_DOMAIN_MIGRATE_START_POST_COPY'', 364),
      (''ProcDomainGetPerfEvents'', ''REMOTE_PROC_DOMAIN_GET_PERF_EVENTS'', 365),
      (''ProcDomainSetPerfEvents'', ''REMOTE_PROC_DOMAIN_SET_PERF_EVENTS'', 366),
      (''ProcDomainEventCallbackDeviceRemovalFailed'', ''REMOTE_PROC_DOMAIN_EVENT_CALLBACK_DEVICE_REMOVAL_FAILED'', 367),
      (''ProcConnectStoragePoolEventRegisterAny'', ''REMOTE_PROC_CONNECT_STORAGE_POOL_EVENT_REGISTER_ANY'', 368),
      (''ProcConnectStoragePoolEventDeregisterAny'', ''REMOTE_PROC_CONNECT_STORAGE_POOL_EVENT_DEREGISTER_ANY'', 369),
      (''ProcStoragePoolEventLifecycle'', ''REMOTE_PROC_STORAGE_POOL_EVENT_LIFECYCLE'', 370),
      (''ProcDomainGetGuestVcpus'', ''REMOTE_PROC_DOMAIN_GET_GUEST_VCPUS'', 371),
      (''ProcDomainSetGuestVcpus'', ''REMOTE_PROC_DOMAIN_SET_GUEST_VCPUS'', 372),
      (''ProcStoragePoolEventRefresh'', ''REMOTE_PROC_STORAGE_POOL_EVENT_REFRESH'', 373),
      (''ProcConnectNodeDeviceEventRegisterAny'', ''REMOTE_PROC_CONNECT_NODE_DEVICE_EVENT_REGISTER_ANY'', 374),
      (''ProcConnectNodeDeviceEventDeregisterAny'', ''REMOTE_PROC_CONNECT_NODE_DEVICE_EVENT_DEREGISTER_ANY'', 375),
      (''ProcNodeDeviceEventLifecycle'', ''REMOTE_PROC_NODE_DEVICE_EVENT_LIFECYCLE'', 376),
      (''ProcNodeDeviceEventUpdate'', ''REMOTE_PROC_NODE_DEVICE_EVENT_UPDATE'', 377),
      (''ProcStorageVolGetInfoFlags'', ''REMOTE_PROC_STORAGE_VOL_GET_INFO_FLAGS'', 378),
      (''ProcDomainEventCallbackMetadataChange'', ''REMOTE_PROC_DOMAIN_EVENT_CALLBACK_METADATA_CHANGE'', 379),
      (''ProcConnectSecretEventRegisterAny'', ''REMOTE_PROC_CONNECT_SECRET_EVENT_REGISTER_ANY'', 380),
      (''ProcConnectSecretEventDeregisterAny'', ''REMOTE_PROC_CONNECT_SECRET_EVENT_DEREGISTER_ANY'', 381),
      (''ProcSecretEventLifecycle'', ''REMOTE_PROC_SECRET_EVENT_LIFECYCLE'', 382),
      (''ProcSecretEventValueChanged'', ''REMOTE_PROC_SECRET_EVENT_VALUE_CHANGED'', 383),
      (''ProcDomainSetVcpu'', ''REMOTE_PROC_DOMAIN_SET_VCPU'', 384),
      (''ProcDomainEventBlockThreshold'', ''REMOTE_PROC_DOMAIN_EVENT_BLOCK_THRESHOLD'', 385),
      (''ProcDomainSetBlockThreshold'', ''REMOTE_PROC_DOMAIN_SET_BLOCK_THRESHOLD'', 386),
      (''ProcDomainMigrateGetMaxDowntime'', ''REMOTE_PROC_DOMAIN_MIGRATE_GET_MAX_DOWNTIME'', 387),
      (''ProcDomainManagedSaveGetXMLDesc'', ''REMOTE_PROC_DOMAIN_MANAGED_SAVE_GET_XML_DESC'', 388),
      (''ProcDomainManagedSaveDefineXML'', ''REMOTE_PROC_DOMAIN_MANAGED_SAVE_DEFINE_XML'', 389),
      (''ProcDomainSetLifecycleAction'', ''REMOTE_PROC_DOMAIN_SET_LIFECYCLE_ACTION'', 390),
      (''ProcStoragePoolLookupByTargetPath'', ''REMOTE_PROC_STORAGE_POOL_LOOKUP_BY_TARGET_PATH'', 391),
      (''ProcDomainDetachDeviceAlias'', ''REMOTE_PROC_DOMAIN_DETACH_DEVICE_ALIAS'', 392),
      (''ProcConnectCompareHypervisorCPU'', ''REMOTE_PROC_CONNECT_COMPARE_HYPERVISOR_CPU'', 393),
      (''ProcConnectBaselineHypervisorCPU'', ''REMOTE_PROC_CONNECT_BASELINE_HYPERVISOR_CPU'', 394),
      (''ProcNodeGetSevInfo'', ''REMOTE_PROC_NODE_GET_SEV_INFO'', 395),
      (''ProcDomainGetLaunchSecurityInfo'', ''REMOTE_PROC_DOMAIN_GET_LAUNCH_SECURITY_INFO'', 396),
      (''ProcNwfilterBindingLookupByPortDev'', ''REMOTE_PROC_NWFILTER_BINDING_LOOKUP_BY_PORT_DEV'', 397),
      (''ProcNwfilterBindingGetXMLDesc'', ''REMOTE_PROC_NWFILTER_BINDING_GET_XML_DESC'', 398),
      (''ProcNwfilterBindingCreateXML'', ''REMOTE_PROC_NWFILTER_BINDING_CREATE_XML'', 399),
      (''ProcNwfilterBindingDelete'', ''REMOTE_PROC_NWFILTER_BINDING_DELETE'', 400),
      (''ProcConnectListAllNwfilterBindings'', ''REMOTE_PROC_CONNECT_LIST_ALL_NWFILTER_BINDINGS'', 401),
      (''ProcDomainSetIothreadParams'', ''REMOTE_PROC_DOMAIN_SET_IOTHREAD_PARAMS'', 402),
      (''ProcConnectGetStoragePoolCapabilities'', ''REMOTE_PROC_CONNECT_GET_STORAGE_POOL_CAPABILITIES'', 403),
      (''ProcNetworkListAllPorts'', ''REMOTE_PROC_NETWORK_LIST_ALL_PORTS'', 404),
      (''ProcNetworkPortLookupByUUID'', ''REMOTE_PROC_NETWORK_PORT_LOOKUP_BY_UUID'', 405),
      (''ProcNetworkPortCreateXML'', ''REMOTE_PROC_NETWORK_PORT_CREATE_XML'', 406),
      (''ProcNetworkPortGetParameters'', ''REMOTE_PROC_NETWORK_PORT_GET_PARAMETERS'', 407),
      (''ProcNetworkPortSetParameters'', ''REMOTE_PROC_NETWORK_PORT_SET_PARAMETERS'', 408),
      (''ProcNetworkPortGetXMLDesc'', ''REMOTE_PROC_NETWORK_PORT_GET_XML_DESC'', 409),
      (''ProcNetworkPortDelete'', ''REMOTE_PROC_NETWORK_PORT_DELETE'', 410),
      (''ProcDomainCheckpointCreateXML'', ''REMOTE_PROC_DOMAIN_CHECKPOINT_CREATE_XML'', 411),
      (''ProcDomainCheckpointGetXMLDesc'', ''REMOTE_PROC_DOMAIN_CHECKPOINT_GET_XML_DESC'', 412),
      (''ProcDomainListAllCheckpoints'', ''REMOTE_PROC_DOMAIN_LIST_ALL_CHECKPOINTS'', 413),
      (''ProcDomainCheckpointListAllChildren'', ''REMOTE_PROC_DOMAIN_CHECKPOINT_LIST_ALL_CHILDREN'', 414),
      (''ProcDomainCheckpointLookupByName'', ''REMOTE_PROC_DOMAIN_CHECKPOINT_LOOKUP_BY_NAME'', 415),
      (''ProcDomainCheckpointGetParent'', ''REMOTE_PROC_DOMAIN_CHECKPOINT_GET_PARENT'', 416),
      (''ProcDomainCheckpointDelete'', ''REMOTE_PROC_DOMAIN_CHECKPOINT_DELETE'', 417)]"

definition remote_constants_7 :: "const_item list" where
  "remote_constants_7 =
     [(''ProcDomainGetGuestInfo'', ''REMOTE_PROC_DOMAIN_GET_GUEST_INFO'', 418),
      (''ProcConnectSetIdentity'', ''REMOTE_PROC_CONNECT_SET_IDENTITY'', 419),
      (''ProcDomainAgentSetResponseTimeout'', ''REMOTE_PROC_DOMAIN_AGENT_SET_RESPONSE_TIMEOUT'', 420),
      (''ProcDomainBackupBegin'', ''REMOTE_PROC_DOMAIN_BACKUP_BEGIN'', 421),
      (''ProcDomainBackupGetXMLDesc'', ''REMOTE_PROC_DOMAIN_BACKUP_GET_XML_DESC'', 422),
      (''ProcDomainEventMemoryFailure'', ''REMOTE_PROC_DOMAIN_EVENT_MEMORY_FAILURE'', 423),
      (''ProcDomainAuthorizedSshKeysGet'', ''REMOTE_PROC_DOMAIN_AUTHORIZED_SSH_KEYS_GET'', 424),
      (''ProcDomainAuthorizedSshKeysSet'', ''REMOTE_PROC_DOMAIN_AUTHORIZED_SSH_KEYS_SET'', 425),
      (''ProcDomainGetMessages'', ''REMOTE_PROC_DOMAIN_GET_MESSAGES'', 426),
      (''ProcDomainStartDirtyRateCalc'', ''REMOTE_PROC_DOMAIN_START_DIRTY_RATE_CALC'', 427),
      (''ProcNodeDeviceDefineXML'', ''REMOTE_PROC_NODE_DEVICE_DEFINE_XML'', 428),
      (''ProcNodeDeviceUndefine'', ''REMOTE_PROC_NODE_DEVICE_UNDEFINE'', 429),
      (''ProcNodeDeviceCreate'', ''REMOTE_PROC_NODE_DEVICE_CREATE'', 430),
      (''ProcNwfilterDefineXMLFlags'', ''REMOTE_PROC_NWFILTER_DEFINE_XML_FLAGS'', 431),
      (''ProcNetworkDefineXMLFlags'', ''REMOTE_PROC_NETWORK_DEFINE_XML_FLAGS'', 432),
      (''ProcNodeDeviceGetAutostart'', ''REMOTE_PROC_NODE_DEVICE_GET_AUTOSTART'', 433),
      (''ProcNodeDeviceSetAutostart'', ''REMOTE_PROC_NODE_DEVICE_SET_AUTOSTART'', 434),
      (''ProcNodeDeviceIsPersistent'', ''REMOTE_PROC_NODE_DEVICE_IS_PERSISTENT'', 435),
      (''ProcNodeDeviceIsActive'', ''REMOTE_PROC_NODE_DEVICE_IS_ACTIVE'', 436),
      (''ProcNetworkCreateXMLFlags'', ''REMOTE_PROC_NETWORK_CREATE_XML_FLAGS'', 437),
      (''ProcDomainEventMemoryDeviceSizeChange'', ''REMOTE_PROC_DOMAIN_EVENT_MEMORY_DEVICE_SIZE_CHANGE'', 438),
      (''ProcDomainSetLaunchSecurityState'', ''REMOTE_PROC_DOMAIN_SET_LAUNCH_SECURITY_STATE'', 439),
      (''ProcDomainSaveParams'', ''REMOTE_PROC_DOMAIN_SAVE_PARAMS'', 440),
      (''ProcDomainRestoreParams'', ''REMOTE_PROC_DOMAIN_RESTORE_PARAMS'', 441),
      (''ProcDomainAbortJobFlags'', ''REMOTE_PROC_DOMAIN_ABORT_JOB_FLAGS'', 442),
      (''ProcDomainFdAssociate'', ''REMOTE_PROC_DOMAIN_FD_ASSOCIATE'', 443),
      (''ProcNetworkSetMetadata'', ''REMOTE_PROC_NETWORK_SET_METADATA'', 444),
      (''ProcNetworkGetMetadata'', ''REMOTE_PROC_NETWORK_GET_METADATA'', 445),
      (''ProcNetworkEventCallbackMetadataChange'', ''REMOTE_PROC_NETWORK_EVENT_CALLBACK_METADATA_CHANGE'', 446),
      (''ProcNodeDeviceUpdate'', ''REMOTE_PROC_NODE_DEVICE_UPDATE'', 447),
      (''ProcDomainGraphicsReload'', ''REMOTE_PROC_DOMAIN_GRAPHICS_RELOAD'', 448),
      (''ProcDomainGetAutostartOnce'', ''REMOTE_PROC_DOMAIN_GET_AUTOSTART_ONCE'', 449),
      (''ProcDomainSetAutostartOnce'', ''REMOTE_PROC_DOMAIN_SET_AUTOSTART_ONCE'', 450),
      (''ProcDomainSetThrottleGroup'', ''REMOTE_PROC_DOMAIN_SET_THROTTLE_GROUP'', 451),
      (''ProcDomainDelThrottleGroup'', ''REMOTE_PROC_DOMAIN_DEL_THROTTLE_GROUP'', 452),
      (''ProcDomainEventNicMacChange'', ''REMOTE_PROC_DOMAIN_EVENT_NIC_MAC_CHANGE'', 453),
      (''StringMax'', ''REMOTE_STRING_MAX'', 4194304),
      (''ConnectIdentityParamsMax'', ''REMOTE_CONNECT_IDENTITY_PARAMS_MAX'', 20),
      (''DomainListMax'', ''REMOTE_DOMAIN_LIST_MAX'', 16384),
      (''CpumapMax'', ''REMOTE_CPUMAP_MAX'', 2048),
      (''VcpuinfoMax'', ''REMOTE_VCPUINFO_MAX'', 16384),
      (''CpumapsMax'', ''REMOTE_CPUMAPS_MAX'', 8388608),
      (''IothreadInfoMax'', ''REMOTE_IOTHREAD_INFO_MAX'', 16384),
      (''MigrateCookieMax'', ''REMOTE_MIGRATE_COOKIE_MAX'', 4194304),
      (''NetworkListMax'', ''REMOTE_NETWORK_LIST_MAX'', 16384),
      (''NetworkPortListMax'', ''REMOTE_NETWORK_PORT_LIST_MAX'', 16384),
      (''InterfaceListMax'', ''REMOTE_INTERFACE_LIST_MAX'', 16384),
      (''StoragePoolListMax'', ''REMOTE_STORAGE_POOL_LIST_MAX'', 16384),
      (''StorageVolListMax'', ''REMOTE_STORAGE_VOL_LIST_MAX'', 16384),
      (''NodeDeviceListMax'', ''REMOTE_NODE_DEVICE_LIST_MAX'', 65536),
      (''NodeDeviceCapsListMax'', ''REMOTE_NODE_DEVICE_CAPS_LIST_MAX'', 65536),
      (''NwfilterListMax'', ''REMOTE_NWFILTER_LIST_MAX'', 16384),
      (''NwfilterBindingListMax'', ''REMOTE_NWFILTER_BINDING_LIST_MAX'', 16384),
      (''DomainSchedulerParametersMax'', ''REMOTE_DOMAIN_SCHEDULER_PARAMETERS_MAX'', 16),
      (''DomainBlkioParametersMax'', ''REMOTE_DOMAIN_BLKIO_PARAMETERS_MAX'', 16),
      (''DomainMemoryParametersMax'', ''REMOTE_DOMAIN_MEMORY_PARAMETERS_MAX'', 16),
      (''DomainBlockIOTuneParametersMax'', ''REMOTE_DOMAIN_BLOCK_IO_TUNE_PARAMETERS_MAX'', 32),
      (''DomainNumaParametersMax'', ''REMOTE_DOMAIN_NUMA_PARAMETERS_MAX'', 16),
      (''DomainPerfEventsMax'', ''REMOTE_DOMAIN_PERF_EVENTS_MAX'', 64),
      (''DomainBlockCopyParametersMax'', ''REMOTE_DOMAIN_BLOCK_COPY_PARAMETERS_MAX'', 16),
      (''NodeCPUStatsMax'', ''REMOTE_NODE_CPU_STATS_MAX'', 16),
      (''NodeMemoryStatsMax'', ''REMOTE_NODE_MEMORY_STATS_MAX'', 16),
      (''DomainBlockStatsParametersMax'', ''REMOTE_DOMAIN_BLOCK_STATS_PARAMETERS_MAX'', 16),
      (''NodeMaxCells'', ''REMOTE_NODE_MAX_CELLS'', 1024),
      (''AuthSaslDataMax'', ''REMOTE_AUTH_SASL_DATA_MAX'', 65536),
      (''AuthTypeListMax'', ''REMOTE_AUTH_TYPE_LIST_MAX'', 20),
      (''DomainMemoryStatsMax'', ''REMOTE_DOMAIN_MEMORY_STATS_MAX'', 1024),
      (''DomainCheckpointListMax'', ''REMOTE_DOMAIN_CHECKPOINT_LIST_MAX'', 16384),
      (''DomainSnapshotListMax'', ''REMOTE_DOMAIN_SNAPSHOT_LIST_MAX'', 16384),
      (''DomainBlockPeekBufferMax'', ''REMOTE_DOMAIN_BLOCK_PEEK_BUFFER_MAX'', 4194304)]"

definition remote_constants_8 :: "const_item list" where
  "remote_constants_8 =
     [(''DomainMemoryPeekBufferMax'', ''REMOTE_DOMAIN_MEMORY_PEEK_BUFFER_MAX'', 4194304),
      (''SecurityLabelListMax'', ''REMOTE_SECURITY_LABEL_LIST_MAX'', 64),
      (''SecretValueMax'', ''REMOTE_SECRET_VALUE_MAX'', 65536),
      (''SecretListMax'', ''REMOTE_SECRET_LIST_MAX'', 16384),
      (''CPUBaselineMax'', ''REMOTE_CPU_BASELINE_MAX'', 256),
      (''DomainSendKeyMax'', ''REMOTE_DOMAIN_SEND_KEY_MAX'', 16),
      (''DomainInterfaceParametersMax'', ''REMOTE_DOMAIN_INTERFACE_PARAMETERS_MAX'', 16),
      (''DomainGetCPUStatsNcpusMax'', ''REMOTE_DOMAIN_GET_CPU_STATS_NCPUS_MAX'', 128),
      (''DomainGetCPUStatsMax'', ''REMOTE_DOMAIN_GET_CPU_STATS_MAX'', 2048),
      (''DomainDiskErrorsMax'', ''REMOTE_DOMAIN_DISK_ERRORS_MAX'', 256),
      (''NodeMemoryParametersMax'', ''REMOTE_NODE_MEMORY_PARAMETERS_MAX'', 64),
      (''DomainMigrateParamListMax'', ''REMOTE_DOMAIN_MIGRATE_PARAM_LIST_MAX'', 64),
      (''DomainSaveParamsMax'', ''REMOTE_DOMAIN_SAVE_PARAMS_MAX'', 64),
      (''DomainJobStatsMax'', ''REMOTE_DOMAIN_JOB_STATS_MAX'', 64),
      (''ConnectCPUModelsMax'', ''REMOTE_CONNECT_CPU_MODELS_MAX'', 8192),
      (''DomainFsfreezeMountpointsMax'', ''REMOTE_DOMAIN_FSFREEZE_MOUNTPOINTS_MAX'', 256),
      (''NetworkDhcpLeasesMax'', ''REMOTE_NETWORK_DHCP_LEASES_MAX'', 65536),
      (''ConnectGetAllDomainStatsMax'', ''REMOTE_CONNECT_GET_ALL_DOMAIN_STATS_MAX'', 262144),
      (''DomainEventTunableMax'', ''REMOTE_DOMAIN_EVENT_TUNABLE_MAX'', 2048),
      (''DomainFsinfoMax'', ''REMOTE_DOMAIN_FSINFO_MAX'', 256),
      (''DomainFsinfoDisksMax'', ''REMOTE_DOMAIN_FSINFO_DISKS_MAX'', 256),
      (''DomainInterfaceMax'', ''REMOTE_DOMAIN_INTERFACE_MAX'', 2048),
      (''DomainIPAddrMax'', ''REMOTE_DOMAIN_IP_ADDR_MAX'', 2048),
      (''DomainGuestVcpuParamsMax'', ''REMOTE_DOMAIN_GUEST_VCPU_PARAMS_MAX'', 64),
      (''DomainIothreadParamsMax'', ''REMOTE_DOMAIN_IOTHREAD_PARAMS_MAX'', 64),
      (''NodeSevInfoMax'', ''REMOTE_NODE_SEV_INFO_MAX'', 64),
      (''DomainLaunchSecurityInfoParamsMax'', ''REMOTE_DOMAIN_LAUNCH_SECURITY_INFO_PARAMS_MAX'', 64),
      (''DomainLaunchSecurityStateParamsMax'', ''REMOTE_DOMAIN_LAUNCH_SECURITY_STATE_PARAMS_MAX'', 64),
      (''DomainGuestInfoParamsMax'', ''REMOTE_DOMAIN_GUEST_INFO_PARAMS_MAX'', 2048),
      (''NetworkPortParametersMax'', ''REMOTE_NETWORK_PORT_PARAMETERS_MAX'', 16),
      (''DomainAuthorizedSshKeysMax'', ''REMOTE_DOMAIN_AUTHORIZED_SSH_KEYS_MAX'', 2048),
      (''DomainMessagesMax'', ''REMOTE_DOMAIN_MESSAGES_MAX'', 2048),
      (''DomainEventGraphicsIdentityMax'', ''REMOTE_DOMAIN_EVENT_GRAPHICS_IDENTITY_MAX'', 20),
      (''Program'', ''REMOTE_PROGRAM'', 536903814),
      (''ProtocolVersion'', ''REMOTE_PROTOCOL_VERSION'', 1)]"

definition qemu_constants :: "const_item list" where
  "qemu_constants =
     [(''QEMUProcDomainMonitorCommand'', ''QEMU_PROC_DOMAIN_MONITOR_COMMAND'', 1),
      (''QEMUProcDomainAttach'', ''QEMU_PROC_DOMAIN_ATTACH'', 2),
      (''QEMUProcDomainAgentCommand'', ''QEMU_PROC_DOMAIN_AGENT_COMMAND'', 3),
      (''QEMUProcConnectDomainMonitorEventRegister'', ''QEMU_PROC_CONNECT_DOMAIN_MONITOR_EVENT_REGISTER'', 4),
      (''QEMUProcConnectDomainMonitorEventDeregister'', ''QEMU_PROC_CONNECT_DOMAIN_MONITOR_EVENT_DEREGISTER'', 5),
      (''QEMUProcDomainMonitorEvent'', ''QEMU_PROC_DOMAIN_MONITOR_EVENT'', 6),
      (''QEMUProcDomainMonitorCommandWithFiles'', ''QEMU_PROC_DOMAIN_MONITOR_COMMAND_WITH_FILES'', 7),
      (''QEMUProgram'', ''QEMU_PROGRAM'', 536903815),
      (''QEMUProtocolVersion'', ''QEMU_PROTOCOL_VERSION'', 1)]"

definition remote_constants :: "const_item list" where
  "remote_constants =
     remote_constants_1 @ remote_constants_2 @ remote_constants_3 @ remote_constants_4 @
     remote_constants_5 @ remote_constants_6 @ remote_constants_7 @ remote_constants_8"

lemmas remote_constants_defs =
  remote_constants_1_def remote_constants_2_def remote_constants_3_def
  remote_constants_4_def remote_constants_5_def remote_constants_6_def
  remote_constants_7_def remote_constants_8_def

section \<open>The names\<close>

definition named_by_generator :: "const_item \<Rightarrow> bool" where
  "named_by_generator c = (case c of (name, lvname, v) \<Rightarrow> constNameTransform lvname = Some name)"

text \<open>The same by the words of the name, for evaluation.\<close>

definition named_by_words :: "const_item \<Rightarrow> bool" where
  "named_by_words c = (case c of (name, lvname, v) \<Rightarrow>
     CHR ''_'' \<in> set lvname \<and>
     (let ws = words lvname in plain_words ws \<and> concat (List.map (fix_word abbrevs_list) ws) = name))"

lemma named_by_words: "list_all named_by_words cs \<Longrightarrow> list_all named_by_generator cs"
  by (auto simp: list_all_iff named_by_words_def named_by_generator_def Let_def constNameTransform_words)

lemma remote_constants_1_named: "list_all named_by_words remote_constants_1"
  by code_simp

lemma remote_constants_2_named: "list_all named_by_words remote_constants_2"
  by code_simp

lemma remote_constants_3_named: "list_all named_by_words remote_constants_3"
  by code_simp

lemma remote_constants_4_named: "list_all named_by_words remote_constants_4"
  by code_simp

lemma remote_constants_5_named: "list_all named_by_words remote_constants_5"
  by code_simp

lemma remote_constants_6_named: "list_all named_by_words remote_constants_6"
  by code_simp

lemma remote_constants_7_named: "list_all named_by_words remote_constants_7"
  by code_simp

lemma remote_constants_8_named: "list_all named_by_words remote_constants_8"
  by code_simp

lemma qemu_constants_named: "list_all named_by_words qemu_constants"
  by code_simp

end
