(* ===== verification/Protocol_Types_Events.thy ===== *)
theory Protocol_Types_Events
  imports Protocol_Types_Common
begin

text \<open>
  The event messages that the client does not route: five of the domain events, and those of the
  other objects. They are translated from \<open>src/remote_protocol.gen.go\<close>.
\<close>

definition ty_DomainEventBlockJob2Msg :: ty where [proto_types]:
  "ty_DomainEventBlockJob2Msg = TStruct ''libvirt.DomainEventBlockJob2Msg''
     [fld TInt32, fld ty_Domain, fld TString, fld TInt32, fld TInt32]"

definition ty_DomainEventBlockThresholdMsg :: ty where [proto_types]:
  "ty_DomainEventBlockThresholdMsg = TStruct ''libvirt.DomainEventBlockThresholdMsg''
     [fld TInt32, fld ty_Domain, fld TString, fld ty_OptString, fld TUint64, fld TUint64]"

definition ty_ConnectEventConnectionClosedMsg :: ty where [proto_types]:
  "ty_ConnectEventConnectionClosedMsg = TStruct ''libvirt.ConnectEventConnectionClosedMsg''
     [fld TInt32]"

definition ty_NetworkEventLifecycleMsg :: ty where [proto_types]:
  "ty_NetworkEventLifecycleMsg = TStruct ''libvirt.NetworkEventLifecycleMsg''
     [fld TInt32, fld ty_Network, fld TInt32, fld TInt32]"

definition ty_NetworkEventCallbackMetadataChangeMsg :: ty where [proto_types]:
  "ty_NetworkEventCallbackMetadataChangeMsg = TStruct ''libvirt.NetworkEventCallbackMetadataChangeMsg''
     [fld TInt32, fld ty_Network, fld TInt32, fld ty_OptString]"

definition ty_StoragePoolEventLifecycleMsg :: ty where [proto_types]:
  "ty_StoragePoolEventLifecycleMsg = TStruct ''libvirt.StoragePoolEventLifecycleMsg''
     [fld TInt32, fld ty_StoragePool, fld TInt32, fld TInt32]"

definition ty_StoragePoolEventRefreshMsg :: ty where [proto_types]:
  "ty_StoragePoolEventRefreshMsg = TStruct ''libvirt.StoragePoolEventRefreshMsg''
     [fld TInt32, fld ty_StoragePool]"

definition ty_NodeDeviceEventLifecycleMsg :: ty where [proto_types]:
  "ty_NodeDeviceEventLifecycleMsg = TStruct ''libvirt.NodeDeviceEventLifecycleMsg''
     [fld TInt32, fld ty_NodeDevice, fld TInt32, fld TInt32]"

definition ty_NodeDeviceEventUpdateMsg :: ty where [proto_types]:
  "ty_NodeDeviceEventUpdateMsg = TStruct ''libvirt.NodeDeviceEventUpdateMsg''
     [fld TInt32, fld ty_NodeDevice]"

definition ty_DomainEventMemoryFailureMsg :: ty where [proto_types]:
  "ty_DomainEventMemoryFailureMsg = TStruct ''libvirt.DomainEventMemoryFailureMsg''
     [fld TInt32, fld ty_Domain, fld TInt32, fld TInt32, fld TUint32]"

definition ty_SecretEventLifecycleMsg :: ty where [proto_types]:
  "ty_SecretEventLifecycleMsg = TStruct ''libvirt.SecretEventLifecycleMsg''
     [fld TInt32, fld ty_Secret, fld TInt32, fld TInt32]"

definition ty_SecretEventValueChangedMsg :: ty where [proto_types]:
  "ty_SecretEventValueChangedMsg = TStruct ''libvirt.SecretEventValueChangedMsg''
     [fld TInt32, fld ty_Secret]"

definition ty_DomainEventMemoryDeviceSizeChangeMsg :: ty where [proto_types]:
  "ty_DomainEventMemoryDeviceSizeChangeMsg = TStruct ''libvirt.DomainEventMemoryDeviceSizeChangeMsg''
     [fld TInt32, fld ty_Domain, fld TString, fld TUint64]"

definition ty_DomainEventNicMacChangeMsg :: ty where [proto_types]:
  "ty_DomainEventNicMacChangeMsg = TStruct ''libvirt.DomainEventNicMacChangeMsg''
     [fld TInt32, fld ty_Domain, fld TString, fld TString, fld TString]"

end
