(* ===== verification/Protocol_Events.thy ===== *)
theory Protocol_Events
  imports Protocol_Constants Protocol_Types_Events
begin

text \<open>
  The generated tables against each other: every constant has the name that the generator's
  transformation gives it, the procedures are numbered without gaps, and the event messages that
  \<open>Route\<close> knows are those of the procedures they come with. Five of the domain events that a client
  can subscribe to are missing there.
\<close>

text \<open>
  C38. Every constant of \<open>src/internal/constants\<close> has the Go name that \<open>constNameTransform\<close> makes of its
  libvirt name, and in particular the transformation ends on all of them.
\<close>
theorem constants_named: "list_all named_by_generator (remote_constants @ qemu_constants)"
  by (simp add: remote_constants_def remote_constants_1_named remote_constants_2_named remote_constants_3_named
      remote_constants_4_named remote_constants_5_named remote_constants_6_named remote_constants_7_named
      remote_constants_8_named qemu_constants_named named_by_words)

section \<open>Procedure numbers\<close>

definition procs :: "const_item list \<Rightarrow> const_item list" where
  "procs cs = List.filter (\<lambda>c. has_prefix (fst (snd c)) ''REMOTE_PROC_'') cs"

definition number :: "const_item \<Rightarrow> int" where
  "number c = snd (snd c)"

lemma procs_append [simp]: "procs (cs @ ds) = procs cs @ procs ds"
  by (simp add: procs_def)

lemma procs_numbers:
  "List.map number (procs remote_constants_1) = [1..67]"
  "List.map number (procs remote_constants_2) = [68..137]"
  "List.map number (procs remote_constants_3) = [138..207]"
  "List.map number (procs remote_constants_4) = [208..277]"
  "List.map number (procs remote_constants_5) = [278..347]"
  "List.map number (procs remote_constants_6) = [348..417]"
  "List.map number (procs remote_constants_7) = [418..453]"
  "procs remote_constants_8 = []"
  by code_simp+

lemma upto_append: "i \<le> j \<Longrightarrow> j \<le> k \<Longrightarrow> [i..j] @ [j + 1..k] = [i..k]"
  using upto_split2 [of i j k] by simp

text \<open>The procedures of the protocol are numbered from 1 to 453, without gaps, in the order of the file.\<close>

theorem procedures_numbered: "List.map number (procs remote_constants) = [1..453]"
  using upto_append [of 1 67 137] upto_append [of 1 137 207] upto_append [of 1 207 277] upto_append [of 1 277 347] upto_append [of 1 347 417] upto_append [of 1 417 453]
  by (simp add: remote_constants_def procs_numbers append_assoc [symmetric] del: append_assoc upto_rec_numeral)

section \<open>Event messages\<close>

text \<open>An event message has the name of its procedure.\<close>

definition message_named :: "u32 \<times> ty \<Rightarrow> bool" where
  "message_named e \<longleftrightarrow>
     list_ex (\<lambda>(name, lvname, n). n = uint (fst e) \<and> has_prefix lvname ''REMOTE_PROC_'' \<and>
       type_string (snd e) = ''libvirt.'' @ drop 4 name @ ''Msg'') remote_constants"

definition unrouted_events :: "(u32 \<times> ty) list" where
  "unrouted_events =
     [(339, ty_DomainEventBlockJob2Msg),
      (385, ty_DomainEventBlockThresholdMsg),
      (423, ty_DomainEventMemoryFailureMsg),
      (438, ty_DomainEventMemoryDeviceSizeChangeMsg),
      (453, ty_DomainEventNicMacChangeMsg)]"

lemma event_constants_5:
  "(''ProcDomainEventCallbackLifecycle'', ''REMOTE_PROC_DOMAIN_EVENT_CALLBACK_LIFECYCLE'', uint (318 :: u32)) \<in> set remote_constants_5"
  "(''ProcDomainEventCallbackReboot'', ''REMOTE_PROC_DOMAIN_EVENT_CALLBACK_REBOOT'', uint (319 :: u32)) \<in> set remote_constants_5"
  "(''ProcDomainEventCallbackRtcChange'', ''REMOTE_PROC_DOMAIN_EVENT_CALLBACK_RTC_CHANGE'', uint (320 :: u32)) \<in> set remote_constants_5"
  "(''ProcDomainEventCallbackWatchdog'', ''REMOTE_PROC_DOMAIN_EVENT_CALLBACK_WATCHDOG'', uint (321 :: u32)) \<in> set remote_constants_5"
  "(''ProcDomainEventCallbackIOError'', ''REMOTE_PROC_DOMAIN_EVENT_CALLBACK_IO_ERROR'', uint (322 :: u32)) \<in> set remote_constants_5"
  "(''ProcDomainEventCallbackGraphics'', ''REMOTE_PROC_DOMAIN_EVENT_CALLBACK_GRAPHICS'', uint (323 :: u32)) \<in> set remote_constants_5"
  "(''ProcDomainEventCallbackIOErrorReason'', ''REMOTE_PROC_DOMAIN_EVENT_CALLBACK_IO_ERROR_REASON'', uint (324 :: u32)) \<in> set remote_constants_5"
  "(''ProcDomainEventCallbackControlError'', ''REMOTE_PROC_DOMAIN_EVENT_CALLBACK_CONTROL_ERROR'', uint (325 :: u32)) \<in> set remote_constants_5"
  "(''ProcDomainEventCallbackBlockJob'', ''REMOTE_PROC_DOMAIN_EVENT_CALLBACK_BLOCK_JOB'', uint (326 :: u32)) \<in> set remote_constants_5"
  "(''ProcDomainEventCallbackDiskChange'', ''REMOTE_PROC_DOMAIN_EVENT_CALLBACK_DISK_CHANGE'', uint (327 :: u32)) \<in> set remote_constants_5"
  "(''ProcDomainEventCallbackTrayChange'', ''REMOTE_PROC_DOMAIN_EVENT_CALLBACK_TRAY_CHANGE'', uint (328 :: u32)) \<in> set remote_constants_5"
  "(''ProcDomainEventCallbackPmwakeup'', ''REMOTE_PROC_DOMAIN_EVENT_CALLBACK_PMWAKEUP'', uint (329 :: u32)) \<in> set remote_constants_5"
  "(''ProcDomainEventCallbackPmsuspend'', ''REMOTE_PROC_DOMAIN_EVENT_CALLBACK_PMSUSPEND'', uint (330 :: u32)) \<in> set remote_constants_5"
  "(''ProcDomainEventCallbackBalloonChange'', ''REMOTE_PROC_DOMAIN_EVENT_CALLBACK_BALLOON_CHANGE'', uint (331 :: u32)) \<in> set remote_constants_5"
  "(''ProcDomainEventCallbackPmsuspendDisk'', ''REMOTE_PROC_DOMAIN_EVENT_CALLBACK_PMSUSPEND_DISK'', uint (332 :: u32)) \<in> set remote_constants_5"
  "(''ProcDomainEventCallbackDeviceRemoved'', ''REMOTE_PROC_DOMAIN_EVENT_CALLBACK_DEVICE_REMOVED'', uint (333 :: u32)) \<in> set remote_constants_5"
  "(''ProcDomainEventBlockJob2'', ''REMOTE_PROC_DOMAIN_EVENT_BLOCK_JOB_2'', uint (339 :: u32)) \<in> set remote_constants_5"
  "(''ProcDomainEventCallbackTunable'', ''REMOTE_PROC_DOMAIN_EVENT_CALLBACK_TUNABLE'', uint (346 :: u32)) \<in> set remote_constants_5"
  by (simp_all add: remote_constants_5_def)

lemma event_constants_6:
  "(''ProcDomainEventCallbackAgentLifecycle'', ''REMOTE_PROC_DOMAIN_EVENT_CALLBACK_AGENT_LIFECYCLE'', uint (348 :: u32)) \<in> set remote_constants_6"
  "(''ProcDomainEventCallbackDeviceAdded'', ''REMOTE_PROC_DOMAIN_EVENT_CALLBACK_DEVICE_ADDED'', uint (354 :: u32)) \<in> set remote_constants_6"
  "(''ProcDomainEventCallbackMigrationIteration'', ''REMOTE_PROC_DOMAIN_EVENT_CALLBACK_MIGRATION_ITERATION'', uint (359 :: u32)) \<in> set remote_constants_6"
  "(''ProcDomainEventCallbackJobCompleted'', ''REMOTE_PROC_DOMAIN_EVENT_CALLBACK_JOB_COMPLETED'', uint (363 :: u32)) \<in> set remote_constants_6"
  "(''ProcDomainEventCallbackDeviceRemovalFailed'', ''REMOTE_PROC_DOMAIN_EVENT_CALLBACK_DEVICE_REMOVAL_FAILED'', uint (367 :: u32)) \<in> set remote_constants_6"
  "(''ProcDomainEventCallbackMetadataChange'', ''REMOTE_PROC_DOMAIN_EVENT_CALLBACK_METADATA_CHANGE'', uint (379 :: u32)) \<in> set remote_constants_6"
  "(''ProcDomainEventBlockThreshold'', ''REMOTE_PROC_DOMAIN_EVENT_BLOCK_THRESHOLD'', uint (385 :: u32)) \<in> set remote_constants_6"
  by (simp_all add: remote_constants_6_def)

lemma event_constants_7:
  "(''ProcDomainEventMemoryFailure'', ''REMOTE_PROC_DOMAIN_EVENT_MEMORY_FAILURE'', uint (423 :: u32)) \<in> set remote_constants_7"
  "(''ProcDomainEventMemoryDeviceSizeChange'', ''REMOTE_PROC_DOMAIN_EVENT_MEMORY_DEVICE_SIZE_CHANGE'', uint (438 :: u32)) \<in> set remote_constants_7"
  "(''ProcDomainEventNicMacChange'', ''REMOTE_PROC_DOMAIN_EVENT_NIC_MAC_CHANGE'', uint (453 :: u32)) \<in> set remote_constants_7"
  by (simp_all add: remote_constants_7_def)

lemma in_remote_constants:
  "x \<in> set remote_constants_5 \<Longrightarrow> x \<in> set remote_constants"
  "x \<in> set remote_constants_6 \<Longrightarrow> x \<in> set remote_constants"
  "x \<in> set remote_constants_7 \<Longrightarrow> x \<in> set remote_constants"
  by (simp_all add: remote_constants_def)

lemmas event_constants =
  event_constants_5 [THEN in_remote_constants(1)] event_constants_6 [THEN in_remote_constants(2)]
  event_constants_7 [THEN in_remote_constants(3)]

lemma message_namedI:
  "(name, lvname, uint p) \<in> set remote_constants \<Longrightarrow> has_prefix lvname ''REMOTE_PROC_'' \<Longrightarrow>
   type_string t = ''libvirt.'' @ drop 4 name @ ''Msg'' \<Longrightarrow> message_named (p, t)"
  by (force simp: message_named_def list_ex_iff)

lemma events_named: "list_all message_named (event_table @ unrouted_events)"
  unfolding event_table_def unrouted_events_def append_Cons append_Nil list.pred_inject
  by (intro conjI list.pred_inject(1); rule message_namedI, rule event_constants, simp, simp add: proto_types)

text \<open>
  The table of event messages is right: the message that \<open>Route\<close> decodes for a procedure is the one
  of that name.
\<close>
theorem event_table_named: "list_all message_named event_table"
  using events_named by simp

text \<open>
  The messages of domain events begin with the number of the callback, by which \<open>stream\<close> finds the
  subscription.
\<close>

definition has_callback :: "ty \<Rightarrow> bool" where
  "has_callback t =
     (case t of TStruct nm fs \<Rightarrow> list_all (\<lambda>f. field_type f = TInt32) (take 1 fs) \<and> fs \<noteq> [] | _ \<Rightarrow> False)"

text \<open>
  A client can subscribe to every kind of domain event, but five of the 28 kinds never reach it
  (block job 2, block threshold, memory failure, memory device size, MAC change): the protocol has
  messages for them, with a callback number like all others, but \<open>Route\<close> does not know their
  procedures and takes the events for responses.
\<close>
theorem domain_events_lost:
  assumes "(Procedure h, t) \<in> set unrouted_events" and "Program h = RemoteProgram"
  shows "message_named (Procedure h, t) \<and> has_callback t \<and>
    Route lib h buf = Ok (ToCallback (Serial h) \<lparr>Payload = buf, RStatus = Status h\<rparr>)"
proof -
  have "message_named (Procedure h, t)"
    using assms(1) events_named by (auto simp: list_all_iff)
  moreover have "has_callback t"
    using assms(1) by (auto simp: unrouted_events_def has_callback_def proto_types)
  moreover have "event_type h = None"
    using assms by (auto simp: unrouted_events_def event_type_def eventFromProcedureID_def event_table_def
        RemoteProgram_def QEMUProgram_def)
  ultimately show ?thesis by (simp add: Route_def)
qed

theorem domain_events_lost_witness:
  "Route sample_lib (sample_header\<lparr>Program := RemoteProgram, Procedure := 385, Serial := 0\<rparr>) [1, 2] =
     Ok (ToCallback 0 \<lparr>Payload = [1, 2], RStatus = Status sample_header\<rparr>)"
  using domain_events_lost [of "sample_header\<lparr>Program := RemoteProgram, Procedure := 385, Serial := 0\<rparr>"
      ty_DomainEventBlockThresholdMsg sample_lib "[1, 2]"]
  by (simp add: unrouted_events_def)

end
