(* ===== verification/LR_Parser.thy ===== *)
theory LR_Parser
  imports Main
begin

text \<open>
  Table-driven parsers in general: the stack machine over a shift-reduce table, the derivation trees of
  a grammar with the semantic actions on the way, and checks of a table against its grammar. A table
  that passes the checks drives a machine that ends on every input, that accepts only what the grammar
  derives, performing the actions of a derivation tree, and that accepts all of it. The parser that
  goyacc generated for the protocol files is an instance.
\<close>

section \<open>The machine\<close>

datatype sym = T int | N int

datatype move = Shift int | Reduce int | Accept | Fail

type_synonym word_in = "(int \<times> string) list"
type_synonym config = "(int \<times> string) list \<times> word_in"

text \<open>
  A machine: its table of moves and of goto states; its rules, with left and right hand side; and the
  actions and the value of a rule, from the values on the stack, its top first, before the rule's
  right hand side is taken off.
\<close>

record 'a lr =
  lr_move :: "int \<Rightarrow> int \<Rightarrow> move"
  lr_goto :: "int \<Rightarrow> int \<Rightarrow> int"
  lr_lhs :: "int \<Rightarrow> int"
  lr_rhs :: "int \<Rightarrow> sym list"
  lr_act :: "int \<Rightarrow> string list \<Rightarrow> 'a list"
  lr_val :: "int \<Rightarrow> string list \<Rightarrow> string"

text \<open>The end of the input is the token 1, for ever.\<close>

definition look :: "word_in \<Rightarrow> int \<times> string" where
  "look inp = (case inp of [] \<Rightarrow> (1, []) | t # _ \<Rightarrow> t)"

datatype 'a lr_next = Go "'a list" config | Done | Stuck

definition pop_push :: "'a lr \<Rightarrow> int \<Rightarrow> (int \<times> string) list \<Rightarrow> (int \<times> string) list" where
  "pop_push G n st =
     (let rest = drop (length (lr_rhs G n)) st
      in (lr_goto G (fst (hd rest)) (lr_lhs G n), lr_val G n (List.map snd st)) # rest)"

fun lr_step :: "'a lr \<Rightarrow> config \<Rightarrow> 'a lr_next" where
  "lr_step G (st, inp) =
     (case lr_move G (fst (hd st)) (fst (look inp)) of
        Shift q \<Rightarrow> Go [] ((q, snd (look inp)) # st, List.tl inp)
      | Reduce n \<Rightarrow> Go (lr_act G n (List.map snd st)) (pop_push G n st, inp)
      | Accept \<Rightarrow> Done
      | Fail \<Rightarrow> Stuck)"

inductive lr_steps :: "'a lr \<Rightarrow> config \<Rightarrow> 'a list \<Rightarrow> config \<Rightarrow> bool" for G where
  lr_refl: "lr_steps G c [] c"
| lr_more: "lr_step G c = Go as c1 \<Longrightarrow> lr_steps G c1 bs c2 \<Longrightarrow> lr_steps G c (as @ bs) c2"

lemma lr_steps_trans: "lr_steps G c as c1 \<Longrightarrow> lr_steps G c1 bs c2 \<Longrightarrow> lr_steps G c (as @ bs) c2"
  by (induction rule: lr_steps.induct) (auto intro: lr_steps.intros)

lemma lr_steps_one: "lr_step G c = Go as c1 \<Longrightarrow> lr_steps G c as c1"
  using lr_more [OF _ lr_refl] by fastforce

lemma lr_steps_snoc: "lr_steps G c as c1 \<Longrightarrow> lr_step G c1 = Go bs c2 \<Longrightarrow> lr_steps G c (as @ bs) c2"
  by (erule lr_steps_trans) (rule lr_steps_one)

section \<open>Derivation trees\<close>

datatype tree = Leaf int string | Node int "tree list"

fun yield :: "tree \<Rightarrow> word_in" where
  "yield (Leaf t v) = [(t, v)]"
| "yield (Node n ts) = concat (List.map yield ts)"

fun root :: "'a lr \<Rightarrow> tree \<Rightarrow> sym" where
  "root G (Leaf t v) = T t"
| "root G (Node n ts) = N (lr_lhs G n)"

fun derives :: "'a lr \<Rightarrow> int list \<Rightarrow> tree \<Rightarrow> bool" where
  "derives G rs (Leaf t v) = True"
| "derives G rs (Node n ts) =
     (n \<in> set rs \<and> List.map (root G) ts = lr_rhs G n \<and> list_all (derives G rs) ts)"

text \<open>The actions of a tree, left to right, and its value, with the values to its left on the stack.\<close>

fun perform :: "'a lr \<Rightarrow> string list \<Rightarrow> tree \<Rightarrow> 'a list \<times> string"
  and performs :: "'a lr \<Rightarrow> string list \<Rightarrow> tree list \<Rightarrow> 'a list \<times> string list" where
  "perform G vs (Leaf t v) = ([], v)"
| "perform G vs (Node n ts) =
     (case performs G vs ts of (as, ws) \<Rightarrow> (as @ lr_act G n ws, lr_val G n ws))"
| "performs G vs [] = ([], vs)"
| "performs G vs (t # ts) =
     (case perform G vs t of (as, v) \<Rightarrow> (case performs G (v # vs) ts of (bs, ws) \<Rightarrow> (as @ bs, ws)))"

lemma performs_append:
  "performs G vs (ts @ us) =
     (case performs G vs ts of (as, ws) \<Rightarrow> (case performs G ws us of (bs, xs) \<Rightarrow> (as @ bs, xs)))"
  by (induction ts arbitrary: vs) (auto split: prod.splits)

lemma performs_length: "performs G vs ts = (as, ws) \<Longrightarrow> length ws = length vs + length ts"
  by (induction ts arbitrary: vs as ws) (fastforce split: prod.splits)+

lemma performs_drop: "performs G vs ts = (as, ws) \<Longrightarrow> drop (length ts) ws = vs"
proof (induction ts arbitrary: vs as ws)
  case (Cons t ts)
  then obtain as1 v bs ws1 where *: "perform G vs t = (as1, v)" "performs G (v # vs) ts = (bs, ws)"
    by (auto split: prod.splits)
  have "drop (length (t # ts)) ws = List.tl (drop (length ts) ws)" by (simp add: drop_Suc tl_drop)
  also have "\<dots> = vs" using Cons.IH [OF *(2)] by simp
  finally show ?case .
qed simp

section \<open>Tables that accept only what the grammar derives\<close>

text \<open>
  The table is checked with three more tables: the symbol on all edges into a state, the states before
  it, and a rank. On every way back from a reducing state along its rule, the symbols are those of
  the rule, and the goto state of each state at the beginning is one that follows it with the left
  hand side, and has a small rank. Shifting and reducing lead along edges.
\<close>

fun back_ok :: "'a lr \<Rightarrow> (int \<Rightarrow> sym) \<Rightarrow> (int \<Rightarrow> int list) \<Rightarrow> (int \<Rightarrow> int) \<Rightarrow> int \<Rightarrow> int \<Rightarrow> sym list \<Rightarrow> int list \<Rightarrow> bool" where
  "back_ok G entry preds rank b A [] S =
     list_all (\<lambda>p. let q = lr_goto G p A in entry q = N A \<and> p \<in> set (preds q) \<and> rank q + 1 < b) S"
| "back_ok G entry preds rank b A (X # Xs) S =
     (list_all (\<lambda>s. s \<noteq> 0 \<and> entry s = X) S \<and> back_ok G entry preds rank (b + 1) A Xs (remdups (concat (List.map preds S))))"

definition move_ok :: "'a lr \<Rightarrow> int list \<Rightarrow> int \<Rightarrow> (int \<Rightarrow> sym) \<Rightarrow> (int \<Rightarrow> int list) \<Rightarrow> (int \<Rightarrow> int) \<Rightarrow> int \<Rightarrow> int \<Rightarrow> int \<Rightarrow> bool" where
  "move_ok G rs start entry preds rank R s t =
     (case lr_move G s t of
        Shift q \<Rightarrow> t \<noteq> 1 \<and> entry q = T t \<and> s \<in> set (preds q) \<and> rank q \<le> R
      | Reduce n \<Rightarrow> n \<in> set rs \<and> back_ok G entry preds rank (rank s) (lr_lhs G n) (rev (lr_rhs G n)) [s]
      | Accept \<Rightarrow> t = 1 \<and> s \<noteq> 0 \<and> entry s = N start \<and> preds s = [0]
      | Fail \<Rightarrow> True)"

fun chain :: "'a lr \<Rightarrow> (int \<Rightarrow> sym) \<Rightarrow> (int \<Rightarrow> int list) \<Rightarrow> int list \<Rightarrow> tree list \<Rightarrow> bool" where
  "chain G entry preds [s] [] = (s = 0)"
| "chain G entry preds (q # p # ss) (t # ts) =
     (entry q = root G t \<and> p \<in> set (preds q) \<and> chain G entry preds (p # ss) ts)"
| "chain G entry preds _ _ = False"

text \<open>What holds of the state at a depth below another one, on all ways back.\<close>

fun below :: "(int \<Rightarrow> int list) \<Rightarrow> nat \<Rightarrow> int list \<Rightarrow> (int \<Rightarrow> bool) \<Rightarrow> bool" where
  "below preds 0 S P = list_all P S"
| "below preds (Suc j) S P =
     (list_all (\<lambda>s. s \<noteq> 0) S \<and> below preds j (remdups (concat (List.map preds S))) P)"

lemma below_chain:
  "below preds j S P \<Longrightarrow> chain G entry preds (s # ss) ts \<Longrightarrow> s \<in> set S \<Longrightarrow> j < length (s # ss) \<and> P ((s # ss) ! j)"
proof (induction j arbitrary: s ss ts S)
  case (Suc j)
  from Suc.prems(1,3) have "s \<noteq> 0" by (auto simp: list_all_iff)
  with Suc.prems(2) obtain p ss' ts' where c: "ss = p # ss'" "p \<in> set (preds s)" "chain G entry preds (p # ss') ts'"
    by (cases ss; cases ts) auto
  have "p \<in> set (remdups (concat (List.map preds S)))" using c(2) Suc.prems(3) by auto
  from Suc.IH [OF _ c(3) this] Suc.prems(1) show ?case by (simp add: c(1))
qed (auto simp: list_all_iff)

text \<open>
  A sound table: its start state has nothing before it, every state that has something before it is
  one of the table's, and all its moves are checked.
\<close>

locale sound_table =
  fixes G :: "'a lr" and rs :: "int list" and start :: int and states :: "int set" and tokens :: "int set"
    and entry :: "int \<Rightarrow> sym" and preds :: "int \<Rightarrow> int list" and rank :: "int \<Rightarrow> int" and R :: int
  assumes start_state: "0 \<in> states" "preds 0 = []"
    and ranks: "s \<in> states \<Longrightarrow> 0 \<le> rank s"
    and end_token: "1 \<in> tokens"
    and known: "p \<in> set (preds q) \<Longrightarrow> q \<in> states"
    and moves: "s \<in> states \<Longrightarrow> t \<in> tokens \<Longrightarrow> move_ok G rs start entry preds rank R s t"
    and bound: "0 \<le> R"
begin

abbreviation "tree_chain \<equiv> chain G entry preds"

lemma chain_length: "tree_chain ss ts \<Longrightarrow> length ss = Suc (length ts)"
  by (induction G entry preds ss ts rule: chain.induct) auto

lemma chain_state: "tree_chain (s # ss) ts \<Longrightarrow> s \<in> states"
  by (cases ss; cases ts) (auto simp: start_state intro: known)

lemma chain_states: "tree_chain ss ts \<Longrightarrow> s \<in> set ss \<Longrightarrow> s \<in> states"
proof (induction ss arbitrary: ts)
  case (Cons q ss)
  then have "tree_chain ss (List.tl ts)" if "s \<in> set ss" using that by (cases ss; cases ts) auto
  with Cons chain_state [of q ss ts] show ?case by auto
qed simp

text \<open>The way back along a rule.\<close>

lemma back_chain:
  assumes "back_ok G entry preds rank b A Xs S" and "tree_chain (s # ss) ts" and "s \<in> set S"
  shows "length Xs \<le> length ts \<and> List.map (root G) (take (length Xs) ts) = Xs \<and>
    tree_chain (drop (length Xs) (s # ss)) (drop (length Xs) ts) \<and>
    (let p = hd (drop (length Xs) (s # ss)); q = lr_goto G p A
     in entry q = N A \<and> p \<in> set (preds q) \<and> rank q + 1 < b + int (length Xs))"
  using assms
proof (induction Xs arbitrary: b s ss ts S)
  case Nil
  then show ?case by (auto simp: list_all_iff Let_def)
next
  case (Cons X Xs)
  from Cons.prems(1,3) have s: "s \<noteq> 0" "entry s = X" by (auto simp: list_all_iff)
  with Cons.prems(2) obtain p ss' t ts' where c: "ss = p # ss'" "ts = t # ts'" "root G t = X" "p \<in> set (preds s)"
      "tree_chain (p # ss') ts'"
    by (cases ss; cases ts) auto
  have "p \<in> set (remdups (concat (List.map preds S)))" using c(4) Cons.prems(3) by auto
  moreover have "back_ok G entry preds rank (b + 1) A Xs (remdups (concat (List.map preds S)))"
    using Cons.prems(1) by simp
  ultimately have "length Xs \<le> length ts' \<and> List.map (root G) (take (length Xs) ts') = Xs \<and>
      tree_chain (drop (length Xs) (p # ss')) (drop (length Xs) ts') \<and>
      (let p = hd (drop (length Xs) (p # ss')); q = lr_goto G p A
       in entry q = N A \<and> p \<in> set (preds q) \<and> rank q + 1 < b + 1 + int (length Xs))"
    by (intro Cons.IH [OF _ c(5)])
  with c(1-3) show ?case by (simp add: Let_def add.assoc)
qed

text \<open>
  What holds of the stack: it has the states of a way through the table and derivation trees on it,
  whose yields and the input left make up the whole input, and whose actions are those performed.
\<close>

definition parsed :: "string \<Rightarrow> word_in \<Rightarrow> 'a list \<Rightarrow> config \<Rightarrow> tree list \<Rightarrow> bool" where
  "parsed v0 w as c ts \<longleftrightarrow>
     tree_chain (List.map fst (fst c)) ts \<and> list_all (derives G rs) ts \<and>
     concat (List.map yield (rev ts)) @ snd c = w \<and> performs G [v0] (rev ts) = (as, List.map snd (fst c))"

definition weight :: "config \<Rightarrow> int" where
  "weight c = (R + 2) * int (length (snd c)) + int (length (fst c)) + rank (fst (hd (fst c)))"

lemma parsed_start: "parsed v0 w [] ([(0, v0)], w) []"
  by (simp add: parsed_def)

lemma parsed_top:
  assumes "parsed v0 w as c ts" and "fst ` set w \<subseteq> tokens"
  shows "fst c \<noteq> []" "fst (hd (fst c)) \<in> states" "fst (look (snd c)) \<in> tokens"
    "move_ok G rs start entry preds rank R (fst (hd (fst c))) (fst (look (snd c)))"
proof -
  have c: "tree_chain (List.map fst (fst c)) ts" using assms(1) by (simp add: parsed_def)
  then show ne: "fst c \<noteq> []" by (cases ts) auto
  with c show s: "fst (hd (fst c)) \<in> states" by (cases "fst c") (auto dest: chain_state)
  have "set (snd c) \<subseteq> set w" using assms(1) by (auto simp: parsed_def)
  then show t: "fst (look (snd c)) \<in> tokens"
    using assms(2) end_token by (cases "snd c") (auto simp: look_def)
  show "move_ok G rs start entry preds rank R (fst (hd (fst c))) (fst (look (snd c)))"
    using s t by (rule moves)
qed

lemma parsed_shift:
  assumes p: "parsed v0 w as (st, inp) ts" and w: "fst ` set w \<subseteq> tokens"
    and m: "lr_move G (fst (hd st)) (fst (look inp)) = Shift q"
  shows "\<exists>ts'. parsed v0 w as ((q, snd (look inp)) # st, List.tl inp) ts'"
    "weight ((q, snd (look inp)) # st, List.tl inp) < weight (st, inp)"
proof -
  note top = parsed_top [OF p w, simplified]
  have q: "fst (look inp) \<noteq> 1" "entry q = T (fst (look inp))" "fst (hd st) \<in> set (preds q)" "rank q \<le> R"
    using top(4) m by (simp_all add: move_ok_def)
  from q(1) obtain t v rest where inp: "inp = (t, v) # rest" by (cases inp) (auto simp: look_def)
  obtain s u st' where st: "st = (s, u) # st'" using top(1) by (cases st) auto
  have "parsed v0 w as ((q, v) # st, rest) (Leaf t v # ts)"
    using p q by (auto simp: parsed_def inp st look_def performs_append)
  then show "\<exists>ts'. parsed v0 w as ((q, snd (look inp)) # st, List.tl inp) ts'"
    by (auto simp: inp look_def)
  have "0 \<le> rank s" using top(2) ranks by (simp add: st)
  then show "weight ((q, snd (look inp)) # st, List.tl inp) < weight (st, inp)"
    using q(4) by (simp add: weight_def inp st look_def algebra_simps)
qed

lemma parsed_reduce:
  assumes p: "parsed v0 w as (st, inp) ts" and w: "fst ` set w \<subseteq> tokens"
    and m: "lr_move G (fst (hd st)) (fst (look inp)) = Reduce n"
  shows "\<exists>ts'. parsed v0 w (as @ lr_act G n (List.map snd st)) (pop_push G n st, inp) ts'"
    "weight (pop_push G n st, inp) < weight (st, inp)"
proof -
  let ?k = "length (lr_rhs G n)"
  note top = parsed_top [OF p w, simplified]
  obtain s u st' where st: "st = (s, u) # st'" using top(1) by (cases st) auto
  have c: "tree_chain (s # List.map fst st') ts" using p by (simp add: parsed_def st)
  have n: "n \<in> set rs" "back_ok G entry preds rank (rank s) (lr_lhs G n) (rev (lr_rhs G n)) [s]"
    using top(4) m by (simp_all add: move_ok_def st)
  note b = back_chain [OF n(2) c, simplified, unfolded Let_def]
  let ?rest = "drop ?k st" and ?us = "take ?k ts"
  have len: "length st = Suc (length ts)" using chain_length [OF c] by (simp add: st)
  with b obtain p' v' st2 where rest: "?rest = (p', v') # st2" by (cases ?rest) auto
  have fsts: "drop ?k (s # List.map fst st') = List.map fst ?rest"
    by (simp add: st drop_map [symmetric])
  define q where "q = lr_goto G p' (lr_lhs G n)"
  have q: "entry q = N (lr_lhs G n)" "p' \<in> set (preds q)" "rank q + 1 < rank s + int ?k"
      "tree_chain (List.map fst ?rest) (drop ?k ts)" "List.map (root G) ?us = rev (lr_rhs G n)" "?k \<le> length ts"
    using b by (simp_all add: fsts rest q_def)
  have tree: "derives G rs (Node n (rev ?us))"
    using p n(1) q(5) by (auto simp: parsed_def rev_map [symmetric] list_all_iff dest: in_set_takeD)
  have ts: "rev ts = rev (drop ?k ts) @ rev ?us" by (simp add: rev_append [symmetric])
  obtain as1 ws1 as2 ws2 where perf: "performs G [v0] (rev (drop ?k ts)) = (as1, ws1)"
      "performs G ws1 (rev ?us) = (as2, ws2)"
    by (meson surj_pair)
  with p have perf2: "as = as1 @ as2" "ws2 = List.map snd st"
    by (simp_all add: parsed_def ts performs_append)
  have "ws1 = List.map snd ?rest"
    using performs_drop [OF perf(2)] q(6) by (simp add: perf2 drop_map)
  moreover have push: "pop_push G n st = (q, lr_val G n (List.map snd st)) # ?rest"
    by (simp add: pop_push_def rest q_def)
  ultimately have "parsed v0 w (as @ lr_act G n (List.map snd st)) (pop_push G n st, inp) (Node n (rev ?us) # drop ?k ts)"
    using p q tree perf perf2 ts
    by (auto simp: parsed_def push rest performs_append list_all_iff dest: in_set_dropD)
  then show "\<exists>ts'. parsed v0 w (as @ lr_act G n (List.map snd st)) (pop_push G n st, inp) ts'" ..
  show "weight (pop_push G n st, inp) < weight (st, inp)"
    using q(3,6) len by (simp add: weight_def push) (simp add: st)
qed

lemma parsed_step:
  assumes "parsed v0 w as c ts" and "fst ` set w \<subseteq> tokens" and "lr_step G c = Go bs c'"
  shows "(\<exists>ts'. parsed v0 w (as @ bs) c' ts') \<and> weight c' < weight c"
proof -
  obtain st inp where c: "c = (st, inp)" by (cases c)
  note p = assms(1) [unfolded c]
  show ?thesis
  proof (cases "lr_move G (fst (hd st)) (fst (look inp))")
    case (Shift q)
    with parsed_shift [OF p assms(2) this] assms(3) show ?thesis by (simp add: c)
  next
    case (Reduce n)
    with parsed_reduce [OF p assms(2) this] assms(3) show ?thesis by (simp add: c)
  qed (use assms(3) in \<open>simp_all add: c\<close>)
qed

lemma parsed_steps:
  assumes "lr_steps G c bs c'" and "parsed v0 w as c ts" and "fst ` set w \<subseteq> tokens"
  shows "\<exists>ts'. parsed v0 w (as @ bs) c' ts'"
  using assms
proof (induction arbitrary: as ts rule: lr_steps.induct)
  case (lr_more c bs c1 ds c2)
  from parsed_step [OF lr_more(4,5,1)] obtain ts1 where "parsed v0 w (as @ bs) c1 ts1" by blast
  from lr_more.IH [OF this lr_more(5)] show ?case by simp
qed auto

lemma weight_pos:
  assumes "parsed v0 w as c ts" and "fst ` set w \<subseteq> tokens"
  shows "0 < weight c"
proof -
  have "fst c \<noteq> []" "0 \<le> rank (fst (hd (fst c)))" using parsed_top [OF assms] ranks by simp_all
  moreover have "0 \<le> (R + 2) * int (length (snd c))" using bound by simp
  ultimately show ?thesis by (cases "fst c") (simp_all add: weight_def)
qed

text \<open>What is accepted is the yield of a derivation tree, up to the end of the input.\<close>

lemma accepted:
  assumes p: "parsed v0 w as c ts" and w: "fst ` set w \<subseteq> tokens" and d: "lr_step G c = Done"
  shows "\<exists>t rest. derives G rs t \<and> root G t = N start \<and> yield t @ rest = w \<and> fst (look rest) = 1 \<and>
    as = fst (perform G [v0] t)"
proof -
  obtain st inp where c: "c = (st, inp)" by (cases c)
  from d have "lr_move G (fst (hd st)) (fst (look inp)) = Accept" by (auto simp: c split: move.splits)
  with parsed_top(4) [OF p w] have a: "fst (look inp) = 1" "entry (fst (hd st)) = N start" "fst (hd st) \<noteq> 0"
      "preds (fst (hd st)) = [0]"
    by (auto simp: c move_ok_def)
  have ch: "tree_chain (List.map fst st) ts" using p by (simp add: parsed_def c)
  with a(3) obtain s p0 ss t ts' where st: "List.map fst st = s # p0 # ss" "ts = t # ts'"
    by (cases "List.map fst st"; cases ts; cases "List.tl (List.map fst st)") (auto simp: hd_map [symmetric])
  have s: "fst (hd st) = s" using st(1) by (cases st) auto
  from ch have t: "root G t = N start" "p0 = 0" "tree_chain (p0 # ss) ts'" using a(2,4) by (auto simp: st s)
  have "ts' = []" using t(2,3) start_state by (cases ss; cases ts') auto
  with p t(1) show ?thesis
    by (intro exI [of _ t] exI [of _ inp]) (auto simp: parsed_def c st a(1) split: prod.splits)
qed

end

section \<open>Tables that accept all that the grammar derives\<close>

text \<open>
  The check follows every rule from every state that expects its left hand side. It uses the tokens
  with which a symbol can begin and the symbols that can be empty, and for a state and a nonterminal
  that it expects the tokens that can come next after it; there the rule must be reduced.
\<close>

fun firsts :: "(int \<Rightarrow> int list) \<Rightarrow> (int \<Rightarrow> bool) \<Rightarrow> sym list \<Rightarrow> int list \<Rightarrow> int list" where
  "firsts first null [] L = L"
| "firsts first null (T t # Xs) L = [t]"
| "firsts first null (N A # Xs) L = first A @ (if null A then firsts first null Xs L else [])"

definition first_ok :: "'a lr \<Rightarrow> (int \<Rightarrow> int list) \<Rightarrow> (int \<Rightarrow> bool) \<Rightarrow> int \<Rightarrow> bool" where
  "first_ok G first null n \<longleftrightarrow>
     list_all (\<lambda>t. t \<in> set (first (lr_lhs G n))) (firsts first null (lr_rhs G n) []) \<and>
     (null (lr_lhs G n) \<or> list_ex (\<lambda>X. case X of T t \<Rightarrow> True | N A \<Rightarrow> \<not> null A) (lr_rhs G n))"

fun walk :: "'a lr \<Rightarrow> (int \<Rightarrow> int list) \<Rightarrow> (int \<Rightarrow> bool) \<Rightarrow> (int \<Rightarrow> int \<Rightarrow> int list option) \<Rightarrow>
    int \<Rightarrow> int \<Rightarrow> sym list \<Rightarrow> int list \<Rightarrow> bool" where
  "walk G first null la n p [] L = list_all (\<lambda>t. lr_move G p t = Reduce n) L"
| "walk G first null la n p (T t # Xs) L =
     (case lr_move G p t of Shift q \<Rightarrow> walk G first null la n q Xs L | _ \<Rightarrow> False)"
| "walk G first null la n p (N A # Xs) L =
     (case la p A of
        None \<Rightarrow> False
      | Some M \<Rightarrow> list_all (\<lambda>t. t \<in> set M) (firsts first null Xs L) \<and> walk G first null la n (lr_goto G p A) Xs L)"

locale complete_table =
  fixes G :: "'a lr" and rs :: "int list" and start :: int
    and first :: "int \<Rightarrow> int list" and null :: "int \<Rightarrow> bool" and la :: "int \<Rightarrow> int \<Rightarrow> int list option"
  assumes firsts_closed: "n \<in> set rs \<Longrightarrow> first_ok G first null n"
    and rules_walked: "la p A = Some L \<Longrightarrow> n \<in> set rs \<Longrightarrow> lr_lhs G n = A \<Longrightarrow>
        walk G first null la n p (lr_rhs G n) L"
    and start_expected: "la 0 start = Some [1]"
    and accepts: "lr_move G (lr_goto G 0 start) 1 = Accept"
begin

definition begins :: "sym \<Rightarrow> word_in \<Rightarrow> bool" where
  "begins X w \<longleftrightarrow>
     (case X of T t \<Rightarrow> w \<noteq> [] \<and> fst (hd w) = t
      | N A \<Rightarrow> if w = [] then null A else fst (hd w) \<in> set (first A))"

lemma begins_firsts:
  "list_all2 begins Xs ws \<Longrightarrow> fst (look inp) \<in> set L \<Longrightarrow>
    fst (look (concat ws @ inp)) \<in> set (firsts first null Xs L)"
proof (induction Xs arbitrary: ws)
  case (Cons X Xs)
  then obtain w ws' where ws: "ws = w # ws'" "begins X w" "list_all2 begins Xs ws'"
    by (auto simp: list_all2_Cons1)
  from Cons.IH [OF ws(3) Cons.prems(2)] show ?case
    using ws(2) by (cases X; cases w) (auto simp: begins_def ws(1) look_def)
qed simp

lemma begins_nonempty:
  "list_all2 begins Xs ws \<Longrightarrow> concat ws = x # w' \<Longrightarrow> fst x \<in> set (firsts first null Xs L)"
proof (induction Xs arbitrary: ws)
  case (Cons X Xs)
  then obtain w ws' where ws: "ws = w # ws'" "begins X w" "list_all2 begins Xs ws'"
    by (auto simp: list_all2_Cons1)
  show ?case
  proof (cases w)
    case Nil
    with Cons.prems(2) ws(1) have "concat ws' = x # w'" by simp
    from Cons.IH [OF ws(3) this] ws(2) Nil show ?thesis by (cases X) (simp_all add: begins_def)
  next
    case (Cons y ys)
    with Cons.prems(2) ws(1,2) show ?thesis by (cases X) (simp_all add: begins_def)
  qed
qed auto

lemma begins_empty:
  "list_all2 begins Xs ws \<Longrightarrow> concat ws = [] \<Longrightarrow> X \<in> set Xs \<Longrightarrow> \<exists>A. X = N A \<and> null A"
  by (induction rule: list_all2_induct) (auto simp: begins_def split: sym.splits)

lemma trees_begin:
  "(\<And>t. t \<in> set ts \<Longrightarrow> begins (root G t) (yield t)) \<Longrightarrow>
    list_all2 begins (List.map (root G) ts) (List.map yield ts)"
  by (induction ts) auto

lemma tree_begins: "derives G rs t \<Longrightarrow> begins (root G t) (yield t)"
proof (induction t)
  case (Node n ts)
  have all: "list_all2 begins (lr_rhs G n) (List.map yield ts)"
    using trees_begin [of ts] Node by (simp add: list_all_iff)
  from Node have ok: "first_ok G first null n" by (auto intro: firsts_closed)
  show ?case
  proof (cases "concat (List.map yield ts)")
    case Nil
    with ok begins_empty [OF all Nil] show ?thesis by (fastforce simp: first_ok_def begins_def list_ex_iff)
  next
    case (Cons x w)
    from begins_nonempty [OF all Cons, of "[]"] ok Cons show ?thesis
      by (simp add: first_ok_def begins_def list_all_iff)
  qed
qed (simp add: begins_def)

text \<open>The machine on a tree, from a state that expects its root.\<close>

definition runs :: "tree \<Rightarrow> bool" where
  "runs t \<longleftrightarrow> (\<forall>A p L inp v st as w. root G t = N A \<longrightarrow> la p A = Some L \<longrightarrow> fst (look inp) \<in> set L \<longrightarrow>
     perform G (v # List.map snd st) t = (as, w) \<longrightarrow>
     lr_steps G ((p, v) # st, yield t @ inp) as ((lr_goto G p A, w) # (p, v) # st, inp))"

lemma runsD:
  assumes "runs t" and "root G t = N A" and "la p A = Some L" and "fst (look inp) \<in> set L"
    and "perform G (v # List.map snd st) t = (as, w)"
  shows "lr_steps G ((p, v) # st, yield t @ inp) as ((lr_goto G p A, w) # (p, v) # st, inp)"
  using assms unfolding runs_def by blast

text \<open>The machine on the right hand side of a rule: it comes to a state that reduces the rule.\<close>

lemma runs_list:
  assumes "\<forall>t A. t \<in> set ts \<longrightarrow> root G t = N A \<longrightarrow> runs t" and "list_all (derives G rs) ts"
    and "walk G first null la n p (List.map (root G) ts) L" and "fst (look inp) \<in> set L"
    and "performs G (v # List.map snd st) ts = (as, ws)"
  shows "\<exists>q u cs. lr_steps G ((p, v) # st, concat (List.map yield ts) @ inp) as ((q, u) # cs, inp) \<and>
      drop (length ts) ((q, u) # cs) = (p, v) # st \<and> u # List.map snd cs = ws \<and>
      lr_move G q (fst (look inp)) = Reduce n"
  using assms
proof (induction ts arbitrary: p v st as)
  case Nil
  then show ?case by (auto simp: list_all_iff intro: lr_refl)
next
  case (Cons t ts)
  let ?rest = "concat (List.map yield ts) @ inp"
  obtain as1 w as2 where perf: "perform G (v # List.map snd st) t = (as1, w)"
      "performs G (w # v # List.map snd st) ts = (as2, ws)" "as = as1 @ as2"
    using Cons.prems(5) by (auto split: prod.splits)
  have steps: "\<exists>q. lr_steps G ((p, v) # st, yield t @ ?rest) as1 ((q, w) # (p, v) # st, ?rest) \<and>
      walk G first null la n q (List.map (root G) ts) L"
  proof (cases t)
    case (Leaf x y)
    with Cons.prems(3) obtain q where q: "lr_move G p x = Shift q" "walk G first null la n q (List.map (root G) ts) L"
      by (auto split: move.splits)
    have "lr_step G ((p, v) # st, yield t @ ?rest) = Go [] ((q, y) # (p, v) # st, ?rest)"
      using q(1) by (simp add: Leaf look_def)
    from lr_steps_one [OF this] q(2) perf(1) Leaf show ?thesis by auto
  next
    case (Node m us)
    let ?A = "lr_lhs G m"
    from Cons.prems(3) Node obtain M where M: "la p ?A = Some M"
        "list_all (\<lambda>t. t \<in> set M) (firsts first null (List.map (root G) ts) L)"
        "walk G first null la n (lr_goto G p ?A) (List.map (root G) ts) L"
      by (auto split: option.splits)
    have "list_all2 begins (List.map (root G) ts) (List.map yield ts)"
      using Cons.prems(2) by (intro trees_begin tree_begins) (simp add: list_all_iff)
    from begins_firsts [OF this Cons.prems(4)] M(2) have "fst (look ?rest) \<in> set M"
      by (auto simp: list_all_iff)
    moreover have r: "root G t = N ?A" by (simp add: Node)
    moreover have "runs t" using Cons.prems(1) r by simp
    ultimately have "lr_steps G ((p, v) # st, yield t @ ?rest) as1 ((lr_goto G p ?A, w) # (p, v) # st, ?rest)"
      using M(1) perf(1) by (intro runsD)
    with M(3) show ?thesis by blast
  qed
  then obtain q where q: "lr_steps G ((p, v) # st, yield t @ ?rest) as1 ((q, w) # (p, v) # st, ?rest)"
      "walk G first null la n q (List.map (root G) ts) L"
    by blast
  have "\<exists>q' u cs. lr_steps G ((q, w) # (p, v) # st, ?rest) as2 ((q', u) # cs, inp) \<and>
      drop (length ts) ((q', u) # cs) = (q, w) # (p, v) # st \<and> u # List.map snd cs = ws \<and>
      lr_move G q' (fst (look inp)) = Reduce n"
    using Cons.prems(1,2,4) q(2) perf(2) by (intro Cons.IH) auto
  then obtain q' u cs where rest: "lr_steps G ((q, w) # (p, v) # st, ?rest) as2 ((q', u) # cs, inp)"
      "drop (length ts) ((q', u) # cs) = (q, w) # (p, v) # st" "u # List.map snd cs = ws"
      "lr_move G q' (fst (look inp)) = Reduce n"
    by blast
  have "drop (length (t # ts)) ((q', u) # cs) = List.tl (drop (length ts) ((q', u) # cs))"
    by (simp add: drop_Suc tl_drop)
  also have "\<dots> = (p, v) # st" by (simp only: rest(2) list.sel)
  finally show ?case
    using lr_steps_trans [OF q(1) rest(1)] rest(3,4) perf(3)
    by (intro exI [of _ q'] exI [of _ u] exI [of _ cs]) simp
qed

lemma runs_tree: "derives G rs t \<Longrightarrow> root G t = N A \<Longrightarrow> runs t"
proof (induction t arbitrary: A)
  case (Node n ts)
  show ?case
    unfolding runs_def
  proof (intro allI impI)
    fix A p L inp v as w and st :: "(int \<times> string) list"
    assume A: "root G (Node n ts) = N A" "la p A = Some L" "fst (look inp) \<in> set L"
      "perform G (v # List.map snd st) (Node n ts) = (as, w)"
    from A(4) obtain bs ws where perf: "performs G (v # List.map snd st) ts = (bs, ws)"
        "as = bs @ lr_act G n ws" "w = lr_val G n ws"
      by (auto split: prod.splits)
    have rhs: "List.map (root G) ts = lr_rhs G n" "length (lr_rhs G n) = length ts"
      using Node.prems(1) by (auto dest: arg_cong [of _ _ length])
    have wk: "walk G first null la n p (List.map (root G) ts) L"
      using rules_walked [OF A(2), of n] A(1) Node.prems(1) rhs by simp
    have sub: "list_all (derives G rs) ts" "\<forall>t A. t \<in> set ts \<longrightarrow> root G t = N A \<longrightarrow> runs t"
      using Node.IH Node.prems(1) by (auto simp: list_all_iff)
    from runs_list [OF sub(2,1) wk A(3) perf(1)] obtain q u cs where
        steps: "lr_steps G ((p, v) # st, concat (List.map yield ts) @ inp) bs ((q, u) # cs, inp)"
        "drop (length ts) ((q, u) # cs) = (p, v) # st" "u # List.map snd cs = ws"
        "lr_move G q (fst (look inp)) = Reduce n"
      by blast
    have "lr_step G ((q, u) # cs, inp) = Go (lr_act G n ws) ((lr_goto G p A, w) # (p, v) # st, inp)"
      using steps(2-4) A(1) perf(3) rhs(2) by (simp add: pop_push_def Let_def)
    from lr_steps_snoc [OF steps(1) this] perf(2)
    show "lr_steps G ((p, v) # st, yield (Node n ts) @ inp) as ((lr_goto G p A, w) # (p, v) # st, inp)"
      by simp
  qed
qed simp

text \<open>Every derivation tree is accepted, with its actions.\<close>

lemma accepts_tree:
  assumes "derives G rs t" and "root G t = N start"
  shows "\<exists>c. lr_steps G ([(0, v)], yield t) (fst (perform G [v] t)) c \<and> lr_step G c = Done"
proof -
  obtain as w where perf: "perform G [v] t = (as, w)" by (cases "perform G [v] t")
  have "lr_steps G ([(0, v)], yield t @ []) as ([(lr_goto G 0 start, w), (0, v)], [])"
    by (rule runsD [OF runs_tree [OF assms] assms(2) start_expected]) (simp_all add: look_def perf)
  moreover have "lr_step G ([(lr_goto G 0 start, w), (0, v)], []) = Done"
    by (simp add: look_def accepts)
  ultimately show ?thesis using perf by (metis append_Nil2 fst_conv)
qed

end

end
