(* ===== verification/Lvgen_Generate.thy ===== *)
theory Lvgen_Generate
  imports Lvgen_Names
begin

text \<open>
  The declarations that the protocol generator collects (\<open>src/internal/lvgen/generate.go\<close>): the records,
  the actions that the parser calls, and the passes after parsing. Package variables are the fields of
  one record. An action returns a new state, an error or a panic; \<open>None\<close> is an action that does not
  return, because \<open>fixAbbrevs\<close> does not.
\<close>

section \<open>The records\<close>

record Decl =
  Decl_Name :: string
  Decl_LVName :: string
  Decl_Type :: string

record ConstItem =
  Const_Name :: string
  Const_LVName :: string
  Const_Val :: string

record Structure =
  Struct_Name :: string
  Struct_LVName :: string
  Members :: "Decl list"

record Case = Decl +
  CaseName :: string
  DiscriminantVal :: string

record Union =
  Union_Name :: string
  DiscriminantType :: string
  Cases :: "Case list"

record Proc =
  Proc_Program :: string
  Proc_Num :: i64
  Proc_Name :: string
  Proc_LVName :: string
  Args :: "Decl list"
  Ret :: "Decl list"
  ArgsStruct :: string
  RetStruct :: string
  ReadStreamIdx :: int
  WriteStreamIdx :: int

record ProcMeta =
  ReadStream :: int
  WriteStream :: int

record Generator =
  Enums :: "Decl list"
  EnumVals :: "ConstItem list"
  Consts :: "ConstItem list"
  Structs :: "Structure list"
  StructMap :: "string \<rightharpoonup> nat"
  Typedefs :: "Decl list"
  Unions :: "Union list"
  UnionMap :: "string \<rightharpoonup> nat"
  Procs :: "Proc list"

definition newGenerator :: Generator where
  "newGenerator =
     \<lparr>Enums = [], EnumVals = [], Consts = [], Structs = [], StructMap = Map.empty, Typedefs = [],
      Unions = [], UnionMap = Map.empty, Procs = []\<rparr>"

text \<open>The package variables; the open structures are a stack with its top first.\<close>

record gen_state =
  Gen :: Generator
  CurrentEnumVal :: i64
  CurrentStruct :: "Structure list"
  CurrentTypedef :: "Decl option"
  CurrentUnion :: "Union option"
  CurrentCase :: "Case option"
  equivTypes :: equiv

text \<open>The state in which \<open>Generate\<close> of a new process starts the parser.\<close>

definition init_state :: gen_state where
  "init_state =
     \<lparr>Gen = newGenerator, CurrentEnumVal = 0, CurrentStruct = [], CurrentTypedef = None,
      CurrentUnion = None, CurrentCase = None, equivTypes = map_of goEquivTypes\<rparr>"

abbreviation upd :: "(Generator \<Rightarrow> Generator) \<Rightarrow> gen_state \<Rightarrow> gen_state" where
  "upd f s \<equiv> s\<lparr>Gen := f (Gen s)\<rparr>"

section \<open>Outcomes\<close>

type_synonym 'a outcome = "(string, 'a) res option"

abbreviation done_with :: "'a \<Rightarrow> 'a outcome" where
  "done_with a \<equiv> Some (Ok a)"

definition and_then :: "'a outcome \<Rightarrow> ('a \<Rightarrow> 'b outcome) \<Rightarrow> 'b outcome" where
  "and_then m f =
     (case m of None \<Rightarrow> None | Some (Ok a) \<Rightarrow> f a | Some (Err e) \<Rightarrow> Some (Err e) | Some Panic \<Rightarrow> Some Panic)"

definition name_of :: "string option \<Rightarrow> string outcome" where
  "name_of n = map_option Ok n"

lemma and_then_simps [simp]:
  "and_then None f = None" "and_then (Some (Ok a)) f = f a" "and_then (Some (Err e)) f = Some (Err e)"
  "and_then (Some Panic) f = Some Panic"
  by (simp_all add: and_then_def)

lemma name_of_simps [simp]: "name_of (Some n) = Some (Ok n)" "name_of None = None"
  by (simp_all add: name_of_def)

section \<open>Numbers\<close>

definition digit_value :: "char \<Rightarrow> nat option" where
  "digit_value c =
     (let n = of_char c in
      if 48 \<le> n \<and> n \<le> 57 then Some (n - 48)
      else if 97 \<le> n \<and> n \<le> 122 then Some (n - 87)
      else if 65 \<le> n \<and> n \<le> 90 then Some (n - 55)
      else None)"

fun read_base :: "nat \<Rightarrow> string \<Rightarrow> nat \<Rightarrow> nat option" where
  "read_base base [] acc = Some acc"
| "read_base base (c # cs) acc =
     (case digit_value c of
        Some d \<Rightarrow> if d < base then read_base base cs (acc * base + d) else None
      | None \<Rightarrow> None)"

text \<open>\<open>strconv.ParseInt\<close> for 64 bits; None where it returns an error.\<close>

definition ParseInt :: "string \<Rightarrow> nat \<Rightarrow> i64 option" where
  "ParseInt s base =
     (let neg = (s \<noteq> [] \<and> hd s = CHR ''-'');
          ds = (if s \<noteq> [] \<and> (hd s = CHR ''-'' \<or> hd s = CHR ''+'') then List.tl s else s)
      in if ds = [] then None
         else case read_base base ds 0 of
                None \<Rightarrow> None
              | Some n \<Rightarrow>
                  if neg then (if n \<le> 2 ^ 63 then Some (word_of_int (- int n)) else None)
                  else if n < 2 ^ 63 then Some (word_of_nat n) else None)"

definition parseNumber :: "string \<Rightarrow> i64 option" where
  "parseNumber val =
     (if has_prefix val ''0x'' then ParseInt (drop 2 val) 16 else ParseInt val 10)"

definition FormatInt :: "i64 \<Rightarrow> string" where
  "FormatInt v = show_int (sint v)"

section \<open>Enums and constants\<close>

definition StartEnum :: "string \<Rightarrow> gen_state \<Rightarrow> gen_state outcome" where
  "StartEnum name s =
     and_then (name_of (identifierTransform (equivTypes s) name)) (\<lambda>goname.
       done_with (upd (\<lambda>g. g\<lparr>Enums := Enums g @
           [\<lparr>Decl_Name = goname, Decl_LVName = name, Decl_Type = ''int32''\<rparr>]\<rparr>) s
         \<lparr>CurrentEnumVal := -1\<rparr>))"

definition addEnumVal :: "string \<Rightarrow> i64 \<Rightarrow> gen_state \<Rightarrow> gen_state outcome" where
  "addEnumVal name val s =
     and_then (name_of (constNameTransform name)) (\<lambda>goname.
       done_with (upd (\<lambda>g. g\<lparr>EnumVals := EnumVals g @
           [\<lparr>Const_Name = goname, Const_LVName = name, Const_Val = FormatInt val\<rparr>]\<rparr>) s
         \<lparr>CurrentEnumVal := val\<rparr>))"

definition AddEnumVal :: "string \<Rightarrow> string \<Rightarrow> gen_state \<Rightarrow> gen_state outcome" where
  "AddEnumVal name val s =
     (case parseNumber val of
        None \<Rightarrow> Some (Err (''invalid enum value '' @ name @ '' = '' @ val))
      | Some ev \<Rightarrow> addEnumVal name ev s)"

definition AddEnumAutoVal :: "string \<Rightarrow> gen_state \<Rightarrow> gen_state outcome" where
  "AddEnumAutoVal name s =
     (let s1 = s\<lparr>CurrentEnumVal := CurrentEnumVal s + 1\<rparr> in addEnumVal name (CurrentEnumVal s1) s1)"

definition AddConst :: "string \<Rightarrow> string \<Rightarrow> gen_state \<Rightarrow> gen_state outcome" where
  "AddConst name val s =
     (case parseNumber val of
        None \<Rightarrow> Some (Err (''invalid const value '' @ name @ '' = '' @ val))
      | Some _ \<Rightarrow>
          and_then (name_of (constNameTransform name)) (\<lambda>goname.
            done_with (upd (\<lambda>g. g\<lparr>Consts := Consts g @
                [\<lparr>Const_Name = goname, Const_LVName = name, Const_Val = val\<rparr>]\<rparr>) s)))"

section \<open>Procedures\<close>

text \<open>The name of the program; without \<open>PROC_\<close> in the name the slice expression panics.\<close>

definition procProgramName :: "string \<Rightarrow> string outcome" where
  "procProgramName name =
     (case str_index name ''PROC_'' of
        None \<Rightarrow> Some Panic
      | Some ix \<Rightarrow> name_of (constNameTransform (take ix name)))"

text \<open>The loop of \<open>parseMeta\<close> over the lines of a comment.\<close>

fun meta_lines :: "string \<Rightarrow> string list \<Rightarrow> ProcMeta \<Rightarrow> (string, ProcMeta) res" where
  "meta_lines meta [] m = Ok m"
| "meta_lines meta (line # ls) m =
     (case str_index line ''@'' of
        None \<Rightarrow> meta_lines meta ls m
      | Some atInd \<Rightarrow>
          (case split2_char CHR '':'' (drop (atInd + 1) line) of
             [key, v] \<Rightarrow>
               (let val = trim_right (trim_left v {CHR '' ''}) {CHR '' ''} in
                if key = ''readstream'' then
                  (case atoi val of
                     None \<Rightarrow> Err (''invalid value for readstream: '' @ val)
                   | Some n \<Rightarrow> meta_lines meta ls (m\<lparr>ReadStream := n\<rparr>))
                else if key = ''writestream'' then
                  (case atoi val of
                     None \<Rightarrow> Err (''invalid value for writestream: '' @ val)
                   | Some n \<Rightarrow> meta_lines meta ls (m\<lparr>WriteStream := n\<rparr>))
                else meta_lines meta ls m)
           | _ \<Rightarrow> Err (''invalid annotation: '' @ meta)))"

definition parseMeta :: "string \<Rightarrow> (string, ProcMeta) res" where
  "parseMeta meta = meta_lines meta (split_char CHR 0x0A meta) \<lparr>ReadStream = -1, WriteStream = -1\<rparr>"

definition AddProcEnumVal :: "string \<Rightarrow> string \<Rightarrow> string \<Rightarrow> gen_state \<Rightarrow> gen_state outcome" where
  "AddProcEnumVal name val meta s =
     (case parseNumber val of
        None \<Rightarrow> Some (Err (''invalid enum value '' @ name @ '' = '' @ val))
      | Some ev \<Rightarrow>
          (case parseMeta meta of
             Err e \<Rightarrow> Some (Err (''invalid metadata for enum value '' @ name @ '': '' @ e))
           | Panic \<Rightarrow> Some Panic
           | Ok metaObj \<Rightarrow>
               and_then (procProgramName name) (\<lambda>program.
               and_then (name_of (procNameTransform name)) (\<lambda>procName.
               and_then (name_of (constNameTransform name)) (\<lambda>enumName.
                 done_with (upd (\<lambda>g. g\<lparr>
                     EnumVals := EnumVals g @
                       [\<lparr>Const_Name = enumName, Const_LVName = name, Const_Val = FormatInt ev\<rparr>],
                     Procs := Procs g @
                       [\<lparr>Proc_Program = program, Proc_Num = ev, Proc_Name = procName, Proc_LVName = name,
                         Args = [], Ret = [], ArgsStruct = [], RetStruct = [],
                         ReadStreamIdx = ReadStream metaObj, WriteStreamIdx = WriteStream metaObj\<rparr>]\<rparr>)
                   s\<lparr>CurrentEnumVal := ev\<rparr>))))))"

section \<open>Declarations\<close>

definition NewDecl :: "equiv \<Rightarrow> string \<Rightarrow> string \<Rightarrow> Decl outcome" where
  "NewDecl m identifier itype =
     and_then (name_of (identifierTransform m identifier)) (\<lambda>goidentifier.
     and_then (name_of (typeTransform m itype)) (\<lambda>t.
       done_with \<lparr>Decl_Name = goidentifier, Decl_LVName = identifier, Decl_Type = t\<rparr>))"

definition StartStruct :: "string \<Rightarrow> gen_state \<Rightarrow> gen_state outcome" where
  "StartStruct name s =
     and_then (name_of (identifierTransform (equivTypes s) name)) (\<lambda>goname.
       done_with (s\<lparr>CurrentStruct := \<lparr>Struct_Name = goname, Struct_LVName = name, Members = []\<rparr> # CurrentStruct s\<rparr>))"

text \<open>\<open>AddStruct\<close> follows the pointer that \<open>pop\<close> returns, which is nil for an empty stack.\<close>

definition AddStruct :: "gen_state \<Rightarrow> gen_state outcome" where
  "AddStruct s =
     (case CurrentStruct s of
        [] \<Rightarrow> Some Panic
      | st # rest \<Rightarrow>
          done_with (upd (\<lambda>g. g\<lparr>StructMap := (StructMap g)(Struct_Name st \<mapsto> length (Structs g)),
              Structs := Structs g @ [st]\<rparr>) (s\<lparr>CurrentStruct := rest\<rparr>)))"

definition StartTypedef :: "gen_state \<Rightarrow> gen_state outcome" where
  "StartTypedef s =
     done_with (s\<lparr>CurrentTypedef := Some \<lparr>Decl_Name = [], Decl_LVName = [], Decl_Type = []\<rparr>\<rparr>)"

definition StartUnion :: "string \<Rightarrow> gen_state \<Rightarrow> gen_state outcome" where
  "StartUnion name s =
     and_then (name_of (identifierTransform (equivTypes s) name)) (\<lambda>n.
       done_with (s\<lparr>CurrentUnion := Some \<lparr>Union_Name = n, DiscriminantType = [], Cases = []\<rparr>\<rparr>))"

definition AddUnion :: "gen_state \<Rightarrow> gen_state outcome" where
  "AddUnion s =
     (case CurrentUnion s of
        None \<Rightarrow> Some Panic
      | Some u \<Rightarrow>
          done_with (upd (\<lambda>g. g\<lparr>UnionMap := (UnionMap g)(Union_Name u \<mapsto> length (Unions g)),
              Unions := Unions g @ [u]\<rparr>) s\<lparr>CurrentUnion := None\<rparr>))"

definition lvTypedParams :: "(string \<times> nat) list" where
  "lvTypedParams =
     [(''VIR_TYPED_PARAM_INT'', 1), (''VIR_TYPED_PARAM_UINT'', 2), (''VIR_TYPED_PARAM_LLONG'', 3),
      (''VIR_TYPED_PARAM_ULLONG'', 4), (''VIR_TYPED_PARAM_DOUBLE'', 5), (''VIR_TYPED_PARAM_BOOLEAN'', 6),
      (''VIR_TYPED_PARAM_STRING'', 7)]"

text \<open>The part of a name behind the last underscore (\<open>strings.LastIndexByte\<close>).\<close>

definition last_word :: "string \<Rightarrow> string" where
  "last_word s = rev (takeWhile (\<lambda>c. c \<noteq> CHR ''_'') (rev s))"

definition StartCase :: "string \<Rightarrow> gen_state \<Rightarrow> gen_state outcome" where
  "StartCase dvalue s =
     (let caseName = fromSnakeToCamel (last_word dvalue);
          dv = (case map_of lvTypedParams dvalue of Some n \<Rightarrow> show_nat n | None \<Rightarrow> dvalue)
      in done_with (s\<lparr>CurrentCase := Some
           \<lparr>Decl_Name = [], Decl_LVName = [], Decl_Type = [], CaseName = caseName, DiscriminantVal = dv\<rparr>\<rparr>))"

text \<open>\<open>AddCase\<close> follows \<open>CurrentUnion\<close> and \<open>CurrentCase\<close>, which may be nil.\<close>

definition AddCase :: "gen_state \<Rightarrow> gen_state outcome" where
  "AddCase s =
     (case (CurrentUnion s, CurrentCase s) of
        (Some u, Some c) \<Rightarrow> done_with (s\<lparr>CurrentUnion := Some (u\<lparr>Cases := Cases u @ [c]\<rparr>), CurrentCase := None\<rparr>)
      | _ \<Rightarrow> Some Panic)"

definition addDecl :: "Decl \<Rightarrow> gen_state \<Rightarrow> gen_state" where
  "addDecl decl s =
     (case CurrentStruct s of
        st # rest \<Rightarrow> s\<lparr>CurrentStruct := st\<lparr>Members := Members st @ [decl]\<rparr> # rest\<rparr>
      | [] \<Rightarrow>
          (case CurrentTypedef s of
             Some t \<Rightarrow>
               (if Decl_Name decl \<noteq> ''string'' then upd (\<lambda>g. g\<lparr>Typedefs := Typedefs g @ [decl]\<rparr>) s else s)
               \<lparr>CurrentTypedef := None\<rparr>
           | None \<Rightarrow>
               (case CurrentCase s of
                  Some c \<Rightarrow> s\<lparr>CurrentCase := Some (c\<lparr>Decl_Name := Decl_Name decl, Decl_Type := Decl_Type decl\<rparr>)\<rparr>
                | None \<Rightarrow>
                    (case CurrentUnion s of
                       Some u \<Rightarrow> s\<lparr>CurrentUnion := Some (u\<lparr>DiscriminantType := Decl_Type decl\<rparr>)\<rparr>
                     | None \<Rightarrow> s))))"

definition AddDeclaration :: "string \<Rightarrow> string \<Rightarrow> gen_state \<Rightarrow> gen_state outcome" where
  "AddDeclaration identifier itype s =
     and_then (NewDecl (equivTypes s) identifier itype) (\<lambda>d. done_with (addDecl d s))"

definition AddFixedArray :: "string \<Rightarrow> string \<Rightarrow> string \<Rightarrow> gen_state \<Rightarrow> gen_state outcome" where
  "AddFixedArray identifier itype len s = AddDeclaration identifier (''['' @ len @ '']'' @ itype) s"

definition AddVariableArray :: "string \<Rightarrow> string \<Rightarrow> string \<Rightarrow> gen_state \<Rightarrow> gen_state outcome" where
  "AddVariableArray identifier itype len s =
     AddDeclaration identifier (if itype = ''string'' then itype else ''[]'' @ itype) s"

definition AddOptValue :: "string \<Rightarrow> string \<Rightarrow> gen_state \<Rightarrow> gen_state outcome" where
  "AddOptValue identifier itype s =
     and_then (NewDecl (equivTypes s) identifier (''[]'' @ itype)) (\<lambda>d.
       let newType = ''Opt'' @ Decl_Name d in
       done_with (addDecl (d\<lparr>Decl_Name := newType\<rparr>) (s\<lparr>equivTypes := (equivTypes s)(Decl_Name d \<mapsto> newType)\<rparr>)))"

section \<open>After parsing\<close>

text \<open>
  \<open>findFlagType\<close> and its table. The names of the types of \<open>const.gen.go\<close> that are \<open>int32\<close>, which
  \<open>mapFlagTypes\<close> finds with Go's own parser, are a parameter.
\<close>

definition flagMap :: "(string \<times> string) list" where
  "flagMap =
     [(''ConnectOpen'', ''ConnectFlags''), (''DomainAddIothread'', ''DomainModificationImpact''),
      (''DomainCoreDumpWithFormat'', ''DomainCoreDumpFlags''), (''DomainCreateXML'', ''DomainCreateFlags''),
      (''DomainCreateWithFiles'', ''DomainCreateFlags''), (''DomainCreateXMLWithFiles'', ''DomainCreateFlags''),
      (''DomainDefineXMLFlags'', ''DomainDefineFlags''), (''DomainDelIothread'', ''DomainModificationImpact''),
      (''DomainDestroyFlags'', ''DomainDestroyFlagsValues''), (''DomainGetCPUStats'', ''TypedParameterFlags''),
      (''DomainGetEmulatorPinInfo'', ''DomainModificationImpact''),
      (''DomainGetInterfaceParameters'', ''DomainModificationImpact''),
      (''DomainGetIothreadInfo'', ''DomainModificationImpact''), (''DomainGetMetadata'', ''DomainModificationImpact''),
      (''DomainGetPerfEvents'', ''DomainModificationImpact''), (''DomainGetXMLDesc'', ''DomainXMLFlags''),
      (''DomainManagedSaveDefineXML'', ''DomainSaveRestoreFlags''),
      (''DomainManagedSaveGetXMLDesc'', ''DomainXMLFlags''), (''DomainMemoryPeek'', ''DomainMemoryFlags''),
      (''DomainMigratePerform3Params'', ''DomainMigrateFlags''), (''DomainOpenChannel'', ''DomainChannelFlags''),
      (''DomainOpenGraphicsFd'', ''DomainOpenGraphicsFlags''), (''DomainPinEmulator'', ''DomainModificationImpact''),
      (''DomainPinIothread'', ''DomainModificationImpact''), (''DomainSetLifecycleAction'', ''DomainModificationImpact''),
      (''DomainSetMemoryStatsPeriod'', ''DomainMemoryModFlags''), (''DomainSetMetadata'', ''DomainModificationImpact''),
      (''DomainSetPerfEvents'', ''DomainModificationImpact''), (''DomainSetVcpu'', ''DomainModificationImpact''),
      (''DomainShutdownFlags'', ''DomainShutdownFlagValues''), (''DomainUndefineFlags'', ''DomainUndefineFlagsValues''),
      (''DomainUpdateDeviceFlags'', ''DomainDeviceModifyFlags''), (''StoragePoolCreateXML'', ''StoragePoolCreateFlags''),
      (''StoragePoolGetXMLDesc'', ''StorageXMLFlags''), (''StorageVolCreateXML'', ''StorageVolCreateFlags''),
      (''StorageVolCreateXMLFrom'', ''StorageVolCreateFlags'')]"

definition findFlagType :: "string set \<Rightarrow> string \<Rightarrow> string option" where
  "findFlagType flagTypes procName =
     (case map_of flagMap procName of
        Some flagName \<Rightarrow> if flagName \<in> flagTypes then Some flagName else None
      | None \<Rightarrow>
          List.find (\<lambda>n. n \<in> flagTypes)
            [procName @ ''Flags'', procName @ ''FlagValues'', procName @ ''FlagsValues''])"

definition changeFlagType :: "string set \<Rightarrow> string \<Rightarrow> Decl list \<Rightarrow> Decl list" where
  "changeFlagType flagTypes procName ds =
     List.map (\<lambda>d. if Decl_Name d = ''Flags''
       then (case findFlagType flagTypes procName of Some t \<Rightarrow> d\<lparr>Decl_Type := t\<rparr> | None \<Rightarrow> d) else d) ds"

text \<open>
  The loop of \<open>procLink\<close> for one procedure. The copy of the argument structure shares its members with
  the one in the list of structures, so that the change of the flags' type is seen there too.
\<close>

definition link_args :: "string set \<Rightarrow> Proc \<Rightarrow> Generator \<Rightarrow> Proc \<times> Generator" where
  "link_args flagTypes p g =
     (case StructMap g (Proc_Name p @ ''Args'') of
        None \<Rightarrow> (p, g)
      | Some ix \<Rightarrow>
          let st = Structs g ! ix; ms = changeFlagType flagTypes (Proc_Name p) (Members st)
          in (p\<lparr>ArgsStruct := Struct_Name st, Args := ms\<rparr>, g\<lparr>Structs := (Structs g)[ix := st\<lparr>Members := ms\<rparr>]\<rparr>))"

definition link_ret :: "Proc \<Rightarrow> Generator \<Rightarrow> Proc" where
  "link_ret p g =
     (case StructMap g (Proc_Name p @ ''Ret'') of
        None \<Rightarrow> p
      | Some ix \<Rightarrow> let st = Structs g ! ix in p\<lparr>RetStruct := Struct_Name st, Ret := Members st\<rparr>)"

definition link_proc :: "string set \<Rightarrow> Proc \<Rightarrow> Generator \<Rightarrow> Proc \<times> Generator" where
  "link_proc flagTypes p g = (case link_args flagTypes p g of (p1, g1) \<Rightarrow> (link_ret p1 g1, g1))"

fun link_procs :: "string set \<Rightarrow> Proc list \<Rightarrow> Generator \<Rightarrow> Proc list \<times> Generator" where
  "link_procs ft [] g = ([], g)"
| "link_procs ft (p # ps) g =
     (case link_proc ft p g of (p1, g1) \<Rightarrow>
        (case link_procs ft ps g1 of (qs, g2) \<Rightarrow> (p1 # qs, g2)))"

definition procLink :: "string set \<Rightarrow> Generator \<Rightarrow> Generator" where
  "procLink flagTypes g =
     (case link_procs flagTypes (Procs g) g of (ps, g1) \<Rightarrow> g1\<lparr>Procs := ps\<rparr>)"

definition bidirectionalStreamProcs :: "(string \<times> string) list" where
  "bidirectionalStreamProcs = [(''DomainOpenConsole'', ''DomainOpenConsoleBidirectional'')]"

definition addBidirectionalProcs :: "Generator \<Rightarrow> Generator" where
  "addBidirectionalProcs g =
     g\<lparr>Procs := Procs g @
        concat (List.map (\<lambda>p.
          case map_of bidirectionalStreamProcs (Proc_Name p) of
            None \<Rightarrow> []
          | Some newName \<Rightarrow>
              if ReadStreamIdx p = -1 then []
              else [p\<lparr>Proc_Name := newName, WriteStreamIdx := ReadStreamIdx p\<rparr>]) (Procs g))\<rparr>"

definition GetUnion :: "Generator \<Rightarrow> Decl \<Rightarrow> Union" where
  "GetUnion g decl =
     (case UnionMap g (Decl_Type decl) of
        Some ix \<Rightarrow> Unions g ! ix
      | None \<Rightarrow> \<lparr>Union_Name = [], DiscriminantType = [], Cases = []\<rparr>)"

end
