(* ===== verification/Lvgen_Lexer.thy ===== *)
theory Lvgen_Lexer
  imports Go_Strings "HOL-Library.Sublist"
begin

text \<open>
  The lexer of the protocol generator (\<open>src/internal/lvgen/lvlexer.go\<close>): the cursor with \<open>next\<close>,
  \<open>backup\<close>, \<open>peek\<close> and \<open>accept\<close>, the state functions, and \<open>Run\<close>, which calls one state function after
  the other. The input is the sequence of runes of a valid UTF-8 text, so that the width of a rune is
  one and the width at the end of the input is zero; the classes of the package \<open>unicode\<close> are
  parameters.
\<close>

section \<open>The cursor\<close>

type_synonym rune = nat

definition runes :: "string \<Rightarrow> rune list" where
  "runes s = List.map of_char s"

record unicode =
  IsLetter :: "rune \<Rightarrow> bool"
  IsDigit :: "rune \<Rightarrow> bool"
  IsNumber :: "rune \<Rightarrow> bool"
  IsSpace :: "rune \<Rightarrow> bool"

text \<open>
  The types of the tokens: a rune that is a token, a keyword, and the other types. The integers that
  stand for them are generated with the parser.
\<close>

datatype token =
    TRune rune
  | Keyword "rune list"
  | PROCIDENTIFIER
  | IDENTIFIER
  | CONSTANT
  | METADATACOMMENT
  | ERROR

record item =
  i_typ :: token
  i_val :: "rune list"
  i_line :: int
  i_column :: int

record Lexer =
  input :: "rune list"
  start :: nat
  pos :: nat
  line :: int
  column :: int
  width :: nat
  items :: "item list"

definition NewLexer :: "rune list \<Rightarrow> Lexer" where
  "NewLexer b = \<lparr>input = b, start = 0, pos = 0, line = 0, column = 0, width = 0, items = []\<rparr>"

definition lexeme :: "Lexer \<Rightarrow> rune list" where
  "lexeme l = take (pos l - start l) (drop (start l) (input l))"

definition emit :: "token \<Rightarrow> Lexer \<Rightarrow> Lexer" where
  "emit t l = l\<lparr>items := items l @ [\<lparr>i_typ = t, i_val = lexeme l, i_line = line l, i_column = column l\<rparr>], start := pos l\<rparr>"

definition errorf :: "rune list \<Rightarrow> Lexer \<Rightarrow> Lexer" where
  "errorf msg l = l\<lparr>items := items l @ [\<lparr>i_typ = ERROR, i_val = msg, i_line = line l, i_column = column l\<rparr>]\<rparr>"

text \<open>\<open>next\<close>; at the end of the input the rune is \<open>None\<close> (the constant \<open>eof\<close>).\<close>

definition next_rune :: "Lexer \<Rightarrow> rune option \<times> Lexer" where
  "next_rune l =
     (if pos l \<ge> length (input l) then (None, l\<lparr>width := 0\<rparr>)
      else
        let r = input l ! pos l;
            l1 = l\<lparr>width := 1, pos := pos l + 1, column := column l + 1\<rparr>
        in (Some r, if r = 10 then l1\<lparr>line := line l1 + 1, column := 0\<rparr> else l1))"

definition ignore :: "Lexer \<Rightarrow> Lexer" where
  "ignore l = l\<lparr>start := pos l\<rparr>"

definition backup :: "Lexer \<Rightarrow> Lexer" where
  "backup l =
     (let l1 = l\<lparr>pos := pos l - width l\<rparr>;
          l2 = (if column l1 > 0 then l1\<lparr>column := column l1 - 1\<rparr> else l1\<lparr>line := line l1 - 1\<rparr>)
      in l2\<lparr>width := 0\<rparr>)"

definition peek :: "Lexer \<Rightarrow> rune option \<times> Lexer" where
  "peek l = (case next_rune l of (r, l1) \<Rightarrow> (r, backup l1))"

definition among :: "rune list \<Rightarrow> rune option \<Rightarrow> bool" where
  "among valid r = (case r of Some c \<Rightarrow> c \<in> set valid | None \<Rightarrow> False)"

definition accept :: "rune list \<Rightarrow> Lexer \<Rightarrow> bool \<times> Lexer" where
  "accept valid l =
     (case next_rune l of (r, l1) \<Rightarrow> if among valid r then (True, l1) else (False, backup l1))"

lemma next_rune_Some: "next_rune l = (Some r, l1) \<Longrightarrow>
    pos l < length (input l) \<and> input l1 = input l \<and> pos l1 = pos l + 1 \<and> r = input l ! pos l \<and>
    width l1 = 1 \<and> start l1 = start l \<and> items l1 = items l"
  by (auto simp: next_rune_def Let_def split: if_splits)

function acceptRun :: "rune list \<Rightarrow> Lexer \<Rightarrow> Lexer" where
  "acceptRun valid l =
     (case next_rune l of (r, l1) \<Rightarrow> if among valid r then acceptRun valid l1 else backup l1)"
  by pat_completeness auto
termination
  by (relation "measure (\<lambda>(valid, l). length (input l) - pos l)")
    (auto simp: among_def dest!: sym [of "(_, _)"] next_rune_Some split: option.splits)

declare acceptRun.simps [simp del]

section \<open>Words\<close>

definition keyword_names :: "string list" where
  "keyword_names =
     [''hyper'', ''int'', ''short'', ''char'', ''bool'', ''case'', ''const'', ''default'', ''double'', ''enum'',
      ''float'', ''opaque'', ''string'', ''struct'', ''switch'', ''typedef'', ''union'', ''unsigned'', ''void'',
      ''program'', ''version'']"

definition oneRuneTokens :: "rune list" where
  "oneRuneTokens = runes ''{}[]<>(),=;:*''"

definition procIdent :: "rune list \<Rightarrow> bool" where
  "procIdent ident =
     (case str_index ident (runes ''_PROC_'') of
        Some ix \<Rightarrow> str_index (take ix ident) (runes ''_'') = None
      | None \<Rightarrow> False)"

definition keyword :: "Lexer \<Rightarrow> token" where
  "keyword l =
     (let ident = lexeme l in
      if ident \<in> set (List.map runes keyword_names) then Keyword ident
      else if procIdent ident then PROCIDENTIFIER
      else IDENTIFIER)"

section \<open>The state functions\<close>

text \<open>
  The state functions, with the loops of block comments, identifiers and directives as states of
  their own; the loop of a block comment remembers whether the comment carries metadata.
\<close>

datatype state =
    LexText
  | LexBlockComment
  | InComment bool
  | LexIdent
  | LexNumber
  | LexDirective
  | Stopped

definition at :: "Lexer \<Rightarrow> string \<Rightarrow> bool" where
  "at l s = has_prefix (drop (pos l) (input l)) (runes s)"

definition lexText :: "unicode \<Rightarrow> Lexer \<Rightarrow> state \<times> Lexer" where
  "lexText u l =
     (if at l ''/*'' then (LexBlockComment, l)
      else case next_rune l of
             (None, l1) \<Rightarrow> (Stopped, l1)
           | (Some r, l1) \<Rightarrow>
               if IsSpace u r then (LexText, ignore l1)
               else if column l1 = 1 \<and> r = of_char CHR ''%'' then (LexDirective, backup l1)
               else if IsLetter u r then (LexIdent, backup l1)
               else if IsNumber u r \<or> r = of_char CHR ''-'' then (LexNumber, backup l1)
               else if r \<in> set oneRuneTokens then (LexText, emit (TRune r) l1)
               else (LexText, l1))"

definition lexBlockComment :: "bool \<Rightarrow> Lexer \<Rightarrow> state \<times> Lexer" where
  "lexBlockComment metadataComment l =
     (if at l ''*/'' then
        (let l2 = snd (next_rune (snd (next_rune l))) in
         (LexText, if metadataComment then emit METADATACOMMENT l2 else ignore l2))
      else case next_rune l of
             (None, l1) \<Rightarrow> (Stopped, errorf (runes ''unterminated block comment'') l1)
           | (Some r, l1) \<Rightarrow> (InComment metadataComment, l1))"

definition lexIdent :: "unicode \<Rightarrow> Lexer \<Rightarrow> state \<times> Lexer" where
  "lexIdent u l =
     (case next_rune l of (r, l1) \<Rightarrow>
        if (case r of Some c \<Rightarrow> IsLetter u c \<or> IsDigit u c \<or> c = of_char CHR ''_'' | None \<Rightarrow> False)
        then (LexIdent, l1)
        else let l2 = backup l1 in (LexText, emit (keyword l2) l2))"

text \<open>The text of the error, for a lexeme whose quoting needs no escapes.\<close>

definition invalid_number :: "Lexer \<Rightarrow> rune list" where
  "invalid_number l = runes ''invalid number: \"'' @ lexeme l @ runes ''\"''"

definition lexNumber :: "unicode \<Rightarrow> Lexer \<Rightarrow> state \<times> Lexer" where
  "lexNumber u l =
     (let (neg, l1) = accept (runes ''-'') l;
          (digits, l2) =
            (if \<not> neg then
               (case peek l1 of (r, l3) \<Rightarrow>
                  if r = Some (of_char CHR ''0'') then
                    (case accept (runes ''x'') (snd (next_rune l3)) of (x, l4) \<Rightarrow>
                       (if x then runes ''0123456789ABCDEFabcdef'' else runes ''0123456789'', l4))
                  else (runes ''0123456789'', l3))
             else (runes ''0123456789'', l1));
          l5 = acceptRun digits l2
      in case peek l5 of (r, l6) \<Rightarrow>
           if (case r of Some c \<Rightarrow> IsLetter u c | None \<Rightarrow> False)
           then (let l7 = snd (next_rune l6) in (Stopped, errorf (invalid_number l7) l7))
           else (LexText, emit CONSTANT l6))"

definition lexDirective :: "Lexer \<Rightarrow> state \<times> Lexer" where
  "lexDirective l =
     (case next_rune l of
        (None, l1) \<Rightarrow> (Stopped, errorf (runes ''unterminated directive'') l1)
      | (Some r, l1) \<Rightarrow> if r = 10 then (LexText, ignore l1) else (LexDirective, l1))"

fun state_fn :: "unicode \<Rightarrow> state \<Rightarrow> Lexer \<Rightarrow> state \<times> Lexer" where
  "state_fn u LexText l = lexText u l"
| "state_fn u LexBlockComment l = (InComment (at l ''/**''), l)"
| "state_fn u (InComment m) l = lexBlockComment m l"
| "state_fn u LexIdent l = lexIdent u l"
| "state_fn u LexNumber l = lexNumber u l"
| "state_fn u LexDirective l = lexDirective l"
| "state_fn u Stopped l = (Stopped, l)"

text \<open>\<open>Run\<close>; \<open>None\<close> is a run that does not end.\<close>

partial_function (option) Run_lexer :: "unicode \<Rightarrow> state \<Rightarrow> Lexer \<Rightarrow> Lexer option" where
  "Run_lexer u st l =
     (if st = Stopped then Some l
      else case state_fn u st l of (st1, l1) \<Rightarrow> Run_lexer u st1 l1)"

section \<open>Movement of the cursor\<close>

text \<open>The input stays, and the cursor only moves forward, by at least \<open>k\<close> runes.\<close>

definition moves :: "nat \<Rightarrow> Lexer \<Rightarrow> Lexer \<Rightarrow> bool" where
  "moves k l l1 \<longleftrightarrow>
     input l1 = input l \<and> pos l + k \<le> pos l1 \<and> pos l1 \<le> length (input l) \<and> start l1 = start l \<and> items l1 = items l"

lemma next_rune_None: "next_rune l = (None, l1) \<Longrightarrow> l1 = l\<lparr>width := 0\<rparr> \<and> length (input l) \<le> pos l"
  by (auto simp: next_rune_def Let_def split: if_splits)

lemma moves_next: "next_rune l = (Some r, l1) \<Longrightarrow> moves 1 l l1"
  by (auto simp: moves_def dest: next_rune_Some)

lemma backup_simps [simp]:
  "input (backup l) = input l" "pos (backup l) = pos l - width l" "start (backup l) = start l"
  "items (backup l) = items l"
  by (simp_all add: backup_def Let_def)

text \<open>Backing up over what \<open>next\<close> has just read.\<close>

lemma next_backup: "next_rune l = (r, l1) \<Longrightarrow> pos l1 - width l1 = pos l \<and> input l1 = input l \<and>
    start l1 = start l \<and> items l1 = items l"
  by (cases r) (auto dest!: next_rune_Some next_rune_None)

lemma moves_backup: "next_rune l = (r, l1) \<Longrightarrow> pos l \<le> length (input l) \<Longrightarrow> moves 0 l (backup l1)"
  using next_backup [of l r l1] by (simp add: moves_def)

lemma moves_trans: "moves j l l1 \<Longrightarrow> moves k l1 l2 \<Longrightarrow> moves (j + k) l l2"
  by (auto simp: moves_def)

lemma moves_le: "moves k l l1 \<Longrightarrow> j \<le> k \<Longrightarrow> moves j l l1"
  by (auto simp: moves_def)

lemma moves_pos: "moves k l l1 \<Longrightarrow> pos l1 \<le> length (input l1)"
  by (simp add: moves_def)

lemma moves_peek: "peek l = (r, l1) \<Longrightarrow> pos l \<le> length (input l) \<Longrightarrow> moves 0 l l1 \<and> pos l1 = pos l"
  by (auto simp: peek_def moves_backup next_backup split: prod.splits)

lemma moves_accept:
  assumes "accept valid l = (b, l1)" and "pos l \<le> length (input l)"
  shows "moves (if b then 1 else 0) l l1 \<and> (\<not> b \<longrightarrow> pos l1 = pos l) \<and>
    (b \<longleftrightarrow> pos l < length (input l) \<and> input l ! pos l \<in> set valid)"
proof -
  obtain r l2 where n: "next_rune l = (r, l2)" by (cases "next_rune l") auto
  show ?thesis
  proof (cases "among valid r")
    case True
    then obtain c where c: "r = Some c" "c \<in> set valid" by (auto simp: among_def split: option.splits)
    then have "b" "l1 = l2" using assms(1) n True by (simp_all add: accept_def)
    moreover have "moves 1 l l2" using n c by (simp add: moves_next del: One_nat_def)
    ultimately show ?thesis using n c next_rune_Some [of l c l2] by simp
  next
    case False
    then have "\<not> b" "l1 = backup l2" using assms(1) n by (simp_all add: accept_def)
    moreover have "\<not> (pos l < length (input l) \<and> input l ! pos l \<in> set valid)"
      using False n by (cases r) (auto simp: among_def dest!: next_rune_Some next_rune_None)
    ultimately show ?thesis using moves_backup [OF n assms(2)] next_backup [OF n] by simp
  qed
qed

lemma moves_acceptRun:
  "pos l \<le> length (input l) \<Longrightarrow> moves 0 l (acceptRun valid l) \<and>
    (pos l < length (input l) \<and> input l ! pos l \<in> set valid \<longrightarrow> moves 1 l (acceptRun valid l))"
proof (induction valid l rule: acceptRun.induct)
  case (1 valid l)
  obtain r l1 where n: "next_rune l = (r, l1)" by (cases "next_rune l") auto
  show ?case
  proof (cases "among valid r")
    case True
    then obtain c where c: "r = Some c" "c \<in> set valid" by (auto simp: among_def split: option.splits)
    have m: "moves 1 l l1" using n c by (simp add: moves_next del: One_nat_def)
    then have "moves 0 l1 (acceptRun valid l1)" using "1.IH" [OF n [symmetric] True] by (simp add: moves_pos)
    then have "moves 1 l (acceptRun valid l)"
      using moves_trans [OF m] True n by (simp add: acceptRun.simps [of valid l])
    then show ?thesis by (auto intro: moves_le)
  next
    case False
    then show ?thesis
      using n 1(2) moves_backup [OF n] next_rune_None [of l l1] next_rune_Some [of l _ l1]
      by (cases r) (auto simp: acceptRun.simps [of valid l] among_def)
  qed
qed

text \<open>A movement, followed by at most one of \<open>ignore\<close>, \<open>emit\<close> and \<open>errorf\<close>.\<close>

definition goes :: "nat \<Rightarrow> Lexer \<Rightarrow> Lexer \<Rightarrow> bool" where
  "goes k l l1 \<longleftrightarrow>
     (\<exists>l2. moves k l l2 \<and>
       (l1 = l2 \<or> l1 = ignore l2 \<or> (\<exists>t. t \<noteq> ERROR \<and> l1 = emit t l2) \<or> (\<exists>m. l1 = errorf m l2)))"

lemma goesI:
  "moves k l l1 \<Longrightarrow> goes k l l1"
  "moves k l l1 \<Longrightarrow> goes k l (ignore l1)"
  "moves k l l1 \<Longrightarrow> t \<noteq> ERROR \<Longrightarrow> goes k l (emit t l1)"
  "moves k l l1 \<Longrightarrow> goes k l (errorf m l1)"
  unfolding goes_def by blast+

lemma goes_pos: "goes k l l1 \<Longrightarrow> input l1 = input l \<and> pos l + k \<le> pos l1 \<and> pos l1 \<le> length (input l1)"
  by (auto simp: goes_def moves_def ignore_def emit_def errorf_def)

lemma emit_simps [simp]:
  "pos (emit t l) = pos l" "pos (ignore l) = pos l" "pos (errorf m l) = pos l"
  "input (emit t l) = input l" "input (ignore l) = input l" "input (errorf m l) = input l"
  by (simp_all add: emit_def ignore_def errorf_def)

lemma moves_refl: "pos l \<le> length (input l) \<Longrightarrow> moves 0 l l"
  by (simp add: moves_def)

lemma moves_next_None: "next_rune l = (None, l1) \<Longrightarrow> pos l \<le> length (input l) \<Longrightarrow> moves 0 l l1"
  by (auto simp: moves_def dest!: next_rune_None)

text \<open>One call of each state function.\<close>

lemma lexText_goes:
  assumes "lexText u l = (st, l1)" and "pos l \<le> length (input l)"
  shows "(st = LexBlockComment \<and> l1 = l) \<or> (st = LexText \<and> goes 1 l l1) \<or> (st = Stopped \<and> goes 0 l l1) \<or>
    (goes 0 l l1 \<and> pos l1 = pos l \<and> pos l < length (input l) \<and>
      (st = LexDirective \<or> st = LexIdent \<and> IsLetter u (input l ! pos l) \<or>
       st = LexNumber \<and> (IsNumber u (input l ! pos l) \<or> input l ! pos l = of_char CHR ''-'')))"
proof (cases "at l ''/*''")
  case False
  obtain r l2 where n: "next_rune l = (r, l2)" by (cases "next_rune l") auto
  show ?thesis
  proof (cases r)
    case None
    then show ?thesis using assms n False moves_next_None [of l l2] by (auto simp: lexText_def goesI)
  next
    case (Some c)
    with n have m: "moves 1 l l2" "moves 0 l (backup l2)" "pos l < length (input l)" "c = input l ! pos l"
        "pos (backup l2) = pos l"
      using moves_next [of l c l2] moves_backup [OF n assms(2)] next_rune_Some [of l c l2] by auto
    note g = goesI(1) [OF m(1)] goesI(2) [OF m(1)] goesI(3) [OF m(1)] goesI(1) [OF m(2)]
    show ?thesis
      using assms(1) n False Some g m(3-) by (auto simp: lexText_def split: if_splits)
  qed
qed (use assms in \<open>simp add: lexText_def\<close>)

lemma at_length: "at l s \<Longrightarrow> pos l \<le> length (input l) \<Longrightarrow> pos l + length s \<le> length (input l)"
  by (auto simp: at_def has_prefix_iff runes_def dest!: prefix_length_le)

lemma next_rune_less: "pos l < length (input l) \<Longrightarrow> \<exists>l1. next_rune l = (Some (input l ! pos l), l1)"
  by (simp add: next_rune_def Let_def)

lemma lexBlockComment_goes:
  assumes "lexBlockComment m l = (st, l1)" and "pos l \<le> length (input l)"
  shows "(st = LexText \<or> st = InComment m) \<and> goes 1 l l1 \<or> st = Stopped \<and> goes 0 l l1"
proof (cases "at l ''*/''")
  case True
  then have len: "pos l + 2 \<le> length (input l)" using at_length [OF True assms(2)] by simp
  then obtain l2 where n2: "next_rune l = (Some (input l ! pos l), l2)" using next_rune_less [of l] by auto
  with len have "pos l2 < length (input l2)" by (auto dest: next_rune_Some)
  then obtain l3 where n3: "next_rune l2 = (Some (input l2 ! pos l2), l3)" using next_rune_less by blast
  have "moves 1 l l3" using moves_le [OF moves_trans [OF moves_next [OF n2] moves_next [OF n3]]] by simp
  then show ?thesis using assms(1) True n2 n3 by (auto simp: lexBlockComment_def intro: goesI)
next
  case False
  obtain r l2 where n: "next_rune l = (r, l2)" by (cases "next_rune l") auto
  then show ?thesis
    using assms False moves_next [of l _ l2] moves_next_None [of l l2]
    by (cases r) (auto simp: lexBlockComment_def intro: goesI)
qed

definition ident_rune :: "unicode \<Rightarrow> rune \<Rightarrow> bool" where
  "ident_rune u c \<longleftrightarrow> IsLetter u c \<or> IsDigit u c \<or> c = of_char CHR ''_''"

lemma lexIdent_goes:
  assumes "lexIdent u l = (st, l1)" and "pos l \<le> length (input l)"
  shows "st = LexIdent \<and> goes 1 l l1 \<or>
    st = LexText \<and> goes 0 l l1 \<and> \<not> (pos l < length (input l) \<and> ident_rune u (input l ! pos l))"
proof -
  obtain r l2 where n: "next_rune l = (r, l2)" by (cases "next_rune l") auto
  have k: "keyword l' \<noteq> ERROR" for l' by (simp add: keyword_def Let_def)
  show ?thesis
    using assms n moves_next [of l _ l2] moves_backup [OF n assms(2)] next_rune_Some [of l _ l2] next_rune_None [of l l2]
    by (cases r) (auto simp: lexIdent_def Let_def ident_rune_def k intro: goesI split: if_splits)
qed

lemma lexDirective_goes:
  assumes "lexDirective l = (st, l1)" and "pos l \<le> length (input l)"
  shows "(st = LexText \<or> st = LexDirective) \<and> goes 1 l l1 \<or> st = Stopped \<and> goes 0 l l1"
proof -
  obtain r l2 where n: "next_rune l = (r, l2)" by (cases "next_rune l") auto
  show ?thesis
    using assms n moves_next [of l _ l2] moves_next_None [of l l2]
    by (cases r) (auto simp: lexDirective_def intro: goesI split: if_splits)
qed

definition digits10 :: "rune list" where
  "digits10 = runes ''0123456789''"

text \<open>The digits that \<open>lexNumber\<close> goes on with, and where it stands then.\<close>

definition number_prefix :: "Lexer \<Rightarrow> rune list \<times> Lexer" where
  "number_prefix l =
     (let (neg, l1) = accept (runes ''-'') l in
      if \<not> neg then
        (case peek l1 of (r, l3) \<Rightarrow>
           if r = Some (of_char CHR ''0'') then
             (case accept (runes ''x'') (snd (next_rune l3)) of (x, l4) \<Rightarrow>
                (if x then runes ''0123456789ABCDEFabcdef'' else runes ''0123456789'', l4))
           else (runes ''0123456789'', l3))
      else (runes ''0123456789'', l1))"

lemma lexNumber_prefix:
  "lexNumber u l = (case number_prefix l of (digits, l2) \<Rightarrow>
     (case peek (acceptRun digits l2) of (r, l6) \<Rightarrow>
        if (case r of Some c \<Rightarrow> IsLetter u c | None \<Rightarrow> False)
        then (Stopped, errorf (invalid_number (snd (next_rune l6))) (snd (next_rune l6)))
        else (LexText, emit CONSTANT l6)))"
  by (simp add: lexNumber_def number_prefix_def Let_def split: prod.splits)

lemma number_prefix_moves:
  assumes "number_prefix l = (digits, l2)" and "pos l \<le> length (input l)"
  shows "moves 1 l l2 \<or> moves 0 l l2 \<and> pos l2 = pos l \<and> digits = digits10 \<and>
    \<not> (pos l < length (input l) \<and> input l ! pos l = of_char CHR ''-'')"
proof -
  obtain neg l1 where a: "accept (runes ''-'') l = (neg, l1)" by (cases "accept (runes ''-'') l") auto
  note m = moves_accept [OF a assms(2)]
  show ?thesis
  proof (cases neg)
    case True
    then have "moves 1 l l1" using m by auto
    moreover have "l2 = l1" using assms(1) a True by (simp add: number_prefix_def)
    ultimately show ?thesis by simp
  next
    case False
    then have m1: "moves 0 l l1" "pos l1 = pos l" "\<not> (pos l < length (input l) \<and> input l ! pos l = of_char CHR ''-'')"
      using m by (auto simp: runes_def)
    obtain r l3 where p: "peek l1 = (r, l3)" by (cases "peek l1") auto
    have m3: "moves 0 l1 l3 \<and> pos l3 = pos l1" using moves_peek [OF p] moves_pos [OF m1(1)] by simp
    show ?thesis
    proof (cases "r = Some (of_char CHR ''0'')")
      case True
      obtain r' l4 where n: "next_rune l1 = (r', l4)" "l3 = backup l4" "r = r'"
        using p by (auto simp: peek_def split: prod.splits)
      then have "pos l1 < length (input l1)" using True next_rune_Some by auto
      then have "pos l3 < length (input l3)" using m3 by (simp add: moves_def)
      then obtain l5 where n5: "next_rune l3 = (Some (input l3 ! pos l3), l5)" using next_rune_less by blast
      obtain x l6 where a6: "accept (runes ''x'') l5 = (x, l6)" by (cases "accept (runes ''x'') l5") auto
      have "moves 1 l1 l5" using moves_trans [OF conjunct1 [OF m3] moves_next [OF n5]] by simp
      moreover have "moves 0 l5 l6"
        using moves_accept [OF a6 moves_pos [OF moves_next [OF n5]]] by (auto intro: moves_le)
      ultimately have "moves 1 l l6" using moves_trans [OF m1(1) moves_trans] by fastforce
      moreover have "l2 = l6" using assms(1) a False p True n5 a6 by (simp add: number_prefix_def)
      ultimately show ?thesis by simp
    next
      case no0: False
      then have "l2 = l3" "digits = digits10"
        using assms(1) a False p by (simp_all add: number_prefix_def digits10_def)
      then show ?thesis using moves_trans [OF m1(1) conjunct1 [OF m3]] m3 m1 by simp
    qed
  qed
qed

lemma lexNumber_goes:
  assumes "lexNumber u l = (st, l1)" and "pos l \<le> length (input l)"
  shows "(st = LexText \<or> st = Stopped) \<and> goes 0 l l1 \<and>
    (pos l < length (input l) \<and> (input l ! pos l = of_char CHR ''-'' \<or> input l ! pos l \<in> set digits10) \<longrightarrow> goes 1 l l1)"
proof -
  obtain digits l2 where np: "number_prefix l = (digits, l2)" by (cases "number_prefix l") auto
  obtain r l6 where p: "peek (acceptRun digits l2) = (r, l6)" by (cases "peek (acceptRun digits l2)") auto
  note np_m = number_prefix_moves [OF np assms(2)]
  define good where "good \<longleftrightarrow> pos l < length (input l) \<and> (input l ! pos l = of_char CHR ''-'' \<or> input l ! pos l \<in> set digits10)"
  have "moves 0 l l2" using np_m by (auto intro: moves_le)
  then have len2: "pos l2 \<le> length (input l2)" by (rule moves_pos)
  note run = moves_acceptRun [OF len2, of digits]
  have len3: "pos (acceptRun digits l2) \<le> length (input (acceptRun digits l2))" using run moves_pos by blast
  have m6: "moves 0 (acceptRun digits l2) l6" using moves_peek [OF p len3] by simp
  have all: "moves (if good then 1 else 0) l (acceptRun digits l2)"
  proof (cases "moves 1 l l2")
    case True
    from moves_trans [OF this conjunct1 [OF run]] show ?thesis by (auto intro: moves_le)
  next
    case False
    then have np0: "moves 0 l l2" "pos l2 = pos l" "digits = digits10"
      "\<not> (pos l < length (input l) \<and> input l ! pos l = of_char CHR ''-'')" using np_m by auto
    show ?thesis
    proof (cases good)
      case True
      then have "moves 1 l2 (acceptRun digits l2)"
        using run np0 by (auto simp: good_def moves_def)
      then show ?thesis using moves_trans [OF np0(1)] True by fastforce
    next
      case False
      then show ?thesis using moves_trans [OF np0(1) conjunct1 [OF run]] by simp
    qed
  qed
  from moves_trans [OF all m6] have l6: "moves (if good then 1 else 0) l l6" by simp
  then have len6: "pos l6 \<le> length (input l6)" by (rule moves_pos)
  obtain r7 l7 where n7: "next_rune l6 = (r7, l7)" by (cases "next_rune l6") auto
  have "moves 0 l6 l7"
    using n7 len6 moves_next [of l6 _ l7] moves_next_None [of l6 l7] by (cases r7) (auto intro: moves_le)
  from moves_trans [OF l6 this] have l7: "moves (if good then 1 else 0) l l7" by simp
  have "(st = LexText \<or> st = Stopped) \<and> goes (if good then 1 else 0) l l1"
    using assms(1) np p n7 goesI(3) [OF l6, of CONSTANT] goesI(4) [OF l7]
    by (auto simp: lexNumber_prefix split: if_splits)
  moreover have "goes 0 l l1" if "goes 1 l l1" using that by (auto simp: goes_def intro: moves_le)
  ultimately show ?thesis by (auto simp: good_def split: if_splits)
qed

section \<open>Termination\<close>

text \<open>
  What is left to do: six for each rune, and a rank that orders the states that may follow each other
  without reading a rune.
\<close>

definition rank :: "unicode \<Rightarrow> state \<Rightarrow> Lexer \<Rightarrow> nat" where
  "rank u st l =
     (let more = (pos l < length (input l)); c = input l ! pos l in
      case st of
        LexText \<Rightarrow> 3
      | LexBlockComment \<Rightarrow> 2
      | InComment m \<Rightarrow> 1
      | LexIdent \<Rightarrow> if more \<and> ident_rune u c then 2 else 4
      | LexNumber \<Rightarrow> if more \<and> (c = of_char CHR ''-'' \<or> c \<in> set digits10) then 2 else 4
      | LexDirective \<Rightarrow> 2
      | Stopped \<Rightarrow> 0)"

definition work :: "unicode \<Rightarrow> state \<Rightarrow> Lexer \<Rightarrow> nat" where
  "work u st l = 6 * (length (input l) - pos l) + rank u st l"

lemma rank_le: "rank u st l \<le> 4"
  by (simp add: rank_def Let_def split: state.splits)

lemma work_goes:
  assumes "goes 1 l l1" and "st \<noteq> Stopped"
  shows "work u st1 l1 < work u st l"
proof -
  have "pos l + 1 \<le> pos l1" "pos l1 \<le> length (input l)" "input l1 = input l" using goes_pos [OF assms(1)] by auto
  moreover have "0 < rank u st l" using assms(2) by (simp add: rank_def Let_def split: state.splits)
  ultimately show ?thesis using rank_le [of u st1 l1] by (simp add: work_def)
qed

lemma work_rank:
  assumes "goes 0 l l1" and "rank u st1 l1 < rank u st l"
  shows "work u st1 l1 < work u st l"
  using goes_pos [OF assms(1)] assms(2) by (auto simp: work_def intro!: add_le_less_mono)

definition plain_numbers :: "unicode \<Rightarrow> rune list \<Rightarrow> bool" where
  "plain_numbers u inp \<longleftrightarrow> list_all (\<lambda>c. IsNumber u c \<longrightarrow> c \<in> set digits10) inp"

lemma goes_refl: "pos l \<le> length (input l) \<Longrightarrow> goes 0 l l"
  by (simp add: goesI moves_refl)

lemma state_fn_goes:
  assumes "state_fn u st l = (st1, l1)" and "pos l \<le> length (input l)"
  shows "goes 0 l l1"
proof -
  have w: "goes 0 l l1" if "goes 1 l l1" using that by (auto simp: goes_def intro: moves_le)
  show ?thesis
    using assms lexText_goes [of u l st1 l1] lexBlockComment_goes [of _ l st1 l1] lexIdent_goes [of u l st1 l1]
      lexNumber_goes [of u l st1 l1] lexDirective_goes [of l st1 l1] w
    by (cases st) (auto simp: goes_refl)
qed

lemma state_fn_works:
  assumes "state_fn u st l = (st1, l1)" and "pos l \<le> length (input l)" and "st \<noteq> Stopped"
    and "plain_numbers u (input l)"
  shows "work u st1 l1 < work u st l"
proof -
  have stop: ?thesis if "st1 = Stopped" "goes 0 l l1"
    using that assms(3) by (intro work_rank) (simp_all add: rank_def Let_def split: state.splits)
  show ?thesis
  proof (cases st)
    case LexText
    then have lt: "lexText u l = (st1, l1)" using assms(1) by simp
    let ?c = "input l ! pos l"
    from lexText_goes [OF lt assms(2)]
    consider "st1 = LexBlockComment" "l1 = l" | "goes 1 l l1" | "st1 = Stopped" "goes 0 l l1"
      | "goes 0 l l1" "pos l1 = pos l" "pos l < length (input l)"
        "st1 = LexDirective \<or> st1 = LexIdent \<and> IsLetter u ?c \<or>
         st1 = LexNumber \<and> (IsNumber u ?c \<or> ?c = of_char CHR ''-'')"
      by blast
    then show ?thesis
    proof cases
      case 1
      then show ?thesis using LexText by (simp add: work_def rank_def)
    next
      case 4
      then have "?c \<in> set (input l)" by simp
      then have num: "?c \<in> set digits10" if "IsNumber u ?c"
        using assms(4) that by (auto simp: plain_numbers_def list_all_iff)
      have "input l1 = input l" using goes_pos [OF 4(1)] by simp
      then have "rank u st1 l1 < rank u st l"
        using 4(2-) num LexText by (auto simp: rank_def Let_def ident_rune_def)
      then show ?thesis by (rule work_rank [OF 4(1)])
    qed (use stop work_goes assms(3) in auto)
  next
    case (InComment m)
    then show ?thesis using assms lexBlockComment_goes [of m l st1 l1] stop work_goes by auto
  next
    case LexIdent
    then have "lexIdent u l = (st1, l1)" using assms(1) by simp
    from lexIdent_goes [OF this assms(2)] show ?thesis
    proof (elim disjE conjE)
      assume "st1 = LexText" "goes 0 l l1" "\<not> (pos l < length (input l) \<and> ident_rune u (input l ! pos l))"
      then show ?thesis using LexIdent by (intro work_rank) (auto simp: rank_def)
    qed (use work_goes assms(3) in auto)
  next
    case LexNumber
    then have "lexNumber u l = (st1, l1)" using assms(1) by simp
    note n = lexNumber_goes [OF this assms(2)]
    show ?thesis
    proof (cases "goes 1 l l1")
      case False
      then have "rank u st l = 4" using n LexNumber by (auto simp: rank_def)
      moreover have "rank u st1 l1 < 4" using n by (auto simp: rank_def Let_def)
      ultimately show ?thesis using n by (intro work_rank) auto
    qed (use work_goes assms(3) in auto)
  next
    case LexDirective
    then show ?thesis using assms lexDirective_goes [of l st1 l1] stop work_goes by auto
  next
    case LexBlockComment
    then show ?thesis using assms by (auto simp: work_def rank_def)
  qed (use assms in simp)
qed

lemma state_fn_input: "state_fn u st l = (st1, l1) \<Longrightarrow> pos l \<le> length (input l) \<Longrightarrow>
    input l1 = input l \<and> pos l1 \<le> length (input l1)"
  using goes_pos [OF state_fn_goes] by blast

text \<open>
  C40. The lexer ends on every input whose numbers are decimal digits, such as every ASCII text: from the
  start, and from every state in between, the run comes to an end.
\<close>
theorem lexer_ends:
  assumes "pos l \<le> length (input l)" and "plain_numbers u (input l)"
  shows "\<exists>l'. Run_lexer u st l = Some l' \<and> input l' = input l"
  using assms
proof (induction "work u st l" arbitrary: st l rule: less_induct)
  case less
  show ?case
  proof (cases "st = Stopped")
    case True
    then show ?thesis by (simp add: Run_lexer.simps)
  next
    case False
    obtain st1 l1 where s: "state_fn u st l = (st1, l1)" by (cases "state_fn u st l") auto
    note i = state_fn_input [OF s less.prems(1)]
    from less.hyps [OF state_fn_works [OF s less.prems(1) False less.prems(2)]] i less.prems(2)
    show ?thesis using s False by (auto simp: Run_lexer.simps [of u st l])
  qed
qed

theorem lexer_ends_witness:
  "\<exists>l'. Run_lexer \<lparr>IsLetter = (\<lambda>c. 97 \<le> c \<and> c \<le> 122), IsDigit = (\<lambda>c. c \<in> set digits10),
      IsNumber = (\<lambda>c. c \<in> set digits10), IsSpace = (\<lambda>c. c = 32)\<rparr> LexText (NewLexer (runes ''int x[2];'')) = Some l' \<and>
     input l' = runes ''int x[2];''"
  using lexer_ends [of "NewLexer (runes ''int x[2];'')"
      "\<lparr>IsLetter = (\<lambda>c. 97 \<le> c \<and> c \<le> 122), IsDigit = (\<lambda>c. c \<in> set digits10),
        IsNumber = (\<lambda>c. c \<in> set digits10), IsSpace = (\<lambda>c. c = 32)\<rparr>" LexText]
  by (simp add: plain_numbers_def NewLexer_def list_all_iff)

section \<open>A number that is no digit\<close>

text \<open>A rune that \<open>lexText\<close> takes for a number and \<open>lexNumber\<close> does not accept.\<close>

definition odd_number :: "unicode \<Rightarrow> rune \<Rightarrow> bool" where
  "odd_number u c \<longleftrightarrow>
     IsNumber u c \<and> \<not> IsLetter u c \<and> \<not> IsSpace u c \<and> c \<notin> set (runes ''0123456789-/%'')"

lemma peek_backup: "peek l = (r, l1) \<Longrightarrow> pos l < length (input l) \<Longrightarrow>
    r = Some (input l ! pos l) \<and> pos l1 = pos l \<and> input l1 = input l"
  by (auto simp: peek_def Let_def next_rune_def split: if_splits prod.splits)

lemma accept_not: "pos l < length (input l) \<Longrightarrow> input l ! pos l \<notin> set valid \<Longrightarrow>
    \<exists>l1. accept valid l = (False, l1) \<and> pos l1 = pos l \<and> input l1 = input l"
  by (auto simp: accept_def Let_def next_rune_def among_def)

lemma acceptRun_not: "pos l < length (input l) \<Longrightarrow> input l ! pos l \<notin> set valid \<Longrightarrow>
    pos (acceptRun valid l) = pos l \<and> input (acceptRun valid l) = input l"
  by (subst (1 2) acceptRun.simps) (auto simp: Let_def next_rune_def among_def)

lemma odd_number_text:
  assumes "pos l < length (input l)" and "odd_number u (input l ! pos l)"
  shows "\<exists>l1. lexText u l = (LexNumber, l1) \<and> pos l1 = pos l \<and> input l1 = input l"
proof -
  have "drop (pos l) (input l) = input l ! pos l # drop (Suc (pos l)) (input l)"
    using assms(1) by (rule Cons_nth_drop_Suc [symmetric])
  then have "\<not> at l ''/*''" using assms(2) by (auto simp: at_def runes_def has_prefix_iff odd_number_def)
  then show ?thesis
    using assms by (auto simp: lexText_def next_rune_def odd_number_def runes_def Let_def)
qed

lemma odd_number_number:
  assumes "pos l < length (input l)" and "odd_number u (input l ! pos l)"
  shows "\<exists>l1. lexNumber u l = (LexText, l1) \<and> pos l1 = pos l \<and> input l1 = input l"
proof -
  let ?c = "input l ! pos l"
  have c: "?c \<notin> set (runes ''-'')" "?c \<noteq> of_char CHR ''0''" "?c \<notin> set (runes ''0123456789'')" "\<not> IsLetter u ?c"
    using assms(2) by (auto simp: odd_number_def runes_def)
  obtain l1 where a: "accept (runes ''-'') l = (False, l1)" "pos l1 = pos l" "input l1 = input l"
    using accept_not [OF assms(1) c(1)] by blast
  obtain r l3 where p: "peek l1 = (r, l3)" by (cases "peek l1") auto
  have q: "r = Some ?c" "pos l3 = pos l" "input l3 = input l" using peek_backup [OF p] a assms(1) by auto
  define l5 where "l5 = acceptRun (runes ''0123456789'') l3"
  have l5: "pos l5 = pos l" "input l5 = input l"
    using acceptRun_not [of l3 "runes ''0123456789''"] q assms(1) c(3) by (auto simp: l5_def)
  obtain r' l6 where p6: "peek l5 = (r', l6)" by (cases "peek l5") auto
  have "r' = Some ?c" "pos l6 = pos l" "input l6 = input l" using peek_backup [OF p6] l5 assms(1) by auto
  moreover have "number_prefix l = (runes ''0123456789'', l3)"
    using a p q c(2) by (simp add: number_prefix_def)
  ultimately show ?thesis using p6 c(4) by (simp add: lexNumber_prefix l5_def)
qed

lemmas Run_lexer_induct = Run_lexer.raw_induct [rotated 1, consumes 1]

lemma stuck_never_ends:
  "Run_lexer u st l = Some l' \<Longrightarrow>
     \<not> (st \<in> {LexText, LexNumber} \<and> pos l < length (input l) \<and> odd_number u (input l ! pos l))"
proof (induction rule: Run_lexer_induct)
  case (1 R u st l l')
  show ?case
  proof
    assume a: "st \<in> {LexText, LexNumber} \<and> pos l < length (input l) \<and> odd_number u (input l ! pos l)"
    then obtain st1 l1 where s: "state_fn u st l = (st1, l1)" "st1 \<in> {LexText, LexNumber}" "pos l1 = pos l" "input l1 = input l"
      using odd_number_text [of l u] odd_number_number [of l u] by auto
    have "st \<noteq> Stopped" using a by auto
    then have "R u st1 l1 = Some l'" using 1(2) s(1) by simp
    then show False using 1(1) [of u st1 l1 l'] s a by auto
  qed
qed

text \<open>
  A number rune that is not a decimal digit, such as a superscript two, stops the lexer's progress:
  \<open>lexText\<close> hands it to \<open>lexNumber\<close>, which accepts no rune of it, emits an empty constant and
  hands it back. \<open>Run\<close> never ends.
\<close>
theorem lexer_stuck:
  assumes "pos l < length (input l)" and "odd_number u (input l ! pos l)"
  shows "Run_lexer u LexText l = None"
  using stuck_never_ends [of u LexText l] assms by (cases "Run_lexer u LexText l") auto

theorem lexer_stuck_witness:
  "Run_lexer \<lparr>IsLetter = (\<lambda>c. 97 \<le> c \<and> c \<le> 122), IsDigit = (\<lambda>c. c \<in> set digits10),
      IsNumber = (\<lambda>c. c \<in> set digits10 \<or> c = 178), IsSpace = (\<lambda>c. c = 32)\<rparr> LexText (NewLexer [178]) = None"
  by (rule lexer_stuck) (simp_all add: NewLexer_def odd_number_def runes_def)

section \<open>The tokens are pieces of the input\<close>

text \<open>
  The texts of the tokens so far, errors aside, can be found one after the other in the part of the
  input before \<open>start\<close>.
\<close>

definition token_text :: "Lexer \<Rightarrow> rune list" where
  "token_text l = concat (List.map i_val (List.filter (\<lambda>i. i_typ i \<noteq> ERROR) (items l)))"

definition in_input :: "Lexer \<Rightarrow> bool" where
  "in_input l \<longleftrightarrow>
     subseq (token_text l) (take (start l) (input l)) \<and> start l \<le> pos l \<and> pos l \<le> length (input l)"

lemma token_text_simps [simp]:
  "token_text (ignore l) = token_text l"
  "token_text (errorf m l) = token_text l"
  "t \<noteq> ERROR \<Longrightarrow> token_text (emit t l) = token_text l @ lexeme l"
  by (simp_all add: token_text_def ignore_def errorf_def emit_def)

lemma take_split: "a \<le> b \<Longrightarrow> take b xs = take a xs @ take (b - a) (drop a xs)"
  by (metis le_add_diff_inverse take_add)

lemma in_input_moves: "in_input l \<Longrightarrow> moves k l l1 \<Longrightarrow> in_input l1"
  by (auto simp: in_input_def moves_def token_text_def)

lemma in_input_emits:
  assumes "in_input l"
  shows "in_input (ignore l)" "in_input (errorf m l)" "t \<noteq> ERROR \<Longrightarrow> in_input (emit t l)"
proof -
  have s: "take (pos l) (input l) = take (start l) (input l) @ lexeme l"
    using assms by (simp add: in_input_def lexeme_def take_split)
  then show "in_input (ignore l)" "t \<noteq> ERROR \<Longrightarrow> in_input (emit t l)"
    using assms by (simp_all add: in_input_def ignore_def emit_def token_text_def list_emb_prefix)
  show "in_input (errorf m l)" using assms by (simp add: in_input_def) (simp add: errorf_def)
qed

lemma in_input_goes: "in_input l \<Longrightarrow> goes k l l1 \<Longrightarrow> in_input l1"
  unfolding goes_def by (auto intro: in_input_moves in_input_emits)

lemma Run_in_input: "Run_lexer u st l = Some l' \<Longrightarrow> in_input l \<longrightarrow> in_input l' \<and> input l' = input l"
proof (induction rule: Run_lexer_induct)
  case (1 R u st l l')
  obtain st1 l1 where s: "state_fn u st l = (st1, l1)" by (cases "state_fn u st l") auto
  show ?case
  proof (cases "st = Stopped")
    case False
    then have r: "R u st1 l1 = Some l'" using 1(2) s by simp
    have "in_input l1 \<and> input l1 = input l" if "in_input l"
      using that in_input_goes [OF that state_fn_goes [OF s]] state_fn_input [OF s] by (simp add: in_input_def)
    then show ?thesis using 1(1) [OF r] by auto
  qed (use 1(2) in simp)
qed

text \<open>
  What the lexer hands to the parser is taken from the input: the texts of the tokens, one after the
  other, are a subsequence of it, so that nothing is invented, repeated or put in another order.
\<close>
theorem tokens_from_input:
  assumes "Run_lexer u LexText (NewLexer b) = Some l'"
  shows "subseq (token_text l') b"
proof -
  have "in_input (NewLexer b)" by (simp add: in_input_def NewLexer_def token_text_def)
  then have "in_input l' \<and> input l' = b" using Run_in_input [OF assms] by (simp add: NewLexer_def)
  then show ?thesis
    using subseq_order.trans [of "token_text l'" "take (start l') b" b]
    by (auto simp: in_input_def intro: prefix_imp_subseq take_is_prefix)
qed

definition ascii :: unicode where
  "ascii = \<lparr>IsLetter = (\<lambda>c. 65 \<le> c \<and> c \<le> 90 \<or> 97 \<le> c \<and> c \<le> 122), IsDigit = (\<lambda>c. c \<in> set digits10),
     IsNumber = (\<lambda>c. c \<in> set digits10), IsSpace = (\<lambda>c. c = 32 \<or> 9 \<le> c \<and> c \<le> 13)\<rparr>"

declare Run_lexer.simps [code]

theorem tokens_from_input_witness:
  "\<exists>l'. Run_lexer ascii LexText (NewLexer (runes ''x [] ; '')) = Some l' \<and> token_text l' = runes ''x[];'' \<and>
     subseq (token_text l') (runes ''x [] ; '')"
proof -
  have "map_option token_text (Run_lexer ascii LexText (NewLexer (runes ''x [] ; ''))) = Some (runes ''x[];'')"
    by code_simp
  then show ?thesis using tokens_from_input [of ascii "runes ''x [] ; ''"] by auto
qed

end
