(* ===== verification/Lvgen_Protocol.thy ===== *)
theory Lvgen_Protocol
  imports Lvgen_Generate Lvgen_Lexer
begin

text \<open>
  The parser's actions (\<open>src/internal/lvgen/sunrpc.y\<close>, \<open>y.go\<close>) in the order in which the rules of the
  grammar perform them, over the syntax trees of protocol files, and what they amount to: each
  definition of a file adds its own entry to the generator's lists. Definitions inside the types of
  declarations, which the grammar allows and libvirt's files do not use, are left out.
\<close>

section \<open>Actions\<close>

datatype action =
    AStartEnum string
  | AAutoVal string
  | AEnumVal string string
  | AProcVal string string string
  | AConst string string
  | AStartTypedef
  | AStartStruct string
  | AAddStruct
  | AStartUnion string
  | AAddUnion
  | AStartCase string
  | AAddCase
  | ADecl string string
  | AFixedArray string string string
  | AVariableArray string string string
  | AOptValue string string

fun run_action :: "action \<Rightarrow> gen_state \<Rightarrow> gen_state outcome" where
  "run_action (AStartEnum n) s = StartEnum n s"
| "run_action (AAutoVal n) s = AddEnumAutoVal n s"
| "run_action (AEnumVal n v) s = AddEnumVal n v s"
| "run_action (AProcVal n v meta) s = AddProcEnumVal n v meta s"
| "run_action (AConst n v) s = AddConst n v s"
| "run_action AStartTypedef s = StartTypedef s"
| "run_action (AStartStruct n) s = StartStruct n s"
| "run_action AAddStruct s = AddStruct s"
| "run_action (AStartUnion n) s = StartUnion n s"
| "run_action AAddUnion s = AddUnion s"
| "run_action (AStartCase v) s = StartCase v s"
| "run_action AAddCase s = AddCase s"
| "run_action (ADecl i t) s = AddDeclaration i t s"
| "run_action (AFixedArray i t l) s = AddFixedArray i t l s"
| "run_action (AVariableArray i t l) s = AddVariableArray i t l s"
| "run_action (AOptValue i t) s = AddOptValue i t s"

fun run_actions :: "action list \<Rightarrow> gen_state \<Rightarrow> gen_state outcome" where
  "run_actions [] s = done_with s"
| "run_actions (a # as) s = and_then (run_action a s) (run_actions as)"

section \<open>Syntax trees\<close>

datatype int_spec = HYPER_t | INT_t | SHORT_t | CHAR_t

fun int_val :: "int_spec \<Rightarrow> string" where
  "int_val HYPER_t = ''int64''"
| "int_val INT_t = ''int32''"
| "int_val SHORT_t = ''int16''"
| "int_val CHAR_t = ''int8''"

datatype type_spec = IntSpec int_spec | UNSIGNED int_spec | FLOAT | DOUBLE | BOOL | STRING | OPAQUE | Ident string

fun spec_val :: "type_spec \<Rightarrow> string" where
  "spec_val (IntSpec i) = int_val i"
| "spec_val (UNSIGNED i) = ''u'' @ int_val i"
| "spec_val FLOAT = ''float32''"
| "spec_val DOUBLE = ''float64''"
| "spec_val BOOL = ''bool''"
| "spec_val STRING = ''string''"
| "spec_val OPAQUE = ''byte''"
| "spec_val (Ident n) = n"

datatype decl_syntax =
    Simple type_spec string
  | FixedArray type_spec string string
  | VariableArray type_spec string "string option"
  | Pointer type_spec string

datatype enum_value =
    Auto string
  | Valued string string
  | ProcEntry string string
  | MetaProc string string string

datatype case_entry = CaseOf string decl_syntax | DefaultCase decl_syntax

datatype procedure_syntax = ProcSyntax type_spec string type_spec string

datatype version_syntax = VersionSyntax string "procedure_syntax list" string

datatype defn =
    EnumDef string "enum_value list"
  | ConstIdent string string
  | ConstDef string string
  | TypedefDef decl_syntax
  | StructDef string "decl_syntax list"
  | UnionDef string type_spec string "case_entry list"
  | ProgramDef string "version_syntax list" string

fun decl_action :: "decl_syntax \<Rightarrow> action" where
  "decl_action (Simple t i) = ADecl i (spec_val t)"
| "decl_action (FixedArray t i l) = AFixedArray i (spec_val t) l"
| "decl_action (VariableArray t i l) = AVariableArray i (spec_val t) (case l of Some v \<Rightarrow> v | None \<Rightarrow> [])"
| "decl_action (Pointer t i) = AOptValue i (spec_val t)"

fun enum_action :: "enum_value \<Rightarrow> action" where
  "enum_action (Auto n) = AAutoVal n"
| "enum_action (Valued n v) = AEnumVal n v"
| "enum_action (ProcEntry n v) = AProcVal n v []"
| "enum_action (MetaProc meta n v) = AProcVal n v meta"

fun case_actions :: "case_entry \<Rightarrow> action list" where
  "case_actions (CaseOf v d) = [AStartCase v, decl_action d, AAddCase]"
| "case_actions (DefaultCase d) = [AStartCase ''default'', decl_action d, AAddCase]"

fun defn_actions :: "defn \<Rightarrow> action list" where
  "defn_actions (EnumDef n vs) = List.map enum_action vs @ [AStartEnum n]"
| "defn_actions (ConstIdent n v) = []"
| "defn_actions (ConstDef n v) = [AConst n v]"
| "defn_actions (TypedefDef d) = [AStartTypedef, decl_action d]"
| "defn_actions (StructDef n ds) = AStartStruct n # List.map decl_action ds @ [AAddStruct]"
| "defn_actions (UnionDef n t i cs) =
     [AStartUnion n, decl_action (Simple t i)] @ concat (List.map case_actions cs) @ [AAddUnion]"
| "defn_actions (ProgramDef n vs v) = []"

definition parse_actions :: "defn list \<Rightarrow> action list" where
  "parse_actions ds = concat (List.map defn_actions ds)"

section \<open>What the definitions mean\<close>

text \<open>A declaration, with the table of types behind it; only an optional value changes the table.\<close>

fun decl_of :: "equiv \<Rightarrow> decl_syntax \<Rightarrow> (Decl \<times> equiv) outcome" where
  "decl_of m (Simple t i) = and_then (NewDecl m i (spec_val t)) (\<lambda>d. done_with (d, m))"
| "decl_of m (FixedArray t i l) = and_then (NewDecl m i (''['' @ l @ '']'' @ spec_val t)) (\<lambda>d. done_with (d, m))"
| "decl_of m (VariableArray t i l) =
     and_then (NewDecl m i (if spec_val t = ''string'' then ''string'' else ''[]'' @ spec_val t)) (\<lambda>d. done_with (d, m))"
| "decl_of m (Pointer t i) =
     and_then (NewDecl m i (''[]'' @ spec_val t)) (\<lambda>d.
       done_with (d\<lparr>Decl_Name := ''Opt'' @ Decl_Name d\<rparr>, m(Decl_Name d \<mapsto> ''Opt'' @ Decl_Name d)))"

fun decls_of :: "equiv \<Rightarrow> decl_syntax list \<Rightarrow> (Decl list \<times> equiv) outcome" where
  "decls_of m [] = done_with ([], m)"
| "decls_of m (d # ds) =
     and_then (decl_of m d) (\<lambda>(x, m1). and_then (decls_of m1 ds) (\<lambda>(xs, m2). done_with (x # xs, m2)))"

definition case_of :: "equiv \<Rightarrow> string \<Rightarrow> decl_syntax \<Rightarrow> (Case \<times> equiv) outcome" where
  "case_of m v d =
     and_then (decl_of m d) (\<lambda>(x, m1).
       done_with (\<lparr>Decl_Name = Decl_Name x, Decl_LVName = [], Decl_Type = Decl_Type x,
         CaseName = fromSnakeToCamel (last_word v),
         DiscriminantVal = (case map_of lvTypedParams v of Some n \<Rightarrow> show_nat n | None \<Rightarrow> v)\<rparr>, m1))"

fun cases_of :: "equiv \<Rightarrow> case_entry list \<Rightarrow> (Case list \<times> equiv) outcome" where
  "cases_of m [] = done_with ([], m)"
| "cases_of m (CaseOf v d # cs) =
     and_then (case_of m v d) (\<lambda>(x, m1). and_then (cases_of m1 cs) (\<lambda>(xs, m2). done_with (x # xs, m2)))"
| "cases_of m (DefaultCase d # cs) =
     and_then (case_of m ''default'' d) (\<lambda>(x, m1). and_then (cases_of m1 cs) (\<lambda>(xs, m2). done_with (x # xs, m2)))"

text \<open>
  A definition, without the pointers to open structures, unions and cases. The entries of an enum have
  no state but the last value, and are taken from the actions.
\<close>

fun meaning :: "defn \<Rightarrow> gen_state \<Rightarrow> gen_state outcome" where
  "meaning (EnumDef n vs) s = and_then (run_actions (List.map enum_action vs) s) (StartEnum n)"
| "meaning (ConstIdent n v) s = done_with s"
| "meaning (ConstDef n v) s = AddConst n v s"
| "meaning (TypedefDef d) s =
     and_then (decl_of (equivTypes s) d) (\<lambda>(x, m).
       done_with ((if Decl_Name x \<noteq> ''string'' then upd (\<lambda>g. g\<lparr>Typedefs := Typedefs g @ [x]\<rparr>) s else s)
         \<lparr>equivTypes := m\<rparr>))"
| "meaning (StructDef n ds) s =
     and_then (name_of (identifierTransform (equivTypes s) n)) (\<lambda>goname.
     and_then (decls_of (equivTypes s) ds) (\<lambda>(xs, m).
       done_with (upd (\<lambda>g. g\<lparr>StructMap := (StructMap g)(goname \<mapsto> length (Structs g)),
           Structs := Structs g @ [\<lparr>Struct_Name = goname, Struct_LVName = n, Members = xs\<rparr>]\<rparr>) (s\<lparr>equivTypes := m\<rparr>))))"
| "meaning (UnionDef n t i cs) s =
     and_then (name_of (identifierTransform (equivTypes s) n)) (\<lambda>goname.
     and_then (decl_of (equivTypes s) (Simple t i)) (\<lambda>(x, m).
     and_then (cases_of m cs) (\<lambda>(xs, m2).
       done_with (upd (\<lambda>g. g\<lparr>UnionMap := (UnionMap g)(goname \<mapsto> length (Unions g)),
           Unions := Unions g @ [\<lparr>Union_Name = goname, DiscriminantType = Decl_Type x, Cases = xs\<rparr>]\<rparr>)
         (s\<lparr>equivTypes := m2\<rparr>)))))"
| "meaning (ProgramDef n vs v) s = done_with s"

fun meanings :: "defn list \<Rightarrow> gen_state \<Rightarrow> gen_state outcome" where
  "meanings [] s = done_with s"
| "meanings (d # ds) s = and_then (meaning d s) (meanings ds)"

section \<open>Executions\<close>

lemma and_then_assoc: "and_then (and_then m f) g = and_then m (\<lambda>a. and_then (f a) g)"
  by (simp add: and_then_def split: option.splits res.splits)

lemma and_then_done [simp]: "and_then m (\<lambda>a. done_with a) = m"
  by (simp add: and_then_def split: option.splits res.splits)

lemma and_then_cong: "m = m' \<Longrightarrow> (\<And>a. m' = done_with a \<Longrightarrow> f a = f' a) \<Longrightarrow> and_then m f = and_then m' f'"
  by (simp add: and_then_def split: option.splits res.splits)

lemma run_append [simp]: "run_actions (as @ bs) s = and_then (run_actions as s) (run_actions bs)"
  by (induction as arbitrary: s) (simp_all add: and_then_assoc cong: and_then_cong)

lemma run_one [simp]: "run_actions [a] = run_action a"
  by (rule ext) (simp add: and_then_def split: option.splits res.splits)

lemma run_decl:
  "run_action (decl_action d) s =
     and_then (decl_of (equivTypes s) d) (\<lambda>(x, m). done_with (addDecl x (s\<lparr>equivTypes := m\<rparr>)))"
proof -
  have same: "s\<lparr>equivTypes := equivTypes s\<rparr> = s" by simp
  show ?thesis
    by (cases d) (simp_all add: AddDeclaration_def AddFixedArray_def AddVariableArray_def AddOptValue_def
        and_then_assoc Let_def same del: gen_state.simps)
qed

text \<open>The members of a structure go to the structure on top of the stack.\<close>

lemma run_members:
  "CurrentStruct s = st # rest \<Longrightarrow>
   run_actions (List.map decl_action ds) s =
     and_then (decls_of (equivTypes s) ds) (\<lambda>(xs, m).
       done_with (s\<lparr>CurrentStruct := st\<lparr>Members := Members st @ xs\<rparr> # rest, equivTypes := m\<rparr>))"
proof (induction ds arbitrary: s st)
  case Nil
  have "s\<lparr>CurrentStruct := st # rest, equivTypes := equivTypes s\<rparr> = s"
    using Nil by (cases s) simp
  moreover have "st\<lparr>Members := Members st @ []\<rparr> = st" by simp
  ultimately show ?case by simp
next
  case (Cons d ds)
  then show ?case
    by (simp add: run_decl and_then_assoc addDecl_def case_prod_beta cong: and_then_cong)
qed

lemma run_case:
  assumes "CurrentStruct s = []" and "CurrentTypedef s = None" and "CurrentUnion s = Some u" and "CurrentCase s = None"
  shows "run_actions [AStartCase v, decl_action d, AAddCase] s =
    and_then (case_of (equivTypes s) v d) (\<lambda>(x, m).
      done_with (s\<lparr>CurrentUnion := Some (u\<lparr>Cases := Cases u @ [x]\<rparr>), equivTypes := m\<rparr>))"
  using assms
  by (cases s) (simp add: StartCase_def Let_def run_decl case_of_def and_then_assoc addDecl_def AddCase_def
      case_prod_beta cong: and_then_cong)

lemma run_cases:
  "CurrentStruct s = [] \<Longrightarrow> CurrentTypedef s = None \<Longrightarrow> CurrentUnion s = Some u \<Longrightarrow> CurrentCase s = None \<Longrightarrow>
   run_actions (concat (List.map case_actions cs)) s =
     and_then (cases_of (equivTypes s) cs) (\<lambda>(xs, m).
       done_with (s\<lparr>CurrentUnion := Some (u\<lparr>Cases := Cases u @ xs\<rparr>), equivTypes := m\<rparr>))"
proof (induction cs arbitrary: s u)
  case Nil
  have "s\<lparr>CurrentUnion := Some u, equivTypes := equivTypes s\<rparr> = s" using Nil by (cases s) simp
  moreover have "u\<lparr>Cases := Cases u @ []\<rparr> = u" by simp
  ultimately show ?case by simp
next
  case (Cons c cs)
  obtain v d where c: "case_actions c = [AStartCase v, decl_action d, AAddCase]"
    "\<And>m. cases_of m (c # cs) =
      and_then (case_of m v d) (\<lambda>(x, m1). and_then (cases_of m1 cs) (\<lambda>(xs, m2). done_with (x # xs, m2)))"
    by (cases c) auto
  have "run_actions (concat (List.map case_actions (c # cs))) s =
      and_then (run_actions (case_actions c) s) (run_actions (concat (List.map case_actions cs)))"
    by (simp only: list.map concat.simps run_append)
  also have "\<dots> = and_then (case_of (equivTypes s) v d) (\<lambda>(x, m). run_actions (concat (List.map case_actions cs))
      (s\<lparr>CurrentUnion := Some (u\<lparr>Cases := Cases u @ [x]\<rparr>), equivTypes := m\<rparr>))"
    unfolding c(1) run_case [OF Cons.prems]
    by (simp add: and_then_assoc case_prod_unfold)
  finally show ?case
    using Cons by (simp add: c(2) and_then_assoc case_prod_beta cong: and_then_cong)
qed

text \<open>Between two definitions nothing is open.\<close>

definition closed :: "gen_state \<Rightarrow> bool" where
  "closed s \<longleftrightarrow>
     CurrentStruct s = [] \<and> CurrentTypedef s = None \<and> CurrentUnion s = None \<and> CurrentCase s = None"

text \<open>What holds of the state that an outcome brings.\<close>

definition ends_in :: "('a \<Rightarrow> bool) \<Rightarrow> 'a outcome \<Rightarrow> bool" where
  "ends_in P m \<longleftrightarrow> (case m of Some (Ok a) \<Rightarrow> P a | Some Panic \<Rightarrow> False | _ \<Rightarrow> True)"

lemma ends_in_then: "ends_in P m \<Longrightarrow> (\<And>a. P a \<Longrightarrow> ends_in Q (f a)) \<Longrightarrow> ends_in Q (and_then m f)"
  by (cases m; cases "the m") (auto simp: ends_in_def)

lemma ends_in_name [simp]: "ends_in (\<lambda>_. True) (name_of n)"
  by (simp add: ends_in_def name_of_def split: option.splits)

lemma ends_in_done [simp]: "ends_in P (done_with a) = P a"
  by (simp add: ends_in_def)

lemma run_struct:
  "run_actions (defn_actions (StructDef n ds)) s = meaning (StructDef n ds) s"
proof -
  have "run_actions (defn_actions (StructDef n ds)) s =
      and_then (name_of (identifierTransform (equivTypes s) n)) (\<lambda>goname.
        and_then (run_actions (List.map decl_action ds) (s\<lparr>CurrentStruct :=
          \<lparr>Struct_Name = goname, Struct_LVName = n, Members = []\<rparr> # CurrentStruct s\<rparr>)) AddStruct)"
    by (simp add: StartStruct_def and_then_assoc cong: and_then_cong)
  also have "\<dots> = meaning (StructDef n ds) s"
  proof -
    have "s\<lparr>CurrentStruct := CurrentStruct s, equivTypes := m, Gen := g\<rparr> = s\<lparr>equivTypes := m, Gen := g\<rparr>" for m g
      by (cases s) simp
    then show ?thesis
      by (simp add: run_members and_then_assoc AddStruct_def case_prod_unfold cong: and_then_cong)
  qed
  finally show ?thesis .
qed

lemma run_union:
  assumes "closed s"
  shows "run_actions (defn_actions (UnionDef n t i cs)) s = meaning (UnionDef n t i cs) s"
proof -
  have s: "CurrentStruct s = []" "CurrentTypedef s = None" "CurrentUnion s = None" "CurrentCase s = None"
    using assms by (simp_all add: closed_def)
  have "run_actions (defn_actions (UnionDef n t i cs)) s =
      and_then (StartUnion n s) (\<lambda>s1. and_then (run_action (decl_action (Simple t i)) s1)
        (\<lambda>s2. and_then (run_actions (concat (List.map case_actions cs)) s2) AddUnion))"
    by (simp add: and_then_assoc del: decl_action.simps cong: and_then_cong)
  also have "\<dots> = meaning (UnionDef n t i cs) s"
  proof -
    have none: "u\<lparr>CurrentUnion := None\<rparr> = u" if "CurrentUnion u = None" for u :: gen_state
      using that by (cases u) simp
    show ?thesis
      by (simp add: none StartUnion_def run_decl and_then_assoc case_prod_unfold addDecl_def s run_cases AddUnion_def
          del: decl_action.simps decl_of.simps cong: and_then_cong)
  qed
  finally show ?thesis .
qed

lemma run_typedef:
  assumes "closed s"
  shows "run_actions (defn_actions (TypedefDef d)) s = meaning (TypedefDef d) s"
proof -
  have s: "CurrentStruct s = []" "CurrentTypedef s = None" using assms by (simp_all add: closed_def)
  have "addDecl x (s\<lparr>CurrentTypedef := Some e, equivTypes := m\<rparr>) =
      (if Decl_Name x \<noteq> ''string'' then upd (\<lambda>g. g\<lparr>Typedefs := Typedefs g @ [x]\<rparr>) s else s)\<lparr>equivTypes := m\<rparr>" for x e m
    using s by (cases s) (simp add: addDecl_def)
  then show ?thesis
    by (simp add: StartTypedef_def run_decl and_then_assoc case_prod_unfold cong: and_then_cong)
qed

lemma run_defn: "closed s \<Longrightarrow> run_actions (defn_actions d) s = meaning d s"
  by (cases d) (simp_all add: run_struct run_union run_typedef del: run_actions.simps(2) meaning.simps(4-6)
      defn_actions.simps(4-6) cong: and_then_cong)

lemma and_then_doneE:
  assumes "and_then m f = done_with b"
  obtains a where "m = done_with a" "f a = done_with b"
  using assms by (auto simp: and_then_def split: option.splits res.splits)

text \<open>The entries of an enum change the lists of values and procedures only.\<close>

lemma enum_frame:
  assumes "run_action (enum_action v) s = done_with s1"
  shows "closed s1 = closed s \<and> equivTypes s1 = equivTypes s \<and> StructMap (Gen s1) = StructMap (Gen s) \<and>
    Structs (Gen s1) = Structs (Gen s) \<and> UnionMap (Gen s1) = UnionMap (Gen s) \<and> Unions (Gen s1) = Unions (Gen s)"
  using assms
  by (cases v) (auto simp: AddEnumAutoVal_def AddEnumVal_def AddProcEnumVal_def addEnumVal_def Let_def closed_def
      elim!: and_then_doneE split: option.splits res.splits)

lemma enums_frame:
  "run_actions (List.map enum_action vs) s = done_with s1 \<Longrightarrow>
   closed s1 = closed s \<and> equivTypes s1 = equivTypes s \<and> StructMap (Gen s1) = StructMap (Gen s) \<and>
    Structs (Gen s1) = Structs (Gen s) \<and> UnionMap (Gen s1) = UnionMap (Gen s) \<and> Unions (Gen s1) = Unions (Gen s)"
  by (induction vs arbitrary: s) (auto elim!: and_then_doneE dest!: enum_frame)

lemma meaning_closed: "meaning d s = done_with s1 \<Longrightarrow> closed s \<Longrightarrow> closed s1"
proof (cases d)
  case (EnumDef n vs)
  assume "meaning d s = done_with s1" "closed s"
  then show ?thesis
    using EnumDef by (auto simp: StartEnum_def closed_def elim!: and_then_doneE dest!: enums_frame)
qed (auto simp: AddConst_def closed_def elim!: and_then_doneE split: option.splits if_splits)

lemma run_meanings: "closed s \<Longrightarrow> run_actions (parse_actions ds) s = meanings ds s"
proof (induction ds arbitrary: s)
  case Nil
  then show ?case by (simp add: parse_actions_def)
next
  case (Cons d ds)
  then have "run_actions (parse_actions (d # ds)) s = and_then (meaning d s) (run_actions (parse_actions ds))"
    by (simp add: parse_actions_def run_defn)
  also have "\<dots> = and_then (meaning d s) (meanings ds)"
    using Cons meaning_closed by (intro and_then_cong) auto
  finally show ?case by simp
qed

lemma closed_init [simp]: "closed init_state"
  by (simp add: closed_def init_state_def)

text \<open>
  C35. The actions of the parser, which work on the open structures, unions and cases step by step, amount
  to the meaning of the definitions: each one adds its own entry, with all its members, in order.
\<close>
theorem parse_meaning: "run_actions (parse_actions ds) init_state = meanings ds init_state"
  by (rule run_meanings) simp

section \<open>No panics\<close>

text \<open>The names of procedures, as the lexer tells them from other identifiers.\<close>

fun proc_names :: "enum_value \<Rightarrow> string list" where
  "proc_names (ProcEntry n v) = [n]"
| "proc_names (MetaProc meta n v) = [n]"
| "proc_names _ = []"

fun lexed :: "defn \<Rightarrow> bool" where
  "lexed (EnumDef n vs) = list_all (\<lambda>p. procIdent (runes p)) (concat (List.map proc_names vs))"
| "lexed _ = True"

lemma has_prefix_map: "inj f \<Longrightarrow> has_prefix (List.map f s) (List.map f p) = has_prefix s p"
  by (induction s p rule: has_prefix.induct) (auto dest: injD)

lemma str_index_map: "inj f \<Longrightarrow> str_index (List.map f s) (List.map f p) = str_index s p"
proof (induction s)
  case Nil
  then show ?case
    by (simp add: str_index.simps [of "[]"] str_index.simps [of "List.map f []"] has_prefix_map [of f "[]" p, simplified])
next
  case (Cons c s)
  then show ?case
    using has_prefix_map [OF Cons.prems, of "c # s" p]
    by (simp add: str_index.simps [of "f c # List.map f s"] str_index.simps [of "c # s"])
qed

lemma inj_rune: "inj (of_char :: char \<Rightarrow> rune)"
  by (rule injI) simp

lemma procProgramName_lexed: "procIdent (runes n) \<Longrightarrow> procProgramName n \<noteq> Some Panic"
proof -
  assume "procIdent (runes n)"
  then have "str_index n ''_PROC_'' \<noteq> None"
    using str_index_map [OF inj_rune, of n "''_PROC_''"] by (auto simp: procIdent_def runes_def split: option.splits)
  then have "sublist ''_PROC_'' n" by (simp add: str_index_None_iff)
  moreover have "sublist ''PROC_'' ''_PROC_''" by (simp add: sublist_Cons_right)
  ultimately have "sublist ''PROC_'' n" by (rule sublist_order.order.trans [rotated])
  then have "str_index n ''PROC_'' \<noteq> None" by (simp add: str_index_None_iff)
  then show ?thesis by (auto simp: procProgramName_def name_of_def split: option.splits)
qed

lemma meta_lines_no_panic [simp]: "meta_lines meta ls m \<noteq> Panic"
  by (induction meta ls m rule: meta_lines.induct) (auto simp: Let_def split: option.splits list.splits)

text \<open>An outcome is no panic.\<close>

definition calm :: "'a outcome \<Rightarrow> bool" where
  "calm m \<longleftrightarrow> m \<noteq> Some Panic"

lemma calm_then: "calm m \<Longrightarrow> (\<And>a. m = done_with a \<Longrightarrow> calm (f a)) \<Longrightarrow> calm (and_then m f)"
  by (auto simp: calm_def and_then_def split: option.splits res.splits)

lemma calm_simps [simp]: "calm (done_with a)" "calm (Some (Err e))" "calm (name_of n)"
  by (auto simp: calm_def name_of_def)

lemma calm_decl: "calm (decl_of m d)"
  by (cases d) (auto simp: NewDecl_def intro!: calm_then)

lemma calm_decls: "calm (decls_of m ds)"
  by (induction ds arbitrary: m) (auto intro!: calm_then calm_decl)

lemma calm_cases: "calm (cases_of m cs)"
proof (induction cs arbitrary: m)
  case (Cons c cs)
  then show ?case by (cases c) (auto simp: case_of_def intro!: calm_then calm_decl)
qed simp

lemma calm_enum:
  "list_all (\<lambda>p. procIdent (runes p)) (proc_names v) \<Longrightarrow> calm (run_action (enum_action v) s)"
  by (cases v) (auto simp: AddEnumAutoVal_def AddEnumVal_def AddProcEnumVal_def addEnumVal_def Let_def parseMeta_def
      calm_def [of "procProgramName _"] procProgramName_lexed intro!: calm_then split: option.splits res.splits)

lemma calm_enums:
  "list_all (\<lambda>p. procIdent (runes p)) (concat (List.map proc_names vs)) \<Longrightarrow>
   calm (run_actions (List.map enum_action vs) s)"
  by (induction vs arbitrary: s) (auto intro!: calm_then calm_enum)

lemma calm_meaning: "lexed d \<Longrightarrow> calm (meaning d s)"
  by (cases d) (auto simp: StartEnum_def AddConst_def intro!: calm_then calm_enums calm_decl calm_decls calm_cases
      simp del: decl_of.simps split: option.splits)

lemma calm_meanings: "list_all lexed ds \<Longrightarrow> calm (meanings ds s)"
  by (induction ds arbitrary: s) (auto intro!: calm_then calm_meaning)

text \<open>
  C36. The parser's actions never panic on a protocol file whose procedures have the names by which the lexer
  recognises them: no pointer is nil when it is followed, and every procedure has a program.
\<close>
theorem parser_never_panics:
  assumes "list_all lexed ds"
  shows "run_actions (parse_actions ds) init_state \<noteq> Some Panic"
  using calm_meanings [OF assms] by (simp add: run_meanings calm_def)

theorem parser_never_panics_witness:
  "run_actions (parse_actions [EnumDef ''remote_procedure'' [MetaProc ''/** @generate: both */'' ''REMOTE_PROC_X'' ''1'']])
     init_state \<noteq> Some Panic"
proof (rule parser_never_panics)
  have "procIdent (runes ''REMOTE_PROC_X'')" by code_simp
  then show "list_all lexed [EnumDef ''remote_procedure'' [MetaProc ''/** @generate: both */'' ''REMOTE_PROC_X'' ''1'']]"
    by simp
qed

section \<open>The values of enums\<close>

lemma auto_values:
  "run_actions (List.map (\<lambda>n. enum_action (Auto n)) ns) s = done_with s1 \<Longrightarrow>
   List.map Const_Val (EnumVals (Gen s1)) = List.map Const_Val (EnumVals (Gen s)) @
     List.map (\<lambda>i. FormatInt (CurrentEnumVal s + 1 + of_nat i)) [0..<length ns]"
proof (induction ns arbitrary: s)
  case (Cons n ns)
  then obtain s2 where s2: "AddEnumAutoVal n s = done_with s2"
    "run_actions (List.map (\<lambda>n. enum_action (Auto n)) ns) s2 = done_with s1" by (auto elim!: and_then_doneE)
  have v: "CurrentEnumVal s2 = CurrentEnumVal s + 1"
    "List.map Const_Val (EnumVals (Gen s2)) = List.map Const_Val (EnumVals (Gen s)) @ [FormatInt (CurrentEnumVal s + 1)]"
    using s2(1) by (auto simp: AddEnumAutoVal_def addEnumVal_def Let_def elim!: and_then_doneE)
  have "[0..<length (n # ns)] = 0 # List.map Suc [0..<length ns]" by (simp add: upt_conv_Cons map_Suc_upt del: upt_Suc)
  then show ?case using Cons.IH [OF s2(2)] v by (simp add: comp_def add.assoc)
qed simp

text \<open>
  The entries of an enum that have no value are numbered from the value after \<open>CurrentEnumVal\<close>, which is
  \<open>-1\<close> after every enum. It is not so before the first one, where it is 0: there the numbers begin with 1
  and not with 0, as they should.
\<close>
theorem enum_numbering:
  assumes "run_actions (defn_actions (EnumDef n (List.map Auto ns))) s = done_with s1"
  shows "List.map Const_Val (EnumVals (Gen s1)) = List.map Const_Val (EnumVals (Gen s)) @
      List.map (\<lambda>i. FormatInt (CurrentEnumVal s + 1 + of_nat i)) [0..<length ns] \<and>
    CurrentEnumVal s1 = -1"
proof -
  have "defn_actions (EnumDef n (List.map Auto ns)) = List.map (\<lambda>n. enum_action (Auto n)) ns @ [AStartEnum n]"
    by (simp add: comp_def)
  then obtain s2 where "run_actions (List.map (\<lambda>n. enum_action (Auto n)) ns) s = done_with s2" "StartEnum n s2 = done_with s1"
    using assms by (auto simp del: defn_actions.simps elim!: and_then_doneE)
  then show ?thesis using auto_values [of ns s s2] by (auto simp: StartEnum_def elim!: and_then_doneE)
qed

theorem enum_numbering_witness:
  "\<exists>s1 s2. run_actions (defn_actions (EnumDef ''a'' [Auto ''A'', Auto ''B''])) init_state = done_with s1 \<and>
    List.map Const_Val (EnumVals (Gen s1)) = [''1'', ''2''] \<and>
    run_actions (defn_actions (EnumDef ''b'' [Auto ''C'', Auto ''D''])) s1 = done_with s2 \<and>
    List.map Const_Val (EnumVals (Gen s2)) = [''1'', ''2'', ''0'', ''1'']"
proof -
  have names: "constNameTransform ''A'' = Some ''A''" "constNameTransform ''B'' = Some ''B''"
    "constNameTransform ''C'' = Some ''C''" "constNameTransform ''D'' = Some ''D''"
    "identifierTransform (map_of goEquivTypes) ''a'' = Some ''A''"
    "identifierTransform (map_of goEquivTypes) ''b'' = Some ''B''" by code_simp+
  have nums: "FormatInt 0 = ''0''" "FormatInt 1 = ''1''" "FormatInt 2 = ''2''"
    by (simp_all add: FormatInt_def show_int_def digit_char_def show_nat.simps char_of_def bit_iff_odd)
  obtain s1 where s1: "run_actions (defn_actions (EnumDef ''a'' (List.map Auto [''A'', ''B'']))) init_state = done_with s1"
    by (simp add: init_state_def AddEnumAutoVal_def addEnumVal_def Let_def StartEnum_def names)
  then obtain s2 where s2: "run_actions (defn_actions (EnumDef ''b'' (List.map Auto [''C'', ''D'']))) s1 = done_with s2"
    by (auto simp add: init_state_def AddEnumAutoVal_def addEnumVal_def Let_def StartEnum_def names)
  show ?thesis
    using s1 s2 enum_numbering [OF s1] enum_numbering [OF s2]
    by (simp add: upt_conv_Cons init_state_def newGenerator_def nums)
qed

section \<open>The tables of structures and unions\<close>

text \<open>The two maps lead to entries of their names.\<close>

definition maps_ok :: "Generator \<Rightarrow> bool" where
  "maps_ok g \<longleftrightarrow>
     (\<forall>n i. StructMap g n = Some i \<longrightarrow> i < length (Structs g) \<and> Struct_Name (Structs g ! i) = n) \<and>
     (\<forall>n i. UnionMap g n = Some i \<longrightarrow> i < length (Unions g) \<and> Union_Name (Unions g ! i) = n)"

lemma maps_ok_same:
  "maps_ok g \<Longrightarrow> StructMap g1 = StructMap g \<Longrightarrow> Structs g1 = Structs g \<Longrightarrow> UnionMap g1 = UnionMap g \<Longrightarrow>
   Unions g1 = Unions g \<Longrightarrow> maps_ok g1"
  by (simp add: maps_ok_def)

lemma maps_ok_struct:
  "maps_ok g \<Longrightarrow> maps_ok (g\<lparr>StructMap := (StructMap g)(Struct_Name st \<mapsto> length (Structs g)), Structs := Structs g @ [st]\<rparr>)"
  by (auto simp: maps_ok_def nth_append less_Suc_eq)

lemma maps_ok_union:
  "maps_ok g \<Longrightarrow> maps_ok (g\<lparr>UnionMap := (UnionMap g)(Union_Name u \<mapsto> length (Unions g)), Unions := Unions g @ [u]\<rparr>)"
  by (auto simp: maps_ok_def nth_append less_Suc_eq)

lemma maps_ok_meaning:
  assumes "meaning d s = done_with s1" and "maps_ok (Gen s)"
  shows "maps_ok (Gen s1)"
proof (cases d)
  case (EnumDef n vs)
  then obtain s2 where "run_actions (List.map enum_action vs) s = done_with s2" "StartEnum n s2 = done_with s1"
    using assms(1) by (auto elim!: and_then_doneE)
  then show ?thesis
    using enums_frame [of vs s s2] maps_ok_same [OF assms(2)] by (auto simp: StartEnum_def elim!: and_then_doneE)
next
  case (StructDef n ds)
  then show ?thesis
    using assms maps_ok_struct [OF assms(2), of "\<lparr>Struct_Name = _, Struct_LVName = n, Members = _\<rparr>"]
    by (auto elim!: and_then_doneE)
next
  case (UnionDef n t i cs)
  then show ?thesis
    using assms maps_ok_union [OF assms(2), of "\<lparr>Union_Name = _, DiscriminantType = _, Cases = _\<rparr>"]
    by (auto simp del: decl_of.simps elim!: and_then_doneE)
qed (use assms in \<open>auto simp: AddConst_def intro: maps_ok_same elim!: and_then_doneE split: option.splits if_splits\<close>)

lemma maps_ok_meanings: "meanings ds s = done_with s1 \<Longrightarrow> maps_ok (Gen s) \<Longrightarrow> maps_ok (Gen s1)"
  by (induction ds arbitrary: s) (auto elim!: and_then_doneE dest: maps_ok_meaning)

lemma maps_ok_init [simp]: "maps_ok (Gen init_state)"
  by (simp add: maps_ok_def init_state_def newGenerator_def)

lemma parsed_maps_ok: "run_actions (parse_actions ds) init_state = done_with s \<Longrightarrow> maps_ok (Gen s)"
  using maps_ok_meanings [of ds init_state s] by (simp add: run_meanings)

end
