(* ===== verification/Lvgen_Yacc.thy ===== *)
theory Lvgen_Yacc
  imports Lvgen_Protocol "HOL-Library.Monad_Syntax"
begin

text \<open>
  The parser that goyacc generated from \<open>sunrpc.y\<close> (\<open>src/internal/lvgen/y.go\<close>): its tables, the reading
  of tokens, the messages of syntax errors, and \<open>Parse\<close>, whose labels are functions and whose local
  variables are the fields of a record. An access to an array outside its bounds is \<open>None\<close>.
\<close>

section \<open>The tables\<close>

fun idx :: "'a list \<Rightarrow> int \<Rightarrow> 'a option" where
  "idx [] i = None"
| "idx (x # xs) i = (if i = 0 then Some x else idx xs (i - 1))"

definition yyPrivate :: int where
  "yyPrivate = 57344"

definition yyLast :: int where
  "yyLast = 157"

definition yyFlag :: int where
  "yyFlag = - 1000"

definition yyEofCode :: int where
  "yyEofCode = 1"

definition yyErrCode :: int where
  "yyErrCode = 2"

definition yyInitialStackSize :: nat where
  "yyInitialStackSize = 16"

definition yyAct :: "int list" where
  "yyAct =
     [89, 82, 36, 119, 111, 81, 64, 70, 32, 55, 58, 137, 134, 136, 108, 125, 90, 91, 83, 66, 37, 106,
      78, 31, 79, 105, 139, 61, 123, 101, 74, 96, 41, 93, 76, 65, 40, 10, 39, 43, 42, 13, 75, 30, 14,
      38, 126, 48, 49, 50, 51, 47, 115, 97, 84, 73, 114, 103, 60, 67, 54, 52, 29, 59, 61, 118, 142,
      135, 127, 116, 77, 98, 80, 85, 16, 72, 66, 92, 11, 94, 95, 10, 90, 91, 88, 13, 100, 12, 14, 62,
      63, 87, 99, 102, 104, 69, 27, 25, 15, 23, 20, 18, 110, 2, 107, 117, 113, 109, 48, 49, 50, 51,
      46, 8, 112, 45, 7, 44, 4, 113, 28, 124, 128, 121, 130, 122, 86, 71, 131, 8, 26, 132, 7, 129, 4,
      133, 138, 120, 53, 140, 141, 24, 68, 22, 35, 34, 33, 21, 19, 57, 56, 17, 9, 6, 5, 3, 1]"

definition yyPact :: "int list" where
  "yyPact =
     [72, - 1000, - 1000, 44, - 1000, - 1000, - 1000, - 1000, - 1000, - 1000, 78, 77, - 1000, 76, 74,
      73, 72, 31, - 1000, 9, - 1000, 28, 30, - 1000, - 1000, - 1000, 29, - 1000, - 1000, 35, 66,
      - 1000, - 1000, - 1000, - 1000, - 1000, - 4, - 1000, 89, - 1000, - 1000, - 1000, - 1000,
      - 1000, - 1000, - 1000, - 1000, - 1000, - 1000, - 1000, - 1000, - 1000, - 1000, 81, 48, 23,
      - 3, 8, 0, - 2, - 1000, - 1000, - 1000, - 1000, - 13, 53, - 1000, - 1000, 28, - 22, 22, 43, 68,
      - 1000, 35, 59, 59, - 1, 59, - 7, - 1000, 21, 41, 28, - 5, 48, 26, - 1000, - 1000, - 1000,
      - 1000, - 1000, - 1000, 59, - 11, - 17, - 1000, - 1000, 28, - 27, 53, 59, - 1000, 28, - 1000,
      - 1000, - 1000, - 1000, 25, - 1000, - 1000, 20, 39, 42, 118, - 6, 28, - 25, - 1000, 14, 38, 59,
      - 1000, 59, - 1000, 28, - 1000, 118, - 1000, - 30, 37, - 28, - 1000, - 31, 28, - 1000, - 8, 28,
      - 1000, 59, - 1000, 36, - 1000]"

definition yyPgo :: "int list" where
  "yyPgo =
     [0, 156, 103, 0, 155, 117, 154, 153, 115, 112, 152, 151, 9, 150, 149, 10, 148, 147, 1, 8, 146,
      145, 144, 2, 6, 20, 143, 142, 5, 141, 138, 3, 137, 135, 133, 130, 7, 127, 126, 4, 114, 105]"

definition yyR1 :: "int list" where
  "yyR1 =
     [0, 1, 3, 3, 2, 2, 4, 4, 4, 4, 4, 4, 5, 12, 12, 13, 13, 13, 13, 15, 11, 14, 6, 6, 16, 17, 7, 18,
      18, 18, 18, 19, 23, 23, 23, 23, 23, 23, 23, 23, 23, 23, 23, 25, 25, 25, 25, 24, 20, 21, 21, 22,
      27, 8, 26, 28, 28, 30, 9, 29, 31, 31, 33, 32, 34, 32, 10, 35, 36, 36, 37, 38, 39, 39, 40, 41]"

definition yyR2 :: "int list" where
  "yyR2 =
     [0, 1, 1, 1, 2, 3, 1, 1, 1, 1, 1, 1, 5, 1, 3, 1, 3, 3, 4, 1, 1, 1, 4, 4, 1, 0, 3, 1, 1, 1, 1, 2,
      1, 2, 1, 1, 1, 1, 1, 1, 1, 1, 1, 1, 1, 1, 1, 1, 5, 5, 4, 3, 0, 6, 1, 2, 3, 0, 10, 1, 2, 3, 0,
      5, 0, 4, 7, 1, 2, 3, 8, 1, 2, 3, 8, 1]"

definition yyChk :: "int list" where
  "yyChk =
     [- 1000, - 1, - 2, - 4, - 5, - 6, - 7, - 8, - 9, - 10, 9, 6, 15, 13, 16, 26, 30, - 11, 23, - 16,
      23, - 17, - 26, 23, - 29, 23, - 35, 23, - 2, 31, 34, - 18, - 19, - 20, - 21, - 22, - 23, - 25,
      17, 10, 8, 4, 12, 11, - 5, - 8, - 9, 23, 19, 20, 21, 22, 31, - 30, 31, - 12, - 13, - 14, - 15,
      28, 23, 29, 23, 24, - 24, 39, 23, - 25, - 27, 14, - 36, - 37, 27, 32, 33, 34, 34, - 15, 35, 37,
      - 24, - 28, - 18, 40, 32, 30, - 38, 23, - 12, - 3, 23, 24, - 3, 34, - 3, - 3, 38, 32, 30, - 19,
      - 23, 34, - 36, 31, - 3, 36, 38, - 28, 41, - 24, - 3, - 39, - 40, - 23, 31, 32, 30, - 41, 23,
      - 31, - 32, 5, 7, 34, - 39, 40, 32, 30, - 3, - 34, - 3, - 23, - 31, - 33, 42, 30, 41, 42, - 18,
      34, - 18, - 3, 30]"

definition yyDef :: "int list" where
  "yyDef =
     [0, - 2, 1, 0, 6, 7, 8, 9, 10, 11, 0, 0, 25, 0, 0, 0, 4, 0, 20, 0, 24, 0, 0, 54, 57, 59, 0, 67,
      5, 0, 0, 26, 27, 28, 29, 30, 0, 32, 0, 34, 35, 36, 37, 38, 39, 40, 41, 42, 43, 44, 45, 46, 52,
      0, 0, 0, 13, 15, 0, 0, 21, 19, 22, 23, 31, 0, 47, 33, 0, 0, 0, 0, 0, 12, 0, 0, 0, 0, 0, 0, 51,
      0, 0, 0, 0, 68, 0, 71, 14, 16, 2, 3, 17, 0, 0, 0, 50, 53, 55, 0, 0, 0, 69, 0, 18, 48, 49, 56,
      0, 31, 66, 0, 0, 0, 0, 0, 72, 0, 75, 0, 0, 0, 64, 0, 73, 0, 58, 60, 62, 0, 0, 0, 61, 0, 0, 70,
      0, 0, 65, 0, 63, 0, 74]"

definition yyTok1 :: "int list" where
  "yyTok1 =
     [1, 3, 3, 3, 3, 3, 3, 3, 3, 3, 3, 3, 3, 3, 3, 3, 3, 3, 3, 3, 3, 3, 3, 3, 3, 3, 3, 3, 3, 3, 3, 3,
      3, 3, 3, 3, 3, 3, 3, 3, 40, 41, 39, 3, 33, 3, 3, 3, 3, 3, 3, 3, 3, 3, 3, 3, 3, 3, 42, 30, 37,
      34, 38, 3, 3, 3, 3, 3, 3, 3, 3, 3, 3, 3, 3, 3, 3, 3, 3, 3, 3, 3, 3, 3, 3, 3, 3, 3, 3, 3, 3, 35,
      3, 36, 3, 3, 3, 3, 3, 3, 3, 3, 3, 3, 3, 3, 3, 3, 3, 3, 3, 3, 3, 3, 3, 3, 3, 3, 3, 3, 3, 3, 3,
      31, 3, 32]"

definition yyTok2 :: "int list" where
  "yyTok2 =
     [2, 3, 4, 5, 6, 7, 8, 9, 10, 11, 12, 13, 14, 15, 16, 17, 18, 19, 20, 21, 22, 23, 24, 25, 26, 27,
      28, 29]"

definition yyTok3 :: "int list" where
  "yyTok3 =
     [0]"

definition yyExca :: "int list" where
  "yyExca =
     [- 1, 1, 1, - 1, - 2, 0]"

definition yyToknames :: "string list" where
  "yyToknames =
     [''$end'', ''error'', ''$unk'', ''BOOL'', ''CASE'', ''CONST'', ''DEFAULT'', ''DOUBLE'',
      ''ENUM'', ''FLOAT'', ''OPAQUE'', ''STRING'', ''STRUCT'', ''SWITCH'', ''TYPEDEF'',
      ''UNION'', ''UNSIGNED'', ''VOID'', ''HYPER'', ''INT'', ''SHORT'', ''CHAR'', ''IDENTIFIER'',
      ''CONSTANT'', ''ERROR'', ''PROGRAM'', ''VERSION'', ''METADATACOMMENT'', ''PROCIDENTIFIER'',
      [CHR 0x27, CHR '';'', CHR 0x27], [CHR 0x27, CHR ''{'', CHR 0x27],
      [CHR 0x27, CHR ''}'', CHR 0x27], [CHR 0x27, CHR '','', CHR 0x27],
      [CHR 0x27, CHR ''='', CHR 0x27], [CHR 0x27, CHR ''['', CHR 0x27],
      [CHR 0x27, CHR '']'', CHR 0x27], [CHR 0x27, CHR ''<'', CHR 0x27],
      [CHR 0x27, CHR ''>'', CHR 0x27], [CHR 0x27, CHR ''*'', CHR 0x27],
      [CHR 0x27, CHR ''('', CHR 0x27], [CHR 0x27, CHR '')'', CHR 0x27],
      [CHR 0x27, CHR '':'', CHR 0x27]]"

section \<open>Tokens\<close>

text \<open>The integers of the tokens, as the lexer's table of keywords and the parser's constants have them.\<close>

definition keyword_codes :: "(string \<times> int) list" where
  "keyword_codes =
     [(''hyper'', 57361), (''int'', 57362), (''short'', 57363), (''char'', 57364), (''bool'', 57346),
      (''case'', 57347), (''const'', 57348), (''default'', 57349), (''double'', 57350), (''enum'', 57351),
      (''float'', 57352), (''opaque'', 57353), (''string'', 57354), (''struct'', 57355), (''switch'', 57356),
      (''typedef'', 57357), (''union'', 57358), (''unsigned'', 57359), (''void'', 57360), (''program'', 57368),
      (''version'', 57369)]"

fun typ_code :: "token \<Rightarrow> int" where
  "typ_code (TRune r) = int r"
| "typ_code (Keyword w) = (case map_of keyword_codes (List.map char_of w) of Some c \<Rightarrow> c | None \<Rightarrow> 0)"
| "typ_code PROCIDENTIFIER = 57371"
| "typ_code IDENTIFIER = 57365"
| "typ_code CONSTANT = 57366"
| "typ_code METADATACOMMENT = 57370"
| "typ_code ERROR = 57367"

text \<open>
  \<open>yylex1\<close> takes the lexer's integer to the parser's; an integer in no table is the token 3, and 0,
  which the closed channel gives, is the end.
\<close>

fun search_tok3 :: "int list \<Rightarrow> int \<Rightarrow> int \<Rightarrow> int option" where
  "search_tok3 [] c t = Some t"
| "search_tok3 [x] c t = (if x = c then None else Some x)"
| "search_tok3 (x # y # xs) c t = (if x = c then Some y else search_tok3 xs c x)"

definition token_of :: "int \<Rightarrow> int option" where
  "token_of c =
     do {
       t \<leftarrow> (if c \<le> 0 then idx yyTok1 0
             else if c < int (length yyTok1) then idx yyTok1 c
             else if yyPrivate \<le> c \<and> c < yyPrivate + int (length yyTok2) then idx yyTok2 (c - yyPrivate)
             else search_tok3 yyTok3 c 0);
       if t = 0 then idx yyTok2 1 else Some t
     }"

section \<open>Messages\<close>

definition yyTokname :: "int \<Rightarrow> string" where
  "yyTokname c =
     (case (if 1 \<le> c then idx yyToknames (c - 1) else None) of
        Some n \<Rightarrow> if n \<noteq> [] then n else ''tok-'' @ show_int c
      | None \<Rightarrow> ''tok-'' @ show_int c)"

text \<open>The tokens that can be shifted, of a list; then those that the exception table mentions.\<close>

fun shiftable :: "int \<Rightarrow> int list \<Rightarrow> int list option" where
  "shiftable base [] = Some []"
| "shiftable base (tok # toks) =
     do {
       let n = base + tok;
       b \<leftarrow> (if 0 \<le> n \<and> n < yyLast then do { q \<leftarrow> idx yyAct n; c \<leftarrow> idx yyChk q; Some (c = tok) } else Some False);
       rest \<leftarrow> shiftable base toks;
       Some (if b then tok # rest else rest)
     }"

fun exca_start :: "int list \<Rightarrow> int \<Rightarrow> int list option" where
  "exca_start (x # y # xs) s = (if x = - 1 \<and> y = s then Some xs else exca_start xs s)"
| "exca_start _ s = None"

fun exca_expected :: "int list \<Rightarrow> (int list \<times> int) option" where
  "exca_expected (x # y # xs) =
     (if 0 \<le> x
      then map_option (\<lambda>(ts, z). (if x < 4 \<or> y = 0 then ts else x # ts, z)) (exca_expected xs)
      else Some ([], y))"
| "exca_expected _ = None"

fun expecting :: "string \<Rightarrow> int list \<Rightarrow> string" where
  "expecting sep [] = []"
| "expecting sep (t # ts) = sep @ yyTokname t @ expecting '' or '' ts"

text \<open>
  \<open>yyErrorMessage\<close>, with \<open>yyErrorVerbose\<close>, which \<open>Generate\<close> sets, and with the empty table of messages: at
  most four tokens are suggested.
\<close>

definition yyErrorMessage :: "int \<Rightarrow> int \<Rightarrow> string option" where
  "yyErrorMessage state lookAhead =
     do {
       let res = ''syntax error: unexpected '' @ yyTokname lookAhead;
       base \<leftarrow> idx yyPact state;
       ts \<leftarrow> shiftable base (List.map int [4..<length yyToknames + 1]);
       if 4 < length ts then Some res
       else do {
         d \<leftarrow> idx yyDef state;
         if d = - 2
         then do {
           xs \<leftarrow> exca_start yyExca state;
           (us, z) \<leftarrow> exca_expected xs;
           Some (if 4 < length (ts @ us) \<or> z \<noteq> 0 then res else res @ expecting '', expecting '' (ts @ us))
         }
         else Some (res @ expecting '', expecting '' ts)
       }
     }"

section \<open>The rules\<close>

text \<open>
  The cases of the rules that do something: the number of values below the top that \<open>yyDollar\<close> has,
  the action, and the value, which is otherwise that of the first symbol.
\<close>

definition yyDollar :: "int \<Rightarrow> nat option" where
  "yyDollar n =
     map_of [(12, 5), (15, 1), (16, 3), (17, 3), (18, 4), (23, 4), (25, 1), (31, 2), (33, 2), (34, 1), (35, 1),
       (36, 1), (37, 1), (38, 1), (43, 1), (44, 1), (45, 1), (46, 1), (48, 5), (49, 5), (50, 4), (51, 3),
       (52, 3), (53, 6), (57, 2), (58, 10), (62, 2), (63, 5), (64, 1), (65, 4)] n"

definition rule_action :: "int \<Rightarrow> (nat \<Rightarrow> string) \<Rightarrow> action list" where
  "rule_action n v =
     (if n = 12 then [AStartEnum (v 2)]
      else if n = 15 then [AAutoVal (v 1)]
      else if n = 16 then [AEnumVal (v 1) (v 3)]
      else if n = 17 then [AProcVal (v 1) (v 3) []]
      else if n = 18 then [AProcVal (v 2) (v 4) (v 1)]
      else if n = 23 then [AConst (v 2) (v 4)]
      else if n = 25 then [AStartTypedef]
      else if n = 31 then [ADecl (v 2) (v 1)]
      else if n = 48 then [AFixedArray (v 2) (v 1) (v 4)]
      else if n = 49 then [AVariableArray (v 2) (v 1) (v 4)]
      else if n = 50 then [AVariableArray (v 2) (v 1) []]
      else if n = 51 then [AOptValue (v 3) (v 1)]
      else if n = 52 then [AStartStruct (v 2)]
      else if n = 53 then [AAddStruct]
      else if n = 57 then [AStartUnion (v 2)]
      else if n = 58 then [AAddUnion]
      else if n = 62 then [AStartCase (v 2)]
      else if n = 63 then [AAddCase]
      else if n = 64 then [AStartCase ''default'']
      else if n = 65 then [AAddCase]
      else [])"

definition rule_value :: "int \<Rightarrow> (nat \<Rightarrow> string) \<Rightarrow> string \<Rightarrow> string" where
  "rule_value n v first =
     (if n = 33 then ''u'' @ v 2
      else if n = 34 then ''float32''
      else if n = 35 then ''float64''
      else if n = 36 then ''bool''
      else if n = 37 then ''string''
      else if n = 38 then ''byte''
      else if n = 43 then ''int64''
      else if n = 44 then ''int32''
      else if n = 45 then ''int16''
      else if n = 46 then ''int8''
      else first)"

section \<open>The parser\<close>

type_synonym slot = "int \<times> string"

text \<open>
  The parser's variables; \<open>lex\<close> has the items that the lexer's channel is going to deliver, and \<open>said\<close>
  what the lexer's \<open>Error\<close> was called with.
\<close>

record yyParser =
  yyS :: "slot list"
  yyp :: int
  yystate :: int
  yyVAL :: string
  lval :: string
  yychar :: int
  yytoken :: int
  Errflag :: int
  lex :: "(int \<times> string) list"
  said :: "string list"

datatype jump =
    Yystack "action list" yyParser
  | Yynewstate yyParser
  | Return int yyParser

definition yylex1 :: "yyParser \<Rightarrow> yyParser option" where
  "yylex1 p =
     (let (c, v) = (case lex p of [] \<Rightarrow> (0, []) | i # _ \<Rightarrow> i)
      in do { t \<leftarrow> token_of c; Some (p\<lparr>lval := v, yychar := c, yytoken := t, lex := List.tl (lex p)\<rparr>) })"

definition lookahead :: "yyParser \<Rightarrow> yyParser option" where
  "lookahead p = (if yychar p < 0 then yylex1 p else Some p)"

definition grow :: "slot list \<Rightarrow> int \<Rightarrow> slot list" where
  "grow S i = (if int (length S) \<le> i then S @ replicate (length S) (0, []) else S)"

definition yystack :: "yyParser \<Rightarrow> yyParser option" where
  "yystack p =
     (let i = yyp p + 1; S = grow (yyS p) i
      in if 0 \<le> i \<and> i < int (length S)
         then Some (p\<lparr>yyp := i, yyS := S[nat i := (yystate p, yyVAL p)]\<rparr>)
         else None)"

text \<open>The search for a state on the stack that shifts the token of errors.\<close>

primrec recover :: "nat \<Rightarrow> yyParser \<Rightarrow> jump option" where
  "recover 0 p = Some (Return 1 p)"
| "recover (Suc k) p =
     do {
       (s, v) \<leftarrow> idx (yyS p) (yyp p);
       n0 \<leftarrow> idx yyPact s;
       let n = n0 + yyErrCode;
       if 0 \<le> n \<and> n < yyLast
       then do {
         q \<leftarrow> idx yyAct n;
         c \<leftarrow> idx yyChk q;
         if c = yyErrCode then Some (Yystack [] (p\<lparr>yystate := q\<rparr>))
         else recover k (p\<lparr>yystate := q, yyp := yyp p - 1\<rparr>)
       }
       else recover k (p\<lparr>yyp := yyp p - 1\<rparr>)
     }"

definition syntax_error :: "yyParser \<Rightarrow> jump option" where
  "syntax_error p =
     (if Errflag p = 3
      then if yytoken p = yyEofCode then Some (Return 1 p) else Some (Yynewstate (p\<lparr>yychar := - 1, yytoken := - 1\<rparr>))
      else do {
        p1 \<leftarrow> (if Errflag p = 0
               then do { m \<leftarrow> yyErrorMessage (yystate p) (yytoken p); Some (p\<lparr>said := said p @ [m]\<rparr>) }
               else Some p);
        recover (nat (yyp p + 1)) (p1\<lparr>Errflag := 3\<rparr>)
      })"

text \<open>
  The reduction by a rule: the goto state, and the rule's own case with the values \<open>$1\<close>, \<open>$2\<close>, \<open>...\<close>
\<close>

definition goto_state :: "int \<Rightarrow> int \<Rightarrow> int option" where
  "goto_state p A =
     do {
       g \<leftarrow> idx yyPgo A;
       let j = g + p + 1;
       if yyLast \<le> j then idx yyAct g
       else do {
         q \<leftarrow> idx yyAct j;
         c \<leftarrow> idx yyChk q;
         if c \<noteq> - A then idx yyAct g else Some q
       }
     }"

definition reduce :: "int \<Rightarrow> yyParser \<Rightarrow> jump option" where
  "reduce n p =
     do {
       r2 \<leftarrow> idx yyR2 n;
       let yyp1 = yyp p - r2;
       let S = grow (yyS p) (yyp1 + 1);
       (_, first) \<leftarrow> idx S (yyp1 + 1);
       A \<leftarrow> idx yyR1 n;
       (s, _) \<leftarrow> idx S yyp1;
       q \<leftarrow> goto_state s A;
       let p1 = p\<lparr>yyS := S, yyp := yyp1, yystate := q\<rparr>;
       case yyDollar n of
         None \<Rightarrow> Some (Yystack [] (p1\<lparr>yyVAL := first\<rparr>))
       | Some w \<Rightarrow>
           (if int w \<le> yyp p \<and> yyp p < int (length S)
            then let v = (\<lambda>k. snd (S ! (nat (yyp p) - w + k)))
                 in Some (Yystack (rule_action n v) (p1\<lparr>yyVAL := rule_value n v first\<rparr>))
            else None)
     }"

text \<open>The exception table of a state, from its entry on.\<close>

fun exca_find :: "int list \<Rightarrow> int \<Rightarrow> int option" where
  "exca_find (x # y # xs) t = (if x < 0 \<or> x = t then Some y else exca_find xs t)"
| "exca_find _ t = None"

definition yydefault :: "yyParser \<Rightarrow> jump option" where
  "yydefault p =
     do {
       d \<leftarrow> idx yyDef (yystate p);
       if d = - 2
       then do {
         p1 \<leftarrow> lookahead p;
         xs \<leftarrow> exca_start yyExca (yystate p1);
         n \<leftarrow> exca_find xs (yytoken p1);
         if n < 0 then Some (Return 0 p1)
         else if n = 0 then syntax_error p1
         else reduce n p1
       }
       else if d = 0 then syntax_error p
       else reduce d p
     }"

definition yynewstate :: "yyParser \<Rightarrow> jump option" where
  "yynewstate p =
     do {
       n \<leftarrow> idx yyPact (yystate p);
       if n \<le> yyFlag then yydefault p
       else do {
         p1 \<leftarrow> lookahead p;
         let n1 = n + yytoken p1;
         if n1 < 0 \<or> yyLast \<le> n1 then yydefault p1
         else do {
           q \<leftarrow> idx yyAct n1;
           c \<leftarrow> idx yyChk q;
           if c = yytoken p1
           then Some (Yystack []
             (p1\<lparr>yychar := - 1, yytoken := - 1, yyVAL := lval p1, yystate := q,
               Errflag := (if 0 < Errflag p1 then Errflag p1 - 1 else Errflag p1)\<rparr>))
           else yydefault p1
         }
       }
     }"

text \<open>
  From one label to the next, with the actions on the generator's state: \<open>Parse\<close> returns 0 with the
  state, or 1, which is the outcome \<open>Err\<close> of what was said last.
\<close>

partial_function (option) yyloop :: "yyParser \<Rightarrow> gen_state \<Rightarrow> gen_state outcome" where
  "yyloop p s =
     (case yynewstate p of
        None \<Rightarrow> Some Panic
      | Some (Return r p1) \<Rightarrow> Some (if r = 0 then Ok s else Err (if said p1 = [] then [] else last (said p1)))
      | Some (Yynewstate p1) \<Rightarrow> yyloop p1 s
      | Some (Yystack as p1) \<Rightarrow>
          (case run_actions as s of
             None \<Rightarrow> None
           | Some (Err e) \<Rightarrow> Some (Err e)
           | Some Panic \<Rightarrow> Some Panic
           | Some (Ok s1) \<Rightarrow> (case yystack p1 of None \<Rightarrow> Some Panic | Some p2 \<Rightarrow> yyloop p2 s1)))"

definition yyNewParser :: "(int \<times> string) list \<Rightarrow> yyParser" where
  "yyNewParser ws =
     \<lparr>yyS = replicate yyInitialStackSize (0, []), yyp = - 1, yystate = 0, yyVAL = [], lval = [], yychar = - 1,
      yytoken = - 1, Errflag = 0, lex = ws, said = []\<rparr>"

definition Parse :: "(int \<times> string) list \<Rightarrow> gen_state \<Rightarrow> gen_state outcome" where
  "Parse ws s = (case yystack (yyNewParser ws) of None \<Rightarrow> Some Panic | Some p \<Rightarrow> yyloop p s)"

end
