(* ===== verification/Lvgen_Grammar.thy ===== *)
theory Lvgen_Grammar
  imports LR_Parser Lvgen_Yacc
begin

text \<open>
  The grammar of protocol files (\<open>src/internal/lvgen/sunrpc.y\<close>) and the generated tables as a machine over
  it: the moves and the goto states that the packed tables encode, written out, and the checks that make
  the machine one that accepts exactly what the grammar derives.
\<close>

section \<open>The grammar\<close>

abbreviation (input) tok_BOOL :: sym where "tok_BOOL \<equiv> T 4"
abbreviation (input) tok_CASE :: sym where "tok_CASE \<equiv> T 5"
abbreviation (input) tok_CONST :: sym where "tok_CONST \<equiv> T 6"
abbreviation (input) tok_DEFAULT :: sym where "tok_DEFAULT \<equiv> T 7"
abbreviation (input) tok_DOUBLE :: sym where "tok_DOUBLE \<equiv> T 8"
abbreviation (input) tok_ENUM :: sym where "tok_ENUM \<equiv> T 9"
abbreviation (input) tok_FLOAT :: sym where "tok_FLOAT \<equiv> T 10"
abbreviation (input) tok_OPAQUE :: sym where "tok_OPAQUE \<equiv> T 11"
abbreviation (input) tok_STRING :: sym where "tok_STRING \<equiv> T 12"
abbreviation (input) tok_STRUCT :: sym where "tok_STRUCT \<equiv> T 13"
abbreviation (input) tok_SWITCH :: sym where "tok_SWITCH \<equiv> T 14"
abbreviation (input) tok_TYPEDEF :: sym where "tok_TYPEDEF \<equiv> T 15"
abbreviation (input) tok_UNION :: sym where "tok_UNION \<equiv> T 16"
abbreviation (input) tok_UNSIGNED :: sym where "tok_UNSIGNED \<equiv> T 17"
abbreviation (input) tok_HYPER :: sym where "tok_HYPER \<equiv> T 19"
abbreviation (input) tok_INT :: sym where "tok_INT \<equiv> T 20"
abbreviation (input) tok_SHORT :: sym where "tok_SHORT \<equiv> T 21"
abbreviation (input) tok_CHAR :: sym where "tok_CHAR \<equiv> T 22"
abbreviation (input) tok_IDENTIFIER :: sym where "tok_IDENTIFIER \<equiv> T 23"
abbreviation (input) tok_CONSTANT :: sym where "tok_CONSTANT \<equiv> T 24"
abbreviation (input) tok_PROGRAM :: sym where "tok_PROGRAM \<equiv> T 26"
abbreviation (input) tok_VERSION :: sym where "tok_VERSION \<equiv> T 27"
abbreviation (input) tok_METADATACOMMENT :: sym where "tok_METADATACOMMENT \<equiv> T 28"
abbreviation (input) tok_PROCIDENTIFIER :: sym where "tok_PROCIDENTIFIER \<equiv> T 29"
abbreviation (input) tok_semicolon :: sym where "tok_semicolon \<equiv> T 30"
abbreviation (input) tok_lbrace :: sym where "tok_lbrace \<equiv> T 31"
abbreviation (input) tok_rbrace :: sym where "tok_rbrace \<equiv> T 32"
abbreviation (input) tok_comma :: sym where "tok_comma \<equiv> T 33"
abbreviation (input) tok_equals :: sym where "tok_equals \<equiv> T 34"
abbreviation (input) tok_lbracket :: sym where "tok_lbracket \<equiv> T 35"
abbreviation (input) tok_rbracket :: sym where "tok_rbracket \<equiv> T 36"
abbreviation (input) tok_less :: sym where "tok_less \<equiv> T 37"
abbreviation (input) tok_greater :: sym where "tok_greater \<equiv> T 38"
abbreviation (input) tok_star :: sym where "tok_star \<equiv> T 39"
abbreviation (input) tok_lparen :: sym where "tok_lparen \<equiv> T 40"
abbreviation (input) tok_rparen :: sym where "tok_rparen \<equiv> T 41"
abbreviation (input) tok_colon :: sym where "tok_colon \<equiv> T 42"

abbreviation (input) nt_specification :: int where "nt_specification \<equiv> 1"
abbreviation (input) nt_definition_list :: int where "nt_definition_list \<equiv> 2"
abbreviation (input) nt_value :: int where "nt_value \<equiv> 3"
abbreviation (input) nt_definition :: int where "nt_definition \<equiv> 4"
abbreviation (input) nt_enum_definition :: int where "nt_enum_definition \<equiv> 5"
abbreviation (input) nt_const_definition :: int where "nt_const_definition \<equiv> 6"
abbreviation (input) nt_typedef_definition :: int where "nt_typedef_definition \<equiv> 7"
abbreviation (input) nt_struct_definition :: int where "nt_struct_definition \<equiv> 8"
abbreviation (input) nt_union_definition :: int where "nt_union_definition \<equiv> 9"
abbreviation (input) nt_program_definition :: int where "nt_program_definition \<equiv> 10"
abbreviation (input) nt_enum_ident :: int where "nt_enum_ident \<equiv> 11"
abbreviation (input) nt_enum_value_list :: int where "nt_enum_value_list \<equiv> 12"
abbreviation (input) nt_enum_value :: int where "nt_enum_value \<equiv> 13"
abbreviation (input) nt_enum_value_ident :: int where "nt_enum_value_ident \<equiv> 14"
abbreviation (input) nt_enum_proc_ident :: int where "nt_enum_proc_ident \<equiv> 15"
abbreviation (input) nt_const_ident :: int where "nt_const_ident \<equiv> 16"
abbreviation (input) nt_action_25 :: int where "nt_action_25 \<equiv> 17"
abbreviation (input) nt_declaration :: int where "nt_declaration \<equiv> 18"
abbreviation (input) nt_simple_declaration :: int where "nt_simple_declaration \<equiv> 19"
abbreviation (input) nt_fixed_array_declaration :: int where "nt_fixed_array_declaration \<equiv> 20"
abbreviation (input) nt_variable_array_declaration :: int where "nt_variable_array_declaration \<equiv> 21"
abbreviation (input) nt_pointer_declaration :: int where "nt_pointer_declaration \<equiv> 22"
abbreviation (input) nt_type_specifier :: int where "nt_type_specifier \<equiv> 23"
abbreviation (input) nt_variable_ident :: int where "nt_variable_ident \<equiv> 24"
abbreviation (input) nt_int_spec :: int where "nt_int_spec \<equiv> 25"
abbreviation (input) nt_struct_ident :: int where "nt_struct_ident \<equiv> 26"
abbreviation (input) nt_action_52 :: int where "nt_action_52 \<equiv> 27"
abbreviation (input) nt_declaration_list :: int where "nt_declaration_list \<equiv> 28"
abbreviation (input) nt_union_ident :: int where "nt_union_ident \<equiv> 29"
abbreviation (input) nt_action_57 :: int where "nt_action_57 \<equiv> 30"
abbreviation (input) nt_case_list :: int where "nt_case_list \<equiv> 31"
abbreviation (input) nt_case :: int where "nt_case \<equiv> 32"
abbreviation (input) nt_action_62 :: int where "nt_action_62 \<equiv> 33"
abbreviation (input) nt_action_64 :: int where "nt_action_64 \<equiv> 34"
abbreviation (input) nt_program_ident :: int where "nt_program_ident \<equiv> 35"
abbreviation (input) nt_version_list :: int where "nt_version_list \<equiv> 36"
abbreviation (input) nt_version :: int where "nt_version \<equiv> 37"
abbreviation (input) nt_version_ident :: int where "nt_version_ident \<equiv> 38"
abbreviation (input) nt_procedure_list :: int where "nt_procedure_list \<equiv> 39"
abbreviation (input) nt_procedure :: int where "nt_procedure \<equiv> 40"
abbreviation (input) nt_procedure_ident :: int where "nt_procedure_ident \<equiv> 41"

text \<open>
  The rules, by their numbers; those with the name of an action are the empty rules for the actions in
  the middle of others.
\<close>

definition yyrules :: "(int \<times> sym list) list" where
  "yyrules =
     [
      (0, []),
      (nt_specification, [N nt_definition_list]),
      (nt_value, [tok_IDENTIFIER]),
      (nt_value, [tok_CONSTANT]),
      (nt_definition_list, [N nt_definition, tok_semicolon]),
      (nt_definition_list, [N nt_definition, tok_semicolon, N nt_definition_list]),
      (nt_definition, [N nt_enum_definition]),
      (nt_definition, [N nt_const_definition]),
      (nt_definition, [N nt_typedef_definition]),
      (nt_definition, [N nt_struct_definition]),
      (nt_definition, [N nt_union_definition]),
      (nt_definition, [N nt_program_definition]),
      (nt_enum_definition, [tok_ENUM, N nt_enum_ident, tok_lbrace, N nt_enum_value_list, tok_rbrace]),
      (nt_enum_value_list, [N nt_enum_value]),
      (nt_enum_value_list, [N nt_enum_value, tok_comma, N nt_enum_value_list]),
      (nt_enum_value, [N nt_enum_value_ident]),
      (nt_enum_value, [N nt_enum_value_ident, tok_equals, N nt_value]),
      (nt_enum_value, [N nt_enum_proc_ident, tok_equals, N nt_value]),
      (nt_enum_value, [tok_METADATACOMMENT, N nt_enum_proc_ident, tok_equals, N nt_value]),
      (nt_enum_proc_ident, [tok_PROCIDENTIFIER]),
      (nt_enum_ident, [tok_IDENTIFIER]),
      (nt_enum_value_ident, [tok_IDENTIFIER]),
      (nt_const_definition, [tok_CONST, N nt_const_ident, tok_equals, tok_IDENTIFIER]),
      (nt_const_definition, [tok_CONST, N nt_const_ident, tok_equals, tok_CONSTANT]),
      (nt_const_ident, [tok_IDENTIFIER]),
      (nt_action_25, []),
      (nt_typedef_definition, [tok_TYPEDEF, N nt_action_25, N nt_declaration]),
      (nt_declaration, [N nt_simple_declaration]),
      (nt_declaration, [N nt_fixed_array_declaration]),
      (nt_declaration, [N nt_variable_array_declaration]),
      (nt_declaration, [N nt_pointer_declaration]),
      (nt_simple_declaration, [N nt_type_specifier, N nt_variable_ident]),
      (nt_type_specifier, [N nt_int_spec]),
      (nt_type_specifier, [tok_UNSIGNED, N nt_int_spec]),
      (nt_type_specifier, [tok_FLOAT]),
      (nt_type_specifier, [tok_DOUBLE]),
      (nt_type_specifier, [tok_BOOL]),
      (nt_type_specifier, [tok_STRING]),
      (nt_type_specifier, [tok_OPAQUE]),
      (nt_type_specifier, [N nt_enum_definition]),
      (nt_type_specifier, [N nt_struct_definition]),
      (nt_type_specifier, [N nt_union_definition]),
      (nt_type_specifier, [tok_IDENTIFIER]),
      (nt_int_spec, [tok_HYPER]),
      (nt_int_spec, [tok_INT]),
      (nt_int_spec, [tok_SHORT]),
      (nt_int_spec, [tok_CHAR]),
      (nt_variable_ident, [tok_IDENTIFIER]),
      (nt_fixed_array_declaration, [N nt_type_specifier, N nt_variable_ident, tok_lbracket, N nt_value, tok_rbracket]),
      (nt_variable_array_declaration, [N nt_type_specifier, N nt_variable_ident, tok_less, N nt_value, tok_greater]),
      (nt_variable_array_declaration, [N nt_type_specifier, N nt_variable_ident, tok_less, tok_greater]),
      (nt_pointer_declaration, [N nt_type_specifier, tok_star, N nt_variable_ident]),
      (nt_action_52, []),
      (nt_struct_definition, [tok_STRUCT, N nt_struct_ident, tok_lbrace, N nt_action_52, N nt_declaration_list, tok_rbrace]),
      (nt_struct_ident, [tok_IDENTIFIER]),
      (nt_declaration_list, [N nt_declaration, tok_semicolon]),
      (nt_declaration_list, [N nt_declaration, tok_semicolon, N nt_declaration_list]),
      (nt_action_57, []),
      (nt_union_definition, [tok_UNION, N nt_union_ident, N nt_action_57, tok_SWITCH, tok_lparen, N nt_simple_declaration, tok_rparen, tok_lbrace, N nt_case_list, tok_rbrace]),
      (nt_union_ident, [tok_IDENTIFIER]),
      (nt_case_list, [N nt_case, tok_semicolon]),
      (nt_case_list, [N nt_case, tok_semicolon, N nt_case_list]),
      (nt_action_62, []),
      (nt_case, [tok_CASE, N nt_value, N nt_action_62, tok_colon, N nt_declaration]),
      (nt_action_64, []),
      (nt_case, [tok_DEFAULT, N nt_action_64, tok_colon, N nt_declaration]),
      (nt_program_definition, [tok_PROGRAM, N nt_program_ident, tok_lbrace, N nt_version_list, tok_rbrace, tok_equals, N nt_value]),
      (nt_program_ident, [tok_IDENTIFIER]),
      (nt_version_list, [N nt_version, tok_semicolon]),
      (nt_version_list, [N nt_version, tok_semicolon, N nt_version_list]),
      (nt_version, [tok_VERSION, N nt_version_ident, tok_lbrace, N nt_procedure_list, tok_rbrace, tok_equals, N nt_value, tok_semicolon]),
      (nt_version_ident, [tok_IDENTIFIER]),
      (nt_procedure_list, [N nt_procedure, tok_semicolon]),
      (nt_procedure_list, [N nt_procedure, tok_semicolon, N nt_procedure_list]),
      (nt_procedure, [N nt_type_specifier, N nt_procedure_ident, tok_lparen, N nt_type_specifier, tok_rparen, tok_equals, N nt_value, tok_semicolon]),
      (nt_procedure_ident, [tok_IDENTIFIER])]"

definition rule_of :: "int \<Rightarrow> int \<times> sym list" where
  "rule_of n = (case idx yyrules n of Some r \<Rightarrow> r | None \<Rightarrow> (0, []))"

lemma rule_simps [simp]:
  "rule_of 1 = (1, [N 2])"
  "rule_of 2 = (3, [T 23])"
  "rule_of 3 = (3, [T 24])"
  "rule_of 4 = (2, [N 4, T 30])"
  "rule_of 5 = (2, [N 4, T 30, N 2])"
  "rule_of 6 = (4, [N 5])"
  "rule_of 7 = (4, [N 6])"
  "rule_of 8 = (4, [N 7])"
  "rule_of 9 = (4, [N 8])"
  "rule_of 10 = (4, [N 9])"
  "rule_of 11 = (4, [N 10])"
  "rule_of 12 = (5, [T 9, N 11, T 31, N 12, T 32])"
  "rule_of 13 = (12, [N 13])"
  "rule_of 14 = (12, [N 13, T 33, N 12])"
  "rule_of 15 = (13, [N 14])"
  "rule_of 16 = (13, [N 14, T 34, N 3])"
  "rule_of 17 = (13, [N 15, T 34, N 3])"
  "rule_of 18 = (13, [T 28, N 15, T 34, N 3])"
  "rule_of 19 = (15, [T 29])"
  "rule_of 20 = (11, [T 23])"
  "rule_of 21 = (14, [T 23])"
  "rule_of 22 = (6, [T 6, N 16, T 34, T 23])"
  "rule_of 23 = (6, [T 6, N 16, T 34, T 24])"
  "rule_of 24 = (16, [T 23])"
  "rule_of 25 = (17, [])"
  "rule_of 26 = (7, [T 15, N 17, N 18])"
  "rule_of 27 = (18, [N 19])"
  "rule_of 28 = (18, [N 20])"
  "rule_of 29 = (18, [N 21])"
  "rule_of 30 = (18, [N 22])"
  "rule_of 31 = (19, [N 23, N 24])"
  "rule_of 32 = (23, [N 25])"
  "rule_of 33 = (23, [T 17, N 25])"
  "rule_of 34 = (23, [T 10])"
  "rule_of 35 = (23, [T 8])"
  "rule_of 36 = (23, [T 4])"
  "rule_of 37 = (23, [T 12])"
  "rule_of 38 = (23, [T 11])"
  "rule_of 39 = (23, [N 5])"
  "rule_of 40 = (23, [N 8])"
  "rule_of 41 = (23, [N 9])"
  "rule_of 42 = (23, [T 23])"
  "rule_of 43 = (25, [T 19])"
  "rule_of 44 = (25, [T 20])"
  "rule_of 45 = (25, [T 21])"
  "rule_of 46 = (25, [T 22])"
  "rule_of 47 = (24, [T 23])"
  "rule_of 48 = (20, [N 23, N 24, T 35, N 3, T 36])"
  "rule_of 49 = (21, [N 23, N 24, T 37, N 3, T 38])"
  "rule_of 50 = (21, [N 23, N 24, T 37, T 38])"
  "rule_of 51 = (22, [N 23, T 39, N 24])"
  "rule_of 52 = (27, [])"
  "rule_of 53 = (8, [T 13, N 26, T 31, N 27, N 28, T 32])"
  "rule_of 54 = (26, [T 23])"
  "rule_of 55 = (28, [N 18, T 30])"
  "rule_of 56 = (28, [N 18, T 30, N 28])"
  "rule_of 57 = (30, [])"
  "rule_of 58 = (9, [T 16, N 29, N 30, T 14, T 40, N 19, T 41, T 31, N 31, T 32])"
  "rule_of 59 = (29, [T 23])"
  "rule_of 60 = (31, [N 32, T 30])"
  "rule_of 61 = (31, [N 32, T 30, N 31])"
  "rule_of 62 = (33, [])"
  "rule_of 63 = (32, [T 5, N 3, N 33, T 42, N 18])"
  "rule_of 64 = (34, [])"
  "rule_of 65 = (32, [T 7, N 34, T 42, N 18])"
  "rule_of 66 = (10, [T 26, N 35, T 31, N 36, T 32, T 34, N 3])"
  "rule_of 67 = (35, [T 23])"
  "rule_of 68 = (36, [N 37, T 30])"
  "rule_of 69 = (36, [N 37, T 30, N 36])"
  "rule_of 70 = (37, [T 27, N 38, T 31, N 39, T 32, T 34, N 3, T 30])"
  "rule_of 71 = (38, [T 23])"
  "rule_of 72 = (39, [N 40, T 30])"
  "rule_of 73 = (39, [N 40, T 30, N 39])"
  "rule_of 74 = (40, [N 23, N 41, T 40, N 23, T 41, T 34, N 3, T 30])"
  "rule_of 75 = (41, [T 23])"
  by code_simp+

definition rule_numbers :: "int list" where
  "rule_numbers = [1..75]"

lemma rules_lengths: "list_all2 (\<lambda>(A, Xs) (r1, r2). A = r1 \<and> int (length Xs) = r2) yyrules (zip yyR1 yyR2)"
  by code_simp

section \<open>The packed tables\<close>

text \<open>Tables that are searched by a number.\<close>

datatype 'a table = Tip | Fork "'a table" int 'a "'a table"

fun search :: "'a table \<Rightarrow> int \<Rightarrow> 'a option" where
  "search Tip k = None"
| "search (Fork l j a r) k = (if k < j then search l k else if k = j then Some a else search r k)"

fun entries :: "'a table \<Rightarrow> (int \<times> 'a) list" where
  "entries Tip = []"
| "entries (Fork l j a r) = entries l @ (j, a) # entries r"

lemma search_entries: "search t k = Some a \<Longrightarrow> (k, a) \<in> set (entries t)"
  by (induction t) (auto split: if_splits)

text \<open>
  The array of actions with the checks of its states. A row of the packed table is found by walking
  along it: the tokens, or the states, for which the check is passed.
\<close>

definition act_chk :: "(int \<times> int) list" where
  "act_chk =
     [(89, - 3), (82, - 18), (36, - 23), (119, - 31), (111, - 39), (81, - 28), (64, - 24), (70, - 36),
      (32, - 19), (55, - 12), (58, - 15), (137, 42), (134, 42), (136, 41), (108, 41), (125, 40), (90, 23),
      (91, 24), (83, 40), (66, 23), (37, - 25), (106, 38), (78, 35), (31, - 18), (79, 37), (105, 36),
      (139, 34), (61, 29), (123, 34), (101, 34), (74, 33), (96, 38), (41, 4), (93, 34), (76, 34), (65, 39),
      (40, 8), (10, 9), (39, 10), (43, 11), (42, 12), (13, 13), (75, 34), (30, 34), (14, 16), (38, 17),
      (126, 32), (48, 19), (49, 20), (50, 21), (51, 22), (47, 23), (115, 32), (97, 32), (84, 32), (73, 32),
      (114, 31), (103, 31), (60, 23), (67, - 25), (54, 31), (52, 31), (29, 31), (59, 28), (61, 29),
      (118, 23), (142, 30), (135, 30), (127, 30), (116, 30), (77, - 15), (98, 30), (80, - 24), (85, 30),
      (16, 30), (72, 27), (66, 23), (92, - 3), (11, 6), (94, - 3), (95, - 3), (10, 9), (90, 23), (91, 24),
      (88, - 12), (13, 13), (100, - 23), (12, 15), (14, 16), (62, 23), (63, 24), (87, 23), (99, - 19),
      (102, - 36), (104, - 3), (69, 14), (27, 23), (25, 23), (15, 26), (23, 23), (20, 23), (18, 23),
      (110, - 3), (2, - 2), (107, - 28), (117, - 41), (113, - 23), (109, - 24), (48, 19), (49, 20),
      (50, 21), (51, 22), (46, - 9), (8, - 9), (112, - 40), (45, - 8), (7, - 8), (44, - 5), (4, - 5),
      (113, - 23), (28, - 2), (124, - 39), (128, - 3), (121, 5), (130, - 3), (122, 7), (86, - 38),
      (71, - 37), (131, - 23), (8, - 9), (26, - 35), (132, - 31), (7, - 8), (129, - 34), (4, - 5),
      (133, - 33), (138, - 18), (120, - 32), (53, - 30), (140, - 18), (141, - 3), (24, - 29), (68, - 27),
      (22, - 26), (35, - 22), (34, - 21), (33, - 20), (21, - 17), (19, - 16), (57, - 14), (56, - 13),
      (17, - 11), (9, - 10), (6, - 7), (5, - 6), (3, - 4), (1, - 1)]"

fun shift_row :: "int \<Rightarrow> (int \<times> int) list \<Rightarrow> (int \<times> int) list" where
  "shift_row t [] = []"
| "shift_row t ((q, c) # xs) = (if c = t then (t, q) # shift_row (t + 1) xs else shift_row (t + 1) xs)"

fun goto_row :: "int \<Rightarrow> int \<Rightarrow> (int \<times> int) list \<Rightarrow> (int \<times> int) list" where
  "goto_row A p [] = []"
| "goto_row A p ((q, c) # xs) = (if c = - A then (p, q) # goto_row A (p + 1) xs else goto_row A (p + 1) xs)"

text \<open>For every state, the default rule and the shifts.\<close>

definition parse_table :: "(int \<times> (int \<times> int) list) table" where
  "parse_table =
     Fork (Fork (Fork (Fork (Fork (Fork (Fork (Fork Tip 0
     (0, [(6, 11), (9, 10), (13, 13), (15, 12), (16, 14), (26, 15)]) Tip) 1 (- 2, []) Tip) 2 (1, []) (Fork
     Tip 3 (0, [(30, 16)]) Tip)) 4 (6, []) (Fork (Fork Tip 5 (7, []) Tip) 6 (8, []) (Fork Tip 7 (9, [])
     Tip))) 8 (10, []) (Fork (Fork (Fork (Fork Tip 9 (11, []) Tip) 10 (0, [(23, 18)]) Tip) 11
     (0, [(23, 20)]) (Fork Tip 12 (25, []) Tip)) 13 (0, [(23, 23)]) (Fork (Fork Tip 14 (0, [(23, 25)]) Tip)
     15 (0, [(23, 27)]) (Fork Tip 16 (4, [(6, 11), (9, 10), (13, 13), (15, 12), (16, 14), (26, 15)]) Tip))))
     17 (0, [(31, 29)]) (Fork (Fork (Fork (Fork (Fork Tip 18 (20, []) Tip) 19 (0, [(34, 30)]) Tip) 20
     (24, []) (Fork Tip 21
     (0, [(4, 41), (8, 40), (9, 10), (10, 39), (11, 43), (12, 42), (13, 13), (16, 14), (17, 38), (19, 48), (20, 49), (21, 50), (22, 51), (23, 47)])
     Tip)) 22 (0, [(-24, 64), (31, 52)]) (Fork (Fork Tip 23 (54, []) Tip) 24 (57, []) (Fork Tip 25 (59, [])
     Tip))) 26 (0, [(31, 54)]) (Fork (Fork (Fork (Fork Tip 27 (67, []) Tip) 28 (5, []) Tip) 29
     (0, [(23, 60), (28, 59), (29, 61)]) (Fork Tip 30 (0, [(23, 62), (24, 63)]) Tip)) 31 (26, []) (Fork
     (Fork Tip 32 (27, []) Tip) 33 (28, []) (Fork Tip 34 (29, []) Tip))))) 35 (30, []) (Fork (Fork (Fork
     (Fork (Fork (Fork Tip 36 (0, [(23, 66), (39, 65)]) Tip) 37 (32, []) Tip) 38
     (0, [(19, 48), (20, 49), (21, 50), (22, 51)]) (Fork Tip 39 (34, []) Tip)) 40 (35, []) (Fork (Fork Tip
     41 (36, []) Tip) 42 (37, []) (Fork Tip 43 (38, []) Tip))) 44 (39, []) (Fork (Fork (Fork (Fork Tip 45
     (40, []) Tip) 46 (41, []) Tip) 47 (42, []) (Fork Tip 48 (43, []) Tip)) 49 (44, []) (Fork (Fork Tip 50
     (45, []) Tip) 51 (46, []) (Fork Tip 52 (52, []) Tip)))) 53 (0, [(14, 69)]) (Fork (Fork (Fork (Fork
     (Fork Tip 54 (0, [(27, 72)]) Tip) 55 (0, [(32, 73)]) Tip) 56 (13, [(33, 74)]) (Fork Tip 57
     (15, [(34, 75)]) Tip)) 58 (0, [(34, 76)]) (Fork (Fork Tip 59 (0, [(29, 61)]) Tip) 60 (21, []) (Fork Tip
     61 (19, []) Tip))) 62 (22, []) (Fork (Fork (Fork (Fork Tip 63 (23, []) Tip) 64
     (31, [(35, 78), (37, 79)]) Tip) 65 (0, [(23, 66)]) (Fork Tip 66 (47, []) Tip)) 67 (33, []) (Fork (Fork
     Tip 68
     (0, [(4, 41), (8, 40), (9, 10), (10, 39), (11, 43), (12, 42), (13, 13), (16, 14), (17, 38), (19, 48), (20, 49), (21, 50), (22, 51), (23, 47)])
     Tip) 69 (0, [(40, 83)]) (Fork Tip 70 (0, [(32, 84)]) Tip)))))) 71
     (0, [(-39, 111), (-36, 70), (30, 85)]) (Fork (Fork (Fork (Fork (Fork (Fork (Fork Tip 72 (0, [(23, 87)])
     Tip) 73 (12, []) Tip) 74 (0, [(23, 60), (28, 59), (29, 61)]) (Fork Tip 75 (0, [(23, 90), (24, 91)])
     Tip)) 76 (0, [(23, 90), (24, 91)]) (Fork (Fork Tip 77 (0, [(34, 93)]) Tip) 78 (0, [(23, 90), (24, 91)])
     (Fork Tip 79 (0, [(23, 90), (24, 91), (38, 96)]) Tip))) 80 (51, []) (Fork (Fork (Fork (Fork Tip 81
     (0, [(-12, 55), (32, 97)]) Tip) 82 (0, [(-18, 31), (30, 98)]) Tip) 83
     (0, [(4, 41), (8, 40), (9, 10), (10, 39), (11, 43), (12, 42), (13, 13), (16, 14), (17, 38), (19, 48), (20, 49), (21, 50), (22, 51), (23, 47)])
     (Fork Tip 84 (0, [(34, 101)]) Tip)) 85 (68, [(27, 72)]) (Fork (Fork Tip 86 (0, [(31, 103)]) Tip) 87
     (71, []) (Fork Tip 88 (14, []) Tip)))) 89 (16, []) (Fork (Fork (Fork (Fork (Fork Tip 90 (2, []) Tip) 91
     (3, []) Tip) 92 (17, []) (Fork Tip 93 (0, [(23, 90), (24, 91)]) Tip)) 94 (0, [(36, 105)]) (Fork (Fork
     Tip 95 (0, [(38, 106)]) Tip) 96 (50, []) (Fork Tip 97 (53, []) Tip))) 98
     (55, [(4, 41), (8, 40), (9, 10), (10, 39), (11, 43), (12, 42), (13, 13), (16, 14), (17, 38), (19, 48), (20, 49), (21, 50), (22, 51), (23, 47)])
     (Fork (Fork (Fork (Fork Tip 99 (0, [(41, 108)]) Tip) 100 (0, [(23, 66)]) Tip) 101
     (0, [(23, 90), (24, 91)]) (Fork Tip 102 (69, []) Tip)) 103
     (0, [(4, 41), (8, 40), (9, 10), (10, 39), (11, 43), (12, 42), (13, 13), (16, 14), (17, 38), (19, 48), (20, 49), (21, 50), (22, 51), (23, 47)])
     (Fork (Fork Tip 104 (18, []) Tip) 105 (48, []) (Fork Tip 106 (49, []) Tip))))) 107 (56, []) (Fork (Fork
     (Fork (Fork (Fork (Fork Tip 108 (0, [(-23, 36), (-15, 58), (31, 114)]) Tip) 109 (31, []) Tip) 110
     (66, []) (Fork Tip 111 (0, [(32, 115)]) Tip)) 112 (0, [(30, 116)]) (Fork (Fork Tip 113 (0, [(23, 118)])
     Tip) 114 (0, [(5, 121), (7, 122)]) (Fork Tip 115 (0, [(34, 123)]) Tip))) 116
     (72, [(4, 41), (8, 40), (9, 10), (10, 39), (11, 43), (12, 42), (13, 13), (16, 14), (17, 38), (19, 48), (20, 49), (21, 50), (22, 51), (23, 47)])
     (Fork (Fork (Fork (Fork Tip 117 (0, [(40, 125)]) Tip) 118 (75, []) Tip) 119 (0, [(32, 126)]) (Fork Tip
     120 (0, [(30, 127)]) Tip)) 121 (0, [(23, 90), (24, 91)]) (Fork (Fork Tip 122 (64, []) Tip) 123
     (0, [(23, 90), (24, 91)]) (Fork Tip 124 (73, []) Tip)))) 125
     (0, [(4, 41), (8, 40), (9, 10), (10, 39), (11, 43), (12, 42), (13, 13), (16, 14), (17, 38), (19, 48), (20, 49), (21, 50), (22, 51), (23, 47)])
     (Fork (Fork (Fork (Fork (Fork Tip 126 (58, []) Tip) 127 (60, [(5, 121), (7, 122)]) Tip) 128 (62, [])
     (Fork Tip 129 (0, [(42, 134)]) Tip)) 130 (0, [(30, 135)]) (Fork (Fork Tip 131 (0, [(41, 136)]) Tip) 132
     (61, []) (Fork Tip 133 (0, [(42, 137)]) Tip))) 134
     (0, [(4, 41), (8, 40), (9, 10), (10, 39), (11, 43), (12, 42), (13, 13), (16, 14), (17, 38), (19, 48), (20, 49), (21, 50), (22, 51), (23, 47)])
     (Fork (Fork (Fork (Fork Tip 135 (70, []) Tip) 136 (0, [(34, 139)]) Tip) 137
     (0, [(4, 41), (8, 40), (9, 10), (10, 39), (11, 43), (12, 42), (13, 13), (16, 14), (17, 38), (19, 48), (20, 49), (21, 50), (22, 51), (23, 47)])
     (Fork Tip 138 (65, []) Tip)) 139 (0, [(23, 90), (24, 91)]) (Fork (Fork Tip 140 (63, []) Tip) 141
     (0, [(30, 142)]) (Fork Tip 142 (74, []) Tip))))))"

text \<open>For every nonterminal, the default goto state and the other ones.\<close>

definition goto_table :: "(int \<times> (int \<times> int) list) table" where
  "goto_table =
     Fork (Fork (Fork (Fork (Fork (Fork Tip 0 (89, []) Tip) 1 (1, [(- 1, 1)]) Tip) 2
     (2, [(- 1, 2), (16, 28)]) (Fork (Fork Tip 3
     (89, [(- 1, 89), (76, 92), (78, 94), (79, 95), (93, 104), (101, 110), (121, 128), (123, 130), (139, 141)])
     Tip) 4 (3, [(- 1, 3)]) Tip)) 5 (44, [(- 1, 44), (0, 4), (16, 4)]) (Fork (Fork (Fork Tip 6
     (5, [(- 1, 5)]) Tip) 7 (6, [(- 1, 6)]) Tip) 8 (45, [(- 1, 45), (0, 7), (16, 7)]) (Fork Tip 9
     (46, [(- 1, 46), (0, 8), (16, 8)]) Tip))) 10 (9, [(- 1, 9)]) (Fork (Fork (Fork (Fork Tip 11
     (17, [(- 1, 17)]) Tip) 12 (55, [(- 1, 55), (74, 88)]) Tip) 13 (56, [(- 1, 56)]) (Fork (Fork Tip 14
     (57, [(- 1, 57)]) Tip) 15 (58, [(- 1, 58), (59, 77)]) Tip)) 16 (19, [(- 1, 19)]) (Fork (Fork (Fork Tip
     17 (21, [(- 1, 21)]) Tip) 18 (82, [(- 1, 82), (21, 31), (134, 138), (137, 140)]) Tip) 19
     (32, [(- 1, 32), (83, 99)]) (Fork Tip 20 (33, [(- 1, 33)]) Tip)))) 21 (34, [(- 1, 34)]) (Fork (Fork
     (Fork (Fork (Fork Tip 22 (35, [(- 1, 35)]) Tip) 23
     (36, [(- 1, 36), (83, 100), (103, 113), (116, 113), (125, 131)]) Tip) 24
     (64, [(- 1, 64), (65, 80), (100, 109)]) (Fork (Fork Tip 25 (37, [(- 1, 37), (38, 67)]) Tip) 26
     (22, [(- 1, 22)]) Tip)) 27 (68, [(- 1, 68)]) (Fork (Fork (Fork Tip 28 (81, [(- 1, 81), (98, 107)]) Tip)
     29 (24, [(- 1, 24)]) Tip) 30 (53, [(- 1, 53)]) (Fork Tip 31 (119, [(- 1, 119), (127, 132)]) Tip))) 32
     (120, [(- 1, 120)]) (Fork (Fork (Fork (Fork Tip 33 (133, [(- 1, 133)]) Tip) 34 (129, [(- 1, 129)]) Tip)
     35 (26, [(- 1, 26)]) (Fork Tip 36 (70, [(- 1, 70), (85, 102)]) Tip)) 37 (71, [(- 1, 71)]) (Fork (Fork
     (Fork Tip 38 (86, [(- 1, 86)]) Tip) 39 (111, [(- 1, 111), (116, 124)]) Tip) 40 (112, [(- 1, 112)])
     (Fork Tip 41 (117, [(- 1, 117)]) Tip))))"

definition yymove :: "int \<Rightarrow> int \<Rightarrow> move" where
  "yymove s t =
     (case search parse_table s of
        None \<Rightarrow> Fail
      | Some (d, r) \<Rightarrow>
          (case map_of r t of
             Some q \<Rightarrow> Shift q
           | None \<Rightarrow>
               if d = - 2 then if t = 1 then Accept else Fail
               else if d = 0 then Fail
               else Reduce d))"

definition yygoto :: "int \<Rightarrow> int \<Rightarrow> int" where
  "yygoto p A =
     (case search goto_table A of
        None \<Rightarrow> 0
      | Some (d, r) \<Rightarrow> (case map_of r p of Some q \<Rightarrow> q | None \<Rightarrow> d))"

lemma act_chk_checked: "list_all2 (\<lambda>q (q1, c). q = q1 \<and> idx yyChk q = Some c) yyAct act_chk"
  by code_simp

lemma parse_table_checked:
  "list_all2 (\<lambda>(n, d) s. search parse_table s = Some (d, if n \<le> yyFlag then [] else shift_row (- n) act_chk))
     (zip yyPact yyDef) [0..142]"
  by code_simp

lemma goto_table_checked:
  "list_all2 (\<lambda>g A. search goto_table A = map_option (\<lambda>d. (d, goto_row A (- g - 1) act_chk)) (idx yyAct g)) yyPgo [0..41]"
  by code_simp

section \<open>The machine\<close>

text \<open>The values \<open>$1\<close>, \<open>$2\<close>, \<open>...\<close> of a rule, from the values on the stack, the top first.\<close>

definition dollar :: "int \<Rightarrow> string list \<Rightarrow> nat \<Rightarrow> string" where
  "dollar n vs k = vs ! ((case yyDollar n of Some w \<Rightarrow> w | None \<Rightarrow> 0) - k)"

definition first_value :: "int \<Rightarrow> string list \<Rightarrow> string" where
  "first_value n vs = (case snd (rule_of n) of [] \<Rightarrow> [] | _ # Xs \<Rightarrow> vs ! length Xs)"

definition yyG :: "action lr" where
  "yyG =
     \<lparr>lr_move = yymove, lr_goto = yygoto, lr_lhs = (\<lambda>n. fst (rule_of n)), lr_rhs = (\<lambda>n. snd (rule_of n)),
      lr_act = (\<lambda>n vs. rule_action n (dollar n vs)),
      lr_val = (\<lambda>n vs. rule_value n (dollar n vs) (first_value n vs))\<rparr>"

lemma yyG_simps [simp]:
  "lr_move yyG = yymove" "lr_goto yyG = yygoto" "lr_lhs yyG n = fst (rule_of n)" "lr_rhs yyG n = snd (rule_of n)"
  "lr_act yyG n vs = rule_action n (dollar n vs)"
  "lr_val yyG n vs = rule_value n (dollar n vs) (first_value n vs)"
  by (simp_all add: yyG_def)

section \<open>The checks\<close>

text \<open>The symbol on the edges into a state, the states before it, and its rank.\<close>

definition entry_table :: "sym table" where
  "entry_table =
     Fork (Fork (Fork (Fork (Fork (Fork (Fork (Fork Tip 0 (N 0) Tip) 1 (N 1) Tip) 2 (N 2) (Fork Tip 3 (N 4)
     Tip)) 4 (N 5) (Fork (Fork Tip 5 (N 6) Tip) 6 (N 7) (Fork Tip 7 (N 8) Tip))) 8 (N 9) (Fork (Fork (Fork
     (Fork Tip 9 (N 10) Tip) 10 (T 9) Tip) 11 (T 6) (Fork Tip 12 (T 15) Tip)) 13 (T 13) (Fork (Fork Tip 14
     (T 16) Tip) 15 (T 26) (Fork Tip 16 (T 30) Tip)))) 17 (N 11) (Fork (Fork (Fork (Fork (Fork Tip 18 (T 23)
     Tip) 19 (N 16) Tip) 20 (T 23) (Fork Tip 21 (N 17) Tip)) 22 (N 26) (Fork (Fork Tip 23 (T 23) Tip) 24
     (N 29) (Fork Tip 25 (T 23) Tip))) 26 (N 35) (Fork (Fork (Fork (Fork Tip 27 (T 23) Tip) 28 (N 2) Tip) 29
     (T 31) (Fork Tip 30 (T 34) Tip)) 31 (N 18) (Fork (Fork Tip 32 (N 19) Tip) 33 (N 20) (Fork Tip 34 (N 21)
     Tip))))) 35 (N 22) (Fork (Fork (Fork (Fork (Fork (Fork Tip 36 (N 23) Tip) 37 (N 25) Tip) 38 (T 17)
     (Fork Tip 39 (T 10) Tip)) 40 (T 8) (Fork (Fork Tip 41 (T 4) Tip) 42 (T 12) (Fork Tip 43 (T 11) Tip)))
     44 (N 5) (Fork (Fork (Fork (Fork Tip 45 (N 8) Tip) 46 (N 9) Tip) 47 (T 23) (Fork Tip 48 (T 19) Tip)) 49
     (T 20) (Fork (Fork Tip 50 (T 21) Tip) 51 (T 22) (Fork Tip 52 (T 31) Tip)))) 53 (N 30) (Fork (Fork (Fork
     (Fork (Fork Tip 54 (T 31) Tip) 55 (N 12) Tip) 56 (N 13) (Fork Tip 57 (N 14) Tip)) 58 (N 15) (Fork (Fork
     Tip 59 (T 28) Tip) 60 (T 23) (Fork Tip 61 (T 29) Tip))) 62 (T 23) (Fork (Fork (Fork (Fork Tip 63 (T 24)
     Tip) 64 (N 24) Tip) 65 (T 39) (Fork Tip 66 (T 23) Tip)) 67 (N 25) (Fork (Fork Tip 68 (N 27) Tip) 69
     (T 14) (Fork Tip 70 (N 36) Tip)))))) 71 (N 37) (Fork (Fork (Fork (Fork (Fork (Fork (Fork Tip 72 (T 27)
     Tip) 73 (T 32) Tip) 74 (T 33) (Fork Tip 75 (T 34) Tip)) 76 (T 34) (Fork (Fork Tip 77 (N 15) Tip) 78
     (T 35) (Fork Tip 79 (T 37) Tip))) 80 (N 24) (Fork (Fork (Fork (Fork Tip 81 (N 28) Tip) 82 (N 18) Tip)
     83 (T 40) (Fork Tip 84 (T 32) Tip)) 85 (T 30) (Fork (Fork Tip 86 (N 38) Tip) 87 (T 23) (Fork Tip 88
     (N 12) Tip)))) 89 (N 3) (Fork (Fork (Fork (Fork (Fork Tip 90 (T 23) Tip) 91 (T 24) Tip) 92 (N 3) (Fork
     Tip 93 (T 34) Tip)) 94 (N 3) (Fork (Fork Tip 95 (N 3) Tip) 96 (T 38) (Fork Tip 97 (T 32) Tip))) 98
     (T 30) (Fork (Fork (Fork (Fork Tip 99 (N 19) Tip) 100 (N 23) Tip) 101 (T 34) (Fork Tip 102 (N 36) Tip))
     103 (T 31) (Fork (Fork Tip 104 (N 3) Tip) 105 (T 36) (Fork Tip 106 (T 38) Tip))))) 107 (N 28) (Fork
     (Fork (Fork (Fork (Fork (Fork Tip 108 (T 41) Tip) 109 (N 24) Tip) 110 (N 3) (Fork Tip 111 (N 39) Tip))
     112 (N 40) (Fork (Fork Tip 113 (N 23) Tip) 114 (T 31) (Fork Tip 115 (T 32) Tip))) 116 (T 30) (Fork
     (Fork (Fork (Fork Tip 117 (N 41) Tip) 118 (T 23) Tip) 119 (N 31) (Fork Tip 120 (N 32) Tip)) 121 (T 5)
     (Fork (Fork Tip 122 (T 7) Tip) 123 (T 34) (Fork Tip 124 (N 39) Tip)))) 125 (T 40) (Fork (Fork (Fork
     (Fork (Fork Tip 126 (T 32) Tip) 127 (T 30) Tip) 128 (N 3) (Fork Tip 129 (N 34) Tip)) 130 (N 3) (Fork
     (Fork Tip 131 (N 23) Tip) 132 (N 31) (Fork Tip 133 (N 33) Tip))) 134 (T 42) (Fork (Fork (Fork (Fork Tip
     135 (T 30) Tip) 136 (T 41) Tip) 137 (T 42) (Fork Tip 138 (N 18) Tip)) 139 (T 34) (Fork (Fork Tip 140
     (N 18) Tip) 141 (N 3) (Fork Tip 142 (T 30) Tip))))))"

definition preds_table :: "(int list) table" where
  "preds_table =
     Fork (Fork (Fork (Fork (Fork (Fork (Fork (Fork Tip 0 [] Tip) 1 [0] Tip) 2 [0] (Fork Tip 3 [0, 16] Tip))
     4 [0, 16] (Fork (Fork Tip 5 [0, 16] Tip) 6 [0, 16] (Fork Tip 7 [0, 16] Tip))) 8 [0, 16] (Fork (Fork
     (Fork (Fork Tip 9 [0, 16] Tip) 10 [0, 16, 21, 68, 83, 98, 103, 116, 125, 134, 137] Tip) 11 [0, 16]
     (Fork Tip 12 [0, 16] Tip)) 13 [0, 16, 21, 68, 83, 98, 103, 116, 125, 134, 137] (Fork (Fork Tip 14
     [0, 16, 21, 68, 83, 98, 103, 116, 125, 134, 137] Tip) 15 [0, 16] (Fork Tip 16 [3] Tip)))) 17 [10] (Fork
     (Fork (Fork (Fork (Fork Tip 18 [10] Tip) 19 [11] Tip) 20 [11] (Fork Tip 21 [12] Tip)) 22 [13] (Fork
     (Fork Tip 23 [13] Tip) 24 [14] (Fork Tip 25 [14] Tip))) 26 [15] (Fork (Fork (Fork (Fork Tip 27 [15]
     Tip) 28 [16] Tip) 29 [17] (Fork Tip 30 [19] Tip)) 31 [21] (Fork (Fork Tip 32 [21, 68, 98, 134, 137]
     Tip) 33 [21, 68, 98, 134, 137] (Fork Tip 34 [21, 68, 98, 134, 137] Tip))))) 35 [21, 68, 98, 134, 137]
     (Fork (Fork (Fork (Fork (Fork (Fork Tip 36 [21, 68, 98, 134, 137] Tip) 37
     [21, 68, 83, 98, 103, 116, 125, 134, 137] Tip) 38 [21, 68, 83, 98, 103, 116, 125, 134, 137] (Fork Tip
     39 [21, 68, 83, 98, 103, 116, 125, 134, 137] Tip)) 40 [21, 68, 83, 98, 103, 116, 125, 134, 137] (Fork
     (Fork Tip 41 [21, 68, 83, 98, 103, 116, 125, 134, 137] Tip) 42
     [21, 68, 83, 98, 103, 116, 125, 134, 137] (Fork Tip 43 [21, 68, 83, 98, 103, 116, 125, 134, 137] Tip)))
     44 [21, 68, 83, 98, 103, 116, 125, 134, 137] (Fork (Fork (Fork (Fork Tip 45
     [21, 68, 83, 98, 103, 116, 125, 134, 137] Tip) 46 [21, 68, 83, 98, 103, 116, 125, 134, 137] Tip) 47
     [21, 68, 83, 98, 103, 116, 125, 134, 137] (Fork Tip 48 [21, 38, 68, 83, 98, 103, 116, 125, 134, 137]
     Tip)) 49 [21, 38, 68, 83, 98, 103, 116, 125, 134, 137] (Fork (Fork Tip 50
     [21, 38, 68, 83, 98, 103, 116, 125, 134, 137] Tip) 51 [21, 38, 68, 83, 98, 103, 116, 125, 134, 137]
     (Fork Tip 52 [22] Tip)))) 53 [24] (Fork (Fork (Fork (Fork (Fork Tip 54 [26] Tip) 55 [29] Tip) 56
     [29, 74] (Fork Tip 57 [29, 74] Tip)) 58 [29, 74] (Fork (Fork Tip 59 [29, 74] Tip) 60 [29, 74] (Fork Tip
     61 [29, 59, 74] Tip))) 62 [30] (Fork (Fork (Fork (Fork Tip 63 [30] Tip) 64 [36] Tip) 65 [36] (Fork Tip
     66 [36, 65, 100] Tip)) 67 [38] (Fork (Fork Tip 68 [52] Tip) 69 [53] (Fork Tip 70 [54] Tip)))))) 71
     [54, 85] (Fork (Fork (Fork (Fork (Fork (Fork (Fork Tip 72 [54, 85] Tip) 73 [55] Tip) 74 [56] (Fork Tip
     75 [57] Tip)) 76 [58] (Fork (Fork Tip 77 [59] Tip) 78 [64] (Fork Tip 79 [64] Tip))) 80 [65] (Fork (Fork
     (Fork (Fork Tip 81 [68] Tip) 82 [68, 98] Tip) 83 [69] (Fork Tip 84 [70] Tip)) 85 [71] (Fork (Fork Tip
     86 [72] Tip) 87 [72] (Fork Tip 88 [74] Tip)))) 89 [75] (Fork (Fork (Fork (Fork (Fork Tip 90
     [75, 76, 78, 79, 93, 101, 121, 123, 139] Tip) 91 [75, 76, 78, 79, 93, 101, 121, 123, 139] Tip) 92 [76]
     (Fork Tip 93 [77] Tip)) 94 [78] (Fork (Fork Tip 95 [79] Tip) 96 [79] (Fork Tip 97 [81] Tip))) 98 [82]
     (Fork (Fork (Fork (Fork Tip 99 [83] Tip) 100 [83] Tip) 101 [84] (Fork Tip 102 [85] Tip)) 103 [86] (Fork
     (Fork Tip 104 [93] Tip) 105 [94] (Fork Tip 106 [95] Tip))))) 107 [98] (Fork (Fork (Fork (Fork (Fork
     (Fork Tip 108 [99] Tip) 109 [100] Tip) 110 [101] (Fork Tip 111 [103] Tip)) 112 [103, 116] (Fork (Fork
     Tip 113 [103, 116] Tip) 114 [108] (Fork Tip 115 [111] Tip))) 116 [112] (Fork (Fork (Fork (Fork Tip 117
     [113] Tip) 118 [113] Tip) 119 [114] (Fork Tip 120 [114, 127] Tip)) 121 [114, 127] (Fork (Fork Tip 122
     [114, 127] Tip) 123 [115] (Fork Tip 124 [116] Tip)))) 125 [117] (Fork (Fork (Fork (Fork (Fork Tip 126
     [119] Tip) 127 [120] Tip) 128 [121] (Fork Tip 129 [122] Tip)) 130 [123] (Fork (Fork Tip 131 [125] Tip)
     132 [127] (Fork Tip 133 [128] Tip))) 134 [129] (Fork (Fork (Fork (Fork Tip 135 [130] Tip) 136 [131]
     Tip) 137 [133] (Fork Tip 138 [134] Tip)) 139 [136] (Fork (Fork Tip 140 [137] Tip) 141 [139] (Fork Tip
     142 [141] Tip))))))"

definition rank_table :: "int table" where
  "rank_table =
     Fork (Fork (Fork (Fork (Fork (Fork (Fork (Fork Tip 0 0 Tip) 1 0 Tip) 2 1 (Fork Tip 3 0 Tip)) 4 1 (Fork
     (Fork Tip 5 1 Tip) 6 1 (Fork Tip 7 1 Tip))) 8 1 (Fork (Fork (Fork (Fork Tip 9 1 Tip) 10 0 Tip) 11 0
     (Fork Tip 12 2 Tip)) 13 0 (Fork (Fork Tip 14 0 Tip) 15 0 (Fork Tip 16 1 Tip)))) 17 0 (Fork (Fork (Fork
     (Fork (Fork Tip 18 1 Tip) 19 0 Tip) 20 1 (Fork Tip 21 0 Tip)) 22 0 (Fork (Fork Tip 23 1 Tip) 24 2 (Fork
     Tip 25 3 Tip))) 26 0 (Fork (Fork (Fork (Fork Tip 27 1 Tip) 28 0 Tip) 29 0 (Fork Tip 30 0 Tip)) 31 0
     (Fork (Fork Tip 32 1 Tip) 33 1 (Fork Tip 34 1 Tip))))) 35 1 (Fork (Fork (Fork (Fork (Fork (Fork Tip 36
     0 Tip) 37 1 Tip) 38 0 (Fork Tip 39 1 Tip)) 40 1 (Fork (Fork Tip 41 1 Tip) 42 1 (Fork Tip 43 1 Tip))) 44
     1 (Fork (Fork (Fork (Fork Tip 45 1 Tip) 46 1 Tip) 47 1 (Fork Tip 48 2 Tip)) 49 2 (Fork (Fork Tip 50 2
     Tip) 51 2 (Fork Tip 52 2 Tip)))) 53 0 (Fork (Fork (Fork (Fork (Fork Tip 54 0 Tip) 55 0 Tip) 56 1 (Fork
     Tip 57 2 Tip)) 58 0 (Fork (Fork Tip 59 0 Tip) 60 3 (Fork Tip 61 1 Tip))) 62 0 (Fork (Fork (Fork (Fork
     Tip 63 0 Tip) 64 1 Tip) 65 0 (Fork Tip 66 2 Tip)) 67 0 (Fork (Fork Tip 68 0 Tip) 69 0 (Fork Tip 70 0
     Tip)))))) 71 0 (Fork (Fork (Fork (Fork (Fork (Fork (Fork Tip 72 0 Tip) 73 0 Tip) 74 0 (Fork Tip 75 0
     Tip)) 76 0 (Fork (Fork Tip 77 0 Tip) 78 0 (Fork Tip 79 0 Tip))) 80 0 (Fork (Fork (Fork (Fork Tip 81 0
     Tip) 82 0 Tip) 83 0 (Fork Tip 84 0 Tip)) 85 0 (Fork (Fork Tip 86 0 Tip) 87 1 (Fork Tip 88 0 Tip)))) 89
     0 (Fork (Fork (Fork (Fork (Fork Tip 90 3 Tip) 91 3 Tip) 92 0 (Fork Tip 93 0 Tip)) 94 0 (Fork (Fork Tip
     95 0 Tip) 96 0 (Fork Tip 97 0 Tip))) 98 0 (Fork (Fork (Fork (Fork Tip 99 0 Tip) 100 0 Tip) 101 0 (Fork
     Tip 102 0 Tip)) 103 0 (Fork (Fork Tip 104 0 Tip) 105 0 (Fork Tip 106 0 Tip))))) 107 0 (Fork (Fork (Fork
     (Fork (Fork (Fork Tip 108 0 Tip) 109 0 Tip) 110 0 (Fork Tip 111 0 Tip)) 112 0 (Fork (Fork Tip 113 0
     Tip) 114 0 (Fork Tip 115 0 Tip))) 116 0 (Fork (Fork (Fork (Fork Tip 117 0 Tip) 118 1 Tip) 119 0 (Fork
     Tip 120 0 Tip)) 121 0 (Fork (Fork Tip 122 2 Tip) 123 0 (Fork Tip 124 0 Tip)))) 125 0 (Fork (Fork (Fork
     (Fork (Fork Tip 126 0 Tip) 127 0 Tip) 128 2 (Fork Tip 129 0 Tip)) 130 0 (Fork (Fork Tip 131 0 Tip) 132
     0 (Fork Tip 133 0 Tip))) 134 0 (Fork (Fork (Fork (Fork Tip 135 0 Tip) 136 0 Tip) 137 0 (Fork Tip 138 0
     Tip)) 139 0 (Fork (Fork Tip 140 0 Tip) 141 0 (Fork Tip 142 0 Tip))))))"

definition yyentry :: "int \<Rightarrow> sym" where
  "yyentry s = (case search entry_table s of Some X \<Rightarrow> X | None \<Rightarrow> N 0)"

definition yypreds :: "int \<Rightarrow> int list" where
  "yypreds s = (case search preds_table s of Some ps \<Rightarrow> ps | None \<Rightarrow> [])"

definition yyrank :: "int \<Rightarrow> int" where
  "yyrank s = (case search rank_table s of Some r \<Rightarrow> r | None \<Rightarrow> 0)"

definition state_checked :: "int \<Rightarrow> int \<times> (int \<times> int) list \<Rightarrow> bool" where
  "state_checked s = (\<lambda>(d, r).
     list_all (\<lambda>(t, q). t < 1 \<or> t \<noteq> 1 \<and> yyentry q = T t \<and> s \<in> set (yypreds q) \<and> yyrank q \<le> 3) r \<and>
     (if d = - 2 then s \<noteq> 0 \<and> yyentry s = N nt_specification \<and> yypreds s = [0]
      else d = 0 \<or>
        1 \<le> d \<and> d \<le> 75 \<and>
        back_ok yyG yyentry yypreds yyrank (yyrank s) (fst (rule_of d)) (rev (snd (rule_of d))) [s]))"

lemma states_checked: "list_all (\<lambda>(s, x). state_checked s x) (entries parse_table)"
  by code_simp

lemma rank_table_checked: "list_all (\<lambda>(s, r). 0 \<le> r) (entries rank_table)"
  by code_simp

text \<open>
  For the other direction: the tokens with which a nonterminal can begin, and for every state the
  nonterminals that it expects, with the tokens that can follow.
\<close>

definition first_table :: "(int list) table" where
  "first_table =
     Fork (Fork (Fork (Fork (Fork (Fork Tip 1 [6, 9, 13, 15, 16, 26] Tip) 2 [6, 9, 13, 15, 16, 26] Tip) 3
     [23, 24] (Fork Tip 4 [6, 9, 13, 15, 16, 26] Tip)) 5 [9] (Fork (Fork (Fork Tip 6 [6] Tip) 7 [15] Tip) 8
     [13] (Fork Tip 9 [16] Tip))) 10 [26] (Fork (Fork (Fork (Fork Tip 11 [23] Tip) 12 [23, 28, 29] Tip) 13
     [23, 28, 29] (Fork Tip 14 [23] Tip)) 15 [29] (Fork (Fork Tip 16 [23] Tip) 18
     [4, 8, 9, 10, 11, 12, 13, 16, 17, 19, 20, 21, 22, 23] (Fork Tip 19
     [4, 8, 9, 10, 11, 12, 13, 16, 17, 19, 20, 21, 22, 23] Tip)))) 20
     [4, 8, 9, 10, 11, 12, 13, 16, 17, 19, 20, 21, 22, 23] (Fork (Fork (Fork (Fork (Fork Tip 21
     [4, 8, 9, 10, 11, 12, 13, 16, 17, 19, 20, 21, 22, 23] Tip) 22
     [4, 8, 9, 10, 11, 12, 13, 16, 17, 19, 20, 21, 22, 23] Tip) 23
     [4, 8, 9, 10, 11, 12, 13, 16, 17, 19, 20, 21, 22, 23] (Fork Tip 24 [23] Tip)) 25 [19, 20, 21, 22] (Fork
     (Fork Tip 26 [23] Tip) 28 [4, 8, 9, 10, 11, 12, 13, 16, 17, 19, 20, 21, 22, 23] (Fork Tip 29 [23]
     Tip))) 31 [5, 7] (Fork (Fork (Fork (Fork Tip 32 [5, 7] Tip) 35 [23] Tip) 36 [27] (Fork Tip 37 [27]
     Tip)) 38 [23] (Fork (Fork Tip 39 [4, 8, 9, 10, 11, 12, 13, 16, 17, 19, 20, 21, 22, 23] Tip) 40
     [4, 8, 9, 10, 11, 12, 13, 16, 17, 19, 20, 21, 22, 23] (Fork Tip 41 [23] Tip))))"

definition follow_table :: "(int \<times> int list) list table" where
  "follow_table =
     Fork (Fork (Fork (Fork (Fork (Fork Tip 0
     [(1, [1]), (2, [1]), (4, [30]), (5, [30]), (6, [30]), (7, [30]), (8, [30]), (9, [30]), (10, [30])] Tip)
     10 [(11, [31])] Tip) 11 [(16, [34])] (Fork (Fork Tip 12
     [(17, [4, 8, 9, 10, 11, 12, 13, 16, 17, 19, 20, 21, 22, 23])] Tip) 13 [(26, [31])] Tip)) 14
     [(29, [14])] (Fork (Fork (Fork Tip 15 [(35, [31])] Tip) 16
     [(2, [1]), (4, [30]), (5, [30]), (6, [30]), (7, [30]), (8, [30]), (9, [30]), (10, [30])] Tip) 21
     [(5, [23, 39]), (8, [23, 39]), (9, [23, 39]), (18, [30]), (19, [30]), (20, [30]), (21, [30]), (22, [30]), (23, [23, 39]), (25, [23, 39])]
     (Fork Tip 24 [(30, [14])] Tip))) 29 [(12, [32]), (13, [32, 33]), (14, [32, 33, 34]), (15, [34])] (Fork
     (Fork (Fork (Fork Tip 36 [(24, [30, 35, 37])] Tip) 38 [(25, [23, 39, 41])] Tip) 52
     [(27, [4, 8, 9, 10, 11, 12, 13, 16, 17, 19, 20, 21, 22, 23])] (Fork (Fork Tip 54
     [(36, [32]), (37, [30])] Tip) 59 [(15, [34])] Tip)) 65 [(24, [30])] (Fork (Fork (Fork Tip 68
     [(5, [23, 39]), (8, [23, 39]), (9, [23, 39]), (18, [30]), (19, [30]), (20, [30]), (21, [30]), (22, [30]), (23, [23, 39]), (25, [23, 39]), (28, [32])]
     Tip) 72 [(38, [31])] Tip) 74 [(12, [32]), (13, [32, 33]), (14, [32, 33, 34]), (15, [34])] (Fork Tip 75
     [(3, [32, 33])] Tip)))) 76 [(3, [32, 33])] (Fork (Fork (Fork (Fork (Fork Tip 78 [(3, [36])] Tip) 79
     [(3, [38])] Tip) 83 [(5, [23]), (8, [23]), (9, [23]), (19, [41]), (23, [23]), (25, [23])] (Fork (Fork
     Tip 85 [(36, [32]), (37, [30])] Tip) 93 [(3, [32, 33])] Tip)) 98
     [(5, [23, 39]), (8, [23, 39]), (9, [23, 39]), (18, [30]), (19, [30]), (20, [30]), (21, [30]), (22, [30]), (23, [23, 39]), (25, [23, 39]), (28, [32])]
     (Fork (Fork (Fork Tip 100 [(24, [41])] Tip) 101 [(3, [30])] Tip) 103
     [(5, [23]), (8, [23]), (9, [23]), (23, [23]), (25, [23]), (39, [32]), (40, [30])] (Fork Tip 113
     [(41, [40])] Tip))) 114 [(31, [32]), (32, [30])] (Fork (Fork (Fork (Fork Tip 116
     [(5, [23]), (8, [23]), (9, [23]), (23, [23]), (25, [23]), (39, [32]), (40, [30])] Tip) 121 [(3, [42])]
     Tip) 122 [(34, [42])] (Fork (Fork Tip 123 [(3, [30])] Tip) 125
     [(5, [41]), (8, [41]), (9, [41]), (23, [41]), (25, [41])] Tip)) 127 [(31, [32]), (32, [30])] (Fork
     (Fork (Fork Tip 128 [(33, [42])] Tip) 134
     [(5, [23, 39]), (8, [23, 39]), (9, [23, 39]), (18, [30]), (19, [30]), (20, [30]), (21, [30]), (22, [30]), (23, [23, 39]), (25, [23, 39])]
     Tip) 137
     [(5, [23, 39]), (8, [23, 39]), (9, [23, 39]), (18, [30]), (19, [30]), (20, [30]), (21, [30]), (22, [30]), (23, [23, 39]), (25, [23, 39])]
     (Fork Tip 139 [(3, [30])] Tip))))"

definition yyfirst :: "int \<Rightarrow> int list" where
  "yyfirst A = (case search first_table A of Some ts \<Rightarrow> ts | None \<Rightarrow> [])"

definition yynull :: "int \<Rightarrow> bool" where
  "yynull A \<longleftrightarrow> A \<in> set [17, 27, 30, 33, 34]"

definition yyfollow :: "int \<Rightarrow> int \<Rightarrow> int list option" where
  "yyfollow p A = (case search follow_table p of Some r \<Rightarrow> map_of r A | None \<Rightarrow> None)"

lemma rules_begin: "list_all (first_ok yyG yyfirst yynull) rule_numbers"
  by code_simp

definition follow_checked :: "int \<Rightarrow> (int \<times> int list) list \<Rightarrow> bool" where
  "follow_checked p r =
     list_all (\<lambda>(A, L). list_all (\<lambda>(n, B, Xs). if B = A then walk yyG yyfirst yynull yyfollow n p Xs L else True)
       (List.tl (zip [0..75] yyrules))) r"

lemma follow_table_checked: "list_all (\<lambda>(p, r). follow_checked p r) (entries follow_table)"
  by code_simp

end
