(* ===== verification/Lvgen_Driver.thy ===== *)
theory Lvgen_Driver
  imports Lvgen_Grammar
begin

text \<open>
  The generated parser and the machine over the grammar: the tables pass the checks, and the parser's
  steps, on its array and its packed tables, are the machine's, up to the end of the parse.
\<close>

section \<open>The tables are sound and complete\<close>

lemma preds_known: "list_all (\<lambda>(s, ps). 0 \<le> s \<and> s \<le> 142) (entries preds_table)"
  by code_simp

lemma yymove_checked: "1 \<le> t \<Longrightarrow> move_ok yyG rule_numbers 1 yyentry yypreds yyrank 3 s t"
proof (cases "search parse_table s")
  case (Some e)
  assume t: "1 \<le> t"
  obtain d r where e: "e = (d, r)" by (cases e)
  have c: "state_checked s (d, r)"
    using states_checked search_entries [OF Some] by (auto simp: list_all_iff e)
  show ?thesis
  proof (cases "map_of r t")
    case None
    with c t Some show ?thesis
      by (auto simp: move_ok_def yymove_def e state_checked_def rule_numbers_def split: if_splits)
  next
    case (Some q)
    then have "(t, q) \<in> set r" by (rule map_of_SomeD)
    with c t have "t \<noteq> 1" "yyentry q = T t" "s \<in> set (yypreds q)" "yyrank q \<le> 3"
      by (auto simp: state_checked_def list_all_iff)
    with \<open>search parse_table s = Some e\<close> Some show ?thesis by (simp add: move_ok_def yymove_def e)
  qed
qed (simp add: move_ok_def yymove_def)

lemma yyrank_nonneg: "0 \<le> yyrank s"
  using rank_table_checked search_entries [of rank_table s]
  by (cases "search rank_table s") (auto simp: yyrank_def list_all_iff)

lemma yypreds_known: "p \<in> set (yypreds q) \<Longrightarrow> q \<in> {0..142}"
  using preds_known search_entries [of preds_table q]
  by (cases "search preds_table q") (auto simp: yypreds_def list_all_iff)

interpretation yy: sound_table yyG rule_numbers 1 "{0..142}" "{1..42}" yyentry yypreds yyrank 3
proof
  show "yypreds 0 = []" by code_simp
qed (auto intro: yyrank_nonneg yymove_checked dest: yypreds_known)

lemma idx_enum: "idx xs (int n) = (if n < length xs then Some (xs ! n) else None)"
proof (induction xs arbitrary: n)
  case (Cons x xs)
  then show ?case by (cases n) simp_all
qed simp

lemma idx_nth: "0 \<le> i \<Longrightarrow> i < int (length xs) \<Longrightarrow> idx xs i = Some (xs ! nat i)"
  using idx_enum [of xs "nat i"] by auto

lemma idx_negative: "i < 0 \<Longrightarrow> idx xs i = None"
  by (induction xs arbitrary: i) simp_all

lemma follow_walk:
  assumes "yyfollow p A = Some L" and "n \<in> set rule_numbers" and "lr_lhs yyG n = A"
  shows "walk yyG yyfirst yynull yyfollow n p (lr_rhs yyG n) L"
proof -
  from assms(1) obtain r where r: "search follow_table p = Some r" "map_of r A = Some L"
    by (auto simp: yyfollow_def split: option.splits)
  have c: "follow_checked p r"
    using follow_table_checked search_entries [OF r(1)] by (auto simp: list_all_iff)
  from assms(2) have n: "1 \<le> n" "n \<le> 75" by (simp_all add: rule_numbers_def)
  have len: "length yyrules = 76" by (simp add: yyrules_def)
  have "rule_of n = yyrules ! nat n"
    using n(1) nat_less_iff [of n 76] n(2) idx_enum [of yyrules "nat n"] len by (simp add: rule_of_def)
  then have "(n, rule_of n) \<in> set (List.tl (zip [0..75] yyrules))"
    using n len by (auto simp: in_set_conv_nth nth_tl intro!: exI [of _ "nat n - 1"])
  with c map_of_SomeD [OF r(2)] assms(3) show ?thesis
    by (cases "rule_of n") (fastforce simp: follow_checked_def list_all_iff)
qed

interpretation yc: complete_table yyG rule_numbers 1 yyfirst yynull yyfollow
proof
  show "yyfollow 0 1 = Some [1]" "lr_move yyG (lr_goto yyG 0 1) 1 = Accept" by code_simp+
qed (use rules_begin follow_walk in \<open>auto simp: list_all_iff\<close>)

section \<open>The packed tables\<close>

lemma idx_range: "idx xs i = None \<longleftrightarrow> i < 0 \<or> int (length xs) \<le> i"
proof (cases "i < 0")
  case False
  then show ?thesis using idx_enum [of xs "nat i"] by auto
qed (simp add: idx_negative)

lemma list_all2_idx: "list_all2 P xs ys \<Longrightarrow> idx xs i = Some x \<Longrightarrow> \<exists>y. idx ys i = Some y \<and> P x y"
  by (induction arbitrary: i rule: list_all2_induct) (auto split: if_splits)

lemma map_of_shift_row:
  "map_of (shift_row t0 xs) t = (case idx xs (t - t0) of Some (q, c) \<Rightarrow> if c = t then Some q else None | None \<Rightarrow> None)"
  by (induction t0 xs rule: shift_row.induct) (auto simp: idx_negative diff_diff_eq)

lemma map_of_goto_row:
  "map_of (goto_row A p0 xs) p = (case idx xs (p - p0) of Some (q, c) \<Rightarrow> if c = - A then Some q else None | None \<Rightarrow> None)"
  by (induction A p0 xs rule: goto_row.induct) (auto simp: idx_negative diff_diff_eq)

lemma length_yyAct: "length yyAct = 157" by (simp add: yyAct_def)

text \<open>An access to the actions and their checks.\<close>

lemma act_chk_access:
  assumes "0 \<le> i" and "i < yyLast"
  shows "\<exists>q c. idx yyAct i = Some q \<and> idx yyChk q = Some c \<and> idx act_chk i = Some (q, c)"
proof -
  from assms idx_range [of yyAct i] length_yyAct obtain q where q: "idx yyAct i = Some q"
    by (cases "idx yyAct i") (auto simp: yyLast_def)
  from list_all2_idx [OF act_chk_checked q] q show ?thesis by auto
qed

lemma act_chk_none: "i < 0 \<or> yyLast \<le> i \<Longrightarrow> idx act_chk i = None"
  using list_all2_lengthD [OF act_chk_checked] length_yyAct by (auto simp: idx_range yyLast_def)

abbreviation states :: "int set" where "states \<equiv> {0..142}"

lemma idx_upto: "s \<in> {0..142} \<Longrightarrow> idx [0..142] s = Some s"
proof -
  assume "s \<in> {0..142}"
  then have s: "0 \<le> s" "nat s < 143" by auto
  have "idx [0..142] (int (nat s)) = Some ([0..142] ! nat s)" using s by (subst idx_enum) simp
  then show ?thesis using s by simp
qed

lemma state_row:
  assumes "s \<in> states"
  shows "\<exists>n d. idx yyPact s = Some n \<and> idx yyDef s = Some d \<and>
    search parse_table s = Some (d, if n \<le> yyFlag then [] else shift_row (- n) act_chk)"
proof -
  have l: "length yyPact = 143" "length yyDef = 143" by (simp_all add: yyPact_def yyDef_def)
  from assms l idx_range [of yyPact s] idx_range [of yyDef s] obtain n d
    where nd: "idx yyPact s = Some n" "idx yyDef s = Some d"
    by (cases "idx yyPact s"; cases "idx yyDef s") auto
  from assms have s: "s = int (nat s)" "nat s < 143" by auto
  have "idx (zip yyPact yyDef) (int (nat s)) = Some (yyPact ! nat s, yyDef ! nat s)"
    using s(2) l by (subst idx_enum) simp
  with nd s l have "idx (zip yyPact yyDef) s = Some (n, d)" by (metis idx_enum option.inject)
  from list_all2_idx [OF parse_table_checked this] idx_upto [OF assms] nd show ?thesis by auto
qed

lemma state_shift:
  assumes "s \<in> states" and "idx yyPact s = Some n" and "yyFlag < n" and "search parse_table s = Some (d, r)"
  shows "map_of r t = (case idx act_chk (n + t) of Some (q, c) \<Rightarrow> if c = t then Some q else None | None \<Rightarrow> None)"
proof -
  have "r = shift_row (- n) act_chk" using state_row [OF assms(1)] assms(2-4) by auto
  then show ?thesis by (simp add: map_of_shift_row add.commute)
qed

lemma goto_ok:
  assumes "p \<in> states" and "A \<in> {0..41}"
  shows "goto_state p A = Some (yygoto p A)"
proof -
  have "length yyPgo = 42" by (simp add: yyPgo_def)
  with assms(2) idx_range [of yyPgo A] obtain g where g: "idx yyPgo A = Some g" by (cases "idx yyPgo A") auto
  have "list_all (\<lambda>g. 0 \<le> g \<and> g < 157) yyPgo" by (simp add: yyPgo_def)
  with g have g0: "0 \<le> g" "g < yyLast" using idx_enum [of yyPgo "nat A"] assms(2)
    by (auto simp: list_all_iff yyLast_def split: if_splits)
  then obtain d where d: "idx yyAct g = Some d" using act_chk_access by blast
  have "idx [0..41] A = Some A"
    using assms(2) idx_enum [of "[0..41]" "nat A"] by auto
  with list_all2_idx [OF goto_table_checked g] d
  have t: "search goto_table A = Some (d, goto_row A (- g - 1) act_chk)" by auto
  have j: "p - (- g - 1) = g + p + 1" by simp
  show ?thesis
  proof (cases "yyLast \<le> g + p + 1")
    case True
    then show ?thesis by (simp add: goto_state_def yygoto_def g d t map_of_goto_row j act_chk_none)
  next
    case False
    then obtain q c where "idx yyAct (g + p + 1) = Some q" "idx yyChk q = Some c" "idx act_chk (g + p + 1) = Some (q, c)"
      using act_chk_access [of "g + p + 1"] g0 assms(1) by auto
    with False show ?thesis by (simp add: goto_state_def yygoto_def g d t map_of_goto_row j)
  qed
qed

section \<open>Tokens\<close>

lemma idx_in: "idx xs i = Some x \<Longrightarrow> x \<in> set xs"
  by (induction xs arbitrary: i) (auto split: if_splits)

lemma idx_Some: "0 \<le> i \<Longrightarrow> i < int (length xs) \<Longrightarrow> \<exists>x. idx xs i = Some x"
  using idx_range [of xs i] by (cases "idx xs i") auto

text \<open>Every integer is some token of the parser.\<close>

lemma token_tables: "set yyTok1 \<subseteq> {1..42}" "set yyTok2 \<subseteq> {1..42}" "length yyTok1 = 126" "length yyTok2 = 28"
  by (simp_all add: yyTok1_def yyTok2_def)

lemma token_of_ok: "\<exists>t \<in> {1..42}. token_of c = Some t"
proof -
  have "\<exists>t \<in> {0..42}. (if c \<le> 0 then idx yyTok1 0
             else if c < int (length yyTok1) then idx yyTok1 c
             else if yyPrivate \<le> c \<and> c < yyPrivate + int (length yyTok2) then idx yyTok2 (c - yyPrivate)
             else search_tok3 yyTok3 c 0) = Some t"
  proof -
    consider "c \<le> 0" | "0 < c" "c < 126" | "126 \<le> c" "yyPrivate \<le> c" "c < yyPrivate + 28"
      | "126 \<le> c" "\<not> (yyPrivate \<le> c \<and> c < yyPrivate + 28)"
      by linarith
    then show ?thesis
    proof cases
      case 1
      then show ?thesis using idx_Some [of 0 yyTok1] idx_in [of yyTok1 0] token_tables by fastforce
    next
      case 2
      then show ?thesis using idx_Some [of c yyTok1] idx_in [of yyTok1 c] token_tables by fastforce
    next
      case 3
      then show ?thesis
        using idx_Some [of "c - yyPrivate" yyTok2] idx_in [of yyTok2 "c - yyPrivate"] token_tables by fastforce
    next
      case 4
      then show ?thesis by (auto simp: token_tables yyTok3_def)
    qed
  qed
  moreover have "idx yyTok2 1 = Some 3" by (simp add: yyTok2_def)
  ultimately show ?thesis by (auto simp: token_of_def)
qed

definition token :: "int \<Rightarrow> int" where
  "token c = the (token_of c)"

lemma token_of_token: "token_of c = Some (token c)" "token c \<in> {1..42}"
  using token_of_ok [of c] by (auto simp: token_def)

lemma token_end: "token 0 = 1"
  by (simp add: token_def token_of_def yyTok1_def)

definition word_of :: "(int \<times> string) list \<Rightarrow> word_in" where
  "word_of ws = List.map (\<lambda>(c, v). (token c, v)) ws"

lemma word_tokens: "fst ` set (word_of ws) \<subseteq> {1..42}"
  using token_of_token(2) by (auto simp: word_of_def)

text \<open>The input of the machine: the token read and not yet shifted, and the tokens to come.\<close>

definition ahead :: "yyParser \<Rightarrow> word_in \<Rightarrow> bool" where
  "ahead p inp \<longleftrightarrow>
     list_all (\<lambda>(c, v). 0 \<le> c) (lex p) \<and>
     (if yychar p < 0 then inp = word_of (lex p)
      else look inp = (yytoken p, lval p) \<and> List.tl inp = word_of (lex p))"

lemma lookahead_ok:
  assumes "ahead p inp"
  shows "\<exists>p1. lookahead p = Some p1 \<and> 0 \<le> yychar p1 \<and> yytoken p1 = fst (look inp) \<and> lval p1 = snd (look inp) \<and>
    ahead p1 inp \<and> List.tl inp = word_of (lex p1) \<and>
    p1 = p\<lparr>yychar := yychar p1, yytoken := yytoken p1, lval := lval p1, lex := lex p1\<rparr>"
proof (cases "yychar p < 0")
  case True
  obtain c v where i: "(case lex p of [] \<Rightarrow> (0, []) | i # _ \<Rightarrow> i) = (c, v)" by (meson surj_pair)
  let ?p = "p\<lparr>lval := v, yychar := c, yytoken := token c, lex := List.tl (lex p)\<rparr>"
  have "lookahead p = Some ?p" using True i by (simp add: lookahead_def yylex1_def token_of_token(1))
  moreover have "0 \<le> c" "look inp = (token c, v)" "List.tl inp = word_of (List.tl (lex p))"
      "list_all (\<lambda>(c, v). 0 \<le> c) (List.tl (lex p))"
    using assms True i by (cases "lex p"; auto simp: ahead_def word_of_def look_def token_end)+
  ultimately show ?thesis by (intro exI [of _ ?p]) (simp add: ahead_def)
next
  case False
  then show ?thesis using assms by (auto simp: lookahead_def ahead_def)
qed

section \<open>The stack\<close>

text \<open>
  The parser's stack, the top first. The machine has the same states, and the same values but for those
  of the empty rules, where the parser finds what an earlier use of the array has left.
\<close>

definition slots :: "yyParser \<Rightarrow> slot list" where
  "slots p = rev (take (nat (yyp p + 1)) (yyS p))"

definition empty_state :: "int \<Rightarrow> bool" where
  "empty_state q \<longleftrightarrow> (case yyentry q of T t \<Rightarrow> False | N A \<Rightarrow> yynull A)"

definition agree :: "slot \<Rightarrow> int \<times> string \<Rightarrow> bool" where
  "agree = (\<lambda>(q, v) (q1, v1). q = q1 \<and> (v = v1 \<or> empty_state q))"

definition stack_ok :: "yyParser \<Rightarrow> (int \<times> string) list \<Rightarrow> bool" where
  "stack_ok p st \<longleftrightarrow> 0 \<le> yyp p \<and> yyp p < int (length (yyS p)) \<and> list_all2 agree (slots p) st"

lemma slots_length: "yyp p < int (length (yyS p)) \<Longrightarrow> length (slots p) = nat (yyp p + 1)"
  by (simp add: slots_def)

lemma slots_nth:
  assumes "0 \<le> yyp p" and "yyp p < int (length (yyS p))" and "int k \<le> yyp p"
  shows "slots p ! k = yyS p ! (nat (yyp p) - k)"
  using assms by (simp add: slots_def rev_nth nat_add_distrib Suc_diff_le)

lemma take_grow: "n \<le> length S \<Longrightarrow> take n (grow S i) = take n S"
  by (simp add: grow_def)

lemma yystack_ok:
  assumes "- 1 \<le> yyp p" and "yyp p < int (length (yyS p))" and "yyS p \<noteq> []"
  shows "\<exists>p2. yystack p = Some p2 \<and> 0 \<le> yyp p2 \<and> yyp p2 < int (length (yyS p2)) \<and>
    slots p2 = (yystate p, yyVAL p) # slots p \<and> p2 = p\<lparr>yyp := yyp p2, yyS := yyS p2\<rparr>"
proof -
  let ?i = "yyp p + 1"
  let ?S = "grow (yyS p) ?i"
  obtain x xs where S: "yyS p = x # xs" using assms(3) by (cases "yyS p") auto
  have "nat ?i \<le> length (yyS p)" using assms(2) by simp
  then have "take (nat ?i) ?S = take (nat ?i) (yyS p)" by (rule take_grow)
  moreover have i: "0 \<le> ?i" "nat ?i < length ?S"
    using assms(1,2) by (auto simp: S grow_def nat_less_iff)
  ultimately have "take (Suc (nat ?i)) (?S[nat ?i := (yystate p, yyVAL p)]) = take (nat ?i) (yyS p) @ [(yystate p, yyVAL p)]"
    using i by (simp add: take_Suc_conv_app_nth)
  moreover have "nat (?i + 1) = Suc (nat ?i)" using i(1) by simp
  ultimately show ?thesis
    using i by (auto simp: yystack_def Let_def slots_def)
qed

lemma stack_ok_access:
  assumes "stack_ok p st" and "k < length st"
  shows "idx (yyS p) (yyp p - int k) = Some (slots p ! k)" "agree (slots p ! k) (st ! k)" "int k \<le> yyp p"
proof -
  from assms(1) have y: "0 \<le> yyp p" "yyp p < int (length (yyS p))" "list_all2 agree (slots p) st"
    by (simp_all add: stack_ok_def)
  then have "length st = nat (yyp p + 1)" using slots_length [of p] by (simp add: list_all2_lengthD)
  with assms(2) show k: "int k \<le> yyp p" by simp
  have "idx (yyS p) (int (nat (yyp p) - k)) = Some (yyS p ! (nat (yyp p) - k))"
    using y by (subst idx_enum) auto
  then show "idx (yyS p) (yyp p - int k) = Some (slots p ! k)"
    using y(1,2) k by (simp add: slots_nth of_nat_diff nat_le_iff le_nat_iff)
  show "agree (slots p ! k) (st ! k)"
    using list_all2_nthD2 [OF y(3) assms(2)] .
qed

section \<open>Errors\<close>

text \<open>No state shifts the token of errors, so that the first syntax error is the last.\<close>

lemma no_error_shift: "list_all (\<lambda>(s, d, r). map_of r yyErrCode = None) (entries parse_table)"
  by code_simp

lemma recover_fails:
  assumes "yyp p = int k - 1" and "k \<le> length (yyS p)" and "\<forall>(s, v) \<in> set (take k (yyS p)). s \<in> states"
  shows "\<exists>p1. recover k p = Some (Return 1 p1) \<and> said p1 = said p"
  using assms
proof (induction k arbitrary: p)
  case (Suc k)
  obtain s v where sv: "yyS p ! k = (s, v)" by (cases "yyS p ! k")
  have i: "idx (yyS p) (yyp p) = Some (s, v)"
    using Suc.prems(1,2) idx_enum [of "yyS p" k] by (simp add: sv)
  have "(s, v) \<in> set (take (Suc k) (yyS p))" using Suc.prems(2) sv by (simp add: take_Suc_conv_app_nth)
  with Suc.prems(3) have s: "s \<in> states" by auto
  from state_row [OF s] obtain n d where n: "idx yyPact s = Some n" "idx yyDef s = Some d"
      "search parse_table s = Some (d, if n \<le> yyFlag then [] else shift_row (- n) act_chk)"
    by blast
  have IH: "\<exists>p1. recover k q = Some (Return 1 p1) \<and> said p1 = said p"
    if "yyS q = yyS p" "yyp q = yyp p - 1" "said q = said p" for q
    using Suc.IH [of q] Suc.prems that by (auto dest: in_set_takeD simp: take_Suc_conv_app_nth)
  show ?case
  proof (cases "0 \<le> n + yyErrCode \<and> n + yyErrCode < yyLast")
    case True
    then obtain q c where q: "idx yyAct (n + yyErrCode) = Some q" "idx yyChk q = Some c"
        "idx act_chk (n + yyErrCode) = Some (q, c)"
      using act_chk_access by blast
    have "yyFlag < n" using True by (simp add: yyFlag_def yyErrCode_def)
    moreover have "map_of (shift_row (- n) act_chk) yyErrCode = None"
      using no_error_shift search_entries [OF n(3)] \<open>yyFlag < n\<close> by (auto simp: list_all_iff)
    ultimately have "c \<noteq> yyErrCode" using q(3) by (auto simp: map_of_shift_row add.commute)
    with True q n i show ?thesis by (simp add: Let_def IH)
  next
    case False
    with n i show ?thesis by (auto simp: Let_def IH)
  qed
qed simp

lemma shiftable_ok: "\<exists>ts. shiftable base toks = Some ts"
proof (induction toks)
  case (Cons t toks)
  show ?case
  proof (cases "0 \<le> base + t \<and> base + t < yyLast")
    case True
    then show ?thesis using Cons act_chk_access [of "base + t"] by (auto simp: Let_def)
  qed (use Cons in \<open>auto simp: Let_def\<close>)
qed simp

lemma exception_state: "list_all (\<lambda>(s, d, r). d = - 2 \<longrightarrow> s = 1) (entries parse_table)"
  by code_simp

lemma yyErrorMessage_ok:
  assumes "s \<in> states"
  shows "\<exists>m. yyErrorMessage s t = Some m"
proof -
  from state_row [OF assms] obtain n d where n: "idx yyPact s = Some n" "idx yyDef s = Some d"
      "search parse_table s = Some (d, if n \<le> yyFlag then [] else shift_row (- n) act_chk)"
    by blast
  obtain ts where ts: "shiftable n (List.map int [4..<length yyToknames + 1]) = Some ts" using shiftable_ok by blast
  have "s = 1" if "d = - 2" using that exception_state search_entries [OF n(3)] by (auto simp: list_all_iff)
  then show ?thesis using n(1,2) ts by (auto simp: yyErrorMessage_def Let_def yyExca_def)
qed

text \<open>What a parser at the start of a state gives for the first syntax error.\<close>

lemma syntax_error_ok:
  assumes "stack_ok p st" and "Errflag p = 0" and "said p = []" and "yystate p \<in> states"
    and "\<forall>(q, v) \<in> set st. q \<in> states"
  shows "\<exists>p1 m. syntax_error p = Some (Return 1 p1) \<and> yyErrorMessage (yystate p) (yytoken p) = Some m \<and> said p1 = [m]"
proof -
  from assms(1) have y: "0 \<le> yyp p" "yyp p < int (length (yyS p))" "list_all2 agree (slots p) st"
    by (simp_all add: stack_ok_def)
  obtain m where m: "yyErrorMessage (yystate p) (yytoken p) = Some m"
    using yyErrorMessage_ok [OF assms(4)] by blast
  have "q \<in> states" if "(q, v) \<in> set (slots p)" for q v
  proof -
    from that obtain i where i: "i < length (slots p)" "slots p ! i = (q, v)" by (auto simp: in_set_conv_nth)
    with list_all2_nthD [OF y(3) i(1)] list_all2_lengthD [OF y(3)] assms(5) show ?thesis
      by (auto simp: agree_def split: prod.splits dest!: nth_mem)
  qed
  then have "\<forall>(q, v) \<in> set (take (nat (yyp p + 1)) (yyS p)). q \<in> states" by (auto simp: slots_def)
  then have "\<exists>p1. recover (nat (yyp p + 1)) (p\<lparr>said := said p @ [m], Errflag := 3\<rparr>) = Some (Return 1 p1) \<and> said p1 = [m]"
    using recover_fails [of "p\<lparr>said := said p @ [m], Errflag := 3\<rparr>" "nat (yyp p + 1)"] y(1,2) assms(3) by auto
  then show ?thesis using assms(2) m by (auto simp: syntax_error_def)
qed

section \<open>Reductions\<close>

text \<open>The values that a rule uses, and how deep on the stack they are.\<close>

definition used :: "int \<Rightarrow> nat list" where
  "used n =
     (if n = 12 then [2] else if n = 15 then [1] else if n = 16 then [1, 3] else if n = 17 then [1, 3]
      else if n = 18 then [1, 2, 4] else if n = 23 then [2, 4] else if n = 31 then [1, 2] else if n = 33 then [2]
      else if n = 48 then [1, 2, 4] else if n = 49 then [1, 2, 4] else if n = 50 then [1, 2]
      else if n = 51 then [1, 3] else if n = 52 then [2] else if n = 57 then [2] else if n = 62 then [2] else [])"

lemma used_action: "(\<And>k. k \<in> set (used n) \<Longrightarrow> v k = v1 k) \<Longrightarrow> rule_action n v = rule_action n v1"
  by (simp add: rule_action_def used_def)

lemma used_value: "(\<And>k. k \<in> set (used n) \<Longrightarrow> v k = v1 k) \<Longrightarrow> rule_value n v f = rule_value n v1 f"
  by (simp add: rule_value_def used_def)

lemma quiet_rule: "yyDollar n = None \<Longrightarrow> rule_action n v = [] \<and> rule_value n v f = f"
  by (auto simp: yyDollar_def rule_action_def rule_value_def split: if_splits)

definition width_of :: "int \<Rightarrow> nat" where
  "width_of n = (case yyDollar n of Some w \<Rightarrow> w | None \<Rightarrow> 0)"

definition depths :: "int \<Rightarrow> nat list" where
  "depths n =
     List.map (\<lambda>k. width_of n - k) (used n) @ (case snd (rule_of n) of [] \<Rightarrow> [] | _ # Xs \<Rightarrow> [length Xs])"

text \<open>At these depths there are no values of empty rules.\<close>

definition values_checked :: "int \<Rightarrow> int \<Rightarrow> bool" where
  "values_checked s d =
     (if 1 \<le> d
      then list_all (\<lambda>j. below yypreds j [s] (\<lambda>q. \<not> empty_state q)) (depths d) \<and>
        below yypreds (width_of d) [s] (\<lambda>q. True) \<and> list_all (\<lambda>k. k \<le> width_of d) (used d)
      else True)"

lemma values_all_checked: "list_all (\<lambda>(s, d, r). values_checked s d) (entries parse_table)"
  by code_simp

lemma rule_tables:
  assumes "1 \<le> n" and "n \<le> 75"
  shows "idx yyR1 n = Some (fst (rule_of n))" "idx yyR2 n = Some (int (length (snd (rule_of n))))"
    "fst (rule_of n) \<in> {0..41}"
proof -
  have l: "length yyrules = 76" "length yyR1 = 76" "length yyR2 = 76"
    by (simp_all add: yyrules_def yyR1_def yyR2_def)
  from assms have m: "n = int (nat n)" "nat n < 76" by auto
  have i: "idx yyrules n = Some (yyrules ! nat n)" "idx yyR1 n = Some (yyR1 ! nat n)"
      "idx yyR2 n = Some (yyR2 ! nat n)"
    using assms l by (simp_all add: idx_nth)
  then have r: "rule_of n = yyrules ! nat n" by (simp add: rule_of_def)
  have "(\<lambda>(A, Xs) (r1, r2). A = r1 \<and> int (length Xs) = r2) (yyrules ! nat n) (zip yyR1 yyR2 ! nat n)"
    using m(2) l by (intro list_all2_nthD [OF rules_lengths]) simp
  then have "fst (rule_of n) = yyR1 ! nat n \<and> int (length (snd (rule_of n))) = yyR2 ! nat n"
    using m(2) l by (cases "yyrules ! nat n") (simp add: r)
  with i m(1) show "idx yyR1 n = Some (fst (rule_of n))" "idx yyR2 n = Some (int (length (snd (rule_of n))))" by simp_all
  have "list_all (\<lambda>e. 0 \<le> fst e \<and> fst e \<le> 41) yyrules" by (simp add: yyrules_def)
  then show "fst (rule_of n) \<in> {0..41}" using m(2) l by (simp add: r list_all_length)
qed

lemma idx_grow: "i < int (length S) \<Longrightarrow> idx (grow S j) i = idx S i"
  by (cases "0 \<le> i") (use idx_enum [of S "nat i"] idx_enum [of "grow S j" "nat i"] in \<open>auto simp: idx_negative grow_def nth_append\<close>)

lemma drop_slots: "k \<le> nat (yyp p + 1) \<Longrightarrow> yyp p < int (length (yyS p)) \<Longrightarrow>
    drop k (slots p) = rev (take (nat (yyp p + 1) - k) (yyS p))"
  by (simp add: slots_def drop_rev min_absorb2)

text \<open>What the checks say of a reducing state, with the stack of a parse.\<close>

lemma reducing_state:
  assumes "yymove (fst (hd st)) t = Reduce n" and "chain yyG yyentry yypreds (List.map fst st) ts" and "st \<noteq> []"
  shows "1 \<le> n" "n \<le> 75" "length (snd (rule_of n)) < length st" "width_of n < length st"
    "k \<in> set (used n) \<Longrightarrow> k \<le> width_of n \<and> \<not> empty_state (fst (st ! (width_of n - k)))"
    "snd (rule_of n) = X # Xs \<Longrightarrow> \<not> empty_state (fst (st ! length Xs))"
    "snd (rule_of n) = [] \<Longrightarrow> empty_state (yygoto (fst (hd st)) (fst (rule_of n)))"
proof -
  obtain s v st' where st: "st = (s, v) # st'" using assms(3) by (cases st) auto
  have c: "chain yyG yyentry yypreds (s # List.map fst st') ts" using assms(2) by (simp add: st)
  from assms(1) obtain r where e: "(s, n, r) \<in> set (entries parse_table)" "n \<noteq> - 2" "n \<noteq> 0"
    by (auto simp: yymove_def st split: option.splits if_splits prod.splits dest: search_entries)
  have sc: "state_checked s (n, r)" "values_checked s n"
    using states_checked values_all_checked e(1) by (auto simp: list_all_iff)
  with e show n: "1 \<le> n" "n \<le> 75" by (auto simp: state_checked_def)
  have b: "back_ok yyG yyentry yypreds yyrank (yyrank s) (fst (rule_of n)) (rev (snd (rule_of n))) [s]"
    using sc(1) e by (simp add: state_checked_def)
  have lts: "length ts < length st" using yy.chain_length [OF c] by (simp add: st)
  from yy.back_chain [OF b c] show "length (snd (rule_of n)) < length st" using lts by simp
  have lv: "list_all (\<lambda>j. below yypreds j [s] (\<lambda>q. \<not> empty_state q)) (depths n)"
      "below yypreds (width_of n) [s] (\<lambda>q. True)" "list_all (\<lambda>k. k \<le> width_of n) (used n)"
    using sc(2) n(1) by (simp_all add: values_checked_def)
  from below_chain [OF lv(2) c] show w: "width_of n < length st" by (simp add: st)
  have d: "\<not> empty_state (fst (st ! j))" if "j \<in> set (depths n)" for j
  proof -
    from that lv(1) have "below yypreds j [s] (\<lambda>q. \<not> empty_state q)" by (auto simp: list_all_iff)
    from below_chain [OF this c] have "j < length st" "\<not> empty_state (List.map fst st ! j)" by (simp_all add: st)
    then show ?thesis by simp
  qed
  show "k \<le> width_of n \<and> \<not> empty_state (fst (st ! (width_of n - k)))" if "k \<in> set (used n)"
    using lv(3) that by (auto simp: list_all_iff intro!: d) (simp add: depths_def)
  show "\<not> empty_state (fst (st ! length Xs))" if "snd (rule_of n) = X # Xs"
    using that by (intro d) (simp add: depths_def)
  show "empty_state (yygoto (fst (hd st)) (fst (rule_of n)))" if "snd (rule_of n) = []"
  proof -
    from yy.back_chain [OF b c] that have "yyentry (yygoto s (fst (rule_of n))) = N (fst (rule_of n))"
      by (simp add: Let_def)
    moreover have "n \<in> set rule_numbers" using n by (simp add: rule_numbers_def)
    then have "first_ok yyG yyfirst yynull n" using rules_begin by (simp add: list_all_iff)
    ultimately show ?thesis using that by (simp add: empty_state_def first_ok_def st)
  qed
qed

text \<open>What \<open>reduce\<close> reads of the array, with a rule whose right hand side has the length \<open>k\<close>.\<close>

lemma reduce_value_at:
  assumes "stack_ok p st" and "j < length st" and "\<not> empty_state (fst (st ! j))"
  shows "snd (grow (yyS p) i ! (nat (yyp p) - j)) = List.map snd st ! j"
proof -
  note acc = stack_ok_access [OF assms(1,2)]
  have y: "0 \<le> yyp p" "yyp p < int (length (yyS p))" using assms(1) by (simp_all add: stack_ok_def)
  then have "nat (yyp p) - j < length (yyS p)" by linarith
  then have "grow (yyS p) i ! (nat (yyp p) - j) = slots p ! j"
    using y acc(3) by (simp add: slots_nth grow_def nth_append)
  then show ?thesis using acc(2) assms by (auto simp: agree_def split: prod.splits)
qed

lemma reduce_rest:
  assumes "stack_ok p st" and "k < length st"
  shows "\<exists>v. idx (grow (yyS p) i) (yyp p - int k) = Some (fst (st ! k), v)"
proof -
  have "yyp p < int (length (yyS p))" using assms(1) by (simp add: stack_ok_def)
  then have "idx (grow (yyS p) i) (yyp p - int k) = Some (slots p ! k)"
    using stack_ok_access(1) [OF assms] by (simp add: idx_grow)
  then show ?thesis
    using stack_ok_access(2) [OF assms] by (cases "slots p ! k"; cases "st ! k") (simp add: agree_def)
qed

lemma reduce_first:
  assumes ok: "stack_ok p st" and m: "yymove (fst (hd st)) t = Reduce n"
    and c: "chain yyG yyentry yypreds (List.map fst st) ts" and k: "k = length (snd (rule_of n))"
  shows "\<exists>u first. idx (grow (yyS p) (yyp p - int k + 1)) (yyp p - int k + 1) = Some (u, first) \<and>
    (snd (rule_of n) \<noteq> [] \<longrightarrow> first = first_value n (List.map snd st))"
proof -
  have y: "0 \<le> yyp p" "yyp p < int (length (yyS p))" using ok by (simp_all add: stack_ok_def)
  show ?thesis
  proof (cases "snd (rule_of n)")
    case Nil
    then have i: "0 \<le> yyp p - int k + 1" "yyp p - int k + 1 < int (length (grow (yyS p) (yyp p - int k + 1)))"
      using y k by (simp_all add: grow_def)
    obtain x where "idx (grow (yyS p) (yyp p - int k + 1)) (yyp p - int k + 1) = Some x"
      using idx_Some [OF i] by blast
    then show ?thesis using Nil by (cases x) simp
  next
    case (Cons X Xs)
    have ne: "st \<noteq> []" using c by (cases st) (auto dest: yy.chain_length)
    note red = reducing_state [OF m c ne]
    have j: "length Xs < length st" using red(3) Cons by simp
    have i: "yyp p - int k + 1 = yyp p - int (length Xs)" by (simp add: k Cons)
    have "idx (grow (yyS p) (yyp p - int (length Xs))) (yyp p - int (length Xs)) = Some (slots p ! length Xs)"
      using stack_ok_access(1,3) [OF ok j] y by (simp add: idx_grow)
    moreover have "snd (slots p ! length Xs) = snd (st ! length Xs)"
      using stack_ok_access(2) [OF ok j] red(6) [OF Cons] by (auto simp: agree_def split: prod.splits)
    ultimately show ?thesis
      unfolding i using Cons j by (cases "slots p ! length Xs") (simp add: first_value_def)
  qed
qed

text \<open>The jump that \<open>reduce\<close> makes: the machine's actions, its goto state, and its value but for empty rules.\<close>

lemma reduce_jump:
  assumes ok: "stack_ok p st" and m: "yymove (fst (hd st)) t = Reduce n"
    and c: "chain yyG yyentry yypreds (List.map fst st) ts" and k: "k = length (snd (rule_of n))"
  shows "\<exists>val. reduce n p = Some (Yystack (lr_act yyG n (List.map snd st))
      (p\<lparr>yyS := grow (yyS p) (yyp p - int k + 1), yyp := yyp p - int k,
         yystate := yygoto (fst (st ! k)) (fst (rule_of n)), yyVAL := val\<rparr>)) \<and>
    (snd (rule_of n) \<noteq> [] \<longrightarrow> val = lr_val yyG n (List.map snd st))"
proof -
  have y: "0 \<le> yyp p" "yyp p < int (length (yyS p))" using ok by (simp_all add: stack_ok_def)
  have ne: "st \<noteq> []" using c by (cases st) (auto dest: yy.chain_length)
  note red = reducing_state [OF m c ne]
  let ?S = "grow (yyS p) (yyp p - int k + 1)" and ?vs = "List.map snd st"
  have kl: "k < length st" using red(3) k by simp
  have "goto_state (fst (st ! k)) (fst (rule_of n)) = Some (yygoto (fst (st ! k)) (fst (rule_of n)))"
    using yy.chain_states [OF c] kl by (intro goto_ok rule_tables(3) [OF red(1,2)]) simp
  moreover obtain v0 where "idx ?S (yyp p - int k) = Some (fst (st ! k), v0)" using reduce_rest [OF ok kl] by blast
  moreover obtain u first where f: "idx ?S (yyp p - int k + 1) = Some (u, first)"
      "snd (rule_of n) \<noteq> [] \<longrightarrow> first = first_value n ?vs"
    using reduce_first [OF ok m c k] by blast
  moreover note rule_tables(1,2) [OF red(1,2), folded k]
  ultimately have step: "reduce n p =
     (let p1 = p\<lparr>yyS := ?S, yyp := yyp p - int k, yystate := yygoto (fst (st ! k)) (fst (rule_of n))\<rparr>
      in case yyDollar n of
         None \<Rightarrow> Some (Yystack [] (p1\<lparr>yyVAL := first\<rparr>))
       | Some w \<Rightarrow>
           if int w \<le> yyp p \<and> yyp p < int (length ?S)
           then let v = (\<lambda>k. snd (?S ! (nat (yyp p) - w + k)))
                in Some (Yystack (rule_action n v) (p1\<lparr>yyVAL := rule_value n v first\<rparr>))
           else None)"
    by (simp add: reduce_def Let_def)
  show ?thesis
  proof (cases "yyDollar n")
    case None
    then show ?thesis
      using step f(2) quiet_rule [OF None] by (intro exI [of _ first]) (simp add: Let_def)
  next
    case (Some w)
    then have w: "width_of n = w" by (simp add: width_of_def)
    let ?v = "\<lambda>k. snd (?S ! (nat (yyp p) - w + k))"
    have b: "int w \<le> yyp p" "yyp p < int (length ?S)"
      using stack_ok_access(3) [OF ok red(4)] y by (auto simp: w grow_def)
    have "?v j = dollar n ?vs j" if "j \<in> set (used n)" for j
    proof -
      from red(5) [OF that] w have jw: "j \<le> w" "\<not> empty_state (fst (st ! (w - j)))" by simp_all
      have "nat (yyp p) - w + j = nat (yyp p) - (w - j)" using jw(1) b(1) by linarith
      then show ?thesis using reduce_value_at [OF ok, of "w - j"] jw red(4) w by (simp add: dollar_def Some)
    qed
    then have "rule_action n ?v = lr_act yyG n ?vs" "rule_value n ?v f = rule_value n (dollar n ?vs) f" for f
      using used_action [of n ?v] used_value [of n ?v] by simp_all
    then show ?thesis
      using step f(2) Some b by (intro exI [of _ "rule_value n ?v first"]) (simp add: Let_def)
  qed
qed

lemma reduce_ok:
  assumes ok: "stack_ok p st" and m: "yymove (fst (hd st)) t = Reduce n"
    and c: "chain yyG yyentry yypreds (List.map fst st) ts"
  shows "\<exists>p1 p2. reduce n p = Some (Yystack (lr_act yyG n (List.map snd st)) p1) \<and> yystack p1 = Some p2 \<and>
    stack_ok p2 (pop_push yyG n st) \<and> yystate p2 = fst (hd (pop_push yyG n st)) \<and>
    p2 = p\<lparr>yyS := yyS p2, yyp := yyp p2, yystate := yystate p2, yyVAL := yyVAL p2\<rparr>"
proof -
  have y: "0 \<le> yyp p" "yyp p < int (length (yyS p))" "list_all2 agree (slots p) st"
    using ok by (simp_all add: stack_ok_def)
  have ne: "st \<noteq> []" using c by (cases st) (auto dest: yy.chain_length)
  note red = reducing_state [OF m c ne]
  let ?k = "length (snd (rule_of n))"
  define q where "q = yygoto (fst (st ! ?k)) (fst (rule_of n))"
  obtain val where val: "snd (rule_of n) \<noteq> [] \<longrightarrow> val = lr_val yyG n (List.map snd st)"
      "reduce n p = Some (Yystack (lr_act yyG n (List.map snd st))
        (p\<lparr>yyS := grow (yyS p) (yyp p - int ?k + 1), yyp := yyp p - int ?k, yystate := q, yyVAL := val\<rparr>))"
    using reduce_jump [OF ok m c refl] by (auto simp: q_def)
  let ?p1 = "p\<lparr>yyS := grow (yyS p) (yyp p - int ?k + 1), yyp := yyp p - int ?k, yystate := q, yyVAL := val\<rparr>"
  have k: "int ?k \<le> yyp p" using stack_ok_access(3) [OF ok red(3)] .
  have "- 1 \<le> yyp ?p1" "yyp ?p1 < int (length (yyS ?p1))" "yyS ?p1 \<noteq> []"
    using k y by (auto simp: grow_def)
  from yystack_ok [OF this] obtain p2 where p2: "yystack ?p1 = Some p2" "0 \<le> yyp p2" "yyp p2 < int (length (yyS p2))"
      "slots p2 = (q, val) # slots ?p1" "p2 = ?p1\<lparr>yyp := yyp p2, yyS := yyS p2\<rparr>"
    by auto
  have "nat (yyp p - int ?k + 1) = nat (yyp p + 1) - ?k" "nat (yyp p + 1) - ?k \<le> length (yyS p)" using k y by auto
  then have "slots ?p1 = drop ?k (slots p)"
    using y k by (simp add: drop_slots take_grow) (simp add: slots_def take_grow)
  moreover have "list_all2 agree (drop ?k (slots p)) (drop ?k st)" using y(3) by (rule list_all2_dropI)
  moreover have push: "pop_push yyG n st = (q, lr_val yyG n (List.map snd st)) # drop ?k st"
    using red(3) by (simp add: pop_push_def Let_def q_def hd_drop_conv_nth)
  moreover have "agree (q, val) (q, lr_val yyG n (List.map snd st))"
  proof (cases "snd (rule_of n)")
    case Nil
    with red(7) ne show ?thesis by (cases st) (simp_all add: agree_def q_def)
  qed (use val(1) in \<open>simp add: agree_def\<close>)
  ultimately have "stack_ok p2 (pop_push yyG n st)" using p2(2-4) by (simp add: stack_ok_def)
  moreover have eqs: "yystate p2 = q" "p2 = p\<lparr>yyS := yyS p2, yyp := yyp p2, yystate := yystate p2, yyVAL := yyVAL p2\<rparr>"
    using p2(5) by (cases p2; cases p; simp)+
  ultimately show ?thesis
    using val(2) p2(1) push by (intro exI [of _ ?p1] exI [of _ p2]) (simp only: prod.sel list.sel simp_thms)
qed

section \<open>The parser's steps are the machine's\<close>

definition reads_ahead :: "yyParser \<Rightarrow> word_in \<Rightarrow> yyParser \<Rightarrow> bool" where
  "reads_ahead p inp p1 \<longleftrightarrow>
     ahead p1 inp \<and> p1 = p\<lparr>yychar := yychar p1, yytoken := yytoken p1, lval := lval p1, lex := lex p1\<rparr>"

lemma reads_ahead_refl: "ahead p inp \<Longrightarrow> reads_ahead p inp p"
  by (simp add: reads_ahead_def)

lemma reads_ahead_same:
  assumes "reads_ahead p inp p1"
  shows "yyS p1 = yyS p" "yyp p1 = yyp p" "yystate p1 = yystate p" "Errflag p1 = Errflag p" "said p1 = said p"
    "stack_ok p1 st = stack_ok p st"
  using assms by (cases p; cases p1; simp add: reads_ahead_def stack_ok_def slots_def)+

lemma reads_ahead_trans: "reads_ahead p inp p1 \<Longrightarrow> reads_ahead p1 inp p2 \<Longrightarrow> reads_ahead p inp p2"
  by (cases p; cases p1; cases p2) (simp add: reads_ahead_def)

lemma lookahead_reads:
  assumes "ahead p inp"
  shows "\<exists>p1. lookahead p = Some p1 \<and> reads_ahead p inp p1 \<and> yytoken p1 = fst (look inp) \<and>
    lval p1 = snd (look inp) \<and> List.tl inp = word_of (lex p1)"
  using lookahead_ok [OF assms] unfolding reads_ahead_def by blast

lemma ahead_lex: "ahead p inp \<Longrightarrow> list_all (\<lambda>(c, v). 0 \<le> c) (lex p)"
  by (simp add: ahead_def)

lemma exca_accept: "exca_start yyExca 1 = Some [1, - 1, - 2, 0]"
  by (simp add: yyExca_def)

lemma yydefault_ok:
  assumes "yystate p \<in> states" and "ahead p inp" and "idx yyDef (yystate p) = Some d"
  shows "\<exists>p1. reads_ahead p inp p1 \<and> (if d = - 2 then yytoken p1 = fst (look inp) else p1 = p) \<and> yydefault p =
    (if d = - 2 then if fst (look inp) = 1 then Some (Return 0 p1) else syntax_error p1
     else if d = 0 then syntax_error p1 else reduce d p1)"
proof (cases "d = - 2")
  case True
  from state_row [OF assms(1)] assms(3) obtain r where "(yystate p, d, r) \<in> set (entries parse_table)"
    by (auto dest: search_entries)
  with exception_state True have s: "yystate p = 1" by (auto simp: list_all_iff)
  from lookahead_reads [OF assms(2)] obtain p1 where p1: "lookahead p = Some p1" "reads_ahead p inp p1"
      "yytoken p1 = fst (look inp)"
    by blast
  have "yydefault p = (if fst (look inp) = 1 then Some (Return 0 p1) else syntax_error p1)"
    using assms(3) True s p1 reads_ahead_same(3) [OF p1(2)] by (simp add: yydefault_def exca_accept)
  with True p1(2,3) show ?thesis by auto
next
  case False
  then have "yydefault p = (if d = 0 then syntax_error p else reduce d p)"
    using assms(3) by (simp add: yydefault_def)
  with False reads_ahead_refl [OF assms(2)] show ?thesis by auto
qed

text \<open>The parser at a state, up to a jump: as the machine's move says.\<close>

definition moves_as :: "yyParser \<Rightarrow> word_in \<Rightarrow> yyParser \<Rightarrow> bool" where
  "moves_as p inp p1 \<longleftrightarrow>
     (case yymove (yystate p) (fst (look inp)) of
        Shift q \<Rightarrow> List.tl inp = word_of (lex p1) \<and>
          yynewstate p = Some (Yystack []
            (p1\<lparr>yychar := - 1, yytoken := - 1, yyVAL := snd (look inp), yystate := q,
               Errflag := if 0 < Errflag p1 then Errflag p1 - 1 else Errflag p1\<rparr>))
      | Reduce n \<Rightarrow> yynewstate p = reduce n p1
      | Accept \<Rightarrow> yynewstate p = Some (Return 0 p1)
      | Fail \<Rightarrow> yynewstate p = syntax_error p1 \<and> yytoken p1 = fst (look inp))"

lemma moves_default:
  assumes "yystate p \<in> states" and "search parse_table (yystate p) = Some (d, r)" and "map_of r (fst (look inp)) = None"
    and "idx yyDef (yystate p) = Some d" and q: "reads_ahead p inp q" and "yynewstate p = yydefault q"
    and "d = 0 \<Longrightarrow> yytoken q = fst (look inp)"
  shows "\<exists>p1. reads_ahead p inp p1 \<and> moves_as p inp p1"
proof -
  have q': "yystate q \<in> states" "ahead q inp" "idx yyDef (yystate q) = Some d"
    using assms reads_ahead_same(3) [OF q] by (simp_all add: reads_ahead_def)
  from yydefault_ok [OF this] obtain p1 where p1: "reads_ahead q inp p1"
      "if d = - 2 then yytoken p1 = fst (look inp) else p1 = q" "yydefault q =
      (if d = - 2 then if fst (look inp) = 1 then Some (Return 0 p1) else syntax_error p1
       else if d = 0 then syntax_error p1 else reduce d p1)"
    by blast
  then have "moves_as p inp p1" using assms by (auto simp: moves_as_def yymove_def split: if_splits)
  with reads_ahead_trans [OF q p1(1)] show ?thesis by blast
qed

lemma simple_states: "list_all2 (\<lambda>n d. n \<le> yyFlag \<longrightarrow> d \<noteq> 0) yyPact yyDef"
  by code_simp

lemma yynewstate_ok:
  assumes "yystate p \<in> states" and "ahead p inp"
  shows "\<exists>p1. reads_ahead p inp p1 \<and> moves_as p inp p1"
proof -
  let ?s = "yystate p" and ?t = "fst (look inp)"
  from state_row [OF assms(1)] obtain n d r where n: "idx yyPact ?s = Some n" "idx yyDef ?s = Some d"
      "search parse_table ?s = Some (d, r)" "n \<le> yyFlag \<Longrightarrow> r = []"
    by auto
  note default = moves_default [OF assms(1) n(3) _ n(2)]
  show ?thesis
  proof (cases "n \<le> yyFlag")
    case True
    then have "yynewstate p = yydefault p" using n(1) by (simp add: yynewstate_def)
    moreover have "d \<noteq> 0" using list_all2_idx [OF simple_states n(1)] n(2) True by auto
    ultimately show ?thesis using True n(4) reads_ahead_refl [OF assms(2)] by (intro default) auto
  next
    case False
    note row = state_shift [OF assms(1) n(1) _ n(3)]
    from lookahead_reads [OF assms(2)] obtain p1 where p1: "lookahead p = Some p1" "reads_ahead p inp p1"
        "yytoken p1 = ?t" "lval p1 = snd (look inp)" "List.tl inp = word_of (lex p1)"
      by blast
    show ?thesis
    proof (cases "n + ?t < 0 \<or> yyLast \<le> n + ?t")
      case True
      then have "map_of r ?t = None" using row [of ?t] False by (simp add: act_chk_none)
      moreover have "yynewstate p = yydefault p1" using True False n(1) p1 by (simp add: yynewstate_def Let_def)
      ultimately show ?thesis using p1(2,3) by (intro default)
    next
      case in_table: False
      then obtain q c where q: "idx yyAct (n + ?t) = Some q" "idx yyChk q = Some c" "idx act_chk (n + ?t) = Some (q, c)"
        using act_chk_access [of "n + ?t"] by auto
      have step: "yynewstate p = (if c = ?t then Some (Yystack []
          (p1\<lparr>yychar := - 1, yytoken := - 1, yyVAL := snd (look inp), yystate := q,
             Errflag := if 0 < Errflag p1 then Errflag p1 - 1 else Errflag p1\<rparr>)) else yydefault p1)"
        using False in_table n(1) p1 q by (simp add: yynewstate_def Let_def)
      have r: "map_of r ?t = (if c = ?t then Some q else None)" using row [of ?t] False q(3) by simp
      show ?thesis
      proof (cases "c = ?t")
        case True
        with step r n(3) p1 show ?thesis by (intro exI [of _ p1]) (simp add: moves_as_def yymove_def)
      qed (use step r p1(2,3) in \<open>auto intro!: default\<close>)
    qed
  qed
qed

text \<open>The parser and the machine at the same place.\<close>

definition refines :: "yyParser \<Rightarrow> config \<Rightarrow> bool" where
  "refines p c \<longleftrightarrow>
     stack_ok p (fst c) \<and> ahead p (snd c) \<and> Errflag p = 0 \<and> said p = [] \<and> yystate p = fst (hd (fst c))"

lemma shift_refined:
  assumes "refines p (st, inp)" and "st \<noteq> []" and "reads_ahead p inp p1" and "List.tl inp = word_of (lex p1)"
  shows "\<exists>p2. yystack (p1\<lparr>yychar := - 1, yytoken := - 1, yyVAL := v, yystate := q,
      Errflag := if 0 < Errflag p1 then Errflag p1 - 1 else Errflag p1\<rparr>) = Some p2 \<and>
    refines p2 ((q, v) # st, List.tl inp)"
proof -
  let ?p = "p1\<lparr>yychar := - 1, yytoken := - 1, yyVAL := v, yystate := q,
      Errflag := if 0 < Errflag p1 then Errflag p1 - 1 else Errflag p1\<rparr>"
  note same = reads_ahead_same [OF assms(3)]
  have y: "0 \<le> yyp p" "yyp p < int (length (yyS p))" "list_all2 agree (slots p) st"
    using assms(1) by (simp_all add: refines_def stack_ok_def)
  have "- 1 \<le> yyp ?p" "yyp ?p < int (length (yyS ?p))" "yyS ?p \<noteq> []" using y same by auto
  from yystack_ok [OF this] obtain p2 where p2: "yystack ?p = Some p2" "0 \<le> yyp p2" "yyp p2 < int (length (yyS p2))"
      "slots p2 = (q, v) # slots ?p" "p2 = ?p\<lparr>yyp := yyp p2, yyS := yyS p2\<rparr>"
    by auto
  have "slots ?p = slots p" using same by (simp add: slots_def)
  then have "stack_ok p2 ((q, v) # st)" using p2(2-4) y(3) by (simp add: stack_ok_def agree_def)
  moreover have "yychar p2 = - 1" "lex p2 = lex p1" "Errflag p2 = 0" "said p2 = []" "yystate p2 = q"
    using assms(1) same by (subst p2(5); simp add: refines_def)+
  moreover have "list_all (\<lambda>(c, v). 0 \<le> c) (lex p1)" using assms(3) by (simp add: reads_ahead_def ahead_def)
  ultimately have "refines p2 ((q, v) # st, List.tl inp)" using assms(4) by (simp add: refines_def ahead_def)
  with p2(1) show ?thesis by blast
qed

lemma reduce_refined:
  assumes ref: "refines p (st, inp)" and r: "reads_ahead p inp p1"
    and m: "yymove (fst (hd st)) t = Reduce n" and c: "chain yyG yyentry yypreds (List.map fst st) ts"
  shows "\<exists>p2 p3. reduce n p1 = Some (Yystack (lr_act yyG n (List.map snd st)) p2) \<and> yystack p2 = Some p3 \<and>
    refines p3 (pop_push yyG n st, inp)"
proof -
  note same = reads_ahead_same [OF r]
  have "stack_ok p1 st" using ref same by (simp add: refines_def)
  from reduce_ok [OF this m c] obtain p2 p3 where step:
      "reduce n p1 = Some (Yystack (lr_act yyG n (List.map snd st)) p2)" "yystack p2 = Some p3"
      "stack_ok p3 (pop_push yyG n st)" "yystate p3 = fst (hd (pop_push yyG n st))"
      "p3 = p1\<lparr>yyS := yyS p3, yyp := yyp p3, yystate := yystate p3, yyVAL := yyVAL p3\<rparr>"
    by blast
  have "yychar p3 = yychar p1" "yytoken p3 = yytoken p1" "lval p3 = lval p1" "lex p3 = lex p1" "Errflag p3 = Errflag p1"
      "said p3 = said p1"
    by (subst step(5); simp)+
  then have "refines p3 (pop_push yyG n st, inp)"
    using step(3,4) ref r same by (simp add: refines_def reads_ahead_def ahead_def)
  with step(1,2) show ?thesis by blast
qed

lemma step_refined:
  assumes ref: "refines p c" and p: "yy.parsed v0 w as c ts" and w: "fst ` set w \<subseteq> {1..42}"
  shows "case lr_step yyG c of
      Go bs c1 \<Rightarrow> \<exists>p1 p2. yynewstate p = Some (Yystack bs p1) \<and> yystack p1 = Some p2 \<and> refines p2 c1
    | Done \<Rightarrow> \<exists>p1. yynewstate p = Some (Return 0 p1)
    | Stuck \<Rightarrow> \<exists>p1 m. yynewstate p = Some (Return 1 p1) \<and>
        yyErrorMessage (fst (hd (fst c))) (fst (look (snd c))) = Some m \<and> said p1 = [m]"
proof -
  obtain st inp where c: "c = (st, inp)" by (cases c)
  note top = yy.parsed_top [OF p w, unfolded c, simplified]
  have ch: "chain yyG yyentry yypreds (List.map fst st) ts" using p by (simp add: yy.parsed_def c)
  have r: "refines p (st, inp)" "yystate p = fst (hd st)" "ahead p inp"
    using ref by (simp_all add: c refines_def)
  have "yystate p \<in> states" using top(2) r(2) by simp
  from yynewstate_ok [OF this r(3)] obtain p1 where p1: "reads_ahead p inp p1" "moves_as p inp p1" by blast
  show ?thesis
  proof (cases "yymove (fst (hd st)) (fst (look inp))")
    case (Shift q)
    with p1(2) r(2) have m: "List.tl inp = word_of (lex p1)" "yynewstate p = Some (Yystack []
          (p1\<lparr>yychar := - 1, yytoken := - 1, yyVAL := snd (look inp), yystate := q,
             Errflag := if 0 < Errflag p1 then Errflag p1 - 1 else Errflag p1\<rparr>))"
      by (simp_all add: moves_as_def)
    from shift_refined [OF r(1) top(1) p1(1) m(1)] m(2) Shift show ?thesis by (auto simp: c)
  next
    case (Reduce n)
    with p1(2) r(2) have "yynewstate p = reduce n p1" by (simp add: moves_as_def)
    with reduce_refined [OF r(1) p1(1) Reduce ch] Reduce show ?thesis by (auto simp: c)
  next
    case Accept
    with p1(2) r(2) show ?thesis by (simp add: moves_as_def c)
  next
    case Fail
    with p1(2) r(2) have m: "yynewstate p = syntax_error p1" "yytoken p1 = fst (look inp)"
      by (simp_all add: moves_as_def)
    note same = reads_ahead_same [OF p1(1)]
    have "stack_ok p1 st" "Errflag p1 = 0" "said p1 = []" "yystate p1 \<in> states" "yystate p1 = fst (hd st)"
      using r ref top(2) same by (simp_all add: refines_def c)
    moreover have "\<forall>(q, v) \<in> set st. q \<in> states" using yy.chain_states [OF ch] by fastforce
    ultimately show ?thesis using syntax_error_ok [of p1 st] m Fail by (auto simp: c)
  qed
qed

section \<open>The whole parse\<close>

text \<open>
  The end of the machine, which comes for every input: after the actions \<open>as\<close>, with the configuration
  \<open>c\<close>, from which there is no step.
\<close>

lemma machine_ends:
  assumes "yy.parsed v0 w as c ts" and "fst ` set w \<subseteq> {1..42}"
  shows "\<exists>bs c1. lr_steps yyG c bs c1 \<and> (lr_step yyG c1 = Done \<or> lr_step yyG c1 = Stuck)"
  using assms
proof (induction "nat (yy.weight c)" arbitrary: as c ts rule: less_induct)
  case less
  show ?case
  proof (cases "lr_step yyG c")
    case (Go bs c1)
    from yy.parsed_step [OF less(2,3) Go] obtain ts1 where p: "yy.parsed v0 w (as @ bs) c1 ts1"
      "yy.weight c1 < yy.weight c" by blast
    have "nat (yy.weight c1) < nat (yy.weight c)" using p(2) yy.weight_pos [OF p(1) less(3)] by simp
    from less(1) [OF this p(1) less(3)] Go show ?thesis by (meson lr_more)
  qed (use lr_refl [of yyG c] in blast)+
qed

definition verdict :: "config \<Rightarrow> gen_state \<Rightarrow> gen_state outcome" where
  "verdict c s =
     (if lr_step yyG c = Done then done_with s
      else Some (Err (the (yyErrorMessage (fst (hd (fst c))) (fst (look (snd c)))))))"

lemma yyloop_runs:
  assumes "lr_steps yyG c bs c1" and "lr_step yyG c1 = Done \<or> lr_step yyG c1 = Stuck"
    and "refines p c" and "yy.parsed v0 w as c ts" and "fst ` set w \<subseteq> {1..42}"
  shows "yyloop p s = and_then (run_actions bs s) (verdict c1)"
  using assms
proof (induction arbitrary: p as ts s rule: lr_steps.induct)
  case (lr_refl c)
  from lr_refl(1) step_refined [OF lr_refl(2-4)] show ?case
    by (auto simp: yyloop.simps [of p] verdict_def)
next
  case (lr_more c bs c2 ds c3)
  from step_refined [OF lr_more(5-7)] lr_more(1) obtain p1 p2 where p:
      "yynewstate p = Some (Yystack bs p1)" "yystack p1 = Some p2" "refines p2 c2"
    by auto
  from yy.parsed_step [OF lr_more(6,7,1)] obtain ts1 where ts1: "yy.parsed v0 w (as @ bs) c2 ts1" by blast
  have IH: "yyloop p2 s1 = and_then (run_actions ds s1) (verdict c3)" for s1
    using lr_more.IH [OF lr_more(4) p(3) ts1 lr_more(7)] .
  show ?case
    using p(1,2) IH
    by (auto simp: yyloop.simps [of p] and_then_def Lvgen_Protocol.run_append split: option.splits res.splits)
qed

end
