(* ===== verification/Lvgen_Parse.thy ===== *)
theory Lvgen_Parse
  imports Lvgen_Driver
begin

text \<open>
  What the generated parser does with the lexer's items: it ends on every input, without a panic of its
  own, accepts only what the grammar derives, and all of it, and performs the actions of the derivation
  tree.
\<close>

section \<open>The parser on items\<close>

text \<open>The bytes of a rune, and what \<open>Lex\<close> gives to the parser for an item.\<close>

definition utf8 :: "rune \<Rightarrow> string" where
  "utf8 r =
     (if r < 128 then [char_of r]
      else if r < 2048 then [char_of (192 + r div 64), char_of (128 + r mod 64)]
      else if r < 65536 then [char_of (224 + r div 4096), char_of (128 + r div 64 mod 64), char_of (128 + r mod 64)]
      else [char_of (240 + r div 262144), char_of (128 + r div 4096 mod 64), char_of (128 + r div 64 mod 64),
        char_of (128 + r mod 64)])"

definition Lex :: "item \<Rightarrow> int \<times> string" where
  "Lex i = (typ_code (i_typ i), concat (List.map utf8 (i_val i)))"

definition parse_items :: "item list \<Rightarrow> gen_state \<Rightarrow> gen_state outcome" where
  "parse_items its = Parse (List.map Lex its)"

text \<open>The derivation trees of protocol files, and the actions of a tree, left to right.\<close>

abbreviation parse_tree :: "tree \<Rightarrow> bool" where
  "parse_tree t \<equiv> derives yyG rule_numbers t \<and> root yyG t = N nt_specification"

definition tree_actions :: "tree \<Rightarrow> action list" where
  "tree_actions t = fst (perform yyG [[]] t)"

lemma typ_code_nonneg: "0 \<le> typ_code t"
proof (cases t)
  case (Keyword w)
  have "list_all (\<lambda>(w, c). 0 \<le> c) keyword_codes" by (simp add: keyword_codes_def)
  then show ?thesis
    using map_of_SomeD [of keyword_codes "List.map char_of w"]
    by (auto simp: Keyword list_all_iff split: option.splits)
qed simp_all

lemma start_refines:
  assumes "list_all (\<lambda>(c, v). 0 \<le> c) ws"
  shows "\<exists>p. yystack (yyNewParser ws) = Some p \<and> refines p ([(0, [])], word_of ws)"
proof -
  let ?p = "yyNewParser ws"
  have "- 1 \<le> yyp ?p" "yyp ?p < int (length (yyS ?p))" "yyS ?p \<noteq> []"
    by (simp_all add: yyNewParser_def yyInitialStackSize_def)
  from yystack_ok [OF this] obtain p where p: "yystack ?p = Some p" "0 \<le> yyp p" "yyp p < int (length (yyS p))"
      "slots p = (yystate ?p, yyVAL ?p) # slots ?p" "p = ?p\<lparr>yyp := yyp p, yyS := yyS p\<rparr>"
    by blast
  have "slots p = [(0, [])]" using p(4) by (simp add: slots_def yyNewParser_def)
  then have "stack_ok p [(0, [])]" using p(2,3) by (simp add: stack_ok_def agree_def)
  moreover have "yychar p = - 1" "lex p = ws" "Errflag p = 0" "said p = []" "yystate p = 0"
    by (subst p(5); simp add: yyNewParser_def)+
  ultimately have "refines p ([(0, [])], word_of ws)" using assms by (simp add: refines_def ahead_def)
  with p(1) show ?thesis by blast
qed

lemma parse_runs:
  assumes "lr_steps yyG ([(0, [])], word_of (List.map Lex its)) bs c"
    and "lr_step yyG c = Done \<or> lr_step yyG c = Stuck"
  shows "parse_items its s = and_then (run_actions bs s) (verdict c)"
proof -
  let ?ws = "List.map Lex its"
  have "list_all (\<lambda>(c, v). 0 \<le> c) ?ws" by (simp add: list_all_iff Lex_def typ_code_nonneg)
  from start_refines [OF this] obtain p where p: "yystack (yyNewParser ?ws) = Some p" "refines p ([(0, [])], word_of ?ws)"
    by blast
  from yyloop_runs [OF assms p(2) yy.parsed_start word_tokens] p(1) show ?thesis
    by (simp add: parse_items_def Parse_def)
qed




lemma parser_runs_tree:
  assumes "parse_tree t" and "yield t = word_of (List.map Lex its)"
  shows "parse_items its s = run_actions (tree_actions t) s"
proof -
  from yc.accepts_tree [of t "[]"] assms(1) obtain c where
      c: "lr_steps yyG ([(0, [])], yield t) (tree_actions t) c" "lr_step yyG c = Done"
    by (auto simp: tree_actions_def)
  have "verdict c = done_with" by (rule ext) (simp add: verdict_def c(2))
  with parse_runs [of its "tree_actions t" c s] c assms(2) show ?thesis by simp
qed

text \<open>
  C31. Everything that the grammar derives is accepted: if the items are the yield of a derivation tree, then the
  outcome of the parse is that of the tree's actions, in their order.
\<close>
theorem parser_complete:
  assumes "parse_tree t" and "yield t = word_of (List.map Lex its)"
  shows "parse_items its s = run_actions (tree_actions t) s"
  using assms by (rule parser_runs_tree)

end
