(* ===== verification/Lvgen_Link.thy ===== *)
theory Lvgen_Link
  imports Lvgen_Protocol
begin

text \<open>
  After parsing (\<open>Generate\<close> in \<open>src/internal/lvgen/generate.go\<close>): \<open>procLink\<close> gives every procedure the members
  of its argument and result structures, and \<open>addBidirectionalProcs\<close> adds the duplex variants.
\<close>

text \<open>
  \<open>Generate\<close> up to the printing. Only \<open>Gen\<close> is set anew; the other package variables are as the last
  file left them.
\<close>

definition Generate :: "string set \<Rightarrow> defn list \<Rightarrow> gen_state \<Rightarrow> gen_state outcome" where
  "Generate flagTypes ds s =
     and_then (run_actions (parse_actions ds) (s\<lparr>Gen := newGenerator\<rparr>)) (\<lambda>s1.
       done_with (upd (\<lambda>g. addBidirectionalProcs (procLink flagTypes g)) s1))"

section \<open>Linking\<close>

text \<open>What \<open>procLink\<close> makes of a procedure, from the structures as they were parsed.\<close>

definition linked_proc :: "string set \<Rightarrow> Generator \<Rightarrow> Proc \<Rightarrow> Proc" where
  "linked_proc ft g p =
     (let p1 = (case StructMap g (Proc_Name p @ ''Args'') of
          None \<Rightarrow> p
        | Some i \<Rightarrow> p\<lparr>ArgsStruct := Proc_Name p @ ''Args'', Args := changeFlagType ft (Proc_Name p) (Members (Structs g ! i))\<rparr>)
      in case StructMap g (Proc_Name p @ ''Ret'') of
          None \<Rightarrow> p1
        | Some i \<Rightarrow> p1\<lparr>RetStruct := Proc_Name p @ ''Ret'', Ret := Members (Structs g ! i)\<rparr>)"

lemma changeFlagType_idem: "changeFlagType ft n (changeFlagType ft n ds) = changeFlagType ft n ds"
  by (auto simp: changeFlagType_def comp_def split: option.splits)

text \<open>
  The structures on the way: those of arguments may have had the type of their flags changed, for the
  procedure of their name.
\<close>

definition flags_changed :: "string set \<Rightarrow> Structure \<Rightarrow> Structure \<Rightarrow> bool" where
  "flags_changed ft st st1 \<longleftrightarrow>
     st1 = st \<or> (\<exists>n. Struct_Name st = n @ ''Args'' \<and> st1 = st\<lparr>Members := changeFlagType ft n (Members st)\<rparr>)"

definition linking :: "string set \<Rightarrow> Generator \<Rightarrow> Generator \<Rightarrow> bool" where
  "linking ft g g1 \<longleftrightarrow>
     StructMap g1 = StructMap g \<and> length (Structs g1) = length (Structs g) \<and>
     (\<forall>i < length (Structs g). flags_changed ft (Structs g ! i) (Structs g1 ! i))"

lemma Args_Ret: "n @ ''Args'' \<noteq> m @ ''Ret''"
proof
  assume "n @ ''Args'' = m @ ''Ret''"
  then have "rev (n @ ''Args'') = rev (m @ ''Ret'')" by (rule arg_cong)
  then show False by simp
qed

lemma flags_changed_args:
  assumes "flags_changed ft st st1" and "Struct_Name st = n @ ''Args''"
  shows "st1\<lparr>Members := changeFlagType ft n (Members st1)\<rparr> = st\<lparr>Members := changeFlagType ft n (Members st)\<rparr>"
    "Struct_Name st1 = n @ ''Args''"
  using assms by (auto simp: flags_changed_def changeFlagType_idem)

lemma flags_changed_ret:
  "flags_changed ft st st1 \<Longrightarrow> Struct_Name st = n @ ''Ret'' \<Longrightarrow> st1 = st"
  using Args_Ret by (auto simp: flags_changed_def)

lemma map_name:
  "maps_ok g \<Longrightarrow> StructMap g n = Some i \<Longrightarrow> i < length (Structs g) \<and> Struct_Name (Structs g ! i) = n"
  by (simp add: maps_ok_def)

lemma linkingD:
  assumes "linking ft g g1"
  shows "StructMap g1 = StructMap g" "length (Structs g1) = length (Structs g)"
    "i < length (Structs g) \<Longrightarrow> flags_changed ft (Structs g ! i) (Structs g1 ! i)"
  using assms by (simp_all add: linking_def)

lemma link_args_some:
  assumes ok: "maps_ok g" and l: "linking ft g g1" and i: "StructMap g (Proc_Name p @ ''Args'') = Some i"
  defines "ms \<equiv> changeFlagType ft (Proc_Name p) (Members (Structs g ! i))"
  shows "link_args ft p g1 =
    (p\<lparr>ArgsStruct := Proc_Name p @ ''Args'', Args := ms\<rparr>,
     g1\<lparr>Structs := (Structs g1)[i := (Structs g ! i)\<lparr>Members := ms\<rparr>]\<rparr>)"
proof -
  have n: "i < length (Structs g)" "Struct_Name (Structs g ! i) = Proc_Name p @ ''Args''"
    using map_name [OF ok i] by auto
  note f = flags_changed_args [OF linkingD(3) [OF l n(1)] n(2)]
  have "changeFlagType ft (Proc_Name p) (Members (Structs g1 ! i)) = ms"
    using arg_cong [OF f(1), of Members] by (simp add: ms_def)
  then show ?thesis
    using f by (simp add: link_args_def linkingD(1) [OF l] i Let_def ms_def)
qed

lemma link_args_linking:
  assumes ok: "maps_ok g" and l: "linking ft g g1" and r: "link_args ft p g1 = (p1, g2)"
  shows "linking ft g g2 \<and> Unions g2 = Unions g1 \<and> UnionMap g2 = UnionMap g1 \<and> Procs g2 = Procs g1"
proof (cases "StructMap g (Proc_Name p @ ''Args'')")
  case None
  then have "g2 = g1" using r by (simp add: link_args_def linkingD(1) [OF l])
  then show ?thesis using l by simp
next
  case (Some i)
  let ?st = "(Structs g ! i)\<lparr>Members := changeFlagType ft (Proc_Name p) (Members (Structs g ! i))\<rparr>"
  have g2: "g2 = g1\<lparr>Structs := (Structs g1)[i := ?st]\<rparr>"
    using r link_args_some [OF ok l Some] by simp
  have "flags_changed ft (Structs g ! i) ?st"
    using map_name [OF ok Some] by (auto simp: flags_changed_def)
  then have "flags_changed ft (Structs g ! j) ((Structs g1)[i := ?st] ! j)" if "j < length (Structs g)" for j
    using that linkingD(2) [OF l] linkingD(3) [OF l that] by (cases "j = i") auto
  then show ?thesis using linkingD(1,2) [OF l] g2 by (simp add: linking_def)
qed

lemma link_ret_linked:
  assumes ok: "maps_ok g" and l: "linking ft g g1"
  shows "link_ret p g1 = (case StructMap g (Proc_Name p @ ''Ret'') of
      None \<Rightarrow> p
    | Some i \<Rightarrow> p\<lparr>RetStruct := Proc_Name p @ ''Ret'', Ret := Members (Structs g ! i)\<rparr>)"
proof (cases "StructMap g (Proc_Name p @ ''Ret'')")
  case (Some i)
  then have "Structs g1 ! i = Structs g ! i"
    using map_name [OF ok Some] flags_changed_ret [OF linkingD(3) [OF l]] by blast
  then show ?thesis using Some map_name [OF ok Some] by (simp add: link_ret_def linkingD(1) [OF l])
qed (simp add: link_ret_def linkingD(1) [OF l])

lemma link_proc_linked:
  assumes ok: "maps_ok g" and l: "linking ft g g1" and r: "link_proc ft p g1 = (q, g2)"
  shows "q = linked_proc ft g p \<and> linking ft g g2"
proof -
  obtain p1 where a: "link_args ft p g1 = (p1, g2)" "q = link_ret p1 g2"
    using r by (auto simp: link_proc_def split: prod.splits)
  have l2: "linking ft g g2" using link_args_linking [OF ok l a(1)] by simp
  have "link_args ft p g1 = (p, g1)" if "StructMap g (Proc_Name p @ ''Args'') = None"
    using that by (simp add: link_args_def linkingD(1) [OF l])
  then have p1: "p1 = (case StructMap g (Proc_Name p @ ''Args'') of
      None \<Rightarrow> p
    | Some i \<Rightarrow> p\<lparr>ArgsStruct := Proc_Name p @ ''Args'', Args := changeFlagType ft (Proc_Name p) (Members (Structs g ! i))\<rparr>)"
    using a(1) link_args_some [OF ok l] by (auto split: option.splits)
  then have name: "Proc_Name p1 = Proc_Name p" by (simp split: option.splits)
  have "linked_proc ft g p = (case StructMap g (Proc_Name p @ ''Ret'') of
      None \<Rightarrow> p1
    | Some i \<Rightarrow> p1\<lparr>RetStruct := Proc_Name p @ ''Ret'', Ret := Members (Structs g ! i)\<rparr>)"
    by (simp only: linked_proc_def Let_def p1)
  then show ?thesis using a(2) l2 link_ret_linked [OF ok l2, of p1] name by (simp cong: option.case_cong)
qed

lemma link_procs_linked:
  "maps_ok g \<Longrightarrow> linking ft g g1 \<Longrightarrow> link_procs ft ps g1 = (qs, g2) \<Longrightarrow>
   qs = List.map (linked_proc ft g) ps \<and> linking ft g g2"
proof (induction ps arbitrary: g1 qs)
  case (Cons p ps)
  obtain q g3 where 1: "link_proc ft p g1 = (q, g3)" by (cases "link_proc ft p g1")
  obtain qs1 where 2: "link_procs ft ps g3 = (qs1, g2)" "qs = q # qs1"
    using Cons.prems(3) 1 by (auto split: prod.splits)
  show ?case using link_proc_linked [OF Cons.prems(1,2) 1] Cons.IH [OF Cons.prems(1) _ 2(1)] 2(2) by simp
qed auto

lemma linking_refl: "linking ft g g"
  by (simp add: linking_def flags_changed_def)

text \<open>
  C37. \<open>procLink\<close> links each procedure to the structures of its own name: the arguments are the members of
  \<open><name>Args\<close> with the type of the flags replaced, the results are the members of \<open><name>Ret\<close>, whatever
  the other procedures do to the structures they share.
\<close>
theorem procLink_linked:
  assumes "run_actions (parse_actions ds) init_state = done_with s"
  shows "Procs (procLink ft (Gen s)) = List.map (linked_proc ft (Gen s)) (Procs (Gen s))"
proof -
  obtain qs g2 where "link_procs ft (Procs (Gen s)) (Gen s) = (qs, g2)"
    by (cases "link_procs ft (Procs (Gen s)) (Gen s)")
  with link_procs_linked [OF parsed_maps_ok [OF assms] linking_refl] show ?thesis
    by (auto simp: procLink_def)
qed

text \<open>A piece of libvirt's protocol file, with the procedure that opens a console.\<close>

definition sample_comment :: string where
  "sample_comment = ''/**'' @ CHR 0x0A # '' * @generate: none'' @ CHR 0x0A # '' * @readstream: 1'' @ CHR 0x0A # '' */''"

definition sample_protocol :: "defn list" where
  "sample_protocol =
     [TypedefDef (Pointer (Ident ''remote_nonnull_string'') ''remote_string''),
      StructDef ''remote_domain_open_console_args''
        [Simple (Ident ''remote_nonnull_domain'') ''dom'', Simple (Ident ''remote_string'') ''dev_name'',
         Simple (UNSIGNED INT_t) ''flags''],
      EnumDef ''remote_procedure''
        [MetaProc sample_comment ''REMOTE_PROC_DOMAIN_OPEN_CONSOLE'' ''201'']]"

definition goname :: "equiv \<Rightarrow> string \<Rightarrow> string" where
  "goname m n = trim_prefix (checkIdentifier m n) ''Nonnull''"

lemma sample_names:
  "identifierTransform m ''remote_string'' = Some (goname m ''String'')"
  "identifierTransform m ''remote_nonnull_string'' = Some (goname m ''NonnullString'')"
  "identifierTransform m ''remote_domain_open_console_args'' = Some (goname m ''DomainOpenConsoleArgs'')"
  "identifierTransform m ''dom'' = Some (goname m ''Dom'')"
  "identifierTransform m ''dev_name'' = Some (goname m ''DevName'')"
  "identifierTransform m ''flags'' = Some (goname m ''Flags'')"
  "identifierTransform m ''remote_nonnull_domain'' = Some (goname m ''NonnullDomain'')"
  "identifierTransform m ''uint32'' = Some (goname m ''Uint32'')"
  "identifierTransform m ''remote_procedure'' = Some (goname m ''Procedure'')"
  by code_simp+

lemma sample_proc:
  "constNameTransform ''REMOTE_PROC_DOMAIN_OPEN_CONSOLE'' = Some ''ProcDomainOpenConsole''"
  "procNameTransform ''REMOTE_PROC_DOMAIN_OPEN_CONSOLE'' = Some ''DomainOpenConsole''"
  "procProgramName ''REMOTE_PROC_DOMAIN_OPEN_CONSOLE'' = done_with []"
  by code_simp+

lemma sample_meta: "parseMeta sample_comment = Ok \<lparr>ReadStream = 1, WriteStream = -1\<rparr>"
proof -
  have "atoi ''1'' = Some 1" by (simp add: atoi_def parse_digits_def is_digit_def)
  then show ?thesis
    by (simp add: parseMeta_def sample_comment_def str_index.simps trim_left_def trim_right_def)
qed

lemma sample_parsed:
  "\<exists>s. run_actions (parse_actions sample_protocol) init_state = done_with s \<and>
    StructMap (Gen s) = [''DomainOpenConsoleArgs'' \<mapsto> 0] \<and>
    Structs (Gen s) = [\<lparr>Struct_Name = ''DomainOpenConsoleArgs'', Struct_LVName = ''remote_domain_open_console_args'',
      Members = [\<lparr>Decl_Name = ''Dom'', Decl_LVName = ''dom'', Decl_Type = ''Domain''\<rparr>,
        \<lparr>Decl_Name = ''DevName'', Decl_LVName = ''dev_name'', Decl_Type = ''OptString''\<rparr>,
        \<lparr>Decl_Name = ''Flags'', Decl_LVName = ''flags'', Decl_Type = ''uint32''\<rparr>]\<rparr>] \<and>
    Procs (Gen s) = [\<lparr>Proc_Program = [], Proc_Num = 201, Proc_Name = ''DomainOpenConsole'',
      Proc_LVName = ''REMOTE_PROC_DOMAIN_OPEN_CONSOLE'', Args = [], Ret = [], ArgsStruct = [], RetStruct = [],
      ReadStreamIdx = 1, WriteStreamIdx = -1\<rparr>]"
  unfolding run_meanings [OF closed_init]
  by (simp add: sample_protocol_def NewDecl_def typeTransform_def trim_left_def sample_names sample_proc sample_meta goname_def
      checkIdentifier_def goEquivTypes_def trim_prefix_def init_state_def newGenerator_def AddProcEnumVal_def parseNumber_def
      ParseInt_def digit_value_def StartEnum_def Let_def)

theorem procLink_linked_witness:
  "\<exists>s. run_actions (parse_actions sample_protocol) init_state = done_with s \<and>
    Procs (procLink {} (Gen s)) =
      [\<lparr>Proc_Program = [], Proc_Num = 201, Proc_Name = ''DomainOpenConsole'',
        Proc_LVName = ''REMOTE_PROC_DOMAIN_OPEN_CONSOLE'',
        Args = [\<lparr>Decl_Name = ''Dom'', Decl_LVName = ''dom'', Decl_Type = ''Domain''\<rparr>,
          \<lparr>Decl_Name = ''DevName'', Decl_LVName = ''dev_name'', Decl_Type = ''OptString''\<rparr>,
          \<lparr>Decl_Name = ''Flags'', Decl_LVName = ''flags'', Decl_Type = ''uint32''\<rparr>],
        Ret = [], ArgsStruct = ''DomainOpenConsoleArgs'', RetStruct = [],
        ReadStreamIdx = 1, WriteStreamIdx = -1\<rparr>]"
proof -
  obtain s where s: "run_actions (parse_actions sample_protocol) init_state = done_with s"
    "StructMap (Gen s) = [''DomainOpenConsoleArgs'' \<mapsto> 0]" "Structs (Gen s) = [\<lparr>Struct_Name = ''DomainOpenConsoleArgs'',
      Struct_LVName = ''remote_domain_open_console_args'',
      Members = [\<lparr>Decl_Name = ''Dom'', Decl_LVName = ''dom'', Decl_Type = ''Domain''\<rparr>,
        \<lparr>Decl_Name = ''DevName'', Decl_LVName = ''dev_name'', Decl_Type = ''OptString''\<rparr>,
        \<lparr>Decl_Name = ''Flags'', Decl_LVName = ''flags'', Decl_Type = ''uint32''\<rparr>]\<rparr>]"
    "Procs (Gen s) = [\<lparr>Proc_Program = [], Proc_Num = 201, Proc_Name = ''DomainOpenConsole'',
      Proc_LVName = ''REMOTE_PROC_DOMAIN_OPEN_CONSOLE'', Args = [], Ret = [], ArgsStruct = [], RetStruct = [],
      ReadStreamIdx = 1, WriteStreamIdx = -1\<rparr>]"
    using sample_parsed by blast
  have "findFlagType {} ''DomainOpenConsole'' = None" by (simp add: findFlagType_def flagMap_def)
  then show ?thesis
    using s procLink_linked [OF s(1), of "{}"] by (simp add: linked_proc_def changeFlagType_def)
qed

section \<open>Names that the optional types change\<close>

text \<open>
  An optional type puts its own name into the table by which all later names are looked up: in
  \<open>SecretEventValueChangedMsg\<close> the member \<open>secret\<close>, which is not optional, has become \<open>OptSecret\<close>.
\<close>

definition secret_protocol :: "defn list" where
  "secret_protocol =
     [TypedefDef (Pointer (Ident ''remote_nonnull_secret'') ''remote_secret''),
      StructDef ''remote_secret_event_value_changed_msg''
        [Simple (IntSpec INT_t) ''callbackID'', Simple (Ident ''remote_nonnull_secret'') ''secret'']]"

lemma secret_names:
  "identifierTransform m ''remote_secret'' = Some (goname m ''Secret'')"
  "identifierTransform m ''secret'' = Some (goname m ''Secret'')"
  "identifierTransform m ''callbackID'' = Some (goname m ''CallbackID'')"
  "identifierTransform m ''int32'' = Some (goname m ''Int32'')"
  "identifierTransform m ''remote_nonnull_secret'' = Some (goname m ''NonnullSecret'')"
  "identifierTransform m ''remote_secret_event_value_changed_msg'' = Some (goname m ''SecretEventValueChangedMsg'')"
  by code_simp+

lemma optional_type_renames_member:
  "\<exists>s. run_actions (parse_actions secret_protocol) init_state = done_with s \<and>
    List.map (List.map (\<lambda>d. (Decl_Name d, Decl_Type d)) \<circ> Members) (Structs (Gen s)) =
      [[(''CallbackID'', ''int32''), (''OptSecret'', ''Secret'')]]"
  unfolding run_meanings [OF closed_init]
  by (simp add: secret_protocol_def NewDecl_def typeTransform_def trim_left_def secret_names goname_def
      checkIdentifier_def goEquivTypes_def trim_prefix_def init_state_def newGenerator_def Let_def)

end
