(* ===== verification/Lvgen_Syntax.thy ===== *)
theory Lvgen_Syntax
  imports Lvgen_Parse Lvgen_Link
begin

text \<open>
  The syntax trees of protocol files, from which the model of the parser's actions starts, as the tokens
  that spell them and as derivation trees of the grammar: the generated parser, given the tokens, performs
  the actions that \<open>parse_actions\<close> lists.
\<close>

section \<open>The syntax trees of protocol files\<close>

text \<open>The tokens that spell a definition, with their texts.\<close>

type_synonym spelling = "(token \<times> string) list"

abbreviation kw :: "string \<Rightarrow> token \<times> string" where "kw w \<equiv> (Keyword (runes w), w)"
abbreviation pun :: "char \<Rightarrow> token \<times> string" where "pun c \<equiv> (TRune (of_char c), [c])"

text \<open>A value is a constant if it begins with a digit or a sign.\<close>

definition constant_text :: "string \<Rightarrow> bool" where
  "constant_text v = (case v of [] \<Rightarrow> False | c # _ \<Rightarrow> c \<in> set ''-0123456789'')"

definition value_spelling :: "string \<Rightarrow> spelling" where
  "value_spelling v = [(if constant_text v then CONSTANT else IDENTIFIER, v)]"

fun int_spelling :: "int_spec \<Rightarrow> spelling" where
  "int_spelling HYPER_t = [kw ''hyper'']"
| "int_spelling INT_t = [kw ''int'']"
| "int_spelling SHORT_t = [kw ''short'']"
| "int_spelling CHAR_t = [kw ''char'']"

fun spec_spelling :: "type_spec \<Rightarrow> spelling" where
  "spec_spelling (IntSpec i) = int_spelling i"
| "spec_spelling (UNSIGNED i) = kw ''unsigned'' # int_spelling i"
| "spec_spelling FLOAT = [kw ''float'']"
| "spec_spelling DOUBLE = [kw ''double'']"
| "spec_spelling BOOL = [kw ''bool'']"
| "spec_spelling STRING = [kw ''string'']"
| "spec_spelling OPAQUE = [kw ''opaque'']"
| "spec_spelling (Ident n) = [(IDENTIFIER, n)]"

fun decl_spelling :: "decl_syntax \<Rightarrow> spelling" where
  "decl_spelling (Simple t i) = spec_spelling t @ [(IDENTIFIER, i)]"
| "decl_spelling (FixedArray t i l) =
     spec_spelling t @ [(IDENTIFIER, i), pun CHR ''[''] @ value_spelling l @ [pun CHR '']'']"
| "decl_spelling (VariableArray t i l) =
     spec_spelling t @ [(IDENTIFIER, i), pun CHR ''<''] @
     (case l of Some v \<Rightarrow> value_spelling v | None \<Rightarrow> []) @ [pun CHR ''>'']"
| "decl_spelling (Pointer t i) = spec_spelling t @ [pun CHR ''*'', (IDENTIFIER, i)]"

fun enum_spelling :: "enum_value \<Rightarrow> spelling" where
  "enum_spelling (Auto n) = [(IDENTIFIER, n)]"
| "enum_spelling (Valued n v) = [(IDENTIFIER, n), pun CHR ''=''] @ value_spelling v"
| "enum_spelling (ProcEntry n v) = [(PROCIDENTIFIER, n), pun CHR ''=''] @ value_spelling v"
| "enum_spelling (MetaProc m n v) = [(METADATACOMMENT, m), (PROCIDENTIFIER, n), pun CHR ''=''] @ value_spelling v"

fun case_spelling :: "case_entry \<Rightarrow> spelling" where
  "case_spelling (CaseOf v d) = [kw ''case''] @ value_spelling v @ [pun CHR '':''] @ decl_spelling d"
| "case_spelling (DefaultCase d) = [kw ''default'', pun CHR '':''] @ decl_spelling d"

text \<open>Lists with separators, and lists whose elements are all ended by one.\<close>

fun separated :: "token \<times> string \<Rightarrow> spelling list \<Rightarrow> spelling" where
  "separated sep [] = []"
| "separated sep [w] = w"
| "separated sep (w # ws) = w @ [sep] @ separated sep ws"

definition terminated :: "spelling list \<Rightarrow> spelling" where
  "terminated ws = concat (List.map (\<lambda>w. w @ [pun CHR '';'']) ws)"

fun procedure_spelling :: "procedure_syntax \<Rightarrow> spelling" where
  "procedure_spelling (ProcSyntax r n a v) =
     spec_spelling r @ [(IDENTIFIER, n), pun CHR ''(''] @ spec_spelling a @ [pun CHR '')'', pun CHR ''=''] @
     value_spelling v @ [pun CHR '';'']"

fun version_spelling :: "version_syntax \<Rightarrow> spelling" where
  "version_spelling (VersionSyntax n ps v) =
     [kw ''version'', (IDENTIFIER, n), pun CHR ''{''] @ terminated (List.map procedure_spelling ps) @
     [pun CHR ''}'', pun CHR ''=''] @ value_spelling v @ [pun CHR '';'']"

fun defn_spelling :: "defn \<Rightarrow> spelling" where
  "defn_spelling (EnumDef n vs) =
     [kw ''enum'', (IDENTIFIER, n), pun CHR ''{''] @ separated (pun CHR '','') (List.map enum_spelling vs) @ [pun CHR ''}'']"
| "defn_spelling (ConstIdent n v) = [kw ''const'', (IDENTIFIER, n), pun CHR ''='', (IDENTIFIER, v)]"
| "defn_spelling (ConstDef n v) = [kw ''const'', (IDENTIFIER, n), pun CHR ''='', (CONSTANT, v)]"
| "defn_spelling (TypedefDef d) = [kw ''typedef''] @ decl_spelling d"
| "defn_spelling (StructDef n ds) =
     [kw ''struct'', (IDENTIFIER, n), pun CHR ''{''] @ terminated (List.map decl_spelling ds) @ [pun CHR ''}'']"
| "defn_spelling (UnionDef n t i cs) =
     [kw ''union'', (IDENTIFIER, n), kw ''switch'', pun CHR ''(''] @ spec_spelling t @ [(IDENTIFIER, i), pun CHR '')'', pun CHR ''{''] @
     terminated (List.map case_spelling cs) @ [pun CHR ''}'']"
| "defn_spelling (ProgramDef n vs v) =
     [kw ''program'', (IDENTIFIER, n), pun CHR ''{''] @ terminated (List.map version_spelling vs) @
     [pun CHR ''}'', pun CHR ''=''] @ value_spelling v"

definition file_spelling :: "defn list \<Rightarrow> spelling" where
  "file_spelling ds = terminated (List.map defn_spelling ds)"

text \<open>The lists of the grammar are not empty.\<close>

fun written :: "defn \<Rightarrow> bool" where
  "written (EnumDef n vs) = (vs \<noteq> [])"
| "written (StructDef n ds) = (ds \<noteq> [])"
| "written (UnionDef n t i cs) = (cs \<noteq> [])"
| "written (ProgramDef n vs v) = (vs \<noteq> [] \<and> list_all (\<lambda>(VersionSyntax n ps v) \<Rightarrow> ps \<noteq> []) vs)"
| "written _ = True"

section \<open>Their derivation trees\<close>

definition value_tree :: "string \<Rightarrow> tree" where
  "value_tree v = (if constant_text v then Node 3 [Leaf 24 v] else Node 2 [Leaf 23 v])"

abbreviation name_tree :: "int \<Rightarrow> string \<Rightarrow> tree" where "name_tree n v \<equiv> Node n [Leaf 23 v]"
abbreviation pun_tree :: "int \<Rightarrow> char \<Rightarrow> tree" where "pun_tree t c \<equiv> Leaf t [c]"

fun int_tree :: "int_spec \<Rightarrow> tree" where
  "int_tree HYPER_t = Node 43 [Leaf 19 ''hyper'']"
| "int_tree INT_t = Node 44 [Leaf 20 ''int'']"
| "int_tree SHORT_t = Node 45 [Leaf 21 ''short'']"
| "int_tree CHAR_t = Node 46 [Leaf 22 ''char'']"

fun spec_tree :: "type_spec \<Rightarrow> tree" where
  "spec_tree (IntSpec i) = Node 32 [int_tree i]"
| "spec_tree (UNSIGNED i) = Node 33 [Leaf 17 ''unsigned'', int_tree i]"
| "spec_tree FLOAT = Node 34 [Leaf 10 ''float'']"
| "spec_tree DOUBLE = Node 35 [Leaf 8 ''double'']"
| "spec_tree BOOL = Node 36 [Leaf 4 ''bool'']"
| "spec_tree STRING = Node 37 [Leaf 12 ''string'']"
| "spec_tree OPAQUE = Node 38 [Leaf 11 ''opaque'']"
| "spec_tree (Ident n) = Node 42 [Leaf 23 n]"

definition simple_tree :: "type_spec \<Rightarrow> string \<Rightarrow> tree" where
  "simple_tree t i = Node 31 [spec_tree t, name_tree 47 i]"

fun decl_tree :: "decl_syntax \<Rightarrow> tree" where
  "decl_tree (Simple t i) = Node 27 [simple_tree t i]"
| "decl_tree (FixedArray t i l) =
     Node 28 [Node 48 [spec_tree t, name_tree 47 i, pun_tree 35 CHR ''['', value_tree l, pun_tree 36 CHR '']'']]"
| "decl_tree (VariableArray t i (Some l)) =
     Node 29 [Node 49 [spec_tree t, name_tree 47 i, pun_tree 37 CHR ''<'', value_tree l, pun_tree 38 CHR ''>'']]"
| "decl_tree (VariableArray t i None) =
     Node 29 [Node 50 [spec_tree t, name_tree 47 i, pun_tree 37 CHR ''<'', pun_tree 38 CHR ''>'']]"
| "decl_tree (Pointer t i) = Node 30 [Node 51 [spec_tree t, pun_tree 39 CHR ''*'', name_tree 47 i]]"

fun enum_tree :: "enum_value \<Rightarrow> tree" where
  "enum_tree (Auto n) = Node 15 [name_tree 21 n]"
| "enum_tree (Valued n v) = Node 16 [name_tree 21 n, pun_tree 34 CHR ''='', value_tree v]"
| "enum_tree (ProcEntry n v) = Node 17 [Node 19 [Leaf 29 n], pun_tree 34 CHR ''='', value_tree v]"
| "enum_tree (MetaProc m n v) = Node 18 [Leaf 28 m, Node 19 [Leaf 29 n], pun_tree 34 CHR ''='', value_tree v]"

fun case_tree :: "case_entry \<Rightarrow> tree" where
  "case_tree (CaseOf v d) = Node 63 [Leaf 5 ''case'', value_tree v, Node 62 [], pun_tree 42 CHR '':'', decl_tree d]"
| "case_tree (DefaultCase d) = Node 65 [Leaf 7 ''default'', Node 64 [], pun_tree 42 CHR '':'', decl_tree d]"

fun sep_tree :: "tree list \<Rightarrow> tree" where
  "sep_tree [t] = Node 13 [t]"
| "sep_tree (t # ts) = Node 14 [t, pun_tree 33 CHR '','', sep_tree ts]"
| "sep_tree [] = Node 13 []"

fun term_tree :: "int \<Rightarrow> tree list \<Rightarrow> tree" where
  "term_tree n [t] = Node n [t, pun_tree 30 CHR '';'']"
| "term_tree n (t # ts) = Node (n + 1) [t, pun_tree 30 CHR '';'', term_tree n ts]"
| "term_tree n [] = Node n []"

fun procedure_tree :: "procedure_syntax \<Rightarrow> tree" where
  "procedure_tree (ProcSyntax r n a v) =
     Node 74 [spec_tree r, name_tree 75 n, pun_tree 40 CHR ''('', spec_tree a, pun_tree 41 CHR '')'',
       pun_tree 34 CHR ''='', value_tree v, pun_tree 30 CHR '';'']"

fun version_tree :: "version_syntax \<Rightarrow> tree" where
  "version_tree (VersionSyntax n ps v) =
     Node 70 [Leaf 27 ''version'', name_tree 71 n, pun_tree 31 CHR ''{'', term_tree 72 (List.map procedure_tree ps),
       pun_tree 32 CHR ''}'', pun_tree 34 CHR ''='', value_tree v, pun_tree 30 CHR '';'']"

fun defn_tree :: "defn \<Rightarrow> tree" where
  "defn_tree (EnumDef n vs) =
     Node 6 [Node 12 [Leaf 9 ''enum'', name_tree 20 n, pun_tree 31 CHR ''{'', sep_tree (List.map enum_tree vs),
       pun_tree 32 CHR ''}'']]"
| "defn_tree (ConstIdent n v) = Node 7 [Node 22 [Leaf 6 ''const'', name_tree 24 n, pun_tree 34 CHR ''='', Leaf 23 v]]"
| "defn_tree (ConstDef n v) = Node 7 [Node 23 [Leaf 6 ''const'', name_tree 24 n, pun_tree 34 CHR ''='', Leaf 24 v]]"
| "defn_tree (TypedefDef d) = Node 8 [Node 26 [Leaf 15 ''typedef'', Node 25 [], decl_tree d]]"
| "defn_tree (StructDef n ds) =
     Node 9 [Node 53 [Leaf 13 ''struct'', name_tree 54 n, pun_tree 31 CHR ''{'', Node 52 [],
       term_tree 55 (List.map decl_tree ds), pun_tree 32 CHR ''}'']]"
| "defn_tree (UnionDef n t i cs) =
     Node 10 [Node 58 [Leaf 16 ''union'', name_tree 59 n, Node 57 [], Leaf 14 ''switch'', pun_tree 40 CHR ''('',
       simple_tree t i, pun_tree 41 CHR '')'', pun_tree 31 CHR ''{'', term_tree 60 (List.map case_tree cs),
       pun_tree 32 CHR ''}'']]"
| "defn_tree (ProgramDef n vs v) =
     Node 11 [Node 66 [Leaf 26 ''program'', name_tree 67 n, pun_tree 31 CHR ''{'', term_tree 68 (List.map version_tree vs),
       pun_tree 32 CHR ''}'', pun_tree 34 CHR ''='', value_tree v]]"

definition file_tree :: "defn list \<Rightarrow> tree" where
  "file_tree ds = Node 1 [term_tree 4 (List.map defn_tree ds)]"

section \<open>Spelling and trees agree\<close>

definition tok :: "token \<times> string \<Rightarrow> int \<times> string" where
  "tok x = (token (typ_code (fst x)), snd x)"

declare typ_code.simps(2) [simp del]

lemma token_codes [simp]:
  "token 59 = 30" "token 123 = 31" "token 125 = 32" "token 44 = 33" "token 61 = 34" "token 91 = 35" "token 93 = 36"
  "token 60 = 37" "token 62 = 38" "token 42 = 39" "token 40 = 40" "token 41 = 41" "token 58 = 42"
  "token 57365 = 23" "token 57366 = 24" "token 57371 = 29" "token 57370 = 28"
  by code_simp+

lemma keyword_tokens [simp]:
  "token (typ_code (Keyword (runes ''hyper''))) = 19" "token (typ_code (Keyword (runes ''int''))) = 20"
  "token (typ_code (Keyword (runes ''short''))) = 21" "token (typ_code (Keyword (runes ''char''))) = 22"
  "token (typ_code (Keyword (runes ''unsigned''))) = 17" "token (typ_code (Keyword (runes ''float''))) = 10"
  "token (typ_code (Keyword (runes ''double''))) = 8" "token (typ_code (Keyword (runes ''bool''))) = 4"
  "token (typ_code (Keyword (runes ''string''))) = 12" "token (typ_code (Keyword (runes ''opaque''))) = 11"
  "token (typ_code (Keyword (runes ''case''))) = 5" "token (typ_code (Keyword (runes ''default''))) = 7"
  "token (typ_code (Keyword (runes ''enum''))) = 9" "token (typ_code (Keyword (runes ''const''))) = 6"
  "token (typ_code (Keyword (runes ''typedef''))) = 15" "token (typ_code (Keyword (runes ''struct''))) = 13"
  "token (typ_code (Keyword (runes ''union''))) = 16" "token (typ_code (Keyword (runes ''switch''))) = 14"
  "token (typ_code (Keyword (runes ''program''))) = 26" "token (typ_code (Keyword (runes ''version''))) = 27"
  by code_simp+

text \<open>A tree that spells \<open>w\<close>, with the root \<open>A\<close>.\<close>

definition spells :: "spelling \<Rightarrow> int \<Rightarrow> tree \<Rightarrow> bool" where
  "spells w A t \<longleftrightarrow> yield t = List.map tok w \<and> derives yyG rule_numbers t \<and> root yyG t = N A"

lemma rule_number: "n \<in> set rule_numbers \<longleftrightarrow> 1 \<le> n \<and> n \<le> 75"
  by (simp add: rule_numbers_def)

lemma spells_value: "spells (value_spelling v) 3 (value_tree v)"
  by (simp add: spells_def value_spelling_def value_tree_def tok_def rule_number)

lemma spells_int: "spells (int_spelling i) 25 (int_tree i)"
  by (cases i) (simp_all add: spells_def tok_def rule_number)

lemma spells_spec: "spells (spec_spelling t) 23 (spec_tree t)"
  using spells_int by (cases t) (simp_all add: spells_def tok_def rule_number)

lemma spells_decl: "spells (decl_spelling d) 18 (decl_tree d)"
  using spells_spec spells_value
  by (cases d rule: decl_tree.cases) (simp_all add: spells_def tok_def rule_number simple_tree_def)

lemma spells_enum: "spells (enum_spelling e) 13 (enum_tree e)"
  using spells_value by (cases e) (simp_all add: spells_def tok_def rule_number)

lemma spells_case: "spells (case_spelling c) 32 (case_tree c)"
  using spells_value spells_decl by (cases c) (simp_all add: spells_def tok_def rule_number)

lemma spells_sep:
  "xs \<noteq> [] \<Longrightarrow> spells (separated (pun CHR '','') (List.map enum_spelling xs)) 12 (sep_tree (List.map enum_tree xs))"
proof (induction xs rule: list_nonempty_induct)
  case (cons x xs)
  then show ?case using spells_enum [of x] by (cases xs) (simp_all add: spells_def tok_def rule_number)
qed (use spells_enum in \<open>simp add: spells_def tok_def rule_number\<close>)

lemma spells_term:
  assumes "\<And>x. x \<in> set xs \<Longrightarrow> spells (f x) A (g x)"
    and "rule_of n = (B, [N A, T 30])" "rule_of (n + 1) = (B, [N A, T 30, N B])" "1 \<le> n" "n \<le> 74" "xs \<noteq> []"
  shows "spells (terminated (List.map f xs)) B (term_tree n (List.map g xs))"
  using assms(6,1)
proof (induction xs rule: list_nonempty_induct)
  case (single x)
  then show ?case using assms(2,4,5) by (simp add: spells_def terminated_def tok_def rule_number)
next
  case (cons x xs)
  from cons(1) obtain y ys where xs: "xs = y # ys" by (cases xs) auto
  from cons show ?case
    using assms(3-5) by (simp add: spells_def terminated_def tok_def rule_number xs)
qed

lemma spells_procedure: "spells (procedure_spelling p) 40 (procedure_tree p)"
  using spells_spec spells_value by (cases p) (simp add: spells_def tok_def rule_number)

lemma spells_version:
  assumes "ps \<noteq> []"
  shows "spells (version_spelling (VersionSyntax n ps v)) 37 (version_tree (VersionSyntax n ps v))"
  using spells_term [of ps procedure_spelling 40 procedure_tree 72 39] spells_procedure spells_value [of v] assms
  by (simp add: spells_def tok_def rule_number)

lemma spells_defn:
  assumes "written d"
  shows "spells (defn_spelling d) 4 (defn_tree d)"
proof (cases d)
  case (EnumDef n vs)
  then show ?thesis using spells_sep [of vs] assms by (simp add: spells_def tok_def rule_number)
next
  case (TypedefDef e)
  then show ?thesis using spells_decl [of e] by (simp add: spells_def tok_def rule_number)
next
  case (StructDef n ds)
  then show ?thesis
    using spells_term [of ds decl_spelling 18 decl_tree 55 28] spells_decl assms
    by (simp add: spells_def tok_def rule_number)
next
  case (UnionDef n t i cs)
  then show ?thesis
    using spells_term [of cs case_spelling 32 case_tree 60 31] spells_case spells_spec [of t] assms
    by (simp add: spells_def tok_def rule_number simple_tree_def)
next
  case (ProgramDef n vs v)
  have "spells (version_spelling x) 37 (version_tree x)" if "x \<in> set vs" for x
  proof -
    from that assms ProgramDef have "case x of VersionSyntax n ps v \<Rightarrow> ps \<noteq> []" by (simp add: list_all_iff)
    then show ?thesis by (cases x) (auto intro!: spells_version simp del: version_spelling.simps version_tree.simps)
  qed
  then show ?thesis
    using spells_term [of vs version_spelling 37 version_tree 68 36] spells_value [of v] assms ProgramDef
    by (simp add: spells_def tok_def rule_number)
qed (simp_all add: spells_def tok_def rule_number)

lemma spells_file: "ds \<noteq> [] \<Longrightarrow> list_all written ds \<Longrightarrow> spells (file_spelling ds) 1 (file_tree ds)"
  using spells_term [of ds defn_spelling 4 defn_tree 4 2] spells_defn
  by (simp add: spells_def tok_def rule_number file_tree_def file_spelling_def list_all_iff)

section \<open>Actions\<close>

lemmas rule_meaning = yyDollar_def rule_action_def rule_value_def dollar_def first_value_def

lemma perform_value [simp]: "perform yyG vs (value_tree v) = ([], v)"
  by (simp add: value_tree_def rule_meaning)

lemma perform_int [simp]: "perform yyG vs (int_tree i) = ([], int_val i)"
  by (cases i) (simp_all add: rule_meaning)

lemma perform_spec [simp]: "perform yyG vs (spec_tree t) = ([], spec_val t)"
  by (cases t) (simp_all add: rule_meaning)

lemma perform_simple: "fst (perform yyG vs (simple_tree t i)) = [decl_action (Simple t i)]"
  by (simp add: simple_tree_def rule_meaning)

text \<open>The actions of a tree that do not depend on what is to its left.\<close>

definition acts :: "tree \<Rightarrow> action list \<Rightarrow> bool" where
  "acts t as \<longleftrightarrow> (\<forall>vs. \<exists>v. perform yyG vs t = (as, v))"

lemma actsE: "acts t as \<Longrightarrow> (\<And>f. (\<And>vs. perform yyG vs t = (as, f vs)) \<Longrightarrow> P) \<Longrightarrow> P"
  unfolding acts_def by metis

lemma acts_decl: "acts (decl_tree d) [decl_action d]"
  by (cases d rule: decl_tree.cases) (simp_all add: acts_def simple_tree_def rule_meaning)

lemma acts_enum: "acts (enum_tree e) [enum_action e]"
  by (cases e) (simp_all add: acts_def rule_meaning)

lemma acts_case: "acts (case_tree c) (case_actions c)"
proof (cases c)
  case (CaseOf v d)
  obtain f where "\<And>vs. perform yyG vs (decl_tree d) = ([decl_action d], f vs)" using actsE [OF acts_decl] by blast
  then show ?thesis by (simp add: CaseOf acts_def rule_meaning)
next
  case (DefaultCase d)
  obtain f where "\<And>vs. perform yyG vs (decl_tree d) = ([decl_action d], f vs)" using actsE [OF acts_decl] by blast
  then show ?thesis by (simp add: DefaultCase acts_def rule_meaning)
qed

lemma acts_sep:
  "xs \<noteq> [] \<Longrightarrow> acts (sep_tree (List.map enum_tree xs)) (List.map enum_action xs)"
proof (induction xs rule: list_nonempty_induct)
  case (single x)
  obtain f where "\<And>vs. perform yyG vs (enum_tree x) = ([enum_action x], f vs)" using actsE [OF acts_enum] by blast
  then show ?case by (simp add: acts_def rule_meaning)
next
  case (cons x xs)
  from cons(1) obtain y ys where xs: "xs = y # ys" by (cases xs) auto
  obtain f where "\<And>vs. perform yyG vs (enum_tree x) = ([enum_action x], f vs)" using actsE [OF acts_enum] by blast
  moreover obtain g where "\<And>vs. perform yyG vs (sep_tree (List.map enum_tree xs)) = (List.map enum_action xs, g vs)"
    using actsE [OF cons(2)] by blast
  ultimately show ?case by (simp add: xs acts_def rule_meaning)
qed

lemma acts_term:
  assumes "\<And>x. x \<in> set xs \<Longrightarrow> acts (g x) (h x)" and "yyDollar n = None" "yyDollar (n + 1) = None" "xs \<noteq> []"
    and "rule_of n = (B, [N A, T 30])" "rule_of (n + 1) = (B, [N A, T 30, N B])"
  shows "acts (term_tree n (List.map g xs)) (concat (List.map h xs))"
  using assms(4,1)
proof (induction xs rule: list_nonempty_induct)
  case (single x)
  obtain f where "\<And>vs. perform yyG vs (g x) = (h x, f vs)" using actsE [OF single] by auto
  then show ?case using quiet_rule [OF assms(2)] assms(5) by (simp add: acts_def first_value_def)
next
  case (cons x xs)
  from cons(1) obtain y ys where xs: "xs = y # ys" by (cases xs) auto
  obtain f where "\<And>vs. perform yyG vs (g x) = (h x, f vs)" using actsE [OF cons(3)] by auto
  moreover have "acts (term_tree n (List.map g xs)) (concat (List.map h xs))" using cons(2,3) by simp
  then obtain f1 where "\<And>vs. perform yyG vs (term_tree n (List.map g xs)) = (concat (List.map h xs), f1 vs)"
    using actsE by blast
  ultimately show ?case using quiet_rule [OF assms(3)] assms(6) by (simp add: xs acts_def first_value_def)
qed

text \<open>Program definitions do nothing.\<close>

lemma concat_nils: "concat (List.map (\<lambda>_. []) xs) = []"
  by (induction xs) simp_all

lemma acts_procedure: "acts (procedure_tree p) []"
  by (cases p) (simp add: acts_def rule_meaning)

lemma acts_version:
  assumes "ps \<noteq> []"
  shows "acts (version_tree (VersionSyntax n ps v)) []"
proof -
  have "acts (term_tree 72 (List.map procedure_tree ps)) (concat (List.map (\<lambda>_. []) ps))"
    using assms by (intro acts_term acts_procedure) (simp_all add: yyDollar_def)
  then obtain f where "\<And>vs. perform yyG vs (term_tree 72 (List.map procedure_tree ps)) = ([], f vs)"
    unfolding concat_nils using actsE by blast
  then show ?thesis by (simp add: acts_def rule_meaning)
qed

lemma acts_defn:
  assumes "written d"
  shows "acts (defn_tree d) (defn_actions d)"
proof (cases d)
  case (EnumDef n vs)
  then obtain f where "\<And>us. perform yyG us (sep_tree (List.map enum_tree vs)) = (List.map enum_action vs, f us)"
    using actsE [OF acts_sep] assms by auto
  then show ?thesis by (simp add: EnumDef acts_def rule_meaning)
next
  case (TypedefDef e)
  obtain f where "\<And>vs. perform yyG vs (decl_tree e) = ([decl_action e], f vs)" using actsE [OF acts_decl] by blast
  then show ?thesis by (simp add: TypedefDef acts_def rule_meaning)
next
  case (StructDef n ds)
  have "acts (term_tree 55 (List.map decl_tree ds)) (concat (List.map (\<lambda>e. [decl_action e]) ds))"
    using assms StructDef by (intro acts_term acts_decl) (simp_all add: yyDollar_def)
  then obtain f where "\<And>vs. perform yyG vs (term_tree 55 (List.map decl_tree ds)) = (List.map decl_action ds, f vs)"
    using actsE by (metis concat_map_singleton)
  then show ?thesis by (simp add: StructDef acts_def rule_meaning)
next
  case (UnionDef n t i cs)
  have "acts (term_tree 60 (List.map case_tree cs)) (concat (List.map case_actions cs))"
    using assms UnionDef by (intro acts_term acts_case) (simp_all add: yyDollar_def)
  then obtain f where "\<And>vs. perform yyG vs (term_tree 60 (List.map case_tree cs)) = (concat (List.map case_actions cs), f vs)"
    using actsE by blast
  then show ?thesis by (simp add: UnionDef acts_def rule_meaning simple_tree_def)
next
  case (ProgramDef n vs v)
  have "acts (version_tree x) []" if "x \<in> set vs" for x
  proof -
    from that assms ProgramDef have "case x of VersionSyntax n ps v \<Rightarrow> ps \<noteq> []" by (simp add: list_all_iff)
    then show ?thesis by (cases x) (auto intro!: acts_version simp del: version_tree.simps)
  qed
  then have "acts (term_tree 68 (List.map version_tree vs)) (concat (List.map (\<lambda>_. []) vs))"
    using assms ProgramDef by (intro acts_term) (simp_all add: yyDollar_def)
  then obtain f where "\<And>us. perform yyG us (term_tree 68 (List.map version_tree vs)) = ([], f us)"
    unfolding concat_nils using actsE by blast
  then show ?thesis by (simp add: ProgramDef acts_def rule_meaning)
qed (simp_all add: acts_def rule_meaning)

lemma file_actions:
  assumes "ds \<noteq> []" and "list_all written ds"
  shows "tree_actions (file_tree ds) = parse_actions ds"
proof -
  have "acts (term_tree 4 (List.map defn_tree ds)) (concat (List.map defn_actions ds))"
    using assms by (intro acts_term acts_defn) (simp_all add: yyDollar_def list_all_iff)
  then obtain f where "\<And>vs. perform yyG vs (term_tree 4 (List.map defn_tree ds)) = (parse_actions ds, f vs)"
    using actsE by (metis parse_actions_def)
  then show ?thesis by (simp add: tree_actions_def file_tree_def rule_meaning)
qed

text \<open>
  The items that spell a file: their types and texts are those of its tokens.
\<close>

definition items_spell :: "item list \<Rightarrow> defn list \<Rightarrow> bool" where
  "items_spell its ds \<longleftrightarrow> List.map (\<lambda>i. (i_typ i, concat (List.map utf8 (i_val i)))) its = file_spelling ds"

lemma items_word: "items_spell its ds \<Longrightarrow> word_of (List.map Lex its) = List.map tok (file_spelling ds)"
  by (auto simp: items_spell_def word_of_def Lex_def tok_def comp_def dest: sym)

lemma parser_reads_spelling:
  assumes "ds \<noteq> []" and "list_all written ds" and "items_spell its ds"
  shows "parse_items its s = run_actions (parse_actions ds) s"
proof -
  have "spells (file_spelling ds) 1 (file_tree ds)" using spells_file assms(1,2) .
  then have "parse_tree (file_tree ds)" "yield (file_tree ds) = word_of (List.map Lex its)"
    using items_word [OF assms(3)] by (simp_all add: spells_def)
  note t = this
  have "parse_items its s = run_actions (tree_actions (file_tree ds)) s"
    using parser_runs_tree [OF t] .
  then show ?thesis using file_actions [OF assms(1,2)] by simp
qed

text \<open>
  C32. The generated parser, given the tokens of a protocol file, does what \<open>parse_actions\<close> says: its tables, its
  stack and its semantic actions amount to the actions of the file's definitions, one after the other.
\<close>
theorem parser_reads_files:
  assumes "ds \<noteq> []" and "list_all written ds" and "items_spell its ds"
  shows "parse_items its s = run_actions (parse_actions ds) s"
  using assms by (rule parser_reads_spelling)

end
