(* ===== verification/Lvgen_Text.thy ===== *)
theory Lvgen_Text
  imports Lvgen_Syntax
begin

text \<open>
  From the text of a protocol file to the generator's declarations: the lexer takes the tokens that spell
  a file, each followed by a space, back from their text, and \<open>Generate\<close> on that text links what
  \<open>parse_actions\<close> collects.
\<close>

section \<open>The lexer, by what is left of the input\<close>

definition remaining :: "Lexer \<Rightarrow> rune list" where
  "remaining l = drop (pos l) (input l)"

definition seen :: "Lexer \<Rightarrow> (token \<times> rune list) list" where
  "seen l = List.map (\<lambda>i. (i_typ i, i_val i)) (items l)"

text \<open>All but the width of the last rune and the place for messages.\<close>

definition cursor :: "Lexer \<Rightarrow> rune list \<times> nat \<times> nat \<times> item list" where
  "cursor l = (input l, start l, pos l, items l)"

definition ahead_by :: "nat \<Rightarrow> Lexer \<Rightarrow> Lexer \<Rightarrow> bool" where
  "ahead_by k l l1 \<longleftrightarrow> cursor l1 = (input l, start l, pos l + k, items l)"

lemma ahead_by_remaining: "ahead_by k l l1 \<Longrightarrow> remaining l1 = drop k (remaining l)"
  by (simp add: ahead_by_def cursor_def remaining_def add.commute)

lemma ahead_by_trans: "ahead_by j l l1 \<Longrightarrow> ahead_by k l1 l2 \<Longrightarrow> ahead_by (j + k) l l2"
  by (simp add: ahead_by_def cursor_def)

lemma ahead_by_refl [simp]: "ahead_by 0 l l"
  by (simp add: ahead_by_def cursor_def)

lemma remaining_Cons: "remaining l = c # r \<Longrightarrow> pos l < length (input l) \<and> input l ! pos l = c"
  by (cases "pos l < length (input l)") (auto simp: remaining_def Cons_nth_drop_Suc [symmetric])

lemma next_ahead:
  assumes "remaining l = c # r"
  shows "\<exists>l1. next_rune l = (Some c, l1) \<and> ahead_by 1 l l1 \<and> ahead_by 0 l (backup l1)"
proof -
  from remaining_Cons [OF assms] obtain l1 where n: "next_rune l = (Some c, l1)" using next_rune_less by blast
  then show ?thesis
    using next_rune_Some [OF n] next_backup [OF n] by (simp add: ahead_by_def cursor_def)
qed

lemma next_end:
  assumes "remaining l = []"
  shows "\<exists>l1. next_rune l = (None, l1) \<and> ahead_by 0 l l1"
  using assms by (auto simp: remaining_def next_rune_def ahead_by_def cursor_def)

definition ready :: "Lexer \<Rightarrow> bool" where
  "ready l \<longleftrightarrow> start l = pos l"

lemma lexeme_ahead:
  assumes "ready l" and "ahead_by (length w) l l1" and "remaining l = w @ inp"
  shows "lexeme l1 = w" "remaining l1 = inp" "items l1 = items l"
  using assms by (simp_all add: lexeme_def ready_def ahead_by_def cursor_def remaining_def add.commute)
    (metis append_eq_conv_conj drop_drop add.commute)

lemma emit_seen: "seen (emit t l) = seen l @ [(t, lexeme l)]" "ready (emit t l)" "remaining (emit t l) = remaining l"
  by (simp_all add: seen_def emit_def ready_def remaining_def)

lemma ignore_seen: "seen (ignore l) = seen l" "ready (ignore l)" "remaining (ignore l) = remaining l"
  by (simp_all add: seen_def ignore_def ready_def remaining_def)

text \<open>The lexer, from the text \<open>w @ inp\<close>, comes to the text \<open>inp\<close> with these items.\<close>

definition reads :: "unicode \<Rightarrow> rune list \<Rightarrow> rune list \<Rightarrow> (token \<times> rune list) list \<Rightarrow> bool" where
  "reads u w inp its \<longleftrightarrow>
     (\<forall>l. ready l \<longrightarrow> remaining l = w @ inp \<longrightarrow>
       (\<exists>l1. Run_lexer u LexText l = Run_lexer u LexText l1 \<and> ready l1 \<and> remaining l1 = inp \<and> seen l1 = seen l @ its))"

lemma reads_append: "reads u w (x @ inp) its \<Longrightarrow> reads u x inp its1 \<Longrightarrow> reads u (w @ x) inp (its @ its1)"
  unfolding reads_def by (simp, metis append.assoc)

lemma reads_refl: "reads u [] inp []"
  unfolding reads_def by auto

lemma reads_end:
  assumes "reads u w [] its"
  shows "\<exists>l. Run_lexer u LexText (NewLexer w) = Some l \<and> seen l = its"
proof -
  have "ready (NewLexer w)" "remaining (NewLexer w) = w @ []" "seen (NewLexer w) = []"
    by (simp_all add: ready_def NewLexer_def remaining_def seen_def)
  with assms obtain l1 where l1: "Run_lexer u LexText (NewLexer w) = Run_lexer u LexText l1" "remaining l1 = []" "seen l1 = its"
    unfolding reads_def by (metis append_Nil)
  from next_end [OF l1(2)] obtain l2 where l2: "next_rune l1 = (None, l2)" "ahead_by 0 l1 l2" by blast
  have "\<not> at l1 ''/*''" using l1(2) by (simp add: at_def remaining_def runes_def)
  then have "Run_lexer u LexText l1 = Some l2"
    using l2(1) by (simp add: Run_lexer.simps [of u LexText l1] Run_lexer.simps [of u Stopped l2] lexText_def)
  moreover have "seen l2 = its" using l2(2) l1(3) by (simp add: ahead_by_def cursor_def seen_def)
  ultimately show ?thesis using l1(1) by simp
qed

section \<open>Words\<close>

text \<open>What the package \<open>unicode\<close> says of the ASCII runes.\<close>

definition letter :: "rune \<Rightarrow> bool" where
  "letter r \<longleftrightarrow> 65 \<le> r \<and> r \<le> 90 \<or> 97 \<le> r \<and> r \<le> 122"

definition digit :: "rune \<Rightarrow> bool" where
  "digit r \<longleftrightarrow> 48 \<le> r \<and> r \<le> 57"

definition ascii_classes :: "unicode \<Rightarrow> bool" where
  "ascii_classes u \<longleftrightarrow>
     (\<forall>r < 128. (IsLetter u r \<longleftrightarrow> letter r) \<and> (IsDigit u r \<longleftrightarrow> digit r) \<and> (IsNumber u r \<longleftrightarrow> digit r) \<and>
       (IsSpace u r \<longleftrightarrow> r = 32 \<or> 9 \<le> r \<and> r \<le> 13))"

lemma ascii_classesD:
  assumes "ascii_classes u" and "r < 128"
  shows "IsLetter u r \<longleftrightarrow> letter r" "IsDigit u r \<longleftrightarrow> digit r" "IsNumber u r \<longleftrightarrow> digit r"
    "IsSpace u r \<longleftrightarrow> r = 32 \<or> 9 \<le> r \<and> r \<le> 13"
  using assms by (simp_all add: ascii_classes_def)

lemma at_Cons: "remaining l = c # r \<Longrightarrow> at l (d # s) \<longleftrightarrow> c = of_char d \<and> has_prefix r (runes s)"
  by (simp add: at_def remaining_def runes_def)

text \<open>One rune, at which no comment begins.\<close>

lemma lexText_rune:
  assumes "ready l" and "remaining l = c # r" and "c \<noteq> 47" and "c \<noteq> 37"
  shows "\<exists>l1. ahead_by 1 l l1 \<and> ahead_by 0 l (backup l1) \<and>
    lexText u l =
      (if IsSpace u c then (LexText, ignore l1)
       else if IsLetter u c then (LexIdent, backup l1)
       else if IsNumber u c \<or> c = 45 then (LexNumber, backup l1)
       else if c \<in> set oneRuneTokens then (LexText, emit (TRune c) l1)
       else (LexText, l1))"
proof -
  from next_ahead [OF assms(2)] obtain l1 where l1: "next_rune l = (Some c, l1)" "ahead_by 1 l l1" "ahead_by 0 l (backup l1)"
    by blast
  with assms(3,4) show ?thesis by (auto simp: lexText_def at_Cons [OF assms(2)])
qed

lemma Run_LexText: "Run_lexer u LexText l = (case lexText u l of (st1, l1) \<Rightarrow> Run_lexer u st1 l1)"
  by (simp add: Run_lexer.simps [of u LexText l])

lemma reads_space:
  assumes "ascii_classes u"
  shows "reads u [32] inp []"
  unfolding reads_def
proof (intro allI impI)
  fix l assume l: "ready l" "remaining l = [32] @ inp"
  obtain l1 where l1: "ahead_by 1 l l1" "lexText u l = (LexText, ignore l1)"
    using lexText_rune [OF l(1), of 32 inp u] l(2) ascii_classesD(4) [OF assms, of 32] by auto
  then have "Run_lexer u LexText l = Run_lexer u LexText (ignore l1)" by (simp add: Run_LexText)
  moreover have "seen l1 = seen l" "remaining l1 = inp"
    using l1(1) l(2) ahead_by_remaining [OF l1(1)] by (simp_all add: ahead_by_def cursor_def seen_def)
  ultimately show "\<exists>l1. Run_lexer u LexText l = Run_lexer u LexText l1 \<and> ready l1 \<and> remaining l1 = inp \<and> seen l1 = seen l @ []"
    by (intro exI [of _ "ignore l1"]) (simp add: ignore_seen)
qed

lemma reads_emit:
  assumes "\<And>l. ready l \<Longrightarrow> remaining l = w @ inp \<Longrightarrow>
    \<exists>l1. Run_lexer u LexText l = Run_lexer u LexText (emit (f (lexeme l1)) l1) \<and> ahead_by (length w) l l1"
  shows "reads u w inp [(f w, w)]"
  unfolding reads_def
proof (intro allI impI)
  fix l assume l: "ready l" "remaining l = w @ inp"
  from assms [OF l] obtain l1 where l1: "Run_lexer u LexText l = Run_lexer u LexText (emit (f (lexeme l1)) l1)"
      "ahead_by (length w) l l1"
    by blast
  note lex = lexeme_ahead [OF l(1) l1(2) l(2)]
  have "seen l1 = seen l" using lex(3) by (simp add: seen_def)
  then show "\<exists>l1. Run_lexer u LexText l = Run_lexer u LexText l1 \<and> ready l1 \<and> remaining l1 = inp \<and> seen l1 = seen l @ [(f w, w)]"
    using l1(1) lex by (intro exI [of _ "emit (f w) l1"]) (simp add: emit_seen)
qed

lemma reads_rune:
  assumes "ascii_classes u" and "c \<in> set oneRuneTokens"
  shows "reads u [c] inp [(TRune c, [c])]"
proof (rule reads_emit [of _ _ _ "\<lambda>_. TRune c"])
  fix l assume l: "ready l" "remaining l = [c] @ inp"
  have c: "c < 128" "c \<noteq> 47" "c \<noteq> 37" "c \<noteq> 45" "\<not> letter c" "\<not> digit c" "\<not> (c = 32 \<or> 9 \<le> c \<and> c \<le> 13)"
    using assms(2) by (auto simp: oneRuneTokens_def runes_def letter_def digit_def)
  from lexText_rune [OF l(1), of c inp u] l(2) c(2,3) obtain l1 where l1: "ahead_by 1 l l1" "lexText u l =
      (if IsSpace u c then (LexText, ignore l1)
       else if IsLetter u c then (LexIdent, backup l1)
       else if IsNumber u c \<or> c = 45 then (LexNumber, backup l1)
       else if c \<in> set oneRuneTokens then (LexText, emit (TRune c) l1)
       else (LexText, l1))"
    by auto
  have "lexText u l = (LexText, emit (TRune c) l1)"
    using l1(2) c(4-7) ascii_classesD [OF assms(1) c(1)] assms(2) by simp
  with l1(1) show "\<exists>l1. Run_lexer u LexText l = Run_lexer u LexText (emit (TRune c) l1) \<and> ahead_by (length [c]) l l1"
    by (auto simp: Run_LexText)
qed

text \<open>Identifiers and keywords.\<close>

definition word_rune :: "rune \<Rightarrow> bool" where
  "word_rune c \<longleftrightarrow> letter c \<or> digit c \<or> c = 95"

definition word_text :: "rune list \<Rightarrow> bool" where
  "word_text w \<longleftrightarrow> w \<noteq> [] \<and> letter (hd w) \<and> list_all word_rune w"

definition word_token :: "rune list \<Rightarrow> token" where
  "word_token w =
     (if w \<in> set (List.map runes keyword_names) then Keyword w
      else if procIdent w then PROCIDENTIFIER
      else IDENTIFIER)"

lemma keyword_word: "keyword l = word_token (lexeme l)"
  by (simp add: keyword_def word_token_def Let_def)

lemma word_rune_ascii: "word_rune c \<Longrightarrow> c < 128"
  by (auto simp: word_rune_def letter_def digit_def)

lemma word_loop:
  assumes "ascii_classes u"
  shows "list_all word_rune w \<Longrightarrow> remaining l = w @ 32 # inp \<Longrightarrow>
    \<exists>l1. Run_lexer u LexIdent l = Run_lexer u LexText (emit (word_token (lexeme l1)) l1) \<and> ahead_by (length w) l l1"
proof (induction w arbitrary: l)
  case Nil
  then have "remaining l = 32 # inp" by simp
  from next_ahead [OF this] obtain l1 where l1: "next_rune l = (Some 32, l1)" "ahead_by 0 l (backup l1)" by blast
  have "\<not> IsLetter u 32" "\<not> IsDigit u 32"
    using ascii_classesD [OF assms, of 32] by (simp_all add: letter_def digit_def)
  then have "lexIdent u l = (LexText, emit (word_token (lexeme (backup l1))) (backup l1))"
    using l1(1) by (simp add: lexIdent_def keyword_word Let_def)
  with l1(2) show ?case
    by (intro exI [of _ "backup l1"]) (simp add: Run_lexer.simps [of u LexIdent l])
next
  case (Cons c w)
  then have c: "word_rune c" "remaining l = c # w @ 32 # inp" by simp_all
  from next_ahead [OF c(2)] obtain l1 where l1: "next_rune l = (Some c, l1)" "ahead_by 1 l l1" by blast
  have "IsLetter u c \<or> IsDigit u c \<or> c = 95"
    using c(1) ascii_classesD [OF assms word_rune_ascii [OF c(1)]] by (auto simp: word_rune_def)
  then have step: "Run_lexer u LexIdent l = Run_lexer u LexIdent l1"
    using l1(1) by (auto simp: Run_lexer.simps [of u LexIdent l] lexIdent_def)
  have "remaining l1 = w @ 32 # inp" using ahead_by_remaining [OF l1(2)] c(2) by simp
  with Cons obtain l2 where l2: "Run_lexer u LexIdent l1 = Run_lexer u LexText (emit (word_token (lexeme l2)) l2)"
      "ahead_by (length w) l1 l2"
    by auto
  have "ahead_by (length (c # w)) l l2" using ahead_by_trans [OF l1(2) l2(2)] by simp
  with step l2(1) show ?case by metis
qed

lemma reads_word:
  assumes "ascii_classes u" and "word_text w"
  shows "reads u w (32 # inp) [(word_token w, w)]"
proof (rule reads_emit)
  fix l assume l: "ready l" "remaining l = w @ 32 # inp"
  from assms(2) obtain c cs where w: "w = c # cs" "letter c" "list_all word_rune w"
    by (cases w) (auto simp: word_text_def)
  have c: "c < 128" "c \<noteq> 47" "c \<noteq> 37" "\<not> (c = 32 \<or> 9 \<le> c \<and> c \<le> 13)" using w(2) by (auto simp: letter_def)
  from lexText_rune [OF l(1), of c "cs @ 32 # inp" u] l(2) c(2,3) w(1) obtain l1 where
      l1: "ahead_by 0 l (backup l1)" "lexText u l =
      (if IsSpace u c then (LexText, ignore l1)
       else if IsLetter u c then (LexIdent, backup l1)
       else if IsNumber u c \<or> c = 45 then (LexNumber, backup l1)
       else if c \<in> set oneRuneTokens then (LexText, emit (TRune c) l1)
       else (LexText, l1))"
    by auto
  have "lexText u l = (LexIdent, backup l1)"
    using l1(2) ascii_classesD [OF assms(1) c(1)] c(4) w(2) by simp
  then have "Run_lexer u LexText l = Run_lexer u LexIdent (backup l1)" by (simp add: Run_LexText)
  moreover have "remaining (backup l1) = w @ 32 # inp" using ahead_by_remaining [OF l1(1)] l(2) by simp
  from word_loop [OF assms(1) w(3) this] obtain l2 where
    "Run_lexer u LexIdent (backup l1) = Run_lexer u LexText (emit (word_token (lexeme l2)) l2)"
    "ahead_by (length w) (backup l1) l2" by blast
  moreover have "ahead_by (length w) l l2" using ahead_by_trans [OF l1(1) calculation(3)] by simp
  ultimately show "\<exists>l1. Run_lexer u LexText l = Run_lexer u LexText (emit (word_token (lexeme l1)) l1) \<and> ahead_by (length w) l l1"
    by metis
qed

text \<open>Comments with metadata, up to the first end of a comment.\<close>

fun comment_ends :: "rune list \<Rightarrow> bool" where
  "comment_ends [] = False"
| "comment_ends (c # w) =
     (if has_prefix (c # w) (runes ''*/'') then c # w = runes ''*/'' else comment_ends w)"

definition comment_text :: "rune list \<Rightarrow> bool" where
  "comment_text w \<longleftrightarrow> has_prefix w (runes ''/**'') \<and> comment_ends w"

lemma comment_loop:
  "comment_ends w \<Longrightarrow> remaining l = w @ inp \<Longrightarrow>
    \<exists>l1. Run_lexer u (InComment True) l = Run_lexer u LexText (emit METADATACOMMENT l1) \<and> ahead_by (length w) l l1"
proof (induction w arbitrary: l)
  case (Cons c w)
  have at: "at l ''*/'' \<longleftrightarrow> has_prefix ((c # w) @ inp) (runes ''*/'')"
    using Cons.prems(2) by (simp add: at_def remaining_def)
  from Cons.prems(2) have r: "remaining l = c # w @ inp" by simp
  from next_ahead [OF r] obtain l1 where l1: "next_rune l = (Some c, l1)" "ahead_by 1 l l1" by blast
  have r1: "remaining l1 = w @ inp" using ahead_by_remaining [OF l1(2)] r by simp
  show ?case
  proof (cases "has_prefix (c # w) (runes ''*/'')")
    case True
    then have w: "c # w = [42, 47]" using Cons.prems(1) by (simp add: runes_def)
    with r1 obtain l2 where l2: "next_rune l1 = (Some 47, l2)" "ahead_by 1 l1 l2" using next_ahead [of l1 47 inp] by auto
    have "lexBlockComment True l = (LexText, emit METADATACOMMENT l2)"
      using True w at l1(1) l2(1) by (simp add: lexBlockComment_def runes_def Let_def)
    moreover have "ahead_by (length (c # w)) l l2" using ahead_by_trans [OF l1(2) l2(2)] w by simp
    ultimately show ?thesis by (intro exI [of _ l2]) (simp add: Run_lexer.simps [of u "InComment True" l])
  next
    case False
    with Cons.prems(1) have ends: "comment_ends w" by (simp del: has_prefix.simps)
    then have "w \<noteq> []" by auto
    with False at have "\<not> at l ''*/''" by (cases w) (auto simp: runes_def)
    then have step: "Run_lexer u (InComment True) l = Run_lexer u (InComment True) l1"
      using l1(1) by (simp add: Run_lexer.simps [of u "InComment True" l] lexBlockComment_def)
    from Cons.IH [OF ends r1] obtain l2 where
        "Run_lexer u (InComment True) l1 = Run_lexer u LexText (emit METADATACOMMENT l2)" "ahead_by (length w) l1 l2"
      by blast
    with step ahead_by_trans [OF l1(2)] show ?thesis by fastforce
  qed
qed simp

lemma reads_comment:
  assumes "comment_text w"
  shows "reads u w inp [(METADATACOMMENT, w)]"
proof (rule reads_emit [of _ _ _ "\<lambda>_. METADATACOMMENT"])
  fix l assume l: "ready l" "remaining l = w @ inp"
  from assms have w: "has_prefix w (runes ''/**'')" "comment_ends w" by (simp_all add: comment_text_def)
  then obtain x where "w = runes ''/**'' @ x" by (auto simp: has_prefix_iff prefix_def)
  with l(2) have "at l ''/*''" "at l ''/**''" by (simp_all add: at_def remaining_def runes_def)
  then have "Run_lexer u LexText l = Run_lexer u (InComment True) l"
    by (simp add: Run_LexText lexText_def Run_lexer.simps [of u LexBlockComment l])
  with comment_loop [OF w(2) l(2)]
  show "\<exists>l1. Run_lexer u LexText l = Run_lexer u LexText (emit METADATACOMMENT l1) \<and> ahead_by (length w) l l1"
    by metis
qed

text \<open>Numbers: decimal ones, perhaps with a sign, and hexadecimal ones.\<close>

definition hexdigits :: "rune list" where
  "hexdigits = runes ''0123456789ABCDEFabcdef''"

definition number_text :: "rune list \<Rightarrow> bool" where
  "number_text w \<longleftrightarrow>
     w \<noteq> [] \<and> list_all digit w \<or>
     w \<noteq> [] \<and> hd w = 45 \<and> list_all digit (List.tl w) \<or>
     take 2 w = [48, 120] \<and> list_all (\<lambda>c. c \<in> set hexdigits) (drop 2 w)"

lemma accept_ahead:
  assumes "remaining l = c # r"
  shows "\<exists>l1. accept valid l = (c \<in> set valid, l1) \<and> ahead_by (if c \<in> set valid then 1 else 0) l l1"
  using next_ahead [OF assms] by (auto simp: accept_def among_def)

lemma peek_ahead:
  assumes "remaining l = c # r"
  shows "\<exists>l1. peek l = (Some c, l1) \<and> ahead_by 0 l l1"
  using next_ahead [OF assms] by (auto simp: peek_def)

lemma acceptRun_ahead:
  "list_all (\<lambda>c. c \<in> set valid) w \<Longrightarrow> 32 \<notin> set valid \<Longrightarrow> remaining l = w @ 32 # inp \<Longrightarrow>
    ahead_by (length w) l (acceptRun valid l)"
proof (induction w arbitrary: l)
  case Nil
  with next_ahead [of l 32 inp] obtain l1 where "next_rune l = (Some 32, l1)" "ahead_by 0 l (backup l1)" by auto
  with Nil(2) show ?case by (simp add: acceptRun.simps [of valid l] among_def)
next
  case (Cons c w)
  with next_ahead [of l c "w @ 32 # inp"] obtain l1 where l1: "next_rune l = (Some c, l1)" "ahead_by 1 l l1" by auto
  have "remaining l1 = w @ 32 # inp" using ahead_by_remaining [OF l1(2)] Cons.prems(3) by simp
  with Cons have "ahead_by (length w) l1 (acceptRun valid l1)" by simp
  from ahead_by_trans [OF l1(2) this] l1(1) Cons.prems(1) show ?case
    by (simp add: acceptRun.simps [of valid l] among_def)
qed

lemma number_end:
  assumes "ascii_classes u" and "number_prefix l = (digits, l2)" and "ahead_by k l l2"
    and "list_all (\<lambda>c. c \<in> set digits) (drop k w)" and "32 \<notin> set digits" and "remaining l = w @ 32 # inp" and "k \<le> length w"
  shows "\<exists>l1. lexNumber u l = (LexText, emit CONSTANT l1) \<and> ahead_by (length w) l l1"
proof -
  have "remaining l2 = drop k w @ 32 # inp" using ahead_by_remaining [OF assms(3)] assms(6,7) by simp
  from acceptRun_ahead [OF assms(4,5) this] have run: "ahead_by (length w - k) l2 (acceptRun digits l2)" by simp
  from ahead_by_trans [OF assms(3) run] assms(7) have all: "ahead_by (length w) l (acceptRun digits l2)" by simp
  then have "remaining (acceptRun digits l2) = 32 # inp" using ahead_by_remaining [OF all] assms(6) by simp
  from peek_ahead [OF this] obtain l6 where l6: "peek (acceptRun digits l2) = (Some 32, l6)" "ahead_by 0 (acceptRun digits l2) l6"
    by blast
  have "\<not> IsLetter u 32" using ascii_classesD [OF assms(1), of 32] by (simp add: letter_def)
  then show ?thesis
    using ahead_by_trans [OF all l6(2)] l6(1) assms(2)
    by (intro exI [of _ l6]) (simp add: lexNumber_prefix)
qed

lemma digits_set: "c \<in> set (runes ''0123456789'') \<longleftrightarrow> digit c"
  by (simp add: runes_def digit_def, presburger)

lemma number_prefix_reads:
  assumes "number_text w" and "remaining l = w @ 32 # inp"
  shows "\<exists>digits l2 k. number_prefix l = (digits, l2) \<and> ahead_by k l l2 \<and> k \<le> length w \<and>
    list_all (\<lambda>c. c \<in> set digits) (drop k w) \<and> 32 \<notin> set digits"
proof -
  have dec: "32 \<notin> set (runes ''0123456789'')" and hex: "32 \<notin> set (runes ''0123456789ABCDEFabcdef'')"
    by (simp_all add: runes_def)
  obtain c cs where w: "w = c # cs" using assms(1) by (cases w) (auto simp: number_text_def)
  with assms(2) have r: "remaining l = c # cs @ 32 # inp" by simp
  from accept_ahead [OF r, of "runes ''-''"] obtain l1 where
      l1: "accept (runes ''-'') l = (c = 45, l1)" "ahead_by (if c = 45 then 1 else 0) l l1"
    by (auto simp: runes_def)
  show ?thesis
  proof (cases "c = 45")
    case True
    have "list_all digit cs" using assms(1) True by (auto simp: number_text_def w digit_def)
    then show ?thesis
      using l1 True w dec
      by (intro exI [of _ "runes ''0123456789''"] exI [of _ l1] exI [of _ 1])
        (simp add: number_prefix_def digits_set list_all_iff)
  next
    case False
    with l1 have a1: "ahead_by 0 l l1" "accept (runes ''-'') l = (False, l1)" by simp_all
    then have r1: "remaining l1 = c # cs @ 32 # inp" using ahead_by_remaining [OF a1(1)] r by simp
    from peek_ahead [OF r1] obtain l3 where l3: "peek l1 = (Some c, l3)" "ahead_by 0 l1 l3" by blast
    from ahead_by_trans [OF a1(1) l3(2)] have a3: "ahead_by 0 l l3" by simp
    have r3: "remaining l3 = c # cs @ 32 # inp" using ahead_by_remaining [OF l3(2)] r1 by simp
    show ?thesis
    proof (cases "c = 48")
      case no0: False
      then have "list_all digit w" using assms(1) False by (auto simp: number_text_def w)
      then show ?thesis
        using a1(2) l3(1) a3 no0 dec
        by (intro exI [of _ "runes ''0123456789''"] exI [of _ l3] exI [of _ 0])
          (simp add: number_prefix_def digits_set list_all_iff)
    next
      case True
      from next_ahead [OF r3] obtain l4 where l4: "next_rune l3 = (Some c, l4)" "ahead_by 1 l3 l4" by blast
      from ahead_by_trans [OF a3 l4(2)] have a4: "ahead_by 1 l l4" by simp
      obtain d r4 where d: "remaining l4 = d # r4" "cs @ 32 # inp = d # r4"
        using ahead_by_remaining [OF l4(2)] r3 by (cases cs) auto
      from accept_ahead [OF d(1), of "runes ''x''"] obtain l5 where
          l5: "accept (runes ''x'') l4 = (d = 120, l5)" "ahead_by (if d = 120 then 1 else 0) l4 l5"
        by (auto simp: runes_def)
      from ahead_by_trans [OF a4 l5(2)] have a5: "ahead_by (if d = 120 then 2 else 1) l l5"
        by (simp add: numeral_2_eq_2 split: if_splits)
      show ?thesis
      proof (cases "d = 120")
        case x: True
        then have cs: "cs = 120 # List.tl cs" using d(2) by (cases cs) auto
        have "list_all (\<lambda>c. c \<in> set hexdigits) (drop 2 w)"
          using assms(1) False cs by (cases cs) (auto simp: number_text_def w digit_def)
        then show ?thesis
          using a1(2) l3(1) l4(1) l5(1) a5 x True hex w cs
          by (intro exI [of _ "runes ''0123456789ABCDEFabcdef''"] exI [of _ l5] exI [of _ 2], cases cs)
            (simp_all add: number_prefix_def hexdigits_def)
      next
        case no_x: False
        then have "list_all digit w" using assms(1) False d(2) by (cases cs) (auto simp: number_text_def w)
        then show ?thesis
          using a1(2) l3(1) l4(1) l5(1) a5 no_x True dec w
          by (intro exI [of _ "runes ''0123456789''"] exI [of _ l5] exI [of _ 1])
            (simp add: number_prefix_def digits_set list_all_iff)
      qed
    qed
  qed
qed

lemma reads_number:
  assumes "ascii_classes u" and "number_text w"
  shows "reads u w (32 # inp) [(CONSTANT, w)]"
proof (rule reads_emit [of _ _ _ "\<lambda>_. CONSTANT"])
  fix l assume l: "ready l" "remaining l = w @ 32 # inp"
  obtain c cs where w: "w = c # cs" "digit c \<or> c = 45"
    using assms(2) by (cases w) (auto simp: number_text_def digit_def)
  have c: "c < 128" "c \<noteq> 47" "c \<noteq> 37" "\<not> letter c" "\<not> (c = 32 \<or> 9 \<le> c \<and> c \<le> 13)"
    using w(2) by (auto simp: letter_def digit_def)
  from lexText_rune [OF l(1), of c "cs @ 32 # inp" u] l(2) c(2,3) w(1) obtain l1 where
      l1: "ahead_by 0 l (backup l1)" "lexText u l =
      (if IsSpace u c then (LexText, ignore l1)
       else if IsLetter u c then (LexIdent, backup l1)
       else if IsNumber u c \<or> c = 45 then (LexNumber, backup l1)
       else if c \<in> set oneRuneTokens then (LexText, emit (TRune c) l1)
       else (LexText, l1))"
    by auto
  have "lexText u l = (LexNumber, backup l1)"
    using l1(2) ascii_classesD [OF assms(1) c(1)] c(4,5) w(2) by auto
  then have step: "Run_lexer u LexText l = Run_lexer u LexNumber (backup l1)" by (simp add: Run_LexText)
  have r: "remaining (backup l1) = w @ 32 # inp" using ahead_by_remaining [OF l1(1)] l(2) by simp
  from number_prefix_reads [OF assms(2) r] obtain digits l2 k where np: "number_prefix (backup l1) = (digits, l2)"
      "ahead_by k (backup l1) l2" "k \<le> length w" "list_all (\<lambda>c. c \<in> set digits) (drop k w)" "32 \<notin> set digits"
    by blast
  from number_end [OF assms(1) np(1,2,4,5) r np(3)] obtain l3 where
      l3: "lexNumber u (backup l1) = (LexText, emit CONSTANT l3)" "ahead_by (length w) (backup l1) l3" by blast
  have "ahead_by (length w) l l3" using ahead_by_trans [OF l1(1) l3(2)] by simp
  with step l3(1)
  show "\<exists>l1. Run_lexer u LexText l = Run_lexer u LexText (emit CONSTANT l1) \<and> ahead_by (length w) l l1"
    by (auto simp: Run_lexer.simps [of u LexNumber "backup l1"])
qed

section \<open>From tokens to text and back\<close>

definition ascii_text :: "string \<Rightarrow> bool" where
  "ascii_text v \<longleftrightarrow> list_all (\<lambda>c. c < 128) (runes v)"

fun token_ok :: "token \<times> string \<Rightarrow> bool" where
  "token_ok (TRune r, v) = (r \<in> set oneRuneTokens \<and> runes v = [r])"
| "token_ok (CONSTANT, v) = number_text (runes v)"
| "token_ok (METADATACOMMENT, v) = (ascii_text v \<and> comment_text (runes v))"
| "token_ok (ERROR, v) = False"
| "token_ok (t, v) = (word_text (runes v) \<and> word_token (runes v) = t)"

text \<open>The text of a sequence of tokens, with a space after each.\<close>

definition spelled_text :: "spelling \<Rightarrow> rune list" where
  "spelled_text ws = concat (List.map (\<lambda>(t, v). runes v @ [32]) ws)"

lemma reads_token:
  assumes "ascii_classes u" and "token_ok (t, v)"
  shows "reads u (runes v) (32 # inp) [(t, runes v)]"
  using assms(2)
  by (cases "(t, v)" rule: token_ok.cases)
    (use reads_rune [OF assms(1)] reads_number [OF assms(1)] reads_comment reads_word [OF assms(1)] in \<open>fastforce\<close>)+

lemma reads_tokens:
  "ascii_classes u \<Longrightarrow> list_all token_ok ws \<Longrightarrow>
    reads u (spelled_text ws) [] (List.map (\<lambda>(t, v). (t, runes v)) ws)"
proof (induction ws)
  case (Cons x ws)
  obtain t v where x: "x = (t, v)" by (cases x)
  have a: "reads u (runes v) (([32] @ spelled_text ws) @ []) [(t, runes v)]"
    using reads_token Cons.prems by (simp add: x)
  have b: "reads u ([32] @ spelled_text ws) [] ([] @ List.map (\<lambda>(t, v). (t, runes v)) ws)"
    using Cons by (intro reads_append reads_space) simp_all
  from reads_append [OF a b] show ?case by (simp add: x spelled_text_def)
qed (simp add: reads_refl spelled_text_def)

lemma utf8_ascii: "ascii_text v \<Longrightarrow> concat (List.map utf8 (runes v)) = v"
  by (induction v) (auto simp: ascii_text_def runes_def utf8_def)

lemma token_ok_ascii: "token_ok (t, v) \<Longrightarrow> ascii_text v"
proof (cases "(t, v)" rule: token_ok.cases)
  case (2 v1)
  assume "token_ok (t, v)"
  then have "number_text (runes v)" using 2 by simp
  moreover have "c < 128" if "c \<in> set hexdigits" for c using that by (auto simp: hexdigits_def runes_def)
  ultimately show ?thesis
    unfolding ascii_text_def number_text_def
    by (cases "runes v"; cases "List.tl (runes v)") (auto simp: digit_def list_all_iff)
qed (auto simp: ascii_text_def word_text_def list_all_iff word_rune_ascii oneRuneTokens_def runes_def)

text \<open>What an item is for the parser: its type and the bytes of its text.\<close>

definition item_token :: "item \<Rightarrow> token \<times> string" where
  "item_token i = (i_typ i, concat (List.map utf8 (i_val i)))"

lemma seen_tokens:
  assumes "seen l = List.map (\<lambda>(t, v). (t, runes v)) ws" and "list_all token_ok ws"
  shows "List.map item_token (items l) = ws"
proof -
  have "List.map item_token (items l) = List.map (\<lambda>(t, w). (t, concat (List.map utf8 w))) (seen l)"
    by (simp add: seen_def item_token_def)
  also have "\<dots> = List.map (\<lambda>(t, v). (t, concat (List.map utf8 (runes v)))) ws" by (simp add: assms(1) case_prod_beta)
  also have "\<dots> = ws" using assms(2) by (induction ws) (auto dest: token_ok_ascii simp: utf8_ascii)
  finally show ?thesis .
qed

text \<open>
  C33. The lexer takes tokens back from their text: a sequence of tokens of which each has the text of its
  type, written with a space after each, is read to its end, and the items are these tokens.
\<close>
theorem lexer_roundtrip:
  assumes "ascii_classes u" and "list_all token_ok ws"
  shows "\<exists>l. Run_lexer u LexText (NewLexer (spelled_text ws)) = Some l \<and> List.map item_token (items l) = ws"
proof -
  from reads_end [OF reads_tokens [OF assms]] obtain l where
      l: "Run_lexer u LexText (NewLexer (spelled_text ws)) = Some l" "seen l = List.map (\<lambda>(t, v). (t, runes v)) ws"
    by blast
  with seen_tokens [OF l(2) assms(2)] show ?thesis by blast
qed

section \<open>Generate\<close>

text \<open>
  \<open>Generate\<close> on the text of a file, up to the printing: the lexer, the parser on its items, and the links. A
  parse that fails gives the parser's number, 1, in the error. The lexer runs beside the parser and hands
  it one item after the other; here it has ended before the parser begins.
\<close>

definition parse_failure :: "gen_state outcome \<Rightarrow> gen_state outcome" where
  "parse_failure m =
     (case m of Some (Err e) \<Rightarrow> Some (Err ''failed to parse libvirt protocol: 1'') | _ \<Rightarrow> m)"

definition Generate_text :: "unicode \<Rightarrow> string set \<Rightarrow> rune list \<Rightarrow> gen_state \<Rightarrow> gen_state outcome" where
  "Generate_text u flagTypes b s =
     (case Run_lexer u LexText (NewLexer b) of
        None \<Rightarrow> None
      | Some l \<Rightarrow>
          and_then (parse_failure (parse_items (items l) (s\<lparr>Gen := newGenerator\<rparr>))) (\<lambda>s1.
            done_with (upd (\<lambda>g. addBidirectionalProcs (procLink flagTypes g)) s1)))"

lemma items_spell_tokens: "items_spell its ds \<longleftrightarrow> List.map item_token its = file_spelling ds"
  by (simp add: items_spell_def item_token_def [abs_def])

lemma text_generates:
  assumes "ascii_classes u" and "ds \<noteq> []" and "list_all written ds" and "list_all token_ok (file_spelling ds)"
  shows "Generate_text u ft (spelled_text (file_spelling ds)) s = parse_failure (Generate ft ds s)"
proof -
  from reads_end [OF reads_tokens [OF assms(1,4)]] obtain l where
      l: "Run_lexer u LexText (NewLexer (spelled_text (file_spelling ds))) = Some l"
      "seen l = List.map (\<lambda>(t, v). (t, runes v)) (file_spelling ds)"
    by blast
  have "items_spell (items l) ds" using seen_tokens [OF l(2) assms(4)] by (simp add: items_spell_tokens)
  then have "parse_items (items l) s1 = run_actions (parse_actions ds) s1" for s1
    using parser_reads_spelling assms(2,3) by blast
  then show ?thesis
    using l(1) by (auto simp: Generate_text_def Generate_def parse_failure_def and_then_def split: option.splits res.splits)
qed

text \<open>
  C34. The generator from the text on: on the text that spells a protocol file, the lexer, the generated parser
  and the links together do what \<open>Generate\<close> does with the file's definitions.
\<close>
theorem Generate_reads_text:
  assumes "ascii_classes u" and "ds \<noteq> []" and "list_all written ds" and "list_all token_ok (file_spelling ds)"
  shows "Generate_text u ft (spelled_text (file_spelling ds)) s = parse_failure (Generate ft ds s)"
  using assms by (rule text_generates)

section \<open>Examples\<close>

definition spelled_items :: "spelling \<Rightarrow> item list" where
  "spelled_items ws = List.map (\<lambda>(t, v). \<lparr>i_typ = t, i_val = runes v, i_line = 0, i_column = 0\<rparr>) ws"

lemma spelled_word: "list_all (\<lambda>x. ascii_text (snd x)) ws \<Longrightarrow> word_of (List.map Lex (spelled_items ws)) = List.map tok ws"
  by (induction ws) (auto simp: spelled_items_def word_of_def Lex_def tok_def utf8_ascii)

lemma spelled_tokens: "list_all token_ok ws \<Longrightarrow> List.map item_token (spelled_items ws) = ws"
  by (induction ws) (auto simp: spelled_items_def item_token_def utf8_ascii dest: token_ok_ascii)

lemma spelled_items_spell: "list_all token_ok (file_spelling ds) \<Longrightarrow> items_spell (spelled_items (file_spelling ds)) ds"
  using spelled_tokens by (simp add: items_spell_tokens)

lemma ascii_ascii: "ascii_classes ascii"
  by (auto simp: ascii_classes_def ascii_def letter_def digit_def digits10_def digits_set)

lemma sample_ok: "list_all token_ok (file_spelling sample_protocol)"
  by code_simp

theorem parser_complete_witness:
  "parse_items (spelled_items (file_spelling [ConstDef ''A'' ''1''])) init_state =
     run_actions (tree_actions (file_tree [ConstDef ''A'' ''1''])) init_state"
proof (rule parser_complete)
  let ?its = "spelled_items (file_spelling [ConstDef ''A'' ''1''])"
  have "spells (file_spelling [ConstDef ''A'' ''1'']) 1 (file_tree [ConstDef ''A'' ''1''])"
    by (rule spells_file) simp_all
  moreover have "list_all token_ok (file_spelling [ConstDef ''A'' ''1''])" by code_simp
  then have "items_spell ?its [ConstDef ''A'' ''1'']" by (rule spelled_items_spell)
  ultimately show "parse_tree (file_tree [ConstDef ''A'' ''1''])"
    "yield (file_tree [ConstDef ''A'' ''1'']) = word_of (List.map Lex ?its)"
    using items_word by (simp_all add: spells_def)
qed

theorem parser_reads_files_witness:
  "parse_items (spelled_items (file_spelling sample_protocol)) init_state =
     run_actions (parse_actions sample_protocol) init_state"
proof (rule parser_reads_files)
  show "items_spell (spelled_items (file_spelling sample_protocol)) sample_protocol"
    using sample_ok by (rule spelled_items_spell)
  show "list_all written sample_protocol" by code_simp
qed (simp add: sample_protocol_def)

theorem lexer_roundtrip_witness:
  "\<exists>l. Run_lexer ascii LexText (NewLexer (spelled_text (file_spelling sample_protocol))) = Some l \<and>
     List.map item_token (items l) = file_spelling sample_protocol"
  by (rule lexer_roundtrip [OF ascii_ascii sample_ok])

theorem Generate_reads_text_witness:
  "Generate_text ascii {} (spelled_text (file_spelling sample_protocol)) init_state =
     parse_failure (Generate {} sample_protocol init_state)"
proof (rule Generate_reads_text [OF ascii_ascii])
  show "list_all written sample_protocol" by code_simp
  show "list_all token_ok (file_spelling sample_protocol)" by (rule sample_ok)
qed (simp add: sample_protocol_def)

text \<open>
  The type of a declaration that is itself an enum, a struct or a union is the keyword: the rule has no action,
  so that its value is that of its first symbol, the keyword's text.
\<close>

definition nested_tree :: tree where
  "nested_tree =
     Node 1 [Node 4 [Node 8 [Node 26 [Leaf 15 ''typedef'', Node 25 [],
       Node 27 [Node 31 [Node 39 [Node 12 [Leaf 9 ''enum'', name_tree 20 ''color'', pun_tree 31 CHR ''{'',
         Node 13 [Node 15 [name_tree 21 ''RED'']], pun_tree 32 CHR ''}'']], name_tree 47 ''hue'']]]],
       pun_tree 30 CHR '';'']]"

lemma nested_types:
  "parse_items (spelled_items
     [kw ''typedef'', kw ''enum'', (IDENTIFIER, ''color''), pun CHR ''{'', (IDENTIFIER, ''RED''), pun CHR ''}'',
      (IDENTIFIER, ''hue''), pun CHR '';'']) s =
   run_actions [AStartTypedef, AAutoVal ''RED'', AStartEnum ''color'', ADecl ''hue'' ''enum''] s"
proof -
  have "tree_actions nested_tree = [AStartTypedef, AAutoVal ''RED'', AStartEnum ''color'', ADecl ''hue'' ''enum'']"
    by (simp add: tree_actions_def nested_tree_def rule_meaning)
  moreover have "parse_tree nested_tree" by (simp add: nested_tree_def rule_number)
  moreover have "yield nested_tree = word_of (List.map Lex (spelled_items
     [kw ''typedef'', kw ''enum'', (IDENTIFIER, ''color''), pun CHR ''{'', (IDENTIFIER, ''RED''), pun CHR ''}'',
      (IDENTIFIER, ''hue''), pun CHR '';'']))"
    by (subst spelled_word, simp add: ascii_text_def runes_def, simp add: nested_tree_def tok_def)
  ultimately show ?thesis using parser_runs_tree [of nested_tree] by simp
qed

text \<open>
  A program definition as the RPC language has it is rejected: the rules of procedures and versions end with
  a semicolon, and the lists of them ask for another one.
\<close>

declare yyloop.simps [code]

lemma program_rejected:
  "case Parse
     [(57368, ''program''), (57365, ''P''), (123, ''{''), (57369, ''version''), (57365, ''V''), (123, ''{''),
      (57362, ''int''), (57365, ''f''), (40, ''(''), (57362, ''int''), (41, '')''), (61, ''=''), (57366, ''1''), (59, '';''),
      (125, ''}''), (61, ''=''), (57366, ''1''), (59, '';''), (125, ''}''), (61, ''=''), (57366, ''1''), (59, '';'')] s of
     Some (Err e) \<Rightarrow> e = ''syntax error: unexpected '' @ yyTokname 32 @ '', expecting '' @ yyTokname 30
   | _ \<Rightarrow> False"
  by code_simp

end
