(* ===== verification/Lvgen_Main.thy ===== *)
theory Lvgen_Main
  imports Lvgen_Text Dialers
begin

text \<open>
  The generator's program (\<open>src/internal/lvgen/gen/main.go\<close>) and the second half of \<open>Generate\<close>, which writes
  the files: what they read from the operating system, the names of the files that they make, and the order
  in which they stop at an error. The package \<open>text/template\<close> is a parameter. Messages to the user are left
  out.
\<close>

section \<open>File names\<close>

text \<open>\<open>filepath.Base\<close>, \<open>filepath.Ext\<close> and \<open>strings.TrimSuffix\<close>.\<close>

definition filepath_Base :: "string \<Rightarrow> string" where
  "filepath_Base path =
     (if path = '''' then ''.''
      else let p = last (split_char CHR ''/'' (trim_right path {CHR ''/''})) in if p = '''' then ''/'' else p)"

definition filepath_Ext :: "string \<Rightarrow> string" where
  "filepath_Ext path =
     (let parts = split_char CHR ''.'' (last (split_char CHR ''/'' path))
      in if length parts = 1 then '''' else ''.'' @ last parts)"

definition trim_suffix :: "string \<Rightarrow> string \<Rightarrow> string" where
  "trim_suffix s suf = (if has_prefix (rev s) (rev suf) then take (length s - length suf) s else s)"

section \<open>The environment\<close>

text \<open>
  The variable \<open>LIBVIRT_SOURCE\<close>; opening a file, with an error or a text whose reading may fail; making a
  file, with an error; and the templates: parsing one, and what executing one writes and whether it fails.
\<close>

record gen_env =
  libvirt_source :: string
  open_file :: "string \<Rightarrow> string + string + rune list"
  create_file :: "string \<Rightarrow> string option"
  parse_template :: "string \<Rightarrow> string option"
  execute_template :: "string \<Rightarrow> Generator \<Rightarrow> string \<times> string option"

type_synonym files = "string \<rightharpoonup> string"

section \<open>Writing the files\<close>

definition print_template :: "gen_env \<Rightarrow> string \<Rightarrow> Generator \<Rightarrow> string \<Rightarrow> files \<Rightarrow> string option \<times> files" where
  "print_template env t g file fs =
     (case parse_template env t of
        Some e \<Rightarrow> (Some e, fs)
      | None \<Rightarrow> (case execute_template env t g of (out, err) \<Rightarrow> (err, fs(file \<mapsto> out))))"

definition genGo :: "gen_env \<Rightarrow> Generator \<Rightarrow> string \<Rightarrow> string \<Rightarrow> files \<Rightarrow> string option \<times> files" where
  "genGo env g constFile procFile fs =
     (case print_template env ''constants.tmpl'' g constFile fs of
        (Some e, fs1) \<Rightarrow> (Some e, fs1)
      | (None, fs1) \<Rightarrow> print_template env ''procedures.tmpl'' g procFile fs1)"

definition constsName :: "string \<Rightarrow> string" where
  "constsName name = ''../constants/'' @ name @ ''.gen.go''"

definition procName :: "string \<Rightarrow> string" where
  "procName name = ''../../'' @ name @ ''.gen.go''"

text \<open>The second half of \<open>Generate\<close>, from the finished lists on.\<close>

definition write_files :: "gen_env \<Rightarrow> string \<Rightarrow> Generator \<Rightarrow> files \<Rightarrow> string option \<times> files" where
  "write_files env name g fs =
     (case create_file env (constsName name) of
        Some e \<Rightarrow> (Some e, fs)
      | None \<Rightarrow>
          let fs1 = fs(constsName name \<mapsto> '''')
          in case create_file env (procName name) of
               Some e \<Rightarrow> (Some e, fs1)
             | None \<Rightarrow> genGo env g (constsName name) (procName name) (fs1(procName name \<mapsto> '''')))"

text \<open>\<open>Generate\<close> as a whole: None for a run that does not return.\<close>

definition Generate_files ::
  "unicode \<Rightarrow> string set \<Rightarrow> gen_env \<Rightarrow> string \<Rightarrow> string + rune list \<Rightarrow> gen_state \<Rightarrow> files \<Rightarrow>
    ((string, gen_state) res \<times> files) option" where
  "Generate_files u ft env name proto s fs =
     (case proto of
        Inl e \<Rightarrow> Some (Err e, fs)
      | Inr b \<Rightarrow>
          (case Generate_text u ft b s of
             None \<Rightarrow> None
           | Some Panic \<Rightarrow> Some (Panic, fs)
           | Some (Err e) \<Rightarrow> Some (Err e, fs)
           | Some (Ok s1) \<Rightarrow>
               (case write_files env name (Gen s1) fs of
                  (Some e, fs1) \<Rightarrow> Some (Err e, fs1)
                | (None, fs1) \<Rightarrow> Some (Ok s1, fs1))))"

section \<open>The program\<close>

datatype ending = Exit nat | Crashed

definition protoPaths :: "string list" where
  "protoPaths = [''src/remote/remote_protocol.x'', ''src/remote/qemu_protocol.x'']"

text \<open>The name of a protocol file without its directory and its extension.\<close>

definition file_stem :: "string \<Rightarrow> string" where
  "file_stem path = trim_suffix (filepath_Base path) (filepath_Ext path)"

text \<open>A file that cannot be opened ends the program as every other error does.\<close>

definition processProto ::
  "unicode \<Rightarrow> string set \<Rightarrow> gen_env \<Rightarrow> string \<Rightarrow> gen_state \<Rightarrow> files \<Rightarrow>
    ((string, gen_state) res \<times> files) option" where
  "processProto u ft env lvFile s fs =
     (case open_file env lvFile of
        Inl e \<Rightarrow> Some (Err e, fs)
      | Inr proto \<Rightarrow>
          Generate_files u ft env (file_stem lvFile) proto s fs)"

fun process_all ::
  "unicode \<Rightarrow> string set \<Rightarrow> gen_env \<Rightarrow> string list \<Rightarrow> gen_state \<Rightarrow> files \<Rightarrow> (ending \<times> files) option" where
  "process_all u ft env [] s fs = Some (Exit 0, fs)"
| "process_all u ft env (p # ps) s fs =
     (case processProto u ft env (filepath_Join [libvirt_source env, p]) s fs of
        None \<Rightarrow> None
      | Some (Panic, fs1) \<Rightarrow> Some (Crashed, fs1)
      | Some (Err e, fs1) \<Rightarrow> Some (Exit 1, fs1)
      | Some (Ok s1, fs1) \<Rightarrow> process_all u ft env ps s1 fs1)"

definition gen_main :: "unicode \<Rightarrow> string set \<Rightarrow> gen_env \<Rightarrow> files \<Rightarrow> (ending \<times> files) option" where
  "gen_main u ft env fs =
     (if libvirt_source env = '''' then Some (Exit 1, fs) else process_all u ft env protoPaths init_state fs)"

section \<open>The names of the files made\<close>

lemma split_char_append:
  "sep \<notin> set v \<Longrightarrow> split_char sep (u @ sep # v) = split_char sep u @ [v]"
proof (induction u)
  case Nil
  then have "split_char sep v = [v]" by (induction v) (auto split: list.splits)
  then show ?case by simp
qed (auto split: list.splits)

lemma clean_parts_last:
  "p \<noteq> '''' \<Longrightarrow> p \<noteq> ''.'' \<Longrightarrow> p \<noteq> ''..'' \<Longrightarrow>
    clean_parts rooted (ps @ [p]) st = clean_parts rooted ps st @ [p]"
  by (induction rooted ps st rule: clean_parts.induct) (auto split: list.splits)

lemma clean_parts_slashes:
  "(\<forall>p \<in> set ps. CHR ''/'' \<notin> set p) \<Longrightarrow> (\<forall>p \<in> set st. CHR ''/'' \<notin> set p) \<Longrightarrow>
    \<forall>p \<in> set (clean_parts rooted ps st). CHR ''/'' \<notin> set p"
  by (induction rooted ps st rule: clean_parts.induct) (auto split: list.splits if_splits)

lemma join_with_last: "ps \<noteq> [] \<Longrightarrow> join_with sep (ps @ [p]) = join_with sep ps @ sep @ p"
  by (induction sep ps rule: join_with.induct) auto

text \<open>The cleaned path ends with the last name, behind a slash where something precedes it.\<close>

lemma Clean_last:
  assumes "p \<noteq> ''''" and "p \<noteq> ''.''" and "p \<noteq> ''..''" and "CHR ''/'' \<notin> set p"
  shows "filepath_Clean (u @ CHR ''/'' # p) = p \<or> (\<exists>v. filepath_Clean (u @ CHR ''/'' # p) = v @ CHR ''/'' # p)"
proof -
  let ?r = "hd (u @ CHR ''/'' # p) = CHR ''/''"
  let ?ps = "clean_parts ?r (split_char CHR ''/'' u) []"
  have "clean_parts ?r (split_char CHR ''/'' (u @ CHR ''/'' # p)) [] = ?ps @ [p]"
    using assms by (simp add: split_char_append clean_parts_last)
  then have "filepath_Clean (u @ CHR ''/'' # p) = (if ?r then ''/'' else '''') @ join_with ''/'' (?ps @ [p])"
    using assms(1) by (cases "?ps = []") (simp_all add: filepath_Clean_def Let_def join_with_last)
  then show ?thesis by (cases "?ps = []") (auto simp: join_with_last)
qed

lemma last_split:
  assumes "path = p \<or> (\<exists>v. path = v @ CHR ''/'' # p)" and "CHR ''/'' \<notin> set p"
  shows "last (split_char CHR ''/'' path) = p"
proof -
  have "split_char CHR ''/'' p = [p]" using assms(2) by (induction p) (auto split: list.splits)
  with assms show ?thesis by (auto simp: split_char_append)
qed

lemma Base_last:
  assumes "path = p \<or> (\<exists>v. path = v @ CHR ''/'' # p)" and "p \<noteq> ''''" and "CHR ''/'' \<notin> set p"
  shows "filepath_Base path = p"
proof -
  obtain q c where p: "p = q @ [c]" "c \<noteq> CHR ''/''" using assms(2,3) by (cases p rule: rev_cases) auto
  have "trim_right path {CHR ''/''} = path" using assms(1) p by (auto simp: trim_right_def)
  with assms last_split [OF assms(1,3)] show ?thesis by (auto simp: filepath_Base_def)
qed

text \<open>Wherever the sources are, the names of the protocol files are those of the files made.\<close>

lemma proto_names:
  assumes "lv \<noteq> ''''"
  shows "file_stem (filepath_Join [lv, ''src/remote/remote_protocol.x'']) = ''remote_protocol''"
    "file_stem (filepath_Join [lv, ''src/remote/qemu_protocol.x'']) = ''qemu_protocol''"
proof -
  have stem: "file_stem (filepath_Join [lv, d @ CHR ''/'' # p]) = trim_suffix p (filepath_Ext p)"
    if "p \<noteq> ''''" "p \<noteq> ''.''" "p \<noteq> ''..''" "CHR ''/'' \<notin> set p" for d p
  proof -
    have j: "filepath_Join [lv, d @ CHR ''/'' # p] = filepath_Clean ((lv @ ''/'' @ d) @ CHR ''/'' # p)"
      using assms by (simp add: filepath_Join_def)
    note c = Clean_last [OF that, of "lv @ ''/'' @ d"]
    have "last (split_char CHR ''/'' p) = p" using last_split [of p p] that(4) by simp
    with Base_last [OF c that(1,4)] last_split [OF c that(4)] show ?thesis
      by (simp add: file_stem_def j filepath_Ext_def)
  qed
  show "file_stem (filepath_Join [lv, ''src/remote/remote_protocol.x'']) = ''remote_protocol''"
    using stem [of "''remote_protocol.x''" "''src/remote''"] by (simp add: filepath_Ext_def trim_suffix_def)
  show "file_stem (filepath_Join [lv, ''src/remote/qemu_protocol.x'']) = ''qemu_protocol''"
    using stem [of "''qemu_protocol.x''" "''src/remote''"] by (simp add: filepath_Ext_def trim_suffix_def)
qed

section \<open>What the program does\<close>

text \<open>Only the four files are touched, however the program ends.\<close>

definition made_files :: "string set" where
  "made_files =
     {''../constants/remote_protocol.gen.go'', ''../../remote_protocol.gen.go'',
      ''../constants/qemu_protocol.gen.go'', ''../../qemu_protocol.gen.go''}"

lemma print_template_frame: "print_template env t g file fs = (err, fs1) \<Longrightarrow> f \<noteq> file \<Longrightarrow> fs1 f = fs f"
  by (auto simp: print_template_def split: option.splits prod.splits)

lemma genGo_frame: "genGo env g c p fs = (err, fs1) \<Longrightarrow> f \<noteq> c \<Longrightarrow> f \<noteq> p \<Longrightarrow> fs1 f = fs f"
  by (auto simp: genGo_def split: option.splits prod.splits dest!: print_template_frame [where f = f])

lemma write_files_frame:
  "write_files env name g fs = (err, fs1) \<Longrightarrow> f \<noteq> constsName name \<Longrightarrow> f \<noteq> procName name \<Longrightarrow> fs1 f = fs f"
  by (auto simp: write_files_def Let_def split: option.splits dest!: genGo_frame [where f = f])

lemma processProto_frame:
  "processProto u ft env lvFile s fs = Some (r, fs1) \<Longrightarrow> f \<noteq> constsName (file_stem lvFile) \<Longrightarrow>
    f \<noteq> procName (file_stem lvFile) \<Longrightarrow> fs1 f = fs f"
  by (auto simp: processProto_def Generate_files_def split: sum.splits option.splits res.splits prod.splits
    dest!: write_files_frame [where f = f])

lemma gen_main_frame:
  assumes "gen_main u ft env fs = Some (e, fs1)" and "f \<notin> made_files"
  shows "fs1 f = fs f"
proof (cases "libvirt_source env = ''''")
  case False
  have "f \<noteq> constsName ''remote_protocol''" "f \<noteq> procName ''remote_protocol''"
      "f \<noteq> constsName ''qemu_protocol''" "f \<noteq> procName ''qemu_protocol''"
    using assms(2) by (simp_all add: made_files_def constsName_def procName_def)
  then show ?thesis
    using assms(1) False proto_names [OF False]
    by (auto simp: gen_main_def protoPaths_def split: option.splits prod.splits res.splits
      dest!: processProto_frame [where f = f])
qed (use assms(1) in \<open>simp add: gen_main_def\<close>)

text \<open>
  A protocol file that cannot be read, or in whose text the parser finds an error, ends the program with the
  status 1, and nothing is written for it or for the ones behind it.
\<close>

lemma first_error_ends:
  assumes "open_file env (filepath_Join [libvirt_source env, p]) = Inr (Inr b)" and "Generate_text u ft b s = Some (Err e)"
  shows "process_all u ft env (p # ps) s fs = Some (Exit 1, fs)"
  using assms by (simp add: processProto_def Generate_files_def)

lemma unreadable_ends:
  "(case open_file env (filepath_Join [libvirt_source env, p]) of Inl e \<Rightarrow> True | Inr (Inl e) \<Rightarrow> True | _ \<Rightarrow> False) \<Longrightarrow>
    process_all u ft env (p # ps) s fs = Some (Exit 1, fs)"
  by (simp add: processProto_def Generate_files_def split: sum.splits)

text \<open>
  On the texts that spell two protocol files the program writes what the templates make of the files'
  definitions; the second file begins with the package's variables as the first has left them.
\<close>

definition works :: "gen_env \<Rightarrow> bool" where
  "works env \<longleftrightarrow> libvirt_source env \<noteq> '''' \<and> create_file env = (\<lambda>_. None) \<and> parse_template env = (\<lambda>_. None) \<and>
     (\<forall>t g. snd (execute_template env t g) = None)"

definition holds_protocol :: "gen_env \<Rightarrow> string \<Rightarrow> defn list \<Rightarrow> bool" where
  "holds_protocol env p ds \<longleftrightarrow> ds \<noteq> [] \<and> list_all written ds \<and> list_all token_ok (file_spelling ds) \<and>
     open_file env (filepath_Join [libvirt_source env, p]) = Inr (Inr (spelled_text (file_spelling ds)))"

abbreviation consts_text :: "gen_env \<Rightarrow> gen_state \<Rightarrow> string" where
  "consts_text env s \<equiv> fst (execute_template env ''constants.tmpl'' (Gen s))"

abbreviation procs_text :: "gen_env \<Rightarrow> gen_state \<Rightarrow> string" where
  "procs_text env s \<equiv> fst (execute_template env ''procedures.tmpl'' (Gen s))"

lemma made_names_differ: "constsName n \<noteq> procName m"
  by (simp add: constsName_def procName_def)

lemma print_template_works:
  "works env \<Longrightarrow> print_template env t g file fs = (None, fs(file \<mapsto> fst (execute_template env t g)))"
  by (simp add: works_def print_template_def case_prod_beta)

lemma write_files_works:
  assumes "works env"
  shows "write_files env name (Gen s) fs =
     (None, fs(constsName name \<mapsto> consts_text env s, procName name \<mapsto> procs_text env s))"
proof -
  have "create_file env f = None" for f using assms by (simp add: works_def)
  then show ?thesis
    using made_names_differ [of name name]
    by (simp add: write_files_def genGo_def print_template_works [OF assms] fun_upd_twist)
qed

lemma process_works:
  assumes "ascii_classes u" and "works env" and "holds_protocol env p ds" and "Generate ft ds s = done_with s1"
    and "file_stem (filepath_Join [libvirt_source env, p]) = name"
  shows "process_all u ft env (p # ps) s fs =
    process_all u ft env ps s1 (fs(constsName name \<mapsto> consts_text env s1, procName name \<mapsto> procs_text env s1))"
proof -
  have "Generate_text u ft (spelled_text (file_spelling ds)) s = done_with s1"
    using text_generates [OF assms(1)] assms(3,4) by (simp add: holds_protocol_def parse_failure_def)
  then show ?thesis
    using assms(3,5) by (simp add: processProto_def Generate_files_def holds_protocol_def write_files_works [OF assms(2)])
qed

theorem gen_main_writes:
  assumes "ascii_classes u" and "works env"
    and "holds_protocol env ''src/remote/remote_protocol.x'' ds1" and "Generate ft ds1 init_state = done_with s1"
    and "holds_protocol env ''src/remote/qemu_protocol.x'' ds2" and "Generate ft ds2 s1 = done_with s2"
  shows "gen_main u ft env fs =
    Some (Exit 0, fs(constsName ''remote_protocol'' \<mapsto> consts_text env s1, procName ''remote_protocol'' \<mapsto> procs_text env s1,
      constsName ''qemu_protocol'' \<mapsto> consts_text env s2, procName ''qemu_protocol'' \<mapsto> procs_text env s2))"
proof -
  have lv: "libvirt_source env \<noteq> ''''" using assms(2) by (simp add: works_def)
  show ?thesis
    using process_works [OF assms(1,2,3,4) proto_names(1) [OF lv]] process_works [OF assms(1,2,5,6) proto_names(2) [OF lv]] lv
    by (simp add: gen_main_def protoPaths_def)
qed

text \<open>Two short protocol files, in an environment in which all goes well.\<close>

definition remote_sample :: "defn list" where
  "remote_sample = [ConstDef ''REMOTE_STRING_MAX'' ''65536'']"

definition qemu_sample :: "defn list" where
  "qemu_sample = [ConstDef ''QEMU_PROTOCOL_VERSION'' ''1'']"

definition sample_env :: gen_env where
  "sample_env =
     \<lparr>libvirt_source = ''/libvirt/'',
      open_file = (\<lambda>path.
        if path = ''/libvirt/src/remote/remote_protocol.x'' then Inr (Inr (spelled_text (file_spelling remote_sample)))
        else if path = ''/libvirt/src/remote/qemu_protocol.x'' then Inr (Inr (spelled_text (file_spelling qemu_sample)))
        else Inl ''no such file''),
      create_file = (\<lambda>_. None), parse_template = (\<lambda>_. None),
      execute_template = (\<lambda>t g. (concat (List.map Const_Name (Consts g)), None))\<rparr>"

lemma sample_paths:
  "filepath_Join [''/libvirt/'', ''src/remote/remote_protocol.x''] = ''/libvirt/src/remote/remote_protocol.x''"
  "filepath_Join [''/libvirt/'', ''src/remote/qemu_protocol.x''] = ''/libvirt/src/remote/qemu_protocol.x''"
  by code_simp+

lemma sample_constants:
  "constNameTransform ''REMOTE_STRING_MAX'' = Some ''StringMax''"
  "constNameTransform ''QEMU_PROTOCOL_VERSION'' = Some ''QEMUProtocolVersion''"
  by code_simp+

lemma sample_files:
  "holds_protocol sample_env ''src/remote/remote_protocol.x'' remote_sample"
  "holds_protocol sample_env ''src/remote/qemu_protocol.x'' qemu_sample"
proof -
  have "list_all written remote_sample" "list_all token_ok (file_spelling remote_sample)"
      "list_all written qemu_sample" "list_all token_ok (file_spelling qemu_sample)"
    by code_simp+
  then show "holds_protocol sample_env ''src/remote/remote_protocol.x'' remote_sample"
    "holds_protocol sample_env ''src/remote/qemu_protocol.x'' qemu_sample"
    by (simp_all add: holds_protocol_def sample_env_def sample_paths, simp_all add: remote_sample_def qemu_sample_def)
qed

lemma sample_numbers: "parseNumber ''65536'' = Some 65536" "parseNumber ''1'' = Some 1"
  by (simp_all add: parseNumber_def ParseInt_def digit_value_def)

lemma sample_Generate:
  "\<exists>s1. Generate {} [ConstDef n v] s = done_with s1 \<and>
    Consts (Gen s1) = [\<lparr>Const_Name = c, Const_LVName = n, Const_Val = v\<rparr>]"
  if "constNameTransform n = Some c" and "parseNumber v = Some i"
  using that
  by (simp add: Generate_def parse_actions_def AddConst_def newGenerator_def procLink_def addBidirectionalProcs_def)

theorem gen_main_writes_witness:
  "gen_main ascii {} sample_env Map.empty =
    Some (Exit 0, [constsName ''remote_protocol'' \<mapsto> ''StringMax'', procName ''remote_protocol'' \<mapsto> ''StringMax'',
      constsName ''qemu_protocol'' \<mapsto> ''QEMUProtocolVersion'', procName ''qemu_protocol'' \<mapsto> ''QEMUProtocolVersion''])"
proof -
  have "\<exists>s1. Generate {} remote_sample init_state = done_with s1 \<and>
      Consts (Gen s1) = [\<lparr>Const_Name = ''StringMax'', Const_LVName = ''REMOTE_STRING_MAX'', Const_Val = ''65536''\<rparr>]"
    using sample_Generate [OF sample_constants(1) sample_numbers(1)] by (simp add: remote_sample_def)
  then obtain s1 where s1: "Generate {} remote_sample init_state = done_with s1"
      "Consts (Gen s1) = [\<lparr>Const_Name = ''StringMax'', Const_LVName = ''REMOTE_STRING_MAX'', Const_Val = ''65536''\<rparr>]"
    by blast
  have "\<exists>s2. Generate {} qemu_sample s1 = done_with s2 \<and>
      Consts (Gen s2) = [\<lparr>Const_Name = ''QEMUProtocolVersion'', Const_LVName = ''QEMU_PROTOCOL_VERSION'', Const_Val = ''1''\<rparr>]"
    using sample_Generate [OF sample_constants(2) sample_numbers(2)] by (simp add: qemu_sample_def)
  then obtain s2 where s2: "Generate {} qemu_sample s1 = done_with s2"
      "Consts (Gen s2) = [\<lparr>Const_Name = ''QEMUProtocolVersion'', Const_LVName = ''QEMU_PROTOCOL_VERSION'', Const_Val = ''1''\<rparr>]"
    by blast
  have "works sample_env" by (simp add: works_def sample_env_def)
  from gen_main_writes [OF ascii_ascii this sample_files(1) s1(1) sample_files(2) s2(1)] show ?thesis
    by (simp add: sample_env_def s1(2) s2(2))
qed

end
