(* ===== verification/Const_Stringer.thy ===== *)
theory Const_Stringer
  imports Prelude
begin

text \<open>
  The enumerations of \<open>src/const.gen.go\<close> and the \<open>String\<close> methods of \<open>src/const_strings.gen.go\<close>: the
  four shapes that these methods have, what each computes on any 32-bit value, and a check of one
  enumeration against its constants that makes its method right on every value. The enumerations
  themselves are in the theories \<open>Const_Enums_*\<close>.
\<close>

section \<open>The generated methods\<close>

text \<open>
  An arm of a \<open>switch\<close> over the value: a run of values, whose names lie in one string at the
  positions of an index table, or a single value. The names of a run are looked up at the value less
  an offset (\<open>i -= 1\<close>; 0 where the method has no such line). The strings are as long as a few thousand
  characters and stand here in pieces.
\<close>

datatype arm = Names int int int "string list" "int list" | Name int string

text \<open>
  A method looks the value up, less an offset, in one index table; or it is a \<open>switch\<close>; or it looks
  the value up in a map to slices of one string.
\<close>

datatype stringer = Indexed int "string list" "int list" | Switch "arm list" | Table "string list" "(int \<times> int \<times> int) list"

text \<open>
  The slice \<open>s[a:b]\<close> and the element \<open>ix[i]\<close>; None is the panic of an index out of range. The types
  are \<open>int32\<close>, two of them \<open>uint32\<close>.
\<close>

definition go_slice :: "string \<Rightarrow> int \<Rightarrow> int \<Rightarrow> string option" where
  "go_slice s a b =
     (if 0 \<le> a \<and> a \<le> b \<and> b \<le> int (length s) then Some (take (nat (b - a)) (drop (nat a) s)) else None)"

definition name_at :: "string \<Rightarrow> int list \<Rightarrow> int \<Rightarrow> string option" where
  "name_at s ix i =
     (if 0 \<le> i \<and> i + 1 < int (length ix) then go_slice s (ix ! nat i) (ix ! nat (i + 1)) else None)"

definition enum_int :: "bool \<Rightarrow> 32 word \<Rightarrow> int" where
  "enum_int u i = (if u then uint i else sint i)"

definition unnamed :: "string \<Rightarrow> int \<Rightarrow> string" where
  "unnamed t n = t @ ''('' @ show_int n @ '')''"

fun switch_String :: "bool \<Rightarrow> string \<Rightarrow> arm list \<Rightarrow> 32 word \<Rightarrow> string option" where
  "switch_String u t [] i = Some (unnamed t (enum_int u i))"
| "switch_String u t (Names lo hi off s ix # arms) i =
     (if lo \<le> enum_int u i \<and> enum_int u i \<le> hi then name_at (concat s) ix (enum_int u (i - word_of_int off))
      else switch_String u t arms i)"
| "switch_String u t (Name v s # arms) i = (if enum_int u i = v then Some s else switch_String u t arms i)"

fun String :: "bool \<Rightarrow> string \<Rightarrow> stringer \<Rightarrow> 32 word \<Rightarrow> string option" where
  "String u t (Indexed off s ix) i =
     (let j = i - word_of_int off in
      if enum_int u j < 0 \<or> int (length ix) - 1 \<le> enum_int u j
      then Some (unnamed t (enum_int u (j + word_of_int off)))
      else name_at (concat s) ix (enum_int u j))"
| "String u t (Switch arms) i = switch_String u t arms i"
| "String u t (Table s es) i =
     (case map_of es (enum_int u i) of
        Some (a, b) \<Rightarrow> go_slice (concat s) a b
      | None \<Rightarrow> Some (unnamed t (enum_int u i)))"

section \<open>The values and the names of a method\<close>

text \<open>
  One pass over the string and the index table cuts out all names; it fails where a \<open>String\<close> method
  could panic, or where the table does not use up consecutive pieces of the string.
\<close>

fun chop :: "int \<Rightarrow> 'a list \<Rightarrow> ('a list \<times> 'a list) option" where
  "chop n [] = (if n = 0 then Some ([], []) else None)"
| "chop n (x # xs) =
     (if n = 0 then Some ([], x # xs)
      else case chop (n - 1) xs of None \<Rightarrow> None | Some (ys, zs) \<Rightarrow> Some (x # ys, zs))"

fun cut_names :: "string \<Rightarrow> string list \<Rightarrow> int \<Rightarrow> int list \<Rightarrow> string list option" where
  "cut_names s ss a [] = Some []"
| "cut_names [] [] a (b # ix) = None"
| "cut_names [] (s # ss) a (b # ix) = cut_names s ss a (b # ix)"
| "cut_names (c # s) ss a (b # ix) =
     (case chop (b - a) (c # s) of
        None \<Rightarrow> None
      | Some (n, s') \<Rightarrow> (case cut_names s' ss b ix of None \<Rightarrow> None | Some ns \<Rightarrow> Some (n # ns)))"

fun count_from :: "int \<Rightarrow> 'a list \<Rightarrow> (int \<times> 'a) list" where
  "count_from v [] = []"
| "count_from v (x # xs) = (v, x) # count_from (v + 1) xs"

definition in_range :: "bool \<Rightarrow> int \<Rightarrow> bool" where
  "in_range u v \<longleftrightarrow> (if u then 0 \<le> v \<and> v < 4294967296 else - 2147483648 \<le> v \<and> v < 2147483648)"

definition run_entries :: "bool \<Rightarrow> int \<Rightarrow> string list \<Rightarrow> int list \<Rightarrow> (int \<times> string) list option" where
  "run_entries u off s ix =
     (case ix of
        [] \<Rightarrow> None
      | a # ix' \<Rightarrow>
          (case if a = 0 then cut_names [] s 0 ix' else None of
             None \<Rightarrow> None
           | Some ns \<Rightarrow>
               (let es = count_from off ns in
                if list_all (\<lambda>(v, n). in_range u v \<and> in_range u (v - off)) es then Some es else None)))"

fun last_value :: "(int \<times> 'a) list \<Rightarrow> int option" where
  "last_value [] = None"
| "last_value [(v, x)] = Some v"
| "last_value (_ # es) = last_value es"

fun switch_entries :: "bool \<Rightarrow> arm list \<Rightarrow> (int \<times> string) list option" where
  "switch_entries u [] = Some []"
| "switch_entries u (Names lo hi off s ix # arms) =
     (case if lo = off then run_entries u off s ix else None of
        None \<Rightarrow> None
      | Some es \<Rightarrow>
          (case if last_value es = Some hi then switch_entries u arms else None of
             None \<Rightarrow> None
           | Some es' \<Rightarrow> Some (es @ es')))"
| "switch_entries u (Name v s # arms) =
     (case switch_entries u arms of None \<Rightarrow> None | Some es \<Rightarrow> Some ((v, s) # es))"

fun contiguous :: "int \<Rightarrow> (int \<times> int \<times> int) list \<Rightarrow> bool" where
  "contiguous a [] = True"
| "contiguous a ((v, b, c) # es) = (a = b \<and> contiguous c es)"

fun entries :: "bool \<Rightarrow> stringer \<Rightarrow> (int \<times> string) list option" where
  "entries u (Indexed off s ix) = run_entries u off s ix"
| "entries u (Switch arms) = switch_entries u arms"
| "entries u (Table s es) =
     (case if contiguous 0 es then cut_names [] s 0 (List.map (\<lambda>(v, a, b). b) es) else None of
        None \<Rightarrow> None
      | Some ns \<Rightarrow> Some (zip (List.map fst es) ns))"

lemma chop_eq:
  "chop n s = Some (a, b) \<longleftrightarrow> 0 \<le> n \<and> n \<le> int (length s) \<and> a = take (nat n) s \<and> b = drop (nat n) s"
proof (induction n s arbitrary: a b rule: chop.induct)
  case (2 n x xs)
  show ?case
  proof (cases "n = 0")
    case False
    then have "nat n = Suc (nat (n - 1))" if "0 < n" using that by simp
    then show ?thesis using False 2 by (auto split: option.splits)
  qed auto
qed auto

lemma chop_drop:
  assumes "chop (b - a) s1 = Some (n, s2)" and "drop (nat a) s = s1 @ r" and "0 \<le> a" and "a \<le> int (length s)"
  shows "a \<le> b" "b \<le> int (length s)" "drop (nat b) s = s2 @ r" "go_slice s a b = Some n"
proof -
  from assms(1) have c: "a \<le> b" "b - a \<le> int (length s1)" "n = take (nat (b - a)) s1" "s2 = drop (nat (b - a)) s1"
    by (auto simp: chop_eq)
  have l: "length s - nat a = length s1 + length r" using arg_cong [OF assms(2), of length] by simp
  show "a \<le> b" by fact
  show "b \<le> int (length s)" using c l assms(3,4) by linarith
  moreover have "drop (nat b) s = drop (nat (b - a)) (drop (nat a) s)"
    using c(1) assms(3) by (simp add: nat_add_distrib [symmetric])
  ultimately show "drop (nat b) s = s2 @ r" "go_slice s a b = Some n"
    using c assms(2,3) by (simp_all add: go_slice_def)
qed

lemma cut_names_slices:
  assumes "cut_names s1 ss a ix = Some ns" and "drop (nat a) s = s1 @ concat ss" and "0 \<le> a" and "a \<le> int (length s)"
  shows "length ns = length ix \<and>
    (\<forall>k < length ix. go_slice s ((a # ix) ! k) (ix ! k) = Some (ns ! k))"
  using assms
proof (induction s1 ss a ix arbitrary: ns rule: cut_names.induct)
  case (4 c s1 ss a b ix)
  then obtain n s2 ns' where *: "chop (b - a) (c # s1) = Some (n, s2)"
      "cut_names s2 ss b ix = Some ns'" "ns = n # ns'"
    by (auto split: option.splits)
  note b = chop_drop [OF *(1) 4(3-5)]
  with 4(1) [OF *(1) refl *(2) b(3)] * 4(4) show ?case
    by (auto simp: nth_Cons split: nat.splits)
qed auto

lemma name_at_cut:
  assumes "cut_names [] s 0 ix = Some ns" and "0 \<le> i" and "i < int (length ns)"
  shows "name_at (concat s) (0 # ix) i = Some (ns ! nat i)"
proof -
  from cut_names_slices [of "[]" s 0 ix ns "concat s"] assms(1)
  have "length ns = length ix" "\<And>k. k < length ix \<Longrightarrow> go_slice (concat s) ((0 # ix) ! k) (ix ! k) = Some (ns ! k)"
    by simp_all
  moreover have "(0 # ix) ! nat (i + 1) = ix ! nat i" using assms(2) by (simp add: nat_add_distrib)
  ultimately show ?thesis using assms(2,3) by (simp add: name_at_def)
qed

lemma count_from_lookup:
  "map_of (count_from v xs) w = (if v \<le> w \<and> w < v + int (length xs) then Some (xs ! nat (w - v)) else None)"
proof (induction v xs rule: count_from.induct)
  case (2 v x xs)
  have "nat (w - v) = Suc (nat (w - (v + 1)))" if "v < w" using that by simp
  then show ?case using 2 by auto
qed simp

lemma count_from_values: "fst ` set (count_from v xs) = {v..<v + int (length xs)}"
  by (induction v xs rule: count_from.induct) auto

lemma last_value_count: "last_value (count_from v xs) = (if xs = [] then None else Some (v + int (length xs) - 1))"
proof (induction v xs rule: count_from.induct)
  case (2 v x xs)
  then show ?case by (cases xs) auto
qed simp

text \<open>Subtraction of the offset, which wraps around, against the range of the names.\<close>

lemma enum_int_of: "in_range u v \<Longrightarrow> enum_int u (word_of_int v) = v"
  by (auto simp: in_range_def enum_int_def uint_word_of_int sint_sbintrunc' signed_take_bit_int_eq_self
      split: if_splits)

lemma word_of_enum_int: "word_of_int (enum_int u i) = i"
  by (simp add: enum_int_def)

lemma enum_int_offset:
  assumes "\<forall>v \<in> {off..<off + n}. in_range u v \<and> in_range u (v - off)"
  shows "0 \<le> enum_int u (i - word_of_int off) \<and> enum_int u (i - word_of_int off) < n \<longleftrightarrow>
      off \<le> enum_int u i \<and> enum_int u i < off + n"
    and "off \<le> enum_int u i \<Longrightarrow> enum_int u i < off + n \<Longrightarrow>
      enum_int u (i - word_of_int off) = enum_int u i - off"
proof -
  have i: "i - word_of_int off = word_of_int (enum_int u i - off)"
    by (simp add: word_of_enum_int)
  show *: "enum_int u (i - word_of_int off) = enum_int u i - off"
    if "off \<le> enum_int u i" "enum_int u i < off + n"
    unfolding i by (rule enum_int_of) (use assms that in simp)
  have "enum_int u i = enum_int u (i - word_of_int off) + off"
    if "0 \<le> enum_int u (i - word_of_int off)" "enum_int u (i - word_of_int off) < n"
  proof -
    have "in_range u (enum_int u (i - word_of_int off) + off)" using assms that by simp
    from enum_int_of [OF this] show ?thesis by (simp add: word_of_enum_int)
  qed
  with * show "0 \<le> enum_int u (i - word_of_int off) \<and> enum_int u (i - word_of_int off) < n \<longleftrightarrow>
      off \<le> enum_int u i \<and> enum_int u i < off + n"
    by auto
qed

lemma run_entriesD:
  assumes "run_entries u off s ix = Some es"
  obtains ns ix' where "ix = 0 # ix'" "cut_names [] s 0 ix' = Some ns" "es = count_from off ns" "length ns = length ix'"
    "\<forall>v \<in> {off..<off + int (length ns)}. in_range u v \<and> in_range u (v - off)"
proof -
  from assms obtain ns ix' where *: "ix = 0 # ix'" "cut_names [] s 0 ix' = Some ns" "es = count_from off ns"
      "list_all (\<lambda>(v, n). in_range u v \<and> in_range u (v - off)) es"
    by (auto simp: run_entries_def Let_def split: list.splits option.splits if_splits)
  from *(4) have "\<forall>v \<in> fst ` set es. in_range u v \<and> in_range u (v - off)"
    by (auto simp: list_all_iff)
  then have "\<forall>v \<in> {off..<off + int (length ns)}. in_range u v \<and> in_range u (v - off)"
    by (simp only: *(3) count_from_values)
  with * cut_names_slices [of "[]" s 0 ix' ns "concat s"] that show thesis by simp
qed

lemma run_lookup:
  assumes "run_entries u off s ix = Some es" and "off \<le> enum_int u i" and "last_value es = Some hi" and "enum_int u i \<le> hi"
  shows "name_at (concat s) ix (enum_int u (i - word_of_int off)) = map_of es (enum_int u i)"
proof -
  from assms(1) obtain ns ix' where *: "ix = 0 # ix'" "cut_names [] s 0 ix' = Some ns" "es = count_from off ns"
      "\<forall>v \<in> {off..<off + int (length ns)}. in_range u v \<and> in_range u (v - off)"
    by (rule run_entriesD)
  have v: "enum_int u i < off + int (length ns)" using assms(3,4) *(3) by (auto simp: last_value_count split: if_splits)
  then show ?thesis
    using enum_int_offset(2) [OF *(4) assms(2) v] name_at_cut [OF *(2), of "enum_int u i - off"] assms(2)
    by (simp add: *(1,3) count_from_lookup)
qed

lemma switch_String_lookup:
  assumes "switch_entries u arms = Some es"
  shows "switch_String u t arms i =
    Some (case map_of es (enum_int u i) of Some n \<Rightarrow> n | None \<Rightarrow> unnamed t (enum_int u i))"
  using assms
proof (induction u arms arbitrary: es rule: switch_entries.induct)
  case (2 u lo hi off s ix arms)
  from 2(2) obtain es1 es2 where *: "run_entries u off s ix = Some es1" "lo = off" "last_value es1 = Some hi"
      "switch_entries u arms = Some es2" "es = es1 @ es2"
    by (auto split: option.splits if_splits)
  from *(1) obtain ns where ns: "es1 = count_from off ns" by (rule run_entriesD)
  have hi: "hi = off + int (length ns) - 1" using *(3) by (simp add: ns last_value_count split: if_splits)
  have rest: "switch_String u t arms i =
      Some (case map_of es2 (enum_int u i) of Some n \<Rightarrow> n | None \<Rightarrow> unnamed t (enum_int u i))"
    using 2(1) * by auto
  show ?case
  proof (cases "lo \<le> enum_int u i \<and> enum_int u i \<le> hi")
    case True
    then show ?thesis
      using run_lookup [OF *(1) _ *(3)] *(2) hi by (simp add: *(5) ns count_from_lookup)
  next
    case False
    then have "map_of es1 (enum_int u i) = None" using *(2) hi by (auto simp: ns count_from_lookup)
    then have "map_of es (enum_int u i) = map_of es2 (enum_int u i)" by (simp add: *(5) map_add_def)
    then show ?thesis using False rest by auto
  qed
qed (auto split: option.splits)

lemma contiguous_nth:
  "contiguous a es \<Longrightarrow> k < length es \<Longrightarrow> es ! k = (v, b, c) \<Longrightarrow>
    (a # List.map (\<lambda>(v, a, b). b) es) ! k = b \<and> List.map (\<lambda>(v, a, b). b) es ! k = c"
proof (induction a es arbitrary: k rule: contiguous.induct)
  case (2 a w b' c' es)
  then show ?case by (cases k) auto
qed simp

lemma slices_lookup:
  assumes "length es = length ns"
    and "\<And>k. k < length es \<Longrightarrow> (case es ! k of (v, b, c) \<Rightarrow> go_slice s b c = Some (ns ! k))"
  shows "case map_of es v of
      None \<Rightarrow> map_of (zip (List.map fst es) ns) v = None
    | Some (b, c) \<Rightarrow> (\<exists>n. go_slice s b c = Some n \<and> map_of (zip (List.map fst es) ns) v = Some n)"
  using assms
proof (induction es ns rule: list_induct2)
  case (Cons e es n ns)
  have "case es ! k of (v, b, c) \<Rightarrow> go_slice s b c = Some (ns ! k)" if "k < length es" for k
    using Cons.prems [of "Suc k"] that by simp
  from Cons.IH [OF this] Cons.prems [of 0] show ?case by (auto split: option.splits)
qed simp

text \<open>A \<open>String\<close> method never panics and looks its value up among its entries.\<close>

lemma String_lookup:
  assumes "entries u st = Some es"
  shows "String u t st i =
    Some (case map_of es (enum_int u i) of Some n \<Rightarrow> n | None \<Rightarrow> unnamed t (enum_int u i))"
proof (cases st)
  case (Indexed off s ix)
  with assms have run: "run_entries u off s ix = Some es" by simp
  then obtain ns ix' where *: "ix = 0 # ix'" "cut_names [] s 0 ix' = Some ns" "es = count_from off ns" "length ns = length ix'"
      "\<forall>v \<in> {off..<off + int (length ns)}. in_range u v \<and> in_range u (v - off)"
    by (rule run_entriesD)
  note off = enum_int_offset [OF *(5), of i]
  show ?thesis
  proof (cases "off \<le> enum_int u i \<and> enum_int u i < off + int (length ns)")
    case True
    with off(1) have "\<not> (enum_int u (i - word_of_int off) < 0 \<or> int (length ix) - 1 \<le> enum_int u (i - word_of_int off))"
      using *(1,4) by auto
    then show ?thesis
      using True off(2) name_at_cut [OF *(2), of "enum_int u i - off"]
      by (simp add: Indexed Let_def *(1,3) count_from_lookup)
  next
    case False
    with off(1) have "enum_int u (i - word_of_int off) < 0 \<or> int (length ix) - 1 \<le> enum_int u (i - word_of_int off)"
      using *(1,4) by auto
    then show ?thesis using False by (auto simp: Indexed Let_def *(3) count_from_lookup)
  qed
next
  case (Switch arms)
  with assms switch_String_lookup show ?thesis by simp
next
  case (Table s es')
  with assms obtain ns where *: "contiguous 0 es'" "cut_names [] s 0 (List.map (\<lambda>(v, a, b). b) es') = Some ns"
      "es = zip (List.map fst es') ns"
    by (auto split: option.splits if_splits)
  have sl: "length es' = length ns" "\<And>k. k < length es' \<Longrightarrow> go_slice (concat s)
      ((0 # List.map (\<lambda>(v, a, b). b) es') ! k) (List.map (\<lambda>(v, a, b). b) es' ! k) = Some (ns ! k)"
    using cut_names_slices [OF *(2), of "concat s"] by simp_all
  have "case es' ! k of (v, b, c) \<Rightarrow> go_slice (concat s) b c = Some (ns ! k)" if "k < length es'" for k
  proof (cases "es' ! k")
    case (fields v b c)
    then show ?thesis using sl(2) [OF that] contiguous_nth [OF *(1) that fields] by simp
  qed
  note slices_lookup [OF sl(1) this]
  from this [of "enum_int u i"] show ?thesis by (auto simp: Table *(3) split: option.splits)
qed

section \<open>Against the constants\<close>

text \<open>
  An enumeration: its type, whether that is \<open>uint32\<close>, its constants in the order of the source, and
  its \<open>String\<close> method. The name of a value is that of the first constant that has it.
\<close>

record enumeration =
  enum_type :: string
  unsigned_type :: bool
  constants :: "(string \<times> int) list"
  stringer :: stringer

definition enum_String :: "enumeration \<Rightarrow> 32 word \<Rightarrow> string option" where
  "enum_String e i = String (unsigned_type e) (enum_type e) (stringer e) i"

definition first_name :: "(string \<times> int) list \<Rightarrow> int \<Rightarrow> string option" where
  "first_name cs v = map_of (List.map (\<lambda>(n, v). (v, n)) cs) v"

definition names_match :: "(string \<times> int) list \<Rightarrow> (int \<times> string) list \<Rightarrow> bool" where
  "names_match cs es \<longleftrightarrow>
     list_all (\<lambda>(v, n). first_name cs v = Some n) es \<and>
     list_all (\<lambda>(n, v). list_ex (\<lambda>(w, m). w = v) es) cs"

text \<open>Most methods list the constants as they come.\<close>

definition same_names :: "(string \<times> int) list \<Rightarrow> (int \<times> string) list \<Rightarrow> bool" where
  "same_names cs es \<longleftrightarrow> es = List.map (\<lambda>(n, v). (v, n)) cs"

definition checked_enum :: "enumeration \<Rightarrow> bool" where
  "checked_enum e =
     (case entries (unsigned_type e) (stringer e) of
        None \<Rightarrow> False
      | Some es \<Rightarrow> if same_names (constants e) es then True else names_match (constants e) es)"

lemma names_match_lookup:
  assumes "names_match cs es"
  shows "map_of es v = first_name cs v"
proof (cases "map_of es v")
  case None
  have "v \<noteq> w" if "(n, w) \<in> set cs" for n w
    using that assms None by (force simp: names_match_def list_all_iff list_ex_iff map_of_eq_None_iff)
  then have "first_name cs v = None" by (force simp: first_name_def map_of_eq_None_iff)
  with None show ?thesis by simp
next
  case (Some n)
  then have "(v, n) \<in> set es" by (rule map_of_SomeD)
  with assms Some show ?thesis by (auto simp: names_match_def list_all_iff)
qed

lemma same_names_lookup: "same_names cs es \<Longrightarrow> map_of es v = first_name cs v"
  by (simp add: same_names_def first_name_def)

lemma checked_enum_String:
  assumes "checked_enum e"
  shows "enum_String e i =
    Some (case first_name (constants e) (enum_int (unsigned_type e) i) of
            Some n \<Rightarrow> n | None \<Rightarrow> unnamed (enum_type e) (enum_int (unsigned_type e) i))"
proof -
  from assms obtain es where "entries (unsigned_type e) (stringer e) = Some es" "map_of es v = first_name (constants e) v" for v
    by (auto simp: checked_enum_def split: option.splits if_splits dest: same_names_lookup names_match_lookup)
  with String_lookup [OF this(1)] show ?thesis
    by (simp add: enum_String_def)
qed

text \<open>
  Different values have different texts: the constants have different names, none of them with a
  parenthesis, which an unnamed value has.
\<close>

definition proper_names :: "enumeration \<Rightarrow> bool" where
  "proper_names e \<longleftrightarrow>
     distinct (List.map fst (constants e)) \<and> list_all (\<lambda>(n, v). CHR ''('' \<notin> set n) (constants e)"

text \<open>The same by numbers made of the names, for evaluation.\<close>

fun hash :: "string \<Rightarrow> int" where
  "hash [] = 0"
| "hash (Char b0 b1 b2 b3 b4 b5 b6 b7 # cs) =
     5 * hash cs + (if b0 then 1 else 0) + (if b1 then 2 else 0) + (if b2 then 4 else 0) + (if b3 then 8 else 0) +
       (if b4 then 16 else 0) + (if b6 then 32 else 0)"

definition proper_hashes :: "enumeration \<Rightarrow> bool" where
  "proper_hashes e \<longleftrightarrow>
     distinct (List.map (\<lambda>(n, v). hash n) (constants e)) \<and> list_all (\<lambda>(n, v). CHR ''('' \<notin> set n) (constants e)"

lemma proper_hashes_names: "proper_hashes e \<Longrightarrow> proper_names e"
proof -
  have pairs: "List.map (\<lambda>(n, v). hash n) cs = List.map hash (List.map fst cs)" for cs :: "(string \<times> int) list" by auto
  then show "proper_hashes e \<Longrightarrow> proper_names e"
    unfolding proper_hashes_def proper_names_def by (simp only: pairs distinct_map [of hash])
qed

lemma proper_hashes_list: "list_all proper_hashes es \<Longrightarrow> list_all proper_names es"
  by (auto simp: list_all_iff proper_hashes_names)

lemma show_int_inject: "show_int v = show_int w \<longleftrightarrow> v = w"
proof -
  have "show_nat n \<noteq> CHR ''-'' # cs" for n cs
    using show_nat_digits [of n] by (auto simp: is_digit_def)
  note minus = this this [THEN not_sym]
  then show ?thesis by (auto simp: show_int_def show_nat_inject minus)
qed

lemma unnamed_inject: "unnamed t v = unnamed t w \<longleftrightarrow> v = w"
  by (simp add: unnamed_def show_int_inject)

lemma first_nameD: "first_name cs v = Some n \<Longrightarrow> (n, v) \<in> set cs"
  by (auto simp: first_name_def dest!: map_of_SomeD)

lemma checked_enum_inject:
  assumes "checked_enum e" and "proper_names e" and "enum_String e i = enum_String e j"
  shows "i = j"
proof -
  let ?v = "\<lambda>i. enum_int (unsigned_type e) i" and ?cs = "constants e"
  have named: "first_name ?cs v \<noteq> Some (unnamed t w)" for v t w
    using assms(2) by (fastforce simp: proper_names_def list_all_iff unnamed_def dest!: first_nameD)
  have same: "v = w" if "first_name ?cs v = Some n" "first_name ?cs w = Some n" for v w n
    using first_nameD [OF that(1)] first_nameD [OF that(2)] assms(2)
    by (auto simp: proper_names_def dest: eq_key_imp_eq_value)
  have "?v i = ?v j"
    using assms(3) same named named [THEN not_sym]
    by (auto simp: checked_enum_String [OF assms(1)] unnamed_inject split: option.splits)
  then have "word_of_int (?v i) = (word_of_int (?v j) :: 32 word)" by simp
  then show ?thesis by (simp only: word_of_enum_int)
qed

end
