(* ===== verification/Const_Enums_1.thy ===== *)
theory Const_Enums_1
  imports Const_Stringer
begin

text \<open>
  Enumerations of \<open>src/const.gen.go\<close> with their \<open>String\<close> methods of \<open>src/const_strings.gen.go\<close>, from
  \<open>ConnectCloseReason\<close> to \<open>DomainNumatuneMemMode\<close>: the constants in the order of the source, and the string, the index
  table, the cases or the map of the method.
\<close>

definition consts_ConnectCloseReason :: "(string \<times> int) list" where
  "consts_ConnectCloseReason =
     [(''ConnectCloseReasonError'', 0),
      (''ConnectCloseReasonEOF'', 1),
      (''ConnectCloseReasonKeepalive'', 2),
      (''ConnectCloseReasonClient'', 3)]"

definition stringer_ConnectCloseReason :: stringer where
  "stringer_ConnectCloseReason =
     Indexed 0
       [''ConnectCloseReasonErrorConnectCloseReasonEOFConnectCloseReasonKeepaliveConnectCloseReasonClient'']
       [0, 23, 44, 71, 95]"

definition consts_TypedParameterType :: "(string \<times> int) list" where
  "consts_TypedParameterType =
     [(''TypedParamInt'', 1),
      (''TypedParamUint'', 2),
      (''TypedParamLlong'', 3),
      (''TypedParamUllong'', 4),
      (''TypedParamDouble'', 5),
      (''TypedParamBoolean'', 6),
      (''TypedParamString'', 7)]"

definition stringer_TypedParameterType :: stringer where
  "stringer_TypedParameterType =
     Indexed 1
       [''TypedParamIntTypedParamUintTypedParamLlongTypedParamUllongTypedParamDoubleTypedParamBoolean'',
        ''TypedParamString'']
       [0, 13, 27, 42, 58, 74, 91, 107]"

definition consts_TypedParameterFlags :: "(string \<times> int) list" where
  "consts_TypedParameterFlags =
     [(''TypedParamStringOkay'', 4)]"

definition stringer_TypedParameterFlags :: stringer where
  "stringer_TypedParameterFlags =
     Indexed 4
       [''TypedParamStringOkay'']
       [0, 20]"

definition consts_DomainCheckpointCreateFlags :: "(string \<times> int) list" where
  "consts_DomainCheckpointCreateFlags =
     [(''DomainCheckpointCreateRedefine'', 1),
      (''DomainCheckpointCreateQuiesce'', 2),
      (''DomainCheckpointCreateRedefineValidate'', 4)]"

definition stringer_DomainCheckpointCreateFlags :: stringer where
  "stringer_DomainCheckpointCreateFlags =
     Switch
      [Names 1 2 1
        [''DomainCheckpointCreateRedefineDomainCheckpointCreateQuiesce'']
        [0, 30, 59],
       Name 4 ''DomainCheckpointCreateRedefineValidate'']"

definition consts_DomainCheckpointXMLFlags :: "(string \<times> int) list" where
  "consts_DomainCheckpointXMLFlags =
     [(''DomainCheckpointXMLSecure'', 1),
      (''DomainCheckpointXMLNoDomain'', 2),
      (''DomainCheckpointXMLSize'', 4)]"

definition stringer_DomainCheckpointXMLFlags :: stringer where
  "stringer_DomainCheckpointXMLFlags =
     Switch
      [Names 1 2 1
        [''DomainCheckpointXMLSecureDomainCheckpointXMLNoDomain'']
        [0, 25, 52],
       Name 4 ''DomainCheckpointXMLSize'']"

definition consts_DomainCheckpointListFlags :: "(string \<times> int) list" where
  "consts_DomainCheckpointListFlags =
     [(''DomainCheckpointListRoots'', 1),
      (''DomainCheckpointListDescendants'', 1),
      (''DomainCheckpointListTopological'', 2),
      (''DomainCheckpointListLeaves'', 4),
      (''DomainCheckpointListNoLeaves'', 8)]"

definition stringer_DomainCheckpointListFlags :: stringer where
  "stringer_DomainCheckpointListFlags =
     Switch
      [Names 1 2 1
        [''DomainCheckpointListRootsDomainCheckpointListTopological'']
        [0, 25, 56],
       Name 4 ''DomainCheckpointListLeaves'',
       Name 8 ''DomainCheckpointListNoLeaves'']"

definition consts_DomainCheckpointDeleteFlags :: "(string \<times> int) list" where
  "consts_DomainCheckpointDeleteFlags =
     [(''DomainCheckpointDeleteChildren'', 1),
      (''DomainCheckpointDeleteMetadataOnly'', 2),
      (''DomainCheckpointDeleteChildrenOnly'', 4)]"

definition stringer_DomainCheckpointDeleteFlags :: stringer where
  "stringer_DomainCheckpointDeleteFlags =
     Switch
      [Names 1 2 1
        [''DomainCheckpointDeleteChildrenDomainCheckpointDeleteMetadataOnly'']
        [0, 30, 64],
       Name 4 ''DomainCheckpointDeleteChildrenOnly'']"

definition consts_DomainSnapshotCreateFlags :: "(string \<times> int) list" where
  "consts_DomainSnapshotCreateFlags =
     [(''DomainSnapshotCreateRedefine'', 1),
      (''DomainSnapshotCreateCurrent'', 2),
      (''DomainSnapshotCreateNoMetadata'', 4),
      (''DomainSnapshotCreateHalt'', 8),
      (''DomainSnapshotCreateDiskOnly'', 16),
      (''DomainSnapshotCreateReuseExt'', 32),
      (''DomainSnapshotCreateQuiesce'', 64),
      (''DomainSnapshotCreateAtomic'', 128),
      (''DomainSnapshotCreateLive'', 256),
      (''DomainSnapshotCreateValidate'', 512)]"

definition stringer_DomainSnapshotCreateFlags :: stringer where
  "stringer_DomainSnapshotCreateFlags =
     Switch
      [Names 1 2 1
        [''DomainSnapshotCreateRedefineDomainSnapshotCreateCurrent'']
        [0, 28, 55],
       Name 4 ''DomainSnapshotCreateNoMetadata'',
       Name 8 ''DomainSnapshotCreateHalt'',
       Name 16 ''DomainSnapshotCreateDiskOnly'',
       Name 32 ''DomainSnapshotCreateReuseExt'',
       Name 64 ''DomainSnapshotCreateQuiesce'',
       Name 128 ''DomainSnapshotCreateAtomic'',
       Name 256 ''DomainSnapshotCreateLive'',
       Name 512 ''DomainSnapshotCreateValidate'']"

definition consts_DomainSnapshotXMLFlags :: "(string \<times> int) list" where
  "consts_DomainSnapshotXMLFlags =
     [(''DomainSnapshotXMLSecure'', 1)]"

definition stringer_DomainSnapshotXMLFlags :: stringer where
  "stringer_DomainSnapshotXMLFlags =
     Indexed 1
       [''DomainSnapshotXMLSecure'']
       [0, 23]"

definition consts_DomainSnapshotListFlags :: "(string \<times> int) list" where
  "consts_DomainSnapshotListFlags =
     [(''DomainSnapshotListRoots'', 1),
      (''DomainSnapshotListDescendants'', 1),
      (''DomainSnapshotListLeaves'', 4),
      (''DomainSnapshotListNoLeaves'', 8),
      (''DomainSnapshotListMetadata'', 2),
      (''DomainSnapshotListNoMetadata'', 16),
      (''DomainSnapshotListInactive'', 32),
      (''DomainSnapshotListActive'', 64),
      (''DomainSnapshotListDiskOnly'', 128),
      (''DomainSnapshotListInternal'', 256),
      (''DomainSnapshotListExternal'', 512),
      (''DomainSnapshotListTopological'', 1024)]"

definition stringer_DomainSnapshotListFlags :: stringer where
  "stringer_DomainSnapshotListFlags =
     Switch
      [Names 1 2 1
        [''DomainSnapshotListRootsDomainSnapshotListMetadata'']
        [0, 23, 49],
       Name 4 ''DomainSnapshotListLeaves'',
       Name 8 ''DomainSnapshotListNoLeaves'',
       Name 16 ''DomainSnapshotListNoMetadata'',
       Name 32 ''DomainSnapshotListInactive'',
       Name 64 ''DomainSnapshotListActive'',
       Name 128 ''DomainSnapshotListDiskOnly'',
       Name 256 ''DomainSnapshotListInternal'',
       Name 512 ''DomainSnapshotListExternal'',
       Name 1024 ''DomainSnapshotListTopological'']"

definition consts_DomainSnapshotRevertFlags :: "(string \<times> int) list" where
  "consts_DomainSnapshotRevertFlags =
     [(''DomainSnapshotRevertRunning'', 1),
      (''DomainSnapshotRevertPaused'', 2),
      (''DomainSnapshotRevertForce'', 4),
      (''DomainSnapshotRevertResetNvram'', 8)]"

definition stringer_DomainSnapshotRevertFlags :: stringer where
  "stringer_DomainSnapshotRevertFlags =
     Switch
      [Names 1 2 1
        [''DomainSnapshotRevertRunningDomainSnapshotRevertPaused'']
        [0, 27, 53],
       Name 4 ''DomainSnapshotRevertForce'',
       Name 8 ''DomainSnapshotRevertResetNvram'']"

definition consts_DomainSnapshotDeleteFlags :: "(string \<times> int) list" where
  "consts_DomainSnapshotDeleteFlags =
     [(''DomainSnapshotDeleteChildren'', 1),
      (''DomainSnapshotDeleteMetadataOnly'', 2),
      (''DomainSnapshotDeleteChildrenOnly'', 4)]"

definition stringer_DomainSnapshotDeleteFlags :: stringer where
  "stringer_DomainSnapshotDeleteFlags =
     Switch
      [Names 1 2 1
        [''DomainSnapshotDeleteChildrenDomainSnapshotDeleteMetadataOnly'']
        [0, 28, 60],
       Name 4 ''DomainSnapshotDeleteChildrenOnly'']"

definition consts_DomainState :: "(string \<times> int) list" where
  "consts_DomainState =
     [(''DomainNostate'', 0),
      (''DomainRunning'', 1),
      (''DomainBlocked'', 2),
      (''DomainPaused'', 3),
      (''DomainShutdown'', 4),
      (''DomainShutoff'', 5),
      (''DomainCrashed'', 6),
      (''DomainPmsuspended'', 7)]"

definition stringer_DomainState :: stringer where
  "stringer_DomainState =
     Indexed 0
       [''DomainNostateDomainRunningDomainBlockedDomainPausedDomainShutdownDomainShutoffDomainCrashed'',
        ''DomainPmsuspended'']
       [0, 13, 26, 39, 51, 65, 78, 91, 108]"

definition consts_DomainNostateReason :: "(string \<times> int) list" where
  "consts_DomainNostateReason =
     [(''DomainNostateUnknown'', 0)]"

definition stringer_DomainNostateReason :: stringer where
  "stringer_DomainNostateReason =
     Indexed 0
       [''DomainNostateUnknown'']
       [0, 20]"

definition consts_DomainRunningReason :: "(string \<times> int) list" where
  "consts_DomainRunningReason =
     [(''DomainRunningUnknown'', 0),
      (''DomainRunningBooted'', 1),
      (''DomainRunningMigrated'', 2),
      (''DomainRunningRestored'', 3),
      (''DomainRunningFromSnapshot'', 4),
      (''DomainRunningUnpaused'', 5),
      (''DomainRunningMigrationCanceled'', 6),
      (''DomainRunningSaveCanceled'', 7),
      (''DomainRunningWakeup'', 8),
      (''DomainRunningCrashed'', 9),
      (''DomainRunningPostcopy'', 10),
      (''DomainRunningPostcopyFailed'', 11)]"

definition stringer_DomainRunningReason :: stringer where
  "stringer_DomainRunningReason =
     Indexed 0
       [''DomainRunningUnknownDomainRunningBootedDomainRunningMigratedDomainRunningRestored'',
        ''DomainRunningFromSnapshotDomainRunningUnpausedDomainRunningMigrationCanceled'',
        ''DomainRunningSaveCanceledDomainRunningWakeupDomainRunningCrashedDomainRunningPostcopy'',
        ''DomainRunningPostcopyFailed'']
       [0, 20, 39, 60, 81, 106, 127, 157, 182, 201, 221, 242, 269]"

definition consts_DomainBlockedReason :: "(string \<times> int) list" where
  "consts_DomainBlockedReason =
     [(''DomainBlockedUnknown'', 0)]"

definition stringer_DomainBlockedReason :: stringer where
  "stringer_DomainBlockedReason =
     Indexed 0
       [''DomainBlockedUnknown'']
       [0, 20]"

definition consts_DomainPausedReason :: "(string \<times> int) list" where
  "consts_DomainPausedReason =
     [(''DomainPausedUnknown'', 0),
      (''DomainPausedUser'', 1),
      (''DomainPausedMigration'', 2),
      (''DomainPausedSave'', 3),
      (''DomainPausedDump'', 4),
      (''DomainPausedIoerror'', 5),
      (''DomainPausedWatchdog'', 6),
      (''DomainPausedFromSnapshot'', 7),
      (''DomainPausedShuttingDown'', 8),
      (''DomainPausedSnapshot'', 9),
      (''DomainPausedCrashed'', 10),
      (''DomainPausedStartingUp'', 11),
      (''DomainPausedPostcopy'', 12),
      (''DomainPausedPostcopyFailed'', 13),
      (''DomainPausedAPIError'', 14)]"

definition stringer_DomainPausedReason :: stringer where
  "stringer_DomainPausedReason =
     Indexed 0
       [''DomainPausedUnknownDomainPausedUserDomainPausedMigrationDomainPausedSaveDomainPausedDump'',
        ''DomainPausedIoerrorDomainPausedWatchdogDomainPausedFromSnapshotDomainPausedShuttingDown'',
        ''DomainPausedSnapshotDomainPausedCrashedDomainPausedStartingUpDomainPausedPostcopy'',
        ''DomainPausedPostcopyFailedDomainPausedAPIError'']
       [0, 19, 35, 56, 72, 88, 107, 127, 151, 175, 195, 214, 236, 256, 282, 302]"

definition consts_DomainShutdownReason :: "(string \<times> int) list" where
  "consts_DomainShutdownReason =
     [(''DomainShutdownUnknown'', 0),
      (''DomainShutdownUser'', 1)]"

definition stringer_DomainShutdownReason :: stringer where
  "stringer_DomainShutdownReason =
     Indexed 0
       [''DomainShutdownUnknownDomainShutdownUser'']
       [0, 21, 39]"

definition consts_DomainShutoffReason :: "(string \<times> int) list" where
  "consts_DomainShutoffReason =
     [(''DomainShutoffUnknown'', 0),
      (''DomainShutoffShutdown'', 1),
      (''DomainShutoffDestroyed'', 2),
      (''DomainShutoffCrashed'', 3),
      (''DomainShutoffMigrated'', 4),
      (''DomainShutoffSaved'', 5),
      (''DomainShutoffFailed'', 6),
      (''DomainShutoffFromSnapshot'', 7),
      (''DomainShutoffDaemon'', 8)]"

definition stringer_DomainShutoffReason :: stringer where
  "stringer_DomainShutoffReason =
     Indexed 0
       [''DomainShutoffUnknownDomainShutoffShutdownDomainShutoffDestroyedDomainShutoffCrashed'',
        ''DomainShutoffMigratedDomainShutoffSavedDomainShutoffFailedDomainShutoffFromSnapshot'',
        ''DomainShutoffDaemon'']
       [0, 20, 41, 63, 83, 104, 122, 141, 166, 185]"

definition consts_DomainCrashedReason :: "(string \<times> int) list" where
  "consts_DomainCrashedReason =
     [(''DomainCrashedUnknown'', 0),
      (''DomainCrashedPanicked'', 1)]"

definition stringer_DomainCrashedReason :: stringer where
  "stringer_DomainCrashedReason =
     Indexed 0
       [''DomainCrashedUnknownDomainCrashedPanicked'']
       [0, 20, 41]"

definition consts_DomainPMSuspendedReason :: "(string \<times> int) list" where
  "consts_DomainPMSuspendedReason =
     [(''DomainPmsuspendedUnknown'', 0)]"

definition stringer_DomainPMSuspendedReason :: stringer where
  "stringer_DomainPMSuspendedReason =
     Indexed 0
       [''DomainPmsuspendedUnknown'']
       [0, 24]"

definition consts_DomainPMSuspendedDiskReason :: "(string \<times> int) list" where
  "consts_DomainPMSuspendedDiskReason =
     [(''DomainPmsuspendedDiskUnknown'', 0)]"

definition stringer_DomainPMSuspendedDiskReason :: stringer where
  "stringer_DomainPMSuspendedDiskReason =
     Indexed 0
       [''DomainPmsuspendedDiskUnknown'']
       [0, 28]"

definition consts_DomainControlState :: "(string \<times> int) list" where
  "consts_DomainControlState =
     [(''DomainControlOk'', 0),
      (''DomainControlJob'', 1),
      (''DomainControlOccupied'', 2),
      (''DomainControlError'', 3)]"

definition stringer_DomainControlState :: stringer where
  "stringer_DomainControlState =
     Indexed 0
       [''DomainControlOkDomainControlJobDomainControlOccupiedDomainControlError'']
       [0, 15, 31, 52, 70]"

definition consts_DomainControlErrorReason :: "(string \<times> int) list" where
  "consts_DomainControlErrorReason =
     [(''DomainControlErrorReasonNone'', 0),
      (''DomainControlErrorReasonUnknown'', 1),
      (''DomainControlErrorReasonMonitor'', 2),
      (''DomainControlErrorReasonInternal'', 3)]"

definition stringer_DomainControlErrorReason :: stringer where
  "stringer_DomainControlErrorReason =
     Indexed 0
       [''DomainControlErrorReasonNoneDomainControlErrorReasonUnknownDomainControlErrorReasonMonitor'',
        ''DomainControlErrorReasonInternal'']
       [0, 28, 59, 90, 122]"

definition consts_DomainModificationImpact :: "(string \<times> int) list" where
  "consts_DomainModificationImpact =
     [(''DomainAffectCurrent'', 0),
      (''DomainAffectLive'', 1),
      (''DomainAffectConfig'', 2)]"

definition stringer_DomainModificationImpact :: stringer where
  "stringer_DomainModificationImpact =
     Indexed 0
       [''DomainAffectCurrentDomainAffectLiveDomainAffectConfig'']
       [0, 19, 35, 53]"

definition consts_DomainCreateFlags :: "(string \<times> int) list" where
  "consts_DomainCreateFlags =
     [(''DomainNone'', 0),
      (''DomainStartPaused'', 1),
      (''DomainStartAutodestroy'', 2),
      (''DomainStartBypassCache'', 4),
      (''DomainStartForceBoot'', 8),
      (''DomainStartValidate'', 16),
      (''DomainStartResetNvram'', 32)]"

definition stringer_DomainCreateFlags :: stringer where
  "stringer_DomainCreateFlags =
     Switch
      [Names 0 2 0
        [''DomainNoneDomainStartPausedDomainStartAutodestroy'']
        [0, 10, 27, 49],
       Name 4 ''DomainStartBypassCache'',
       Name 8 ''DomainStartForceBoot'',
       Name 16 ''DomainStartValidate'',
       Name 32 ''DomainStartResetNvram'']"

definition consts_DomainMemoryStatTags :: "(string \<times> int) list" where
  "consts_DomainMemoryStatTags =
     [(''DomainMemoryStatSwapIn'', 0),
      (''DomainMemoryStatSwapOut'', 1),
      (''DomainMemoryStatMajorFault'', 2),
      (''DomainMemoryStatMinorFault'', 3),
      (''DomainMemoryStatUnused'', 4),
      (''DomainMemoryStatAvailable'', 5),
      (''DomainMemoryStatActualBalloon'', 6),
      (''DomainMemoryStatRss'', 7),
      (''DomainMemoryStatUsable'', 8),
      (''DomainMemoryStatLastUpdate'', 9),
      (''DomainMemoryStatDiskCaches'', 10),
      (''DomainMemoryStatHugetlbPgalloc'', 11),
      (''DomainMemoryStatHugetlbPgfail'', 12),
      (''DomainMemoryStatNr'', 13)]"

definition stringer_DomainMemoryStatTags :: stringer where
  "stringer_DomainMemoryStatTags =
     Indexed 0
       [''DomainMemoryStatSwapInDomainMemoryStatSwapOutDomainMemoryStatMajorFault'',
        ''DomainMemoryStatMinorFaultDomainMemoryStatUnusedDomainMemoryStatAvailable'',
        ''DomainMemoryStatActualBalloonDomainMemoryStatRssDomainMemoryStatUsable'',
        ''DomainMemoryStatLastUpdateDomainMemoryStatDiskCachesDomainMemoryStatHugetlbPgalloc'',
        ''DomainMemoryStatHugetlbPgfailDomainMemoryStatNr'']
       [0, 22, 45, 71, 97, 119, 144, 173, 192, 214, 240, 266, 296, 325, 343]"

definition consts_DomainCoreDumpFlags :: "(string \<times> int) list" where
  "consts_DomainCoreDumpFlags =
     [(''DumpCrash'', 1),
      (''DumpLive'', 2),
      (''DumpBypassCache'', 4),
      (''DumpReset'', 8),
      (''DumpMemoryOnly'', 16)]"

definition stringer_DomainCoreDumpFlags :: stringer where
  "stringer_DomainCoreDumpFlags =
     Switch
      [Names 1 2 1
        [''DumpCrashDumpLive'']
        [0, 9, 17],
       Name 4 ''DumpBypassCache'',
       Name 8 ''DumpReset'',
       Name 16 ''DumpMemoryOnly'']"

definition consts_DomainCoreDumpFormat :: "(string \<times> int) list" where
  "consts_DomainCoreDumpFormat =
     [(''DomainCoreDumpFormatRaw'', 0),
      (''DomainCoreDumpFormatKdumpZlib'', 1),
      (''DomainCoreDumpFormatKdumpLzo'', 2),
      (''DomainCoreDumpFormatKdumpSnappy'', 3),
      (''DomainCoreDumpFormatWinDmp'', 4)]"

definition stringer_DomainCoreDumpFormat :: stringer where
  "stringer_DomainCoreDumpFormat =
     Indexed 0
       [''DomainCoreDumpFormatRawDomainCoreDumpFormatKdumpZlibDomainCoreDumpFormatKdumpLzo'',
        ''DomainCoreDumpFormatKdumpSnappyDomainCoreDumpFormatWinDmp'']
       [0, 23, 52, 80, 111, 137]"

definition consts_DomainMigrateFlags :: "(string \<times> int) list" where
  "consts_DomainMigrateFlags =
     [(''MigrateLive'', 1),
      (''MigratePeer2peer'', 2),
      (''MigrateTunnelled'', 4),
      (''MigratePersistDest'', 8),
      (''MigrateUndefineSource'', 16),
      (''MigratePaused'', 32),
      (''MigrateNonSharedDisk'', 64),
      (''MigrateNonSharedInc'', 128),
      (''MigrateChangeProtection'', 256),
      (''MigrateUnsafe'', 512),
      (''MigrateOffline'', 1024),
      (''MigrateCompressed'', 2048),
      (''MigrateAbortOnError'', 4096),
      (''MigrateAutoConverge'', 8192),
      (''MigrateRdmaPinAll'', 16384),
      (''MigratePostcopy'', 32768),
      (''MigrateTLS'', 65536),
      (''MigrateParallel'', 131072),
      (''MigrateNonSharedSynchronousWrites'', 262144),
      (''MigratePostcopyResume'', 524288),
      (''MigrateZerocopy'', 1048576)]"

definition stringer_DomainMigrateFlags :: stringer where
  "stringer_DomainMigrateFlags =
     Table
       [''MigrateLiveMigratePeer2peerMigrateTunnelledMigratePersistDestMigrateUndefineSourceMigratePaused'',
        ''MigrateNonSharedDiskMigrateNonSharedIncMigrateChangeProtectionMigrateUnsafeMigrateOffline'',
        ''MigrateCompressedMigrateAbortOnErrorMigrateAutoConvergeMigrateRdmaPinAllMigratePostcopy'',
        ''MigrateTLSMigrateParallelMigrateNonSharedSynchronousWritesMigratePostcopyResumeMigrateZerocopy'']
       [(1, 0, 11), (2, 11, 27), (4, 27, 43), (8, 43, 61), (16, 61, 82), (32, 82, 95),
        (64, 95, 115), (128, 115, 134), (256, 134, 157), (512, 157, 170), (1024, 170, 184),
        (2048, 184, 201), (4096, 201, 220), (8192, 220, 239), (16384, 239, 256), (32768, 256, 271),
        (65536, 271, 281), (131072, 281, 296), (262144, 296, 329), (524288, 329, 350),
        (1048576, 350, 365)]"

definition consts_DomainMigrateMaxSpeedFlags :: "(string \<times> int) list" where
  "consts_DomainMigrateMaxSpeedFlags =
     [(''DomainMigrateMaxSpeedPostcopy'', 1)]"

definition stringer_DomainMigrateMaxSpeedFlags :: stringer where
  "stringer_DomainMigrateMaxSpeedFlags =
     Indexed 1
       [''DomainMigrateMaxSpeedPostcopy'']
       [0, 29]"

definition consts_ConnectGetDomainCapabilitiesFlags :: "(string \<times> int) list" where
  "consts_ConnectGetDomainCapabilitiesFlags =
     [(''ConnectGetDomainCapabilitiesDisableDeprecatedFeatures'', 1)]"

definition stringer_ConnectGetDomainCapabilitiesFlags :: stringer where
  "stringer_ConnectGetDomainCapabilitiesFlags =
     Indexed 1
       [''ConnectGetDomainCapabilitiesDisableDeprecatedFeatures'']
       [0, 53]"

definition consts_DomainShutdownFlagValues :: "(string \<times> int) list" where
  "consts_DomainShutdownFlagValues =
     [(''DomainShutdownDefault'', 0),
      (''DomainShutdownAcpiPowerBtn'', 1),
      (''DomainShutdownGuestAgent'', 2),
      (''DomainShutdownInitctl'', 4),
      (''DomainShutdownSignal'', 8),
      (''DomainShutdownParavirt'', 16)]"

definition stringer_DomainShutdownFlagValues :: stringer where
  "stringer_DomainShutdownFlagValues =
     Switch
      [Names 0 2 0
        [''DomainShutdownDefaultDomainShutdownAcpiPowerBtnDomainShutdownGuestAgent'']
        [0, 21, 47, 71],
       Name 4 ''DomainShutdownInitctl'',
       Name 8 ''DomainShutdownSignal'',
       Name 16 ''DomainShutdownParavirt'']"

definition consts_DomainRebootFlagValues :: "(string \<times> int) list" where
  "consts_DomainRebootFlagValues =
     [(''DomainRebootDefault'', 0),
      (''DomainRebootAcpiPowerBtn'', 1),
      (''DomainRebootGuestAgent'', 2),
      (''DomainRebootInitctl'', 4),
      (''DomainRebootSignal'', 8),
      (''DomainRebootParavirt'', 16)]"

definition stringer_DomainRebootFlagValues :: stringer where
  "stringer_DomainRebootFlagValues =
     Switch
      [Names 0 2 0
        [''DomainRebootDefaultDomainRebootAcpiPowerBtnDomainRebootGuestAgent'']
        [0, 19, 43, 65],
       Name 4 ''DomainRebootInitctl'',
       Name 8 ''DomainRebootSignal'',
       Name 16 ''DomainRebootParavirt'']"

definition consts_DomainDestroyFlagsValues :: "(string \<times> int) list" where
  "consts_DomainDestroyFlagsValues =
     [(''DomainDestroyDefault'', 0),
      (''DomainDestroyGraceful'', 1),
      (''DomainDestroyRemoveLogs'', 2)]"

definition stringer_DomainDestroyFlagsValues :: stringer where
  "stringer_DomainDestroyFlagsValues =
     Indexed 0
       [''DomainDestroyDefaultDomainDestroyGracefulDomainDestroyRemoveLogs'']
       [0, 20, 41, 64]"

definition consts_DomainSaveRestoreFlags :: "(string \<times> int) list" where
  "consts_DomainSaveRestoreFlags =
     [(''DomainSaveBypassCache'', 1),
      (''DomainSaveRunning'', 2),
      (''DomainSavePaused'', 4),
      (''DomainSaveResetNvram'', 8)]"

definition stringer_DomainSaveRestoreFlags :: stringer where
  "stringer_DomainSaveRestoreFlags =
     Switch
      [Names 1 2 1
        [''DomainSaveBypassCacheDomainSaveRunning'']
        [0, 21, 38],
       Name 4 ''DomainSavePaused'',
       Name 8 ''DomainSaveResetNvram'']"

definition consts_DomainMemoryModFlags :: "(string \<times> int) list" where
  "consts_DomainMemoryModFlags =
     [(''DomainMemCurrent'', 0),
      (''DomainMemLive'', 1),
      (''DomainMemConfig'', 2),
      (''DomainMemMaximum'', 4)]"

definition stringer_DomainMemoryModFlags :: stringer where
  "stringer_DomainMemoryModFlags =
     Switch
      [Names 0 2 0
        [''DomainMemCurrentDomainMemLiveDomainMemConfig'']
        [0, 16, 29, 44],
       Name 4 ''DomainMemMaximum'']"

definition consts_DomainNumatuneMemMode :: "(string \<times> int) list" where
  "consts_DomainNumatuneMemMode =
     [(''DomainNumatuneMemStrict'', 0),
      (''DomainNumatuneMemPreferred'', 1),
      (''DomainNumatuneMemInterleave'', 2),
      (''DomainNumatuneMemRestrictive'', 3)]"

definition stringer_DomainNumatuneMemMode :: stringer where
  "stringer_DomainNumatuneMemMode =
     Indexed 0
       [''DomainNumatuneMemStrictDomainNumatuneMemPreferredDomainNumatuneMemInterleave'',
        ''DomainNumatuneMemRestrictive'']
       [0, 23, 49, 76, 104]"

definition enums_1_1 :: "enumeration list" where
  "enums_1_1 =
     [\<lparr>enum_type = ''ConnectCloseReason'', unsigned_type = False,
       constants = consts_ConnectCloseReason, stringer = stringer_ConnectCloseReason\<rparr>,
      \<lparr>enum_type = ''TypedParameterType'', unsigned_type = False,
       constants = consts_TypedParameterType, stringer = stringer_TypedParameterType\<rparr>,
      \<lparr>enum_type = ''TypedParameterFlags'', unsigned_type = False,
       constants = consts_TypedParameterFlags, stringer = stringer_TypedParameterFlags\<rparr>,
      \<lparr>enum_type = ''DomainCheckpointCreateFlags'', unsigned_type = False,
       constants = consts_DomainCheckpointCreateFlags, stringer = stringer_DomainCheckpointCreateFlags\<rparr>,
      \<lparr>enum_type = ''DomainCheckpointXMLFlags'', unsigned_type = False,
       constants = consts_DomainCheckpointXMLFlags, stringer = stringer_DomainCheckpointXMLFlags\<rparr>,
      \<lparr>enum_type = ''DomainCheckpointListFlags'', unsigned_type = False,
       constants = consts_DomainCheckpointListFlags, stringer = stringer_DomainCheckpointListFlags\<rparr>,
      \<lparr>enum_type = ''DomainCheckpointDeleteFlags'', unsigned_type = False,
       constants = consts_DomainCheckpointDeleteFlags, stringer = stringer_DomainCheckpointDeleteFlags\<rparr>,
      \<lparr>enum_type = ''DomainSnapshotCreateFlags'', unsigned_type = False,
       constants = consts_DomainSnapshotCreateFlags, stringer = stringer_DomainSnapshotCreateFlags\<rparr>]"

lemma enums_1_1_checked: "list_all checked_enum enums_1_1" "list_all proper_hashes enums_1_1"
  by code_simp+

definition enums_1_2 :: "enumeration list" where
  "enums_1_2 =
     [\<lparr>enum_type = ''DomainSnapshotXMLFlags'', unsigned_type = False,
       constants = consts_DomainSnapshotXMLFlags, stringer = stringer_DomainSnapshotXMLFlags\<rparr>,
      \<lparr>enum_type = ''DomainSnapshotListFlags'', unsigned_type = False,
       constants = consts_DomainSnapshotListFlags, stringer = stringer_DomainSnapshotListFlags\<rparr>,
      \<lparr>enum_type = ''DomainSnapshotRevertFlags'', unsigned_type = False,
       constants = consts_DomainSnapshotRevertFlags, stringer = stringer_DomainSnapshotRevertFlags\<rparr>,
      \<lparr>enum_type = ''DomainSnapshotDeleteFlags'', unsigned_type = False,
       constants = consts_DomainSnapshotDeleteFlags, stringer = stringer_DomainSnapshotDeleteFlags\<rparr>,
      \<lparr>enum_type = ''DomainState'', unsigned_type = False,
       constants = consts_DomainState, stringer = stringer_DomainState\<rparr>,
      \<lparr>enum_type = ''DomainNostateReason'', unsigned_type = False,
       constants = consts_DomainNostateReason, stringer = stringer_DomainNostateReason\<rparr>,
      \<lparr>enum_type = ''DomainRunningReason'', unsigned_type = False,
       constants = consts_DomainRunningReason, stringer = stringer_DomainRunningReason\<rparr>,
      \<lparr>enum_type = ''DomainBlockedReason'', unsigned_type = False,
       constants = consts_DomainBlockedReason, stringer = stringer_DomainBlockedReason\<rparr>]"

lemma enums_1_2_checked: "list_all checked_enum enums_1_2" "list_all proper_hashes enums_1_2"
  by code_simp+

definition enums_1_3 :: "enumeration list" where
  "enums_1_3 =
     [\<lparr>enum_type = ''DomainPausedReason'', unsigned_type = False,
       constants = consts_DomainPausedReason, stringer = stringer_DomainPausedReason\<rparr>,
      \<lparr>enum_type = ''DomainShutdownReason'', unsigned_type = False,
       constants = consts_DomainShutdownReason, stringer = stringer_DomainShutdownReason\<rparr>,
      \<lparr>enum_type = ''DomainShutoffReason'', unsigned_type = False,
       constants = consts_DomainShutoffReason, stringer = stringer_DomainShutoffReason\<rparr>,
      \<lparr>enum_type = ''DomainCrashedReason'', unsigned_type = False,
       constants = consts_DomainCrashedReason, stringer = stringer_DomainCrashedReason\<rparr>,
      \<lparr>enum_type = ''DomainPMSuspendedReason'', unsigned_type = False,
       constants = consts_DomainPMSuspendedReason, stringer = stringer_DomainPMSuspendedReason\<rparr>,
      \<lparr>enum_type = ''DomainPMSuspendedDiskReason'', unsigned_type = False,
       constants = consts_DomainPMSuspendedDiskReason, stringer = stringer_DomainPMSuspendedDiskReason\<rparr>,
      \<lparr>enum_type = ''DomainControlState'', unsigned_type = False,
       constants = consts_DomainControlState, stringer = stringer_DomainControlState\<rparr>,
      \<lparr>enum_type = ''DomainControlErrorReason'', unsigned_type = False,
       constants = consts_DomainControlErrorReason, stringer = stringer_DomainControlErrorReason\<rparr>]"

lemma enums_1_3_checked: "list_all checked_enum enums_1_3" "list_all proper_hashes enums_1_3"
  by code_simp+

definition enums_1_4 :: "enumeration list" where
  "enums_1_4 =
     [\<lparr>enum_type = ''DomainModificationImpact'', unsigned_type = False,
       constants = consts_DomainModificationImpact, stringer = stringer_DomainModificationImpact\<rparr>,
      \<lparr>enum_type = ''DomainCreateFlags'', unsigned_type = False,
       constants = consts_DomainCreateFlags, stringer = stringer_DomainCreateFlags\<rparr>,
      \<lparr>enum_type = ''DomainMemoryStatTags'', unsigned_type = False,
       constants = consts_DomainMemoryStatTags, stringer = stringer_DomainMemoryStatTags\<rparr>,
      \<lparr>enum_type = ''DomainCoreDumpFlags'', unsigned_type = False,
       constants = consts_DomainCoreDumpFlags, stringer = stringer_DomainCoreDumpFlags\<rparr>,
      \<lparr>enum_type = ''DomainCoreDumpFormat'', unsigned_type = False,
       constants = consts_DomainCoreDumpFormat, stringer = stringer_DomainCoreDumpFormat\<rparr>,
      \<lparr>enum_type = ''DomainMigrateFlags'', unsigned_type = False,
       constants = consts_DomainMigrateFlags, stringer = stringer_DomainMigrateFlags\<rparr>,
      \<lparr>enum_type = ''DomainMigrateMaxSpeedFlags'', unsigned_type = False,
       constants = consts_DomainMigrateMaxSpeedFlags, stringer = stringer_DomainMigrateMaxSpeedFlags\<rparr>,
      \<lparr>enum_type = ''ConnectGetDomainCapabilitiesFlags'', unsigned_type = False,
       constants = consts_ConnectGetDomainCapabilitiesFlags, stringer = stringer_ConnectGetDomainCapabilitiesFlags\<rparr>]"

lemma enums_1_4_checked: "list_all checked_enum enums_1_4" "list_all proper_hashes enums_1_4"
  by code_simp+

definition enums_1_5 :: "enumeration list" where
  "enums_1_5 =
     [\<lparr>enum_type = ''DomainShutdownFlagValues'', unsigned_type = False,
       constants = consts_DomainShutdownFlagValues, stringer = stringer_DomainShutdownFlagValues\<rparr>,
      \<lparr>enum_type = ''DomainRebootFlagValues'', unsigned_type = False,
       constants = consts_DomainRebootFlagValues, stringer = stringer_DomainRebootFlagValues\<rparr>,
      \<lparr>enum_type = ''DomainDestroyFlagsValues'', unsigned_type = False,
       constants = consts_DomainDestroyFlagsValues, stringer = stringer_DomainDestroyFlagsValues\<rparr>,
      \<lparr>enum_type = ''DomainSaveRestoreFlags'', unsigned_type = False,
       constants = consts_DomainSaveRestoreFlags, stringer = stringer_DomainSaveRestoreFlags\<rparr>,
      \<lparr>enum_type = ''DomainMemoryModFlags'', unsigned_type = False,
       constants = consts_DomainMemoryModFlags, stringer = stringer_DomainMemoryModFlags\<rparr>,
      \<lparr>enum_type = ''DomainNumatuneMemMode'', unsigned_type = False,
       constants = consts_DomainNumatuneMemMode, stringer = stringer_DomainNumatuneMemMode\<rparr>]"

lemma enums_1_5_checked: "list_all checked_enum enums_1_5" "list_all proper_hashes enums_1_5"
  by code_simp+

definition enums_1 :: "enumeration list" where
  "enums_1 = enums_1_1 @ enums_1_2 @ enums_1_3 @ enums_1_4 @ enums_1_5"

lemma enums_1_checked: "list_all checked_enum enums_1" "list_all proper_hashes enums_1"
  by (simp_all add: enums_1_def enums_1_1_checked enums_1_2_checked enums_1_3_checked enums_1_4_checked enums_1_5_checked)

end
