(* ===== verification/Const_Enums_2.thy ===== *)
theory Const_Enums_2
  imports Const_Stringer
begin

text \<open>
  Enumerations of \<open>src/const.gen.go\<close> with their \<open>String\<close> methods of \<open>src/const_strings.gen.go\<close>, from
  \<open>DomainGetHostnameFlags\<close> to \<open>DomainEventStartedDetailType\<close>: the constants in the order of the source, and the string, the index
  table, the cases or the map of the method.
\<close>

definition consts_DomainGetHostnameFlags :: "(string \<times> int) list" where
  "consts_DomainGetHostnameFlags =
     [(''DomainGetHostnameLease'', 1),
      (''DomainGetHostnameAgent'', 2)]"

definition stringer_DomainGetHostnameFlags :: stringer where
  "stringer_DomainGetHostnameFlags =
     Indexed 1
       [''DomainGetHostnameLeaseDomainGetHostnameAgent'']
       [0, 22, 44]"

definition consts_DomainMetadataType :: "(string \<times> int) list" where
  "consts_DomainMetadataType =
     [(''DomainMetadataDescription'', 0),
      (''DomainMetadataTitle'', 1),
      (''DomainMetadataElement'', 2)]"

definition stringer_DomainMetadataType :: stringer where
  "stringer_DomainMetadataType =
     Indexed 0
       [''DomainMetadataDescriptionDomainMetadataTitleDomainMetadataElement'']
       [0, 25, 44, 65]"

definition consts_DomainXMLFlags :: "(string \<times> int) list" where
  "consts_DomainXMLFlags =
     [(''DomainXMLSecure'', 1),
      (''DomainXMLInactive'', 2),
      (''DomainXMLUpdateCPU'', 4),
      (''DomainXMLMigratable'', 8)]"

definition stringer_DomainXMLFlags :: stringer where
  "stringer_DomainXMLFlags =
     Switch
      [Names 1 2 1
        [''DomainXMLSecureDomainXMLInactive'']
        [0, 15, 32],
       Name 4 ''DomainXMLUpdateCPU'',
       Name 8 ''DomainXMLMigratable'']"

definition consts_DomainSaveImageXMLFlags :: "(string \<times> int) list" where
  "consts_DomainSaveImageXMLFlags =
     [(''DomainSaveImageXMLSecure'', 1)]"

definition stringer_DomainSaveImageXMLFlags :: stringer where
  "stringer_DomainSaveImageXMLFlags =
     Indexed 1
       [''DomainSaveImageXMLSecure'']
       [0, 24]"

definition consts_DomainBlockResizeFlags :: "(string \<times> int) list" where
  "consts_DomainBlockResizeFlags =
     [(''DomainBlockResizeBytes'', 1),
      (''DomainBlockResizeCapacity'', 2)]"

definition stringer_DomainBlockResizeFlags :: stringer where
  "stringer_DomainBlockResizeFlags =
     Indexed 1
       [''DomainBlockResizeBytesDomainBlockResizeCapacity'']
       [0, 22, 47]"

definition consts_DomainMemoryFlags :: "(string \<times> int) list" where
  "consts_DomainMemoryFlags =
     [(''MemoryVirtual'', 1),
      (''MemoryPhysical'', 2)]"

definition stringer_DomainMemoryFlags :: stringer where
  "stringer_DomainMemoryFlags =
     Indexed 1
       [''MemoryVirtualMemoryPhysical'']
       [0, 13, 27]"

definition consts_DomainDefineFlags :: "(string \<times> int) list" where
  "consts_DomainDefineFlags =
     [(''DomainDefineValidate'', 1)]"

definition stringer_DomainDefineFlags :: stringer where
  "stringer_DomainDefineFlags =
     Indexed 1
       [''DomainDefineValidate'']
       [0, 20]"

definition consts_DomainUndefineFlagsValues :: "(string \<times> int) list" where
  "consts_DomainUndefineFlagsValues =
     [(''DomainUndefineManagedSave'', 1),
      (''DomainUndefineSnapshotsMetadata'', 2),
      (''DomainUndefineNvram'', 4),
      (''DomainUndefineKeepNvram'', 8),
      (''DomainUndefineCheckpointsMetadata'', 16),
      (''DomainUndefineTpm'', 32),
      (''DomainUndefineKeepTpm'', 64)]"

definition stringer_DomainUndefineFlagsValues :: stringer where
  "stringer_DomainUndefineFlagsValues =
     Switch
      [Names 1 2 1
        [''DomainUndefineManagedSaveDomainUndefineSnapshotsMetadata'']
        [0, 25, 56],
       Name 4 ''DomainUndefineNvram'',
       Name 8 ''DomainUndefineKeepNvram'',
       Name 16 ''DomainUndefineCheckpointsMetadata'',
       Name 32 ''DomainUndefineTpm'',
       Name 64 ''DomainUndefineKeepTpm'']"

definition consts_ConnectListAllDomainsFlags :: "(string \<times> int) list" where
  "consts_ConnectListAllDomainsFlags =
     [(''ConnectListDomainsActive'', 1),
      (''ConnectListDomainsInactive'', 2),
      (''ConnectListDomainsPersistent'', 4),
      (''ConnectListDomainsTransient'', 8),
      (''ConnectListDomainsRunning'', 16),
      (''ConnectListDomainsPaused'', 32),
      (''ConnectListDomainsShutoff'', 64),
      (''ConnectListDomainsOther'', 128),
      (''ConnectListDomainsManagedsave'', 256),
      (''ConnectListDomainsNoManagedsave'', 512),
      (''ConnectListDomainsAutostart'', 1024),
      (''ConnectListDomainsNoAutostart'', 2048),
      (''ConnectListDomainsHasSnapshot'', 4096),
      (''ConnectListDomainsNoSnapshot'', 8192),
      (''ConnectListDomainsHasCheckpoint'', 16384),
      (''ConnectListDomainsNoCheckpoint'', 32768)]"

definition stringer_ConnectListAllDomainsFlags :: stringer where
  "stringer_ConnectListAllDomainsFlags =
     Table
       [''ConnectListDomainsActiveConnectListDomainsInactiveConnectListDomainsPersistent'',
        ''ConnectListDomainsTransientConnectListDomainsRunningConnectListDomainsPaused'',
        ''ConnectListDomainsShutoffConnectListDomainsOtherConnectListDomainsManagedsave'',
        ''ConnectListDomainsNoManagedsaveConnectListDomainsAutostartConnectListDomainsNoAutostart'',
        ''ConnectListDomainsHasSnapshotConnectListDomainsNoSnapshotConnectListDomainsHasCheckpoint'',
        ''ConnectListDomainsNoCheckpoint'']
       [(1, 0, 24), (2, 24, 50), (4, 50, 78), (8, 78, 105), (16, 105, 130), (32, 130, 154),
        (64, 154, 179), (128, 179, 202), (256, 202, 231), (512, 231, 262), (1024, 262, 289),
        (2048, 289, 318), (4096, 318, 347), (8192, 347, 375), (16384, 375, 406), (32768, 406, 436)]"

definition consts_VCPUState :: "(string \<times> int) list" where
  "consts_VCPUState =
     [(''VCPUOffline'', 0),
      (''VCPURunning'', 1),
      (''VCPUBlocked'', 2)]"

definition stringer_VCPUState :: stringer where
  "stringer_VCPUState =
     Indexed 0
       [''VCPUOfflineVCPURunningVCPUBlocked'']
       [0, 11, 22, 33]"

definition consts_VCPUHostCPUState :: "(string \<times> int) list" where
  "consts_VCPUHostCPUState =
     [(''VCPUInfoCPUOffline'', (- 1)),
      (''VCPUInfoCPUUnavailable'', (- 2))]"

definition stringer_VCPUHostCPUState :: stringer where
  "stringer_VCPUHostCPUState =
     Indexed (- 2)
       [''VCPUInfoCPUUnavailableVCPUInfoCPUOffline'']
       [0, 22, 40]"

definition consts_DomainVCPUFlags :: "(string \<times> int) list" where
  "consts_DomainVCPUFlags =
     [(''DomainVCPUCurrent'', 0),
      (''DomainVCPULive'', 1),
      (''DomainVCPUConfig'', 2),
      (''DomainVCPUMaximum'', 4),
      (''DomainVCPUGuest'', 8),
      (''DomainVCPUHotpluggable'', 16)]"

definition stringer_DomainVCPUFlags :: stringer where
  "stringer_DomainVCPUFlags =
     Switch
      [Names 0 2 0
        [''DomainVCPUCurrentDomainVCPULiveDomainVCPUConfig'']
        [0, 17, 31, 47],
       Name 4 ''DomainVCPUMaximum'',
       Name 8 ''DomainVCPUGuest'',
       Name 16 ''DomainVCPUHotpluggable'']"

definition consts_DomainDeviceModifyFlags :: "(string \<times> int) list" where
  "consts_DomainDeviceModifyFlags =
     [(''DomainDeviceModifyCurrent'', 0),
      (''DomainDeviceModifyLive'', 1),
      (''DomainDeviceModifyConfig'', 2),
      (''DomainDeviceModifyForce'', 4)]"

definition stringer_DomainDeviceModifyFlags :: stringer where
  "stringer_DomainDeviceModifyFlags =
     Switch
      [Names 0 2 0
        [''DomainDeviceModifyCurrentDomainDeviceModifyLiveDomainDeviceModifyConfig'']
        [0, 25, 47, 71],
       Name 4 ''DomainDeviceModifyForce'']"

definition consts_DomainStatsTypes :: "(string \<times> int) list" where
  "consts_DomainStatsTypes =
     [(''DomainStatsState'', 1),
      (''DomainStatsCPUTotal'', 2),
      (''DomainStatsBalloon'', 4),
      (''DomainStatsVCPU'', 8),
      (''DomainStatsInterface'', 16),
      (''DomainStatsBlock'', 32),
      (''DomainStatsPerf'', 64),
      (''DomainStatsIothread'', 128),
      (''DomainStatsMemory'', 256),
      (''DomainStatsDirtyrate'', 512),
      (''DomainStatsVm'', 1024)]"

definition stringer_DomainStatsTypes :: stringer where
  "stringer_DomainStatsTypes =
     Switch
      [Names 1 2 1
        [''DomainStatsStateDomainStatsCPUTotal'']
        [0, 16, 35],
       Name 4 ''DomainStatsBalloon'',
       Name 8 ''DomainStatsVCPU'',
       Name 16 ''DomainStatsInterface'',
       Name 32 ''DomainStatsBlock'',
       Name 64 ''DomainStatsPerf'',
       Name 128 ''DomainStatsIothread'',
       Name 256 ''DomainStatsMemory'',
       Name 512 ''DomainStatsDirtyrate'',
       Name 1024 ''DomainStatsVm'']"

definition consts_ConnectGetAllDomainStatsFlags :: "(string \<times> int) list" where
  "consts_ConnectGetAllDomainStatsFlags =
     [(''ConnectGetAllDomainsStatsActive'', 1),
      (''ConnectGetAllDomainsStatsInactive'', 2),
      (''ConnectGetAllDomainsStatsPersistent'', 4),
      (''ConnectGetAllDomainsStatsTransient'', 8),
      (''ConnectGetAllDomainsStatsRunning'', 16),
      (''ConnectGetAllDomainsStatsPaused'', 32),
      (''ConnectGetAllDomainsStatsShutoff'', 64),
      (''ConnectGetAllDomainsStatsOther'', 128),
      (''ConnectGetAllDomainsStatsNowait'', 536870912),
      (''ConnectGetAllDomainsStatsBacking'', 1073741824),
      (''ConnectGetAllDomainsStatsEnforceStats'', 2147483648)]"

definition stringer_ConnectGetAllDomainStatsFlags :: stringer where
  "stringer_ConnectGetAllDomainStatsFlags =
     Switch
      [Names 1 2 1
        [''ConnectGetAllDomainsStatsActiveConnectGetAllDomainsStatsInactive'']
        [0, 31, 64],
       Name 4 ''ConnectGetAllDomainsStatsPersistent'',
       Name 8 ''ConnectGetAllDomainsStatsTransient'',
       Name 16 ''ConnectGetAllDomainsStatsRunning'',
       Name 32 ''ConnectGetAllDomainsStatsPaused'',
       Name 64 ''ConnectGetAllDomainsStatsShutoff'',
       Name 128 ''ConnectGetAllDomainsStatsOther'',
       Name 536870912 ''ConnectGetAllDomainsStatsNowait'',
       Name 1073741824 ''ConnectGetAllDomainsStatsBacking'',
       Name 2147483648 ''ConnectGetAllDomainsStatsEnforceStats'']"

definition consts_DomainBlockJobType :: "(string \<times> int) list" where
  "consts_DomainBlockJobType =
     [(''DomainBlockJobTypeUnknown'', 0),
      (''DomainBlockJobTypePull'', 1),
      (''DomainBlockJobTypeCopy'', 2),
      (''DomainBlockJobTypeCommit'', 3),
      (''DomainBlockJobTypeActiveCommit'', 4),
      (''DomainBlockJobTypeBackup'', 5)]"

definition stringer_DomainBlockJobType :: stringer where
  "stringer_DomainBlockJobType =
     Indexed 0
       [''DomainBlockJobTypeUnknownDomainBlockJobTypePullDomainBlockJobTypeCopyDomainBlockJobTypeCommit'',
        ''DomainBlockJobTypeActiveCommitDomainBlockJobTypeBackup'']
       [0, 25, 47, 69, 93, 123, 147]"

definition consts_DomainBlockJobAbortFlags :: "(string \<times> int) list" where
  "consts_DomainBlockJobAbortFlags =
     [(''DomainBlockJobAbortAsync'', 1),
      (''DomainBlockJobAbortPivot'', 2)]"

definition stringer_DomainBlockJobAbortFlags :: stringer where
  "stringer_DomainBlockJobAbortFlags =
     Indexed 1
       [''DomainBlockJobAbortAsyncDomainBlockJobAbortPivot'']
       [0, 24, 48]"

definition consts_DomainBlockJobInfoFlags :: "(string \<times> int) list" where
  "consts_DomainBlockJobInfoFlags =
     [(''DomainBlockJobInfoBandwidthBytes'', 1)]"

definition stringer_DomainBlockJobInfoFlags :: stringer where
  "stringer_DomainBlockJobInfoFlags =
     Indexed 1
       [''DomainBlockJobInfoBandwidthBytes'']
       [0, 32]"

definition consts_DomainBlockJobSetSpeedFlags :: "(string \<times> int) list" where
  "consts_DomainBlockJobSetSpeedFlags =
     [(''DomainBlockJobSpeedBandwidthBytes'', 1)]"

definition stringer_DomainBlockJobSetSpeedFlags :: stringer where
  "stringer_DomainBlockJobSetSpeedFlags =
     Indexed 1
       [''DomainBlockJobSpeedBandwidthBytes'']
       [0, 33]"

definition consts_DomainBlockPullFlags :: "(string \<times> int) list" where
  "consts_DomainBlockPullFlags =
     [(''DomainBlockPullBandwidthBytes'', 64)]"

definition stringer_DomainBlockPullFlags :: stringer where
  "stringer_DomainBlockPullFlags =
     Indexed 64
       [''DomainBlockPullBandwidthBytes'']
       [0, 29]"

definition consts_DomainBlockRebaseFlags :: "(string \<times> int) list" where
  "consts_DomainBlockRebaseFlags =
     [(''DomainBlockRebaseShallow'', 1),
      (''DomainBlockRebaseReuseExt'', 2),
      (''DomainBlockRebaseCopyRaw'', 4),
      (''DomainBlockRebaseCopy'', 8),
      (''DomainBlockRebaseRelative'', 16),
      (''DomainBlockRebaseCopyDev'', 32),
      (''DomainBlockRebaseBandwidthBytes'', 64)]"

definition stringer_DomainBlockRebaseFlags :: stringer where
  "stringer_DomainBlockRebaseFlags =
     Switch
      [Names 1 2 1
        [''DomainBlockRebaseShallowDomainBlockRebaseReuseExt'']
        [0, 24, 49],
       Name 4 ''DomainBlockRebaseCopyRaw'',
       Name 8 ''DomainBlockRebaseCopy'',
       Name 16 ''DomainBlockRebaseRelative'',
       Name 32 ''DomainBlockRebaseCopyDev'',
       Name 64 ''DomainBlockRebaseBandwidthBytes'']"

definition consts_DomainBlockCopyFlags :: "(string \<times> int) list" where
  "consts_DomainBlockCopyFlags =
     [(''DomainBlockCopyShallow'', 1),
      (''DomainBlockCopyReuseExt'', 2),
      (''DomainBlockCopyTransientJob'', 4),
      (''DomainBlockCopySynchronousWrites'', 8)]"

definition stringer_DomainBlockCopyFlags :: stringer where
  "stringer_DomainBlockCopyFlags =
     Switch
      [Names 1 2 1
        [''DomainBlockCopyShallowDomainBlockCopyReuseExt'']
        [0, 22, 45],
       Name 4 ''DomainBlockCopyTransientJob'',
       Name 8 ''DomainBlockCopySynchronousWrites'']"

definition consts_DomainBlockCommitFlags :: "(string \<times> int) list" where
  "consts_DomainBlockCommitFlags =
     [(''DomainBlockCommitShallow'', 1),
      (''DomainBlockCommitDelete'', 2),
      (''DomainBlockCommitActive'', 4),
      (''DomainBlockCommitRelative'', 8),
      (''DomainBlockCommitBandwidthBytes'', 16)]"

definition stringer_DomainBlockCommitFlags :: stringer where
  "stringer_DomainBlockCommitFlags =
     Switch
      [Names 1 2 1
        [''DomainBlockCommitShallowDomainBlockCommitDelete'']
        [0, 24, 47],
       Name 4 ''DomainBlockCommitActive'',
       Name 8 ''DomainBlockCommitRelative'',
       Name 16 ''DomainBlockCommitBandwidthBytes'']"

definition consts_DomainDiskErrorCode :: "(string \<times> int) list" where
  "consts_DomainDiskErrorCode =
     [(''DomainDiskErrorNone'', 0),
      (''DomainDiskErrorUnspec'', 1),
      (''DomainDiskErrorNoSpace'', 2)]"

definition stringer_DomainDiskErrorCode :: stringer where
  "stringer_DomainDiskErrorCode =
     Indexed 0
       [''DomainDiskErrorNoneDomainDiskErrorUnspecDomainDiskErrorNoSpace'']
       [0, 19, 40, 62]"

definition consts_KeycodeSet :: "(string \<times> int) list" where
  "consts_KeycodeSet =
     [(''KeycodeSetLinux'', 0),
      (''KeycodeSetXt'', 1),
      (''KeycodeSetAtset1'', 2),
      (''KeycodeSetAtset2'', 3),
      (''KeycodeSetAtset3'', 4),
      (''KeycodeSetOsx'', 5),
      (''KeycodeSetXtKbd'', 6),
      (''KeycodeSetUsb'', 7),
      (''KeycodeSetWin32'', 8),
      (''KeycodeSetQnum'', 9)]"

definition stringer_KeycodeSet :: stringer where
  "stringer_KeycodeSet =
     Indexed 0
       [''KeycodeSetLinuxKeycodeSetXtKeycodeSetAtset1KeycodeSetAtset2KeycodeSetAtset3KeycodeSetOsx'',
        ''KeycodeSetXtKbdKeycodeSetUsbKeycodeSetWin32KeycodeSetQnum'']
       [0, 15, 27, 43, 59, 75, 88, 103, 116, 131, 145]"

definition consts_DomainProcessSignal :: "(string \<times> int) list" where
  "consts_DomainProcessSignal =
     [(''DomainProcessSignalNop'', 0),
      (''DomainProcessSignalHup'', 1),
      (''DomainProcessSignalInt'', 2),
      (''DomainProcessSignalQuit'', 3),
      (''DomainProcessSignalIll'', 4),
      (''DomainProcessSignalTrap'', 5),
      (''DomainProcessSignalAbrt'', 6),
      (''DomainProcessSignalBus'', 7),
      (''DomainProcessSignalFpe'', 8),
      (''DomainProcessSignalKill'', 9),
      (''DomainProcessSignalUsr1'', 10),
      (''DomainProcessSignalSegv'', 11),
      (''DomainProcessSignalUsr2'', 12),
      (''DomainProcessSignalPipe'', 13),
      (''DomainProcessSignalAlrm'', 14),
      (''DomainProcessSignalTerm'', 15),
      (''DomainProcessSignalStkflt'', 16),
      (''DomainProcessSignalChld'', 17),
      (''DomainProcessSignalCont'', 18),
      (''DomainProcessSignalStop'', 19),
      (''DomainProcessSignalTstp'', 20),
      (''DomainProcessSignalTtin'', 21),
      (''DomainProcessSignalTtou'', 22),
      (''DomainProcessSignalUrg'', 23),
      (''DomainProcessSignalXcpu'', 24),
      (''DomainProcessSignalXfsz'', 25),
      (''DomainProcessSignalVtalrm'', 26),
      (''DomainProcessSignalProf'', 27),
      (''DomainProcessSignalWinch'', 28),
      (''DomainProcessSignalPoll'', 29),
      (''DomainProcessSignalPwr'', 30),
      (''DomainProcessSignalSys'', 31),
      (''DomainProcessSignalRt0'', 32),
      (''DomainProcessSignalRt1'', 33),
      (''DomainProcessSignalRt2'', 34),
      (''DomainProcessSignalRt3'', 35),
      (''DomainProcessSignalRt4'', 36),
      (''DomainProcessSignalRt5'', 37),
      (''DomainProcessSignalRt6'', 38),
      (''DomainProcessSignalRt7'', 39),
      (''DomainProcessSignalRt8'', 40),
      (''DomainProcessSignalRt9'', 41),
      (''DomainProcessSignalRt10'', 42),
      (''DomainProcessSignalRt11'', 43),
      (''DomainProcessSignalRt12'', 44),
      (''DomainProcessSignalRt13'', 45),
      (''DomainProcessSignalRt14'', 46),
      (''DomainProcessSignalRt15'', 47),
      (''DomainProcessSignalRt16'', 48),
      (''DomainProcessSignalRt17'', 49),
      (''DomainProcessSignalRt18'', 50),
      (''DomainProcessSignalRt19'', 51),
      (''DomainProcessSignalRt20'', 52),
      (''DomainProcessSignalRt21'', 53),
      (''DomainProcessSignalRt22'', 54),
      (''DomainProcessSignalRt23'', 55),
      (''DomainProcessSignalRt24'', 56),
      (''DomainProcessSignalRt25'', 57),
      (''DomainProcessSignalRt26'', 58),
      (''DomainProcessSignalRt27'', 59),
      (''DomainProcessSignalRt28'', 60),
      (''DomainProcessSignalRt29'', 61),
      (''DomainProcessSignalRt30'', 62),
      (''DomainProcessSignalRt31'', 63),
      (''DomainProcessSignalRt32'', 64)]"

definition stringer_DomainProcessSignal :: stringer where
  "stringer_DomainProcessSignal =
     Indexed 0
       [''DomainProcessSignalNopDomainProcessSignalHupDomainProcessSignalIntDomainProcessSignalQuit'',
        ''DomainProcessSignalIllDomainProcessSignalTrapDomainProcessSignalAbrtDomainProcessSignalBus'',
        ''DomainProcessSignalFpeDomainProcessSignalKillDomainProcessSignalUsr1DomainProcessSignalSegv'',
        ''DomainProcessSignalUsr2DomainProcessSignalPipeDomainProcessSignalAlrmDomainProcessSignalTerm'',
        ''DomainProcessSignalStkfltDomainProcessSignalChldDomainProcessSignalContDomainProcessSignalStop'',
        ''DomainProcessSignalTstpDomainProcessSignalTtinDomainProcessSignalTtouDomainProcessSignalUrg'',
        ''DomainProcessSignalXcpuDomainProcessSignalXfszDomainProcessSignalVtalrmDomainProcessSignalProf'',
        ''DomainProcessSignalWinchDomainProcessSignalPollDomainProcessSignalPwrDomainProcessSignalSys'',
        ''DomainProcessSignalRt0DomainProcessSignalRt1DomainProcessSignalRt2DomainProcessSignalRt3'',
        ''DomainProcessSignalRt4DomainProcessSignalRt5DomainProcessSignalRt6DomainProcessSignalRt7'',
        ''DomainProcessSignalRt8DomainProcessSignalRt9DomainProcessSignalRt10DomainProcessSignalRt11'',
        ''DomainProcessSignalRt12DomainProcessSignalRt13DomainProcessSignalRt14DomainProcessSignalRt15'',
        ''DomainProcessSignalRt16DomainProcessSignalRt17DomainProcessSignalRt18DomainProcessSignalRt19'',
        ''DomainProcessSignalRt20DomainProcessSignalRt21DomainProcessSignalRt22DomainProcessSignalRt23'',
        ''DomainProcessSignalRt24DomainProcessSignalRt25DomainProcessSignalRt26DomainProcessSignalRt27'',
        ''DomainProcessSignalRt28DomainProcessSignalRt29DomainProcessSignalRt30DomainProcessSignalRt31'',
        ''DomainProcessSignalRt32'']
       [0, 22, 44, 66, 89, 111, 134, 157, 179, 201, 224, 247, 270, 293, 316, 339, 362, 387, 410,
        433, 456, 479, 502, 525, 547, 570, 593, 618, 641, 665, 688, 710, 732, 754, 776, 798, 820,
        842, 864, 886, 908, 930, 952, 975, 998, 1021, 1044, 1067, 1090, 1113, 1136, 1159, 1182,
        1205, 1228, 1251, 1274, 1297, 1320, 1343, 1366, 1389, 1412, 1435, 1458, 1481]"

definition consts_DomainEventType :: "(string \<times> int) list" where
  "consts_DomainEventType =
     [(''DomainEventDefined'', 0),
      (''DomainEventUndefined'', 1),
      (''DomainEventStarted'', 2),
      (''DomainEventSuspended'', 3),
      (''DomainEventResumed'', 4),
      (''DomainEventStopped'', 5),
      (''DomainEventShutdown'', 6),
      (''DomainEventPmsuspended'', 7),
      (''DomainEventCrashed'', 8)]"

definition stringer_DomainEventType :: stringer where
  "stringer_DomainEventType =
     Indexed 0
       [''DomainEventDefinedDomainEventUndefinedDomainEventStartedDomainEventSuspendedDomainEventResumed'',
        ''DomainEventStoppedDomainEventShutdownDomainEventPmsuspendedDomainEventCrashed'']
       [0, 18, 38, 56, 76, 94, 112, 131, 153, 171]"

definition consts_DomainEventDefinedDetailType :: "(string \<times> int) list" where
  "consts_DomainEventDefinedDetailType =
     [(''DomainEventDefinedAdded'', 0),
      (''DomainEventDefinedUpdated'', 1),
      (''DomainEventDefinedRenamed'', 2),
      (''DomainEventDefinedFromSnapshot'', 3)]"

definition stringer_DomainEventDefinedDetailType :: stringer where
  "stringer_DomainEventDefinedDetailType =
     Indexed 0
       [''DomainEventDefinedAddedDomainEventDefinedUpdatedDomainEventDefinedRenamed'',
        ''DomainEventDefinedFromSnapshot'']
       [0, 23, 48, 73, 103]"

definition consts_DomainEventUndefinedDetailType :: "(string \<times> int) list" where
  "consts_DomainEventUndefinedDetailType =
     [(''DomainEventUndefinedRemoved'', 0),
      (''DomainEventUndefinedRenamed'', 1)]"

definition stringer_DomainEventUndefinedDetailType :: stringer where
  "stringer_DomainEventUndefinedDetailType =
     Indexed 0
       [''DomainEventUndefinedRemovedDomainEventUndefinedRenamed'']
       [0, 27, 54]"

definition consts_DomainEventStartedDetailType :: "(string \<times> int) list" where
  "consts_DomainEventStartedDetailType =
     [(''DomainEventStartedBooted'', 0),
      (''DomainEventStartedMigrated'', 1),
      (''DomainEventStartedRestored'', 2),
      (''DomainEventStartedFromSnapshot'', 3),
      (''DomainEventStartedWakeup'', 4),
      (''DomainEventStartedRecreated'', 5)]"

definition stringer_DomainEventStartedDetailType :: stringer where
  "stringer_DomainEventStartedDetailType =
     Indexed 0
       [''DomainEventStartedBootedDomainEventStartedMigratedDomainEventStartedRestored'',
        ''DomainEventStartedFromSnapshotDomainEventStartedWakeupDomainEventStartedRecreated'']
       [0, 24, 50, 76, 106, 130, 157]"

definition enums_2_1 :: "enumeration list" where
  "enums_2_1 =
     [\<lparr>enum_type = ''DomainGetHostnameFlags'', unsigned_type = False,
       constants = consts_DomainGetHostnameFlags, stringer = stringer_DomainGetHostnameFlags\<rparr>,
      \<lparr>enum_type = ''DomainMetadataType'', unsigned_type = False,
       constants = consts_DomainMetadataType, stringer = stringer_DomainMetadataType\<rparr>,
      \<lparr>enum_type = ''DomainXMLFlags'', unsigned_type = False,
       constants = consts_DomainXMLFlags, stringer = stringer_DomainXMLFlags\<rparr>,
      \<lparr>enum_type = ''DomainSaveImageXMLFlags'', unsigned_type = False,
       constants = consts_DomainSaveImageXMLFlags, stringer = stringer_DomainSaveImageXMLFlags\<rparr>,
      \<lparr>enum_type = ''DomainBlockResizeFlags'', unsigned_type = False,
       constants = consts_DomainBlockResizeFlags, stringer = stringer_DomainBlockResizeFlags\<rparr>,
      \<lparr>enum_type = ''DomainMemoryFlags'', unsigned_type = False,
       constants = consts_DomainMemoryFlags, stringer = stringer_DomainMemoryFlags\<rparr>,
      \<lparr>enum_type = ''DomainDefineFlags'', unsigned_type = False,
       constants = consts_DomainDefineFlags, stringer = stringer_DomainDefineFlags\<rparr>,
      \<lparr>enum_type = ''DomainUndefineFlagsValues'', unsigned_type = False,
       constants = consts_DomainUndefineFlagsValues, stringer = stringer_DomainUndefineFlagsValues\<rparr>]"

lemma enums_2_1_checked: "list_all checked_enum enums_2_1" "list_all proper_hashes enums_2_1"
  by code_simp+

definition enums_2_2 :: "enumeration list" where
  "enums_2_2 =
     [\<lparr>enum_type = ''ConnectListAllDomainsFlags'', unsigned_type = False,
       constants = consts_ConnectListAllDomainsFlags, stringer = stringer_ConnectListAllDomainsFlags\<rparr>,
      \<lparr>enum_type = ''VCPUState'', unsigned_type = False,
       constants = consts_VCPUState, stringer = stringer_VCPUState\<rparr>,
      \<lparr>enum_type = ''VCPUHostCPUState'', unsigned_type = False,
       constants = consts_VCPUHostCPUState, stringer = stringer_VCPUHostCPUState\<rparr>,
      \<lparr>enum_type = ''DomainVCPUFlags'', unsigned_type = False,
       constants = consts_DomainVCPUFlags, stringer = stringer_DomainVCPUFlags\<rparr>,
      \<lparr>enum_type = ''DomainDeviceModifyFlags'', unsigned_type = False,
       constants = consts_DomainDeviceModifyFlags, stringer = stringer_DomainDeviceModifyFlags\<rparr>,
      \<lparr>enum_type = ''DomainStatsTypes'', unsigned_type = False,
       constants = consts_DomainStatsTypes, stringer = stringer_DomainStatsTypes\<rparr>,
      \<lparr>enum_type = ''ConnectGetAllDomainStatsFlags'', unsigned_type = True,
       constants = consts_ConnectGetAllDomainStatsFlags, stringer = stringer_ConnectGetAllDomainStatsFlags\<rparr>,
      \<lparr>enum_type = ''DomainBlockJobType'', unsigned_type = False,
       constants = consts_DomainBlockJobType, stringer = stringer_DomainBlockJobType\<rparr>]"

lemma enums_2_2_checked: "list_all checked_enum enums_2_2" "list_all proper_hashes enums_2_2"
  by code_simp+

definition enums_2_3 :: "enumeration list" where
  "enums_2_3 =
     [\<lparr>enum_type = ''DomainBlockJobAbortFlags'', unsigned_type = False,
       constants = consts_DomainBlockJobAbortFlags, stringer = stringer_DomainBlockJobAbortFlags\<rparr>,
      \<lparr>enum_type = ''DomainBlockJobInfoFlags'', unsigned_type = False,
       constants = consts_DomainBlockJobInfoFlags, stringer = stringer_DomainBlockJobInfoFlags\<rparr>,
      \<lparr>enum_type = ''DomainBlockJobSetSpeedFlags'', unsigned_type = False,
       constants = consts_DomainBlockJobSetSpeedFlags, stringer = stringer_DomainBlockJobSetSpeedFlags\<rparr>,
      \<lparr>enum_type = ''DomainBlockPullFlags'', unsigned_type = False,
       constants = consts_DomainBlockPullFlags, stringer = stringer_DomainBlockPullFlags\<rparr>,
      \<lparr>enum_type = ''DomainBlockRebaseFlags'', unsigned_type = False,
       constants = consts_DomainBlockRebaseFlags, stringer = stringer_DomainBlockRebaseFlags\<rparr>,
      \<lparr>enum_type = ''DomainBlockCopyFlags'', unsigned_type = False,
       constants = consts_DomainBlockCopyFlags, stringer = stringer_DomainBlockCopyFlags\<rparr>,
      \<lparr>enum_type = ''DomainBlockCommitFlags'', unsigned_type = False,
       constants = consts_DomainBlockCommitFlags, stringer = stringer_DomainBlockCommitFlags\<rparr>,
      \<lparr>enum_type = ''DomainDiskErrorCode'', unsigned_type = False,
       constants = consts_DomainDiskErrorCode, stringer = stringer_DomainDiskErrorCode\<rparr>]"

lemma enums_2_3_checked: "list_all checked_enum enums_2_3" "list_all proper_hashes enums_2_3"
  by code_simp+

definition enums_2_4 :: "enumeration list" where
  "enums_2_4 =
     [\<lparr>enum_type = ''KeycodeSet'', unsigned_type = False,
       constants = consts_KeycodeSet, stringer = stringer_KeycodeSet\<rparr>,
      \<lparr>enum_type = ''DomainProcessSignal'', unsigned_type = False,
       constants = consts_DomainProcessSignal, stringer = stringer_DomainProcessSignal\<rparr>,
      \<lparr>enum_type = ''DomainEventType'', unsigned_type = False,
       constants = consts_DomainEventType, stringer = stringer_DomainEventType\<rparr>,
      \<lparr>enum_type = ''DomainEventDefinedDetailType'', unsigned_type = False,
       constants = consts_DomainEventDefinedDetailType, stringer = stringer_DomainEventDefinedDetailType\<rparr>,
      \<lparr>enum_type = ''DomainEventUndefinedDetailType'', unsigned_type = False,
       constants = consts_DomainEventUndefinedDetailType, stringer = stringer_DomainEventUndefinedDetailType\<rparr>,
      \<lparr>enum_type = ''DomainEventStartedDetailType'', unsigned_type = False,
       constants = consts_DomainEventStartedDetailType, stringer = stringer_DomainEventStartedDetailType\<rparr>]"

lemma enums_2_4_checked: "list_all checked_enum enums_2_4" "list_all proper_hashes enums_2_4"
  by code_simp+

definition enums_2 :: "enumeration list" where
  "enums_2 = enums_2_1 @ enums_2_2 @ enums_2_3 @ enums_2_4"

lemma enums_2_checked: "list_all checked_enum enums_2" "list_all proper_hashes enums_2"
  by (simp_all add: enums_2_def enums_2_1_checked enums_2_2_checked enums_2_3_checked enums_2_4_checked)

end
