(* ===== verification/Const_Enums_3.thy ===== *)
theory Const_Enums_3
  imports Const_Stringer
begin

text \<open>
  Enumerations of \<open>src/const.gen.go\<close> with their \<open>String\<close> methods of \<open>src/const_strings.gen.go\<close>, from
  \<open>DomainEventSuspendedDetailType\<close> to \<open>CPUCompareResult\<close>: the constants in the order of the source, and the string, the index
  table, the cases or the map of the method.
\<close>

definition consts_DomainEventSuspendedDetailType :: "(string \<times> int) list" where
  "consts_DomainEventSuspendedDetailType =
     [(''DomainEventSuspendedPaused'', 0),
      (''DomainEventSuspendedMigrated'', 1),
      (''DomainEventSuspendedIoerror'', 2),
      (''DomainEventSuspendedWatchdog'', 3),
      (''DomainEventSuspendedRestored'', 4),
      (''DomainEventSuspendedFromSnapshot'', 5),
      (''DomainEventSuspendedAPIError'', 6),
      (''DomainEventSuspendedPostcopy'', 7),
      (''DomainEventSuspendedPostcopyFailed'', 8)]"

definition stringer_DomainEventSuspendedDetailType :: stringer where
  "stringer_DomainEventSuspendedDetailType =
     Indexed 0
       [''DomainEventSuspendedPausedDomainEventSuspendedMigratedDomainEventSuspendedIoerror'',
        ''DomainEventSuspendedWatchdogDomainEventSuspendedRestoredDomainEventSuspendedFromSnapshot'',
        ''DomainEventSuspendedAPIErrorDomainEventSuspendedPostcopyDomainEventSuspendedPostcopyFailed'']
       [0, 26, 54, 81, 109, 137, 169, 197, 225, 259]"

definition consts_DomainEventResumedDetailType :: "(string \<times> int) list" where
  "consts_DomainEventResumedDetailType =
     [(''DomainEventResumedUnpaused'', 0),
      (''DomainEventResumedMigrated'', 1),
      (''DomainEventResumedFromSnapshot'', 2),
      (''DomainEventResumedPostcopy'', 3),
      (''DomainEventResumedPostcopyFailed'', 4)]"

definition stringer_DomainEventResumedDetailType :: stringer where
  "stringer_DomainEventResumedDetailType =
     Indexed 0
       [''DomainEventResumedUnpausedDomainEventResumedMigratedDomainEventResumedFromSnapshot'',
        ''DomainEventResumedPostcopyDomainEventResumedPostcopyFailed'']
       [0, 26, 52, 82, 108, 140]"

definition consts_DomainEventStoppedDetailType :: "(string \<times> int) list" where
  "consts_DomainEventStoppedDetailType =
     [(''DomainEventStoppedShutdown'', 0),
      (''DomainEventStoppedDestroyed'', 1),
      (''DomainEventStoppedCrashed'', 2),
      (''DomainEventStoppedMigrated'', 3),
      (''DomainEventStoppedSaved'', 4),
      (''DomainEventStoppedFailed'', 5),
      (''DomainEventStoppedFromSnapshot'', 6),
      (''DomainEventStoppedRecreated'', 7)]"

definition stringer_DomainEventStoppedDetailType :: stringer where
  "stringer_DomainEventStoppedDetailType =
     Indexed 0
       [''DomainEventStoppedShutdownDomainEventStoppedDestroyedDomainEventStoppedCrashed'',
        ''DomainEventStoppedMigratedDomainEventStoppedSavedDomainEventStoppedFailed'',
        ''DomainEventStoppedFromSnapshotDomainEventStoppedRecreated'']
       [0, 26, 53, 78, 104, 127, 151, 181, 208]"

definition consts_DomainEventShutdownDetailType :: "(string \<times> int) list" where
  "consts_DomainEventShutdownDetailType =
     [(''DomainEventShutdownFinished'', 0),
      (''DomainEventShutdownGuest'', 1),
      (''DomainEventShutdownHost'', 2)]"

definition stringer_DomainEventShutdownDetailType :: stringer where
  "stringer_DomainEventShutdownDetailType =
     Indexed 0
       [''DomainEventShutdownFinishedDomainEventShutdownGuestDomainEventShutdownHost'']
       [0, 27, 51, 74]"

definition consts_DomainEventPMSuspendedDetailType :: "(string \<times> int) list" where
  "consts_DomainEventPMSuspendedDetailType =
     [(''DomainEventPmsuspendedMemory'', 0),
      (''DomainEventPmsuspendedDisk'', 1)]"

definition stringer_DomainEventPMSuspendedDetailType :: stringer where
  "stringer_DomainEventPMSuspendedDetailType =
     Indexed 0
       [''DomainEventPmsuspendedMemoryDomainEventPmsuspendedDisk'']
       [0, 28, 54]"

definition consts_DomainEventCrashedDetailType :: "(string \<times> int) list" where
  "consts_DomainEventCrashedDetailType =
     [(''DomainEventCrashedPanicked'', 0),
      (''DomainEventCrashedCrashloaded'', 1)]"

definition stringer_DomainEventCrashedDetailType :: stringer where
  "stringer_DomainEventCrashedDetailType =
     Indexed 0
       [''DomainEventCrashedPanickedDomainEventCrashedCrashloaded'']
       [0, 26, 55]"

definition consts_DomainMemoryFailureRecipientType :: "(string \<times> int) list" where
  "consts_DomainMemoryFailureRecipientType =
     [(''DomainEventMemoryFailureRecipientHypervisor'', 0),
      (''DomainEventMemoryFailureRecipientGuest'', 1)]"

definition stringer_DomainMemoryFailureRecipientType :: stringer where
  "stringer_DomainMemoryFailureRecipientType =
     Indexed 0
       [''DomainEventMemoryFailureRecipientHypervisorDomainEventMemoryFailureRecipientGuest'']
       [0, 43, 81]"

definition consts_DomainMemoryFailureActionType :: "(string \<times> int) list" where
  "consts_DomainMemoryFailureActionType =
     [(''DomainEventMemoryFailureActionIgnore'', 0),
      (''DomainEventMemoryFailureActionInject'', 1),
      (''DomainEventMemoryFailureActionFatal'', 2),
      (''DomainEventMemoryFailureActionReset'', 3)]"

definition stringer_DomainMemoryFailureActionType :: stringer where
  "stringer_DomainMemoryFailureActionType =
     Indexed 0
       [''DomainEventMemoryFailureActionIgnoreDomainEventMemoryFailureActionInject'',
        ''DomainEventMemoryFailureActionFatalDomainEventMemoryFailureActionReset'']
       [0, 36, 72, 107, 142]"

definition consts_DomainMemoryFailureFlags :: "(string \<times> int) list" where
  "consts_DomainMemoryFailureFlags =
     [(''DomainMemoryFailureActionRequired'', 1),
      (''DomainMemoryFailureRecursive'', 2)]"

definition stringer_DomainMemoryFailureFlags :: stringer where
  "stringer_DomainMemoryFailureFlags =
     Indexed 1
       [''DomainMemoryFailureActionRequiredDomainMemoryFailureRecursive'']
       [0, 33, 61]"

definition consts_DomainJobType :: "(string \<times> int) list" where
  "consts_DomainJobType =
     [(''DomainJobNone'', 0),
      (''DomainJobBounded'', 1),
      (''DomainJobUnbounded'', 2),
      (''DomainJobCompleted'', 3),
      (''DomainJobFailed'', 4),
      (''DomainJobCancelled'', 5)]"

definition stringer_DomainJobType :: stringer where
  "stringer_DomainJobType =
     Indexed 0
       [''DomainJobNoneDomainJobBoundedDomainJobUnboundedDomainJobCompletedDomainJobFailed'',
        ''DomainJobCancelled'']
       [0, 13, 29, 47, 65, 80, 98]"

definition consts_DomainGetJobStatsFlags :: "(string \<times> int) list" where
  "consts_DomainGetJobStatsFlags =
     [(''DomainJobStatsCompleted'', 1),
      (''DomainJobStatsKeepCompleted'', 2)]"

definition stringer_DomainGetJobStatsFlags :: stringer where
  "stringer_DomainGetJobStatsFlags =
     Indexed 1
       [''DomainJobStatsCompletedDomainJobStatsKeepCompleted'']
       [0, 23, 50]"

definition consts_DomainAbortJobFlagsValues :: "(string \<times> int) list" where
  "consts_DomainAbortJobFlagsValues =
     [(''DomainAbortJobPostcopy'', 1)]"

definition stringer_DomainAbortJobFlagsValues :: stringer where
  "stringer_DomainAbortJobFlagsValues =
     Indexed 1
       [''DomainAbortJobPostcopy'']
       [0, 22]"

definition consts_DomainJobOperation :: "(string \<times> int) list" where
  "consts_DomainJobOperation =
     [(''DomainJobOperationStrUnknown'', 0),
      (''DomainJobOperationStrStart'', 1),
      (''DomainJobOperationStrSave'', 2),
      (''DomainJobOperationStrRestore'', 3),
      (''DomainJobOperationStrMigrationIn'', 4),
      (''DomainJobOperationStrMigrationOut'', 5),
      (''DomainJobOperationStrSnapshot'', 6),
      (''DomainJobOperationStrSnapshotRevert'', 7),
      (''DomainJobOperationStrDump'', 8),
      (''DomainJobOperationStrBackup'', 9),
      (''DomainJobOperationStrSnapshotDelete'', 10)]"

definition stringer_DomainJobOperation :: stringer where
  "stringer_DomainJobOperation =
     Indexed 0
       [''DomainJobOperationStrUnknownDomainJobOperationStrStartDomainJobOperationStrSave'',
        ''DomainJobOperationStrRestoreDomainJobOperationStrMigrationInDomainJobOperationStrMigrationOut'',
        ''DomainJobOperationStrSnapshotDomainJobOperationStrSnapshotRevertDomainJobOperationStrDump'',
        ''DomainJobOperationStrBackupDomainJobOperationStrSnapshotDelete'']
       [0, 28, 54, 79, 107, 139, 172, 201, 236, 261, 288, 323]"

definition consts_DomainEventWatchdogAction :: "(string \<times> int) list" where
  "consts_DomainEventWatchdogAction =
     [(''DomainEventWatchdogNone'', 0),
      (''DomainEventWatchdogPause'', 1),
      (''DomainEventWatchdogReset'', 2),
      (''DomainEventWatchdogPoweroff'', 3),
      (''DomainEventWatchdogShutdown'', 4),
      (''DomainEventWatchdogDebug'', 5),
      (''DomainEventWatchdogInjectnmi'', 6)]"

definition stringer_DomainEventWatchdogAction :: stringer where
  "stringer_DomainEventWatchdogAction =
     Indexed 0
       [''DomainEventWatchdogNoneDomainEventWatchdogPauseDomainEventWatchdogReset'',
        ''DomainEventWatchdogPoweroffDomainEventWatchdogShutdownDomainEventWatchdogDebug'',
        ''DomainEventWatchdogInjectnmi'']
       [0, 23, 47, 71, 98, 125, 149, 177]"

definition consts_DomainEventIOErrorAction :: "(string \<times> int) list" where
  "consts_DomainEventIOErrorAction =
     [(''DomainEventIoErrorNone'', 0),
      (''DomainEventIoErrorPause'', 1),
      (''DomainEventIoErrorReport'', 2)]"

definition stringer_DomainEventIOErrorAction :: stringer where
  "stringer_DomainEventIOErrorAction =
     Indexed 0
       [''DomainEventIoErrorNoneDomainEventIoErrorPauseDomainEventIoErrorReport'']
       [0, 22, 45, 69]"

definition consts_DomainEventGraphicsPhase :: "(string \<times> int) list" where
  "consts_DomainEventGraphicsPhase =
     [(''DomainEventGraphicsConnect'', 0),
      (''DomainEventGraphicsInitialize'', 1),
      (''DomainEventGraphicsDisconnect'', 2)]"

definition stringer_DomainEventGraphicsPhase :: stringer where
  "stringer_DomainEventGraphicsPhase =
     Indexed 0
       [''DomainEventGraphicsConnectDomainEventGraphicsInitializeDomainEventGraphicsDisconnect'']
       [0, 26, 55, 84]"

definition consts_DomainEventGraphicsAddressType :: "(string \<times> int) list" where
  "consts_DomainEventGraphicsAddressType =
     [(''DomainEventGraphicsAddressIpv4'', 0),
      (''DomainEventGraphicsAddressIpv6'', 1),
      (''DomainEventGraphicsAddressUnix'', 2)]"

definition stringer_DomainEventGraphicsAddressType :: stringer where
  "stringer_DomainEventGraphicsAddressType =
     Indexed 0
       [''DomainEventGraphicsAddressIpv4DomainEventGraphicsAddressIpv6DomainEventGraphicsAddressUnix'']
       [0, 30, 60, 90]"

definition consts_ConnectDomainEventBlockJobStatus :: "(string \<times> int) list" where
  "consts_ConnectDomainEventBlockJobStatus =
     [(''DomainBlockJobCompleted'', 0),
      (''DomainBlockJobFailed'', 1),
      (''DomainBlockJobCanceled'', 2),
      (''DomainBlockJobReady'', 3)]"

definition stringer_ConnectDomainEventBlockJobStatus :: stringer where
  "stringer_ConnectDomainEventBlockJobStatus =
     Indexed 0
       [''DomainBlockJobCompletedDomainBlockJobFailedDomainBlockJobCanceledDomainBlockJobReady'']
       [0, 23, 43, 65, 84]"

definition consts_ConnectDomainEventDiskChangeReason :: "(string \<times> int) list" where
  "consts_ConnectDomainEventDiskChangeReason =
     [(''DomainEventDiskChangeMissingOnStart'', 0),
      (''DomainEventDiskDropMissingOnStart'', 1)]"

definition stringer_ConnectDomainEventDiskChangeReason :: stringer where
  "stringer_ConnectDomainEventDiskChangeReason =
     Indexed 0
       [''DomainEventDiskChangeMissingOnStartDomainEventDiskDropMissingOnStart'']
       [0, 35, 68]"

definition consts_DomainEventTrayChangeReason :: "(string \<times> int) list" where
  "consts_DomainEventTrayChangeReason =
     [(''DomainEventTrayChangeOpen'', 0),
      (''DomainEventTrayChangeClose'', 1)]"

definition stringer_DomainEventTrayChangeReason :: stringer where
  "stringer_DomainEventTrayChangeReason =
     Indexed 0
       [''DomainEventTrayChangeOpenDomainEventTrayChangeClose'']
       [0, 25, 51]"

definition consts_ConnectDomainEventAgentLifecycleState :: "(string \<times> int) list" where
  "consts_ConnectDomainEventAgentLifecycleState =
     [(''ConnectDomainEventAgentLifecycleStateConnected'', 1),
      (''ConnectDomainEventAgentLifecycleStateDisconnected'', 2)]"

definition stringer_ConnectDomainEventAgentLifecycleState :: stringer where
  "stringer_ConnectDomainEventAgentLifecycleState =
     Indexed 1
       [''ConnectDomainEventAgentLifecycleStateConnectedConnectDomainEventAgentLifecycleStateDisconnected'']
       [0, 46, 95]"

definition consts_ConnectDomainEventAgentLifecycleReason :: "(string \<times> int) list" where
  "consts_ConnectDomainEventAgentLifecycleReason =
     [(''ConnectDomainEventAgentLifecycleReasonUnknown'', 0),
      (''ConnectDomainEventAgentLifecycleReasonDomainStarted'', 1),
      (''ConnectDomainEventAgentLifecycleReasonChannel'', 2)]"

definition stringer_ConnectDomainEventAgentLifecycleReason :: stringer where
  "stringer_ConnectDomainEventAgentLifecycleReason =
     Indexed 0
       [''ConnectDomainEventAgentLifecycleReasonUnknown'',
        ''ConnectDomainEventAgentLifecycleReasonDomainStarted'',
        ''ConnectDomainEventAgentLifecycleReasonChannel'']
       [0, 45, 96, 141]"

definition consts_DomainEventID :: "(string \<times> int) list" where
  "consts_DomainEventID =
     [(''DomainEventIDLifecycle'', 0),
      (''DomainEventIDReboot'', 1),
      (''DomainEventIDRtcChange'', 2),
      (''DomainEventIDWatchdog'', 3),
      (''DomainEventIDIoError'', 4),
      (''DomainEventIDGraphics'', 5),
      (''DomainEventIDIoErrorReason'', 6),
      (''DomainEventIDControlError'', 7),
      (''DomainEventIDBlockJob'', 8),
      (''DomainEventIDDiskChange'', 9),
      (''DomainEventIDTrayChange'', 10),
      (''DomainEventIDPmwakeup'', 11),
      (''DomainEventIDPmsuspend'', 12),
      (''DomainEventIDBalloonChange'', 13),
      (''DomainEventIDPmsuspendDisk'', 14),
      (''DomainEventIDDeviceRemoved'', 15),
      (''DomainEventIDBlockJob2'', 16),
      (''DomainEventIDTunable'', 17),
      (''DomainEventIDAgentLifecycle'', 18),
      (''DomainEventIDDeviceAdded'', 19),
      (''DomainEventIDMigrationIteration'', 20),
      (''DomainEventIDJobCompleted'', 21),
      (''DomainEventIDDeviceRemovalFailed'', 22),
      (''DomainEventIDMetadataChange'', 23),
      (''DomainEventIDBlockThreshold'', 24),
      (''DomainEventIDMemoryFailure'', 25),
      (''DomainEventIDMemoryDeviceSizeChange'', 26),
      (''DomainEventIDNicMacChange'', 27)]"

definition stringer_DomainEventID :: stringer where
  "stringer_DomainEventID =
     Indexed 0
       [''DomainEventIDLifecycleDomainEventIDRebootDomainEventIDRtcChangeDomainEventIDWatchdog'',
        ''DomainEventIDIoErrorDomainEventIDGraphicsDomainEventIDIoErrorReasonDomainEventIDControlError'',
        ''DomainEventIDBlockJobDomainEventIDDiskChangeDomainEventIDTrayChangeDomainEventIDPmwakeup'',
        ''DomainEventIDPmsuspendDomainEventIDBalloonChangeDomainEventIDPmsuspendDisk'',
        ''DomainEventIDDeviceRemovedDomainEventIDBlockJob2DomainEventIDTunableDomainEventIDAgentLifecycle'',
        ''DomainEventIDDeviceAddedDomainEventIDMigrationIterationDomainEventIDJobCompleted'',
        ''DomainEventIDDeviceRemovalFailedDomainEventIDMetadataChangeDomainEventIDBlockThreshold'',
        ''DomainEventIDMemoryFailureDomainEventIDMemoryDeviceSizeChangeDomainEventIDNicMacChange'']
       [0, 22, 41, 63, 84, 104, 125, 151, 176, 197, 220, 243, 264, 286, 312, 338, 364, 386, 406,
        433, 457, 488, 513, 545, 572, 599, 625, 660, 685]"

definition consts_DomainConsoleFlags :: "(string \<times> int) list" where
  "consts_DomainConsoleFlags =
     [(''DomainConsoleForce'', 1),
      (''DomainConsoleSafe'', 2)]"

definition stringer_DomainConsoleFlags :: stringer where
  "stringer_DomainConsoleFlags =
     Indexed 1
       [''DomainConsoleForceDomainConsoleSafe'']
       [0, 18, 35]"

definition consts_DomainChannelFlags :: "(string \<times> int) list" where
  "consts_DomainChannelFlags =
     [(''DomainChannelForce'', 1)]"

definition stringer_DomainChannelFlags :: stringer where
  "stringer_DomainChannelFlags =
     Indexed 1
       [''DomainChannelForce'']
       [0, 18]"

definition consts_DomainOpenGraphicsFlags :: "(string \<times> int) list" where
  "consts_DomainOpenGraphicsFlags =
     [(''DomainOpenGraphicsSkipauth'', 1)]"

definition stringer_DomainOpenGraphicsFlags :: stringer where
  "stringer_DomainOpenGraphicsFlags =
     Indexed 1
       [''DomainOpenGraphicsSkipauth'']
       [0, 26]"

definition consts_DomainSetTimeFlags :: "(string \<times> int) list" where
  "consts_DomainSetTimeFlags =
     [(''DomainTimeSync'', 1)]"

definition stringer_DomainSetTimeFlags :: stringer where
  "stringer_DomainSetTimeFlags =
     Indexed 1
       [''DomainTimeSync'']
       [0, 14]"

definition consts_SchedParameterType :: "(string \<times> int) list" where
  "consts_SchedParameterType =
     [(''DomainSchedFieldInt'', 1),
      (''DomainSchedFieldUint'', 2),
      (''DomainSchedFieldLlong'', 3),
      (''DomainSchedFieldUllong'', 4),
      (''DomainSchedFieldDouble'', 5),
      (''DomainSchedFieldBoolean'', 6)]"

definition stringer_SchedParameterType :: stringer where
  "stringer_SchedParameterType =
     Indexed 1
       [''DomainSchedFieldIntDomainSchedFieldUintDomainSchedFieldLlongDomainSchedFieldUllong'',
        ''DomainSchedFieldDoubleDomainSchedFieldBoolean'']
       [0, 19, 39, 60, 82, 104, 127]"

definition consts_BlkioParameterType :: "(string \<times> int) list" where
  "consts_BlkioParameterType =
     [(''DomainBlkioParamInt'', 1),
      (''DomainBlkioParamUint'', 2),
      (''DomainBlkioParamLlong'', 3),
      (''DomainBlkioParamUllong'', 4),
      (''DomainBlkioParamDouble'', 5),
      (''DomainBlkioParamBoolean'', 6)]"

definition stringer_BlkioParameterType :: stringer where
  "stringer_BlkioParameterType =
     Indexed 1
       [''DomainBlkioParamIntDomainBlkioParamUintDomainBlkioParamLlongDomainBlkioParamUllong'',
        ''DomainBlkioParamDoubleDomainBlkioParamBoolean'']
       [0, 19, 39, 60, 82, 104, 127]"

definition consts_MemoryParameterType :: "(string \<times> int) list" where
  "consts_MemoryParameterType =
     [(''DomainMemoryParamInt'', 1),
      (''DomainMemoryParamUint'', 2),
      (''DomainMemoryParamLlong'', 3),
      (''DomainMemoryParamUllong'', 4),
      (''DomainMemoryParamDouble'', 5),
      (''DomainMemoryParamBoolean'', 6)]"

definition stringer_MemoryParameterType :: stringer where
  "stringer_MemoryParameterType =
     Indexed 1
       [''DomainMemoryParamIntDomainMemoryParamUintDomainMemoryParamLlongDomainMemoryParamUllong'',
        ''DomainMemoryParamDoubleDomainMemoryParamBoolean'']
       [0, 20, 41, 63, 86, 109, 133]"

definition consts_DomainInterfaceAddressesSource :: "(string \<times> int) list" where
  "consts_DomainInterfaceAddressesSource =
     [(''DomainInterfaceAddressesSrcLease'', 0),
      (''DomainInterfaceAddressesSrcAgent'', 1),
      (''DomainInterfaceAddressesSrcArp'', 2)]"

definition stringer_DomainInterfaceAddressesSource :: stringer where
  "stringer_DomainInterfaceAddressesSource =
     Indexed 0
       [''DomainInterfaceAddressesSrcLeaseDomainInterfaceAddressesSrcAgentDomainInterfaceAddressesSrcArp'']
       [0, 32, 64, 94]"

definition consts_DomainSetUserPasswordFlags :: "(string \<times> int) list" where
  "consts_DomainSetUserPasswordFlags =
     [(''DomainPasswordEncrypted'', 1)]"

definition stringer_DomainSetUserPasswordFlags :: stringer where
  "stringer_DomainSetUserPasswordFlags =
     Indexed 1
       [''DomainPasswordEncrypted'']
       [0, 23]"

definition consts_DomainLifecycle :: "(string \<times> int) list" where
  "consts_DomainLifecycle =
     [(''DomainLifecyclePoweroff'', 0),
      (''DomainLifecycleReboot'', 1),
      (''DomainLifecycleCrash'', 2)]"

definition stringer_DomainLifecycle :: stringer where
  "stringer_DomainLifecycle =
     Indexed 0
       [''DomainLifecyclePoweroffDomainLifecycleRebootDomainLifecycleCrash'']
       [0, 23, 44, 64]"

definition consts_DomainLifecycleAction :: "(string \<times> int) list" where
  "consts_DomainLifecycleAction =
     [(''DomainLifecycleActionDestroy'', 0),
      (''DomainLifecycleActionRestart'', 1),
      (''DomainLifecycleActionRestartRename'', 2),
      (''DomainLifecycleActionPreserve'', 3),
      (''DomainLifecycleActionCoredumpDestroy'', 4),
      (''DomainLifecycleActionCoredumpRestart'', 5)]"

definition stringer_DomainLifecycleAction :: stringer where
  "stringer_DomainLifecycleAction =
     Indexed 0
       [''DomainLifecycleActionDestroyDomainLifecycleActionRestartDomainLifecycleActionRestartRename'',
        ''DomainLifecycleActionPreserveDomainLifecycleActionCoredumpDestroy'',
        ''DomainLifecycleActionCoredumpRestart'']
       [0, 28, 56, 90, 119, 155, 191]"

definition consts_DomainGuestInfoTypes :: "(string \<times> int) list" where
  "consts_DomainGuestInfoTypes =
     [(''DomainGuestInfoUsers'', 1),
      (''DomainGuestInfoOs'', 2),
      (''DomainGuestInfoTimezone'', 4),
      (''DomainGuestInfoHostname'', 8),
      (''DomainGuestInfoFilesystem'', 16),
      (''DomainGuestInfoDisks'', 32),
      (''DomainGuestInfoInterfaces'', 64),
      (''DomainGuestInfoLoad'', 128)]"

definition stringer_DomainGuestInfoTypes :: stringer where
  "stringer_DomainGuestInfoTypes =
     Switch
      [Names 1 2 1
        [''DomainGuestInfoUsersDomainGuestInfoOs'']
        [0, 20, 37],
       Name 4 ''DomainGuestInfoTimezone'',
       Name 8 ''DomainGuestInfoHostname'',
       Name 16 ''DomainGuestInfoFilesystem'',
       Name 32 ''DomainGuestInfoDisks'',
       Name 64 ''DomainGuestInfoInterfaces'',
       Name 128 ''DomainGuestInfoLoad'']"

definition consts_DomainAgentResponseTimeoutValues :: "(string \<times> int) list" where
  "consts_DomainAgentResponseTimeoutValues =
     [(''DomainAgentResponseTimeoutBlock'', (- 2)),
      (''DomainAgentResponseTimeoutDefault'', (- 1)),
      (''DomainAgentResponseTimeoutNowait'', 0)]"

definition stringer_DomainAgentResponseTimeoutValues :: stringer where
  "stringer_DomainAgentResponseTimeoutValues =
     Indexed (- 2)
       [''DomainAgentResponseTimeoutBlockDomainAgentResponseTimeoutDefault'',
        ''DomainAgentResponseTimeoutNowait'']
       [0, 31, 64, 96]"

definition consts_DomainBackupBeginFlags :: "(string \<times> int) list" where
  "consts_DomainBackupBeginFlags =
     [(''DomainBackupBeginReuseExternal'', 1)]"

definition stringer_DomainBackupBeginFlags :: stringer where
  "stringer_DomainBackupBeginFlags =
     Indexed 1
       [''DomainBackupBeginReuseExternal'']
       [0, 30]"

definition consts_DomainAuthorizedSSHKeysSetFlags :: "(string \<times> int) list" where
  "consts_DomainAuthorizedSSHKeysSetFlags =
     [(''DomainAuthorizedSSHKeysSetAppend'', 1),
      (''DomainAuthorizedSSHKeysSetRemove'', 2)]"

definition stringer_DomainAuthorizedSSHKeysSetFlags :: stringer where
  "stringer_DomainAuthorizedSSHKeysSetFlags =
     Indexed 1
       [''DomainAuthorizedSSHKeysSetAppendDomainAuthorizedSSHKeysSetRemove'']
       [0, 32, 64]"

definition consts_DomainMessageType :: "(string \<times> int) list" where
  "consts_DomainMessageType =
     [(''DomainMessageDeprecation'', 1),
      (''DomainMessageTainting'', 2),
      (''DomainMessageIoerrors'', 4)]"

definition stringer_DomainMessageType :: stringer where
  "stringer_DomainMessageType =
     Switch
      [Names 1 2 1
        [''DomainMessageDeprecationDomainMessageTainting'']
        [0, 24, 45],
       Name 4 ''DomainMessageIoerrors'']"

definition consts_DomainDirtyRateStatus :: "(string \<times> int) list" where
  "consts_DomainDirtyRateStatus =
     [(''DomainDirtyrateUnstarted'', 0),
      (''DomainDirtyrateMeasuring'', 1),
      (''DomainDirtyrateMeasured'', 2)]"

definition stringer_DomainDirtyRateStatus :: stringer where
  "stringer_DomainDirtyRateStatus =
     Indexed 0
       [''DomainDirtyrateUnstartedDomainDirtyrateMeasuringDomainDirtyrateMeasured'']
       [0, 24, 48, 71]"

definition consts_DomainDirtyRateCalcFlags :: "(string \<times> int) list" where
  "consts_DomainDirtyRateCalcFlags =
     [(''DomainDirtyrateModePageSampling'', 0),
      (''DomainDirtyrateModeDirtyBitmap'', 1),
      (''DomainDirtyrateModeDirtyRing'', 2)]"

definition stringer_DomainDirtyRateCalcFlags :: stringer where
  "stringer_DomainDirtyRateCalcFlags =
     Indexed 0
       [''DomainDirtyrateModePageSamplingDomainDirtyrateModeDirtyBitmapDomainDirtyrateModeDirtyRing'']
       [0, 31, 61, 89]"

definition consts_DomainFDAssociateFlags :: "(string \<times> int) list" where
  "consts_DomainFDAssociateFlags =
     [(''DomainFdAssociateSeclabelRestore'', 1),
      (''DomainFdAssociateSeclabelWritable'', 2)]"

definition stringer_DomainFDAssociateFlags :: stringer where
  "stringer_DomainFDAssociateFlags =
     Indexed 1
       [''DomainFdAssociateSeclabelRestoreDomainFdAssociateSeclabelWritable'']
       [0, 32, 65]"

definition consts_DomainGraphicsReloadType :: "(string \<times> int) list" where
  "consts_DomainGraphicsReloadType =
     [(''DomainGraphicsReloadTypeAny'', 0),
      (''DomainGraphicsReloadTypeVnc'', 1)]"

definition stringer_DomainGraphicsReloadType :: stringer where
  "stringer_DomainGraphicsReloadType =
     Indexed 0
       [''DomainGraphicsReloadTypeAnyDomainGraphicsReloadTypeVnc'']
       [0, 27, 54]"

definition consts_EventHandleType :: "(string \<times> int) list" where
  "consts_EventHandleType =
     [(''EventHandleReadable'', 1),
      (''EventHandleWritable'', 2),
      (''EventHandleError'', 4),
      (''EventHandleHangup'', 8)]"

definition stringer_EventHandleType :: stringer where
  "stringer_EventHandleType =
     Switch
      [Names 1 2 1
        [''EventHandleReadableEventHandleWritable'']
        [0, 19, 38],
       Name 4 ''EventHandleError'',
       Name 8 ''EventHandleHangup'']"

definition consts_NodeSuspendTarget :: "(string \<times> int) list" where
  "consts_NodeSuspendTarget =
     [(''NodeSuspendTargetMem'', 0),
      (''NodeSuspendTargetDisk'', 1),
      (''NodeSuspendTargetHybrid'', 2)]"

definition stringer_NodeSuspendTarget :: stringer where
  "stringer_NodeSuspendTarget =
     Indexed 0
       [''NodeSuspendTargetMemNodeSuspendTargetDiskNodeSuspendTargetHybrid'']
       [0, 20, 41, 64]"

definition consts_NodeGetCPUStatsAllCPUs :: "(string \<times> int) list" where
  "consts_NodeGetCPUStatsAllCPUs =
     [(''NodeCPUStatsAllCpus'', (- 1))]"

definition stringer_NodeGetCPUStatsAllCPUs :: stringer where
  "stringer_NodeGetCPUStatsAllCPUs =
     Indexed (- 1)
       [''NodeCPUStatsAllCpus'']
       [0, 19]"

definition consts_NodeGetMemoryStatsAllCells :: "(string \<times> int) list" where
  "consts_NodeGetMemoryStatsAllCells =
     [(''NodeMemoryStatsAllCells'', (- 1))]"

definition stringer_NodeGetMemoryStatsAllCells :: stringer where
  "stringer_NodeGetMemoryStatsAllCells =
     Indexed (- 1)
       [''NodeMemoryStatsAllCells'']
       [0, 23]"

definition consts_ConnectFlags :: "(string \<times> int) list" where
  "consts_ConnectFlags =
     [(''ConnectRo'', 1),
      (''ConnectNoAliases'', 2)]"

definition stringer_ConnectFlags :: stringer where
  "stringer_ConnectFlags =
     Indexed 1
       [''ConnectRoConnectNoAliases'']
       [0, 9, 25]"

definition consts_ConnectCredentialType :: "(string \<times> int) list" where
  "consts_ConnectCredentialType =
     [(''CredUsername'', 1),
      (''CredAuthname'', 2),
      (''CredLanguage'', 3),
      (''CredCnonce'', 4),
      (''CredPassphrase'', 5),
      (''CredEchoprompt'', 6),
      (''CredNoechoprompt'', 7),
      (''CredRealm'', 8),
      (''CredExternal'', 9)]"

definition stringer_ConnectCredentialType :: stringer where
  "stringer_ConnectCredentialType =
     Indexed 1
       [''CredUsernameCredAuthnameCredLanguageCredCnonceCredPassphraseCredEchopromptCredNoechoprompt'',
        ''CredRealmCredExternal'']
       [0, 12, 24, 36, 46, 60, 74, 90, 99, 111]"

definition consts_CPUCompareResult :: "(string \<times> int) list" where
  "consts_CPUCompareResult =
     [(''CPUCompareError'', (- 1)),
      (''CPUCompareIncompatible'', 0),
      (''CPUCompareIdentical'', 1),
      (''CPUCompareSuperset'', 2)]"

definition stringer_CPUCompareResult :: stringer where
  "stringer_CPUCompareResult =
     Indexed (- 1)
       [''CPUCompareErrorCPUCompareIncompatibleCPUCompareIdenticalCPUCompareSuperset'']
       [0, 15, 37, 56, 74]"

definition enums_3_1 :: "enumeration list" where
  "enums_3_1 =
     [\<lparr>enum_type = ''DomainEventSuspendedDetailType'', unsigned_type = False,
       constants = consts_DomainEventSuspendedDetailType, stringer = stringer_DomainEventSuspendedDetailType\<rparr>,
      \<lparr>enum_type = ''DomainEventResumedDetailType'', unsigned_type = False,
       constants = consts_DomainEventResumedDetailType, stringer = stringer_DomainEventResumedDetailType\<rparr>,
      \<lparr>enum_type = ''DomainEventStoppedDetailType'', unsigned_type = False,
       constants = consts_DomainEventStoppedDetailType, stringer = stringer_DomainEventStoppedDetailType\<rparr>,
      \<lparr>enum_type = ''DomainEventShutdownDetailType'', unsigned_type = False,
       constants = consts_DomainEventShutdownDetailType, stringer = stringer_DomainEventShutdownDetailType\<rparr>,
      \<lparr>enum_type = ''DomainEventPMSuspendedDetailType'', unsigned_type = False,
       constants = consts_DomainEventPMSuspendedDetailType, stringer = stringer_DomainEventPMSuspendedDetailType\<rparr>,
      \<lparr>enum_type = ''DomainEventCrashedDetailType'', unsigned_type = False,
       constants = consts_DomainEventCrashedDetailType, stringer = stringer_DomainEventCrashedDetailType\<rparr>,
      \<lparr>enum_type = ''DomainMemoryFailureRecipientType'', unsigned_type = False,
       constants = consts_DomainMemoryFailureRecipientType, stringer = stringer_DomainMemoryFailureRecipientType\<rparr>,
      \<lparr>enum_type = ''DomainMemoryFailureActionType'', unsigned_type = False,
       constants = consts_DomainMemoryFailureActionType, stringer = stringer_DomainMemoryFailureActionType\<rparr>]"

lemma enums_3_1_checked: "list_all checked_enum enums_3_1" "list_all proper_hashes enums_3_1"
  by code_simp+

definition enums_3_2 :: "enumeration list" where
  "enums_3_2 =
     [\<lparr>enum_type = ''DomainMemoryFailureFlags'', unsigned_type = False,
       constants = consts_DomainMemoryFailureFlags, stringer = stringer_DomainMemoryFailureFlags\<rparr>,
      \<lparr>enum_type = ''DomainJobType'', unsigned_type = False,
       constants = consts_DomainJobType, stringer = stringer_DomainJobType\<rparr>,
      \<lparr>enum_type = ''DomainGetJobStatsFlags'', unsigned_type = False,
       constants = consts_DomainGetJobStatsFlags, stringer = stringer_DomainGetJobStatsFlags\<rparr>,
      \<lparr>enum_type = ''DomainAbortJobFlagsValues'', unsigned_type = False,
       constants = consts_DomainAbortJobFlagsValues, stringer = stringer_DomainAbortJobFlagsValues\<rparr>,
      \<lparr>enum_type = ''DomainJobOperation'', unsigned_type = False,
       constants = consts_DomainJobOperation, stringer = stringer_DomainJobOperation\<rparr>,
      \<lparr>enum_type = ''DomainEventWatchdogAction'', unsigned_type = False,
       constants = consts_DomainEventWatchdogAction, stringer = stringer_DomainEventWatchdogAction\<rparr>,
      \<lparr>enum_type = ''DomainEventIOErrorAction'', unsigned_type = False,
       constants = consts_DomainEventIOErrorAction, stringer = stringer_DomainEventIOErrorAction\<rparr>,
      \<lparr>enum_type = ''DomainEventGraphicsPhase'', unsigned_type = False,
       constants = consts_DomainEventGraphicsPhase, stringer = stringer_DomainEventGraphicsPhase\<rparr>]"

lemma enums_3_2_checked: "list_all checked_enum enums_3_2" "list_all proper_hashes enums_3_2"
  by code_simp+

definition enums_3_3 :: "enumeration list" where
  "enums_3_3 =
     [\<lparr>enum_type = ''DomainEventGraphicsAddressType'', unsigned_type = False,
       constants = consts_DomainEventGraphicsAddressType, stringer = stringer_DomainEventGraphicsAddressType\<rparr>,
      \<lparr>enum_type = ''ConnectDomainEventBlockJobStatus'', unsigned_type = False,
       constants = consts_ConnectDomainEventBlockJobStatus, stringer = stringer_ConnectDomainEventBlockJobStatus\<rparr>,
      \<lparr>enum_type = ''ConnectDomainEventDiskChangeReason'', unsigned_type = False,
       constants = consts_ConnectDomainEventDiskChangeReason, stringer = stringer_ConnectDomainEventDiskChangeReason\<rparr>,
      \<lparr>enum_type = ''DomainEventTrayChangeReason'', unsigned_type = False,
       constants = consts_DomainEventTrayChangeReason, stringer = stringer_DomainEventTrayChangeReason\<rparr>,
      \<lparr>enum_type = ''ConnectDomainEventAgentLifecycleState'', unsigned_type = False,
       constants = consts_ConnectDomainEventAgentLifecycleState, stringer = stringer_ConnectDomainEventAgentLifecycleState\<rparr>,
      \<lparr>enum_type = ''ConnectDomainEventAgentLifecycleReason'', unsigned_type = False,
       constants = consts_ConnectDomainEventAgentLifecycleReason, stringer = stringer_ConnectDomainEventAgentLifecycleReason\<rparr>,
      \<lparr>enum_type = ''DomainEventID'', unsigned_type = False,
       constants = consts_DomainEventID, stringer = stringer_DomainEventID\<rparr>,
      \<lparr>enum_type = ''DomainConsoleFlags'', unsigned_type = False,
       constants = consts_DomainConsoleFlags, stringer = stringer_DomainConsoleFlags\<rparr>]"

lemma enums_3_3_checked: "list_all checked_enum enums_3_3" "list_all proper_hashes enums_3_3"
  by code_simp+

definition enums_3_4 :: "enumeration list" where
  "enums_3_4 =
     [\<lparr>enum_type = ''DomainChannelFlags'', unsigned_type = False,
       constants = consts_DomainChannelFlags, stringer = stringer_DomainChannelFlags\<rparr>,
      \<lparr>enum_type = ''DomainOpenGraphicsFlags'', unsigned_type = False,
       constants = consts_DomainOpenGraphicsFlags, stringer = stringer_DomainOpenGraphicsFlags\<rparr>,
      \<lparr>enum_type = ''DomainSetTimeFlags'', unsigned_type = False,
       constants = consts_DomainSetTimeFlags, stringer = stringer_DomainSetTimeFlags\<rparr>,
      \<lparr>enum_type = ''SchedParameterType'', unsigned_type = False,
       constants = consts_SchedParameterType, stringer = stringer_SchedParameterType\<rparr>,
      \<lparr>enum_type = ''BlkioParameterType'', unsigned_type = False,
       constants = consts_BlkioParameterType, stringer = stringer_BlkioParameterType\<rparr>,
      \<lparr>enum_type = ''MemoryParameterType'', unsigned_type = False,
       constants = consts_MemoryParameterType, stringer = stringer_MemoryParameterType\<rparr>,
      \<lparr>enum_type = ''DomainInterfaceAddressesSource'', unsigned_type = False,
       constants = consts_DomainInterfaceAddressesSource, stringer = stringer_DomainInterfaceAddressesSource\<rparr>,
      \<lparr>enum_type = ''DomainSetUserPasswordFlags'', unsigned_type = False,
       constants = consts_DomainSetUserPasswordFlags, stringer = stringer_DomainSetUserPasswordFlags\<rparr>]"

lemma enums_3_4_checked: "list_all checked_enum enums_3_4" "list_all proper_hashes enums_3_4"
  by code_simp+

definition enums_3_5 :: "enumeration list" where
  "enums_3_5 =
     [\<lparr>enum_type = ''DomainLifecycle'', unsigned_type = False,
       constants = consts_DomainLifecycle, stringer = stringer_DomainLifecycle\<rparr>,
      \<lparr>enum_type = ''DomainLifecycleAction'', unsigned_type = False,
       constants = consts_DomainLifecycleAction, stringer = stringer_DomainLifecycleAction\<rparr>,
      \<lparr>enum_type = ''DomainGuestInfoTypes'', unsigned_type = False,
       constants = consts_DomainGuestInfoTypes, stringer = stringer_DomainGuestInfoTypes\<rparr>,
      \<lparr>enum_type = ''DomainAgentResponseTimeoutValues'', unsigned_type = False,
       constants = consts_DomainAgentResponseTimeoutValues, stringer = stringer_DomainAgentResponseTimeoutValues\<rparr>,
      \<lparr>enum_type = ''DomainBackupBeginFlags'', unsigned_type = False,
       constants = consts_DomainBackupBeginFlags, stringer = stringer_DomainBackupBeginFlags\<rparr>,
      \<lparr>enum_type = ''DomainAuthorizedSSHKeysSetFlags'', unsigned_type = False,
       constants = consts_DomainAuthorizedSSHKeysSetFlags, stringer = stringer_DomainAuthorizedSSHKeysSetFlags\<rparr>,
      \<lparr>enum_type = ''DomainMessageType'', unsigned_type = False,
       constants = consts_DomainMessageType, stringer = stringer_DomainMessageType\<rparr>,
      \<lparr>enum_type = ''DomainDirtyRateStatus'', unsigned_type = False,
       constants = consts_DomainDirtyRateStatus, stringer = stringer_DomainDirtyRateStatus\<rparr>]"

lemma enums_3_5_checked: "list_all checked_enum enums_3_5" "list_all proper_hashes enums_3_5"
  by code_simp+

definition enums_3_6 :: "enumeration list" where
  "enums_3_6 =
     [\<lparr>enum_type = ''DomainDirtyRateCalcFlags'', unsigned_type = False,
       constants = consts_DomainDirtyRateCalcFlags, stringer = stringer_DomainDirtyRateCalcFlags\<rparr>,
      \<lparr>enum_type = ''DomainFDAssociateFlags'', unsigned_type = False,
       constants = consts_DomainFDAssociateFlags, stringer = stringer_DomainFDAssociateFlags\<rparr>,
      \<lparr>enum_type = ''DomainGraphicsReloadType'', unsigned_type = False,
       constants = consts_DomainGraphicsReloadType, stringer = stringer_DomainGraphicsReloadType\<rparr>,
      \<lparr>enum_type = ''EventHandleType'', unsigned_type = False,
       constants = consts_EventHandleType, stringer = stringer_EventHandleType\<rparr>,
      \<lparr>enum_type = ''NodeSuspendTarget'', unsigned_type = False,
       constants = consts_NodeSuspendTarget, stringer = stringer_NodeSuspendTarget\<rparr>,
      \<lparr>enum_type = ''NodeGetCPUStatsAllCPUs'', unsigned_type = False,
       constants = consts_NodeGetCPUStatsAllCPUs, stringer = stringer_NodeGetCPUStatsAllCPUs\<rparr>,
      \<lparr>enum_type = ''NodeGetMemoryStatsAllCells'', unsigned_type = False,
       constants = consts_NodeGetMemoryStatsAllCells, stringer = stringer_NodeGetMemoryStatsAllCells\<rparr>,
      \<lparr>enum_type = ''ConnectFlags'', unsigned_type = False,
       constants = consts_ConnectFlags, stringer = stringer_ConnectFlags\<rparr>]"

lemma enums_3_6_checked: "list_all checked_enum enums_3_6" "list_all proper_hashes enums_3_6"
  by code_simp+

definition enums_3_7 :: "enumeration list" where
  "enums_3_7 =
     [\<lparr>enum_type = ''ConnectCredentialType'', unsigned_type = False,
       constants = consts_ConnectCredentialType, stringer = stringer_ConnectCredentialType\<rparr>,
      \<lparr>enum_type = ''CPUCompareResult'', unsigned_type = False,
       constants = consts_CPUCompareResult, stringer = stringer_CPUCompareResult\<rparr>]"

lemma enums_3_7_checked: "list_all checked_enum enums_3_7" "list_all proper_hashes enums_3_7"
  by code_simp+

definition enums_3 :: "enumeration list" where
  "enums_3 = enums_3_1 @ enums_3_2 @ enums_3_3 @ enums_3_4 @ enums_3_5 @ enums_3_6 @ enums_3_7"

lemma enums_3_checked: "list_all checked_enum enums_3" "list_all proper_hashes enums_3"
  by (simp_all add: enums_3_def enums_3_1_checked enums_3_2_checked enums_3_3_checked enums_3_4_checked enums_3_5_checked enums_3_6_checked enums_3_7_checked)

end
