(* ===== verification/Const_Enums_4.thy ===== *)
theory Const_Enums_4
  imports Const_Stringer
begin

text \<open>
  Enumerations of \<open>src/const.gen.go\<close> with their \<open>String\<close> methods of \<open>src/const_strings.gen.go\<close>, from
  \<open>ConnectCompareCPUFlags\<close> to \<open>ErrorDomain\<close>: the constants in the order of the source, and the string, the index
  table, the cases or the map of the method.
\<close>

definition consts_ConnectCompareCPUFlags :: "(string \<times> int) list" where
  "consts_ConnectCompareCPUFlags =
     [(''ConnectCompareCPUFailIncompatible'', 1),
      (''ConnectCompareCPUValidateXML'', 2)]"

definition stringer_ConnectCompareCPUFlags :: stringer where
  "stringer_ConnectCompareCPUFlags =
     Indexed 1
       [''ConnectCompareCPUFailIncompatibleConnectCompareCPUValidateXML'']
       [0, 33, 61]"

definition consts_ConnectBaselineCPUFlags :: "(string \<times> int) list" where
  "consts_ConnectBaselineCPUFlags =
     [(''ConnectBaselineCPUExpandFeatures'', 1),
      (''ConnectBaselineCPUMigratable'', 2),
      (''ConnectBaselineCPUIgnoreHost'', 4)]"

definition stringer_ConnectBaselineCPUFlags :: stringer where
  "stringer_ConnectBaselineCPUFlags =
     Switch
      [Names 1 2 1
        [''ConnectBaselineCPUExpandFeaturesConnectBaselineCPUMigratable'']
        [0, 32, 60],
       Name 4 ''ConnectBaselineCPUIgnoreHost'']"

definition consts_NodeAllocPagesFlags :: "(string \<times> int) list" where
  "consts_NodeAllocPagesFlags =
     [(''NodeAllocPagesAdd'', 0),
      (''NodeAllocPagesSet'', 1)]"

definition stringer_NodeAllocPagesFlags :: stringer where
  "stringer_NodeAllocPagesFlags =
     Indexed 0
       [''NodeAllocPagesAddNodeAllocPagesSet'']
       [0, 17, 34]"

definition consts_ConnectListAllInterfacesFlags :: "(string \<times> int) list" where
  "consts_ConnectListAllInterfacesFlags =
     [(''ConnectListInterfacesInactive'', 1),
      (''ConnectListInterfacesActive'', 2)]"

definition stringer_ConnectListAllInterfacesFlags :: stringer where
  "stringer_ConnectListAllInterfacesFlags =
     Indexed 1
       [''ConnectListInterfacesInactiveConnectListInterfacesActive'']
       [0, 29, 56]"

definition consts_InterfaceXMLFlags :: "(string \<times> int) list" where
  "consts_InterfaceXMLFlags =
     [(''InterfaceXMLInactive'', 1)]"

definition stringer_InterfaceXMLFlags :: stringer where
  "stringer_InterfaceXMLFlags =
     Indexed 1
       [''InterfaceXMLInactive'']
       [0, 20]"

definition consts_InterfaceDefineFlags :: "(string \<times> int) list" where
  "consts_InterfaceDefineFlags =
     [(''InterfaceDefineValidate'', 1)]"

definition stringer_InterfaceDefineFlags :: stringer where
  "stringer_InterfaceDefineFlags =
     Indexed 1
       [''InterfaceDefineValidate'']
       [0, 23]"

definition consts_NetworkXMLFlags :: "(string \<times> int) list" where
  "consts_NetworkXMLFlags =
     [(''NetworkXMLInactive'', 1)]"

definition stringer_NetworkXMLFlags :: stringer where
  "stringer_NetworkXMLFlags =
     Indexed 1
       [''NetworkXMLInactive'']
       [0, 18]"

definition consts_ConnectListAllNetworksFlags :: "(string \<times> int) list" where
  "consts_ConnectListAllNetworksFlags =
     [(''ConnectListNetworksInactive'', 1),
      (''ConnectListNetworksActive'', 2),
      (''ConnectListNetworksPersistent'', 4),
      (''ConnectListNetworksTransient'', 8),
      (''ConnectListNetworksAutostart'', 16),
      (''ConnectListNetworksNoAutostart'', 32)]"

definition stringer_ConnectListAllNetworksFlags :: stringer where
  "stringer_ConnectListAllNetworksFlags =
     Switch
      [Names 1 2 1
        [''ConnectListNetworksInactiveConnectListNetworksActive'']
        [0, 27, 52],
       Name 4 ''ConnectListNetworksPersistent'',
       Name 8 ''ConnectListNetworksTransient'',
       Name 16 ''ConnectListNetworksAutostart'',
       Name 32 ''ConnectListNetworksNoAutostart'']"

definition consts_NetworkCreateFlags :: "(string \<times> int) list" where
  "consts_NetworkCreateFlags =
     [(''NetworkCreateValidate'', 1)]"

definition stringer_NetworkCreateFlags :: stringer where
  "stringer_NetworkCreateFlags =
     Indexed 1
       [''NetworkCreateValidate'']
       [0, 21]"

definition consts_NetworkDefineFlags :: "(string \<times> int) list" where
  "consts_NetworkDefineFlags =
     [(''NetworkDefineValidate'', 1)]"

definition stringer_NetworkDefineFlags :: stringer where
  "stringer_NetworkDefineFlags =
     Indexed 1
       [''NetworkDefineValidate'']
       [0, 21]"

definition consts_NetworkUpdateCommand :: "(string \<times> int) list" where
  "consts_NetworkUpdateCommand =
     [(''NetworkUpdateCommandNone'', 0),
      (''NetworkUpdateCommandModify'', 1),
      (''NetworkUpdateCommandDelete'', 2),
      (''NetworkUpdateCommandAddLast'', 3),
      (''NetworkUpdateCommandAddFirst'', 4)]"

definition stringer_NetworkUpdateCommand :: stringer where
  "stringer_NetworkUpdateCommand =
     Indexed 0
       [''NetworkUpdateCommandNoneNetworkUpdateCommandModifyNetworkUpdateCommandDelete'',
        ''NetworkUpdateCommandAddLastNetworkUpdateCommandAddFirst'']
       [0, 24, 50, 76, 103, 131]"

definition consts_NetworkUpdateSection :: "(string \<times> int) list" where
  "consts_NetworkUpdateSection =
     [(''NetworkSectionNone'', 0),
      (''NetworkSectionBridge'', 1),
      (''NetworkSectionDomain'', 2),
      (''NetworkSectionIP'', 3),
      (''NetworkSectionIPDhcpHost'', 4),
      (''NetworkSectionIPDhcpRange'', 5),
      (''NetworkSectionForward'', 6),
      (''NetworkSectionForwardInterface'', 7),
      (''NetworkSectionForwardPf'', 8),
      (''NetworkSectionPortgroup'', 9),
      (''NetworkSectionDNSHost'', 10),
      (''NetworkSectionDNSTxt'', 11),
      (''NetworkSectionDNSSrv'', 12)]"

definition stringer_NetworkUpdateSection :: stringer where
  "stringer_NetworkUpdateSection =
     Indexed 0
       [''NetworkSectionNoneNetworkSectionBridgeNetworkSectionDomainNetworkSectionIP'',
        ''NetworkSectionIPDhcpHostNetworkSectionIPDhcpRangeNetworkSectionForward'',
        ''NetworkSectionForwardInterfaceNetworkSectionForwardPfNetworkSectionPortgroup'',
        ''NetworkSectionDNSHostNetworkSectionDNSTxtNetworkSectionDNSSrv'']
       [0, 18, 38, 58, 74, 98, 123, 144, 174, 197, 220, 241, 261, 281]"

definition consts_NetworkUpdateFlags :: "(string \<times> int) list" where
  "consts_NetworkUpdateFlags =
     [(''NetworkUpdateAffectCurrent'', 0),
      (''NetworkUpdateAffectLive'', 1),
      (''NetworkUpdateAffectConfig'', 2)]"

definition stringer_NetworkUpdateFlags :: stringer where
  "stringer_NetworkUpdateFlags =
     Indexed 0
       [''NetworkUpdateAffectCurrentNetworkUpdateAffectLiveNetworkUpdateAffectConfig'']
       [0, 26, 49, 74]"

definition consts_NetworkEventLifecycleType :: "(string \<times> int) list" where
  "consts_NetworkEventLifecycleType =
     [(''NetworkEventDefined'', 0),
      (''NetworkEventUndefined'', 1),
      (''NetworkEventStarted'', 2),
      (''NetworkEventStopped'', 3)]"

definition stringer_NetworkEventLifecycleType :: stringer where
  "stringer_NetworkEventLifecycleType =
     Indexed 0
       [''NetworkEventDefinedNetworkEventUndefinedNetworkEventStartedNetworkEventStopped'']
       [0, 19, 40, 59, 78]"

definition consts_NetworkEventID :: "(string \<times> int) list" where
  "consts_NetworkEventID =
     [(''NetworkEventIDLifecycle'', 0),
      (''NetworkEventIDMetadataChange'', 1)]"

definition stringer_NetworkEventID :: stringer where
  "stringer_NetworkEventID =
     Indexed 0
       [''NetworkEventIDLifecycleNetworkEventIDMetadataChange'']
       [0, 23, 51]"

definition consts_IPAddrType :: "(string \<times> int) list" where
  "consts_IPAddrType =
     [(''IPAddrTypeIpv4'', 0),
      (''IPAddrTypeIpv6'', 1)]"

definition stringer_IPAddrType :: stringer where
  "stringer_IPAddrType =
     Indexed 0
       [''IPAddrTypeIpv4IPAddrTypeIpv6'']
       [0, 14, 28]"

definition consts_NetworkPortCreateFlags :: "(string \<times> int) list" where
  "consts_NetworkPortCreateFlags =
     [(''NetworkPortCreateReclaim'', 1),
      (''NetworkPortCreateValidate'', 2)]"

definition stringer_NetworkPortCreateFlags :: stringer where
  "stringer_NetworkPortCreateFlags =
     Indexed 1
       [''NetworkPortCreateReclaimNetworkPortCreateValidate'']
       [0, 24, 49]"

definition consts_NetworkMetadataType :: "(string \<times> int) list" where
  "consts_NetworkMetadataType =
     [(''NetworkMetadataDescription'', 0),
      (''NetworkMetadataTitle'', 1),
      (''NetworkMetadataElement'', 2)]"

definition stringer_NetworkMetadataType :: stringer where
  "stringer_NetworkMetadataType =
     Indexed 0
       [''NetworkMetadataDescriptionNetworkMetadataTitleNetworkMetadataElement'']
       [0, 26, 46, 68]"

definition consts_ConnectListAllNodeDeviceFlags :: "(string \<times> int) list" where
  "consts_ConnectListAllNodeDeviceFlags =
     [(''ConnectListNodeDevicesCapSystem'', 1),
      (''ConnectListNodeDevicesCapPciDev'', 2),
      (''ConnectListNodeDevicesCapUsbDev'', 4),
      (''ConnectListNodeDevicesCapUsbInterface'', 8),
      (''ConnectListNodeDevicesCapNet'', 16),
      (''ConnectListNodeDevicesCapScsiHost'', 32),
      (''ConnectListNodeDevicesCapScsiTarget'', 64),
      (''ConnectListNodeDevicesCapScsi'', 128),
      (''ConnectListNodeDevicesCapStorage'', 256),
      (''ConnectListNodeDevicesCapFcHost'', 512),
      (''ConnectListNodeDevicesCapVports'', 1024),
      (''ConnectListNodeDevicesCapScsiGeneric'', 2048),
      (''ConnectListNodeDevicesCapDrm'', 4096),
      (''ConnectListNodeDevicesCapMdevTypes'', 8192),
      (''ConnectListNodeDevicesCapMdev'', 16384),
      (''ConnectListNodeDevicesCapCcwDev'', 32768),
      (''ConnectListNodeDevicesCapCssDev'', 65536),
      (''ConnectListNodeDevicesCapVdpa'', 131072),
      (''ConnectListNodeDevicesCapApCard'', 262144),
      (''ConnectListNodeDevicesCapApQueue'', 524288),
      (''ConnectListNodeDevicesCapApMatrix'', 1048576),
      (''ConnectListNodeDevicesCapVpd'', 2097152),
      (''ConnectListNodeDevicesCapCcwgroupDev'', 4194304),
      (''ConnectListNodeDevicesCapCcwgroupMember'', 8388608),
      (''ConnectListNodeDevicesPersistent'', 268435456),
      (''ConnectListNodeDevicesTransient'', 536870912),
      (''ConnectListNodeDevicesInactive'', 1073741824),
      (''ConnectListNodeDevicesActive'', 2147483648)]"

definition stringer_ConnectListAllNodeDeviceFlags :: stringer where
  "stringer_ConnectListAllNodeDeviceFlags =
     Table
       [''ConnectListNodeDevicesCapSystemConnectListNodeDevicesCapPciDevConnectListNodeDevicesCapUsbDev'',
        ''ConnectListNodeDevicesCapUsbInterfaceConnectListNodeDevicesCapNet'',
        ''ConnectListNodeDevicesCapScsiHostConnectListNodeDevicesCapScsiTarget'',
        ''ConnectListNodeDevicesCapScsiConnectListNodeDevicesCapStorageConnectListNodeDevicesCapFcHost'',
        ''ConnectListNodeDevicesCapVportsConnectListNodeDevicesCapScsiGenericConnectListNodeDevicesCapDrm'',
        ''ConnectListNodeDevicesCapMdevTypesConnectListNodeDevicesCapMdevConnectListNodeDevicesCapCcwDev'',
        ''ConnectListNodeDevicesCapCssDevConnectListNodeDevicesCapVdpaConnectListNodeDevicesCapApCard'',
        ''ConnectListNodeDevicesCapApQueueConnectListNodeDevicesCapApMatrixConnectListNodeDevicesCapVpd'',
        ''ConnectListNodeDevicesCapCcwgroupDevConnectListNodeDevicesCapCcwgroupMember'',
        ''ConnectListNodeDevicesPersistentConnectListNodeDevicesTransientConnectListNodeDevicesInactive'',
        ''ConnectListNodeDevicesActive'']
       [(1, 0, 31), (2, 31, 62), (4, 62, 93), (8, 93, 130), (16, 130, 158), (32, 158, 191),
        (64, 191, 226), (128, 226, 255), (256, 255, 287), (512, 287, 318), (1024, 318, 349),
        (2048, 349, 385), (4096, 385, 413), (8192, 413, 447), (16384, 447, 476), (32768, 476, 507),
        (65536, 507, 538), (131072, 538, 567), (262144, 567, 598), (524288, 598, 630),
        (1048576, 630, 663), (2097152, 663, 691), (4194304, 691, 727), (8388608, 727, 766),
        (268435456, 766, 798), (536870912, 798, 829), (1073741824, 829, 859), (2147483648, 859, 887)]"

definition consts_NodeDeviceXMLFlags :: "(string \<times> int) list" where
  "consts_NodeDeviceXMLFlags =
     [(''NodeDeviceXMLInactive'', 1)]"

definition stringer_NodeDeviceXMLFlags :: stringer where
  "stringer_NodeDeviceXMLFlags =
     Indexed 1
       [''NodeDeviceXMLInactive'']
       [0, 21]"

definition consts_NodeDeviceCreateXMLFlags :: "(string \<times> int) list" where
  "consts_NodeDeviceCreateXMLFlags =
     [(''NodeDeviceCreateXMLValidate'', 1)]"

definition stringer_NodeDeviceCreateXMLFlags :: stringer where
  "stringer_NodeDeviceCreateXMLFlags =
     Indexed 1
       [''NodeDeviceCreateXMLValidate'']
       [0, 27]"

definition consts_NodeDeviceDefineXMLFlags :: "(string \<times> int) list" where
  "consts_NodeDeviceDefineXMLFlags =
     [(''NodeDeviceDefineXMLValidate'', 1)]"

definition stringer_NodeDeviceDefineXMLFlags :: stringer where
  "stringer_NodeDeviceDefineXMLFlags =
     Indexed 1
       [''NodeDeviceDefineXMLValidate'']
       [0, 27]"

definition consts_NodeDeviceUpdateFlags :: "(string \<times> int) list" where
  "consts_NodeDeviceUpdateFlags =
     [(''NodeDeviceUpdateAffectCurrent'', 0),
      (''NodeDeviceUpdateAffectLive'', 1),
      (''NodeDeviceUpdateAffectConfig'', 2)]"

definition stringer_NodeDeviceUpdateFlags :: stringer where
  "stringer_NodeDeviceUpdateFlags =
     Indexed 0
       [''NodeDeviceUpdateAffectCurrentNodeDeviceUpdateAffectLiveNodeDeviceUpdateAffectConfig'']
       [0, 29, 55, 83]"

definition consts_NodeDeviceEventID :: "(string \<times> int) list" where
  "consts_NodeDeviceEventID =
     [(''NodeDeviceEventIDLifecycle'', 0),
      (''NodeDeviceEventIDUpdate'', 1)]"

definition stringer_NodeDeviceEventID :: stringer where
  "stringer_NodeDeviceEventID =
     Indexed 0
       [''NodeDeviceEventIDLifecycleNodeDeviceEventIDUpdate'']
       [0, 26, 49]"

definition consts_NodeDeviceEventLifecycleType :: "(string \<times> int) list" where
  "consts_NodeDeviceEventLifecycleType =
     [(''NodeDeviceEventCreated'', 0),
      (''NodeDeviceEventDeleted'', 1),
      (''NodeDeviceEventDefined'', 2),
      (''NodeDeviceEventUndefined'', 3)]"

definition stringer_NodeDeviceEventLifecycleType :: stringer where
  "stringer_NodeDeviceEventLifecycleType =
     Indexed 0
       [''NodeDeviceEventCreatedNodeDeviceEventDeletedNodeDeviceEventDefinedNodeDeviceEventUndefined'']
       [0, 22, 44, 66, 90]"

definition consts_NWFilterDefineFlags :: "(string \<times> int) list" where
  "consts_NWFilterDefineFlags =
     [(''NwfilterDefineValidate'', 1)]"

definition stringer_NWFilterDefineFlags :: stringer where
  "stringer_NWFilterDefineFlags =
     Indexed 1
       [''NwfilterDefineValidate'']
       [0, 22]"

definition consts_NWFilterBindingCreateFlags :: "(string \<times> int) list" where
  "consts_NWFilterBindingCreateFlags =
     [(''NwfilterBindingCreateValidate'', 1)]"

definition stringer_NWFilterBindingCreateFlags :: stringer where
  "stringer_NWFilterBindingCreateFlags =
     Indexed 1
       [''NwfilterBindingCreateValidate'']
       [0, 29]"

definition consts_SecretUsageType :: "(string \<times> int) list" where
  "consts_SecretUsageType =
     [(''SecretUsageTypeNone'', 0),
      (''SecretUsageTypeVolume'', 1),
      (''SecretUsageTypeCeph'', 2),
      (''SecretUsageTypeIscsi'', 3),
      (''SecretUsageTypeTLS'', 4),
      (''SecretUsageTypeVtpm'', 5)]"

definition stringer_SecretUsageType :: stringer where
  "stringer_SecretUsageType =
     Indexed 0
       [''SecretUsageTypeNoneSecretUsageTypeVolumeSecretUsageTypeCephSecretUsageTypeIscsi'',
        ''SecretUsageTypeTLSSecretUsageTypeVtpm'']
       [0, 19, 40, 59, 79, 97, 116]"

definition consts_ConnectListAllSecretsFlags :: "(string \<times> int) list" where
  "consts_ConnectListAllSecretsFlags =
     [(''ConnectListSecretsEphemeral'', 1),
      (''ConnectListSecretsNoEphemeral'', 2),
      (''ConnectListSecretsPrivate'', 4),
      (''ConnectListSecretsNoPrivate'', 8)]"

definition stringer_ConnectListAllSecretsFlags :: stringer where
  "stringer_ConnectListAllSecretsFlags =
     Switch
      [Names 1 2 1
        [''ConnectListSecretsEphemeralConnectListSecretsNoEphemeral'']
        [0, 27, 56],
       Name 4 ''ConnectListSecretsPrivate'',
       Name 8 ''ConnectListSecretsNoPrivate'']"

definition consts_SecretDefineFlags :: "(string \<times> int) list" where
  "consts_SecretDefineFlags =
     [(''SecretDefineValidate'', 1)]"

definition stringer_SecretDefineFlags :: stringer where
  "stringer_SecretDefineFlags =
     Indexed 1
       [''SecretDefineValidate'']
       [0, 20]"

definition consts_SecretEventID :: "(string \<times> int) list" where
  "consts_SecretEventID =
     [(''SecretEventIDLifecycle'', 0),
      (''SecretEventIDValueChanged'', 1)]"

definition stringer_SecretEventID :: stringer where
  "stringer_SecretEventID =
     Indexed 0
       [''SecretEventIDLifecycleSecretEventIDValueChanged'']
       [0, 22, 47]"

definition consts_SecretEventLifecycleType :: "(string \<times> int) list" where
  "consts_SecretEventLifecycleType =
     [(''SecretEventDefined'', 0),
      (''SecretEventUndefined'', 1)]"

definition stringer_SecretEventLifecycleType :: stringer where
  "stringer_SecretEventLifecycleType =
     Indexed 0
       [''SecretEventDefinedSecretEventUndefined'']
       [0, 18, 38]"

definition consts_StoragePoolState :: "(string \<times> int) list" where
  "consts_StoragePoolState =
     [(''StoragePoolInactive'', 0),
      (''StoragePoolBuilding'', 1),
      (''StoragePoolRunning'', 2),
      (''StoragePoolDegraded'', 3),
      (''StoragePoolInaccessible'', 4)]"

definition stringer_StoragePoolState :: stringer where
  "stringer_StoragePoolState =
     Indexed 0
       [''StoragePoolInactiveStoragePoolBuildingStoragePoolRunningStoragePoolDegraded'',
        ''StoragePoolInaccessible'']
       [0, 19, 38, 56, 75, 98]"

definition consts_StoragePoolBuildFlags :: "(string \<times> int) list" where
  "consts_StoragePoolBuildFlags =
     [(''StoragePoolBuildNew'', 0),
      (''StoragePoolBuildRepair'', 1),
      (''StoragePoolBuildResize'', 2),
      (''StoragePoolBuildNoOverwrite'', 4),
      (''StoragePoolBuildOverwrite'', 8)]"

definition stringer_StoragePoolBuildFlags :: stringer where
  "stringer_StoragePoolBuildFlags =
     Switch
      [Names 0 2 0
        [''StoragePoolBuildNewStoragePoolBuildRepairStoragePoolBuildResize'']
        [0, 19, 41, 63],
       Name 4 ''StoragePoolBuildNoOverwrite'',
       Name 8 ''StoragePoolBuildOverwrite'']"

definition consts_StoragePoolDeleteFlags :: "(string \<times> int) list" where
  "consts_StoragePoolDeleteFlags =
     [(''StoragePoolDeleteNormal'', 0),
      (''StoragePoolDeleteZeroed'', 1)]"

definition stringer_StoragePoolDeleteFlags :: stringer where
  "stringer_StoragePoolDeleteFlags =
     Indexed 0
       [''StoragePoolDeleteNormalStoragePoolDeleteZeroed'']
       [0, 23, 46]"

definition consts_StoragePoolCreateFlags :: "(string \<times> int) list" where
  "consts_StoragePoolCreateFlags =
     [(''StoragePoolCreateNormal'', 0),
      (''StoragePoolCreateWithBuild'', 1),
      (''StoragePoolCreateWithBuildOverwrite'', 2),
      (''StoragePoolCreateWithBuildNoOverwrite'', 4)]"

definition stringer_StoragePoolCreateFlags :: stringer where
  "stringer_StoragePoolCreateFlags =
     Switch
      [Names 0 2 0
        [''StoragePoolCreateNormalStoragePoolCreateWithBuildStoragePoolCreateWithBuildOverwrite'']
        [0, 23, 49, 84],
       Name 4 ''StoragePoolCreateWithBuildNoOverwrite'']"

definition consts_StorageVolType :: "(string \<times> int) list" where
  "consts_StorageVolType =
     [(''StorageVolFile'', 0),
      (''StorageVolBlock'', 1),
      (''StorageVolDir'', 2),
      (''StorageVolNetwork'', 3),
      (''StorageVolNetdir'', 4),
      (''StorageVolPloop'', 5)]"

definition stringer_StorageVolType :: stringer where
  "stringer_StorageVolType =
     Indexed 0
       [''StorageVolFileStorageVolBlockStorageVolDirStorageVolNetworkStorageVolNetdirStorageVolPloop'']
       [0, 14, 29, 42, 59, 75, 90]"

definition consts_StorageVolDeleteFlags :: "(string \<times> int) list" where
  "consts_StorageVolDeleteFlags =
     [(''StorageVolDeleteNormal'', 0),
      (''StorageVolDeleteZeroed'', 1),
      (''StorageVolDeleteWithSnapshots'', 2)]"

definition stringer_StorageVolDeleteFlags :: stringer where
  "stringer_StorageVolDeleteFlags =
     Indexed 0
       [''StorageVolDeleteNormalStorageVolDeleteZeroedStorageVolDeleteWithSnapshots'']
       [0, 22, 44, 73]"

definition consts_StorageVolWipeAlgorithm :: "(string \<times> int) list" where
  "consts_StorageVolWipeAlgorithm =
     [(''StorageVolWipeAlgZero'', 0),
      (''StorageVolWipeAlgNnsa'', 1),
      (''StorageVolWipeAlgDod'', 2),
      (''StorageVolWipeAlgBsi'', 3),
      (''StorageVolWipeAlgGutmann'', 4),
      (''StorageVolWipeAlgSchneier'', 5),
      (''StorageVolWipeAlgPfitzner7'', 6),
      (''StorageVolWipeAlgPfitzner33'', 7),
      (''StorageVolWipeAlgRandom'', 8),
      (''StorageVolWipeAlgTrim'', 9)]"

definition stringer_StorageVolWipeAlgorithm :: stringer where
  "stringer_StorageVolWipeAlgorithm =
     Indexed 0
       [''StorageVolWipeAlgZeroStorageVolWipeAlgNnsaStorageVolWipeAlgDodStorageVolWipeAlgBsi'',
        ''StorageVolWipeAlgGutmannStorageVolWipeAlgSchneierStorageVolWipeAlgPfitzner7'',
        ''StorageVolWipeAlgPfitzner33StorageVolWipeAlgRandomStorageVolWipeAlgTrim'']
       [0, 21, 42, 62, 82, 106, 131, 157, 184, 207, 228]"

definition consts_StorageVolInfoFlags :: "(string \<times> int) list" where
  "consts_StorageVolInfoFlags =
     [(''StorageVolUseAllocation'', 0),
      (''StorageVolGetPhysical'', 1)]"

definition stringer_StorageVolInfoFlags :: stringer where
  "stringer_StorageVolInfoFlags =
     Indexed 0
       [''StorageVolUseAllocationStorageVolGetPhysical'']
       [0, 23, 44]"

definition consts_StorageXMLFlags :: "(string \<times> int) list" where
  "consts_StorageXMLFlags =
     [(''StorageXMLInactive'', 1)]"

definition stringer_StorageXMLFlags :: stringer where
  "stringer_StorageXMLFlags =
     Indexed 1
       [''StorageXMLInactive'']
       [0, 18]"

definition consts_ConnectListAllStoragePoolsFlags :: "(string \<times> int) list" where
  "consts_ConnectListAllStoragePoolsFlags =
     [(''ConnectListStoragePoolsInactive'', 1),
      (''ConnectListStoragePoolsActive'', 2),
      (''ConnectListStoragePoolsPersistent'', 4),
      (''ConnectListStoragePoolsTransient'', 8),
      (''ConnectListStoragePoolsAutostart'', 16),
      (''ConnectListStoragePoolsNoAutostart'', 32),
      (''ConnectListStoragePoolsDir'', 64),
      (''ConnectListStoragePoolsFs'', 128),
      (''ConnectListStoragePoolsNetfs'', 256),
      (''ConnectListStoragePoolsLogical'', 512),
      (''ConnectListStoragePoolsDisk'', 1024),
      (''ConnectListStoragePoolsIscsi'', 2048),
      (''ConnectListStoragePoolsScsi'', 4096),
      (''ConnectListStoragePoolsMpath'', 8192),
      (''ConnectListStoragePoolsRbd'', 16384),
      (''ConnectListStoragePoolsSheepdog'', 32768),
      (''ConnectListStoragePoolsGluster'', 65536),
      (''ConnectListStoragePoolsZfs'', 131072),
      (''ConnectListStoragePoolsVstorage'', 262144),
      (''ConnectListStoragePoolsIscsiDirect'', 524288)]"

definition stringer_ConnectListAllStoragePoolsFlags :: stringer where
  "stringer_ConnectListAllStoragePoolsFlags =
     Table
       [''ConnectListStoragePoolsInactiveConnectListStoragePoolsActiveConnectListStoragePoolsPersistent'',
        ''ConnectListStoragePoolsTransientConnectListStoragePoolsAutostart'',
        ''ConnectListStoragePoolsNoAutostartConnectListStoragePoolsDirConnectListStoragePoolsFs'',
        ''ConnectListStoragePoolsNetfsConnectListStoragePoolsLogicalConnectListStoragePoolsDisk'',
        ''ConnectListStoragePoolsIscsiConnectListStoragePoolsScsiConnectListStoragePoolsMpath'',
        ''ConnectListStoragePoolsRbdConnectListStoragePoolsSheepdogConnectListStoragePoolsGluster'',
        ''ConnectListStoragePoolsZfsConnectListStoragePoolsVstorageConnectListStoragePoolsIscsiDirect'']
       [(1, 0, 31), (2, 31, 60), (4, 60, 93), (8, 93, 125), (16, 125, 157), (32, 157, 191),
        (64, 191, 217), (128, 217, 242), (256, 242, 270), (512, 270, 300), (1024, 300, 327),
        (2048, 327, 355), (4096, 355, 382), (8192, 382, 410), (16384, 410, 436), (32768, 436, 467),
        (65536, 467, 497), (131072, 497, 523), (262144, 523, 554), (524288, 554, 588)]"

definition consts_StoragePoolDefineFlags :: "(string \<times> int) list" where
  "consts_StoragePoolDefineFlags =
     [(''StoragePoolDefineValidate'', 1)]"

definition stringer_StoragePoolDefineFlags :: stringer where
  "stringer_StoragePoolDefineFlags =
     Indexed 1
       [''StoragePoolDefineValidate'']
       [0, 25]"

definition consts_StorageVolCreateFlags :: "(string \<times> int) list" where
  "consts_StorageVolCreateFlags =
     [(''StorageVolCreatePreallocMetadata'', 1),
      (''StorageVolCreateReflink'', 2),
      (''StorageVolCreateValidate'', 4)]"

definition stringer_StorageVolCreateFlags :: stringer where
  "stringer_StorageVolCreateFlags =
     Switch
      [Names 1 2 1
        [''StorageVolCreatePreallocMetadataStorageVolCreateReflink'']
        [0, 32, 55],
       Name 4 ''StorageVolCreateValidate'']"

definition consts_StorageVolDownloadFlags :: "(string \<times> int) list" where
  "consts_StorageVolDownloadFlags =
     [(''StorageVolDownloadSparseStream'', 1)]"

definition stringer_StorageVolDownloadFlags :: stringer where
  "stringer_StorageVolDownloadFlags =
     Indexed 1
       [''StorageVolDownloadSparseStream'']
       [0, 30]"

definition consts_StorageVolUploadFlags :: "(string \<times> int) list" where
  "consts_StorageVolUploadFlags =
     [(''StorageVolUploadSparseStream'', 1)]"

definition stringer_StorageVolUploadFlags :: stringer where
  "stringer_StorageVolUploadFlags =
     Indexed 1
       [''StorageVolUploadSparseStream'']
       [0, 28]"

definition consts_StorageVolResizeFlags :: "(string \<times> int) list" where
  "consts_StorageVolResizeFlags =
     [(''StorageVolResizeAllocate'', 1),
      (''StorageVolResizeDelta'', 2),
      (''StorageVolResizeShrink'', 4)]"

definition stringer_StorageVolResizeFlags :: stringer where
  "stringer_StorageVolResizeFlags =
     Switch
      [Names 1 2 1
        [''StorageVolResizeAllocateStorageVolResizeDelta'']
        [0, 24, 45],
       Name 4 ''StorageVolResizeShrink'']"

definition consts_StoragePoolEventID :: "(string \<times> int) list" where
  "consts_StoragePoolEventID =
     [(''StoragePoolEventIDLifecycle'', 0),
      (''StoragePoolEventIDRefresh'', 1)]"

definition stringer_StoragePoolEventID :: stringer where
  "stringer_StoragePoolEventID =
     Indexed 0
       [''StoragePoolEventIDLifecycleStoragePoolEventIDRefresh'']
       [0, 27, 52]"

definition consts_StoragePoolEventLifecycleType :: "(string \<times> int) list" where
  "consts_StoragePoolEventLifecycleType =
     [(''StoragePoolEventDefined'', 0),
      (''StoragePoolEventUndefined'', 1),
      (''StoragePoolEventStarted'', 2),
      (''StoragePoolEventStopped'', 3),
      (''StoragePoolEventCreated'', 4),
      (''StoragePoolEventDeleted'', 5)]"

definition stringer_StoragePoolEventLifecycleType :: stringer where
  "stringer_StoragePoolEventLifecycleType =
     Indexed 0
       [''StoragePoolEventDefinedStoragePoolEventUndefinedStoragePoolEventStartedStoragePoolEventStopped'',
        ''StoragePoolEventCreatedStoragePoolEventDeleted'']
       [0, 23, 48, 71, 94, 117, 140]"

definition consts_StreamFlags :: "(string \<times> int) list" where
  "consts_StreamFlags =
     [(''StreamNonblock'', 1)]"

definition stringer_StreamFlags :: stringer where
  "stringer_StreamFlags =
     Indexed 1
       [''StreamNonblock'']
       [0, 14]"

definition consts_StreamRecvFlagsValues :: "(string \<times> int) list" where
  "consts_StreamRecvFlagsValues =
     [(''StreamRecvStopAtHole'', 1)]"

definition stringer_StreamRecvFlagsValues :: stringer where
  "stringer_StreamRecvFlagsValues =
     Indexed 1
       [''StreamRecvStopAtHole'']
       [0, 20]"

definition consts_StreamEventType :: "(string \<times> int) list" where
  "consts_StreamEventType =
     [(''StreamEventReadable'', 1),
      (''StreamEventWritable'', 2),
      (''StreamEventError'', 4),
      (''StreamEventHangup'', 8)]"

definition stringer_StreamEventType :: stringer where
  "stringer_StreamEventType =
     Switch
      [Names 1 2 1
        [''StreamEventReadableStreamEventWritable'']
        [0, 19, 38],
       Name 4 ''StreamEventError'',
       Name 8 ''StreamEventHangup'']"

definition consts_ErrorLevel :: "(string \<times> int) list" where
  "consts_ErrorLevel =
     [(''ErrNone'', 0),
      (''ErrWarning'', 1),
      (''ErrError'', 2)]"

definition stringer_ErrorLevel :: stringer where
  "stringer_ErrorLevel =
     Indexed 0
       [''ErrNoneErrWarningErrError'']
       [0, 7, 17, 25]"

definition consts_ErrorDomain :: "(string \<times> int) list" where
  "consts_ErrorDomain =
     [(''fromNone'', 0),
      (''fromXen'', 1),
      (''fromXend'', 2),
      (''fromXenstore'', 3),
      (''fromSexpr'', 4),
      (''fromXML'', 5),
      (''fromDom'', 6),
      (''fromRPC'', 7),
      (''fromProxy'', 8),
      (''fromConf'', 9),
      (''fromQemu'', 10),
      (''fromNet'', 11),
      (''fromTest'', 12),
      (''fromRemote'', 13),
      (''fromOpenvz'', 14),
      (''fromXenxm'', 15),
      (''fromStatsLinux'', 16),
      (''fromLxc'', 17),
      (''fromStorage'', 18),
      (''fromNetwork'', 19),
      (''fromDomain'', 20),
      (''fromUml'', 21),
      (''fromNodedev'', 22),
      (''fromXenInotify'', 23),
      (''fromSecurity'', 24),
      (''fromVbox'', 25),
      (''fromInterface'', 26),
      (''fromOne'', 27),
      (''fromEsx'', 28),
      (''fromPhyp'', 29),
      (''fromSecret'', 30),
      (''fromCPU'', 31),
      (''fromXenapi'', 32),
      (''fromNwfilter'', 33),
      (''fromHook'', 34),
      (''fromDomainSnapshot'', 35),
      (''fromAudit'', 36),
      (''fromSysinfo'', 37),
      (''fromStreams'', 38),
      (''fromVmware'', 39),
      (''fromEvent'', 40),
      (''fromLibxl'', 41),
      (''fromLocking'', 42),
      (''fromHyperv'', 43),
      (''fromCapabilities'', 44),
      (''fromURI'', 45),
      (''fromAuth'', 46),
      (''fromDbus'', 47),
      (''fromParallels'', 48),
      (''fromDevice'', 49),
      (''fromSSH'', 50),
      (''fromLockspace'', 51),
      (''fromInitctl'', 52),
      (''fromIdentity'', 53),
      (''fromCgroup'', 54),
      (''fromAccess'', 55),
      (''fromSystemd'', 56),
      (''fromBhyve'', 57),
      (''fromCrypto'', 58),
      (''fromFirewall'', 59),
      (''fromPolkit'', 60),
      (''fromThread'', 61),
      (''fromAdmin'', 62),
      (''fromLogging'', 63),
      (''fromXenxl'', 64),
      (''fromPerf'', 65),
      (''fromLibssh'', 66),
      (''fromResctrl'', 67),
      (''fromFirewalld'', 68),
      (''fromDomainCheckpoint'', 69),
      (''fromTpm'', 70),
      (''fromBpf'', 71),
      (''fromCh'', 72)]"

definition stringer_ErrorDomain :: stringer where
  "stringer_ErrorDomain =
     Indexed 0
       [''fromNonefromXenfromXendfromXenstorefromSexprfromXMLfromDomfromRPCfromProxyfromConffromQemu'',
        ''fromNetfromTestfromRemotefromOpenvzfromXenxmfromStatsLinuxfromLxcfromStoragefromNetwork'',
        ''fromDomainfromUmlfromNodedevfromXenInotifyfromSecurityfromVboxfromInterfacefromOnefromEsx'',
        ''fromPhypfromSecretfromCPUfromXenapifromNwfilterfromHookfromDomainSnapshotfromAuditfromSysinfo'',
        ''fromStreamsfromVmwarefromEventfromLibxlfromLockingfromHypervfromCapabilitiesfromURIfromAuth'',
        ''fromDbusfromParallelsfromDevicefromSSHfromLockspacefromInitctlfromIdentityfromCgroupfromAccess'',
        ''fromSystemdfromBhyvefromCryptofromFirewallfromPolkitfromThreadfromAdminfromLoggingfromXenxl'',
        ''fromPerffromLibsshfromResctrlfromFirewalldfromDomainCheckpointfromTpmfromBpffromCh'']
       [0, 8, 15, 23, 35, 44, 51, 58, 65, 74, 82, 90, 97, 105, 115, 125, 134, 148, 155, 166, 177,
        187, 194, 205, 219, 231, 239, 252, 259, 266, 274, 284, 291, 301, 313, 321, 339, 348, 359,
        370, 380, 389, 398, 409, 419, 435, 442, 450, 458, 471, 481, 488, 501, 512, 524, 534, 544,
        555, 564, 574, 586, 596, 606, 615, 626, 635, 643, 653, 664, 677, 697, 704, 711, 717]"

definition enums_4_1 :: "enumeration list" where
  "enums_4_1 =
     [\<lparr>enum_type = ''ConnectCompareCPUFlags'', unsigned_type = False,
       constants = consts_ConnectCompareCPUFlags, stringer = stringer_ConnectCompareCPUFlags\<rparr>,
      \<lparr>enum_type = ''ConnectBaselineCPUFlags'', unsigned_type = False,
       constants = consts_ConnectBaselineCPUFlags, stringer = stringer_ConnectBaselineCPUFlags\<rparr>,
      \<lparr>enum_type = ''NodeAllocPagesFlags'', unsigned_type = False,
       constants = consts_NodeAllocPagesFlags, stringer = stringer_NodeAllocPagesFlags\<rparr>,
      \<lparr>enum_type = ''ConnectListAllInterfacesFlags'', unsigned_type = False,
       constants = consts_ConnectListAllInterfacesFlags, stringer = stringer_ConnectListAllInterfacesFlags\<rparr>,
      \<lparr>enum_type = ''InterfaceXMLFlags'', unsigned_type = False,
       constants = consts_InterfaceXMLFlags, stringer = stringer_InterfaceXMLFlags\<rparr>,
      \<lparr>enum_type = ''InterfaceDefineFlags'', unsigned_type = False,
       constants = consts_InterfaceDefineFlags, stringer = stringer_InterfaceDefineFlags\<rparr>,
      \<lparr>enum_type = ''NetworkXMLFlags'', unsigned_type = False,
       constants = consts_NetworkXMLFlags, stringer = stringer_NetworkXMLFlags\<rparr>,
      \<lparr>enum_type = ''ConnectListAllNetworksFlags'', unsigned_type = False,
       constants = consts_ConnectListAllNetworksFlags, stringer = stringer_ConnectListAllNetworksFlags\<rparr>]"

lemma enums_4_1_checked: "list_all checked_enum enums_4_1" "list_all proper_hashes enums_4_1"
  by code_simp+

definition enums_4_2 :: "enumeration list" where
  "enums_4_2 =
     [\<lparr>enum_type = ''NetworkCreateFlags'', unsigned_type = False,
       constants = consts_NetworkCreateFlags, stringer = stringer_NetworkCreateFlags\<rparr>,
      \<lparr>enum_type = ''NetworkDefineFlags'', unsigned_type = False,
       constants = consts_NetworkDefineFlags, stringer = stringer_NetworkDefineFlags\<rparr>,
      \<lparr>enum_type = ''NetworkUpdateCommand'', unsigned_type = False,
       constants = consts_NetworkUpdateCommand, stringer = stringer_NetworkUpdateCommand\<rparr>,
      \<lparr>enum_type = ''NetworkUpdateSection'', unsigned_type = False,
       constants = consts_NetworkUpdateSection, stringer = stringer_NetworkUpdateSection\<rparr>,
      \<lparr>enum_type = ''NetworkUpdateFlags'', unsigned_type = False,
       constants = consts_NetworkUpdateFlags, stringer = stringer_NetworkUpdateFlags\<rparr>,
      \<lparr>enum_type = ''NetworkEventLifecycleType'', unsigned_type = False,
       constants = consts_NetworkEventLifecycleType, stringer = stringer_NetworkEventLifecycleType\<rparr>,
      \<lparr>enum_type = ''NetworkEventID'', unsigned_type = False,
       constants = consts_NetworkEventID, stringer = stringer_NetworkEventID\<rparr>,
      \<lparr>enum_type = ''IPAddrType'', unsigned_type = False,
       constants = consts_IPAddrType, stringer = stringer_IPAddrType\<rparr>]"

lemma enums_4_2_checked: "list_all checked_enum enums_4_2" "list_all proper_hashes enums_4_2"
  by code_simp+

definition enums_4_3 :: "enumeration list" where
  "enums_4_3 =
     [\<lparr>enum_type = ''NetworkPortCreateFlags'', unsigned_type = False,
       constants = consts_NetworkPortCreateFlags, stringer = stringer_NetworkPortCreateFlags\<rparr>,
      \<lparr>enum_type = ''NetworkMetadataType'', unsigned_type = False,
       constants = consts_NetworkMetadataType, stringer = stringer_NetworkMetadataType\<rparr>,
      \<lparr>enum_type = ''ConnectListAllNodeDeviceFlags'', unsigned_type = True,
       constants = consts_ConnectListAllNodeDeviceFlags, stringer = stringer_ConnectListAllNodeDeviceFlags\<rparr>,
      \<lparr>enum_type = ''NodeDeviceXMLFlags'', unsigned_type = False,
       constants = consts_NodeDeviceXMLFlags, stringer = stringer_NodeDeviceXMLFlags\<rparr>,
      \<lparr>enum_type = ''NodeDeviceCreateXMLFlags'', unsigned_type = False,
       constants = consts_NodeDeviceCreateXMLFlags, stringer = stringer_NodeDeviceCreateXMLFlags\<rparr>,
      \<lparr>enum_type = ''NodeDeviceDefineXMLFlags'', unsigned_type = False,
       constants = consts_NodeDeviceDefineXMLFlags, stringer = stringer_NodeDeviceDefineXMLFlags\<rparr>,
      \<lparr>enum_type = ''NodeDeviceUpdateFlags'', unsigned_type = False,
       constants = consts_NodeDeviceUpdateFlags, stringer = stringer_NodeDeviceUpdateFlags\<rparr>,
      \<lparr>enum_type = ''NodeDeviceEventID'', unsigned_type = False,
       constants = consts_NodeDeviceEventID, stringer = stringer_NodeDeviceEventID\<rparr>]"

lemma enums_4_3_checked: "list_all checked_enum enums_4_3" "list_all proper_hashes enums_4_3"
  by code_simp+

definition enums_4_4 :: "enumeration list" where
  "enums_4_4 =
     [\<lparr>enum_type = ''NodeDeviceEventLifecycleType'', unsigned_type = False,
       constants = consts_NodeDeviceEventLifecycleType, stringer = stringer_NodeDeviceEventLifecycleType\<rparr>,
      \<lparr>enum_type = ''NWFilterDefineFlags'', unsigned_type = False,
       constants = consts_NWFilterDefineFlags, stringer = stringer_NWFilterDefineFlags\<rparr>,
      \<lparr>enum_type = ''NWFilterBindingCreateFlags'', unsigned_type = False,
       constants = consts_NWFilterBindingCreateFlags, stringer = stringer_NWFilterBindingCreateFlags\<rparr>,
      \<lparr>enum_type = ''SecretUsageType'', unsigned_type = False,
       constants = consts_SecretUsageType, stringer = stringer_SecretUsageType\<rparr>,
      \<lparr>enum_type = ''ConnectListAllSecretsFlags'', unsigned_type = False,
       constants = consts_ConnectListAllSecretsFlags, stringer = stringer_ConnectListAllSecretsFlags\<rparr>,
      \<lparr>enum_type = ''SecretDefineFlags'', unsigned_type = False,
       constants = consts_SecretDefineFlags, stringer = stringer_SecretDefineFlags\<rparr>,
      \<lparr>enum_type = ''SecretEventID'', unsigned_type = False,
       constants = consts_SecretEventID, stringer = stringer_SecretEventID\<rparr>,
      \<lparr>enum_type = ''SecretEventLifecycleType'', unsigned_type = False,
       constants = consts_SecretEventLifecycleType, stringer = stringer_SecretEventLifecycleType\<rparr>]"

lemma enums_4_4_checked: "list_all checked_enum enums_4_4" "list_all proper_hashes enums_4_4"
  by code_simp+

definition enums_4_5 :: "enumeration list" where
  "enums_4_5 =
     [\<lparr>enum_type = ''StoragePoolState'', unsigned_type = False,
       constants = consts_StoragePoolState, stringer = stringer_StoragePoolState\<rparr>,
      \<lparr>enum_type = ''StoragePoolBuildFlags'', unsigned_type = False,
       constants = consts_StoragePoolBuildFlags, stringer = stringer_StoragePoolBuildFlags\<rparr>,
      \<lparr>enum_type = ''StoragePoolDeleteFlags'', unsigned_type = False,
       constants = consts_StoragePoolDeleteFlags, stringer = stringer_StoragePoolDeleteFlags\<rparr>,
      \<lparr>enum_type = ''StoragePoolCreateFlags'', unsigned_type = False,
       constants = consts_StoragePoolCreateFlags, stringer = stringer_StoragePoolCreateFlags\<rparr>,
      \<lparr>enum_type = ''StorageVolType'', unsigned_type = False,
       constants = consts_StorageVolType, stringer = stringer_StorageVolType\<rparr>,
      \<lparr>enum_type = ''StorageVolDeleteFlags'', unsigned_type = False,
       constants = consts_StorageVolDeleteFlags, stringer = stringer_StorageVolDeleteFlags\<rparr>,
      \<lparr>enum_type = ''StorageVolWipeAlgorithm'', unsigned_type = False,
       constants = consts_StorageVolWipeAlgorithm, stringer = stringer_StorageVolWipeAlgorithm\<rparr>,
      \<lparr>enum_type = ''StorageVolInfoFlags'', unsigned_type = False,
       constants = consts_StorageVolInfoFlags, stringer = stringer_StorageVolInfoFlags\<rparr>]"

lemma enums_4_5_checked: "list_all checked_enum enums_4_5" "list_all proper_hashes enums_4_5"
  by code_simp+

definition enums_4_6 :: "enumeration list" where
  "enums_4_6 =
     [\<lparr>enum_type = ''StorageXMLFlags'', unsigned_type = False,
       constants = consts_StorageXMLFlags, stringer = stringer_StorageXMLFlags\<rparr>,
      \<lparr>enum_type = ''ConnectListAllStoragePoolsFlags'', unsigned_type = False,
       constants = consts_ConnectListAllStoragePoolsFlags, stringer = stringer_ConnectListAllStoragePoolsFlags\<rparr>,
      \<lparr>enum_type = ''StoragePoolDefineFlags'', unsigned_type = False,
       constants = consts_StoragePoolDefineFlags, stringer = stringer_StoragePoolDefineFlags\<rparr>,
      \<lparr>enum_type = ''StorageVolCreateFlags'', unsigned_type = False,
       constants = consts_StorageVolCreateFlags, stringer = stringer_StorageVolCreateFlags\<rparr>,
      \<lparr>enum_type = ''StorageVolDownloadFlags'', unsigned_type = False,
       constants = consts_StorageVolDownloadFlags, stringer = stringer_StorageVolDownloadFlags\<rparr>,
      \<lparr>enum_type = ''StorageVolUploadFlags'', unsigned_type = False,
       constants = consts_StorageVolUploadFlags, stringer = stringer_StorageVolUploadFlags\<rparr>,
      \<lparr>enum_type = ''StorageVolResizeFlags'', unsigned_type = False,
       constants = consts_StorageVolResizeFlags, stringer = stringer_StorageVolResizeFlags\<rparr>,
      \<lparr>enum_type = ''StoragePoolEventID'', unsigned_type = False,
       constants = consts_StoragePoolEventID, stringer = stringer_StoragePoolEventID\<rparr>]"

lemma enums_4_6_checked: "list_all checked_enum enums_4_6" "list_all proper_hashes enums_4_6"
  by code_simp+

definition enums_4_7 :: "enumeration list" where
  "enums_4_7 =
     [\<lparr>enum_type = ''StoragePoolEventLifecycleType'', unsigned_type = False,
       constants = consts_StoragePoolEventLifecycleType, stringer = stringer_StoragePoolEventLifecycleType\<rparr>,
      \<lparr>enum_type = ''StreamFlags'', unsigned_type = False,
       constants = consts_StreamFlags, stringer = stringer_StreamFlags\<rparr>,
      \<lparr>enum_type = ''StreamRecvFlagsValues'', unsigned_type = False,
       constants = consts_StreamRecvFlagsValues, stringer = stringer_StreamRecvFlagsValues\<rparr>,
      \<lparr>enum_type = ''StreamEventType'', unsigned_type = False,
       constants = consts_StreamEventType, stringer = stringer_StreamEventType\<rparr>,
      \<lparr>enum_type = ''ErrorLevel'', unsigned_type = False,
       constants = consts_ErrorLevel, stringer = stringer_ErrorLevel\<rparr>,
      \<lparr>enum_type = ''ErrorDomain'', unsigned_type = False,
       constants = consts_ErrorDomain, stringer = stringer_ErrorDomain\<rparr>]"

lemma enums_4_7_checked: "list_all checked_enum enums_4_7" "list_all proper_hashes enums_4_7"
  by code_simp+

definition enums_4 :: "enumeration list" where
  "enums_4 = enums_4_1 @ enums_4_2 @ enums_4_3 @ enums_4_4 @ enums_4_5 @ enums_4_6 @ enums_4_7"

lemma enums_4_checked: "list_all checked_enum enums_4" "list_all proper_hashes enums_4"
  by (simp_all add: enums_4_def enums_4_1_checked enums_4_2_checked enums_4_3_checked enums_4_4_checked enums_4_5_checked enums_4_6_checked enums_4_7_checked)

end
