(* ===== verification/Const_Enums_5.thy ===== *)
theory Const_Enums_5
  imports Const_Stringer
begin

text \<open>
  Enumerations of \<open>src/const.gen.go\<close> with their \<open>String\<close> methods of \<open>src/const_strings.gen.go\<close>, from
  \<open>ErrorNumber\<close> to \<open>ErrorNumber\<close>: the constants in the order of the source, and the string, the index
  table, the cases or the map of the method.
\<close>

definition consts_ErrorNumber :: "(string \<times> int) list" where
  "consts_ErrorNumber =
     [(''ErrOk'', 0),
      (''ErrInternalError'', 1),
      (''ErrNoMemory'', 2),
      (''ErrNoSupport'', 3),
      (''ErrUnknownHost'', 4),
      (''ErrNoConnect'', 5),
      (''ErrInvalidConn'', 6),
      (''ErrInvalidDomain'', 7),
      (''ErrInvalidArg'', 8),
      (''ErrOperationFailed'', 9),
      (''ErrGetFailed'', 10),
      (''ErrPostFailed'', 11),
      (''ErrHTTPError'', 12),
      (''ErrSexprSerial'', 13),
      (''ErrNoXen'', 14),
      (''ErrXenCall'', 15),
      (''ErrOsType'', 16),
      (''ErrNoKernel'', 17),
      (''ErrNoRoot'', 18),
      (''ErrNoSource'', 19),
      (''ErrNoTarget'', 20),
      (''ErrNoName'', 21),
      (''ErrNoOs'', 22),
      (''ErrNoDevice'', 23),
      (''ErrNoXenstore'', 24),
      (''ErrDriverFull'', 25),
      (''ErrCallFailed'', 26),
      (''ErrXMLError'', 27),
      (''ErrDomExist'', 28),
      (''ErrOperationDenied'', 29),
      (''ErrOpenFailed'', 30),
      (''ErrReadFailed'', 31),
      (''ErrParseFailed'', 32),
      (''ErrConfSyntax'', 33),
      (''ErrWriteFailed'', 34),
      (''ErrXMLDetail'', 35),
      (''ErrInvalidNetwork'', 36),
      (''ErrNetworkExist'', 37),
      (''ErrSystemError'', 38),
      (''ErrRPC'', 39),
      (''ErrGnutlsError'', 40),
      (''WarNoNetwork'', 41),
      (''ErrNoDomain'', 42),
      (''ErrNoNetwork'', 43),
      (''ErrInvalidMac'', 44),
      (''ErrAuthFailed'', 45),
      (''ErrInvalidStoragePool'', 46),
      (''ErrInvalidStorageVol'', 47),
      (''WarNoStorage'', 48),
      (''ErrNoStoragePool'', 49),
      (''ErrNoStorageVol'', 50),
      (''WarNoNode'', 51),
      (''ErrInvalidNodeDevice'', 52),
      (''ErrNoNodeDevice'', 53),
      (''ErrNoSecurityModel'', 54),
      (''ErrOperationInvalid'', 55),
      (''WarNoInterface'', 56),
      (''ErrNoInterface'', 57),
      (''ErrInvalidInterface'', 58),
      (''ErrMultipleInterfaces'', 59),
      (''WarNoNwfilter'', 60),
      (''ErrInvalidNwfilter'', 61),
      (''ErrNoNwfilter'', 62),
      (''ErrBuildFirewall'', 63),
      (''WarNoSecret'', 64),
      (''ErrInvalidSecret'', 65),
      (''ErrNoSecret'', 66),
      (''ErrConfigUnsupported'', 67),
      (''ErrOperationTimeout'', 68),
      (''ErrMigratePersistFailed'', 69),
      (''ErrHookScriptFailed'', 70),
      (''ErrInvalidDomainSnapshot'', 71),
      (''ErrNoDomainSnapshot'', 72),
      (''ErrInvalidStream'', 73),
      (''ErrArgumentUnsupported'', 74),
      (''ErrStorageProbeFailed'', 75),
      (''ErrStoragePoolBuilt'', 76),
      (''ErrSnapshotRevertRisky'', 77),
      (''ErrOperationAborted'', 78),
      (''ErrAuthCancelled'', 79),
      (''ErrNoDomainMetadata'', 80),
      (''ErrMigrateUnsafe'', 81),
      (''ErrOverflow'', 82),
      (''ErrBlockCopyActive'', 83),
      (''ErrOperationUnsupported'', 84),
      (''ErrSSH'', 85),
      (''ErrAgentUnresponsive'', 86),
      (''ErrResourceBusy'', 87),
      (''ErrAccessDenied'', 88),
      (''ErrDbusService'', 89),
      (''ErrStorageVolExist'', 90),
      (''ErrCPUIncompatible'', 91),
      (''ErrXMLInvalidSchema'', 92),
      (''ErrMigrateFinishOk'', 93),
      (''ErrAuthUnavailable'', 94),
      (''ErrNoServer'', 95),
      (''ErrNoClient'', 96),
      (''ErrAgentUnsynced'', 97),
      (''ErrLibssh'', 98),
      (''ErrDeviceMissing'', 99),
      (''ErrInvalidNwfilterBinding'', 100),
      (''ErrNoNwfilterBinding'', 101),
      (''ErrInvalidDomainCheckpoint'', 102),
      (''ErrNoDomainCheckpoint'', 103),
      (''ErrNoDomainBackup'', 104),
      (''ErrInvalidNetworkPort'', 105),
      (''ErrNetworkPortExist'', 106),
      (''ErrNoNetworkPort'', 107),
      (''ErrNoHostname'', 108),
      (''ErrCheckpointInconsistent'', 109),
      (''ErrMultipleDomains'', 110),
      (''ErrNoNetworkMetadata'', 111),
      (''ErrAgentCommandTimeout'', 112),
      (''ErrAgentCommandFailed'', 113)]"

definition stringer_ErrorNumber :: stringer where
  "stringer_ErrorNumber =
     Indexed 0
       [''ErrOkErrInternalErrorErrNoMemoryErrNoSupportErrUnknownHostErrNoConnectErrInvalidConn'',
        ''ErrInvalidDomainErrInvalidArgErrOperationFailedErrGetFailedErrPostFailedErrHTTPError'',
        ''ErrSexprSerialErrNoXenErrXenCallErrOsTypeErrNoKernelErrNoRootErrNoSourceErrNoTargetErrNoName'',
        ''ErrNoOsErrNoDeviceErrNoXenstoreErrDriverFullErrCallFailedErrXMLErrorErrDomExist'',
        ''ErrOperationDeniedErrOpenFailedErrReadFailedErrParseFailedErrConfSyntaxErrWriteFailed'',
        ''ErrXMLDetailErrInvalidNetworkErrNetworkExistErrSystemErrorErrRPCErrGnutlsErrorWarNoNetwork'',
        ''ErrNoDomainErrNoNetworkErrInvalidMacErrAuthFailedErrInvalidStoragePoolErrInvalidStorageVol'',
        ''WarNoStorageErrNoStoragePoolErrNoStorageVolWarNoNodeErrInvalidNodeDeviceErrNoNodeDevice'',
        ''ErrNoSecurityModelErrOperationInvalidWarNoInterfaceErrNoInterfaceErrInvalidInterface'',
        ''ErrMultipleInterfacesWarNoNwfilterErrInvalidNwfilterErrNoNwfilterErrBuildFirewallWarNoSecret'',
        ''ErrInvalidSecretErrNoSecretErrConfigUnsupportedErrOperationTimeoutErrMigratePersistFailed'',
        ''ErrHookScriptFailedErrInvalidDomainSnapshotErrNoDomainSnapshotErrInvalidStream'',
        ''ErrArgumentUnsupportedErrStorageProbeFailedErrStoragePoolBuiltErrSnapshotRevertRisky'',
        ''ErrOperationAbortedErrAuthCancelledErrNoDomainMetadataErrMigrateUnsafeErrOverflow'',
        ''ErrBlockCopyActiveErrOperationUnsupportedErrSSHErrAgentUnresponsiveErrResourceBusy'',
        ''ErrAccessDeniedErrDbusServiceErrStorageVolExistErrCPUIncompatibleErrXMLInvalidSchema'',
        ''ErrMigrateFinishOkErrAuthUnavailableErrNoServerErrNoClientErrAgentUnsyncedErrLibssh'',
        ''ErrDeviceMissingErrInvalidNwfilterBindingErrNoNwfilterBindingErrInvalidDomainCheckpoint'',
        ''ErrNoDomainCheckpointErrNoDomainBackupErrInvalidNetworkPortErrNetworkPortExistErrNoNetworkPort'',
        ''ErrNoHostnameErrCheckpointInconsistentErrMultipleDomainsErrNoNetworkMetadata'',
        ''ErrAgentCommandTimeoutErrAgentCommandFailed'']
       [0, 5, 21, 32, 44, 58, 70, 84, 100, 113, 131, 143, 156, 168, 182, 190, 200, 209, 220, 229,
        240, 251, 260, 267, 278, 291, 304, 317, 328, 339, 357, 370, 383, 397, 410, 424, 436, 453,
        468, 482, 488, 502, 514, 525, 537, 550, 563, 584, 604, 616, 632, 647, 656, 676, 691, 709,
        728, 742, 756, 775, 796, 809, 827, 840, 856, 867, 883, 894, 914, 933, 956, 975, 999, 1018,
        1034, 1056, 1077, 1096, 1118, 1137, 1153, 1172, 1188, 1199, 1217, 1240, 1246, 1266, 1281,
        1296, 1310, 1328, 1346, 1365, 1383, 1401, 1412, 1423, 1439, 1448, 1464, 1489, 1509, 1535,
        1556, 1573, 1594, 1613, 1629, 1642, 1667, 1685, 1705, 1727, 1748]"

definition enums_5_1 :: "enumeration list" where
  "enums_5_1 =
     [\<lparr>enum_type = ''ErrorNumber'', unsigned_type = False,
       constants = consts_ErrorNumber, stringer = stringer_ErrorNumber\<rparr>]"

lemma enums_5_1_checked: "list_all checked_enum enums_5_1" "list_all proper_hashes enums_5_1"
  by code_simp+

definition enums_5 :: "enumeration list" where
  "enums_5 = enums_5_1"

lemma enums_5_checked: "list_all checked_enum enums_5" "list_all proper_hashes enums_5"
  by (simp_all add: enums_5_def enums_5_1_checked)

end
