(* ===== verification/Const_Params.thy ===== *)
theory Const_Params
  imports Const_Stringer
begin

text \<open>
  The untyped constants of \<open>src/const.gen.go\<close>: the names of typed parameters and of their fields,
  lengths, and a few numbers, in the order of the source.
\<close>

datatype untyped = Text string | Number int

type_synonym untyped_const = "string \<times> untyped"

definition untyped_consts_1 :: "untyped_const list" where
  "untyped_consts_1 =
     [(''Deprecated'', Number 6392320),
      (''ExportVar'', Number 6392320),
      (''TypedParamFieldLength'', Number 80),
      (''DomainSchedulerCPUShares'', Text ''cpu_shares''),
      (''DomainSchedulerGlobalPeriod'', Text ''global_period''),
      (''DomainSchedulerGlobalQuota'', Text ''global_quota''),
      (''DomainSchedulerVCPUPeriod'', Text ''vcpu_period''),
      (''DomainSchedulerVCPUQuota'', Text ''vcpu_quota''),
      (''DomainSchedulerEmulatorPeriod'', Text ''emulator_period''),
      (''DomainSchedulerEmulatorQuota'', Text ''emulator_quota''),
      (''DomainSchedulerIothreadPeriod'', Text ''iothread_period''),
      (''DomainSchedulerIothreadQuota'', Text ''iothread_quota''),
      (''DomainSchedulerWeight'', Text ''weight''),
      (''DomainSchedulerCap'', Text ''cap''),
      (''DomainSchedulerReservation'', Text ''reservation''),
      (''DomainSchedulerLimit'', Text ''limit''),
      (''DomainSchedulerShares'', Text ''shares''),
      (''DomainBlockStatsFieldLength'', Number 80),
      (''DomainBlockStatsReadBytes'', Text ''rd_bytes''),
      (''DomainBlockStatsReadReq'', Text ''rd_operations''),
      (''DomainBlockStatsReadTotalTimes'', Text ''rd_total_times''),
      (''DomainBlockStatsWriteBytes'', Text ''wr_bytes''),
      (''DomainBlockStatsWriteReq'', Text ''wr_operations''),
      (''DomainBlockStatsWriteTotalTimes'', Text ''wr_total_times''),
      (''DomainBlockStatsFlushReq'', Text ''flush_operations''),
      (''DomainBlockStatsFlushTotalTimes'', Text ''flush_total_times''),
      (''DomainBlockStatsErrs'', Text ''errs''),
      (''MigrateParamURI'', Text ''migrate_uri''),
      (''MigrateParamDestName'', Text ''destination_name''),
      (''MigrateParamDestXML'', Text ''destination_xml''),
      (''MigrateParamPersistXML'', Text ''persistent_xml''),
      (''MigrateParamBandwidth'', Text ''bandwidth''),
      (''MigrateParamBandwidthPostcopy'', Text ''bandwidth.postcopy''),
      (''MigrateParamBandwidthAvailSwitchover'', Text ''bandwidth.avail.switchover''),
      (''MigrateParamGraphicsURI'', Text ''graphics_uri''),
      (''MigrateParamListenAddress'', Text ''listen_address''),
      (''MigrateParamMigrateDisks'', Text ''migrate_disks''),
      (''MigrateParamMigrateDisksDetectZeroes'', Text ''migrate_disks_detect_zeroes''),
      (''MigrateParamDisksPort'', Text ''disks_port''),
      (''MigrateParamDisksURI'', Text ''disks_uri''),
      (''MigrateParamCompression'', Text ''compression''),
      (''MigrateParamCompressionMtLevel'', Text ''compression.mt.level''),
      (''MigrateParamCompressionMtThreads'', Text ''compression.mt.threads''),
      (''MigrateParamCompressionMtDthreads'', Text ''compression.mt.dthreads''),
      (''MigrateParamCompressionXbzrleCache'', Text ''compression.xbzrle.cache''),
      (''MigrateParamCompressionZlibLevel'', Text ''compression.zlib.level''),
      (''MigrateParamCompressionZstdLevel'', Text ''compression.zstd.level''),
      (''MigrateParamAutoConvergeInitial'', Text ''auto_converge.initial''),
      (''MigrateParamAutoConvergeIncrement'', Text ''auto_converge.increment''),
      (''MigrateParamParallelConnections'', Text ''parallel.connections''),
      (''MigrateParamTLSDestination'', Text ''tls.destination''),
      (''DomainSaveParamFile'', Text ''file''),
      (''DomainSaveParamDxml'', Text ''dxml''),
      (''DomainSaveParamImageFormat'', Text ''image_format''),
      (''DomainSaveParamParallelChannels'', Text ''parallel.channels''),
      (''DomainCPUStatsCputime'', Text ''cpu_time''),
      (''DomainCPUStatsUsertime'', Text ''user_time''),
      (''DomainCPUStatsSystemtime'', Text ''system_time''),
      (''DomainCPUStatsVcputime'', Text ''vcpu_time''),
      (''DomainBlkioWeight'', Text ''weight'')]"

definition untyped_consts_2 :: "untyped_const list" where
  "untyped_consts_2 =
     [(''DomainBlkioDeviceWeight'', Text ''device_weight''),
      (''DomainBlkioDeviceReadIops'', Text ''device_read_iops_sec''),
      (''DomainBlkioDeviceWriteIops'', Text ''device_write_iops_sec''),
      (''DomainBlkioDeviceReadBps'', Text ''device_read_bytes_sec''),
      (''DomainBlkioDeviceWriteBps'', Text ''device_write_bytes_sec''),
      (''DomainMemoryParamUnlimited'', Number 9007199254740991),
      (''DomainMemoryHardLimit'', Text ''hard_limit''),
      (''DomainMemorySoftLimit'', Text ''soft_limit''),
      (''DomainMemoryMinGuarantee'', Text ''min_guarantee''),
      (''DomainMemorySwapHardLimit'', Text ''swap_hard_limit''),
      (''DomainNumaNodeset'', Text ''numa_nodeset''),
      (''DomainNumaMode'', Text ''numa_mode''),
      (''DomainBandwidthInAverage'', Text ''inbound.average''),
      (''DomainBandwidthInPeak'', Text ''inbound.peak''),
      (''DomainBandwidthInBurst'', Text ''inbound.burst''),
      (''DomainBandwidthInFloor'', Text ''inbound.floor''),
      (''DomainBandwidthOutAverage'', Text ''outbound.average''),
      (''DomainBandwidthOutPeak'', Text ''outbound.peak''),
      (''DomainBandwidthOutBurst'', Text ''outbound.burst''),
      (''DomainIothreadPollMaxNs'', Text ''poll_max_ns''),
      (''DomainIothreadPollGrow'', Text ''poll_grow''),
      (''DomainIothreadPollShrink'', Text ''poll_shrink''),
      (''DomainIothreadThreadPoolMin'', Text ''thread_pool_min''),
      (''DomainIothreadThreadPoolMax'', Text ''thread_pool_max''),
      (''DomainStatsStateState'', Text ''state.state''),
      (''DomainStatsStateReason'', Text ''state.reason''),
      (''DomainStatsCPUTime'', Text ''cpu.time''),
      (''DomainStatsCPUUser'', Text ''cpu.user''),
      (''DomainStatsCPUSystem'', Text ''cpu.system''),
      (''DomainStatsCPUHaltpollSuccessTime'', Text ''cpu.haltpoll.success.time''),
      (''DomainStatsCPUHaltpollFailTime'', Text ''cpu.haltpoll.fail.time''),
      (''DomainStatsCPUCacheMonitorCount'', Text ''cpu.cache.monitor.count''),
      (''DomainStatsCPUCacheMonitorPrefix'', Text ''cpu.cache.monitor.''),
      (''DomainStatsCPUCacheMonitorSuffixName'', Text ''.name''),
      (''DomainStatsCPUCacheMonitorSuffixVcpus'', Text ''.vcpus''),
      (''DomainStatsCPUCacheMonitorSuffixBankCount'', Text ''.bank.count''),
      (''DomainStatsCPUCacheMonitorSuffixBankPrefix'', Text ''.bank.''),
      (''DomainStatsCPUCacheMonitorSuffixBankSuffixID'', Text ''.id''),
      (''DomainStatsCPUCacheMonitorSuffixBankSuffixBytes'', Text ''.bytes''),
      (''DomainStatsBalloonCurrent'', Text ''balloon.current''),
      (''DomainStatsBalloonMaximum'', Text ''balloon.maximum''),
      (''DomainStatsBalloonSwapIn'', Text ''balloon.swap_in''),
      (''DomainStatsBalloonSwapOut'', Text ''balloon.swap_out''),
      (''DomainStatsBalloonMajorFault'', Text ''balloon.major_fault''),
      (''DomainStatsBalloonMinorFault'', Text ''balloon.minor_fault''),
      (''DomainStatsBalloonUnused'', Text ''balloon.unused''),
      (''DomainStatsBalloonAvailable'', Text ''balloon.available''),
      (''DomainStatsBalloonRss'', Text ''balloon.rss''),
      (''DomainStatsBalloonUsable'', Text ''balloon.usable''),
      (''DomainStatsBalloonLastUpdate'', Text ''balloon.last-update''),
      (''DomainStatsBalloonDiskCaches'', Text ''balloon.disk_caches''),
      (''DomainStatsBalloonHugetlbPgalloc'', Text ''balloon.hugetlb_pgalloc''),
      (''DomainStatsBalloonHugetlbPgfail'', Text ''balloon.hugetlb_pgfail''),
      (''DomainStatsVCPUCurrent'', Text ''vcpu.current''),
      (''DomainStatsVCPUMaximum'', Text ''vcpu.maximum''),
      (''DomainStatsVCPUPrefix'', Text ''vcpu.''),
      (''DomainStatsVCPUSuffixState'', Text ''.state''),
      (''DomainStatsVCPUSuffixTime'', Text ''.time''),
      (''DomainStatsVCPUSuffixWait'', Text ''.wait''),
      (''DomainStatsVCPUSuffixHalted'', Text ''.halted'')]"

definition untyped_consts_3 :: "untyped_const list" where
  "untyped_consts_3 =
     [(''DomainStatsVCPUSuffixDelay'', Text ''.delay''),
      (''DomainStatsCustomSuffixTypeCur'', Text ''.cur''),
      (''DomainStatsCustomSuffixTypeSum'', Text ''.sum''),
      (''DomainStatsCustomSuffixTypeMax'', Text ''.max''),
      (''DomainStatsNetCount'', Text ''net.count''),
      (''DomainStatsNetPrefix'', Text ''net.''),
      (''DomainStatsNetSuffixName'', Text ''.name''),
      (''DomainStatsNetSuffixRxBytes'', Text ''.rx.bytes''),
      (''DomainStatsNetSuffixRxPkts'', Text ''.rx.pkts''),
      (''DomainStatsNetSuffixRxErrs'', Text ''.rx.errs''),
      (''DomainStatsNetSuffixRxDrop'', Text ''.rx.drop''),
      (''DomainStatsNetSuffixTxBytes'', Text ''.tx.bytes''),
      (''DomainStatsNetSuffixTxPkts'', Text ''.tx.pkts''),
      (''DomainStatsNetSuffixTxErrs'', Text ''.tx.errs''),
      (''DomainStatsNetSuffixTxDrop'', Text ''.tx.drop''),
      (''DomainStatsBlockCount'', Text ''block.count''),
      (''DomainStatsBlockPrefix'', Text ''block.''),
      (''DomainStatsBlockSuffixName'', Text ''.name''),
      (''DomainStatsBlockSuffixBackingindex'', Text ''.backingIndex''),
      (''DomainStatsBlockSuffixPath'', Text ''.path''),
      (''DomainStatsBlockSuffixRdReqs'', Text ''.rd.reqs''),
      (''DomainStatsBlockSuffixRdBytes'', Text ''.rd.bytes''),
      (''DomainStatsBlockSuffixRdTimes'', Text ''.rd.times''),
      (''DomainStatsBlockSuffixWrReqs'', Text ''.wr.reqs''),
      (''DomainStatsBlockSuffixWrBytes'', Text ''.wr.bytes''),
      (''DomainStatsBlockSuffixWrTimes'', Text ''.wr.times''),
      (''DomainStatsBlockSuffixFlReqs'', Text ''.fl.reqs''),
      (''DomainStatsBlockSuffixFlTimes'', Text ''.fl.times''),
      (''DomainStatsBlockSuffixErrors'', Text ''.errors''),
      (''DomainStatsBlockSuffixAllocation'', Text ''.allocation''),
      (''DomainStatsBlockSuffixCapacity'', Text ''.capacity''),
      (''DomainStatsBlockSuffixPhysical'', Text ''.physical''),
      (''DomainStatsBlockSuffixThreshold'', Text ''.threshold''),
      (''DomainStatsPerfCmt'', Text ''perf.cmt''),
      (''DomainStatsPerfMbmt'', Text ''perf.mbmt''),
      (''DomainStatsPerfMbml'', Text ''perf.mbml''),
      (''DomainStatsPerfCacheMisses'', Text ''perf.cache_misses''),
      (''DomainStatsPerfCacheReferences'', Text ''perf.cache_references''),
      (''DomainStatsPerfInstructions'', Text ''perf.instructions''),
      (''DomainStatsPerfCPUCycles'', Text ''perf.cpu_cycles''),
      (''DomainStatsPerfBranchInstructions'', Text ''perf.branch_instructions''),
      (''DomainStatsPerfBranchMisses'', Text ''perf.branch_misses''),
      (''DomainStatsPerfBusCycles'', Text ''perf.bus_cycles''),
      (''DomainStatsPerfStalledCyclesFrontend'', Text ''perf.stalled_cycles_frontend''),
      (''DomainStatsPerfStalledCyclesBackend'', Text ''perf.stalled_cycles_backend''),
      (''DomainStatsPerfRefCPUCycles'', Text ''perf.ref_cpu_cycles''),
      (''DomainStatsPerfCPUClock'', Text ''perf.cpu_clock''),
      (''DomainStatsPerfTaskClock'', Text ''perf.task_clock''),
      (''DomainStatsPerfPageFaults'', Text ''perf.page_faults''),
      (''DomainStatsPerfContextSwitches'', Text ''perf.context_switches''),
      (''DomainStatsPerfCPUMigrations'', Text ''perf.cpu_migrations''),
      (''DomainStatsPerfPageFaultsMin'', Text ''perf.page_faults_min''),
      (''DomainStatsPerfPageFaultsMaj'', Text ''perf.page_faults_maj''),
      (''DomainStatsPerfAlignmentFaults'', Text ''perf.alignment_faults''),
      (''DomainStatsPerfEmulationFaults'', Text ''perf.emulation_faults''),
      (''DomainStatsIothreadCount'', Text ''iothread.count''),
      (''DomainStatsIothreadPrefix'', Text ''iothread.''),
      (''DomainStatsIothreadSuffixPollMaxNs'', Text ''.poll-max-ns''),
      (''DomainStatsIothreadSuffixPollGrow'', Text ''.poll-grow''),
      (''DomainStatsIothreadSuffixPollShrink'', Text ''.poll-shrink'')]"

definition untyped_consts_4 :: "untyped_const list" where
  "untyped_consts_4 =
     [(''DomainStatsMemoryBandwidthMonitorCount'', Text ''memory.bandwidth.monitor.count''),
      (''DomainStatsMemoryBandwidthMonitorPrefix'', Text ''memory.bandwidth.monitor.''),
      (''DomainStatsMemoryBandwidthMonitorSuffixName'', Text ''.name''),
      (''DomainStatsMemoryBandwidthMonitorSuffixVcpus'', Text ''.vcpus''),
      (''DomainStatsMemoryBandwidthMonitorSuffixNodeCount'', Text ''.node.count''),
      (''DomainStatsMemoryBandwidthMonitorSuffixNodePrefix'', Text ''.node.''),
      (''DomainStatsMemoryBandwidthMonitorSuffixNodeSuffixID'', Text ''.id''),
      (''DomainStatsMemoryBandwidthMonitorSuffixNodeSuffixBytesLocal'', Text ''.bytes.local''),
      (''DomainStatsMemoryBandwidthMonitorSuffixNodeSuffixBytesTotal'', Text ''.bytes.total''),
      (''DomainStatsDirtyrateCalcStatus'', Text ''dirtyrate.calc_status''),
      (''DomainStatsDirtyrateCalcStartTime'', Text ''dirtyrate.calc_start_time''),
      (''DomainStatsDirtyrateCalcPeriod'', Text ''dirtyrate.calc_period''),
      (''DomainStatsDirtyrateMegabytesPerSecond'', Text ''dirtyrate.megabytes_per_second''),
      (''DomainStatsDirtyrateCalcMode'', Text ''dirtyrate.calc_mode''),
      (''DomainStatsDirtyrateVCPUPrefix'', Text ''dirtyrate.vcpu.''),
      (''DomainStatsDirtyrateVCPUSuffixMegabytesPerSecond'', Text ''.megabytes_per_second''),
      (''DomainStatsVmPrefix'', Text ''vm.''),
      (''PerfParamCmt'', Text ''cmt''),
      (''PerfParamMbmt'', Text ''mbmt''),
      (''PerfParamMbml'', Text ''mbml''),
      (''PerfParamCacheMisses'', Text ''cache_misses''),
      (''PerfParamCacheReferences'', Text ''cache_references''),
      (''PerfParamInstructions'', Text ''instructions''),
      (''PerfParamCPUCycles'', Text ''cpu_cycles''),
      (''PerfParamBranchInstructions'', Text ''branch_instructions''),
      (''PerfParamBranchMisses'', Text ''branch_misses''),
      (''PerfParamBusCycles'', Text ''bus_cycles''),
      (''PerfParamStalledCyclesFrontend'', Text ''stalled_cycles_frontend''),
      (''PerfParamStalledCyclesBackend'', Text ''stalled_cycles_backend''),
      (''PerfParamRefCPUCycles'', Text ''ref_cpu_cycles''),
      (''PerfParamCPUClock'', Text ''cpu_clock''),
      (''PerfParamTaskClock'', Text ''task_clock''),
      (''PerfParamPageFaults'', Text ''page_faults''),
      (''PerfParamContextSwitches'', Text ''context_switches''),
      (''PerfParamCPUMigrations'', Text ''cpu_migrations''),
      (''PerfParamPageFaultsMin'', Text ''page_faults_min''),
      (''PerfParamPageFaultsMaj'', Text ''page_faults_maj''),
      (''PerfParamAlignmentFaults'', Text ''alignment_faults''),
      (''PerfParamEmulationFaults'', Text ''emulation_faults''),
      (''DomainBlockCopyBandwidth'', Text ''bandwidth''),
      (''DomainBlockCopyGranularity'', Text ''granularity''),
      (''DomainBlockCopyBufSize'', Text ''buf-size''),
      (''DomainBlockIotuneTotalBytesSec'', Text ''total_bytes_sec''),
      (''DomainBlockIotuneReadBytesSec'', Text ''read_bytes_sec''),
      (''DomainBlockIotuneWriteBytesSec'', Text ''write_bytes_sec''),
      (''DomainBlockIotuneTotalIopsSec'', Text ''total_iops_sec''),
      (''DomainBlockIotuneReadIopsSec'', Text ''read_iops_sec''),
      (''DomainBlockIotuneWriteIopsSec'', Text ''write_iops_sec''),
      (''DomainBlockIotuneTotalBytesSecMax'', Text ''total_bytes_sec_max''),
      (''DomainBlockIotuneReadBytesSecMax'', Text ''read_bytes_sec_max''),
      (''DomainBlockIotuneWriteBytesSecMax'', Text ''write_bytes_sec_max''),
      (''DomainBlockIotuneTotalIopsSecMax'', Text ''total_iops_sec_max''),
      (''DomainBlockIotuneReadIopsSecMax'', Text ''read_iops_sec_max''),
      (''DomainBlockIotuneWriteIopsSecMax'', Text ''write_iops_sec_max''),
      (''DomainBlockIotuneTotalBytesSecMaxLength'', Text ''total_bytes_sec_max_length''),
      (''DomainBlockIotuneReadBytesSecMaxLength'', Text ''read_bytes_sec_max_length''),
      (''DomainBlockIotuneWriteBytesSecMaxLength'', Text ''write_bytes_sec_max_length''),
      (''DomainBlockIotuneTotalIopsSecMaxLength'', Text ''total_iops_sec_max_length''),
      (''DomainBlockIotuneReadIopsSecMaxLength'', Text ''read_iops_sec_max_length''),
      (''DomainBlockIotuneWriteIopsSecMaxLength'', Text ''write_iops_sec_max_length'')]"

definition untyped_consts_5 :: "untyped_const list" where
  "untyped_consts_5 =
     [(''DomainBlockIotuneSizeIopsSec'', Text ''size_iops_sec''),
      (''DomainBlockIotuneGroupName'', Text ''group_name''),
      (''KeycodeSetRfb'', Number 6392320),
      (''DomainSendKeyMaxKeys'', Number 16),
      (''DomainJobOperationStr'', Text ''operation''),
      (''DomainJobTimeElapsed'', Text ''time_elapsed''),
      (''DomainJobTimeElapsedNet'', Text ''time_elapsed_net''),
      (''DomainJobTimeRemaining'', Text ''time_remaining''),
      (''DomainJobDowntime'', Text ''downtime''),
      (''DomainJobDowntimeNet'', Text ''downtime_net''),
      (''DomainJobSetupTime'', Text ''setup_time''),
      (''DomainJobDataTotal'', Text ''data_total''),
      (''DomainJobDataProcessed'', Text ''data_processed''),
      (''DomainJobDataRemaining'', Text ''data_remaining''),
      (''DomainJobMemoryTotal'', Text ''memory_total''),
      (''DomainJobMemoryProcessed'', Text ''memory_processed''),
      (''DomainJobMemoryRemaining'', Text ''memory_remaining''),
      (''DomainJobMemoryConstant'', Text ''memory_constant''),
      (''DomainJobMemoryNormal'', Text ''memory_normal''),
      (''DomainJobMemoryNormalBytes'', Text ''memory_normal_bytes''),
      (''DomainJobMemoryBps'', Text ''memory_bps''),
      (''DomainJobMemoryDirtyRate'', Text ''memory_dirty_rate''),
      (''DomainJobMemoryPageSize'', Text ''memory_page_size''),
      (''DomainJobMemoryIteration'', Text ''memory_iteration''),
      (''DomainJobMemoryPostcopyReqs'', Text ''memory_postcopy_requests''),
      (''DomainJobDiskTotal'', Text ''disk_total''),
      (''DomainJobDiskProcessed'', Text ''disk_processed''),
      (''DomainJobDiskRemaining'', Text ''disk_remaining''),
      (''DomainJobDiskBps'', Text ''disk_bps''),
      (''DomainJobCompressionCache'', Text ''compression_cache''),
      (''DomainJobCompressionBytes'', Text ''compression_bytes''),
      (''DomainJobCompressionPages'', Text ''compression_pages''),
      (''DomainJobCompressionCacheMisses'', Text ''compression_cache_misses''),
      (''DomainJobCompressionOverflow'', Text ''compression_overflow''),
      (''DomainJobAutoConvergeThrottle'', Text ''auto_converge_throttle''),
      (''DomainJobSuccess'', Text ''success''),
      (''DomainJobErrmsg'', Text ''errmsg''),
      (''DomainJobDiskTempUsed'', Text ''disk_temp_used''),
      (''DomainJobDiskTempTotal'', Text ''disk_temp_total''),
      (''DomainJobVfioDataTransferred'', Text ''vfio_data_transferred''),
      (''DomainTunableCPUVcpupin'', Text ''cputune.vcpupin%u''),
      (''DomainTunableCPUEmulatorpin'', Text ''cputune.emulatorpin''),
      (''DomainTunableCPUIothreadspin'', Text ''cputune.iothreadpin%u''),
      (''DomainTunableCPUCpuShares'', Text ''cputune.cpu_shares''),
      (''DomainTunableCPUGlobalPeriod'', Text ''cputune.global_period''),
      (''DomainTunableCPUGlobalQuota'', Text ''cputune.global_quota''),
      (''DomainTunableCPUVCPUPeriod'', Text ''cputune.vcpu_period''),
      (''DomainTunableCPUVCPUQuota'', Text ''cputune.vcpu_quota''),
      (''DomainTunableCPUEmulatorPeriod'', Text ''cputune.emulator_period''),
      (''DomainTunableCPUEmulatorQuota'', Text ''cputune.emulator_quota''),
      (''DomainTunableCPUIothreadPeriod'', Text ''cputune.iothread_period''),
      (''DomainTunableCPUIothreadQuota'', Text ''cputune.iothread_quota''),
      (''DomainTunableBlkdevDisk'', Text ''blkdeviotune.disk''),
      (''DomainTunableBlkdevTotalBytesSec'', Text ''blkdeviotune.total_bytes_sec''),
      (''DomainTunableBlkdevReadBytesSec'', Text ''blkdeviotune.read_bytes_sec''),
      (''DomainTunableBlkdevWriteBytesSec'', Text ''blkdeviotune.write_bytes_sec''),
      (''DomainTunableBlkdevTotalIopsSec'', Text ''blkdeviotune.total_iops_sec''),
      (''DomainTunableBlkdevReadIopsSec'', Text ''blkdeviotune.read_iops_sec''),
      (''DomainTunableBlkdevWriteIopsSec'', Text ''blkdeviotune.write_iops_sec''),
      (''DomainTunableBlkdevTotalBytesSecMax'', Text ''blkdeviotune.total_bytes_sec_max'')]"

definition untyped_consts_6 :: "untyped_const list" where
  "untyped_consts_6 =
     [(''DomainTunableBlkdevReadBytesSecMax'', Text ''blkdeviotune.read_bytes_sec_max''),
      (''DomainTunableBlkdevWriteBytesSecMax'', Text ''blkdeviotune.write_bytes_sec_max''),
      (''DomainTunableBlkdevTotalIopsSecMax'', Text ''blkdeviotune.total_iops_sec_max''),
      (''DomainTunableBlkdevReadIopsSecMax'', Text ''blkdeviotune.read_iops_sec_max''),
      (''DomainTunableBlkdevWriteIopsSecMax'', Text ''blkdeviotune.write_iops_sec_max''),
      (''DomainTunableBlkdevSizeIopsSec'', Text ''blkdeviotune.size_iops_sec''),
      (''DomainTunableBlkdevGroupName'', Text ''blkdeviotune.group_name''),
      (''DomainTunableBlkdevTotalBytesSecMaxLength'', Text ''blkdeviotune.total_bytes_sec_max_length''),
      (''DomainTunableBlkdevReadBytesSecMaxLength'', Text ''blkdeviotune.read_bytes_sec_max_length''),
      (''DomainTunableBlkdevWriteBytesSecMaxLength'', Text ''blkdeviotune.write_bytes_sec_max_length''),
      (''DomainTunableBlkdevTotalIopsSecMaxLength'', Text ''blkdeviotune.total_iops_sec_max_length''),
      (''DomainTunableBlkdevReadIopsSecMaxLength'', Text ''blkdeviotune.read_iops_sec_max_length''),
      (''DomainTunableBlkdevWriteIopsSecMaxLength'', Text ''blkdeviotune.write_iops_sec_max_length''),
      (''DomainSchedFieldLength'', Number 80),
      (''DomainBlkioFieldLength'', Number 80),
      (''DomainMemoryFieldLength'', Number 80),
      (''DomainLaunchSecuritySevMeasurement'', Text ''sev-measurement''),
      (''DomainLaunchSecuritySevAPIMajor'', Text ''sev-api-major''),
      (''DomainLaunchSecuritySevAPIMinor'', Text ''sev-api-minor''),
      (''DomainLaunchSecuritySevBuildID'', Text ''sev-build-id''),
      (''DomainLaunchSecuritySevPolicy'', Text ''sev-policy''),
      (''DomainLaunchSecuritySevSnpPolicy'', Text ''sev-snp-policy''),
      (''DomainLaunchSecuritySevSecretHeader'', Text ''sev-secret-header''),
      (''DomainLaunchSecuritySevSecret'', Text ''sev-secret''),
      (''DomainLaunchSecuritySevSecretSetAddress'', Text ''sev-secret-set-address''),
      (''DomainGuestInfoUserCount'', Text ''user.count''),
      (''DomainGuestInfoUserPrefix'', Text ''user.''),
      (''DomainGuestInfoUserSuffixName'', Text ''.name''),
      (''DomainGuestInfoUserSuffixDomain'', Text ''.domain''),
      (''DomainGuestInfoUserSuffixLoginTime'', Text ''.login-time''),
      (''DomainGuestInfoOsID'', Text ''os.id''),
      (''DomainGuestInfoOsName'', Text ''os.name''),
      (''DomainGuestInfoOsPrettyName'', Text ''os.pretty-name''),
      (''DomainGuestInfoOsVersion'', Text ''os.version''),
      (''DomainGuestInfoOsVersionID'', Text ''os.version-id''),
      (''DomainGuestInfoOsKernelRelease'', Text ''os.kernel-release''),
      (''DomainGuestInfoOsKernelVersion'', Text ''os.kernel-version''),
      (''DomainGuestInfoOsMachine'', Text ''os.machine''),
      (''DomainGuestInfoOsVariant'', Text ''os.variant''),
      (''DomainGuestInfoOsVariantID'', Text ''os.variant-id''),
      (''DomainGuestInfoTimezoneName'', Text ''timezone.name''),
      (''DomainGuestInfoTimezoneOffset'', Text ''timezone.offset''),
      (''DomainGuestInfoHostnameHostname'', Text ''hostname''),
      (''DomainGuestInfoFsCount'', Text ''fs.count''),
      (''DomainGuestInfoFsPrefix'', Text ''fs.''),
      (''DomainGuestInfoFsSuffixMountpoint'', Text ''.mountpoint''),
      (''DomainGuestInfoFsSuffixName'', Text ''.name''),
      (''DomainGuestInfoFsSuffixFstype'', Text ''.fstype''),
      (''DomainGuestInfoFsSuffixTotalBytes'', Text ''.total-bytes''),
      (''DomainGuestInfoFsSuffixUsedBytes'', Text ''.used-bytes''),
      (''DomainGuestInfoFsSuffixDiskCount'', Text ''.disk.count''),
      (''DomainGuestInfoFsSuffixDiskPrefix'', Text ''.disk.''),
      (''DomainGuestInfoFsSuffixDiskSuffixAlias'', Text ''.alias''),
      (''DomainGuestInfoFsSuffixDiskSuffixSerial'', Text ''.serial''),
      (''DomainGuestInfoFsSuffixDiskSuffixDevice'', Text ''.device''),
      (''DomainGuestInfoDiskCount'', Text ''disk.count''),
      (''DomainGuestInfoDiskPrefix'', Text ''disk.''),
      (''DomainGuestInfoDiskSuffixName'', Text ''.name''),
      (''DomainGuestInfoDiskSuffixPartition'', Text ''.partition''),
      (''DomainGuestInfoDiskSuffixDependencyCount'', Text ''.dependency.count'')]"

definition untyped_consts_7 :: "untyped_const list" where
  "untyped_consts_7 =
     [(''DomainGuestInfoDiskSuffixDependencyPrefix'', Text ''.dependency.''),
      (''DomainGuestInfoDiskSuffixDependencySuffixName'', Text ''.name''),
      (''DomainGuestInfoDiskSuffixSerial'', Text ''.serial''),
      (''DomainGuestInfoDiskSuffixAlias'', Text ''.alias''),
      (''DomainGuestInfoDiskSuffixGuestAlias'', Text ''.guest_alias''),
      (''DomainGuestInfoDiskSuffixGuestBus'', Text ''.guest_bus''),
      (''DomainGuestInfoIfCount'', Text ''if.count''),
      (''DomainGuestInfoIfPrefix'', Text ''if.''),
      (''DomainGuestInfoIfSuffixName'', Text ''.name''),
      (''DomainGuestInfoIfSuffixHwaddr'', Text ''.hwaddr''),
      (''DomainGuestInfoIfSuffixAddrCount'', Text ''.addr.count''),
      (''DomainGuestInfoIfSuffixAddrPrefix'', Text ''.addr.''),
      (''DomainGuestInfoIfSuffixAddrSuffixType'', Text ''.type''),
      (''DomainGuestInfoIfSuffixAddrSuffixAddr'', Text ''.addr''),
      (''DomainGuestInfoIfSuffixAddrSuffixPrefix'', Text ''.prefix''),
      (''DomainGuestInfoLoad1m'', Text ''load.1m''),
      (''DomainGuestInfoLoad5m'', Text ''load.5m''),
      (''DomainGuestInfoLoad15m'', Text ''load.15m''),
      (''SecurityLabelBuflen'', Number 4097),
      (''SecurityModelBuflen'', Number 257),
      (''SecurityDoiBuflen'', Number 257),
      (''NodeCPUStatsFieldLength'', Number 80),
      (''NodeCPUStatsKernel'', Text ''kernel''),
      (''NodeCPUStatsUser'', Text ''user''),
      (''NodeCPUStatsIdle'', Text ''idle''),
      (''NodeCPUStatsIowait'', Text ''iowait''),
      (''NodeCPUStatsIntr'', Text ''intr''),
      (''NodeCPUStatsUtilization'', Text ''utilization''),
      (''NodeMemoryStatsFieldLength'', Number 80),
      (''NodeMemoryStatsTotal'', Text ''total''),
      (''NodeMemoryStatsFree'', Text ''free''),
      (''NodeMemoryStatsBuffers'', Text ''buffers''),
      (''NodeMemoryStatsCached'', Text ''cached''),
      (''NodeMemorySharedPagesToScan'', Text ''shm_pages_to_scan''),
      (''NodeMemorySharedSleepMillisecs'', Text ''shm_sleep_millisecs''),
      (''NodeMemorySharedPagesShared'', Text ''shm_pages_shared''),
      (''NodeMemorySharedPagesSharing'', Text ''shm_pages_sharing''),
      (''NodeMemorySharedPagesUnshared'', Text ''shm_pages_unshared''),
      (''NodeMemorySharedPagesVolatile'', Text ''shm_pages_volatile''),
      (''NodeMemorySharedFullScans'', Text ''shm_full_scans''),
      (''NodeMemorySharedMergeAcrossNodes'', Text ''shm_merge_across_nodes''),
      (''NodeSevPdh'', Text ''pdh''),
      (''NodeSevCertChain'', Text ''cert-chain''),
      (''NodeSevCpu0ID'', Text ''cpu0-id''),
      (''NodeSevCbitpos'', Text ''cbitpos''),
      (''NodeSevReducedPhysBits'', Text ''reduced-phys-bits''),
      (''NodeSevMaxGuests'', Text ''max-guests''),
      (''NodeSevMaxEsGuests'', Text ''max-es-guests''),
      (''UUIDBuflen'', Number 16),
      (''UUIDStringBuflen'', Number 37),
      (''ConnectIdentityUserName'', Text ''user-name''),
      (''ConnectIdentityUnixUserID'', Text ''unix-user-id''),
      (''ConnectIdentityGroupName'', Text ''group-name''),
      (''ConnectIdentityUnixGroupID'', Text ''unix-group-id''),
      (''ConnectIdentityProcessID'', Text ''process-id''),
      (''ConnectIdentityProcessTime'', Text ''process-time''),
      (''ConnectIdentitySaslUserName'', Text ''sasl-user-name''),
      (''ConnectIdentityX509DistinguishedName'', Text ''x509-distinguished-name''),
      (''ConnectIdentitySelinuxContext'', Text ''selinux-context''),
      (''NetworkPortBandwidthInAverage'', Text ''inbound.average'')]"

definition untyped_consts_8 :: "untyped_const list" where
  "untyped_consts_8 =
     [(''NetworkPortBandwidthInPeak'', Text ''inbound.peak''),
      (''NetworkPortBandwidthInBurst'', Text ''inbound.burst''),
      (''NetworkPortBandwidthInFloor'', Text ''inbound.floor''),
      (''NetworkPortBandwidthOutAverage'', Text ''outbound.average''),
      (''NetworkPortBandwidthOutPeak'', Text ''outbound.peak''),
      (''NetworkPortBandwidthOutBurst'', Text ''outbound.burst'')]"

definition untyped_consts :: "untyped_const list" where
  "untyped_consts =
     untyped_consts_1 @ untyped_consts_2 @ untyped_consts_3 @ untyped_consts_4 @
     untyped_consts_5 @ untyped_consts_6 @ untyped_consts_7 @ untyped_consts_8"

text \<open>A text fits in a field of \<open>n\<close> bytes with the zero byte at its end.\<close>

fun fits :: "int \<Rightarrow> string \<Rightarrow> bool" where
  "fits n [] = (0 < n)"
| "fits n (c # cs) = (0 < n \<and> fits (n - 1) cs)"

lemma fits_length: "fits n s \<longleftrightarrow> int (length s) < n"
  by (induction n s rule: fits.induct) auto

definition texts_fit :: "int \<Rightarrow> untyped_const list \<Rightarrow> bool" where
  "texts_fit n cs = list_all (\<lambda>(name, c). case c of Text s \<Rightarrow> fits n s | Number k \<Rightarrow> True) cs"

lemma untyped_consts_1_fit: "texts_fit 80 untyped_consts_1"
  by code_simp

lemma untyped_consts_2_fit: "texts_fit 80 untyped_consts_2"
  by code_simp

lemma untyped_consts_3_fit: "texts_fit 80 untyped_consts_3"
  by code_simp

lemma untyped_consts_4_fit: "texts_fit 80 untyped_consts_4"
  by code_simp

lemma untyped_consts_5_fit: "texts_fit 80 untyped_consts_5"
  by code_simp

lemma untyped_consts_6_fit: "texts_fit 80 untyped_consts_6"
  by code_simp

lemma untyped_consts_7_fit: "texts_fit 80 untyped_consts_7"
  by code_simp

lemma untyped_consts_8_fit: "texts_fit 80 untyped_consts_8"
  by code_simp

end
