(* ===== verification/Const_Names.thy ===== *)
theory Const_Names
  imports Const_Enums_1 Const_Enums_2 Const_Enums_3 Const_Enums_4 Const_Enums_5 Const_Params Libvirt_Events
begin

text \<open>
  All enumerations of \<open>src/const.gen.go\<close> together: their \<open>String\<close> methods are right on every value,
  and the numbers that the rest of the development uses are those of the tables.
\<close>

definition enumerations :: "enumeration list" where
  "enumerations = enums_1 @ enums_2 @ enums_3 @ enums_4 @ enums_5"

lemma enumerations_checked: "list_all checked_enum enumerations" "list_all proper_hashes enumerations"
  by (simp_all add: enumerations_def enums_1_checked enums_2_checked enums_3_checked enums_4_checked enums_5_checked)

lemma enumerationD:
  assumes "e \<in> set enumerations"
  shows "checked_enum e" "proper_names e"
  using assms enumerations_checked proper_hashes_list by (auto simp: list_all_iff)

definition ErrorNumber_enum :: enumeration where
  "ErrorNumber_enum =
     \<lparr>enum_type = ''ErrorNumber'', unsigned_type = False,
       constants = consts_ErrorNumber, stringer = stringer_ErrorNumber\<rparr>"

lemma ErrorNumber_enum: "ErrorNumber_enum \<in> set enumerations"
  by (simp add: enumerations_def enums_5_def enums_5_1_def ErrorNumber_enum_def)

text \<open>
  C39. The \<open>String\<close> method of every enumeration of the package, on every 32-bit value, does not panic; it
  gives the name of the first constant with this value, and where there is none the type and the
  number in decimal.
\<close>
theorem enum_String_names:
  assumes "e \<in> set enumerations"
  shows "enum_String e i =
    Some (case first_name (constants e) (enum_int (unsigned_type e) i) of
            Some n \<Rightarrow> n | None \<Rightarrow> unnamed (enum_type e) (enum_int (unsigned_type e) i))"
  using enumerationD(1) [OF assms] by (rule checked_enum_String)

theorem enum_String_names_witness:
  "enum_String ErrorNumber_enum 42 = Some ''ErrNoDomain'' \<and>
   enum_String ErrorNumber_enum (- 3) = Some ''ErrorNumber(-3)''"
proof -
  have "first_name consts_ErrorNumber 42 = Some ''ErrNoDomain''" "first_name consts_ErrorNumber (- 3) = None"
    "unnamed ''ErrorNumber'' (- 3) = ''ErrorNumber(-3)''"
    by code_simp+
  moreover have "enum_int False 42 = 42" "enum_int False (- 3) = - 3"
    by (simp_all add: enum_int_def)
  ultimately show ?thesis
    using enum_String_names [OF ErrorNumber_enum, of 42] enum_String_names [OF ErrorNumber_enum, of "- 3"]
    by (simp add: ErrorNumber_enum_def)
qed

text \<open>
  Different values of an enumeration have different texts, the unnamed values included.
\<close>
theorem enum_String_injective:
  assumes "e \<in> set enumerations"
  shows "enum_String e i = enum_String e j \<longleftrightarrow> i = j"
  using enumerationD [OF assms] checked_enum_inject by blast

theorem enum_String_injective_witness: "enum_String ErrorNumber_enum 1 \<noteq> enum_String ErrorNumber_enum 2"
  using enum_String_injective [OF ErrorNumber_enum, of 1 2] by simp

section \<open>The constants elsewhere\<close>

lemma constants_agree:
  "map_of consts_ErrorNumber ''ErrOk'' = Some (uint ErrOk)"
  "map_of consts_ErrorNumber ''ErrNoDomain'' = Some (uint ErrNoDomain)"
  "map_of consts_ConnectListAllDomainsFlags ''ConnectListDomainsActive'' = Some (sint ConnectListDomainsActive)"
  "map_of consts_ConnectListAllDomainsFlags ''ConnectListDomainsInactive'' = Some (sint ConnectListDomainsInactive)"
  "map_of consts_DomainModificationImpact ''DomainAffectLive'' = Some (uint DomainAffectLive)"
  "map_of consts_TypedParameterFlags ''TypedParamStringOkay'' = Some (uint TypedParamStringOkay)"
  "map_of consts_DomainEventID ''DomainEventIDLifecycle'' = Some (sint DomainEventIDLifecycle)"
  by code_simp+

text \<open>The texts, the names of typed parameters among them, fit in the field of a typed parameter.\<close>

lemma untyped_texts_fit:
  assumes "(name, Text s) \<in> set untyped_consts"
  shows "int (length s) < 80"
proof -
  have "texts_fit 80 untyped_consts"
    by (simp add: texts_fit_def untyped_consts_def)
      (simp add: untyped_consts_1_fit [unfolded texts_fit_def] untyped_consts_2_fit [unfolded texts_fit_def]
        untyped_consts_3_fit [unfolded texts_fit_def] untyped_consts_4_fit [unfolded texts_fit_def]
        untyped_consts_5_fit [unfolded texts_fit_def] untyped_consts_6_fit [unfolded texts_fit_def]
        untyped_consts_7_fit [unfolded texts_fit_def] untyped_consts_8_fit [unfolded texts_fit_def])
  with assms show ?thesis by (auto simp: texts_fit_def list_all_iff fits_length)
qed

end
