(* ===== verification/Test_Server.thy ===== *)
theory Test_Server
  imports Socket_Properties Transitions
begin

text \<open>
  The server that the client's tests talk to (\<open>src/libvirttest/libvirt.go\<close>): its canned replies, the loop
  that reads requests from a pipe, and the counter that numbers the replies. The reading loop takes 28
  bytes at a time, so that the payload of a request comes as further requests, which it is to ignore.
\<close>

section \<open>The canned replies\<close>

definition testDomainResponse :: "byte list" where
  "testDomainResponse =
     [0x00, 0x00, 0x00, 0x38, 0x20, 0x00, 0x80, 0x86, 0x00, 0x00, 0x00, 0x01, 0x00, 0x00, 0x00, 0x17,
      0x00, 0x00, 0x00, 0x01, 0x00, 0x00, 0x00, 0x00, 0x00, 0x00, 0x00, 0x00, 0x00, 0x00, 0x00, 0x04,
      0x74, 0x65, 0x73, 0x74, 0xdc, 0x22, 0x9f, 0x87, 0xd4, 0xde, 0x47, 0x19, 0x8c, 0xfd, 0x2e, 0x21,
      0xc6, 0x10, 0x5b, 0x01, 0x00, 0x00, 0x00, 0x0e]"

definition testRegisterEvent :: "byte list" where
  "testRegisterEvent =
     [0x00, 0x00, 0x00, 0x20, 0x20, 0x00, 0x80, 0x87, 0x00, 0x00, 0x00, 0x01, 0x00, 0x00, 0x00, 0x04,
      0x00, 0x00, 0x00, 0x01, 0x00, 0x00, 0x00, 0x00, 0x00, 0x00, 0x00, 0x00, 0x00, 0x00, 0x00, 0x01]"

definition testDeregisterEvent :: "byte list" where
  "testDeregisterEvent =
     [0x00, 0x00, 0x00, 0x1c, 0x20, 0x00, 0x80, 0x87, 0x00, 0x00, 0x00, 0x01, 0x00, 0x00, 0x00, 0x05,
      0x00, 0x00, 0x00, 0x01, 0x00, 0x00, 0x00, 0x00, 0x00, 0x00, 0x00, 0x00]"

definition testAuthReply :: "byte list" where
  "testAuthReply =
     [0x00, 0x00, 0x00, 0x24, 0x20, 0x00, 0x80, 0x86, 0x00, 0x00, 0x00, 0x01, 0x00, 0x00, 0x00, 0x42,
      0x00, 0x00, 0x00, 0x01, 0x00, 0x00, 0x00, 0x00, 0x00, 0x00, 0x00, 0x00, 0x00, 0x00, 0x00, 0x01,
      0x00, 0x00, 0x00, 0x00]"

definition testConnectReply :: "byte list" where
  "testConnectReply =
     [0x00, 0x00, 0x00, 0x1c, 0x20, 0x00, 0x80, 0x86, 0x00, 0x00, 0x00, 0x01, 0x00, 0x00, 0x00, 0x01,
      0x00, 0x00, 0x00, 0x01, 0x00, 0x00, 0x00, 0x00, 0x00, 0x00, 0x00, 0x00]"

definition testDisconnectReply :: "byte list" where
  "testDisconnectReply =
     [0x00, 0x00, 0x00, 0x1c, 0x20, 0x00, 0x80, 0x86, 0x00, 0x00, 0x00, 0x01, 0x00, 0x00, 0x00, 0x02,
      0x00, 0x00, 0x00, 0x01, 0x00, 0x00, 0x00, 0x00, 0x00, 0x00, 0x00, 0x00]"

definition testMigrateReply :: "byte list" where
  "testMigrateReply =
     [0x00, 0x00, 0x00, 0x20, 0x20, 0x00, 0x80, 0x86, 0x00, 0x00, 0x00, 0x01, 0x00, 0x00, 0x01, 0x31,
      0x00, 0x00, 0x00, 0x01, 0x00, 0x00, 0x00, 0x00, 0x00, 0x00, 0x00, 0x00, 0x00, 0x00, 0x00, 0x00]"

definition testRunReply_1 :: "byte list" where
  "testRunReply_1 =
     [0x00, 0x00, 0x00, 0x78, 0x20, 0x00, 0x80, 0x87, 0x00, 0x00, 0x00, 0x01, 0x00, 0x00, 0x00, 0x01,
      0x00, 0x00, 0x00, 0x01, 0x00, 0x00, 0x00, 0x00, 0x00, 0x00, 0x00, 0x00, 0x00, 0x00, 0x00, 0x52,
      0x7b, 0x22, 0x72, 0x65, 0x74, 0x75, 0x72, 0x6e, 0x22, 0x3a, 0x7b, 0x22, 0x71, 0x65, 0x6d, 0x75]"

definition testRunReply_2 :: "byte list" where
  "testRunReply_2 =
     [0x22, 0x3a, 0x7b, 0x22, 0x6d, 0x69, 0x63, 0x72, 0x6f, 0x22, 0x3a, 0x31, 0x2c, 0x22, 0x6d, 0x69,
      0x6e, 0x6f, 0x72, 0x22, 0x3a, 0x35, 0x2c, 0x22, 0x6d, 0x61, 0x6a, 0x6f, 0x72, 0x22, 0x3a, 0x32,
      0x7d, 0x2c, 0x22, 0x70, 0x61, 0x63, 0x6b, 0x61, 0x67, 0x65, 0x22, 0x3a, 0x22, 0x22, 0x7d, 0x2c]"

definition testRunReply_3 :: "byte list" where
  "testRunReply_3 =
     [0x22, 0x69, 0x64, 0x22, 0x3a, 0x22, 0x6c, 0x69, 0x62, 0x76, 0x69, 0x72, 0x74, 0x2d, 0x35, 0x33,
      0x22, 0x7d, 0x00, 0x00, 0x00, 0x00, 0x00, 0x00]"

definition testRunReply :: "byte list" where
  "testRunReply =
     testRunReply_1 @ testRunReply_2 @ testRunReply_3"

definition testRunReplyFail_1 :: "byte list" where
  "testRunReplyFail_1 =
     [0x00, 0x00, 0x00, 0x8c, 0x20, 0x00, 0x80, 0x87, 0x00, 0x00, 0x00, 0x01, 0x00, 0x00, 0x00, 0x01,
      0x00, 0x00, 0x00, 0x01, 0x00, 0x00, 0x00, 0x0a, 0x00, 0x00, 0x00, 0x00, 0x00, 0x00, 0x00, 0x69,
      0x7b, 0x22, 0x69, 0x64, 0x22, 0x3a, 0x22, 0x6c, 0x69, 0x62, 0x76, 0x69, 0x72, 0x74, 0x2d, 0x36]"

definition testRunReplyFail_2 :: "byte list" where
  "testRunReplyFail_2 =
     [0x38, 0x22, 0x2c, 0x22, 0x65, 0x72, 0x72, 0x6f, 0x72, 0x22, 0x3a, 0x7b, 0x22, 0x63, 0x6c, 0x61,
      0x73, 0x73, 0x22, 0x3a, 0x22, 0x43, 0x6f, 0x6d, 0x6d, 0x61, 0x6e, 0x64, 0x4e, 0x6f, 0x74, 0x46,
      0x6f, 0x75, 0x6e, 0x64, 0x22, 0x2c, 0x22, 0x64, 0x65, 0x73, 0x63, 0x22, 0x3a, 0x22, 0x54, 0x68]"

definition testRunReplyFail_3 :: "byte list" where
  "testRunReplyFail_3 =
     [0x65, 0x20, 0x63, 0x6f, 0x6d, 0x6d, 0x61, 0x6e, 0x64, 0x20, 0x64, 0x72, 0x69, 0x76, 0x65, 0x2d,
      0x66, 0x6f, 0x6f, 0x20, 0x68, 0x61, 0x73, 0x20, 0x6e, 0x6f, 0x74, 0x20, 0x62, 0x65, 0x65, 0x6e,
      0x20, 0x66, 0x6f, 0x75, 0x6e, 0x64, 0x22, 0x7d, 0x7d, 0x00, 0x00, 0x00]"

definition testRunReplyFail :: "byte list" where
  "testRunReplyFail =
     testRunReplyFail_1 @ testRunReplyFail_2 @ testRunReplyFail_3"

definition testSetSpeedReply :: "byte list" where
  "testSetSpeedReply =
     [0x00, 0x00, 0x00, 0x1c, 0x20, 0x00, 0x80, 0x86, 0x00, 0x00, 0x00, 0x01, 0x00, 0x00, 0x00, 0xcf,
      0x00, 0x00, 0x00, 0x01, 0x00, 0x00, 0x00, 0x00, 0x00, 0x00, 0x00, 0x00]"

definition testDomainsReply_1 :: "byte list" where
  "testDomainsReply_1 =
     [0x00, 0x00, 0x00, 0x6c, 0x20, 0x00, 0x80, 0x86, 0x00, 0x00, 0x00, 0x01, 0x00, 0x00, 0x01, 0x11,
      0x00, 0x00, 0x00, 0x01, 0x00, 0x00, 0x00, 0x00, 0x00, 0x00, 0x00, 0x00, 0x00, 0x00, 0x00, 0x02,
      0x00, 0x00, 0x00, 0x09, 0x61, 0x61, 0x61, 0x61, 0x61, 0x61, 0x61, 0x2d, 0x31, 0x00, 0x00, 0x00]"

definition testDomainsReply_2 :: "byte list" where
  "testDomainsReply_2 =
     [0xdc, 0x32, 0x9f, 0x87, 0xd4, 0xde, 0x47, 0x19, 0x8c, 0xfd, 0x2e, 0x21, 0xc6, 0x10, 0x5b, 0x01,
      0x00, 0x00, 0x00, 0x01, 0x00, 0x00, 0x00, 0x09, 0x61, 0x61, 0x61, 0x61, 0x61, 0x61, 0x61, 0x2d,
      0x32, 0x00, 0x00, 0x00, 0xdc, 0x22, 0x9f, 0x87, 0xd4, 0xde, 0x47, 0x19, 0x8c, 0xfd, 0x2e, 0x21]"

definition testDomainsReply_3 :: "byte list" where
  "testDomainsReply_3 =
     [0xc6, 0x10, 0x5b, 0x01, 0x00, 0x00, 0x00, 0x02, 0x00, 0x00, 0x00, 0x02]"

definition testDomainsReply :: "byte list" where
  "testDomainsReply =
     testDomainsReply_1 @ testDomainsReply_2 @ testDomainsReply_3"

definition testDomainMemoryStatsReply :: "byte list" where
  "testDomainMemoryStatsReply =
     [0x00, 0x00, 0x00, 0x38, 0x20, 0x00, 0x80, 0x86, 0x00, 0x00, 0x00, 0x01, 0x00, 0x00, 0x00, 0x9f,
      0x00, 0x00, 0x00, 0x01, 0x00, 0x00, 0x00, 0x00, 0x00, 0x00, 0x00, 0x00, 0x00, 0x00, 0x00, 0x02,
      0x00, 0x00, 0x00, 0x06, 0x00, 0x00, 0x00, 0x00, 0x00, 0x10, 0x00, 0x00, 0x00, 0x00, 0x00, 0x07,
      0x00, 0x00, 0x00, 0x00, 0x00, 0x01, 0x64, 0x88]"

definition testDomainStateReply :: "byte list" where
  "testDomainStateReply =
     [0x00, 0x00, 0x00, 0x24, 0x20, 0x00, 0x80, 0x86, 0x00, 0x00, 0x00, 0x01, 0x00, 0x00, 0x00, 0xd4,
      0x00, 0x00, 0x00, 0x01, 0x00, 0x00, 0x00, 0x00, 0x00, 0x00, 0x00, 0x00, 0x00, 0x00, 0x00, 0x01,
      0x00, 0x00, 0x00, 0x01]"

definition testSecretsReply :: "byte list" where
  "testSecretsReply =
     [0x00, 0x00, 0x00, 0x40, 0x20, 0x00, 0x80, 0x86, 0x00, 0x00, 0x00, 0x01, 0x00, 0x00, 0x01, 0x1f,
      0x00, 0x00, 0x00, 0x01, 0x00, 0x00, 0x00, 0x00, 0x00, 0x00, 0x00, 0x00, 0x00, 0x00, 0x00, 0x01,
      0x19, 0xfd, 0xc2, 0xf2, 0xfa, 0x64, 0x46, 0xf3, 0xba, 0xcf, 0x42, 0xa8, 0xaa, 0xfc, 0xa6, 0xdd,
      0x00, 0x00, 0x00, 0x01, 0x00, 0x00, 0x00, 0x04, 0x2f, 0x74, 0x6d, 0x70, 0x00, 0x00, 0x00, 0x01]"

definition testStoragePoolLookup :: "byte list" where
  "testStoragePoolLookup =
     [0x00, 0x00, 0x00, 0x38, 0x20, 0x00, 0x80, 0x86, 0x00, 0x00, 0x00, 0x01, 0x00, 0x00, 0x00, 0x54,
      0x00, 0x00, 0x00, 0x01, 0x00, 0x00, 0x00, 0x00, 0x00, 0x00, 0x00, 0x00, 0x00, 0x00, 0x00, 0x07,
      0x64, 0x65, 0x66, 0x61, 0x75, 0x6c, 0x74, 0x00, 0xbb, 0x30, 0xa1, 0x1c, 0x08, 0x46, 0x48, 0x27,
      0x8b, 0xba, 0x3e, 0x6b, 0x5c, 0xf1, 0xb6, 0x5f]"

definition testStoragePoolRefresh :: "byte list" where
  "testStoragePoolRefresh =
     [0x00, 0x00, 0x00, 0x1c, 0x20, 0x00, 0x80, 0x86, 0x00, 0x00, 0x00, 0x01, 0x00, 0x00, 0x00, 0x53,
      0x00, 0x00, 0x00, 0x01, 0x00, 0x00, 0x00, 0x00, 0x00, 0x00, 0x00, 0x00]"

definition testListPoolsReply :: "byte list" where
  "testListPoolsReply =
     [0x00, 0x00, 0x00, 0x40, 0x20, 0x00, 0x80, 0x86, 0x00, 0x00, 0x00, 0x01, 0x00, 0x00, 0x01, 0x19,
      0x00, 0x00, 0x00, 0x01, 0x00, 0x00, 0x00, 0x00, 0x00, 0x00, 0x00, 0x00, 0x00, 0x00, 0x00, 0x01,
      0x00, 0x00, 0x00, 0x07, 0x64, 0x65, 0x66, 0x61, 0x75, 0x6c, 0x74, 0x00, 0xbb, 0x30, 0xa1, 0x1c,
      0x08, 0x46, 0x48, 0x27, 0x8b, 0xba, 0x3e, 0x6b, 0x5c, 0xf1, 0xb6, 0x5f, 0x00, 0x00, 0x00, 0x01]"

definition testUndefineReply :: "byte list" where
  "testUndefineReply =
     [0x00, 0x00, 0x00, 0x1c, 0x20, 0x00, 0x80, 0x86, 0x00, 0x00, 0x00, 0x01, 0x00, 0x00, 0x00, 0xe7,
      0x00, 0x00, 0x00, 0x01, 0x00, 0x00, 0x00, 0x00, 0x00, 0x00, 0x00, 0x00]"

definition testDestroyReply :: "byte list" where
  "testDestroyReply =
     [0x00, 0x00, 0x00, 0x1c, 0x20, 0x00, 0x80, 0x86, 0x00, 0x00, 0x00, 0x01, 0x00, 0x00, 0x00, 0xea,
      0x00, 0x00, 0x00, 0x01, 0x00, 0x00, 0x00, 0x00, 0x00, 0x00, 0x00, 0x00]"

definition testVersionReply :: "byte list" where
  "testVersionReply =
     [0x00, 0x00, 0x00, 0x24, 0x20, 0x00, 0x80, 0x86, 0x00, 0x00, 0x00, 0x01, 0x00, 0x00, 0x00, 0x9d,
      0x00, 0x00, 0x00, 0x01, 0x00, 0x00, 0x00, 0x00, 0x00, 0x00, 0x00, 0x00, 0x00, 0x00, 0x00, 0x00,
      0x00, 0x0f, 0x4d, 0xfc]"

definition testDefineXML :: "byte list" where
  "testDefineXML =
     [0x00, 0x00, 0x00, 0x38, 0x20, 0x00, 0x80, 0x86, 0x00, 0x00, 0x00, 0x01, 0x00, 0x00, 0x01, 0x5e,
      0x00, 0x00, 0x00, 0x01, 0x00, 0x00, 0x00, 0x00, 0x00, 0x00, 0x00, 0x00, 0x00, 0x00, 0x00, 0x04,
      0x74, 0x65, 0x73, 0x74, 0xaf, 0xc2, 0xef, 0x71, 0x66, 0xe0, 0x45, 0xa7, 0xa5, 0xec, 0xd8, 0xba,
      0x1e, 0xa8, 0x17, 0x7d, 0xff, 0xff, 0xff, 0xff]"

definition testCreateWithFlags :: "byte list" where
  "testCreateWithFlags =
     [0x00, 0x00, 0x00, 0x38, 0x20, 0x00, 0x80, 0x86, 0x00, 0x00, 0x00, 0x01, 0x00, 0x00, 0x01, 0x5e,
      0x00, 0x00, 0x00, 0x01, 0x00, 0x00, 0x00, 0x00, 0x00, 0x00, 0x00, 0x00, 0x00, 0x00, 0x00, 0x04,
      0x74, 0x65, 0x73, 0x74, 0xaf, 0xc2, 0xef, 0x71, 0x66, 0xe0, 0x45, 0xa7, 0xa5, 0xec, 0xd8, 0xba,
      0x1e, 0xa8, 0x17, 0x7d, 0xff, 0xff, 0xff, 0xff]"

definition testShutdownReply :: "byte list" where
  "testShutdownReply =
     [0x00, 0x00, 0x00, 0x1c, 0x20, 0x00, 0x80, 0x86, 0x00, 0x00, 0x00, 0x01, 0x00, 0x00, 0x00, 0xea,
      0x00, 0x00, 0x00, 0x01, 0x00, 0x00, 0x00, 0x00, 0x00, 0x00, 0x00, 0x00]"

definition testRebootReply :: "byte list" where
  "testRebootReply =
     [0x00, 0x00, 0x00, 0x1c, 0x20, 0x00, 0x80, 0x86, 0x00, 0x00, 0x00, 0x01, 0x00, 0x00, 0x00, 0xea,
      0x00, 0x00, 0x00, 0x01, 0x00, 0x00, 0x00, 0x00, 0x00, 0x00, 0x00, 0x00]"

definition testSetBlockIoTuneReply :: "byte list" where
  "testSetBlockIoTuneReply =
     [0x00, 0x00, 0x00, 0x1c, 0x20, 0x00, 0x80, 0x86, 0x00, 0x00, 0x00, 0x01, 0x00, 0x00, 0x00, 0xfc,
      0x00, 0x00, 0x00, 0x00, 0x00, 0x00, 0x00, 0x00, 0x00, 0x00, 0x00, 0x00]"

definition testGetBlockIoTuneReply_1 :: "byte list" where
  "testGetBlockIoTuneReply_1 =
     [0x00, 0x00, 0x03, 0x00, 0x20, 0x00, 0x80, 0x86, 0x00, 0x00, 0x00, 0x01, 0x00, 0x00, 0x00, 0xfd,
      0x00, 0x00, 0x00, 0x00, 0x00, 0x00, 0x00, 0x00, 0x00, 0x00, 0x00, 0x00, 0x00, 0x00, 0x00, 0x14,
      0x00, 0x00, 0x00, 0x0f, 0x74, 0x6f, 0x74, 0x61, 0x6c, 0x5f, 0x62, 0x79, 0x74, 0x65, 0x73, 0x5f]"

definition testGetBlockIoTuneReply_2 :: "byte list" where
  "testGetBlockIoTuneReply_2 =
     [0x73, 0x65, 0x63, 0x00, 0x00, 0x00, 0x00, 0x04, 0x00, 0x00, 0x00, 0x00, 0x00, 0x00, 0x00, 0x00,
      0x00, 0x00, 0x00, 0x0e, 0x72, 0x65, 0x61, 0x64, 0x5f, 0x62, 0x79, 0x74, 0x65, 0x73, 0x5f, 0x73,
      0x65, 0x63, 0x00, 0x00, 0x00, 0x00, 0x00, 0x04, 0x00, 0x00, 0x00, 0x00, 0x00, 0x00, 0x00, 0x00]"

definition testGetBlockIoTuneReply_3 :: "byte list" where
  "testGetBlockIoTuneReply_3 =
     [0x00, 0x00, 0x00, 0x0f, 0x77, 0x72, 0x69, 0x74, 0x65, 0x5f, 0x62, 0x79, 0x74, 0x65, 0x73, 0x5f,
      0x73, 0x65, 0x63, 0x00, 0x00, 0x00, 0x00, 0x04, 0x00, 0x00, 0x00, 0x00, 0x00, 0x07, 0xa1, 0x20,
      0x00, 0x00, 0x00, 0x0e, 0x74, 0x6f, 0x74, 0x61, 0x6c, 0x5f, 0x69, 0x6f, 0x70, 0x73, 0x5f, 0x73]"

definition testGetBlockIoTuneReply_4 :: "byte list" where
  "testGetBlockIoTuneReply_4 =
     [0x65, 0x63, 0x00, 0x00, 0x00, 0x00, 0x00, 0x04, 0x00, 0x00, 0x00, 0x00, 0x00, 0x00, 0x00, 0x00,
      0x00, 0x00, 0x00, 0x0d, 0x72, 0x65, 0x61, 0x64, 0x5f, 0x69, 0x6f, 0x70, 0x73, 0x5f, 0x73, 0x65,
      0x63, 0x00, 0x00, 0x00, 0x00, 0x00, 0x00, 0x04, 0x00, 0x00, 0x00, 0x00, 0x00, 0x00, 0x00, 0x00]"

definition testGetBlockIoTuneReply_5 :: "byte list" where
  "testGetBlockIoTuneReply_5 =
     [0x00, 0x00, 0x00, 0x0e, 0x77, 0x72, 0x69, 0x74, 0x65, 0x5f, 0x69, 0x6f, 0x70, 0x73, 0x5f, 0x73,
      0x65, 0x63, 0x00, 0x00, 0x00, 0x00, 0x00, 0x04, 0x00, 0x00, 0x00, 0x00, 0x00, 0x00, 0x00, 0x00,
      0x00, 0x00, 0x00, 0x13, 0x74, 0x6f, 0x74, 0x61, 0x6c, 0x5f, 0x62, 0x79, 0x74, 0x65, 0x73, 0x5f]"

definition testGetBlockIoTuneReply_6 :: "byte list" where
  "testGetBlockIoTuneReply_6 =
     [0x73, 0x65, 0x63, 0x5f, 0x6d, 0x61, 0x78, 0x00, 0x00, 0x00, 0x00, 0x04, 0x00, 0x00, 0x00, 0x00,
      0x00, 0x00, 0x00, 0x00, 0x00, 0x00, 0x00, 0x12, 0x72, 0x65, 0x61, 0x64, 0x5f, 0x62, 0x79, 0x74,
      0x65, 0x73, 0x5f, 0x73, 0x65, 0x63, 0x5f, 0x6d, 0x61, 0x78, 0x00, 0x00, 0x00, 0x00, 0x00, 0x04]"

definition testGetBlockIoTuneReply_7 :: "byte list" where
  "testGetBlockIoTuneReply_7 =
     [0x00, 0x00, 0x00, 0x00, 0x00, 0x00, 0x00, 0x00, 0x00, 0x00, 0x00, 0x13, 0x77, 0x72, 0x69, 0x74,
      0x65, 0x5f, 0x62, 0x79, 0x74, 0x65, 0x73, 0x5f, 0x73, 0x65, 0x63, 0x5f, 0x6d, 0x61, 0x78, 0x00,
      0x00, 0x00, 0x00, 0x04, 0x00, 0x00, 0x00, 0x00, 0x00, 0x00, 0xc3, 0x50, 0x00, 0x00, 0x00, 0x12]"

definition testGetBlockIoTuneReply_8 :: "byte list" where
  "testGetBlockIoTuneReply_8 =
     [0x74, 0x6f, 0x74, 0x61, 0x6c, 0x5f, 0x69, 0x6f, 0x70, 0x73, 0x5f, 0x73, 0x65, 0x63, 0x5f, 0x6d,
      0x61, 0x78, 0x00, 0x00, 0x00, 0x00, 0x00, 0x04, 0x00, 0x00, 0x00, 0x00, 0x00, 0x00, 0x00, 0x00,
      0x00, 0x00, 0x00, 0x11, 0x72, 0x65, 0x61, 0x64, 0x5f, 0x69, 0x6f, 0x70, 0x73, 0x5f, 0x73, 0x65]"

definition testGetBlockIoTuneReply_9 :: "byte list" where
  "testGetBlockIoTuneReply_9 =
     [0x63, 0x5f, 0x6d, 0x61, 0x78, 0x00, 0x00, 0x00, 0x00, 0x00, 0x00, 0x04, 0x00, 0x00, 0x00, 0x00,
      0x00, 0x00, 0x00, 0x00, 0x00, 0x00, 0x00, 0x12, 0x77, 0x72, 0x69, 0x74, 0x65, 0x5f, 0x69, 0x6f,
      0x70, 0x73, 0x5f, 0x73, 0x65, 0x63, 0x5f, 0x6d, 0x61, 0x78, 0x00, 0x00, 0x00, 0x00, 0x00, 0x04]"

definition testGetBlockIoTuneReply_10 :: "byte list" where
  "testGetBlockIoTuneReply_10 =
     [0x00, 0x00, 0x00, 0x00, 0x00, 0x00, 0x00, 0x00, 0x00, 0x00, 0x00, 0x0d, 0x73, 0x69, 0x7a, 0x65,
      0x5f, 0x69, 0x6f, 0x70, 0x73, 0x5f, 0x73, 0x65, 0x63, 0x00, 0x00, 0x00, 0x00, 0x00, 0x00, 0x04,
      0x00, 0x00, 0x00, 0x00, 0x00, 0x00, 0x00, 0x00, 0x00, 0x00, 0x00, 0x1a, 0x74, 0x6f, 0x74, 0x61]"

definition testGetBlockIoTuneReply_11 :: "byte list" where
  "testGetBlockIoTuneReply_11 =
     [0x6c, 0x5f, 0x62, 0x79, 0x74, 0x65, 0x73, 0x5f, 0x73, 0x65, 0x63, 0x5f, 0x6d, 0x61, 0x78, 0x5f,
      0x6c, 0x65, 0x6e, 0x67, 0x74, 0x68, 0x00, 0x00, 0x00, 0x00, 0x00, 0x04, 0x00, 0x00, 0x00, 0x00,
      0x00, 0x00, 0x00, 0x00, 0x00, 0x00, 0x00, 0x19, 0x72, 0x65, 0x61, 0x64, 0x5f, 0x62, 0x79, 0x74]"

definition testGetBlockIoTuneReply_12 :: "byte list" where
  "testGetBlockIoTuneReply_12 =
     [0x65, 0x73, 0x5f, 0x73, 0x65, 0x63, 0x5f, 0x6d, 0x61, 0x78, 0x5f, 0x6c, 0x65, 0x6e, 0x67, 0x74,
      0x68, 0x00, 0x00, 0x00, 0x00, 0x00, 0x00, 0x04, 0x00, 0x00, 0x00, 0x00, 0x00, 0x00, 0x00, 0x00,
      0x00, 0x00, 0x00, 0x1a, 0x77, 0x72, 0x69, 0x74, 0x65, 0x5f, 0x62, 0x79, 0x74, 0x65, 0x73, 0x5f]"

definition testGetBlockIoTuneReply_13 :: "byte list" where
  "testGetBlockIoTuneReply_13 =
     [0x73, 0x65, 0x63, 0x5f, 0x6d, 0x61, 0x78, 0x5f, 0x6c, 0x65, 0x6e, 0x67, 0x74, 0x68, 0x00, 0x00,
      0x00, 0x00, 0x00, 0x04, 0x00, 0x00, 0x00, 0x00, 0x00, 0x00, 0x00, 0x01, 0x00, 0x00, 0x00, 0x19,
      0x74, 0x6f, 0x74, 0x61, 0x6c, 0x5f, 0x69, 0x6f, 0x70, 0x73, 0x5f, 0x73, 0x65, 0x63, 0x5f, 0x6d]"

definition testGetBlockIoTuneReply_14 :: "byte list" where
  "testGetBlockIoTuneReply_14 =
     [0x61, 0x78, 0x5f, 0x6c, 0x65, 0x6e, 0x67, 0x74, 0x68, 0x00, 0x00, 0x00, 0x00, 0x00, 0x00, 0x04,
      0x00, 0x00, 0x00, 0x00, 0x00, 0x00, 0x00, 0x00, 0x00, 0x00, 0x00, 0x18, 0x72, 0x65, 0x61, 0x64,
      0x5f, 0x69, 0x6f, 0x70, 0x73, 0x5f, 0x73, 0x65, 0x63, 0x5f, 0x6d, 0x61, 0x78, 0x5f, 0x6c, 0x65]"

definition testGetBlockIoTuneReply_15 :: "byte list" where
  "testGetBlockIoTuneReply_15 =
     [0x6e, 0x67, 0x74, 0x68, 0x00, 0x00, 0x00, 0x04, 0x00, 0x00, 0x00, 0x00, 0x00, 0x00, 0x00, 0x00,
      0x00, 0x00, 0x00, 0x19, 0x77, 0x72, 0x69, 0x74, 0x65, 0x5f, 0x69, 0x6f, 0x70, 0x73, 0x5f, 0x73,
      0x65, 0x63, 0x5f, 0x6d, 0x61, 0x78, 0x5f, 0x6c, 0x65, 0x6e, 0x67, 0x74, 0x68, 0x00, 0x00, 0x00]"

definition testGetBlockIoTuneReply_16 :: "byte list" where
  "testGetBlockIoTuneReply_16 =
     [0x00, 0x00, 0x00, 0x04, 0x00, 0x00, 0x00, 0x00, 0x00, 0x00, 0x00, 0x00, 0x00, 0x00, 0x00, 0x0a,
      0x67, 0x72, 0x6f, 0x75, 0x70, 0x5f, 0x6e, 0x61, 0x6d, 0x65, 0x00, 0x00, 0x00, 0x00, 0x00, 0x07,
      0x00, 0x00, 0x00, 0x08, 0x73, 0x6f, 0x6d, 0x65, 0x6e, 0x61, 0x6d, 0x65, 0x00, 0x00, 0x00, 0x00]"

definition testGetBlockIoTuneReply :: "byte list" where
  "testGetBlockIoTuneReply =
     testGetBlockIoTuneReply_1 @ testGetBlockIoTuneReply_2 @ testGetBlockIoTuneReply_3 @
     testGetBlockIoTuneReply_4 @ testGetBlockIoTuneReply_5 @ testGetBlockIoTuneReply_6 @
     testGetBlockIoTuneReply_7 @ testGetBlockIoTuneReply_8 @ testGetBlockIoTuneReply_9 @
     testGetBlockIoTuneReply_10 @ testGetBlockIoTuneReply_11 @ testGetBlockIoTuneReply_12 @
     testGetBlockIoTuneReply_13 @ testGetBlockIoTuneReply_14 @ testGetBlockIoTuneReply_15 @
     testGetBlockIoTuneReply_16"

definition testGetAllDomainStatsReply_1 :: "byte list" where
  "testGetAllDomainStatsReply_1 =
     [0x00, 0x00, 0x00, 0xd8, 0x20, 0x00, 0x80, 0x86, 0x00, 0x00, 0x00, 0x01, 0x00, 0x00, 0x01, 0x58,
      0x00, 0x00, 0x00, 0x00, 0x00, 0x00, 0x00, 0x00, 0x00, 0x00, 0x00, 0x00, 0x00, 0x00, 0x00, 0x02,
      0x00, 0x00, 0x00, 0x0e, 0x44, 0x72, 0x6f, 0x70, 0x6c, 0x65, 0x74, 0x2d, 0x38, 0x34, 0x34, 0x33]"

definition testGetAllDomainStatsReply_2 :: "byte list" where
  "testGetAllDomainStatsReply_2 =
     [0x32, 0x39, 0x00, 0x00, 0x51, 0x53, 0x24, 0x2e, 0xc6, 0xbd, 0x44, 0x59, 0xa9, 0xff, 0x20, 0xca,
      0x79, 0x8f, 0x31, 0x71, 0xff, 0xff, 0xff, 0xff, 0x00, 0x00, 0x00, 0x02, 0x00, 0x00, 0x00, 0x0b,
      0x73, 0x74, 0x61, 0x74, 0x65, 0x2e, 0x73, 0x74, 0x61, 0x74, 0x65, 0x00, 0x00, 0x00, 0x00, 0x01]"

definition testGetAllDomainStatsReply_3 :: "byte list" where
  "testGetAllDomainStatsReply_3 =
     [0x00, 0x00, 0x00, 0x01, 0x00, 0x00, 0x00, 0x0c, 0x73, 0x74, 0x61, 0x74, 0x65, 0x2e, 0x72, 0x65,
      0x61, 0x73, 0x6f, 0x6e, 0x00, 0x00, 0x00, 0x01, 0x00, 0x00, 0x00, 0x02, 0x00, 0x00, 0x00, 0x0d,
      0x44, 0x72, 0x6f, 0x70, 0x6c, 0x65, 0x74, 0x2d, 0x33, 0x33, 0x34, 0x33, 0x36, 0x00, 0x00, 0x00]"

definition testGetAllDomainStatsReply_4 :: "byte list" where
  "testGetAllDomainStatsReply_4 =
     [0x24, 0x0d, 0x94, 0xc5, 0xf0, 0x47, 0x45, 0x8b, 0x89, 0xf1, 0xcd, 0x3a, 0xe6, 0xd6, 0x2b, 0x5d,
      0xff, 0xff, 0xff, 0xff, 0x00, 0x00, 0x00, 0x02, 0x00, 0x00, 0x00, 0x0b, 0x73, 0x74, 0x61, 0x74,
      0x65, 0x2e, 0x73, 0x74, 0x61, 0x74, 0x65, 0x00, 0x00, 0x00, 0x00, 0x01, 0x00, 0x00, 0x00, 0x01]"

definition testGetAllDomainStatsReply_5 :: "byte list" where
  "testGetAllDomainStatsReply_5 =
     [0x00, 0x00, 0x00, 0x0c, 0x73, 0x74, 0x61, 0x74, 0x65, 0x2e, 0x72, 0x65, 0x61, 0x73, 0x6f, 0x6e,
      0x00, 0x00, 0x00, 0x01, 0x00, 0x00, 0x00, 0x01]"

definition testGetAllDomainStatsReply :: "byte list" where
  "testGetAllDomainStatsReply =
     testGetAllDomainStatsReply_1 @ testGetAllDomainStatsReply_2 @ testGetAllDomainStatsReply_3 @
     testGetAllDomainStatsReply_4 @ testGetAllDomainStatsReply_5"

section \<open>The server\<close>

text \<open>The field \<open>disconnected\<close> is the number of a channel; the two ends of the pipe are the arguments below.\<close>

record MockLibvirt =
  Fail :: bool
  mock_serial :: u32
  mock_disconnected :: nat

text \<open>\<open>reply\<close>; the slice of the serial number panics on a shorter buffer.\<close>

definition mock_reply :: "byte list \<Rightarrow> MockLibvirt \<Rightarrow> byte list option \<times> MockLibvirt" where
  "mock_reply buf m =
     (let n = mock_serial m + 1
      in (if length buf < 24 then None else Some (take 20 buf @ be32 n @ drop 24 buf), m\<lparr>mock_serial := n\<rparr>))"

definition handleRemote :: "u32 \<Rightarrow> byte list option" where
  "handleRemote procedure =
     (if procedure = 66 then Some testAuthReply
      else if procedure = 83 then Some testStoragePoolRefresh
      else if procedure = 84 then Some testStoragePoolLookup
      else if procedure = 1 then Some testConnectReply
      else if procedure = 2 then Some testDisconnectReply
      else if procedure = 157 then Some testVersionReply
      else if procedure = 23 then Some testDomainResponse
      else if procedure = 273 then Some testDomainsReply
      else if procedure = 281 then Some testListPoolsReply
      else if procedure = 287 then Some testSecretsReply
      else if procedure = 212 then Some testDomainStateReply
      else if procedure = 159 then Some testDomainMemoryStatsReply
      else if procedure = 207 then Some testSetSpeedReply
      else if procedure = 305 then Some testMigrateReply
      else if procedure = 231 then Some testUndefineReply
      else if procedure = 234 then Some testDestroyReply
      else if procedure = 350 then Some testDefineXML
      else if procedure = 27 then Some testRebootReply
      else if procedure = 245 then Some testRebootReply
      else if procedure = 196 then Some testCreateWithFlags
      else if procedure = 258 then Some testShutdownReply
      else if procedure = 252 then Some testSetBlockIoTuneReply
      else if procedure = 253 then Some testGetBlockIoTuneReply
      else if procedure = 344 then Some testGetAllDomainStatsReply
      else None)"

definition handleQEMU :: "bool \<Rightarrow> u32 \<Rightarrow> byte list option" where
  "handleQEMU fail procedure =
     (if procedure = 4 then Some testRegisterEvent
      else if procedure = 5 then Some testDeregisterEvent
      else if procedure = 1 then (if fail then Some testRunReplyFail else Some testRunReply)
      else None)"

definition canned :: "bool \<Rightarrow> u32 \<Rightarrow> u32 \<Rightarrow> byte list option" where
  "canned fail prog proc =
     (if prog = 0x20008086 then handleRemote proc
      else if prog = 0x20008087 then handleQEMU fail proc
      else None)"

text \<open>
  What one \<open>Read\<close> of the pipe gives: at most 28 bytes, the end, or another error. The buffer is new in
  every round and zero behind the bytes read.
\<close>

datatype pipe_read = Chunk "byte list" | PipeEOF | PipeError

definition read_buf :: "pipe_read \<Rightarrow> byte list" where
  "read_buf r = (case r of Chunk bs \<Rightarrow> take 28 (bs @ replicate 28 0) | _ \<Rightarrow> replicate 28 0)"

text \<open>The replies written and whether the loop has returned; without another read it waits.\<close>

fun mock_handle :: "pipe_read list \<Rightarrow> MockLibvirt \<Rightarrow> byte list list \<times> bool \<times> MockLibvirt" where
  "mock_handle [] m = ([], False, m)"
| "mock_handle (r # rs) m =
     (if r = PipeEOF then ([], True, m)
      else
        let buf = read_buf r;
            prog = from_be32 (take 4 (drop 4 buf));
            proc = from_be32 (take 4 (drop 12 buf))
        in case canned (Fail m) prog proc of
             None \<Rightarrow> mock_handle rs m
           | Some reply \<Rightarrow>
               (case mock_reply reply m of
                  (None, m1) \<Rightarrow> ([], True, m1)
                | (Some w, m1) \<Rightarrow> (case mock_handle rs m1 of (ws, fin, m2) \<Rightarrow> (w # ws, fin, m2))))"

text \<open>The reads of 28 bytes that take up one write to the pipe.\<close>

fun pipe_reads :: "byte list \<Rightarrow> pipe_read list" where
  "pipe_reads [] = []"
| "pipe_reads (b # bs) = Chunk (take 28 (b # bs)) # pipe_reads (drop 28 (b # bs))"

section \<open>The replies are packets\<close>

definition canned_replies :: "byte list list" where
  "canned_replies =
     [testDomainResponse, testRegisterEvent, testDeregisterEvent, testAuthReply,
      testConnectReply, testDisconnectReply, testMigrateReply, testRunReply,
      testRunReplyFail, testSetSpeedReply, testDomainsReply, testDomainMemoryStatsReply,
      testDomainStateReply, testSecretsReply, testStoragePoolLookup, testStoragePoolRefresh,
      testListPoolsReply, testUndefineReply, testDestroyReply, testVersionReply,
      testDefineXML, testCreateWithFlags, testShutdownReply, testRebootReply,
      testSetBlockIoTuneReply, testGetBlockIoTuneReply, testGetAllDomainStatsReply]"

lemma piece_lengths:
  "length testRunReply_1 = 48"
  "length testRunReply_2 = 48"
  "length testRunReply_3 = 24"
  "length testRunReplyFail_1 = 48"
  "length testRunReplyFail_2 = 48"
  "length testRunReplyFail_3 = 44"
  "length testDomainsReply_1 = 48"
  "length testDomainsReply_2 = 48"
  "length testDomainsReply_3 = 12"
  "length testGetBlockIoTuneReply_1 = 48"
  "length testGetBlockIoTuneReply_2 = 48"
  "length testGetBlockIoTuneReply_3 = 48"
  "length testGetBlockIoTuneReply_4 = 48"
  "length testGetBlockIoTuneReply_5 = 48"
  "length testGetBlockIoTuneReply_6 = 48"
  "length testGetBlockIoTuneReply_7 = 48"
  "length testGetBlockIoTuneReply_8 = 48"
  "length testGetBlockIoTuneReply_9 = 48"
  "length testGetBlockIoTuneReply_10 = 48"
  "length testGetBlockIoTuneReply_11 = 48"
  "length testGetBlockIoTuneReply_12 = 48"
  "length testGetBlockIoTuneReply_13 = 48"
  "length testGetBlockIoTuneReply_14 = 48"
  "length testGetBlockIoTuneReply_15 = 48"
  "length testGetBlockIoTuneReply_16 = 48"
  "length testGetAllDomainStatsReply_1 = 48"
  "length testGetAllDomainStatsReply_2 = 48"
  "length testGetAllDomainStatsReply_3 = 48"
  "length testGetAllDomainStatsReply_4 = 48"
  "length testGetAllDomainStatsReply_5 = 24"
  by (simp_all add: testRunReply_1_def testRunReply_2_def testRunReply_3_def
  testRunReplyFail_1_def testRunReplyFail_2_def testRunReplyFail_3_def
  testDomainsReply_1_def testDomainsReply_2_def testDomainsReply_3_def
  testGetBlockIoTuneReply_1_def testGetBlockIoTuneReply_2_def testGetBlockIoTuneReply_3_def testGetBlockIoTuneReply_4_def testGetBlockIoTuneReply_5_def testGetBlockIoTuneReply_6_def testGetBlockIoTuneReply_7_def testGetBlockIoTuneReply_8_def testGetBlockIoTuneReply_9_def testGetBlockIoTuneReply_10_def testGetBlockIoTuneReply_11_def testGetBlockIoTuneReply_12_def testGetBlockIoTuneReply_13_def testGetBlockIoTuneReply_14_def testGetBlockIoTuneReply_15_def testGetBlockIoTuneReply_16_def
  testGetAllDomainStatsReply_1_def testGetAllDomainStatsReply_2_def testGetAllDomainStatsReply_3_def testGetAllDomainStatsReply_4_def testGetAllDomainStatsReply_5_def)

lemma canned_lengths:
  "length testDomainResponse = 56"
  "length testRegisterEvent = 32"
  "length testDeregisterEvent = 28"
  "length testAuthReply = 36"
  "length testConnectReply = 28"
  "length testDisconnectReply = 28"
  "length testMigrateReply = 32"
  "length testRunReply = 120"
  "length testRunReplyFail = 140"
  "length testSetSpeedReply = 28"
  "length testDomainsReply = 108"
  "length testDomainMemoryStatsReply = 56"
  "length testDomainStateReply = 36"
  "length testSecretsReply = 64"
  "length testStoragePoolLookup = 56"
  "length testStoragePoolRefresh = 28"
  "length testListPoolsReply = 64"
  "length testUndefineReply = 28"
  "length testDestroyReply = 28"
  "length testVersionReply = 36"
  "length testDefineXML = 56"
  "length testCreateWithFlags = 56"
  "length testShutdownReply = 28"
  "length testRebootReply = 28"
  "length testSetBlockIoTuneReply = 28"
  "length testGetBlockIoTuneReply = 768"
  "length testGetAllDomainStatsReply = 216"
  by (simp_all add: piece_lengths testDomainResponse_def testRegisterEvent_def testDeregisterEvent_def testAuthReply_def
  testConnectReply_def testDisconnectReply_def testMigrateReply_def testRunReply_def
  testRunReplyFail_def testSetSpeedReply_def testDomainsReply_def testDomainMemoryStatsReply_def
  testDomainStateReply_def testSecretsReply_def testStoragePoolLookup_def testStoragePoolRefresh_def
  testListPoolsReply_def testUndefineReply_def testDestroyReply_def testVersionReply_def
  testDefineXML_def testCreateWithFlags_def testShutdownReply_def testRebootReply_def
  testSetBlockIoTuneReply_def testGetBlockIoTuneReply_def testGetAllDomainStatsReply_def)

lemma canned_heads:
  "take 28 testDomainResponse = [0x00, 0x00, 0x00, 0x38, 0x20, 0x00, 0x80, 0x86, 0x00, 0x00, 0x00, 0x01, 0x00, 0x00, 0x00, 0x17, 0x00, 0x00, 0x00, 0x01, 0x00, 0x00, 0x00, 0x00, 0x00, 0x00, 0x00, 0x00]"
  "take 28 testRegisterEvent = [0x00, 0x00, 0x00, 0x20, 0x20, 0x00, 0x80, 0x87, 0x00, 0x00, 0x00, 0x01, 0x00, 0x00, 0x00, 0x04, 0x00, 0x00, 0x00, 0x01, 0x00, 0x00, 0x00, 0x00, 0x00, 0x00, 0x00, 0x00]"
  "take 28 testDeregisterEvent = [0x00, 0x00, 0x00, 0x1c, 0x20, 0x00, 0x80, 0x87, 0x00, 0x00, 0x00, 0x01, 0x00, 0x00, 0x00, 0x05, 0x00, 0x00, 0x00, 0x01, 0x00, 0x00, 0x00, 0x00, 0x00, 0x00, 0x00, 0x00]"
  "take 28 testAuthReply = [0x00, 0x00, 0x00, 0x24, 0x20, 0x00, 0x80, 0x86, 0x00, 0x00, 0x00, 0x01, 0x00, 0x00, 0x00, 0x42, 0x00, 0x00, 0x00, 0x01, 0x00, 0x00, 0x00, 0x00, 0x00, 0x00, 0x00, 0x00]"
  "take 28 testConnectReply = [0x00, 0x00, 0x00, 0x1c, 0x20, 0x00, 0x80, 0x86, 0x00, 0x00, 0x00, 0x01, 0x00, 0x00, 0x00, 0x01, 0x00, 0x00, 0x00, 0x01, 0x00, 0x00, 0x00, 0x00, 0x00, 0x00, 0x00, 0x00]"
  "take 28 testDisconnectReply = [0x00, 0x00, 0x00, 0x1c, 0x20, 0x00, 0x80, 0x86, 0x00, 0x00, 0x00, 0x01, 0x00, 0x00, 0x00, 0x02, 0x00, 0x00, 0x00, 0x01, 0x00, 0x00, 0x00, 0x00, 0x00, 0x00, 0x00, 0x00]"
  "take 28 testMigrateReply = [0x00, 0x00, 0x00, 0x20, 0x20, 0x00, 0x80, 0x86, 0x00, 0x00, 0x00, 0x01, 0x00, 0x00, 0x01, 0x31, 0x00, 0x00, 0x00, 0x01, 0x00, 0x00, 0x00, 0x00, 0x00, 0x00, 0x00, 0x00]"
  "take 28 testRunReply = [0x00, 0x00, 0x00, 0x78, 0x20, 0x00, 0x80, 0x87, 0x00, 0x00, 0x00, 0x01, 0x00, 0x00, 0x00, 0x01, 0x00, 0x00, 0x00, 0x01, 0x00, 0x00, 0x00, 0x00, 0x00, 0x00, 0x00, 0x00]"
  "take 28 testRunReplyFail = [0x00, 0x00, 0x00, 0x8c, 0x20, 0x00, 0x80, 0x87, 0x00, 0x00, 0x00, 0x01, 0x00, 0x00, 0x00, 0x01, 0x00, 0x00, 0x00, 0x01, 0x00, 0x00, 0x00, 0x0a, 0x00, 0x00, 0x00, 0x00]"
  "take 28 testSetSpeedReply = [0x00, 0x00, 0x00, 0x1c, 0x20, 0x00, 0x80, 0x86, 0x00, 0x00, 0x00, 0x01, 0x00, 0x00, 0x00, 0xcf, 0x00, 0x00, 0x00, 0x01, 0x00, 0x00, 0x00, 0x00, 0x00, 0x00, 0x00, 0x00]"
  "take 28 testDomainsReply = [0x00, 0x00, 0x00, 0x6c, 0x20, 0x00, 0x80, 0x86, 0x00, 0x00, 0x00, 0x01, 0x00, 0x00, 0x01, 0x11, 0x00, 0x00, 0x00, 0x01, 0x00, 0x00, 0x00, 0x00, 0x00, 0x00, 0x00, 0x00]"
  "take 28 testDomainMemoryStatsReply = [0x00, 0x00, 0x00, 0x38, 0x20, 0x00, 0x80, 0x86, 0x00, 0x00, 0x00, 0x01, 0x00, 0x00, 0x00, 0x9f, 0x00, 0x00, 0x00, 0x01, 0x00, 0x00, 0x00, 0x00, 0x00, 0x00, 0x00, 0x00]"
  "take 28 testDomainStateReply = [0x00, 0x00, 0x00, 0x24, 0x20, 0x00, 0x80, 0x86, 0x00, 0x00, 0x00, 0x01, 0x00, 0x00, 0x00, 0xd4, 0x00, 0x00, 0x00, 0x01, 0x00, 0x00, 0x00, 0x00, 0x00, 0x00, 0x00, 0x00]"
  "take 28 testSecretsReply = [0x00, 0x00, 0x00, 0x40, 0x20, 0x00, 0x80, 0x86, 0x00, 0x00, 0x00, 0x01, 0x00, 0x00, 0x01, 0x1f, 0x00, 0x00, 0x00, 0x01, 0x00, 0x00, 0x00, 0x00, 0x00, 0x00, 0x00, 0x00]"
  "take 28 testStoragePoolLookup = [0x00, 0x00, 0x00, 0x38, 0x20, 0x00, 0x80, 0x86, 0x00, 0x00, 0x00, 0x01, 0x00, 0x00, 0x00, 0x54, 0x00, 0x00, 0x00, 0x01, 0x00, 0x00, 0x00, 0x00, 0x00, 0x00, 0x00, 0x00]"
  "take 28 testStoragePoolRefresh = [0x00, 0x00, 0x00, 0x1c, 0x20, 0x00, 0x80, 0x86, 0x00, 0x00, 0x00, 0x01, 0x00, 0x00, 0x00, 0x53, 0x00, 0x00, 0x00, 0x01, 0x00, 0x00, 0x00, 0x00, 0x00, 0x00, 0x00, 0x00]"
  "take 28 testListPoolsReply = [0x00, 0x00, 0x00, 0x40, 0x20, 0x00, 0x80, 0x86, 0x00, 0x00, 0x00, 0x01, 0x00, 0x00, 0x01, 0x19, 0x00, 0x00, 0x00, 0x01, 0x00, 0x00, 0x00, 0x00, 0x00, 0x00, 0x00, 0x00]"
  "take 28 testUndefineReply = [0x00, 0x00, 0x00, 0x1c, 0x20, 0x00, 0x80, 0x86, 0x00, 0x00, 0x00, 0x01, 0x00, 0x00, 0x00, 0xe7, 0x00, 0x00, 0x00, 0x01, 0x00, 0x00, 0x00, 0x00, 0x00, 0x00, 0x00, 0x00]"
  "take 28 testDestroyReply = [0x00, 0x00, 0x00, 0x1c, 0x20, 0x00, 0x80, 0x86, 0x00, 0x00, 0x00, 0x01, 0x00, 0x00, 0x00, 0xea, 0x00, 0x00, 0x00, 0x01, 0x00, 0x00, 0x00, 0x00, 0x00, 0x00, 0x00, 0x00]"
  "take 28 testVersionReply = [0x00, 0x00, 0x00, 0x24, 0x20, 0x00, 0x80, 0x86, 0x00, 0x00, 0x00, 0x01, 0x00, 0x00, 0x00, 0x9d, 0x00, 0x00, 0x00, 0x01, 0x00, 0x00, 0x00, 0x00, 0x00, 0x00, 0x00, 0x00]"
  "take 28 testDefineXML = [0x00, 0x00, 0x00, 0x38, 0x20, 0x00, 0x80, 0x86, 0x00, 0x00, 0x00, 0x01, 0x00, 0x00, 0x01, 0x5e, 0x00, 0x00, 0x00, 0x01, 0x00, 0x00, 0x00, 0x00, 0x00, 0x00, 0x00, 0x00]"
  "take 28 testCreateWithFlags = [0x00, 0x00, 0x00, 0x38, 0x20, 0x00, 0x80, 0x86, 0x00, 0x00, 0x00, 0x01, 0x00, 0x00, 0x01, 0x5e, 0x00, 0x00, 0x00, 0x01, 0x00, 0x00, 0x00, 0x00, 0x00, 0x00, 0x00, 0x00]"
  "take 28 testShutdownReply = [0x00, 0x00, 0x00, 0x1c, 0x20, 0x00, 0x80, 0x86, 0x00, 0x00, 0x00, 0x01, 0x00, 0x00, 0x00, 0xea, 0x00, 0x00, 0x00, 0x01, 0x00, 0x00, 0x00, 0x00, 0x00, 0x00, 0x00, 0x00]"
  "take 28 testRebootReply = [0x00, 0x00, 0x00, 0x1c, 0x20, 0x00, 0x80, 0x86, 0x00, 0x00, 0x00, 0x01, 0x00, 0x00, 0x00, 0xea, 0x00, 0x00, 0x00, 0x01, 0x00, 0x00, 0x00, 0x00, 0x00, 0x00, 0x00, 0x00]"
  "take 28 testSetBlockIoTuneReply = [0x00, 0x00, 0x00, 0x1c, 0x20, 0x00, 0x80, 0x86, 0x00, 0x00, 0x00, 0x01, 0x00, 0x00, 0x00, 0xfc, 0x00, 0x00, 0x00, 0x00, 0x00, 0x00, 0x00, 0x00, 0x00, 0x00, 0x00, 0x00]"
  "take 28 testGetBlockIoTuneReply = [0x00, 0x00, 0x03, 0x00, 0x20, 0x00, 0x80, 0x86, 0x00, 0x00, 0x00, 0x01, 0x00, 0x00, 0x00, 0xfd, 0x00, 0x00, 0x00, 0x00, 0x00, 0x00, 0x00, 0x00, 0x00, 0x00, 0x00, 0x00]"
  "take 28 testGetAllDomainStatsReply = [0x00, 0x00, 0x00, 0xd8, 0x20, 0x00, 0x80, 0x86, 0x00, 0x00, 0x00, 0x01, 0x00, 0x00, 0x01, 0x58, 0x00, 0x00, 0x00, 0x00, 0x00, 0x00, 0x00, 0x00, 0x00, 0x00, 0x00, 0x00]"
  by (simp_all add: piece_lengths testDomainResponse_def testRegisterEvent_def testDeregisterEvent_def testAuthReply_def
  testConnectReply_def testDisconnectReply_def testMigrateReply_def testRunReply_def
  testRunReplyFail_def testSetSpeedReply_def testDomainsReply_def testDomainMemoryStatsReply_def
  testDomainStateReply_def testSecretsReply_def testStoragePoolLookup_def testStoragePoolRefresh_def
  testListPoolsReply_def testUndefineReply_def testDestroyReply_def testVersionReply_def
  testDefineXML_def testCreateWithFlags_def testShutdownReply_def testRebootReply_def
  testSetBlockIoTuneReply_def testGetBlockIoTuneReply_def testGetAllDomainStatsReply_def
  testRunReply_1_def testRunReply_2_def testRunReply_3_def
  testRunReplyFail_1_def testRunReplyFail_2_def testRunReplyFail_3_def
  testDomainsReply_1_def testDomainsReply_2_def testDomainsReply_3_def
  testGetBlockIoTuneReply_1_def testGetBlockIoTuneReply_2_def testGetBlockIoTuneReply_3_def testGetBlockIoTuneReply_4_def testGetBlockIoTuneReply_5_def testGetBlockIoTuneReply_6_def testGetBlockIoTuneReply_7_def testGetBlockIoTuneReply_8_def testGetBlockIoTuneReply_9_def testGetBlockIoTuneReply_10_def testGetBlockIoTuneReply_11_def testGetBlockIoTuneReply_12_def testGetBlockIoTuneReply_13_def testGetBlockIoTuneReply_14_def testGetBlockIoTuneReply_15_def testGetBlockIoTuneReply_16_def
  testGetAllDomainStatsReply_1_def testGetAllDomainStatsReply_2_def testGetAllDomainStatsReply_3_def testGetAllDomainStatsReply_4_def testGetAllDomainStatsReply_5_def)

lemma canned_in: "canned fail prog proc = Some buf \<Longrightarrow> buf \<in> set canned_replies"
  by (auto simp: canned_def handleRemote_def handleQEMU_def canned_replies_def split: if_splits)

definition well_formed :: "byte list \<Rightarrow> bool" where
  "well_formed buf \<longleftrightarrow>
     28 \<le> length buf \<and> length buf < 2 ^ 32 \<and> from_be32 (take 4 buf) = word_of_nat (length buf)"

lemma well_formed_head:
  "well_formed buf \<longleftrightarrow>
     28 \<le> length buf \<and> length buf < 2 ^ 32 \<and> from_be32 (take 4 (take 28 buf)) = word_of_nat (length buf)"
  by (simp add: well_formed_def)

lemma canned_well_formed: "buf \<in> set canned_replies \<Longrightarrow> well_formed buf"
proof -
  have "list_all well_formed canned_replies"
    by (simp add: canned_replies_def well_formed_head canned_heads canned_lengths)
  then show "buf \<in> set canned_replies \<Longrightarrow> well_formed buf" by (simp add: list_all_iff)
qed

text \<open>The packet that a canned reply is, with the serial number that the server gives it.\<close>

definition reply_packet :: "byte list \<Rightarrow> u32 \<Rightarrow> Header \<times> byte list" where
  "reply_packet buf n = ((parse_header (take 24 (drop 4 buf)))\<lparr>Serial := n\<rparr>, drop 28 buf)"

lemma mock_reply_frame:
  assumes "well_formed buf"
  shows "mock_reply buf m =
    (Some (frame (reply_packet buf (mock_serial m + 1))), m\<lparr>mock_serial := mock_serial m + 1\<rparr>)"
proof -
  from assms have len: "28 \<le> length buf" "from_be32 (take 4 buf) = word_of_nat (length buf)"
    by (simp_all add: well_formed_def)
  have w: "be32 (from_be32 (take 4 (drop k buf))) = take 4 (drop k buf)" if "k \<le> 24" for k
    using len that by (intro be32_from_be32) simp
  have "take 20 buf = take 4 buf @ take 4 (drop 4 buf) @ take 4 (drop 8 buf) @ take 4 (drop 12 buf) @ take 4 (drop 16 buf)"
    using take_add [of 4 4 buf] take_add [of 8 4 buf] take_add [of 12 4 buf] take_add [of 16 4 buf] by simp
  moreover have "drop 24 buf = take 4 (drop 24 buf) @ drop 28 buf"
    using append_take_drop_id [of 4 "drop 24 buf"] by simp
  moreover have "be32 (word_of_nat (28 + length (drop 28 buf))) = take 4 buf"
    using len w [of 0] by simp
  ultimately show ?thesis
    using len(1) w [of 4] w [of 8] w [of 12] w [of 16] w [of 24]
    by (simp add: mock_reply_def Let_def frame_def reply_packet_def header_bytes_def parse_header_def take_drop)
qed

section \<open>Serving requests\<close>

text \<open>A payload that the reading loop does not take for requests.\<close>

definition ignored :: "bool \<Rightarrow> pipe_read \<Rightarrow> bool" where
  "ignored fail r \<longleftrightarrow> r \<noteq> PipeEOF \<and>
     canned fail (from_be32 (take 4 (drop 4 (read_buf r)))) (from_be32 (take 4 (drop 12 (read_buf r)))) = None"

definition quiet :: "bool \<Rightarrow> byte list \<Rightarrow> bool" where
  "quiet fail payload \<longleftrightarrow> list_all (ignored fail) (pipe_reads payload)"

lemma handle_ignored: "list_all (ignored (Fail m)) rs \<Longrightarrow> mock_handle (rs @ rs1) m = mock_handle rs1 m"
  by (induction rs) (simp_all add: ignored_def Let_def)

lemma pipe_reads_frame: "pipe_reads (frame q) = Chunk (take 28 (frame q)) # pipe_reads (snd q)"
proof -
  obtain b bs where f: "frame q = b # bs" by (cases "frame q") (simp_all add: frame_def be32_def)
  have "drop 28 (frame q) = snd q" by (simp add: frame_def)
  with f show ?thesis by simp
qed

lemma request_fields:
  "from_be32 (take 4 (drop 4 (read_buf (Chunk (take 28 (frame q)))))) = Program (fst q)"
  "from_be32 (take 4 (drop 12 (read_buf (Chunk (take 28 (frame q)))))) = Procedure (fst q)"
  by (simp_all add: read_buf_def frame_def header_bytes_def take_drop)

lemma handle_request:
  assumes "canned (Fail m) (Program (fst q)) (Procedure (fst q)) = Some buf" and "quiet (Fail m) (snd q)"
  shows "mock_handle (pipe_reads (frame q) @ rs) m =
    (case mock_handle rs (m\<lparr>mock_serial := mock_serial m + 1\<rparr>) of
       (ws, fin, m1) \<Rightarrow> (frame (reply_packet buf (mock_serial m + 1)) # ws, fin, m1))"
proof -
  have "mock_reply buf m = (Some (frame (reply_packet buf (mock_serial m + 1))), m\<lparr>mock_serial := mock_serial m + 1\<rparr>)"
    using mock_reply_frame canned_well_formed canned_in assms(1) by blast
  with assms handle_ignored [of "m\<lparr>mock_serial := mock_serial m + 1\<rparr>" "pipe_reads (snd q)" rs] show ?thesis
    by (simp add: pipe_reads_frame request_fields Let_def quiet_def split: prod.splits)
qed

text \<open>The replies to a sequence of requests, numbered from the server's counter on.\<close>

fun answers :: "bool \<Rightarrow> u32 \<Rightarrow> (Header \<times> byte list) list \<Rightarrow> (Header \<times> byte list) list" where
  "answers fail n [] = []"
| "answers fail n (q # qs) =
     reply_packet (the (canned fail (Program (fst q)) (Procedure (fst q)))) (n + 1) # answers fail (n + 1) qs"

lemma answers_serials: "List.map (Serial \<circ> fst) (answers fail n qs) = List.map (\<lambda>i. n + 1 + of_nat i) [0..<length qs]"
  by (induction fail n qs rule: answers.induct)
    (simp_all add: reply_packet_def upt_conv_Cons map_Suc_upt [symmetric] add.assoc del: upt_Suc)

lemma handle_requests:
  "\<forall>q \<in> set qs. (\<exists>buf. canned (Fail m) (Program (fst q)) (Procedure (fst q)) = Some buf) \<and> quiet (Fail m) (snd q) \<Longrightarrow>
    fst (mock_handle (concat (List.map (\<lambda>q. pipe_reads (frame q)) qs)) m) = List.map frame (answers (Fail m) (mock_serial m) qs)"
proof (induction qs arbitrary: m)
  case (Cons q qs)
  then obtain buf where b: "canned (Fail m) (Program (fst q)) (Procedure (fst q)) = Some buf" "quiet (Fail m) (snd q)"
    by auto
  have "fst (mock_handle (concat (List.map (\<lambda>q. pipe_reads (frame q)) qs)) (m\<lparr>mock_serial := mock_serial m + 1\<rparr>)) =
      List.map frame (answers (Fail m) (mock_serial m + 1) qs)"
    using Cons.IH [of "m\<lparr>mock_serial := mock_serial m + 1\<rparr>"] Cons.prems by simp
  then show ?case using handle_request [OF b] b(1) by (simp add: case_prod_beta)
qed simp

text \<open>
  For requests that it knows, with payloads that do not look like requests, the server writes one packet per
  request, with the serial numbers that follow its counter, and the client's reading loop routes these packets
  in this order.
\<close>
theorem mock_serves:
  assumes "\<forall>q \<in> set qs. (\<exists>buf. canned (Fail m) (Program (fst q)) (Procedure (fst q)) = Some buf) \<and> quiet (Fail m) (snd q)"
  shows "listen (List.map B (concat (fst (mock_handle (concat (List.map (\<lambda>q. pipe_reads (frame q)) qs)) m)))) =
      (answers (Fail m) (mock_serial m) qs, Returned) \<and>
    List.map (Serial \<circ> fst) (answers (Fail m) (mock_serial m) qs) = List.map (\<lambda>i. mock_serial m + 1 + of_nat i) [0..<length qs]"
proof -
  have small: "small (reply_packet buf n)" if "canned fail prog proc = Some buf" for fail prog proc buf n
    using canned_well_formed [OF canned_in [OF that]] by (simp add: small_def reply_packet_def well_formed_def)
  have "\<forall>p \<in> set (answers (Fail m) n qs). small p" for n
    using assms by (induction qs arbitrary: n) (auto intro: small)
  from listen_frames [OF this, of _ "[]"] show ?thesis
    using handle_requests [OF assms] by (simp add: answers_serials listen_Nil)
qed

definition auth_request :: "Header \<times> byte list" where
  "auth_request =
     (\<lparr>Program = 0x20008086, Version = 1, Procedure = 66, Type = CallType, Serial = 1, Status = StatusOK\<rparr>, [])"

definition lookup_request :: "Header \<times> byte list" where
  "lookup_request =
     (\<lparr>Program = 0x20008086, Version = 1, Procedure = 23, Type = CallType, Serial = 2, Status = StatusOK\<rparr>,
      [0, 0, 0, 4, 0x74, 0x65, 0x73, 0x74])"

theorem mock_serves_witness:
  "listen (List.map B (concat (fst (mock_handle (concat (List.map (\<lambda>q. pipe_reads (frame q)) [auth_request, lookup_request]))
      \<lparr>Fail = False, mock_serial = 0, mock_disconnected = 0\<rparr>)))) =
    ([reply_packet testAuthReply 1, reply_packet testDomainResponse 2], Returned)"
proof -
  have "canned False 0x20008086 66 = Some testAuthReply" "canned False 0x20008086 23 = Some testDomainResponse"
    by (simp_all add: canned_def handleRemote_def)
  moreover have "quiet False []" "quiet False [0, 0, 0, 4, 0x74, 0x65, 0x73, 0x74]"
    by code_simp+
  ultimately show ?thesis
    using mock_serves [of "[auth_request, lookup_request]" "\<lparr>Fail = False, mock_serial = 0, mock_disconnected = 0\<rparr>"]
    by (simp add: auth_request_def lookup_request_def)
qed

section \<open>Where the server falls behind\<close>

text \<open>
  A request that the server does not know is not answered, and its counter is not advanced: the reply to the
  next request carries the serial number of the one before.
\<close>

lemma unknown_request_shifts:
  assumes "ignored (Fail m) (Chunk (take 28 (frame q0)))" and "quiet (Fail m) (snd q0)"
    and "canned (Fail m) (Program (fst q)) (Procedure (fst q)) = Some buf" and "quiet (Fail m) (snd q)"
    and "Serial (fst q0) = mock_serial m + 1" and "Serial (fst q) = mock_serial m + 2"
  shows "fst (mock_handle (pipe_reads (frame q0) @ pipe_reads (frame q)) m) = [frame (reply_packet buf (Serial (fst q0)))]"
proof -
  have "list_all (ignored (Fail m)) (pipe_reads (frame q0))"
    using assms(1,2) by (simp add: pipe_reads_frame quiet_def)
  from handle_ignored [OF this] handle_request [OF assms(3,4), of "[]"] assms(5) show ?thesis by simp
qed

text \<open>
  Only the end of the pipe lets the loop return: on every other error, as the one that reading from a pipe
  closed on this side gives, it goes on at once with an empty request, for ever.
\<close>

lemma zero_word: "from_be32 (replicate 4 0) = 0"
  by (simp add: numeral_eq_Suc)

lemma handle_spins: "mock_handle (replicate n PipeError) m = ([], False, m)"
  by (induction n) (simp_all add: Let_def read_buf_def canned_def zero_word)

text \<open>Three of the replies have the number of another procedure, and three of them the type of a call.\<close>

lemma replies_mislabelled:
  "handleRemote 196 = Some testCreateWithFlags" "Procedure (fst (reply_packet testCreateWithFlags n)) = 350"
  "handleRemote 258 = Some testShutdownReply" "Procedure (fst (reply_packet testShutdownReply n)) = 234"
  "handleRemote 27 = Some testRebootReply" "Procedure (fst (reply_packet testRebootReply n)) = 234"
  "Type (fst (reply_packet testSetBlockIoTuneReply n)) = CallType"
  "Type (fst (reply_packet testGetBlockIoTuneReply n)) = CallType"
  "Type (fst (reply_packet testGetAllDomainStatsReply n)) = CallType"
  by (simp_all add: handleRemote_def reply_packet_def parse_header_def piece_lengths CallType_def testDomainResponse_def testRegisterEvent_def testDeregisterEvent_def testAuthReply_def
  testConnectReply_def testDisconnectReply_def testMigrateReply_def testRunReply_def
  testRunReplyFail_def testSetSpeedReply_def testDomainsReply_def testDomainMemoryStatsReply_def
  testDomainStateReply_def testSecretsReply_def testStoragePoolLookup_def testStoragePoolRefresh_def
  testListPoolsReply_def testUndefineReply_def testDestroyReply_def testVersionReply_def
  testDefineXML_def testCreateWithFlags_def testShutdownReply_def testRebootReply_def
  testSetBlockIoTuneReply_def testGetBlockIoTuneReply_def testGetAllDomainStatsReply_def
  testRunReply_1_def testRunReply_2_def testRunReply_3_def
  testRunReplyFail_1_def testRunReplyFail_2_def testRunReplyFail_3_def
  testDomainsReply_1_def testDomainsReply_2_def testDomainsReply_3_def
  testGetBlockIoTuneReply_1_def testGetBlockIoTuneReply_2_def testGetBlockIoTuneReply_3_def testGetBlockIoTuneReply_4_def testGetBlockIoTuneReply_5_def testGetBlockIoTuneReply_6_def testGetBlockIoTuneReply_7_def testGetBlockIoTuneReply_8_def testGetBlockIoTuneReply_9_def testGetBlockIoTuneReply_10_def testGetBlockIoTuneReply_11_def testGetBlockIoTuneReply_12_def testGetBlockIoTuneReply_13_def testGetBlockIoTuneReply_14_def testGetBlockIoTuneReply_15_def testGetBlockIoTuneReply_16_def
  testGetAllDomainStatsReply_1_def testGetAllDomainStatsReply_2_def testGetAllDomainStatsReply_3_def testGetAllDomainStatsReply_4_def testGetAllDomainStatsReply_5_def)

section \<open>Dialing\<close>

text \<open>
  \<open>New\<close>, \<open>Dial\<close> and the goroutine that it starts. Channels are numbered in the order of their making;
  \<open>loops\<close> counts the goroutines whose \<open>handle\<close> has not returned. At its end each of them closes the channel
  that the server's field holds at this moment; closing a closed channel panics.
\<close>

record mock_world =
  mock :: MockLibvirt
  channels :: nat
  shut :: "nat list"
  loops :: nat
  mock_panic :: bool

definition New_mock :: mock_world where
  "New_mock =
     \<lparr>mock = \<lparr>Fail = False, mock_serial = 0, mock_disconnected = 0\<rparr>, channels = 1, shut = [0], loops = 0, mock_panic = False\<rparr>"

definition mock_Dial :: "mock_world \<Rightarrow> mock_world" where
  "mock_Dial w =
     w\<lparr>mock := (mock w)\<lparr>mock_disconnected := channels w\<rparr>, channels := channels w + 1, loops := loops w + 1\<rparr>"

definition loop_end :: "mock_world \<Rightarrow> mock_world" where
  "loop_end w =
     (let c = mock_disconnected (mock w)
      in if c \<in> set (shut w) then w\<lparr>mock_panic := True\<rparr> else w\<lparr>shut := c # shut w, loops := loops w - 1\<rparr>)"

datatype mock_action = M_Dial | M_Read pipe_read

fun mock_act :: "mock_action \<Rightarrow> mock_world \<Rightarrow> mock_world option" where
  "mock_act M_Dial w = (if mock_panic w then None else Some (mock_Dial w))"
| "mock_act (M_Read r) w =
     (if mock_panic w \<or> loops w = 0 then None
      else if r = PipeEOF then Some (loop_end w)
      else Some (w\<lparr>mock := snd (snd (mock_handle [r] (mock w)))\<rparr>))"

text \<open>One connection after the other: the next \<open>Dial\<close> comes when the goroutine of the last one has ended.\<close>

definition act_in_turn :: "mock_action \<Rightarrow> mock_world \<Rightarrow> mock_world option" where
  "act_in_turn a w = (if a = M_Dial \<and> loops w \<noteq> 0 then None else mock_act a w)"

definition mock_inv :: "mock_world \<Rightarrow> bool" where
  "mock_inv w \<longleftrightarrow> \<not> mock_panic w \<and> loops w \<le> 1 \<and> distinct (shut w) \<and> list_all (\<lambda>c. c < channels w) (shut w) \<and>
     mock_disconnected (mock w) < channels w \<and> (mock_disconnected (mock w) \<in> set (shut w) \<longleftrightarrow> loops w = 0)"

lemma mock_reply_disconnected [simp]: "mock_disconnected (snd (mock_reply buf m)) = mock_disconnected m"
  by (simp add: mock_reply_def Let_def)

lemma mock_handle_disconnected [simp]: "mock_disconnected (snd (snd (mock_handle rs m))) = mock_disconnected m"
proof (induction rs arbitrary: m)
  case (Cons r rs)
  show ?case
    by (simp add: Let_def Cons.IH case_prod_beta split: option.split prod.split)
qed simp

lemma mock_inv_Dial: "mock_inv w \<Longrightarrow> loops w = 0 \<Longrightarrow> mock_inv (mock_Dial w)"
  by (auto simp: mock_inv_def mock_Dial_def list_all_iff)

lemma mock_inv_end: "mock_inv w \<Longrightarrow> loops w \<noteq> 0 \<Longrightarrow> mock_inv (loop_end w)"
  by (auto simp: mock_inv_def loop_end_def Let_def)

lemma mock_inv_read: "mock_inv w \<Longrightarrow> mock_inv (w\<lparr>mock := snd (snd (mock_handle rs (mock w)))\<rparr>)"
  by (simp add: mock_inv_def del: mock_handle.simps)

lemma mock_inv_step:
  assumes "act_in_turn a w = Some w1" and "mock_inv w"
  shows "mock_inv w1"
proof (cases a)
  case M_Dial
  then show ?thesis using assms mock_inv_Dial by (auto simp: act_in_turn_def split: if_splits)
next
  case (M_Read r)
  have "loops w \<noteq> 0" "w1 = loop_end w \<or> w1 = w\<lparr>mock := snd (snd (mock_handle [r] (mock w)))\<rparr>"
    using assms(1) M_Read by (auto simp: act_in_turn_def simp del: mock_handle.simps split: if_splits)
  then show ?thesis using mock_inv_end mock_inv_read assms(2) by blast
qed

lemma mock_inv_New: "mock_inv New_mock"
  by (simp add: mock_inv_def New_mock_def)

interpretation mock: reachable_invariant New_mock "by_action act_in_turn" mock_inv
  by unfold_locales (auto intro: mock_inv_New mock_inv_step)

lemma mock_closed_once:
  "reachable New_mock (by_action act_in_turn) w \<Longrightarrow>
    \<not> mock_panic w \<and> distinct (shut w) \<and> (mock_disconnected (mock w) \<in> set (shut w) \<longleftrightarrow> loops w = 0)"
  using mock.always [of w] by (simp add: mock_inv_def)

text \<open>
  A second \<open>Dial\<close> while the first goroutine still runs: the end of the first closes the channel of the
  second, whose end panics.
\<close>

lemma redial_panics:
  "\<exists>w. run_steps mock_act [M_Dial, M_Dial, M_Read PipeEOF, M_Read PipeEOF] New_mock = Some w \<and> mock_panic w"
  by (simp add: New_mock_def mock_Dial_def loop_end_def)

end
