(* ===== verification/Spec2Isabelle.thy ===== *)
theory Spec2Isabelle
  imports Xdr_Properties Socket_Properties Protocol_Properties Libvirt_Lifecycle Libvirt_Events Connect_URI
    Protocol_Calls_Domain Protocol_Calls_Storage Protocol_Calls_Connect Protocol_Events Lvgen_Main Const_Names Test_Server
begin

text \<open>
  A model of go-libvirt, the Go client of the libvirt RPC protocol, with the theorems that make it
  correct and those that show where it is not.

  \<^bold>\<open>The program.\<close> A client (\<open>src/libvirt.go\<close>) holds a socket (\<open>src/socket/socket.go\<close>) which a dialer
  (\<open>src/socket/dialers\<close>, chosen by a URI in \<open>src/connect_uri.go\<close>) connects to the server. A call
  (\<open>src/remote_protocol.gen.go\<close>, \<open>src/qemu_protocol.gen.go\<close>) encodes its arguments as XDR
  (\<open>src/internal/go-xdr/xdr2\<close>), sends one packet and waits on a channel that it has registered under the
  packet's serial number (\<open>src/rpc.go\<close>). One goroutine per connection reads packets and hands them to
  \<open>Route\<close>, which passes responses to the waiting calls and events to the unbounded queues of the
  subscriptions (\<open>src/internal/event/stream.go\<close>); another one waits for the end of the connection and
  cleans up.

  \<^bold>\<open>Foundations.\<close> \<open>Prelude\<close> has Go's machine integers as words, byte strings, the outcome of a call (a
  value, an error or a panic: \<open>res\<close>) and the counting monad of the XDR routines (\<open>io_bind\<close>); \<open>Go_Strings\<close>
  the functions of \<open>strings\<close> and \<open>strconv\<close> that the program uses; \<open>Go_Errors\<close> the errors of all
  components as one datatype, with \<open>errors.As\<close>, \<open>Unwrap\<close> and the texts; \<open>Go_Reflect\<close> the types and values
  that reflection sees (\<open>ty\<close>, \<open>val\<close>, the typing relation \<open>wt\<close>).

  \<^bold>\<open>XDR.\<close> \<open>Xdr_Encode\<close> and \<open>Xdr_Decode\<close> translate \<open>encode.go\<close> and \<open>decode.go\<close>, method by method, over a
  writer that may fail and a byte reader. \<open>Xdr_Codec\<close> states what a codec owes as the locale \<open>xdr_codec\<close>,
  interpreted for the primitive routines; \<open>Xdr_Roundtrip\<close> lifts this to the reflective routines for the
  canonical values (\<open>canon\<close>); \<open>Xdr_Laws\<close> proves the laws that hold of every run (bytes counted, types
  kept, locality), each by one pass over the mutual recursion; \<open>Xdr_Properties\<close> has the statements:
  round trip, type soundness, truncation, and the behaviour on every opaque size.

  \<^bold>\<open>Socket.\<close> \<open>Socket_Packet\<close> models header, reading loop (\<open>listen\<close>, over a script of bytes and read
  errors), \<open>SendPacket\<close> and \<open>SendStream\<close>; \<open>Socket_Properties\<close> relates the two directions and finds what
  crashes or misleads the loop. \<open>Socket_Lifecycle\<close> models \<open>Connect\<close>, \<open>Disconnect\<close> and the end of the
  reading goroutine as a step relation with an invariant.

  \<^bold>\<open>RPC.\<close> \<open>Rpc_Callbacks\<close> interleaves requests, the reading goroutine inside \<open>callback\<close> and the clean-up
  over the table of channels (the locale \<open>registry\<close> states what a table owes); \<open>Rpc_Request\<close> gives the
  same requests as the calling goroutine sees them, with the responses as a script; \<open>Rpc_Typed\<close> has the
  union of typed parameters with its custom decoder; \<open>Rpc_Events\<close> has \<open>Route\<close>, \<open>eventDecoder\<close> and the
  table of event streams; \<open>Event_Stream\<close> the queue itself (locale \<open>fifo\<close>). \<open>Rpc_Properties\<close> is about
  errors and streams.

  \<^bold>\<open>Calls.\<close> \<open>Protocol_Types\<close> and the theories \<open>Protocol_Types_Common\<close>, \<open>_Domain\<close>, \<open>_Storage\<close>, \<open>_Connect\<close>,
  \<open>_Events\<close> have all generated Go types as values of \<open>ty\<close>; \<open>Protocol_Calls\<close> has the generated template
  (\<open>call\<close>), and with \<open>Protocol_Calls_Domain\<close>, \<open>_Storage\<close>, \<open>_Connect\<close> all its instances;
  \<open>Protocol_Properties\<close> shows that a call carries its arguments and results faithfully.
  \<open>Protocol_Constants\<close> has the tables of \<open>src/internal/constants\<close>, and \<open>Protocol_Events\<close> compares them with the
  generator's names and with the events that \<open>Route\<close> knows.

  \<^bold>\<open>Constants.\<close> \<open>Const_Stringer\<close> has the shape of the \<open>String\<close> methods that the tool stringer prints, with
  what makes such a method right; \<open>Const_Enums_1\<close> to \<open>Const_Enums_5\<close> have the enumerations of \<open>const.gen.go\<close>
  with their methods of \<open>const_strings.gen.go\<close>, and \<open>Const_Params\<close> the remaining constants; \<open>Const_Names\<close>
  draws the conclusions.

  \<^bold>\<open>Generator.\<close> The tool under \<open>src/internal/lvgen\<close> that prints the generated calls. \<open>Lvgen_Lexer\<close> is the
  lexer, a state machine over a cursor; \<open>Lvgen_Names\<close> has the transformations of names; \<open>Lvgen_Generate\<close> the
  actions that collect declarations; \<open>Lvgen_Protocol\<close> the order in which the grammar performs them, with
  their meaning; \<open>Lvgen_Link\<close> the passes after parsing. The parser is generated itself: \<open>Lvgen_Yacc\<close> has its
  packed tables and its driver from \<open>y.go\<close>, \<open>Lvgen_Grammar\<close> the grammar of \<open>sunrpc.y\<close> with executable
  checks of the tables against it, \<open>LR_Parser\<close> the theory of table-driven parsing as locales,
  \<open>Lvgen_Driver\<close> their interpretation on the driver, and \<open>Lvgen_Parse\<close> soundness and completeness.
  \<open>Lvgen_Syntax\<close> and \<open>Lvgen_Text\<close> go from the tokens and from the text of a protocol file to its definitions;
  \<open>Lvgen_Main\<close> is the program that reads the files and writes the results.

  \<^bold>\<open>Tests.\<close> \<open>Test_Server\<close> is the server that the client's tests talk to (\<open>src/libvirttest\<close>), with its canned
  replies; what it writes goes through the reading loop of \<open>Socket_Packet\<close>.

  \<^bold>\<open>Client.\<close> \<open>Libvirt_Client\<close> and \<open>Libvirt_Properties\<close> cover the hand-written methods;
  \<open>Libvirt_Lifecycle\<close> the life of a client, with the goroutine \<open>waitAndDisconnect\<close> of each connection, as
  steps over the socket's life; \<open>Libvirt_Events\<close> the goroutine of a subscription. \<open>Dialers\<close> and
  \<open>Connect_URI\<close> cover the dialers and their choice.

  \<^bold>\<open>Conventions.\<close> Words keep Go's widths, so that sums wrap as they do in Go. A panic is a result of its
  own and is never mixed with an error. Goroutines that share state are step relations in which one
  step is a statement, or a critical section under its mutex, or a rendezvous on a channel; the
  theorems about them hold for every interleaving; \<open>Transitions\<close> has what they share, runs, reachable
  states and the rules for invariants. The loops are recursive functions with proofs of termination, so
  there is no fuel anywhere; three loops of the generator that need not end (\<open>Run\<close> of the lexer, the driver
  of the parser and \<open>fixAbbrevs\<close>) are partial functions with \<open>None\<close> for a run that does not return. \<open>listen\<close>
  ends because every round consumes input, the mutual recursion of \<open>decode\<close> because the interfaces in the
  target run out or the type gets smaller.

  \<^bold>\<open>Parameters.\<close> \<open>time.Format\<close> and \<open>time.Parse\<close> (record \<open>time_lib\<close>), \<open>json.Unmarshal\<close>, the operating
  system (records \<open>os\<close> and \<open>gen_env\<close>), \<open>text/template\<close> and the packages \<open>tls\<close>, \<open>ssh\<close> and
  \<open>knownhosts\<close> are arguments of the definitions that use them; the connection is a script of bytes and errors.

  \<^bold>\<open>Not modelled.\<close> The templates of the generator (\<open>*.tmpl\<close>) are text, and so are the messages that programs
  print for their users. The trace output of the generated parser and its counter of errors, which nothing
  reads, are left out. \<open>Generate\<close> runs the lexer beside the parser; here the lexer has ended before the parser
  begins, which makes a difference only when the parser gives up early and leaves the lexer waiting. The
  functions without a name in \<open>const_strings.gen.go\<close> only let the compiler check the values of constants. Real time appears only as a
  choice: a timeout may strike in any state in which the code waits with one. Unicode beyond ASCII in
  \<open>strings.ToLower\<close> and the quoting of unusual characters in error texts are left out. The files \<open>doc.go\<close> hold
  comments.
\<close>

end
